(* ===== verification/Prelude.thy ===== *)
theory Prelude
  imports Main "HOL-Library.Word"
begin

text \<open>
  Shared vocabulary of the development: the machine integers of the C sources, the status codes
  of \<^verbatim>\<open>include/librdp/error.h\<close>, error propagation, and the byte-order helpers that the stream
  reader, the buffer writer and every packet format use.

  Conventions. \<^verbatim>\<open>uint8_t\<close>, \<^verbatim>\<open>uint16_t\<close>, \<^verbatim>\<open>uint32_t\<close> are words of that width. \<^verbatim>\<open>size_t\<close> is a
  natural number, with the bound \<open>SIZE_MAX\<close> of an LP64 target written out wherever the code
  compares against it. A region \<^verbatim>\<open>(pointer, length)\<close> of input bytes is a list of bytes, so
  that the length is the length of the list. Pointer arguments are references to objects; the
  \<^verbatim>\<open>NULL\<close> tests of the sources are not modelled.
\<close>

unbundle bit_operations_syntax

section \<open>Machine integers and status codes\<close>

type_synonym u8 = "8 word"
type_synonym u16 = "16 word"
type_synonym u32 = "32 word"
type_synonym u64 = "64 word"

definition SIZE_MAX :: nat where
  "SIZE_MAX = 2 ^ 64 - 1"

datatype librdp_status =
    LIBRDP_STATUS_OK
  | LIBRDP_STATUS_INVALID_ARGUMENT
  | LIBRDP_STATUS_NO_MEMORY
  | LIBRDP_STATUS_IO_ERROR
  | LIBRDP_STATUS_PROTOCOL_ERROR
  | LIBRDP_STATUS_UNSUPPORTED
  | LIBRDP_STATUS_TIMEOUT
  | LIBRDP_STATUS_CLOSED
  | LIBRDP_STATUS_AGAIN
  | LIBRDP_STATUS_STATE
  | LIBRDP_STATUS_TLS_CERTIFICATE_REJECTED
  | LIBRDP_STATUS_TLS_HOSTNAME_MISMATCH
  | LIBRDP_STATUS_TLS_HANDSHAKE_FAILED
  | LIBRDP_STATUS_SECURITY_DOWNGRADE
  | LIBRDP_STATUS_LIMIT_EXCEEDED
  | LIBRDP_STATUS_CANCELLED
  | LIBRDP_STATUS_AUTHENTICATION_FAILED
  | LIBRDP_STATUS_CREDENTIALS_EXPIRED
  | LIBRDP_STATUS_ACCOUNT_LOCKED

text \<open>A fallible computation returns its error status on the left.\<close>

type_synonym 'a result = "librdp_status + 'a"

abbreviation protocol_error :: "'a result" where
  "protocol_error \<equiv> Inl LIBRDP_STATUS_PROTOCOL_ERROR"

abbreviation invalid_argument :: "'a result" where
  "invalid_argument \<equiv> Inl LIBRDP_STATUS_INVALID_ARGUMENT"

section \<open>Error propagation\<close>

text \<open>
  \<open>ebind\<close> is \<^verbatim>\<open>status = f(..); if (status != OK) return status;\<close> and \<open>pbind\<close> is
  \<^verbatim>\<open>if (f(..) != OK) return LIBRDP_STATUS_PROTOCOL_ERROR;\<close>.
\<close>

definition ebind :: "'a result \<Rightarrow> ('a \<Rightarrow> 'b result) \<Rightarrow> 'b result" where
  "ebind m f = (case m of Inl e \<Rightarrow> Inl e | Inr x \<Rightarrow> f x)"

definition pbind :: "'a result \<Rightarrow> ('a \<Rightarrow> 'b result) \<Rightarrow> 'b result" where
  "pbind m f = (case m of Inl e \<Rightarrow> protocol_error | Inr x \<Rightarrow> f x)"

lemma ebind_simps [simp]:
  "ebind (Inl e) f = Inl e"
  "ebind (Inr x) f = f x"
  by (simp_all add: ebind_def)

lemma pbind_simps [simp]:
  "pbind (Inl e) f = protocol_error"
  "pbind (Inr x) f = f x"
  by (simp_all add: pbind_def)

lemma ebind_eq_Inr: "ebind m f = Inr y \<longleftrightarrow> (\<exists>x. m = Inr x \<and> f x = Inr y)"
  by (cases m) auto

lemma pbind_eq_Inr: "pbind m f = Inr y \<longleftrightarrow> (\<exists>x. m = Inr x \<and> f x = Inr y)"
  by (cases m) auto

lemma ebind_eq_Inl: "ebind m f = Inl e \<longleftrightarrow> m = Inl e \<or> (\<exists>x. m = Inr x \<and> f x = Inl e)"
  by (cases m) auto

text \<open>The collection that turns "the parser accepted" into facts about its input.\<close>

named_theorems accepts

declare ebind_eq_Inr [accepts] pbind_eq_Inr [accepts]

lemma if_Inl_eq_Inr [accepts]: "(if c then Inl e else m) = Inr y \<longleftrightarrow> \<not> c \<and> m = Inr y"
  by simp

section \<open>Bytes and words\<close>

definition le16 :: "u8 \<Rightarrow> u8 \<Rightarrow> u16" where
  "le16 a b = ucast a OR push_bit 8 (ucast b)"

definition be16 :: "u8 \<Rightarrow> u8 \<Rightarrow> u16" where
  "be16 a b = push_bit 8 (ucast a) OR ucast b"

definition le32 :: "u8 \<Rightarrow> u8 \<Rightarrow> u8 \<Rightarrow> u8 \<Rightarrow> u32" where
  "le32 a b c d = ucast a OR push_bit 8 (ucast b) OR push_bit 16 (ucast c) OR push_bit 24 (ucast d)"

definition be32 :: "u8 \<Rightarrow> u8 \<Rightarrow> u8 \<Rightarrow> u8 \<Rightarrow> u32" where
  "be32 a b c d = push_bit 24 (ucast a) OR push_bit 16 (ucast b) OR push_bit 8 (ucast c) OR ucast d"

definition u16_le_bytes :: "u16 \<Rightarrow> u8 list" where
  "u16_le_bytes v = [ucast (v AND 0xff), ucast (drop_bit 8 v AND 0xff)]"

definition u16_be_bytes :: "u16 \<Rightarrow> u8 list" where
  "u16_be_bytes v = [ucast (drop_bit 8 v AND 0xff), ucast (v AND 0xff)]"

definition u32_le_bytes :: "u32 \<Rightarrow> u8 list" where
  "u32_le_bytes v = [ucast (v AND 0xff), ucast (drop_bit 8 v AND 0xff),
     ucast (drop_bit 16 v AND 0xff), ucast (drop_bit 24 v AND 0xff)]"

definition u32_be_bytes :: "u32 \<Rightarrow> u8 list" where
  "u32_be_bytes v = [ucast (drop_bit 24 v AND 0xff), ucast (drop_bit 16 v AND 0xff),
     ucast (drop_bit 8 v AND 0xff), ucast (v AND 0xff)]"

lemma and_0xff_eq: "(v :: 'a::len word) AND 0xff = take_bit 8 v"
  by (simp add: take_bit_eq_mask mask_eq_exp_minus_1)

lemma bit_u8_high: "8 \<le> n \<Longrightarrow> \<not> bit (w :: u8) n"
  by (auto dest: bit_imp_le_length)

text \<open>Comparing two 32-bit words byte by byte.\<close>

lemma word32_byte_eqI:
  assumes "\<And>n. n < 8 \<Longrightarrow> bit (v :: u32) n = bit w n"
    and "\<And>n. n < 8 \<Longrightarrow> bit v (8 + n) = bit w (8 + n)"
    and "\<And>n. n < 8 \<Longrightarrow> bit v (16 + n) = bit w (16 + n)"
    and "\<And>n. n < 8 \<Longrightarrow> bit v (24 + n) = bit w (24 + n)"
  shows "v = w"
proof (rule bit_word_eqI)
  fix n assume "n < LENGTH(32)"
  then consider "n < 8" | "8 \<le> n" "n - 8 < 8" | "16 \<le> n" "n - 16 < 8" | "24 \<le> n" "n - 24 < 8"
    by fastforce
  then show "bit v n = bit w n"
    using assms(1) [of n] assms(2) [of "n - 8"] assms(3) [of "n - 16"] assms(4) [of "n - 24"]
    by cases auto
qed

lemma unat_of_nat_u8: "n < 256 \<Longrightarrow> unat (of_nat n :: u8) = n"
  by (simp add: unat_of_nat take_bit_eq_mod)

lemma unat_of_nat_u16: "n < 65536 \<Longrightarrow> unat (of_nat n :: u16) = n"
  by (simp add: unat_of_nat take_bit_eq_mod)

lemma unat_of_nat_u32: "n < 4294967296 \<Longrightarrow> unat (of_nat n :: u32) = n"
  by (simp add: unat_of_nat take_bit_eq_mod)

lemma word_unat_eqI: "unat a = unat b \<Longrightarrow> a = b"
  by (rule unsigned_word_eqI)

lemma ucast_ucast_small:
  "unat v < 2 ^ LENGTH('b) \<Longrightarrow> (ucast (ucast v :: 'b::len word) :: 'a::len word) = v"
  by (rule word_unat_eqI)
    (simp add: unsigned_ucast_eq unsigned_take_bit_eq take_bit_nat_eq_self)

lemma unat_bounds:
  "unat (a :: u8) < 256" "unat (b :: u16) < 65536" "unat (c :: u32) < 4294967296"
  using unsigned_less [of a] unsigned_less [of b] unsigned_less [of c] by simp_all

lemma unat_widen: "unat (ucast (v :: u16) :: u32) = unat v"
  using unat_bounds(2) [of v] by (simp add: unsigned_ucast_eq take_bit_nat_eq_self)

lemma length_word_bytes [simp]:
  "length (u16_le_bytes v) = 2" "length (u16_be_bytes v) = 2"
  "length (u32_le_bytes w) = 4" "length (u32_be_bytes w) = 4"
  by (simp_all add: u16_le_bytes_def u16_be_bytes_def u32_le_bytes_def u32_be_bytes_def)

lemmas word_bytes_defs =
  u16_le_bytes_def u16_be_bytes_def u32_le_bytes_def u32_be_bytes_def

lemma le16_u16_le_bytes [simp]: "le16 (u16_le_bytes v ! 0) (u16_le_bytes v ! Suc 0) = v"
  unfolding le16_def u16_le_bytes_def and_0xff_eq
  by (rule bit_word_eqI) (auto simp: bit_simps)

lemma be16_u16_be_bytes [simp]: "be16 (u16_be_bytes v ! 0) (u16_be_bytes v ! Suc 0) = v"
  unfolding be16_def u16_be_bytes_def and_0xff_eq
  by (rule bit_word_eqI) (auto simp: bit_simps)

lemma le32_u32_le_bytes [simp]:
  "le32 (u32_le_bytes v ! 0) (u32_le_bytes v ! Suc 0) (u32_le_bytes v ! 2) (u32_le_bytes v ! 3) = v"
  unfolding le32_def u32_le_bytes_def and_0xff_eq
  by (rule word32_byte_eqI; auto simp: bit_simps)

lemma be32_u32_be_bytes [simp]:
  "be32 (u32_be_bytes v ! 0) (u32_be_bytes v ! Suc 0) (u32_be_bytes v ! 2) (u32_be_bytes v ! 3) = v"
  unfolding be32_def u32_be_bytes_def and_0xff_eq
  by (rule word32_byte_eqI; auto simp: bit_simps)

lemma u16_le_bytes_le16 [simp]: "u16_le_bytes (le16 a b) = [a, b]"
  unfolding le16_def u16_le_bytes_def and_0xff_eq
  by (auto intro!: bit_word_eqI simp: bit_simps bit_u8_high)

lemma u16_be_bytes_be16 [simp]: "u16_be_bytes (be16 a b) = [a, b]"
  unfolding be16_def u16_be_bytes_def and_0xff_eq
  by (auto intro!: bit_word_eqI simp: bit_simps bit_u8_high)

lemma u32_le_bytes_le32 [simp]: "u32_le_bytes (le32 a b c d) = [a, b, c, d]"
  unfolding le32_def u32_le_bytes_def and_0xff_eq
  by (auto intro!: bit_word_eqI simp: bit_simps bit_u8_high)

lemma u32_be_bytes_be32 [simp]: "u32_be_bytes (be32 a b c d) = [a, b, c, d]"
  unfolding be32_def u32_be_bytes_def and_0xff_eq
  by (auto intro!: bit_word_eqI simp: bit_simps bit_u8_high)

text \<open>The numbers that byte sequences stand for.\<close>

lemma or_push_bit_nat: "(a :: nat) < 2 ^ n \<Longrightarrow> a OR push_bit n b = a + b * 2 ^ n"
proof -
  assume a: "a < 2 ^ n"
  have "\<not> bit a k" if "n \<le> k" for k
  proof -
    have "a < 2 ^ k" using a that by (meson less_le_trans one_le_numeral power_increasing)
    then show ?thesis by (simp add: bit_iff_odd)
  qed
  then have "a AND push_bit n b = 0"
    by (intro bit_eqI) (auto simp: bit_and_iff bit_push_bit_iff_nat)
  then have "a OR push_bit n b = a + push_bit n b" by (simp add: disjunctive_add_eq_or)
  then show ?thesis by (simp add: push_bit_eq_mult)
qed

lemma unat_push_byte:
  "k + 8 \<le> LENGTH('a) \<Longrightarrow> unat (push_bit k (ucast (a :: u8)) :: 'a::len word) = push_bit k (unat a)"
proof -
  assume k: "k + 8 \<le> LENGTH('a)"
  have "unat a * 2 ^ k < 2 ^ 8 * 2 ^ k" using unat_bounds(1) [of a] by simp
  also have "\<dots> \<le> 2 ^ LENGTH('a)"
    using k by (metis add.commute one_le_numeral power_add power_increasing)
  finally have 1: "push_bit k (unat a) < 2 ^ LENGTH('a)" by (simp only: push_bit_eq_mult)
  have "(2::nat) ^ 8 \<le> 2 ^ LENGTH('a)" using k by (intro power_increasing) simp_all
  then have "unat a < 2 ^ LENGTH('a)" using unat_bounds(1) [of a] by simp
  then show ?thesis
    using 1 by (simp only: unsigned_push_bit_eq unsigned_ucast_eq take_bit_nat_eq_self)
qed

lemma unat_le16: "unat (le16 a b) = unat a + 256 * unat b"
  using unat_bounds(1) [of a] unat_bounds(1) [of b] or_push_bit_nat [of "unat a" 8 "unat b"]
    unat_push_byte [of 0 a, where 'a = 16] unat_push_byte [of 8 b, where 'a = 16]
  by (simp add: le16_def unsigned_or_eq)

lemma be16_le16: "be16 a b = le16 b a"
  by (simp add: be16_def le16_def or.commute)

lemma unat_be16: "unat (be16 a b) = 256 * unat a + unat b"
  by (simp add: be16_le16 unat_le16)

lemma unat_le32:
  "unat (le32 a b c d) = unat a + 256 * (unat b + 256 * (unat c + 256 * unat d))"
proof -
  note bounds = unat_bounds(1) [of a] unat_bounds(1) [of b] unat_bounds(1) [of c] unat_bounds(1) [of d]
  have "unat (le32 a b c d) =
      (unat a OR push_bit 8 (unat b)) OR push_bit 16 (unat c) OR push_bit 24 (unat d)"
    using bounds
      unat_push_byte [of 0 a, where 'a = 32] unat_push_byte [of 8 b, where 'a = 32]
      unat_push_byte [of 16 c, where 'a = 32] unat_push_byte [of 24 d, where 'a = 32]
    by (simp add: le32_def unsigned_or_eq or.assoc)
  also have "\<dots> = unat a + 256 * (unat b + 256 * (unat c + 256 * unat d))"
    using bounds or_push_bit_nat [of "unat a" 8 "unat b"]
      or_push_bit_nat [of "unat a + unat b * 256" 16 "unat c"]
      or_push_bit_nat [of "unat a + unat b * 256 + unat c * 65536" 24 "unat d"]
    by (simp add: or.assoc [symmetric])
  finally show ?thesis .
qed

lemma be32_le32: "be32 a b c d = le32 d c b a"
  by (simp add: be32_def le32_def ac_simps)

lemma unat_be32:
  "unat (be32 a b c d) = ((unat a * 256 + unat b) * 256 + unat c) * 256 + unat d"
  by (simp add: be32_le32 unat_le32)

section \<open>Single bits and masks\<close>

named_theorems mask_simps

lemma and_0x80_u8 [mask_simps]: "(w :: u8) AND 0x80 = 0 \<longleftrightarrow> \<not> bit w 7"
  using and_exp_eq_0_iff_not_bit [of w 7] by simp

lemma bit_0x80_u8 [mask_simps]: "bit (0x80 :: u8) n \<longleftrightarrow> n = 7"
  using bit_exp_iff [where 'a = "8 word", of 7 n] by auto

lemma bit_0x8000_u16 [mask_simps]: "bit (0x8000 :: u16) n \<longleftrightarrow> n = 15"
  using bit_exp_iff [where 'a = "16 word", of 15 n] by auto

lemma bit_numeral_int [mask_simps]:
  "bit (0x80 :: int) n \<longleftrightarrow> n = 7" "bit (0x8000 :: int) n \<longleftrightarrow> n = 15"
  using bit_exp_iff [where 'a = int, of 7 n] bit_exp_iff [where 'a = int, of 15 n] by auto

lemma and_mask_numerals [mask_simps]:
  "(w :: 'a::len word) AND 0x01 = take_bit 1 w"
  "w AND 0x03 = take_bit 2 w"
  "w AND 0x0f = take_bit 4 w"
  "w AND 0x1f = take_bit 5 w"
  "w AND 0x3f = take_bit 6 w"
  "w AND 0x7f = take_bit 7 w"
  "w AND 0xff = take_bit 8 w"
  by (simp_all add: take_bit_eq_mask mask_eq_exp_minus_1)

lemma bit_of_nat_high: "n < 2 ^ k \<Longrightarrow> k \<le> j \<Longrightarrow> \<not> bit (of_nat n :: 'a::len word) j"
proof -
  assume n: "n < 2 ^ k" and k: "k \<le> j"
  have "n < 2 ^ j" using n k by (meson less_le_trans one_le_numeral power_increasing)
  then have "\<not> bit n j" by (simp add: bit_iff_odd)
  then show ?thesis by (simp add: bit_of_nat_iff)
qed

lemma bit_high_of_less: "unat w < 2 ^ k \<Longrightarrow> k \<le> j \<Longrightarrow> \<not> bit (w :: 'a::len word) j"
  using bit_of_nat_high [of "unat w" k j, where 'a = 'a] by simp

end
