(* ===== verification/Rdp_Stream.thy ===== *)
theory Rdp_Stream
  imports Prelude
begin

text \<open>
  The bounds-checked reader of \<^verbatim>\<open>src/src/common/stream.c\<close>: a cursor over a borrowed byte region,
  and its read operations. A failed read returns the status and no stream: in the sources
  the primitive leaves the cursor where it was, and every parser that composes reads works on a
  cursor of its own and abandons it on the first error.

  The second part is the normal form \<open>strm pre r\<close> of a stream: \<open>pre\<close> is consumed and \<open>r\<close> is still
  to be read. Every stream that the operations produce has this form, and the lemmas of the
  collections \<open>stream_rules\<close> and \<open>accepts\<close> evaluate and invert reads on it.
\<close>

section \<open>The stream and its operations\<close>

record rdp_stream =
  st_data :: "u8 list"
  st_length :: nat
  st_position :: nat

type_synonym 'a reader = "rdp_stream \<Rightarrow> ('a \<times> rdp_stream) result"

definition rdp_stream_init :: "u8 list \<Rightarrow> rdp_stream" where
  "rdp_stream_init data = \<lparr>st_data = data, st_length = length data, st_position = 0\<rparr>"

definition rdp_stream_remaining :: "rdp_stream \<Rightarrow> nat" where
  "rdp_stream_remaining stream =
     (if st_position stream > st_length stream then 0
      else st_length stream - st_position stream)"

definition rdp_stream_read_u8 :: "u8 reader" where
  "rdp_stream_read_u8 stream =
     (if rdp_stream_remaining stream < 1 then protocol_error
      else Inr (st_data stream ! st_position stream,
                stream\<lparr>st_position := st_position stream + 1\<rparr>))"

definition rdp_stream_read_bytes :: "nat \<Rightarrow> u8 list reader" where
  "rdp_stream_read_bytes n stream =
     (if rdp_stream_remaining stream < n then protocol_error
      else Inr (take n (drop (st_position stream) (st_data stream)),
                stream\<lparr>st_position := st_position stream + n\<rparr>))"

definition rdp_stream_skip :: "nat \<Rightarrow> unit reader" where
  "rdp_stream_skip n stream =
     (if rdp_stream_remaining stream < n then protocol_error
      else Inr ((), stream\<lparr>st_position := st_position stream + n\<rparr>))"

definition rdp_stream_read_u16_le :: "u16 reader" where
  "rdp_stream_read_u16_le stream =
     pbind (rdp_stream_read_bytes 2 stream) (\<lambda>(p, stream). Inr (le16 (p ! 0) (p ! 1), stream))"

definition rdp_stream_read_u16_be :: "u16 reader" where
  "rdp_stream_read_u16_be stream =
     pbind (rdp_stream_read_bytes 2 stream) (\<lambda>(p, stream). Inr (be16 (p ! 0) (p ! 1), stream))"

definition rdp_stream_read_u32_le :: "u32 reader" where
  "rdp_stream_read_u32_le stream =
     pbind (rdp_stream_read_bytes 4 stream)
       (\<lambda>(p, stream). Inr (le32 (p ! 0) (p ! 1) (p ! 2) (p ! 3), stream))"

definition rdp_stream_read_u32_be :: "u32 reader" where
  "rdp_stream_read_u32_be stream =
     pbind (rdp_stream_read_bytes 4 stream)
       (\<lambda>(p, stream). Inr (be32 (p ! 0) (p ! 1) (p ! 2) (p ! 3), stream))"

section \<open>Well-formed streams\<close>

definition stream_ok :: "rdp_stream \<Rightarrow> bool" where
  "stream_ok s \<longleftrightarrow> st_length s = length (st_data s) \<and> st_position s \<le> st_length s"

definition strm :: "u8 list \<Rightarrow> u8 list \<Rightarrow> rdp_stream" where
  "strm pre r = \<lparr>st_data = pre @ r, st_length = length pre + length r, st_position = length pre\<rparr>"

lemma stream_ok_strm [simp]: "stream_ok (strm pre r)"
  by (simp add: stream_ok_def strm_def)

lemma stream_ok_cases:
  assumes "stream_ok s"
  obtains pre r where "s = strm pre r"
proof
  have "s = \<lparr>st_data = st_data s, st_length = st_length s, st_position = st_position s\<rparr>" by simp
  with assms show "s = strm (take (st_position s) (st_data s)) (drop (st_position s) (st_data s))"
    by (simp add: strm_def stream_ok_def)
qed

named_theorems stream_rules

lemma strm_inject [simp]: "strm pre r = strm pre' r' \<longleftrightarrow> pre = pre' \<and> r = r'"
  by (auto simp: strm_def)

lemma rdp_stream_init_strm [simp]: "rdp_stream_init data = strm [] data"
  by (simp add: rdp_stream_init_def strm_def)

lemma rdp_stream_remaining_strm [simp]: "rdp_stream_remaining (strm pre r) = length r"
  by (simp add: rdp_stream_remaining_def strm_def)

lemma st_position_strm [simp]: "st_position (strm pre r) = length pre"
  by (simp add: strm_def)

lemma read_u8_strm [stream_rules, accepts]:
  "rdp_stream_read_u8 (strm pre (x # r)) = Inr (x, strm (pre @ [x]) r)"
  "rdp_stream_read_u8 (strm pre []) = protocol_error"
  "rdp_stream_read_u8 (strm pre bs) = Inr (v, s) \<longleftrightarrow> (\<exists>r. bs = v # r \<and> s = strm (pre @ [v]) r)"
  by (auto simp: rdp_stream_read_u8_def rdp_stream_remaining_def strm_def nth_append neq_Nil_conv)

lemma read_bytes_strm [stream_rules, accepts]:
  "length xs = n \<Longrightarrow> rdp_stream_read_bytes n (strm pre (xs @ r)) = Inr (xs, strm (pre @ xs) r)"
  "length bs < n \<Longrightarrow> rdp_stream_read_bytes n (strm pre bs) = protocol_error"
  "length bs = n \<Longrightarrow> rdp_stream_read_bytes n (strm pre bs) = Inr (bs, strm (pre @ bs) [])"
  "rdp_stream_read_bytes n (strm pre bs) = Inr (xs, s) \<longleftrightarrow>
     (\<exists>r. bs = xs @ r \<and> length xs = n \<and> s = strm (pre @ xs) r)"
proof -
  show "length xs = n \<Longrightarrow> rdp_stream_read_bytes n (strm pre (xs @ r)) = Inr (xs, strm (pre @ xs) r)"
    and "length bs < n \<Longrightarrow> rdp_stream_read_bytes n (strm pre bs) = protocol_error"
    and "length bs = n \<Longrightarrow> rdp_stream_read_bytes n (strm pre bs) = Inr (bs, strm (pre @ bs) [])"
    by (auto simp: rdp_stream_read_bytes_def rdp_stream_remaining_def strm_def)
  show "rdp_stream_read_bytes n (strm pre bs) = Inr (xs, s) \<longleftrightarrow>
     (\<exists>r. bs = xs @ r \<and> length xs = n \<and> s = strm (pre @ xs) r)"
  proof (cases "n \<le> length bs")
    case True
    then have "rdp_stream_read_bytes n (strm pre bs) = Inr (take n bs, strm (pre @ take n bs) (drop n bs))"
      by (simp add: rdp_stream_read_bytes_def rdp_stream_remaining_def strm_def)
    with True show ?thesis
      by (auto intro!: exI [of _ "drop n bs"])
  next
    case False
    then show ?thesis
      by (auto simp: rdp_stream_read_bytes_def rdp_stream_remaining_def strm_def)
  qed
qed

lemma skip_strm [stream_rules, accepts]:
  "length xs = n \<Longrightarrow> rdp_stream_skip n (strm pre (xs @ r)) = Inr ((), strm (pre @ xs) r)"
  "rdp_stream_skip n (strm pre bs) = Inr (u, s) \<longleftrightarrow>
     (\<exists>xs r. bs = xs @ r \<and> length xs = n \<and> s = strm (pre @ xs) r)"
proof -
  have *: "rdp_stream_skip n (strm pre bs) =
      (case rdp_stream_read_bytes n (strm pre bs) of Inl e \<Rightarrow> Inl e | Inr (_, s) \<Rightarrow> Inr ((), s))" for bs
    by (simp add: rdp_stream_skip_def rdp_stream_read_bytes_def)
  show "length xs = n \<Longrightarrow> rdp_stream_skip n (strm pre (xs @ r)) = Inr ((), strm (pre @ xs) r)"
    by (simp add: * read_bytes_strm)
  show "rdp_stream_skip n (strm pre bs) = Inr (u, s) \<longleftrightarrow>
     (\<exists>xs r. bs = xs @ r \<and> length xs = n \<and> s = strm (pre @ xs) r)"
    unfolding * by (auto simp: read_bytes_strm split: sum.splits)
qed

text \<open>
  The four word readers take a fixed number of bytes and decode them by a bijection; their
  behaviour on a stream follows once for all.
\<close>

lemma fixed_width_read:
  assumes rd: "\<And>s. rd s = pbind (rdp_stream_read_bytes n s) (\<lambda>(p, s). Inr (dec p, s))"
    and len: "\<And>v. length (enc v) = n"
    and dec_enc: "\<And>v. dec (enc v) = v"
    and enc_dec: "\<And>p. length p = n \<Longrightarrow> enc (dec p) = p"
  shows "rd (strm pre (enc v @ r)) = Inr (v, strm (pre @ enc v) r)"
    and "rd (strm pre bs) = Inr (v, s) \<longleftrightarrow> (\<exists>r. bs = enc v @ r \<and> s = strm (pre @ enc v) r)"
proof -
  show ok: "rd (strm pre (enc v @ r)) = Inr (v, strm (pre @ enc v) r)" for v r
    by (simp add: rd len dec_enc read_bytes_strm)
  show "rd (strm pre bs) = Inr (v, s) \<longleftrightarrow> (\<exists>r. bs = enc v @ r \<and> s = strm (pre @ enc v) r)"
    by (auto simp: ok) (auto simp: rd pbind_eq_Inr read_bytes_strm enc_dec)
qed

lemma length_2_conv: "length xs = 2 \<longleftrightarrow> (\<exists>a b. xs = [a, b])"
  by (auto simp: numeral_eq_Suc length_Suc_conv)

lemma length_4_conv: "length xs = 4 \<longleftrightarrow> (\<exists>a b c d. xs = [a, b, c, d])"
  by (auto simp: numeral_eq_Suc length_Suc_conv)

lemma read_u16_le_strm [stream_rules, accepts]:
  "rdp_stream_read_u16_le (strm pre (u16_le_bytes v @ r)) = Inr (v, strm (pre @ u16_le_bytes v) r)"
  "rdp_stream_read_u16_le (strm pre bs) = Inr (v, s) \<longleftrightarrow>
     (\<exists>r. bs = u16_le_bytes v @ r \<and> s = strm (pre @ u16_le_bytes v) r)"
  by (rule fixed_width_read [where dec = "\<lambda>p. le16 (p ! 0) (p ! 1)", OF rdp_stream_read_u16_le_def];
      auto simp: length_2_conv)+

lemma read_u16_le_Cons [stream_rules]:
  "rdp_stream_read_u16_le (strm pre (a # b # r)) = Inr (le16 a b, strm (pre @ [a, b]) r)"
  "rdp_stream_read_u16_le (strm pre (u16_le_bytes v)) = Inr (v, strm (pre @ u16_le_bytes v) [])"
  using read_u16_le_strm(1) [of pre _ "[]"] read_u16_le_strm(1) [of pre "le16 a b" r] by simp_all

lemma read_u16_be_strm [stream_rules, accepts]:
  "rdp_stream_read_u16_be (strm pre (u16_be_bytes v @ r)) = Inr (v, strm (pre @ u16_be_bytes v) r)"
  "rdp_stream_read_u16_be (strm pre bs) = Inr (v, s) \<longleftrightarrow>
     (\<exists>r. bs = u16_be_bytes v @ r \<and> s = strm (pre @ u16_be_bytes v) r)"
  by (rule fixed_width_read [where dec = "\<lambda>p. be16 (p ! 0) (p ! 1)", OF rdp_stream_read_u16_be_def];
      auto simp: length_2_conv)+

lemma read_u16_be_Cons [stream_rules]:
  "rdp_stream_read_u16_be (strm pre (a # b # r)) = Inr (be16 a b, strm (pre @ [a, b]) r)"
  "rdp_stream_read_u16_be (strm pre (u16_be_bytes v)) = Inr (v, strm (pre @ u16_be_bytes v) [])"
  using read_u16_be_strm(1) [of pre _ "[]"] read_u16_be_strm(1) [of pre "be16 a b" r] by simp_all

lemma read_u32_le_strm [stream_rules, accepts]:
  "rdp_stream_read_u32_le (strm pre (u32_le_bytes v @ r)) = Inr (v, strm (pre @ u32_le_bytes v) r)"
  "rdp_stream_read_u32_le (strm pre bs) = Inr (v, s) \<longleftrightarrow>
     (\<exists>r. bs = u32_le_bytes v @ r \<and> s = strm (pre @ u32_le_bytes v) r)"
  by (rule fixed_width_read [where dec = "\<lambda>p. le32 (p ! 0) (p ! 1) (p ! 2) (p ! 3)", OF rdp_stream_read_u32_le_def];
      auto simp: length_4_conv)+

lemma read_u32_le_Cons [stream_rules]:
  "rdp_stream_read_u32_le (strm pre (a # b # c # d # r)) = Inr (le32 a b c d, strm (pre @ [a, b, c, d]) r)"
  "rdp_stream_read_u32_le (strm pre (u32_le_bytes v)) = Inr (v, strm (pre @ u32_le_bytes v) [])"
  using read_u32_le_strm(1) [of pre _ "[]"] read_u32_le_strm(1) [of pre "le32 a b c d" r] by simp_all

lemma read_u32_be_strm [stream_rules, accepts]:
  "rdp_stream_read_u32_be (strm pre (u32_be_bytes v @ r)) = Inr (v, strm (pre @ u32_be_bytes v) r)"
  "rdp_stream_read_u32_be (strm pre bs) = Inr (v, s) \<longleftrightarrow>
     (\<exists>r. bs = u32_be_bytes v @ r \<and> s = strm (pre @ u32_be_bytes v) r)"
  by (rule fixed_width_read [where dec = "\<lambda>p. be32 (p ! 0) (p ! 1) (p ! 2) (p ! 3)", OF rdp_stream_read_u32_be_def];
      auto simp: length_4_conv)+

lemma read_u32_be_Cons [stream_rules]:
  "rdp_stream_read_u32_be (strm pre (a # b # c # d # r)) = Inr (be32 a b c d, strm (pre @ [a, b, c, d]) r)"
  "rdp_stream_read_u32_be (strm pre (u32_be_bytes v)) = Inr (v, strm (pre @ u32_be_bytes v) [])"
  using read_u32_be_strm(1) [of pre _ "[]"] read_u32_be_strm(1) [of pre "be32 a b c d" r] by simp_all

section \<open>Properties\<close>

text \<open>
  Word readers. A 32-bit read in either byte order fails exactly when fewer than four bytes remain;
  otherwise its value is the number that the four bytes at the cursor denote, and the cursor
  advances by four and stays within the region.
\<close>

lemma stream_word_value:
  assumes "stream_ok s"
  shows "(case rdp_stream_read_u32_le s of
      Inl e \<Rightarrow> e = LIBRDP_STATUS_PROTOCOL_ERROR \<and> rdp_stream_remaining s < 4
    | Inr (v, s') \<Rightarrow> stream_ok s' \<and> st_position s' = st_position s + 4 \<and> st_data s' = st_data s \<and>
        unat v = (\<Sum>i<4. 256 ^ i * unat (st_data s ! (st_position s + i)))) \<and>
    (case rdp_stream_read_u32_be s of
      Inl e \<Rightarrow> e = LIBRDP_STATUS_PROTOCOL_ERROR \<and> rdp_stream_remaining s < 4
    | Inr (v, s') \<Rightarrow> stream_ok s' \<and> st_position s' = st_position s + 4 \<and> st_data s' = st_data s \<and>
        unat v = (\<Sum>i<4. 256 ^ i * unat (st_data s ! (st_position s + (3 - i)))))"
proof -
  have four: "(\<Sum>i<4. f i) = f 0 + f 1 + f 2 + f 3" for f :: "nat \<Rightarrow> nat"
    by (simp add: numeral_eq_Suc)
  show ?thesis
    using assms
    by (auto simp: rdp_stream_read_u32_le_def rdp_stream_read_u32_be_def rdp_stream_read_bytes_def
        rdp_stream_remaining_def stream_ok_def unat_le32 unat_be32 four)
qed

end
