(* ===== verification/Rdp_Buffer.thy ===== *)
theory Rdp_Buffer
  imports Prelude
begin

text \<open>
  The growable byte buffer of \<^verbatim>\<open>src/src/common/buffer.c\<close>. The allocated block is a list of bytes of
  length \<open>buf_capacity\<close>, \<open>None\<close> being the \<^verbatim>\<open>NULL\<close> pointer; the used prefix of the block is the
  contents of the buffer.

  The heap is outside the buffer: \<open>mem\<close> lists the answers that the coming calls of \<^verbatim>\<open>malloc\<close> and
  \<^verbatim>\<open>realloc\<close> give, \<open>None\<close> for \<^verbatim>\<open>NULL\<close> and otherwise the indeterminate bytes of the fresh part of
  the block; past the end of the list every request succeeds. A writer is a function on
  the buffer and the heap, and returns a status besides both.

  \<open>emits w bs\<close> is the contract that the packet writers share: on success \<open>w\<close> appends exactly \<open>bs\<close>,
  it fails for lack of memory only, having appended a proper prefix, and it succeeds when the
  heap does. The contract composes along a sequence of writers (\<open>emits_run\<close>).
\<close>

section \<open>The buffer\<close>

record rdp_buffer =
  buf_data :: "u8 list option"
  buf_length :: nat
  buf_capacity :: nat

type_synonym mem = "(nat \<Rightarrow> u8) option list"
type_synonym writer = "rdp_buffer \<times> mem \<Rightarrow> librdp_status \<times> rdp_buffer \<times> mem"

fun alloc :: "mem \<Rightarrow> (nat \<Rightarrow> u8) option \<times> mem" where
  "alloc [] = (Some (\<lambda>_. 0), [])"
| "alloc (r # rs) = (r, rs)"

definition block :: "rdp_buffer \<Rightarrow> u8 list" where
  "block b = (case buf_data b of None \<Rightarrow> [] | Some d \<Rightarrow> d)"

definition contents :: "rdp_buffer \<Rightarrow> u8 list" where
  "contents b = take (buf_length b) (block b)"

definition rdp_buffer_state_valid :: "rdp_buffer \<Rightarrow> bool" where
  "rdp_buffer_state_valid b \<longleftrightarrow>
     \<not> buf_length b > buf_capacity b \<and> (buf_data b = None) = (buf_capacity b = 0)"

definition rdp_buffer_init :: rdp_buffer where
  "rdp_buffer_init = \<lparr>buf_data = None, buf_length = 0, buf_capacity = 0\<rparr>"

definition rdp_buffer_free :: "rdp_buffer \<Rightarrow> rdp_buffer" where
  "rdp_buffer_free b = b\<lparr>buf_data := None, buf_length := 0, buf_capacity := 0\<rparr>"

text \<open>
  The doubling loop of \<^verbatim>\<open>rdp_buffer_reserve\<close>. It starts at 64 or at a capacity that is not zero,
  so its first guard (which makes the function total) never holds there.
\<close>

function grow :: "nat \<Rightarrow> nat \<Rightarrow> nat option" where
  "grow nxt capacity =
     (if nxt = 0 then None
      else if nxt < capacity then
        (if nxt > SIZE_MAX div 2 then None else grow (nxt * 2) capacity)
      else Some nxt)"
  by pat_completeness auto
termination
  by (relation "measure (\<lambda>(nxt, capacity). capacity - nxt)") auto

declare grow.simps [simp del]

definition rdp_buffer_reserve :: "nat \<Rightarrow> writer" where
  "rdp_buffer_reserve capacity = (\<lambda>(b, m).
     if \<not> rdp_buffer_state_valid b then (LIBRDP_STATUS_INVALID_ARGUMENT, b, m)
     else if capacity \<le> buf_capacity b then (LIBRDP_STATUS_OK, b, m)
     else case grow (if buf_capacity b \<noteq> 0 then buf_capacity b else 64) capacity of
       None \<Rightarrow> (LIBRDP_STATUS_NO_MEMORY, b, m)
     | Some nxt \<Rightarrow>
         (case alloc m of
            (None, m) \<Rightarrow> (LIBRDP_STATUS_NO_MEMORY, b, m)
          | (Some junk, m) \<Rightarrow>
              (LIBRDP_STATUS_OK,
               b\<lparr>buf_data := Some (block b @ map junk [length (block b)..<nxt]),
                 buf_capacity := nxt\<rparr>, m)))"

text \<open>
  The source of an append: bytes outside the buffer's block, or \<open>Inside off n\<close>, the \<open>n\<close> bytes at
  offset \<open>off\<close> of the block itself. The latter is what the pointer comparison of the code detects.
\<close>

datatype source = Outside "u8 list" | Inside nat nat

fun source_len :: "source \<Rightarrow> nat" where
  "source_len (Outside bs) = length bs"
| "source_len (Inside off n) = n"

fun source_bytes :: "rdp_buffer \<Rightarrow> source \<Rightarrow> u8 list" where
  "source_bytes b (Outside bs) = bs"
| "source_bytes b (Inside off n) = take n (drop off (block b))"

fun source_in_buffer :: "rdp_buffer \<Rightarrow> source \<Rightarrow> bool" where
  "source_in_buffer b (Outside bs) = False"
| "source_in_buffer b (Inside off n) = (buf_data b \<noteq> None \<and> off < buf_capacity b)"

fun source_overruns :: "rdp_buffer \<Rightarrow> source \<Rightarrow> bool" where
  "source_overruns b (Outside bs) = False"
| "source_overruns b (Inside off n) =
     (source_in_buffer b (Inside off n) \<and> n > buf_capacity b - off)"

definition rdp_buffer_append_from :: "source \<Rightarrow> writer" where
  "rdp_buffer_append_from src = (\<lambda>(b, m).
     let n = source_len src in
     if \<not> rdp_buffer_state_valid b then (LIBRDP_STATUS_INVALID_ARGUMENT, b, m)
     else if n > SIZE_MAX - buf_length b then (LIBRDP_STATUS_NO_MEMORY, b, m)
     else if source_overruns b src then (LIBRDP_STATUS_INVALID_ARGUMENT, b, m)
     else case (if source_in_buffer b src \<and> n > 0 then alloc m else (Some (\<lambda>_. 0), m)) of
       (None, m) \<Rightarrow> (LIBRDP_STATUS_NO_MEMORY, b, m)
     | (Some _, m) \<Rightarrow>
         (case rdp_buffer_reserve (buf_length b + n) (b, m) of (status, b', m) \<Rightarrow>
            if status \<noteq> LIBRDP_STATUS_OK then (status, b', m)
            else
              (LIBRDP_STATUS_OK,
               (if n > 0 then
                  b'\<lparr>buf_data := Some (take (buf_length b') (block b') @ source_bytes b src @
                                      drop (buf_length b' + n) (block b'))\<rparr>
                else b')\<lparr>buf_length := buf_length b' + n\<rparr>, m)))"

definition rdp_buffer_append :: "u8 list \<Rightarrow> writer" where
  "rdp_buffer_append bs = rdp_buffer_append_from (Outside bs)"

definition rdp_buffer_append_u8 :: "u8 \<Rightarrow> writer" where
  "rdp_buffer_append_u8 v = rdp_buffer_append [v]"

definition rdp_buffer_append_u16_le :: "u16 \<Rightarrow> writer" where
  "rdp_buffer_append_u16_le v = rdp_buffer_append (u16_le_bytes v)"

definition rdp_buffer_append_u16_be :: "u16 \<Rightarrow> writer" where
  "rdp_buffer_append_u16_be v = rdp_buffer_append (u16_be_bytes v)"

definition rdp_buffer_append_u32_le :: "u32 \<Rightarrow> writer" where
  "rdp_buffer_append_u32_le v = rdp_buffer_append (u32_le_bytes v)"

definition rdp_buffer_append_u32_be :: "u32 \<Rightarrow> writer" where
  "rdp_buffer_append_u32_be v = rdp_buffer_append (u32_be_bytes v)"

definition rdp_buffer_consume :: "nat \<Rightarrow> rdp_buffer \<Rightarrow> librdp_status \<times> rdp_buffer" where
  "rdp_buffer_consume n b =
     (if \<not> rdp_buffer_state_valid b \<or> n > buf_length b then (LIBRDP_STATUS_INVALID_ARGUMENT, b)
      else
        (LIBRDP_STATUS_OK,
         (if n > 0 then
            b\<lparr>buf_data := Some (take (buf_length b - n) (drop n (block b)) @
                               drop (buf_length b - n) (block b))\<rparr>
          else b)\<lparr>buf_length := buf_length b - n\<rparr>))"

section \<open>Sequences of writers\<close>

text \<open>
  The shape \<^verbatim>\<open>status = w1(..); if (status == OK) status = w2(..); ...\<close> and its variant with early
  returns: the writers run in order up to the first failure.
\<close>

fun run_writers :: "writer list \<Rightarrow> writer" where
  "run_writers [] s = (LIBRDP_STATUS_OK, s)"
| "run_writers (w # ws) s =
     (case w s of (status, s') \<Rightarrow>
        if status \<noteq> LIBRDP_STATUS_OK then (status, s') else run_writers ws s')"

definition reject :: "librdp_status \<Rightarrow> writer" where
  "reject e = (\<lambda>s. (e, s))"

section \<open>The invariant\<close>

definition buf_ok :: "rdp_buffer \<Rightarrow> bool" where
  "buf_ok b \<longleftrightarrow> rdp_buffer_state_valid b \<and> length (block b) = buf_capacity b"

lemma buf_ok_init [simp]: "buf_ok rdp_buffer_init"
  by (simp add: buf_ok_def rdp_buffer_init_def rdp_buffer_state_valid_def block_def)

lemma contents_init [simp]: "contents rdp_buffer_init = []" "buf_length rdp_buffer_init = 0"
  by (simp_all add: contents_def rdp_buffer_init_def block_def)

lemma buf_ok_free [simp]: "buf_ok (rdp_buffer_free b)" "contents (rdp_buffer_free b) = []"
  by (simp_all add: buf_ok_def rdp_buffer_free_def rdp_buffer_state_valid_def block_def contents_def)

lemma buf_ok_length: "buf_ok b \<Longrightarrow> buf_length b \<le> length (block b)"
  by (simp add: buf_ok_def rdp_buffer_state_valid_def)

lemma length_contents [simp]: "buf_ok b \<Longrightarrow> length (contents b) = buf_length b"
  by (simp add: contents_def buf_ok_length)

lemma grow_ge: "grow nxt capacity = Some c \<Longrightarrow> capacity \<le> c \<and> nxt \<le> c \<and> 0 < c"
proof (induction nxt capacity rule: grow.induct)
  case (1 nxt capacity)
  then show ?case by (subst (asm) grow.simps) (auto split: if_splits)
qed

lemma grow_total: "0 < nxt \<Longrightarrow> capacity \<le> 2 ^ 63 \<Longrightarrow> \<exists>c. grow nxt capacity = Some c"
proof (induction nxt capacity rule: grow.induct)
  case (1 nxt capacity)
  then show ?case by (subst grow.simps) (auto simp: SIZE_MAX_def)
qed

lemma reserve_cases:
  assumes v: "rdp_buffer_state_valid b"
    and res: "rdp_buffer_reserve n (b, m) = (st, b', m')"
  obtains (same) "n \<le> buf_capacity b" "st = LIBRDP_STATUS_OK" "b' = b"
    | (fail) "st = LIBRDP_STATUS_NO_MEMORY" "b' = b"
    | (grown) c junk where "buf_capacity b \<le> c" "n \<le> c" "0 < c" "st = LIBRDP_STATUS_OK"
        "b' = b\<lparr>buf_data := Some (block b @ map junk [length (block b)..<c]), buf_capacity := c\<rparr>"
proof (cases "n \<le> buf_capacity b")
  case True
  with v res show ?thesis by (intro same) (simp_all add: rdp_buffer_reserve_def)
next
  case False
  let ?start = "if buf_capacity b \<noteq> 0 then buf_capacity b else 64"
  show ?thesis
  proof (cases "grow ?start n")
    case None
    with False v res show ?thesis by (intro fail) (simp_all add: rdp_buffer_reserve_def)
  next
    case (Some c)
    note g = grow_ge [OF Some]
    obtain a m2 where a: "alloc m = (a, m2)" by (cases "alloc m")
    show ?thesis
    proof (cases a)
      case None
      with a False Some v res show ?thesis by (intro fail) (simp_all add: rdp_buffer_reserve_def)
    next
      case junk: (Some junk)
      show ?thesis
        by (rule grown [of c junk])
          (use a junk False Some v res g in \<open>simp_all add: rdp_buffer_reserve_def split: if_splits\<close>)
    qed
  qed
qed

lemma reserve_spec:
  assumes ok: "buf_ok b"
    and res: "rdp_buffer_reserve n (b, m) = (st, b', m')"
  shows "buf_ok b'" and "contents b' = contents b" and "buf_length b' = buf_length b"
    and "st = LIBRDP_STATUS_OK \<Longrightarrow> n \<le> buf_capacity b' \<and> (\<exists>junk. block b' = block b @ junk)"
    and "st \<noteq> LIBRDP_STATUS_OK \<Longrightarrow> st = LIBRDP_STATUS_NO_MEMORY \<and> b' = b"
proof -
  note len = buf_ok_length [OF ok]
  have v: "rdp_buffer_state_valid b" "length (block b) = buf_capacity b"
    using ok by (simp_all add: buf_ok_def)
  note cases = reserve_cases [OF v(1) res]
  from cases v len show "buf_ok b'"
    by cases (auto simp: buf_ok_def rdp_buffer_state_valid_def block_def)
  from cases len show "contents b' = contents b"
    by cases (auto simp: contents_def block_def)
  from cases show "buf_length b' = buf_length b" by cases auto
  from cases show "st = LIBRDP_STATUS_OK \<Longrightarrow> n \<le> buf_capacity b' \<and> (\<exists>junk. block b' = block b @ junk)"
    by cases (auto simp: block_def)
  from cases show "st \<noteq> LIBRDP_STATUS_OK \<Longrightarrow> st = LIBRDP_STATUS_NO_MEMORY \<and> b' = b"
    by cases auto
qed

lemma reserve_succeeds:
  assumes "buf_ok b" and "n \<le> 2 ^ 63"
  shows "\<exists>b'. rdp_buffer_reserve n (b, []) = (LIBRDP_STATUS_OK, b', [])"
proof -
  have "0 < (if buf_capacity b \<noteq> 0 then buf_capacity b else 64)" by simp
  from grow_total [OF this assms(2)] show ?thesis
    using assms(1) by (auto simp: rdp_buffer_reserve_def buf_ok_def)
qed

section \<open>Appending\<close>

definition source_ok :: "rdp_buffer \<Rightarrow> source \<Rightarrow> bool" where
  "source_ok b src \<longleftrightarrow> length (source_bytes b src) = source_len src"

lemma source_ok_Outside [simp]: "source_ok b (Outside bs)"
  by (simp add: source_ok_def)

lemma source_ok_not_overruns: "buf_ok b \<Longrightarrow> source_ok b src \<Longrightarrow> \<not> source_overruns b src"
  by (cases src) (auto simp: source_ok_def buf_ok_def)

text \<open>The state after the bytes are stored into a buffer with enough room.\<close>

definition stored :: "rdp_buffer \<Rightarrow> u8 list \<Rightarrow> rdp_buffer" where
  "stored b bs =
     (if length bs > 0 then
        b\<lparr>buf_data := Some (take (buf_length b) (block b) @ bs @
                            drop (buf_length b + length bs) (block b))\<rparr>
      else b)\<lparr>buf_length := buf_length b + length bs\<rparr>"

lemma stored_spec:
  assumes "buf_ok b" and "buf_length b + length bs \<le> buf_capacity b"
  shows "buf_ok (stored b bs)" and "contents (stored b bs) = contents b @ bs"
  using assms buf_ok_length [OF assms(1)]
  by (auto simp: stored_def buf_ok_def rdp_buffer_state_valid_def contents_def block_def
      split: option.splits)

lemma append_from_unfold:
  assumes "buf_ok b" and "source_ok b src"
  shows "rdp_buffer_append_from src (b, m) =
    (if source_len src > SIZE_MAX - buf_length b then (LIBRDP_STATUS_NO_MEMORY, b, m)
     else case (if source_in_buffer b src \<and> source_len src > 0 then alloc m else (Some (\<lambda>_. 0), m)) of
       (None, m) \<Rightarrow> (LIBRDP_STATUS_NO_MEMORY, b, m)
     | (Some _, m) \<Rightarrow>
         (case rdp_buffer_reserve (buf_length b + source_len src) (b, m) of (status, b', m) \<Rightarrow>
            if status \<noteq> LIBRDP_STATUS_OK then (status, b', m)
            else (LIBRDP_STATUS_OK, stored b' (source_bytes b src), m)))"
  using assms source_ok_not_overruns [OF assms]
  by (simp add: rdp_buffer_append_from_def Let_def buf_ok_def source_ok_def stored_def
      cong: prod.case_cong option.case_cong if_cong)

lemma append_from_spec:
  assumes ok: "buf_ok b" and src: "source_ok b src"
    and res: "rdp_buffer_append_from src (b, m) = (st, b', m')"
  shows "buf_ok b'"
    and "st = LIBRDP_STATUS_OK \<Longrightarrow> contents b' = contents b @ source_bytes b src"
    and "st \<noteq> LIBRDP_STATUS_OK \<Longrightarrow> st = LIBRDP_STATUS_NO_MEMORY \<and> b' = b"
proof -
  obtain a m2 where a: "(if source_in_buffer b src \<and> source_len src > 0 then alloc m
      else (Some (\<lambda>_. 0), m)) = (a, m2)" by fastforce
  obtain st3 b3 m3 where r: "rdp_buffer_reserve (buf_length b + source_len src) (b, m2) = (st3, b3, m3)"
    by (cases "rdp_buffer_reserve (buf_length b + source_len src) (b, m2)") auto
  note rs = reserve_spec [OF ok r]
  consider (fail) "st = LIBRDP_STATUS_NO_MEMORY" "b' = b"
    | (written) "st3 = LIBRDP_STATUS_OK" "st = LIBRDP_STATUS_OK" "b' = stored b3 (source_bytes b src)"
    using res rs(5)
    by (cases a) (auto simp: append_from_unfold [OF ok src] a r split: if_splits)
  note cases = this
  have room: "st3 = LIBRDP_STATUS_OK \<Longrightarrow>
      buf_length b3 + length (source_bytes b src) \<le> buf_capacity b3"
    using rs(3,4) src by (simp add: source_ok_def)
  show "buf_ok b'" using cases ok rs(1) room by cases (auto intro: stored_spec)
  show "st = LIBRDP_STATUS_OK \<Longrightarrow> contents b' = contents b @ source_bytes b src"
    using cases rs(1,2) room by cases (simp_all add: stored_spec)
  show "st \<noteq> LIBRDP_STATUS_OK \<Longrightarrow> st = LIBRDP_STATUS_NO_MEMORY \<and> b' = b"
    using cases by cases auto
qed

lemma append_from_succeeds:
  assumes ok: "buf_ok b" and src: "source_ok b src"
    and room: "buf_length b + source_len src \<le> 2 ^ 63"
  shows "\<exists>b'. rdp_buffer_append_from src (b, []) = (LIBRDP_STATUS_OK, b', [])"
proof -
  have "source_len src \<le> SIZE_MAX - buf_length b" using room by (simp add: SIZE_MAX_def)
  moreover obtain b' where
    "rdp_buffer_reserve (buf_length b + source_len src) (b, []) = (LIBRDP_STATUS_OK, b', [])"
    using reserve_succeeds [OF ok room] by blast
  ultimately show ?thesis by (simp add: append_from_unfold [OF ok src])
qed

section \<open>The contract of a packet writer\<close>

definition emits :: "writer \<Rightarrow> u8 list \<Rightarrow> bool" where
  "emits w bs \<longleftrightarrow> (\<forall>b m st b' m'. buf_ok b \<longrightarrow> w (b, m) = (st, b', m') \<longrightarrow>
     buf_ok b' \<and>
     (st = LIBRDP_STATUS_OK \<longrightarrow> contents b' = contents b @ bs) \<and>
     (st \<noteq> LIBRDP_STATUS_OK \<longrightarrow> st = LIBRDP_STATUS_NO_MEMORY \<and>
        (\<exists>k. contents b' = contents b @ take k bs)) \<and>
     (m = [] \<and> buf_length b + length bs \<le> 2 ^ 63 \<longrightarrow> st = LIBRDP_STATUS_OK \<and> m' = []))"

lemma emitsD:
  assumes "emits w bs" and "buf_ok b" and "w (b, m) = (st, b', m')"
  shows "buf_ok b'"
    and "st = LIBRDP_STATUS_OK \<Longrightarrow> contents b' = contents b @ bs"
    and "st \<noteq> LIBRDP_STATUS_OK \<Longrightarrow> st = LIBRDP_STATUS_NO_MEMORY"
    and "st \<noteq> LIBRDP_STATUS_OK \<Longrightarrow> \<exists>k. contents b' = contents b @ take k bs"
    and "m = [] \<Longrightarrow> buf_length b + length bs \<le> 2 ^ 63 \<Longrightarrow> st = LIBRDP_STATUS_OK \<and> m' = []"
  using assms by (auto simp: emits_def)

lemma emits_fresh:
  assumes "emits w bs" and "length bs \<le> 2 ^ 63"
  obtains b where "w (rdp_buffer_init, []) = (LIBRDP_STATUS_OK, b, [])" "buf_ok b" "contents b = bs"
    "buf_length b = length bs"
proof -
  obtain st b m where 1: "w (rdp_buffer_init, []) = (st, b, m)" by (rule prod_cases3)
  note s = emitsD [OF assms(1) buf_ok_init 1]
  have "st = LIBRDP_STATUS_OK" "m = []" using s(5) assms(2) by simp_all
  with 1 s(1,2) that show ?thesis by (metis append_Nil contents_init(1) length_contents)
qed

lemma emits_append_from:
  assumes "buf_ok b" and "source_ok b src" and "rdp_buffer_append_from src (b, m) = (st, b', m')"
    and "m = []" and "buf_length b + source_len src \<le> 2 ^ 63"
  shows "st = LIBRDP_STATUS_OK \<and> m' = []"
  using append_from_succeeds [OF assms(1,2,5)] assms(3,4) by auto

named_theorems emits_rules

lemma emits_append [emits_rules, intro]: "emits (rdp_buffer_append bs) bs"
  unfolding emits_def rdp_buffer_append_def
proof (intro allI impI)
  fix b m st b' m'
  assume ok: "buf_ok b" and res: "rdp_buffer_append_from (Outside bs) (b, m) = (st, b', m')"
  note spec = append_from_spec [OF ok source_ok_Outside res]
  have "m = [] \<and> buf_length b + length bs \<le> 2 ^ 63 \<Longrightarrow> st = LIBRDP_STATUS_OK \<and> m' = []"
    using append_from_succeeds [OF ok source_ok_Outside, of bs] res by auto
  moreover have "st \<noteq> LIBRDP_STATUS_OK \<Longrightarrow> \<exists>k. contents b' = contents b @ take k bs"
    using spec(3) by (intro exI [of _ 0]) simp
  ultimately show "buf_ok b' \<and>
     (st = LIBRDP_STATUS_OK \<longrightarrow> contents b' = contents b @ bs) \<and>
     (st \<noteq> LIBRDP_STATUS_OK \<longrightarrow> st = LIBRDP_STATUS_NO_MEMORY \<and>
        (\<exists>k. contents b' = contents b @ take k bs)) \<and>
     (m = [] \<and> buf_length b + length bs \<le> 2 ^ 63 \<longrightarrow> st = LIBRDP_STATUS_OK \<and> m' = [])"
    using spec by auto
qed

lemma emits_append_words [emits_rules, intro]:
  "emits (rdp_buffer_append_u8 v1) [v1]"
  "emits (rdp_buffer_append_u16_le v2) (u16_le_bytes v2)"
  "emits (rdp_buffer_append_u16_be v2) (u16_be_bytes v2)"
  "emits (rdp_buffer_append_u32_le v4) (u32_le_bytes v4)"
  "emits (rdp_buffer_append_u32_be v4) (u32_be_bytes v4)"
  by (simp_all add: emits_append rdp_buffer_append_u8_def rdp_buffer_append_u16_le_def
      rdp_buffer_append_u16_be_def rdp_buffer_append_u32_le_def rdp_buffer_append_u32_be_def)

lemma emits_run_Nil [emits_rules, intro]: "emits (run_writers []) []"
  by (simp add: emits_def)

definition emitted :: "rdp_buffer \<Rightarrow> mem \<Rightarrow> u8 list \<Rightarrow> librdp_status \<Rightarrow> rdp_buffer \<Rightarrow> mem \<Rightarrow> bool" where
  "emitted b m bs st b' m' \<longleftrightarrow> buf_ok b' \<and>
     (st = LIBRDP_STATUS_OK \<longrightarrow> contents b' = contents b @ bs) \<and>
     (st \<noteq> LIBRDP_STATUS_OK \<longrightarrow> st = LIBRDP_STATUS_NO_MEMORY \<and> (\<exists>k. contents b' = contents b @ take k bs)) \<and>
     (m = [] \<and> buf_length b + length bs \<le> 2 ^ 63 \<longrightarrow> st = LIBRDP_STATUS_OK \<and> m' = [])"

lemma emits_emitted: "emits w bs \<longleftrightarrow> (\<forall>b m st b' m'. buf_ok b \<longrightarrow> w (b, m) = (st, b', m') \<longrightarrow> emitted b m bs st b' m')"
  by (simp add: emits_def emitted_def)

lemma emitted_then:
  assumes ok: "buf_ok b" and 1: "emitted b m bs LIBRDP_STATUS_OK b1 m1" and 2: "emitted b1 m1 cs st b' m'"
  shows "emitted b m (bs @ cs) st b' m'"
proof -
  have c: "contents b1 = contents b @ bs" "buf_ok b1" using 1 by (simp_all add: emitted_def)
  then have len: "buf_length b1 = buf_length b + length bs" using ok by (metis length_append length_contents)
  have "\<exists>k. contents b' = contents b @ take k (bs @ cs)" if fail: "st \<noteq> LIBRDP_STATUS_OK"
  proof -
    obtain j where "contents b' = contents b1 @ take j cs" using 2 fail by (auto simp: emitted_def)
    then have "contents b' = contents b @ take (length bs + j) (bs @ cs)" using c by simp
    then show ?thesis by blast
  qed
  moreover have "m = [] \<and> buf_length b + length (bs @ cs) \<le> 2 ^ 63 \<longrightarrow> m1 = []" using 1 by (simp add: emitted_def)
  ultimately show ?thesis using 2 c len unfolding emitted_def by auto
qed

lemma emitted_fails:
  assumes "emitted b m bs st b' m'" and "st \<noteq> LIBRDP_STATUS_OK"
  shows "emitted b m (bs @ cs) st b' m'"
proof -
  from assms obtain k where "contents b' = contents b @ take k bs" by (auto simp: emitted_def)
  then have "contents b' = contents b @ take (min k (length bs)) (bs @ cs)" by (simp add: min_def)
  with assms show ?thesis by (auto simp: emitted_def simp del: take_append)
qed

lemma emits_run_Cons:
  assumes w: "emits w bs" and ws: "emits (run_writers ws) cs"
  shows "emits (run_writers (w # ws)) (bs @ cs)"
  unfolding emits_emitted
proof (intro allI impI)
  fix b m st b' m'
  assume ok: "buf_ok b" and res: "run_writers (w # ws) (b, m) = (st, b', m')"
  obtain st1 b1 m1 where 1: "w (b, m) = (st1, b1, m1)" by (rule prod_cases3)
  have e: "emitted b m bs st1 b1 m1" using w ok 1 unfolding emits_emitted by blast
  show "emitted b m (bs @ cs) st b' m'"
  proof (cases "st1 = LIBRDP_STATUS_OK")
    case False
    with emitted_fails [OF e] res 1 show ?thesis by simp
  next
    case True
    with res 1 e have "run_writers ws (b1, m1) = (st, b', m')" "buf_ok b1" by (simp_all add: emitted_def)
    with ws have "emitted b1 m1 cs st b' m'" unfolding emits_emitted by blast
    with emitted_then [OF ok e [unfolded True]] show ?thesis by blast
  qed
qed

lemma emits_run_Cons' [emits_rules]:
  "emits w bs \<Longrightarrow> emits (run_writers ws) cs \<Longrightarrow> ds = bs @ cs \<Longrightarrow> emits (run_writers (w # ws)) ds"
  by (simp add: emits_run_Cons)

lemma emits_run_one: "emits w bs \<Longrightarrow> emits (run_writers [w]) bs"
  using emits_run_Cons [OF _ emits_run_Nil, of w bs] by simp

lemma emits_run: "list_all2 emits ws bss \<Longrightarrow> emits (run_writers ws) (concat bss)"
  by (induction rule: list_all2_induct)
    (simp_all add: emits_run_Nil emits_run_Cons del: run_writers.simps)

lemma run_writers_append:
  "run_writers (ws @ vs) s = run_writers [run_writers ws, run_writers vs] s"
  by (induction ws arbitrary: s) (auto split: prod.splits)

lemma emits_run_append [emits_rules]:
  assumes "emits (run_writers ws) bs" and "emits (run_writers vs) cs" and "ds = bs @ cs"
  shows "emits (run_writers (ws @ vs)) ds"
proof -
  have "emits (run_writers [run_writers ws, run_writers vs]) ds"
    using assms by (auto intro!: emits_run_Cons emits_run_Cons [of _ cs _ "[]", simplified] emits_run_Nil
        simp del: run_writers.simps)
  moreover have "run_writers (ws @ vs) = run_writers [run_writers ws, run_writers vs]"
    by (rule ext) (rule run_writers_append)
  ultimately show ?thesis by simp
qed

lemma emits_run_map_append [emits_rules]: "emits (run_writers (map rdp_buffer_append xss)) (concat xss)"
  by (rule emits_run) (simp add: list_all2_conv_all_nth emits_append)

text \<open>Output collected in a local buffer, appended to the caller's in one step, then freed.\<close>

definition via_local :: "writer \<Rightarrow> (u8 list \<Rightarrow> writer) \<Rightarrow> writer" where
  "via_local fill use = (\<lambda>(b, m).
     case fill (rdp_buffer_init, m) of (status, frame, m) \<Rightarrow>
       if status \<noteq> LIBRDP_STATUS_OK then (status, b, m) else use (contents frame) (b, m))"

lemma emits_via_local [emits_rules]:
  assumes fill: "emits fill bs" and use_bs: "emits (use bs) cs" and "length bs \<le> length cs"
  shows "emits (via_local fill use) cs"
  unfolding emits_def
proof (intro allI impI)
  fix b m st b' m'
  assume ok: "buf_ok b" and res: "via_local fill use (b, m) = (st, b', m')"
  obtain st1 f m1 where 1: "fill (rdp_buffer_init, m) = (st1, f, m1)"
    by (cases "fill (rdp_buffer_init, m)") auto
  note s1 = emitsD [OF fill buf_ok_init 1]
  have fits: "m = [] \<Longrightarrow> length cs \<le> 2 ^ 63 \<Longrightarrow> st1 = LIBRDP_STATUS_OK \<and> m1 = []"
    using s1(5) assms(3) by (simp add: rdp_buffer_init_def)
  show "buf_ok b' \<and>
     (st = LIBRDP_STATUS_OK \<longrightarrow> contents b' = contents b @ cs) \<and>
     (st \<noteq> LIBRDP_STATUS_OK \<longrightarrow> st = LIBRDP_STATUS_NO_MEMORY \<and>
        (\<exists>k. contents b' = contents b @ take k cs)) \<and>
     (m = [] \<and> buf_length b + length cs \<le> 2 ^ 63 \<longrightarrow> st = LIBRDP_STATUS_OK \<and> m' = [])"
  proof (cases "st1 = LIBRDP_STATUS_OK")
    case False
    then have "st = st1" "b' = b" using res 1 by (simp_all add: via_local_def)
    then show ?thesis using ok s1(3) False fits by (auto intro: exI [of _ 0])
  next
    case True
    then have "use bs (b, m1) = (st, b', m')" using res 1 s1(2) by (simp add: via_local_def)
    from emitsD [OF use_bs ok this] show ?thesis using fits by auto
  qed
qed

section \<open>Direct accesses\<close>

text \<open>
  Callers that reach into a buffer: storing bytes over a part of the block
  (\<^verbatim>\<open>memcpy(buffer->data + off, ..)\<close>) and setting \<^verbatim>\<open>buffer->length\<close> back.
\<close>

definition buf_overwrite :: "nat \<Rightarrow> u8 list \<Rightarrow> rdp_buffer \<Rightarrow> rdp_buffer" where
  "buf_overwrite off bs b =
     (if bs = [] then b
      else b\<lparr>buf_data := Some (take off (block b) @ bs @ drop (off + length bs) (block b))\<rparr>)"

definition buf_truncate :: "nat \<Rightarrow> rdp_buffer \<Rightarrow> rdp_buffer" where
  "buf_truncate n b = b\<lparr>buf_length := n\<rparr>"

lemma buf_truncate_ok:
  assumes "buf_ok b" and "n \<le> buf_length b"
  shows "buf_ok (buf_truncate n b)" and "contents (buf_truncate n b) = take n (contents b)"
    and "buf_length (buf_truncate n b) = n"
  using assms
  by (auto simp: buf_truncate_def buf_ok_def rdp_buffer_state_valid_def contents_def block_def min_def)

lemma buf_overwrite_ok:
  assumes "buf_ok b" and "off + length bs \<le> buf_length b"
  shows "buf_ok (buf_overwrite off bs b)"
    and "contents (buf_overwrite off bs b) =
           take off (contents b) @ bs @ drop (off + length bs) (contents b)"
    and "buf_length (buf_overwrite off bs b) = buf_length b"
proof -
  note len = buf_ok_length [OF assms(1)]
  show "buf_ok (buf_overwrite off bs b)" "buf_length (buf_overwrite off bs b) = buf_length b"
    using assms len
    by (auto simp: buf_overwrite_def buf_ok_def rdp_buffer_state_valid_def block_def split: option.splits)
  show "contents (buf_overwrite off bs b) =
      take off (contents b) @ bs @ drop (off + length bs) (contents b)"
  proof (cases "bs = []")
    case False
    then have "0 < length bs" by simp
    with assms len show ?thesis
      by (simp add: buf_overwrite_def contents_def block_def drop_take)
  qed (simp add: buf_overwrite_def)
qed

lemma contents_region:
  "buf_ok b \<Longrightarrow> contents b = xs @ bs \<Longrightarrow> take (length bs) (drop (length xs) (block b)) = bs"
  by (metis append_eq_conv_conj contents_def drop_take length_append length_contents add_diff_cancel_left')

text \<open>The last bytes of a buffer transformed in place, or erased and cut off.\<close>

lemma in_place:
  assumes ok: "buf_ok b" and c: "contents b = xs @ bs"
  shows "take (length bs) (drop (length xs) (block b)) = bs"
    and "length ds = length bs \<Longrightarrow> buf_ok (buf_overwrite (length xs) ds b) \<and>
           contents (buf_overwrite (length xs) ds b) = xs @ ds"
    and "n \<le> length xs \<Longrightarrow>
           buf_ok (buf_truncate n (buf_overwrite (length xs) (replicate (length bs) 0) b)) \<and>
           contents (buf_truncate n (buf_overwrite (length xs) (replicate (length bs) 0) b)) = take n xs"
proof -
  have len: "buf_length b = length xs + length bs" using ok c by (metis length_append length_contents)
  show "take (length bs) (drop (length xs) (block b)) = bs" by (rule contents_region [OF ok c])
  show ow: "length ds = length bs \<Longrightarrow> buf_ok (buf_overwrite (length xs) ds b) \<and>
      contents (buf_overwrite (length xs) ds b) = xs @ ds" for ds
    using buf_overwrite_ok [OF ok, of "length xs" ds] len c by simp
  show "n \<le> length xs \<Longrightarrow>
      buf_ok (buf_truncate n (buf_overwrite (length xs) (replicate (length bs) 0) b)) \<and>
      contents (buf_truncate n (buf_overwrite (length xs) (replicate (length bs) 0) b)) = take n xs"
    using ow [of "replicate (length bs) 0"]
      buf_truncate_ok [of "buf_overwrite (length xs) (replicate (length bs) 0) b" n]
      buf_overwrite_ok(3) [OF ok, of "length xs" "replicate (length bs) 0"] len by simp
qed

section \<open>Properties\<close>

lemma grow_bound: "grow nxt n = Some c \<Longrightarrow> c = nxt \<or> c < 2 * n"
proof (induction nxt n rule: grow.induct)
  case (1 nxt capacity)
  then show ?case by (subst (asm) grow.simps) (auto split: if_splits)
qed

text \<open>
  C23. Appending. From a valid buffer, appending bytes that lie outside the buffer or inside its own
  block (the block may move while it grows) adds exactly the bytes the source held before the call,
  or reports lack of memory and leaves the buffer as it was.
\<close>

theorem buffer_append_safe:
  assumes "buf_ok b" and "source_ok b src" and "rdp_buffer_append_from src (b, m) = (st, b', m')"
  shows "buf_ok b' \<and>
    (st = LIBRDP_STATUS_OK \<and> contents b' = contents b @ source_bytes b src \<or>
     st = LIBRDP_STATUS_NO_MEMORY \<and> b' = b)"
  using append_from_spec [OF assms] by blast

theorem buffer_append_safe_witness:
  "let b = \<lparr>buf_data = Some [1, 2], buf_length = 2, buf_capacity = 2\<rparr> in
   \<exists>st b' m'. rdp_buffer_append_from (Inside 1 1) (b, [None]) = (st, b', m') \<and> buf_ok b' \<and>
    (st = LIBRDP_STATUS_OK \<and> contents b' = contents b @ [2] \<or> st = LIBRDP_STATUS_NO_MEMORY \<and> b' = b)"
  using buffer_append_safe [of "\<lparr>buf_data = Some [1, 2], buf_length = 2, buf_capacity = 2\<rparr>"
      "Inside 1 1" "[None]"]
  by (simp add: buf_ok_def rdp_buffer_state_valid_def block_def source_ok_def
      rdp_buffer_append_from_def)

text \<open>
  Reserving. The capacity grows by doubling to at least the request and to at most twice the
  request, 64 or the old capacity; the contents are kept; failure is lack of memory only and changes
  nothing; with memory and a request of at most half the address space it succeeds.
\<close>

lemma buffer_reserve_growth:
  assumes "buf_ok b" and "rdp_buffer_reserve n (b, m) = (st, b', m')"
  shows "buf_ok b' \<and> contents b' = contents b \<and>
    (st = LIBRDP_STATUS_OK \<longrightarrow> n \<le> buf_capacity b' \<and>
       buf_capacity b' \<le> max (max 64 (buf_capacity b)) (2 * n)) \<and>
    (st \<noteq> LIBRDP_STATUS_OK \<longrightarrow> st = LIBRDP_STATUS_NO_MEMORY \<and> b' = b) \<and>
    (n \<le> 2 ^ 63 \<and> m = [] \<longrightarrow> st = LIBRDP_STATUS_OK)"
proof -
  have "buf_capacity b' \<le> max (max 64 (buf_capacity b)) (2 * n)"
    using assms grow_bound [of _ n]
    by (fastforce simp: rdp_buffer_reserve_def split: if_splits option.splits prod.splits)
  then show ?thesis using reserve_spec [OF assms] reserve_succeeds [OF assms(1), of n] assms(2) by auto
qed

text \<open>
  Consuming. \<open>rdp_buffer_consume\<close> drops exactly the first bytes of the contents by shifting the
  rest down in place, and refuses, without effect, to drop more than there is.
\<close>

lemma buffer_consume_correct:
  assumes "buf_ok b"
  shows "case rdp_buffer_consume n b of (st, b') \<Rightarrow>
    buf_ok b' \<and> buf_capacity b' = buf_capacity b \<and>
    (if n \<le> buf_length b then st = LIBRDP_STATUS_OK \<and> contents b' = drop n (contents b)
     else st = LIBRDP_STATUS_INVALID_ARGUMENT \<and> b' = b)"
  using assms buf_ok_length [OF assms]
  by (auto simp: rdp_buffer_consume_def buf_ok_def rdp_buffer_state_valid_def contents_def block_def
      min_def drop_take split: option.splits)

end
