(* ===== verification/Codec.thy ===== *)
theory Codec
  imports Rdp_Stream Rdp_Buffer
begin

text \<open>
  The interfaces between the packet formats and the two byte-level components.

  \<^item> \<open>wire_codec\<close>: a field of a packet, written by a writer and read back from a stream; the
    laws are that the writer emits the encoding and that the reader undoes it and stops after it.
  \<^item> \<open>exact_codec\<close>: the reader accepts nothing but encodings.
  \<^item> \<open>pdu_codec\<close>: a whole packet, parsed from a byte region.

  The lemmas proved here once (unique decoding, lossless transport through a buffer, no partial
  output counted as success) hold for every field and packet for which the component theories
  interpret these locales.
\<close>

section \<open>Atomic writers\<close>

text \<open>A writer that fails leaves the contents of the buffer as they were.\<close>

definition emits_atomically :: "writer \<Rightarrow> u8 list \<Rightarrow> bool" where
  "emits_atomically w bs \<longleftrightarrow> emits w bs \<and>
     (\<forall>b m st b' m'. buf_ok b \<longrightarrow> w (b, m) = (st, b', m') \<longrightarrow> st \<noteq> LIBRDP_STATUS_OK \<longrightarrow>
        contents b' = contents b)"

lemma emits_atomicallyD:
  assumes "emits_atomically w bs"
  shows "emits w bs"
    and "buf_ok b \<Longrightarrow> w (b, m) = (st, b', m') \<Longrightarrow> st \<noteq> LIBRDP_STATUS_OK \<Longrightarrow> contents b' = contents b"
  using assms unfolding emits_atomically_def by blast+

lemma atomically_append [intro]: "emits_atomically (rdp_buffer_append bs) bs"
  unfolding emits_atomically_def
proof (intro conjI allI impI)
  fix b m st b' m'
  assume "buf_ok b" "rdp_buffer_append bs (b, m) = (st, b', m')" "st \<noteq> LIBRDP_STATUS_OK"
  from append_from_spec(3) [OF this(1) source_ok_Outside this(2) [unfolded rdp_buffer_append_def] this(3)]
  show "contents b' = contents b" by simp
qed (rule emits_append)

lemma atomically_via_local:
  assumes "emits fill bs" and "emits_atomically (use bs) cs" and "length bs \<le> length cs"
  shows "emits_atomically (via_local fill use) cs"
  unfolding emits_atomically_def
proof (intro conjI allI impI)
  show "emits (via_local fill use) cs"
    by (rule emits_via_local [OF assms(1) _ assms(3)]) (rule emits_atomicallyD [OF assms(2)])
next
  fix b m st b' m'
  assume ok: "buf_ok b" and res: "via_local fill use (b, m) = (st, b', m')"
    and fail: "st \<noteq> LIBRDP_STATUS_OK"
  obtain st1 f m1 where 1: "fill (rdp_buffer_init, m) = (st1, f, m1)"
    by (cases "fill (rdp_buffer_init, m)") auto
  from emitsD(2) [OF assms(1) buf_ok_init 1]
  show "contents b' = contents b"
    using res 1 fail emits_atomicallyD(2) [OF assms(2) ok]
    by (auto simp: via_local_def split: if_splits)
qed

text \<open>A failed sequence of appends sets the length back to its start.\<close>

definition restoring :: "writer \<Rightarrow> writer" where
  "restoring w = (\<lambda>(b, m). case w (b, m) of (st, b', m') \<Rightarrow>
     (st, if st \<noteq> LIBRDP_STATUS_OK then buf_truncate (buf_length b) b' else b', m'))"

lemma restoring_atomic:
  assumes "emits w bs"
  shows "emits_atomically (restoring w) bs"
  unfolding emits_atomically_def emits_def
proof (intro conjI allI impI)
  fix b m st b' m'
  assume ok: "buf_ok b" and res: "restoring w (b, m) = (st, b', m')"
  obtain b1 where 1: "w (b, m) = (st, b1, m')" and b': "b' = (if st \<noteq> LIBRDP_STATUS_OK then buf_truncate (buf_length b) b1 else b1)"
    using res by (auto simp: restoring_def split: prod.splits)
  note e = emitsD [OF assms ok 1]
  have len: "buf_length b \<le> buf_length b1"
    using e(2,4) by (metis le_add1 length_append length_contents [OF e(1)] length_contents [OF ok])
  have fail: "st \<noteq> LIBRDP_STATUS_OK \<Longrightarrow> contents b' = contents b"
    using e(4) buf_truncate_ok(2) [OF e(1) len] length_contents [OF ok] b' by auto
  show "buf_ok b'" using e(1) buf_truncate_ok(1) [OF e(1) len] b' by auto
  show "contents b' = contents b @ bs" if "st = LIBRDP_STATUS_OK"
    using that e(2) b' by simp
  show "st = LIBRDP_STATUS_NO_MEMORY" if "st \<noteq> LIBRDP_STATUS_OK" using that e(3) by blast
  show "\<exists>k. contents b' = contents b @ take k bs" if "st \<noteq> LIBRDP_STATUS_OK"
    using fail [OF that] by (intro exI [of _ 0]) simp
  show "st = LIBRDP_STATUS_OK" "m' = []" if "m = [] \<and> buf_length b + length bs \<le> 2 ^ 63"
    using that e(5) by auto
  show "contents b' = contents b" if "st \<noteq> LIBRDP_STATUS_OK" using fail [OF that] .
qed

lemma emits_restoring [emits_rules]: "emits w bs \<Longrightarrow> emits (restoring w) bs"
  by (rule emits_atomicallyD) (rule restoring_atomic)

section \<open>Fields\<close>

locale wire_codec =
  fixes wr :: "'a \<Rightarrow> writer"
    and rd :: "'a reader"
    and enc :: "'a \<Rightarrow> u8 list"
    and wf :: "'a \<Rightarrow> bool"
  assumes wr_emits: "wf x \<Longrightarrow> emits (wr x) (enc x)"
    and rd_enc: "wf x \<Longrightarrow> rd (strm pre (enc x @ r)) = Inr (x, strm (pre @ enc x) r)"
begin

lemma unique_decoding:
  assumes "wf x" and "wf y" and "enc x @ r = enc y @ r'"
  shows "x = y \<and> r = r'"
proof -
  have "Inr (x, strm (enc x) r) = Inr (y, strm (enc y) r')"
    using rd_enc [OF assms(1), of "[]" r, unfolded assms(3)] rd_enc [OF assms(2), of "[]" r'] by simp
  then show ?thesis by simp
qed

lemma written_then_read:
  assumes "wf x" and "buf_ok b" and "wr x (b, m) = (LIBRDP_STATUS_OK, b', m')"
  shows "rd (strm (contents b) (drop (length (contents b)) (contents b'))) =
           Inr (x, strm (contents b') [])"
  using emitsD(2) [OF wr_emits [OF assms(1)] assms(2,3)] rd_enc [OF assms(1), of "contents b" "[]"]
  by simp

text \<open>A sequence of fields written one after the other is read back as the same sequence.\<close>

lemma wr_all_emits: "list_all wf xs \<Longrightarrow> emits (run_writers (map wr xs)) (concat (map enc xs))"
  by (rule emits_run) (auto simp: list_all2_conv_all_nth list_all_length wr_emits)

end

locale exact_codec = wire_codec +
  assumes rd_exact: "rd (strm pre bs) = Inr (x, s) \<Longrightarrow>
    wf x \<and> (\<exists>r. bs = enc x @ r \<and> s = strm (pre @ enc x) r)"
begin

lemma rd_iff: "rd (strm pre bs) = Inr (x, s) \<longleftrightarrow>
    wf x \<and> (\<exists>r. bs = enc x @ r \<and> s = strm (pre @ enc x) r)"
  using rd_exact rd_enc by blast

end

section \<open>Packets\<close>

text \<open>
  The end-to-end contract of a packet: \<open>w\<close> appends one and the same packet to whatever buffer it
  is given, or runs out of memory, and the parser gets \<open>v\<close> from that packet.
\<close>

definition transmits :: "writer \<Rightarrow> (u8 list \<Rightarrow> 'b result) \<Rightarrow> 'b \<Rightarrow> bool" where
  "transmits w parse v \<longleftrightarrow> (\<exists>pdu. emits w pdu \<and> parse pdu = Inr v)"

lemma transmitsI: "emits w pdu \<Longrightarrow> parse pdu = Inr v \<Longrightarrow> transmits w parse v"
  by (auto simp: transmits_def)

locale pdu_codec =
  fixes wr :: "'a \<Rightarrow> writer"
    and parse :: "u8 list \<Rightarrow> 'b result"
    and enc :: "'a \<Rightarrow> u8 list"
    and view :: "'a \<Rightarrow> 'b"
    and wf :: "'a \<Rightarrow> bool"
  assumes wr_emits: "wf x \<Longrightarrow> emits (wr x) (enc x)"
    and parse_enc: "wf x \<Longrightarrow> parse (enc x) = Inr (view x)"
begin

lemma roundtrip:
  assumes "wf x" and "buf_ok b" and "wr x (b, m) = (LIBRDP_STATUS_OK, b', m')"
  shows "buf_ok b' \<and> (\<exists>pdu. contents b' = contents b @ pdu \<and> parse pdu = Inr (view x))"
  using emitsD [OF wr_emits [OF assms(1)] assms(2,3)] parse_enc [OF assms(1)] by blast

lemma delivers:
  assumes "wf x" and "buf_ok b" and "buf_length b + length (enc x) \<le> 2 ^ 63"
  shows "\<exists>b' pdu. wr x (b, []) = (LIBRDP_STATUS_OK, b', []) \<and> buf_ok b' \<and>
           contents b' = contents b @ pdu \<and> parse pdu = Inr (view x)"
proof -
  obtain st b' m' where 1: "wr x (b, []) = (st, b', m')" by (cases "wr x (b, [])") auto
  note s = emitsD [OF wr_emits [OF assms(1)] assms(2) 1]
  show ?thesis using 1 s assms(3) parse_enc [OF assms(1)] by auto
qed

lemma transmits: "wf x \<Longrightarrow> transmits (wr x) parse (view x)"
  unfolding transmits_def using wr_emits parse_enc by blast

lemma enc_determines_view: "wf x \<Longrightarrow> wf y \<Longrightarrow> enc x = enc y \<Longrightarrow> view x = view y"
  using parse_enc by (metis sum.inject(2))

end

section \<open>Type-length-value blocks\<close>

text \<open>
  The layout shared by the GCC user data blocks and the capability sets: a type, the length of the
  whole block, and the payload.
\<close>

definition block_bytes :: "u16 \<Rightarrow> u8 list \<Rightarrow> u8 list" where
  "block_bytes type payload = u16_le_bytes type @ u16_le_bytes (of_nat (length payload + 4)) @ payload"

lemma length_block_bytes [simp]: "length (block_bytes type payload) = length payload + 4"
  by (simp add: block_bytes_def)

section \<open>The primitive fields\<close>

interpretation u8: exact_codec rdp_buffer_append_u8 rdp_stream_read_u8 "\<lambda>v. [v]" "\<lambda>_. True"
  by unfold_locales (auto simp: stream_rules intro: emits_append_words)

interpretation u16_le: exact_codec rdp_buffer_append_u16_le rdp_stream_read_u16_le u16_le_bytes "\<lambda>_. True"
  by unfold_locales (auto simp: stream_rules intro: emits_append_words)

interpretation u16_be: exact_codec rdp_buffer_append_u16_be rdp_stream_read_u16_be u16_be_bytes "\<lambda>_. True"
  by unfold_locales (auto simp: stream_rules intro: emits_append_words)

interpretation u32_le: exact_codec rdp_buffer_append_u32_le rdp_stream_read_u32_le u32_le_bytes "\<lambda>_. True"
  by unfold_locales (auto simp: stream_rules intro: emits_append_words)

interpretation u32_be: exact_codec rdp_buffer_append_u32_be rdp_stream_read_u32_be u32_be_bytes "\<lambda>_. True"
  by unfold_locales (auto simp: stream_rules intro: emits_append_words)

end
