(* ===== verification/Tpkt.thy ===== *)
theory Tpkt
  imports Codec
begin

text \<open>
  TPKT framing, \<^verbatim>\<open>src/src/protocol/tpkt.c\<close>: the writer wraps a payload into a frame with a
  four-byte header, the parser finds the payload in a received region that may hold more
  bytes than the frame.
\<close>

record rdp_tpkt =
  tpkt_payload :: "u8 list"
  tpkt_payload_len :: nat
  tpkt_total_len :: u16

definition rdp_tpkt_write :: "u8 list \<Rightarrow> writer" where
  "rdp_tpkt_write payload =
     (if length payload > 65535 - 4 then reject LIBRDP_STATUS_INVALID_ARGUMENT
      else
        via_local
          (run_writers
            [rdp_buffer_append_u8 3,
             rdp_buffer_append_u8 0,
             rdp_buffer_append_u16_be (of_nat (length payload + 4)),
             rdp_buffer_append payload])
          rdp_buffer_append)"

definition rdp_tpkt_parse :: "u8 list \<Rightarrow> rdp_tpkt result" where
  "rdp_tpkt_parse data =
     (if length data < 4 then protocol_error
      else
        pbind (rdp_stream_read_u8 (rdp_stream_init data)) (\<lambda>(version, stream).
        pbind (rdp_stream_read_u8 stream) (\<lambda>(reserved, stream).
        pbind (rdp_stream_read_u16_be stream) (\<lambda>(total, stream).
          if version \<noteq> 3 \<or> reserved \<noteq> 0 \<or> total < 4 \<or> unat total > length data then protocol_error
          else Inr \<lparr>tpkt_payload = take (unat total - 4) (drop 4 data),
                    tpkt_payload_len = unat total - 4,
                    tpkt_total_len = total\<rparr>))))"

definition tpkt_frame :: "u8 list \<Rightarrow> u8 list" where
  "tpkt_frame payload = [3, 0] @ u16_be_bytes (of_nat (length payload + 4)) @ payload"

lemma length_tpkt_frame [simp]: "length (tpkt_frame p) = length p + 4"
  by (simp add: tpkt_frame_def)

lemma tpkt_write_atomic:
  "length payload \<le> 65531 \<Longrightarrow> emits_atomically (rdp_tpkt_write payload) (tpkt_frame payload)"
  unfolding rdp_tpkt_write_def tpkt_frame_def
  by (auto intro!: atomically_via_local emits_rules)

lemma tpkt_parse_frame:
  assumes "length payload \<le> 65531"
  shows "rdp_tpkt_parse (tpkt_frame payload @ rest) =
    Inr \<lparr>tpkt_payload = payload, tpkt_payload_len = length payload,
         tpkt_total_len = of_nat (length payload + 4)\<rparr>"
proof -
  have n: "unat (of_nat (length payload + 4) :: u16) = length payload + 4"
    by (rule unat_of_nat_u16) (use assms in simp)
  then have "\<not> (of_nat (length payload + 4) :: u16) < 4"
    by (simp add: word_less_nat_alt del: of_nat_add)
  with n show ?thesis
    by (simp del: of_nat_add add: rdp_tpkt_parse_def tpkt_frame_def stream_rules)
qed

interpretation tpkt: pdu_codec rdp_tpkt_write rdp_tpkt_parse tpkt_frame
  "\<lambda>p. \<lparr>tpkt_payload = p, tpkt_payload_len = length p, tpkt_total_len = of_nat (length p + 4)\<rparr>"
  "\<lambda>p. length p \<le> 65531"
  by unfold_locales
    (auto dest: emits_atomicallyD(1) [OF tpkt_write_atomic] tpkt_parse_frame [where rest = "[]"])

section \<open>Properties\<close>

text \<open>
  TPKT framing. A payload of up to 65531 bytes is framed so that the parser finds it again, whatever
  bytes follow the frame; a longer one is refused; a failed write leaves the contents of the caller's
  buffer as they were.
\<close>

lemma tpkt_roundtrip:
  assumes "buf_ok b" and "rdp_tpkt_write payload (b, m) = (st, b', m')"
  shows "buf_ok b' \<and>
    (if length payload > 65531 then st = LIBRDP_STATUS_INVALID_ARGUMENT \<and> b' = b
     else if st = LIBRDP_STATUS_OK then
       (\<exists>frame. contents b' = contents b @ frame \<and>
         (\<forall>rest. rdp_tpkt_parse (frame @ rest) =
            Inr \<lparr>tpkt_payload = payload, tpkt_payload_len = length payload,
                 tpkt_total_len = of_nat (length payload + 4)\<rparr>))
     else st = LIBRDP_STATUS_NO_MEMORY \<and> contents b' = contents b)"
proof (cases "length payload > 65531")
  case True
  then show ?thesis using assms by (auto simp: rdp_tpkt_write_def reject_def)
next
  case False
  then have w: "emits_atomically (rdp_tpkt_write payload) (tpkt_frame payload)"
    by (intro tpkt_write_atomic) simp
  note e = emitsD [OF emits_atomicallyD(1) [OF w] assms] emits_atomicallyD(2) [OF w assms]
  show ?thesis
    using False e tpkt_parse_frame [of payload] by (auto simp del: of_nat_add)
qed

text \<open>
  TPKT acceptance. The parser accepts nothing but frames: an accepted region starts with the frame
  that the writer produces for the payload found.
\<close>

lemma tpkt_accepts_only_frames:
  assumes "rdp_tpkt_parse data = Inr t"
  shows "\<exists>rest. data = tpkt_frame (tpkt_payload t) @ rest \<and>
    tpkt_payload_len t = length (tpkt_payload t) \<and> unat (tpkt_total_len t) = length (tpkt_payload t) + 4"
proof -
  from assms obtain r where d: "data = 3 # 0 # u16_be_bytes (tpkt_total_len t) @ r"
    and le: "\<not> tpkt_total_len t < 4" "unat (tpkt_total_len t) \<le> length data"
    and p: "tpkt_payload t = take (unat (tpkt_total_len t) - 4) r"
      "tpkt_payload_len t = unat (tpkt_total_len t) - 4"
    by (auto simp: rdp_tpkt_parse_def accepts)
  have n: "unat (tpkt_total_len t) \<ge> 4" using le(1) by (simp add: word_less_nat_alt)
  then have len: "length (tpkt_payload t) + 4 = unat (tpkt_total_len t)" using d p le(2) by simp
  then have "of_nat (length (tpkt_payload t) + 4) = tpkt_total_len t" by (simp del: of_nat_add)
  then have "data = tpkt_frame (tpkt_payload t) @ drop (unat (tpkt_total_len t) - 4) r"
    using d p(1) by (simp add: tpkt_frame_def del: of_nat_add)
  then show ?thesis using len p(2) by auto
qed

end
