(* ===== verification/X224.thy ===== *)
theory X224
  imports Tpkt
begin

text \<open>
  X.224 connection negotiation and data framing, \<^verbatim>\<open>src/src/protocol/x224.c\<close>. The connection request
  of the client carries a routing token or a cookie and, unless the standard security
  protocol is asked for, a negotiation block at its end; the server answers with a confirm or a
  failure inside a TPKT frame. Data is wrapped into a three-byte header.
\<close>

section \<open>Types\<close>

definition RDP_X224_PROTOCOL_STANDARD :: u32 where
  "RDP_X224_PROTOCOL_STANDARD = 0"

record rdp_x224_negotiation =
  neg_present :: bool
  neg_failure :: bool
  neg_type :: u8
  neg_flags :: u8
  neg_length :: u16
  neg_selected_protocol :: u32
  neg_failure_code :: u32

record rdp_x224_connection_confirm =
  cc_destination_ref :: u16
  cc_source_ref :: u16
  cc_class_option :: u8
  cc_negotiation :: rdp_x224_negotiation

record rdp_x224_connection_request =
  cr_destination_ref :: u16
  cr_source_ref :: u16
  cr_class_option :: u8
  cr_negotiation :: rdp_x224_negotiation
  cr_requested_protocols :: u32
  cr_routing_data :: "u8 list"
  cr_routing_data_len :: nat

text \<open>The value that \<^verbatim>\<open>memset(.., 0, ..)\<close> gives a negotiation block.\<close>

definition no_negotiation :: rdp_x224_negotiation where
  "no_negotiation = \<lparr>neg_present = False, neg_failure = False, neg_type = 0, neg_flags = 0,
     neg_length = 0, neg_selected_protocol = 0, neg_failure_code = 0\<rparr>"

section \<open>The connection request\<close>

definition ascii :: "string \<Rightarrow> u8 list" where
  "ascii s = map of_char s"

text \<open>A C string is the bytes up to its terminator.\<close>

definition c_string :: "u8 list \<Rightarrow> u8 list" where
  "c_string s = takeWhile (\<lambda>c. c \<noteq> 0) s"

definition x224_cookie :: "u8 list \<Rightarrow> u8 list list" where
  "x224_cookie cookie_name =
     [ascii ''Cookie: mstshash='', take 64 (c_string cookie_name), [13, 10]]"

definition x224_connection_data :: "u8 list \<Rightarrow> u8 list \<Rightarrow> u8 list list" where
  "x224_connection_data cookie_name routing_data =
     (if length routing_data > 0 then [routing_data]
      else if c_string cookie_name \<noteq> [] then x224_cookie cookie_name
      else [])"

definition rdp_x224_build_connection_request_ex ::
    "u8 list \<Rightarrow> u8 list \<Rightarrow> u32 \<Rightarrow> writer" where
  "rdp_x224_build_connection_request_ex cookie_name routing_data protocols =
     (let negotiation_len = (if protocols = RDP_X224_PROTOCOL_STANDARD then 0 else 8);
          connection_data = x224_connection_data cookie_name routing_data;
          connection_data_len = length (concat connection_data)
      in
      if connection_data_len > 255 - 6 \<or> negotiation_len > 255 - 6 - connection_data_len
      then reject LIBRDP_STATUS_INVALID_ARGUMENT
      else
        run_writers
          ([rdp_buffer_append_u8 (of_nat (6 + connection_data_len + negotiation_len)),
            rdp_buffer_append_u8 0xe0,
            rdp_buffer_append_u16_be 0,
            rdp_buffer_append_u16_be 0,
            rdp_buffer_append_u8 0] @
           map rdp_buffer_append connection_data @
           (if protocols = RDP_X224_PROTOCOL_STANDARD then []
            else
             [rdp_buffer_append_u8 1,
              rdp_buffer_append_u8 0,
              rdp_buffer_append_u16_le 8,
              rdp_buffer_append_u32_le protocols])))"

definition rdp_x224_build_connection_request :: "u8 list \<Rightarrow> u32 \<Rightarrow> writer" where
  "rdp_x224_build_connection_request cookie_name protocols =
     rdp_x224_build_connection_request_ex cookie_name [] protocols"

definition rdp_x224_parse_connection_request ::
    "u8 list \<Rightarrow> rdp_x224_connection_request result" where
  "rdp_x224_parse_connection_request payload =
     (if length payload < 7 then protocol_error
      else
        pbind (rdp_stream_read_u8 (rdp_stream_init payload)) (\<lambda>(li, stream).
        pbind (rdp_stream_read_u8 stream) (\<lambda>(type, stream).
        if type \<noteq> 0xe0 \<or> li < 6 \<or> unat li + 1 > length payload then protocol_error
        else
          pbind (rdp_stream_read_u16_be stream) (\<lambda>(destination_ref, stream).
          pbind (rdp_stream_read_u16_be stream) (\<lambda>(source_ref, stream).
          pbind (rdp_stream_read_u8 stream) (\<lambda>(class_option, stream).
          let fin = unat li + 1;
              request = (\<lambda>negotiation requested.
                \<lparr>cr_destination_ref = destination_ref, cr_source_ref = source_ref,
                 cr_class_option = class_option, cr_negotiation = negotiation,
                 cr_requested_protocols = requested,
                 cr_routing_data =
                   take (fin - 7 - (if neg_present negotiation then 8 else 0)) (drop 7 payload),
                 cr_routing_data_len = fin - 7 - (if neg_present negotiation then 8 else 0)\<rparr>)
          in
          if fin \<ge> 15 \<and> payload ! (fin - 8) = 1 then
            pbind (rdp_stream_read_u8 (rdp_stream_init (take 8 (drop (fin - 8) payload))))
              (\<lambda>(neg_type, negotiation).
            pbind (rdp_stream_read_u8 negotiation) (\<lambda>(flags, negotiation).
            pbind (rdp_stream_read_u16_le negotiation) (\<lambda>(len, negotiation).
            pbind (rdp_stream_read_u32_le negotiation) (\<lambda>(requested, negotiation).
            if neg_type \<noteq> 1 \<or> len \<noteq> 8 then protocol_error
            else Inr (request
                   (no_negotiation\<lparr>neg_present := True, neg_type := neg_type, neg_flags := flags,
                      neg_length := len, neg_selected_protocol := requested\<rparr>)
                   requested)))))
          else Inr (request no_negotiation RDP_X224_PROTOCOL_STANDARD)))))))"

section \<open>The connection confirm\<close>

definition rdp_x224_build_confirm_payload :: "u8 \<Rightarrow> u32 \<Rightarrow> writer" where
  "rdp_x224_build_confirm_payload negotiation_type negotiation_value =
     run_writers
       ([rdp_buffer_append_u8 (6 + (if negotiation_type \<noteq> 0 then 8 else 0)),
         rdp_buffer_append_u8 0xd0,
         rdp_buffer_append_u16_be 0,
         rdp_buffer_append_u16_be 0,
         rdp_buffer_append_u8 0] @
        (if negotiation_type \<noteq> 0 then
          [rdp_buffer_append_u8 negotiation_type,
           rdp_buffer_append_u8 0,
           rdp_buffer_append_u16_le 8,
           rdp_buffer_append_u32_le negotiation_value]
         else []))"

definition rdp_x224_build_connection_confirm_ex :: "u32 \<Rightarrow> bool \<Rightarrow> writer" where
  "rdp_x224_build_connection_confirm_ex selected_protocol include_negotiation =
     via_local
       (rdp_x224_build_confirm_payload (if include_negotiation then 2 else 0) selected_protocol)
       rdp_tpkt_write"

definition rdp_x224_build_connection_confirm :: "u32 \<Rightarrow> writer" where
  "rdp_x224_build_connection_confirm selected_protocol =
     rdp_x224_build_connection_confirm_ex selected_protocol
       (selected_protocol \<noteq> RDP_X224_PROTOCOL_STANDARD)"

definition rdp_x224_build_negotiation_failure :: "u32 \<Rightarrow> writer" where
  "rdp_x224_build_negotiation_failure failure_code =
     via_local (rdp_x224_build_confirm_payload 3 failure_code) rdp_tpkt_write"

definition rdp_x224_parse_connection_confirm ::
    "u8 list \<Rightarrow> rdp_x224_connection_confirm result" where
  "rdp_x224_parse_connection_confirm payload =
     (if length payload < 7 then protocol_error
      else
        pbind (rdp_stream_read_u8 (rdp_stream_init payload)) (\<lambda>(li, stream).
        pbind (rdp_stream_read_u8 stream) (\<lambda>(type, stream).
        if type \<noteq> 0xd0 \<or> unat li + 1 > length payload \<or> li < 6 then protocol_error
        else
          pbind (rdp_stream_read_u16_be stream) (\<lambda>(destination_ref, stream).
          pbind (rdp_stream_read_u16_be stream) (\<lambda>(source_ref, stream).
          pbind (rdp_stream_read_u8 stream) (\<lambda>(class_option, stream).
          let confirm = (\<lambda>negotiation.
                \<lparr>cc_destination_ref = destination_ref, cc_source_ref = source_ref,
                 cc_class_option = class_option, cc_negotiation = negotiation\<rparr>)
          in
          if rdp_stream_remaining stream \<ge> 8 then
            pbind (rdp_stream_read_u8 stream) (\<lambda>(neg_type, stream).
            pbind (rdp_stream_read_u8 stream) (\<lambda>(flags, stream).
            pbind (rdp_stream_read_u16_le stream) (\<lambda>(len, stream).
            pbind (rdp_stream_read_u32_le stream) (\<lambda>(val, stream).
            if (neg_type \<noteq> 2 \<and> neg_type \<noteq> 3) \<or> len \<noteq> 8 then protocol_error
            else Inr (confirm
              \<lparr>neg_present = True, neg_failure = (neg_type = 3), neg_type = neg_type,
               neg_flags = flags, neg_length = len,
               neg_selected_protocol = (if neg_type = 2 then val else 0),
               neg_failure_code = (if neg_type = 2 then 0 else val)\<rparr>)))))
          else Inr (confirm no_negotiation)))))))"

section \<open>Data\<close>

definition rdp_x224_wrap_data :: "u8 list \<Rightarrow> writer" where
  "rdp_x224_wrap_data payload =
     run_writers
       [rdp_buffer_append_u8 0x02,
        rdp_buffer_append_u8 0xf0,
        rdp_buffer_append_u8 0x80,
        rdp_buffer_append payload]"

definition rdp_x224_parse_data :: "u8 list \<Rightarrow> u8 list result" where
  "rdp_x224_parse_data payload =
     (if length payload < 3 then protocol_error
      else if payload ! 0 \<noteq> 0x02 \<or> payload ! 1 \<noteq> 0xf0 \<or> payload ! 2 \<noteq> 0x80 then protocol_error
      else Inr (drop 3 payload))"

section \<open>Wire formats\<close>

definition x224_request_pdu :: "u8 list \<Rightarrow> u32 \<Rightarrow> u8 list" where
  "x224_request_pdu conn protocols =
     [of_nat (6 + length conn + (if protocols = 0 then 0 else 8)), 0xe0] @
     u16_be_bytes 0 @ u16_be_bytes 0 @ [0] @ conn @
     (if protocols = 0 then [] else [1, 0] @ u16_le_bytes 8 @ u32_le_bytes protocols)"

definition x224_confirm_pdu :: "u8 \<Rightarrow> u32 \<Rightarrow> u8 list" where
  "x224_confirm_pdu t v =
     [6 + (if t \<noteq> 0 then 8 else 0), 0xd0] @ u16_be_bytes 0 @ u16_be_bytes 0 @ [0] @
     (if t \<noteq> 0 then [t, 0] @ u16_le_bytes 8 @ u32_le_bytes v else [])"

lemma length_x224_request_pdu [simp]:
  "length (x224_request_pdu conn protocols) = 7 + length conn + (if protocols = 0 then 0 else 8)"
  by (simp add: x224_request_pdu_def)

lemma length_x224_confirm_pdu [simp]: "length (x224_confirm_pdu t v) = (if t \<noteq> 0 then 15 else 7)"
  by (simp add: x224_confirm_pdu_def)

lemma emits_request:
  fixes cookie routing protocols
  defines "conn \<equiv> concat (x224_connection_data cookie routing)"
  assumes "length conn + (if protocols = 0 then 0 else 8) \<le> 249"
  shows "emits (rdp_x224_build_connection_request_ex cookie routing protocols)
           (x224_request_pdu conn protocols)"
  using assms
  by (auto simp: rdp_x224_build_connection_request_ex_def x224_request_pdu_def Let_def
      RDP_X224_PROTOCOL_STANDARD_def simp del: of_nat_add intro!: emits_rules)

lemma emits_confirm: "emits (rdp_x224_build_confirm_payload t v) (x224_confirm_pdu t v)"
  by (auto simp: rdp_x224_build_confirm_payload_def x224_confirm_pdu_def intro!: emits_rules)

lemma emits_wrap_data: "emits (rdp_x224_wrap_data p) ([0x02, 0xf0, 0x80] @ p)"
  by (auto simp: rdp_x224_wrap_data_def intro!: emits_rules)

section \<open>Parsing what was built\<close>

text \<open>
  A request without negotiation block whose connection data has the byte 1 at the place of the
  block's type is taken for one with a block; the following predicate excludes that.
\<close>

definition negotiation_lookalike :: "u8 list \<Rightarrow> bool" where
  "negotiation_lookalike conn \<longleftrightarrow> 8 \<le> length conn \<and> conn ! (length conn - 8) = 1"

definition request_view :: "u8 list \<Rightarrow> u32 \<Rightarrow> rdp_x224_connection_request" where
  "request_view conn protocols =
     \<lparr>cr_destination_ref = 0, cr_source_ref = 0, cr_class_option = 0,
      cr_negotiation =
        (if protocols = 0 then no_negotiation
         else no_negotiation\<lparr>neg_present := True, neg_type := 1, neg_length := 8,
                neg_selected_protocol := protocols\<rparr>),
      cr_requested_protocols = protocols,
      cr_routing_data = conn,
      cr_routing_data_len = length conn\<rparr>"

lemma x224_li:
  assumes "n \<le> 255" and "6 \<le> n"
  shows "unat (of_nat n :: u8) = n" and "\<not> (of_nat n :: u8) < 6"
proof -
  show *: "unat (of_nat n :: u8) = n" using assms(1) by (simp add: unat_of_nat_u8)
  show "\<not> (of_nat n :: u8) < 6" using assms by (simp add: word_less_nat_alt *)
qed

lemma parse_request_pdu:
  assumes len: "length conn + (if protocols = 0 then 0 else 8) \<le> 249"
    and clear: "protocols = 0 \<Longrightarrow> \<not> negotiation_lookalike conn"
  shows "rdp_x224_parse_connection_request (x224_request_pdu conn protocols) =
    Inr (request_view conn protocols)"
proof (cases "protocols = 0")
  case True
  then have n: "6 + length conn \<le> 255" "6 \<le> 6 + length conn" using len by simp_all
  let ?hdr = "[of_nat (6 + length conn), 0xe0] @ u16_be_bytes 0 @ u16_be_bytes 0 @ [0]"
  have nth: "(?hdr @ conn) ! (length conn - 1) = conn ! (length conn - 8)" if "8 \<le> length conn"
    using that nth_append_length_plus [of ?hdr conn "length conn - 8"] by (simp del: of_nat_add)
  show ?thesis
    using True x224_li [OF n] clear nth
    by (auto simp: rdp_x224_parse_connection_request_def Let_def stream_rules request_view_def
        x224_request_pdu_def negotiation_lookalike_def RDP_X224_PROTOCOL_STANDARD_def
        no_negotiation_def nth_Cons' simp del: of_nat_add)
next
  case False
  then have n: "6 + length conn + 8 \<le> 255" "6 \<le> 6 + length conn + 8" using len by simp_all
  show ?thesis
    using False x224_li [OF n]
    by (simp add: rdp_x224_parse_connection_request_def Let_def stream_rules request_view_def
        x224_request_pdu_def no_negotiation_def nth_Cons' nth_append drop_Cons' del: of_nat_add)
qed

definition confirm_view :: "u8 \<Rightarrow> u32 \<Rightarrow> rdp_x224_connection_confirm" where
  "confirm_view t v =
     \<lparr>cc_destination_ref = 0, cc_source_ref = 0, cc_class_option = 0,
      cc_negotiation =
        (if t = 0 then no_negotiation
         else \<lparr>neg_present = True, neg_failure = (t = 3), neg_type = t, neg_flags = 0,
               neg_length = 8, neg_selected_protocol = (if t = 2 then v else 0),
               neg_failure_code = (if t = 2 then 0 else v)\<rparr>)\<rparr>"

lemma parse_confirm_pdu:
  assumes "t \<in> {0, 2, 3}"
  shows "rdp_x224_parse_connection_confirm (x224_confirm_pdu t v) = Inr (confirm_view t v)"
  using assms
  by (auto simp: rdp_x224_parse_connection_confirm_def x224_confirm_pdu_def stream_rules
      confirm_view_def Let_def)

interpretation x224_data: pdu_codec rdp_x224_wrap_data rdp_x224_parse_data
  "\<lambda>p. [0x02, 0xf0, 0x80] @ p" "\<lambda>p. p" "\<lambda>_. True"
  by unfold_locales (auto simp: rdp_x224_parse_data_def emits_wrap_data [simplified])

section \<open>Properties\<close>

text \<open>
  Connection request. For any cookie, routing token and requested protocols that fit the
  one-byte length indicator, the request that \<open>rdp_x224_build_connection_request_ex\<close> writes is parsed
  by \<open>rdp_x224_parse_connection_request\<close> into the same connection data and protocols; when no
  protocol is requested this needs that the connection data does not look like a negotiation block.
\<close>

lemma x224_request_roundtrip:
  fixes cookie routing
  defines "conn \<equiv> concat (x224_connection_data cookie routing)"
  assumes "length conn + (if protocols = 0 then 0 else 8) \<le> 249"
    and "protocols = 0 \<Longrightarrow> \<not> negotiation_lookalike conn"
  shows "transmits (rdp_x224_build_connection_request_ex cookie routing protocols)
    rdp_x224_parse_connection_request (request_view conn protocols)"
proof (rule transmitsI)
  show "emits (rdp_x224_build_connection_request_ex cookie routing protocols)
      (x224_request_pdu conn protocols)"
    using assms(2) unfolding conn_def by (rule emits_request)
  show "rdp_x224_parse_connection_request (x224_request_pdu conn protocols) =
      Inr (request_view conn protocols)"
    using assms(2,3) by (rule parse_request_pdu)
qed

text \<open>
  C24. Connection confirm and negotiation failure. The answer of the server, framed into a TPKT
  packet, reaches the client as written: deframing and parsing it, as the connect sequence of the
  client does, gives the selected protocol, the absence of a negotiation block, or the failure
  code.
\<close>

theorem x224_negotiation_through_tpkt:
  fixes parse :: "u8 list \<Rightarrow> rdp_x224_connection_confirm result"
  defines "parse \<equiv> \<lambda>reply. ebind (rdp_tpkt_parse reply)
             (\<lambda>packet. rdp_x224_parse_connection_confirm (tpkt_payload packet))"
  shows "transmits (rdp_x224_build_connection_confirm_ex protocol negotiated) parse
           (confirm_view (if negotiated then 2 else 0) protocol) \<and>
         transmits (rdp_x224_build_negotiation_failure code) parse (confirm_view 3 code)"
proof -
  have *: "transmits (via_local (rdp_x224_build_confirm_payload t v) rdp_tpkt_write) parse (confirm_view t v)"
    if "t \<in> {0, 2, 3}" for t v
  proof (rule transmitsI)
    show "emits (via_local (rdp_x224_build_confirm_payload t v) rdp_tpkt_write)
        (tpkt_frame (x224_confirm_pdu t v))"
      by (rule emits_via_local [OF emits_confirm tpkt.wr_emits]) simp_all
    show "parse (tpkt_frame (x224_confirm_pdu t v)) = Inr (confirm_view t v)"
      using tpkt_parse_frame [of "x224_confirm_pdu t v" "[]"] parse_confirm_pdu [OF that, of v]
      by (simp add: parse_def)
  qed
  show ?thesis
    using * [of 2 protocol] * [of 0 protocol] * [of 3 code]
    by (simp add: rdp_x224_build_connection_confirm_ex_def rdp_x224_build_negotiation_failure_def)
qed

end
