(* ===== verification/Mcs.thy ===== *)
theory Mcs
  imports Codec
begin

text \<open>
  MCS connect and channel PDUs, \<^verbatim>\<open>src/src/protocol/mcs.c\<close>: the aligned PER fields of the domain
  PDUs, the BER fields of the connect PDUs, the writers and the parsers. The recursive scan of
  the connect response is a recursion on the depth that the code bounds by 8 and on the bytes
  that remain.
\<close>

section \<open>Types and constants\<close>

record rdp_mcs_connect_response =
  resp_has_result :: bool
  resp_result :: u8
  resp_user_data :: "u8 list"
  resp_user_data_len :: nat

record rdp_mcs_connect_initial =
  init_user_data :: "u8 list"
  init_user_data_len :: nat

record rdp_mcs_attach_user_confirm =
  auc_result :: u8
  auc_user_id :: u16

record rdp_mcs_channel_join_confirm =
  cjc_result :: u8
  cjc_initiator :: u16
  cjc_requested_channel_id :: u16
  cjc_channel_id :: u16

record rdp_mcs_channel_join_request =
  cjr_initiator :: u16
  cjr_channel_id :: u16

record rdp_mcs_send_data_indication =
  sdi_initiator :: u16
  sdi_channel_id :: u16
  sdi_payload :: "u8 list"
  sdi_payload_len :: nat

definition RDP_MCS_BASE_CHANNEL_ID :: u16 where
  "RDP_MCS_BASE_CHANNEL_ID = 1001"

definition RDP_MCS_GLOBAL_CHANNEL_ID :: u16 where
  "RDP_MCS_GLOBAL_CHANNEL_ID = 1003"

definition RDP_MCS_MAX_PDU_SIZE :: u32 where
  "RDP_MCS_MAX_PDU_SIZE = 65528"

abbreviation "RDP_MCS_PDU_ERECT_DOMAIN_REQUEST \<equiv> (1 :: u8)"
abbreviation "RDP_MCS_DOMAIN_PDU_DISCONNECT_PROVIDER_ULTIMATUM \<equiv> (8 :: u8)"
abbreviation "RDP_MCS_PDU_ATTACH_USER_REQUEST \<equiv> (10 :: u8)"
abbreviation "RDP_MCS_PDU_ATTACH_USER_CONFIRM \<equiv> (11 :: u8)"
abbreviation "RDP_MCS_PDU_CHANNEL_JOIN_REQUEST \<equiv> (14 :: u8)"
abbreviation "RDP_MCS_PDU_CHANNEL_JOIN_CONFIRM \<equiv> (15 :: u8)"
abbreviation "RDP_MCS_PDU_SEND_DATA_INDICATION \<equiv> (26 :: u8)"

section \<open>PER fields\<close>

definition rdp_mcs_write_per_length :: "nat \<Rightarrow> writer" where
  "rdp_mcs_write_per_length n =
     (if n > 0x7fff then reject LIBRDP_STATUS_INVALID_ARGUMENT
      else if n > 0x7f then rdp_buffer_append_u16_be (of_nat n OR 0x8000)
      else rdp_buffer_append_u8 (of_nat n))"

definition rdp_mcs_read_per_length :: "nat reader" where
  "rdp_mcs_read_per_length stream =
     pbind (rdp_stream_read_u8 stream) (\<lambda>(first, stream).
       if first AND 0x80 = 0 then Inr (unat first, stream)
       else
         pbind (rdp_stream_read_u8 stream) (\<lambda>(second, stream).
           Inr (unat (push_bit 8 (ucast (first AND 0x7f) :: u16) OR ucast second), stream)))"

definition rdp_mcs_write_domain_choice :: "u8 \<Rightarrow> u8 \<Rightarrow> writer" where
  "rdp_mcs_write_domain_choice pdu_type options =
     (if pdu_type > 0x3f \<or> options > 0x03 then reject LIBRDP_STATUS_INVALID_ARGUMENT
      else rdp_buffer_append_u8 (push_bit 2 pdu_type OR options))"

definition rdp_mcs_read_domain_choice :: "u8 \<Rightarrow> u8 reader" where
  "rdp_mcs_read_domain_choice expected_type stream =
     pbind (rdp_stream_read_u8 stream) (\<lambda>(val, stream).
       if drop_bit 2 val \<noteq> expected_type then protocol_error
       else Inr (val AND 0x03, stream))"

definition rdp_mcs_write_per_integer :: "u32 \<Rightarrow> writer" where
  "rdp_mcs_write_per_integer v =
     (if v \<le> 0xff then run_writers [rdp_buffer_append_u8 1, rdp_buffer_append_u8 (ucast v)]
      else if v \<le> 0xffff then run_writers [rdp_buffer_append_u8 2, rdp_buffer_append_u16_be (ucast v)]
      else run_writers [rdp_buffer_append_u8 4, rdp_buffer_append_u32_be v])"

definition rdp_mcs_read_per_integer :: "u32 reader" where
  "rdp_mcs_read_per_integer stream =
     pbind (rdp_mcs_read_per_length stream) (\<lambda>(len, stream).
       if len = 1 then pbind (rdp_stream_read_u8 stream) (\<lambda>(v, stream). Inr (ucast v, stream))
       else if len = 2 then
         pbind (rdp_stream_read_u16_be stream) (\<lambda>(v, stream). Inr (ucast v, stream))
       else if len = 4 then
         pbind (rdp_stream_read_u32_be stream) (\<lambda>(v, stream). Inr (v, stream))
       else protocol_error)"

definition rdp_mcs_write_per_integer16 :: "u16 \<Rightarrow> u16 \<Rightarrow> writer" where
  "rdp_mcs_write_per_integer16 v lo =
     (if v < lo then reject LIBRDP_STATUS_INVALID_ARGUMENT
      else rdp_buffer_append_u16_be (v - lo))"

definition rdp_mcs_read_per_integer16 :: "u16 \<Rightarrow> u16 reader" where
  "rdp_mcs_read_per_integer16 lo stream =
     pbind (rdp_stream_read_u16_be stream) (\<lambda>(raw, stream).
       let decoded = (ucast raw :: u32) + ucast lo in
       if decoded > 0xffff then protocol_error else Inr (ucast decoded, stream))"

definition rdp_mcs_read_per_enum :: "u8 reader" where
  "rdp_mcs_read_per_enum stream = rdp_stream_read_u8 stream"

section \<open>BER fields\<close>

text \<open>The bytes of a length, most significant first, as the loop over \<^verbatim>\<open>tmp\<close> leaves them.\<close>

fun be_bytes :: "nat \<Rightarrow> u8 list" where
  "be_bytes v = (if v > 0 then be_bytes (v div 256) @ [of_nat (v mod 256)] else [])"

declare be_bytes.simps [simp del]

definition rdp_mcs_write_ber_length :: "nat \<Rightarrow> writer" where
  "rdp_mcs_write_ber_length n =
     (if n < 0x80 then rdp_buffer_append_u8 (of_nat n)
      else
        let tmp = be_bytes n in
        if length tmp > 0x7f then reject LIBRDP_STATUS_INVALID_ARGUMENT
        else run_writers
          (rdp_buffer_append_u8 (0x80 OR of_nat (length tmp)) # map rdp_buffer_append_u8 tmp))"

fun read_ber_bytes :: "nat \<Rightarrow> nat \<Rightarrow> nat reader" where
  "read_ber_bytes 0 val stream = Inr (val, stream)"
| "read_ber_bytes (Suc count) val stream =
     pbind (rdp_stream_read_u8 stream) (\<lambda>(byte, stream).
       read_ber_bytes count ((val * 256 + unat byte) mod 2 ^ 64) stream)"

definition rdp_mcs_read_ber_length :: "nat reader" where
  "rdp_mcs_read_ber_length stream =
     pbind (rdp_stream_read_u8 stream) (\<lambda>(first, stream).
       if first AND 0x80 = 0 then Inr (unat first, stream)
       else
         let count = unat (first AND 0x7f) in
         if count = 0 \<or> count > 8 \<or> rdp_stream_remaining stream < count then protocol_error
         else read_ber_bytes count 0 stream)"

definition rdp_mcs_write_ber_tag :: "u8 list \<Rightarrow> nat \<Rightarrow> writer" where
  "rdp_mcs_write_ber_tag tag n =
     (if tag = [] then reject LIBRDP_STATUS_INVALID_ARGUMENT
      else run_writers [rdp_buffer_append tag, rdp_mcs_write_ber_length n])"

text \<open>Leading zero bytes are dropped while the byte after them is below 128, up to the last one.\<close>

fun ber_significant :: "u8 list \<Rightarrow> u8 list" where
  "ber_significant (b0 # b1 # bs) =
     (if b0 = 0 \<and> b1 AND 0x80 = 0 then ber_significant (b1 # bs) else b0 # b1 # bs)"
| "ber_significant bs = bs"

definition rdp_mcs_write_ber_integer :: "u32 \<Rightarrow> writer" where
  "rdp_mcs_write_ber_integer v =
     (let bytes = ber_significant (u32_be_bytes v);
          tmp = (if hd bytes AND 0x80 \<noteq> 0 then 0 # bytes else bytes)
      in run_writers
        [rdp_buffer_append_u8 0x02,
         rdp_mcs_write_ber_length (length tmp),
         rdp_buffer_append tmp])"

definition rdp_mcs_write_ber_octet_string :: "u8 list \<Rightarrow> writer" where
  "rdp_mcs_write_ber_octet_string data =
     run_writers
       [rdp_buffer_append_u8 0x04,
        rdp_mcs_write_ber_length (length data),
        rdp_buffer_append data]"

definition rdp_mcs_read_ber_octet_string :: "u8 list reader" where
  "rdp_mcs_read_ber_octet_string stream =
     pbind (rdp_stream_read_u8 stream) (\<lambda>(tag, stream).
       if tag \<noteq> 0x04 then protocol_error
       else
         pbind (rdp_mcs_read_ber_length stream) (\<lambda>(len, stream).
           rdp_stream_read_bytes len stream))"

definition rdp_mcs_skip_ber_sequence :: "unit reader" where
  "rdp_mcs_skip_ber_sequence stream =
     pbind (rdp_stream_read_u8 stream) (\<lambda>(tag, stream).
       if tag \<noteq> 0x30 then protocol_error
       else
         pbind (rdp_mcs_read_ber_length stream) (\<lambda>(len, stream).
           rdp_stream_skip len stream))"

definition rdp_mcs_read_upward_flag :: "unit reader" where
  "rdp_mcs_read_upward_flag stream =
     pbind (rdp_stream_read_u8 stream) (\<lambda>(tag, stream).
       if tag \<noteq> 0x01 then protocol_error
       else
         pbind (rdp_mcs_read_ber_length stream) (\<lambda>(len, stream).
           if len \<noteq> 1 then protocol_error
           else
             pbind (rdp_stream_read_u8 stream) (\<lambda>(val, stream).
               if val = 0 then protocol_error else Inr ((), stream))))"

text \<open>\<^verbatim>\<open>tag[count++] = next\<close> up to a byte below 128, at most eight bytes in all.\<close>

fun read_ber_tag_tail :: "nat \<Rightarrow> u8 list \<Rightarrow> u8 list reader" where
  "read_ber_tag_tail 0 tag stream = protocol_error"
| "read_ber_tag_tail (Suc room) tag stream =
     pbind (rdp_stream_read_u8 stream) (\<lambda>(byte, stream).
       if byte AND 0x80 \<noteq> 0 then read_ber_tag_tail room (tag @ [byte]) stream
       else Inr (tag @ [byte], stream))"

definition rdp_mcs_read_ber_tag :: "(u8 list \<times> bool) reader" where
  "rdp_mcs_read_ber_tag stream =
     pbind (rdp_stream_read_u8 stream) (\<lambda>(first, stream).
       if first AND 0x1f = 0x1f then
         pbind (read_ber_tag_tail 7 [first] stream) (\<lambda>(tag, stream).
           Inr ((tag, first AND 0x20 \<noteq> 0), stream))
       else Inr (([first], first AND 0x20 \<noteq> 0), stream))"

section \<open>Connect PDUs\<close>

definition rdp_mcs_write_domain_parameters ::
    "u32 \<Rightarrow> u32 \<Rightarrow> u32 \<Rightarrow> u32 \<Rightarrow> u32 \<Rightarrow> u32 \<Rightarrow> u32 \<Rightarrow> u32 \<Rightarrow> writer" where
  "rdp_mcs_write_domain_parameters max_channels max_users max_tokens priorities
       min_throughput max_height max_pdu_size protocol_version =
     via_local
       (run_writers
         [rdp_mcs_write_ber_integer max_channels,
          rdp_mcs_write_ber_integer max_users,
          rdp_mcs_write_ber_integer max_tokens,
          rdp_mcs_write_ber_integer priorities,
          rdp_mcs_write_ber_integer min_throughput,
          rdp_mcs_write_ber_integer max_height,
          rdp_mcs_write_ber_integer max_pdu_size,
          rdp_mcs_write_ber_integer protocol_version])
       (\<lambda>body. run_writers [rdp_mcs_write_ber_tag [0x30] (length body), rdp_buffer_append body])"

definition rdp_mcs_write_connect_initial :: "u8 list \<Rightarrow> writer" where
  "rdp_mcs_write_connect_initial gcc_data =
     via_local
       (run_writers
         [rdp_mcs_write_ber_octet_string [0x01],
          rdp_mcs_write_ber_octet_string [0x01],
          rdp_buffer_append [0x01, 0x01, 0xff],
          rdp_mcs_write_domain_parameters 34 2 0 1 0 1 65535 2,
          rdp_mcs_write_domain_parameters 1 1 1 1 0 1 1056 2,
          rdp_mcs_write_domain_parameters 65535 64535 65535 1 0 1 65535 2,
          rdp_mcs_write_ber_octet_string gcc_data])
       (\<lambda>body. run_writers
         [rdp_mcs_write_ber_tag [0x7f, 0x65] (length body), rdp_buffer_append body])"

definition rdp_mcs_write_connect_response :: "u8 list \<Rightarrow> writer" where
  "rdp_mcs_write_connect_response gcc_data =
     via_local
       (run_writers
         [rdp_buffer_append_u8 0x0a,
          rdp_mcs_write_ber_length 1,
          rdp_buffer_append_u8 0,
          rdp_mcs_write_ber_integer 0,
          rdp_mcs_write_domain_parameters 34 3 0 1 0 1 RDP_MCS_MAX_PDU_SIZE 2,
          rdp_mcs_write_ber_octet_string gcc_data])
       (\<lambda>body. run_writers
         [rdp_mcs_write_ber_tag [0x7f, 0x66] (length body), rdp_buffer_append body])"

definition rdp_mcs_parse_connect_initial :: "u8 list \<Rightarrow> rdp_mcs_connect_initial result" where
  "rdp_mcs_parse_connect_initial data =
     pbind (rdp_stream_read_u8 (rdp_stream_init data)) (\<lambda>(tag0, stream).
     pbind (rdp_stream_read_u8 stream) (\<lambda>(tag1, stream).
     if tag0 \<noteq> 0x7f \<or> tag1 \<noteq> 0x65 then protocol_error
     else
       pbind (rdp_mcs_read_ber_length stream) (\<lambda>(body_len, stream).
       if body_len \<noteq> rdp_stream_remaining stream then protocol_error
       else
         pbind (rdp_mcs_read_ber_octet_string stream) (\<lambda>(ignored, stream).
         if length ignored = 0 then protocol_error else
         pbind (rdp_mcs_read_ber_octet_string stream) (\<lambda>(ignored, stream).
         if length ignored = 0 then protocol_error else
         pbind (rdp_mcs_read_upward_flag stream) (\<lambda>(_, stream).
         pbind (rdp_mcs_skip_ber_sequence stream) (\<lambda>(_, stream).
         pbind (rdp_mcs_skip_ber_sequence stream) (\<lambda>(_, stream).
         pbind (rdp_mcs_skip_ber_sequence stream) (\<lambda>(_, stream).
         pbind (rdp_mcs_read_ber_octet_string stream) (\<lambda>(user_data, stream).
         if length user_data = 0 \<or> rdp_stream_remaining stream \<noteq> 0 then protocol_error
         else Inr \<lparr>init_user_data = user_data, init_user_data_len = length user_data\<rparr>))))))))))"

text \<open>
  The scan of a connect response. The items of one level are read in order; \<open>n\<close> bounds the number
  of items (every item consumes at least two bytes, so the number of bytes of the level is enough) and
  \<open>depth\<close> counts down where the code counts up to 8. \<open>scan_fuel_enough\<close> below shows that the
  bound never cuts a scan short.
\<close>

fun scan_items :: "(u8 list \<Rightarrow> rdp_mcs_connect_response \<Rightarrow> rdp_mcs_connect_response result) \<Rightarrow>
    nat \<Rightarrow> rdp_stream \<Rightarrow> rdp_mcs_connect_response \<Rightarrow> rdp_mcs_connect_response result" where
  "scan_items nested n stream response =
     (if rdp_stream_remaining stream > 0 then
        (case n of 0 \<Rightarrow> Inl LIBRDP_STATUS_LIMIT_EXCEEDED
         | Suc n \<Rightarrow>
           pbind (rdp_mcs_read_ber_tag stream) (\<lambda>((tag, constructed), stream).
           pbind (rdp_mcs_read_ber_length stream) (\<lambda>(item_len, stream).
           if rdp_stream_remaining stream < item_len then protocol_error
           else
             pbind (rdp_stream_read_bytes item_len stream) (\<lambda>(payload, stream).
             if tag = [0x0a] \<and> item_len = 1 then
               scan_items nested n stream
                 (response\<lparr>resp_has_result := True, resp_result := payload ! 0\<rparr>)
             else if tag = [0x04] then
               scan_items nested n stream
                 (response\<lparr>resp_user_data := payload, resp_user_data_len := item_len\<rparr>)
             else if constructed then
               ebind (nested payload response) (\<lambda>response. scan_items nested n stream response)
             else scan_items nested n stream response))))
      else if resp_has_result response then Inr response else protocol_error)"

declare scan_items.simps [simp del]

fun rdp_mcs_scan_connect_response ::
    "nat \<Rightarrow> u8 list \<Rightarrow> rdp_mcs_connect_response \<Rightarrow> rdp_mcs_connect_response result" where
  "rdp_mcs_scan_connect_response 0 data response = protocol_error"
| "rdp_mcs_scan_connect_response (Suc depth) data response =
     scan_items (rdp_mcs_scan_connect_response depth) (length data) (rdp_stream_init data) response"

definition rdp_mcs_parse_connect_response :: "u8 list \<Rightarrow> rdp_mcs_connect_response result" where
  "rdp_mcs_parse_connect_response data =
     rdp_mcs_scan_connect_response 9 data
       \<lparr>resp_has_result = False, resp_result = 0, resp_user_data = [], resp_user_data_len = 0\<rparr>"

section \<open>Domain PDUs\<close>

definition rdp_mcs_write_erect_domain_request :: writer where
  "rdp_mcs_write_erect_domain_request =
     run_writers
       [rdp_mcs_write_domain_choice RDP_MCS_PDU_ERECT_DOMAIN_REQUEST 0,
        rdp_mcs_write_per_integer 0,
        rdp_mcs_write_per_integer 0]"

definition rdp_mcs_parse_erect_domain_request :: "u8 list \<Rightarrow> unit result" where
  "rdp_mcs_parse_erect_domain_request data =
     pbind (rdp_mcs_read_domain_choice RDP_MCS_PDU_ERECT_DOMAIN_REQUEST (rdp_stream_init data))
       (\<lambda>(_, stream).
     pbind (rdp_mcs_read_per_integer stream) (\<lambda>(sub_height, stream).
     pbind (rdp_mcs_read_per_integer stream) (\<lambda>(sub_interval, stream).
     if rdp_stream_remaining stream \<noteq> 0 then protocol_error else Inr ())))"

definition rdp_mcs_write_attach_user_request :: writer where
  "rdp_mcs_write_attach_user_request =
     rdp_mcs_write_domain_choice RDP_MCS_PDU_ATTACH_USER_REQUEST 0"

definition rdp_mcs_parse_attach_user_request :: "u8 list \<Rightarrow> unit result" where
  "rdp_mcs_parse_attach_user_request data =
     pbind (rdp_mcs_read_domain_choice RDP_MCS_PDU_ATTACH_USER_REQUEST (rdp_stream_init data))
       (\<lambda>(_, stream).
     if rdp_stream_remaining stream \<noteq> 0 then protocol_error else Inr ())"

definition rdp_mcs_write_attach_user_confirm :: "u16 \<Rightarrow> writer" where
  "rdp_mcs_write_attach_user_confirm user_id =
     (if user_id < RDP_MCS_BASE_CHANNEL_ID then reject LIBRDP_STATUS_INVALID_ARGUMENT
      else run_writers
        [rdp_mcs_write_domain_choice RDP_MCS_PDU_ATTACH_USER_CONFIRM 2,
         rdp_buffer_append_u8 0,
         rdp_mcs_write_per_integer16 user_id RDP_MCS_BASE_CHANNEL_ID])"

definition rdp_mcs_parse_attach_user_confirm :: "u8 list \<Rightarrow> rdp_mcs_attach_user_confirm result" where
  "rdp_mcs_parse_attach_user_confirm data =
     pbind (rdp_mcs_read_domain_choice RDP_MCS_PDU_ATTACH_USER_CONFIRM (rdp_stream_init data))
       (\<lambda>(options, stream).
     if options \<noteq> 2 then protocol_error
     else
       pbind (rdp_mcs_read_per_enum stream) (\<lambda>(res, stream).
       pbind (rdp_mcs_read_per_integer16 RDP_MCS_BASE_CHANNEL_ID stream) (\<lambda>(user_id, stream).
       if rdp_stream_remaining stream \<noteq> 0 then protocol_error
       else Inr \<lparr>auc_result = res, auc_user_id = user_id\<rparr>)))"

definition rdp_mcs_write_channel_join_request :: "u16 \<Rightarrow> u16 \<Rightarrow> writer" where
  "rdp_mcs_write_channel_join_request user_id channel_id =
     (if user_id < RDP_MCS_BASE_CHANNEL_ID then reject LIBRDP_STATUS_INVALID_ARGUMENT
      else run_writers
        [rdp_mcs_write_domain_choice RDP_MCS_PDU_CHANNEL_JOIN_REQUEST 0,
         rdp_mcs_write_per_integer16 user_id RDP_MCS_BASE_CHANNEL_ID,
         rdp_mcs_write_per_integer16 channel_id 0])"

definition rdp_mcs_parse_channel_join_request :: "u8 list \<Rightarrow> rdp_mcs_channel_join_request result" where
  "rdp_mcs_parse_channel_join_request data =
     pbind (rdp_mcs_read_domain_choice RDP_MCS_PDU_CHANNEL_JOIN_REQUEST (rdp_stream_init data))
       (\<lambda>(_, stream).
     pbind (rdp_mcs_read_per_integer16 RDP_MCS_BASE_CHANNEL_ID stream) (\<lambda>(initiator, stream).
     pbind (rdp_mcs_read_per_integer16 0 stream) (\<lambda>(channel_id, stream).
     if rdp_stream_remaining stream \<noteq> 0 then protocol_error
     else Inr \<lparr>cjr_initiator = initiator, cjr_channel_id = channel_id\<rparr>)))"

definition rdp_mcs_write_channel_join_confirm :: "u16 \<Rightarrow> u16 \<Rightarrow> writer" where
  "rdp_mcs_write_channel_join_confirm user_id requested_channel_id =
     (if user_id < RDP_MCS_BASE_CHANNEL_ID then reject LIBRDP_STATUS_INVALID_ARGUMENT
      else run_writers
        [rdp_mcs_write_domain_choice RDP_MCS_PDU_CHANNEL_JOIN_CONFIRM 2,
         rdp_buffer_append_u8 0,
         rdp_mcs_write_per_integer16 user_id RDP_MCS_BASE_CHANNEL_ID,
         rdp_mcs_write_per_integer16 requested_channel_id 0,
         rdp_mcs_write_per_integer16 requested_channel_id 0])"

definition rdp_mcs_parse_channel_join_confirm :: "u8 list \<Rightarrow> rdp_mcs_channel_join_confirm result" where
  "rdp_mcs_parse_channel_join_confirm data =
     pbind (rdp_mcs_read_domain_choice RDP_MCS_PDU_CHANNEL_JOIN_CONFIRM (rdp_stream_init data))
       (\<lambda>(options, stream).
     if options \<noteq> 2 then protocol_error
     else
       pbind (rdp_mcs_read_per_enum stream) (\<lambda>(res, stream).
       pbind (rdp_mcs_read_per_integer16 RDP_MCS_BASE_CHANNEL_ID stream) (\<lambda>(initiator, stream).
       pbind (rdp_mcs_read_per_integer16 0 stream) (\<lambda>(requested, stream).
       pbind (rdp_mcs_read_per_integer16 0 stream) (\<lambda>(channel_id, stream).
       if rdp_stream_remaining stream \<noteq> 0 then protocol_error
       else Inr \<lparr>cjc_result = res, cjc_initiator = initiator,
                 cjc_requested_channel_id = requested, cjc_channel_id = channel_id\<rparr>)))))"

definition rdp_mcs_parse_send_data_common ::
    "u8 \<Rightarrow> u8 list \<Rightarrow> rdp_mcs_send_data_indication result" where
  "rdp_mcs_parse_send_data_common pdu_type data =
     pbind (rdp_mcs_read_domain_choice pdu_type (rdp_stream_init data)) (\<lambda>(_, stream).
     pbind (rdp_mcs_read_per_integer16 RDP_MCS_BASE_CHANNEL_ID stream) (\<lambda>(initiator, stream).
     pbind (rdp_mcs_read_per_integer16 0 stream) (\<lambda>(channel_id, stream).
     pbind (rdp_mcs_read_per_enum stream) (\<lambda>(ignored, stream).
     pbind (rdp_mcs_read_per_length stream) (\<lambda>(payload_len, stream).
     if payload_len = 0 \<or> payload_len > rdp_stream_remaining stream then protocol_error
     else
       pbind (rdp_stream_read_bytes payload_len stream) (\<lambda>(payload, stream).
       Inr \<lparr>sdi_initiator = initiator, sdi_channel_id = channel_id,
            sdi_payload = payload, sdi_payload_len = payload_len\<rparr>))))))"

definition rdp_mcs_parse_send_data_request :: "u8 list \<Rightarrow> rdp_mcs_send_data_indication result" where
  "rdp_mcs_parse_send_data_request data = rdp_mcs_parse_send_data_common 25 data"

definition rdp_mcs_parse_send_data_indication :: "u8 list \<Rightarrow> rdp_mcs_send_data_indication result" where
  "rdp_mcs_parse_send_data_indication data =
     rdp_mcs_parse_send_data_common RDP_MCS_PDU_SEND_DATA_INDICATION data"

definition rdp_mcs_write_send_data_indication :: "u16 \<Rightarrow> u16 \<Rightarrow> u8 list \<Rightarrow> writer" where
  "rdp_mcs_write_send_data_indication user_id channel_id payload =
     (if user_id < RDP_MCS_BASE_CHANNEL_ID \<or> length payload > 0x7fff
      then reject LIBRDP_STATUS_INVALID_ARGUMENT
      else run_writers
        [rdp_mcs_write_domain_choice RDP_MCS_PDU_SEND_DATA_INDICATION 0,
         rdp_mcs_write_per_integer16 user_id RDP_MCS_BASE_CHANNEL_ID,
         rdp_mcs_write_per_integer16 channel_id 0,
         rdp_buffer_append_u8 0x70,
         rdp_mcs_write_per_length (length payload),
         rdp_buffer_append payload])"

definition rdp_mcs_parse_disconnect_provider_ultimatum :: "u8 list \<Rightarrow> u8 result" where
  "rdp_mcs_parse_disconnect_provider_ultimatum data =
     (if length data \<noteq> 2 \<or>
         drop_bit 2 (data ! 0) \<noteq> RDP_MCS_DOMAIN_PDU_DISCONNECT_PROVIDER_ULTIMATUM \<or>
         data ! 0 AND 0x02 \<noteq> 0 \<or> data ! 1 AND 0x7f \<noteq> 0 then protocol_error
      else Inr (push_bit 1 (data ! 0 AND 0x01) OR drop_bit 7 (data ! 1)))"

section \<open>PER fields are codecs\<close>

definition per_length_bytes :: "nat \<Rightarrow> u8 list" where
  "per_length_bytes n = (if n > 0x7f then u16_be_bytes (of_nat n OR 0x8000) else [of_nat n])"

lemma per_length_read:
  assumes "n \<le> 0x7fff"
  shows "rdp_mcs_read_per_length (strm pre (per_length_bytes n @ r)) =
    Inr (n, strm (pre @ per_length_bytes n) r)"
proof (cases "n > 0x7f")
  case True
  define w where "w = (of_nat n :: u16)"
  obtain f g where fg: "u16_be_bytes (w OR 0x8000) = [f, g]"
    using length_2_conv [of "u16_be_bytes (w OR 0x8000)"] by auto
  have n: "unat w = n" unfolding w_def by (rule unat_of_nat_u16) (use assms in simp)
  have top: "\<not> bit w 15" unfolding w_def by (rule bit_of_nat_high [of _ 15]) (use assms in simp_all)
  have w: "w OR 0x8000 = be16 f g"
    using fg be16_u16_be_bytes [of "w OR 0x8000"] by simp
  have f: "bit f 7"
  proof -
    have "bit (w OR 0x8000) 15" by (simp add: bit_or_iff mask_simps)
    then show ?thesis unfolding w be16_def by (auto simp: bit_simps dest: bit_imp_le_length)
  qed
  have "push_bit 8 (ucast (f AND 0x7f) :: u16) OR ucast g = w"
  proof (rule bit_word_eqI)
    fix k assume "k < LENGTH(16)"
    moreover have "bit (w OR 0x8000) k = bit (be16 f g) k" using w by simp
    ultimately show "bit (push_bit 8 (ucast (f AND 0x7f) :: u16) OR ucast g) k = bit w k"
      using top by (cases "k = 15") (auto simp: be16_def bit_simps mask_simps bit_u8_high)
  qed
  then show ?thesis
    using True fg f n
    by (simp add: per_length_bytes_def rdp_mcs_read_per_length_def stream_rules mask_simps flip: w_def)
next
  case False
  then have "unat (of_nat n :: u8) = n" "\<not> bit (of_nat n :: u8) 7"
    by (simp_all add: unat_of_nat_u8 bit_of_nat_high [of _ 7])
  then show ?thesis
    using False
    by (simp add: per_length_bytes_def rdp_mcs_read_per_length_def stream_rules mask_simps)
qed

lemma emits_per_length [emits_rules]:
  "n \<le> 0x7fff \<Longrightarrow> emits (rdp_mcs_write_per_length n) (per_length_bytes n)"
  by (auto simp: rdp_mcs_write_per_length_def per_length_bytes_def intro!: emits_rules)

interpretation per_length: wire_codec rdp_mcs_write_per_length rdp_mcs_read_per_length
  per_length_bytes "\<lambda>n. n \<le> 0x7fff"
  by unfold_locales (simp_all add: emits_per_length per_length_read)

lemma per_length_first: "n \<le> 0x7f \<Longrightarrow> per_length_bytes n = [of_nat n]"
  by (simp add: per_length_bytes_def)

definition per_integer_bytes :: "u32 \<Rightarrow> u8 list" where
  "per_integer_bytes v =
     (if v \<le> 0xff then [1, ucast v]
      else if v \<le> 0xffff then 2 # u16_be_bytes (ucast v)
      else 4 # u32_be_bytes v)"

lemma per_integer_read:
  "rdp_mcs_read_per_integer (strm pre (per_integer_bytes v @ r)) =
    Inr (v, strm (pre @ per_integer_bytes v) r)"
proof -
  have one: "rdp_mcs_read_per_length (strm pre (k # r')) = Inr (unat k, strm (pre @ [k]) r')"
    if "\<not> bit k 7" for k r'
    using that by (simp add: rdp_mcs_read_per_length_def stream_rules mask_simps)
  have "\<not> bit (1 :: u8) 7" "\<not> bit (2 :: u8) 7" "\<not> bit (4 :: u8) 7" by simp_all
  note lens = this [THEN one]
  have "ucast (ucast v :: u8) = v" if "v \<le> 0xff"
    using that by (intro ucast_ucast_small) (simp add: word_le_nat_alt)
  moreover have "ucast (ucast v :: u16) = v" if "v \<le> 0xffff"
    using that by (intro ucast_ucast_small) (simp add: word_le_nat_alt)
  ultimately show ?thesis
    by (simp add: per_integer_bytes_def rdp_mcs_read_per_integer_def lens stream_rules)
qed

lemma emits_per_integer [emits_rules]: "emits (rdp_mcs_write_per_integer v) (per_integer_bytes v)"
  by (auto simp: rdp_mcs_write_per_integer_def per_integer_bytes_def intro!: emits_rules)

interpretation per_integer: wire_codec rdp_mcs_write_per_integer rdp_mcs_read_per_integer
  per_integer_bytes "\<lambda>_. True"
  by unfold_locales (simp_all add: emits_per_integer per_integer_read)

lemma per_integer16_read:
  assumes "lo \<le> v"
  shows "rdp_mcs_read_per_integer16 lo (strm pre (u16_be_bytes (v - lo) @ r)) =
    Inr (v, strm (pre @ u16_be_bytes (v - lo)) r)"
proof -
  have d: "(ucast (v - lo) :: u32) + ucast lo = ucast v"
  proof (rule word_unat_eqI)
    have "unat (v - lo) + unat lo = unat v" using assms by (simp add: unat_sub word_le_nat_alt)
    then show "unat ((ucast (v - lo) :: u32) + ucast lo) = unat (ucast v :: u32)"
      using unat_bounds(2) [of v]
      by (simp add: unat_word_ariths unsigned_ucast_eq take_bit_nat_eq_self)
  qed
  have "\<not> (ucast v :: u32) > 0xffff"
    using unat_bounds(2) [of v]
    by (simp add: word_less_nat_alt unsigned_ucast_eq take_bit_nat_eq_self)
  moreover have "ucast (ucast v :: u32) = v"
    by (rule ucast_ucast_small) (use unat_bounds(2) [of v] in simp)
  ultimately show ?thesis
    using d by (simp add: rdp_mcs_read_per_integer16_def stream_rules)
qed

lemma emits_per_integer16 [emits_rules]:
  "lo \<le> v \<Longrightarrow> emits (rdp_mcs_write_per_integer16 v lo) (u16_be_bytes (v - lo))"
  by (auto simp: rdp_mcs_write_per_integer16_def intro!: emits_rules)

lemma per_integer16_exact:
  assumes "rdp_mcs_read_per_integer16 lo (strm pre bs) = Inr (v, s)"
  shows "lo \<le> v \<and> (\<exists>r. bs = u16_be_bytes (v - lo) @ r \<and> s = strm (pre @ u16_be_bytes (v - lo)) r)"
proof -
  from assms obtain raw r where raw: "bs = u16_be_bytes raw @ r" "s = strm (pre @ u16_be_bytes raw) r"
    and le: "(ucast raw :: u32) + ucast lo \<le> 0xffff" and v: "v = ucast ((ucast raw :: u32) + ucast lo)"
    by (auto simp: rdp_mcs_read_per_integer16_def accepts Let_def)
  have sum: "unat ((ucast raw :: u32) + ucast lo) = unat raw + unat lo"
    using unat_bounds(2) [of raw] unat_bounds(2) [of lo]
    by (simp add: unat_word_ariths unsigned_ucast_eq take_bit_nat_eq_self)
  then have "unat v = unat raw + unat lo"
    using le v by (simp add: word_le_nat_alt unsigned_ucast_eq take_bit_nat_eq_self)
  then have "lo \<le> v" and "v - lo = raw"
    by (auto simp: word_le_nat_alt intro!: word_unat_eqI simp: unat_sub)
  with raw show ?thesis by auto
qed

interpretation per_integer16: exact_codec "\<lambda>v. rdp_mcs_write_per_integer16 v lo"
  "rdp_mcs_read_per_integer16 lo" "\<lambda>v. u16_be_bytes (v - lo)" "\<lambda>v. lo \<le> v" for lo
  by unfold_locales (simp_all add: emits_per_integer16 per_integer16_read per_integer16_exact)

definition domain_choice_byte :: "u8 \<Rightarrow> u8 \<Rightarrow> u8" where
  "domain_choice_byte t opt = push_bit 2 t OR opt"

lemma emits_domain_choice [emits_rules]:
  "t \<le> 0x3f \<Longrightarrow> opt \<le> 3 \<Longrightarrow> emits (rdp_mcs_write_domain_choice t opt) [domain_choice_byte t opt]"
  by (auto simp: rdp_mcs_write_domain_choice_def domain_choice_byte_def not_less intro!: emits_rules)

lemma domain_choice_read [stream_rules]:
  assumes "t \<le> 0x3f" and "opt \<le> 3"
  shows "rdp_mcs_read_domain_choice t (strm pre (domain_choice_byte t opt # r)) =
    Inr (opt, strm (pre @ [domain_choice_byte t opt]) r)"
proof -
  have t: "\<not> bit t k" if "6 \<le> k" for k
    by (rule bit_high_of_less [of _ 6]) (use assms(1) that in \<open>simp_all add: word_le_nat_alt\<close>)
  have o: "\<not> bit opt k" if "2 \<le> k" for k
    by (rule bit_high_of_less [of _ 2]) (use assms(2) that in \<open>simp_all add: word_le_nat_alt\<close>)
  have "drop_bit 2 (domain_choice_byte t opt) = t"
    by (rule bit_word_eqI)
      (use t in \<open>auto simp: domain_choice_byte_def bit_simps o not_le [symmetric]\<close>)
  moreover have "domain_choice_byte t opt AND 0x03 = opt"
    unfolding domain_choice_byte_def mask_simps
    by (rule bit_word_eqI) (use o in \<open>auto simp: bit_simps not_le [symmetric]\<close>)
  ultimately show ?thesis
    by (simp add: rdp_mcs_read_domain_choice_def stream_rules)
qed

section \<open>BER fields are codecs\<close>

definition ber_length_bytes :: "nat \<Rightarrow> u8 list" where
  "ber_length_bytes n =
     (if n < 0x80 then [of_nat n] else (0x80 OR of_nat (length (be_bytes n))) # be_bytes n)"

abbreviation be_val :: "nat \<Rightarrow> u8 list \<Rightarrow> nat" where
  "be_val \<equiv> foldl (\<lambda>v b. v * 256 + unat b)"

lemma be_val_be_bytes: "be_val 0 (be_bytes n) = n"
proof (induction n rule: be_bytes.induct)
  case (1 n)
  then show ?case by (subst be_bytes.simps) (simp add: unat_of_nat_u8)
qed

lemma length_be_bytes: "n < 256 ^ k \<Longrightarrow> length (be_bytes n) \<le> k"
proof (induction n arbitrary: k rule: be_bytes.induct)
  case (1 n)
  show ?case
  proof (cases "n = 0")
    case False
    then obtain j where k: "k = Suc j" using "1.prems" by (cases k) auto
    then have "n div 256 < 256 ^ j" using "1.prems" by (simp add: less_mult_imp_div_less mult.commute)
    from "1.IH" [OF _ this] show ?thesis
      using False k by (subst be_bytes.simps) simp
  qed (subst be_bytes.simps, simp)
qed

lemma be_bytes_nonempty: "0 < n \<Longrightarrow> be_bytes n \<noteq> []"
  by (subst be_bytes.simps) simp

lemma be_val_mod:
  "foldl (\<lambda>v b. (v * 256 + unat b) mod 2 ^ 64) (v mod 2 ^ 64) bs = be_val v bs mod 2 ^ 64"
proof (induction bs arbitrary: v)
  case (Cons b bs)
  have "(v mod 2 ^ 64 * 256 + unat b) mod 2 ^ 64 = (v * 256 + unat b) mod 2 ^ 64"
    by (metis mod_add_left_eq mod_mult_left_eq)
  with Cons [of "v * 256 + unat b"] show ?case by (simp only: foldl_Cons)
qed simp

lemma read_ber_bytes_strm:
  "read_ber_bytes (length bs) v (strm pre (bs @ r)) =
     Inr (foldl (\<lambda>v b. (v * 256 + unat b) mod 2 ^ 64) v bs, strm (pre @ bs) r)"
  by (induction bs arbitrary: pre v) (simp_all add: stream_rules)

lemma ber_length_read:
  assumes "n \<le> SIZE_MAX"
  shows "rdp_mcs_read_ber_length (strm pre (ber_length_bytes n @ r)) =
    Inr (n, strm (pre @ ber_length_bytes n) r)"
proof (cases "n < 0x80")
  case True
  then have "unat (of_nat n :: u8) = n" "\<not> bit (of_nat n :: u8) 7"
    by (simp_all add: unat_of_nat_u8 bit_of_nat_high [of _ 7])
  with True show ?thesis
    by (simp add: ber_length_bytes_def rdp_mcs_read_ber_length_def stream_rules mask_simps)
next
  case False
  define k where "k = length (be_bytes n)"
  have n: "n < 256 ^ 8" using assms by (simp add: SIZE_MAX_def)
  have k: "0 < k" "k \<le> 8"
    using be_bytes_nonempty [of n] length_be_bytes [OF n] False by (auto simp: k_def)
  have top: "bit (0x80 OR of_nat k :: u8) 7" by (simp add: bit_or_iff mask_simps)
  have cnt: "unat ((0x80 OR of_nat k :: u8) AND 0x7f) = k"
  proof -
    have hi: "\<not> bit (of_nat k :: u8) j" if "7 \<le> j" for j
      by (rule bit_of_nat_high [of _ 7]) (use k that in simp_all)
    have "(0x80 OR of_nat k :: u8) AND 0x7f = of_nat k"
      unfolding mask_simps
      by (rule bit_word_eqI) (use hi in \<open>auto simp: bit_or_iff bit_take_bit_iff mask_simps not_le [symmetric]\<close>)
    then show ?thesis using k by (simp add: unat_of_nat_u8)
  qed
  have val: "foldl (\<lambda>v b. (v * 256 + unat b) mod 2 ^ 64) 0 (be_bytes n) = n"
    using be_val_mod [of 0 "be_bytes n"] n by (simp add: be_val_be_bytes)
  show ?thesis
    using False top cnt k read_ber_bytes_strm [of "be_bytes n" 0] val
    by (simp add: ber_length_bytes_def rdp_mcs_read_ber_length_def stream_rules mask_simps
        flip: k_def)
qed

lemma emits_ber_length [emits_rules]:
  assumes "n \<le> SIZE_MAX"
  shows "emits (rdp_mcs_write_ber_length n) (ber_length_bytes n)"
proof -
  have "length (be_bytes n) \<le> 8"
    using assms by (intro length_be_bytes) (simp add: SIZE_MAX_def)
  moreover have "emits (run_writers (map rdp_buffer_append_u8 bs)) bs" for bs
    by (induction bs) (auto simp del: run_writers.simps intro!: emits_rules)
  ultimately show ?thesis
    by (auto simp: rdp_mcs_write_ber_length_def ber_length_bytes_def Let_def intro!: emits_rules)
qed

interpretation ber_length: wire_codec rdp_mcs_write_ber_length rdp_mcs_read_ber_length
  ber_length_bytes "\<lambda>n. n \<le> SIZE_MAX"
  by unfold_locales (simp_all add: emits_ber_length ber_length_read)

definition ber_octet_string :: "u8 list \<Rightarrow> u8 list" where
  "ber_octet_string d = 0x04 # ber_length_bytes (length d) @ d"

lemma ber_octet_string_read:
  "length d \<le> SIZE_MAX \<Longrightarrow> rdp_mcs_read_ber_octet_string (strm pre (ber_octet_string d @ r)) =
    Inr (d, strm (pre @ ber_octet_string d) r)"
  by (simp add: rdp_mcs_read_ber_octet_string_def ber_octet_string_def stream_rules ber_length_read)

lemma emits_ber_octet_string [emits_rules]:
  "length d \<le> SIZE_MAX \<Longrightarrow> emits (rdp_mcs_write_ber_octet_string d) (ber_octet_string d)"
  by (auto simp: rdp_mcs_write_ber_octet_string_def ber_octet_string_def intro!: emits_rules)

interpretation ber_octet_string: wire_codec rdp_mcs_write_ber_octet_string
  rdp_mcs_read_ber_octet_string ber_octet_string "\<lambda>d. length d \<le> SIZE_MAX"
  by unfold_locales (simp_all add: emits_ber_octet_string ber_octet_string_read)

text \<open>The content octets of an INTEGER: shortest, with a clear sign bit, of the right value.\<close>

definition ber_integer_octets :: "u32 \<Rightarrow> u8 list" where
  "ber_integer_octets v =
     (let bytes = ber_significant (u32_be_bytes v)
      in if hd bytes AND 0x80 \<noteq> 0 then 0 # bytes else bytes)"

lemma ber_significant_value: "be_val 0 (ber_significant bs) = be_val 0 bs"
  by (induction bs rule: ber_significant.induct) auto

lemma ber_significant_shape:
  "bs \<noteq> [] \<Longrightarrow> ber_significant bs \<noteq> [] \<and> length (ber_significant bs) \<le> length bs \<and>
    (\<forall>b0 b1 r. ber_significant bs = b0 # b1 # r \<longrightarrow> b0 = 0 \<longrightarrow> b1 AND 0x80 \<noteq> 0)"
  by (induction bs rule: ber_significant.induct) auto

lemma be_val_u32_be_bytes: "be_val 0 (u32_be_bytes v) = unat v"
proof -
  obtain a b c d where bs: "u32_be_bytes v = [a, b, c, d]"
    using length_4_conv [of "u32_be_bytes v"] by auto
  then have v: "v = be32 a b c d" using be32_u32_be_bytes [of v] by simp
  have "unat (be32 a b c d) = ((unat a * 256 + unat b) * 256 + unat c) * 256 + unat d"
    by (rule unat_be32)
  with bs v show ?thesis by simp
qed

lemma ber_integer_octets_spec:
  "be_val 0 (ber_integer_octets v) = unat v"
  "ber_integer_octets v \<noteq> []" "\<not> bit (hd (ber_integer_octets v)) 7"
  "ber_integer_octets v = 0 # b1 # r \<Longrightarrow> bit b1 7"
  "length (ber_integer_octets v) \<le> 5"
proof -
  define s where "s = ber_significant (u32_be_bytes v)"
  have ne: "u32_be_bytes v \<noteq> []" by (simp add: u32_be_bytes_def)
  note shape = ber_significant_shape [OF ne, folded s_def]
  have val: "be_val 0 s = unat v" by (simp add: s_def ber_significant_value be_val_u32_be_bytes)
  have o: "ber_integer_octets v = (if hd s AND 0x80 \<noteq> 0 then 0 # s else s)"
    by (simp add: ber_integer_octets_def s_def Let_def)
  show "be_val 0 (ber_integer_octets v) = unat v" using o val by simp
  show "ber_integer_octets v \<noteq> []" "\<not> bit (hd (ber_integer_octets v)) 7"
    using o shape by (auto simp: mask_simps)
  show "ber_integer_octets v = 0 # b1 # r \<Longrightarrow> bit b1 7"
    using o shape by (auto simp: mask_simps split: if_splits)
  show "length (ber_integer_octets v) \<le> 5" using o shape by simp
qed

definition ber_integer_bytes :: "u32 \<Rightarrow> u8 list" where
  "ber_integer_bytes v = 0x02 # ber_length_bytes (length (ber_integer_octets v)) @ ber_integer_octets v"

lemma ber_length_short: "n < 0x80 \<Longrightarrow> ber_length_bytes n = [of_nat n]"
  by (simp add: ber_length_bytes_def)

lemma length_ber_length_bytes: "n \<le> SIZE_MAX \<Longrightarrow> length (ber_length_bytes n) \<le> 9"
  using length_be_bytes [of n 8] by (simp add: ber_length_bytes_def SIZE_MAX_def)

lemma length_ber_integer_bytes: "length (ber_integer_bytes v) \<le> 7"
  using ber_integer_octets_spec(5) [of v] by (simp add: ber_integer_bytes_def ber_length_short)

lemma emits_ber_integer [emits_rules]: "emits (rdp_mcs_write_ber_integer v) (ber_integer_bytes v)"
proof -
  have "length (ber_integer_octets v) \<le> SIZE_MAX"
    using ber_integer_octets_spec(5) [of v] by (simp add: SIZE_MAX_def)
  moreover have "rdp_mcs_write_ber_integer v = run_writers
        [rdp_buffer_append_u8 0x02, rdp_mcs_write_ber_length (length (ber_integer_octets v)),
         rdp_buffer_append (ber_integer_octets v)]"
    by (simp add: rdp_mcs_write_ber_integer_def ber_integer_octets_def Let_def)
  ultimately show ?thesis by (auto simp: ber_integer_bytes_def intro!: emits_rules)
qed

definition ber_sequence :: "u8 list \<Rightarrow> u8 list" where
  "ber_sequence body = 0x30 # ber_length_bytes (length body) @ body"

definition domain_parameters :: "u32 list \<Rightarrow> u8 list" where
  "domain_parameters vs = ber_sequence (concat (map ber_integer_bytes vs))"

lemma length_concat_bounded: "(\<And>x. length (f x) \<le> k) \<Longrightarrow> length (concat (map f xs)) \<le> k * length xs"
  by (induction xs) (auto simp: add_mono)

lemma length_domain_parameters:
  "length vs \<le> 8 \<Longrightarrow> length (domain_parameters vs) \<le> 58"
  using length_concat_bounded [of ber_integer_bytes 7 vs] length_ber_integer_bytes
  by (simp add: domain_parameters_def ber_sequence_def ber_length_short)

lemma emits_ber_tag [emits_rules]:
  "tag \<noteq> [] \<Longrightarrow> n \<le> SIZE_MAX \<Longrightarrow> emits (rdp_mcs_write_ber_tag tag n) (tag @ ber_length_bytes n)"
  by (auto simp: rdp_mcs_write_ber_tag_def intro!: emits_rules)

lemma emits_domain_parameters [emits_rules]:
  "emits (rdp_mcs_write_domain_parameters a b c d e f g h) (domain_parameters [a, b, c, d, e, f, g, h])"
proof -
  let ?body = "concat (map ber_integer_bytes [a, b, c, d, e, f, g, h])"
  have "length ?body \<le> SIZE_MAX"
    using length_concat_bounded [of ber_integer_bytes 7 "[a, b, c, d, e, f, g, h]"]
      length_ber_integer_bytes by (simp add: SIZE_MAX_def)
  then show ?thesis
    unfolding rdp_mcs_write_domain_parameters_def domain_parameters_def ber_sequence_def
    by (intro emits_via_local [of _ ?body]) (auto intro!: emits_rules)
qed

section \<open>The connect PDUs\<close>

definition connect_initial_body :: "u8 list \<Rightarrow> u8 list" where
  "connect_initial_body gcc =
     ber_octet_string [1] @ ber_octet_string [1] @ [0x01, 0x01, 0xff] @
     domain_parameters [34, 2, 0, 1, 0, 1, 65535, 2] @
     domain_parameters [1, 1, 1, 1, 0, 1, 1056, 2] @
     domain_parameters [65535, 64535, 65535, 1, 0, 1, 65535, 2] @ ber_octet_string gcc"

definition connect_initial_pdu :: "u8 list \<Rightarrow> u8 list" where
  "connect_initial_pdu gcc =
     [0x7f, 0x65] @ ber_length_bytes (length (connect_initial_body gcc)) @ connect_initial_body gcc"

definition connect_response_body :: "u8 list \<Rightarrow> u8 list" where
  "connect_response_body gcc =
     [0x0a] @ ber_length_bytes 1 @ [0] @ ber_integer_bytes 0 @
     domain_parameters [34, 3, 0, 1, 0, 1, RDP_MCS_MAX_PDU_SIZE, 2] @ ber_octet_string gcc"

definition connect_response_pdu :: "u8 list \<Rightarrow> u8 list" where
  "connect_response_pdu gcc =
     [0x7f, 0x66] @ ber_length_bytes (length (connect_response_body gcc)) @ connect_response_body gcc"

lemma length_connect_bodies:
  assumes "length gcc \<le> 2 ^ 62"
  shows "length (connect_initial_body gcc) \<le> length gcc + 256"
    and "length (connect_response_body gcc) \<le> length gcc + 256"
proof -
  have "length (ber_length_bytes (length gcc)) \<le> 9"
    using assms by (intro length_ber_length_bytes) (simp add: SIZE_MAX_def)
  then have g: "length (ber_octet_string gcc) \<le> length gcc + 10" by (simp add: ber_octet_string_def)
  have d: "length (domain_parameters [a, b, c, d, e, f, g, h]) \<le> 58" for a b c d e f g h
    by (rule length_domain_parameters) simp
  note ds = d [of 34 2 0 1 0 1 65535 2] d [of 1 1 1 1 0 1 1056 2]
    d [of 65535 64535 65535 1 0 1 65535 2] d [of 34 3 0 1 0 1 RDP_MCS_MAX_PDU_SIZE 2]
  show "length (connect_initial_body gcc) \<le> length gcc + 256"
    using g ds by (simp add: connect_initial_body_def ber_octet_string_def ber_length_short)
  show "length (connect_response_body gcc) \<le> length gcc + 256"
    using g ds length_ber_integer_bytes [of 0] by (simp add: connect_response_body_def ber_length_short)
qed

lemma emits_connect_initial:
  assumes "length gcc \<le> 2 ^ 62"
  shows "emits (rdp_mcs_write_connect_initial gcc) (connect_initial_pdu gcc)"
proof -
  have n: "length (connect_initial_body gcc) \<le> SIZE_MAX" "length gcc \<le> SIZE_MAX"
    using length_connect_bodies [OF assms] assms by (simp_all add: SIZE_MAX_def)
  show ?thesis
    unfolding rdp_mcs_write_connect_initial_def connect_initial_pdu_def
    by (rule emits_via_local [of _ "connect_initial_body gcc"])
      (auto simp: connect_initial_body_def SIZE_MAX_def n [unfolded connect_initial_body_def SIZE_MAX_def, simplified]
        intro!: emits_rules)
qed

lemma emits_connect_response:
  assumes "length gcc \<le> 2 ^ 62"
  shows "emits (rdp_mcs_write_connect_response gcc) (connect_response_pdu gcc)"
proof -
  have n: "length (connect_response_body gcc) \<le> SIZE_MAX" "length gcc \<le> SIZE_MAX"
    using length_connect_bodies [OF assms] assms by (simp_all add: SIZE_MAX_def)
  show ?thesis
    unfolding rdp_mcs_write_connect_response_def connect_response_pdu_def
    by (rule emits_via_local [of _ "connect_response_body gcc"])
      (auto simp: connect_response_body_def SIZE_MAX_def
        n [unfolded connect_response_body_def SIZE_MAX_def, simplified] intro!: emits_rules)
qed

lemma skip_ber_sequence_read:
  "length body \<le> SIZE_MAX \<Longrightarrow>
    rdp_mcs_skip_ber_sequence (strm pre (ber_sequence body @ r)) =
      Inr ((), strm (pre @ ber_sequence body) r)"
  by (simp add: rdp_mcs_skip_ber_sequence_def ber_sequence_def stream_rules ber_length_read)

lemma skip_domain_parameters:
  "length vs \<le> 8 \<Longrightarrow>
    rdp_mcs_skip_ber_sequence (strm pre (domain_parameters vs @ r)) =
      Inr ((), strm (pre @ domain_parameters vs) r)"
  using length_concat_bounded [of ber_integer_bytes 7 vs] length_ber_integer_bytes
  by (simp add: domain_parameters_def skip_ber_sequence_read SIZE_MAX_def)

lemma upward_flag_read:
  "rdp_mcs_read_upward_flag (strm pre (0x01 # 0x01 # 0xff # r)) =
    Inr ((), strm (pre @ [0x01, 0x01, 0xff]) r)"
  by (simp add: rdp_mcs_read_upward_flag_def rdp_mcs_read_ber_length_def stream_rules)

lemma parse_connect_initial_pdu:
  assumes "length gcc \<le> 2 ^ 62" and "gcc \<noteq> []"
  shows "rdp_mcs_parse_connect_initial (connect_initial_pdu gcc) =
    Inr \<lparr>init_user_data = gcc, init_user_data_len = length gcc\<rparr>"
proof -
  have n: "length (connect_initial_body gcc) \<le> SIZE_MAX" "length gcc \<le> SIZE_MAX"
    using length_connect_bodies [OF assms(1)] assms(1) by (simp_all add: SIZE_MAX_def)
  note octets = ber_octet_string_read [OF n(2), of _ "[]", simplified]
    ber_octet_string_read [of "[1]", unfolded SIZE_MAX_def, simplified]
  have hd: "rdp_mcs_parse_connect_initial (connect_initial_pdu gcc) =
      pbind (rdp_mcs_read_ber_octet_string
          (strm ([0x7f, 0x65] @ ber_length_bytes (length (connect_initial_body gcc)))
            (connect_initial_body gcc))) (\<lambda>(ignored, stream).
         if length ignored = 0 then protocol_error else
         pbind (rdp_mcs_read_ber_octet_string stream) (\<lambda>(ignored, stream).
         if length ignored = 0 then protocol_error else
         pbind (rdp_mcs_read_upward_flag stream) (\<lambda>(_, stream).
         pbind (rdp_mcs_skip_ber_sequence stream) (\<lambda>(_, stream).
         pbind (rdp_mcs_skip_ber_sequence stream) (\<lambda>(_, stream).
         pbind (rdp_mcs_skip_ber_sequence stream) (\<lambda>(_, stream).
         pbind (rdp_mcs_read_ber_octet_string stream) (\<lambda>(user_data, stream).
         if length user_data = 0 \<or> rdp_stream_remaining stream \<noteq> 0 then protocol_error
         else Inr \<lparr>init_user_data = user_data, init_user_data_len = length user_data\<rparr>)))))))"
    by (simp add: rdp_mcs_parse_connect_initial_def connect_initial_pdu_def stream_rules
        ber_length_read [OF n(1)])
  show ?thesis
    unfolding hd
    by (simp add: connect_initial_body_def octets upward_flag_read skip_domain_parameters assms(2))
qed

interpretation connect_initial: pdu_codec rdp_mcs_write_connect_initial rdp_mcs_parse_connect_initial
  connect_initial_pdu "\<lambda>gcc. \<lparr>init_user_data = gcc, init_user_data_len = length gcc\<rparr>"
  "\<lambda>gcc. length gcc \<le> 2 ^ 62 \<and> gcc \<noteq> []"
  by unfold_locales (simp_all add: emits_connect_initial parse_connect_initial_pdu)

section \<open>The scan of a connect response\<close>

lemma read_ber_tag_tail_shorter:
  "read_ber_tag_tail room tag (strm pre bs) = Inr (x, s) \<Longrightarrow>
    \<exists>pre' r. s = strm pre' r \<and> length r < length bs"
proof (induction room arbitrary: tag pre bs)
  case (Suc room)
  then obtain b r where b: "bs = b # r" by (auto simp: accepts)
  show ?case
  proof (cases "b AND 0x80 = 0")
    case True
    then show ?thesis using Suc.prems b by (auto simp: stream_rules)
  next
    case False
    then have "read_ber_tag_tail room (tag @ [b]) (strm (pre @ [b]) r) = Inr (x, s)"
      using Suc.prems b by (simp add: stream_rules)
    from Suc.IH [OF this] b show ?thesis by auto
  qed
qed simp

lemma read_ber_tag_shorter:
  assumes "rdp_mcs_read_ber_tag (strm pre bs) = Inr (x, s)"
  shows "\<exists>pre' r. s = strm pre' r \<and> length r < length bs"
proof -
  from assms obtain b r where b: "bs = b # r" by (auto simp: rdp_mcs_read_ber_tag_def accepts)
  show ?thesis
  proof (cases "b AND 0x1f = 0x1f")
    case False
    then show ?thesis using assms b by (auto simp: rdp_mcs_read_ber_tag_def stream_rules)
  next
    case True
    then obtain t where "read_ber_tag_tail 7 [b] (strm (pre @ [b]) r) = Inr (t, s)"
      using assms b by (auto simp: rdp_mcs_read_ber_tag_def stream_rules accepts)
    from read_ber_tag_tail_shorter [OF this] b show ?thesis by auto
  qed
qed

lemma read_ber_bytes_shorter:
  "read_ber_bytes n v (strm pre bs) = Inr (x, s) \<Longrightarrow> \<exists>pre' r. s = strm pre' r \<and> length r \<le> length bs"
proof (induction n arbitrary: v pre bs)
  case (Suc n)
  then obtain b r where b: "bs = b # r" by (auto simp: accepts)
  from Suc.prems Suc.IH [of _ "pre @ [b]" r] show ?case unfolding b by (fastforce simp: stream_rules)
qed auto

lemma read_ber_length_shorter:
  assumes "rdp_mcs_read_ber_length (strm pre bs) = Inr (x, s)"
  shows "\<exists>pre' r. s = strm pre' r \<and> length r \<le> length bs"
proof -
  from assms obtain b r where b: "bs = b # r" by (auto simp: rdp_mcs_read_ber_length_def accepts)
  with assms show ?thesis
    by (fastforce simp: rdp_mcs_read_ber_length_def stream_rules Let_def
        dest!: read_ber_bytes_shorter split: if_splits)
qed

text \<open>
  Any two bounds that reach the number of bytes left give the same result, so the bound of
  \<open>scan_items\<close> is not observable.
\<close>

lemma scan_fuel_enough:
  "length bs \<le> n \<Longrightarrow> length bs \<le> k \<Longrightarrow>
    scan_items nested n (strm pre bs) resp = scan_items nested k (strm pre bs) resp"
proof (induction n arbitrary: k pre bs resp)
  case 0
  then show ?case by (simp add: scan_items.simps)
next
  case (Suc n)
  show ?case
  proof (cases "bs = []")
    case True
    then show ?thesis by (simp add: scan_items.simps)
  next
    case False
    then obtain j where k: "k = Suc j" using Suc.prems by (cases k) auto
    have step: "scan_items nested n s' resp' = scan_items nested j s' resp'"
      if t: "rdp_mcs_read_ber_tag (strm pre bs) = Inr ((tag, c), s1)"
        and l: "rdp_mcs_read_ber_length s1 = Inr (len, s2)"
        and b: "rdp_stream_read_bytes len s2 = Inr (payload, s')" for tag c s1 len s2 payload s' resp'
    proof -
      obtain p1 r1 where 1: "s1 = strm p1 r1" "length r1 < length bs"
        using read_ber_tag_shorter [OF t] by blast
      obtain p2 r2 where 2: "s2 = strm p2 r2" "length r2 \<le> length r1"
        using read_ber_length_shorter [OF l [unfolded 1]] by blast
      obtain p3 r3 where 3: "s' = strm p3 r3" "length r3 \<le> length r2"
        using b [unfolded 2] by (auto simp: accepts)
      show ?thesis unfolding 3 by (rule Suc.IH) (use 1 2 3 k Suc.prems in simp_all)
    qed
    show ?thesis
      unfolding k
      apply (subst (1 2) scan_items.simps)
      using step
      by (auto simp: pbind_def ebind_def split: sum.splits)
  qed
qed

lemma scan_items_status:
  "length bs \<le> n \<Longrightarrow> (\<And>p r e. nested p r = Inl e \<Longrightarrow> e = LIBRDP_STATUS_PROTOCOL_ERROR) \<Longrightarrow>
    scan_items nested n (strm pre bs) resp = Inl e \<Longrightarrow> e = LIBRDP_STATUS_PROTOCOL_ERROR"
proof (induction n arbitrary: pre bs resp)
  case 0
  then show ?case by (auto simp: scan_items.simps split: if_splits)
next
  case (Suc n)
  have step: "e = LIBRDP_STATUS_PROTOCOL_ERROR"
    if t: "rdp_mcs_read_ber_tag (strm pre bs) = Inr ((tag, c), s1)"
      and l: "rdp_mcs_read_ber_length s1 = Inr (len, s2)"
      and b: "rdp_stream_read_bytes len s2 = Inr (payload, s')"
      and res: "scan_items nested n s' resp' = Inl e" for tag c s1 len s2 payload s' resp'
  proof -
    obtain p1 r1 where 1: "s1 = strm p1 r1" "length r1 < length bs"
      using read_ber_tag_shorter [OF t] by blast
    obtain p2 r2 where 2: "s2 = strm p2 r2" "length r2 \<le> length r1"
      using read_ber_length_shorter [OF l [unfolded 1]] by blast
    obtain p3 r3 where 3: "s' = strm p3 r3" "length r3 \<le> length r2"
      using b [unfolded 2] by (auto simp: accepts)
    show ?thesis by (rule Suc.IH [of r3 p3 resp']) (use 1 2 3 Suc.prems res in simp_all)
  qed
  show ?case
    using Suc.prems(3) step Suc.prems(2)
    by (subst (asm) scan_items.simps)
      (auto simp: pbind_def ebind_def split: sum.splits if_splits)
qed

lemma scan_status:
  "rdp_mcs_scan_connect_response depth data resp = Inl e \<Longrightarrow> e = LIBRDP_STATUS_PROTOCOL_ERROR"
proof (induction depth arbitrary: data resp e)
  case (Suc depth)
  show ?case
    by (rule scan_items_status [of data "length data" "rdp_mcs_scan_connect_response depth" "[]" resp])
      (use Suc in auto)
qed simp

text \<open>The scan of one level with its own bound, and its step over one item with a one-byte tag.\<close>

definition scan :: "(u8 list \<Rightarrow> rdp_mcs_connect_response \<Rightarrow> rdp_mcs_connect_response result) \<Rightarrow>
    u8 list \<Rightarrow> u8 list \<Rightarrow> rdp_mcs_connect_response \<Rightarrow> rdp_mcs_connect_response result" where
  "scan nested pre bs resp = scan_items nested (length bs) (strm pre bs) resp"

lemma scan_end: "scan nested pre [] resp = (if resp_has_result resp then Inr resp else protocol_error)"
  by (simp add: scan_def scan_items.simps)

lemma scan_response_eq:
  "rdp_mcs_scan_connect_response (Suc depth) data resp =
    scan (rdp_mcs_scan_connect_response depth) [] data resp"
  by (simp add: scan_def)

lemma scan_item:
  assumes tag: "\<And>pre r. rdp_mcs_read_ber_tag (strm pre (tg @ r)) = Inr ((tg, c), strm (pre @ tg) r)"
    and n: "length p \<le> SIZE_MAX" and ne: "tg \<noteq> []"
  shows "scan nested pre (tg @ ber_length_bytes (length p) @ p @ r) resp =
    (let pre' = pre @ tg @ ber_length_bytes (length p) @ p in
     if tg = [0x0a] \<and> length p = 1 then
       scan nested pre' r (resp\<lparr>resp_has_result := True, resp_result := p ! 0\<rparr>)
     else if tg = [0x04] then
       scan nested pre' r (resp\<lparr>resp_user_data := p, resp_user_data_len := length p\<rparr>)
     else if c then ebind (nested p resp) (scan nested pre' r)
     else scan nested pre' r resp)"
proof -
  let ?item = "tg @ ber_length_bytes (length p) @ p @ r"
  obtain k where k: "length ?item = Suc k" using ne by (cases tg) auto
  then have "length r \<le> k" using ne by (cases tg) auto
  from scan_fuel_enough [OF this order.refl]
  have fuel: "scan_items nested k (strm p' r) = scan_items nested (length r) (strm p' r)" for p'
    by (rule ext)
  show ?thesis
    unfolding scan_def k
    by (subst scan_items.simps)
      (use ne in \<open>simp add: tag ber_length_read [OF n] stream_rules fuel Let_def\<close>)
qed

lemma ber_tag_short:
  "t AND 0x1f \<noteq> 0x1f \<Longrightarrow>
    rdp_mcs_read_ber_tag (strm pre ([t] @ r)) = Inr (([t], t AND 0x20 \<noteq> 0), strm (pre @ [t]) r)"
  by (simp add: rdp_mcs_read_ber_tag_def stream_rules)

lemma ber_tag_response:
  "rdp_mcs_read_ber_tag (strm pre ([0x7f, 0x66] @ r)) =
    Inr (([0x7f, 0x66], True), strm (pre @ [0x7f, 0x66]) r)"
  using read_ber_tag_tail.simps(2) [of 6]
  by (simp add: rdp_mcs_read_ber_tag_def stream_rules)

lemma scan_integer:
  "scan nested pre (ber_integer_bytes v @ r) resp =
    scan nested (pre @ ber_integer_bytes v) r resp"
  using scan_item [of "[0x02]" False "ber_integer_octets v" nested pre r resp] ber_tag_short [of 2]
    ber_integer_octets_spec(5) [of v]
  by (simp add: ber_integer_bytes_def SIZE_MAX_def)

lemma scan_integers:
  "resp_has_result resp \<Longrightarrow> scan nested pre (concat (map ber_integer_bytes vs)) resp = Inr resp"
  by (induction vs arbitrary: pre) (simp_all add: scan_end scan_integer)

lemma scan_domain_parameters:
  assumes "resp_has_result resp" and "length vs \<le> 8"
  shows "scan (rdp_mcs_scan_connect_response (Suc depth)) pre (domain_parameters vs @ r) resp =
    scan (rdp_mcs_scan_connect_response (Suc depth)) (pre @ domain_parameters vs) r resp"
proof -
  let ?body = "concat (map ber_integer_bytes vs)"
  have "length ?body \<le> SIZE_MAX"
    using length_concat_bounded [of ber_integer_bytes 7 vs] length_ber_integer_bytes assms(2)
    by (simp add: SIZE_MAX_def)
  from scan_item [OF _ this, of "[0x30]" True] ber_tag_short [of 48] assms(1)
  show ?thesis
    by (simp add: domain_parameters_def ber_sequence_def scan_response_eq scan_integers
        del: rdp_mcs_scan_connect_response.simps)
qed

lemma parse_connect_response_pdu:
  assumes "length gcc \<le> 2 ^ 62"
  shows "rdp_mcs_parse_connect_response (connect_response_pdu gcc) =
    Inr \<lparr>resp_has_result = True, resp_result = 0,
         resp_user_data = gcc, resp_user_data_len = length gcc\<rparr>"
proof -
  have n: "length (connect_response_body gcc) \<le> SIZE_MAX" "length gcc \<le> SIZE_MAX" "1 \<le> SIZE_MAX"
    using length_connect_bodies [OF assms] assms by (simp_all add: SIZE_MAX_def)
  let ?start = "\<lparr>resp_has_result = False, resp_result = 0, resp_user_data = [], resp_user_data_len = 0\<rparr>"
  let ?nested = "rdp_mcs_scan_connect_response (Suc 6)"
  have user: "scan ?nested pre (ber_octet_string gcc) resp =
      scan ?nested (pre @ ber_octet_string gcc) [] (resp\<lparr>resp_user_data := gcc, resp_user_data_len := length gcc\<rparr>)"
    for pre resp
    using scan_item [OF _ n(2), of "[0x04]" False _ _ "[]"] ber_tag_short [of 4]
    by (simp add: ber_octet_string_def)
  have res: "scan ?nested pre ([0x0a] @ ber_length_bytes 1 @ [0] @ r) resp =
      scan ?nested (pre @ [0x0a] @ ber_length_bytes 1 @ [0]) r (resp\<lparr>resp_has_result := True, resp_result := 0\<rparr>)"
    for pre r resp
    using scan_item [of "[0x0a]" False "[0]" ?nested pre r resp] n(3) ber_tag_short [of 10]
    by simp
  have "scan ?nested [] (connect_response_body gcc) ?start =
      Inr \<lparr>resp_has_result = True, resp_result = 0, resp_user_data = gcc, resp_user_data_len = length gcc\<rparr>"
    unfolding connect_response_body_def
    by (simp only: res scan_integer)
      (simp add: scan_domain_parameters [of _ _ 6, simplified] user [simplified] scan_end)
  then show ?thesis
    using scan_item [OF ber_tag_response n(1), of "rdp_mcs_scan_connect_response 8" "[]" "[]"]
      scan_response_eq [of 8] scan_response_eq [of 7]
    by (simp add: rdp_mcs_parse_connect_response_def connect_response_pdu_def scan_end
        del: rdp_mcs_scan_connect_response.simps)
qed

interpretation connect_response: pdu_codec rdp_mcs_write_connect_response
  rdp_mcs_parse_connect_response connect_response_pdu
  "\<lambda>gcc. \<lparr>resp_has_result = True, resp_result = 0, resp_user_data = gcc, resp_user_data_len = length gcc\<rparr>"
  "\<lambda>gcc. length gcc \<le> 2 ^ 62"
  by unfold_locales (simp_all add: emits_connect_response parse_connect_response_pdu)

section \<open>The domain PDUs\<close>

definition send_data_pdu :: "u8 \<Rightarrow> u16 \<Rightarrow> u16 \<Rightarrow> u8 list \<Rightarrow> u8 list" where
  "send_data_pdu t user channel payload =
     [domain_choice_byte t 0] @ u16_be_bytes (user - RDP_MCS_BASE_CHANNEL_ID) @ u16_be_bytes channel @
     [0x70] @ per_length_bytes (length payload) @ payload"

lemma per_integer16_zero:
  "emits (rdp_mcs_write_per_integer16 v 0) (u16_be_bytes v)"
  "rdp_mcs_read_per_integer16 0 (strm pre (u16_be_bytes v @ r)) = Inr (v, strm (pre @ u16_be_bytes v) r)"
  "rdp_mcs_read_per_integer16 0 (strm pre (u16_be_bytes v)) = Inr (v, strm (pre @ u16_be_bytes v) [])"
  using emits_per_integer16 [of 0 v] per_integer16_read [of 0 v pre r] per_integer16_read [of 0 v pre "[]"]
  by simp_all

lemmas per_read = per_length_read per_integer_read per_integer16_read per_integer16_zero(2,3)
  per_integer16_read [where r = "[]", simplified] rdp_mcs_read_per_enum_def

declare per_integer16_zero(1) [emits_rules]

lemma parse_send_data_pdu:
  assumes "RDP_MCS_BASE_CHANNEL_ID \<le> user" and "payload \<noteq> []" and "length payload \<le> 0x7fff"
    and "t \<le> 0x3f"
  shows "rdp_mcs_parse_send_data_common t (send_data_pdu t user channel payload) =
    Inr \<lparr>sdi_initiator = user, sdi_channel_id = channel, sdi_payload = payload,
         sdi_payload_len = length payload\<rparr>"
  using assms
  by (simp add: rdp_mcs_parse_send_data_common_def send_data_pdu_def stream_rules per_read)

lemma base_not_less: "RDP_MCS_BASE_CHANNEL_ID \<le> user \<Longrightarrow> \<not> user < RDP_MCS_BASE_CHANNEL_ID"
  by simp

lemma emits_send_data_indication [emits_rules]:
  "RDP_MCS_BASE_CHANNEL_ID \<le> user \<Longrightarrow> length payload \<le> 0x7fff \<Longrightarrow>
    emits (rdp_mcs_write_send_data_indication user channel payload)
      (send_data_pdu RDP_MCS_PDU_SEND_DATA_INDICATION user channel payload)"
  by (auto simp: rdp_mcs_write_send_data_indication_def send_data_pdu_def base_not_less
      intro!: emits_rules)

interpretation send_data_indication: pdu_codec
  "\<lambda>(user, channel, payload). rdp_mcs_write_send_data_indication user channel payload"
  rdp_mcs_parse_send_data_indication
  "\<lambda>(user, channel, payload). send_data_pdu RDP_MCS_PDU_SEND_DATA_INDICATION user channel payload"
  "\<lambda>(user, channel, payload). \<lparr>sdi_initiator = user, sdi_channel_id = channel,
     sdi_payload = payload, sdi_payload_len = length payload\<rparr>"
  "\<lambda>(user, channel, payload). RDP_MCS_BASE_CHANNEL_ID \<le> user \<and> payload \<noteq> [] \<and>
     length payload \<le> 0x7fff"
  by unfold_locales
    (auto simp: emits_send_data_indication rdp_mcs_parse_send_data_indication_def parse_send_data_pdu)

interpretation attach_user_confirm: pdu_codec rdp_mcs_write_attach_user_confirm
  rdp_mcs_parse_attach_user_confirm
  "\<lambda>user. [domain_choice_byte RDP_MCS_PDU_ATTACH_USER_CONFIRM 2, 0] @
     u16_be_bytes (user - RDP_MCS_BASE_CHANNEL_ID)"
  "\<lambda>user. \<lparr>auc_result = 0, auc_user_id = user\<rparr>"
  "\<lambda>user. RDP_MCS_BASE_CHANNEL_ID \<le> user"
  by unfold_locales
    (auto simp: rdp_mcs_write_attach_user_confirm_def rdp_mcs_parse_attach_user_confirm_def
      base_not_less stream_rules per_read intro!: emits_rules)

lemma emits_channel_join_request:
  "RDP_MCS_BASE_CHANNEL_ID \<le> user \<Longrightarrow> emits (rdp_mcs_write_channel_join_request user channel)
    ([domain_choice_byte RDP_MCS_PDU_CHANNEL_JOIN_REQUEST 0] @
     u16_be_bytes (user - RDP_MCS_BASE_CHANNEL_ID) @ u16_be_bytes channel)"
  by (auto simp: rdp_mcs_write_channel_join_request_def base_not_less intro!: emits_rules)

interpretation channel_join_request: pdu_codec
  "\<lambda>(user, channel). rdp_mcs_write_channel_join_request user channel"
  rdp_mcs_parse_channel_join_request
  "\<lambda>(user, channel). [domain_choice_byte RDP_MCS_PDU_CHANNEL_JOIN_REQUEST 0] @
     u16_be_bytes (user - RDP_MCS_BASE_CHANNEL_ID) @ u16_be_bytes channel"
  "\<lambda>(user, channel). \<lparr>cjr_initiator = user, cjr_channel_id = channel\<rparr>"
  "\<lambda>(user, channel). RDP_MCS_BASE_CHANNEL_ID \<le> user"
  by unfold_locales
    (auto simp: rdp_mcs_parse_channel_join_request_def stream_rules per_read
      intro: emits_channel_join_request [simplified])

lemma emits_channel_join_confirm:
  "RDP_MCS_BASE_CHANNEL_ID \<le> user \<Longrightarrow> emits (rdp_mcs_write_channel_join_confirm user channel)
    ([domain_choice_byte RDP_MCS_PDU_CHANNEL_JOIN_CONFIRM 2, 0] @
     u16_be_bytes (user - RDP_MCS_BASE_CHANNEL_ID) @ u16_be_bytes channel @ u16_be_bytes channel)"
  by (auto simp: rdp_mcs_write_channel_join_confirm_def base_not_less intro!: emits_rules)

interpretation channel_join_confirm: pdu_codec
  "\<lambda>(user, channel). rdp_mcs_write_channel_join_confirm user channel"
  rdp_mcs_parse_channel_join_confirm
  "\<lambda>(user, channel). [domain_choice_byte RDP_MCS_PDU_CHANNEL_JOIN_CONFIRM 2, 0] @
     u16_be_bytes (user - RDP_MCS_BASE_CHANNEL_ID) @ u16_be_bytes channel @ u16_be_bytes channel"
  "\<lambda>(user, channel). \<lparr>cjc_result = 0, cjc_initiator = user,
     cjc_requested_channel_id = channel, cjc_channel_id = channel\<rparr>"
  "\<lambda>(user, channel). RDP_MCS_BASE_CHANNEL_ID \<le> user"
  by unfold_locales
    (auto simp: rdp_mcs_parse_channel_join_confirm_def stream_rules per_read
      intro: emits_channel_join_confirm [simplified])

interpretation erect_domain: pdu_codec "\<lambda>_ :: unit. rdp_mcs_write_erect_domain_request"
  rdp_mcs_parse_erect_domain_request
  "\<lambda>_. [domain_choice_byte RDP_MCS_PDU_ERECT_DOMAIN_REQUEST 0] @
     per_integer_bytes 0 @ per_integer_bytes 0" "\<lambda>_. ()" "\<lambda>_. True"
  by unfold_locales
    (auto simp: rdp_mcs_write_erect_domain_request_def rdp_mcs_parse_erect_domain_request_def
      stream_rules per_read per_integer_read [where r = "[]", simplified] intro!: emits_rules)

interpretation attach_user_request: pdu_codec "\<lambda>_ :: unit. rdp_mcs_write_attach_user_request"
  rdp_mcs_parse_attach_user_request
  "\<lambda>_. [domain_choice_byte RDP_MCS_PDU_ATTACH_USER_REQUEST 0]" "\<lambda>_. ()" "\<lambda>_. True"
  by unfold_locales
    (auto simp: rdp_mcs_write_attach_user_request_def rdp_mcs_parse_attach_user_request_def
      stream_rules intro!: emits_rules)

section \<open>Properties\<close>

text \<open>
  Length fields. Every length up to 32767 survives the aligned PER encoding and every
  \<^verbatim>\<open>size_t\<close> survives the BER encoding: the writer emits bytes from which the reader gets the
  length back and after which it stops, whatever surrounds them.
\<close>

lemma mcs_length_fields:
  "(n \<le> 0x7fff \<longrightarrow> (\<exists>bs. emits (rdp_mcs_write_per_length n) bs \<and>
      (\<forall>pre r. rdp_mcs_read_per_length (strm pre (bs @ r)) = Inr (n, strm (pre @ bs) r)))) \<and>
   (n \<le> SIZE_MAX \<longrightarrow> (\<exists>bs. emits (rdp_mcs_write_ber_length n) bs \<and>
      (\<forall>pre r. rdp_mcs_read_ber_length (strm pre (bs @ r)) = Inr (n, strm (pre @ bs) r))))"
  using per_length.wr_emits per_length.rd_enc ber_length.wr_emits ber_length.rd_enc by blast

text \<open>
  BER INTEGER. The integer writer emits the DER form of every 32-bit value: tag 2, a
  one-byte length, and content octets that denote the value, have a clear sign bit and are the
  shortest such octets.
\<close>

lemma mcs_ber_integer_canonical:
  "\<exists>octets. emits (rdp_mcs_write_ber_integer v) ([0x02, of_nat (length octets)] @ octets) \<and>
     octets \<noteq> [] \<and> length octets \<le> 5 \<and> \<not> bit (hd octets) 7 \<and>
     foldl (\<lambda>n b. n * 256 + unat b) 0 octets = unat v \<and>
     \<not> (\<exists>b r. octets = 0 # b # r \<and> \<not> bit b 7)"
proof (intro exI conjI)
  show "emits (rdp_mcs_write_ber_integer v)
      ([0x02, of_nat (length (ber_integer_octets v))] @ ber_integer_octets v)"
    using emits_ber_integer [of v] ber_integer_octets_spec(5) [of v]
    by (simp add: ber_integer_bytes_def ber_length_short)
qed (use ber_integer_octets_spec [of v] in auto)

text \<open>
  Connect-Initial. For any non-empty GCC block the server parses the Connect-Initial PDU of the
  client and finds exactly that block.
\<close>

lemma mcs_connect_initial_roundtrip:
  "length gcc \<le> 2 ^ 62 \<Longrightarrow> gcc \<noteq> [] \<Longrightarrow>
    transmits (rdp_mcs_write_connect_initial gcc) rdp_mcs_parse_connect_initial
      \<lparr>init_user_data = gcc, init_user_data_len = length gcc\<rparr>"
  by (rule connect_initial.transmits) simp

text \<open>
  C25. Connect-Response. For any GCC block the recursive scan of the client finds the result code 0 and
  exactly that block in the Connect-Response PDU of the server.
\<close>

theorem mcs_connect_response_roundtrip:
  "length gcc \<le> 2 ^ 62 \<Longrightarrow>
    transmits (rdp_mcs_write_connect_response gcc) rdp_mcs_parse_connect_response
      \<lparr>resp_has_result = True, resp_result = 0, resp_user_data = gcc, resp_user_data_len = length gcc\<rparr>"
  by (rule connect_response.transmits)

theorem mcs_connect_response_roundtrip_witness:
  "transmits (rdp_mcs_write_connect_response [9]) rdp_mcs_parse_connect_response
      \<lparr>resp_has_result = True, resp_result = 0, resp_user_data = [9], resp_user_data_len = 1\<rparr>"
  using mcs_connect_response_roundtrip [of "[9]"] by simp

text \<open>
  C26. Connect-Response scan. On every input, however nested or truncated, the scan ends with a
  response or with a protocol error; the recursion depth and the item bound are never exceeded with
  another outcome.
\<close>

theorem mcs_connect_response_total:
  "(\<exists>resp. rdp_mcs_parse_connect_response data = Inr resp) \<or>
   rdp_mcs_parse_connect_response data = protocol_error"
  using scan_status by (cases "rdp_mcs_parse_connect_response data")
    (auto simp: rdp_mcs_parse_connect_response_def simp del: rdp_mcs_scan_connect_response.simps)

text \<open>
  Domain PDUs. Erect-domain, attach-user request and confirm, and channel-join request and
  confirm are parsed by the peer into the values they were written with, for every user id that the
  PER encoding can express.
\<close>

lemma mcs_domain_pdus_roundtrip:
  assumes "RDP_MCS_BASE_CHANNEL_ID \<le> user"
  shows "transmits rdp_mcs_write_erect_domain_request rdp_mcs_parse_erect_domain_request () \<and>
    transmits rdp_mcs_write_attach_user_request rdp_mcs_parse_attach_user_request () \<and>
    transmits (rdp_mcs_write_attach_user_confirm user) rdp_mcs_parse_attach_user_confirm
      \<lparr>auc_result = 0, auc_user_id = user\<rparr> \<and>
    transmits (rdp_mcs_write_channel_join_request user channel) rdp_mcs_parse_channel_join_request
      \<lparr>cjr_initiator = user, cjr_channel_id = channel\<rparr> \<and>
    transmits (rdp_mcs_write_channel_join_confirm user channel) rdp_mcs_parse_channel_join_confirm
      \<lparr>cjc_result = 0, cjc_initiator = user, cjc_requested_channel_id = channel,
       cjc_channel_id = channel\<rparr>"
  using assms erect_domain.transmits attach_user_request.transmits attach_user_confirm.transmits
    channel_join_request.transmits [of "(user, channel)"]
    channel_join_confirm.transmits [of "(user, channel)"]
  by simp

text \<open>
  Send-data indication. User id, channel id and payload of a send-data indication are recovered by
  its parser, for every payload from 1 to 32767 bytes.
\<close>

lemma mcs_send_data_roundtrip:
  "RDP_MCS_BASE_CHANNEL_ID \<le> user \<Longrightarrow> payload \<noteq> [] \<Longrightarrow> length payload \<le> 0x7fff \<Longrightarrow>
    transmits (rdp_mcs_write_send_data_indication user channel payload)
      rdp_mcs_parse_send_data_indication
      \<lparr>sdi_initiator = user, sdi_channel_id = channel, sdi_payload = payload,
       sdi_payload_len = length payload\<rparr>"
  using send_data_indication.transmits [of "(user, channel, payload)"] by simp

end
