(* ===== verification/Security.thy ===== *)
theory Security
  imports X224 Mcs
begin

text \<open>
  Security negotiation policy and Standard RDP Security, \<^verbatim>\<open>src/src/security/security.c\<close>: key
  derivation, the message authentication codes, RC4 encryption with the key update every 4096
  packets, and the encrypted PDUs. The cryptographic primitives come from OpenSSL and are a parameter,
  the record \<open>crypto\<close>; \<open>crypto_ok\<close> states what the code relies on: digests of the documented
  length, and a stream cipher that undoes itself.

  Not modelled here: the client info body, whose text fields go through \<^verbatim>\<open>iconv\<close>.
\<close>

section \<open>Negotiation policy\<close>

datatype librdp_security_mode =
    LIBRDP_SECURITY_AUTO
  | LIBRDP_SECURITY_STANDARD
  | LIBRDP_SECURITY_TLS
  | LIBRDP_SECURITY_NLA

definition RDP_X224_PROTOCOL_TLS :: u32 where
  "RDP_X224_PROTOCOL_TLS = 1"

definition RDP_X224_PROTOCOL_NLA :: u32 where
  "RDP_X224_PROTOCOL_NLA = 2"

fun rdp_security_protocol_mask :: "librdp_security_mode \<Rightarrow> u32" where
  "rdp_security_protocol_mask LIBRDP_SECURITY_STANDARD = RDP_X224_PROTOCOL_STANDARD"
| "rdp_security_protocol_mask LIBRDP_SECURITY_TLS = RDP_X224_PROTOCOL_TLS"
| "rdp_security_protocol_mask LIBRDP_SECURITY_NLA = RDP_X224_PROTOCOL_NLA"
| "rdp_security_protocol_mask LIBRDP_SECURITY_AUTO = RDP_X224_PROTOCOL_TLS OR RDP_X224_PROTOCOL_NLA"

definition rdp_security_protocol_supported :: "u32 \<Rightarrow> bool" where
  "rdp_security_protocol_supported selected \<longleftrightarrow>
     selected = RDP_X224_PROTOCOL_STANDARD \<or> selected = RDP_X224_PROTOCOL_TLS \<or>
     selected = RDP_X224_PROTOCOL_NLA"

definition rdp_security_protocol_allowed :: "librdp_security_mode \<Rightarrow> bool \<Rightarrow> u32 \<Rightarrow> bool" where
  "rdp_security_protocol_allowed mode negotiation_present selected =
     (if \<not> rdp_security_protocol_supported selected then False
      else if \<not> negotiation_present then mode = LIBRDP_SECURITY_STANDARD
      else case mode of
          LIBRDP_SECURITY_STANDARD \<Rightarrow> selected = RDP_X224_PROTOCOL_STANDARD
        | LIBRDP_SECURITY_TLS \<Rightarrow> selected = RDP_X224_PROTOCOL_TLS
        | LIBRDP_SECURITY_NLA \<Rightarrow> selected = RDP_X224_PROTOCOL_NLA
        | LIBRDP_SECURITY_AUTO \<Rightarrow>
            selected = RDP_X224_PROTOCOL_TLS \<or> selected = RDP_X224_PROTOCOL_NLA)"

section \<open>The primitives of OpenSSL\<close>

text \<open>
  \<open>evp_sha1\<close> and \<open>evp_md5\<close> digest a byte sequence, \<open>None\<close> when one of the calls fails;
  \<open>evp_md_ctx_new\<close>, \<open>evp_cipher_ctx_new\<close>, \<open>evp_ctx_reset\<close>, \<open>evp_fetch\<close> tell whether the allocation, the
  reset and the fetch succeed; \<open>evp_rc4_key\<close> keys the cipher and \<open>evp_update\<close> transforms bytes.
\<close>

record 'c crypto =
  evp_md_ctx_new :: bool
  evp_sha1 :: "u8 list \<Rightarrow> u8 list option"
  evp_md5 :: "u8 list \<Rightarrow> u8 list option"
  evp_provider :: librdp_status
  evp_cipher_ctx_new :: bool
  evp_ctx_reset :: bool
  evp_fetch :: bool
  evp_rc4_key :: "u8 list \<Rightarrow> 'c option"
  evp_update :: "'c \<Rightarrow> u8 list \<Rightarrow> (u8 list \<times> 'c) option"

text \<open>
  An RC4 context: the \<^verbatim>\<open>EVP_CIPHER_CTX\<close> is absent (\<open>None\<close>), present without a key (\<open>Some None\<close>) or
  keyed.
\<close>

record 'c rdp_rc4_context =
  rc4_cipher :: "'c option option"
  rc4_initialized :: bool

record 'c rdp_standard_security_context =
  sc_sign_key :: "u8 list"
  sc_encrypt_key :: "u8 list"
  sc_decrypt_key :: "u8 list"
  sc_encrypt_update_key :: "u8 list"
  sc_decrypt_update_key :: "u8 list"
  sc_key_len :: nat
  sc_method :: u32
  sc_encrypt_count :: u32
  sc_decrypt_count :: u32
  sc_encrypt_rc4 :: "'c rdp_rc4_context"
  sc_decrypt_rc4 :: "'c rdp_rc4_context"

definition INT_MAX :: nat where
  "INT_MAX = 2 ^ 31 - 1"

definition UINT32_MAX :: nat where
  "UINT32_MAX = 2 ^ 32 - 1"

definition rdp_pad1 :: "u8 list" where
  "rdp_pad1 = replicate 40 0x36"

definition rdp_pad2 :: "u8 list" where
  "rdp_pad2 = replicate 48 0x5c"

definition RDP_SECURITY_METHOD_40BIT :: u32 where "RDP_SECURITY_METHOD_40BIT = 1"
definition RDP_SECURITY_METHOD_128BIT :: u32 where "RDP_SECURITY_METHOD_128BIT = 2"
definition RDP_SECURITY_METHOD_56BIT :: u32 where "RDP_SECURITY_METHOD_56BIT = 8"
definition RDP_SECURITY_METHOD_FIPS :: u32 where "RDP_SECURITY_METHOD_FIPS = 16"

definition RDP_SEC_EXCHANGE_PKT :: u16 where "RDP_SEC_EXCHANGE_PKT = 0x0001"
definition RDP_SEC_ENCRYPT :: u16 where "RDP_SEC_ENCRYPT = 0x0008"
definition RDP_SEC_LICENSE_ENCRYPT_SC :: u16 where "RDP_SEC_LICENSE_ENCRYPT_SC = 0x0200"
definition RDP_SEC_SECURE_CHECKSUM :: u16 where "RDP_SEC_SECURE_CHECKSUM = 0x0800"

section \<open>Digests and key derivation\<close>

definition rdp_digest_concat ::
    "'c crypto \<Rightarrow> (u8 list \<Rightarrow> u8 list option) \<Rightarrow> nat \<Rightarrow> u8 list list \<Rightarrow> u8 list result" where
  "rdp_digest_concat cr md output_len parts =
     (if \<not> evp_md_ctx_new cr then Inl LIBRDP_STATUS_NO_MEMORY
      else case md (concat parts) of
          None \<Rightarrow> protocol_error
        | Some digest \<Rightarrow> if length digest > output_len then protocol_error else Inr digest)"

definition rdp_salted_hash ::
    "'c crypto \<Rightarrow> u8 list \<Rightarrow> u8 list \<Rightarrow> u8 list \<Rightarrow> u8 list \<Rightarrow> u8 list result" where
  "rdp_salted_hash cr secret label random1 random2 =
     (if length secret \<noteq> 48 then invalid_argument
      else
        ebind (rdp_digest_concat cr (evp_sha1 cr) 20 [label, secret, take 32 random1, take 32 random2])
          (\<lambda>sha1. rdp_digest_concat cr (evp_md5 cr) 16 [secret, sha1]))"

definition rdp_secret_triplet ::
    "'c crypto \<Rightarrow> u8 list \<Rightarrow> u8 list \<Rightarrow> u8 list \<Rightarrow> u8 list \<Rightarrow> u8 list \<Rightarrow> u8 list \<Rightarrow> u8 list result" where
  "rdp_secret_triplet cr secret first second third random1 random2 =
     ebind (rdp_salted_hash cr secret first random1 random2) (\<lambda>o1.
     ebind (rdp_salted_hash cr secret second random1 random2) (\<lambda>o2.
     ebind (rdp_salted_hash cr secret third random1 random2) (\<lambda>o3.
     Inr (o1 @ o2 @ o3))))"

definition rdp_md5_key :: "'c crypto \<Rightarrow> u8 list \<Rightarrow> u8 list \<Rightarrow> u8 list \<Rightarrow> u8 list result" where
  "rdp_md5_key cr seed client_random server_random =
     rdp_digest_concat cr (evp_md5 cr) 16 [seed, take 32 client_random, take 32 server_random]"

section \<open>RC4\<close>

definition rdp_rc4_empty :: "'c rdp_rc4_context" where
  "rdp_rc4_empty = \<lparr>rc4_cipher = None, rc4_initialized = False\<rparr>"

definition rdp_rc4_clear :: "'c rdp_rc4_context \<Rightarrow> 'c rdp_rc4_context" where
  "rdp_rc4_clear ctx = rdp_rc4_empty"

definition rdp_rc4_init ::
    "'c crypto \<Rightarrow> u8 list \<Rightarrow> 'c rdp_rc4_context \<Rightarrow> librdp_status \<times> 'c rdp_rc4_context" where
  "rdp_rc4_init cr key ctx =
     (if length key = 0 \<or> length key > INT_MAX then (LIBRDP_STATUS_INVALID_ARGUMENT, ctx)
      else if evp_provider cr \<noteq> LIBRDP_STATUS_OK then (evp_provider cr, ctx)
      else if rc4_cipher ctx = None \<and> \<not> evp_cipher_ctx_new cr then (LIBRDP_STATUS_NO_MEMORY, ctx)
      else if rc4_cipher ctx \<noteq> None \<and> \<not> evp_ctx_reset cr then (LIBRDP_STATUS_PROTOCOL_ERROR, ctx)
      else
        let ctx = ctx\<lparr>rc4_cipher := Some None\<rparr> in
        if \<not> evp_fetch cr then (LIBRDP_STATUS_UNSUPPORTED, ctx)
        else case evp_rc4_key cr key of
            None \<Rightarrow> (LIBRDP_STATUS_PROTOCOL_ERROR, rdp_rc4_clear ctx)
          | Some c \<Rightarrow> (LIBRDP_STATUS_OK, \<lparr>rc4_cipher = Some (Some c), rc4_initialized = True\<rparr>))"

text \<open>The loop over chunks of at most \<^verbatim>\<open>INT_MAX\<close> bytes, transforming the data in place.\<close>

function rc4_chunks ::
    "'c crypto \<Rightarrow> 'c \<Rightarrow> u8 list \<Rightarrow> librdp_status \<times> u8 list \<times> 'c" where
  "rc4_chunks cr c data =
     (if data = [] then (LIBRDP_STATUS_OK, [], c)
      else
        let chunk = take INT_MAX data in
        case evp_update cr c chunk of
          None \<Rightarrow> (LIBRDP_STATUS_PROTOCOL_ERROR, data, c)
        | Some (out, c') \<Rightarrow>
            if length out \<noteq> length chunk then (LIBRDP_STATUS_PROTOCOL_ERROR, data, c')
            else
              (case rc4_chunks cr c' (drop INT_MAX data) of (status, rest, c'') \<Rightarrow>
                 (status, out @ rest, c'')))"
  by pat_completeness auto
termination
  by (relation "measure (\<lambda>(cr, c, data). length data)") (auto simp: INT_MAX_def)

declare rc4_chunks.simps [simp del]

definition rdp_rc4_crypt ::
    "'c crypto \<Rightarrow> 'c rdp_rc4_context \<Rightarrow> u8 list \<Rightarrow> librdp_status \<times> u8 list \<times> 'c rdp_rc4_context" where
  "rdp_rc4_crypt cr ctx data =
     (if rc4_cipher ctx = None \<or> \<not> rc4_initialized ctx then (LIBRDP_STATUS_INVALID_ARGUMENT, data, ctx)
      else case the (rc4_cipher ctx) of
          None \<Rightarrow>
            (if data = [] then LIBRDP_STATUS_OK else LIBRDP_STATUS_PROTOCOL_ERROR, data, ctx)
        | Some c \<Rightarrow>
            (case rc4_chunks cr c data of (status, out, c') \<Rightarrow>
               (status, out, ctx\<lparr>rc4_cipher := Some (Some c')\<rparr>)))"

section \<open>Keys\<close>

text \<open>\<^verbatim>\<open>memcpy\<close> of a salt over the first bytes of a key.\<close>

definition salt_key :: "u8 list \<Rightarrow> u8 list \<Rightarrow> u8 list" where
  "salt_key salt key = salt @ drop (length salt) key"

definition rdp_security_apply_method ::
    "u32 \<Rightarrow> u8 list \<times> u8 list \<times> u8 list \<Rightarrow> ((u8 list \<times> u8 list \<times> u8 list) \<times> nat) result" where
  "rdp_security_apply_method meth = (\<lambda>(sign_key, encrypt_key, decrypt_key).
     if meth = RDP_SECURITY_METHOD_128BIT then Inr ((sign_key, encrypt_key, decrypt_key), 16)
     else if meth = RDP_SECURITY_METHOD_56BIT then
       Inr ((salt_key [0xd1] sign_key, salt_key [0xd1] encrypt_key, salt_key [0xd1] decrypt_key), 8)
     else if meth = RDP_SECURITY_METHOD_40BIT then
       Inr ((salt_key [0xd1, 0x26, 0x9e] sign_key, salt_key [0xd1, 0x26, 0x9e] encrypt_key,
             salt_key [0xd1, 0x26, 0x9e] decrypt_key), 8)
     else Inl LIBRDP_STATUS_UNSUPPORTED)"

definition rdp_security_key_update ::
    "'c crypto \<Rightarrow> u8 list \<Rightarrow> nat \<Rightarrow> u32 \<Rightarrow> u8 list \<Rightarrow> librdp_status \<times> u8 list" where
  "rdp_security_key_update cr update_key key_len meth key =
     (if key_len \<noteq> 8 \<and> key_len \<noteq> 16 then (LIBRDP_STATUS_INVALID_ARGUMENT, key)
      else case rdp_digest_concat cr (evp_sha1 cr) 20 [take key_len update_key, rdp_pad1, take key_len key] of
        Inl e \<Rightarrow> (e, key)
      | Inr sha1 \<Rightarrow>
          (case rdp_digest_concat cr (evp_md5 cr) 16 [take key_len update_key, rdp_pad2, sha1] of
            Inl e \<Rightarrow> (e, key)
          | Inr md5 \<Rightarrow>
              let key = md5 in
              case rdp_rc4_init cr (take key_len key) rdp_rc4_empty of (status, rc4) \<Rightarrow>
                if status \<noteq> LIBRDP_STATUS_OK then (status, key)
                else
                  (case rdp_rc4_crypt cr rc4 (take key_len key) of (status, out, rc4) \<Rightarrow>
                     let key = out @ drop key_len key in
                     if status \<noteq> LIBRDP_STATUS_OK then (status, key)
                     else if meth = RDP_SECURITY_METHOD_40BIT then
                       (LIBRDP_STATUS_OK, salt_key [0xd1, 0x26, 0x9e] key)
                     else if meth = RDP_SECURITY_METHOD_56BIT then
                       (LIBRDP_STATUS_OK, salt_key [0xd1] key)
                     else (LIBRDP_STATUS_OK, key))))"

definition rdp_security_cleared :: "'c rdp_standard_security_context" where
  "rdp_security_cleared = \<lparr>sc_sign_key = replicate 16 0, sc_encrypt_key = replicate 16 0,
     sc_decrypt_key = replicate 16 0, sc_encrypt_update_key = replicate 16 0,
     sc_decrypt_update_key = replicate 16 0, sc_key_len = 0, sc_method = 0,
     sc_encrypt_count = 0, sc_decrypt_count = 0,
     sc_encrypt_rc4 = rdp_rc4_empty, sc_decrypt_rc4 = rdp_rc4_empty\<rparr>"

definition rdp_security_standard_clear ::
    "'c rdp_standard_security_context \<Rightarrow> 'c rdp_standard_security_context" where
  "rdp_security_standard_clear ctx = rdp_security_cleared"

text \<open>
  The keys are derived, then stored and keyed into the two ciphers. On any failure after
  the method check the context is cleared.
\<close>

definition rdp_security_standard_init_direction ::
    "'c crypto \<Rightarrow> u32 \<Rightarrow> u8 list \<Rightarrow> u8 list \<Rightarrow> bool \<Rightarrow>
     'c rdp_standard_security_context \<Rightarrow> librdp_status \<times> 'c rdp_standard_security_context" where
  "rdp_security_standard_init_direction cr meth client_random server_random server_side ctx =
     (if meth = 0 \<or> meth = RDP_SECURITY_METHOD_FIPS then (LIBRDP_STATUS_UNSUPPORTED, ctx)
      else
        let pre_master = take 24 client_random @ take 24 server_random;
            keys =
              ebind (rdp_secret_triplet cr pre_master (ascii ''A'') (ascii ''BB'') (ascii ''CCC'')
                       client_random server_random) (\<lambda>master.
              ebind (rdp_secret_triplet cr master (ascii ''X'') (ascii ''YY'') (ascii ''ZZZ'')
                       client_random server_random) (\<lambda>session_blob.
              ebind (rdp_md5_key cr (take 16 (drop 16 session_blob)) client_random server_random)
                (\<lambda>server_encrypt_key.
              ebind (rdp_md5_key cr (take 16 (drop 32 session_blob)) client_random server_random)
                (\<lambda>client_encrypt_key.
              rdp_security_apply_method meth
                (take 16 session_blob,
                 if server_side then server_encrypt_key else client_encrypt_key,
                 if server_side then client_encrypt_key else server_encrypt_key)))))
        in
        case keys of
          Inl e \<Rightarrow> (e, rdp_security_standard_clear rdp_security_cleared)
        | Inr ((sign_key, encrypt_key, decrypt_key), key_len) \<Rightarrow>
            (case rdp_rc4_init cr (take key_len encrypt_key) rdp_rc4_empty of (status, rc4e) \<Rightarrow>
               if status \<noteq> LIBRDP_STATUS_OK then (status, rdp_security_standard_clear rdp_security_cleared)
               else
                 (case rdp_rc4_init cr (take key_len decrypt_key) rdp_rc4_empty of (status, rc4d) \<Rightarrow>
                    if status \<noteq> LIBRDP_STATUS_OK
                    then (status, rdp_security_standard_clear rdp_security_cleared)
                    else (LIBRDP_STATUS_OK,
                      \<lparr>sc_sign_key = sign_key, sc_encrypt_key = encrypt_key, sc_decrypt_key = decrypt_key,
                       sc_encrypt_update_key = encrypt_key, sc_decrypt_update_key = decrypt_key,
                       sc_key_len = key_len, sc_method = meth, sc_encrypt_count = 0,
                       sc_decrypt_count = 0, sc_encrypt_rc4 = rc4e, sc_decrypt_rc4 = rc4d\<rparr>))))"

definition rdp_security_standard_client_init ::
    "'c crypto \<Rightarrow> u32 \<Rightarrow> u8 list \<Rightarrow> u8 list \<Rightarrow>
     'c rdp_standard_security_context \<Rightarrow> librdp_status \<times> 'c rdp_standard_security_context" where
  "rdp_security_standard_client_init cr meth client_random server_random =
     rdp_security_standard_init_direction cr meth client_random server_random False"

definition rdp_security_standard_server_init ::
    "'c crypto \<Rightarrow> u32 \<Rightarrow> u8 list \<Rightarrow> u8 list \<Rightarrow>
     'c rdp_standard_security_context \<Rightarrow> librdp_status \<times> 'c rdp_standard_security_context" where
  "rdp_security_standard_server_init cr meth client_random server_random =
     rdp_security_standard_init_direction cr meth client_random server_random True"

section \<open>Message authentication and encryption\<close>

definition rdp_security_mac_signature ::
    "'c crypto \<Rightarrow> 'c rdp_standard_security_context \<Rightarrow> u8 list \<Rightarrow> u8 list result" where
  "rdp_security_mac_signature cr ctx data =
     (if length data > UINT32_MAX \<or> (sc_key_len ctx \<noteq> 8 \<and> sc_key_len ctx \<noteq> 16)
      then invalid_argument
      else
        let len_le = u32_le_bytes (of_nat (length data)) in
        ebind (rdp_digest_concat cr (evp_sha1 cr) 20
                 [take (sc_key_len ctx) (sc_sign_key ctx), rdp_pad1, len_le, data]) (\<lambda>sha1.
        ebind (rdp_digest_concat cr (evp_md5 cr) 16
                 [take (sc_key_len ctx) (sc_sign_key ctx), rdp_pad2, sha1]) (\<lambda>md5.
        Inr (take 8 md5))))"

definition rdp_security_write_u32_le :: "u32 \<Rightarrow> u8 list" where
  "rdp_security_write_u32_le v =
     [ucast (v AND 0xff), ucast (drop_bit 8 v AND 0xff),
      ucast (drop_bit 16 v AND 0xff), ucast (drop_bit 24 v AND 0xff)]"

definition rdp_security_salted_mac_signature ::
    "'c crypto \<Rightarrow> 'c rdp_standard_security_context \<Rightarrow> u8 list \<Rightarrow> u32 \<Rightarrow> u8 list result" where
  "rdp_security_salted_mac_signature cr ctx data use_count =
     (if length data > UINT32_MAX \<or> (sc_key_len ctx \<noteq> 8 \<and> sc_key_len ctx \<noteq> 16)
      then invalid_argument
      else if \<not> evp_md_ctx_new cr then Inl LIBRDP_STATUS_NO_MEMORY
      else
        let len_le = rdp_security_write_u32_le (of_nat (length data));
            count_le = rdp_security_write_u32_le use_count;
            sign_key = take (sc_key_len ctx) (sc_sign_key ctx)
        in
        case evp_sha1 cr (sign_key @ rdp_pad1 @ len_le @ data @ count_le) of
          None \<Rightarrow> protocol_error
        | Some sha1 \<Rightarrow>
            if length sha1 \<noteq> 20 then protocol_error
            else
              (case evp_md5 cr (sign_key @ rdp_pad2 @ sha1) of
                None \<Rightarrow> protocol_error
              | Some md5 \<Rightarrow> if length md5 \<noteq> 16 then protocol_error else Inr (take 8 md5)))"

definition rdp_security_encrypt_payload ::
    "'c crypto \<Rightarrow> 'c rdp_standard_security_context \<Rightarrow> u8 list \<Rightarrow>
     librdp_status \<times> u8 list \<times> 'c rdp_standard_security_context" where
  "rdp_security_encrypt_payload cr ctx data =
     (if sc_key_len ctx \<noteq> 8 \<and> sc_key_len ctx \<noteq> 16 then (LIBRDP_STATUS_INVALID_ARGUMENT, data, ctx)
      else
        case (if sc_encrypt_count ctx \<ge> 4096 then
                (case rdp_security_key_update cr (sc_encrypt_update_key ctx) (sc_key_len ctx)
                        (sc_method ctx) (sc_encrypt_key ctx) of (status, key) \<Rightarrow>
                   let ctx = ctx\<lparr>sc_encrypt_key := key\<rparr> in
                   if status \<noteq> LIBRDP_STATUS_OK then (status, ctx)
                   else
                     (case rdp_rc4_init cr (take (sc_key_len ctx) key) (sc_encrypt_rc4 ctx) of (status, rc4) \<Rightarrow>
                        let ctx = ctx\<lparr>sc_encrypt_rc4 := rc4\<rparr> in
                        if status \<noteq> LIBRDP_STATUS_OK then (status, ctx)
                        else (LIBRDP_STATUS_OK, ctx\<lparr>sc_encrypt_count := 0\<rparr>)))
              else (LIBRDP_STATUS_OK, ctx)) of (status, ctx) \<Rightarrow>
          if status \<noteq> LIBRDP_STATUS_OK then (status, data, ctx)
          else
            (case rdp_rc4_crypt cr (sc_encrypt_rc4 ctx) data of (status, data, rc4) \<Rightarrow>
               let ctx = ctx\<lparr>sc_encrypt_rc4 := rc4\<rparr> in
               if status \<noteq> LIBRDP_STATUS_OK then (status, data, ctx)
               else (LIBRDP_STATUS_OK, data, ctx\<lparr>sc_encrypt_count := sc_encrypt_count ctx + 1\<rparr>)))"

definition rdp_security_decrypt_payload ::
    "'c crypto \<Rightarrow> 'c rdp_standard_security_context \<Rightarrow> u8 list \<Rightarrow>
     librdp_status \<times> u8 list \<times> 'c rdp_standard_security_context" where
  "rdp_security_decrypt_payload cr ctx data =
     (if sc_key_len ctx \<noteq> 8 \<and> sc_key_len ctx \<noteq> 16 then (LIBRDP_STATUS_INVALID_ARGUMENT, data, ctx)
      else
        case (if sc_decrypt_count ctx \<ge> 4096 then
                (case rdp_security_key_update cr (sc_decrypt_update_key ctx) (sc_key_len ctx)
                        (sc_method ctx) (sc_decrypt_key ctx) of (status, key) \<Rightarrow>
                   let ctx = ctx\<lparr>sc_decrypt_key := key\<rparr> in
                   if status \<noteq> LIBRDP_STATUS_OK then (status, ctx)
                   else
                     (case rdp_rc4_init cr (take (sc_key_len ctx) key) (sc_decrypt_rc4 ctx) of (status, rc4) \<Rightarrow>
                        let ctx = ctx\<lparr>sc_decrypt_rc4 := rc4\<rparr> in
                        if status \<noteq> LIBRDP_STATUS_OK then (status, ctx)
                        else (LIBRDP_STATUS_OK, ctx\<lparr>sc_decrypt_count := 0\<rparr>)))
              else (LIBRDP_STATUS_OK, ctx)) of (status, ctx) \<Rightarrow>
          if status \<noteq> LIBRDP_STATUS_OK then (status, data, ctx)
          else
            (case rdp_rc4_crypt cr (sc_decrypt_rc4 ctx) data of (status, data, rc4) \<Rightarrow>
               let ctx = ctx\<lparr>sc_decrypt_rc4 := rc4\<rparr> in
               if status \<noteq> LIBRDP_STATUS_OK then (status, data, ctx)
               else (LIBRDP_STATUS_OK, data, ctx\<lparr>sc_decrypt_count := sc_decrypt_count ctx + 1\<rparr>)))"

section \<open>Security PDUs\<close>

definition rdp_security_write_header :: "u16 \<Rightarrow> writer" where
  "rdp_security_write_header flags =
     run_writers [rdp_buffer_append_u16_le flags, rdp_buffer_append_u16_le 0]"

definition rdp_security_write_exchange_pdu :: "u8 list \<Rightarrow> writer" where
  "rdp_security_write_exchange_pdu encrypted_client_random =
     (if length encrypted_client_random > 0xffff - 8 then reject LIBRDP_STATUS_INVALID_ARGUMENT
      else run_writers
        [rdp_security_write_header (RDP_SEC_EXCHANGE_PKT OR RDP_SEC_LICENSE_ENCRYPT_SC),
         rdp_buffer_append_u32_le (of_nat (length encrypted_client_random + 8)),
         rdp_buffer_append encrypted_client_random,
         rdp_buffer_append (replicate 8 0)])"

definition rdp_security_write_encrypted_pdu ::
    "'c crypto \<Rightarrow> u16 \<Rightarrow> u8 list \<Rightarrow> 'c rdp_standard_security_context \<times> rdp_buffer \<times> mem \<Rightarrow>
     librdp_status \<times> 'c rdp_standard_security_context \<times> rdp_buffer \<times> mem" where
  "rdp_security_write_encrypted_pdu cr flags payload = (\<lambda>(ctx, b, m).
     case (if flags AND RDP_SEC_SECURE_CHECKSUM \<noteq> 0
           then rdp_security_salted_mac_signature cr ctx payload (sc_encrypt_count ctx)
           else rdp_security_mac_signature cr ctx payload) of
       Inl e \<Rightarrow> (e, ctx, b, m)
     | Inr signature \<Rightarrow>
         (case run_writers [rdp_security_write_header (flags OR RDP_SEC_ENCRYPT),
                            rdp_buffer_append signature] (b, m) of (status, b, m) \<Rightarrow>
            if status \<noteq> LIBRDP_STATUS_OK then (status, ctx, b, m)
            else
              let encrypted_offset = buf_length b in
              case rdp_buffer_append payload (b, m) of (status, b, m) \<Rightarrow>
                if status \<noteq> LIBRDP_STATUS_OK then (status, ctx, b, m)
                else
                  (case rdp_security_encrypt_payload cr ctx
                          (take (length payload) (drop encrypted_offset (block b))) of
                     (status, data, ctx) \<Rightarrow> (status, ctx, buf_overwrite encrypted_offset data b, m))))"

text \<open>The header: flags, and the signature of an encrypted PDU.\<close>

definition unwrap_parse ::
    "'c rdp_standard_security_context option \<Rightarrow> u8 list \<Rightarrow> (u16 \<times> u8 list \<times> rdp_stream) result" where
  "unwrap_parse ctx data =
     pbind (rdp_stream_read_u16_le (rdp_stream_init data)) (\<lambda>(parsed_flags, stream).
     pbind (rdp_stream_read_u16_le stream) (\<lambda>(flags_hi, stream).
     if flags_hi \<noteq> 0 then protocol_error
     else if parsed_flags AND RDP_SEC_ENCRYPT \<noteq> 0 then
       (if ctx = None then invalid_argument
        else if rdp_stream_remaining stream < 8 then protocol_error
        else pbind (rdp_stream_read_bytes 8 stream) (\<lambda>(signature, stream).
               Inr (parsed_flags, signature, stream)))
     else Inr (parsed_flags, [], stream)))"

definition rdp_security_unwrap_pdu ::
    "'c crypto \<Rightarrow> u8 list \<Rightarrow> 'c rdp_standard_security_context option \<times> rdp_buffer \<times> mem \<Rightarrow>
     u16 result \<times> 'c rdp_standard_security_context option \<times> rdp_buffer \<times> mem" where
  "rdp_security_unwrap_pdu cr data = (\<lambda>(ctx, b, m).
     case unwrap_parse ctx data of
       Inl e \<Rightarrow> (Inl e, ctx, b, m)
     | Inr (parsed_flags, signature, stream) \<Rightarrow>
         (case rdp_stream_read_bytes (rdp_stream_remaining stream) stream of
            Inl e \<Rightarrow> (protocol_error, ctx, b, m)
          | Inr (body, stream) \<Rightarrow>
              let output_offset = buf_length b in
              case rdp_buffer_append body (b, m) of (status, b, m) \<Rightarrow>
                if status \<noteq> LIBRDP_STATUS_OK then (Inl status, ctx, b, m)
                else if parsed_flags AND RDP_SEC_ENCRYPT = 0 then (Inr parsed_flags, ctx, b, m)
                else
                  (case rdp_security_decrypt_payload cr (the ctx)
                          (take (length body) (drop output_offset (block b))) of
                     (status, decrypted, ctx) \<Rightarrow>
                       let failed = (\<lambda>e. (Inl e, Some ctx,
                             buf_truncate output_offset
                               (buf_overwrite output_offset (replicate (length body) 0) b), m)) in
                       if status \<noteq> LIBRDP_STATUS_OK then failed status
                       else
                         let b = buf_overwrite output_offset decrypted b in
                         case (if parsed_flags AND RDP_SEC_SECURE_CHECKSUM = 0
                               then rdp_security_mac_signature cr ctx decrypted
                               else rdp_security_salted_mac_signature cr ctx decrypted
                                 (if sc_decrypt_count ctx = 0 then 0 else sc_decrypt_count ctx - 1)) of
                           Inl e \<Rightarrow> failed e
                         | Inr expected \<Rightarrow>
                             if signature \<noteq> expected then failed LIBRDP_STATUS_PROTOCOL_ERROR
                             else (Inr parsed_flags, Some ctx, b, m))))"

definition rdp_security_write_per_length :: "nat \<Rightarrow> writer" where
  "rdp_security_write_per_length n =
     (if n > 0x7fff then reject LIBRDP_STATUS_INVALID_ARGUMENT
      else if n > 0x7f then rdp_buffer_append_u16_be (of_nat n OR 0x8000)
      else rdp_buffer_append_u8 (of_nat n))"

definition rdp_security_write_per_integer16 :: "u16 \<Rightarrow> u16 \<Rightarrow> writer" where
  "rdp_security_write_per_integer16 v lo =
     (if v < lo then reject LIBRDP_STATUS_INVALID_ARGUMENT
      else rdp_buffer_append_u16_be (v - lo))"

definition rdp_security_write_send_data_request :: "u16 \<Rightarrow> u16 \<Rightarrow> u8 list \<Rightarrow> writer" where
  "rdp_security_write_send_data_request user_id channel_id payload =
     (if user_id < RDP_MCS_BASE_CHANNEL_ID \<or> length payload > 0x7fff
      then reject LIBRDP_STATUS_INVALID_ARGUMENT
      else run_writers
        [rdp_buffer_append_u8 (push_bit 2 25),
         rdp_security_write_per_integer16 user_id RDP_MCS_BASE_CHANNEL_ID,
         rdp_security_write_per_integer16 channel_id 0,
         rdp_buffer_append_u8 0x70,
         rdp_security_write_per_length (length payload),
         rdp_buffer_append payload])"

section \<open>Licensing\<close>

definition rdp_security_license_keys ::
    "'c crypto \<Rightarrow> u8 list \<Rightarrow> u8 list \<Rightarrow> u8 list \<Rightarrow> (u8 list \<times> u8 list) result" where
  "rdp_security_license_keys cr premaster_secret client_random server_random =
     ebind (rdp_secret_triplet cr premaster_secret (ascii ''A'') (ascii ''BB'') (ascii ''CCC'')
              client_random server_random) (\<lambda>master.
     ebind (rdp_secret_triplet cr master (ascii ''A'') (ascii ''BB'') (ascii ''CCC'')
              server_random client_random) (\<lambda>session_blob.
     ebind (rdp_digest_concat cr (evp_md5 cr) 16
              [take 16 (drop 16 session_blob), take 32 client_random, take 32 server_random])
       (\<lambda>encryption_key. Inr (take 16 session_blob, encryption_key))))"

definition rdp_security_license_mac :: "'c crypto \<Rightarrow> u8 list \<Rightarrow> u8 list \<Rightarrow> u8 list result" where
  "rdp_security_license_mac cr mac_salt_key data =
     (if length data > UINT32_MAX then invalid_argument
      else if \<not> evp_md_ctx_new cr then Inl LIBRDP_STATUS_NO_MEMORY
      else
        let len_le = rdp_security_write_u32_le (of_nat (length data)) in
        case evp_sha1 cr (take 16 mac_salt_key @ rdp_pad1 @ len_le @ data) of
          None \<Rightarrow> protocol_error
        | Some sha1 \<Rightarrow>
            if length sha1 \<noteq> 20 then protocol_error
            else
              (case evp_md5 cr (take 16 mac_salt_key @ rdp_pad2 @ sha1) of
                None \<Rightarrow> protocol_error
              | Some mac \<Rightarrow> if length mac \<noteq> 16 then protocol_error else Inr mac))"

definition rdp_security_license_crypt :: "'c crypto \<Rightarrow> u8 list \<Rightarrow> u8 list \<Rightarrow> writer" where
  "rdp_security_license_crypt cr encryption_key input = (\<lambda>(b, m).
     if length input > 0xffff then (LIBRDP_STATUS_INVALID_ARGUMENT, b, m)
     else
       let start = buf_length b;
           failed = (\<lambda>status b. (status,
             buf_truncate start (buf_overwrite start (replicate (buf_length b - start) 0) b)))
       in
       case rdp_buffer_append input (b, m) of (status, b, m) \<Rightarrow>
         if status \<noteq> LIBRDP_STATUS_OK then (case failed status b of (s, b) \<Rightarrow> (s, b, m))
         else
           (case rdp_rc4_init cr (take 16 encryption_key) rdp_rc4_empty of (status, rc4) \<Rightarrow>
              if status \<noteq> LIBRDP_STATUS_OK then (case failed status b of (s, b) \<Rightarrow> (s, b, m))
              else
                (case rdp_rc4_crypt cr rc4 (take (length input) (drop start (block b))) of
                   (status, data, rc4) \<Rightarrow>
                     let b = buf_overwrite start data b in
                     if status \<noteq> LIBRDP_STATUS_OK then (case failed status b of (s, b) \<Rightarrow> (s, b, m))
                     else (LIBRDP_STATUS_OK, b, m))))"

section \<open>What the code relies on\<close>

text \<open>
  \<open>rc4_involutive\<close>: RC4 adds a key stream that depends on the cipher state only, so that the same
  state undoes it. \<open>digest_lengths\<close>: SHA-1 and MD5 give 20 and 16 bytes. \<open>crypto_available\<close>: no call
  fails.
\<close>

definition digest_lengths :: "'c crypto \<Rightarrow> bool" where
  "digest_lengths cr \<longleftrightarrow>
     (\<forall>x d. evp_sha1 cr x = Some d \<longrightarrow> length d = 20) \<and>
     (\<forall>x d. evp_md5 cr x = Some d \<longrightarrow> length d = 16)"

definition rc4_involutive :: "'c crypto \<Rightarrow> bool" where
  "rc4_involutive cr \<longleftrightarrow>
     (\<forall>c d e c'. evp_update cr c d = Some (e, c') \<longrightarrow> length e = length d \<longrightarrow>
        evp_update cr c e = Some (d, c'))"

definition crypto_available :: "'c crypto \<Rightarrow> bool" where
  "crypto_available cr \<longleftrightarrow>
     evp_md_ctx_new cr \<and> evp_provider cr = LIBRDP_STATUS_OK \<and> evp_cipher_ctx_new cr \<and>
     evp_ctx_reset cr \<and> evp_fetch cr \<and>
     (\<forall>x. \<exists>d. evp_sha1 cr x = Some d \<and> length d = 20) \<and>
     (\<forall>x. \<exists>d. evp_md5 cr x = Some d \<and> length d = 16) \<and>
     (\<forall>k. \<exists>c. evp_rc4_key cr k = Some c) \<and>
     (\<forall>c d. \<exists>e c'. evp_update cr c d = Some (e, c') \<and> length e = length d)"

section \<open>The cipher\<close>

lemma rc4_chunks_length:
  "rc4_chunks cr c d = (st, e, c') \<Longrightarrow> length e = length d"
proof (induction cr c d arbitrary: st e c' rule: rc4_chunks.induct)
  case (1 cr c d)
  note unfolded = "1.prems" [unfolded rc4_chunks.simps [of cr c d] Let_def]
  show ?case
  proof (cases "d = []")
    case True
    then show ?thesis using unfolded by simp
  next
    case False
    show ?thesis
    proof (cases "evp_update cr c (take INT_MAX d)")
      case None
      then show ?thesis using False unfolded by simp
    next
      case (Some oc)
      obtain out c1 where oc: "oc = (out, c1)" by (cases oc)
      obtain st1 rest c2 where r: "rc4_chunks cr c1 (drop INT_MAX d) = (st1, rest, c2)"
        by (cases "rc4_chunks cr c1 (drop INT_MAX d)") auto
      show ?thesis
      proof (cases "length out = length (take INT_MAX d)")
        case True
        then have "length rest = length d - INT_MAX"
          using "1.IH" [OF False refl Some oc [symmetric] _ r] by simp
        then show ?thesis using False unfolded Some oc r True by (auto simp: min_def)
      next
        case neq: False
        then show ?thesis using False unfolded Some oc by simp
      qed
    qed
  qed
qed

lemma rc4_chunks_involutive:
  assumes "rc4_involutive cr"
  shows "rc4_chunks cr c d = (LIBRDP_STATUS_OK, e, c') \<Longrightarrow>
    rc4_chunks cr c e = (LIBRDP_STATUS_OK, d, c')"
  using assms
proof (induction cr c d arbitrary: e c' rule: rc4_chunks.induct)
  case (1 cr c d)
  show ?case
  proof (cases "d = []")
    case True
    then show ?thesis using "1.prems" by (simp add: rc4_chunks.simps)
  next
    case False
    let ?chunk = "take INT_MAX d"
    from "1.prems"(1) False obtain out c1 rest where
      out: "evp_update cr c ?chunk = Some (out, c1)" "length out = length ?chunk"
      and rest: "rc4_chunks cr c1 (drop INT_MAX d) = (LIBRDP_STATUS_OK, rest, c')" "e = out @ rest"
      by (subst (asm) rc4_chunks.simps) (auto simp: Let_def split: option.splits prod.splits if_splits)
    have len: "length rest = length (drop INT_MAX d)" by (rule rc4_chunks_length [OF rest(1)])
    have "out \<noteq> []" using out(2) False by (cases d) (auto simp: INT_MAX_def)
    moreover have "take INT_MAX e = out" "drop INT_MAX e = rest"
      using out(2) len rest(2) by (auto simp: min_def split: if_splits)
    moreover have "evp_update cr c out = Some (?chunk, c1)"
      using "1.prems"(2) out unfolding rc4_involutive_def by blast
    moreover have "rc4_chunks cr c1 rest = (LIBRDP_STATUS_OK, drop INT_MAX d, c')"
      using "1.IH" [OF False refl out(1) refl _ rest(1)] out(2) "1.prems"(2) by simp
    moreover have "e \<noteq> []" using \<open>out \<noteq> []\<close> rest(2) by simp
    ultimately show ?thesis
      using out(2) by (subst rc4_chunks.simps) (simp add: Let_def del: take_append)
  qed
qed

lemma rc4_crypt_length: "rdp_rc4_crypt cr ctx d = (st, e, ctx') \<Longrightarrow> length e = length d"
  by (auto simp: rdp_rc4_crypt_def split: if_splits option.splits prod.splits dest: rc4_chunks_length)

lemma rc4_crypt_involutive:
  assumes "rc4_involutive cr" and "rdp_rc4_crypt cr ctx d = (LIBRDP_STATUS_OK, e, ctx')"
  shows "rdp_rc4_crypt cr ctx e = (LIBRDP_STATUS_OK, d, ctx')"
proof -
  from assms(2) have ready: "rc4_cipher ctx \<noteq> None" "rc4_initialized ctx"
    by (auto simp: rdp_rc4_crypt_def split: if_splits)
  then obtain oc where oc: "rc4_cipher ctx = Some oc" by auto
  show ?thesis
  proof (cases oc)
    case None
    then show ?thesis using assms(2) ready oc by (auto simp: rdp_rc4_crypt_def split: if_splits)
  next
    case (Some c)
    obtain st out c' where r: "rc4_chunks cr c d = (st, out, c')" by (cases "rc4_chunks cr c d") auto
    then have *: "st = LIBRDP_STATUS_OK" "out = e" "ctx' = ctx\<lparr>rc4_cipher := Some (Some c')\<rparr>"
      using assms(2) ready oc Some by (simp_all add: rdp_rc4_crypt_def)
    from rc4_chunks_involutive [OF assms(1) r [unfolded *(1,2)]] show ?thesis
      using * ready oc Some by (simp add: rdp_rc4_crypt_def)
  qed
qed

text \<open>Encryption and decryption are the same transformation, applied to one side of a context each.\<close>

definition crypt_side ::
    "'c crypto \<Rightarrow> u8 list \<Rightarrow> nat \<Rightarrow> u32 \<Rightarrow> u8 list \<times> u32 \<times> 'c rdp_rc4_context \<Rightarrow> u8 list \<Rightarrow>
     librdp_status \<times> u8 list \<times> u8 list \<times> u32 \<times> 'c rdp_rc4_context" where
  "crypt_side cr upd klen meth = (\<lambda>(key, count, rc4) data.
     case (if count \<ge> 4096 then
             (case rdp_security_key_update cr upd klen meth key of (status, key) \<Rightarrow>
                if status \<noteq> LIBRDP_STATUS_OK then (status, key, count, rc4)
                else
                  (case rdp_rc4_init cr (take klen key) rc4 of (status, rc4) \<Rightarrow>
                     if status \<noteq> LIBRDP_STATUS_OK then (status, key, count, rc4)
                     else (LIBRDP_STATUS_OK, key, 0, rc4)))
           else (LIBRDP_STATUS_OK, key, count, rc4)) of (status, key, count, rc4) \<Rightarrow>
       if status \<noteq> LIBRDP_STATUS_OK then (status, data, key, count, rc4)
       else
         (case rdp_rc4_crypt cr rc4 data of (status, data, rc4) \<Rightarrow>
            if status \<noteq> LIBRDP_STATUS_OK then (status, data, key, count, rc4)
            else (LIBRDP_STATUS_OK, data, key, count + 1, rc4)))"

lemma encrypt_side:
  "rdp_security_encrypt_payload cr s d =
     (if sc_key_len s \<noteq> 8 \<and> sc_key_len s \<noteq> 16 then (LIBRDP_STATUS_INVALID_ARGUMENT, d, s)
      else case crypt_side cr (sc_encrypt_update_key s) (sc_key_len s) (sc_method s)
             (sc_encrypt_key s, sc_encrypt_count s, sc_encrypt_rc4 s) d of
        (status, e, key, count, rc4) \<Rightarrow>
          (status, e, s\<lparr>sc_encrypt_key := key, sc_encrypt_count := count, sc_encrypt_rc4 := rc4\<rparr>))"
proof -
  obtain st1 k1 where 1: "rdp_security_key_update cr (sc_encrypt_update_key s) (sc_key_len s)
      (sc_method s) (sc_encrypt_key s) = (st1, k1)" by (rule prod.exhaust)
  obtain st2 r2 where 2: "rdp_rc4_init cr (take (sc_key_len s) k1) (sc_encrypt_rc4 s) = (st2, r2)"
    by (rule prod.exhaust)
  obtain st3 d3 r3 where 3: "rdp_rc4_crypt cr r2 d = (st3, d3, r3)" by (rule prod_cases3)
  obtain st4 d4 r4 where 4: "rdp_rc4_crypt cr (sc_encrypt_rc4 s) d = (st4, d4, r4)" by (rule prod_cases3)
  show ?thesis
  proof (cases "sc_key_len s \<noteq> 8 \<and> sc_key_len s \<noteq> 16")
    case True
    then show ?thesis by (simp add: rdp_security_encrypt_payload_def)
  next
    case False
    then have v: "(sc_key_len s \<noteq> 8 \<and> sc_key_len s \<noteq> 16) = False" by simp
    show ?thesis
      unfolding rdp_security_encrypt_payload_def crypt_side_def Let_def v if_False
      by (simp add: 1 2 3 4)
  qed
qed

lemma decrypt_side:
  "rdp_security_decrypt_payload cr s d =
     (if sc_key_len s \<noteq> 8 \<and> sc_key_len s \<noteq> 16 then (LIBRDP_STATUS_INVALID_ARGUMENT, d, s)
      else case crypt_side cr (sc_decrypt_update_key s) (sc_key_len s) (sc_method s)
             (sc_decrypt_key s, sc_decrypt_count s, sc_decrypt_rc4 s) d of
        (status, e, key, count, rc4) \<Rightarrow>
          (status, e, s\<lparr>sc_decrypt_key := key, sc_decrypt_count := count, sc_decrypt_rc4 := rc4\<rparr>))"
proof -
  obtain st1 k1 where 1: "rdp_security_key_update cr (sc_decrypt_update_key s) (sc_key_len s)
      (sc_method s) (sc_decrypt_key s) = (st1, k1)" by (rule prod.exhaust)
  obtain st2 r2 where 2: "rdp_rc4_init cr (take (sc_key_len s) k1) (sc_decrypt_rc4 s) = (st2, r2)"
    by (rule prod.exhaust)
  obtain st3 d3 r3 where 3: "rdp_rc4_crypt cr r2 d = (st3, d3, r3)" by (rule prod_cases3)
  obtain st4 d4 r4 where 4: "rdp_rc4_crypt cr (sc_decrypt_rc4 s) d = (st4, d4, r4)" by (rule prod_cases3)
  show ?thesis
  proof (cases "sc_key_len s \<noteq> 8 \<and> sc_key_len s \<noteq> 16")
    case True
    then show ?thesis by (simp add: rdp_security_decrypt_payload_def)
  next
    case False
    then have v: "(sc_key_len s \<noteq> 8 \<and> sc_key_len s \<noteq> 16) = False" by simp
    show ?thesis
      unfolding rdp_security_decrypt_payload_def crypt_side_def Let_def v if_False
      by (simp add: 1 2 3 4)
  qed
qed

section \<open>Two ends of a session\<close>

definition paired :: "'c rdp_standard_security_context \<Rightarrow> 'c rdp_standard_security_context \<Rightarrow> bool" where
  "paired s r \<longleftrightarrow>
     sc_sign_key s = sc_sign_key r \<and> sc_key_len s = sc_key_len r \<and> sc_method s = sc_method r \<and>
     sc_encrypt_key s = sc_decrypt_key r \<and> sc_encrypt_update_key s = sc_decrypt_update_key r \<and>
     sc_encrypt_count s = sc_decrypt_count r \<and> sc_encrypt_rc4 s = sc_decrypt_rc4 r"

lemma crypt_side_cases:
  assumes "crypt_side cr upd klen meth (key, count, rc4) d = (st, e, key', count', rc4')"
  obtains (kept) st0 key0 rc40 where "\<And>d. crypt_side cr upd klen meth (key, count, rc4) d =
        (st0, d, key0, count, rc40)" "st0 \<noteq> LIBRDP_STATUS_OK"
    | (crypted) key0 rc40 where "\<And>d. crypt_side cr upd klen meth (key, count, rc4) d =
        (case rdp_rc4_crypt cr rc40 d of (status, data, rc4) \<Rightarrow>
            if status \<noteq> LIBRDP_STATUS_OK
            then (status, data, key0, if count \<ge> 4096 then 0 else count, rc4)
            else (LIBRDP_STATUS_OK, data, key0, if count \<ge> 4096 then 1 else count + 1, rc4))"
proof -
  obtain st1 k1 where 1: "rdp_security_key_update cr upd klen meth key = (st1, k1)"
    by (rule prod.exhaust)
  obtain st2 r2 where 2: "rdp_rc4_init cr (take klen k1) rc4 = (st2, r2)"
    by (rule prod.exhaust)
  consider "\<not> 4096 \<le> count" | "4096 \<le> count" "st1 \<noteq> LIBRDP_STATUS_OK"
    | "4096 \<le> count" "st1 = LIBRDP_STATUS_OK" "st2 \<noteq> LIBRDP_STATUS_OK"
    | "4096 \<le> count" "st1 = LIBRDP_STATUS_OK" "st2 = LIBRDP_STATUS_OK" by blast
  then show ?thesis
  proof cases
    case 1
    then show ?thesis by (intro crypted [of key rc4]) (simp add: crypt_side_def)
  next
    case b: 2
    then show ?thesis by (intro kept [of st1 k1 rc4]) (simp_all add: crypt_side_def 1)
  next
    case b: 3
    then show ?thesis by (intro kept [of st2 k1 r2]) (simp_all add: crypt_side_def 1 2)
  next
    case b: 4
    then show ?thesis by (intro crypted [of k1 r2]) (simp_all add: crypt_side_def 1 2 cong: if_cong)
  qed
qed

lemma crypt_side_length:
  assumes "crypt_side cr upd klen meth (key, count, rc4) d = (st, e, key', count', rc4')"
  shows "length e = length d"
  using assms
proof (cases rule: crypt_side_cases)
  case (crypted key0 rc40)
  obtain st3 d3 r3 where 3: "rdp_rc4_crypt cr rc40 d = (st3, d3, r3)" by (rule prod_cases3)
  have "e = d3" using assms crypted 3 by (auto split: if_splits)
  with rc4_crypt_length [OF 3] show ?thesis by simp
qed (use assms in auto)

lemma crypt_side_involutive:
  assumes inv: "rc4_involutive cr"
    and side: "crypt_side cr upd klen meth (key, count, rc4) d = (LIBRDP_STATUS_OK, e, key', count', rc4')"
  shows "crypt_side cr upd klen meth (key, count, rc4) e = (LIBRDP_STATUS_OK, d, key', count', rc4')"
    and "count' = (if count \<ge> 4096 then 1 else count + 1)"
proof -
  have "crypt_side cr upd klen meth (key, count, rc4) e = (LIBRDP_STATUS_OK, d, key', count', rc4') \<and>
      count' = (if count \<ge> 4096 then 1 else count + 1)"
    using side
  proof (cases rule: crypt_side_cases)
    case (crypted key0 rc40)
    obtain st3 d3 r3 where 3: "rdp_rc4_crypt cr rc40 d = (st3, d3, r3)" by (rule prod_cases3)
    have ok: "st3 = LIBRDP_STATUS_OK" "d3 = e" using side crypted 3 by (auto split: if_splits)
    from rc4_crypt_involutive [OF inv 3 [unfolded ok]] show ?thesis
      using side crypted 3 ok by auto
  qed (use side in auto)
  then show "crypt_side cr upd klen meth (key, count, rc4) e = (LIBRDP_STATUS_OK, d, key', count', rc4')"
    and "count' = (if count \<ge> 4096 then 1 else count + 1)" by auto
qed

lemma decrypt_encrypt:
  assumes inv: "rc4_involutive cr" and p: "paired s r"
    and enc: "rdp_security_encrypt_payload cr s d = (LIBRDP_STATUS_OK, e, s')"
  shows "\<exists>r'. rdp_security_decrypt_payload cr r e = (LIBRDP_STATUS_OK, d, r') \<and> paired s' r' \<and>
    (paired r s \<longrightarrow> paired r' s') \<and>
    sc_decrypt_count r' = (if sc_encrypt_count s \<ge> 4096 then 1 else sc_encrypt_count s + 1) \<and>
    sc_sign_key r' = sc_sign_key s \<and> sc_key_len r' = sc_key_len s"
proof -
  obtain st e1 key count rc4 where side: "crypt_side cr (sc_encrypt_update_key s) (sc_key_len s)
      (sc_method s) (sc_encrypt_key s, sc_encrypt_count s, sc_encrypt_rc4 s) d = (st, e1, key, count, rc4)"
    by (rule prod_cases5)
  have eq: "st = LIBRDP_STATUS_OK" "e1 = e"
    and s': "s' = s\<lparr>sc_encrypt_key := key, sc_encrypt_count := count, sc_encrypt_rc4 := rc4\<rparr>"
    and len: "sc_key_len s = 8 \<or> sc_key_len s = 16"
    using enc side by (auto simp: encrypt_side split: if_splits)
  note undone = crypt_side_involutive [OF inv side [unfolded eq]]
  show ?thesis
    using p s' len undone by (auto simp: decrypt_side paired_def)
qed

lemma payload_length:
  "rdp_security_decrypt_payload cr r e = (st, d, r') \<Longrightarrow> length d = length e"
  "rdp_security_encrypt_payload cr s d' = (st', e', s') \<Longrightarrow> length e' = length d'"
  by (auto simp: encrypt_side decrypt_side split: if_splits prod.splits dest: crypt_side_length)

lemma mac_cong:
  "sc_sign_key s = sc_sign_key r \<Longrightarrow> sc_key_len s = sc_key_len r \<Longrightarrow>
    rdp_security_mac_signature cr s d = rdp_security_mac_signature cr r d \<and>
    rdp_security_salted_mac_signature cr s d n = rdp_security_salted_mac_signature cr r d n"
  by (simp add: rdp_security_mac_signature_def rdp_security_salted_mac_signature_def)

lemma signature_length:
  assumes "digest_lengths cr"
  shows "rdp_security_mac_signature cr s d = Inr sig \<Longrightarrow> length sig = 8"
    and "rdp_security_salted_mac_signature cr s d n = Inr sig \<Longrightarrow> length sig = 8"
  using assms
  by (auto simp: rdp_security_mac_signature_def rdp_security_salted_mac_signature_def Let_def accepts
      rdp_digest_concat_def digest_lengths_def split: if_splits option.splits)

lemma flag_simps:
  "RDP_SEC_ENCRYPT \<noteq> 0"
  "(flags OR RDP_SEC_ENCRYPT) AND RDP_SEC_SECURE_CHECKSUM = flags AND RDP_SEC_SECURE_CHECKSUM"
  by (simp_all add: RDP_SEC_ENCRYPT_def RDP_SEC_SECURE_CHECKSUM_def bit.conj_disj_distrib2)

lemma mac_error:
  "rdp_security_mac_signature cr s d \<noteq> Inl LIBRDP_STATUS_OK"
  "rdp_security_salted_mac_signature cr s d n \<noteq> Inl LIBRDP_STATUS_OK"
  by (auto simp: rdp_security_mac_signature_def rdp_security_salted_mac_signature_def Let_def ebind_def
      rdp_digest_concat_def split: option.splits sum.splits if_splits)

text \<open>The signature of the sender, as \<open>rdp_security_write_encrypted_pdu\<close> computes it.\<close>

definition sender_mac ::
    "'c crypto \<Rightarrow> u16 \<Rightarrow> 'c rdp_standard_security_context \<Rightarrow> u8 list \<Rightarrow> u8 list result" where
  "sender_mac cr flags s d =
     (if flags AND RDP_SEC_SECURE_CHECKSUM \<noteq> 0
      then rdp_security_salted_mac_signature cr s d (sc_encrypt_count s)
      else rdp_security_mac_signature cr s d)"

definition encrypted_pdu :: "u16 \<Rightarrow> u8 list \<Rightarrow> u8 list \<Rightarrow> u8 list" where
  "encrypted_pdu flags sig e =
     u16_le_bytes (flags OR RDP_SEC_ENCRYPT) @ u16_le_bytes 0 @ sig @ e"

lemma emits_security_header [emits_rules]:
  "emits (rdp_security_write_header flags) (u16_le_bytes flags @ u16_le_bytes 0)"
  by (auto simp: rdp_security_write_header_def intro!: emits_rules)

lemma write_encrypted_pdu_ok:
  assumes ok: "buf_ok b"
    and res: "rdp_security_write_encrypted_pdu cr flags payload (s, b, m) = (LIBRDP_STATUS_OK, s', b', m')"
  obtains sig e where "sender_mac cr flags s payload = Inr sig"
    "rdp_security_encrypt_payload cr s payload = (LIBRDP_STATUS_OK, e, s')"
    "buf_ok b'" "contents b' = contents b @ encrypted_pdu flags sig e"
proof -
  from res obtain sig where sig: "sender_mac cr flags s payload = Inr sig"
    by (cases "sender_mac cr flags s payload")
      (auto simp: rdp_security_write_encrypted_pdu_def sender_mac_def mac_error split: if_splits)
  let ?hdr = "u16_le_bytes (flags OR RDP_SEC_ENCRYPT) @ u16_le_bytes 0"
  let ?w = "run_writers [rdp_security_write_header (flags OR RDP_SEC_ENCRYPT), rdp_buffer_append sig]"
  have w: "emits ?w (?hdr @ sig)" by (auto intro!: emits_rules)
  obtain st1 b1 m1 where 1: "?w (b, m) = (st1, b1, m1)" by (rule prod_cases3)
  obtain st2 b2 m2 where 2: "rdp_buffer_append payload (b1, m1) = (st2, b2, m2)" by (rule prod_cases3)
  obtain st3 e s3 where 3: "rdp_security_encrypt_payload cr s
      (take (length payload) (drop (buf_length b1) (block b2))) = (st3, e, s3)" by (rule prod_cases3)
  have r: "st1 = LIBRDP_STATUS_OK" "st2 = LIBRDP_STATUS_OK" "st3 = LIBRDP_STATUS_OK"
    "s3 = s'" "b' = buf_overwrite (buf_length b1) e b2"
    using res sig 1 2 3
    by (auto simp: rdp_security_write_encrypted_pdu_def sender_mac_def [symmetric] Let_def
        simp del: run_writers.simps split: if_splits)
  note b1 = emitsD [OF w ok 1]
  note b2 = emitsD [OF emits_append b1(1) 2]
  have c2: "contents b2 = (contents b @ ?hdr @ sig) @ payload"
    using b1(2) b2(2) r by simp
  have l1: "length (contents b @ ?hdr @ sig) = buf_length b1" using b1(1,2) r length_contents by metis
  have region: "take (length payload) (drop (buf_length b1) (block b2)) = payload"
    using contents_region [OF b2(1) c2] l1 by simp
  have le: "length e = length payload" using payload_length(2) [OF 3] region by simp
  have l2: "buf_length b2 = buf_length b1 + length payload"
    using c2 l1 b2(1) length_contents by (metis length_append)
  note ow = buf_overwrite_ok [OF b2(1), of "buf_length b1" e]
  show ?thesis
  proof (rule that [OF sig])
    show "rdp_security_encrypt_payload cr s payload = (LIBRDP_STATUS_OK, e, s')" using 3 region r by simp
    show "buf_ok b'" using ow(1) r le l2 by simp
    show "contents b' = contents b @ encrypted_pdu flags sig e"
      using ow(2) r le l2 c2 l1 by (simp add: encrypted_pdu_def)
  qed
qed

lemma unwrap_encrypted_pdu:
  assumes p: "buf_ok p" and room: "buf_length p + length e \<le> 2 ^ 63" and sig: "length sig = 8"
    and dec: "rdp_security_decrypt_payload cr r e = (LIBRDP_STATUS_OK, d, r')"
    and mac: "(if flags AND RDP_SEC_SECURE_CHECKSUM = 0 then rdp_security_mac_signature cr r' d
       else rdp_security_salted_mac_signature cr r' d
         (if sc_decrypt_count r' = 0 then 0 else sc_decrypt_count r' - 1)) = Inr expected"
  shows "\<exists>p'. rdp_security_unwrap_pdu cr (encrypted_pdu flags sig e) (Some r, p, []) =
      (if sig = expected then Inr (flags OR RDP_SEC_ENCRYPT) else protocol_error, Some r', p', []) \<and>
    buf_ok p' \<and> contents p' = (if sig = expected then contents p @ d else contents p)"
proof -
  obtain st1 p1 m1 where 1: "rdp_buffer_append e (p, []) = (st1, p1, m1)" by (rule prod_cases3)
  note s1 = emitsD [OF emits_append p 1]
  have r1: "st1 = LIBRDP_STATUS_OK" "m1 = []" using s1(5) room by auto
  then have c1: "contents p1 = contents p @ e" using s1(2) by simp
  have region: "take (length e) (drop (buf_length p) (block p1)) = e"
    using contents_region [OF s1(1) c1] p by simp
  have l1: "buf_length p1 = buf_length p + length e"
    using c1 p s1(1) by (metis length_append length_contents)
  have ld: "length d = length e" by (rule payload_length(1) [OF dec])
  note ow = buf_overwrite_ok [OF s1(1), of "buf_length p" d]
  note oz = buf_overwrite_ok [OF s1(1), of "buf_length p" "replicate (length e) 0"]
  note tr = buf_truncate_ok [OF oz(1), of "buf_length p"]
  have stream: "rdp_security_unwrap_pdu cr (encrypted_pdu flags sig e) (Some r, p, []) =
     (if sig = expected then (Inr (flags OR RDP_SEC_ENCRYPT), Some r', buf_overwrite (buf_length p) d p1, [])
      else (protocol_error, Some r',
        buf_truncate (buf_length p) (buf_overwrite (buf_length p) (replicate (length e) 0) p1), []))"
    using sig 1 r1 region dec mac
    by (simp add: rdp_security_unwrap_pdu_def unwrap_parse_def encrypted_pdu_def stream_rules Let_def flag_simps)
  show ?thesis
    unfolding stream using ow oz tr l1 ld c1 p by auto
qed

text \<open>A concrete instance: an XOR cipher, and digests that keep the last bytes of their input.\<close>

definition sample_crypto :: "unit crypto" where
  "sample_crypto = \<lparr>evp_md_ctx_new = True,
     evp_sha1 = (\<lambda>x. Some (rev (take 20 (rev (replicate 20 0 @ x))))),
     evp_md5 = (\<lambda>x. Some (take 16 (rev x @ replicate 16 0))),
     evp_provider = LIBRDP_STATUS_OK, evp_cipher_ctx_new = True, evp_ctx_reset = True, evp_fetch = True,
     evp_rc4_key = (\<lambda>k. Some ()),
     evp_update = (\<lambda>c d. Some (map (\<lambda>x. x XOR 0x55) d, c))\<rparr>"

definition sample_context :: "u32 \<Rightarrow> unit rdp_standard_security_context" where
  "sample_context n = \<lparr>sc_sign_key = replicate 16 7, sc_encrypt_key = replicate 16 1,
     sc_decrypt_key = replicate 16 1, sc_encrypt_update_key = replicate 16 1,
     sc_decrypt_update_key = replicate 16 1, sc_key_len = 16, sc_method = 2,
     sc_encrypt_count = n, sc_decrypt_count = n,
     sc_encrypt_rc4 = \<lparr>rc4_cipher = Some (Some ()), rc4_initialized = True\<rparr>,
     sc_decrypt_rc4 = \<lparr>rc4_cipher = Some (Some ()), rc4_initialized = True\<rparr>\<rparr>"

lemma apply_method_swap:
  "rdp_security_apply_method meth (s, e, d) = Inr ((s', e', d'), k) \<Longrightarrow>
    rdp_security_apply_method meth (s, d, e) = Inr ((s', d', e'), k)"
  by (auto simp: rdp_security_apply_method_def split: if_splits)

text \<open>The keys that both ends derive from the two randoms, before the direction is chosen.\<close>

definition session_keys :: "'c crypto \<Rightarrow> u8 list \<Rightarrow> u8 list \<Rightarrow> (u8 list \<times> u8 list \<times> u8 list) result" where
  "session_keys cr crnd srnd =
     ebind (rdp_secret_triplet cr (take 24 crnd @ take 24 srnd) (ascii ''A'') (ascii ''BB'') (ascii ''CCC'')
              crnd srnd) (\<lambda>master.
     ebind (rdp_secret_triplet cr master (ascii ''X'') (ascii ''YY'') (ascii ''ZZZ'') crnd srnd) (\<lambda>blob.
     ebind (rdp_md5_key cr (take 16 (drop 16 blob)) crnd srnd) (\<lambda>sk.
     ebind (rdp_md5_key cr (take 16 (drop 32 blob)) crnd srnd) (\<lambda>ck.
     Inr (take 16 blob, sk, ck)))))"

lemma init_direction_unfold:
  "rdp_security_standard_init_direction cr meth crnd srnd side ctx =
     (if meth = 0 \<or> meth = RDP_SECURITY_METHOD_FIPS then (LIBRDP_STATUS_UNSUPPORTED, ctx)
      else case ebind (session_keys cr crnd srnd) (\<lambda>(sign, sk, ck).
             rdp_security_apply_method meth (sign, if side then sk else ck, if side then ck else sk)) of
          Inl e \<Rightarrow> (e, rdp_security_cleared)
        | Inr ((sign, ekey, dkey), klen) \<Rightarrow>
            (case rdp_rc4_init cr (take klen ekey) rdp_rc4_empty of (status, rc4e) \<Rightarrow>
               if status \<noteq> LIBRDP_STATUS_OK then (status, rdp_security_cleared)
               else
                 (case rdp_rc4_init cr (take klen dkey) rdp_rc4_empty of (status, rc4d) \<Rightarrow>
                    if status \<noteq> LIBRDP_STATUS_OK then (status, rdp_security_cleared)
                    else (LIBRDP_STATUS_OK,
                      \<lparr>sc_sign_key = sign, sc_encrypt_key = ekey, sc_decrypt_key = dkey,
                       sc_encrypt_update_key = ekey, sc_decrypt_update_key = dkey,
                       sc_key_len = klen, sc_method = meth, sc_encrypt_count = 0,
                       sc_decrypt_count = 0, sc_encrypt_rc4 = rc4e, sc_decrypt_rc4 = rc4d\<rparr>))))"
  unfolding rdp_security_standard_init_direction_def session_keys_def rdp_security_standard_clear_def Let_def
  by (cases "rdp_secret_triplet cr (take 24 crnd @ take 24 srnd) (ascii ''A'') (ascii ''BB'') (ascii ''CCC'')
              crnd srnd")
     (simp_all add: ebind_def split: sum.split)

lemma digest_concat_ne: "rdp_digest_concat cr md n parts \<noteq> Inl LIBRDP_STATUS_OK"
  by (auto simp: rdp_digest_concat_def split: option.splits)

lemma secret_triplet_ne: "rdp_secret_triplet cr x a b c r1 r2 \<noteq> Inl LIBRDP_STATUS_OK"
proof -
  have "rdp_salted_hash cr x l r1 r2 \<noteq> Inl LIBRDP_STATUS_OK" for l
    by (simp add: rdp_salted_hash_def ebind_eq_Inl digest_concat_ne)
  then show ?thesis by (simp add: rdp_secret_triplet_def ebind_eq_Inl)
qed

lemma session_keys_ne: "session_keys cr crnd srnd \<noteq> Inl LIBRDP_STATUS_OK"
  by (simp add: session_keys_def ebind_eq_Inl secret_triplet_ne rdp_md5_key_def digest_concat_ne)

section \<open>Success when OpenSSL does not fail\<close>

lemma digest_available:
  assumes "crypto_available cr"
  shows "\<exists>d. rdp_digest_concat cr (evp_sha1 cr) 20 parts = Inr d \<and> length d = 20"
    and "\<exists>d. rdp_digest_concat cr (evp_md5 cr) 16 parts = Inr d \<and> length d = 16"
proof -
  obtain d1 where "evp_sha1 cr (concat parts) = Some d1" "length d1 = 20"
    using assms unfolding crypto_available_def by blast
  moreover obtain d2 where "evp_md5 cr (concat parts) = Some d2" "length d2 = 16"
    using assms unfolding crypto_available_def by blast
  ultimately show "\<exists>d. rdp_digest_concat cr (evp_sha1 cr) 20 parts = Inr d \<and> length d = 20"
    and "\<exists>d. rdp_digest_concat cr (evp_md5 cr) 16 parts = Inr d \<and> length d = 16"
    using assms by (simp_all add: rdp_digest_concat_def crypto_available_def)
qed

lemma available_lengths: "crypto_available cr \<Longrightarrow> digest_lengths cr"
  unfolding crypto_available_def digest_lengths_def by (metis option.inject)

definition keyed :: "'c rdp_rc4_context \<Rightarrow> bool" where
  "keyed ctx \<longleftrightarrow> rc4_initialized ctx \<and> (\<exists>c. rc4_cipher ctx = Some (Some c))"

lemma rc4_init_available:
  assumes "crypto_available cr" and "key \<noteq> []" and "length key \<le> 16"
  shows "\<exists>rc4. rdp_rc4_init cr key ctx = (LIBRDP_STATUS_OK, rc4) \<and> keyed rc4"
proof -
  obtain c where "evp_rc4_key cr key = Some c" using assms(1) unfolding crypto_available_def by blast
  with assms show ?thesis
    by (simp add: rdp_rc4_init_def crypto_available_def keyed_def Let_def INT_MAX_def)
qed

lemma rc4_chunks_available:
  "crypto_available cr \<Longrightarrow> \<exists>e c'. rc4_chunks cr c d = (LIBRDP_STATUS_OK, e, c')"
proof (induction cr c d rule: rc4_chunks.induct)
  case (1 cr c d)
  show ?case
  proof (cases "d = []")
    case True
    then show ?thesis by (simp add: rc4_chunks.simps)
  next
    case False
    obtain e c' where u: "evp_update cr c (take INT_MAX d) = Some (e, c')" "length e = length (take INT_MAX d)"
      using "1.prems" unfolding crypto_available_def by blast
    from "1.IH" [OF False refl u(1) refl _ "1.prems"] u(2) obtain e2 c2 where
      "rc4_chunks cr c' (drop INT_MAX d) = (LIBRDP_STATUS_OK, e2, c2)" by blast
    with u False show ?thesis by (subst rc4_chunks.simps) (simp add: Let_def)
  qed
qed

lemma rc4_crypt_available:
  assumes "crypto_available cr" and "keyed ctx"
  shows "\<exists>e ctx'. rdp_rc4_crypt cr ctx d = (LIBRDP_STATUS_OK, e, ctx') \<and> keyed ctx' \<and> length e = length d"
proof -
  obtain c where c: "rc4_cipher ctx = Some (Some c)" "rc4_initialized ctx" using assms(2) by (auto simp: keyed_def)
  obtain e c' where "rc4_chunks cr c d = (LIBRDP_STATUS_OK, e, c')" using rc4_chunks_available [OF assms(1)] by blast
  with c rc4_chunks_length [OF this] show ?thesis by (simp add: rdp_rc4_crypt_def keyed_def)
qed

lemma key_update_available:
  assumes "crypto_available cr" and "klen = 8 \<or> klen = 16"
  shows "\<exists>key'. rdp_security_key_update cr upd klen meth key = (LIBRDP_STATUS_OK, key') \<and> length key' = 16"
proof -
  obtain sha where 1: "rdp_digest_concat cr (evp_sha1 cr) 20 [take klen upd, rdp_pad1, take klen key] = Inr sha"
    using digest_available(1) [OF assms(1)] by blast
  obtain md where 2: "rdp_digest_concat cr (evp_md5 cr) 16 [take klen upd, rdp_pad2, sha] = Inr md" "length md = 16"
    using digest_available(2) [OF assms(1)] by blast
  have "take klen md \<noteq> []" "length (take klen md) \<le> 16" using 2 assms(2) by auto
  from rc4_init_available [OF assms(1) this] obtain rc4 where
    3: "rdp_rc4_init cr (take klen md) rdp_rc4_empty = (LIBRDP_STATUS_OK, rc4)" "keyed rc4" by blast
  from rc4_crypt_available [OF assms(1) 3(2)] obtain e rc4' where
    4: "rdp_rc4_crypt cr rc4 (take klen md) = (LIBRDP_STATUS_OK, e, rc4')" "length e = length (take klen md)" by blast
  have "length (e @ drop klen md) = 16" using 4(2) 2(2) assms(2) by auto
  then show ?thesis
    using 1 2 3 4 assms(2) by (auto simp: rdp_security_key_update_def Let_def salt_key_def)
qed

lemma crypt_side_available:
  assumes "crypto_available cr" and "klen = 8 \<or> klen = 16" and "keyed rc4"
  shows "\<exists>e key' count' rc4'. crypt_side cr upd klen meth (key, count, rc4) d =
    (LIBRDP_STATUS_OK, e, key', count', rc4') \<and> keyed rc4'"
proof -
  obtain k where 1: "rdp_security_key_update cr upd klen meth key = (LIBRDP_STATUS_OK, k)" "length k = 16"
    using key_update_available [OF assms(1,2)] by blast
  have "take klen k \<noteq> []" "length (take klen k) \<le> 16" using 1 assms(2) by auto
  from rc4_init_available [OF assms(1) this, of rc4] obtain r where
    2: "rdp_rc4_init cr (take klen k) rc4 = (LIBRDP_STATUS_OK, r)" "keyed r" by blast
  from rc4_crypt_available [OF assms(1) 2(2), of d] rc4_crypt_available [OF assms(1,3), of d]
  obtain e1 r1 e2 r2 where
    "rdp_rc4_crypt cr r d = (LIBRDP_STATUS_OK, e1, r1)" "keyed r1"
    "rdp_rc4_crypt cr rc4 d = (LIBRDP_STATUS_OK, e2, r2)" "keyed r2" by blast
  with 1 2 show ?thesis by (simp add: crypt_side_def)
qed

text \<open>A context that can send.\<close>

definition can_send :: "'c rdp_standard_security_context \<Rightarrow> bool" where
  "can_send s \<longleftrightarrow> (sc_key_len s = 8 \<or> sc_key_len s = 16) \<and> keyed (sc_encrypt_rc4 s)"

lemma encrypt_available:
  assumes "crypto_available cr" and "can_send s"
  shows "\<exists>e s'. rdp_security_encrypt_payload cr s d = (LIBRDP_STATUS_OK, e, s') \<and> can_send s'"
proof -
  have s: "sc_key_len s = 8 \<or> sc_key_len s = 16" "keyed (sc_encrypt_rc4 s)" using assms(2) by (simp_all add: can_send_def)
  from crypt_side_available [OF assms(1) s] obtain e k n r where
    "crypt_side cr (sc_encrypt_update_key s) (sc_key_len s) (sc_method s)
       (sc_encrypt_key s, sc_encrypt_count s, sc_encrypt_rc4 s) d = (LIBRDP_STATUS_OK, e, k, n, r)" "keyed r"
    by blast
  with s show ?thesis by (auto simp: encrypt_side can_send_def)
qed

lemma mac_available:
  assumes "crypto_available cr" and "can_send s" and "length d \<le> UINT32_MAX"
  shows "\<exists>sig. rdp_security_mac_signature cr s d = Inr sig"
    and "\<exists>sig. rdp_security_salted_mac_signature cr s d n = Inr sig"
proof -
  let ?key = "take (sc_key_len s) (sc_sign_key s)"
  obtain sha where 1: "rdp_digest_concat cr (evp_sha1 cr) 20
      [?key, rdp_pad1, u32_le_bytes (of_nat (length d)), d] = Inr sha"
    using digest_available(1) [OF assms(1)] by blast
  obtain md where 2: "rdp_digest_concat cr (evp_md5 cr) 16 [?key, rdp_pad2, sha] = Inr md"
    using digest_available(2) [OF assms(1)] by blast
  show "\<exists>sig. rdp_security_mac_signature cr s d = Inr sig"
    using 1 2 assms(2,3) by (auto simp: rdp_security_mac_signature_def can_send_def Let_def)
  let ?in = "?key @ rdp_pad1 @ rdp_security_write_u32_le (of_nat (length d)) @ d @ rdp_security_write_u32_le n"
  obtain sha where 3: "evp_sha1 cr ?in = Some sha" "length sha = 20"
    using assms(1) unfolding crypto_available_def by blast
  obtain md where 4: "evp_md5 cr (?key @ rdp_pad2 @ sha) = Some md" "length md = 16"
    using assms(1) unfolding crypto_available_def by blast
  show "\<exists>sig. rdp_security_salted_mac_signature cr s d n = Inr sig"
    using 3 4 assms by (auto simp: rdp_security_salted_mac_signature_def can_send_def Let_def crypto_available_def)
qed

lemma write_encrypted_available:
  assumes cr: "crypto_available cr" and s: "can_send s" and n: "length d \<le> UINT32_MAX" and b: "buf_ok b"
    and room: "buf_length b + length d + 12 \<le> 2 ^ 63"
  shows "\<exists>s' b'. rdp_security_write_encrypted_pdu cr flags d (s, b, []) = (LIBRDP_STATUS_OK, s', b', []) \<and>
    can_send s'"
proof -
  obtain sig where sig: "sender_mac cr flags s d = Inr sig"
    using mac_available [OF cr s n]
    by (cases "flags AND RDP_SEC_SECURE_CHECKSUM = 0") (auto simp: sender_mac_def)
  then have l: "length sig = 8" using signature_length [OF available_lengths [OF cr]]
    by (auto simp: sender_mac_def split: if_splits)
  let ?w = "run_writers [rdp_security_write_header (flags OR RDP_SEC_ENCRYPT), rdp_buffer_append sig]"
  have w: "emits ?w ((u16_le_bytes (flags OR RDP_SEC_ENCRYPT) @ u16_le_bytes 0) @ sig)" by (auto intro!: emits_rules)
  obtain st1 b1 m1 where 1: "?w (b, []) = (st1, b1, m1)" by (rule prod_cases3)
  note s1 = emitsD [OF w b 1]
  have r1: "st1 = LIBRDP_STATUS_OK" "m1 = []" using s1(5) l room by auto
  have l1: "buf_length b1 = buf_length b + 12"
    using s1(1,2) r1 l b length_contents [of b1] length_contents [of b] by simp
  obtain st2 b2 m2 where 2: "rdp_buffer_append d (b1, []) = (st2, b2, m2)" by (rule prod_cases3)
  note s2 = emitsD [OF emits_append s1(1) 2]
  have r2: "st2 = LIBRDP_STATUS_OK" "m2 = []" using s2(5) l1 room by auto
  obtain e s' where "rdp_security_encrypt_payload cr s (take (length d) (drop (buf_length b1) (block b2))) =
      (LIBRDP_STATUS_OK, e, s')" "can_send s'"
    using encrypt_available [OF cr s] by blast
  then show ?thesis
    using sig 1 2 r1 r2
    by (simp add: rdp_security_write_encrypted_pdu_def sender_mac_def [symmetric] Let_def del: run_writers.simps)
qed

lemma sample_crypto_laws:
  "rc4_involutive sample_crypto" "digest_lengths sample_crypto" "crypto_available sample_crypto"
  proof -
  have "map ((\<lambda>x :: u8. x XOR 85) \<circ> (\<lambda>x. x XOR 85)) d = d" for d
    by (rule map_idI) (simp add: xor.assoc)
  then show "rc4_involutive sample_crypto" by (auto simp: rc4_involutive_def sample_crypto_def)
qed (auto simp: digest_lengths_def crypto_available_def sample_crypto_def)

lemma sample_paired: "paired (sample_context n) (sample_context n)" "can_send (sample_context n)"
  by (simp_all add: paired_def can_send_def keyed_def sample_context_def)

lemma secret_triplet_available:
  assumes "crypto_available cr" and "length x = 48"
  shows "\<exists>o48. rdp_secret_triplet cr x l1 l2 l3 r1 r2 = Inr o48 \<and> length o48 = 48"
proof -
  have *: "\<exists>d. rdp_salted_hash cr x l r1 r2 = Inr d \<and> length d = 16" for l
  proof -
    obtain sha where "rdp_digest_concat cr (evp_sha1 cr) 20 [l, x, take 32 r1, take 32 r2] = Inr sha"
      using digest_available(1) [OF assms(1)] by blast
    moreover obtain md where "rdp_digest_concat cr (evp_md5 cr) 16 [x, sha] = Inr md" "length md = 16"
      using digest_available(2) [OF assms(1)] by blast
    ultimately show ?thesis using assms(2) by (simp add: rdp_salted_hash_def)
  qed
  from * [of l1] * [of l2] * [of l3] show ?thesis by (auto simp: rdp_secret_triplet_def)
qed

lemma session_keys_available:
  assumes "crypto_available cr" and "length crnd = 32" and "length srnd = 32"
  shows "\<exists>sign sk ck. session_keys cr crnd srnd = Inr (sign, sk, ck) \<and> length sk = 16 \<and> length ck = 16"
proof -
  obtain master where 1: "rdp_secret_triplet cr (take 24 crnd @ take 24 srnd) (ascii ''A'') (ascii ''BB'')
      (ascii ''CCC'') crnd srnd = Inr master" "length master = 48"
    using secret_triplet_available [OF assms(1), of "take 24 crnd @ take 24 srnd"] assms(2,3) by fastforce
  obtain blob where 2: "rdp_secret_triplet cr master (ascii ''X'') (ascii ''YY'') (ascii ''ZZZ'') crnd srnd = Inr blob"
    using secret_triplet_available [OF assms(1) 1(2)] by blast
  obtain sk ck where "rdp_md5_key cr (take 16 (drop 16 blob)) crnd srnd = Inr sk" "length sk = 16"
    "rdp_md5_key cr (take 16 (drop 32 blob)) crnd srnd = Inr ck" "length ck = 16"
    using digest_available(2) [OF assms(1)] unfolding rdp_md5_key_def by meson
  with 1 2 show ?thesis by (simp add: session_keys_def)
qed

text \<open>
  C27. Key agreement. From the same two randoms, and for each of the 40-bit, 56-bit and 128-bit encryption methods (FIPS is
  not covered), client and server initialisation succeed and give contexts that match in both directions: what one encrypts with,
  the other decrypts with.
\<close>

theorem security_handshake_pairs:
  assumes cr: "crypto_available cr" and len: "length crnd = 32" "length srnd = 32"
    and meth: "meth \<in> {RDP_SECURITY_METHOD_40BIT, RDP_SECURITY_METHOD_56BIT, RDP_SECURITY_METHOD_128BIT}"
  shows "\<exists>c s. rdp_security_standard_client_init cr meth crnd srnd c0 = (LIBRDP_STATUS_OK, c) \<and>
    rdp_security_standard_server_init cr meth crnd srnd s0 = (LIBRDP_STATUS_OK, s) \<and>
    paired c s \<and> paired s c \<and> can_send c \<and> can_send s"
proof -
  obtain sign sk ck where k: "session_keys cr crnd srnd = Inr (sign, sk, ck)" "length sk = 16" "length ck = 16"
    using session_keys_available [OF cr len] by blast
  obtain sign' ekey dkey klen where a:
    "rdp_security_apply_method meth (sign, ck, sk) = Inr ((sign', ekey, dkey), klen)"
    "klen = 8 \<or> klen = 16" "length ekey = 16" "length dkey = 16"
    using meth k(2,3) by (auto simp: rdp_security_apply_method_def salt_key_def RDP_SECURITY_METHOD_40BIT_def
        RDP_SECURITY_METHOD_56BIT_def RDP_SECURITY_METHOD_128BIT_def)
  have ne: "take klen ekey \<noteq> []" "length (take klen ekey) \<le> 16"
    "take klen dkey \<noteq> []" "length (take klen dkey) \<le> 16" using a by auto
  obtain r1 r2 where r: "rdp_rc4_init cr (take klen ekey) rdp_rc4_empty = (LIBRDP_STATUS_OK, r1)" "keyed r1"
    "rdp_rc4_init cr (take klen dkey) rdp_rc4_empty = (LIBRDP_STATUS_OK, r2)" "keyed r2"
    using rc4_init_available [OF cr ne(1,2)] rc4_init_available [OF cr ne(3,4)] by blast
  have "meth \<noteq> 0" "meth \<noteq> RDP_SECURITY_METHOD_FIPS"
    using meth by (auto simp: RDP_SECURITY_METHOD_FIPS_def RDP_SECURITY_METHOD_40BIT_def
        RDP_SECURITY_METHOD_56BIT_def RDP_SECURITY_METHOD_128BIT_def)
  then show ?thesis
    using k a r apply_method_swap [OF a(1)]
    by (simp add: rdp_security_standard_client_init_def rdp_security_standard_server_init_def
        init_direction_unfold paired_def can_send_def)
qed

theorem security_handshake_pairs_witness:
  "\<exists>c s. rdp_security_standard_client_init sample_crypto RDP_SECURITY_METHOD_128BIT (replicate 32 1)
       (replicate 32 2) rdp_security_cleared = (LIBRDP_STATUS_OK, c) \<and>
     rdp_security_standard_server_init sample_crypto RDP_SECURITY_METHOD_128BIT (replicate 32 1)
       (replicate 32 2) rdp_security_cleared = (LIBRDP_STATUS_OK, s) \<and> paired c s \<and> can_send c"
  using security_handshake_pairs [OF sample_crypto_laws(3), of "replicate 32 1" "replicate 32 2"
      RDP_SECURITY_METHOD_128BIT rdp_security_cleared rdp_security_cleared]
  by auto

lemma count_minus_one: "(n :: u32) < 4096 \<Longrightarrow> n + 1 \<noteq> 0 \<and> n + 1 - 1 = n"
proof -
  assume "n < 4096"
  then have "unat (n + 1) = unat n + 1" by (simp add: word_less_nat_alt unat_word_ariths)
  then show ?thesis by auto
qed

lemma encrypted_pdu_travels:
  assumes cr: "rc4_involutive cr" "crypto_available cr" and s: "paired s r" "can_send s"
    and bufs: "buf_ok b" "buf_ok p"
    and chk: "flags AND RDP_SEC_SECURE_CHECKSUM = 0 \<or> sc_encrypt_count s < 4096"
    and room: "length payload \<le> UINT32_MAX" "buf_length b \<le> 2 ^ 62" "buf_length p \<le> 2 ^ 62"
  shows "\<exists>s' b' pdu p' r'.
    rdp_security_write_encrypted_pdu cr flags payload (s, b, []) = (LIBRDP_STATUS_OK, s', b', []) \<and>
    contents b' = contents b @ pdu \<and> length pdu = length payload + 12 \<and> buf_ok b' \<and>
    rdp_security_unwrap_pdu cr pdu (Some r, p, []) =
      (Inr (flags OR RDP_SEC_ENCRYPT), Some r', p', []) \<and>
    contents p' = contents p @ payload \<and> buf_ok p' \<and>
    paired s' r' \<and> can_send s' \<and> (paired r s \<longrightarrow> paired r' s')"
proof -
  obtain s' b' where w: "rdp_security_write_encrypted_pdu cr flags payload (s, b, []) = (LIBRDP_STATUS_OK, s', b', [])"
    "can_send s'"
    using write_encrypted_available [OF cr(2) s(2) room(1) bufs(1), of flags] room by (auto simp: UINT32_MAX_def)
  from write_encrypted_pdu_ok [OF bufs(1) w(1)] obtain sig e where
    sig: "sender_mac cr flags s payload = Inr sig"
    and enc: "rdp_security_encrypt_payload cr s payload = (LIBRDP_STATUS_OK, e, s')"
    and out: "contents b' = contents b @ encrypted_pdu flags sig e" "buf_ok b'" by blast
  from decrypt_encrypt [OF cr(1) s(1) enc] obtain r' where
    dec: "rdp_security_decrypt_payload cr r e = (LIBRDP_STATUS_OK, payload, r')"
    and r': "paired s' r'" "paired r s \<longrightarrow> paired r' s'"
      "sc_decrypt_count r' = (if sc_encrypt_count s \<ge> 4096 then 1 else sc_encrypt_count s + 1)"
      "sc_sign_key s = sc_sign_key r'" "sc_key_len s = sc_key_len r'" by auto
  have len: "length sig = 8" "length e = length payload"
    using sig signature_length [OF available_lengths [OF cr(2)]] payload_length(2) [OF enc]
    by (auto simp: sender_mac_def split: if_splits)
  have mac: "(if flags AND RDP_SEC_SECURE_CHECKSUM = 0 then rdp_security_mac_signature cr r' payload
      else rdp_security_salted_mac_signature cr r' payload
         (if sc_decrypt_count r' = 0 then 0 else sc_decrypt_count r' - 1)) = Inr sig"
    using sig chk r'(3) mac_cong [OF r'(4,5)] count_minus_one [of "sc_encrypt_count s"]
    by (auto simp: sender_mac_def split: if_splits)
  have "buf_length p + length e \<le> 2 ^ 63" using room len by (simp add: UINT32_MAX_def)
  from unwrap_encrypted_pdu [OF bufs(2) this len(1) dec mac] w out r' len show ?thesis
    by (auto simp: encrypted_pdu_def)
qed

text \<open>
  C28. Encrypted PDUs. Between matching contexts an encrypted PDU is written, verified and decrypted to
  the payload and flags that were sent, also when the packet triggers the key update, and the
  contexts match again in both directions afterwards, so that the next packet goes through. With the
  secure checksum this needs that no key update is due.
\<close>

theorem security_pdu_roundtrip:
  assumes cr: "rc4_involutive cr" "crypto_available cr" and s: "paired s r" "can_send s"
    and bufs: "buf_ok b" "buf_ok p"
    and chk: "flags AND RDP_SEC_SECURE_CHECKSUM = 0 \<or> sc_encrypt_count s < 4096"
    and room: "length payload \<le> UINT32_MAX" "buf_length b \<le> 2 ^ 62" "buf_length p \<le> 2 ^ 62"
  shows "\<exists>s' b' pdu p' r'.
    rdp_security_write_encrypted_pdu cr flags payload (s, b, []) = (LIBRDP_STATUS_OK, s', b', []) \<and>
    contents b' = contents b @ pdu \<and>
    rdp_security_unwrap_pdu cr pdu (Some r, p, []) =
      (Inr (flags OR RDP_SEC_ENCRYPT), Some r', p', []) \<and>
    contents p' = contents p @ payload \<and> buf_ok p' \<and>
    paired s' r' \<and> can_send s' \<and> (paired r s \<longrightarrow> paired r' s')"
  using encrypted_pdu_travels [OF assms] by blast

theorem security_pdu_roundtrip_witness:
  "\<exists>s' b' p' r'. rdp_security_write_encrypted_pdu sample_crypto 0 [1, 2, 3]
       (sample_context 4096, rdp_buffer_init, []) = (LIBRDP_STATUS_OK, s', b', []) \<and>
     rdp_security_unwrap_pdu sample_crypto (contents b') (Some (sample_context 4096), rdp_buffer_init, []) =
       (Inr (0 OR RDP_SEC_ENCRYPT), Some r', p', []) \<and> contents p' = [1, 2, 3] \<and> paired s' r'"
  using security_pdu_roundtrip [OF sample_crypto_laws(1,3) sample_paired(1,2) buf_ok_init buf_ok_init,
      of 0 4096 "[1, 2, 3]"]
  by (auto simp: UINT32_MAX_def)

text \<open>
  C30. Secure checksum at a key update. The sender salts the checksum with the packet count before the
  key update (4096 or more) and the receiver with the count after it (0): whenever the two
  checksums differ, the receiver rejects the genuine packet with a protocol error.
\<close>

theorem security_checksum_breaks_at_key_update:
  assumes cr: "rc4_involutive cr" "crypto_available cr" and s: "paired s r" "can_send s"
    and bufs: "buf_ok b" "buf_ok p"
    and chk: "flags AND RDP_SEC_SECURE_CHECKSUM \<noteq> 0" "sc_encrypt_count s \<ge> 4096"
      "rdp_security_salted_mac_signature cr s payload (sc_encrypt_count s) \<noteq>
       rdp_security_salted_mac_signature cr s payload 0"
    and room: "length payload \<le> UINT32_MAX" "buf_length b \<le> 2 ^ 62" "buf_length p \<le> 2 ^ 62"
  shows "\<exists>s' b' pdu p' r'.
    rdp_security_write_encrypted_pdu cr flags payload (s, b, []) = (LIBRDP_STATUS_OK, s', b', []) \<and>
    contents b' = contents b @ pdu \<and>
    rdp_security_unwrap_pdu cr pdu (Some r, p, []) = (protocol_error, Some r', p', []) \<and>
    contents p' = contents p"
proof -
  obtain s' b' where w: "rdp_security_write_encrypted_pdu cr flags payload (s, b, []) = (LIBRDP_STATUS_OK, s', b', [])"
    using write_encrypted_available [OF cr(2) s(2) room(1) bufs(1), of flags] room by (auto simp: UINT32_MAX_def)
  from write_encrypted_pdu_ok [OF bufs(1) w(1)] obtain sig e where
    sig: "sender_mac cr flags s payload = Inr sig"
    and enc: "rdp_security_encrypt_payload cr s payload = (LIBRDP_STATUS_OK, e, s')"
    and out: "contents b' = contents b @ encrypted_pdu flags sig e" by blast
  from decrypt_encrypt [OF cr(1) s(1) enc] obtain r' where
    dec: "rdp_security_decrypt_payload cr r e = (LIBRDP_STATUS_OK, payload, r')"
    and r': "sc_decrypt_count r' = 1" "sc_sign_key s = sc_sign_key r'" "sc_key_len s = sc_key_len r'"
    using chk(2) by auto
  have len: "length sig = 8" "length e = length payload"
    using sig signature_length [OF available_lengths [OF cr(2)]] payload_length(2) [OF enc]
    by (auto simp: sender_mac_def split: if_splits)
  obtain expected where x: "rdp_security_salted_mac_signature cr s payload 0 = Inr expected"
    using mac_available(2) [OF cr(2) s(2) room(1)] by blast
  then have "sig \<noteq> expected" using sig chk(1,3) by (auto simp: sender_mac_def)
  moreover have mac: "(if flags AND RDP_SEC_SECURE_CHECKSUM = 0 then rdp_security_mac_signature cr r' payload
      else rdp_security_salted_mac_signature cr r' payload
         (if sc_decrypt_count r' = 0 then 0 else sc_decrypt_count r' - 1)) = Inr expected"
    using chk(1) x r' mac_cong [OF r'(2,3)] by simp
  moreover have "buf_length p + length e \<le> 2 ^ 63" using room len by (simp add: UINT32_MAX_def)
  ultimately show ?thesis
    using unwrap_encrypted_pdu [OF bufs(2) _ len(1) dec mac] w out by auto
qed

theorem security_checksum_breaks_at_key_update_witness:
  "\<exists>s' b' p' r'. rdp_security_write_encrypted_pdu sample_crypto RDP_SEC_SECURE_CHECKSUM [1]
       (sample_context 4096, rdp_buffer_init, []) = (LIBRDP_STATUS_OK, s', b', []) \<and>
     rdp_security_unwrap_pdu sample_crypto (contents b') (Some (sample_context 4096), rdp_buffer_init, []) =
       (protocol_error, Some r', p', [])"
proof -
  have mac: "rdp_security_salted_mac_signature sample_crypto (sample_context 4096) [1]
      (sc_encrypt_count (sample_context 4096)) \<noteq>
    rdp_security_salted_mac_signature sample_crypto (sample_context 4096) [1] 0"
    by (simp add: rdp_security_salted_mac_signature_def sample_crypto_def sample_context_def Let_def
        UINT32_MAX_def rdp_security_write_u32_le_def rdp_pad1_def rdp_pad2_def)
  have f: "RDP_SEC_SECURE_CHECKSUM AND RDP_SEC_SECURE_CHECKSUM \<noteq> 0"
    "sc_encrypt_count (sample_context 4096) \<ge> 4096"
    by (simp_all add: RDP_SEC_SECURE_CHECKSUM_def sample_context_def)
  from security_checksum_breaks_at_key_update [OF sample_crypto_laws(1,3) sample_paired(1,2)
      buf_ok_init buf_ok_init f mac]
  show ?thesis by (auto simp: UINT32_MAX_def)
qed


lemma unwrap_parse_ok:
  assumes "unwrap_parse ctx data = Inr (fl, sig, s)"
  obtains pre body where "data = u16_le_bytes fl @ u16_le_bytes 0 @ sig @ body" "s = strm pre body"
    "if fl AND RDP_SEC_ENCRYPT = 0 then sig = [] else length sig = 8 \<and> ctx \<noteq> None"
  using assms by (auto simp: unwrap_parse_def accepts split: if_splits)

text \<open>
  C29. Unwrapping. On any input, unwrapping a security PDU either fails and leaves the contents of the
  output buffer as they were, or appends a body that is the plain rest of the PDU or the decryption
  of it whose signature, computed with the session keys, is the one in the PDU.
\<close>

theorem security_unwrap_safe:
  assumes p: "buf_ok p" and res: "rdp_security_unwrap_pdu cr data (ctx, p, m) = (res, ctx', p', m')"
  shows "buf_ok p' \<and>
    (case res of
       Inl e \<Rightarrow> contents p' = contents p
     | Inr fl \<Rightarrow>
         (\<exists>sig body plain. data = u16_le_bytes fl @ u16_le_bytes 0 @ sig @ body \<and>
            contents p' = contents p @ plain \<and>
            (if fl AND RDP_SEC_ENCRYPT = 0 then sig = [] \<and> plain = body
             else length sig = 8 \<and> (\<exists>r r' n. ctx = Some r \<and> ctx' = Some r' \<and>
               rdp_security_decrypt_payload cr r body = (LIBRDP_STATUS_OK, plain, r') \<and>
               (rdp_security_mac_signature cr r' plain = Inr sig \<or>
                rdp_security_salted_mac_signature cr r' plain n = Inr sig)))))"
proof (cases "unwrap_parse ctx data")
  case (Inl e)
  then have "res = Inl e" "p' = p"
    using res by (simp_all add: rdp_security_unwrap_pdu_def)
  with p show ?thesis by simp
next
  case (Inr x)
  then obtain fl sig s where x: "unwrap_parse ctx data = Inr (fl, sig, s)" by (cases x) auto
  from unwrap_parse_ok [OF x] obtain pre body where data: "data = u16_le_bytes fl @ u16_le_bytes 0 @ sig @ body"
    and s: "s = strm pre body"
    and sig: "if fl AND RDP_SEC_ENCRYPT = 0 then sig = [] else length sig = 8 \<and> ctx \<noteq> None" by blast
  obtain st1 p1 m1 where 1: "rdp_buffer_append body (p, m) = (st1, p1, m1)" by (rule prod_cases3)
  note s1 = append_from_spec [OF p source_ok_Outside 1 [unfolded rdp_buffer_append_def], simplified]
  note unf = res [unfolded rdp_security_unwrap_pdu_def prod.case x s sum.case]
  show ?thesis
  proof (cases "st1 = LIBRDP_STATUS_OK \<and> fl AND RDP_SEC_ENCRYPT \<noteq> 0")
    case False
    then show ?thesis
      using unf 1 s1 data sig
      by (auto simp: stream_rules Let_def split: if_splits)
  next
    case True
    then obtain r where r: "ctx = Some r" and l: "length sig = 8" using sig by auto
    have c1: "contents p1 = contents p @ body" using s1(2) True by simp
    have region: "take (length body) (drop (buf_length p) (block p1)) = body"
      using contents_region [OF s1(1) c1] p by simp
    have l1: "buf_length p1 = buf_length p + length body"
      using c1 p s1(1) by (metis length_append length_contents)
    obtain st2 d r' where 2: "rdp_security_decrypt_payload cr r body = (st2, d, r')" by (rule prod_cases3)
    note ow = buf_overwrite_ok [OF s1(1), of "buf_length p" d]
    note oz = buf_overwrite_ok [OF s1(1), of "buf_length p" "replicate (length body) 0"]
    note tr = buf_truncate_ok [OF oz(1), of "buf_length p"]
    have z: "buf_ok (buf_truncate (buf_length p) (buf_overwrite (buf_length p) (replicate (length body) 0) p1))"
      "contents (buf_truncate (buf_length p) (buf_overwrite (buf_length p) (replicate (length body) 0) p1)) = contents p"
      using tr oz l1 c1 p by auto
    have o: "buf_ok (buf_overwrite (buf_length p) d p1)"
      "contents (buf_overwrite (buf_length p) d p1) = contents p @ d"
      using ow l1 c1 p payload_length(1) [OF 2] by auto
    show ?thesis
      using unf 1 True data sig r region 2 z o l
      by (auto simp: stream_rules Let_def split: if_splits sum.splits) blast+
  qed
qed


theorem security_unwrap_safe_witness:
  "\<exists>res ctx' p' m'. rdp_security_unwrap_pdu sample_crypto [8, 0, 0, 0, 1, 2, 3]
       (Some (sample_context 0), rdp_buffer_init, []) = (Inl res, ctx', p', m') \<and> contents p' = []"
proof -
  have w: "rdp_security_unwrap_pdu sample_crypto [8, 0, 0, 0, 1, 2, 3]
      (Some (sample_context 0), rdp_buffer_init, []) = (protocol_error, Some (sample_context 0), rdp_buffer_init, [])"
    by (simp add: rdp_security_unwrap_pdu_def unwrap_parse_def stream_rules le16_def RDP_SEC_ENCRYPT_def)
  from security_unwrap_safe [OF buf_ok_init w] w show ?thesis by auto
qed

text \<open>
  No downgrade. Under a mode other than the standard one the selected protocol is accepted exactly when the server negotiated and chose a
  supported protocol, other than standard security, out of those that the client asked for. Under the standard mode it is
  accepted when it is standard security, and without a negotiation when it is supported at all.
\<close>

lemma security_no_downgrade:
  "rdp_security_protocol_allowed mode present selected \<longleftrightarrow>
    (if mode = LIBRDP_SECURITY_STANDARD then
       (if present then selected = RDP_X224_PROTOCOL_STANDARD else rdp_security_protocol_supported selected)
     else present \<and> rdp_security_protocol_supported selected \<and>
       selected \<noteq> RDP_X224_PROTOCOL_STANDARD \<and>
       selected AND rdp_security_protocol_mask mode = selected)"
  by (cases mode)
    (auto simp: rdp_security_protocol_allowed_def rdp_security_protocol_supported_def
      RDP_X224_PROTOCOL_STANDARD_def RDP_X224_PROTOCOL_TLS_def RDP_X224_PROTOCOL_NLA_def)

section \<open>Properties of the remaining PDUs\<close>

lemma send_data_request_eq:
  "rdp_security_write_per_length = rdp_mcs_write_per_length"
  "rdp_security_write_per_integer16 = rdp_mcs_write_per_integer16"
  by (auto simp: fun_eq_iff rdp_security_write_per_length_def rdp_mcs_write_per_length_def
      rdp_security_write_per_integer16_def rdp_mcs_write_per_integer16_def)

lemma emits_send_data_request [emits_rules]:
  "RDP_MCS_BASE_CHANNEL_ID \<le> user \<Longrightarrow> length payload \<le> 0x7fff \<Longrightarrow>
    emits (rdp_security_write_send_data_request user channel payload)
      (send_data_pdu 25 user channel payload)"
  by (auto simp: rdp_security_write_send_data_request_def send_data_request_eq send_data_pdu_def
      domain_choice_byte_def intro!: emits_rules)

end
