(* ===== verification/Fastpath.thy ===== *)
theory Fastpath
  imports Security
begin

text \<open>
  Fast-path output packets, \<^verbatim>\<open>src/src/protocol/fastpath.c\<close>: the two- or three-byte header, the list of
  updates in a packet, and the removal of Standard Security from an encrypted packet.
\<close>

section \<open>Types and constants\<close>

abbreviation "RDP_FASTPATH_OUTPUT_ACTION_FASTPATH \<equiv> (0x00 :: u8)"
abbreviation "RDP_FASTPATH_OUTPUT_ACTION_X224 \<equiv> (0x03 :: u8)"
abbreviation "RDP_FASTPATH_OUTPUT_ENCRYPTED \<equiv> (0x01 :: u8)"
abbreviation "RDP_FASTPATH_OUTPUT_SECURE_CHECKSUM \<equiv> (0x02 :: u8)"
abbreviation "RDP_FASTPATH_OUTPUT_COMPRESSION_USED \<equiv> (0x02 :: u8)"
abbreviation "RDP_FASTPATH_FRAGMENT_SINGLE \<equiv> (0x00 :: u8)"
abbreviation "RDP_FASTPATH_FRAGMENT_NEXT \<equiv> (0x03 :: u8)"
abbreviation "RDP_FASTPATH_UPDATE_SYNCHRONIZE \<equiv> (0x03 :: u8)"

definition RDP_FASTPATH_MAX_UPDATES :: nat where
  "RDP_FASTPATH_MAX_UPDATES = 64"

record rdp_fastpath_header =
  fh_action :: u8
  fh_security_flags :: u8
  fh_length :: u16
  fh_header_length :: nat
  fh_long_length :: bool

record rdp_fastpath_update =
  up_update_code :: u8
  up_fragmentation :: u8
  up_compression :: u8
  up_compression_flags :: u8
  up_data :: "u8 list"
  up_data_len :: nat

record rdp_fastpath_update_list =
  ul_count :: nat
  ul_updates :: "rdp_fastpath_update list"

definition rdp_fastpath_valid_action :: "u8 \<Rightarrow> bool" where
  "rdp_fastpath_valid_action action \<longleftrightarrow>
     action = RDP_FASTPATH_OUTPUT_ACTION_FASTPATH \<or> action = RDP_FASTPATH_OUTPUT_ACTION_X224"

definition rdp_fastpath_valid_update_code :: "u8 \<Rightarrow> bool" where
  "rdp_fastpath_valid_update_code code \<longleftrightarrow>
     code = 0x00 \<or> code = 0x01 \<or> code = 0x02 \<or> code = 0x03 \<or> code = 0x04 \<or> code = 0x05 \<or>
     code = 0x06 \<or> code = 0x08 \<or> code = 0x09 \<or> code = 0x0a \<or> code = 0x0b \<or> code = 0x0c"

section \<open>Operations\<close>

definition rdp_fastpath_parse_header :: "u8 list \<Rightarrow> rdp_fastpath_header result" where
  "rdp_fastpath_parse_header p =
     (if length p < 2 then protocol_error
      else
        let action = p ! 0 AND 0x03; security_flags = drop_bit 6 (p ! 0) AND 0x03 in
        if \<not> rdp_fastpath_valid_action action then protocol_error
        else if p ! 1 AND 0x80 \<noteq> 0 \<and> length p < 3 then protocol_error
        else
          let long_length = (p ! 1 AND 0x80 \<noteq> 0);
              packet_length =
                (if long_length
                 then push_bit 8 (ucast (p ! 1 AND 0x7f) :: u16) OR ucast (p ! 2)
                 else ucast (p ! 1));
              header_length = (if long_length then 3 else 2)
          in
          if unat packet_length < header_length \<or> unat packet_length > length p then protocol_error
          else Inr \<lparr>fh_action = action, fh_security_flags = security_flags, fh_length = packet_length,
                    fh_header_length = header_length, fh_long_length = long_length\<rparr>)"

definition rdp_fastpath_write_header :: "u8 \<Rightarrow> u8 \<Rightarrow> nat \<Rightarrow> writer" where
  "rdp_fastpath_write_header action security_flags payload_len =
     (if \<not> rdp_fastpath_valid_action action \<or> security_flags > 3
      then reject LIBRDP_STATUS_INVALID_ARGUMENT
      else
        let short = (payload_len + 2) mod 2 ^ 64;
            packet_length = (if short > 127 then (payload_len + 3) mod 2 ^ 64 else short)
        in
        if packet_length > 0x7fff \<or> packet_length < payload_len
        then reject LIBRDP_STATUS_INVALID_ARGUMENT
        else if packet_length \<le> 127 then
          run_writers
            [rdp_buffer_append_u8 (action OR push_bit 6 security_flags),
             rdp_buffer_append_u8 (of_nat packet_length)]
        else
          run_writers
            [rdp_buffer_append_u8 (action OR push_bit 6 security_flags),
             rdp_buffer_append_u8 (0x80 OR (of_nat (packet_length div 256) AND 0x7f)),
             rdp_buffer_append_u8 (of_nat (packet_length mod 256))])"

definition rdp_fastpath_write_update :: "rdp_fastpath_update \<Rightarrow> writer" where
  "rdp_fastpath_write_update u =
     (if \<not> rdp_fastpath_valid_update_code (up_update_code u) \<or>
         up_fragmentation u > RDP_FASTPATH_FRAGMENT_NEXT \<or>
         (up_compression u \<noteq> 0 \<and> up_compression u \<noteq> RDP_FASTPATH_OUTPUT_COMPRESSION_USED) \<or>
         up_data_len u > 0xffff
      then reject LIBRDP_STATUS_INVALID_ARGUMENT
      else if up_update_code u = RDP_FASTPATH_UPDATE_SYNCHRONIZE \<and>
         (up_fragmentation u \<noteq> RDP_FASTPATH_FRAGMENT_SINGLE \<or> up_compression u \<noteq> 0 \<or> up_data_len u \<noteq> 0)
      then reject LIBRDP_STATUS_INVALID_ARGUMENT
      else
        run_writers
          ([rdp_buffer_append_u8
              (up_update_code u OR push_bit 4 (up_fragmentation u) OR push_bit 6 (up_compression u))] @
           (if up_compression u = RDP_FASTPATH_OUTPUT_COMPRESSION_USED
            then [rdp_buffer_append_u8 (up_compression_flags u)] else []) @
           [rdp_buffer_append_u16_le (of_nat (up_data_len u)),
            rdp_buffer_append (up_data u)]))"

definition rdp_fastpath_write_updates :: "rdp_fastpath_update list \<Rightarrow> writer" where
  "rdp_fastpath_write_updates updates =
     (if length updates > RDP_FASTPATH_MAX_UPDATES then reject LIBRDP_STATUS_INVALID_ARGUMENT
      else
        via_local
          (run_writers (map rdp_fastpath_write_update updates))
          (\<lambda>payload. run_writers
            [rdp_fastpath_write_header RDP_FASTPATH_OUTPUT_ACTION_FASTPATH 0 (length payload),
             rdp_buffer_append payload]))"

text \<open>
  The outcome is the status, the flag \<^verbatim>\<open>used_decoded\<close>, and the context, the buffer and the heap
  afterwards.
\<close>

definition rdp_fastpath_unwrap_security ::
    "'c crypto \<Rightarrow> bool \<Rightarrow> u8 list \<Rightarrow> 'c rdp_standard_security_context option \<times> rdp_buffer \<times> mem \<Rightarrow>
     librdp_status \<times> bool \<times> 'c rdp_standard_security_context option \<times> rdp_buffer \<times> mem" where
  "rdp_fastpath_unwrap_security cr security_active packet = (\<lambda>(security, decoded, m).
     case rdp_fastpath_parse_header packet of
       Inl e \<Rightarrow> (e, False, security, decoded, m)
     | Inr header \<Rightarrow>
         if fh_security_flags header AND RDP_FASTPATH_OUTPUT_ENCRYPTED = 0 then
           (if fh_security_flags header \<noteq> 0 then LIBRDP_STATUS_UNSUPPORTED else LIBRDP_STATUS_OK,
            False, security, decoded, m)
         else if \<not> security_active \<or> security = None \<or> unat (fh_length header) < fh_header_length header + 8
         then (LIBRDP_STATUS_PROTOCOL_ERROR, False, security, decoded, m)
         else
           let signature = take 8 (drop (fh_header_length header) packet);
               encrypted_len = unat (fh_length header) - fh_header_length header - 8;
               encrypted = take encrypted_len (drop (fh_header_length header + 8) packet);
               previous_len = buf_length decoded
           in
           case rdp_fastpath_write_header RDP_FASTPATH_OUTPUT_ACTION_FASTPATH 0 encrypted_len (decoded, m) of
             (status, decoded, m) \<Rightarrow>
               if status \<noteq> LIBRDP_STATUS_OK
               then (status, False, security, buf_truncate previous_len decoded, m)
               else
                 let decoded_offset = buf_length decoded in
                 case rdp_buffer_append encrypted (decoded, m) of (status, decoded, m) \<Rightarrow>
                   if status \<noteq> LIBRDP_STATUS_OK
                   then (status, False, security, buf_truncate previous_len decoded, m)
                   else
                     (case rdp_security_decrypt_payload cr (the security)
                             (take encrypted_len (drop decoded_offset (block decoded))) of
                        (status, plaintext, ctx) \<Rightarrow>
                          let failed = (\<lambda>e. (e, False, Some ctx,
                                buf_truncate previous_len
                                  (buf_overwrite decoded_offset (replicate encrypted_len 0) decoded), m)) in
                          if status \<noteq> LIBRDP_STATUS_OK then failed status
                          else
                            let decoded = buf_overwrite decoded_offset plaintext decoded in
                            case (if fh_security_flags header AND RDP_FASTPATH_OUTPUT_SECURE_CHECKSUM = 0
                                  then rdp_security_mac_signature cr ctx plaintext
                                  else rdp_security_salted_mac_signature cr ctx plaintext
                                    (if sc_decrypt_count ctx = 0 then 0 else sc_decrypt_count ctx - 1)) of
                              Inl e \<Rightarrow> failed e
                            | Inr expected \<Rightarrow>
                                if signature \<noteq> expected then failed LIBRDP_STATUS_PROTOCOL_ERROR
                                else (LIBRDP_STATUS_OK, True, Some ctx, decoded, m)))"

text \<open>One update, and the loop over them: \<open>room\<close> is the number of free places in the list.\<close>

definition read_update :: "rdp_fastpath_update reader" where
  "read_update stream =
     pbind (rdp_stream_read_u8 stream) (\<lambda>(update_header, stream).
     let update_code = update_header AND 0x0f;
         fragmentation = drop_bit 4 update_header AND 0x03;
         compression = drop_bit 6 update_header AND 0x03
     in
     if \<not> rdp_fastpath_valid_update_code update_code then protocol_error
     else if compression \<noteq> 0 \<and> compression \<noteq> RDP_FASTPATH_OUTPUT_COMPRESSION_USED then protocol_error
     else
       pbind (if compression = RDP_FASTPATH_OUTPUT_COMPRESSION_USED then rdp_stream_read_u8 stream
              else Inr (0, stream)) (\<lambda>(compression_flags, stream).
       pbind (rdp_stream_read_u16_le stream) (\<lambda>(size, stream).
       if unat size > rdp_stream_remaining stream then protocol_error
       else if update_code = RDP_FASTPATH_UPDATE_SYNCHRONIZE \<and>
         (fragmentation \<noteq> RDP_FASTPATH_FRAGMENT_SINGLE \<or> compression \<noteq> 0 \<or> size \<noteq> 0) then protocol_error
       else
         pbind (if size > 0 then rdp_stream_read_bytes (unat size) stream else Inr ([], stream))
           (\<lambda>(data, stream).
         Inr (\<lparr>up_update_code = update_code, up_fragmentation = fragmentation,
               up_compression = compression, up_compression_flags = compression_flags,
               up_data = data, up_data_len = unat size\<rparr>, stream)))))"

fun read_updates ::
    "nat \<Rightarrow> rdp_fastpath_update list \<Rightarrow> rdp_stream \<Rightarrow> rdp_fastpath_update_list result" where
  "read_updates room updates stream =
     (if rdp_stream_remaining stream > 0 then
        (case room of
           0 \<Rightarrow> protocol_error
         | Suc room \<Rightarrow>
             pbind (read_update stream) (\<lambda>(update, stream).
               read_updates room (updates @ [update]) stream))
      else Inr \<lparr>ul_count = length updates, ul_updates = updates\<rparr>)"

declare read_updates.simps [simp del]

definition rdp_fastpath_parse_updates_payload :: "u8 list \<Rightarrow> rdp_fastpath_update_list result" where
  "rdp_fastpath_parse_updates_payload data =
     read_updates RDP_FASTPATH_MAX_UPDATES [] (rdp_stream_init data)"

definition rdp_fastpath_parse_updates :: "u8 list \<Rightarrow> rdp_fastpath_update_list result" where
  "rdp_fastpath_parse_updates data =
     ebind (rdp_fastpath_parse_header data) (\<lambda>header.
       if fh_action header \<noteq> RDP_FASTPATH_OUTPUT_ACTION_FASTPATH then protocol_error
       else if fh_security_flags header \<noteq> 0 then Inl LIBRDP_STATUS_STATE
       else rdp_fastpath_parse_updates_payload
         (take (unat (fh_length header) - fh_header_length header) (drop (fh_header_length header) data)))"

section \<open>The header\<close>

definition fastpath_header_bytes :: "u8 \<Rightarrow> u8 \<Rightarrow> nat \<Rightarrow> u8 list" where
  "fastpath_header_bytes action flags n =
     (if n + 2 \<le> 127 then [action OR push_bit 6 flags, of_nat (n + 2)]
      else [action OR push_bit 6 flags, 0x80 OR (of_nat ((n + 3) div 256) AND 0x7f), of_nat ((n + 3) mod 256)])"

lemma emits_fastpath_header [emits_rules]:
  assumes "rdp_fastpath_valid_action action" and "flags \<le> 3" and "n + 3 \<le> 0x7fff"
  shows "emits (rdp_fastpath_write_header action flags n) (fastpath_header_bytes action flags n)"
proof -
  have "(n + 2) mod 2 ^ 64 = n + 2" "(n + 3) mod 2 ^ 64 = n + 3" using assms(3) by simp_all
  then show ?thesis
    using assms
    by (auto simp: rdp_fastpath_write_header_def fastpath_header_bytes_def Let_def not_less
        simp del: of_nat_add intro!: emits_rules)
qed

lemma header_first_byte:
  assumes "rdp_fastpath_valid_action action" and "flags \<le> 3"
  shows "(action OR push_bit 6 flags) AND 0x03 = action"
    and "drop_bit 6 (action OR push_bit 6 flags) AND 0x03 = flags"
proof -
  have f: "\<not> bit flags k" if "2 \<le> k" for k
    by (rule bit_high_of_less [of _ 2]) (use assms(2) that in \<open>simp_all add: word_le_nat_alt\<close>)
  have a: "\<not> bit action k" if "2 \<le> k" for k
    by (rule bit_high_of_less [of _ 2])
      (use assms(1) that in \<open>auto simp: rdp_fastpath_valid_action_def\<close>)
  show "(action OR push_bit 6 flags) AND 0x03 = action"
    unfolding mask_simps
    by (rule bit_word_eqI) (use a in \<open>auto simp: bit_simps not_le [symmetric]\<close>)
  show "drop_bit 6 (action OR push_bit 6 flags) AND 0x03 = flags"
    unfolding mask_simps
    by (rule bit_word_eqI) (use a f in \<open>auto simp: bit_simps not_le [symmetric]\<close>)
qed

lemma long_length_value:
  assumes "n \<le> 0x7fff"
  shows "unat (push_bit 8 (ucast ((0x80 OR (of_nat (n div 256) AND 0x7f) :: u8) AND 0x7f) :: u16) OR
     ucast (of_nat (n mod 256) :: u8)) = n"
    and "(0x80 OR (of_nat (n div 256) AND 0x7f) :: u8) AND 0x80 \<noteq> 0"
proof -
  have d: "n div 256 < 128" using assms by auto
  have hi: "\<not> bit (of_nat (n div 256) :: u8) j" if "7 \<le> j" for j
    by (rule bit_of_nat_high [of _ 7]) (use d that in simp_all)
  have "(0x80 OR (of_nat (n div 256) AND 0x7f) :: u8) AND 0x7f = of_nat (n div 256)"
    unfolding mask_simps
    by (rule bit_word_eqI) (use hi in \<open>auto simp: bit_or_iff bit_take_bit_iff mask_simps not_le [symmetric]\<close>)
  then have "unat (push_bit 8 (ucast ((0x80 OR (of_nat (n div 256) AND 0x7f) :: u8) AND 0x7f) :: u16) OR
     ucast (of_nat (n mod 256) :: u8)) = unat (be16 (of_nat (n div 256)) (of_nat (n mod 256)))"
    by (simp add: be16_def)
  also have "\<dots> = n" using d by (simp add: unat_be16 unat_of_nat_u8)
  finally show "unat (push_bit 8 (ucast ((0x80 OR (of_nat (n div 256) AND 0x7f) :: u8) AND 0x7f) :: u16) OR
     ucast (of_nat (n mod 256) :: u8)) = n" .
  show "(0x80 OR (of_nat (n div 256) AND 0x7f) :: u8) AND 0x80 \<noteq> 0"
    by (simp add: mask_simps bit_or_iff)
qed

lemma parse_header_bytes:
  assumes "rdp_fastpath_valid_action action" and "flags \<le> 3" and "n + 3 \<le> 0x7fff" and "n \<le> length rest"
  shows "\<exists>h. rdp_fastpath_parse_header (fastpath_header_bytes action flags n @ rest) = Inr h \<and>
    fh_action h = action \<and> fh_security_flags h = flags \<and>
    unat (fh_length h) = fh_header_length h + n \<and>
    fh_header_length h = length (fastpath_header_bytes action flags n)"
proof (cases "n + 2 \<le> 127")
  case True
  then have "unat (of_nat (n + 2) :: u8) = n + 2" "\<not> bit (of_nat (n + 2) :: u8) 7"
    by (intro unat_of_nat_u8 bit_of_nat_high [of _ 7]; simp)+
  with True assms header_first_byte [OF assms(1,2)] show ?thesis
    by (simp add: rdp_fastpath_parse_header_def fastpath_header_bytes_def mask_simps Let_def
        unsigned_ucast_eq take_bit_nat_eq_self del: of_nat_add)
next
  case False
  note v = long_length_value [OF assms(3)]
  from False assms v header_first_byte [OF assms(1,2)] show ?thesis
    by (simp add: rdp_fastpath_parse_header_def fastpath_header_bytes_def Let_def numeral_2_eq_2
        del: of_nat_add)
qed

section \<open>Updates\<close>

definition update_wf :: "rdp_fastpath_update \<Rightarrow> bool" where
  "update_wf u \<longleftrightarrow>
     rdp_fastpath_valid_update_code (up_update_code u) \<and> up_fragmentation u \<le> 3 \<and>
     (up_compression u = 0 \<and> up_compression_flags u = 0 \<or> up_compression u = 2) \<and>
     up_data_len u = length (up_data u) \<and> length (up_data u) \<le> 0xffff \<and>
     (up_update_code u = 3 \<longrightarrow> up_fragmentation u = 0 \<and> up_compression u = 0 \<and> up_data u = [])"

definition update_header :: "rdp_fastpath_update \<Rightarrow> u8" where
  "update_header u = up_update_code u OR push_bit 4 (up_fragmentation u) OR push_bit 6 (up_compression u)"

definition update_bytes :: "rdp_fastpath_update \<Rightarrow> u8 list" where
  "update_bytes u = [update_header u] @
     (if up_compression u = 2 then [up_compression_flags u] else []) @
     u16_le_bytes (of_nat (length (up_data u))) @ up_data u"

lemma update_header_fields:
  assumes "update_wf u"
  shows "update_header u AND 0x0f = up_update_code u"
    and "drop_bit 4 (update_header u) AND 0x03 = up_fragmentation u"
    and "drop_bit 6 (update_header u) AND 0x03 = up_compression u"
proof -
  have c: "\<not> bit (up_update_code u) k" if "4 \<le> k" for k
    by (rule bit_high_of_less [of _ 4])
      (use assms that in \<open>auto simp: update_wf_def rdp_fastpath_valid_update_code_def\<close>)
  have f: "\<not> bit (up_fragmentation u) k" if "2 \<le> k" for k
    by (rule bit_high_of_less [of _ 2]) (use assms that in \<open>auto simp: update_wf_def word_le_nat_alt\<close>)
  have k: "\<not> bit (up_compression u) k" if "2 \<le> k" for k
    by (rule bit_high_of_less [of _ 2]) (use assms that in \<open>auto simp: update_wf_def\<close>)
  show "update_header u AND 0x0f = up_update_code u"
    unfolding mask_simps update_header_def
    by (rule bit_word_eqI) (use c in \<open>auto simp: bit_simps not_le [symmetric]\<close>)
  show "drop_bit 4 (update_header u) AND 0x03 = up_fragmentation u"
    unfolding mask_simps update_header_def
    by (rule bit_word_eqI) (use c f in \<open>auto simp: bit_simps not_le [symmetric]\<close>)
  show "drop_bit 6 (update_header u) AND 0x03 = up_compression u"
    unfolding mask_simps update_header_def
    by (rule bit_word_eqI) (use c f k in \<open>auto simp: bit_simps not_le [symmetric]\<close>)
qed

lemma emits_update [emits_rules]:
  "update_wf u \<Longrightarrow> emits (rdp_fastpath_write_update u) (update_bytes u)"
  by (auto simp: rdp_fastpath_write_update_def update_bytes_def update_header_def update_wf_def not_less
      intro!: emits_rules)

lemma read_update_bytes:
  assumes "update_wf u"
  shows "read_update (strm pre (update_bytes u @ r)) = Inr (u, strm (pre @ update_bytes u) r)"
proof -
  let ?n = "of_nat (length (up_data u)) :: u16"
  note u = assms [unfolded update_wf_def]
  have n: "unat ?n = length (up_data u)" by (rule unat_of_nat_u16) (use u in simp)
  have z: "?n = 0 \<longleftrightarrow> up_data u = []" "?n > 0 \<longleftrightarrow> up_data u \<noteq> []"
    using n by (auto simp: word_neq_0_conv [symmetric] unat_eq_zero [symmetric])
  have rec: "\<lparr>up_update_code = up_update_code u, up_fragmentation = up_fragmentation u,
      up_compression = c, up_compression_flags = f, up_data = d, up_data_len = l\<rparr> = u"
    if "c = up_compression u" "f = up_compression_flags u" "d = up_data u" "l = up_data_len u" for c f d l
    using that by simp
  show ?thesis
  proof (cases "up_compression u = 2")
    case True
    with u n z update_header_fields [OF assms] show ?thesis
      by (cases "up_data u = []")
        (auto simp: read_update_def update_bytes_def stream_rules Let_def intro!: rec)
  next
    case False
    with u n z update_header_fields [OF assms] show ?thesis
      by (cases "up_data u = []")
        (auto simp: read_update_def update_bytes_def stream_rules Let_def intro!: rec)
  qed
qed

interpretation fastpath_update: wire_codec rdp_fastpath_write_update read_update update_bytes update_wf
  by unfold_locales (simp_all add: emits_update read_update_bytes)

lemma read_updates_bytes:
  "list_all update_wf us \<Longrightarrow> length us \<le> room \<Longrightarrow>
    read_updates room acc (strm pre (concat (map update_bytes us))) =
      Inr \<lparr>ul_count = length acc + length us, ul_updates = acc @ us\<rparr>"
proof (induction us arbitrary: room acc pre)
  case Nil
  then show ?case by (simp add: read_updates.simps)
next
  case (Cons u us)
  then obtain k where "room = Suc k" "length us \<le> k" by (cases room) auto
  moreover have "update_bytes u \<noteq> []" by (simp add: update_bytes_def)
  ultimately show ?case
    using Cons.prems Cons.IH [of k "acc @ [u]"]
    by (subst read_updates.simps) (simp add: read_update_bytes)
qed

definition updates_packet :: "rdp_fastpath_update list \<Rightarrow> u8 list" where
  "updates_packet us =
     (let payload = concat (map update_bytes us) in fastpath_header_bytes 0 0 (length payload) @ payload)"

lemma valid_fastpath_action [simp]: "rdp_fastpath_valid_action 0"
  by (simp add: rdp_fastpath_valid_action_def)

lemma emits_updates:
  assumes "list_all update_wf us" and "length us \<le> 64" and "length (concat (map update_bytes us)) \<le> 32764"
  shows "emits (rdp_fastpath_write_updates us) (updates_packet us)"
  unfolding updates_packet_def Let_def rdp_fastpath_write_updates_def
  using assms fastpath_update.wr_all_emits [OF assms(1)]
  by (auto simp: RDP_FASTPATH_MAX_UPDATES_def intro!: emits_via_local [of _ "concat (map update_bytes us)"] emits_rules)

lemma parse_updates_of_payload:
  assumes "length payload \<le> 32764"
  shows "rdp_fastpath_parse_updates (fastpath_header_bytes 0 0 (length payload) @ payload @ rest) =
    rdp_fastpath_parse_updates_payload payload"
proof -
  from assms obtain h where
    "rdp_fastpath_parse_header (fastpath_header_bytes 0 0 (length payload) @ payload @ rest) = Inr h"
    "fh_action h = 0" "fh_security_flags h = 0" "unat (fh_length h) = fh_header_length h + length payload"
    "fh_header_length h = length (fastpath_header_bytes 0 0 (length payload))"
    using parse_header_bytes [of 0 0 "length payload" "payload @ rest"] by auto
  then show ?thesis by (simp add: rdp_fastpath_parse_updates_def)
qed

interpretation fastpath_updates: pdu_codec rdp_fastpath_write_updates rdp_fastpath_parse_updates
  updates_packet "\<lambda>us. \<lparr>ul_count = length us, ul_updates = us\<rparr>"
  "\<lambda>us. list_all update_wf us \<and> length us \<le> 64 \<and> length (concat (map update_bytes us)) \<le> 32764"
  using parse_updates_of_payload [where rest = "[]"] read_updates_bytes [where acc = "[]" and room = 64]
  by unfold_locales
    (auto simp: emits_updates [unfolded updates_packet_def Let_def] updates_packet_def Let_def
      rdp_fastpath_parse_updates_payload_def
      RDP_FASTPATH_MAX_UPDATES_def)

section \<open>Properties\<close>

text \<open>
  Fast-path updates. Up to 64 well-formed updates whose packet fits the 15-bit length are
  written into one packet from which the parser gets the same list: codes, fragmentation,
  compression and data.
\<close>

lemma fastpath_updates_roundtrip:
  "list_all update_wf us \<Longrightarrow> length us \<le> 64 \<Longrightarrow> length (concat (map update_bytes us)) \<le> 32764 \<Longrightarrow>
    transmits (rdp_fastpath_write_updates us) rdp_fastpath_parse_updates
      \<lparr>ul_count = length us, ul_updates = us\<rparr>"
  by (rule fastpath_updates.transmits) simp

lemma header_length_bound:
  assumes "rdp_fastpath_parse_header p = Inr h"
  shows "unat (fh_length h) \<le> 0x7fff"
proof -
  have "unat (p ! 1 AND 0x7f) < 128"
    unfolding mask_simps by (simp add: unsigned_take_bit_eq take_bit_nat_less_exp [of 7, simplified])
  then have "unat (be16 (p ! 1 AND 0x7f) (p ! 2)) \<le> 0x7fff"
    using unat_bounds(1) [of "p ! 2"] by (simp add: unat_be16)
  moreover have "unat (ucast (p ! 1) :: u16) \<le> 0x7fff"
    using unat_bounds(1) [of "p ! 1"] by (simp add: unsigned_ucast_eq take_bit_nat_eq_self)
  ultimately show ?thesis
    using assms by (auto simp: rdp_fastpath_parse_header_def Let_def be16_def split: if_splits)
qed

lemma header_error: "rdp_fastpath_parse_header p = Inl e \<Longrightarrow> e \<noteq> LIBRDP_STATUS_OK"
  by (auto simp: rdp_fastpath_parse_header_def Let_def split: if_splits)

text \<open>An encrypted packet with the right signature.\<close>

lemma unwrap_encrypted:
  assumes sig: "length sig = 8" and len: "length e + 11 \<le> 0x7fff"
    and dec: "rdp_security_decrypt_payload cr r e = (LIBRDP_STATUS_OK, plain, r')"
    and mac: "rdp_security_mac_signature cr r' plain = Inr sig"
  obtains b where
    "rdp_fastpath_unwrap_security cr True (fastpath_header_bytes 0 1 (length e + 8) @ sig @ e) (Some r, rdp_buffer_init, []) =
      (LIBRDP_STATUS_OK, True, Some r', b, [])" "contents b = fastpath_header_bytes 0 0 (length plain) @ plain"
proof -
  let ?head = "fastpath_header_bytes 0 1 (length e + 8)"
  obtain h where h: "rdp_fastpath_parse_header (?head @ sig @ e) = Inr h" "fh_security_flags h = 1"
    "unat (fh_length h) = fh_header_length h + (length e + 8)" "fh_header_length h = length ?head"
    using parse_header_bytes [of 0 1 "length e + 8" "sig @ e"] len sig by auto
  have plain: "length plain = length e" by (rule payload_length(1) [OF dec])
  obtain b1 where b1: "rdp_fastpath_write_header 0 0 (length e) (rdp_buffer_init, []) = (LIBRDP_STATUS_OK, b1, [])" "buf_ok b1"
    "contents b1 = fastpath_header_bytes 0 0 (length e)" "buf_length b1 = length (fastpath_header_bytes 0 0 (length e))"
    by (rule emits_fresh [OF emits_fastpath_header [of 0 0 "length e"]])
      (use len in \<open>auto simp: fastpath_header_bytes_def\<close>)
  obtain st b2 m2 where b2: "rdp_buffer_append e (b1, []) = (st, b2, m2)" by (rule prod_cases3)
  note a = emitsD [OF emits_append b1(2) b2]
  have st: "st = LIBRDP_STATUS_OK" "m2 = []" using a(5) b1(4) len by (auto simp: fastpath_header_bytes_def)
  then have c2: "contents b2 = fastpath_header_bytes 0 0 (length e) @ e" using a(2) b1(3) by simp
  note p = in_place [OF a(1) c2, folded b1(4)]
  show ?thesis
  proof (rule that)
    show "rdp_fastpath_unwrap_security cr True (?head @ sig @ e) (Some r, rdp_buffer_init, []) =
        (LIBRDP_STATUS_OK, True, Some r', buf_overwrite (buf_length b1) plain b2, [])"
      using h sig b1(1) b2 st dec mac p(1) by (simp add: rdp_fastpath_unwrap_security_def Let_def)
    show "contents (buf_overwrite (buf_length b1) plain b2) = fastpath_header_bytes 0 0 (length plain) @ plain"
      using p(2) [OF plain] plain by simp
  qed
qed



end
