(* ===== verification/Virtual_Channel.thy ===== *)
theory Virtual_Channel
  imports Security
begin

text \<open>
  Static virtual channels: the packets of \<^verbatim>\<open>src/src/channels/virtual_channel.c\<close>, the reassembly of
  fragments in the client (\<^verbatim>\<open>rdp_session_handle_static_channel\<close>, \<^verbatim>\<open>client/session_channels.c\<close>) and in
  the server (\<^verbatim>\<open>rdp_server_handle_static_channel_message\<close>, \<^verbatim>\<open>server/server_channels.c\<close>), and the
  fragmentation loop of \<^verbatim>\<open>librdp_server_peer_send_channel_data\<close>.

  The handlers return the messages they deliver to the application. The handler of the
  multiparty channel and the dispatch of the server are arguments: functions that say with which status
  they accept a message.
\<close>

section \<open>Packets\<close>

record rdp_virtual_channel_packet =
  vc_length :: u32
  vc_flags :: u32
  vc_payload :: "u8 list"
  vc_payload_len :: nat

definition RDP_VIRTUAL_CHANNEL_FLAG_FIRST :: u32 where "RDP_VIRTUAL_CHANNEL_FLAG_FIRST = 0x00000001"
definition RDP_VIRTUAL_CHANNEL_FLAG_LAST :: u32 where "RDP_VIRTUAL_CHANNEL_FLAG_LAST = 0x00000002"

abbreviation "flags_first_last \<equiv> RDP_VIRTUAL_CHANNEL_FLAG_FIRST OR RDP_VIRTUAL_CHANNEL_FLAG_LAST"

definition rdp_virtual_channel_parse_packet :: "u8 list \<Rightarrow> rdp_virtual_channel_packet result" where
  "rdp_virtual_channel_parse_packet data =
     pbind (rdp_stream_read_u32_le (rdp_stream_init data)) (\<lambda>(len, stream).
     pbind (rdp_stream_read_u32_le stream) (\<lambda>(flags, stream).
     let remaining = rdp_stream_remaining stream in
     if unat len > remaining \<and> flags AND flags_first_last = flags_first_last then protocol_error
     else
       let payload_len = (if unat len < remaining then unat len else remaining) in
       ebind (rdp_stream_read_bytes payload_len stream) (\<lambda>(payload, stream).
         Inr \<lparr>vc_length = len, vc_flags = flags, vc_payload = payload, vc_payload_len = payload_len\<rparr>)))"

definition rdp_virtual_channel_write_fragment :: "u8 list \<Rightarrow> nat \<Rightarrow> u32 \<Rightarrow> writer" where
  "rdp_virtual_channel_write_fragment payload total_len flags =
     (if total_len > UINT32_MAX \<or> length payload > total_len then reject LIBRDP_STATUS_INVALID_ARGUMENT
      else if flags AND flags_first_last = flags_first_last \<and> length payload \<noteq> total_len
      then reject LIBRDP_STATUS_INVALID_ARGUMENT
      else run_writers
        [rdp_buffer_append_u32_le (of_nat total_len),
         rdp_buffer_append_u32_le flags,
         rdp_buffer_append payload])"

definition rdp_virtual_channel_write_packet :: "u8 list \<Rightarrow> u32 \<Rightarrow> writer" where
  "rdp_virtual_channel_write_packet payload flags =
     rdp_virtual_channel_write_fragment payload (length payload) flags"

section \<open>Reassembly in the client\<close>

record rdp_session_static_channel =
  ch_channel_id :: u16
  ch_flags :: u32
  ch_active :: bool
  ch_joined :: bool
  ch_fragmenting :: bool
  ch_fragment_expected :: u32
  ch_fragment :: rdp_buffer
  ch_name :: "u8 list"

definition RDP_MULTIPARTY_CHANNEL_NAME :: "u8 list" where
  "RDP_MULTIPARTY_CHANNEL_NAME = ascii ''encomsp''"

text \<open>A message handed to the application: channel id, channel name and data.\<close>

type_synonym channel_event = "u16 \<times> u8 list \<times> u8 list"

text \<open>The dispatch of a complete message: the multiparty handler first, then the event.\<close>

definition deliver ::
    "(u8 list \<Rightarrow> librdp_status) \<Rightarrow> rdp_session_static_channel \<Rightarrow> u8 list \<Rightarrow> librdp_status \<times> channel_event list" where
  "deliver multiparty entry data =
     (let status = (if ch_name entry = RDP_MULTIPARTY_CHANNEL_NAME then multiparty data else LIBRDP_STATUS_OK)
      in if status \<noteq> LIBRDP_STATUS_OK then (status, [])
         else (LIBRDP_STATUS_OK, [(ch_channel_id entry, ch_name entry, data)]))"

definition rdp_session_handle_static_channel ::
    "u32 \<Rightarrow> (u8 list \<Rightarrow> librdp_status) \<Rightarrow> rdp_virtual_channel_packet \<Rightarrow>
     rdp_session_static_channel \<times> mem \<Rightarrow>
     librdp_status \<times> channel_event list \<times> rdp_session_static_channel \<times> mem" where
  "rdp_session_handle_static_channel channel_buffer_bytes multiparty packet = (\<lambda>(entry, m).
     if vc_length packet > channel_buffer_bytes then (LIBRDP_STATUS_LIMIT_EXCEEDED, [], entry, m)
     else if vc_flags packet AND flags_first_last = flags_first_last then
       let entry = entry\<lparr>ch_fragmenting := False, ch_fragment_expected := 0, ch_fragment := rdp_buffer_init\<rparr>
       in case deliver multiparty entry (vc_payload packet) of (status, events) \<Rightarrow> (status, events, entry, m)
     else
       let first = (vc_flags packet AND RDP_VIRTUAL_CHANNEL_FLAG_FIRST \<noteq> 0);
           entry =
             (if first then entry\<lparr>ch_fragment := rdp_buffer_init, ch_fragmenting := True,
                                  ch_fragment_expected := vc_length packet\<rparr>
              else entry)
       in
       if \<not> first \<and> \<not> ch_fragmenting entry then (LIBRDP_STATUS_PROTOCOL_ERROR, [], entry, m)
       else if vc_payload_len packet > unat (ch_fragment_expected entry) \<or>
         buf_length (ch_fragment entry) > unat (ch_fragment_expected entry) - vc_payload_len packet
       then (LIBRDP_STATUS_PROTOCOL_ERROR, [], entry, m)
       else
         case rdp_buffer_append (vc_payload packet) (ch_fragment entry, m) of (status, fragment, m) \<Rightarrow>
           let entry = entry\<lparr>ch_fragment := fragment\<rparr> in
           if status \<noteq> LIBRDP_STATUS_OK then (LIBRDP_STATUS_NO_MEMORY, [], entry, m)
           else if vc_flags packet AND RDP_VIRTUAL_CHANNEL_FLAG_LAST \<noteq> 0 then
             (if buf_length fragment \<noteq> unat (ch_fragment_expected entry)
              then (LIBRDP_STATUS_PROTOCOL_ERROR, [], entry, m)
              else
                (case deliver multiparty entry (contents fragment) of (status, events) \<Rightarrow>
                   if status \<noteq> LIBRDP_STATUS_OK then (status, [], entry, m)
                   else (LIBRDP_STATUS_OK, events,
                     entry\<lparr>ch_fragmenting := False, ch_fragment_expected := 0,
                           ch_fragment := rdp_buffer_init\<rparr>, m)))
           else (LIBRDP_STATUS_OK, [], entry, m))"

section \<open>Reassembly in the server\<close>

record rdp_server_static_channel =
  sch_fragment :: rdp_buffer
  sch_fragment_expected :: u32
  sch_fragmenting :: bool

definition RDP_SERVER_STATIC_MESSAGE_MAX :: nat where
  "RDP_SERVER_STATIC_MESSAGE_MAX = 64 * 1024 * 1024"

definition RDP_SERVER_STATIC_CHANNEL_CHUNK_SIZE :: nat where
  "RDP_SERVER_STATIC_CHANNEL_CHUNK_SIZE = 1600"

text \<open>The label \<^verbatim>\<open>reset\<close>.\<close>

definition server_channel_reset :: rdp_server_static_channel where
  "server_channel_reset =
     \<lparr>sch_fragment = rdp_buffer_init, sch_fragment_expected = 0, sch_fragmenting = False\<rparr>"

definition rdp_server_handle_static_channel_message ::
    "(u8 list \<Rightarrow> librdp_status) \<Rightarrow> u8 list \<Rightarrow> rdp_server_static_channel \<times> mem \<Rightarrow>
     librdp_status \<times> u8 list list \<times> rdp_server_static_channel \<times> mem" where
  "rdp_server_handle_static_channel_message dispatch data = (\<lambda>(channel, m).
     case rdp_virtual_channel_parse_packet data of
       Inl e \<Rightarrow> (e, [], server_channel_reset, m)
     | Inr packet \<Rightarrow>
         if vc_payload_len packet > length data - 8 \<or> vc_payload_len packet + 8 \<noteq> length data \<or>
            unat (vc_length packet) > RDP_SERVER_STATIC_MESSAGE_MAX
         then (LIBRDP_STATUS_PROTOCOL_ERROR, [], server_channel_reset, m)
         else
           let fragment_flags = vc_flags packet AND flags_first_last in
           if fragment_flags = flags_first_last then
             (if sch_fragmenting channel \<or> vc_payload_len packet \<noteq> unat (vc_length packet)
              then (LIBRDP_STATUS_PROTOCOL_ERROR, [], server_channel_reset, m)
              else (dispatch (vc_payload packet), [vc_payload packet], channel, m))
           else if fragment_flags AND RDP_VIRTUAL_CHANNEL_FLAG_FIRST \<noteq> 0 then
             (if sch_fragmenting channel \<or> vc_length packet = 0 \<or> vc_payload_len packet = 0 \<or>
                 vc_payload_len packet \<ge> unat (vc_length packet)
              then (LIBRDP_STATUS_PROTOCOL_ERROR, [], server_channel_reset, m)
              else
                (case rdp_buffer_append (vc_payload packet) (rdp_buffer_init, m) of (status, fragment, m) \<Rightarrow>
                   if status \<noteq> LIBRDP_STATUS_OK then (status, [], server_channel_reset, m)
                   else (LIBRDP_STATUS_OK, [],
                     \<lparr>sch_fragment = fragment, sch_fragment_expected = vc_length packet,
                      sch_fragmenting = True\<rparr>, m)))
           else if \<not> sch_fragmenting channel \<or> sch_fragment_expected channel \<noteq> vc_length packet \<or>
             vc_payload_len packet = 0 \<or>
             buf_length (sch_fragment channel) >
               (unat (sch_fragment_expected channel) + 2 ^ 64 - vc_payload_len packet) mod 2 ^ 64
           then (LIBRDP_STATUS_PROTOCOL_ERROR, [], server_channel_reset, m)
           else
             case rdp_buffer_append (vc_payload packet) (sch_fragment channel, m) of (status, fragment, m) \<Rightarrow>
               if status \<noteq> LIBRDP_STATUS_OK then (status, [], server_channel_reset, m)
               else
                 let channel = channel\<lparr>sch_fragment := fragment\<rparr> in
                 if fragment_flags AND RDP_VIRTUAL_CHANNEL_FLAG_LAST = 0 then
                   (if buf_length fragment \<ge> unat (sch_fragment_expected channel)
                    then (LIBRDP_STATUS_PROTOCOL_ERROR, [], server_channel_reset, m)
                    else (LIBRDP_STATUS_OK, [], channel, m))
                 else if buf_length fragment \<noteq> unat (sch_fragment_expected channel)
                 then (LIBRDP_STATUS_PROTOCOL_ERROR, [], server_channel_reset, m)
                 else (dispatch (contents fragment), [contents fragment], server_channel_reset, m))"

section \<open>Fragmentation\<close>

text \<open>
  The \<^verbatim>\<open>do\<close> loop of \<^verbatim>\<open>librdp_server_peer_send_channel_data\<close> from offset \<open>offset\<close> on. \<open>send\<close> is
  \<^verbatim>\<open>rdp_server_send_static_channel_fragment\<close>, on a state of its own.
\<close>

definition chunk_size :: "u8 list \<Rightarrow> nat \<Rightarrow> nat" where
  "chunk_size data offset =
     (if length data - offset > RDP_SERVER_STATIC_CHANNEL_CHUNK_SIZE
      then RDP_SERVER_STATIC_CHANNEL_CHUNK_SIZE else length data - offset)"

definition chunk_flags :: "u8 list \<Rightarrow> nat \<Rightarrow> u32" where
  "chunk_flags data offset =
     (if offset = 0 then RDP_VIRTUAL_CHANNEL_FLAG_FIRST else 0) OR
     (if offset + chunk_size data offset = length data then RDP_VIRTUAL_CHANNEL_FLAG_LAST else 0)"

function send_fragments ::
    "(u8 list \<Rightarrow> nat \<Rightarrow> u32 \<Rightarrow> 's \<Rightarrow> librdp_status \<times> 's) \<Rightarrow> u8 list \<Rightarrow> nat \<Rightarrow> 's \<Rightarrow>
     librdp_status \<times> 's" where
  "send_fragments send data offset s =
     (let chunk = chunk_size data offset in
      case send (take chunk (drop offset data)) (length data) (chunk_flags data offset) s of
        (status, s) \<Rightarrow>
          if status = LIBRDP_STATUS_OK \<and> offset + chunk < length data
          then send_fragments send data (offset + chunk) s
          else (status, s))"
  by pat_completeness auto
termination
  by (relation "measure (\<lambda>(send, data, offset, s). length data - offset)")
    (auto simp: chunk_size_def RDP_SERVER_STATIC_CHANNEL_CHUNK_SIZE_def split: if_splits)

declare send_fragments.simps [simp del]

section \<open>Packets round trip\<close>

definition fragment_bytes :: "u8 list \<Rightarrow> nat \<Rightarrow> u32 \<Rightarrow> u8 list" where
  "fragment_bytes payload tot flags = u32_le_bytes (of_nat tot) @ u32_le_bytes flags @ payload"

definition fragment_packet :: "u8 list \<Rightarrow> nat \<Rightarrow> u32 \<Rightarrow> rdp_virtual_channel_packet" where
  "fragment_packet payload tot flags =
     \<lparr>vc_length = of_nat tot, vc_flags = flags, vc_payload = payload, vc_payload_len = length payload\<rparr>"

definition fragment_wf :: "u8 list \<Rightarrow> nat \<Rightarrow> u32 \<Rightarrow> bool" where
  "fragment_wf payload tot flags \<longleftrightarrow>
     tot \<le> UINT32_MAX \<and> length payload \<le> tot \<and>
     (flags AND flags_first_last = flags_first_last \<longrightarrow> length payload = tot)"

lemma emits_fragment [emits_rules]:
  "fragment_wf payload tot flags \<Longrightarrow>
    emits (rdp_virtual_channel_write_fragment payload tot flags) (fragment_bytes payload tot flags)"
  by (auto simp: rdp_virtual_channel_write_fragment_def fragment_wf_def fragment_bytes_def intro!: emits_rules)

lemma parse_fragment:
  assumes "fragment_wf payload tot flags"
  shows "rdp_virtual_channel_parse_packet (fragment_bytes payload tot flags) =
    Inr (fragment_packet payload tot flags)"
proof -
  have n: "unat (of_nat tot :: u32) = tot"
    using assms by (intro unat_of_nat_u32) (auto simp: fragment_wf_def UINT32_MAX_def)
  show ?thesis
    using assms n
    by (auto simp: rdp_virtual_channel_parse_packet_def fragment_bytes_def fragment_packet_def
        fragment_wf_def stream_rules Let_def)
qed

interpretation channel_fragment: pdu_codec
  "\<lambda>(payload, tot, flags). rdp_virtual_channel_write_fragment payload tot flags"
  rdp_virtual_channel_parse_packet
  "\<lambda>(payload, tot, flags). fragment_bytes payload tot flags"
  "\<lambda>(payload, tot, flags). fragment_packet payload tot flags"
  "\<lambda>(payload, tot, flags). fragment_wf payload tot flags"
  by unfold_locales (auto simp: emits_fragment parse_fragment)

section \<open>Reassembly as an interface\<close>

text \<open>A message cut into chunks: the first one is marked first and the last one last.\<close>

fun mark :: "bool \<Rightarrow> u8 list list \<Rightarrow> (u8 list \<times> u32) list" where
  "mark first [] = []"
| "mark first [c] = [(c, (if first then RDP_VIRTUAL_CHANNEL_FLAG_FIRST else 0) OR RDP_VIRTUAL_CHANNEL_FLAG_LAST)]"
| "mark first (c # d # cs) = (c, if first then RDP_VIRTUAL_CHANNEL_FLAG_FIRST else 0) # mark False (d # cs)"

text \<open>The fragments of one message handed to a receiver, in order, until one is refused.\<close>

fun feed :: "(nat \<Rightarrow> u8 list \<Rightarrow> u32 \<Rightarrow> 's \<Rightarrow> librdp_status \<times> u8 list list \<times> 's) \<Rightarrow>
    nat \<Rightarrow> (u8 list \<times> u32) list \<Rightarrow> 's \<Rightarrow> librdp_status \<times> u8 list list \<times> 's" where
  "feed handle tot [] s = (LIBRDP_STATUS_OK, [], s)"
| "feed handle tot ((c, f) # ps) s =
     (case handle tot c f s of (status, out, s) \<Rightarrow>
        if status \<noteq> LIBRDP_STATUS_OK then (status, out, s)
        else (case feed handle tot ps s of (status, out', s) \<Rightarrow> (status, out @ out', s)))"

text \<open>
  A reassembler takes fragments of a message of known total length; \<open>idle\<close> and \<open>gathering tot acc\<close>
  describe its states. The laws say what each kind of fragment does.
\<close>

locale reassembler =
  fixes handle :: "nat \<Rightarrow> u8 list \<Rightarrow> u32 \<Rightarrow> 's \<Rightarrow> librdp_status \<times> u8 list list \<times> 's"
    and idle :: "'s \<Rightarrow> bool"
    and gathering :: "nat \<Rightarrow> u8 list \<Rightarrow> 's \<Rightarrow> bool"
    and fits :: "nat \<Rightarrow> bool"
  assumes single: "fits (length c) \<Longrightarrow> idle s \<Longrightarrow>
      \<exists>s'. handle (length c) c flags_first_last s = (LIBRDP_STATUS_OK, [c], s') \<and> idle s'"
    and first: "fits tot \<Longrightarrow> idle s \<Longrightarrow> c \<noteq> [] \<Longrightarrow> length c < tot \<Longrightarrow>
      \<exists>s'. handle tot c RDP_VIRTUAL_CHANNEL_FLAG_FIRST s = (LIBRDP_STATUS_OK, [], s') \<and> gathering tot c s'"
    and middle: "fits tot \<Longrightarrow> gathering tot acc s \<Longrightarrow> c \<noteq> [] \<Longrightarrow> length acc + length c < tot \<Longrightarrow>
      \<exists>s'. handle tot c 0 s = (LIBRDP_STATUS_OK, [], s') \<and> gathering tot (acc @ c) s'"
    and last: "fits tot \<Longrightarrow> gathering tot acc s \<Longrightarrow> c \<noteq> [] \<Longrightarrow> length acc + length c = tot \<Longrightarrow>
      \<exists>s'. handle tot c RDP_VIRTUAL_CHANNEL_FLAG_LAST s = (LIBRDP_STATUS_OK, [acc @ c], s') \<and> idle s'"
begin

lemma feed_rest:
  "fits tot \<Longrightarrow> gathering tot acc s \<Longrightarrow> [] \<notin> set cs \<Longrightarrow> cs \<noteq> [] \<Longrightarrow>
    length acc + length (concat cs) = tot \<Longrightarrow>
    \<exists>s'. feed handle tot (mark False cs) s = (LIBRDP_STATUS_OK, [acc @ concat cs], s') \<and> idle s'"
proof (induction cs arbitrary: acc s)
  case (Cons c cs)
  show ?case
  proof (cases cs)
    case Nil
    then show ?thesis using last [OF Cons.prems(1,2), of c] Cons.prems by auto
  next
    case (Cons d ds)
    have "0 < length d" using Cons.prems(3) Cons by auto
    then have "length acc + length c < tot" using Cons.prems(5) Cons by auto
    then obtain s1 where 1: "handle tot c 0 s = (LIBRDP_STATUS_OK, [], s1)" "gathering tot (acc @ c) s1"
      using middle [OF Cons.prems(1,2), of c] Cons.prems(3) by auto
    from Cons.IH [OF Cons.prems(1) 1(2)] Cons.prems Cons obtain s' where
      "feed handle tot (mark False cs) s1 = (LIBRDP_STATUS_OK, [(acc @ c) @ concat cs], s')" "idle s'" by auto
    then show ?thesis using 1 Cons by simp
  qed
qed simp

lemma delivers_once:
  assumes "fits (length (concat cs))" and "idle s" and "cs \<noteq> []" and "length cs = 1 \<or> [] \<notin> set cs"
  shows "\<exists>s'. feed handle (length (concat cs)) (mark True cs) s = (LIBRDP_STATUS_OK, [concat cs], s') \<and> idle s'"
proof (cases cs)
  case (Cons c ds)
  show ?thesis
  proof (cases ds)
    case Nil
    then show ?thesis using single [of c s] assms Cons by auto
  next
    case d: (Cons d es)
    let ?tot = "length (concat cs)"
    have ne: "[] \<notin> set cs" using assms(4) Cons d by auto
    then have "c \<noteq> []" "0 < length d" using Cons d by auto
    then obtain s1 where 1: "handle ?tot c RDP_VIRTUAL_CHANNEL_FLAG_FIRST s = (LIBRDP_STATUS_OK, [], s1)"
      "gathering ?tot c s1"
      using first [OF assms(1,2), of c] Cons d by auto
    have "\<exists>s'. feed handle ?tot (mark False ds) s1 = (LIBRDP_STATUS_OK, [c @ concat ds], s') \<and> idle s'"
      by (rule feed_rest [OF assms(1) 1(2)]) (use ne Cons d in auto)
    then show ?thesis using 1 Cons d by auto
  qed
qed (use assms in simp)

end

lemma channel_flag_simps [simp]:
  "RDP_VIRTUAL_CHANNEL_FLAG_FIRST AND RDP_VIRTUAL_CHANNEL_FLAG_FIRST \<noteq> 0"
  "RDP_VIRTUAL_CHANNEL_FLAG_LAST AND RDP_VIRTUAL_CHANNEL_FLAG_LAST \<noteq> 0"
  "RDP_VIRTUAL_CHANNEL_FLAG_FIRST AND RDP_VIRTUAL_CHANNEL_FLAG_LAST = 0"
  "RDP_VIRTUAL_CHANNEL_FLAG_LAST AND RDP_VIRTUAL_CHANNEL_FLAG_FIRST = 0"
  "RDP_VIRTUAL_CHANNEL_FLAG_FIRST AND flags_first_last = RDP_VIRTUAL_CHANNEL_FLAG_FIRST"
  "RDP_VIRTUAL_CHANNEL_FLAG_LAST AND flags_first_last = RDP_VIRTUAL_CHANNEL_FLAG_LAST"
  "flags_first_last \<noteq> 0" "RDP_VIRTUAL_CHANNEL_FLAG_FIRST \<noteq> 0" "RDP_VIRTUAL_CHANNEL_FLAG_LAST \<noteq> 0" "RDP_VIRTUAL_CHANNEL_FLAG_FIRST \<noteq> flags_first_last"
  "RDP_VIRTUAL_CHANNEL_FLAG_LAST \<noteq> flags_first_last" "0 \<noteq> flags_first_last"
  "flags_first_last \<noteq> RDP_VIRTUAL_CHANNEL_FLAG_FIRST" "flags_first_last \<noteq> RDP_VIRTUAL_CHANNEL_FLAG_LAST"
  by (simp_all add: RDP_VIRTUAL_CHANNEL_FLAG_FIRST_def RDP_VIRTUAL_CHANNEL_FLAG_LAST_def)

section \<open>The client is a reassembler\<close>

definition client_handle ::
    "u32 \<Rightarrow> (u8 list \<Rightarrow> librdp_status) \<Rightarrow> nat \<Rightarrow> u8 list \<Rightarrow> u32 \<Rightarrow> rdp_session_static_channel \<times> mem \<Rightarrow>
     librdp_status \<times> u8 list list \<times> rdp_session_static_channel \<times> mem" where
  "client_handle limit multiparty tot c flags s =
     (case rdp_session_handle_static_channel limit multiparty (fragment_packet c tot flags) s of
        (status, events, s') \<Rightarrow> (status, map (\<lambda>(_, _, d). d) events, s'))"

definition client_accepts :: "(u8 list \<Rightarrow> librdp_status) \<Rightarrow> u8 list \<Rightarrow> bool" where
  "client_accepts multiparty name \<longleftrightarrow>
     name \<noteq> RDP_MULTIPARTY_CHANNEL_NAME \<or> (\<forall>d. multiparty d = LIBRDP_STATUS_OK)"

definition client_gathering ::
    "(u8 list \<Rightarrow> librdp_status) \<Rightarrow> u16 \<Rightarrow> u8 list \<Rightarrow> nat \<Rightarrow> u8 list \<Rightarrow> rdp_session_static_channel \<times> mem \<Rightarrow> bool" where
  "client_gathering multiparty cid name tot acc = (\<lambda>(entry, m).
     client_accepts multiparty name \<and> m = [] \<and> ch_channel_id entry = cid \<and> ch_name entry = name \<and> ch_fragmenting entry \<and>
     ch_fragment_expected entry = of_nat tot \<and>
     buf_ok (ch_fragment entry) \<and> contents (ch_fragment entry) = acc)"

definition client_idle ::
    "(u8 list \<Rightarrow> librdp_status) \<Rightarrow> u16 \<Rightarrow> u8 list \<Rightarrow> rdp_session_static_channel \<times> mem \<Rightarrow> bool" where
  "client_idle multiparty cid name = (\<lambda>(entry, m). client_accepts multiparty name \<and> m = [] \<and> ch_channel_id entry = cid \<and> ch_name entry = name)"

lemma append_room:
  assumes "buf_ok b" and "buf_length b + length bs \<le> 2 ^ 63"
  obtains b' where "rdp_buffer_append bs (b, []) = (LIBRDP_STATUS_OK, b', [])" "buf_ok b'"
    "contents b' = contents b @ bs" "buf_length b' = buf_length b + length bs"
proof -
  obtain st b' m' where 1: "rdp_buffer_append bs (b, []) = (st, b', m')" by (rule prod_cases3)
  note s = emitsD [OF emits_append assms(1) 1]
  have "st = LIBRDP_STATUS_OK" "m' = []" using s(5) assms(2) by auto
  with s 1 that assms(1) show ?thesis by (metis length_append length_contents)
qed

lemma deliver_accepts:
  "client_accepts multiparty (ch_name e) \<Longrightarrow>
    deliver multiparty e d = (LIBRDP_STATUS_OK, [(ch_channel_id e, ch_name e, d)])"
  by (auto simp: deliver_def client_accepts_def Let_def)

lemma client_reassembler:
  "reassembler (client_handle limit multiparty) (client_idle multiparty cid name)
    (client_gathering multiparty cid name) (\<lambda>tot. tot \<le> unat limit)"
proof
  fix s and c :: "u8 list" assume fits: "length c \<le> unat limit" and s: "client_idle multiparty cid name s"
  obtain e where e: "client_accepts multiparty name" "s = (e, [])" "ch_channel_id e = cid" "ch_name e = name"
    using s by (cases s) (auto simp: client_idle_def)
  have n: "unat (of_nat (length c) :: u32) = length c"
    using fits unat_bounds(3) [of limit] by (intro unat_of_nat_u32) simp
  show "\<exists>s'. client_handle limit multiparty (length c) c flags_first_last s = (LIBRDP_STATUS_OK, [c], s') \<and>
      client_idle multiparty cid name s'"
    using fits n e
    by (auto simp: client_handle_def rdp_session_handle_static_channel_def fragment_packet_def
        word_less_nat_alt deliver_accepts client_idle_def Let_def)
next
  fix tot s and c :: "u8 list"
  assume fits: "tot \<le> unat limit" and s: "client_idle multiparty cid name s" and c: "c \<noteq> []" "length c < tot"
  obtain e where e: "client_accepts multiparty name" "s = (e, [])" "ch_channel_id e = cid" "ch_name e = name"
    using s by (cases s) (auto simp: client_idle_def)
  have n: "unat (of_nat tot :: u32) = tot" "tot < 2 ^ 32"
    using fits unat_bounds(3) [of limit] by (auto intro!: unat_of_nat_u32)
  obtain b' where "rdp_buffer_append c (rdp_buffer_init, []) = (LIBRDP_STATUS_OK, b', [])" "buf_ok b'" "contents b' = c"
    using append_room [of rdp_buffer_init c] c n by auto
  then show "\<exists>s'. client_handle limit multiparty tot c RDP_VIRTUAL_CHANNEL_FLAG_FIRST s = (LIBRDP_STATUS_OK, [], s') \<and>
      client_gathering multiparty cid name tot c s'"
    using fits n c e
    by (auto simp: client_handle_def rdp_session_handle_static_channel_def fragment_packet_def
        word_less_nat_alt client_gathering_def Let_def)
next
  fix tot acc s and c :: "u8 list"
  assume fits: "tot \<le> unat limit" and s: "client_gathering multiparty cid name tot acc s" and c: "c \<noteq> []"
    "length acc + length c < tot"
  obtain e where e: "client_accepts multiparty name" "s = (e, [])" "ch_channel_id e = cid" "ch_name e = name" "ch_fragmenting e"
    "ch_fragment_expected e = of_nat tot" "buf_ok (ch_fragment e)" "contents (ch_fragment e) = acc"
    "buf_length (ch_fragment e) = length acc"
    using s by (cases s) (auto simp: client_gathering_def)
  have n: "unat (of_nat tot :: u32) = tot" "tot < 2 ^ 32"
    using fits unat_bounds(3) [of limit] by (auto intro!: unat_of_nat_u32)
  obtain b' where "rdp_buffer_append c (ch_fragment e, []) = (LIBRDP_STATUS_OK, b', [])" "buf_ok b'" "contents b' = acc @ c"
    using append_room [OF e(7), of c] c n e by auto
  then show "\<exists>s'. client_handle limit multiparty tot c 0 s = (LIBRDP_STATUS_OK, [], s') \<and>
      client_gathering multiparty cid name tot (acc @ c) s'"
    using fits n c e
    by (auto simp: client_handle_def rdp_session_handle_static_channel_def fragment_packet_def
        word_less_nat_alt client_gathering_def Let_def)
next
  fix tot acc s and c :: "u8 list"
  assume fits: "tot \<le> unat limit" and s: "client_gathering multiparty cid name tot acc s" and c: "c \<noteq> []"
    "length acc + length c = tot"
  obtain e where e: "client_accepts multiparty name" "s = (e, [])" "ch_channel_id e = cid" "ch_name e = name" "ch_fragmenting e"
    "ch_fragment_expected e = of_nat tot" "buf_ok (ch_fragment e)" "contents (ch_fragment e) = acc"
    "buf_length (ch_fragment e) = length acc"
    using s by (cases s) (auto simp: client_gathering_def)
  have n: "unat (of_nat tot :: u32) = tot" "tot < 2 ^ 32"
    using fits unat_bounds(3) [of limit] by (auto intro!: unat_of_nat_u32)
  obtain b' where "rdp_buffer_append c (ch_fragment e, []) = (LIBRDP_STATUS_OK, b', [])" "buf_ok b'" "contents b' = acc @ c"
    "buf_length b' = length acc + length c"
    using append_room [OF e(7), of c] c n e by auto
  then show "\<exists>s'. client_handle limit multiparty tot c RDP_VIRTUAL_CHANNEL_FLAG_LAST s =
      (LIBRDP_STATUS_OK, [acc @ c], s') \<and> client_idle multiparty cid name s'"
    using fits n c e
    by (auto simp: client_handle_def rdp_session_handle_static_channel_def fragment_packet_def
        word_less_nat_alt client_idle_def deliver_accepts Let_def)
qed

interpretation client_channel: reassembler "client_handle limit multiparty"
  "client_idle multiparty cid name" "client_gathering multiparty cid name" "\<lambda>tot. tot \<le> unat limit"
  for limit multiparty cid name
  by (rule client_reassembler)

section \<open>The server is a reassembler\<close>

definition server_handle ::
    "(u8 list \<Rightarrow> librdp_status) \<Rightarrow> nat \<Rightarrow> u8 list \<Rightarrow> u32 \<Rightarrow> rdp_server_static_channel \<times> mem \<Rightarrow>
     librdp_status \<times> u8 list list \<times> rdp_server_static_channel \<times> mem" where
  "server_handle dispatch tot c flags =
     rdp_server_handle_static_channel_message dispatch (fragment_bytes c tot flags)"

definition server_idle :: "(u8 list \<Rightarrow> librdp_status) \<Rightarrow> rdp_server_static_channel \<times> mem \<Rightarrow> bool" where
  "server_idle dispatch = (\<lambda>(channel, m).
     (\<forall>d. dispatch d = LIBRDP_STATUS_OK) \<and> m = [] \<and> \<not> sch_fragmenting channel)"

definition server_gathering ::
    "(u8 list \<Rightarrow> librdp_status) \<Rightarrow> nat \<Rightarrow> u8 list \<Rightarrow> rdp_server_static_channel \<times> mem \<Rightarrow> bool" where
  "server_gathering dispatch tot acc = (\<lambda>(channel, m).
     (\<forall>d. dispatch d = LIBRDP_STATUS_OK) \<and> m = [] \<and> sch_fragmenting channel \<and>
     sch_fragment_expected channel = of_nat tot \<and> buf_ok (sch_fragment channel) \<and>
     contents (sch_fragment channel) = acc)"

lemma server_parse:
  assumes "tot \<le> RDP_SERVER_STATIC_MESSAGE_MAX" and "length c \<le> tot"
    and "flags AND flags_first_last = flags_first_last \<longrightarrow> length c = tot"
  shows "rdp_virtual_channel_parse_packet (fragment_bytes c tot flags) = Inr (fragment_packet c tot flags)"
    and "length (fragment_bytes c tot flags) = length c + 8"
    and "unat (of_nat tot :: u32) = tot"
proof -
  show "unat (of_nat tot :: u32) = tot"
    using assms(1) by (intro unat_of_nat_u32) (simp add: RDP_SERVER_STATIC_MESSAGE_MAX_def)
  show "rdp_virtual_channel_parse_packet (fragment_bytes c tot flags) = Inr (fragment_packet c tot flags)"
    using assms by (intro parse_fragment)
      (auto simp: fragment_wf_def UINT32_MAX_def RDP_SERVER_STATIC_MESSAGE_MAX_def)
qed (simp add: fragment_bytes_def)

lemma server_single:
  assumes fits: "length c \<le> RDP_SERVER_STATIC_MESSAGE_MAX" and s: "server_idle dispatch s"
  shows "\<exists>s'. server_handle dispatch (length c) c flags_first_last s = (LIBRDP_STATUS_OK, [c], s') \<and>
      server_idle dispatch s'"
proof -
  obtain ch where e: "s = (ch, [])" "\<And>d. dispatch d = LIBRDP_STATUS_OK" "\<not> sch_fragmenting ch"
    using s by (cases s) (simp add: server_idle_def)
  note p = server_parse [where flags = flags_first_last, OF fits order.refl, simplified]
  have "server_handle dispatch (length c) c flags_first_last s = (LIBRDP_STATUS_OK, [c], s)"
    unfolding server_handle_def rdp_server_handle_static_channel_message_def e(1) prod.case p(1) sum.case
    using fits e p(2,3) by (simp add: fragment_packet_def Let_def)
  with s show ?thesis by simp
qed

lemma server_first:
  assumes fits: "tot \<le> RDP_SERVER_STATIC_MESSAGE_MAX" and s: "server_idle dispatch s"
    and c: "c \<noteq> []" "length c < tot"
  shows "\<exists>s'. server_handle dispatch tot c RDP_VIRTUAL_CHANNEL_FLAG_FIRST s = (LIBRDP_STATUS_OK, [], s') \<and>
      server_gathering dispatch tot c s'"
proof -
  obtain ch where e: "s = (ch, [])" "\<And>d. dispatch d = LIBRDP_STATUS_OK" "\<not> sch_fragmenting ch"
    using s by (cases s) (simp add: server_idle_def)
  have le: "length c \<le> tot" using c by simp
  note p = server_parse [OF fits le, of RDP_VIRTUAL_CHANNEL_FLAG_FIRST, simplified]
  have t: "tot \<le> 2 ^ 32" using fits by (simp add: RDP_SERVER_STATIC_MESSAGE_MAX_def)
  obtain b' where b: "rdp_buffer_append c (rdp_buffer_init, []) = (LIBRDP_STATUS_OK, b', [])" "buf_ok b'"
    "contents b' = c"
    using append_room [of rdp_buffer_init c] c t by auto
  have "(of_nat tot :: u32) \<noteq> 0" using p(3) c by (metis less_nat_zero_code unat_0)
  then have "server_handle dispatch tot c RDP_VIRTUAL_CHANNEL_FLAG_FIRST s = (LIBRDP_STATUS_OK, [],
      \<lparr>sch_fragment = b', sch_fragment_expected = of_nat tot, sch_fragmenting = True\<rparr>, [])"
    unfolding server_handle_def rdp_server_handle_static_channel_message_def e(1) prod.case p(1) sum.case
    using fits e p(2,3) c b(1) by (simp add: fragment_packet_def Let_def)
  with e b show ?thesis by (simp add: server_gathering_def)
qed

lemma size_t_sub:
  assumes "k \<le> n" "(n::nat) \<le> 2 ^ 32"
  shows "(n + 2 ^ 64 - k) mod 2 ^ 64 = n - k"
proof -
  have "n + 2 ^ 64 - k = (n - k) + 2 ^ 64" using assms(1) by linarith
  moreover have "n - k < 2 ^ 64" using assms(2) by simp
  ultimately show ?thesis by (metis mod_add_self2 mod_less)
qed

lemma server_follow:
  assumes fits: "tot \<le> RDP_SERVER_STATIC_MESSAGE_MAX" and s: "server_gathering dispatch tot acc s"
    and c: "c \<noteq> []" "length acc + length c \<le> tot"
    and f: "flags = 0 \<and> length acc + length c < tot \<or>
      flags = RDP_VIRTUAL_CHANNEL_FLAG_LAST \<and> length acc + length c = tot"
  obtains ch b' where "buf_ok b'" "contents b' = acc @ c" "sch_fragmenting ch"
    "sch_fragment_expected ch = of_nat tot" "\<forall>d. dispatch d = LIBRDP_STATUS_OK"
    "server_handle dispatch tot c flags s =
      (if flags = 0 then (LIBRDP_STATUS_OK, [], ch\<lparr>sch_fragment := b'\<rparr>, [])
       else (LIBRDP_STATUS_OK, [acc @ c], server_channel_reset, []))"
proof -
  obtain ch where e: "s = (ch, [])" "\<And>d. dispatch d = LIBRDP_STATUS_OK" "sch_fragmenting ch"
    "sch_fragment_expected ch = of_nat tot" "buf_ok (sch_fragment ch)" "contents (sch_fragment ch) = acc"
    "buf_length (sch_fragment ch) = length acc"
    using s by (cases s) (auto simp: server_gathering_def)
  have le: "length c \<le> tot" using c by simp
  have fl: "flags AND flags_first_last = flags" "flags \<noteq> flags_first_last" "flags AND RDP_VIRTUAL_CHANNEL_FLAG_FIRST = 0"
    using f by auto
  have nf: "flags AND flags_first_last = flags_first_last \<longrightarrow> length c = tot" using fl by simp
  note p = server_parse [OF fits le nf]
  have t: "tot \<le> 2 ^ 32" using fits by (simp add: RDP_SERVER_STATIC_MESSAGE_MAX_def)
  obtain b' where b: "rdp_buffer_append c (sch_fragment ch, []) = (LIBRDP_STATUS_OK, b', [])" "buf_ok b'"
    "contents b' = acc @ c" "buf_length b' = length acc + length c"
    using append_room [OF e(5), of c] c t e by auto
  note d = size_t_sub [OF le t, simplified] fits [THEN leD]
  have n0: "length c \<noteq> 0" "\<not> tot - length c < length acc" using c by auto
  have "server_handle dispatch tot c flags s =
      (if flags = 0 then (LIBRDP_STATUS_OK, [], ch\<lparr>sch_fragment := b'\<rparr>, [])
       else (LIBRDP_STATUS_OK, [acc @ c], server_channel_reset, []))"
  proof (cases "flags = 0")
    case True
    with f have l: "\<not> tot \<le> length acc + length c" by auto
    show ?thesis
      unfolding server_handle_def rdp_server_handle_static_channel_message_def e(1) prod.case p(1) sum.case fragment_packet_def
      by (simp add: e p [unfolded True] fits d b n0 l True Let_def del: length_greater_0_conv length_0_conv)
  next
    case False
    with f have l: "flags = RDP_VIRTUAL_CHANNEL_FLAG_LAST" "length acc + length c = tot" by auto
    show ?thesis
      unfolding server_handle_def rdp_server_handle_static_channel_message_def e(1) prod.case p(1) sum.case fragment_packet_def l(1)
      by (simp add: fragment_packet_def e p [unfolded l(1)] fits d b n0 l(2) Let_def del: length_greater_0_conv length_0_conv)
  qed
  then show ?thesis using that [OF b(2,3) e(3,4)] e(2) by blast
qed

lemma server_reassembler:
  "reassembler (server_handle dispatch) (server_idle dispatch) (server_gathering dispatch)
    (\<lambda>tot. tot \<le> RDP_SERVER_STATIC_MESSAGE_MAX)"
proof
  fix tot acc s and c :: "u8 list"
  assume a: "tot \<le> RDP_SERVER_STATIC_MESSAGE_MAX" "server_gathering dispatch tot acc s" "c \<noteq> []"
  {
    assume "length acc + length c < tot"
    then show "\<exists>s'. server_handle dispatch tot c 0 s = (LIBRDP_STATUS_OK, [], s') \<and>
        server_gathering dispatch tot (acc @ c) s'"
      by - (rule server_follow [OF a(1-3), of 0], auto simp: server_gathering_def)
  next
    assume "length acc + length c = tot"
    then show "\<exists>s'. server_handle dispatch tot c RDP_VIRTUAL_CHANNEL_FLAG_LAST s =
        (LIBRDP_STATUS_OK, [acc @ c], s') \<and> server_idle dispatch s'"
      by - (rule server_follow [OF a(1-3), of RDP_VIRTUAL_CHANNEL_FLAG_LAST],
        auto simp: server_idle_def server_channel_reset_def)
  }
qed (use server_single server_first in auto)

interpretation server_channel: reassembler "server_handle dispatch" "server_idle dispatch"
  "server_gathering dispatch" "\<lambda>tot. tot \<le> RDP_SERVER_STATIC_MESSAGE_MAX"
  for dispatch
  by (rule server_reassembler)

section \<open>The fragmentation loop cuts a message into chunks\<close>

function chunks :: "u8 list \<Rightarrow> u8 list list" where
  "chunks data =
     (if length data \<le> RDP_SERVER_STATIC_CHANNEL_CHUNK_SIZE then [data]
      else take RDP_SERVER_STATIC_CHANNEL_CHUNK_SIZE data # chunks (drop RDP_SERVER_STATIC_CHANNEL_CHUNK_SIZE data))"
  by pat_completeness auto
termination
  by (relation "measure length") (auto simp: RDP_SERVER_STATIC_CHANNEL_CHUNK_SIZE_def)

declare chunks.simps [simp del]

lemma concat_chunks [simp]: "concat (chunks data) = data"
  by (induction data rule: chunks.induct) (subst chunks.simps, simp)

lemma chunks_not_Nil [simp]: "chunks data \<noteq> []"
  by (subst chunks.simps) simp

lemma chunks_bound: "c \<in> set (chunks data) \<Longrightarrow> length c \<le> RDP_SERVER_STATIC_CHANNEL_CHUNK_SIZE"
  by (induction data rule: chunks.induct) (subst (asm) (2) chunks.simps, auto split: if_splits)

lemma chunks_nonempty: "data \<noteq> [] \<Longrightarrow> [] \<notin> set (chunks data)"
  by (induction data rule: chunks.induct)
    (subst chunks.simps, auto simp: RDP_SERVER_STATIC_CHANNEL_CHUNK_SIZE_def)

lemma chunks_regular: "length (chunks data) = 1 \<or> [] \<notin> set (chunks data)"
  by (cases "data = []") (simp add: chunks.simps, simp add: chunks_nonempty)

text \<open>Fragments handed to a sender one after the other, until one fails.\<close>

fun send_each ::
    "(u8 list \<Rightarrow> nat \<Rightarrow> u32 \<Rightarrow> 's \<Rightarrow> librdp_status \<times> 's) \<Rightarrow> nat \<Rightarrow> (u8 list \<times> u32) list \<Rightarrow> 's \<Rightarrow>
     librdp_status \<times> 's" where
  "send_each send tot [] s = (LIBRDP_STATUS_OK, s)"
| "send_each send tot ((c, f) # ps) s =
     (case send c tot f s of (status, s) \<Rightarrow>
        if status = LIBRDP_STATUS_OK then send_each send tot ps s else (status, s))"

lemma mark_Cons:
  "cs \<noteq> [] \<Longrightarrow> mark first (c # cs) = (c, if first then RDP_VIRTUAL_CHANNEL_FLAG_FIRST else 0) # mark False cs"
  by (cases cs) auto

lemma send_fragments_chunks:
  "offset \<le> length data \<Longrightarrow> offset = 0 \<or> offset < length data \<Longrightarrow>
    send_fragments send data offset s =
      send_each send (length data) (mark (offset = 0) (chunks (drop offset data))) s"
proof (induction send data offset s rule: send_fragments.induct)
  case (1 send data offset s)
  let ?n = "chunk_size data offset"
  show ?case
  proof (cases "length data - offset \<le> RDP_SERVER_STATIC_CHANNEL_CHUNK_SIZE")
    case True
    then have "chunks (drop offset data) = [drop offset data]" "?n = length data - offset"
      by (simp_all add: chunks.simps chunk_size_def)
    with "1.prems" show ?thesis
      by (subst send_fragments.simps) (auto simp: chunk_flags_def Let_def split: prod.splits)
  next
    case False
    then have n: "?n = RDP_SERVER_STATIC_CHANNEL_CHUNK_SIZE" "offset + ?n < length data" "0 < ?n"
      by (simp_all add: chunk_size_def RDP_SERVER_STATIC_CHANNEL_CHUNK_SIZE_def)
    have m: "mark (offset = 0) (chunks (drop offset data)) =
        (take ?n (drop offset data), chunk_flags data offset) # mark False (chunks (drop (offset + ?n) data))"
      using False n by (subst chunks.simps) (simp add: mark_Cons chunk_flags_def add.commute)
    obtain st s1 where s: "send (take ?n (drop offset data)) (length data) (chunk_flags data offset) s = (st, s1)"
      by (rule prod.exhaust)
    have "st = LIBRDP_STATUS_OK \<Longrightarrow> send_fragments send data (offset + ?n) s1 =
        send_each send (length data) (mark False (chunks (drop (offset + ?n) data))) s1"
      using "1.IH" [OF refl s [symmetric]] n by simp
    with s n m show ?thesis by (subst send_fragments.simps) (simp add: Let_def)
  qed
qed

section \<open>Bounded reassembly\<close>

definition client_bounded :: "u32 \<Rightarrow> rdp_session_static_channel \<Rightarrow> bool" where
  "client_bounded limit entry \<longleftrightarrow> buf_ok (ch_fragment entry) \<and>
     buf_length (ch_fragment entry) \<le> unat (ch_fragment_expected entry) \<and>
     ch_fragment_expected entry \<le> limit"

definition server_bounded :: "rdp_server_static_channel \<Rightarrow> bool" where
  "server_bounded channel \<longleftrightarrow> buf_ok (sch_fragment channel) \<and>
     buf_length (sch_fragment channel) \<le> unat (sch_fragment_expected channel) \<and>
     unat (sch_fragment_expected channel) \<le> RDP_SERVER_STATIC_MESSAGE_MAX"

lemma append_shape:
  assumes "buf_ok b" and "rdp_buffer_append bs (b, m) = (st, b', m')"
  shows "buf_ok b'" and "st = LIBRDP_STATUS_OK \<Longrightarrow> contents b' = contents b @ bs"
    and "st = LIBRDP_STATUS_OK \<Longrightarrow> buf_length b' = buf_length b + length bs"
    and "st \<noteq> LIBRDP_STATUS_OK \<Longrightarrow> buf_length b' = buf_length b"
proof -
  note s = append_from_spec [OF assms(1) source_ok_Outside assms(2) [unfolded rdp_buffer_append_def]]
  show "buf_ok b'" by (rule s(1))
  show c: "st = LIBRDP_STATUS_OK \<Longrightarrow> contents b' = contents b @ bs" using s(2) by simp
  show "st = LIBRDP_STATUS_OK \<Longrightarrow> buf_length b' = buf_length b + length bs"
    using c s(1) assms(1) by (metis length_append length_contents)
  show "st \<noteq> LIBRDP_STATUS_OK \<Longrightarrow> buf_length b' = buf_length b" using s(3) by simp
qed

lemma parse_packet_payload:
  assumes "rdp_virtual_channel_parse_packet data = Inr p"
  shows "length (vc_payload p) = vc_payload_len p" and "vc_payload_len p \<le> unat (vc_length p)"
    and "vc_payload_len p + 8 \<le> length data"
  using assms
  by (auto simp: rdp_virtual_channel_parse_packet_def Let_def accepts)

lemma client_stays_bounded:
  assumes inv: "client_bounded limit entry" and len: "length (vc_payload packet) = vc_payload_len packet"
    and res: "rdp_session_handle_static_channel limit multiparty packet (entry, m) = (st, out, entry', m')"
  shows "client_bounded limit entry'"
proof -
  obtain st1 b1 m1 where a: "rdp_buffer_append (vc_payload packet) (ch_fragment entry, m) = (st1, b1, m1)"
    by (rule prod_cases3)
  obtain st2 b2 m2 where b: "rdp_buffer_append (vc_payload packet) (rdp_buffer_init, m) = (st2, b2, m2)"
    by (rule prod_cases3)
  note a' = append_shape [OF _ a] and b' = append_shape [OF buf_ok_init b]
  show ?thesis
    using inv res len a' b'
    by (auto simp: rdp_session_handle_static_channel_def client_bounded_def a b Let_def not_less
        split: if_splits prod.splits)
qed

lemma server_stays_bounded:
  assumes inv: "server_bounded channel"
    and res: "rdp_server_handle_static_channel_message dispatch data (channel, m) = (st, out, channel', m')"
  shows "server_bounded channel'" and "st \<noteq> LIBRDP_STATUS_OK \<Longrightarrow> \<not> sch_fragmenting channel'"
proof -
  have reset: "server_bounded server_channel_reset" "\<not> sch_fragmenting server_channel_reset"
    by (simp_all add: server_bounded_def server_channel_reset_def)
  show "server_bounded channel'"
  proof (cases "rdp_virtual_channel_parse_packet data")
    case (Inl e)
    with res reset show ?thesis by (simp add: rdp_server_handle_static_channel_message_def)
  next
    case (Inr packet)
    note p = parse_packet_payload [OF Inr]
    obtain st1 b1 m1 where a: "rdp_buffer_append (vc_payload packet) (sch_fragment channel, m) = (st1, b1, m1)"
      by (rule prod_cases3)
    obtain st2 b2 m2 where b: "rdp_buffer_append (vc_payload packet) (rdp_buffer_init, m) = (st2, b2, m2)"
      by (rule prod_cases3)
    note a' = append_shape [OF _ a] and b' = append_shape [OF buf_ok_init b]
    have t: "unat (vc_length packet) \<le> 2 ^ 32" using unat_bounds(3) [of "vc_length packet"] by simp
    note d = size_t_sub [OF p(2) t, simplified]
    show ?thesis
      using inv res reset p a' b' d
      by (auto simp: rdp_server_handle_static_channel_message_def Inr server_bounded_def a b Let_def not_less
          split: if_splits)
  qed
  show "st \<noteq> LIBRDP_STATUS_OK \<Longrightarrow> \<not> sch_fragmenting channel'"
    using res reset
    by (auto simp: rdp_server_handle_static_channel_message_def Let_def split: if_splits prod.splits sum.splits)
qed

section \<open>Properties\<close>

text \<open>
  Reassembly in the server. However a message of at most 64 MB is cut into non-empty chunks, the
  server accepts the marked fragments in order and dispatches exactly the message, once, and
  is idle afterwards; an empty message is one empty fragment.
\<close>

lemma server_reassembles:
  assumes "length (concat cs) \<le> RDP_SERVER_STATIC_MESSAGE_MAX" and "cs \<noteq> []" and "length cs = 1 \<or> [] \<notin> set cs"
    and "\<not> sch_fragmenting channel" and "\<And>d. dispatch d = LIBRDP_STATUS_OK"
  shows "\<exists>channel'. feed (\<lambda>tot c flags.
        rdp_server_handle_static_channel_message dispatch (fragment_bytes c tot flags))
      (length (concat cs)) (mark True cs) (channel, []) =
        (LIBRDP_STATUS_OK, [concat cs], channel', []) \<and> \<not> sch_fragmenting channel'"
  using server_channel.delivers_once [OF assms(1) _ assms(2,3), of dispatch "(channel, [])"] assms(4,5)
  by (auto simp: server_idle_def server_handle_def [abs_def])

text \<open>
  C33. Reassembly is bounded. Whatever bytes arrive, the reassembly buffer of the server never holds more than the announced length,
  which is at most 64 MB; after an error it has dropped the partial message, and bytes that are not a channel packet reset the
  channel, are reported by the parser's status and deliver nothing. Whatever packet the client's parser accepts, with memory or
  without, the client's reassembly buffer never holds more than the announced length, which is at most the channel limit; bytes
  that its parser refuses do not reach the channel.
\<close>

theorem reassembly_bounded:
  assumes "client_bounded limit entry" "server_bounded channel"
    and "rdp_server_handle_static_channel_message dispatch data (channel, m) = (st2, out2, channel', m2)"
  shows "server_bounded channel' \<and> (st2 \<noteq> LIBRDP_STATUS_OK \<longrightarrow> \<not> sch_fragmenting channel') \<and>
    (case rdp_virtual_channel_parse_packet data of
       Inl e \<Rightarrow> st2 = e \<and> out2 = [] \<and> channel' = server_channel_reset
     | Inr packet \<Rightarrow> (\<forall>n st out entry' m'. rdp_session_handle_static_channel limit multiparty packet (entry, n) = (st, out, entry', m') \<longrightarrow>
         client_bounded limit entry'))"
proof -
  have "\<forall>n st out entry' m'. rdp_session_handle_static_channel limit multiparty packet (entry, n) = (st, out, entry', m') \<longrightarrow>
      client_bounded limit entry'" if "rdp_virtual_channel_parse_packet data = Inr packet" for packet
    using client_stays_bounded [OF assms(1) parse_packet_payload(1) [OF that]] by blast
  moreover have "st2 = e \<and> out2 = [] \<and> channel' = server_channel_reset" if "rdp_virtual_channel_parse_packet data = Inl e" for e
    using assms(3) that by (simp add: rdp_server_handle_static_channel_message_def)
  ultimately show ?thesis
    using server_stays_bounded [OF assms(2,3)] by (simp split: sum.split)
qed

definition partial_entry :: rdp_session_static_channel where
  "partial_entry = \<lparr>ch_channel_id = 1004, ch_flags = 0, ch_active = True, ch_joined = True, ch_fragmenting = True,
     ch_fragment_expected = 1, ch_fragment = rdp_buffer_init, ch_name = ascii ''rdpsnd''\<rparr>"

theorem reassembly_bounded_witness:
  "(\<exists>st out entry' m'. rdp_session_handle_static_channel 100 (\<lambda>_. LIBRDP_STATUS_OK) (fragment_packet [1] 3 1) (partial_entry, []) =
       (st, out, entry', m') \<and> client_bounded 100 entry') \<and>
   (\<exists>st2 out2 channel' m2. rdp_server_handle_static_channel_message (\<lambda>_. LIBRDP_STATUS_OK) (fragment_bytes [1] 3 1)
       (server_channel_reset, []) = (st2, out2, channel', m2) \<and> server_bounded channel')"
proof -
  obtain st out entry' m' where 1: "rdp_session_handle_static_channel 100 (\<lambda>_. LIBRDP_STATUS_OK)
      (fragment_packet [1] 3 1) (partial_entry, []) = (st, out, entry', m')" by (rule prod_cases4)
  obtain st2 out2 channel' m2 where 2: "rdp_server_handle_static_channel_message (\<lambda>_. LIBRDP_STATUS_OK)
      (fragment_bytes [1] 3 1) (server_channel_reset, []) = (st2, out2, channel', m2)" by (rule prod_cases4)
  have parse: "rdp_virtual_channel_parse_packet (fragment_bytes [1] 3 1) = Inr (fragment_packet [1] 3 1)"
    by (rule parse_fragment) (simp add: fragment_wf_def UINT32_MAX_def RDP_VIRTUAL_CHANNEL_FLAG_FIRST_def
        RDP_VIRTUAL_CHANNEL_FLAG_LAST_def)
  have ok: "client_bounded 100 partial_entry" "server_bounded server_channel_reset"
    by (simp_all add: client_bounded_def server_bounded_def partial_entry_def server_channel_reset_def)
  from reassembly_bounded [OF ok 2, where multiparty = "\<lambda>_. LIBRDP_STATUS_OK", unfolded parse sum.case] 1 2 show ?thesis by blast
qed

text \<open>
  C34. A refused fragment leaves the client's partial message in place. A continuation that overflows
  the announced length is a protocol error, and a packet longer than the channel limit exceeds the limit;
  in both cases the channel is exactly as before, still fragmenting and with
  the bytes received so far.
\<close>

theorem client_keeps_partial_message:
  assumes "ch_fragmenting entry" and "vc_flags packet AND RDP_VIRTUAL_CHANNEL_FLAG_FIRST = 0"
    and "vc_length packet \<le> limit \<longrightarrow>
      buf_length (ch_fragment entry) + vc_payload_len packet > unat (ch_fragment_expected entry)"
  shows "rdp_session_handle_static_channel limit multiparty packet (entry, m) =
    (if vc_length packet > limit then LIBRDP_STATUS_LIMIT_EXCEEDED else LIBRDP_STATUS_PROTOCOL_ERROR,
     [], entry, m)"
proof -
  have "vc_flags packet AND flags_first_last \<noteq> flags_first_last"
  proof
    assume "vc_flags packet AND flags_first_last = flags_first_last"
    then have "(vc_flags packet AND flags_first_last) AND RDP_VIRTUAL_CHANNEL_FLAG_FIRST = RDP_VIRTUAL_CHANNEL_FLAG_FIRST"
      by (simp add: RDP_VIRTUAL_CHANNEL_FLAG_FIRST_def RDP_VIRTUAL_CHANNEL_FLAG_LAST_def)
    moreover have "(vc_flags packet AND flags_first_last) AND RDP_VIRTUAL_CHANNEL_FLAG_FIRST =
        vc_flags packet AND RDP_VIRTUAL_CHANNEL_FLAG_FIRST"
      by (simp add: and.assoc RDP_VIRTUAL_CHANNEL_FLAG_FIRST_def RDP_VIRTUAL_CHANNEL_FLAG_LAST_def)
    ultimately show False using assms(2) by simp
  qed
  then show ?thesis
    using assms by (auto simp: rdp_session_handle_static_channel_def Let_def not_le)
qed

theorem client_keeps_partial_message_witness:
  "rdp_session_handle_static_channel 100 (\<lambda>_. LIBRDP_STATUS_OK)
     \<lparr>vc_length = 2, vc_flags = 2, vc_payload = [5, 6], vc_payload_len = 2\<rparr> (partial_entry, []) =
     (LIBRDP_STATUS_PROTOCOL_ERROR, [], partial_entry, [])"
  using client_keeps_partial_message [of partial_entry
      "\<lparr>vc_length = 2, vc_flags = 2, vc_payload = [5, 6], vc_payload_len = 2\<rparr>" 100 "\<lambda>_. LIBRDP_STATUS_OK" "[]"]
  by (simp add: partial_entry_def RDP_VIRTUAL_CHANNEL_FLAG_FIRST_def)

end
