(* ===== verification/Session_Wire.thy ===== *)
theory Session_Wire
  imports Fastpath Virtual_Channel
begin

text \<open>
  The wire paths of the two ends of a session, composed from the packet formats of the other
  theories: the server's outbound path (\<^verbatim>\<open>src/src/server/server_security.c\<close> and
  \<^verbatim>\<open>server/server_channels.c\<close>), the client's outbound path and the client's inbound path
  (\<^verbatim>\<open>src/src/client/session_protocol_io.c\<close> and the slow-path branch of \<^verbatim>\<open>librdp_session_run_once\<close> in
  \<^verbatim>\<open>client/session.c\<close>), and the server's TPKT deframing.

  The socket is an argument \<open>net\<close>, the status of writing some bytes; what was written successfully is
  kept in the peer or session as the list of frames. Traces, error records and the count of rejected
  limits are not modelled.
\<close>

section \<open>Peers and sessions\<close>

datatype librdp_server_peer_state =
    LIBRDP_SERVER_PEER_NEW | LIBRDP_SERVER_PEER_NEGOTIATING | LIBRDP_SERVER_PEER_X224_CONFIRMED
  | LIBRDP_SERVER_PEER_CLOSING | LIBRDP_SERVER_PEER_CLOSED | LIBRDP_SERVER_PEER_FAILED
  | LIBRDP_SERVER_PEER_MCS_CONNECTED | LIBRDP_SERVER_PEER_DOMAIN_READY | LIBRDP_SERVER_PEER_USER_ATTACHED
  | LIBRDP_SERVER_PEER_CHANNEL_JOINING | LIBRDP_SERVER_PEER_ACTIVATING | LIBRDP_SERVER_PEER_ACTIVE
  | LIBRDP_SERVER_PEER_LICENSING | LIBRDP_SERVER_PEER_TLS_HANDSHAKING | LIBRDP_SERVER_PEER_NLA_AUTHENTICATING


definition RDP_SEC_TRANSPORT_REQ :: u16 where "RDP_SEC_TRANSPORT_REQ = 0x0002"
definition RDP_SEC_TRANSPORT_RSP :: u16 where "RDP_SEC_TRANSPORT_RSP = 0x0004"
definition RDP_SEC_LICENSE_PKT :: u16 where "RDP_SEC_LICENSE_PKT = 0x0080"
definition RDP_SEC_REDIRECTION_PKT :: u16 where "RDP_SEC_REDIRECTION_PKT = 0x0400"
definition RDP_SEC_AUTODETECT_REQ :: u16 where "RDP_SEC_AUTODETECT_REQ = 0x1000"
definition RDP_SEC_AUTODETECT_RSP :: u16 where "RDP_SEC_AUTODETECT_RSP = 0x2000"

text \<open>The fields of \<^verbatim>\<open>librdp_server_peer\<close> the outbound path uses, with the frames sent so far.\<close>

record 'c librdp_server_peer =
  pe_state :: librdp_server_peer_state
  pe_user_id :: u16
  pe_standard_security :: "'c rdp_standard_security_context"
  pe_standard_security_ready :: bool
  pe_advertised_channel_joined :: "bool list"
  pe_input :: rdp_buffer
  pe_bytes_written :: u64
  pe_bytes_read :: u64
  pe_pdu_out :: u64
  pe_pdu_in :: u64
  pe_static_channel_out :: u64
  pe_static_channel_bytes_out :: u64
  pe_sent :: "u8 list list"

text \<open>The fields of \<^verbatim>\<open>librdp_session\<close> the wire paths use, with the frames sent so far.\<close>

record 'c librdp_session =
  se_mcs_user_id :: u16
  se_standard_security :: "'c rdp_standard_security_context"
  se_standard_security_active :: bool
  se_message_channel_id :: u16
  se_message_channel_joined :: bool
  se_dynamic_channel_id :: u16
  se_clipboard_channel_id :: u16
  se_static_channels :: "rdp_session_static_channel list"
  se_pdu_buffer_bytes :: u32
  se_channel_buffer_bytes :: u32
  se_transport_bytes_written :: u64
  se_transport_bytes_read :: u64
  se_pdu_out :: u64
  se_pdu_in :: u64
  se_channel_in :: u64
  se_channel_bytes_in :: u64
  se_channel_out :: u64
  se_channel_bytes_out :: u64
  se_failed :: bool
  se_sent :: "u8 list list"

text \<open>Both ends count with saturation.\<close>

definition rdp_server_metric_add :: "u64 \<Rightarrow> u64 \<Rightarrow> u64" where
  "rdp_server_metric_add metric v = (if - 1 - metric < v then - 1 else metric + v)"

definition rdp_session_metric_add :: "u64 \<Rightarrow> u64 \<Rightarrow> u64" where
  "rdp_session_metric_add counter v = (if counter > - 1 - v then - 1 else counter + v)"

section \<open>Server: outbound\<close>

type_synonym network = "u8 list \<Rightarrow> librdp_status"

definition rdp_server_peer_send_all ::
    "network \<Rightarrow> u8 list \<Rightarrow> 'c librdp_server_peer \<Rightarrow> librdp_status \<times> 'c librdp_server_peer" where
  "rdp_server_peer_send_all net data peer =
     (let status = net data;
          peer = (if status = LIBRDP_STATUS_CLOSED then peer\<lparr>pe_state := LIBRDP_SERVER_PEER_CLOSED\<rparr> else peer)
      in (status,
          if status = LIBRDP_STATUS_OK
          then peer\<lparr>pe_sent := pe_sent peer @ [data],
                    pe_bytes_written := rdp_server_metric_add (pe_bytes_written peer) (of_nat (length data))\<rparr>
          else peer))"

definition rdp_server_send_x224_data ::
    "network \<Rightarrow> u8 list \<Rightarrow> 'c librdp_server_peer \<times> mem \<Rightarrow> librdp_status \<times> 'c librdp_server_peer \<times> mem" where
  "rdp_server_send_x224_data net payload = (\<lambda>(peer, m).
     case rdp_x224_wrap_data payload (rdp_buffer_init, m) of (status, x224, m) \<Rightarrow>
       if status \<noteq> LIBRDP_STATUS_OK then (status, peer, m)
       else
         (case rdp_tpkt_write (contents x224) (rdp_buffer_init, m) of (status, tpkt, m) \<Rightarrow>
            if status \<noteq> LIBRDP_STATUS_OK then (status, peer, m)
            else
              (case rdp_server_peer_send_all net (contents tpkt) peer of (status, peer) \<Rightarrow> (status, peer, m))))"

definition rdp_server_send_mcs_pdu ::
    "network \<Rightarrow> rdp_buffer \<Rightarrow> 'c librdp_server_peer \<times> mem \<Rightarrow> librdp_status \<times> 'c librdp_server_peer \<times> mem" where
  "rdp_server_send_mcs_pdu net mcs_pdu s =
     (case rdp_server_send_x224_data net (contents mcs_pdu) s of (status, peer, m) \<Rightarrow>
        (status,
         if status = LIBRDP_STATUS_OK then peer\<lparr>pe_pdu_out := rdp_server_metric_add (pe_pdu_out peer) 1\<rparr> else peer,
         m))"

definition rdp_server_outbound_security_overhead :: "'c librdp_server_peer \<Rightarrow> nat" where
  "rdp_server_outbound_security_overhead peer = (if pe_standard_security_ready peer then 12 else 0)"

definition rdp_server_prepare_outbound_security_payload ::
    "'c crypto \<Rightarrow> u8 list \<Rightarrow> 'c librdp_server_peer \<times> mem \<Rightarrow>
     librdp_status \<times> u8 list \<times> 'c librdp_server_peer \<times> mem" where
  "rdp_server_prepare_outbound_security_payload cr payload = (\<lambda>(peer, m).
     if \<not> pe_standard_security_ready peer then (LIBRDP_STATUS_OK, payload, peer, m)
     else
       (case rdp_security_write_encrypted_pdu cr 0 payload (pe_standard_security peer, rdp_buffer_init, m) of
          (status, security, secured, m) \<Rightarrow>
            (status, if status = LIBRDP_STATUS_OK then contents secured else payload,
             peer\<lparr>pe_standard_security := security\<rparr>, m)))"

definition rdp_server_send_slowpath ::
    "'c crypto \<Rightarrow> network \<Rightarrow> rdp_buffer \<Rightarrow> 'c librdp_server_peer \<times> mem \<Rightarrow>
     librdp_status \<times> 'c librdp_server_peer \<times> mem" where
  "rdp_server_send_slowpath cr net slowpath_pdu s =
     (case rdp_server_prepare_outbound_security_payload cr (contents slowpath_pdu) s of
        (status, wire_payload, peer, m) \<Rightarrow>
          if status \<noteq> LIBRDP_STATUS_OK then (status, peer, m)
          else
            (case rdp_mcs_write_send_data_indication (pe_user_id peer) RDP_MCS_GLOBAL_CHANNEL_ID wire_payload
                    (rdp_buffer_init, m) of (status, mcs, m) \<Rightarrow>
               if status \<noteq> LIBRDP_STATUS_OK then (status, peer, m)
               else rdp_server_send_mcs_pdu net mcs (peer, m)))"

definition rdp_server_send_static_channel_fragment ::
    "'c crypto \<Rightarrow> network \<Rightarrow> u16 \<Rightarrow> u8 list \<Rightarrow> nat \<Rightarrow> u32 \<Rightarrow> 'c librdp_server_peer \<times> mem \<Rightarrow>
     librdp_status \<times> 'c librdp_server_peer \<times> mem" where
  "rdp_server_send_static_channel_fragment cr net channel_id data total_len flags = (\<lambda>(peer, m).
     case rdp_virtual_channel_write_fragment data total_len flags (rdp_buffer_init, m) of
       (status, channel_packet, m) \<Rightarrow>
         if status \<noteq> LIBRDP_STATUS_OK then (status, peer, m)
         else if buf_length channel_packet > 0x7fff \<or>
           rdp_server_outbound_security_overhead peer > 0x7fff - buf_length channel_packet
         then (LIBRDP_STATUS_LIMIT_EXCEEDED, peer, m)
         else
           (case rdp_server_prepare_outbound_security_payload cr (contents channel_packet) (peer, m) of
              (status, wire_payload, peer, m) \<Rightarrow>
                if status \<noteq> LIBRDP_STATUS_OK then (status, peer, m)
                else
                  (case rdp_mcs_write_send_data_indication (pe_user_id peer) channel_id wire_payload
                          (rdp_buffer_init, m) of (status, mcs, m) \<Rightarrow>
                     if status \<noteq> LIBRDP_STATUS_OK then (status, peer, m)
                     else rdp_server_send_mcs_pdu net mcs (peer, m))))"

definition rdp_server_static_channel_index :: "'c librdp_server_peer \<Rightarrow> u16 \<Rightarrow> nat option" where
  "rdp_server_static_channel_index peer channel_id =
     (let first_static = RDP_MCS_GLOBAL_CHANNEL_ID + 1 in
      if channel_id < first_static then None
      else if unat (channel_id - first_static) \<ge> length (pe_advertised_channel_joined peer) then None
      else Some (unat (channel_id - first_static)))"

definition librdp_server_peer_send_channel_data ::
    "'c crypto \<Rightarrow> network \<Rightarrow> u16 \<Rightarrow> u8 list \<Rightarrow> 'c librdp_server_peer \<times> mem \<Rightarrow>
     librdp_status \<times> 'c librdp_server_peer \<times> mem" where
  "librdp_server_peer_send_channel_data cr net channel_id data = (\<lambda>(peer, m).
     if pe_state peer \<noteq> LIBRDP_SERVER_PEER_ACTIVE then (LIBRDP_STATUS_STATE, peer, m)
     else
       (case rdp_server_static_channel_index peer channel_id of
          None \<Rightarrow> (LIBRDP_STATUS_INVALID_ARGUMENT, peer, m)
        | Some channel_index \<Rightarrow>
            if \<not> pe_advertised_channel_joined peer ! channel_index
            then (LIBRDP_STATUS_INVALID_ARGUMENT, peer, m)
            else if length data > RDP_SERVER_STATIC_MESSAGE_MAX then (LIBRDP_STATUS_LIMIT_EXCEEDED, peer, m)
            else
              (case send_fragments (rdp_server_send_static_channel_fragment cr net channel_id) data 0 (peer, m) of
                 (status, peer, m) \<Rightarrow>
                   (status,
                    if status = LIBRDP_STATUS_OK
                    then peer\<lparr>pe_static_channel_out := rdp_server_metric_add (pe_static_channel_out peer) 1,
                              pe_static_channel_bytes_out :=
                                rdp_server_metric_add (pe_static_channel_bytes_out peer) (of_nat (length data))\<rparr>
                    else peer,
                    m))))"

section \<open>Server: fast-path output\<close>

abbreviation "RDP_FASTPATH_FRAGMENT_LAST \<equiv> (0x01 :: u8)"
abbreviation "RDP_FASTPATH_FRAGMENT_FIRST \<equiv> (0x02 :: u8)"

definition RDP_SERVER_FASTPATH_FRAGMENT_DATA_MAX :: nat where
  "RDP_SERVER_FASTPATH_FRAGMENT_DATA_MAX = 0x3fff - 3 - 8 - 3"

definition rdp_server_send_fastpath_fragment ::
    "'c crypto \<Rightarrow> network \<Rightarrow> rdp_buffer \<Rightarrow> 'c librdp_server_peer \<times> mem \<Rightarrow>
     librdp_status \<times> 'c librdp_server_peer \<times> mem" where
  "rdp_server_send_fastpath_fragment cr net update = (\<lambda>(peer, m).
     let ready = pe_standard_security_ready peer in
     case (if \<not> ready then (LIBRDP_STATUS_OK, [], contents update, peer, m)
           else
             (case rdp_security_mac_signature cr (pe_standard_security peer) (contents update) of
                Inl e \<Rightarrow> (e, [], [], peer, m)
              | Inr signature \<Rightarrow>
                  (case rdp_buffer_append (contents update) (rdp_buffer_init, m) of (status, encrypted, m) \<Rightarrow>
                     if status \<noteq> LIBRDP_STATUS_OK then (status, signature, [], peer, m)
                     else
                       (case rdp_security_encrypt_payload cr (pe_standard_security peer) (contents encrypted) of
                          (status, payload, security) \<Rightarrow>
                            (status, signature, payload, peer\<lparr>pe_standard_security := security\<rparr>, m))))) of
       (status, signature, payload, peer, m) \<Rightarrow>
         if status \<noteq> LIBRDP_STATUS_OK then (status, peer, m)
         else
           (case run_writers
                   ([rdp_fastpath_write_header RDP_FASTPATH_OUTPUT_ACTION_FASTPATH
                       (if ready then RDP_FASTPATH_OUTPUT_ENCRYPTED else 0)
                       (buf_length update + (if ready then 8 else 0))] @
                    (if ready then [rdp_buffer_append signature] else []) @
                    [rdp_buffer_append payload])
                   (rdp_buffer_init, m) of (status, wire, m) \<Rightarrow>
              if status \<noteq> LIBRDP_STATUS_OK then (status, peer, m)
              else
                (case rdp_server_peer_send_all net (contents wire) peer of (status, peer) \<Rightarrow>
                   (status,
                    if status = LIBRDP_STATUS_OK
                    then peer\<lparr>pe_pdu_out := rdp_server_metric_add (pe_pdu_out peer) 1\<rparr> else peer,
                    m))))"

text \<open>The fragment of an update at an offset: its length and its fragmentation code.\<close>

definition fastpath_fragment_len :: "u8 list \<Rightarrow> nat \<Rightarrow> nat" where
  "fastpath_fragment_len data offset =
     (if length data - offset > RDP_SERVER_FASTPATH_FRAGMENT_DATA_MAX
      then RDP_SERVER_FASTPATH_FRAGMENT_DATA_MAX else length data - offset)"

definition fastpath_fragmentation :: "u8 list \<Rightarrow> nat \<Rightarrow> u8" where
  "fastpath_fragmentation data offset =
     (if length data > RDP_SERVER_FASTPATH_FRAGMENT_DATA_MAX then
        (if offset = 0 then RDP_FASTPATH_FRAGMENT_FIRST
         else if fastpath_fragment_len data offset = length data - offset then RDP_FASTPATH_FRAGMENT_LAST
         else RDP_FASTPATH_FRAGMENT_NEXT)
      else RDP_FASTPATH_FRAGMENT_SINGLE)"

definition fastpath_fragment :: "u8 \<Rightarrow> u8 list \<Rightarrow> nat \<Rightarrow> rdp_fastpath_update" where
  "fastpath_fragment update_code data offset =
     (let n = fastpath_fragment_len data offset in
      \<lparr>up_update_code = update_code, up_fragmentation = fastpath_fragmentation data offset,
       up_compression = 0, up_compression_flags = 0,
       up_data = take n (drop offset data), up_data_len = n\<rparr>)"

function rdp_server_send_fastpath_update_from ::
    "'c crypto \<Rightarrow> network \<Rightarrow> u8 \<Rightarrow> u8 list \<Rightarrow> nat \<Rightarrow> 'c librdp_server_peer \<times> mem \<Rightarrow>
     librdp_status \<times> 'c librdp_server_peer \<times> mem" where
  "rdp_server_send_fastpath_update_from cr net update_code data offset (peer, m) =
     (case rdp_fastpath_write_update (fastpath_fragment update_code data offset) (rdp_buffer_init, m) of
        (status, update, m) \<Rightarrow>
          if status \<noteq> LIBRDP_STATUS_OK then (status, peer, m)
          else
            (case rdp_server_send_fastpath_fragment cr net update (peer, m) of (status, peer, m) \<Rightarrow>
               if status \<noteq> LIBRDP_STATUS_OK then (status, peer, m)
               else if offset + fastpath_fragment_len data offset < length data
               then rdp_server_send_fastpath_update_from cr net update_code data
                      (offset + fastpath_fragment_len data offset) (peer, m)
               else (LIBRDP_STATUS_OK, peer, m)))"
  by pat_completeness auto
termination
  by (relation "measure (\<lambda>(cr, net, code, data, offset, s). length data - offset)")
    (auto simp: fastpath_fragment_len_def RDP_SERVER_FASTPATH_FRAGMENT_DATA_MAX_def split: if_splits)

declare rdp_server_send_fastpath_update_from.simps [simp del]

definition rdp_server_send_fastpath_update ::
    "'c crypto \<Rightarrow> network \<Rightarrow> u8 \<Rightarrow> u8 list \<Rightarrow> 'c librdp_server_peer \<times> mem \<Rightarrow>
     librdp_status \<times> 'c librdp_server_peer \<times> mem" where
  "rdp_server_send_fastpath_update cr net update_code data =
     rdp_server_send_fastpath_update_from cr net update_code data 0"

section \<open>Server: TPKT deframing\<close>

text \<open>The bytes buffered so far give a packet and its length, or ask for more.\<close>

definition rdp_server_parse_buffered_tpkt ::
    "'c librdp_server_peer \<Rightarrow> (rdp_tpkt \<times> nat) option result \<times> 'c librdp_server_peer" where
  "rdp_server_parse_buffered_tpkt peer =
     (let input = pe_input peer; data = contents input in
      if buf_length input < 4 then (Inr None, peer)
      else if data ! 0 \<noteq> 3 then (protocol_error, peer)
      else
        let tot = unat (be16 (data ! 2) (data ! 3)) in
        if tot < 4 then (protocol_error, peer)
        else if tot > buf_length input then (Inr None, peer)
        else
          (case rdp_tpkt_parse (take tot data) of
             Inl e \<Rightarrow> (Inl e, peer\<lparr>pe_state := LIBRDP_SERVER_PEER_FAILED\<rparr>)
           | Inr packet \<Rightarrow>
               (Inr (Some (packet, tot)),
                peer\<lparr>pe_pdu_in := rdp_server_metric_add (pe_pdu_in peer) 1\<rparr>)))"

text \<open>
  The plain socket as \<^verbatim>\<open>poll\<close> and \<^verbatim>\<open>recv\<close> show it: the segments that arrive, in order. A read takes at
  most \<open>capacity\<close> bytes of the next segment; with no segment left the poll times out.
\<close>

fun recv :: "nat \<Rightarrow> u8 list list \<Rightarrow> (u8 list \<times> u8 list list) option" where
  "recv capacity [] = None"
| "recv capacity (seg # segs) =
     Some (take capacity seg, if length seg \<le> capacity then segs else drop capacity seg # segs)"

definition RDP_SERVER_INITIAL_READ_MAX :: nat where
  "RDP_SERVER_INITIAL_READ_MAX = 65535"

definition server_read_capacity :: "rdp_buffer \<Rightarrow> nat" where
  "server_read_capacity input =
     (if buf_length input < 4 then 4 - buf_length input
      else
        let expected = unat (be16 (contents input ! 2) (contents input ! 3));
            remaining = expected - buf_length input
        in if remaining < 2048 then remaining else 2048)"

text \<open>
  The loop of \<^verbatim>\<open>rdp_server_read_tpkt\<close> on a peer without TLS. Every round but the last reads; \<open>fuel\<close>
  bounds the rounds.
\<close>

fun rdp_server_read_tpkt ::
    "nat \<Rightarrow> u8 list list \<Rightarrow> 'c librdp_server_peer \<times> mem \<Rightarrow>
     (rdp_tpkt \<times> nat) result option \<times> u8 list list \<times> 'c librdp_server_peer \<times> mem" where
  "rdp_server_read_tpkt 0 segs (peer, m) = (None, segs, peer, m)"
| "rdp_server_read_tpkt (Suc fuel) segs (peer, m) =
     (case rdp_server_parse_buffered_tpkt peer of
        (Inl e, peer) \<Rightarrow> (Some (Inl e), segs, peer, m)
      | (Inr (Some packet), peer) \<Rightarrow> (Some (Inr packet), segs, peer, m)
      | (Inr None, peer) \<Rightarrow>
          (case recv (server_read_capacity (pe_input peer)) segs of
             None \<Rightarrow> (Some (Inl LIBRDP_STATUS_TIMEOUT), segs, peer, m)
           | Some (chunk, segs) \<Rightarrow>
               if chunk = [] then (Some (Inl LIBRDP_STATUS_CLOSED), segs,
                 peer\<lparr>pe_state := LIBRDP_SERVER_PEER_CLOSED\<rparr>, m)
               else
                 let peer = peer\<lparr>pe_bytes_read :=
                       rdp_server_metric_add (pe_bytes_read peer) (of_nat (length chunk))\<rparr> in
                 if buf_length (pe_input peer) + length chunk > RDP_SERVER_INITIAL_READ_MAX
                 then (Some (Inl LIBRDP_STATUS_LIMIT_EXCEEDED), segs,
                   peer\<lparr>pe_state := LIBRDP_SERVER_PEER_FAILED\<rparr>, m)
                 else
                   (case rdp_buffer_append chunk (pe_input peer, m) of (status, input, m) \<Rightarrow>
                      if status \<noteq> LIBRDP_STATUS_OK then (Some (Inl status), segs, peer\<lparr>pe_input := input\<rparr>, m)
                      else rdp_server_read_tpkt fuel segs (peer\<lparr>pe_input := input\<rparr>, m))))"

section \<open>Client: outbound\<close>

definition rdp_session_write_mcs_pdu ::
    "network \<Rightarrow> rdp_buffer \<Rightarrow> 'c librdp_session \<times> mem \<Rightarrow> librdp_status \<times> 'c librdp_session \<times> mem" where
  "rdp_session_write_mcs_pdu net pdu = (\<lambda>(session, m).
     case rdp_x224_wrap_data (contents pdu) (rdp_buffer_init, m) of (status, x224_data, m) \<Rightarrow>
       if status \<noteq> LIBRDP_STATUS_OK then (status, session, m)
       else
         (case rdp_tpkt_write (contents x224_data) (rdp_buffer_init, m) of (status, packet, m) \<Rightarrow>
            if status \<noteq> LIBRDP_STATUS_OK then (status, session, m)
            else
              let status = net (contents packet) in
              (status,
               if status = LIBRDP_STATUS_OK
               then session\<lparr>se_sent := se_sent session @ [contents packet],
                      se_transport_bytes_written := rdp_session_metric_add
                        (se_transport_bytes_written session) (of_nat (buf_length packet)),
                      se_pdu_out := rdp_session_metric_add (se_pdu_out session) 1\<rparr>
               else session,
               m)))"

text \<open>The payload protected by Standard Security when it is active, otherwise copied.\<close>

definition session_security_payload ::
    "'c crypto \<Rightarrow> u16 \<Rightarrow> u8 list \<Rightarrow> 'c librdp_session \<times> mem \<Rightarrow>
     librdp_status \<times> rdp_buffer \<times> 'c librdp_session \<times> mem" where
  "session_security_payload cr flags payload = (\<lambda>(session, m).
     if se_standard_security_active session then
       (case rdp_security_write_encrypted_pdu cr flags payload
               (se_standard_security session, rdp_buffer_init, m) of
          (status, security, b, m) \<Rightarrow> (status, b, session\<lparr>se_standard_security := security\<rparr>, m))
     else
       (case rdp_buffer_append payload (rdp_buffer_init, m) of (status, b, m) \<Rightarrow> (status, b, session, m)))"

text \<open>The send data request that carries a security payload, and its transmission.\<close>

definition session_send_data ::
    "network \<Rightarrow> u16 \<Rightarrow> librdp_status \<times> rdp_buffer \<times> 'c librdp_session \<times> mem \<Rightarrow>
     librdp_status \<times> 'c librdp_session \<times> mem" where
  "session_send_data net channel_id = (\<lambda>(status, security_payload, session, m).
     if status \<noteq> LIBRDP_STATUS_OK then (status, session, m)
     else
       (case rdp_security_write_send_data_request (se_mcs_user_id session) channel_id
               (contents security_payload) (rdp_buffer_init, m) of (status, send_data, m) \<Rightarrow>
          if status \<noteq> LIBRDP_STATUS_OK then (status, session, m)
          else rdp_session_write_mcs_pdu net send_data (session, m)))"

definition rdp_session_write_slowpath_pdu ::
    "'c crypto \<Rightarrow> network \<Rightarrow> rdp_buffer \<Rightarrow> 'c librdp_session \<times> mem \<Rightarrow>
     librdp_status \<times> 'c librdp_session \<times> mem" where
  "rdp_session_write_slowpath_pdu cr net slowpath s =
     session_send_data net RDP_MCS_GLOBAL_CHANNEL_ID (session_security_payload cr 0 (contents slowpath) s)"

definition rdp_session_write_license_pdu ::
    "'c crypto \<Rightarrow> network \<Rightarrow> rdp_buffer \<Rightarrow> 'c librdp_session \<times> mem \<Rightarrow>
     librdp_status \<times> 'c librdp_session \<times> mem" where
  "rdp_session_write_license_pdu cr net license s =
     session_send_data net RDP_MCS_GLOBAL_CHANNEL_ID
       (session_security_payload cr (RDP_SEC_LICENSE_PKT OR RDP_SEC_LICENSE_ENCRYPT_SC) (contents license) s)"

definition rdp_session_write_channel_pdu ::
    "'c crypto \<Rightarrow> network \<Rightarrow> u16 \<Rightarrow> rdp_buffer \<Rightarrow> 'c librdp_session \<times> mem \<Rightarrow>
     librdp_status \<times> 'c librdp_session \<times> mem" where
  "rdp_session_write_channel_pdu cr net channel_id payload = (\<lambda>(session, m).
     case rdp_virtual_channel_write_packet (contents payload) 3 (rdp_buffer_init, m) of
       (status, channel_packet, m) \<Rightarrow>
         if status \<noteq> LIBRDP_STATUS_OK then (status, session, m)
         else
           (case session_send_data net channel_id
                   (session_security_payload cr 0 (contents channel_packet) (session, m)) of
              (status, session, m) \<Rightarrow>
                (status,
                 if status = LIBRDP_STATUS_OK
                 then session\<lparr>se_channel_out := rdp_session_metric_add (se_channel_out session) 1,
                        se_channel_bytes_out := rdp_session_metric_add
                          (se_channel_bytes_out session) (of_nat (buf_length payload))\<rparr>
                 else session,
                 m)))"

definition rdp_session_write_message_channel_pdu ::
    "'c crypto \<Rightarrow> network \<Rightarrow> u16 \<Rightarrow> rdp_buffer \<Rightarrow> 'c librdp_session \<times> mem \<Rightarrow>
     librdp_status \<times> 'c librdp_session \<times> mem" where
  "rdp_session_write_message_channel_pdu cr net security_flags payload = (\<lambda>(session, m).
     if se_message_channel_id session = 0 \<or> \<not> se_message_channel_joined session \<or>
        security_flags \<notin> {RDP_SEC_AUTODETECT_REQ, RDP_SEC_AUTODETECT_RSP, RDP_SEC_TRANSPORT_REQ, RDP_SEC_TRANSPORT_RSP}
     then (LIBRDP_STATUS_INVALID_ARGUMENT, session, m)
     else
       session_send_data net (se_message_channel_id session)
         (if se_standard_security_active session
          then session_security_payload cr security_flags (contents payload) (session, m)
          else
            (case run_writers [rdp_security_write_header security_flags, rdp_buffer_append (contents payload)]
                    (rdp_buffer_init, m) of (status, b, m) \<Rightarrow> (status, b, session, m))))"

section \<open>Client: inbound\<close>

definition rdp_session_read_mcs_pdu_internal ::
    "u8 list \<Rightarrow> 'c librdp_session \<Rightarrow> u8 list result \<times> 'c librdp_session" where
  "rdp_session_read_mcs_pdu_internal packet session =
     (if length packet > unat (se_pdu_buffer_bytes session) then (Inl LIBRDP_STATUS_LIMIT_EXCEEDED, session)
      else
        let session = session\<lparr>se_transport_bytes_read := rdp_session_metric_add
                          (se_transport_bytes_read session) (of_nat (length packet)),
                        se_pdu_in := rdp_session_metric_add (se_pdu_in session) 1\<rparr>
        in (ebind (rdp_tpkt_parse packet) (\<lambda>parsed. rdp_x224_parse_data (tpkt_payload parsed)), session))"

definition rdp_session_static_channel_find_by_id :: "'c librdp_session \<Rightarrow> u16 \<Rightarrow> nat option" where
  "rdp_session_static_channel_find_by_id session channel_id =
     (if channel_id = 0 then None
      else find (\<lambda>i. ch_active (se_static_channels session ! i) \<and>
                     ch_channel_id (se_static_channels session ! i) = channel_id)
             [0..<length (se_static_channels session)])"

text \<open>
  Where a data indication goes. The static channels are handled here; the other handlers get the
  security flags and the payload.
\<close>

datatype client_route =
    Route_Message u16 "u8 list"
  | Route_Redirection u16 "u8 list"
  | Route_Dynamic rdp_virtual_channel_packet
  | Route_Static "channel_event list"
  | Route_Other u16 u16 "u8 list"

definition session_unwrap ::
    "'c crypto \<Rightarrow> rdp_mcs_send_data_indication \<Rightarrow> 'c librdp_session \<times> mem \<Rightarrow>
     (u16 \<times> u8 list) result \<times> 'c librdp_session \<times> mem" where
  "session_unwrap cr indication = (\<lambda>(session, m).
     if se_standard_security_active session then
       (case rdp_security_unwrap_pdu cr (sdi_payload indication)
               (Some (se_standard_security session), rdp_buffer_init, m) of
          (Inl e, security, b, m) \<Rightarrow> (Inl e, session\<lparr>se_standard_security := the security\<rparr>, m)
        | (Inr flags, security, b, m) \<Rightarrow>
            (Inr (flags, contents b), session\<lparr>se_standard_security := the security\<rparr>, m))
     else if se_message_channel_id session \<noteq> 0 \<and> sdi_channel_id indication = se_message_channel_id session then
       (case rdp_security_unwrap_pdu cr (sdi_payload indication) (None, rdp_buffer_init, m) of
          (Inl e, _, b, m) \<Rightarrow>
            (Inl (if e = LIBRDP_STATUS_INVALID_ARGUMENT then LIBRDP_STATUS_PROTOCOL_ERROR else e), session, m)
        | (Inr flags, _, b, m) \<Rightarrow> (Inr (flags, contents b), session, m))
     else (Inr (0, sdi_payload indication), session, m))"

definition rdp_session_fail :: "librdp_status \<Rightarrow> 'c librdp_session \<times> mem \<Rightarrow>
     client_route result \<times> 'c librdp_session \<times> mem" where
  "rdp_session_fail e = (\<lambda>(session, m). (Inl e, session\<lparr>se_failed := True\<rparr>, m))"

text \<open>One channel packet of the dynamic channel or of a static one, counted.\<close>

definition count_channel_packet :: "rdp_virtual_channel_packet \<Rightarrow> 'c librdp_session \<Rightarrow> 'c librdp_session" where
  "count_channel_packet packet session =
     session\<lparr>se_channel_in := rdp_session_metric_add (se_channel_in session) 1,
       se_channel_bytes_in := rdp_session_metric_add
         (se_channel_bytes_in session) (of_nat (vc_payload_len packet))\<rparr>"

definition session_dispatch ::
    "(u8 list \<Rightarrow> librdp_status) \<Rightarrow> rdp_mcs_send_data_indication \<Rightarrow> u16 \<Rightarrow> u8 list \<Rightarrow>
     'c librdp_session \<times> mem \<Rightarrow> client_route result \<times> 'c librdp_session \<times> mem" where
  "session_dispatch multiparty indication security_flags payload = (\<lambda>(session, m).
     let channel_id = sdi_channel_id indication in
     if se_message_channel_id session \<noteq> 0 \<and> channel_id = se_message_channel_id session then
       (if \<not> se_message_channel_joined session then rdp_session_fail LIBRDP_STATUS_PROTOCOL_ERROR (session, m)
        else (Inr (Route_Message security_flags payload), session, m))
     else if security_flags AND RDP_SEC_REDIRECTION_PKT \<noteq> 0 then
       (Inr (Route_Redirection security_flags payload), session, m)
     else if se_dynamic_channel_id session \<noteq> 0 \<and> channel_id = se_dynamic_channel_id session then
       (case rdp_virtual_channel_parse_packet payload of
          Inl e \<Rightarrow> rdp_session_fail e (session, m)
        | Inr packet \<Rightarrow> (Inr (Route_Dynamic packet), count_channel_packet packet session, m))
     else
       (case rdp_session_static_channel_find_by_id session channel_id of
          None \<Rightarrow> (Inr (Route_Other channel_id security_flags payload), session, m)
        | Some i \<Rightarrow>
            (case rdp_virtual_channel_parse_packet payload of
               Inl e \<Rightarrow> rdp_session_fail e (session, m)
             | Inr packet \<Rightarrow>
                 let session = count_channel_packet packet session in
                 (case rdp_session_handle_static_channel (se_channel_buffer_bytes session) multiparty packet
                         (se_static_channels session ! i, m) of (status, events, channel, m) \<Rightarrow>
                    let session = session\<lparr>se_static_channels := (se_static_channels session)[i := channel]\<rparr> in
                    if status \<noteq> LIBRDP_STATUS_OK then rdp_session_fail status (session, m)
                    else (Inr (Route_Static events), session, m)))))"

definition session_receive ::
    "'c crypto \<Rightarrow> (u8 list \<Rightarrow> librdp_status) \<Rightarrow> u8 list \<Rightarrow> 'c librdp_session \<times> mem \<Rightarrow>
     client_route result \<times> 'c librdp_session \<times> mem" where
  "session_receive cr multiparty packet = (\<lambda>(session, m).
     case rdp_session_read_mcs_pdu_internal packet session of
       (Inl e, session) \<Rightarrow> rdp_session_fail e (session, m)
     | (Inr pdu, session) \<Rightarrow>
         (case rdp_mcs_parse_send_data_indication pdu of
            Inl e \<Rightarrow> rdp_session_fail e (session, m)
          | Inr indication \<Rightarrow>
              (case session_unwrap cr indication (session, m) of
                 (Inl e, session, m) \<Rightarrow> rdp_session_fail e (session, m)
               | (Inr (security_flags, payload), session, m) \<Rightarrow>
                   session_dispatch multiparty indication security_flags payload (session, m))))"

section \<open>One packet across the wire\<close>

text \<open>The frame that carries a send data indication.\<close>

definition indication_frame :: "u16 \<Rightarrow> u16 \<Rightarrow> u8 list \<Rightarrow> u8 list" where
  "indication_frame user channel payload =
     tpkt_frame ([0x02, 0xf0, 0x80] @ send_data_pdu RDP_MCS_PDU_SEND_DATA_INDICATION user channel payload)"

lemma length_send_data_pdu: "length (send_data_pdu t user channel payload) \<le> length payload + 8"
  by (simp add: send_data_pdu_def per_length_bytes_def)

lemma length_indication_frame: "length (indication_frame user channel payload) \<le> length payload + 15"
  using length_send_data_pdu [of RDP_MCS_PDU_SEND_DATA_INDICATION user channel payload]
  by (simp add: indication_frame_def)

lemma server_sends_mcs_pdu:
  assumes "buf_ok mcs" and "length (contents mcs) \<le> 65000" and net: "\<And>d. net d = LIBRDP_STATUS_OK"
  shows "\<exists>p'. rdp_server_send_mcs_pdu net mcs (p, []) = (LIBRDP_STATUS_OK, p', []) \<and>
    pe_sent p' = pe_sent p @ [tpkt_frame ([0x02, 0xf0, 0x80] @ contents mcs)] \<and>
    pe_state p' = pe_state p \<and> pe_user_id p' = pe_user_id p \<and>
    pe_standard_security p' = pe_standard_security p \<and>
    pe_standard_security_ready p' = pe_standard_security_ready p \<and>
    pe_advertised_channel_joined p' = pe_advertised_channel_joined p"
proof -
  obtain x where x: "rdp_x224_wrap_data (contents mcs) (rdp_buffer_init, []) = (LIBRDP_STATUS_OK, x, [])"
    "contents x = [0x02, 0xf0, 0x80] @ contents mcs"
    by (rule emits_fresh [OF emits_wrap_data]) (use assms in auto)
  obtain f where f: "rdp_tpkt_write ([0x02, 0xf0, 0x80] @ contents mcs) (rdp_buffer_init, []) = (LIBRDP_STATUS_OK, f, [])"
    "contents f = tpkt_frame ([0x02, 0xf0, 0x80] @ contents mcs)"
    by (rule emits_fresh [OF emits_atomicallyD(1) [OF tpkt_write_atomic]]) (use assms in auto)
  show ?thesis
    using x f net
    by (simp add: rdp_server_send_mcs_pdu_def rdp_server_send_x224_data_def rdp_server_peer_send_all_def Let_def)
qed

text \<open>The security contexts of the two ends.\<close>

definition secured :: "'c librdp_server_peer \<Rightarrow> 'c librdp_session \<Rightarrow> bool" where
  "secured p s \<longleftrightarrow> RDP_MCS_BASE_CHANNEL_ID \<le> pe_user_id p \<and>
     pe_standard_security_ready p = se_standard_security_active s \<and>
     (pe_standard_security_ready p \<longrightarrow>
        paired (pe_standard_security p) (se_standard_security s) \<and> can_send (pe_standard_security p))"

text \<open>A payload protected by the server for a channel that is not the message channel reaches the client.\<close>

lemma payload_crosses:
  assumes cr: "rc4_involutive cr" "crypto_available cr" and sec: "secured p s"
    and chan: "channel \<noteq> se_message_channel_id s"
    and len: "payload \<noteq> []" "length payload + rdp_server_outbound_security_overhead p \<le> 0x7fff"
  obtains p' w s' where
    "rdp_server_prepare_outbound_security_payload cr payload (p, []) = (LIBRDP_STATUS_OK, w, p', [])"
    "w \<noteq> []" "length w \<le> 0x7fff" "length w \<le> length payload + 12"
    "session_unwrap cr \<lparr>sdi_initiator = pe_user_id p, sdi_channel_id = channel, sdi_payload = w,
        sdi_payload_len = length w\<rparr> (s, []) =
      (Inr (if pe_standard_security_ready p then RDP_SEC_ENCRYPT else 0, payload), s', [])"
    "p' = p\<lparr>pe_standard_security := pe_standard_security p'\<rparr>"
    "s' = s\<lparr>se_standard_security := se_standard_security s'\<rparr>" "secured p' s'"
proof (cases "pe_standard_security_ready p")
  case False
  show ?thesis
    by (rule that [of payload p s])
      (use False sec chan len in \<open>auto simp: rdp_server_prepare_outbound_security_payload_def session_unwrap_def secured_def\<close>)
next
  case True
  then have pr: "paired (pe_standard_security p) (se_standard_security s)" "can_send (pe_standard_security p)"
    and act: "se_standard_security_active s" using sec by (auto simp: secured_def)
  have u: "length payload \<le> UINT32_MAX" using len(2) by (simp add: UINT32_MAX_def)
  from encrypted_pdu_travels [OF cr pr buf_ok_init buf_ok_init _ u, of 0] obtain c' b' p1 r'
    where 1: "rdp_security_write_encrypted_pdu cr 0 payload (pe_standard_security p, rdp_buffer_init, []) =
        (LIBRDP_STATUS_OK, c', b', [])" "length (contents b') = length payload + 12" "buf_ok b'"
      "rdp_security_unwrap_pdu cr (contents b') (Some (se_standard_security s), rdp_buffer_init, []) =
        (Inr RDP_SEC_ENCRYPT, Some r', p1, [])" "contents p1 = payload" "paired c' r'" "can_send c'"
    by auto
  have ne: "contents b' \<noteq> []" using 1(2) by auto
  show ?thesis
    by (rule that [of "contents b'" "p\<lparr>pe_standard_security := c'\<rparr>" "s\<lparr>se_standard_security := r'\<rparr>"])
      (use True act sec 1 ne len chan in \<open>auto simp: rdp_server_prepare_outbound_security_payload_def
        session_unwrap_def secured_def rdp_server_outbound_security_overhead_def\<close>)
qed

lemma client_reads_indication:
  assumes "RDP_MCS_BASE_CHANNEL_ID \<le> user" "w \<noteq> []" "length w \<le> 0x7fff"
    and "length (indication_frame user channel w) \<le> unat (se_pdu_buffer_bytes s)"
  obtains s' where "rdp_session_read_mcs_pdu_internal (indication_frame user channel w) s =
      (Inr (send_data_pdu RDP_MCS_PDU_SEND_DATA_INDICATION user channel w), s')"
    "rdp_mcs_parse_send_data_indication (send_data_pdu RDP_MCS_PDU_SEND_DATA_INDICATION user channel w) =
      Inr \<lparr>sdi_initiator = user, sdi_channel_id = channel, sdi_payload = w, sdi_payload_len = length w\<rparr>"
    "s' = s\<lparr>se_transport_bytes_read := se_transport_bytes_read s', se_pdu_in := se_pdu_in s'\<rparr>"
proof -
  let ?pdu = "send_data_pdu RDP_MCS_PDU_SEND_DATA_INDICATION user channel w"
  have n: "length ([0x02, 0xf0, 0x80] @ ?pdu) \<le> 65531"
    using length_send_data_pdu [of RDP_MCS_PDU_SEND_DATA_INDICATION user channel w] assms(3) by simp
  have t: "ebind (rdp_tpkt_parse (indication_frame user channel w)) (\<lambda>parsed. rdp_x224_parse_data (tpkt_payload parsed)) = Inr ?pdu"
    using tpkt.parse_enc [OF n] x224_data.parse_enc [of ?pdu] by (simp add: indication_frame_def del: of_nat_add)
  have m: "rdp_mcs_parse_send_data_indication ?pdu =
      Inr \<lparr>sdi_initiator = user, sdi_channel_id = channel, sdi_payload = w, sdi_payload_len = length w\<rparr>"
    using assms by (simp add: rdp_mcs_parse_send_data_indication_def parse_send_data_pdu)
  show ?thesis
    by (rule that [OF _ m]) (use assms(4) t in \<open>auto simp: rdp_session_read_mcs_pdu_internal_def Let_def\<close>)
qed

section \<open>A channel message across the wire\<close>

text \<open>
  The two ends of a static channel: the client has the channel at index \<open>i\<close>, in state \<open>e\<close>, and the channel
  is neither its message channel nor its dynamic channel.
\<close>

definition linked ::
    "u16 \<Rightarrow> nat \<Rightarrow> rdp_session_static_channel \<Rightarrow> 'c librdp_server_peer \<Rightarrow> 'c librdp_session \<Rightarrow> bool" where
  "linked cid i e p s \<longleftrightarrow> secured p s \<and>
     rdp_session_static_channel_find_by_id s cid = Some i \<and> se_static_channels s ! i = e \<and>
     cid \<noteq> se_message_channel_id s \<and> cid \<noteq> se_dynamic_channel_id s \<and>
     1635 \<le> unat (se_pdu_buffer_bytes s)"

lemma handler_keeps_channel:
  assumes "rdp_session_handle_static_channel limit multiparty packet (e, m) = (st, ev, e', m')"
  shows "ch_channel_id e' = ch_channel_id e" "ch_name e' = ch_name e" "ch_active e' = ch_active e"
    and "ev = map (\<lambda>(_, _, d). (ch_channel_id e, ch_name e, d)) ev"
  using assms
  by (auto simp: rdp_session_handle_static_channel_def deliver_def Let_def split: if_splits prod.splits)

lemma find_channel_update:
  assumes "rdp_session_static_channel_find_by_id s cid = Some i"
    and "ch_channel_id e' = ch_channel_id (se_static_channels s ! i)"
    and "ch_active e' = ch_active (se_static_channels s ! i)"
    and "se_static_channels s' = (se_static_channels s)[i := e']"
  shows "rdp_session_static_channel_find_by_id s' cid = Some i \<and> i < length (se_static_channels s)"
proof -
  let ?P = "\<lambda>xs j. ch_active (xs ! j) \<and> ch_channel_id (xs ! j) = cid"
  have i: "i < length (se_static_channels s)" and z: "cid \<noteq> 0"
    using assms(1) by (auto simp: rdp_session_static_channel_find_by_id_def find_Some_iff split: if_splits)
  have "?P (se_static_channels s') j = ?P (se_static_channels s) j" if "j < length (se_static_channels s)" for j
    using assms(2-4) i that by (cases "j = i") auto
  then have "find (?P (se_static_channels s')) [0..<length (se_static_channels s)] =
      find (?P (se_static_channels s)) [0..<length (se_static_channels s)]"
    by (intro find_cong) auto
  then show ?thesis
    using assms(1,4) i z by (simp add: rdp_session_static_channel_find_by_id_def)
qed

lemma unwrap_counted:
  "session_unwrap cr ind (s, m) = (r, s', m') \<Longrightarrow>
    session_unwrap cr ind (s\<lparr>se_transport_bytes_read := a, se_pdu_in := b\<rparr>, m) =
      (r, s'\<lparr>se_transport_bytes_read := a, se_pdu_in := b\<rparr>, m')"
  by (auto simp: session_unwrap_def split: if_splits prod.splits sum.splits)

lemma dispatch_static:
  assumes "rdp_session_static_channel_find_by_id s cid = Some i"
    and "cid \<noteq> se_message_channel_id s" "cid \<noteq> se_dynamic_channel_id s"
    and "flags AND RDP_SEC_REDIRECTION_PKT = 0" and "sdi_channel_id ind = cid"
    and "rdp_virtual_channel_parse_packet payload = Inr packet"
    and "rdp_session_handle_static_channel (se_channel_buffer_bytes s) multiparty packet
      (se_static_channels s ! i, m) = (LIBRDP_STATUS_OK, ev, e', m')"
  shows "session_dispatch multiparty ind flags payload (s, m) =
    (Inr (Route_Static ev),
     (count_channel_packet packet s)\<lparr>se_static_channels := (se_static_channels s)[i := e']\<rparr>, m')"
  using assms by (simp add: session_dispatch_def count_channel_packet_def Let_def)

lemma server_sends_fragment:
  assumes cr: "rc4_involutive cr" "crypto_available cr" and net: "\<And>d. net d = LIBRDP_STATUS_OK"
    and sec: "secured p s" and chan: "cid \<noteq> se_message_channel_id s"
    and wf: "fragment_wf c tot f" "length c \<le> RDP_SERVER_STATIC_CHANNEL_CHUNK_SIZE"
  obtains p' w k where
    "rdp_server_send_static_channel_fragment cr net cid c tot f (p, []) = (LIBRDP_STATUS_OK, p', [])"
    "pe_sent p' = pe_sent p @ [indication_frame (pe_user_id p) cid w]"
    "w \<noteq> []" "length w \<le> length c + 20"
    "session_unwrap cr \<lparr>sdi_initiator = pe_user_id p, sdi_channel_id = cid, sdi_payload = w,
        sdi_payload_len = length w\<rparr> (s, []) =
      (Inr (if pe_standard_security_ready p then RDP_SEC_ENCRYPT else 0, fragment_bytes c tot f),
       s\<lparr>se_standard_security := k\<rparr>, [])"
    "secured p' (s\<lparr>se_standard_security := k\<rparr>)"
proof -
  obtain b where b: "rdp_virtual_channel_write_fragment c tot f (rdp_buffer_init, []) = (LIBRDP_STATUS_OK, b, [])"
    "contents b = fragment_bytes c tot f" "buf_length b = length c + 8"
    by (rule emits_fresh [OF emits_fragment [OF wf(1)]])
      (use wf in \<open>auto simp: fragment_bytes_def RDP_SERVER_STATIC_CHANNEL_CHUNK_SIZE_def\<close>)
  have fl: "fragment_bytes c tot f \<noteq> []" "length (fragment_bytes c tot f) = length c + 8" "length c \<le> 1600"
    using wf(2) by (auto simp: fragment_bytes_def u32_le_bytes_def RDP_SERVER_STATIC_CHANNEL_CHUNK_SIZE_def)
  have user: "RDP_MCS_BASE_CHANNEL_ID \<le> pe_user_id p" using sec by (simp add: secured_def)
  have ov: "rdp_server_outbound_security_overhead p \<le> 12" by (simp add: rdp_server_outbound_security_overhead_def)
  have room: "length (fragment_bytes c tot f) + rdp_server_outbound_security_overhead p \<le> 0x7fff"
    using fl ov by simp
  obtain p1 w s2 where w: "rdp_server_prepare_outbound_security_payload cr (fragment_bytes c tot f) (p, []) =
      (LIBRDP_STATUS_OK, w, p1, [])" "w \<noteq> []" "length w \<le> 0x7fff" "length w \<le> length (fragment_bytes c tot f) + 12"
    and un: "session_unwrap cr \<lparr>sdi_initiator = pe_user_id p, sdi_channel_id = cid, sdi_payload = w,
        sdi_payload_len = length w\<rparr> (s, []) =
      (Inr (if pe_standard_security_ready p then RDP_SEC_ENCRYPT else 0, fragment_bytes c tot f), s2, [])"
    and upd: "p1 = p\<lparr>pe_standard_security := pe_standard_security p1\<rparr>"
      "s2 = s\<lparr>se_standard_security := se_standard_security s2\<rparr>" "secured p1 s2"
    using payload_crosses [OF cr sec chan fl(1) room] by metis
  obtain kp ks where k: "p1 = p\<lparr>pe_standard_security := kp\<rparr>" "s2 = s\<lparr>se_standard_security := ks\<rparr>"
    using upd(1,2) by blast
  have n: "length (send_data_pdu RDP_MCS_PDU_SEND_DATA_INDICATION (pe_user_id p) cid w) \<le> 65000"
    using length_send_data_pdu [of RDP_MCS_PDU_SEND_DATA_INDICATION "pe_user_id p" cid w] w(3) by simp
  obtain mcs where mcs: "rdp_mcs_write_send_data_indication (pe_user_id p) cid w (rdp_buffer_init, []) =
      (LIBRDP_STATUS_OK, mcs, [])" "buf_ok mcs"
    "contents mcs = send_data_pdu RDP_MCS_PDU_SEND_DATA_INDICATION (pe_user_id p) cid w"
    by (rule emits_fresh [OF emits_send_data_indication [OF user w(3)]]) (use n in auto)
  from server_sends_mcs_pdu [where net = net, OF mcs(2) _ net] n obtain p2 where
    p2: "rdp_server_send_mcs_pdu net mcs (p1, []) = (LIBRDP_STATUS_OK, p2, [])"
      "pe_sent p2 = pe_sent p1 @ [indication_frame (pe_user_id p) cid w]"
      "pe_user_id p2 = pe_user_id p1" "pe_standard_security p2 = pe_standard_security p1"
      "pe_standard_security_ready p2 = pe_standard_security_ready p1"
    unfolding indication_frame_def mcs(3) by blast
  have "rdp_server_send_static_channel_fragment cr net cid c tot f (p, []) = (LIBRDP_STATUS_OK, p2, [])"
    using b w(1) mcs(1) p2(1) k(1) fl ov by (simp add: rdp_server_send_static_channel_fragment_def)
  moreover have "secured p2 (s\<lparr>se_standard_security := ks\<rparr>)"
    using upd(3) p2(3-5) k(2) by (simp add: secured_def)
  ultimately show ?thesis
    using that [of p2 w ks] p2(2) k un w fl by simp
qed

lemma client_receives_fragment:
  assumes link: "rdp_session_static_channel_find_by_id s cid = Some i"
      "cid \<noteq> se_message_channel_id s" "cid \<noteq> se_dynamic_channel_id s" "1635 \<le> unat (se_pdu_buffer_bytes s)"
    and user: "RDP_MCS_BASE_CHANNEL_ID \<le> user" and w: "w \<noteq> []" "length w \<le> 1620"
    and un: "session_unwrap cr \<lparr>sdi_initiator = user, sdi_channel_id = cid, sdi_payload = w,
        sdi_payload_len = length w\<rparr> (s, []) =
      (Inr (flags, fragment_bytes c tot f), s\<lparr>se_standard_security := k\<rparr>, [])"
      "flags AND RDP_SEC_REDIRECTION_PKT = 0"
    and wf: "fragment_wf c tot f"
    and h: "rdp_session_handle_static_channel (se_channel_buffer_bytes s) multiparty (fragment_packet c tot f)
      (se_static_channels s ! i, []) = (LIBRDP_STATUS_OK, ev, e', [])"
  obtains a b where "session_receive cr multiparty (indication_frame user cid w) (s, []) =
    (Inr (Route_Static ev),
     (count_channel_packet (fragment_packet c tot f)
       (s\<lparr>se_standard_security := k, se_transport_bytes_read := a, se_pdu_in := b\<rparr>))
       \<lparr>se_static_channels := (se_static_channels s)[i := e']\<rparr>, [])"
proof -
  have "length (indication_frame user cid w) \<le> unat (se_pdu_buffer_bytes s)"
    using length_indication_frame [of user cid w] w link(4) by simp
  moreover have "length w \<le> 0x7fff" using w by simp
  ultimately obtain s1 where
    s1: "rdp_session_read_mcs_pdu_internal (indication_frame user cid w) s =
        (Inr (send_data_pdu RDP_MCS_PDU_SEND_DATA_INDICATION user cid w), s1)"
      "s1 = s\<lparr>se_transport_bytes_read := se_transport_bytes_read s1, se_pdu_in := se_pdu_in s1\<rparr>"
    and ind: "rdp_mcs_parse_send_data_indication (send_data_pdu RDP_MCS_PDU_SEND_DATA_INDICATION user cid w) =
      Inr \<lparr>sdi_initiator = user, sdi_channel_id = cid, sdi_payload = w, sdi_payload_len = length w\<rparr>"
    using client_reads_indication [OF user w(1)] by metis
  define s3 where "s3 = s\<lparr>se_standard_security := k, se_transport_bytes_read := se_transport_bytes_read s1,
      se_pdu_in := se_pdu_in s1\<rparr>"
  note un1 = unwrap_counted [OF un(1), where a = "se_transport_bytes_read s1" and b = "se_pdu_in s1",
      folded s1(2) s3_def]
  have s3: "se_static_channels s3 = se_static_channels s" "cid \<noteq> se_message_channel_id s3"
    "cid \<noteq> se_dynamic_channel_id s3" "rdp_session_static_channel_find_by_id s3 cid = Some i"
    "rdp_session_handle_static_channel (se_channel_buffer_bytes s3) multiparty (fragment_packet c tot f)
      (se_static_channels s3 ! i, []) = (LIBRDP_STATUS_OK, ev, e', [])"
    using link h by (simp_all add: s3_def rdp_session_static_channel_find_by_id_def split: if_splits)
  show ?thesis
    by (rule that [where a = "se_transport_bytes_read s1" and b = "se_pdu_in s1", folded s3_def])
      (use s1(1) ind un1 dispatch_static [OF s3(4,2,3) un(2) _ parse_fragment [OF wf] s3(5)]
       in \<open>simp add: session_receive_def s3(1)\<close>)
qed

lemma fragment_crosses:
  assumes cr: "rc4_involutive cr" "crypto_available cr" and net: "\<And>d. net d = LIBRDP_STATUS_OK"
    and link: "linked cid i e p s"
    and wf: "fragment_wf c tot f" "length c \<le> RDP_SERVER_STATIC_CHANNEL_CHUNK_SIZE"
    and h: "rdp_session_handle_static_channel (se_channel_buffer_bytes s) multiparty (fragment_packet c tot f) (e, []) =
      (LIBRDP_STATUS_OK, ev, e', [])"
  obtains p' s' frame where
    "rdp_server_send_static_channel_fragment cr net cid c tot f (p, []) = (LIBRDP_STATUS_OK, p', [])"
    "pe_sent p' = pe_sent p @ [frame]"
    "session_receive cr multiparty frame (s, []) = (Inr (Route_Static ev), s', [])"
    "linked cid i e' p' s'" "se_channel_buffer_bytes s' = se_channel_buffer_bytes s"
proof -
  have sec: "secured p s" and l: "rdp_session_static_channel_find_by_id s cid = Some i"
    "cid \<noteq> se_message_channel_id s" "cid \<noteq> se_dynamic_channel_id s" "1635 \<le> unat (se_pdu_buffer_bytes s)"
    "se_static_channels s ! i = e" using link by (simp_all add: linked_def)
  obtain p' w k where send:
    "rdp_server_send_static_channel_fragment cr net cid c tot f (p, []) = (LIBRDP_STATUS_OK, p', [])"
    "pe_sent p' = pe_sent p @ [indication_frame (pe_user_id p) cid w]" "w \<noteq> []" "length w \<le> length c + 20"
    and un: "session_unwrap cr \<lparr>sdi_initiator = pe_user_id p, sdi_channel_id = cid, sdi_payload = w,
        sdi_payload_len = length w\<rparr> (s, []) =
      (Inr (if pe_standard_security_ready p then RDP_SEC_ENCRYPT else 0, fragment_bytes c tot f),
       s\<lparr>se_standard_security := k\<rparr>, [])"
    and sec': "secured p' (s\<lparr>se_standard_security := k\<rparr>)"
    by (rule server_sends_fragment [where net = net, OF cr net sec l(2) wf])
  have flag: "(if pe_standard_security_ready p then RDP_SEC_ENCRYPT else 0) AND RDP_SEC_REDIRECTION_PKT = 0"
    by (simp add: RDP_SEC_ENCRYPT_def RDP_SEC_REDIRECTION_PKT_def)
  have user: "RDP_MCS_BASE_CHANNEL_ID \<le> pe_user_id p" using sec by (simp add: secured_def)
  have len: "length w \<le> 1620" using send(4) wf(2) by (simp add: RDP_SERVER_STATIC_CHANNEL_CHUNK_SIZE_def)
  obtain a b where rec: "session_receive cr multiparty (indication_frame (pe_user_id p) cid w) (s, []) =
    (Inr (Route_Static ev),
     (count_channel_packet (fragment_packet c tot f)
       (s\<lparr>se_standard_security := k, se_transport_bytes_read := a, se_pdu_in := b\<rparr>))
       \<lparr>se_static_channels := (se_static_channels s)[i := e']\<rparr>, [])" (is "_ = (_, ?s', _)")
    by (rule client_receives_fragment [OF l(1-4) user send(3) len un flag wf(1) h [folded l(5)]])
  note keep = handler_keeps_channel [OF h]
  have "rdp_session_static_channel_find_by_id ?s' cid = Some i \<and> i < length (se_static_channels s)"
    by (rule find_channel_update [OF l(1), of e']) (use keep l(5) in simp_all)
  then have "linked cid i e' p' ?s'"
    using l sec' by (auto simp: linked_def count_channel_packet_def secured_def)
  then show ?thesis using that [OF send(1,2) rec] by (simp add: count_channel_packet_def)
qed

text \<open>The frames received one after the other; the events of the static channels are collected.\<close>

fun receive_all ::
    "'c crypto \<Rightarrow> (u8 list \<Rightarrow> librdp_status) \<Rightarrow> u8 list list \<Rightarrow> 'c librdp_session \<times> mem \<Rightarrow>
     channel_event list result \<times> 'c librdp_session \<times> mem" where
  "receive_all cr multiparty [] (s, m) = (Inr [], s, m)"
| "receive_all cr multiparty (f # fs) (s, m) =
     (case session_receive cr multiparty f (s, m) of
        (Inl e, s, m) \<Rightarrow> (Inl e, s, m)
      | (Inr route, s, m) \<Rightarrow>
          (case receive_all cr multiparty fs (s, m) of
             (Inl e, s, m) \<Rightarrow> (Inl e, s, m)
           | (Inr evs, s, m) \<Rightarrow>
               (Inr ((case route of Route_Static ev \<Rightarrow> ev | _ \<Rightarrow> []) @ evs), s, m)))"

lemma append_no_failures: "rdp_buffer_append bs (b, []) = (st, b', m') \<Longrightarrow> m' = []"
  by (auto simp: rdp_buffer_append_def rdp_buffer_append_from_def rdp_buffer_reserve_def Let_def
      split: if_splits option.splits)

lemma handler_no_failures:
  "rdp_session_handle_static_channel limit multiparty packet (e, []) = (st, ev, e', m') \<Longrightarrow> m' = []"
  by (auto simp: rdp_session_handle_static_channel_def Let_def split: if_splits prod.splits
      dest: append_no_failures)

lemma fragments_cross:
  assumes cr: "rc4_involutive cr" "crypto_available cr" and net: "\<And>d. net d = LIBRDP_STATUS_OK"
  shows "linked cid i e p s \<Longrightarrow> ch_channel_id e = cid \<Longrightarrow> se_channel_buffer_bytes s = limit \<Longrightarrow>
    \<forall>(c, f) \<in> set ps. fragment_wf c tot f \<and> length c \<le> RDP_SERVER_STATIC_CHANNEL_CHUNK_SIZE \<Longrightarrow>
    feed (client_handle limit multiparty) tot ps (e, []) = (LIBRDP_STATUS_OK, outs, e', []) \<Longrightarrow>
    \<exists>p' s' frames. send_each (rdp_server_send_static_channel_fragment cr net cid) tot ps (p, []) =
        (LIBRDP_STATUS_OK, p', []) \<and> pe_sent p' = pe_sent p @ frames \<and>
      receive_all cr multiparty frames (s, []) = (Inr (map (\<lambda>d. (cid, ch_name e, d)) outs), s', []) \<and>
      linked cid i e' p' s' \<and> length frames = length ps"
proof (induction ps arbitrary: e p s outs)
  case (Cons x ps)
  obtain c f where x: "x = (c, f)" by (rule prod.exhaust)
  obtain st ev e1 m1 where h: "rdp_session_handle_static_channel limit multiparty (fragment_packet c tot f) (e, []) =
      (st, ev, e1, m1)" by (rule prod_cases4)
  have m1: "m1 = []" by (rule handler_no_failures [OF h])
  have ch: "client_handle limit multiparty tot c f (e, []) = (st, map (\<lambda>(_, _, d). d) ev, e1, [])"
    using h m1 by (simp add: client_handle_def)
  note keep = handler_keeps_channel [OF h]
  obtain st2 outs2 s2 where f2: "feed (client_handle limit multiparty) tot ps (e1, []) = (st2, outs2, s2)"
    by (rule prod_cases3)
  have st: "st = LIBRDP_STATUS_OK" "st2 = LIBRDP_STATUS_OK" "s2 = (e', [])"
    "outs = map (\<lambda>(_, _, d). d) ev @ outs2"
    using Cons.prems(5) f2 ch by (auto simp: x split: if_splits)
  have ev: "ev = map (\<lambda>d. (cid, ch_name e, d)) (map (\<lambda>(_, _, d). d) ev)"
    by (subst keep(4)) (simp add: Cons.prems(2) case_prod_beta comp_def)
  have wf: "fragment_wf c tot f" "length c \<le> RDP_SERVER_STATIC_CHANNEL_CHUNK_SIZE"
    using Cons.prems(4) x by auto
  obtain p1 s1 frame where 1: "rdp_server_send_static_channel_fragment cr net cid c tot f (p, []) = (LIBRDP_STATUS_OK, p1, [])"
    "pe_sent p1 = pe_sent p @ [frame]" "session_receive cr multiparty frame (s, []) = (Inr (Route_Static ev), s1, [])"
    "linked cid i e1 p1 s1" "se_channel_buffer_bytes s1 = se_channel_buffer_bytes s"
    by (rule fragment_crosses [where net = net, OF cr net Cons.prems(1) wf h [unfolded st m1, folded Cons.prems(3)]])
  have "\<exists>p' s' frames. send_each (rdp_server_send_static_channel_fragment cr net cid) tot ps (p1, []) =
        (LIBRDP_STATUS_OK, p', []) \<and> pe_sent p' = pe_sent p1 @ frames \<and>
      receive_all cr multiparty frames (s1, []) = (Inr (map (\<lambda>d. (cid, ch_name e1, d)) outs2), s', []) \<and>
      linked cid i e' p' s' \<and> length frames = length ps"
    by (rule Cons.IH [OF 1(4)]) (use Cons.prems keep 1(5) f2 st in auto)
  then obtain p' s' frames where 2: "send_each (rdp_server_send_static_channel_fragment cr net cid) tot ps (p1, []) =
        (LIBRDP_STATUS_OK, p', [])" "pe_sent p' = pe_sent p1 @ frames"
      "receive_all cr multiparty frames (s1, []) = (Inr (map (\<lambda>d. (cid, ch_name e1, d)) outs2), s', [])"
      "linked cid i e' p' s'" "length frames = length ps" by blast
  show ?case
    by (rule exI [of _ p'], rule exI [of _ s'], rule exI [of _ "frame # frames"])
      (use 1 2 st(4) ev keep in \<open>simp add: x\<close>)
qed auto

lemma length_le_concat: "c \<in> set cs \<Longrightarrow> length c \<le> length (concat cs)"
  by (induction cs) auto

lemma chunk_fragment_wf:
  assumes "length data \<le> RDP_SERVER_STATIC_MESSAGE_MAX"
  shows "\<forall>(c, f) \<in> set (mark True (chunks data)). fragment_wf c (length data) f \<and>
    length c \<le> RDP_SERVER_STATIC_CHANNEL_CHUNK_SIZE"
proof -
  have mem: "(c, f) \<in> set (mark first cs) \<Longrightarrow>
      c \<in> set cs \<and> (f AND flags_first_last = flags_first_last \<longrightarrow> cs = [c])" for first c f cs
    by (induction first cs rule: mark.induct) (auto split: if_splits)
  have "length data \<le> UINT32_MAX" using assms by (simp add: UINT32_MAX_def RDP_SERVER_STATIC_MESSAGE_MAX_def)
  moreover have "c \<in> set (chunks data) \<Longrightarrow> length c \<le> length data" for c
    using length_le_concat [of c "chunks data"] by simp
  moreover have "chunks data = [c] \<Longrightarrow> c = data" for c
    using concat_chunks [of data] by simp
  ultimately show ?thesis
    using mem [of _ _ True "chunks data"] chunks_bound unfolding fragment_wf_def by (blast intro: arg_cong [of _ _ length])
qed

section \<open>Properties\<close>

text \<open>
  C5. A channel message from server to client. On an active peer whose channel is joined and whose
  client session has the channel, as one that is neither the message channel nor the one of the dynamic channels, and takes PDUs
  of at least 1635 bytes (the longest frame of a chunk), \<^verbatim>\<open>librdp_server_peer_send_channel_data\<close> sends a message of at most 64 MB and
  of at most the client's channel limit as frames; when the client processes these frames in order (TPKT,
  X.224, MCS, Standard Security when it is on, virtual channel reassembly), it delivers
  exactly this message, once and on this channel, and the two ends are linked again.
\<close>

theorem channel_message_delivered:
  assumes cr: "rc4_involutive cr" "crypto_available cr" and net: "\<And>d. net d = LIBRDP_STATUS_OK"
    and link: "linked cid i e p s" "ch_channel_id e = cid" "client_accepts multiparty (ch_name e)"
    and peer: "pe_state p = LIBRDP_SERVER_PEER_ACTIVE"
      "rdp_server_static_channel_index p cid = Some j" "pe_advertised_channel_joined p ! j"
    and len: "length data \<le> RDP_SERVER_STATIC_MESSAGE_MAX" "length data \<le> unat (se_channel_buffer_bytes s)"
  shows "\<exists>p' frames s' e'. librdp_server_peer_send_channel_data cr net cid data (p, []) = (LIBRDP_STATUS_OK, p', []) \<and>
    pe_sent p' = pe_sent p @ frames \<and>
    receive_all cr multiparty frames (s, []) = (Inr [(cid, ch_name e, data)], s', []) \<and>
    linked cid i e' p' s'"
proof -
  have idle: "client_idle multiparty cid (ch_name e) (e, [])"
    using link by (simp add: client_idle_def)
  obtain e' where f: "feed (client_handle (se_channel_buffer_bytes s) multiparty) (length data)
      (mark True (chunks data)) (e, []) = (LIBRDP_STATUS_OK, [data], e', [])"
    using client_channel.delivers_once [OF _ idle, of "chunks data" "se_channel_buffer_bytes s"]
      len(2) chunks_regular [of data] by (auto simp: client_idle_def)
  from fragments_cross [where net = net, OF cr net link(1,2) refl chunk_fragment_wf [OF len(1)] f]
  obtain p1 s' frames where
    1: "send_each (rdp_server_send_static_channel_fragment cr net cid) (length data) (mark True (chunks data)) (p, []) =
        (LIBRDP_STATUS_OK, p1, [])" "pe_sent p1 = pe_sent p @ frames"
      "receive_all cr multiparty frames (s, []) = (Inr [(cid, ch_name e, data)], s', [])" "linked cid i e' p1 s'"
    by auto
  let ?p' = "p1\<lparr>pe_static_channel_out := rdp_server_metric_add (pe_static_channel_out p1) 1,
      pe_static_channel_bytes_out := rdp_server_metric_add (pe_static_channel_bytes_out p1) (of_nat (length data))\<rparr>"
  have "librdp_server_peer_send_channel_data cr net cid data (p, []) = (LIBRDP_STATUS_OK, ?p', [])"
    using peer len(1) 1(1) by (simp add: librdp_server_peer_send_channel_data_def send_fragments_chunks)
  moreover have "linked cid i e' ?p' s'" using 1(4) by (simp add: linked_def secured_def)
  ultimately show ?thesis using 1(2,3) by (intro exI [of _ ?p']) auto
qed

text \<open>A peer and a session that share the static channel 1004 under Standard Security.\<close>

definition sample_peer :: "u32 \<Rightarrow> unit librdp_server_peer" where
  "sample_peer n = \<lparr>pe_state = LIBRDP_SERVER_PEER_ACTIVE, pe_user_id = 1002,
     pe_standard_security = sample_context n, pe_standard_security_ready = True,
     pe_advertised_channel_joined = [True], pe_input = rdp_buffer_init, pe_bytes_written = 0, pe_bytes_read = 0,
     pe_pdu_out = 0, pe_pdu_in = 0, pe_static_channel_out = 0, pe_static_channel_bytes_out = 0, pe_sent = []\<rparr>"

definition sample_channel :: rdp_session_static_channel where
  "sample_channel = \<lparr>ch_channel_id = 1004, ch_flags = 0, ch_active = True, ch_joined = True,
     ch_fragmenting = False, ch_fragment_expected = 0, ch_fragment = rdp_buffer_init, ch_name = ascii ''rdpsnd''\<rparr>"

definition sample_session :: "u32 \<Rightarrow> unit librdp_session" where
  "sample_session n = \<lparr>se_mcs_user_id = 1002, se_standard_security = sample_context n,
     se_standard_security_active = True, se_message_channel_id = 0, se_message_channel_joined = False,
     se_dynamic_channel_id = 0, se_clipboard_channel_id = 0, se_static_channels = [sample_channel],
     se_pdu_buffer_bytes = 65536, se_channel_buffer_bytes = 1000000, se_transport_bytes_written = 0,
     se_transport_bytes_read = 0, se_pdu_out = 0, se_pdu_in = 0, se_channel_in = 0, se_channel_bytes_in = 0,
     se_channel_out = 0, se_channel_bytes_out = 0, se_failed = False, se_sent = []\<rparr>"

lemma sample_linked: "linked 1004 0 sample_channel (sample_peer n) (sample_session n)"
  by (simp add: linked_def secured_def sample_peer_def sample_session_def sample_paired
      RDP_MCS_BASE_CHANNEL_ID_def rdp_session_static_channel_find_by_id_def sample_channel_def)

theorem channel_message_delivered_witness:
  "\<exists>p' frames s' e'. librdp_server_peer_send_channel_data sample_crypto (\<lambda>_. LIBRDP_STATUS_OK) 1004
       (replicate 4000 7) (sample_peer 4095, []) = (LIBRDP_STATUS_OK, p', []) \<and> pe_sent p' = frames \<and>
     receive_all sample_crypto (\<lambda>_. LIBRDP_STATUS_OK) frames (sample_session 4095, []) =
       (Inr [(1004, ascii ''rdpsnd'', replicate 4000 7)], s', []) \<and> linked 1004 0 e' p' s'"
  using channel_message_delivered [where net = "\<lambda>_. LIBRDP_STATUS_OK" and multiparty = "\<lambda>_. LIBRDP_STATUS_OK"
      and data = "replicate 4000 7" and j = 0, OF sample_crypto_laws(1,3) refl sample_linked [of 4095]]
  by (simp add: sample_channel_def client_accepts_def sample_peer_def sample_session_def
      rdp_server_static_channel_index_def RDP_MCS_GLOBAL_CHANNEL_ID_def RDP_SERVER_STATIC_MESSAGE_MAX_def)

section \<open>Deframing\<close>

lemma recv_concat:
  assumes "recv n segs = Some (chunk, segs')" and "[] \<notin> set segs" and "0 < n"
  shows "chunk @ concat segs' = concat segs" "[] \<notin> set segs'" "chunk \<noteq> []" "length chunk \<le> n"
  using assms by (cases segs; auto split: if_splits)+

lemma recv_some: "concat segs \<noteq> [] \<Longrightarrow> \<exists>chunk segs'. recv n segs = Some (chunk, segs')"
  by (cases segs) auto

lemma frame_header:
  assumes "length payload \<le> 65531"
  shows "tpkt_frame payload ! 0 = 3"
    and "unat (be16 (tpkt_frame payload ! 2) (tpkt_frame payload ! 3)) = length payload + 4"
proof -
  have n: "unat (of_nat (length payload + 4) :: u16) = length payload + 4"
    by (rule unat_of_nat_u16) (use assms in simp)
  have "tpkt_frame payload ! 2 = u16_be_bytes (of_nat (length payload + 4)) ! 0"
    "tpkt_frame payload ! 3 = u16_be_bytes (of_nat (length payload + 4)) ! Suc 0"
    by (simp_all add: tpkt_frame_def nth_append nth_Cons' del: of_nat_add)
  with n show "unat (be16 (tpkt_frame payload ! 2) (tpkt_frame payload ! 3)) = length payload + 4"
    by (simp del: of_nat_add)
qed (simp add: tpkt_frame_def)

lemma parse_buffered_partial:
  assumes "length payload \<le> 65531" and "contents (pe_input peer) @ rest = tpkt_frame payload" and "rest \<noteq> []"
    and "buf_ok (pe_input peer)"
  shows "rdp_server_parse_buffered_tpkt peer = (Inr None, peer)"
    and "0 < server_read_capacity (pe_input peer)"
    and "buf_length (pe_input peer) + server_read_capacity (pe_input peer) \<le> length payload + 4"
proof -
  let ?c = "contents (pe_input peer)"
  have len: "length ?c = buf_length (pe_input peer)" using assms(4) by simp
  have "length ?c + length rest = length payload + 4"
    using arg_cong [OF assms(2), of length] by simp
  then have lt: "buf_length (pe_input peer) < length payload + 4" using assms(3) len by (cases rest) auto
  have pre: "?c ! k = tpkt_frame payload ! k" if "k < length ?c" for k
    using assms(2) [symmetric] that by (simp add: nth_append)
  have h: "4 \<le> buf_length (pe_input peer) \<Longrightarrow> ?c ! 0 = 3 \<and> unat (be16 (?c ! 2) (?c ! 3)) = length payload + 4"
    using pre len frame_header [OF assms(1)] by simp
  show "rdp_server_parse_buffered_tpkt peer = (Inr None, peer)"
    using h lt by (auto simp: rdp_server_parse_buffered_tpkt_def Let_def)
  show "0 < server_read_capacity (pe_input peer)"
    "buf_length (pe_input peer) + server_read_capacity (pe_input peer) \<le> length payload + 4"
    using h lt by (auto simp: server_read_capacity_def Let_def)
qed

lemma parse_buffered_whole:
  assumes "length payload \<le> 65531" and "contents (pe_input peer) = tpkt_frame payload" and "buf_ok (pe_input peer)"
  shows "rdp_server_parse_buffered_tpkt peer =
    (Inr (Some (\<lparr>tpkt_payload = payload, tpkt_payload_len = length payload,
        tpkt_total_len = of_nat (length payload + 4)\<rparr>, length payload + 4)),
     peer\<lparr>pe_pdu_in := rdp_server_metric_add (pe_pdu_in peer) 1\<rparr>)"
proof -
  have "buf_length (pe_input peer) = length payload + 4"
    using length_contents [OF assms(3)] assms(2) by simp
  then show ?thesis
    using assms(2) frame_header [OF assms(1)] tpkt_parse_frame [OF assms(1), of "[]"]
    by (simp add: rdp_server_parse_buffered_tpkt_def Let_def del: of_nat_add)
qed

lemma read_tpkt_collects:
  assumes len: "length payload \<le> 65531"
  shows "contents (pe_input peer) @ concat segs = tpkt_frame payload @ rest \<Longrightarrow>
    buf_length (pe_input peer) \<le> length payload + 4 \<Longrightarrow> buf_ok (pe_input peer) \<Longrightarrow> [] \<notin> set segs \<Longrightarrow>
    length payload + 4 - buf_length (pe_input peer) < fuel \<Longrightarrow>
    \<exists>segs' peer'. rdp_server_read_tpkt fuel segs (peer, []) =
      (Some (Inr (\<lparr>tpkt_payload = payload, tpkt_payload_len = length payload,
          tpkt_total_len = of_nat (length payload + 4)\<rparr>, length payload + 4)), segs', peer', []) \<and>
      contents (pe_input peer') = tpkt_frame payload \<and> buf_ok (pe_input peer') \<and>
      concat segs' = rest \<and> [] \<notin> set segs'"
proof (induction fuel arbitrary: segs peer)
  case (Suc fuel)
  let ?in = "pe_input peer"
  have cl: "length (contents ?in) = buf_length ?in" using Suc.prems(3) by simp
  show ?case
  proof (cases "buf_length ?in = length payload + 4")
    case True
    then have "contents ?in = tpkt_frame payload" "concat segs = rest"
      using Suc.prems(1) cl by (auto simp: append_eq_append_conv)
    with parse_buffered_whole [OF len this(1) Suc.prems(3)] Suc.prems(3,4) show ?thesis by simp
  next
    case False
    define r where "r = drop (buf_length ?in) (tpkt_frame payload)"
    have pre: "contents ?in @ r = tpkt_frame payload" "r \<noteq> []"
      using Suc.prems(1,2) False cl by (auto simp: r_def append_eq_append_conv_if split: if_splits)
    note part = parse_buffered_partial [OF len pre Suc.prems(3)]
    have "concat segs = r @ rest" using Suc.prems(1) pre(1) by (metis append.assoc same_append_eq)
    then have "concat segs \<noteq> []" using pre(2) by simp
    then obtain chunk segs1 where rv: "recv (server_read_capacity ?in) segs = Some (chunk, segs1)"
      using recv_some by blast
    note rc = recv_concat [OF rv Suc.prems(4) part(2)]
    have room: "buf_length ?in + length chunk \<le> length payload + 4" using rc(4) part(3) by simp
    have "buf_length ?in + length chunk \<le> 2 ^ 63" using room len by simp
    then obtain b where b: "rdp_buffer_append chunk (?in, []) = (LIBRDP_STATUS_OK, b, [])" "buf_ok b"
      "contents b = contents ?in @ chunk" "buf_length b = buf_length ?in + length chunk"
      using append_room [OF Suc.prems(3)] by metis
    define peer1 where "peer1 = peer\<lparr>pe_bytes_read := rdp_server_metric_add (pe_bytes_read peer) (of_nat (length chunk)),
      pe_input := b\<rparr>"
    have step: "rdp_server_read_tpkt (Suc fuel) segs (peer, []) = rdp_server_read_tpkt fuel segs1 (peer1, [])"
      using part(1) rv rc(3) room len b(1) by (simp add: peer1_def RDP_SERVER_INITIAL_READ_MAX_def Let_def)
    have "length payload + 4 - (buf_length ?in + length chunk) < fuel"
      using rc(3) Suc.prems(5) room by (cases chunk) auto
    then show ?thesis
      unfolding step by (intro Suc.IH) (use Suc.prems rc b room in \<open>auto simp: peer1_def\<close>)
  qed
qed simp

text \<open>
  C32. Deframing is independent of segmentation. On a connection without TLS, whatever non-empty segments the bytes of a TPKT frame
  and of what follows it arrive in, and however many of its bytes are buffered already, the server's read loop returns the frame's
  payload within one round more than there are missing bytes: a round for every missing byte at most, and one that finds the frame
  complete. The frame is then exactly what is buffered, and nothing after it has been read from the socket. The loop's branches for
  TLS and for a socket that has nothing to read yet are not modelled.
\<close>

theorem server_reads_one_frame:
  assumes "length payload \<le> 65531" and "contents (pe_input peer) @ concat segs = tpkt_frame payload @ rest"
    and "buf_length (pe_input peer) \<le> length payload + 4" and "buf_ok (pe_input peer)" and "[] \<notin> set segs"
    and "length payload + 4 - buf_length (pe_input peer) < fuel"
  shows "\<exists>segs' peer'. rdp_server_read_tpkt fuel segs (peer, []) =
      (Some (Inr (\<lparr>tpkt_payload = payload, tpkt_payload_len = length payload,
          tpkt_total_len = of_nat (length payload + 4)\<rparr>, length payload + 4)), segs', peer', []) \<and>
      contents (pe_input peer') = tpkt_frame payload \<and> concat segs' = rest"
  using read_tpkt_collects [OF assms] by blast

theorem server_reads_one_frame_witness:
  "\<exists>segs' peer'. rdp_server_read_tpkt 7 [[3], [0, 0], [6, 8, 9, 3, 0], [0, 4]] (sample_peer 0, []) =
      (Some (Inr (\<lparr>tpkt_payload = [8, 9], tpkt_payload_len = 2, tpkt_total_len = 6\<rparr>, 6)), segs', peer', []) \<and>
    contents (pe_input peer') = [3, 0, 0, 6, 8, 9] \<and> concat segs' = [3, 0, 0, 4]"
proof -
  have f: "tpkt_frame [8, 9] = [3, 0, 0, 6, 8, 9]" by code_simp
  have "length [8, 9 :: u8] \<le> 65531"
    "contents (pe_input (sample_peer 0)) @ concat [[3], [0, 0], [6, 8, 9, 3, 0], [0, 4]] = tpkt_frame [8, 9] @ [3, 0, 0, 4]"
    "buf_length (pe_input (sample_peer 0)) \<le> length [8, 9 :: u8] + 4" "buf_ok (pe_input (sample_peer 0))"
    "[] \<notin> set [[3], [0, 0], [6, 8, 9, 3, 0], [0, 4 :: u8]]" "length [8, 9 :: u8] + 4 - buf_length (pe_input (sample_peer 0)) < 7"
    by (simp_all add: sample_peer_def f)
  from server_reads_one_frame [OF this] f show ?thesis by (simp add: numeral_2_eq_2 del: rdp_server_read_tpkt.simps)
qed

end
