(* ===== verification/Bulk.thy ===== *)
theory Bulk
  imports Codec
begin

text \<open>
  Bulk decompression, \<^verbatim>\<open>src/src/protocol/bulk.c\<close>: the bit reader and the MPPC decoder with 8 KB and
  64 KB history, which RDP 4.0 and 5.0 use for slow-path and fast-path payloads and RDP 6.1 for its second
  level. The history buffer is a list of bytes; the decoder writes into it and hands the new part to the
  caller's buffer.

  The specification is LZ77: a sequence of literals and matches, its expansion relative to a window,
  and the bit codes of RFC 2118 and MS-RDPBCGR 3.1.8. The main result is that the decoder inverts the
  encoding of every such sequence.
\<close>

section \<open>Bit reader\<close>

record rdp_bulk_bit_reader =
  br_data :: "u8 list"
  br_bit :: nat

definition rdp_bulk_bits_remaining :: "rdp_bulk_bit_reader \<Rightarrow> nat" where
  "rdp_bulk_bits_remaining reader =
     (if length (br_data reader) > SIZE_MAX div 8 then 0
      else
        let tot = length (br_data reader) * 8 in
        if br_bit reader > tot then 0 else tot - br_bit reader)"

primrec read_bits_loop :: "nat \<Rightarrow> u32 \<Rightarrow> rdp_bulk_bit_reader \<Rightarrow> u32 \<times> rdp_bulk_bit_reader" where
  "read_bits_loop 0 result reader = (result, reader)"
| "read_bits_loop (Suc n) result reader =
     (let byte_index = br_bit reader div 8;
          bit_index = 7 - br_bit reader mod 8;
          b = drop_bit bit_index (br_data reader ! byte_index) AND 1
      in read_bits_loop n (push_bit 1 result OR ucast b) (reader\<lparr>br_bit := br_bit reader + 1\<rparr>))"

definition rdp_bulk_read_bits :: "nat \<Rightarrow> rdp_bulk_bit_reader \<Rightarrow> (u32 \<times> rdp_bulk_bit_reader) result" where
  "rdp_bulk_read_bits count reader =
     (if count > 31 \<or> rdp_bulk_bits_remaining reader < count then protocol_error
      else Inr (read_bits_loop count 0 reader))"

text \<open>The loop over the table of prefix codes: one entry per leading 1 bit.\<close>

fun rdp_bulk_read_prefixed_value ::
    "(nat \<times> u32) list \<Rightarrow> rdp_bulk_bit_reader \<Rightarrow> (u32 \<times> rdp_bulk_bit_reader) result" where
  "rdp_bulk_read_prefixed_value [] reader = protocol_error"
| "rdp_bulk_read_prefixed_value ((value_bits, base) # table) reader =
     pbind (rdp_bulk_read_bits 1 reader) (\<lambda>(b, reader).
       if b = 1 then rdp_bulk_read_prefixed_value table reader
       else if value_bits > 0
       then pbind (rdp_bulk_read_bits value_bits reader) (\<lambda>(low, reader). Inr (base + low, reader))
       else Inr (base, reader))"

section \<open>MPPC\<close>

record rdp_bulk_mppc_state =
  ms_history :: "u8 list option"
  ms_history_size :: nat
  ms_write_offset :: nat
  ms_level :: u8

definition rdp_bulk_mppc_state_init :: "u8 \<Rightarrow> rdp_bulk_mppc_state" where
  "rdp_bulk_mppc_state_init level =
     \<lparr>ms_history = None, ms_history_size = (if level \<noteq> 0 then 65536 else 8192),
      ms_write_offset = 0, ms_level = level\<rparr>"

definition rdp_bulk_mppc_state_reset :: "bool \<Rightarrow> rdp_bulk_mppc_state \<Rightarrow> rdp_bulk_mppc_state" where
  "rdp_bulk_mppc_state_reset clear state =
     state\<lparr>ms_write_offset := 0,
           ms_history := (if clear then map_option (\<lambda>_. replicate (ms_history_size state) 0) (ms_history state)
                          else ms_history state)\<rparr>"

definition rdp_bulk_mppc_state_free :: "rdp_bulk_mppc_state \<Rightarrow> rdp_bulk_mppc_state" where
  "rdp_bulk_mppc_state_free state = state\<lparr>ms_history := None, ms_write_offset := 0\<rparr>"

text \<open>\<^verbatim>\<open>calloc\<close> gives a block of zeros or fails.\<close>

definition rdp_bulk_mppc_state_ensure ::
    "rdp_bulk_mppc_state \<times> mem \<Rightarrow> librdp_status \<times> rdp_bulk_mppc_state \<times> mem" where
  "rdp_bulk_mppc_state_ensure = (\<lambda>(state, m).
     if ms_history_size state = 0 then (LIBRDP_STATUS_INVALID_ARGUMENT, state, m)
     else if ms_history state \<noteq> None then (LIBRDP_STATUS_OK, state, m)
     else
       (case alloc m of
          (None, m) \<Rightarrow> (LIBRDP_STATUS_NO_MEMORY, state, m)
        | (Some _, m) \<Rightarrow>
            (LIBRDP_STATUS_OK, state\<lparr>ms_history := Some (replicate (ms_history_size state) 0)\<rparr>, m)))"

definition rdp_bulk_mppc_read_offset ::
    "u8 \<Rightarrow> rdp_bulk_bit_reader \<Rightarrow> (u32 \<times> rdp_bulk_bit_reader) result" where
  "rdp_bulk_mppc_read_offset level reader =
     pbind (rdp_bulk_read_bits 1 reader) (\<lambda>(first, reader).
     pbind (rdp_bulk_read_bits 1 reader) (\<lambda>(second, reader).
     if first \<noteq> 1 \<or> second \<noteq> 1 then protocol_error
     else
       pbind (rdp_bulk_read_bits 1 reader) (\<lambda>(b, reader).
       if b = 0 then
         pbind (rdp_bulk_read_bits (if level \<noteq> 0 then 16 else 13) reader) (\<lambda>(low, reader).
           Inr ((if level \<noteq> 0 then 2368 else 320) + low, reader))
       else
         pbind (rdp_bulk_read_bits 1 reader) (\<lambda>(b, reader).
         if b = 0 then
           pbind (rdp_bulk_read_bits (if level \<noteq> 0 then 11 else 8) reader) (\<lambda>(low, reader).
             Inr ((if level \<noteq> 0 then 320 else 64) + low, reader))
         else
           let last = (\<lambda>reader.
             pbind (rdp_bulk_read_bits 6 reader) (\<lambda>(low, reader). Inr (low, reader)))
           in
           if level \<noteq> 0 then
             pbind (rdp_bulk_read_bits 1 reader) (\<lambda>(b, reader).
             if b = 0 then
               pbind (rdp_bulk_read_bits 8 reader) (\<lambda>(low, reader). Inr (64 + low, reader))
             else last reader)
           else last reader))))"

definition bits_common :: "(nat \<times> u32) list" where
  "bits_common = zip [0, 2, 3, 4, 5, 6, 7, 8, 9, 10, 11, 12]
     [3, 4, 8, 16, 32, 64, 128, 256, 512, 1024, 2048, 4096]"

definition bits64k :: "(nat \<times> u32) list" where
  "bits64k = zip [0, 2, 3, 4, 5, 6, 7, 8, 9, 10, 11, 12, 13, 14, 15]
     [3, 4, 8, 16, 32, 64, 128, 256, 512, 1024, 2048, 4096, 8192, 16384, 32768]"

definition rdp_bulk_mppc_read_length ::
    "u8 \<Rightarrow> rdp_bulk_bit_reader \<Rightarrow> (u32 \<times> rdp_bulk_bit_reader) result" where
  "rdp_bulk_mppc_read_length level reader =
     (if level \<noteq> 0 then rdp_bulk_read_prefixed_value bits64k reader
      else rdp_bulk_read_prefixed_value bits_common reader)"

primrec copy_loop :: "nat \<Rightarrow> nat \<Rightarrow> nat \<Rightarrow> u8 list \<Rightarrow> u8 list" where
  "copy_loop 0 src dst history = history"
| "copy_loop (Suc n) src dst history = copy_loop n (src + 1) (dst + 1) (history[dst := history ! src])"

text \<open>\<open>src\<close> is a difference of \<^verbatim>\<open>size_t\<close> values, masked.\<close>

definition rdp_bulk_mppc_copy_match ::
    "u32 \<Rightarrow> u32 \<Rightarrow> rdp_bulk_mppc_state \<Rightarrow> librdp_status \<times> rdp_bulk_mppc_state" where
  "rdp_bulk_mppc_copy_match offset n state =
     (case ms_history state of
        None \<Rightarrow> (LIBRDP_STATUS_PROTOCOL_ERROR, state)
      | Some history \<Rightarrow>
          if n = 0 \<or> ms_write_offset state > ms_history_size state \<or>
             unat n > ms_history_size state - ms_write_offset state
          then (LIBRDP_STATUS_PROTOCOL_ERROR, state)
          else
            let mask = (if ms_level state \<noteq> 0 then 0xffff else 0x1fff);
                src = ((ms_write_offset state + 2 ^ 64 - unat offset) mod 2 ^ 64) AND mask
            in
            if src \<ge> ms_history_size state \<or> unat n > ms_history_size state - src
            then (LIBRDP_STATUS_PROTOCOL_ERROR, state)
            else
              (LIBRDP_STATUS_OK,
               state\<lparr>ms_history := Some (copy_loop (unat n) src (ms_write_offset state) history),
                     ms_write_offset := ms_write_offset state + unat n\<rparr>))"

text \<open>\<^verbatim>\<open>state->history[state->write_offset++] = byte\<close>\<close>

definition put_history :: "u8 \<Rightarrow> rdp_bulk_mppc_state \<Rightarrow> rdp_bulk_mppc_state" where
  "put_history v state =
     state\<lparr>ms_history := map_option (\<lambda>h. h[ms_write_offset state := v]) (ms_history state),
           ms_write_offset := ms_write_offset state + 1\<rparr>"

text \<open>One round of the loop of \<^verbatim>\<open>rdp_bulk_mppc_decompress\<close>; \<open>Inl\<close> leaves the loop with an error.\<close>

definition mppc_round ::
    "rdp_bulk_mppc_state \<times> rdp_bulk_bit_reader \<Rightarrow>
     (librdp_status \<times> rdp_bulk_mppc_state) + (rdp_bulk_mppc_state \<times> rdp_bulk_bit_reader)" where
  "mppc_round = (\<lambda>(state, reader).
     if ms_write_offset state \<ge> ms_history_size state then Inl (LIBRDP_STATUS_PROTOCOL_ERROR, state)
     else
       case rdp_bulk_read_bits 1 reader of
         Inl e \<Rightarrow> Inl (e, state)
       | Inr (first, reader) \<Rightarrow>
           if first = 0 then
             (case rdp_bulk_read_bits 7 reader of
                Inl e \<Rightarrow> Inl (e, state)
              | Inr (literal, reader) \<Rightarrow> Inr (put_history (ucast literal) state, reader))
           else
             (case rdp_bulk_read_bits 1 reader of
                Inl e \<Rightarrow> Inl (e, state)
              | Inr (literal, reader) \<Rightarrow>
                  if literal = 0 then
                    (case rdp_bulk_read_bits 7 reader of
                       Inl e \<Rightarrow> Inl (e, state)
                     | Inr (literal, reader) \<Rightarrow> Inr (put_history (ucast (0x80 + literal)) state, reader))
                  else
                    (case rdp_bulk_mppc_read_offset (ms_level state) (reader\<lparr>br_bit := br_bit reader - 2\<rparr>) of
                       Inl e \<Rightarrow> Inl (e, state)
                     | Inr (offset, reader) \<Rightarrow>
                         (case rdp_bulk_mppc_read_length (ms_level state) reader of
                            Inl e \<Rightarrow> Inl (e, state)
                          | Inr (n, reader) \<Rightarrow>
                              (case rdp_bulk_mppc_copy_match offset n state of (status, state) \<Rightarrow>
                                 if status \<noteq> LIBRDP_STATUS_OK then Inl (status, state)
                                 else Inr (state, reader))))))"

text \<open>Every round that goes on consumes bits, so the loop ends.\<close>

lemma read_bits_advance:
  assumes "rdp_bulk_read_bits n r = Inr (v, r')"
  shows "br_data r' = br_data r \<and> br_bit r' = br_bit r + n"
proof -
  have "br_data (snd (read_bits_loop n acc r)) = br_data r \<and> br_bit (snd (read_bits_loop n acc r)) = br_bit r + n" for acc
    by (induction n arbitrary: acc r) (simp_all add: Let_def)
  with assms show ?thesis by (auto simp: rdp_bulk_read_bits_def split: if_splits) (metis snd_conv)+
qed

lemma prefixed_value_advance:
  "rdp_bulk_read_prefixed_value table r = Inr (v, r') \<Longrightarrow> br_data r' = br_data r \<and> br_bit r < br_bit r'"
proof (induction table arbitrary: r)
  case (Cons e table)
  obtain value_bits base where e: "e = (value_bits, base)" by (rule prod.exhaust)
  from Cons.prems obtain b r1 where 1: "rdp_bulk_read_bits 1 r = Inr (b, r1)"
    by (auto simp: e pbind_eq_Inr)
  note a = read_bits_advance [OF 1]
  show ?case
  proof (cases "b = 1")
    case True
    with Cons.IH [of r1] Cons.prems 1 a show ?thesis by (simp add: e)
  next
    case False
    with Cons.prems 1 a show ?thesis by (auto simp: e pbind_eq_Inr split: if_splits dest!: read_bits_advance)
  qed
qed simp

lemma read_offset_advance:
  "rdp_bulk_mppc_read_offset level r = Inr (v, r') \<Longrightarrow> br_data r' = br_data r \<and> br_bit r + 8 < br_bit r'"
  by (auto simp: rdp_bulk_mppc_read_offset_def pbind_eq_Inr Let_def split: if_splits dest!: read_bits_advance)

lemma mppc_round_progress:
  assumes "mppc_round (state, r) = Inr (state', r')"
  shows "br_data r' = br_data r \<and> br_bit r < br_bit r'"
proof -
  from assms obtain b r1 where 1: "rdp_bulk_read_bits 1 r = Inr (b, r1)"
    by (auto simp: mppc_round_def split: if_splits sum.splits)
  note a1 = read_bits_advance [OF 1]
  show ?thesis
  proof (cases "b = 0")
    case True
    with assms 1 a1 show ?thesis
      by (auto simp: mppc_round_def split: if_splits sum.splits dest!: read_bits_advance)
  next
    case False
    with assms 1 obtain l r2 where 2: "rdp_bulk_read_bits 1 r1 = Inr (l, r2)"
      by (auto simp: mppc_round_def split: if_splits sum.splits)
    note a2 = read_bits_advance [OF 2]
    show ?thesis
    proof (cases "l = 0")
      case True
      with assms 1 2 False a1 a2 show ?thesis
        by (auto simp: mppc_round_def split: if_splits sum.splits dest!: read_bits_advance)
    next
      case l: False
      from assms 1 2 False l obtain off n r3 where
        "rdp_bulk_mppc_read_offset (ms_level state) (r2\<lparr>br_bit := br_bit r2 - 2\<rparr>) = Inr (off, r3)"
        "rdp_bulk_mppc_read_length (ms_level state) r3 = Inr (n, r')"
        by (auto simp: mppc_round_def split: if_splits sum.splits prod.splits)
      from read_offset_advance [OF this(1)] this(2) a1 a2 show ?thesis
        by (auto simp: rdp_bulk_mppc_read_length_def split: if_splits dest!: prefixed_value_advance)
    qed
  qed
qed

function mppc_loop ::
    "rdp_bulk_mppc_state \<times> rdp_bulk_bit_reader \<Rightarrow> librdp_status \<times> rdp_bulk_mppc_state" where
  "mppc_loop (state, reader) =
     (if rdp_bulk_bits_remaining reader \<ge> 8 then
        (case mppc_round (state, reader) of
           Inl (status, state) \<Rightarrow> (status, state)
         | Inr (state, reader) \<Rightarrow> mppc_loop (state, reader))
      else (LIBRDP_STATUS_OK, state))"
  by pat_completeness auto
termination
  by (relation "measure (\<lambda>(state, r). 8 * length (br_data r) - br_bit r)")
    (auto simp: rdp_bulk_bits_remaining_def Let_def split: if_splits dest!: mppc_round_progress)

declare mppc_loop.simps [simp del]

definition RDP_BULK_PACKET_COMPRESSED :: u8 where "RDP_BULK_PACKET_COMPRESSED = 0x20"
definition RDP_BULK_PACKET_AT_FRONT :: u8 where "RDP_BULK_PACKET_AT_FRONT = 0x40"
definition RDP_BULK_PACKET_FLUSHED :: u8 where "RDP_BULK_PACKET_FLUSHED = 0x80"

definition rdp_bulk_mppc_decompress ::
    "u8 \<Rightarrow> u8 list \<Rightarrow> rdp_bulk_mppc_state \<times> rdp_buffer \<times> mem \<Rightarrow>
     librdp_status \<times> rdp_bulk_mppc_state \<times> rdp_buffer \<times> mem" where
  "rdp_bulk_mppc_decompress flags data = (\<lambda>(state, decoded, m).
     case rdp_bulk_mppc_state_ensure (state, m) of (status, state, m) \<Rightarrow>
       if status \<noteq> LIBRDP_STATUS_OK then (status, state, decoded, m)
       else
         let state = (if flags AND RDP_BULK_PACKET_AT_FRONT \<noteq> 0 then rdp_bulk_mppc_state_reset False state else state);
             state = (if flags AND RDP_BULK_PACKET_FLUSHED \<noteq> 0 then rdp_bulk_mppc_state_reset True state else state)
         in
         if flags AND RDP_BULK_PACKET_COMPRESSED = 0 then
           (case rdp_buffer_append data (decoded, m) of (status, decoded, m) \<Rightarrow> (status, state, decoded, m))
         else
           let start = ms_write_offset state in
           (case mppc_loop (state, \<lparr>br_data = data, br_bit = 0\<rparr>) of (status, state) \<Rightarrow>
              if status \<noteq> LIBRDP_STATUS_OK
              then (status, state\<lparr>ms_write_offset := start\<rparr>, decoded, m)
              else
                (case rdp_buffer_append
                        (take (ms_write_offset state - start) (drop start (the (ms_history state)))) (decoded, m) of
                   (status, decoded, m) \<Rightarrow> (status, state, decoded, m))))"

section \<open>The bits of a packet\<close>

definition byte_bits :: "u8 \<Rightarrow> bool list" where
  "byte_bits v = map (bit v) (rev [0..<8])"

definition packet_bits :: "u8 list \<Rightarrow> bool list" where
  "packet_bits data = concat (map byte_bits data)"

definition unread :: "rdp_bulk_bit_reader \<Rightarrow> bool list" where
  "unread reader = drop (br_bit reader) (packet_bits (br_data reader))"

definition reader_ok :: "rdp_bulk_bit_reader \<Rightarrow> bool" where
  "reader_ok reader \<longleftrightarrow> br_bit reader \<le> 8 * length (br_data reader) \<and> length (br_data reader) \<le> SIZE_MAX div 8"

text \<open>The value of a bit string, most significant bit first.\<close>

definition bits_value :: "u32 \<Rightarrow> bool list \<Rightarrow> u32" where
  "bits_value = foldl (\<lambda>acc b. push_bit 1 acc OR of_bool b)"

lemma length_byte_bits [simp]: "length (byte_bits v) = 8"
  by (simp add: byte_bits_def)

lemma length_packet_bits [simp]: "length (packet_bits data) = 8 * length data"
  by (induction data) (simp_all add: packet_bits_def)

lemma packet_bits_nth:
  "k < 8 * length data \<Longrightarrow> packet_bits data ! k = bit (data ! (k div 8)) (7 - k mod 8)"
proof (induction data arbitrary: k)
  case (Cons v data)
  have eq: "packet_bits (v # data) = byte_bits v @ packet_bits data" by (simp add: packet_bits_def)
  show ?case
  proof (cases "k < 8")
    case True
    then show ?thesis by (simp add: eq nth_append byte_bits_def rev_nth del: upt_Suc)
  next
    case False
    then have "(k - 8) mod 8 = k mod 8" "k div 8 = Suc ((k - 8) div 8)"
      using mod_add_self2 [of "k - 8" 8] div_add_self2 [of 8 "k - 8"] by simp_all
    with False Cons.IH [of "k - 8"] Cons.prems show ?thesis by (simp add: eq nth_append)
  qed
qed simp

lemma bits_remaining_unread: "reader_ok r \<Longrightarrow> rdp_bulk_bits_remaining r = length (unread r)"
  by (simp add: rdp_bulk_bits_remaining_def reader_ok_def unread_def Let_def mult.commute)

lemma unread_advance: "unread (r\<lparr>br_bit := br_bit r + n\<rparr>) = drop n (unread r)"
  by (simp add: unread_def add.commute)

lemma reader_ok_advance: "reader_ok r \<Longrightarrow> n \<le> length (unread r) \<Longrightarrow> reader_ok (r\<lparr>br_bit := br_bit r + n\<rparr>)"
  by (auto simp: reader_ok_def unread_def)

lemma bit_of_byte: "ucast (drop_bit i (v :: u8) AND 1) = (of_bool (bit v i) :: u32)"
  by (cases "bit v i"; rule bit_word_eqI) (auto simp: bit_simps bit_1_iff intro: gr0I)

lemma read_bits_loop_value:
  "reader_ok r \<Longrightarrow> n \<le> length (unread r) \<Longrightarrow>
    read_bits_loop n acc r = (bits_value acc (take n (unread r)), r\<lparr>br_bit := br_bit r + n\<rparr>)"
proof (induction n arbitrary: acc r)
  case 0
  then show ?case by (simp add: bits_value_def)
next
  case (Suc n)
  let ?r = "r\<lparr>br_bit := br_bit r + 1\<rparr>"
  have lt: "br_bit r < 8 * length (br_data r)" using Suc.prems by (simp add: unread_def)
  have hd: "unread r = packet_bits (br_data r) ! br_bit r # unread ?r"
    using lt by (simp add: unread_def Cons_nth_drop_Suc)
  have "reader_ok ?r" "n \<le> length (unread ?r)"
    using Suc.prems lt by (auto simp: reader_ok_def unread_def)
  from Suc.IH [OF this] hd show ?case
    using packet_bits_nth [OF lt] by (simp add: Let_def bit_of_byte bits_value_def)
qed

lemma read_bits_unread:
  assumes "reader_ok r"
  shows "rdp_bulk_read_bits n r =
    (if n > 31 \<or> length (unread r) < n then protocol_error
     else Inr (bits_value 0 (take n (unread r)), r\<lparr>br_bit := br_bit r + n\<rparr>))"
  using assms by (simp add: rdp_bulk_read_bits_def bits_remaining_unread read_bits_loop_value)

text \<open>The \<open>n\<close> low bits of a number, most significant bit first.\<close>

definition num_bits :: "nat \<Rightarrow> u32 \<Rightarrow> bool list" where
  "num_bits n v = map (bit v) (rev [0..<n])"

lemma length_num_bits [simp]: "length (num_bits n v) = n"
  by (simp add: num_bits_def)

lemma bits_value_num_bits_acc:
  "bits_value acc (num_bits n v) = push_bit n acc OR take_bit n v"
proof (induction n arbitrary: acc)
  case (Suc n)
  have "bits_value acc (num_bits (Suc n) v) = bits_value (push_bit 1 acc OR of_bool (bit v n)) (num_bits n v)"
    by (simp add: bits_value_def num_bits_def)
  also have "\<dots> = push_bit n (push_bit 1 acc OR of_bool (bit v n)) OR take_bit n v" by (rule Suc.IH)
  also have "\<dots> = push_bit (Suc n) acc OR take_bit (Suc n) v"
    by (rule bit_word_eqI) (auto simp: bit_simps of_bool_def bit_1_iff less_Suc_eq)
  finally show ?case .
qed (simp add: bits_value_def num_bits_def)

lemma bits_value_num_bits: "unat v < 2 ^ n \<Longrightarrow> bits_value 0 (num_bits n v) = v"
  unfolding bits_value_num_bits_acc
  by (rule bit_word_eqI) (auto simp: bit_simps dest: bit_high_of_less [of v n] intro: leI)

section \<open>LZ77 and its bit codes\<close>

datatype lz_token = Literal u8 | Match nat nat

text \<open>A match repeats the byte \<open>off\<close> positions back, \<open>n\<close> times; it may overlap what it writes.\<close>

primrec lz_copy :: "nat \<Rightarrow> nat \<Rightarrow> u8 list \<Rightarrow> u8 list" where
  "lz_copy 0 off w = w"
| "lz_copy (Suc n) off w = lz_copy n off (w @ [w ! (length w - off)])"

primrec lz_step :: "lz_token \<Rightarrow> u8 list \<Rightarrow> u8 list" where
  "lz_step (Literal v) w = w @ [v]"
| "lz_step (Match off n) w = lz_copy n off w"

definition lz_expand :: "u8 list \<Rightarrow> lz_token list \<Rightarrow> u8 list" where
  "lz_expand = foldl (\<lambda>w t. lz_step t w)"

definition literal_code :: "u8 \<Rightarrow> bool list" where
  "literal_code v =
     (if unat v < 128 then False # num_bits 7 (of_nat (unat v))
      else [True, False] @ num_bits 7 (of_nat (unat v - 128)))"

definition offset_code :: "u8 \<Rightarrow> nat \<Rightarrow> bool list" where
  "offset_code level off =
     (if level \<noteq> 0 then
        (if off < 64 then [True, True, True, True, True] @ num_bits 6 (of_nat off)
         else if off < 320 then [True, True, True, True, False] @ num_bits 8 (of_nat (off - 64))
         else if off < 2368 then [True, True, True, False] @ num_bits 11 (of_nat (off - 320))
         else [True, True, False] @ num_bits 16 (of_nat (off - 2368)))
      else
        (if off < 64 then [True, True, True, True] @ num_bits 6 (of_nat off)
         else if off < 320 then [True, True, True, False] @ num_bits 8 (of_nat (off - 64))
         else [True, True, False] @ num_bits 13 (of_nat (off - 320))))"

fun log2 :: "nat \<Rightarrow> nat" where
  "log2 n = (if n < 2 then 0 else Suc (log2 (n div 2)))"

declare log2.simps [simp del]

definition length_code :: "nat \<Rightarrow> bool list" where
  "length_code n =
     (if n = 3 then [False]
      else let k = log2 n in replicate (k - 1) True @ [False] @ num_bits k (of_nat (n - 2 ^ k)))"

primrec token_code :: "u8 \<Rightarrow> lz_token \<Rightarrow> bool list" where
  "token_code level (Literal v) = literal_code v"
| "token_code level (Match off n) = offset_code level off @ length_code n"

text \<open>The tokens that fit behind a window in a history of \<open>sz\<close> bytes.\<close>

fun tokens_fit :: "nat \<Rightarrow> u8 list \<Rightarrow> lz_token list \<Rightarrow> bool" where
  "tokens_fit sz w [] = True"
| "tokens_fit sz w (t # ts) =
     ((case t of Literal v \<Rightarrow> length w < sz
       | Match off n \<Rightarrow> 0 < off \<and> off \<le> length w \<and> length w < sz \<and> 3 \<le> n \<and> length w + n \<le> sz) \<and>
      tokens_fit sz (lz_step t w) ts)"

lemma log2_bounds: "0 < n \<Longrightarrow> 2 ^ log2 n \<le> n \<and> n < 2 ^ Suc (log2 n)"
proof (induction n rule: log2.induct)
  case (1 n)
  show ?case
  proof (cases "n < 2")
    case True
    with 1 show ?thesis by (subst (1 2) log2.simps) simp
  next
    case False
    with 1 have "2 ^ log2 (n div 2) \<le> n div 2 \<and> n div 2 < 2 ^ Suc (log2 (n div 2))" by simp
    with False show ?thesis by (subst (1 2) log2.simps) auto
  qed
qed

section \<open>Reading the codes\<close>

lemma read_num:
  assumes "reader_ok r" "unread r = num_bits k v @ rest" "k \<le> 31" "unat v < 2 ^ k"
  shows "rdp_bulk_read_bits k r = Inr (v, r\<lparr>br_bit := br_bit r + k\<rparr>)"
    and "reader_ok (r\<lparr>br_bit := br_bit r + k\<rparr>)" and "unread (r\<lparr>br_bit := br_bit r + k\<rparr>) = rest"
  using assms by (simp_all add: read_bits_unread bits_value_num_bits reader_ok_advance unread_advance)

lemma read_one:
  assumes "reader_ok r" "unread r = b # rest"
  shows "rdp_bulk_read_bits 1 r = Inr (of_bool b, r\<lparr>br_bit := br_bit r + 1\<rparr>)"
    and "reader_ok (r\<lparr>br_bit := br_bit r + 1\<rparr>)" and "unread (r\<lparr>br_bit := br_bit r + 1\<rparr>) = rest"
  using assms reader_ok_advance [of r 1] unread_advance [of r 1] by (simp_all add: read_bits_unread bits_value_def)

lemma read_class:
  "reader_ok r \<Longrightarrow> j \<le> k \<Longrightarrow> k < m \<Longrightarrow> m \<le> 31 \<Longrightarrow> 0 < j \<Longrightarrow> 2 ^ k \<le> n \<Longrightarrow> n < 2 ^ Suc k \<Longrightarrow>
    unread r = replicate (k - j) True @ [False] @ num_bits k (of_nat (n - 2 ^ k)) @ rest \<Longrightarrow>
    rdp_bulk_read_prefixed_value (map (\<lambda>k. (k, 2 ^ k)) [j..<m]) r =
      Inr (of_nat n, r\<lparr>br_bit := br_bit r + (k - j + 1 + k)\<rparr>)"
proof (induction "k - j" arbitrary: j r)
  case 0
  then have jk: "j = k" by simp
  have cons: "map (\<lambda>k. (k, 2 ^ k)) [k..<m] = (k, 2 ^ k) # map (\<lambda>k. (k, 2 ^ k :: u32)) [Suc k..<m]"
    using 0 by (simp add: upt_rec)
  have one: "unread r = False # num_bits k (of_nat (n - 2 ^ k)) @ rest" using 0 jk by simp
  note r1 = read_one [OF 0(2) one]
  have lt: "n - 2 ^ k < 2 ^ k" using 0 by simp
  also have "(2 :: nat) ^ k < 2 ^ 32" using 0 by (intro power_strict_increasing) auto
  finally have "unat (of_nat (n - 2 ^ k) :: u32) = n - 2 ^ k" by (intro unat_of_nat_u32) simp
  with lt have v: "unat (of_nat (n - 2 ^ k) :: u32) < 2 ^ k" by simp
  note r2 = read_num [OF r1(2,3) _ v]
  have "(2 ^ k :: u32) + of_nat (n - 2 ^ k) = of_nat (2 ^ k + (n - 2 ^ k))" by simp
  also have "\<dots> = of_nat n" using 0 by simp
  finally have sum: "(2 ^ k :: u32) + of_nat (n - 2 ^ k) = of_nat n" .
  show ?case unfolding jk cons using r1(1) r2(1) 0 sum jk by (simp add: add.assoc)
next
  case (Suc d)
  have cons: "map (\<lambda>k. (k, 2 ^ k)) [j..<m] = (j, 2 ^ j) # map (\<lambda>k. (k, 2 ^ k :: u32)) [Suc j..<m]"
    using Suc.prems by (simp add: upt_rec)
  have kj: "k - j = Suc (k - Suc j)" using Suc.hyps(2) by simp
  have one: "unread r = True # replicate (k - Suc j) True @ [False] @ num_bits k (of_nat (n - 2 ^ k)) @ rest"
    using Suc.prems by (simp add: kj)
  note r1 = read_one [OF Suc.prems(1) one]
  have "rdp_bulk_read_prefixed_value (map (\<lambda>k. (k, 2 ^ k)) [Suc j..<m]) (r\<lparr>br_bit := br_bit r + 1\<rparr>) =
      Inr (of_nat n, r\<lparr>br_bit := br_bit r + 1\<rparr>\<lparr>br_bit := br_bit (r\<lparr>br_bit := br_bit r + 1\<rparr>) + (k - Suc j + 1 + k)\<rparr>)"
    by (rule Suc.hyps(1)) (use Suc.hyps(2) Suc.prems r1 in auto)
  then show ?case unfolding cons using r1(1) by (simp add: kj)
qed

lemma bits_value_Cons:
  "bits_value acc (b # bs) = bits_value (push_bit 1 acc OR of_bool b) bs" "bits_value acc [] = acc"
  by (simp_all add: bits_value_def)

lemma length_tables:
  "bits_common = (0, 3) # map (\<lambda>k. (k, 2 ^ k)) [2..<13]"
  "bits64k = (0, 3) # map (\<lambda>k. (k, 2 ^ k)) [2..<16]"
  by (simp_all add: bits_common_def bits64k_def upt_rec)

lemma log2_class:
  assumes "4 \<le> n" and "n < 2 ^ m"
  shows "2 \<le> log2 n" "log2 n < m"
proof -
  have b: "2 ^ log2 n \<le> n" "n < 2 ^ Suc (log2 n)" using log2_bounds [of n] assms(1) by auto
  have "(2 :: nat) ^ 2 < 2 ^ Suc (log2 n)" using b(2) assms(1) by simp
  then show "2 \<le> log2 n" by (subst (asm) power_strict_increasing_iff) simp_all
  have "(2 :: nat) ^ log2 n < 2 ^ m" using b(1) assms(2) by (rule le_less_trans)
  then show "log2 n < m" by (subst (asm) power_strict_increasing_iff) simp_all
qed

lemma read_length_code:
  assumes "reader_ok r" "unread r = length_code n @ rest" "3 \<le> n" "n < (if level \<noteq> 0 then 65536 else 8192)"
  shows "rdp_bulk_mppc_read_length level r = Inr (of_nat n, r\<lparr>br_bit := br_bit r + length (length_code n)\<rparr>)"
proof (cases "n = 3")
  case True
  with assms(2) have "unread r = False # rest" by (simp add: length_code_def)
  from True read_one(1) [OF assms(1) this] show ?thesis
    by (auto simp: rdp_bulk_mppc_read_length_def length_tables length_code_def)
next
  case False
  define m :: nat where "m = (if level \<noteq> 0 then 16 else 13)"
  define k where "k = log2 n"
  have "n < 2 ^ m" "4 \<le> n" using assms(3,4) False by (auto simp: m_def split: if_splits)
  then have k: "2 \<le> k" "k < m" "2 ^ k \<le> n" "n < 2 ^ Suc k"
    using log2_class [of n m] log2_bounds [of n] by (auto simp: k_def)
  have code: "length_code n = True # replicate (k - 2) True @ [False] @ num_bits k (of_nat (n - 2 ^ k))"
    using False k(1) by (simp add: length_code_def k_def [symmetric] Let_def flip: replicate_Suc)
  note r1 = read_one [OF assms(1) assms(2) [unfolded code append_Cons]]
  have "rdp_bulk_read_prefixed_value (map (\<lambda>k. (k, 2 ^ k)) [2..<m]) (r\<lparr>br_bit := br_bit r + 1\<rparr>) =
      Inr (of_nat n, r\<lparr>br_bit := br_bit r + 1\<rparr>\<lparr>br_bit := br_bit (r\<lparr>br_bit := br_bit r + 1\<rparr>) + (k - 2 + 1 + k)\<rparr>)"
    by (rule read_class [OF r1(2), where rest = rest]) (use k r1(3) in \<open>auto simp: m_def split: if_splits\<close>)
  moreover have "length (length_code n) = 1 + (k - 2 + 1 + k)" using code by simp
  ultimately show ?thesis
    using r1(1) by (simp add: rdp_bulk_mppc_read_length_def length_tables m_def split: if_splits)
qed

text \<open>A reader decodes a code: it consumes exactly its bits and returns its value.\<close>

definition decodes ::
    "(rdp_bulk_bit_reader \<Rightarrow> (u32 \<times> rdp_bulk_bit_reader) result) \<Rightarrow> bool list \<Rightarrow> u32 \<Rightarrow> bool" where
  "decodes f code v \<longleftrightarrow> (\<forall>r rest. reader_ok r \<longrightarrow> unread r = code @ rest \<longrightarrow>
     f r = Inr (v, r\<lparr>br_bit := br_bit r + length code\<rparr>))"

lemma decodesD:
  assumes "decodes f code v" "reader_ok r" "unread r = code @ rest"
  shows "f r = Inr (v, r\<lparr>br_bit := br_bit r + length code\<rparr>)"
    and "reader_ok (r\<lparr>br_bit := br_bit r + length code\<rparr>)"
    and "unread (r\<lparr>br_bit := br_bit r + length code\<rparr>) = rest"
  using assms by (auto simp: decodes_def reader_ok_advance unread_advance)

lemma decodes_bind:
  assumes f: "decodes f c v" and g: "decodes (g v) c' w"
  shows "decodes (\<lambda>r. pbind (f r) (\<lambda>(v, r). g v r)) (c @ c') w"
  unfolding decodes_def
proof (intro allI impI)
  fix r rest assume r: "reader_ok r" "unread r = (c @ c') @ rest"
  have "unread r = c @ (c' @ rest)" using r(2) by simp
  note s = decodesD [OF f r(1) this]
  from decodesD(1) [OF g s(2,3)] s(1)
  show "pbind (f r) (\<lambda>(v, r). g v r) = Inr (w, r\<lparr>br_bit := br_bit r + length (c @ c')\<rparr>)"
    by (simp add: add.assoc)
qed

lemma decodes_return: "decodes (\<lambda>r. Inr (v, r)) [] v"
  by (simp add: decodes_def)

lemma decodes_bit: "decodes (rdp_bulk_read_bits 1) [b] (of_bool b)"
  by (auto simp: decodes_def read_bits_unread bits_value_Cons)

lemma decodes_num: "k \<le> 31 \<Longrightarrow> unat v < 2 ^ k \<Longrightarrow> decodes (rdp_bulk_read_bits k) (num_bits k v) v"
  by (auto simp: decodes_def read_bits_unread bits_value_num_bits)

lemma decodes_num_offset:
  assumes "a \<le> off" "off - a < 2 ^ k" "k \<le> 16"
  shows "decodes (\<lambda>r. pbind (rdp_bulk_read_bits k r) (\<lambda>(low, r). Inr (of_nat a + low, r)))
    (num_bits k (of_nat (off - a))) (of_nat off)"
proof -
  have "off - a < 2 ^ 16" using assms(2,3) power_increasing [of k 16 "2 :: nat"] by simp
  then have "unat (of_nat (off - a) :: u32) = off - a" by (intro unat_of_nat_u32) simp
  then have 1: "decodes (rdp_bulk_read_bits k) (num_bits k (of_nat (off - a))) (of_nat (off - a))"
    using assms by (intro decodes_num) simp_all
  have "(of_nat a :: u32) + of_nat (off - a) = of_nat off" using assms(1) by (simp flip: of_nat_add)
  with decodes_bind [OF 1, where g = "\<lambda>low r. Inr (of_nat a + low, r)" and c' = "[]" and w = "of_nat off"]
    decodes_return [of "of_nat off"]
  show ?thesis by simp
qed

lemma decodes_True:
  "decodes (g 1) c w \<Longrightarrow> decodes (\<lambda>r. pbind (rdp_bulk_read_bits 1 r) (\<lambda>(v, r). g v r)) (True # c) w"
  using decodes_bind [OF decodes_bit [of True], of g c w] by simp

lemma decodes_False:
  "decodes (g 0) c w \<Longrightarrow> decodes (\<lambda>r. pbind (rdp_bulk_read_bits 1 r) (\<lambda>(v, r). g v r)) (False # c) w"
  using decodes_bind [OF decodes_bit [of False], of g c w] by simp

lemmas offset_choice = simp_thms if_True if_False one_neq_zero zero_neq_one Let_def

lemma decodes_offset:
  assumes "off < (if level \<noteq> 0 then 65536 else 8192)"
  shows "decodes (rdp_bulk_mppc_read_offset level) (offset_code level off) (of_nat off)"
proof -
  note num8 = decodes_num_offset [of 64 off 8, unfolded of_nat_numeral]
    and num11 = decodes_num_offset [of 320 off 11, unfolded of_nat_numeral]
    and num16 = decodes_num_offset [of 2368 off 16, unfolded of_nat_numeral]
    and num13 = decodes_num_offset [of 320 off 13, unfolded of_nat_numeral]
  have num6: "off < 64 \<Longrightarrow> decodes (\<lambda>r. pbind (rdp_bulk_read_bits 6 r) (\<lambda>(low, r). Inr (low, r)))
      (num_bits 6 (of_nat off)) (of_nat off)"
    using decodes_num_offset [of 0 off 6] by simp
  show ?thesis
  proof (cases "level = 0")
    case True
    consider "off < 64" | "\<not> off < 64" "off < 320" | "\<not> off < 64" "\<not> off < 320" by blast
    then show ?thesis
      unfolding rdp_bulk_mppc_read_offset_def [abs_def] offset_code_def True append_Cons append_Nil
      by cases ((simp only: offset_choice)?, (rule decodes_True decodes_False | simp only: offset_choice)+,
        (rule num6 num8 num13; use assms True in simp))+
  next
    case False
    consider "off < 64" | "\<not> off < 64" "off < 320" | "\<not> off < 64" "\<not> off < 320" "off < 2368"
      | "\<not> off < 64" "\<not> off < 320" "\<not> off < 2368" by blast
    then show ?thesis
      unfolding rdp_bulk_mppc_read_offset_def [abs_def] offset_code_def append_Cons append_Nil
      using False
      by cases ((simp only: offset_choice)?, (rule decodes_True decodes_False | simp only: offset_choice)+,
        (rule num6 num8 num11 num16; use assms False in simp))+
  qed
qed

lemma decodes_length:
  "3 \<le> n \<Longrightarrow> n < (if level \<noteq> 0 then 65536 else 8192) \<Longrightarrow>
    decodes (rdp_bulk_mppc_read_length level) (length_code n) (of_nat n)"
  unfolding decodes_def using read_length_code by blast

section \<open>The history window\<close>

definition mppc_size :: "u8 \<Rightarrow> nat" where
  "mppc_size level = (if level \<noteq> 0 then 65536 else 8192)"

text \<open>The decoder's state holds a window: the bytes written since the history was last moved to the front.\<close>

definition mppc_window :: "u8 \<Rightarrow> rdp_bulk_mppc_state \<Rightarrow> u8 list \<Rightarrow> bool" where
  "mppc_window level st w \<longleftrightarrow> ms_level st = level \<and> ms_history_size st = mppc_size level \<and>
     ms_write_offset st = length w \<and> length w \<le> mppc_size level \<and>
     (\<exists>h. ms_history st = Some h \<and> length h = mppc_size level \<and> take (length w) h = w)"

lemma take_Suc_update: "k < length h \<Longrightarrow> take (Suc k) (h[k := v]) = take k h @ [v]"
  by (simp add: take_Suc_conv_app_nth)

lemma window_put:
  assumes "mppc_window level st w" "length w < mppc_size level"
  shows "mppc_window level (put_history v st) (w @ [v])"
  using assms by (auto simp: mppc_window_def put_history_def take_Suc_update)

lemma copy_loop_lz:
  "length w + n \<le> length h \<Longrightarrow> take (length w) h = w \<Longrightarrow> 0 < off \<Longrightarrow> off \<le> length w \<Longrightarrow>
    take (length w + n) (copy_loop n (length w - off) (length w) h) = lz_copy n off w \<and>
    length (copy_loop n (length w - off) (length w) h) = length h"
proof (induction n arbitrary: w h)
  case (Suc n)
  let ?v = "h ! (length w - off)" and ?w = "w @ [w ! (length w - off)]"
  have v: "?v = w ! (length w - off)" using Suc.prems by (metis diff_less length_greater_0_conv nth_take order_less_le_trans)
  have "take (length ?w) (h[length w := ?v]) = ?w"
    using Suc.prems v by (simp add: take_Suc_update)
  from Suc.IH [OF _ this, of] Suc.prems show ?case by (simp add: Suc_diff_le v)
qed simp

lemma length_lz_copy [simp]: "length (lz_copy n off w) = length w + n"
  by (induction n arbitrary: w) auto

lemma and_history_mask: "(k :: nat) AND 0xffff = k mod 65536" "k AND 0x1fff = k mod 8192"
proof -
  have "k AND 0xffff = take_bit 16 k" "k AND 0x1fff = take_bit 13 k"
    by (simp_all add: take_bit_eq_mask mask_eq_exp_minus_1)
  then show "k AND 0xffff = k mod 65536" "k AND 0x1fff = k mod 8192"
    by (simp_all add: take_bit_eq_mod)
qed

lemma window_copy:
  assumes w: "mppc_window level st w" and off: "0 < off" "off \<le> length w"
    and n: "3 \<le> n" "length w + n \<le> mppc_size level"
  obtains st' where "rdp_bulk_mppc_copy_match (of_nat off) (of_nat n) st = (LIBRDP_STATUS_OK, st')"
    "mppc_window level st' (lz_copy n off w)"
proof -
  obtain h where h: "ms_history st = Some h" "length h = mppc_size level" "take (length w) h = w"
    and st: "ms_level st = level" "ms_history_size st = mppc_size level" "ms_write_offset st = length w"
    using w by (auto simp: mppc_window_def)
  have sz: "mppc_size level \<le> 65536" by (simp add: mppc_size_def)
  have un: "unat (of_nat off :: u32) = off" "unat (of_nat n :: u32) = n"
    using off n sz by (auto intro!: unat_of_nat_u32)
  then have nz: "(of_nat n :: u32) \<noteq> 0" using n by (metis not_numeral_le_zero unat_0)
  have "off \<le> length w" "length w \<le> 65536" using off n sz by simp_all
  then have "length w + 2 ^ 64 - off = (length w - off) + 2 ^ 64" "length w - off < 2 ^ 64" by simp_all
  then have d: "(length w + 2 ^ 64 - off) mod 2 ^ 64 = length w - off" by (metis mod_add_self2 mod_less)
  have lt: "length w - off < mppc_size level" using off n by simp
  then have mask: "(length w - off) AND (if level \<noteq> 0 then 0xffff else 0x1fff) = length w - off"
    by (simp add: mppc_size_def and_history_mask split: if_splits)
  define h' where "h' = copy_loop n (length w - off) (length w) h"
  have c: "take (length w + n) h' = lz_copy n off w" "length h' = length h"
    using copy_loop_lz [of w n h off] h off n by (simp_all add: h'_def)
  have "rdp_bulk_mppc_copy_match (of_nat off) (of_nat n) st = (LIBRDP_STATUS_OK,
      st\<lparr>ms_history := Some h', ms_write_offset := length w + n\<rparr>)"
    unfolding rdp_bulk_mppc_copy_match_def h(1) option.case st un d Let_def mask
    using nz lt n off by (auto simp: h'_def)
  moreover have "mppc_window level (st\<lparr>ms_history := Some h', ms_write_offset := length w + n\<rparr>) (lz_copy n off w)"
    using c h st n by (simp add: mppc_window_def)
  ultimately show ?thesis by (rule that)
qed

section \<open>Decoding\<close>

lemma bits_of_byte_value [simp]: "(ucast (ucast (v :: u8) :: u32) :: u8) = v"
  by (rule bit_word_eqI) (auto simp: bit_simps)

lemma round_literal:
  assumes w: "mppc_window level st w" "length w < mppc_size level"
    and r: "reader_ok r" "unread r = literal_code v @ rest"
  shows "mppc_round (st, r) = Inr (put_history v st, r\<lparr>br_bit := br_bit r + length (literal_code v)\<rparr>)"
proof (cases "unat v < 128")
  case True
  then have c: "literal_code v = [False] @ num_bits 7 (of_nat (unat v))" by (simp add: literal_code_def)
  note r1 = decodesD [OF decodes_bit r(1) r(2) [unfolded c append.assoc]]
  have "unat (of_nat (unat v) :: u32) < 2 ^ 7" using True by (subst unat_of_nat_u32) auto
  note r2 = decodesD(1) [OF decodes_num [OF _ this] r1(2,3)]
  show ?thesis
    using r1(1) r2 w by (simp add: mppc_round_def mppc_window_def bits_of_byte_value c)
next
  case False
  then have c: "literal_code v = [True] @ [False] @ num_bits 7 (of_nat (unat v - 128))" by (simp add: literal_code_def)
  note r1 = decodesD [OF decodes_bit r(1) r(2) [unfolded c append.assoc]]
  note r2 = decodesD [OF decodes_bit r1(2,3)]
  have "unat v < 256" using unat_bounds(1) [of v] by simp
  then have "unat (of_nat (unat v - 128) :: u32) < 2 ^ 7" using False by (subst unat_of_nat_u32) auto
  note r3 = decodesD(1) [OF decodes_num [OF _ this] r2(2,3)]
  have "(0x80 :: u32) + of_nat (unat v - 128) = of_nat (128 + (unat v - 128))" by simp
  then have "(0x80 :: u32) + of_nat (unat v - 128) = of_nat (unat v)" using False by simp
  then show ?thesis
    using r1(1) r2(1) r3 w by (simp add: mppc_round_def mppc_window_def bits_of_byte_value c)
qed

lemma round_match:
  assumes w: "mppc_window level st w" "length w < mppc_size level"
    and off: "0 < off" "off \<le> length w" and n: "3 \<le> n" "length w + n \<le> mppc_size level"
    and r: "reader_ok r" "unread r = offset_code level off @ length_code n @ rest"
  obtains st' where "mppc_round (st, r) =
      Inr (st', r\<lparr>br_bit := br_bit r + length (offset_code level off @ length_code n)\<rparr>)"
    "mppc_window level st' (lz_copy n off w)"
proof -
  have lim: "off < (if level \<noteq> 0 then 65536 else 8192)" "n < (if level \<noteq> 0 then 65536 else 8192)"
    using w(2) off n by (auto simp: mppc_size_def split: if_splits)
  have "take 2 (offset_code level off) = [True, True]" by (simp add: offset_code_def)
  then obtain c where "offset_code level off = [True] @ [True] @ c"
    by (metis append_Cons append_Nil append_take_drop_id)
  then have u: "unread r = [True] @ [True] @ c @ length_code n @ rest" using r(2) by simp
  note r1 = decodesD [OF decodes_bit r(1) u]
  note r2 = decodesD [OF decodes_bit r1(2,3)]
  note r3 = decodesD [OF decodes_offset [OF lim(1)] r]
  note r4 = decodesD(1) [OF decodes_length [OF n(1) lim(2)] r3(2,3)]
  obtain st' where c: "rdp_bulk_mppc_copy_match (of_nat off) (of_nat n) st = (LIBRDP_STATUS_OK, st')"
    "mppc_window level st' (lz_copy n off w)"
    by (rule window_copy [OF w(1) off n])
  have "mppc_round (st, r) = Inr (st', r\<lparr>br_bit := br_bit r + length (offset_code level off @ length_code n)\<rparr>)"
    using w r1(1) r2(1) r3(1) r4 c(1) by (simp add: mppc_round_def mppc_window_def add.assoc)
  then show ?thesis using c(2) that by blast
qed

lemma token_code_long: "8 \<le> length (token_code level t)"
  by (cases t) (auto simp: literal_code_def offset_code_def)

lemma loop_tokens:
  "mppc_window level st w \<Longrightarrow> tokens_fit (mppc_size level) w ts \<Longrightarrow> reader_ok r \<Longrightarrow>
    unread r = concat (map (token_code level) ts) @ pad \<Longrightarrow> length pad < 8 \<Longrightarrow>
    \<exists>st'. mppc_loop (st, r) = (LIBRDP_STATUS_OK, st') \<and> mppc_window level st' (lz_expand w ts)"
proof (induction ts arbitrary: st w r)
  case Nil
  then have "rdp_bulk_bits_remaining r < 8" by (simp add: bits_remaining_unread)
  with Nil show ?case by (subst mppc_loop.simps) (simp add: lz_expand_def)
next
  case (Cons t ts)
  have rem: "8 \<le> rdp_bulk_bits_remaining r"
    using Cons.prems(3,4) token_code_long [of level t] by (simp add: bits_remaining_unread)
  have u: "unread r = token_code level t @ (concat (map (token_code level) ts) @ pad)" using Cons.prems(4) by simp
  have "\<exists>st'. mppc_round (st, r) = Inr (st', r\<lparr>br_bit := br_bit r + length (token_code level t)\<rparr>) \<and>
      mppc_window level st' (lz_step t w)"
  proof (cases t)
    case (Literal v)
    with Cons.prems round_literal [OF Cons.prems(1) _ Cons.prems(3), of v] window_put [OF Cons.prems(1)] u
    show ?thesis by auto
  next
    case (Match off n)
    with Cons.prems(2) have m: "length w < mppc_size level" "0 < off" "off \<le> length w" "3 \<le> n" "length w + n \<le> mppc_size level"
      by auto
    have "unread r = offset_code level off @ length_code n @ (concat (map (token_code level) ts) @ pad)"
      using u Match by simp
    from round_match [OF Cons.prems(1) m Cons.prems(3) this] Match show ?thesis by (metis lz_step.simps(2) token_code.simps(2))
  qed
  then obtain st' where 1: "mppc_round (st, r) = Inr (st', r\<lparr>br_bit := br_bit r + length (token_code level t)\<rparr>)"
    "mppc_window level st' (lz_step t w)" by blast
  have "\<exists>st2. mppc_loop (st', r\<lparr>br_bit := br_bit r + length (token_code level t)\<rparr>) = (LIBRDP_STATUS_OK, st2) \<and>
      mppc_window level st2 (lz_expand (lz_step t w) ts)"
    by (rule Cons.IH [OF 1(2)])
      (use Cons.prems u in \<open>auto simp: reader_ok_advance unread_advance\<close>)
  then show ?case using 1(1) rem by (subst mppc_loop.simps) (simp add: lz_expand_def)
qed

lemma lz_copy_prefix: "\<exists>out. lz_copy n off w = w @ out"
  by (induction n arbitrary: w) (fastforce, metis append.assoc lz_copy.simps(2))

lemma lz_expand_prefix: "\<exists>out. lz_expand w ts = w @ out"
proof (induction ts arbitrary: w)
  case (Cons t ts)
  have "\<exists>o1. lz_step t w = w @ o1" using lz_copy_prefix by (cases t) auto
  then obtain o1 where "lz_step t w = w @ o1" by blast
  moreover obtain o2 where "lz_expand (lz_step t w) ts = lz_step t w @ o2" using Cons.IH by blast
  ultimately show ?case by (simp add: lz_expand_def)
qed (simp add: lz_expand_def)

text \<open>The states before the first packet and between packets.\<close>

definition mppc_ready :: "u8 \<Rightarrow> rdp_bulk_mppc_state \<Rightarrow> u8 list \<Rightarrow> bool" where
  "mppc_ready level st w \<longleftrightarrow> mppc_window level st w \<or> st = rdp_bulk_mppc_state_init level \<and> w = []"

lemma ensure_ready:
  assumes "mppc_ready level st w"
  obtains st' where "rdp_bulk_mppc_state_ensure (st, []) = (LIBRDP_STATUS_OK, st', [])" "mppc_window level st' w"
  using assms unfolding mppc_ready_def
proof
  assume "mppc_window level st w"
  then show ?thesis
    using that [of st] by (auto simp: rdp_bulk_mppc_state_ensure_def mppc_window_def mppc_size_def)
next
  assume "st = rdp_bulk_mppc_state_init level \<and> w = []"
  then show ?thesis
    using that [of "st\<lparr>ms_history := Some (replicate (mppc_size level) 0)\<rparr>"]
    by (simp add: rdp_bulk_mppc_state_ensure_def rdp_bulk_mppc_state_init_def mppc_window_def mppc_size_def)
qed

lemma window_reset: "mppc_window level st w \<Longrightarrow> mppc_window level (rdp_bulk_mppc_state_reset clear st) []"
  by (auto simp: mppc_window_def rdp_bulk_mppc_state_reset_def)

definition mppc_start :: "u8 \<Rightarrow> u8 list \<Rightarrow> u8 list" where
  "mppc_start flags w =
     (if flags AND RDP_BULK_PACKET_AT_FRONT \<noteq> 0 \<or> flags AND RDP_BULK_PACKET_FLUSHED \<noteq> 0 then [] else w)"

lemma copy_loop_keeps:
  "k \<le> dst \<Longrightarrow> take k (copy_loop n src dst h) = take k h \<and> length (copy_loop n src dst h) = length h"
  by (induction n arbitrary: src dst h) simp_all

lemma window_copy_any:
  assumes "mppc_window level st w" and "rdp_bulk_mppc_copy_match off n st = (s, st')"
  shows "s = LIBRDP_STATUS_OK \<and> (\<exists>out. mppc_window level st' (w @ out)) \<or>
    s = LIBRDP_STATUS_PROTOCOL_ERROR \<and> st' = st"
proof (cases "s = LIBRDP_STATUS_OK")
  case True
  obtain h where h: "ms_history st = Some h" "length h = mppc_size level" "take (length w) h = w"
    using assms(1) by (auto simp: mppc_window_def)
  from assms(2) True h(1) obtain src where
    st': "st' = st\<lparr>ms_history := Some (copy_loop (unat n) src (ms_write_offset st) h),
        ms_write_offset := ms_write_offset st + unat n\<rparr>" "unat n \<le> ms_history_size st - ms_write_offset st"
    by (auto simp: rdp_bulk_mppc_copy_match_def Let_def split: if_splits)
  define h' where "h' = copy_loop (unat n) src (length w) h"
  have k: "take (length w) h' = w" "length h' = mppc_size level"
    using copy_loop_keeps [of "length w" "length w" "unat n" src h] h by (simp_all add: h'_def)
  have "mppc_window level st' (w @ take (unat n) (drop (length w) h'))"
    using assms(1) st' k h by (auto simp: mppc_window_def h'_def [symmetric] min_def) (metis append_take_drop_id take_add)+
  with True show ?thesis by blast
next
  case False
  with assms(2) show ?thesis
    by (auto simp: rdp_bulk_mppc_copy_match_def Let_def split: option.splits if_splits)
qed

lemma window_round_any:
  assumes w: "mppc_window level st w"
  shows "mppc_round (st, r) = Inr (st', r') \<Longrightarrow> \<exists>out. mppc_window level st' (w @ out)"
    and "mppc_round (st, r) = Inl (e, st') \<Longrightarrow> st' = st \<and> e \<noteq> LIBRDP_STATUS_OK"
proof -
  have lt: "ms_write_offset st < ms_history_size st \<Longrightarrow> length w < mppc_size level"
    using w by (simp add: mppc_window_def)
  have put: "ms_write_offset st < ms_history_size st \<Longrightarrow> \<exists>out. mppc_window level (put_history v st) (w @ out)" for v
    using window_put [OF w lt] by blast
  have copy: "rdp_bulk_mppc_copy_match off n st = (LIBRDP_STATUS_OK, st1) \<Longrightarrow> \<exists>out. mppc_window level st1 (w @ out)"
    for off n st1 using window_copy_any [OF w] by blast
  have fail: "rdp_bulk_mppc_copy_match off n st = (s, st1) \<Longrightarrow> s \<noteq> LIBRDP_STATUS_OK \<Longrightarrow> st1 = st" for off n s st1
    using window_copy_any [OF w] by blast
  show "mppc_round (st, r) = Inr (st', r') \<Longrightarrow> \<exists>out. mppc_window level st' (w @ out)"
    using put copy by (auto simp: mppc_round_def not_le split: if_splits sum.splits prod.splits)
  have ne: "rdp_bulk_read_bits n r \<noteq> Inl LIBRDP_STATUS_OK" for n r by (simp add: rdp_bulk_read_bits_def)
  have ne2: "rdp_bulk_mppc_read_offset l r \<noteq> Inl LIBRDP_STATUS_OK" for l r
    by (auto simp: rdp_bulk_mppc_read_offset_def pbind_def Let_def ne split: sum.splits prod.splits)
  have "rdp_bulk_read_prefixed_value t r \<noteq> Inl LIBRDP_STATUS_OK" for t r
    by (induction t r rule: rdp_bulk_read_prefixed_value.induct) (auto simp: pbind_def split: sum.splits prod.splits)
  then have ne3: "rdp_bulk_mppc_read_length l r \<noteq> Inl LIBRDP_STATUS_OK" for l r
    by (simp add: rdp_bulk_mppc_read_length_def)
  show "mppc_round (st, r) = Inl (e, st') \<Longrightarrow> st' = st \<and> e \<noteq> LIBRDP_STATUS_OK"
    using fail ne ne2 ne3 by (auto simp: mppc_round_def split: if_splits sum.splits prod.splits)
qed

lemma window_loop_any:
  "mppc_window level st w \<Longrightarrow> mppc_loop (st, r) = (s, st') \<Longrightarrow> \<exists>out. mppc_window level st' (w @ out)"
proof (induction "(st, r)" arbitrary: st r w rule: mppc_loop.induct)
  case (1 st r)
  show ?case
  proof (cases "rdp_bulk_bits_remaining r \<ge> 8")
    case True
    show ?thesis
    proof (cases "mppc_round (st, r)")
      case (Inl a)
      obtain e st1 where a: "a = (e, st1)" by (rule prod.exhaust)
      with Inl "1.prems" True window_round_any(2) [OF "1.prems"(1), of r e st1] show ?thesis
        by (subst (asm) mppc_loop.simps) (auto intro: exI [of _ "[]"])
    next
      case (Inr a)
      obtain st1 r1 where a: "a = (st1, r1)" by (rule prod.exhaust)
      from window_round_any(1) [OF "1.prems"(1) Inr [unfolded a]] obtain out where
        w1: "mppc_window level st1 (w @ out)" by blast
      have "mppc_loop (st1, r1) = (s, st')" using "1.prems"(2) True Inr a by (subst (asm) mppc_loop.simps) simp
      from "1.hyps" [OF True Inr a [symmetric] w1 this] show ?thesis by (metis append.assoc)
    qed
  next
    case False
    with "1.prems" show ?thesis by (subst (asm) mppc_loop.simps) (auto intro: exI [of _ "[]"])
  qed
qed

lemma append_atomic:
  assumes "buf_ok b" and "rdp_buffer_append bs (b, m) = (s, b', m')"
  shows "buf_ok b'" and "contents b' = contents b @ (if s = LIBRDP_STATUS_OK then bs else [])"
  using append_from_spec [OF assms(1) source_ok_Outside assms(2) [unfolded rdp_buffer_append_def]] by (auto split: if_splits)

lemma init_size: "rdp_bulk_mppc_state_init level = \<lparr>ms_history = None, ms_history_size = mppc_size level, ms_write_offset = 0, ms_level = level\<rparr>"
  by (simp add: rdp_bulk_mppc_state_init_def mppc_size_def)

lemma mppc_size_pos [simp]: "mppc_size level \<noteq> 0"
  by (simp add: mppc_size_def)

lemma ensure_window:
  assumes "mppc_ready level st w" and "rdp_bulk_mppc_state_ensure (st, m) = (s, st1, m1)"
  shows "s = LIBRDP_STATUS_OK \<Longrightarrow> mppc_window level st1 w" and "s \<noteq> LIBRDP_STATUS_OK \<Longrightarrow> st1 = st"
proof -
  have "(s = LIBRDP_STATUS_OK \<longrightarrow> mppc_window level st1 w) \<and> (s \<noteq> LIBRDP_STATUS_OK \<longrightarrow> st1 = st)"
    using assms(1) unfolding mppc_ready_def
  proof
    assume w: "mppc_window level st w"
    then obtain h where "ms_history st = Some h" "ms_history_size st = mppc_size level" by (auto simp: mppc_window_def)
    with assms(2) w show ?thesis by (simp add: rdp_bulk_mppc_state_ensure_def)
  next
    assume i: "st = rdp_bulk_mppc_state_init level \<and> w = []"
    obtain a m2 where a: "alloc m = (a, m2)" by (rule prod.exhaust)
    show ?thesis
      using assms(2) i a by (cases a) (auto simp: rdp_bulk_mppc_state_ensure_def init_size mppc_window_def)
  qed
  then show "s = LIBRDP_STATUS_OK \<Longrightarrow> mppc_window level st1 w" and "s \<noteq> LIBRDP_STATUS_OK \<Longrightarrow> st1 = st" by auto
qed

lemma window_rewind:
  "mppc_window level st (w @ out) \<Longrightarrow> mppc_window level (st\<lparr>ms_write_offset := length w\<rparr>) w"
  by (auto simp: mppc_window_def dest: arg_cong [where f = "take (length w)"])

section \<open>Properties\<close>

text \<open>
  C13. MPPC decoding inverts the encoding. Take a decoder whose history holds a window, or a fresh one, and
  a packet whose bits are the MPPC codes of a sequence of literals and matches that refer into the
  window and fit into the history, followed by less than a byte of padding. The decoder terminates, appends to the
  output exactly the LZ77 expansion of the sequence, and its window is extended by it; the flags AT_FRONT and
  FLUSHED start with an empty window.
\<close>

theorem mppc_decodes_lz77:
  assumes st: "mppc_ready level st w" and flags: "flags AND RDP_BULK_PACKET_COMPRESSED \<noteq> 0"
    and fit: "tokens_fit (mppc_size level) (mppc_start flags w) ts"
    and bits: "packet_bits data = concat (map (token_code level) ts) @ pad" "length pad < 8"
    and len: "length data \<le> SIZE_MAX div 8" and buf: "buf_ok b" "buf_length b \<le> 2 ^ 62"
  shows "\<exists>st' b' out. rdp_bulk_mppc_decompress flags data (st, b, []) = (LIBRDP_STATUS_OK, st', b', []) \<and>
    lz_expand (mppc_start flags w) ts = mppc_start flags w @ out \<and>
    buf_ok b' \<and> contents b' = contents b @ out \<and> mppc_window level st' (mppc_start flags w @ out)"
proof -
  let ?w = "mppc_start flags w"
  obtain st1 where st1: "rdp_bulk_mppc_state_ensure (st, []) = (LIBRDP_STATUS_OK, st1, [])" "mppc_window level st1 w"
    by (rule ensure_ready [OF st])
  define st2 where "st2 = (if flags AND RDP_BULK_PACKET_AT_FRONT \<noteq> 0 then rdp_bulk_mppc_state_reset False st1 else st1)"
  define st3 where "st3 = (if flags AND RDP_BULK_PACKET_FLUSHED \<noteq> 0 then rdp_bulk_mppc_state_reset True st2 else st2)"
  have win: "mppc_window level st3 ?w"
    using st1(2) by (auto simp: st2_def st3_def mppc_start_def intro!: window_reset)
  let ?r = "\<lparr>br_data = data, br_bit = 0\<rparr>"
  have "reader_ok ?r" "unread ?r = concat (map (token_code level) ts) @ pad"
    using len bits by (simp_all add: reader_ok_def unread_def)
  from loop_tokens [OF win fit this bits(2)] obtain st4 where
    l: "mppc_loop (st3, ?r) = (LIBRDP_STATUS_OK, st4)" "mppc_window level st4 (lz_expand ?w ts)" by blast
  obtain out where out: "lz_expand ?w ts = ?w @ out" using lz_expand_prefix by blast
  have new: "take (ms_write_offset st4 - ms_write_offset st3) (drop (ms_write_offset st3) (the (ms_history st4))) = out"
    using l(2) win out by (auto simp: mppc_window_def take_drop add.commute)
  have "length out \<le> 65536" using l(2) out by (auto simp: mppc_window_def mppc_size_def split: if_splits)
  then have "buf_length b + length out \<le> 2 ^ 63" using buf(2) by simp
  obtain stt b' m' where a: "rdp_buffer_append out (b, []) = (stt, b', m')" by (rule prod_cases3)
  note e = emitsD [OF emits_append buf(1) a]
  have ok: "stt = LIBRDP_STATUS_OK" "m' = []" using e(5) \<open>buf_length b + length out \<le> 2 ^ 63\<close> by simp_all
  have "rdp_bulk_mppc_decompress flags data (st, b, []) = (LIBRDP_STATUS_OK, st4, b', [])"
    unfolding rdp_bulk_mppc_decompress_def prod.case st1(1) Let_def
    by (fold st2_def, fold st3_def) (use flags l(1) new a ok in simp)
  with out e(1,2) ok l(2) show ?thesis by auto
qed

theorem mppc_decodes_lz77_witness:
  "\<exists>st' b'. rdp_bulk_mppc_decompress 0x60 [0x30, 0xf0, 0x40] (rdp_bulk_mppc_state_init 0, rdp_buffer_init, []) =
      (LIBRDP_STATUS_OK, st', b', []) \<and> contents b' = [0x30, 0x30, 0x30, 0x30]"
proof -
  have fit: "tokens_fit (mppc_size 0) (mppc_start 0x60 []) [Literal 0x30, Match 1 3]"
    by (simp add: mppc_start_def mppc_size_def)
  have bits: "packet_bits [0x30, 0xf0, 0x40] =
      concat (map (token_code 0) [Literal 0x30, Match 1 3]) @ [False, False, False, False, False]"
    by code_simp
  have rd: "mppc_ready 0 (rdp_bulk_mppc_state_init 0) []" by (simp add: mppc_ready_def)
  have "lz_expand [] [Literal 0x30, Match 1 3] = [0x30, 0x30, 0x30, 0x30]" by code_simp
  then show ?thesis using mppc_decodes_lz77 [OF rd _ fit bits _ _ buf_ok_init]
    by (auto simp: mppc_start_def RDP_BULK_PACKET_COMPRESSED_def RDP_BULK_PACKET_AT_FRONT_def SIZE_MAX_def)
qed

text \<open>
  C35. MPPC decoding is safe on every packet. Whatever the flags, the packet and the heap do, the decoder leaves a
  history that again holds a window, so that the next packet finds a well-formed state; the output is
  only ever appended to. When the packet is rejected the output is unchanged; when it is accepted the bytes
  handed to the caller are exactly those by which the window grew (a packet sent uncompressed leaves the
  window alone).
\<close>

theorem mppc_decompress_safe:
  assumes st: "mppc_ready level st w" and buf: "buf_ok b"
    and res: "rdp_bulk_mppc_decompress flags data (st, b, m) = (s, st', b', m')"
  shows "buf_ok b' \<and>
    (s = LIBRDP_STATUS_OK \<longrightarrow> (\<exists>out. contents b' = contents b @ out \<and>
       mppc_window level st' (mppc_start flags w @ (if flags AND RDP_BULK_PACKET_COMPRESSED = 0 then [] else out)))) \<and>
    (s \<noteq> LIBRDP_STATUS_OK \<longrightarrow> contents b' = contents b \<and> (\<exists>w'. mppc_ready level st' w'))"
proof -
  obtain s1 st1 m1 where 1: "rdp_bulk_mppc_state_ensure (st, m) = (s1, st1, m1)" by (rule prod_cases3)
  define st2 where "st2 = (if flags AND RDP_BULK_PACKET_AT_FRONT \<noteq> 0 then rdp_bulk_mppc_state_reset False st1 else st1)"
  define st3 where "st3 = (if flags AND RDP_BULK_PACKET_FLUSHED \<noteq> 0 then rdp_bulk_mppc_state_reset True st2 else st2)"
  let ?w = "mppc_start flags w"
  show ?thesis
  proof (cases "s1 = LIBRDP_STATUS_OK")
    case False
    with res 1 ensure_window(2) [OF st 1] st buf show ?thesis by (auto simp: rdp_bulk_mppc_decompress_def)
  next
    case True
    have win: "mppc_window level st3 ?w"
      using ensure_window(1) [OF st 1 True] by (auto simp: st2_def st3_def mppc_start_def intro!: window_reset)
    show ?thesis
    proof (cases "flags AND RDP_BULK_PACKET_COMPRESSED = 0")
      case c: True
      obtain s4 b4 m4 where a: "rdp_buffer_append data (b, m1) = (s4, b4, m4)" by (rule prod_cases3)
      have "s = s4" "st' = st3" "b' = b4"
        using res unfolding rdp_bulk_mppc_decompress_def prod.case 1 Let_def
        by (fold st2_def, fold st3_def) (simp_all add: True c a)
      with append_atomic [OF buf a] win c show ?thesis by (auto simp: mppc_ready_def)
    next
      case c: False
      obtain s4 st4 where l: "mppc_loop (st3, \<lparr>br_data = data, br_bit = 0\<rparr>) = (s4, st4)" by (rule prod.exhaust)
      obtain out where out: "mppc_window level st4 (?w @ out)" using window_loop_any [OF win l] by blast
      have off: "ms_write_offset st3 = length ?w" using win by (simp add: mppc_window_def)
      have new: "take (ms_write_offset st4 - length ?w) (drop (length ?w) (the (ms_history st4))) = out"
        using out by (auto simp: mppc_window_def take_drop add.commute)
      show ?thesis
      proof (cases "s4 = LIBRDP_STATUS_OK")
        case False
        then have "s = s4" "st' = st4\<lparr>ms_write_offset := length ?w\<rparr>" "b' = b"
          using res unfolding rdp_bulk_mppc_decompress_def prod.case 1 Let_def
          by (fold st2_def, fold st3_def) (simp_all add: True c l off)
        with False window_rewind [OF out] buf show ?thesis by (auto simp: mppc_ready_def)
      next
        case ok: True
        obtain s5 b5 m5 where a: "rdp_buffer_append out (b, m1) = (s5, b5, m5)" by (rule prod_cases3)
        have "s = s5" "st' = st4" "b' = b5"
          using res unfolding rdp_bulk_mppc_decompress_def prod.case 1 Let_def
          by (fold st2_def, fold st3_def) (simp_all add: True c l off ok new a)
        with append_atomic [OF buf a] out c show ?thesis by (auto simp: mppc_ready_def)
      qed
    qed
  qed
qed

theorem mppc_decompress_safe_witness:
  "\<exists>s st' b' m'. rdp_bulk_mppc_decompress 0x20 [0xff, 0xff, 0xff, 0xff, 0xff] (rdp_bulk_mppc_state_init 1, rdp_buffer_init, []) = (s, st', b', m') \<and>
     (s = LIBRDP_STATUS_OK \<or> contents b' = [])"
proof -
  obtain s st' b' m' where 1: "rdp_bulk_mppc_decompress 0x20 [0xff, 0xff, 0xff, 0xff, 0xff]
      (rdp_bulk_mppc_state_init 1, rdp_buffer_init, []) = (s, st', b', m')" by (rule prod_cases4)
  have rd: "mppc_ready 1 (rdp_bulk_mppc_state_init 1) []" by (simp add: mppc_ready_def)
  from mppc_decompress_safe [OF rd buf_ok_init 1] 1 show ?thesis by auto
qed

end
