(* ===== verification/Gcc.thy ===== *)
theory Gcc
  imports Mcs X224
begin

text \<open>
  GCC conference data, \<^verbatim>\<open>src/src/protocol/gcc.c\<close>: the conference create request and response that MCS
  carries, and the client and server data blocks inside them (desktop geometry, security, channels, message
  channel, multitransport). The writers build the blocks of a configuration; the parsers fold a block
  list into a summary and skip unknown blocks.

  For every configuration the writers accept, the parser recovers all of it (\<open>client_view\<close>,
  \<open>server_view\<close>). The fixed arrays of 64 channels are lists of that length.
\<close>

section \<open>Types and constants\<close>

abbreviation "RDP_GCC_CS_CORE \<equiv> (0xc001 :: u16)"
abbreviation "RDP_GCC_CS_SECURITY \<equiv> (0xc002 :: u16)"
abbreviation "RDP_GCC_CS_NETWORK \<equiv> (0xc003 :: u16)"
abbreviation "RDP_GCC_CS_CLUSTER \<equiv> (0xc004 :: u16)"
abbreviation "RDP_GCC_CS_MCS_MSGCHANNEL \<equiv> (0xc006 :: u16)"
abbreviation "RDP_GCC_CS_MULTITRANSPORT \<equiv> (0xc00a :: u16)"
abbreviation "RDP_GCC_SC_CORE \<equiv> (0x0c01 :: u16)"
abbreviation "RDP_GCC_SC_SECURITY \<equiv> (0x0c02 :: u16)"
abbreviation "RDP_GCC_SC_NETWORK \<equiv> (0x0c03 :: u16)"
abbreviation "RDP_GCC_SC_MCS_MSGCHANNEL \<equiv> (0x0c04 :: u16)"
abbreviation "RDP_GCC_SC_MULTITRANSPORT \<equiv> (0x0c08 :: u16)"
abbreviation "RDP_GCC_MAX_SERVER_CHANNELS \<equiv> (64 :: nat)"

definition RDP_GCC_CLIENT_VERSION_5 :: u32 where "RDP_GCC_CLIENT_VERSION_5 = 0x00080004"
definition RDP_GCC_EARLY_SUPPORT_ERRINFO :: u16 where "RDP_GCC_EARLY_SUPPORT_ERRINFO = 0x0001"
definition RDP_GCC_SERVER_EARLY_KNOWN_FLAGS :: u32 where "RDP_GCC_SERVER_EARLY_KNOWN_FLAGS = 0x0000000f"
definition RDP_GCC_CONNECTION_TYPE_LAN :: u8 where "RDP_GCC_CONNECTION_TYPE_LAN = 0x06"
definition RDP_GCC_SUPPORTED_COLOR_DEPTHS_LEGACY :: u16 where "RDP_GCC_SUPPORTED_COLOR_DEPTHS_LEGACY = 0x0007"
definition RDP_GCC_MULTITRANSPORT_UDP_FECR :: u32 where "RDP_GCC_MULTITRANSPORT_UDP_FECR = 0x00000001"
definition RDP_GCC_MULTITRANSPORT_UDP_FECL :: u32 where "RDP_GCC_MULTITRANSPORT_UDP_FECL = 0x00000004"
definition RDP_GCC_MULTITRANSPORT_UDP_PREFERRED :: u32 where "RDP_GCC_MULTITRANSPORT_UDP_PREFERRED = 0x00000100"
definition RDP_GCC_MULTITRANSPORT_CLIENT_KNOWN_FLAGS :: u32 where "RDP_GCC_MULTITRANSPORT_CLIENT_KNOWN_FLAGS = 0x00000305"
definition RDP_GCC_MULTITRANSPORT_SERVER_KNOWN_FLAGS :: u32 where "RDP_GCC_MULTITRANSPORT_SERVER_KNOWN_FLAGS = 0x00000305"
definition RDP_GCC_CLUSTER_REDIRECTION_SUPPORTED :: u32 where "RDP_GCC_CLUSTER_REDIRECTION_SUPPORTED = 0x00000001"
definition RDP_GCC_CLUSTER_REDIRECTED_SESSION_ID_VALID :: u32 where "RDP_GCC_CLUSTER_REDIRECTED_SESSION_ID_VALID = 0x00000002"
definition RDP_GCC_CLUSTER_REDIRECTION_VERSION_MASK :: u32 where "RDP_GCC_CLUSTER_REDIRECTION_VERSION_MASK = 0x0000003c"
definition RDP_GCC_CLUSTER_REDIRECTED_SMARTCARD :: u32 where "RDP_GCC_CLUSTER_REDIRECTED_SMARTCARD = 0x00000040"
definition RDP_GCC_CLUSTER_KNOWN_FLAGS :: u32 where "RDP_GCC_CLUSTER_KNOWN_FLAGS = 0x0000007f"
definition RDP_GCC_REDIRECTION_VERSION_1 :: u8 where "RDP_GCC_REDIRECTION_VERSION_1 = 1"
definition RDP_GCC_REDIRECTION_VERSION_5 :: u8 where "RDP_GCC_REDIRECTION_VERSION_5 = 5"
definition RDP_GCC_REDIRECTION_VERSION_6 :: u8 where "RDP_GCC_REDIRECTION_VERSION_6 = 6"
definition RDP_GCC_CONFERENCE_RESPONSE_LENGTH_HINT :: nat where "RDP_GCC_CONFERENCE_RESPONSE_LENGTH_HINT = 0x2a"
definition RDP_GCC_SERVER_NODE_ID :: u16 where "RDP_GCC_SERVER_NODE_ID = 0x79f3"
definition RDP_GCC_USER_ID_MIN :: u16 where "RDP_GCC_USER_ID_MIN = 1001"
definition RDP_GCC_SERVER_TAG :: u32 where "RDP_GCC_SERVER_TAG = 1"

record rdp_gcc_user_data_block =
  ub_type :: u16
  ub_length :: u16
  ub_payload :: "u8 list"
  ub_payload_len :: nat

record rdp_gcc_channel_definition =
  cd_name :: "u8 list"
  cd_flags :: u32

record rdp_gcc_client_config =
  cc_client_version :: u32
  cc_desktop_width :: u16
  cc_desktop_height :: u16
  cc_requested_protocols :: u32
  cc_early_capability_flags :: u16
  cc_supported_color_depths :: u16
  cc_connection_type :: u8
  cc_desktop_physical_width :: u32
  cc_desktop_physical_height :: u32
  cc_desktop_orientation :: u16
  cc_desktop_scale_factor :: u32
  cc_device_scale_factor :: u32
  cc_client_name :: "u8 list option"
  cc_enable_dynamic_channels :: bool
  cc_enable_clipboard :: bool
  cc_enable_audio_output :: bool
  cc_enable_device_redirection :: bool
  cc_enable_pnp_redirection :: bool
  cc_enable_remote_programs :: bool
  cc_enable_server_redirection :: bool
  cc_server_redirection_version :: u8
  cc_redirected_session_id_valid :: bool
  cc_redirected_smartcard :: bool
  cc_redirected_session_id :: u32
  cc_enable_message_channel :: bool
  cc_message_channel_flags :: u32
  cc_enable_multitransport :: bool
  cc_multitransport_flags :: u32
  cc_extra_channels :: "rdp_gcc_channel_definition list"

record rdp_gcc_client_data_summary =
  cs_has_core :: bool
  cs_has_security :: bool
  cs_has_network :: bool
  cs_desktop_width :: u16
  cs_desktop_height :: u16
  cs_version :: u32
  cs_requested_protocols :: u32
  cs_early_capability_flags :: u16
  cs_supported_color_depths :: u16
  cs_connection_type :: u8
  cs_desktop_physical_width :: u32
  cs_desktop_physical_height :: u32
  cs_has_cluster :: bool
  cs_cluster_flags :: u32
  cs_redirected_session_id :: u32
  cs_channel_count :: u16
  cs_channels :: "rdp_gcc_channel_definition list"
  cs_has_message_channel :: bool
  cs_message_channel_flags :: u32
  cs_has_multitransport :: bool
  cs_multitransport_flags :: u32

record rdp_gcc_conference_response =
  cr_node_id :: u16
  cr_tag :: u32
  cr_result :: u8
  cr_user_data :: "u8 list"
  cr_user_data_len :: nat

record rdp_gcc_conference_request =
  cq_user_data :: "u8 list"
  cq_user_data_len :: nat

record rdp_gcc_server_data =
  sd_has_core :: bool
  sd_has_security :: bool
  sd_has_network :: bool
  sd_version :: u32
  sd_requested_protocols :: u32
  sd_early_capability_flags :: u32
  sd_encryption_method :: u32
  sd_encryption_level :: u32
  sd_server_random :: "u8 list"
  sd_server_random_len :: u32
  sd_server_certificate :: "u8 list"
  sd_server_certificate_len :: u32
  sd_mcs_channel_id :: u16
  sd_channel_count :: u16
  sd_channel_ids :: "u16 list"
  sd_has_message_channel :: bool
  sd_message_channel_id :: u16
  sd_has_multitransport :: bool
  sd_multitransport_flags :: u32

text \<open>The random and the certificate of the server are lists, whose lengths are the length fields.\<close>

record rdp_gcc_server_config =
  sc_version :: u32
  sc_requested_protocols :: u32
  sc_early_capability_flags :: u32
  sc_encryption_method :: u32
  sc_encryption_level :: u32
  sc_server_random :: "u8 list"
  sc_server_certificate :: "u8 list"
  sc_mcs_channel_id :: u16
  sc_channel_count :: u16
  sc_enable_message_channel :: bool
  sc_message_channel_id :: u16
  sc_enable_multitransport :: bool
  sc_multitransport_flags :: u32

section \<open>PER fields\<close>

definition rdp_gcc_write_per_length :: "nat \<Rightarrow> writer" where
  "rdp_gcc_write_per_length n =
     (if n > 0x7fff then reject LIBRDP_STATUS_INVALID_ARGUMENT
      else if n > 0x7f then rdp_buffer_append_u16_be (of_nat n OR 0x8000)
      else rdp_buffer_append_u8 (of_nat n))"

definition rdp_gcc_read_per_length :: "nat reader" where
  "rdp_gcc_read_per_length stream =
     pbind (rdp_stream_read_u8 stream) (\<lambda>(first, stream).
       if first AND 0x80 = 0 then Inr (unat first, stream)
       else
         pbind (rdp_stream_read_u8 stream) (\<lambda>(second, stream).
           Inr (unat (push_bit 8 (ucast (first AND 0x7f) :: u16) OR ucast second), stream)))"

definition rdp_gcc_read_per_integer :: "u32 reader" where
  "rdp_gcc_read_per_integer stream =
     pbind (rdp_gcc_read_per_length stream) (\<lambda>(len, stream).
       if len = 1 then pbind (rdp_stream_read_u8 stream) (\<lambda>(v, stream). Inr (ucast v, stream))
       else if len = 2 then
         pbind (rdp_stream_read_u16_be stream) (\<lambda>(v, stream). Inr (ucast v, stream))
       else if len = 4 then
         pbind (rdp_stream_read_u32_be stream) (\<lambda>(v, stream). Inr (v, stream))
       else protocol_error)"

definition rdp_gcc_write_per_integer :: "u32 \<Rightarrow> writer" where
  "rdp_gcc_write_per_integer v =
     (if v \<le> 0xff then run_writers [rdp_gcc_write_per_length 1, rdp_buffer_append_u8 (ucast v)]
      else if v \<le> 0xffff then run_writers [rdp_gcc_write_per_length 2, rdp_buffer_append_u16_be (ucast v)]
      else run_writers [rdp_gcc_write_per_length 4, rdp_buffer_append_u32_be v])"

definition rdp_gcc_read_per_integer16 :: "u16 \<Rightarrow> u16 reader" where
  "rdp_gcc_read_per_integer16 lo stream =
     pbind (rdp_stream_read_u16_be stream) (\<lambda>(raw, stream).
       let decoded = (ucast raw :: u32) + ucast lo in
       if decoded > 0xffff then protocol_error else Inr (ucast decoded, stream))"

definition rdp_gcc_read_per_octet_string :: "u8 list \<Rightarrow> nat \<Rightarrow> unit reader" where
  "rdp_gcc_read_per_octet_string expected lo stream =
     pbind (rdp_gcc_read_per_length stream) (\<lambda>(len, stream).
     if len + lo \<noteq> length expected then protocol_error
     else
       pbind (rdp_stream_read_bytes (length expected) stream) (\<lambda>(v, stream).
       if v \<noteq> expected then protocol_error else Inr ((), stream)))"

definition rdp_gcc_read_object_identifier :: "u8 list \<Rightarrow> unit reader" where
  "rdp_gcc_read_object_identifier expected stream =
     (if expected = [] then invalid_argument
      else
        pbind (rdp_stream_read_bytes (length expected) stream) (\<lambda>(v, stream).
        if v \<noteq> expected then protocol_error else Inr ((), stream)))"

definition rdp_gcc_write_per_octet_string :: "u8 list \<Rightarrow> nat \<Rightarrow> writer" where
  "rdp_gcc_write_per_octet_string data lo =
     (if length data > 0xffff then reject LIBRDP_STATUS_INVALID_ARGUMENT
      else run_writers
        [rdp_gcc_write_per_length (if length data \<ge> lo then length data - lo else lo),
         rdp_buffer_append data])"

text \<open>The loop over the digits of a numeric string, two to a byte.\<close>

fun write_digits :: "u8 list \<Rightarrow> writer" where
  "write_digits [] = (\<lambda>(b, m). (LIBRDP_STATUS_OK, b, m))"
| "write_digits [c1] =
     (if c1 < 0x30 \<or> c1 > 0x39 then reject LIBRDP_STATUS_INVALID_ARGUMENT
      else rdp_buffer_append_u8 (push_bit 4 (c1 - 0x30)))"
| "write_digits (c1 # c2 # text) =
     (if c1 < 0x30 \<or> c1 > 0x39 \<or> c2 < 0x30 \<or> c2 > 0x39 then reject LIBRDP_STATUS_INVALID_ARGUMENT
      else run_writers [rdp_buffer_append_u8 (push_bit 4 (c1 - 0x30) OR (c2 - 0x30)), write_digits text])"

definition rdp_gcc_write_per_numeric_string :: "u8 list \<Rightarrow> nat \<Rightarrow> writer" where
  "rdp_gcc_write_per_numeric_string text lo =
     run_writers
       [rdp_gcc_write_per_length (if length text \<ge> lo then length text - lo else lo),
        write_digits text]"

section \<open>Client data blocks\<close>

definition rdp_gcc_write_block :: "u16 \<Rightarrow> u8 list \<Rightarrow> writer" where
  "rdp_gcc_write_block type payload =
     (let total = length payload + 4 in
      if total > 0xffff then reject LIBRDP_STATUS_INVALID_ARGUMENT
      else run_writers
        [rdp_buffer_append_u16_le type, rdp_buffer_append_u16_le (of_nat total), rdp_buffer_append payload])"

text \<open>The text is cut at its terminator and at one character less than the field holds.\<close>

definition rdp_gcc_write_utf16le_fixed :: "u8 list \<Rightarrow> nat \<Rightarrow> writer" where
  "rdp_gcc_write_utf16le_fixed text bytes =
     (if bytes mod 2 \<noteq> 0 then reject LIBRDP_STATUS_INVALID_ARGUMENT
      else
        let chars = bytes div 2;
            max_text_chars = (if chars > 0 then chars - 1 else 0);
            text_chars = length (c_string (take max_text_chars text))
        in
        run_writers (map (\<lambda>i. rdp_buffer_append_u16_le (if i < text_chars then ucast (text ! i) else 0)) [0..<chars]))"

definition nonzero :: "'a::zero \<Rightarrow> 'a \<Rightarrow> 'a" where
  "nonzero v d = (if v \<noteq> 0 then v else d)"

definition rdp_gcc_write_client_core :: "rdp_gcc_client_config \<Rightarrow> writer" where
  "rdp_gcc_write_client_core config =
     via_local
       (run_writers
         [rdp_buffer_append_u32_le (nonzero (cc_client_version config) RDP_GCC_CLIENT_VERSION_5),
          rdp_buffer_append_u16_le (cc_desktop_width config),
          rdp_buffer_append_u16_le (cc_desktop_height config),
          rdp_buffer_append_u16_le 0xca01,
          rdp_buffer_append_u16_le 0xaa03,
          rdp_buffer_append_u32_le 0x00000409,
          rdp_buffer_append_u32_le 2600,
          rdp_gcc_write_utf16le_fixed
            (case cc_client_name config of Some name \<Rightarrow> name | None \<Rightarrow> ascii ''librdp'') 32,
          rdp_buffer_append_u32_le 4,
          rdp_buffer_append_u32_le 0,
          rdp_buffer_append_u32_le 12,
          rdp_buffer_append (replicate 64 0),
          rdp_buffer_append_u16_le 0xca01,
          rdp_buffer_append_u16_le 1,
          rdp_buffer_append_u32_le 0,
          rdp_buffer_append_u16_le 0x0018,
          rdp_buffer_append_u16_le (nonzero (cc_supported_color_depths config) RDP_GCC_SUPPORTED_COLOR_DEPTHS_LEGACY),
          rdp_buffer_append_u16_le (nonzero (cc_early_capability_flags config) RDP_GCC_EARLY_SUPPORT_ERRINFO),
          rdp_gcc_write_utf16le_fixed (ascii ''librdp'') 64,
          rdp_buffer_append_u8 (nonzero (cc_connection_type config) RDP_GCC_CONNECTION_TYPE_LAN),
          rdp_buffer_append_u8 0,
          rdp_buffer_append_u32_le (cc_requested_protocols config),
          rdp_buffer_append_u32_le (cc_desktop_physical_width config),
          rdp_buffer_append_u32_le (cc_desktop_physical_height config),
          rdp_buffer_append_u16_le (cc_desktop_orientation config),
          rdp_buffer_append_u32_le (nonzero (cc_desktop_scale_factor config) 100),
          rdp_buffer_append_u32_le (nonzero (cc_device_scale_factor config) 100)])
       (rdp_gcc_write_block RDP_GCC_CS_CORE)"

definition rdp_gcc_write_client_security :: writer where
  "rdp_gcc_write_client_security =
     via_local (run_writers [rdp_buffer_append_u32_le 0x0000000b, rdp_buffer_append_u32_le 0])
       (rdp_gcc_write_block RDP_GCC_CS_SECURITY)"

definition cluster_flags :: "rdp_gcc_client_config \<Rightarrow> u8 \<Rightarrow> u32" where
  "cluster_flags config version =
     (RDP_GCC_CLUSTER_REDIRECTION_SUPPORTED OR
      (push_bit 2 (ucast (version - 1)) AND RDP_GCC_CLUSTER_REDIRECTION_VERSION_MASK)) OR
     (if cc_redirected_session_id_valid config then RDP_GCC_CLUSTER_REDIRECTED_SESSION_ID_VALID else 0) OR
     (if cc_redirected_smartcard config then RDP_GCC_CLUSTER_REDIRECTED_SMARTCARD else 0)"

definition rdp_gcc_write_client_cluster :: "rdp_gcc_client_config \<Rightarrow> writer" where
  "rdp_gcc_write_client_cluster config =
     (let version = nonzero (cc_server_redirection_version config) RDP_GCC_REDIRECTION_VERSION_5 in
      if version < RDP_GCC_REDIRECTION_VERSION_1 \<or> version > RDP_GCC_REDIRECTION_VERSION_6
      then reject LIBRDP_STATUS_INVALID_ARGUMENT
      else
        via_local
          (run_writers
            [rdp_buffer_append_u32_le (cluster_flags config version),
             rdp_buffer_append_u32_le
               (if cc_redirected_session_id_valid config then cc_redirected_session_id config else 0)])
          (rdp_gcc_write_block RDP_GCC_CS_CLUSTER))"

text \<open>The channels of the enabled features, in the order of the network block.\<close>

definition feature_channels :: "rdp_gcc_client_config \<Rightarrow> rdp_gcc_channel_definition list" where
  "feature_channels config =
     (if cc_enable_dynamic_channels config
      then [\<lparr>cd_name = ascii ''drdynvc'' @ [0], cd_flags = 0x80800000\<rparr>] else []) @
     (if cc_enable_clipboard config
      then [\<lparr>cd_name = ascii ''cliprdr'' @ [0], cd_flags = 0xc0a00000\<rparr>] else []) @
     (if cc_enable_audio_output config
      then [\<lparr>cd_name = ascii ''rdpsnd'' @ [0, 0], cd_flags = 0xc0000000\<rparr>] else []) @
     (if cc_enable_device_redirection config
      then [\<lparr>cd_name = ascii ''rdpdr'' @ [0, 0, 0], cd_flags = 0xc0800000\<rparr>] else []) @
     (if cc_enable_pnp_redirection config
      then [\<lparr>cd_name = ascii ''PNPDR'' @ [0, 0, 0], cd_flags = 0xc0800000\<rparr>] else []) @
     (if cc_enable_remote_programs config
      then [\<lparr>cd_name = ascii ''rail'' @ [0, 0, 0, 0], cd_flags = 0xc0800000\<rparr>] else [])"

definition write_channel :: "rdp_gcc_channel_definition \<Rightarrow> writer" where
  "write_channel channel =
     run_writers [rdp_buffer_append (cd_name channel), rdp_buffer_append_u32_le (cd_flags channel)]"

definition rdp_gcc_write_client_network :: "rdp_gcc_client_config \<Rightarrow> writer" where
  "rdp_gcc_write_client_network config =
     (let channel_count = length (feature_channels config);
          extra_channel_count = length (cc_extra_channels config)
      in
      if extra_channel_count > RDP_GCC_MAX_SERVER_CHANNELS \<or>
         channel_count > RDP_GCC_MAX_SERVER_CHANNELS - extra_channel_count
      then reject LIBRDP_STATUS_LIMIT_EXCEEDED
      else
        via_local
          (run_writers
            (rdp_buffer_append_u32_le (of_nat (channel_count + extra_channel_count)) #
             map write_channel (feature_channels config) @
             map write_channel (cc_extra_channels config)))
          (rdp_gcc_write_block RDP_GCC_CS_NETWORK))"

definition rdp_gcc_write_client_multitransport :: "rdp_gcc_client_config \<Rightarrow> writer" where
  "rdp_gcc_write_client_multitransport config =
     (let flags = nonzero (cc_multitransport_flags config)
            (RDP_GCC_MULTITRANSPORT_UDP_FECR OR RDP_GCC_MULTITRANSPORT_UDP_FECL OR
             RDP_GCC_MULTITRANSPORT_UDP_PREFERRED)
      in
      if flags AND NOT RDP_GCC_MULTITRANSPORT_CLIENT_KNOWN_FLAGS \<noteq> 0 \<or>
         flags AND (RDP_GCC_MULTITRANSPORT_UDP_FECR OR RDP_GCC_MULTITRANSPORT_UDP_FECL) = 0
      then reject LIBRDP_STATUS_INVALID_ARGUMENT
      else
        via_local (run_writers [rdp_buffer_append_u32_le flags]) (rdp_gcc_write_block RDP_GCC_CS_MULTITRANSPORT))"

definition rdp_gcc_write_client_message_channel :: "rdp_gcc_client_config \<Rightarrow> writer" where
  "rdp_gcc_write_client_message_channel config =
     via_local (run_writers [rdp_buffer_append_u32_le (cc_message_channel_flags config)])
       (rdp_gcc_write_block RDP_GCC_CS_MCS_MSGCHANNEL)"

definition client_blocks :: "rdp_gcc_client_config \<Rightarrow> writer list" where
  "client_blocks config =
     [rdp_gcc_write_client_core config] @
     (if cc_enable_server_redirection config then [rdp_gcc_write_client_cluster config] else []) @
     [rdp_gcc_write_client_security, rdp_gcc_write_client_network config] @
     (if cc_enable_message_channel config then [rdp_gcc_write_client_message_channel config] else []) @
     (if cc_enable_multitransport config then [rdp_gcc_write_client_multitransport config] else [])"

definition rdp_gcc_write_client_data_blocks :: "rdp_gcc_client_config \<Rightarrow> writer" where
  "rdp_gcc_write_client_data_blocks config =
     (if cc_desktop_width config = 0 \<or> cc_desktop_height config = 0 then reject LIBRDP_STATUS_INVALID_ARGUMENT
      else via_local (run_writers (client_blocks config)) rdp_buffer_append)"

section \<open>Conference create request and response\<close>

definition gcc_oid :: "u8 list" where
  "gcc_oid = [5, 0, 20, 124, 0, 1]"

definition rdp_gcc_write_conference_create_request :: "u8 list \<Rightarrow> writer" where
  "rdp_gcc_write_conference_create_request user_data =
     (if length user_data > 0xffff - 14 then reject LIBRDP_STATUS_INVALID_ARGUMENT
      else run_writers
        [rdp_buffer_append_u8 0,
         rdp_buffer_append gcc_oid,
         rdp_gcc_write_per_length (length user_data + 14),
         rdp_buffer_append_u8 0,
         rdp_buffer_append_u8 0x08,
         rdp_gcc_write_per_numeric_string (ascii ''1'') 1,
         rdp_buffer_append_u8 0,
         rdp_buffer_append_u8 1,
         rdp_buffer_append_u8 0xc0,
         rdp_gcc_write_per_octet_string (ascii ''Duca'') 4,
         rdp_gcc_write_per_octet_string user_data 0])"

definition rdp_gcc_write_conference_create_response :: "u8 list \<Rightarrow> writer" where
  "rdp_gcc_write_conference_create_response user_data =
     (if length user_data > 0x7fff then reject LIBRDP_STATUS_INVALID_ARGUMENT
      else
        via_local
          (run_writers
            [rdp_buffer_append_u8 0x14,
             rdp_buffer_append_u16_be (RDP_GCC_SERVER_NODE_ID - RDP_GCC_USER_ID_MIN),
             rdp_gcc_write_per_integer RDP_GCC_SERVER_TAG,
             rdp_buffer_append_u8 0,
             rdp_buffer_append_u8 1,
             rdp_buffer_append_u8 0xc0,
             rdp_gcc_write_per_octet_string (ascii ''McDn'') 4,
             rdp_gcc_write_per_length (length user_data),
             rdp_buffer_append user_data])
          (\<lambda>body. run_writers
            [rdp_buffer_append_u8 0,
             rdp_buffer_append gcc_oid,
             rdp_gcc_write_per_length RDP_GCC_CONFERENCE_RESPONSE_LENGTH_HINT,
             rdp_buffer_append body]))"

definition rdp_gcc_parse_conference_create_request :: "u8 list \<Rightarrow> rdp_gcc_conference_request result" where
  "rdp_gcc_parse_conference_create_request data =
     pbind (rdp_stream_read_u8 (rdp_stream_init data)) (\<lambda>(choice, stream).
     if choice \<noteq> 0 then protocol_error else
     pbind (rdp_gcc_read_object_identifier gcc_oid stream) (\<lambda>(_, stream).
     pbind (rdp_gcc_read_per_length stream) (\<lambda>(connect_len, stream).
     if connect_len > rdp_stream_remaining stream then protocol_error else
     pbind (rdp_stream_read_u8 stream) (\<lambda>(choice, stream).
     if choice \<noteq> 0 then protocol_error else
     pbind (rdp_stream_read_u8 stream) (\<lambda>(choice, stream).
     if choice \<noteq> 0x08 then protocol_error else
     pbind (rdp_gcc_read_per_length stream) (\<lambda>(user_len, stream).
     if user_len > SIZE_MAX - 1 then protocol_error else
     pbind (rdp_stream_skip ((user_len + 2) div 2) stream) (\<lambda>(_, stream).
     pbind (rdp_stream_read_u8 stream) (\<lambda>(choice, stream).
     if choice \<noteq> 0 then protocol_error else
     pbind (rdp_stream_read_u8 stream) (\<lambda>(user_data_count, stream).
     if user_data_count \<noteq> 1 then protocol_error else
     pbind (rdp_stream_read_u8 stream) (\<lambda>(h221_choice, stream).
     if h221_choice \<noteq> 0xc0 then protocol_error else
     pbind (rdp_gcc_read_per_octet_string (ascii ''Duca'') 4 stream) (\<lambda>(_, stream).
     pbind (rdp_gcc_read_per_length stream) (\<lambda>(user_data_len, stream).
     if user_data_len > rdp_stream_remaining stream then protocol_error else
     pbind (rdp_stream_read_bytes user_data_len stream) (\<lambda>(user_data, stream).
     if rdp_stream_remaining stream \<noteq> 0 then protocol_error
     else if user_data_len > 0 then Inr \<lparr>cq_user_data = user_data, cq_user_data_len = user_data_len\<rparr>
     else protocol_error)))))))))))))"

definition rdp_gcc_parse_conference_create_response :: "u8 list \<Rightarrow> rdp_gcc_conference_response result" where
  "rdp_gcc_parse_conference_create_response data =
     pbind (rdp_stream_read_u8 (rdp_stream_init data)) (\<lambda>(choice, stream).
     if choice \<noteq> 0 then protocol_error else
     pbind (rdp_gcc_read_object_identifier gcc_oid stream) (\<lambda>(_, stream).
     pbind (rdp_gcc_read_per_length stream) (\<lambda>(connect_len, stream).
     pbind (rdp_stream_read_u8 stream) (\<lambda>(choice, stream).
     if choice \<noteq> 0x14 then protocol_error else
     pbind (rdp_gcc_read_per_integer16 1001 stream) (\<lambda>(node_id, stream).
     pbind (rdp_gcc_read_per_integer stream) (\<lambda>(tag, stream).
     pbind (rdp_stream_read_u8 stream) (\<lambda>(result, stream).
     pbind (rdp_stream_read_u8 stream) (\<lambda>(set_count, stream).
     if set_count \<noteq> 1 then protocol_error else
     pbind (rdp_stream_read_u8 stream) (\<lambda>(choice, stream).
     if choice \<noteq> 0xc0 then protocol_error else
     pbind (rdp_gcc_read_per_octet_string (ascii ''McDn'') 4 stream) (\<lambda>(_, stream).
     pbind (rdp_gcc_read_per_length stream) (\<lambda>(user_len, stream).
     if user_len > rdp_stream_remaining stream then protocol_error else
     pbind (rdp_stream_read_bytes user_len stream) (\<lambda>(user_data, stream).
     Inr \<lparr>cr_node_id = node_id, cr_tag = tag, cr_result = result,
          cr_user_data = user_data, cr_user_data_len = user_len\<rparr>))))))))))))"

section \<open>Server data blocks\<close>

text \<open>
  The writer of the server blocks reuses one payload buffer, whose length it sets back to zero
  before every block.
\<close>

definition payload_block ::
    "u16 \<Rightarrow> writer \<Rightarrow> rdp_buffer \<times> rdp_buffer \<times> mem \<Rightarrow> librdp_status \<times> rdp_buffer \<times> rdp_buffer \<times> mem" where
  "payload_block type fill = (\<lambda>(payload, buffer, m).
     case fill (buf_truncate 0 payload, m) of (status, payload, m) \<Rightarrow>
       if status \<noteq> LIBRDP_STATUS_OK then (status, payload, buffer, m)
       else
         (case rdp_gcc_write_block type (contents payload) (buffer, m) of (status, buffer, m) \<Rightarrow>
            (status, payload, buffer, m)))"

primrec payload_blocks ::
    "(u16 \<times> writer) list \<Rightarrow> rdp_buffer \<times> rdp_buffer \<times> mem \<Rightarrow>
     librdp_status \<times> rdp_buffer \<times> rdp_buffer \<times> mem" where
  "payload_blocks [] = (\<lambda>(payload, buffer, m). (LIBRDP_STATUS_OK, payload, buffer, m))"
| "payload_blocks (blk # blks) = (\<lambda>s.
     case payload_block (fst blk) (snd blk) s of (status, payload, buffer, m) \<Rightarrow>
       if status \<noteq> LIBRDP_STATUS_OK then (status, payload, buffer, m)
       else payload_blocks blks (payload, buffer, m))"

definition server_encrypts :: "rdp_gcc_server_config \<Rightarrow> bool" where
  "server_encrypts config \<longleftrightarrow> sc_encryption_method config \<noteq> 0 \<or> sc_encryption_level config \<noteq> 0"

definition server_core :: "rdp_gcc_server_config \<Rightarrow> writer" where
  "server_core config = run_writers
     [rdp_buffer_append_u32_le (nonzero (sc_version config) RDP_GCC_CLIENT_VERSION_5),
      rdp_buffer_append_u32_le (sc_requested_protocols config),
      rdp_buffer_append_u32_le (sc_early_capability_flags config)]"

definition server_security :: "rdp_gcc_server_config \<Rightarrow> writer" where
  "server_security config = run_writers
     ([rdp_buffer_append_u32_le (sc_encryption_method config),
       rdp_buffer_append_u32_le (sc_encryption_level config)] @
      (if server_encrypts config
       then [rdp_buffer_append_u32_le (of_nat (length (sc_server_random config))),
             rdp_buffer_append_u32_le (of_nat (length (sc_server_certificate config))),
             rdp_buffer_append (sc_server_random config),
             rdp_buffer_append (sc_server_certificate config)]
       else []))"

definition server_network :: "rdp_gcc_server_config \<Rightarrow> writer" where
  "server_network config = run_writers
     ([rdp_buffer_append_u16_le (nonzero (sc_mcs_channel_id config) RDP_MCS_GLOBAL_CHANNEL_ID),
       rdp_buffer_append_u16_le (sc_channel_count config)] @
      map (\<lambda>i. rdp_buffer_append_u16_le (RDP_MCS_GLOBAL_CHANNEL_ID + 1 + of_nat i))
        [0..<unat (sc_channel_count config)])"

definition server_blocks :: "rdp_gcc_server_config \<Rightarrow> (u16 \<times> writer) list" where
  "server_blocks config =
     [(RDP_GCC_SC_CORE, server_core config),
      (RDP_GCC_SC_SECURITY, server_security config),
      (RDP_GCC_SC_NETWORK, server_network config)] @
     (if sc_enable_message_channel config
      then [(RDP_GCC_SC_MCS_MSGCHANNEL, rdp_buffer_append_u16_le (sc_message_channel_id config))]
      else []) @
     (if sc_enable_multitransport config
      then [(RDP_GCC_SC_MULTITRANSPORT, rdp_buffer_append_u32_le (sc_multitransport_flags config))]
      else [])"

definition multitransport_flags_bad :: "u32 \<Rightarrow> u32 \<Rightarrow> bool" where
  "multitransport_flags_bad flags known \<longleftrightarrow>
     flags AND NOT known \<noteq> 0 \<or> flags AND (RDP_GCC_MULTITRANSPORT_UDP_FECR OR RDP_GCC_MULTITRANSPORT_UDP_FECL) = 0"

definition rdp_gcc_write_server_data_blocks :: "rdp_gcc_server_config \<Rightarrow> writer" where
  "rdp_gcc_write_server_data_blocks config =
     (if unat (sc_channel_count config) > RDP_GCC_MAX_SERVER_CHANNELS then reject LIBRDP_STATUS_INVALID_ARGUMENT
      else if sc_early_capability_flags config AND NOT RDP_GCC_SERVER_EARLY_KNOWN_FLAGS \<noteq> 0
      then reject LIBRDP_STATUS_INVALID_ARGUMENT
      else if server_encrypts config \<and> (sc_server_random config = [] \<or> sc_server_certificate config = [])
      then reject LIBRDP_STATUS_INVALID_ARGUMENT
      else if sc_enable_multitransport config \<and>
        multitransport_flags_bad (sc_multitransport_flags config) RDP_GCC_MULTITRANSPORT_SERVER_KNOWN_FLAGS
      then reject LIBRDP_STATUS_INVALID_ARGUMENT
      else if sc_enable_message_channel config \<and>
        sc_message_channel_id config \<le> RDP_MCS_GLOBAL_CHANNEL_ID + sc_channel_count config
      then reject LIBRDP_STATUS_INVALID_ARGUMENT
      else (\<lambda>(buffer, m).
        case payload_blocks (server_blocks config) (rdp_buffer_init, buffer, m) of
          (status, payload, buffer, m) \<Rightarrow> (status, buffer, m)))"

section \<open>Reading blocks\<close>

definition rdp_gcc_read_user_data_block :: "rdp_gcc_user_data_block reader" where
  "rdp_gcc_read_user_data_block stream =
     (if rdp_stream_remaining stream < 4 then protocol_error
      else
        pbind (rdp_stream_read_u16_le stream) (\<lambda>(type, stream).
        pbind (rdp_stream_read_u16_le stream) (\<lambda>(len, stream).
        if len < 4 \<or> rdp_stream_remaining stream < unat len - 4 then protocol_error
        else
          ebind (rdp_stream_read_bytes (unat len - 4) stream) (\<lambda>(payload, stream).
          Inr (\<lparr>ub_type = type, ub_length = len, ub_payload = payload, ub_payload_len = unat len - 4\<rparr>, stream)))))"

text \<open>The body of either loop over the blocks, folded over the region.\<close>

lemma read_user_data_block_advance:
  "rdp_gcc_read_user_data_block s = Inr (blk, s') \<Longrightarrow> rdp_stream_remaining s' + 4 \<le> rdp_stream_remaining s"
  by (auto simp: rdp_gcc_read_user_data_block_def rdp_stream_read_u16_le_def rdp_stream_read_bytes_def
      rdp_stream_remaining_def pbind_eq_Inr ebind_eq_Inr split: if_splits)

function fold_blocks ::
    "(rdp_gcc_user_data_block \<Rightarrow> 'a \<Rightarrow> 'a result) \<Rightarrow> rdp_stream \<Rightarrow> 'a \<Rightarrow> 'a result" where
  "fold_blocks f stream acc =
     (if rdp_stream_remaining stream > 0 then
        (case rdp_gcc_read_user_data_block stream of
           Inl e \<Rightarrow> protocol_error
         | Inr (blk, stream) \<Rightarrow> ebind (f blk acc) (fold_blocks f stream))
      else Inr acc)"
  by pat_completeness auto
termination
  by (relation "measure (\<lambda>(f, stream, acc). rdp_stream_remaining stream)")
    (auto dest: read_user_data_block_advance)

declare fold_blocks.simps [simp del]

definition optional_u32 :: "u32 \<Rightarrow> u32 reader" where
  "optional_u32 v stream = (if rdp_stream_remaining stream \<ge> 4 then rdp_stream_read_u32_le stream else Inr (v, stream))"

primrec read_u16s :: "nat \<Rightarrow> u16 list reader" where
  "read_u16s 0 stream = Inr ([], stream)"
| "read_u16s (Suc n) stream =
     pbind (rdp_stream_read_u16_le stream) (\<lambda>(v, stream).
     pbind (read_u16s n stream) (\<lambda>(vs, stream). Inr (v # vs, stream)))"

definition server_data_block :: "rdp_gcc_user_data_block \<Rightarrow> rdp_gcc_server_data \<Rightarrow> rdp_gcc_server_data result" where
  "server_data_block blk sd =
     (let payload = rdp_stream_init (ub_payload blk) in
      if ub_type blk = RDP_GCC_SC_CORE then
        pbind (rdp_stream_read_u32_le payload) (\<lambda>(version, payload).
        pbind (optional_u32 (sd_requested_protocols sd) payload) (\<lambda>(requested_protocols, payload).
        pbind (optional_u32 (sd_early_capability_flags sd) payload) (\<lambda>(early_capability_flags, payload).
        Inr (sd\<lparr>sd_version := version, sd_requested_protocols := requested_protocols,
                sd_early_capability_flags := early_capability_flags, sd_has_core := True\<rparr>))))
      else if ub_type blk = RDP_GCC_SC_SECURITY then
        pbind (rdp_stream_read_u32_le payload) (\<lambda>(encryption_method, payload).
        pbind (rdp_stream_read_u32_le payload) (\<lambda>(encryption_level, payload).
        let sd = sd\<lparr>sd_encryption_method := encryption_method, sd_encryption_level := encryption_level\<rparr> in
        if encryption_method \<noteq> 0 \<or> encryption_level \<noteq> 0 then
          pbind (rdp_stream_read_u32_le payload) (\<lambda>(random_len, payload).
          pbind (rdp_stream_read_u32_le payload) (\<lambda>(certificate_len, payload).
          if random_len = 0 \<or> certificate_len = 0 \<or>
             rdp_stream_remaining payload < unat random_len + unat certificate_len then protocol_error
          else
            pbind (rdp_stream_read_bytes (unat random_len) payload) (\<lambda>(server_random, payload).
            pbind (rdp_stream_read_bytes (unat certificate_len) payload) (\<lambda>(server_certificate, payload).
            Inr (sd\<lparr>sd_server_random_len := random_len, sd_server_certificate_len := certificate_len,
                    sd_server_random := server_random, sd_server_certificate := server_certificate,
                    sd_has_security := True\<rparr>)))))
        else Inr (sd\<lparr>sd_has_security := True\<rparr>)))
      else if ub_type blk = RDP_GCC_SC_NETWORK then
        pbind (rdp_stream_read_u16_le payload) (\<lambda>(mcs_channel_id, payload).
        pbind (rdp_stream_read_u16_le payload) (\<lambda>(channel_count, payload).
        if unat channel_count > RDP_GCC_MAX_SERVER_CHANNELS then Inl LIBRDP_STATUS_UNSUPPORTED
        else if rdp_stream_remaining payload < unat channel_count * 2 then protocol_error
        else
          pbind (read_u16s (unat channel_count) payload) (\<lambda>(channel_ids, payload).
          Inr (sd\<lparr>sd_mcs_channel_id := mcs_channel_id, sd_channel_count := channel_count,
                  sd_channel_ids := channel_ids @ drop (unat channel_count) (sd_channel_ids sd),
                  sd_has_network := True\<rparr>))))
      else if ub_type blk = RDP_GCC_SC_MULTITRANSPORT then
        pbind (rdp_stream_read_u32_le payload) (\<lambda>(multitransport_flags, payload).
        if rdp_stream_remaining payload \<noteq> 0 \<or>
           multitransport_flags_bad multitransport_flags RDP_GCC_MULTITRANSPORT_SERVER_KNOWN_FLAGS then protocol_error
        else Inr (sd\<lparr>sd_multitransport_flags := multitransport_flags, sd_has_multitransport := True\<rparr>))
      else if ub_type blk = RDP_GCC_SC_MCS_MSGCHANNEL then
        if sd_has_message_channel sd then protocol_error
        else
          pbind (rdp_stream_read_u16_le payload) (\<lambda>(message_channel_id, payload).
          if rdp_stream_remaining payload \<noteq> 0 \<or> message_channel_id \<le> RDP_MCS_GLOBAL_CHANNEL_ID then protocol_error
          else Inr (sd\<lparr>sd_message_channel_id := message_channel_id, sd_has_message_channel := True\<rparr>))
      else Inr sd)"

definition server_data_zero :: rdp_gcc_server_data where
  "server_data_zero =
     \<lparr>sd_has_core = False, sd_has_security = False, sd_has_network = False, sd_version = 0,
      sd_requested_protocols = 0, sd_early_capability_flags = 0, sd_encryption_method = 0, sd_encryption_level = 0,
      sd_server_random = [], sd_server_random_len = 0, sd_server_certificate = [], sd_server_certificate_len = 0,
      sd_mcs_channel_id = 0, sd_channel_count = 0, sd_channel_ids = replicate RDP_GCC_MAX_SERVER_CHANNELS 0,
      sd_has_message_channel = False, sd_message_channel_id = 0, sd_has_multitransport = False,
      sd_multitransport_flags = 0\<rparr>"

definition rdp_gcc_parse_server_data_blocks :: "u8 list \<Rightarrow> rdp_gcc_server_data result" where
  "rdp_gcc_parse_server_data_blocks data =
     ebind (fold_blocks server_data_block (rdp_stream_init data) server_data_zero) (\<lambda>sd.
     if sd_has_message_channel sd \<and>
        (\<not> sd_has_network sd \<or> sd_message_channel_id sd \<le> RDP_MCS_GLOBAL_CHANNEL_ID + sd_channel_count sd)
     then protocol_error
     else if sd_has_core sd \<and> sd_has_security sd then Inr sd else protocol_error)"

text \<open>A field at a fixed offset of a core block that is long enough to have it (\<^verbatim>\<open>payload.position = at\<close>).\<close>

definition field_at :: "nat \<Rightarrow> nat \<Rightarrow> 'a reader \<Rightarrow> 'a \<Rightarrow> rdp_stream \<Rightarrow> nat \<Rightarrow> 'a result" where
  "field_at len at rd v payload need =
     (if len \<ge> need then pbind (rd (payload\<lparr>st_position := at\<rparr>)) (\<lambda>(v, _). Inr v) else Inr v)"

primrec read_channels :: "nat \<Rightarrow> rdp_gcc_channel_definition list reader" where
  "read_channels 0 stream = Inr ([], stream)"
| "read_channels (Suc n) stream =
     pbind (rdp_stream_read_bytes 8 stream) (\<lambda>(name, stream).
     pbind (rdp_stream_read_u32_le stream) (\<lambda>(flags, stream).
     pbind (read_channels n stream) (\<lambda>(channels, stream). Inr (\<lparr>cd_name = name, cd_flags = flags\<rparr> # channels, stream))))"

definition cluster_bad :: "u32 \<Rightarrow> u32 \<Rightarrow> bool" where
  "cluster_bad flags session_id \<longleftrightarrow>
     (let version = drop_bit 2 (flags AND RDP_GCC_CLUSTER_REDIRECTION_VERSION_MASK) in
      flags AND NOT RDP_GCC_CLUSTER_KNOWN_FLAGS \<noteq> 0 \<or>
      (if flags AND RDP_GCC_CLUSTER_REDIRECTION_SUPPORTED = 0
       then version \<noteq> 0 \<or> flags AND RDP_GCC_CLUSTER_REDIRECTED_SESSION_ID_VALID \<noteq> 0
       else version > ucast RDP_GCC_REDIRECTION_VERSION_6 - 1) \<or>
      flags AND RDP_GCC_CLUSTER_REDIRECTED_SESSION_ID_VALID = 0 \<and> session_id \<noteq> 0)"

definition client_data_block ::
    "rdp_gcc_user_data_block \<Rightarrow> rdp_gcc_client_data_summary \<Rightarrow> rdp_gcc_client_data_summary result" where
  "client_data_block blk cs =
     (let payload = rdp_stream_init (ub_payload blk); len = ub_payload_len blk in
      if ub_type blk = RDP_GCC_CS_CORE then
        pbind (rdp_stream_read_u32_le payload) (\<lambda>(version, payload).
        pbind (rdp_stream_read_u16_le payload) (\<lambda>(width, payload).
        pbind (rdp_stream_read_u16_le payload) (\<lambda>(height, payload).
        pbind (field_at len 208 rdp_stream_read_u32_le (cs_requested_protocols cs) payload 212) (\<lambda>requested_protocols.
        pbind (field_at len 138 rdp_stream_read_u16_le (cs_supported_color_depths cs) payload 142) (\<lambda>supported_color_depths.
        pbind (field_at len 140 rdp_stream_read_u16_le (cs_early_capability_flags cs) payload 142) (\<lambda>early_capability_flags.
        pbind (field_at len 206 rdp_stream_read_u8 (cs_connection_type cs) payload 207) (\<lambda>connection_type.
        pbind (field_at len 212 rdp_stream_read_u32_le (cs_desktop_physical_width cs) payload 220) (\<lambda>physical_width.
        pbind (field_at len 216 rdp_stream_read_u32_le (cs_desktop_physical_height cs) payload 220) (\<lambda>physical_height.
        Inr (cs\<lparr>cs_version := version, cs_desktop_width := width, cs_desktop_height := height, cs_has_core := True,
                cs_requested_protocols := requested_protocols, cs_supported_color_depths := supported_color_depths,
                cs_early_capability_flags := early_capability_flags, cs_connection_type := connection_type,
                cs_desktop_physical_width := physical_width, cs_desktop_physical_height := physical_height\<rparr>))))))))))
      else if ub_type blk = RDP_GCC_CS_SECURITY then
        pbind (rdp_stream_read_u32_le payload) (\<lambda>(_, payload).
        pbind (rdp_stream_read_u32_le payload) (\<lambda>(_, payload).
        Inr (cs\<lparr>cs_has_security := True\<rparr>)))
      else if ub_type blk = RDP_GCC_CS_CLUSTER then
        if cs_has_cluster cs then protocol_error
        else
          pbind (rdp_stream_read_u32_le payload) (\<lambda>(flags, payload).
          pbind (rdp_stream_read_u32_le payload) (\<lambda>(session_id, payload).
          if rdp_stream_remaining payload \<noteq> 0 \<or> cluster_bad flags session_id then protocol_error
          else Inr (cs\<lparr>cs_cluster_flags := flags, cs_redirected_session_id := session_id, cs_has_cluster := True\<rparr>)))
      else if ub_type blk = RDP_GCC_CS_NETWORK then
        pbind (rdp_stream_read_u16_le payload) (\<lambda>(channel_count, payload).
        pbind (rdp_stream_read_u16_le payload) (\<lambda>(_, payload).
        if unat channel_count > RDP_GCC_MAX_SERVER_CHANNELS \<or>
           rdp_stream_remaining payload < unat channel_count * 12 then protocol_error
        else
          pbind (read_channels (unat channel_count) payload) (\<lambda>(channels, payload).
          Inr (cs\<lparr>cs_channel_count := channel_count,
                  cs_channels := channels @ drop (unat channel_count) (cs_channels cs), cs_has_network := True\<rparr>))))
      else if ub_type blk = RDP_GCC_CS_MULTITRANSPORT then
        pbind (rdp_stream_read_u32_le payload) (\<lambda>(flags, payload).
        if rdp_stream_remaining payload \<noteq> 0 \<or>
           multitransport_flags_bad flags RDP_GCC_MULTITRANSPORT_CLIENT_KNOWN_FLAGS then protocol_error
        else Inr (cs\<lparr>cs_multitransport_flags := flags, cs_has_multitransport := True\<rparr>))
      else if ub_type blk = RDP_GCC_CS_MCS_MSGCHANNEL then
        if cs_has_message_channel cs then protocol_error
        else
          pbind (rdp_stream_read_u32_le payload) (\<lambda>(flags, payload).
          if rdp_stream_remaining payload \<noteq> 0 then protocol_error
          else Inr (cs\<lparr>cs_message_channel_flags := flags, cs_has_message_channel := True\<rparr>))
      else Inr cs)"

definition client_data_zero :: rdp_gcc_client_data_summary where
  "client_data_zero =
     \<lparr>cs_has_core = False, cs_has_security = False, cs_has_network = False, cs_desktop_width = 0,
      cs_desktop_height = 0, cs_version = 0, cs_requested_protocols = 0, cs_early_capability_flags = 0,
      cs_supported_color_depths = 0, cs_connection_type = 0, cs_desktop_physical_width = 0,
      cs_desktop_physical_height = 0, cs_has_cluster = False, cs_cluster_flags = 0, cs_redirected_session_id = 0,
      cs_channel_count = 0,
      cs_channels = replicate RDP_GCC_MAX_SERVER_CHANNELS \<lparr>cd_name = replicate 8 0, cd_flags = 0\<rparr>,
      cs_has_message_channel = False, cs_message_channel_flags = 0, cs_has_multitransport = False,
      cs_multitransport_flags = 0\<rparr>"

definition rdp_gcc_parse_client_data_blocks :: "u8 list \<Rightarrow> rdp_gcc_client_data_summary result" where
  "rdp_gcc_parse_client_data_blocks data =
     ebind (fold_blocks client_data_block (rdp_stream_init data) client_data_zero) (\<lambda>cs.
     if cs_has_core cs \<and> cs_has_security cs \<and> cs_has_network cs then Inr cs else protocol_error)"

section \<open>The PER fields are those of MCS\<close>

lemma gcc_per_fields:
  "rdp_gcc_write_per_length = rdp_mcs_write_per_length"
  "rdp_gcc_read_per_length = rdp_mcs_read_per_length"
  "rdp_gcc_read_per_integer = rdp_mcs_read_per_integer"
  "rdp_gcc_write_per_integer = rdp_mcs_write_per_integer"
  "rdp_gcc_read_per_integer16 = rdp_mcs_read_per_integer16"
proof -
  show len: "rdp_gcc_write_per_length = rdp_mcs_write_per_length"
    by (rule ext) (simp add: rdp_gcc_write_per_length_def rdp_mcs_write_per_length_def)
  show "rdp_gcc_read_per_length = rdp_mcs_read_per_length"
    by (rule ext) (simp add: rdp_gcc_read_per_length_def rdp_mcs_read_per_length_def)
  then show "rdp_gcc_read_per_integer = rdp_mcs_read_per_integer"
    by (intro ext) (simp add: rdp_gcc_read_per_integer_def rdp_mcs_read_per_integer_def)
  show "rdp_gcc_write_per_integer = rdp_mcs_write_per_integer"
    by (intro ext) (simp add: rdp_gcc_write_per_integer_def rdp_mcs_write_per_integer_def len rdp_mcs_write_per_length_def)
  show "rdp_gcc_read_per_integer16 = rdp_mcs_read_per_integer16"
    by (intro ext) (simp add: rdp_gcc_read_per_integer16_def rdp_mcs_read_per_integer16_def)
qed

lemma length_per_length_bytes [simp]: "length (per_length_bytes n) = (if n > 0x7f then 2 else 1)"
  by (simp add: per_length_bytes_def)

lemma emits_gcc_octet_string [emits_rules]:
  "lo \<le> length data \<Longrightarrow> length data - lo \<le> 0x7fff \<Longrightarrow> length data \<le> 0xffff \<Longrightarrow>
    emits (rdp_gcc_write_per_octet_string data lo) (per_length_bytes (length data - lo) @ data)"
  unfolding rdp_gcc_write_per_octet_string_def gcc_per_fields by (auto intro!: emits_rules)

lemma read_gcc_octet_string:
  "lo \<le> length data \<Longrightarrow> length data - lo \<le> 0x7fff \<Longrightarrow>
    rdp_gcc_read_per_octet_string data lo (strm pre (per_length_bytes (length data - lo) @ data @ r)) =
      Inr ((), strm (pre @ per_length_bytes (length data - lo) @ data) r)"
  by (simp add: rdp_gcc_read_per_octet_string_def gcc_per_fields per_length_read stream_rules)

section \<open>The conference PDUs\<close>

definition conference_key :: "u8 list \<Rightarrow> u8 list" where
  "conference_key key = [0, 1, 0xc0, 0] @ key"

definition conference_request_pdu :: "u8 list \<Rightarrow> u8 list" where
  "conference_request_pdu user_data =
     [0] @ gcc_oid @ per_length_bytes (length user_data + 14) @ [0, 8, 0, 0x10] @ conference_key (ascii ''Duca'') @
     per_length_bytes (length user_data) @ user_data"

definition conference_response_pdu :: "u8 list \<Rightarrow> u8 list" where
  "conference_response_pdu user_data =
     [0] @ gcc_oid @ [0x2a, 0x14, 0x76, 0x0a, 1, 1] @ conference_key (ascii ''McDn'') @
     per_length_bytes (length user_data) @ user_data"

lemma ascii_length [simp]: "length (ascii s) = length s"
  by (simp add: ascii_def)

lemma emits_conference_request:
  assumes "length ud + 14 \<le> 0x7fff"
  shows "emits (rdp_gcc_write_conference_create_request ud) (conference_request_pdu ud)"
proof -
  have ns: "emits (rdp_gcc_write_per_numeric_string (ascii ''1'') 1) [0, 0x10]"
  proof -
    have "write_digits (ascii ''1'') = rdp_buffer_append_u8 0x10" by (simp add: ascii_def)
    moreover have "emits (rdp_mcs_write_per_length 0) [0]"
      using emits_per_length [of 0] by (simp add: per_length_bytes_def)
    ultimately show ?thesis
      unfolding rdp_gcc_write_per_numeric_string_def gcc_per_fields
      by (auto intro!: emits_run_Cons' [of _ "[0]"] emits_run_Cons' [of _ "[0x10]"] emits_rules simp: ascii_def)
  qed
  have key: "emits (rdp_gcc_write_per_octet_string (ascii ''Duca'') 4) ([0] @ ascii ''Duca'')"
    using emits_gcc_octet_string [of 4 "ascii ''Duca''"] by (simp add: per_length_bytes_def)
  have ud: "emits (rdp_gcc_write_per_octet_string ud 0) (per_length_bytes (length ud) @ ud)"
    using emits_gcc_octet_string [of 0 ud] assms by simp
  show ?thesis
    unfolding rdp_gcc_write_conference_create_request_def conference_request_pdu_def conference_key_def gcc_per_fields
    using assms by (auto intro!: emits_rules ns [unfolded One_nat_def] key ud)
qed

lemma emits_conference_response:
  assumes "length ud \<le> 0x7fff"
  shows "emits (rdp_gcc_write_conference_create_response ud) (conference_response_pdu ud)"
proof -
  have key: "emits (rdp_gcc_write_per_octet_string (ascii ''McDn'') 4) ([0] @ ascii ''McDn'')"
    using emits_gcc_octet_string [of 4 "ascii ''McDn''"] by (simp add: per_length_bytes_def)
  let ?body = "[0x14, 0x76, 0x0a, 1, 1] @ conference_key (ascii ''McDn'') @ per_length_bytes (length ud) @ ud"
  have node: "emits (rdp_buffer_append_u16_be (RDP_GCC_SERVER_NODE_ID - RDP_GCC_USER_ID_MIN)) [0x76, 0x0a]"
    using emits_append_words(3) [of "RDP_GCC_SERVER_NODE_ID - RDP_GCC_USER_ID_MIN"]
    by (simp add: RDP_GCC_SERVER_NODE_ID_def RDP_GCC_USER_ID_MIN_def u16_be_bytes_def)
  have tag: "emits (rdp_mcs_write_per_integer RDP_GCC_SERVER_TAG) [1, 1]"
    using emits_per_integer [of RDP_GCC_SERVER_TAG] by (simp add: per_integer_bytes_def RDP_GCC_SERVER_TAG_def)
  have hint: "emits (rdp_mcs_write_per_length RDP_GCC_CONFERENCE_RESPONSE_LENGTH_HINT) [0x2a]"
    using emits_per_length [of RDP_GCC_CONFERENCE_RESPONSE_LENGTH_HINT]
    by (simp add: per_length_bytes_def RDP_GCC_CONFERENCE_RESPONSE_LENGTH_HINT_def)
  show ?thesis
    unfolding rdp_gcc_write_conference_create_response_def gcc_per_fields
    using assms
    by (auto intro!: emits_via_local [of _ ?body] emits_rules node tag hint key
        simp: conference_response_pdu_def conference_key_def)
qed

lemma read_oid:
  "rdp_gcc_read_object_identifier gcc_oid (strm pre (gcc_oid @ r)) = Inr ((), strm (pre @ gcc_oid) r)"
proof -
  have "gcc_oid \<noteq> []" by (simp add: gcc_oid_def)
  then show ?thesis by (simp add: rdp_gcc_read_object_identifier_def stream_rules)
qed

lemma parse_conference_request_pdu:
  assumes "length ud + 14 \<le> 0x7fff"
  shows "rdp_gcc_parse_conference_create_request (conference_request_pdu ud) =
    (if 0x7f < length ud then Inr \<lparr>cq_user_data = ud, cq_user_data_len = length ud\<rparr> else protocol_error)"
proof -
  have key: "rdp_gcc_read_per_octet_string (ascii ''Duca'') 4 (strm pre (0 # ascii ''Duca'' @ r)) =
      Inr ((), strm (pre @ [0] @ ascii ''Duca'') r)" for pre r
    using read_gcc_octet_string [of 4 "ascii ''Duca''" pre r] by (simp add: per_length_bytes_def)
  have zero: "rdp_mcs_read_per_length (strm pre (0 # r)) = Inr (0, strm (pre @ [0]) r)" for pre r
    using per_length_read [of 0 pre r] by (simp add: per_length_bytes_def)
  have skip: "rdp_stream_skip (Suc 0) (strm pre (x # r)) = Inr ((), strm (pre @ [x]) r)" for pre x r
    using skip_strm(1) [of "[x]" 1 pre r] by simp
  show ?thesis
    using assms
    by (simp add: rdp_gcc_parse_conference_create_request_def conference_request_pdu_def conference_key_def
        gcc_per_fields per_length_read key zero read_oid skip stream_rules SIZE_MAX_def)
qed

lemma parse_conference_response_pdu:
  assumes "length ud \<le> 0x7fff"
  shows "rdp_gcc_parse_conference_create_response (conference_response_pdu ud) =
    Inr \<lparr>cr_node_id = RDP_GCC_SERVER_NODE_ID, cr_tag = RDP_GCC_SERVER_TAG, cr_result = 0,
         cr_user_data = ud, cr_user_data_len = length ud\<rparr>"
proof -
  have key: "rdp_gcc_read_per_octet_string (ascii ''McDn'') 4 (strm pre (0 # ascii ''McDn'' @ r)) =
      Inr ((), strm (pre @ [0] @ ascii ''McDn'') r)" for pre r
    using read_gcc_octet_string [of 4 "ascii ''McDn''" pre r] by (simp add: per_length_bytes_def)
  have hint: "rdp_mcs_read_per_length (strm pre (0x2a # r)) = Inr (0x2a, strm (pre @ [0x2a]) r)" for pre r
    using per_length_read [of 42 pre r] by (simp add: per_length_bytes_def)
  have tag: "rdp_mcs_read_per_integer (strm pre (1 # 1 # r)) = Inr (1, strm (pre @ [1, 1]) r)" for pre r
    using per_integer_read [of pre 1 r] by (simp add: per_integer_bytes_def)
  have node: "rdp_mcs_read_per_integer16 1001 (strm pre (0x76 # 0x0a # r)) = Inr (0x79f3, strm (pre @ [0x76, 0x0a]) r)" for pre r
    by (simp add: rdp_mcs_read_per_integer16_def stream_rules Let_def be16_def)
  show ?thesis
    using assms
    by (simp add: rdp_gcc_parse_conference_create_response_def conference_response_pdu_def conference_key_def
        gcc_per_fields per_length_read key read_oid hint tag node stream_rules RDP_GCC_SERVER_NODE_ID_def RDP_GCC_SERVER_TAG_def)
qed

interpretation conference_request: pdu_codec rdp_gcc_write_conference_create_request
  rdp_gcc_parse_conference_create_request conference_request_pdu
  "\<lambda>ud. \<lparr>cq_user_data = ud, cq_user_data_len = length ud\<rparr>" "\<lambda>ud. 0x7f < length ud \<and> length ud + 14 \<le> 0x7fff"
  by unfold_locales (simp_all add: emits_conference_request parse_conference_request_pdu)

interpretation conference_response: pdu_codec rdp_gcc_write_conference_create_response
  rdp_gcc_parse_conference_create_response conference_response_pdu
  "\<lambda>ud. \<lparr>cr_node_id = RDP_GCC_SERVER_NODE_ID, cr_tag = RDP_GCC_SERVER_TAG, cr_result = 0,
         cr_user_data = ud, cr_user_data_len = length ud\<rparr>" "\<lambda>ud. length ud \<le> 0x7fff"
  by unfold_locales (simp_all add: emits_conference_response parse_conference_response_pdu)

section \<open>Blocks\<close>

definition block_view :: "u16 \<Rightarrow> u8 list \<Rightarrow> rdp_gcc_user_data_block" where
  "block_view type payload =
     \<lparr>ub_type = type, ub_length = of_nat (length payload + 4), ub_payload = payload, ub_payload_len = length payload\<rparr>"

lemma block_view_sel [simp]:
  "ub_type (block_view type payload) = type" "ub_payload (block_view type payload) = payload"
  "ub_payload_len (block_view type payload) = length payload"
  by (simp_all add: block_view_def)

lemma emits_block [emits_rules]:
  "length payload + 4 \<le> 0xffff \<Longrightarrow> emits (rdp_gcc_write_block type payload) (block_bytes type payload)"
  unfolding rdp_gcc_write_block_def block_bytes_def Let_def by (auto intro!: emits_rules)

lemma read_block:
  assumes "length payload + 4 \<le> 0xffff"
  shows "rdp_gcc_read_user_data_block (strm pre (block_bytes type payload @ r)) =
    Inr (block_view type payload, strm (pre @ block_bytes type payload) r)"
proof -
  define n :: u16 where "n = of_nat (length payload + 4)"
  have n: "unat n = length payload + 4" unfolding n_def by (rule unat_of_nat_u16) (use assms in simp)
  then have "\<not> n < 4" by (simp add: word_less_nat_alt)
  with n show ?thesis
    by (simp add: rdp_gcc_read_user_data_block_def block_bytes_def block_view_def stream_rules del: of_nat_add flip: n_def)
qed

interpretation gcc_block: wire_codec "\<lambda>blk. rdp_gcc_write_block (ub_type blk) (ub_payload blk)"
  rdp_gcc_read_user_data_block "\<lambda>blk. block_bytes (ub_type blk) (ub_payload blk)"
  "\<lambda>blk. length (ub_payload blk) + 4 \<le> 0xffff \<and> blk = block_view (ub_type blk) (ub_payload blk)"
  by unfold_locales (auto simp: emits_block read_block)

lemma fold_blocks_block:
  "length payload + 4 \<le> 0xffff \<Longrightarrow>
    fold_blocks f (strm pre (block_bytes type payload @ r)) acc =
      ebind (f (block_view type payload) acc) (fold_blocks f (strm (pre @ block_bytes type payload) r))"
  by (subst fold_blocks.simps) (simp add: read_block)

lemma fold_blocks_end: "fold_blocks f (strm pre []) acc = Inr acc"
  by (subst fold_blocks.simps) simp

lemma fold_blocks_last:
  "length payload + 4 \<le> 0xffff \<Longrightarrow>
    fold_blocks f (strm pre (block_bytes type payload)) acc = f (block_view type payload) acc"
  using fold_blocks_block [of payload f pre type "[]" acc]
  by (cases "f (block_view type payload) acc") (simp_all add: fold_blocks_end)

text \<open>Blocks written one by one through the reused payload buffer.\<close>

lemma payload_block_emitted:
  assumes fill: "emits fill ps" "length ps + 4 \<le> 0xffff" and ok: "buf_ok p" "buf_ok b"
    and res: "payload_block type fill (p, b, m) = (st, p', b', m')"
  shows "buf_ok p' \<and> emitted b m (block_bytes type ps) st b' m'"
proof -
  note z = buf_truncate_ok [OF ok(1), of 0, simplified]
  obtain s1 p1 m1 where 1: "fill (buf_truncate 0 p, m) = (s1, p1, m1)" by (rule prod_cases3)
  note f = emitsD [OF fill(1) z(1) 1]
  show ?thesis
  proof (cases "s1 = LIBRDP_STATUS_OK")
    case False
    then have "st = s1" "p' = p1" "b' = b" "m' = m1" using res 1 by (simp_all add: payload_block_def)
    then show ?thesis
      using False f(1,3,5) ok z(3) fill(2) by (auto simp: emitted_def intro: exI [of _ 0])
  next
    case True
    obtain s2 b2 m2 where 2: "rdp_gcc_write_block type ps (b, m1) = (s2, b2, m2)" by (rule prod_cases3)
    have c: "contents p1 = ps" using f(2) [OF True] z(2) by simp
    have eq: "st = s2" "p' = p1" "b' = b2" "m' = m2"
      using res 1 2 True c by (simp_all add: payload_block_def)
    have "emitted b m1 (block_bytes type ps) s2 b2 m2"
      using emits_block [OF fill(2), of type] ok(2) 2 unfolding emits_emitted by blast
    moreover have "m = [] \<Longrightarrow> m1 = []" using f(5) z(3) fill(2) by simp
    ultimately show ?thesis using f(1) eq by (auto simp: emitted_def)
  qed
qed

lemma payload_blocks_emitted:
  "list_all2 (\<lambda>blk ps. emits (snd blk) ps \<and> length ps + 4 \<le> 0xffff) blks pss \<Longrightarrow> buf_ok p \<Longrightarrow> buf_ok b \<Longrightarrow>
    payload_blocks blks (p, b, m) = (st, p', b', m') \<Longrightarrow>
    emitted b m (concat (map2 (\<lambda>blk. block_bytes (fst blk)) blks pss)) st b' m'"
proof (induction blks pss arbitrary: p b m rule: list_all2_induct)
  case Nil
  then show ?case by (simp add: emitted_def)
next
  case (Cons blk blks ps pss)
  obtain s1 p1 b1 m1 where 1: "payload_block (fst blk) (snd blk) (p, b, m) = (s1, p1, b1, m1)" by (rule prod_cases4)
  from payload_block_emitted [OF _ _ Cons.prems(1,2) 1] Cons.hyps(1) have
    e: "buf_ok p1" "emitted b m (block_bytes (fst blk) ps) s1 b1 m1" by auto
  show ?case
  proof (cases "s1 = LIBRDP_STATUS_OK")
    case False
    with Cons.prems(3) 1 e emitted_fails [OF e(2)] show ?thesis by simp
  next
    case True
    then have "payload_blocks blks (p1, b1, m1) = (st, p', b', m')" "buf_ok b1"
      using Cons.prems(3) 1 e(2) by (simp_all add: emitted_def)
    from Cons.IH [OF e(1) this(2,1)] emitted_then [OF Cons.prems(2) e(2) [unfolded True]] show ?thesis by simp
  qed
qed

lemma emits_payload_blocks:
  assumes "list_all2 (\<lambda>blk ps. emits (snd blk) ps \<and> length ps + 4 \<le> 0xffff) blks pss"
    and "bs = concat (map2 (\<lambda>blk. block_bytes (fst blk)) blks pss)"
  shows "emits (\<lambda>(b, m). case payload_blocks blks (rdp_buffer_init, b, m) of (st, p, b, m) \<Rightarrow> (st, b, m)) bs"
  unfolding emits_emitted
proof (intro allI impI)
  fix b m st b' m'
  assume ok: "buf_ok b" and res: "(\<lambda>(b, m). case payload_blocks blks (rdp_buffer_init, b, m) of
      (st, p, b, m) \<Rightarrow> (st, b, m)) (b, m) = (st, b', m')"
  then obtain p where "payload_blocks blks (rdp_buffer_init, b, m) = (st, p, b', m')"
    by (auto split: prod.splits)
  from payload_blocks_emitted [OF assms(1) buf_ok_init ok this] assms(2) show "emitted b m bs st b' m'" by simp
qed

section \<open>Server data blocks\<close>

definition server_security_payload :: "rdp_gcc_server_config \<Rightarrow> u8 list" where
  "server_security_payload config =
     u32_le_bytes (sc_encryption_method config) @ u32_le_bytes (sc_encryption_level config) @
     (if server_encrypts config
      then u32_le_bytes (of_nat (length (sc_server_random config))) @
           u32_le_bytes (of_nat (length (sc_server_certificate config))) @
           sc_server_random config @ sc_server_certificate config
      else [])"

definition server_channel_ids :: "rdp_gcc_server_config \<Rightarrow> u16 list" where
  "server_channel_ids config =
     map (\<lambda>i. RDP_MCS_GLOBAL_CHANNEL_ID + 1 + of_nat i) [0..<unat (sc_channel_count config)]"

definition server_network_payload :: "rdp_gcc_server_config \<Rightarrow> u8 list" where
  "server_network_payload config =
     u16_le_bytes (nonzero (sc_mcs_channel_id config) RDP_MCS_GLOBAL_CHANNEL_ID) @
     u16_le_bytes (sc_channel_count config) @ concat (map u16_le_bytes (server_channel_ids config))"

definition server_payloads :: "rdp_gcc_server_config \<Rightarrow> u8 list list" where
  "server_payloads config =
     [u32_le_bytes (nonzero (sc_version config) RDP_GCC_CLIENT_VERSION_5) @
      u32_le_bytes (sc_requested_protocols config) @ u32_le_bytes (sc_early_capability_flags config),
      server_security_payload config, server_network_payload config] @
     (if sc_enable_message_channel config then [u16_le_bytes (sc_message_channel_id config)] else []) @
     (if sc_enable_multitransport config then [u32_le_bytes (sc_multitransport_flags config)] else [])"

definition server_blocks_bytes :: "rdp_gcc_server_config \<Rightarrow> u8 list" where
  "server_blocks_bytes config = concat (map2 (\<lambda>blk. block_bytes (fst blk)) (server_blocks config) (server_payloads config))"

text \<open>A configuration that the writer accepts and whose security block fits its length field.\<close>

definition server_config_ok :: "rdp_gcc_server_config \<Rightarrow> bool" where
  "server_config_ok config \<longleftrightarrow>
     unat (sc_channel_count config) \<le> RDP_GCC_MAX_SERVER_CHANNELS \<and>
     sc_early_capability_flags config AND NOT RDP_GCC_SERVER_EARLY_KNOWN_FLAGS = 0 \<and>
     (server_encrypts config \<longrightarrow> sc_server_random config \<noteq> [] \<and> sc_server_certificate config \<noteq> []) \<and>
     (sc_enable_multitransport config \<longrightarrow>
        \<not> multitransport_flags_bad (sc_multitransport_flags config) RDP_GCC_MULTITRANSPORT_SERVER_KNOWN_FLAGS) \<and>
     (sc_enable_message_channel config \<longrightarrow>
        RDP_MCS_GLOBAL_CHANNEL_ID + sc_channel_count config < sc_message_channel_id config) \<and>
     length (sc_server_random config) + length (sc_server_certificate config) + 20 \<le> 0xffff"

definition server_view :: "rdp_gcc_server_config \<Rightarrow> rdp_gcc_server_data" where
  "server_view config =
     \<lparr>sd_has_core = True, sd_has_security = True, sd_has_network = True,
      sd_version = nonzero (sc_version config) RDP_GCC_CLIENT_VERSION_5,
      sd_requested_protocols = sc_requested_protocols config,
      sd_early_capability_flags = sc_early_capability_flags config,
      sd_encryption_method = sc_encryption_method config, sd_encryption_level = sc_encryption_level config,
      sd_server_random = (if server_encrypts config then sc_server_random config else []),
      sd_server_random_len = (if server_encrypts config then of_nat (length (sc_server_random config)) else 0),
      sd_server_certificate = (if server_encrypts config then sc_server_certificate config else []),
      sd_server_certificate_len = (if server_encrypts config then of_nat (length (sc_server_certificate config)) else 0),
      sd_mcs_channel_id = nonzero (sc_mcs_channel_id config) RDP_MCS_GLOBAL_CHANNEL_ID,
      sd_channel_count = sc_channel_count config,
      sd_channel_ids = server_channel_ids config @
        replicate (RDP_GCC_MAX_SERVER_CHANNELS - unat (sc_channel_count config)) 0,
      sd_has_message_channel = sc_enable_message_channel config,
      sd_message_channel_id = (if sc_enable_message_channel config then sc_message_channel_id config else 0),
      sd_has_multitransport = sc_enable_multitransport config,
      sd_multitransport_flags = (if sc_enable_multitransport config then sc_multitransport_flags config else 0)\<rparr>"

lemma length_concat_u16s [simp]: "length (concat (map u16_le_bytes vs)) = 2 * length vs"
  by (induction vs) simp_all

lemma emits_run_u16s [emits_rules]:
  "emits (run_writers (map (\<lambda>i. rdp_buffer_append_u16_le (f i)) is)) (concat (map u16_le_bytes (map f is)))"
  unfolding map_map comp_def
  by (rule emits_run) (simp add: list_all2_conv_all_nth emits_append_words)

lemma read_u16s_bytes:
  "read_u16s (length vs) (strm pre (concat (map u16_le_bytes vs) @ r)) =
    Inr (vs, strm (pre @ concat (map u16_le_bytes vs)) r)"
  by (induction vs arbitrary: pre) (simp_all add: stream_rules)

lemma length_server_channel_ids [simp]: "length (server_channel_ids config) = unat (sc_channel_count config)"
  by (simp add: server_channel_ids_def)

lemma length_server_payloads:
  assumes "server_config_ok config"
  shows "length (server_security_payload config) + 4 \<le> 0xffff" "length (server_network_payload config) + 4 \<le> 0xffff"
  using assms by (auto simp: server_config_ok_def server_security_payload_def server_network_payload_def)

lemma emits_server_data_blocks:
  assumes "server_config_ok config"
  shows "emits (rdp_gcc_write_server_data_blocks config) (server_blocks_bytes config)"
proof -
  note len = length_server_payloads [OF assms]
  have "emits (server_core config) (hd (server_payloads config))"
    unfolding server_core_def server_payloads_def by (auto intro!: emits_rules)
  moreover have "emits (server_security config) (server_security_payload config)"
    unfolding server_security_def server_security_payload_def
    by (cases "server_encrypts config") (auto intro!: emits_rules)
  moreover have "emits (server_network config) (server_network_payload config)"
    unfolding server_network_def server_network_payload_def server_channel_ids_def by (auto intro!: emits_rules)
  ultimately have "list_all2 (\<lambda>blk ps. emits (snd blk) ps \<and> length ps + 4 \<le> 0xffff) (server_blocks config) (server_payloads config)"
    using len by (simp add: server_blocks_def server_payloads_def emits_append_words)
  then have "emits (\<lambda>(b, m). case payload_blocks (server_blocks config) (rdp_buffer_init, b, m) of
      (st, p, b, m) \<Rightarrow> (st, b, m)) (server_blocks_bytes config)"
    by (rule emits_payload_blocks) (simp add: server_blocks_bytes_def)
  with assms show ?thesis by (auto simp: rdp_gcc_write_server_data_blocks_def server_config_ok_def not_le)
qed

text \<open>What the parser makes of each block.\<close>

lemma server_core_block:
  "server_data_block (block_view RDP_GCC_SC_CORE (u32_le_bytes v @ u32_le_bytes p @ u32_le_bytes e)) sd =
    Inr (sd\<lparr>sd_version := v, sd_requested_protocols := p, sd_early_capability_flags := e, sd_has_core := True\<rparr>)"
  by (simp add: server_data_block_def optional_u32_def stream_rules)

lemma server_security_block:
  assumes "server_config_ok config" and "sd_server_random sd = []" "sd_server_certificate sd = []"
    "sd_server_random_len sd = 0" "sd_server_certificate_len sd = 0"
  shows "server_data_block (block_view RDP_GCC_SC_SECURITY (server_security_payload config)) sd =
    Inr (sd\<lparr>sd_encryption_method := sc_encryption_method config, sd_encryption_level := sc_encryption_level config,
       sd_server_random := (if server_encrypts config then sc_server_random config else []),
       sd_server_random_len := (if server_encrypts config then of_nat (length (sc_server_random config)) else 0),
       sd_server_certificate := (if server_encrypts config then sc_server_certificate config else []),
       sd_server_certificate_len := (if server_encrypts config then of_nat (length (sc_server_certificate config)) else 0),
       sd_has_security := True\<rparr>)"
proof (cases "server_encrypts config")
  case True
  let ?r = "sc_server_random config" and ?c = "sc_server_certificate config"
  have u: "unat (of_nat (length ?r) :: u32) = length ?r" "unat (of_nat (length ?c) :: u32) = length ?c"
    using assms(1) by (auto simp: server_config_ok_def intro!: unat_of_nat_u32)
  moreover have "?r \<noteq> []" "?c \<noteq> []" using assms(1) True by (auto simp: server_config_ok_def)
  ultimately have "(of_nat (length ?r) :: u32) \<noteq> 0" "(of_nat (length ?c) :: u32) \<noteq> 0"
    by (metis length_0_conv unat_0)+
  with u True assms(2-) show ?thesis
    by (auto simp: server_data_block_def server_security_payload_def server_encrypts_def stream_rules Let_def)
next
  case False
  with assms(2-) show ?thesis
    by (auto simp: server_data_block_def server_security_payload_def server_encrypts_def stream_rules Let_def)
qed

lemma server_network_block:
  assumes "server_config_ok config" and "sd_channel_ids sd = replicate RDP_GCC_MAX_SERVER_CHANNELS 0"
  shows "server_data_block (block_view RDP_GCC_SC_NETWORK (server_network_payload config)) sd =
    Inr (sd\<lparr>sd_mcs_channel_id := nonzero (sc_mcs_channel_id config) RDP_MCS_GLOBAL_CHANNEL_ID,
       sd_channel_count := sc_channel_count config,
       sd_channel_ids := server_channel_ids config @
         replicate (RDP_GCC_MAX_SERVER_CHANNELS - unat (sc_channel_count config)) 0, sd_has_network := True\<rparr>)"
proof -
  have "read_u16s (unat (sc_channel_count config)) (strm pre (concat (map u16_le_bytes (server_channel_ids config)))) =
      Inr (server_channel_ids config, strm (pre @ concat (map u16_le_bytes (server_channel_ids config))) [])" for pre
    using read_u16s_bytes [of "server_channel_ids config" pre "[]"] by simp
  with assms show ?thesis
    by (simp add: server_data_block_def server_network_payload_def server_config_ok_def stream_rules)
qed

lemma server_message_block:
  "\<not> sd_has_message_channel sd \<Longrightarrow> RDP_MCS_GLOBAL_CHANNEL_ID < v \<Longrightarrow>
    server_data_block (block_view RDP_GCC_SC_MCS_MSGCHANNEL (u16_le_bytes v)) sd =
      Inr (sd\<lparr>sd_message_channel_id := v, sd_has_message_channel := True\<rparr>)"
  by (simp add: server_data_block_def stream_rules)

lemma server_multitransport_block:
  "\<not> multitransport_flags_bad v RDP_GCC_MULTITRANSPORT_SERVER_KNOWN_FLAGS \<Longrightarrow>
    server_data_block (block_view RDP_GCC_SC_MULTITRANSPORT (u32_le_bytes v)) sd =
      Inr (sd\<lparr>sd_multitransport_flags := v, sd_has_multitransport := True\<rparr>)"
  by (simp add: server_data_block_def stream_rules)

lemma parse_server_blocks_bytes:
  assumes "server_config_ok config"
  shows "rdp_gcc_parse_server_data_blocks (server_blocks_bytes config) = Inr (server_view config)"
proof -
  note len = length_server_payloads [OF assms]
  have msg: "RDP_MCS_GLOBAL_CHANNEL_ID < sc_message_channel_id config" if "sc_enable_message_channel config"
  proof -
    have c: "unat (sc_channel_count config) \<le> 64" using assms by (simp add: server_config_ok_def)
    have "RDP_MCS_GLOBAL_CHANNEL_ID \<le> RDP_MCS_GLOBAL_CHANNEL_ID + sc_channel_count config"
      using c by (simp add: word_le_nat_alt unat_word_ariths RDP_MCS_GLOBAL_CHANNEL_ID_def)
    then show ?thesis using assms that by (auto simp: server_config_ok_def)
  qed
  note blk = fold_blocks_block fold_blocks_last server_core_block server_security_block [OF assms]
    server_network_block [OF assms] server_message_block server_multitransport_block
  have "fold_blocks server_data_block (strm [] (server_blocks_bytes config)) server_data_zero = Inr (server_view config)"
    using len msg assms
    by (cases "sc_enable_message_channel config"; cases "sc_enable_multitransport config")
      (simp_all add: server_blocks_bytes_def server_blocks_def server_payloads_def blk server_data_zero_def server_view_def
        server_config_ok_def)
  then show ?thesis
    using assms by (auto simp: rdp_gcc_parse_server_data_blocks_def server_view_def server_config_ok_def)
qed

interpretation server_data_blocks: pdu_codec rdp_gcc_write_server_data_blocks rdp_gcc_parse_server_data_blocks
  server_blocks_bytes server_view server_config_ok
  by unfold_locales (simp_all add: emits_server_data_blocks parse_server_blocks_bytes)

section \<open>Client data blocks\<close>

definition utf16_fixed :: "u8 list \<Rightarrow> nat \<Rightarrow> u8 list" where
  "utf16_fixed text chars =
     concat (map u16_le_bytes (map (\<lambda>i. if i < length (c_string (take (chars - 1) text)) then ucast (text ! i) else 0) [0..<chars]))"

lemma length_utf16_fixed [simp]: "length (utf16_fixed text chars) = 2 * chars"
  unfolding utf16_fixed_def length_concat_u16s by simp

lemma emits_utf16_fixed [emits_rules]:
  "emits (rdp_gcc_write_utf16le_fixed text (2 * chars)) (utf16_fixed text chars)"
proof (cases "chars = 0")
  case True
  then show ?thesis by (simp add: rdp_gcc_write_utf16le_fixed_def utf16_fixed_def emits_run_Nil del: run_writers.simps)
next
  case False
  then have "rdp_gcc_write_utf16le_fixed text (2 * chars) = run_writers
      (map (\<lambda>i. rdp_buffer_append_u16_le (if i < length (c_string (take (chars - 1) text)) then ucast (text ! i) else 0)) [0..<chars])"
    by (simp add: rdp_gcc_write_utf16le_fixed_def Let_def)
  then show ?thesis unfolding utf16_fixed_def by (simp only: emits_run_u16s)
qed

definition core_names :: "rdp_gcc_client_config \<Rightarrow> u8 list" where
  "core_names config = u16_le_bytes 0xca01 @ u16_le_bytes 0xaa03 @ u32_le_bytes 0x00000409 @ u32_le_bytes 2600 @
     utf16_fixed (case cc_client_name config of Some name \<Rightarrow> name | None \<Rightarrow> ascii ''librdp'') 16 @
     u32_le_bytes 4 @ u32_le_bytes 0 @ u32_le_bytes 12 @ replicate 64 0 @
     u16_le_bytes 0xca01 @ u16_le_bytes 1 @ u32_le_bytes 0 @ u16_le_bytes 0x0018"

lemma length_core_names [simp]: "length (core_names config) = 130"
  by (simp add: core_names_def)

definition core_payload :: "rdp_gcc_client_config \<Rightarrow> u8 list" where
  "core_payload config =
     u32_le_bytes (nonzero (cc_client_version config) RDP_GCC_CLIENT_VERSION_5) @
     u16_le_bytes (cc_desktop_width config) @ u16_le_bytes (cc_desktop_height config) @ core_names config @
     u16_le_bytes (nonzero (cc_supported_color_depths config) RDP_GCC_SUPPORTED_COLOR_DEPTHS_LEGACY) @
     u16_le_bytes (nonzero (cc_early_capability_flags config) RDP_GCC_EARLY_SUPPORT_ERRINFO) @
     utf16_fixed (ascii ''librdp'') 32 @
     [nonzero (cc_connection_type config) RDP_GCC_CONNECTION_TYPE_LAN, 0] @
     u32_le_bytes (cc_requested_protocols config) @
     u32_le_bytes (cc_desktop_physical_width config) @ u32_le_bytes (cc_desktop_physical_height config) @
     u16_le_bytes (cc_desktop_orientation config) @
     u32_le_bytes (nonzero (cc_desktop_scale_factor config) 100) @
     u32_le_bytes (nonzero (cc_device_scale_factor config) 100)"

lemma length_core_payload [simp]: "length (core_payload config) = 230"
  by (simp add: core_payload_def)

lemma emits_client_core [emits_rules]:
  "emits (rdp_gcc_write_client_core config) (block_bytes RDP_GCC_CS_CORE (core_payload config))"
proof -
  note names = emits_utf16_fixed [of _ 16, simplified] emits_utf16_fixed [of _ 32, simplified]
  show ?thesis
    unfolding rdp_gcc_write_client_core_def
    by (rule emits_via_local [of _ "core_payload config"])
      (auto simp: core_payload_def core_names_def intro!: emits_rules names)
qed

definition cluster_payload :: "rdp_gcc_client_config \<Rightarrow> u8 list" where
  "cluster_payload config =
     u32_le_bytes (cluster_flags config (nonzero (cc_server_redirection_version config) RDP_GCC_REDIRECTION_VERSION_5)) @
     u32_le_bytes (if cc_redirected_session_id_valid config then cc_redirected_session_id config else 0)"

lemma emits_client_cluster [emits_rules]:
  "cc_server_redirection_version config \<le> RDP_GCC_REDIRECTION_VERSION_6 \<Longrightarrow>
    emits (rdp_gcc_write_client_cluster config) (block_bytes RDP_GCC_CS_CLUSTER (cluster_payload config))"
proof -
  assume v: "cc_server_redirection_version config \<le> RDP_GCC_REDIRECTION_VERSION_6"
  have r: "\<not> nonzero (cc_server_redirection_version config) RDP_GCC_REDIRECTION_VERSION_5 < RDP_GCC_REDIRECTION_VERSION_1"
    "\<not> RDP_GCC_REDIRECTION_VERSION_6 < nonzero (cc_server_redirection_version config) RDP_GCC_REDIRECTION_VERSION_5"
    using v by (auto simp: nonzero_def RDP_GCC_REDIRECTION_VERSION_1_def RDP_GCC_REDIRECTION_VERSION_5_def
        RDP_GCC_REDIRECTION_VERSION_6_def word_less_1)
  show ?thesis
    unfolding rdp_gcc_write_client_cluster_def Let_def
    using r by (auto intro!: emits_via_local [of _ "cluster_payload config"] emits_rules simp: cluster_payload_def)
qed

definition channel_bytes :: "rdp_gcc_channel_definition \<Rightarrow> u8 list" where
  "channel_bytes channel = cd_name channel @ u32_le_bytes (cd_flags channel)"

definition client_channels :: "rdp_gcc_client_config \<Rightarrow> rdp_gcc_channel_definition list" where
  "client_channels config = feature_channels config @ cc_extra_channels config"

definition network_payload :: "rdp_gcc_client_config \<Rightarrow> u8 list" where
  "network_payload config =
     u32_le_bytes (of_nat (length (client_channels config))) @ concat (map channel_bytes (client_channels config))"

definition channels_ok :: "rdp_gcc_client_config \<Rightarrow> bool" where
  "channels_ok config \<longleftrightarrow> length (client_channels config) \<le> RDP_GCC_MAX_SERVER_CHANNELS \<and>
     list_all (\<lambda>channel. length (cd_name channel) = 8) (cc_extra_channels config)"

lemma client_channel_names: "channels_ok config \<Longrightarrow> list_all (\<lambda>channel. length (cd_name channel) = 8) (client_channels config)"
  by (simp add: channels_ok_def client_channels_def feature_channels_def)

lemma length_channel_bytes:
  "list_all (\<lambda>channel. length (cd_name channel) = 8) cs \<Longrightarrow> length (concat (map channel_bytes cs)) = 12 * length cs"
  by (induction cs) (simp_all add: channel_bytes_def)

lemma length_network_payload: "channels_ok config \<Longrightarrow> length (network_payload config) = 4 + 12 * length (client_channels config)"
  by (simp add: network_payload_def length_channel_bytes client_channel_names)

lemma emits_channels: "emits (run_writers (map write_channel cs)) (concat (map channel_bytes cs))"
  by (rule emits_run) (auto simp: list_all2_conv_all_nth write_channel_def channel_bytes_def intro!: emits_rules)

lemma emits_client_network [emits_rules]:
  assumes "channels_ok config"
  shows "emits (rdp_gcc_write_client_network config) (block_bytes RDP_GCC_CS_NETWORK (network_payload config))"
proof -
  have "\<not> RDP_GCC_MAX_SERVER_CHANNELS < length (cc_extra_channels config)"
    "\<not> RDP_GCC_MAX_SERVER_CHANNELS - length (cc_extra_channels config) < length (feature_channels config)"
    using assms by (auto simp: channels_ok_def client_channels_def)
  moreover have "length (network_payload config) + 4 \<le> 0xffff"
    using length_network_payload [OF assms] assms by (simp add: channels_ok_def)
  moreover have "emits (run_writers
            (rdp_buffer_append_u32_le (of_nat (length (feature_channels config) + length (cc_extra_channels config))) #
             map write_channel (feature_channels config) @ map write_channel (cc_extra_channels config)))
          (network_payload config)"
    unfolding network_payload_def client_channels_def
    by (rule emits_run_Cons'; auto intro!: emits_rules emits_channels)
  ultimately show ?thesis
    unfolding rdp_gcc_write_client_network_def Let_def
    by (auto intro!: emits_via_local [of _ "network_payload config"] emits_block simp del: run_writers.simps of_nat_add)
qed

definition multitransport_flags :: "rdp_gcc_client_config \<Rightarrow> u32" where
  "multitransport_flags config = nonzero (cc_multitransport_flags config)
     (RDP_GCC_MULTITRANSPORT_UDP_FECR OR RDP_GCC_MULTITRANSPORT_UDP_FECL OR RDP_GCC_MULTITRANSPORT_UDP_PREFERRED)"

definition optional_block :: "bool \<Rightarrow> u16 \<Rightarrow> u8 list \<Rightarrow> u8 list" where
  "optional_block on type payload = (if on then block_bytes type payload else [])"

definition client_blocks_bytes :: "rdp_gcc_client_config \<Rightarrow> u8 list" where
  "client_blocks_bytes config =
     block_bytes RDP_GCC_CS_CORE (core_payload config) @
     optional_block (cc_enable_server_redirection config) RDP_GCC_CS_CLUSTER (cluster_payload config) @
     block_bytes RDP_GCC_CS_SECURITY (u32_le_bytes 0x0000000b @ u32_le_bytes 0) @
     block_bytes RDP_GCC_CS_NETWORK (network_payload config) @
     optional_block (cc_enable_message_channel config) RDP_GCC_CS_MCS_MSGCHANNEL
       (u32_le_bytes (cc_message_channel_flags config)) @
     optional_block (cc_enable_multitransport config) RDP_GCC_CS_MULTITRANSPORT
       (u32_le_bytes (multitransport_flags config))"

text \<open>A configuration that the writer accepts.\<close>

definition client_config_ok :: "rdp_gcc_client_config \<Rightarrow> bool" where
  "client_config_ok config \<longleftrightarrow> cc_desktop_width config \<noteq> 0 \<and> cc_desktop_height config \<noteq> 0 \<and> channels_ok config \<and>
     (cc_enable_server_redirection config \<longrightarrow> cc_server_redirection_version config \<le> RDP_GCC_REDIRECTION_VERSION_6) \<and>
     (cc_enable_multitransport config \<longrightarrow>
        \<not> multitransport_flags_bad (multitransport_flags config) RDP_GCC_MULTITRANSPORT_CLIENT_KNOWN_FLAGS)"

lemma emits_client_rest [emits_rules]:
  "emits rdp_gcc_write_client_security (block_bytes RDP_GCC_CS_SECURITY (u32_le_bytes 0x0000000b @ u32_le_bytes 0))"
  "emits (rdp_gcc_write_client_message_channel config)
     (block_bytes RDP_GCC_CS_MCS_MSGCHANNEL (u32_le_bytes (cc_message_channel_flags config)))"
  "\<not> multitransport_flags_bad (multitransport_flags config) RDP_GCC_MULTITRANSPORT_CLIENT_KNOWN_FLAGS \<Longrightarrow>
   emits (rdp_gcc_write_client_multitransport config)
     (block_bytes RDP_GCC_CS_MULTITRANSPORT (u32_le_bytes (multitransport_flags config)))"
proof -
  show "emits rdp_gcc_write_client_security (block_bytes RDP_GCC_CS_SECURITY (u32_le_bytes 0x0000000b @ u32_le_bytes 0))"
    unfolding rdp_gcc_write_client_security_def
    by (rule emits_via_local [of _ "u32_le_bytes 0x0000000b @ u32_le_bytes 0"]) (auto intro!: emits_rules)
  show "emits (rdp_gcc_write_client_message_channel config)
     (block_bytes RDP_GCC_CS_MCS_MSGCHANNEL (u32_le_bytes (cc_message_channel_flags config)))"
    unfolding rdp_gcc_write_client_message_channel_def
    by (rule emits_via_local [of _ "u32_le_bytes (cc_message_channel_flags config)"]) (auto intro!: emits_rules)
  assume "\<not> multitransport_flags_bad (multitransport_flags config) RDP_GCC_MULTITRANSPORT_CLIENT_KNOWN_FLAGS"
  then show "emits (rdp_gcc_write_client_multitransport config)
     (block_bytes RDP_GCC_CS_MULTITRANSPORT (u32_le_bytes (multitransport_flags config)))"
    unfolding rdp_gcc_write_client_multitransport_def multitransport_flags_def [symmetric] Let_def
    by (auto simp: multitransport_flags_bad_def
        intro!: emits_via_local [of _ "u32_le_bytes (multitransport_flags config)"] emits_rules)
qed

lemma emits_client_data_blocks:
  assumes "client_config_ok config"
  shows "emits (rdp_gcc_write_client_data_blocks config) (client_blocks_bytes config)"
proof -
  have opt: "emits (run_writers (if on then [w] else [])) (optional_block on type p)"
    if "on \<longrightarrow> emits w (block_bytes type p)" for on w type p
    using that by (auto simp: optional_block_def emits_run_one emits_run_Nil)
  let ?sec = "block_bytes RDP_GCC_CS_SECURITY (u32_le_bytes 0x0000000b @ u32_le_bytes 0)"
  let ?net = "block_bytes RDP_GCC_CS_NETWORK (network_payload config)"
  have sn: "emits (run_writers [rdp_gcc_write_client_security, rdp_gcc_write_client_network config]) (?sec @ ?net)"
    using assms by (intro emits_run_Cons emits_run_one emits_client_rest emits_client_network) (simp add: client_config_ok_def)
  have "emits (run_writers (client_blocks config))
          (block_bytes RDP_GCC_CS_CORE (core_payload config) @
           optional_block (cc_enable_server_redirection config) RDP_GCC_CS_CLUSTER (cluster_payload config) @
           (?sec @ ?net) @
           optional_block (cc_enable_message_channel config) RDP_GCC_CS_MCS_MSGCHANNEL
             (u32_le_bytes (cc_message_channel_flags config)) @
           optional_block (cc_enable_multitransport config) RDP_GCC_CS_MULTITRANSPORT
             (u32_le_bytes (multitransport_flags config)))"
    unfolding client_blocks_def
    by (intro emits_run_append [OF _ _ refl] emits_run_one opt impI emits_client_core sn emits_client_cluster
        emits_client_rest) (use assms in \<open>auto simp: client_config_ok_def\<close>)
  then have "emits (run_writers (client_blocks config)) (client_blocks_bytes config)"
    unfolding client_blocks_bytes_def by (simp only: append_assoc)
  with assms show ?thesis
    unfolding rdp_gcc_write_client_data_blocks_def
    by (auto simp: client_config_ok_def intro!: emits_via_local [of _ "client_blocks_bytes config"] emits_append
        simp del: run_writers.simps append.simps)
qed


text \<open>What the parser makes of each block.\<close>

lemma strm_seek:
  "n \<le> length pre + length r \<Longrightarrow> (strm pre r)\<lparr>st_position := n\<rparr> = strm (take n (pre @ r)) (drop n (pre @ r))"
  by (auto simp: strm_def min_def)

lemma field_at_strm:
  assumes "pre @ r = xs @ ys" and "length xs = at" and "need \<le> len" and "rd (strm xs ys) = Inr (w, s)"
  shows "field_at len at rd v (strm pre r) need = Inr w"
proof -
  have len: "at \<le> length pre + length r" using assms(1,2) by (metis length_append le_add1)
  have "take at (pre @ r) = xs" "drop at (pre @ r) = ys" using assms(1,2) by simp_all
  then have "(strm pre r)\<lparr>st_position := at\<rparr> = strm xs ys" unfolding strm_seek [OF len] by (simp only:)
  with assms(3,4) show ?thesis by (simp add: field_at_def)
qed

lemma field_at_split:
  "\<exists>s. rd (strm (take at p) (drop at p)) = Inr (w, s) \<Longrightarrow> at \<le> length p \<Longrightarrow> need \<le> len \<Longrightarrow> pre @ r = p \<Longrightarrow>
    field_at len at rd v (strm pre r) need = Inr w"
  by (elim exE, rule field_at_strm [of pre r "take at p" "drop at p"]) simp_all

lemma u32_le_halves: "u32_le_bytes w = u16_le_bytes (ucast w) @ u16_le_bytes (ucast (drop_bit 16 w))"
  unfolding u32_le_bytes_def u16_le_bytes_def and_0xff_eq by (auto intro!: bit_word_eqI simp: bit_simps)

lemma client_core_block:
  "client_data_block (block_view RDP_GCC_CS_CORE (core_payload config)) cs =
    Inr (cs\<lparr>cs_version := nonzero (cc_client_version config) RDP_GCC_CLIENT_VERSION_5,
       cs_desktop_width := cc_desktop_width config, cs_desktop_height := cc_desktop_height config, cs_has_core := True,
       cs_requested_protocols := cc_requested_protocols config,
       cs_supported_color_depths := nonzero (cc_supported_color_depths config) RDP_GCC_SUPPORTED_COLOR_DEPTHS_LEGACY,
       cs_early_capability_flags := nonzero (cc_early_capability_flags config) RDP_GCC_EARLY_SUPPORT_ERRINFO,
       cs_connection_type := nonzero (cc_connection_type config) RDP_GCC_CONNECTION_TYPE_LAN,
       cs_desktop_physical_width := cc_desktop_physical_width config,
       cs_desktop_physical_height := cc_desktop_physical_height config\<rparr>)"
proof -
  let ?p = "core_payload config"
  let ?a = "u32_le_bytes (nonzero (cc_client_version config) RDP_GCC_CLIENT_VERSION_5) @
     u16_le_bytes (cc_desktop_width config) @ u16_le_bytes (cc_desktop_height config)"
  let ?v1 = "nonzero (cc_supported_color_depths config) RDP_GCC_SUPPORTED_COLOR_DEPTHS_LEGACY"
  let ?v2 = "nonzero (cc_early_capability_flags config) RDP_GCC_EARLY_SUPPORT_ERRINFO"
  let ?v3 = "nonzero (cc_connection_type config) RDP_GCC_CONNECTION_TYPE_LAN"
  let ?s = "strm ?a (drop 8 ?p)"
  have p: "?a @ drop 8 ?p = ?p" by (simp add: core_payload_def)
  have fields:
    "field_at 230 208 rdp_stream_read_u32_le v4 ?s 212 = Inr (cc_requested_protocols config)"
    "field_at 230 138 rdp_stream_read_u16_le v2 ?s 142 = Inr ?v1"
    "field_at 230 140 rdp_stream_read_u16_le v2 ?s 142 = Inr ?v2"
    "field_at 230 206 rdp_stream_read_u8 v1 ?s 207 = Inr ?v3"
    "field_at 230 212 rdp_stream_read_u32_le v4 ?s 220 = Inr (cc_desktop_physical_width config)"
    "field_at 230 216 rdp_stream_read_u32_le v4 ?s 220 = Inr (cc_desktop_physical_height config)" for v1 v2 v4
    by (rule field_at_split [OF _ _ _ p]; simp add: core_payload_def stream_rules)+
  have init: "rdp_stream_init ?p = strm [] (u32_le_bytes (nonzero (cc_client_version config) RDP_GCC_CLIENT_VERSION_5) @
     u16_le_bytes (cc_desktop_width config) @ u16_le_bytes (cc_desktop_height config) @ drop 8 ?p)"
    using p by simp
  show ?thesis
    unfolding client_data_block_def Let_def block_view_sel init by (simp add: stream_rules fields)
qed

lemma client_cluster_block:
  assumes "\<not> cs_has_cluster cs" and "cc_server_redirection_version config \<le> RDP_GCC_REDIRECTION_VERSION_6"
  shows "client_data_block (block_view RDP_GCC_CS_CLUSTER (cluster_payload config)) cs =
    Inr (cs\<lparr>cs_cluster_flags := cluster_flags config (nonzero (cc_server_redirection_version config) RDP_GCC_REDIRECTION_VERSION_5),
       cs_redirected_session_id := (if cc_redirected_session_id_valid config then cc_redirected_session_id config else 0),
       cs_has_cluster := True\<rparr>)"
proof -
  define v where "v = nonzero (cc_server_redirection_version config) RDP_GCC_REDIRECTION_VERSION_5"
  have "v \<noteq> 0" "v \<le> 6"
    using assms(2) by (auto simp: v_def nonzero_def RDP_GCC_REDIRECTION_VERSION_5_def RDP_GCC_REDIRECTION_VERSION_6_def)
  then have "unat v \<noteq> 0" "unat v \<le> 6" by (simp_all add: word_le_nat_alt unat_eq_0)
  then have "unat v = 1 \<or> unat v = 2 \<or> unat v = 3 \<or> unat v = 4 \<or> unat v = 5 \<or> unat v = 6" by arith
  then have "v = 1 \<or> v = 2 \<or> v = 3 \<or> v = 4 \<or> v = 5 \<or> v = 6" by (auto intro: word_unat_eqI)
  then have "\<not> cluster_bad (cluster_flags config v) (if cc_redirected_session_id_valid config then cc_redirected_session_id config else 0)"
    by (elim disjE) (auto simp: cluster_bad_def cluster_flags_def RDP_GCC_CLUSTER_REDIRECTION_VERSION_MASK_def
        RDP_GCC_CLUSTER_KNOWN_FLAGS_def RDP_GCC_CLUSTER_REDIRECTION_SUPPORTED_def RDP_GCC_REDIRECTION_VERSION_6_def
        RDP_GCC_CLUSTER_REDIRECTED_SESSION_ID_VALID_def RDP_GCC_CLUSTER_REDIRECTED_SMARTCARD_def)
  with assms(1) show ?thesis
    by (simp add: client_data_block_def cluster_payload_def stream_rules flip: v_def)
qed

lemma read_channels_bytes:
  "list_all (\<lambda>channel. length (cd_name channel) = 8) cs \<Longrightarrow>
    read_channels (length cs) (strm pre (concat (map channel_bytes cs) @ r)) =
      Inr (cs, strm (pre @ concat (map channel_bytes cs)) r)"
  by (induction cs arbitrary: pre) (simp_all add: channel_bytes_def stream_rules)

lemma client_network_block:
  assumes ok: "channels_ok config"
    and old: "cs_channels cs = replicate RDP_GCC_MAX_SERVER_CHANNELS \<lparr>cd_name = replicate 8 0, cd_flags = 0\<rparr>"
  shows "client_data_block (block_view RDP_GCC_CS_NETWORK (network_payload config)) cs =
    Inr (cs\<lparr>cs_channel_count := of_nat (length (client_channels config)),
       cs_channels := client_channels config @ replicate (RDP_GCC_MAX_SERVER_CHANNELS - length (client_channels config))
         \<lparr>cd_name = replicate 8 0, cd_flags = 0\<rparr>, cs_has_network := True\<rparr>)"
proof -
  let ?cs = "client_channels config" and ?n = "length (client_channels config)"
  have n: "?n \<le> 64" using ok by (simp add: channels_ok_def)
  have u: "unat (of_nat ?n :: u16) = ?n" by (rule unat_of_nat_u16) (use n in simp)
  obtain h where h: "u32_le_bytes (of_nat ?n) = u16_le_bytes (of_nat ?n) @ u16_le_bytes h"
  proof
    have "ucast (of_nat ?n :: u32) = (of_nat ?n :: u16)"
      by (rule word_unat_eqI) (use n in \<open>simp add: unsigned_ucast_eq unsigned_of_nat take_bit_nat_eq_self\<close>)
    then show "u32_le_bytes (of_nat ?n) = u16_le_bytes (of_nat ?n) @ u16_le_bytes (ucast (drop_bit 16 (of_nat ?n :: u32)))"
      using u32_le_halves [of "of_nat ?n"] by (simp only:)
  qed
  have "read_channels ?n (strm pre (concat (map channel_bytes ?cs))) =
      Inr (?cs, strm (pre @ concat (map channel_bytes ?cs)) [])" for pre
    using read_channels_bytes [OF client_channel_names [OF ok], of pre "[]"] by simp
  with u n old show ?thesis
    by (simp add: client_data_block_def network_payload_def h stream_rules length_channel_bytes [OF client_channel_names [OF ok]])
qed


lemma client_rest_blocks:
  "client_data_block (block_view RDP_GCC_CS_SECURITY (u32_le_bytes a @ u32_le_bytes b)) cs = Inr (cs\<lparr>cs_has_security := True\<rparr>)"
  "\<not> cs_has_message_channel cs \<Longrightarrow>
   client_data_block (block_view RDP_GCC_CS_MCS_MSGCHANNEL (u32_le_bytes v)) cs =
     Inr (cs\<lparr>cs_message_channel_flags := v, cs_has_message_channel := True\<rparr>)"
  "\<not> multitransport_flags_bad v RDP_GCC_MULTITRANSPORT_CLIENT_KNOWN_FLAGS \<Longrightarrow>
   client_data_block (block_view RDP_GCC_CS_MULTITRANSPORT (u32_le_bytes v)) cs =
     Inr (cs\<lparr>cs_multitransport_flags := v, cs_has_multitransport := True\<rparr>)"
  by (simp_all add: client_data_block_def stream_rules)

definition client_view :: "rdp_gcc_client_config \<Rightarrow> rdp_gcc_client_data_summary" where
  "client_view config =
     \<lparr>cs_has_core = True, cs_has_security = True, cs_has_network = True,
      cs_desktop_width = cc_desktop_width config, cs_desktop_height = cc_desktop_height config,
      cs_version = nonzero (cc_client_version config) RDP_GCC_CLIENT_VERSION_5,
      cs_requested_protocols = cc_requested_protocols config,
      cs_early_capability_flags = nonzero (cc_early_capability_flags config) RDP_GCC_EARLY_SUPPORT_ERRINFO,
      cs_supported_color_depths = nonzero (cc_supported_color_depths config) RDP_GCC_SUPPORTED_COLOR_DEPTHS_LEGACY,
      cs_connection_type = nonzero (cc_connection_type config) RDP_GCC_CONNECTION_TYPE_LAN,
      cs_desktop_physical_width = cc_desktop_physical_width config,
      cs_desktop_physical_height = cc_desktop_physical_height config,
      cs_has_cluster = cc_enable_server_redirection config,
      cs_cluster_flags = (if cc_enable_server_redirection config
        then cluster_flags config (nonzero (cc_server_redirection_version config) RDP_GCC_REDIRECTION_VERSION_5) else 0),
      cs_redirected_session_id =
        (if cc_enable_server_redirection config \<and> cc_redirected_session_id_valid config
         then cc_redirected_session_id config else 0),
      cs_channel_count = of_nat (length (client_channels config)),
      cs_channels = client_channels config @ replicate (RDP_GCC_MAX_SERVER_CHANNELS - length (client_channels config))
        \<lparr>cd_name = replicate 8 0, cd_flags = 0\<rparr>,
      cs_has_message_channel = cc_enable_message_channel config,
      cs_message_channel_flags = (if cc_enable_message_channel config then cc_message_channel_flags config else 0),
      cs_has_multitransport = cc_enable_multitransport config,
      cs_multitransport_flags = (if cc_enable_multitransport config then multitransport_flags config else 0)\<rparr>"

lemma fold_optional_block:
  assumes "on \<longrightarrow> length payload + 4 \<le> 0xffff"
  shows "fold_blocks f (strm pre (optional_block on type payload @ r)) acc =
    (if on then ebind (f (block_view type payload) acc) (fold_blocks f (strm (pre @ block_bytes type payload) r))
     else fold_blocks f (strm pre r) acc)"
  using assms by (simp add: optional_block_def fold_blocks_block)

lemma parse_client_blocks_bytes:
  assumes ok: "client_config_ok config"
  shows "rdp_gcc_parse_client_data_blocks (client_blocks_bytes config) = Inr (client_view config)"
proof -
  have ch: "channels_ok config" and net: "length (network_payload config) + 4 \<le> 0xffff"
    using ok length_network_payload [of config] by (auto simp: client_config_ok_def channels_ok_def)
  have cl: "length (cluster_payload config) + 4 \<le> 0xffff" by (simp add: cluster_payload_def)
  define tl where "tl = optional_block (cc_enable_message_channel config) RDP_GCC_CS_MCS_MSGCHANNEL
       (u32_le_bytes (cc_message_channel_flags config)) @
     optional_block (cc_enable_multitransport config) RDP_GCC_CS_MULTITRANSPORT
       (u32_le_bytes (multitransport_flags config))"
  have tail: "\<not> cs_has_message_channel acc \<Longrightarrow> fold_blocks client_data_block (strm pre tl) acc =
      Inr (acc\<lparr>cs_has_message_channel := cc_enable_message_channel config,
        cs_message_channel_flags := (if cc_enable_message_channel config then cc_message_channel_flags config
          else cs_message_channel_flags acc),
        cs_has_multitransport := cc_enable_multitransport config \<or> cs_has_multitransport acc,
        cs_multitransport_flags := (if cc_enable_multitransport config then multitransport_flags config
          else cs_multitransport_flags acc)\<rparr>)" for pre acc
    using ok
    by (cases "cc_enable_message_channel config"; cases "cc_enable_multitransport config")
      (simp_all add: tl_def optional_block_def fold_blocks_block fold_blocks_last fold_blocks_end client_rest_blocks client_config_ok_def)
  have "fold_blocks client_data_block (strm [] (client_blocks_bytes config)) client_data_zero = Inr (client_view config)"
    using ok ch net cl
    by (cases "cc_enable_server_redirection config")
      (simp_all add: client_blocks_bytes_def fold_blocks_block fold_optional_block tail client_core_block
        client_cluster_block client_network_block client_rest_blocks client_data_zero_def client_view_def client_config_ok_def
        flip: tl_def)
  then show ?thesis by (simp add: rdp_gcc_parse_client_data_blocks_def client_view_def)
qed

interpretation client_data_blocks: pdu_codec rdp_gcc_write_client_data_blocks rdp_gcc_parse_client_data_blocks
  client_blocks_bytes client_view client_config_ok
  by unfold_locales (simp_all add: emits_client_data_blocks parse_client_blocks_bytes)

section \<open>Properties\<close>

text \<open>
  C36. GCC client data round trip. For every client configuration that the writer accepts, whatever features, extra
  channels, redirection and multitransport options it enables, the data blocks written by the client
  are parsed by the server into exactly that configuration: geometry, version, security protocols, the
  ordered channel list and every optional block.
\<close>

theorem gcc_client_data_roundtrip:
  assumes "client_config_ok config"
  shows "transmits (rdp_gcc_write_client_data_blocks config) rdp_gcc_parse_client_data_blocks (client_view config)"
  by (rule client_data_blocks.transmits [OF assms])

theorem gcc_client_data_roundtrip_witness:
  "let config = \<lparr>cc_client_version = 0, cc_desktop_width = 1024, cc_desktop_height = 768, cc_requested_protocols = 3,
      cc_early_capability_flags = 0, cc_supported_color_depths = 0, cc_connection_type = 0,
      cc_desktop_physical_width = 0, cc_desktop_physical_height = 0, cc_desktop_orientation = 0,
      cc_desktop_scale_factor = 0, cc_device_scale_factor = 0, cc_client_name = None,
      cc_enable_dynamic_channels = True, cc_enable_clipboard = True, cc_enable_audio_output = False,
      cc_enable_device_redirection = False, cc_enable_pnp_redirection = False, cc_enable_remote_programs = False,
      cc_enable_server_redirection = True, cc_server_redirection_version = 0, cc_redirected_session_id_valid = False,
      cc_redirected_smartcard = False, cc_redirected_session_id = 0, cc_enable_message_channel = True,
      cc_message_channel_flags = 0, cc_enable_multitransport = True, cc_multitransport_flags = 0,
      cc_extra_channels = [\<lparr>cd_name = ascii ''test'' @ [0, 0, 0, 0], cd_flags = 7\<rparr>]\<rparr> in
   transmits (rdp_gcc_write_client_data_blocks config) rdp_gcc_parse_client_data_blocks (client_view config) \<and>
   cs_channel_count (client_view config) = 3 \<and> cs_desktop_width (client_view config) = 1024"
proof -
  define config where "config = \<lparr>cc_client_version = 0, cc_desktop_width = 1024, cc_desktop_height = 768,
      cc_requested_protocols = 3, cc_early_capability_flags = 0, cc_supported_color_depths = 0, cc_connection_type = 0,
      cc_desktop_physical_width = 0, cc_desktop_physical_height = 0, cc_desktop_orientation = 0,
      cc_desktop_scale_factor = 0, cc_device_scale_factor = 0, cc_client_name = None,
      cc_enable_dynamic_channels = True, cc_enable_clipboard = True, cc_enable_audio_output = False,
      cc_enable_device_redirection = False, cc_enable_pnp_redirection = False, cc_enable_remote_programs = False,
      cc_enable_server_redirection = True, cc_server_redirection_version = 0, cc_redirected_session_id_valid = False,
      cc_redirected_smartcard = False, cc_redirected_session_id = 0, cc_enable_message_channel = True,
      cc_message_channel_flags = 0, cc_enable_multitransport = True, cc_multitransport_flags = 0,
      cc_extra_channels = [\<lparr>cd_name = ascii ''test'' @ [0, 0, 0, 0], cd_flags = 7\<rparr>]\<rparr>"
  have "client_config_ok config"
    by (simp add: config_def client_config_ok_def channels_ok_def client_channels_def feature_channels_def
        multitransport_flags_def nonzero_def multitransport_flags_bad_def RDP_GCC_MULTITRANSPORT_UDP_FECR_def
        RDP_GCC_MULTITRANSPORT_UDP_FECL_def RDP_GCC_MULTITRANSPORT_UDP_PREFERRED_def
        RDP_GCC_MULTITRANSPORT_CLIENT_KNOWN_FLAGS_def)
  from gcc_client_data_roundtrip [OF this] show ?thesis
    unfolding config_def [symmetric] Let_def
    by (simp add: client_view_def) (simp add: config_def client_channels_def feature_channels_def)
qed

text \<open>
  C37. GCC server data round trip. For every server configuration that the writer accepts and whose random and
  certificate fit the block, the client parses the written blocks into exactly that configuration: the
  encryption method and level with random and certificate, one MCS channel id per channel, counted up from
  the global channel, and the message channel and multitransport offers.
\<close>

theorem gcc_server_data_roundtrip:
  assumes "server_config_ok config"
  shows "transmits (rdp_gcc_write_server_data_blocks config) rdp_gcc_parse_server_data_blocks (server_view config)"
  by (rule server_data_blocks.transmits [OF assms])

theorem gcc_server_data_roundtrip_witness:
  "let config = \<lparr>sc_version = 0, sc_requested_protocols = 1, sc_early_capability_flags = 0, sc_encryption_method = 2,
      sc_encryption_level = 3, sc_server_random = [1, 2, 3], sc_server_certificate = [9, 9], sc_mcs_channel_id = 0,
      sc_channel_count = 2, sc_enable_message_channel = True, sc_message_channel_id = 1006,
      sc_enable_multitransport = False, sc_multitransport_flags = 0\<rparr> in
   transmits (rdp_gcc_write_server_data_blocks config) rdp_gcc_parse_server_data_blocks (server_view config) \<and>
   sd_server_random (server_view config) = [1, 2, 3] \<and> sd_message_channel_id (server_view config) = 1006"
proof -
  define config where "config = \<lparr>sc_version = 0, sc_requested_protocols = 1, sc_early_capability_flags = 0,
      sc_encryption_method = 2, sc_encryption_level = 3, sc_server_random = [1, 2, 3], sc_server_certificate = [9, 9],
      sc_mcs_channel_id = 0, sc_channel_count = 2, sc_enable_message_channel = True, sc_message_channel_id = 1006,
      sc_enable_multitransport = False, sc_multitransport_flags = 0\<rparr>"
  have "server_config_ok config"
    by (simp add: config_def server_config_ok_def server_encrypts_def RDP_MCS_GLOBAL_CHANNEL_ID_def)
  from gcc_server_data_roundtrip [OF this] show ?thesis
    unfolding config_def [symmetric] Let_def
    by (simp add: server_view_def) (simp add: config_def server_encrypts_def)
qed

end
