(* ===== verification/Capabilities.thy ===== *)
theory Capabilities
  imports Codec
begin

text \<open>
  Capability sets, \<^verbatim>\<open>src/src/protocol/capabilities.c\<close>: the parser of the list of sets that Demand
  Active and Confirm Active carry, the lookup by type, and one parser per set. A parsed list holds
  the sets that were read; the unused tail of the C array of 64 entries is not represented.
  \<open>capability_list_bytes\<close> describes the wire format of a list, and the first property says that the
  parser accepts exactly the encodings of lists of pairwise distinct types.
\<close>

section \<open>Data\<close>

definition RDP_CAPABILITY_MAX_SETS :: nat where
  "RDP_CAPABILITY_MAX_SETS = 64"

definition RDP_CAPABILITY_TYPE_GENERAL :: u16 where
  "RDP_CAPABILITY_TYPE_GENERAL = 0x0001"

definition RDP_CAPABILITY_TYPE_BITMAP :: u16 where
  "RDP_CAPABILITY_TYPE_BITMAP = 0x0002"

definition RDP_CAPABILITY_TYPE_ORDER :: u16 where
  "RDP_CAPABILITY_TYPE_ORDER = 0x0003"

definition RDP_CAPABILITY_TYPE_CONTROL :: u16 where
  "RDP_CAPABILITY_TYPE_CONTROL = 0x0005"

definition RDP_CAPABILITY_TYPE_ACTIVATION :: u16 where
  "RDP_CAPABILITY_TYPE_ACTIVATION = 0x0007"

definition RDP_CAPABILITY_TYPE_POINTER :: u16 where
  "RDP_CAPABILITY_TYPE_POINTER = 0x0008"

definition RDP_CAPABILITY_TYPE_SHARE :: u16 where
  "RDP_CAPABILITY_TYPE_SHARE = 0x0009"

definition RDP_CAPABILITY_TYPE_COLOR_CACHE :: u16 where
  "RDP_CAPABILITY_TYPE_COLOR_CACHE = 0x000a"

definition RDP_CAPABILITY_TYPE_SOUND :: u16 where
  "RDP_CAPABILITY_TYPE_SOUND = 0x000c"

definition RDP_CAPABILITY_TYPE_INPUT :: u16 where
  "RDP_CAPABILITY_TYPE_INPUT = 0x000d"

definition RDP_CAPABILITY_TYPE_FONT :: u16 where
  "RDP_CAPABILITY_TYPE_FONT = 0x000e"

definition RDP_CAPABILITY_TYPE_BRUSH :: u16 where
  "RDP_CAPABILITY_TYPE_BRUSH = 0x000f"

definition RDP_CAPABILITY_TYPE_GLYPH_CACHE :: u16 where
  "RDP_CAPABILITY_TYPE_GLYPH_CACHE = 0x0010"

definition RDP_CAPABILITY_TYPE_BITMAP_CACHE_V2 :: u16 where
  "RDP_CAPABILITY_TYPE_BITMAP_CACHE_V2 = 0x0013"

definition RDP_CAPABILITY_TYPE_VIRTUAL_CHANNEL :: u16 where
  "RDP_CAPABILITY_TYPE_VIRTUAL_CHANNEL = 0x0014"

definition RDP_CAPABILITY_TYPE_LARGE_POINTER :: u16 where
  "RDP_CAPABILITY_TYPE_LARGE_POINTER = 0x001b"

definition RDP_CAPABILITY_TYPE_BITMAP_CODECS :: u16 where
  "RDP_CAPABILITY_TYPE_BITMAP_CODECS = 0x001d"

definition RDP_CAPABILITY_BITMAP_CODECS_MAX :: nat where
  "RDP_CAPABILITY_BITMAP_CODECS_MAX = 16"

definition RDP_CAPABILITY_GENERAL_FASTPATH_OUTPUT_SUPPORTED :: u16 where
  "RDP_CAPABILITY_GENERAL_FASTPATH_OUTPUT_SUPPORTED = 0x0001"

record rdp_capability_set =
  cap_type :: u16
  cap_length :: u16
  cap_data :: "u8 list"
  cap_data_len :: nat

record rdp_capability_list =
  caps_count :: u16
  caps_sets :: "rdp_capability_set list"

record rdp_capability_general =
  cg_os_major_type :: u16
  cg_os_minor_type :: u16
  cg_protocol_version :: u16
  cg_compression_types :: u16
  cg_extra_flags :: u16
  cg_update_capability_flag :: u16
  cg_remote_unshare_flag :: u16
  cg_compression_level :: u16
  cg_refresh_rect_support :: u8
  cg_suppress_output_support :: u8

record rdp_capability_bitmap =
  cb_preferred_bits_per_pixel :: u16
  cb_receive_1_bit_per_pixel :: u16
  cb_receive_4_bits_per_pixel :: u16
  cb_receive_8_bits_per_pixel :: u16
  cb_desktop_width :: u16
  cb_desktop_height :: u16
  cb_desktop_resize_flag :: u16
  cb_bitmap_compression_flag :: u16
  cb_high_color_flags :: u8
  cb_drawing_flags :: u8
  cb_multiple_rectangle_support :: u16

record rdp_capability_order =
  co_terminal_descriptor :: "u8 list"
  co_desktop_save_size :: u32
  co_desktop_save_x_granularity :: u16
  co_desktop_save_y_granularity :: u16
  co_maximum_order_level :: u16
  co_number_fonts :: u16
  co_order_flags :: u16
  co_order_support :: "u8 list"
  co_text_flags :: u16
  co_order_support_ex_flags :: u16
  co_text_ansi_code_page :: u16

record rdp_capability_bitmap_cache_v2 =
  cc_cache_flags :: u16
  cc_num_cell_caches :: u8
  cc_cell_info :: "u32 list"

record rdp_capability_pointer =
  cp_color_pointer_flag :: u16
  cp_color_pointer_cache_size :: u16
  cp_pointer_cache_size :: u16

record rdp_capability_large_pointer =
  clp_support_flags :: u16

record rdp_capability_input =
  ci_input_flags :: u16
  ci_keyboard_layout :: u32
  ci_keyboard_type :: u32
  ci_keyboard_subtype :: u32
  ci_keyboard_function_key :: u32
  ci_ime_file_name :: "u8 list"

record rdp_capability_brush =
  cbr_support_level :: u32

record rdp_capability_glyph_cache_entry =
  cge_cache_entries :: u16
  cge_maximum_cell_size :: u16

record rdp_capability_glyph_cache =
  cgc_glyph_cache :: "rdp_capability_glyph_cache_entry list"
  cgc_frag_cache_entries :: u16
  cgc_frag_cache_maximum_cell_size :: u16
  cgc_glyph_support_level :: u16

record rdp_capability_virtual_channel =
  cv_flags :: u32
  cv_chunk_size :: u32
  cv_has_chunk_size :: bool

record rdp_capability_sound =
  csn_flags :: u16

record rdp_capability_share =
  csh_node_id :: u16

record rdp_capability_font =
  cf_support_flags :: u16

record rdp_capability_control =
  cct_control_flags :: u16
  cct_remote_detach_flag :: u16
  cct_control_interest :: u16
  cct_detach_interest :: u16

record rdp_capability_color_cache =
  ccc_cache_size :: u16

record rdp_capability_activation =
  ca_help_key_flag :: u16
  ca_help_key_index_flag :: u16
  ca_help_extended_key_flag :: u16
  ca_window_manager_key_flag :: u16

record rdp_capability_bitmap_codec =
  cbc_guid :: "u8 list"
  cbc_codec_id :: u8
  cbc_properties_len :: u16
  cbc_properties :: "u8 list"

record rdp_capability_bitmap_codecs =
  cbcs_count :: u8
  cbcs_codecs :: "rdp_capability_bitmap_codec list"

section \<open>The list of sets\<close>

fun read_sets :: "nat \<Rightarrow> rdp_capability_set list \<Rightarrow> rdp_capability_set list reader" where
  "read_sets 0 sets stream = Inr (sets, stream)"
| "read_sets (Suc n) sets stream =
     pbind (rdp_stream_read_u16_le stream) (\<lambda>(type, stream).
     pbind (rdp_stream_read_u16_le stream) (\<lambda>(len, stream).
       if len < 4 \<or> rdp_stream_remaining stream < unat len - 4 then protocol_error
       else if \<exists>s \<in> set sets. cap_type s = type then protocol_error
       else
         pbind (rdp_stream_read_bytes (unat len - 4) stream) (\<lambda>(data, stream).
           read_sets n
             (sets @ [\<lparr>cap_type = type, cap_length = len, cap_data = data, cap_data_len = unat len - 4\<rparr>])
             stream)))"

definition rdp_capabilities_parse :: "u8 list \<Rightarrow> rdp_capability_list result" where
  "rdp_capabilities_parse data =
     pbind (rdp_stream_read_u16_le (rdp_stream_init data)) (\<lambda>(count, stream).
     pbind (rdp_stream_read_u16_le stream) (\<lambda>(pad, stream).
       if unat count > RDP_CAPABILITY_MAX_SETS then protocol_error
       else
         ebind (read_sets (unat count) [] stream) (\<lambda>(sets, stream).
           if rdp_stream_remaining stream \<noteq> 0 then protocol_error
           else Inr \<lparr>caps_count = count, caps_sets = sets\<rparr>)))"

definition rdp_capabilities_find :: "rdp_capability_list \<Rightarrow> u16 \<Rightarrow> rdp_capability_set option" where
  "rdp_capabilities_find list type = find (\<lambda>s. cap_type s = type) (caps_sets list)"

section \<open>The sets\<close>

definition rdp_capability_stream :: "rdp_capability_set \<Rightarrow> u16 \<Rightarrow> nat \<Rightarrow> nat \<Rightarrow> rdp_stream result" where
  "rdp_capability_stream s type min_len max_len =
     (if cap_type s \<noteq> type \<or> cap_data_len s < min_len \<or> cap_data_len s > max_len then protocol_error
      else Inr (rdp_stream_init (cap_data s)))"

definition rdp_capability_read_pad_u16 :: "u16 reader" where
  "rdp_capability_read_pad_u16 stream = rdp_stream_read_u16_le stream"

definition rdp_capability_parse_general :: "rdp_capability_set \<Rightarrow> rdp_capability_general result" where
  "rdp_capability_parse_general s =
     pbind (rdp_capability_stream s RDP_CAPABILITY_TYPE_GENERAL 20 20) (\<lambda>stream.
     pbind (rdp_stream_read_u16_le stream) (\<lambda>(os_major_type, stream).
     pbind (rdp_stream_read_u16_le stream) (\<lambda>(os_minor_type, stream).
     pbind (rdp_stream_read_u16_le stream) (\<lambda>(protocol_version, stream).
     pbind (rdp_capability_read_pad_u16 stream) (\<lambda>(_, stream).
     pbind (rdp_stream_read_u16_le stream) (\<lambda>(compression_types, stream).
     pbind (rdp_stream_read_u16_le stream) (\<lambda>(extra_flags, stream).
     pbind (rdp_stream_read_u16_le stream) (\<lambda>(update_capability_flag, stream).
     pbind (rdp_stream_read_u16_le stream) (\<lambda>(remote_unshare_flag, stream).
     pbind (rdp_stream_read_u16_le stream) (\<lambda>(compression_level, stream).
     pbind (rdp_stream_read_u8 stream) (\<lambda>(refresh_rect_support, stream).
     pbind (rdp_stream_read_u8 stream) (\<lambda>(suppress_output_support, stream).
       if rdp_stream_remaining stream \<noteq> 0 \<or> protocol_version = 0 then protocol_error
       else Inr \<lparr>cg_os_major_type = os_major_type,
         cg_os_minor_type = os_minor_type,
         cg_protocol_version = protocol_version,
         cg_compression_types = compression_types,
         cg_extra_flags = extra_flags,
         cg_update_capability_flag = update_capability_flag,
         cg_remote_unshare_flag = remote_unshare_flag,
         cg_compression_level = compression_level,
         cg_refresh_rect_support = refresh_rect_support,
         cg_suppress_output_support = suppress_output_support\<rparr>))))))))))))"

definition rdp_capability_parse_bitmap :: "rdp_capability_set \<Rightarrow> rdp_capability_bitmap result" where
  "rdp_capability_parse_bitmap s =
     pbind (rdp_capability_stream s RDP_CAPABILITY_TYPE_BITMAP 24 24) (\<lambda>stream.
     pbind (rdp_stream_read_u16_le stream) (\<lambda>(preferred_bits_per_pixel, stream).
     pbind (rdp_stream_read_u16_le stream) (\<lambda>(receive_1_bit_per_pixel, stream).
     pbind (rdp_stream_read_u16_le stream) (\<lambda>(receive_4_bits_per_pixel, stream).
     pbind (rdp_stream_read_u16_le stream) (\<lambda>(receive_8_bits_per_pixel, stream).
     pbind (rdp_stream_read_u16_le stream) (\<lambda>(desktop_width, stream).
     pbind (rdp_stream_read_u16_le stream) (\<lambda>(desktop_height, stream).
     pbind (rdp_stream_read_u16_le stream) (\<lambda>(_, stream).
     pbind (rdp_stream_read_u16_le stream) (\<lambda>(desktop_resize_flag, stream).
     pbind (rdp_stream_read_u16_le stream) (\<lambda>(bitmap_compression_flag, stream).
     pbind (rdp_stream_read_u8 stream) (\<lambda>(high_color_flags, stream).
     pbind (rdp_stream_read_u8 stream) (\<lambda>(drawing_flags, stream).
     pbind (rdp_stream_read_u16_le stream) (\<lambda>(multiple_rectangle_support, stream).
     pbind (rdp_stream_read_u16_le stream) (\<lambda>(_, stream).
       if rdp_stream_remaining stream \<noteq> 0 \<or> preferred_bits_per_pixel = 0 \<or> desktop_width = 0 \<or> desktop_height = 0 then protocol_error
       else Inr \<lparr>cb_preferred_bits_per_pixel = preferred_bits_per_pixel,
         cb_receive_1_bit_per_pixel = receive_1_bit_per_pixel,
         cb_receive_4_bits_per_pixel = receive_4_bits_per_pixel,
         cb_receive_8_bits_per_pixel = receive_8_bits_per_pixel,
         cb_desktop_width = desktop_width,
         cb_desktop_height = desktop_height,
         cb_desktop_resize_flag = desktop_resize_flag,
         cb_bitmap_compression_flag = bitmap_compression_flag,
         cb_high_color_flags = high_color_flags,
         cb_drawing_flags = drawing_flags,
         cb_multiple_rectangle_support = multiple_rectangle_support\<rparr>))))))))))))))"

definition rdp_capability_parse_order :: "rdp_capability_set \<Rightarrow> rdp_capability_order result" where
  "rdp_capability_parse_order s =
     pbind (rdp_capability_stream s RDP_CAPABILITY_TYPE_ORDER 84 84) (\<lambda>stream.
     pbind (rdp_stream_read_bytes 16 stream) (\<lambda>(terminal_descriptor, stream).
     pbind (rdp_stream_skip 4 stream) (\<lambda>(_, stream).
     pbind (rdp_stream_read_u16_le stream) (\<lambda>(desktop_save_x_granularity, stream).
     pbind (rdp_stream_read_u16_le stream) (\<lambda>(desktop_save_y_granularity, stream).
     pbind (rdp_capability_read_pad_u16 stream) (\<lambda>(_, stream).
     pbind (rdp_stream_read_u16_le stream) (\<lambda>(maximum_order_level, stream).
     pbind (rdp_stream_read_u16_le stream) (\<lambda>(number_fonts, stream).
     pbind (rdp_stream_read_u16_le stream) (\<lambda>(order_flags, stream).
     pbind (rdp_stream_read_bytes 32 stream) (\<lambda>(order_support, stream).
     pbind (rdp_stream_read_u16_le stream) (\<lambda>(text_flags, stream).
     pbind (rdp_stream_read_u16_le stream) (\<lambda>(order_support_ex_flags, stream).
     pbind (rdp_stream_skip 4 stream) (\<lambda>(_, stream).
     pbind (rdp_stream_read_u32_le stream) (\<lambda>(desktop_save_size, stream).
     pbind (rdp_capability_read_pad_u16 stream) (\<lambda>(_, stream).
     pbind (rdp_capability_read_pad_u16 stream) (\<lambda>(_, stream).
     pbind (rdp_stream_read_u16_le stream) (\<lambda>(text_ansi_code_page, stream).
     pbind (rdp_capability_read_pad_u16 stream) (\<lambda>(_, stream).
       if rdp_stream_remaining stream \<noteq> 0 then protocol_error
       else Inr \<lparr>co_terminal_descriptor = terminal_descriptor,
         co_desktop_save_size = desktop_save_size,
         co_desktop_save_x_granularity = desktop_save_x_granularity,
         co_desktop_save_y_granularity = desktop_save_y_granularity,
         co_maximum_order_level = maximum_order_level,
         co_number_fonts = number_fonts,
         co_order_flags = order_flags,
         co_order_support = order_support,
         co_text_flags = text_flags,
         co_order_support_ex_flags = order_support_ex_flags,
         co_text_ansi_code_page = text_ansi_code_page\<rparr>))))))))))))))))))"

primrec read_u32s :: "nat \<Rightarrow> u32 list reader" where
  "read_u32s 0 stream = Inr ([], stream)"
| "read_u32s (Suc n) stream =
     pbind (rdp_stream_read_u32_le stream) (\<lambda>(v, stream).
     pbind (read_u32s n stream) (\<lambda>(vs, stream). Inr (v # vs, stream)))"

definition rdp_capability_parse_bitmap_cache_v2 :: "rdp_capability_set \<Rightarrow> rdp_capability_bitmap_cache_v2 result" where
  "rdp_capability_parse_bitmap_cache_v2 s =
     pbind (rdp_capability_stream s RDP_CAPABILITY_TYPE_BITMAP_CACHE_V2 36 36) (\<lambda>stream.
     pbind (rdp_stream_read_u16_le stream) (\<lambda>(cache_flags, stream).
     pbind (rdp_stream_read_u8 stream) (\<lambda>(_, stream).
     pbind (rdp_stream_read_u8 stream) (\<lambda>(num_cell_caches, stream).
     pbind (read_u32s 5 stream) (\<lambda>(cell_info, stream).
     pbind (rdp_stream_skip 12 stream) (\<lambda>(_, stream).
       if rdp_stream_remaining stream \<noteq> 0 \<or> num_cell_caches > 5 then protocol_error
       else Inr \<lparr>cc_cache_flags = cache_flags,
         cc_num_cell_caches = num_cell_caches,
         cc_cell_info = cell_info\<rparr>))))))"

definition rdp_capability_parse_pointer :: "rdp_capability_set \<Rightarrow> rdp_capability_pointer result" where
  "rdp_capability_parse_pointer s =
     pbind (rdp_capability_stream s RDP_CAPABILITY_TYPE_POINTER 6 6) (\<lambda>stream.
     pbind (rdp_stream_read_u16_le stream) (\<lambda>(color_pointer_flag, stream).
     pbind (rdp_stream_read_u16_le stream) (\<lambda>(color_pointer_cache_size, stream).
     pbind (rdp_stream_read_u16_le stream) (\<lambda>(pointer_cache_size, stream).
       if rdp_stream_remaining stream \<noteq> 0 then protocol_error
       else Inr \<lparr>cp_color_pointer_flag = color_pointer_flag,
         cp_color_pointer_cache_size = color_pointer_cache_size,
         cp_pointer_cache_size = pointer_cache_size\<rparr>))))"

definition rdp_capability_parse_large_pointer :: "rdp_capability_set \<Rightarrow> rdp_capability_large_pointer result" where
  "rdp_capability_parse_large_pointer s =
     pbind (rdp_capability_stream s RDP_CAPABILITY_TYPE_LARGE_POINTER 2 2) (\<lambda>stream.
     pbind (rdp_stream_read_u16_le stream) (\<lambda>(support_flags, stream).
       if rdp_stream_remaining stream \<noteq> 0 then protocol_error
       else Inr \<lparr>clp_support_flags = support_flags\<rparr>))"

definition rdp_capability_parse_input :: "rdp_capability_set \<Rightarrow> rdp_capability_input result" where
  "rdp_capability_parse_input s =
     pbind (rdp_capability_stream s RDP_CAPABILITY_TYPE_INPUT 84 84) (\<lambda>stream.
     pbind (rdp_stream_read_u16_le stream) (\<lambda>(input_flags, stream).
     pbind (rdp_capability_read_pad_u16 stream) (\<lambda>(_, stream).
     pbind (rdp_stream_read_u32_le stream) (\<lambda>(keyboard_layout, stream).
     pbind (rdp_stream_read_u32_le stream) (\<lambda>(keyboard_type, stream).
     pbind (rdp_stream_read_u32_le stream) (\<lambda>(keyboard_subtype, stream).
     pbind (rdp_stream_read_u32_le stream) (\<lambda>(keyboard_function_key, stream).
     pbind (rdp_stream_read_bytes 64 stream) (\<lambda>(ime_file_name, stream).
       if rdp_stream_remaining stream \<noteq> 0 \<or> keyboard_type = 0 \<or> keyboard_function_key = 0 then protocol_error
       else Inr \<lparr>ci_input_flags = input_flags,
         ci_keyboard_layout = keyboard_layout,
         ci_keyboard_type = keyboard_type,
         ci_keyboard_subtype = keyboard_subtype,
         ci_keyboard_function_key = keyboard_function_key,
         ci_ime_file_name = ime_file_name\<rparr>))))))))"

definition rdp_capability_parse_brush :: "rdp_capability_set \<Rightarrow> rdp_capability_brush result" where
  "rdp_capability_parse_brush s =
     pbind (rdp_capability_stream s RDP_CAPABILITY_TYPE_BRUSH 4 4) (\<lambda>stream.
     pbind (rdp_stream_read_u32_le stream) (\<lambda>(support_level, stream).
       if rdp_stream_remaining stream \<noteq> 0 then protocol_error
       else Inr \<lparr>cbr_support_level = support_level\<rparr>))"

primrec read_glyph_entries :: "nat \<Rightarrow> rdp_capability_glyph_cache_entry list reader" where
  "read_glyph_entries 0 stream = Inr ([], stream)"
| "read_glyph_entries (Suc n) stream =
     pbind (rdp_stream_read_u16_le stream) (\<lambda>(entries, stream).
     pbind (rdp_stream_read_u16_le stream) (\<lambda>(cell, stream).
     pbind (read_glyph_entries n stream) (\<lambda>(es, stream).
       Inr (\<lparr>cge_cache_entries = entries, cge_maximum_cell_size = cell\<rparr> # es, stream))))"

definition rdp_capability_parse_glyph_cache :: "rdp_capability_set \<Rightarrow> rdp_capability_glyph_cache result" where
  "rdp_capability_parse_glyph_cache s =
     pbind (rdp_capability_stream s RDP_CAPABILITY_TYPE_GLYPH_CACHE 48 48) (\<lambda>stream.
     pbind (read_glyph_entries 10 stream) (\<lambda>(glyph_cache, stream).
     pbind (rdp_stream_read_u16_le stream) (\<lambda>(frag_cache_entries, stream).
     pbind (rdp_stream_read_u16_le stream) (\<lambda>(frag_cache_maximum_cell_size, stream).
     pbind (rdp_stream_read_u16_le stream) (\<lambda>(glyph_support_level, stream).
     pbind (rdp_capability_read_pad_u16 stream) (\<lambda>(_, stream).
       if rdp_stream_remaining stream \<noteq> 0 then protocol_error
       else Inr \<lparr>cgc_glyph_cache = glyph_cache,
         cgc_frag_cache_entries = frag_cache_entries,
         cgc_frag_cache_maximum_cell_size = frag_cache_maximum_cell_size,
         cgc_glyph_support_level = glyph_support_level\<rparr>))))))"

definition rdp_capability_parse_virtual_channel :: "rdp_capability_set \<Rightarrow> rdp_capability_virtual_channel result" where
  "rdp_capability_parse_virtual_channel s =
     pbind (rdp_capability_stream s RDP_CAPABILITY_TYPE_VIRTUAL_CHANNEL 4 8) (\<lambda>stream.
     pbind (rdp_stream_read_u32_le stream) (\<lambda>(flags, stream).
     pbind (if rdp_stream_remaining stream = 4
            then pbind (rdp_stream_read_u32_le stream) (\<lambda>(chunk_size, stream). Inr (chunk_size, True, stream))
            else Inr (0, False, stream)) (\<lambda>(chunk_size, has_chunk_size, stream).
       if rdp_stream_remaining stream \<noteq> 0 then protocol_error
       else Inr \<lparr>cv_flags = flags, cv_chunk_size = chunk_size, cv_has_chunk_size = has_chunk_size\<rparr>)))"

definition rdp_capability_parse_sound :: "rdp_capability_set \<Rightarrow> rdp_capability_sound result" where
  "rdp_capability_parse_sound s =
     pbind (rdp_capability_stream s RDP_CAPABILITY_TYPE_SOUND 4 4) (\<lambda>stream.
     pbind (rdp_stream_read_u16_le stream) (\<lambda>(flags, stream).
     pbind (rdp_capability_read_pad_u16 stream) (\<lambda>(_, stream).
       if rdp_stream_remaining stream \<noteq> 0 then protocol_error
       else Inr \<lparr>csn_flags = flags\<rparr>)))"

definition rdp_capability_parse_share :: "rdp_capability_set \<Rightarrow> rdp_capability_share result" where
  "rdp_capability_parse_share s =
     pbind (rdp_capability_stream s RDP_CAPABILITY_TYPE_SHARE 4 4) (\<lambda>stream.
     pbind (rdp_stream_read_u16_le stream) (\<lambda>(node_id, stream).
     pbind (rdp_capability_read_pad_u16 stream) (\<lambda>(_, stream).
       if rdp_stream_remaining stream \<noteq> 0 then protocol_error
       else Inr \<lparr>csh_node_id = node_id\<rparr>)))"

definition rdp_capability_parse_font :: "rdp_capability_set \<Rightarrow> rdp_capability_font result" where
  "rdp_capability_parse_font s =
     pbind (rdp_capability_stream s RDP_CAPABILITY_TYPE_FONT 4 4) (\<lambda>stream.
     pbind (rdp_stream_read_u16_le stream) (\<lambda>(support_flags, stream).
     pbind (rdp_capability_read_pad_u16 stream) (\<lambda>(_, stream).
       if rdp_stream_remaining stream \<noteq> 0 then protocol_error
       else Inr \<lparr>cf_support_flags = support_flags\<rparr>)))"

definition rdp_capability_parse_control :: "rdp_capability_set \<Rightarrow> rdp_capability_control result" where
  "rdp_capability_parse_control s =
     pbind (rdp_capability_stream s RDP_CAPABILITY_TYPE_CONTROL 8 8) (\<lambda>stream.
     pbind (rdp_stream_read_u16_le stream) (\<lambda>(control_flags, stream).
     pbind (rdp_stream_read_u16_le stream) (\<lambda>(remote_detach_flag, stream).
     pbind (rdp_stream_read_u16_le stream) (\<lambda>(control_interest, stream).
     pbind (rdp_stream_read_u16_le stream) (\<lambda>(detach_interest, stream).
       if rdp_stream_remaining stream \<noteq> 0 then protocol_error
       else Inr \<lparr>cct_control_flags = control_flags,
         cct_remote_detach_flag = remote_detach_flag,
         cct_control_interest = control_interest,
         cct_detach_interest = detach_interest\<rparr>)))))"

definition rdp_capability_parse_color_cache :: "rdp_capability_set \<Rightarrow> rdp_capability_color_cache result" where
  "rdp_capability_parse_color_cache s =
     pbind (rdp_capability_stream s RDP_CAPABILITY_TYPE_COLOR_CACHE 4 4) (\<lambda>stream.
     pbind (rdp_stream_read_u16_le stream) (\<lambda>(cache_size, stream).
     pbind (rdp_capability_read_pad_u16 stream) (\<lambda>(_, stream).
       if rdp_stream_remaining stream \<noteq> 0 then protocol_error
       else Inr \<lparr>ccc_cache_size = cache_size\<rparr>)))"

definition rdp_capability_parse_activation :: "rdp_capability_set \<Rightarrow> rdp_capability_activation result" where
  "rdp_capability_parse_activation s =
     pbind (rdp_capability_stream s RDP_CAPABILITY_TYPE_ACTIVATION 8 8) (\<lambda>stream.
     pbind (rdp_stream_read_u16_le stream) (\<lambda>(help_key_flag, stream).
     pbind (rdp_stream_read_u16_le stream) (\<lambda>(help_key_index_flag, stream).
     pbind (rdp_stream_read_u16_le stream) (\<lambda>(help_extended_key_flag, stream).
     pbind (rdp_stream_read_u16_le stream) (\<lambda>(window_manager_key_flag, stream).
       if rdp_stream_remaining stream \<noteq> 0 then protocol_error
       else Inr \<lparr>ca_help_key_flag = help_key_flag,
         ca_help_key_index_flag = help_key_index_flag,
         ca_help_extended_key_flag = help_extended_key_flag,
         ca_window_manager_key_flag = window_manager_key_flag\<rparr>)))))"

primrec read_codecs :: "nat \<Rightarrow> rdp_capability_bitmap_codec list reader" where
  "read_codecs 0 stream = Inr ([], stream)"
| "read_codecs (Suc n) stream =
     pbind (rdp_stream_read_bytes 16 stream) (\<lambda>(guid, stream).
     pbind (rdp_stream_read_u8 stream) (\<lambda>(codec_id, stream).
     pbind (rdp_stream_read_u16_le stream) (\<lambda>(properties_len, stream).
       if unat properties_len > rdp_stream_remaining stream then protocol_error
       else
         pbind (if properties_len > 0 then rdp_stream_read_bytes (unat properties_len) stream
                else Inr ([], stream)) (\<lambda>(properties, stream).
         pbind (read_codecs n stream) (\<lambda>(cs, stream).
           Inr (\<lparr>cbc_guid = guid, cbc_codec_id = codec_id, cbc_properties_len = properties_len,
                 cbc_properties = properties\<rparr> # cs, stream))))))"

definition rdp_capability_parse_bitmap_codecs :: "rdp_capability_set \<Rightarrow> rdp_capability_bitmap_codecs result" where
  "rdp_capability_parse_bitmap_codecs s =
     pbind (rdp_capability_stream s RDP_CAPABILITY_TYPE_BITMAP_CODECS 1 SIZE_MAX) (\<lambda>stream.
     pbind (rdp_stream_read_u8 stream) (\<lambda>(count, stream).
       if unat count > RDP_CAPABILITY_BITMAP_CODECS_MAX then protocol_error
       else
         pbind (read_codecs (unat count) stream) (\<lambda>(codecs, stream).
           if rdp_stream_remaining stream \<noteq> 0 then protocol_error
           else Inr \<lparr>cbcs_count = count, cbcs_codecs = codecs\<rparr>)))"

section \<open>Accepted lists\<close>

definition set_ok :: "rdp_capability_set \<Rightarrow> bool" where
  "set_ok s \<longleftrightarrow> cap_data_len s = length (cap_data s) \<and> unat (cap_length s) = length (cap_data s) + 4"

definition set_bytes :: "rdp_capability_set \<Rightarrow> u8 list" where
  "set_bytes s = block_bytes (cap_type s) (cap_data s)"

definition capability_list_bytes :: "u16 \<Rightarrow> rdp_capability_list \<Rightarrow> u8 list" where
  "capability_list_bytes pad list =
     u16_le_bytes (caps_count list) @ u16_le_bytes pad @ concat (map set_bytes (caps_sets list))"

definition list_ok :: "rdp_capability_list \<Rightarrow> bool" where
  "list_ok list \<longleftrightarrow> unat (caps_count list) = length (caps_sets list) \<and>
     length (caps_sets list) \<le> RDP_CAPABILITY_MAX_SETS \<and>
     distinct (map cap_type (caps_sets list)) \<and> list_all set_ok (caps_sets list)"

lemma set_ok_bytes:
  assumes "set_ok s"
  shows "set_bytes s = u16_le_bytes (cap_type s) @ u16_le_bytes (cap_length s) @ cap_data s"
    and "\<not> cap_length s < 4" and "unat (cap_length s) - 4 = length (cap_data s)"
proof -
  have "of_nat (length (cap_data s) + 4) = cap_length s"
    using assms by (metis set_ok_def unat_of_nat_u16 unat_bounds(2) word_unat_eqI)
  then show "set_bytes s = u16_le_bytes (cap_type s) @ u16_le_bytes (cap_length s) @ cap_data s"
    by (simp add: set_bytes_def block_bytes_def del: of_nat_add)
  show "\<not> cap_length s < 4" and "unat (cap_length s) - 4 = length (cap_data s)"
    using assms by (simp_all add: set_ok_def word_less_nat_alt)
qed

lemma set_okI: "\<not> len < 4 \<Longrightarrow> length data = unat len - 4 \<Longrightarrow>
    set_ok \<lparr>cap_type = type, cap_length = len, cap_data = data, cap_data_len = unat len - 4\<rparr>"
  by (simp add: set_ok_def word_less_nat_alt)

lemma set_ok_eta: "set_ok s \<Longrightarrow>
    \<lparr>cap_type = cap_type s, cap_length = cap_length s, cap_data = cap_data s, cap_data_len = length (cap_data s)\<rparr> = s"
  by (simp add: set_ok_def)

lemma read_set_step:
  "set_ok x \<Longrightarrow> read_sets (Suc n) sets (strm pre (set_bytes x @ r)) =
     (if cap_type x \<in> cap_type ` set sets then protocol_error
      else read_sets n (sets @ [x]) (strm (pre @ set_bytes x) r))"
  by (auto simp: set_ok_bytes set_ok_eta stream_rules image_iff)

lemma read_set_inv:
  assumes "read_sets (Suc n) sets (strm pre bs) = Inr res"
  obtains x r where "set_ok x" "bs = set_bytes x @ r" "cap_type x \<notin> cap_type ` set sets"
    "read_sets n (sets @ [x]) (strm (pre @ set_bytes x) r) = Inr res"
proof -
  from assms obtain type len data r where bs: "bs = u16_le_bytes type @ u16_le_bytes len @ data @ r"
    and len: "\<not> len < 4" "length data = unat len - 4" 
    by (auto simp: accepts)
  let ?x = "\<lparr>cap_type = type, cap_length = len, cap_data = data, cap_data_len = unat len - 4\<rparr>"
  have ok: "set_ok ?x" using len by (rule set_okI)
  have bs': "bs = set_bytes ?x @ r" using bs set_ok_bytes(1) [OF ok] by simp
  show thesis
    using assms ok bs' read_set_step [OF ok, of n sets pre r] that [OF ok bs'] by (auto split: if_splits)
qed

lemma read_sets_accepts:
  "read_sets n sets (strm pre bs) = Inr (sets', s) \<Longrightarrow>
     \<exists>new r. sets' = sets @ new \<and> length new = n \<and> bs = concat (map set_bytes new) @ r \<and>
        s = strm (pre @ concat (map set_bytes new)) r \<and> list_all set_ok new \<and>
        distinct (map cap_type new) \<and> cap_type ` set new \<inter> cap_type ` set sets = {}"
proof (induction n arbitrary: sets pre bs)
  case (Suc n)
  from read_set_inv [OF Suc.prems] obtain x r where x: "set_ok x" "bs = set_bytes x @ r"
    "cap_type x \<notin> cap_type ` set sets" "read_sets n (sets @ [x]) (strm (pre @ set_bytes x) r) = Inr (sets', s)" .
  from Suc.IH [OF x(4)] obtain new r' where
    "sets' = (sets @ [x]) @ new" "length new = n" "r = concat (map set_bytes new) @ r'"
    "s = strm ((pre @ set_bytes x) @ concat (map set_bytes new)) r'" "list_all set_ok new"
    "distinct (map cap_type new)" "cap_type ` set new \<inter> cap_type ` set (sets @ [x]) = {}" by auto
  with x show ?case by (intro exI [of _ "x # new"] exI [of _ r']) auto
qed simp

lemma read_sets_bytes:
  "list_all set_ok new \<Longrightarrow> distinct (map cap_type new) \<Longrightarrow> cap_type ` set new \<inter> cap_type ` set sets = {} \<Longrightarrow>
     read_sets (length new) sets (strm pre (concat (map set_bytes new) @ r)) =
       Inr (sets @ new, strm (pre @ concat (map set_bytes new)) r)"
proof (induction new arbitrary: sets pre)
  case (Cons x new)
  then show ?case
    using read_set_step [of x "length new" sets pre "concat (map set_bytes new) @ r"]
      Cons.IH [of "sets @ [x]" "pre @ set_bytes x"] by auto
qed simp

lemma find_distinct:
  "distinct (map f xs) \<Longrightarrow> find (\<lambda>x. f x = k) xs = Some x \<longleftrightarrow> x \<in> set xs \<and> f x = k"
  by (induction xs) auto

lemma capabilities_parse_iff:
  "rdp_capabilities_parse data = Inr list \<longleftrightarrow> list_ok list \<and> (\<exists>pad. data = capability_list_bytes pad list)"
    (is "?L \<longleftrightarrow> ?R")
proof
  assume ?L
  then obtain pad r sets s where d: "data = u16_le_bytes (caps_count list) @ u16_le_bytes pad @ r"
    and n: "unat (caps_count list) \<le> RDP_CAPABILITY_MAX_SETS" 
    and rd: "read_sets (unat (caps_count list)) [] (strm (u16_le_bytes (caps_count list) @ u16_le_bytes pad) r) =
      Inr (caps_sets list, s)" and z: "rdp_stream_remaining s = 0"
    by (auto simp: rdp_capabilities_parse_def accepts)
  from read_sets_accepts [OF rd] z d n show ?R
    by (auto simp: list_ok_def capability_list_bytes_def)
next
  assume ?R
  then obtain pad where ok: "list_ok list" and d: "data = capability_list_bytes pad list" by blast
  note rd = read_sets_bytes [of "caps_sets list" "[]" _ "[]", simplified]
  show ?L
    using ok unfolding d list_ok_def
    by (simp add: rdp_capabilities_parse_def capability_list_bytes_def stream_rules rd)
qed

section \<open>Properties\<close>

text \<open>
  C39. Capability lists. The parser accepts a region exactly if it is the encoding of a list of at most 64
  sets of pairwise distinct types, without a byte to spare, and then returns that list; a lookup in an
  accepted list finds a set exactly if a set of that type was sent, and it is the only one of its type.
\<close>

theorem capabilities_accepts_exactly:
  "(rdp_capabilities_parse data = Inr list \<longleftrightarrow>
     list_ok list \<and> (\<exists>pad. data = capability_list_bytes pad list)) \<and>
   (list_ok list \<longrightarrow> (\<forall>type s. rdp_capabilities_find list type = Some s \<longleftrightarrow>
     s \<in> set (caps_sets list) \<and> cap_type s = type))"
  by (simp add: capabilities_parse_iff list_ok_def rdp_capabilities_find_def find_distinct)

theorem capabilities_accepts_exactly_witness:
  "let s = \<lparr>cap_type = 9, cap_length = 8, cap_data = [1, 0, 0, 0], cap_data_len = 4\<rparr>;
       list = \<lparr>caps_count = 1, caps_sets = [s]\<rparr>
   in rdp_capabilities_parse [1, 0, 0, 0, 9, 0, 8, 0, 1, 0, 0, 0] = Inr list \<and>
      rdp_capabilities_find list 9 = Some s"
proof -
  define s where "s = \<lparr>cap_type = 9, cap_length = 8, cap_data = [1, 0, 0, 0 :: u8], cap_data_len = 4\<rparr>"
  define list where "list = \<lparr>caps_count = 1, caps_sets = [s]\<rparr>"
  have ok: "list_ok list"
    by (simp add: list_def s_def list_ok_def set_ok_def RDP_CAPABILITY_MAX_SETS_def)
  have "[1, 0, 0, 0, 9, 0, 8, 0, 1, 0, 0, 0] = capability_list_bytes 0 list"
    unfolding list_def s_def by code_simp
  then have "rdp_capabilities_parse [1, 0, 0, 0, 9, 0, 8, 0, 1, 0, 0, 0] = Inr list"
    using capabilities_accepts_exactly [of "[1, 0, 0, 0, 9, 0, 8, 0, 1, 0, 0, 0]" list] ok by blast
  moreover have "rdp_capabilities_find list 9 = Some s"
    using capabilities_accepts_exactly [of "[]" list] ok by (auto simp: list_def s_def)
  ultimately show ?thesis unfolding s_def [symmetric] Let_def list_def [symmetric] by blast
qed

end
