(* ===== verification/Slowpath.thy ===== *)
theory Slowpath
  imports Capabilities X224
begin

text \<open>
  Slow-path share PDUs, \<^verbatim>\<open>src/src/protocol/slowpath.c\<close>: share control and share data headers, the
  capability exchange (Demand Active, Confirm Active), the finalization PDUs, client input and the
  display control PDUs, with the helpers of \<^verbatim>\<open>src/src/graphics/gdi_orders.c\<close> and
  \<^verbatim>\<open>src/src/graphics/nscodec.c\<close> that the capability writers call. The writers of the capability sets
  are modelled field by field; the layer above them is proved over the capability lists they emit.
\<close>

section \<open>Data\<close>

definition RDP_SLOWPATH_PDU_TYPE_DEMAND_ACTIVE :: u16 where
  "RDP_SLOWPATH_PDU_TYPE_DEMAND_ACTIVE = 0x0001"

definition RDP_SLOWPATH_PDU_TYPE_CONFIRM_ACTIVE :: u16 where
  "RDP_SLOWPATH_PDU_TYPE_CONFIRM_ACTIVE = 0x0003"

definition RDP_SLOWPATH_PDU_TYPE_DEACTIVATE_ALL :: u16 where
  "RDP_SLOWPATH_PDU_TYPE_DEACTIVATE_ALL = 0x0006"

definition RDP_SLOWPATH_PDU_TYPE_DATA :: u16 where
  "RDP_SLOWPATH_PDU_TYPE_DATA = 0x0007"

definition RDP_SLOWPATH_PDU_TYPE_SERVER_REDIRECTION :: u16 where
  "RDP_SLOWPATH_PDU_TYPE_SERVER_REDIRECTION = 0x000a"

definition RDP_SLOWPATH_PDU_VERSION :: u16 where
  "RDP_SLOWPATH_PDU_VERSION = 0x0010"

definition RDP_SLOWPATH_DATA_PDU_UPDATE :: u8 where
  "RDP_SLOWPATH_DATA_PDU_UPDATE = 0x02"

definition RDP_SLOWPATH_DATA_PDU_CONTROL :: u8 where
  "RDP_SLOWPATH_DATA_PDU_CONTROL = 0x14"

definition RDP_SLOWPATH_DATA_PDU_INPUT :: u8 where
  "RDP_SLOWPATH_DATA_PDU_INPUT = 0x1c"

definition RDP_SLOWPATH_DATA_PDU_SYNCHRONIZE :: u8 where
  "RDP_SLOWPATH_DATA_PDU_SYNCHRONIZE = 0x1f"

definition RDP_SLOWPATH_DATA_PDU_REFRESH_RECT :: u8 where
  "RDP_SLOWPATH_DATA_PDU_REFRESH_RECT = 0x21"

definition RDP_SLOWPATH_DATA_PDU_SUPPRESS_OUTPUT :: u8 where
  "RDP_SLOWPATH_DATA_PDU_SUPPRESS_OUTPUT = 0x23"

definition RDP_SLOWPATH_DATA_PDU_SAVE_SESSION_INFO :: u8 where
  "RDP_SLOWPATH_DATA_PDU_SAVE_SESSION_INFO = 0x26"

definition RDP_SLOWPATH_DATA_PDU_FONT_LIST :: u8 where
  "RDP_SLOWPATH_DATA_PDU_FONT_LIST = 0x27"

definition RDP_SLOWPATH_DATA_PDU_FONT_MAP :: u8 where
  "RDP_SLOWPATH_DATA_PDU_FONT_MAP = 0x28"

definition RDP_SLOWPATH_DATA_PDU_BITMAP_CACHE_PERSISTENT_LIST :: u8 where
  "RDP_SLOWPATH_DATA_PDU_BITMAP_CACHE_PERSISTENT_LIST = 0x2b"

definition RDP_SLOWPATH_DATA_PDU_SET_ERROR_INFO :: u8 where
  "RDP_SLOWPATH_DATA_PDU_SET_ERROR_INFO = 0x2f"

definition RDP_CONFIRM_ACTIVE_CAPABILITY_COUNT :: u16 where
  "RDP_CONFIRM_ACTIVE_CAPABILITY_COUNT = 18"

definition RDP_DEMAND_ACTIVE_CAPABILITY_COUNT :: u16 where
  "RDP_DEMAND_ACTIVE_CAPABILITY_COUNT = 11"

definition RDP_GDI_CAPSTYPE_DRAW_NINEGRID_CACHE :: u16 where
  "RDP_GDI_CAPSTYPE_DRAW_NINEGRID_CACHE = 0x0015"

definition RDP_GDI_DRAW_NINEGRID_CAPABILITY_LENGTH :: u16 where
  "RDP_GDI_DRAW_NINEGRID_CAPABILITY_LENGTH = 12"

definition RDP_GDI_NINEGRID_SUPPORT_SUPPORTED_REV2 :: u32 where
  "RDP_GDI_NINEGRID_SUPPORT_SUPPORTED_REV2 = 2"

definition RDP_NSCODEC_CAPABILITY_LENGTH :: u16 where
  "RDP_NSCODEC_CAPABILITY_LENGTH = 3"

definition RDP_NSCODEC_BITMAP_CODEC_ID :: u8 where
  "RDP_NSCODEC_BITMAP_CODEC_ID = 1"

definition RDP_NSCODEC_GUID_BYTES :: "u8 list" where
  "RDP_NSCODEC_GUID_BYTES =
     [0xb9, 0x1b, 0x8d, 0xca, 0x0f, 0x00, 0x4f, 0x15, 0x58, 0x9f, 0xae, 0x2d, 0x1a, 0x87, 0xe2, 0xd6]"

definition RDP_GDI_ORDER_DSTBLT :: u8 where
  "RDP_GDI_ORDER_DSTBLT = 0x00"

definition RDP_GDI_ORDER_PATBLT :: u8 where
  "RDP_GDI_ORDER_PATBLT = 0x01"

definition RDP_GDI_ORDER_SCRBLT :: u8 where
  "RDP_GDI_ORDER_SCRBLT = 0x02"

definition RDP_GDI_ORDER_DRAWNINEGRID :: u8 where
  "RDP_GDI_ORDER_DRAWNINEGRID = 0x07"

definition RDP_GDI_ORDER_MULTI_DRAWNINEGRID :: u8 where
  "RDP_GDI_ORDER_MULTI_DRAWNINEGRID = 0x08"

definition RDP_GDI_ORDER_LINETO :: u8 where
  "RDP_GDI_ORDER_LINETO = 0x09"

definition RDP_GDI_ORDER_OPAQUERECT :: u8 where
  "RDP_GDI_ORDER_OPAQUERECT = 0x0a"

definition RDP_GDI_ORDER_SAVEBITMAP :: u8 where
  "RDP_GDI_ORDER_SAVEBITMAP = 0x0b"

definition RDP_GDI_ORDER_MEMBLT :: u8 where
  "RDP_GDI_ORDER_MEMBLT = 0x0d"

definition RDP_GDI_ORDER_MEM3BLT :: u8 where
  "RDP_GDI_ORDER_MEM3BLT = 0x0e"

definition RDP_GDI_ORDER_MULTIDSTBLT :: u8 where
  "RDP_GDI_ORDER_MULTIDSTBLT = 0x0f"

definition RDP_GDI_ORDER_MULTIPATBLT :: u8 where
  "RDP_GDI_ORDER_MULTIPATBLT = 0x10"

definition RDP_GDI_ORDER_MULTISCRBLT :: u8 where
  "RDP_GDI_ORDER_MULTISCRBLT = 0x11"

definition RDP_GDI_ORDER_MULTIOPAQUERECT :: u8 where
  "RDP_GDI_ORDER_MULTIOPAQUERECT = 0x12"

definition RDP_GDI_ORDER_FAST_INDEX :: u8 where
  "RDP_GDI_ORDER_FAST_INDEX = 0x13"

definition RDP_GDI_ORDER_POLYGON_SC :: u8 where
  "RDP_GDI_ORDER_POLYGON_SC = 0x14"

definition RDP_GDI_ORDER_POLYGON_CB :: u8 where
  "RDP_GDI_ORDER_POLYGON_CB = 0x15"

definition RDP_GDI_ORDER_POLYLINE :: u8 where
  "RDP_GDI_ORDER_POLYLINE = 0x16"

definition RDP_GDI_ORDER_FAST_GLYPH :: u8 where
  "RDP_GDI_ORDER_FAST_GLYPH = 0x18"

definition RDP_GDI_ORDER_ELLIPSE_SC :: u8 where
  "RDP_GDI_ORDER_ELLIPSE_SC = 0x19"

definition RDP_GDI_ORDER_ELLIPSE_CB :: u8 where
  "RDP_GDI_ORDER_ELLIPSE_CB = 0x1a"

definition RDP_GDI_ORDER_GLYPH_INDEX :: u8 where
  "RDP_GDI_ORDER_GLYPH_INDEX = 0x1b"

record rdp_slowpath_share_control_header =
  sch_total_length :: u16
  sch_pdu_type :: u16
  sch_channel_id :: u16

record rdp_slowpath_demand_active =
  da_header :: rdp_slowpath_share_control_header
  da_share_id :: u32
  da_session_id :: u32
  da_source_descriptor :: "u8 list"
  da_source_descriptor_len :: u16
  da_capabilities :: rdp_capability_list

record rdp_slowpath_confirm_active =
  coa_header :: rdp_slowpath_share_control_header
  coa_share_id :: u32
  coa_originator_id :: u16
  coa_source_descriptor :: "u8 list"
  coa_source_descriptor_len :: u16
  coa_capabilities :: rdp_capability_list

record rdp_slowpath_deactivate_all =
  dea_header :: rdp_slowpath_share_control_header
  dea_share_id :: u32
  dea_source_descriptor :: "u8 list"
  dea_source_descriptor_len :: u16
  dea_has_share_id :: bool

record rdp_slowpath_data_pdu =
  dp_header :: rdp_slowpath_share_control_header
  dp_share_id :: u32
  dp_stream_id :: u8
  dp_uncompressed_length :: u16
  dp_pdu_type2 :: u8
  dp_compressed_type :: u8
  dp_compressed_length :: u16
  dp_payload :: "u8 list"
  dp_payload_len :: nat

record rdp_slowpath_font_map =
  fm_number_entries :: u16
  fm_total_entries :: u16
  fm_map_flags :: u16
  fm_entry_size :: u16

record rdp_slowpath_save_session_info =
  ssi_info_type :: u32
  ssi_data :: "u8 list"
  ssi_data_len :: nat

record rdp_gdi_ninegrid_capability =
  nc_support_level :: u32
  nc_cache_size :: u16
  nc_cache_entries :: u16

record rdp_nscodec_capability =
  ns_allow_dynamic_fidelity :: u8
  ns_allow_subsampling :: u8
  ns_color_loss_level :: u8

section \<open>Headers\<close>

definition rdp_slowpath_parse_share_control_header :: "u8 list \<Rightarrow> rdp_slowpath_share_control_header result" where
  "rdp_slowpath_parse_share_control_header data =
     (if length data < 6 then protocol_error
      else
        pbind (rdp_stream_read_u16_le (rdp_stream_init data)) (\<lambda>(total_length, stream).
        pbind (rdp_stream_read_u16_le stream) (\<lambda>(pdu_type, stream).
        pbind (rdp_stream_read_u16_le stream) (\<lambda>(channel_id, stream).
          if total_length < 6 \<or> unat total_length \<noteq> length data then protocol_error
          else Inr \<lparr>sch_total_length = total_length, sch_pdu_type = pdu_type, sch_channel_id = channel_id\<rparr>))))"

definition rdp_slowpath_base_type :: "u16 \<Rightarrow> u16" where
  "rdp_slowpath_base_type pdu_type = pdu_type AND 0x000f"

definition rdp_slowpath_valid_share_control_type :: "u16 \<Rightarrow> bool" where
  "rdp_slowpath_valid_share_control_type pdu_type =
     (let type = rdp_slowpath_base_type pdu_type in
      type = RDP_SLOWPATH_PDU_TYPE_DEMAND_ACTIVE \<or>
      type = RDP_SLOWPATH_PDU_TYPE_CONFIRM_ACTIVE \<or>
      type = RDP_SLOWPATH_PDU_TYPE_DEACTIVATE_ALL \<or>
      type = RDP_SLOWPATH_PDU_TYPE_DATA \<or>
      type = RDP_SLOWPATH_PDU_TYPE_SERVER_REDIRECTION)"

fun rdp_slowpath_append_zeros :: "nat \<Rightarrow> writer" where
  "rdp_slowpath_append_zeros count =
     (if count = 0 then run_writers []
      else
        let chunk = (if count > 64 then 64 else count) in
        run_writers [rdp_buffer_append (replicate chunk 0), rdp_slowpath_append_zeros (count - chunk)])"

declare rdp_slowpath_append_zeros.simps [simp del]

definition rdp_slowpath_append_u16s :: "u16 list \<Rightarrow> writer" where
  "rdp_slowpath_append_u16s values = run_writers (map rdp_buffer_append_u16_le values)"

definition rdp_slowpath_write_capability_header :: "u16 \<Rightarrow> u16 \<Rightarrow> writer" where
  "rdp_slowpath_write_capability_header type len =
     (if len < 4 then reject LIBRDP_STATUS_INVALID_ARGUMENT
      else run_writers [rdp_buffer_append_u16_le type, rdp_buffer_append_u16_le len])"

definition rdp_slowpath_write_share_control_header :: "u16 \<Rightarrow> u16 \<Rightarrow> u16 \<Rightarrow> writer" where
  "rdp_slowpath_write_share_control_header total_length pdu_type channel_id =
     (if total_length < 6 \<or> \<not> rdp_slowpath_valid_share_control_type pdu_type
      then reject LIBRDP_STATUS_INVALID_ARGUMENT
      else run_writers
        [rdp_buffer_append_u16_le total_length,
         rdp_buffer_append_u16_le pdu_type,
         rdp_buffer_append_u16_le channel_id])"

definition rdp_slowpath_parse_demand_active :: "u8 list \<Rightarrow> rdp_slowpath_demand_active result" where
  "rdp_slowpath_parse_demand_active data =
     ebind (rdp_slowpath_parse_share_control_header data) (\<lambda>header.
       if rdp_slowpath_base_type (sch_pdu_type header) \<noteq> RDP_SLOWPATH_PDU_TYPE_DEMAND_ACTIVE then protocol_error
       else
         pbind (rdp_stream_skip 6 (rdp_stream_init (take (unat (sch_total_length header)) data))) (\<lambda>(_, stream).
         pbind (rdp_stream_read_u32_le stream) (\<lambda>(share_id, stream).
         pbind (rdp_stream_read_u16_le stream) (\<lambda>(source_len, stream).
         pbind (rdp_stream_read_u16_le stream) (\<lambda>(capabilities_len, stream).
           if source_len = 0 \<or> capabilities_len < 4 then protocol_error
           else if rdp_stream_remaining stream < unat source_len + unat capabilities_len then protocol_error
           else
             pbind (rdp_stream_read_bytes (unat source_len) stream) (\<lambda>(source_descriptor, stream).
             pbind (rdp_stream_read_bytes (unat capabilities_len) stream) (\<lambda>(capabilities, stream).
               if rdp_stream_remaining stream \<noteq> 4 then protocol_error
               else
                 pbind (rdp_stream_read_u32_le stream) (\<lambda>(session_id, stream).
                   if rdp_stream_remaining stream \<noteq> 0 then protocol_error
                   else
                     ebind (rdp_capabilities_parse capabilities) (\<lambda>list.
                       Inr \<lparr>da_header = header, da_share_id = share_id, da_session_id = session_id,
                            da_source_descriptor = source_descriptor, da_source_descriptor_len = source_len,
                            da_capabilities = list\<rparr>)))))))))"

definition rdp_slowpath_parse_confirm_active :: "u8 list \<Rightarrow> rdp_slowpath_confirm_active result" where
  "rdp_slowpath_parse_confirm_active data =
     ebind (rdp_slowpath_parse_share_control_header data) (\<lambda>header.
       if rdp_slowpath_base_type (sch_pdu_type header) \<noteq> RDP_SLOWPATH_PDU_TYPE_CONFIRM_ACTIVE then protocol_error
       else
         pbind (rdp_stream_skip 6 (rdp_stream_init (take (unat (sch_total_length header)) data))) (\<lambda>(_, stream).
         pbind (rdp_stream_read_u32_le stream) (\<lambda>(share_id, stream).
         pbind (rdp_stream_read_u16_le stream) (\<lambda>(originator_id, stream).
         pbind (rdp_stream_read_u16_le stream) (\<lambda>(source_len, stream).
         pbind (rdp_stream_read_u16_le stream) (\<lambda>(capabilities_len, stream).
           if share_id = 0 \<or> originator_id = 0 \<or> source_len = 0 \<or> capabilities_len < 4 \<or>
              rdp_stream_remaining stream \<noteq> unat source_len + unat capabilities_len
           then protocol_error
           else
             pbind (rdp_stream_read_bytes (unat source_len) stream) (\<lambda>(source_descriptor, stream).
             pbind (rdp_stream_read_bytes (unat capabilities_len) stream) (\<lambda>(capabilities, stream).
               if rdp_stream_remaining stream \<noteq> 0 then protocol_error
               else
                 ebind (rdp_capabilities_parse capabilities) (\<lambda>list.
                   Inr \<lparr>coa_header = header, coa_share_id = share_id, coa_originator_id = originator_id,
                        coa_source_descriptor = source_descriptor, coa_source_descriptor_len = source_len,
                        coa_capabilities = list\<rparr>)))))))))"

definition rdp_slowpath_parse_deactivate_all :: "u8 list \<Rightarrow> rdp_slowpath_deactivate_all result" where
  "rdp_slowpath_parse_deactivate_all data =
     ebind (rdp_slowpath_parse_share_control_header data) (\<lambda>header.
       if rdp_slowpath_base_type (sch_pdu_type header) \<noteq> RDP_SLOWPATH_PDU_TYPE_DEACTIVATE_ALL then protocol_error
       else if length data = 6 then
         Inr \<lparr>dea_header = header, dea_share_id = 0, dea_source_descriptor = [], dea_source_descriptor_len = 0,
              dea_has_share_id = False\<rparr>
       else if length data < 12 then protocol_error
       else
         pbind (rdp_stream_skip 6 (rdp_stream_init data)) (\<lambda>(_, stream).
         pbind (rdp_stream_read_u32_le stream) (\<lambda>(share_id, stream).
         pbind (rdp_stream_read_u16_le stream) (\<lambda>(source_descriptor_len, stream).
           if share_id = 0 \<or> rdp_stream_remaining stream \<noteq> unat source_descriptor_len then protocol_error
           else
             pbind (if source_descriptor_len > 0 then rdp_stream_read_bytes (unat source_descriptor_len) stream
                    else Inr ([], stream)) (\<lambda>(source_descriptor, stream).
               Inr \<lparr>dea_header = header, dea_share_id = share_id, dea_source_descriptor = source_descriptor,
                    dea_source_descriptor_len = source_descriptor_len, dea_has_share_id = True\<rparr>)))))"

definition rdp_slowpath_write_deactivate_all :: "u32 \<Rightarrow> u16 \<Rightarrow> writer" where
  "rdp_slowpath_write_deactivate_all share_id channel_id =
     (if share_id = 0 \<or> channel_id = 0 then reject LIBRDP_STATUS_INVALID_ARGUMENT
      else run_writers
        [rdp_slowpath_write_share_control_header 13
           (RDP_SLOWPATH_PDU_VERSION OR RDP_SLOWPATH_PDU_TYPE_DEACTIVATE_ALL) channel_id,
         rdp_buffer_append_u32_le share_id,
         rdp_buffer_append_u16_le 1,
         rdp_buffer_append_u8 0])"

section \<open>Capability writers\<close>

definition rdp_gdi_primary_order_field_bytes :: "u8 \<Rightarrow> u8 option" where
  "rdp_gdi_primary_order_field_bytes order_type =
     (if order_type \<in> {RDP_GDI_ORDER_DSTBLT, RDP_GDI_ORDER_SCRBLT, RDP_GDI_ORDER_DRAWNINEGRID,
        RDP_GDI_ORDER_MULTI_DRAWNINEGRID, RDP_GDI_ORDER_OPAQUERECT, RDP_GDI_ORDER_SAVEBITMAP,
        RDP_GDI_ORDER_MULTIDSTBLT, RDP_GDI_ORDER_POLYGON_SC, RDP_GDI_ORDER_POLYLINE, RDP_GDI_ORDER_ELLIPSE_SC}
      then Some 1
      else if order_type \<in> {RDP_GDI_ORDER_PATBLT, RDP_GDI_ORDER_LINETO, RDP_GDI_ORDER_MEMBLT,
        RDP_GDI_ORDER_MULTIPATBLT, RDP_GDI_ORDER_MULTISCRBLT, RDP_GDI_ORDER_MULTIOPAQUERECT,
        RDP_GDI_ORDER_FAST_INDEX, RDP_GDI_ORDER_POLYGON_CB, RDP_GDI_ORDER_FAST_GLYPH, RDP_GDI_ORDER_ELLIPSE_CB}
      then Some 2
      else if order_type \<in> {RDP_GDI_ORDER_MEM3BLT, RDP_GDI_ORDER_GLYPH_INDEX} then Some 3
      else None)"

definition rdp_gdi_write_capability_header :: "u16 \<Rightarrow> u16 \<Rightarrow> writer" where
  "rdp_gdi_write_capability_header type len =
     run_writers [rdp_buffer_append_u16_le type, rdp_buffer_append_u16_le len]"

definition rdp_gdi_write_ninegrid_capability :: "rdp_gdi_ninegrid_capability \<Rightarrow> writer" where
  "rdp_gdi_write_ninegrid_capability capability =
     (if nc_support_level capability > RDP_GDI_NINEGRID_SUPPORT_SUPPORTED_REV2 \<or>
         nc_cache_size capability > 2560 \<or> nc_cache_entries capability > 256
      then reject LIBRDP_STATUS_INVALID_ARGUMENT
      else restoring (run_writers
        [rdp_gdi_write_capability_header RDP_GDI_CAPSTYPE_DRAW_NINEGRID_CACHE RDP_GDI_DRAW_NINEGRID_CAPABILITY_LENGTH,
         rdp_buffer_append_u32_le (nc_support_level capability),
         rdp_buffer_append_u16_le (nc_cache_size capability),
         rdp_buffer_append_u16_le (nc_cache_entries capability)]))"

definition rdp_nscodec_write_capability :: "rdp_nscodec_capability \<Rightarrow> writer" where
  "rdp_nscodec_write_capability capability =
     (if ns_allow_dynamic_fidelity capability > 1 \<or> ns_allow_subsampling capability > 1 \<or>
         ns_color_loss_level capability < 1 \<or> ns_color_loss_level capability > 7
      then reject LIBRDP_STATUS_INVALID_ARGUMENT
      else restoring (run_writers
        [rdp_buffer_append_u8 (ns_allow_dynamic_fidelity capability),
         rdp_buffer_append_u8 (ns_allow_subsampling capability),
         rdp_buffer_append_u8 (ns_color_loss_level capability)]))"

definition rdp_slowpath_write_general_capability :: writer where
  "rdp_slowpath_write_general_capability = run_writers
     [rdp_slowpath_write_capability_header RDP_CAPABILITY_TYPE_GENERAL 24,
      rdp_slowpath_append_u16s [1, 3, 0x0200, 0, 0, 0x0404, 0, 0, 0],
      rdp_buffer_append_u8 1,
      rdp_buffer_append_u8 1]"

definition rdp_slowpath_write_bitmap_capability :: "u16 \<Rightarrow> u16 \<Rightarrow> writer" where
  "rdp_slowpath_write_bitmap_capability width height =
     (if width = 0 \<or> height = 0 then reject LIBRDP_STATUS_INVALID_ARGUMENT
      else run_writers
        [rdp_slowpath_write_capability_header RDP_CAPABILITY_TYPE_BITMAP 28,
         rdp_buffer_append_u16_le 32,
         rdp_buffer_append_u16_le 1,
         rdp_buffer_append_u16_le 1,
         rdp_buffer_append_u16_le 1,
         rdp_buffer_append_u16_le width,
         rdp_buffer_append_u16_le height,
         rdp_buffer_append_u16_le 0,
         rdp_buffer_append_u16_le 1,
         rdp_buffer_append_u16_le 1,
         rdp_buffer_append_u8 0,
         rdp_buffer_append_u8 0,
         rdp_buffer_append_u16_le 1,
         rdp_buffer_append_u16_le 0])"

definition order_support_table :: "u8 list" where
  "order_support_table =
     map (\<lambda>i. if rdp_gdi_primary_order_field_bytes (of_nat i) \<noteq> None then 1 else 0) [0 ..< 32]"

definition rdp_slowpath_write_order_capability :: writer where
  "rdp_slowpath_write_order_capability = run_writers
     [rdp_slowpath_write_capability_header RDP_CAPABILITY_TYPE_ORDER 88,
      rdp_slowpath_append_zeros 16,
      rdp_buffer_append_u32_le 0,
      rdp_slowpath_append_u16s [1, 20, 0, 1, 0, 0x002a],
      rdp_buffer_append order_support_table,
      rdp_buffer_append_u16_le 0,
      rdp_buffer_append_u16_le 0,
      rdp_buffer_append_u32_le 0,
      rdp_buffer_append_u32_le 230400,
      rdp_slowpath_append_u16s [0, 0, 65001, 0]]"

definition rdp_slowpath_write_bitmap_cache_v2_capability :: writer where
  "rdp_slowpath_write_bitmap_cache_v2_capability = run_writers
     ([rdp_slowpath_write_capability_header RDP_CAPABILITY_TYPE_BITMAP_CACHE_V2 40,
       rdp_buffer_append_u16_le 0x0002,
       rdp_buffer_append_u8 0,
       rdp_buffer_append_u8 5] @
      map rdp_buffer_append_u32_le [600, 600, 2048, 4096, 2048] @
      [rdp_slowpath_append_zeros 12])"

definition rdp_slowpath_write_pointer_capability :: writer where
  "rdp_slowpath_write_pointer_capability = run_writers
     [rdp_slowpath_write_capability_header RDP_CAPABILITY_TYPE_POINTER 10,
      rdp_slowpath_append_u16s [1, 128, 128]]"

definition rdp_slowpath_write_large_pointer_capability :: writer where
  "rdp_slowpath_write_large_pointer_capability = run_writers
     [rdp_slowpath_write_capability_header RDP_CAPABILITY_TYPE_LARGE_POINTER 6,
      rdp_buffer_append_u16_le 1]"

definition rdp_slowpath_write_input_capability :: writer where
  "rdp_slowpath_write_input_capability = run_writers
     [rdp_slowpath_write_capability_header RDP_CAPABILITY_TYPE_INPUT 88,
      rdp_buffer_append_u16_le (0x0001 OR 0x0004 OR 0x0010 OR 0x0100),
      rdp_buffer_append_u16_le 0,
      rdp_buffer_append_u32_le 0x00000409,
      rdp_buffer_append_u32_le 4,
      rdp_buffer_append_u32_le 0,
      rdp_buffer_append_u32_le 12,
      rdp_slowpath_append_zeros 64]"

definition rdp_slowpath_write_u32_capability :: "u16 \<Rightarrow> u32 \<Rightarrow> writer" where
  "rdp_slowpath_write_u32_capability type val = run_writers
     [rdp_slowpath_write_capability_header type 8,
      rdp_buffer_append_u32_le val]"

definition rdp_slowpath_write_glyph_cache_capability :: writer where
  "rdp_slowpath_write_glyph_cache_capability = run_writers
     ([rdp_slowpath_write_capability_header RDP_CAPABILITY_TYPE_GLYPH_CACHE 52] @
      map (\<lambda>cell_size. run_writers [rdp_buffer_append_u16_le 254, rdp_buffer_append_u16_le cell_size])
        [4, 4, 8, 8, 16, 32, 64, 128, 256, 256] @
      [rdp_buffer_append_u16_le 256,
       rdp_buffer_append_u16_le 256,
       rdp_buffer_append_u16_le 0,
       rdp_buffer_append_u16_le 0])"

definition rdp_slowpath_write_virtual_channel_capability :: writer where
  "rdp_slowpath_write_virtual_channel_capability = run_writers
     [rdp_slowpath_write_capability_header RDP_CAPABILITY_TYPE_VIRTUAL_CHANNEL 12,
      rdp_buffer_append_u32_le 0,
      rdp_buffer_append_u32_le 1600]"

definition rdp_slowpath_write_sound_capability :: writer where
  "rdp_slowpath_write_sound_capability = run_writers
     [rdp_slowpath_write_capability_header RDP_CAPABILITY_TYPE_SOUND 8, rdp_slowpath_append_u16s [0, 0]]"

definition rdp_slowpath_write_share_capability :: writer where
  "rdp_slowpath_write_share_capability = run_writers
     [rdp_slowpath_write_capability_header RDP_CAPABILITY_TYPE_SHARE 8, rdp_slowpath_append_u16s [0, 0]]"

definition rdp_slowpath_write_font_capability :: writer where
  "rdp_slowpath_write_font_capability = run_writers
     [rdp_slowpath_write_capability_header RDP_CAPABILITY_TYPE_FONT 8, rdp_slowpath_append_u16s [1, 0]]"

definition rdp_slowpath_write_control_capability :: writer where
  "rdp_slowpath_write_control_capability = run_writers
     [rdp_slowpath_write_capability_header RDP_CAPABILITY_TYPE_CONTROL 12, rdp_slowpath_append_u16s [0, 0, 2, 2]]"

definition rdp_slowpath_write_color_cache_capability :: writer where
  "rdp_slowpath_write_color_cache_capability = run_writers
     [rdp_slowpath_write_capability_header RDP_CAPABILITY_TYPE_COLOR_CACHE 8, rdp_slowpath_append_u16s [6, 0]]"

definition rdp_slowpath_write_ninegrid_capability :: writer where
  "rdp_slowpath_write_ninegrid_capability = rdp_gdi_write_ninegrid_capability
     \<lparr>nc_support_level = RDP_GDI_NINEGRID_SUPPORT_SUPPORTED_REV2, nc_cache_size = 2560, nc_cache_entries = 256\<rparr>"

definition rdp_slowpath_write_activation_capability :: writer where
  "rdp_slowpath_write_activation_capability = run_writers
     [rdp_slowpath_write_capability_header RDP_CAPABILITY_TYPE_ACTIVATION 12, rdp_slowpath_append_u16s [0, 0, 0, 0]]"

definition rdp_slowpath_write_bitmap_codecs_capability :: writer where
  "rdp_slowpath_write_bitmap_codecs_capability = run_writers
     [rdp_slowpath_write_capability_header RDP_CAPABILITY_TYPE_BITMAP_CODECS 27,
      rdp_buffer_append_u8 1,
      rdp_buffer_append RDP_NSCODEC_GUID_BYTES,
      rdp_buffer_append_u8 RDP_NSCODEC_BITMAP_CODEC_ID,
      rdp_buffer_append_u16_le RDP_NSCODEC_CAPABILITY_LENGTH,
      rdp_nscodec_write_capability
        \<lparr>ns_allow_dynamic_fidelity = 1, ns_allow_subsampling = 1, ns_color_loss_level = 7\<rparr>]"

section \<open>Data PDUs\<close>

definition rdp_slowpath_write_share_data_header :: "u32 \<Rightarrow> u8 \<Rightarrow> u16 \<Rightarrow> u8 \<Rightarrow> u8 \<Rightarrow> u16 \<Rightarrow> writer" where
  "rdp_slowpath_write_share_data_header share_id stream_id uncompressed_length pdu_type2 compressed_type compressed_length =
     (if stream_id = 0 \<or> (compressed_type = 0 \<and> compressed_length \<noteq> 0) \<or>
         (compressed_type \<noteq> 0 \<and> compressed_length = 0)
      then reject LIBRDP_STATUS_INVALID_ARGUMENT
      else run_writers
        [rdp_buffer_append_u32_le share_id,
         rdp_buffer_append_u8 0,
         rdp_buffer_append_u8 stream_id,
         rdp_buffer_append_u16_le uncompressed_length,
         rdp_buffer_append_u8 pdu_type2,
         rdp_buffer_append_u8 compressed_type,
         rdp_buffer_append_u16_le compressed_length])"

definition rdp_slowpath_write_data_pdu :: "u32 \<Rightarrow> u16 \<Rightarrow> u8 \<Rightarrow> u8 list \<Rightarrow> writer" where
  "rdp_slowpath_write_data_pdu share_id channel_id pdu_type2 payload =
     (if length payload > 0xffff then reject LIBRDP_STATUS_INVALID_ARGUMENT
      else if 18 + length payload > 0xffff then reject LIBRDP_STATUS_INVALID_ARGUMENT
      else run_writers
        [rdp_slowpath_write_share_control_header (of_nat (18 + length payload))
           (RDP_SLOWPATH_PDU_VERSION OR RDP_SLOWPATH_PDU_TYPE_DATA) channel_id,
         rdp_slowpath_write_share_data_header share_id 1 (of_nat (length payload)) pdu_type2 0 0,
         rdp_buffer_append payload])"

definition rdp_slowpath_write_confirm_active_capability_list :: "u16 \<Rightarrow> u16 \<Rightarrow> writer" where
  "rdp_slowpath_write_confirm_active_capability_list width height =
     (if width = 0 \<or> height = 0 then reject LIBRDP_STATUS_INVALID_ARGUMENT
      else run_writers
        [rdp_buffer_append_u16_le RDP_CONFIRM_ACTIVE_CAPABILITY_COUNT,
         rdp_buffer_append_u16_le 0,
         rdp_slowpath_write_general_capability,
         rdp_slowpath_write_bitmap_capability width height,
         rdp_slowpath_write_order_capability,
         rdp_slowpath_write_bitmap_cache_v2_capability,
         rdp_slowpath_write_pointer_capability,
         rdp_slowpath_write_large_pointer_capability,
         rdp_slowpath_write_input_capability,
         rdp_slowpath_write_u32_capability RDP_CAPABILITY_TYPE_BRUSH 0,
         rdp_slowpath_write_glyph_cache_capability,
         rdp_slowpath_write_virtual_channel_capability,
         rdp_slowpath_write_sound_capability,
         rdp_slowpath_write_share_capability,
         rdp_slowpath_write_font_capability,
         rdp_slowpath_write_control_capability,
         rdp_slowpath_write_color_cache_capability,
         rdp_slowpath_write_ninegrid_capability,
         rdp_slowpath_write_activation_capability,
         rdp_slowpath_write_bitmap_codecs_capability])"

definition rdp_slowpath_write_demand_active_capability_list :: "u16 \<Rightarrow> u16 \<Rightarrow> writer" where
  "rdp_slowpath_write_demand_active_capability_list width height =
     (if width = 0 \<or> height = 0 then reject LIBRDP_STATUS_INVALID_ARGUMENT
      else run_writers
        [rdp_buffer_append_u16_le RDP_DEMAND_ACTIVE_CAPABILITY_COUNT,
         rdp_buffer_append_u16_le 0,
         rdp_slowpath_write_general_capability,
         rdp_slowpath_write_bitmap_capability width height,
         rdp_slowpath_write_order_capability,
         rdp_slowpath_write_pointer_capability,
         rdp_slowpath_write_large_pointer_capability,
         rdp_slowpath_write_input_capability,
         rdp_slowpath_write_virtual_channel_capability,
         rdp_slowpath_write_share_capability,
         rdp_slowpath_write_color_cache_capability,
         rdp_slowpath_write_font_capability,
         rdp_slowpath_write_bitmap_codecs_capability])"

definition rdp_slowpath_write_demand_active :: "u32 \<Rightarrow> u16 \<Rightarrow> u16 \<Rightarrow> u16 \<Rightarrow> u8 list \<Rightarrow> writer" where
  "rdp_slowpath_write_demand_active share_id channel_id width height source_descriptor =
     (let src = c_string source_descriptor; source_len = length src in
      if width = 0 \<or> height = 0 then reject LIBRDP_STATUS_INVALID_ARGUMENT
      else if source_len = 0 \<or> source_len > 0xffff then reject LIBRDP_STATUS_INVALID_ARGUMENT
      else
        via_local (rdp_slowpath_write_demand_active_capability_list width height) (\<lambda>capabilities.
          let total = 6 + 4 + 2 + 2 + source_len + length capabilities + 4 in
          if length capabilities > 0xffff \<or> total > 0xffff then reject LIBRDP_STATUS_INVALID_ARGUMENT
          else run_writers
            [rdp_slowpath_write_share_control_header (of_nat total)
               (RDP_SLOWPATH_PDU_VERSION OR RDP_SLOWPATH_PDU_TYPE_DEMAND_ACTIVE) channel_id,
             rdp_buffer_append_u32_le share_id,
             rdp_buffer_append_u16_le (of_nat source_len),
             rdp_buffer_append_u16_le (of_nat (length capabilities)),
             rdp_buffer_append src,
             rdp_buffer_append capabilities,
             rdp_buffer_append_u32_le 0]))"

definition rdp_slowpath_write_confirm_active :: "u32 \<Rightarrow> u16 \<Rightarrow> u16 \<Rightarrow> u16 \<Rightarrow> u8 list \<Rightarrow> writer" where
  "rdp_slowpath_write_confirm_active share_id channel_id width height source_descriptor =
     (let src = c_string source_descriptor; source_len = length src in
      if width = 0 \<or> height = 0 then reject LIBRDP_STATUS_INVALID_ARGUMENT
      else if source_len = 0 \<or> source_len > 0xffff then reject LIBRDP_STATUS_INVALID_ARGUMENT
      else
        via_local (rdp_slowpath_write_confirm_active_capability_list width height) (\<lambda>capabilities.
          let total = 6 + 4 + 2 + 2 + 2 + source_len + length capabilities in
          if total > 0xffff then reject LIBRDP_STATUS_INVALID_ARGUMENT
          else run_writers
            [rdp_slowpath_write_share_control_header (of_nat total)
               (RDP_SLOWPATH_PDU_VERSION OR RDP_SLOWPATH_PDU_TYPE_CONFIRM_ACTIVE) channel_id,
             rdp_buffer_append_u32_le share_id,
             rdp_buffer_append_u16_le 1002,
             rdp_buffer_append_u16_le (of_nat source_len),
             rdp_buffer_append_u16_le (of_nat (length capabilities)),
             rdp_buffer_append src,
             rdp_buffer_append capabilities]))"

section \<open>Finalization, input and display control\<close>

definition rdp_slowpath_write_client_synchronize :: "u32 \<Rightarrow> u16 \<Rightarrow> writer" where
  "rdp_slowpath_write_client_synchronize share_id channel_id =
     rdp_slowpath_write_data_pdu share_id channel_id RDP_SLOWPATH_DATA_PDU_SYNCHRONIZE
       [1, 0, ucast (channel_id AND 0xff), ucast (drop_bit 8 channel_id AND 0xff)]"

definition rdp_slowpath_write_server_synchronize :: "u32 \<Rightarrow> u16 \<Rightarrow> u16 \<Rightarrow> writer" where
  "rdp_slowpath_write_server_synchronize share_id channel_id target_user_id =
     rdp_slowpath_write_data_pdu share_id channel_id RDP_SLOWPATH_DATA_PDU_SYNCHRONIZE
       [1, 0, ucast (target_user_id AND 0xff), ucast (drop_bit 8 target_user_id AND 0xff)]"

definition rdp_slowpath_write_control :: "u32 \<Rightarrow> u16 \<Rightarrow> u16 \<Rightarrow> bool \<Rightarrow> writer" where
  "rdp_slowpath_write_control share_id channel_id action server_side =
     (if (\<not> server_side \<and> action \<noteq> 1 \<and> action \<noteq> 4) \<or> (server_side \<and> action \<noteq> 2 \<and> action \<noteq> 4)
      then reject LIBRDP_STATUS_INVALID_ARGUMENT
      else rdp_slowpath_write_data_pdu share_id channel_id RDP_SLOWPATH_DATA_PDU_CONTROL
        [ucast (action AND 0xff), ucast (drop_bit 8 action AND 0xff), 0, 0, 0, 0, 0, 0])"

definition rdp_slowpath_write_client_control :: "u32 \<Rightarrow> u16 \<Rightarrow> u16 \<Rightarrow> writer" where
  "rdp_slowpath_write_client_control share_id channel_id action =
     rdp_slowpath_write_control share_id channel_id action False"

definition rdp_slowpath_write_server_control :: "u32 \<Rightarrow> u16 \<Rightarrow> u16 \<Rightarrow> writer" where
  "rdp_slowpath_write_server_control share_id channel_id action =
     rdp_slowpath_write_control share_id channel_id action True"

definition rdp_slowpath_write_client_font_list :: "u32 \<Rightarrow> u16 \<Rightarrow> writer" where
  "rdp_slowpath_write_client_font_list share_id channel_id =
     rdp_slowpath_write_data_pdu share_id channel_id RDP_SLOWPATH_DATA_PDU_FONT_LIST [0, 0, 0, 0, 3, 0, 50, 0]"

definition rdp_slowpath_write_server_font_map :: "u32 \<Rightarrow> u16 \<Rightarrow> writer" where
  "rdp_slowpath_write_server_font_map share_id channel_id =
     rdp_slowpath_write_data_pdu share_id channel_id RDP_SLOWPATH_DATA_PDU_FONT_MAP [0, 0, 0, 0, 3, 0, 4, 0]"

definition rdp_slowpath_write_client_persistent_key_list :: "u32 \<Rightarrow> u16 \<Rightarrow> writer" where
  "rdp_slowpath_write_client_persistent_key_list share_id channel_id =
     rdp_slowpath_write_data_pdu share_id channel_id RDP_SLOWPATH_DATA_PDU_BITMAP_CACHE_PERSISTENT_LIST
       ((replicate 24 0)[20 := 3])"

definition rdp_slowpath_write_client_input_event :: "u32 \<Rightarrow> u16 \<Rightarrow> u16 \<Rightarrow> u16 \<Rightarrow> u16 \<Rightarrow> u16 \<Rightarrow> writer" where
  "rdp_slowpath_write_client_input_event share_id channel_id message_type flags param1 param2 =
     rdp_slowpath_write_data_pdu share_id channel_id RDP_SLOWPATH_DATA_PDU_INPUT
       ([1, 0, 0, 0, 0, 0, 0, 0] @
        [ucast (message_type AND 0xff), ucast (drop_bit 8 message_type AND 0xff)] @
        [ucast (flags AND 0xff), ucast (drop_bit 8 flags AND 0xff)] @
        [ucast (param1 AND 0xff), ucast (drop_bit 8 param1 AND 0xff)] @
        [ucast (param2 AND 0xff), ucast (drop_bit 8 param2 AND 0xff)])"

definition rdp_slowpath_write_client_keyboard_input :: "u32 \<Rightarrow> u16 \<Rightarrow> u16 \<Rightarrow> u16 \<Rightarrow> writer" where
  "rdp_slowpath_write_client_keyboard_input share_id channel_id flags scancode =
     (if scancode > 0xff then reject LIBRDP_STATUS_INVALID_ARGUMENT
      else rdp_slowpath_write_client_input_event share_id channel_id 0x0004 flags scancode 0)"

definition rdp_slowpath_write_client_unicode_keyboard_input :: "u32 \<Rightarrow> u16 \<Rightarrow> u16 \<Rightarrow> u16 \<Rightarrow> writer" where
  "rdp_slowpath_write_client_unicode_keyboard_input share_id channel_id flags code =
     rdp_slowpath_write_client_input_event share_id channel_id 0x0005 flags code 0"

definition rdp_slowpath_write_client_mouse_input :: "u32 \<Rightarrow> u16 \<Rightarrow> u16 \<Rightarrow> u16 \<Rightarrow> u16 \<Rightarrow> writer" where
  "rdp_slowpath_write_client_mouse_input share_id channel_id flags x y =
     rdp_slowpath_write_client_input_event share_id channel_id 0x8001 flags x y"

definition rdp_slowpath_write_client_extended_mouse_input :: "u32 \<Rightarrow> u16 \<Rightarrow> u16 \<Rightarrow> u16 \<Rightarrow> u16 \<Rightarrow> writer" where
  "rdp_slowpath_write_client_extended_mouse_input share_id channel_id flags x y =
     rdp_slowpath_write_client_input_event share_id channel_id 0x8002 flags x y"

text \<open>The inclusive rectangle of Refresh Rect and Suppress Output, refused when an edge leaves 16 bits.\<close>

definition rectangle_bytes :: "u16 \<Rightarrow> u16 \<Rightarrow> u16 \<Rightarrow> u16 \<Rightarrow> u8 list option" where
  "rectangle_bytes x y width height =
     (if width = 0 \<or> height = 0 then None
      else
        let right = ucast x + ucast width - 1 :: u32; bottom = ucast y + ucast height - 1 :: u32 in
        if right > 0xffff \<or> bottom > 0xffff then None
        else Some
          [ucast (x AND 0xff), ucast (drop_bit 8 x AND 0xff), ucast (y AND 0xff), ucast (drop_bit 8 y AND 0xff),
           ucast (right AND 0xff), ucast (drop_bit 8 right AND 0xff),
           ucast (bottom AND 0xff), ucast (drop_bit 8 bottom AND 0xff)])"

definition rdp_slowpath_write_client_refresh_rect :: "u32 \<Rightarrow> u16 \<Rightarrow> u16 \<Rightarrow> u16 \<Rightarrow> u16 \<Rightarrow> u16 \<Rightarrow> writer" where
  "rdp_slowpath_write_client_refresh_rect share_id channel_id x y width height =
     (case rectangle_bytes x y width height of
        None \<Rightarrow> reject LIBRDP_STATUS_INVALID_ARGUMENT
      | Some rect \<Rightarrow>
          rdp_slowpath_write_data_pdu share_id channel_id RDP_SLOWPATH_DATA_PDU_REFRESH_RECT ([1, 0, 0, 0] @ rect))"

definition rdp_slowpath_write_client_suppress_output ::
    "u32 \<Rightarrow> u16 \<Rightarrow> bool \<Rightarrow> u16 \<Rightarrow> u16 \<Rightarrow> u16 \<Rightarrow> u16 \<Rightarrow> writer" where
  "rdp_slowpath_write_client_suppress_output share_id channel_id allow_updates x y width height =
     (if allow_updates then
        (case rectangle_bytes x y width height of
           None \<Rightarrow> reject LIBRDP_STATUS_INVALID_ARGUMENT
         | Some rect \<Rightarrow>
             rdp_slowpath_write_data_pdu share_id channel_id RDP_SLOWPATH_DATA_PDU_SUPPRESS_OUTPUT ([1, 0, 0, 0] @ rect))
      else rdp_slowpath_write_data_pdu share_id channel_id RDP_SLOWPATH_DATA_PDU_SUPPRESS_OUTPUT [0, 0, 0, 0])"

definition rdp_slowpath_parse_data_pdu :: "u8 list \<Rightarrow> rdp_slowpath_data_pdu result" where
  "rdp_slowpath_parse_data_pdu data =
     ebind (rdp_slowpath_parse_share_control_header data) (\<lambda>header.
       if rdp_slowpath_base_type (sch_pdu_type header) \<noteq> RDP_SLOWPATH_PDU_TYPE_DATA then protocol_error
       else if sch_total_length header < 18 then protocol_error
       else
         pbind (rdp_stream_skip 6 (rdp_stream_init (take (unat (sch_total_length header)) data))) (\<lambda>(_, stream).
         pbind (rdp_stream_read_u32_le stream) (\<lambda>(share_id, stream).
         pbind (rdp_stream_read_u8 stream) (\<lambda>(pad, stream).
         pbind (rdp_stream_read_u8 stream) (\<lambda>(stream_id, stream).
         pbind (rdp_stream_read_u16_le stream) (\<lambda>(uncompressed_length, stream).
         pbind (rdp_stream_read_u8 stream) (\<lambda>(pdu_type2, stream).
         pbind (rdp_stream_read_u8 stream) (\<lambda>(compressed_type, stream).
         pbind (rdp_stream_read_u16_le stream) (\<lambda>(compressed_length, stream).
           if pad \<noteq> 0 \<or> stream_id = 0 \<or> (compressed_type = 0 \<and> compressed_length \<noteq> 0) \<or>
              (compressed_type \<noteq> 0 \<and> compressed_length = 0)
           then protocol_error
           else
             let payload_len = rdp_stream_remaining stream in
             pbind (if payload_len > 0 then rdp_stream_read_bytes payload_len stream else Inr ([], stream))
               (\<lambda>(payload, stream).
                 Inr \<lparr>dp_header = header, dp_share_id = share_id, dp_stream_id = stream_id,
                      dp_uncompressed_length = uncompressed_length, dp_pdu_type2 = pdu_type2,
                      dp_compressed_type = compressed_type, dp_compressed_length = compressed_length,
                      dp_payload = payload, dp_payload_len = payload_len\<rparr>))))))))))"

definition rdp_slowpath_parse_font_map :: "u8 list \<Rightarrow> rdp_slowpath_font_map result" where
  "rdp_slowpath_parse_font_map data =
     (if length data \<noteq> 8 then protocol_error
      else
        pbind (rdp_stream_read_u16_le (rdp_stream_init data)) (\<lambda>(number_entries, stream).
        pbind (rdp_stream_read_u16_le stream) (\<lambda>(total_entries, stream).
        pbind (rdp_stream_read_u16_le stream) (\<lambda>(map_flags, stream).
        pbind (rdp_stream_read_u16_le stream) (\<lambda>(entry_size, stream).
          Inr \<lparr>fm_number_entries = number_entries, fm_total_entries = total_entries, fm_map_flags = map_flags,
               fm_entry_size = entry_size\<rparr>)))))"

definition rdp_slowpath_parse_set_error_info :: "u8 list \<Rightarrow> u32 result" where
  "rdp_slowpath_parse_set_error_info data =
     (if length data \<noteq> 4 then protocol_error
      else pbind (rdp_stream_read_u32_le (rdp_stream_init data)) (\<lambda>(parsed, stream). Inr parsed))"

definition rdp_slowpath_parse_save_session_info :: "u8 list \<Rightarrow> rdp_slowpath_save_session_info result" where
  "rdp_slowpath_parse_save_session_info data =
     (if length data < 4 then protocol_error
      else
        pbind (rdp_stream_read_u32_le (rdp_stream_init data)) (\<lambda>(info_type, stream).
          let data_len = rdp_stream_remaining stream in
          pbind (if data_len > 0 then rdp_stream_read_bytes data_len stream else Inr ([], stream))
            (\<lambda>(rest, stream). Inr \<lparr>ssi_info_type = info_type, ssi_data = rest, ssi_data_len = data_len\<rparr>)))"

section \<open>What the writers emit\<close>

lemma emits_zeros [emits_rules]: "emits (rdp_slowpath_append_zeros n) (replicate n 0)"
proof (induction n rule: rdp_slowpath_append_zeros.induct)
  case (1 n)
  show ?case
  proof (cases "n = 0")
    case False
    define chunk where "chunk = (if n > 64 then 64 else n)"
    have "replicate n 0 = replicate chunk 0 @ replicate (n - chunk) (0 :: u8)"
      using False by (simp add: chunk_def flip: replicate_add)
    moreover have "emits (rdp_slowpath_append_zeros (n - chunk)) (replicate (n - chunk) 0)"
      using False 1 by (simp add: chunk_def)
    ultimately show ?thesis
      using False by (subst rdp_slowpath_append_zeros.simps)
        (auto simp: Let_def simp flip: chunk_def intro!: emits_run_Cons' emits_run_one emits_rules)
  qed (use emits_run_Nil in \<open>simp add: rdp_slowpath_append_zeros.simps del: run_writers.simps\<close>)
qed

lemma emits_u16s [emits_rules]: "emits (rdp_slowpath_append_u16s vs) (concat (map u16_le_bytes vs))"
  unfolding rdp_slowpath_append_u16s_def
  by (rule emits_run) (auto simp: list_all2_conv_all_nth intro: emits_rules)

lemma emits_capability_header [emits_rules]:
  "\<not> len < 4 \<Longrightarrow> emits (rdp_slowpath_write_capability_header type len) (u16_le_bytes type @ u16_le_bytes len)"
  unfolding rdp_slowpath_write_capability_header_def by (auto intro!: emits_rules)

definition capability :: "u16 \<Rightarrow> u8 list \<Rightarrow> rdp_capability_set" where
  "capability type payload =
     \<lparr>cap_type = type, cap_length = of_nat (length payload + 4), cap_data = payload, cap_data_len = length payload\<rparr>"

lemma capability_sel [simp]:
  "cap_type (capability type payload) = type" "cap_data (capability type payload) = payload"
  "cap_data_len (capability type payload) = length payload"
  by (simp_all add: capability_def)

lemma set_ok_capability: "length payload + 4 \<le> 0xffff \<Longrightarrow> set_ok (capability type payload)"
  by (simp add: set_ok_def capability_def unat_of_nat_u16 del: of_nat_add)

lemma set_bytes_capability [simp]: "set_bytes (capability type payload) = block_bytes type payload"
  by (simp add: set_bytes_def)

definition general_payload :: "u8 list" where
  "general_payload = concat (map u16_le_bytes [1, 3, 0x0200, 0, 0, 0x0404, 0, 0, 0]) @ [1, 1]"

definition bitmap_payload :: "u16 \<Rightarrow> u16 \<Rightarrow> u8 list" where
  "bitmap_payload width height =
     concat (map u16_le_bytes [32, 1, 1, 1, width, height, 0, 1, 1]) @ [0, 0] @ concat (map u16_le_bytes [1, 0])"

definition order_payload :: "u8 list" where
  "order_payload = replicate 16 0 @ u32_le_bytes 0 @ concat (map u16_le_bytes [1, 20, 0, 1, 0, 0x002a]) @
     order_support_table @ u16_le_bytes 0 @ u16_le_bytes 0 @ u32_le_bytes 0 @ u32_le_bytes 230400 @
     concat (map u16_le_bytes [0, 0, 65001, 0])"

definition input_payload :: "u8 list" where
  "input_payload = u16_le_bytes 0x115 @ u16_le_bytes 0 @ u32_le_bytes 0x00000409 @ u32_le_bytes 4 @
     u32_le_bytes 0 @ u32_le_bytes 12 @ replicate 64 0"

definition bitmap_cache_v2_payload :: "u8 list" where
  "bitmap_cache_v2_payload = u16_le_bytes 2 @ [0, 5] @ concat (map u32_le_bytes [600, 600, 2048, 4096, 2048]) @
     replicate 12 0"

definition glyph_cache_payload :: "u8 list" where
  "glyph_cache_payload =
     concat (map (\<lambda>c. u16_le_bytes 254 @ u16_le_bytes c) [4, 4, 8, 8, 16, 32, 64, 128, 256, 256]) @
     concat (map u16_le_bytes [256, 256, 0, 0])"

definition bitmap_codecs_payload :: "u8 list" where
  "bitmap_codecs_payload = [1] @ RDP_NSCODEC_GUID_BYTES @ [1] @ u16_le_bytes 3 @ [1, 1, 7]"

lemma length_order_support_table [simp]: "length order_support_table = 32"
  by (simp add: order_support_table_def)

lemma length_payloads [simp]:
  "length general_payload = 20" "length (bitmap_payload w h) = 24" "length order_payload = 84"
  "length input_payload = 84" "length bitmap_cache_v2_payload = 36" "length glyph_cache_payload = 48"
  "length bitmap_codecs_payload = 23"
  by (simp_all add: general_payload_def bitmap_payload_def order_payload_def input_payload_def
      bitmap_cache_v2_payload_def glyph_cache_payload_def bitmap_codecs_payload_def RDP_NSCODEC_GUID_BYTES_def)

text \<open>A capability writer emits its header and then the payload the header announces.\<close>

lemma emits_capability:
  assumes "emits (run_writers ws) payload" and "unat len = length payload + 4"
  shows "emits (run_writers (rdp_slowpath_write_capability_header type len # ws)) (block_bytes type payload)"
proof -
  have "of_nat (length payload + 4) = len" using assms(2) by (metis of_nat_unat ucast_id)
  moreover have "\<not> len < 4" using assms(2) by (simp add: word_less_nat_alt)
  ultimately show ?thesis
    using emits_run_Cons' [OF emits_capability_header [of len type] assms(1)]
    by (simp add: block_bytes_def del: of_nat_add)
qed

lemmas capability_writer_defs =
  rdp_slowpath_write_general_capability_def rdp_slowpath_write_bitmap_capability_def
  rdp_slowpath_write_order_capability_def rdp_slowpath_write_bitmap_cache_v2_capability_def
  rdp_slowpath_write_pointer_capability_def rdp_slowpath_write_large_pointer_capability_def
  rdp_slowpath_write_input_capability_def rdp_slowpath_write_u32_capability_def
  rdp_slowpath_write_glyph_cache_capability_def rdp_slowpath_write_virtual_channel_capability_def
  rdp_slowpath_write_sound_capability_def rdp_slowpath_write_share_capability_def
  rdp_slowpath_write_font_capability_def rdp_slowpath_write_control_capability_def
  rdp_slowpath_write_color_cache_capability_def rdp_slowpath_write_activation_capability_def
  rdp_slowpath_write_bitmap_codecs_capability_def

lemma emits_ninegrid:
  "emits rdp_slowpath_write_ninegrid_capability
     (block_bytes RDP_GDI_CAPSTYPE_DRAW_NINEGRID_CACHE (u32_le_bytes 2 @ u16_le_bytes 2560 @ u16_le_bytes 256))"
  unfolding rdp_slowpath_write_ninegrid_capability_def rdp_gdi_write_ninegrid_capability_def block_bytes_def
    rdp_gdi_write_capability_header_def
  by (auto simp: RDP_GDI_NINEGRID_SUPPORT_SUPPORTED_REV2_def RDP_GDI_DRAW_NINEGRID_CAPABILITY_LENGTH_def
      intro!: emits_rules)

lemma emits_nscodec [emits_rules]:
  "emits (rdp_nscodec_write_capability
     \<lparr>ns_allow_dynamic_fidelity = 1, ns_allow_subsampling = 1, ns_color_loss_level = 7\<rparr>) [1, 1, 7]"
  unfolding rdp_nscodec_write_capability_def by (auto intro!: emits_rules)

lemma emits_glyph_entry [emits_rules]:
  "emits (run_writers [rdp_buffer_append_u16_le a, rdp_buffer_append_u16_le b]) (u16_le_bytes a @ u16_le_bytes b)"
  by (auto intro!: emits_rules)

lemma emits_capability_writers:
  "emits rdp_slowpath_write_general_capability (block_bytes RDP_CAPABILITY_TYPE_GENERAL general_payload)"
  "w \<noteq> 0 \<Longrightarrow> h \<noteq> 0 \<Longrightarrow>
     emits (rdp_slowpath_write_bitmap_capability w h) (block_bytes RDP_CAPABILITY_TYPE_BITMAP (bitmap_payload w h))"
  "emits rdp_slowpath_write_order_capability (block_bytes RDP_CAPABILITY_TYPE_ORDER order_payload)"
  "emits rdp_slowpath_write_bitmap_cache_v2_capability
     (block_bytes RDP_CAPABILITY_TYPE_BITMAP_CACHE_V2 bitmap_cache_v2_payload)"
  "emits rdp_slowpath_write_pointer_capability
     (block_bytes RDP_CAPABILITY_TYPE_POINTER (concat (map u16_le_bytes [1, 128, 128])))"
  "emits rdp_slowpath_write_large_pointer_capability (block_bytes RDP_CAPABILITY_TYPE_LARGE_POINTER (u16_le_bytes 1))"
  "emits rdp_slowpath_write_input_capability (block_bytes RDP_CAPABILITY_TYPE_INPUT input_payload)"
  "emits (rdp_slowpath_write_u32_capability type v) (block_bytes type (u32_le_bytes v))"
  "emits rdp_slowpath_write_glyph_cache_capability (block_bytes RDP_CAPABILITY_TYPE_GLYPH_CACHE glyph_cache_payload)"
  "emits rdp_slowpath_write_virtual_channel_capability
     (block_bytes RDP_CAPABILITY_TYPE_VIRTUAL_CHANNEL (u32_le_bytes 0 @ u32_le_bytes 1600))"
  "emits rdp_slowpath_write_sound_capability
     (block_bytes RDP_CAPABILITY_TYPE_SOUND (concat (map u16_le_bytes [0, 0])))"
  "emits rdp_slowpath_write_share_capability
     (block_bytes RDP_CAPABILITY_TYPE_SHARE (concat (map u16_le_bytes [0, 0])))"
  "emits rdp_slowpath_write_font_capability
     (block_bytes RDP_CAPABILITY_TYPE_FONT (concat (map u16_le_bytes [1, 0])))"
  "emits rdp_slowpath_write_control_capability
     (block_bytes RDP_CAPABILITY_TYPE_CONTROL (concat (map u16_le_bytes [0, 0, 2, 2])))"
  "emits rdp_slowpath_write_color_cache_capability
     (block_bytes RDP_CAPABILITY_TYPE_COLOR_CACHE (concat (map u16_le_bytes [6, 0])))"
  "emits rdp_slowpath_write_activation_capability
     (block_bytes RDP_CAPABILITY_TYPE_ACTIVATION (concat (map u16_le_bytes [0, 0, 0, 0])))"
  "emits rdp_slowpath_write_bitmap_codecs_capability
     (block_bytes RDP_CAPABILITY_TYPE_BITMAP_CODECS bitmap_codecs_payload)"
  unfolding capability_writer_defs append.simps map_append list.map
  subgoal by (rule emits_capability) (auto simp: general_payload_def intro!: emits_rules)
  subgoal by (simp, rule emits_capability) (auto simp: bitmap_payload_def intro!: emits_rules)
  subgoal by (rule emits_capability) (auto simp: order_payload_def intro!: emits_rules)
  subgoal by (rule emits_capability) (auto simp: bitmap_cache_v2_payload_def intro!: emits_rules)
  subgoal by (rule emits_capability) (auto intro!: emits_rules)
  subgoal by (rule emits_capability) (auto intro!: emits_rules)
  subgoal by (rule emits_capability) (auto simp: input_payload_def intro!: emits_rules)
  subgoal by (rule emits_capability) (auto intro!: emits_rules)
  subgoal by (rule emits_capability) (auto simp: glyph_cache_payload_def intro!: emits_rules)
  subgoal by (rule emits_capability) (auto intro!: emits_rules)
  subgoal by (rule emits_capability) (auto intro!: emits_rules)
  subgoal by (rule emits_capability) (auto intro!: emits_rules)
  subgoal by (rule emits_capability) (auto intro!: emits_rules)
  subgoal by (rule emits_capability) (auto intro!: emits_rules)
  subgoal by (rule emits_capability) (auto intro!: emits_rules)
  subgoal by (rule emits_capability) (auto intro!: emits_rules)
  subgoal by (rule emits_capability) (auto simp: bitmap_codecs_payload_def RDP_NSCODEC_BITMAP_CODEC_ID_def
      RDP_NSCODEC_CAPABILITY_LENGTH_def RDP_NSCODEC_GUID_BYTES_def intro!: emits_rules)
  done

subsection \<open>Capability lists\<close>

definition demand_sets :: "u16 \<Rightarrow> u16 \<Rightarrow> rdp_capability_set list" where
  "demand_sets w h =
     [capability RDP_CAPABILITY_TYPE_GENERAL general_payload,
      capability RDP_CAPABILITY_TYPE_BITMAP (bitmap_payload w h),
      capability RDP_CAPABILITY_TYPE_ORDER order_payload,
      capability RDP_CAPABILITY_TYPE_POINTER (concat (map u16_le_bytes [1, 128, 128])),
      capability RDP_CAPABILITY_TYPE_LARGE_POINTER (u16_le_bytes 1),
      capability RDP_CAPABILITY_TYPE_INPUT input_payload,
      capability RDP_CAPABILITY_TYPE_VIRTUAL_CHANNEL (u32_le_bytes 0 @ u32_le_bytes 1600),
      capability RDP_CAPABILITY_TYPE_SHARE (concat (map u16_le_bytes [0, 0])),
      capability RDP_CAPABILITY_TYPE_COLOR_CACHE (concat (map u16_le_bytes [6, 0])),
      capability RDP_CAPABILITY_TYPE_FONT (concat (map u16_le_bytes [1, 0])),
      capability RDP_CAPABILITY_TYPE_BITMAP_CODECS bitmap_codecs_payload]"

definition confirm_sets :: "u16 \<Rightarrow> u16 \<Rightarrow> rdp_capability_set list" where
  "confirm_sets w h =
     [capability RDP_CAPABILITY_TYPE_GENERAL general_payload,
      capability RDP_CAPABILITY_TYPE_BITMAP (bitmap_payload w h),
      capability RDP_CAPABILITY_TYPE_ORDER order_payload,
      capability RDP_CAPABILITY_TYPE_BITMAP_CACHE_V2 bitmap_cache_v2_payload,
      capability RDP_CAPABILITY_TYPE_POINTER (concat (map u16_le_bytes [1, 128, 128])),
      capability RDP_CAPABILITY_TYPE_LARGE_POINTER (u16_le_bytes 1),
      capability RDP_CAPABILITY_TYPE_INPUT input_payload,
      capability RDP_CAPABILITY_TYPE_BRUSH (u32_le_bytes 0),
      capability RDP_CAPABILITY_TYPE_GLYPH_CACHE glyph_cache_payload,
      capability RDP_CAPABILITY_TYPE_VIRTUAL_CHANNEL (u32_le_bytes 0 @ u32_le_bytes 1600),
      capability RDP_CAPABILITY_TYPE_SOUND (concat (map u16_le_bytes [0, 0])),
      capability RDP_CAPABILITY_TYPE_SHARE (concat (map u16_le_bytes [0, 0])),
      capability RDP_CAPABILITY_TYPE_FONT (concat (map u16_le_bytes [1, 0])),
      capability RDP_CAPABILITY_TYPE_CONTROL (concat (map u16_le_bytes [0, 0, 2, 2])),
      capability RDP_CAPABILITY_TYPE_COLOR_CACHE (concat (map u16_le_bytes [6, 0])),
      capability RDP_GDI_CAPSTYPE_DRAW_NINEGRID_CACHE (u32_le_bytes 2 @ u16_le_bytes 2560 @ u16_le_bytes 256),
      capability RDP_CAPABILITY_TYPE_ACTIVATION (concat (map u16_le_bytes [0, 0, 0, 0])),
      capability RDP_CAPABILITY_TYPE_BITMAP_CODECS bitmap_codecs_payload]"

lemmas capability_type_defs =
  RDP_CAPABILITY_TYPE_GENERAL_def RDP_CAPABILITY_TYPE_BITMAP_def RDP_CAPABILITY_TYPE_ORDER_def
  RDP_CAPABILITY_TYPE_CONTROL_def RDP_CAPABILITY_TYPE_ACTIVATION_def RDP_CAPABILITY_TYPE_POINTER_def
  RDP_CAPABILITY_TYPE_SHARE_def RDP_CAPABILITY_TYPE_COLOR_CACHE_def RDP_CAPABILITY_TYPE_SOUND_def
  RDP_CAPABILITY_TYPE_INPUT_def RDP_CAPABILITY_TYPE_FONT_def RDP_CAPABILITY_TYPE_BRUSH_def
  RDP_CAPABILITY_TYPE_GLYPH_CACHE_def RDP_CAPABILITY_TYPE_BITMAP_CACHE_V2_def
  RDP_CAPABILITY_TYPE_VIRTUAL_CHANNEL_def RDP_CAPABILITY_TYPE_LARGE_POINTER_def
  RDP_CAPABILITY_TYPE_BITMAP_CODECS_def RDP_GDI_CAPSTYPE_DRAW_NINEGRID_CACHE_def

definition demand_list :: "u16 \<Rightarrow> u16 \<Rightarrow> rdp_capability_list" where
  "demand_list w h = \<lparr>caps_count = 11, caps_sets = demand_sets w h\<rparr>"

definition confirm_list :: "u16 \<Rightarrow> u16 \<Rightarrow> rdp_capability_list" where
  "confirm_list w h = \<lparr>caps_count = 18, caps_sets = confirm_sets w h\<rparr>"

lemma list_ok_sent: "list_ok (demand_list w h)" "list_ok (confirm_list w h)"
  by (simp_all add: list_ok_def demand_list_def confirm_list_def demand_sets_def confirm_sets_def
      set_ok_capability RDP_CAPABILITY_MAX_SETS_def capability_type_defs)

lemma emits_demand_list:
  "w \<noteq> 0 \<Longrightarrow> h \<noteq> 0 \<Longrightarrow>
    emits (rdp_slowpath_write_demand_active_capability_list w h) (capability_list_bytes 0 (demand_list w h))"
  unfolding rdp_slowpath_write_demand_active_capability_list_def capability_list_bytes_def demand_list_def
    demand_sets_def RDP_DEMAND_ACTIVE_CAPABILITY_COUNT_def
  by (auto intro!: emits_rules emits_capability_writers [simplified])

lemma emits_confirm_list:
  "w \<noteq> 0 \<Longrightarrow> h \<noteq> 0 \<Longrightarrow>
    emits (rdp_slowpath_write_confirm_active_capability_list w h) (capability_list_bytes 0 (confirm_list w h))"
  unfolding rdp_slowpath_write_confirm_active_capability_list_def capability_list_bytes_def confirm_list_def
    confirm_sets_def RDP_CONFIRM_ACTIVE_CAPABILITY_COUNT_def
  by (auto intro!: emits_rules emits_capability_writers [simplified] emits_ninegrid)

lemma length_sent_lists:
  "length (capability_list_bytes 0 (demand_list w h)) = 311"
  "length (capability_list_bytes 0 (confirm_list w h)) = 455"
  by (simp_all add: capability_list_bytes_def demand_list_def confirm_list_def demand_sets_def confirm_sets_def)

subsection \<open>Share PDUs\<close>

definition share_pdu :: "u16 \<Rightarrow> u16 \<Rightarrow> u8 list \<Rightarrow> u8 list" where
  "share_pdu type channel_id body =
     u16_le_bytes (of_nat (6 + length body)) @ u16_le_bytes (RDP_SLOWPATH_PDU_VERSION OR type) @
     u16_le_bytes channel_id @ body"

definition share_header :: "u16 \<Rightarrow> u16 \<Rightarrow> nat \<Rightarrow> rdp_slowpath_share_control_header" where
  "share_header type channel_id n =
     \<lparr>sch_total_length = of_nat n, sch_pdu_type = RDP_SLOWPATH_PDU_VERSION OR type, sch_channel_id = channel_id\<rparr>"

lemmas slowpath_types =
  RDP_SLOWPATH_PDU_TYPE_DEMAND_ACTIVE_def RDP_SLOWPATH_PDU_TYPE_CONFIRM_ACTIVE_def
  RDP_SLOWPATH_PDU_TYPE_DEACTIVATE_ALL_def RDP_SLOWPATH_PDU_TYPE_DATA_def
  RDP_SLOWPATH_PDU_TYPE_SERVER_REDIRECTION_def RDP_SLOWPATH_PDU_VERSION_def

lemma length_share_pdu [simp]: "length (share_pdu type channel_id body) = 6 + length body"
  by (simp add: share_pdu_def)

lemma emits_share_header [emits_rules]:
  assumes "6 \<le> n" and "n \<le> 0xffff" and "rdp_slowpath_valid_share_control_type type"
  shows "emits (rdp_slowpath_write_share_control_header (of_nat n) type channel_id)
           (u16_le_bytes (of_nat n) @ u16_le_bytes type @ u16_le_bytes channel_id)"
proof -
  have "\<not> (of_nat n :: u16) < 6" using assms by (simp add: word_less_nat_alt unat_of_nat_u16)
  then show ?thesis
    using assms(3) unfolding rdp_slowpath_write_share_control_header_def by (auto intro!: emits_rules)
qed

lemma parse_share_header [simp]:
  assumes "length body + 6 \<le> 0xffff"
  shows "rdp_slowpath_parse_share_control_header (share_pdu type channel_id body) =
    Inr (share_header type channel_id (6 + length body))"
proof -
  define n :: u16 where "n = of_nat (6 + length body)"
  have n: "unat n = 6 + length body" unfolding n_def by (rule unat_of_nat_u16) (use assms in simp)
  then have "\<not> n < 6" by (simp add: word_less_nat_alt)
  with n show ?thesis
    by (simp add: rdp_slowpath_parse_share_control_header_def share_pdu_def share_header_def stream_rules
        del: of_nat_add flip: n_def)
qed

lemma skip_share_header:
  "6 + length body = n \<Longrightarrow> n \<le> 0xffff \<Longrightarrow>
    take (unat (sch_total_length (share_header type channel_id n))) (share_pdu type channel_id body) =
      share_pdu type channel_id body"
  "rdp_stream_skip 6 (strm [] (share_pdu type channel_id body)) =
     Inr ((), strm (take 6 (share_pdu type channel_id body)) body)"
proof -
  show "rdp_stream_skip 6 (strm [] (share_pdu type channel_id body)) =
     Inr ((), strm (take 6 (share_pdu type channel_id body)) body)"
    using skip_strm(1) [of "take 6 (share_pdu type channel_id body)" 6 "[]" body]
    by (simp add: share_pdu_def)
qed (auto simp: share_header_def unat_of_nat_u16 simp del: of_nat_add)

subsection \<open>Demand Active and Confirm Active\<close>

definition active_tail :: "u8 list \<Rightarrow> u8 list \<Rightarrow> u8 list" where
  "active_tail src caps = u16_le_bytes (of_nat (length src)) @ u16_le_bytes (of_nat (length caps)) @ src @ caps"

definition demand_pdu :: "u32 \<Rightarrow> u16 \<Rightarrow> u16 \<Rightarrow> u16 \<Rightarrow> u8 list \<Rightarrow> u8 list" where
  "demand_pdu share_id channel_id w h src = share_pdu RDP_SLOWPATH_PDU_TYPE_DEMAND_ACTIVE channel_id
     (u32_le_bytes share_id @ active_tail src (capability_list_bytes 0 (demand_list w h)) @ u32_le_bytes 0)"

definition confirm_pdu :: "u32 \<Rightarrow> u16 \<Rightarrow> u16 \<Rightarrow> u16 \<Rightarrow> u8 list \<Rightarrow> u8 list" where
  "confirm_pdu share_id channel_id w h src = share_pdu RDP_SLOWPATH_PDU_TYPE_CONFIRM_ACTIVE channel_id
     (u32_le_bytes share_id @ u16_le_bytes 1002 @ active_tail src (capability_list_bytes 0 (confirm_list w h)))"

definition demand_active_view :: "u32 \<Rightarrow> u16 \<Rightarrow> u16 \<Rightarrow> u16 \<Rightarrow> u8 list \<Rightarrow> rdp_slowpath_demand_active" where
  "demand_active_view share_id channel_id w h src =
     \<lparr>da_header = share_header RDP_SLOWPATH_PDU_TYPE_DEMAND_ACTIVE channel_id (329 + length src),
      da_share_id = share_id, da_session_id = 0, da_source_descriptor = src,
      da_source_descriptor_len = of_nat (length src), da_capabilities = demand_list w h\<rparr>"

definition confirm_active_view :: "u32 \<Rightarrow> u16 \<Rightarrow> u16 \<Rightarrow> u16 \<Rightarrow> u8 list \<Rightarrow> rdp_slowpath_confirm_active" where
  "confirm_active_view share_id channel_id w h src =
     \<lparr>coa_header = share_header RDP_SLOWPATH_PDU_TYPE_CONFIRM_ACTIVE channel_id (471 + length src),
      coa_share_id = share_id, coa_originator_id = 1002, coa_source_descriptor = src,
      coa_source_descriptor_len = of_nat (length src), coa_capabilities = confirm_list w h\<rparr>"

lemma length_active_pdus [simp]:
  "length (demand_pdu share_id channel_id w h src) = 329 + length src"
  "length (confirm_pdu share_id channel_id w h src) = 471 + length src"
  by (simp_all add: demand_pdu_def confirm_pdu_def active_tail_def length_sent_lists)

lemma valid_share_types [simp]:
  "rdp_slowpath_valid_share_control_type (RDP_SLOWPATH_PDU_VERSION OR RDP_SLOWPATH_PDU_TYPE_DEMAND_ACTIVE)"
  "rdp_slowpath_valid_share_control_type (RDP_SLOWPATH_PDU_VERSION OR RDP_SLOWPATH_PDU_TYPE_CONFIRM_ACTIVE)"
  "rdp_slowpath_valid_share_control_type (RDP_SLOWPATH_PDU_VERSION OR RDP_SLOWPATH_PDU_TYPE_DEACTIVATE_ALL)"
  "rdp_slowpath_valid_share_control_type (RDP_SLOWPATH_PDU_VERSION OR RDP_SLOWPATH_PDU_TYPE_DATA)"
  by (simp_all add: rdp_slowpath_valid_share_control_type_def rdp_slowpath_base_type_def slowpath_types)

lemma base_types [simp]:
  "rdp_slowpath_base_type (sch_pdu_type (share_header RDP_SLOWPATH_PDU_TYPE_DEMAND_ACTIVE c n)) =
     RDP_SLOWPATH_PDU_TYPE_DEMAND_ACTIVE"
  "rdp_slowpath_base_type (sch_pdu_type (share_header RDP_SLOWPATH_PDU_TYPE_CONFIRM_ACTIVE c n)) =
     RDP_SLOWPATH_PDU_TYPE_CONFIRM_ACTIVE"
  "rdp_slowpath_base_type (sch_pdu_type (share_header RDP_SLOWPATH_PDU_TYPE_DEACTIVATE_ALL c n)) =
     RDP_SLOWPATH_PDU_TYPE_DEACTIVATE_ALL"
  "rdp_slowpath_base_type (sch_pdu_type (share_header RDP_SLOWPATH_PDU_TYPE_DATA c n)) = RDP_SLOWPATH_PDU_TYPE_DATA"
  by (simp_all add: share_header_def rdp_slowpath_base_type_def slowpath_types)

lemma emits_share_pdu:
  assumes "emits (run_writers ws) body" and "n = 6 + length body" and "6 + length body \<le> 0xffff"
    and "rdp_slowpath_valid_share_control_type (RDP_SLOWPATH_PDU_VERSION OR type)"
  shows "emits (run_writers (rdp_slowpath_write_share_control_header (of_nat n)
           (RDP_SLOWPATH_PDU_VERSION OR type) channel_id # ws)) (share_pdu type channel_id body)"
  using emits_run_Cons' [OF emits_share_header [of n "RDP_SLOWPATH_PDU_VERSION OR type" channel_id] assms(1)] assms(2-)
  by (simp add: share_pdu_def)

lemma emits_demand_active:
  assumes "w \<noteq> 0" "h \<noteq> 0" "c_string sd \<noteq> []" "length (c_string sd) + 329 \<le> 0xffff"
  shows "emits (rdp_slowpath_write_demand_active share_id channel_id w h sd)
    (demand_pdu share_id channel_id w h (c_string sd))"
  unfolding rdp_slowpath_write_demand_active_def Let_def demand_pdu_def
  using assms
  apply (simp del: of_nat_add)
  apply (rule emits_via_local [OF emits_demand_list])
     apply (simp_all add: length_sent_lists active_tail_def del: of_nat_add)
  by (auto simp: length_sent_lists active_tail_def share_pdu_def intro!: emits_rules simp del: of_nat_add)

lemma emits_confirm_active:
  assumes "w \<noteq> 0" "h \<noteq> 0" "c_string sd \<noteq> []" "length (c_string sd) + 471 \<le> 0xffff"
  shows "emits (rdp_slowpath_write_confirm_active share_id channel_id w h sd)
    (confirm_pdu share_id channel_id w h (c_string sd))"
  unfolding rdp_slowpath_write_confirm_active_def Let_def confirm_pdu_def
  using assms
  apply (simp del: of_nat_add)
  apply (rule emits_via_local [OF emits_confirm_list])
     apply (simp_all add: length_sent_lists active_tail_def del: of_nat_add)
  by (auto simp: length_sent_lists active_tail_def share_pdu_def intro!: emits_rules simp del: of_nat_add)

lemma parse_sent_lists:
  "rdp_capabilities_parse (capability_list_bytes 0 (demand_list w h)) = Inr (demand_list w h)"
  "rdp_capabilities_parse (capability_list_bytes 0 (confirm_list w h)) = Inr (confirm_list w h)"
  using capabilities_parse_iff list_ok_sent by blast+

lemma parse_demand_active_pdu:
  assumes "src \<noteq> []" "length src + 329 \<le> 0xffff"
  shows "rdp_slowpath_parse_demand_active (demand_pdu share_id channel_id w h src) =
    Inr (demand_active_view share_id channel_id w h src)"
proof -
  define n :: u16 where "n = of_nat (length src)"
  have n: "unat n = length src" "n \<noteq> 0" using assms unfolding n_def
    by (simp_all add: unat_of_nat_u16 unat_eq_zero flip: unat_eq_0)
  have c: "unat (311 :: u16) = 311" "\<not> (311 :: u16) < 4" by simp_all
  show ?thesis
    using assms n c
    by (simp add: rdp_slowpath_parse_demand_active_def demand_pdu_def skip_share_header stream_rules
        length_sent_lists active_tail_def parse_sent_lists demand_active_view_def ac_simps del: of_nat_add flip: n_def)
qed

lemma parse_confirm_active_pdu:
  assumes "src \<noteq> []" "length src + 471 \<le> 0xffff" "share_id \<noteq> 0"
  shows "rdp_slowpath_parse_confirm_active (confirm_pdu share_id channel_id w h src) =
    Inr (confirm_active_view share_id channel_id w h src)"
proof -
  define n :: u16 where "n = of_nat (length src)"
  have n: "unat n = length src" "n \<noteq> 0" using assms unfolding n_def
    by (simp_all add: unat_of_nat_u16 unat_eq_zero flip: unat_eq_0)
  have c: "unat (455 :: u16) = 455" "\<not> (455 :: u16) < 4" "(1002 :: u16) \<noteq> 0" by simp_all
  show ?thesis
    using assms n c
    by (simp add: rdp_slowpath_parse_confirm_active_def confirm_pdu_def skip_share_header stream_rules
        length_sent_lists active_tail_def parse_sent_lists confirm_active_view_def ac_simps del: of_nat_add flip: n_def)
qed

interpretation demand_active: pdu_codec
  "\<lambda>(share_id, channel_id, w, h, sd). rdp_slowpath_write_demand_active share_id channel_id w h sd"
  rdp_slowpath_parse_demand_active
  "\<lambda>(share_id, channel_id, w, h, sd). demand_pdu share_id channel_id w h (c_string sd)"
  "\<lambda>(share_id, channel_id, w, h, sd). demand_active_view share_id channel_id w h (c_string sd)"
  "\<lambda>(share_id, channel_id, w, h, sd). w \<noteq> 0 \<and> h \<noteq> 0 \<and> c_string sd \<noteq> [] \<and> length (c_string sd) + 329 \<le> 0xffff"
  by unfold_locales (auto simp: emits_demand_active parse_demand_active_pdu)

interpretation confirm_active: pdu_codec
  "\<lambda>(share_id, channel_id, w, h, sd). rdp_slowpath_write_confirm_active share_id channel_id w h sd"
  rdp_slowpath_parse_confirm_active
  "\<lambda>(share_id, channel_id, w, h, sd). confirm_pdu share_id channel_id w h (c_string sd)"
  "\<lambda>(share_id, channel_id, w, h, sd). confirm_active_view share_id channel_id w h (c_string sd)"
  "\<lambda>(share_id, channel_id, w, h, sd). share_id \<noteq> 0 \<and> w \<noteq> 0 \<and> h \<noteq> 0 \<and> c_string sd \<noteq> [] \<and>
     length (c_string sd) + 471 \<le> 0xffff"
  by unfold_locales (auto simp: emits_confirm_active parse_confirm_active_pdu)

text \<open>What a peer learns from a list: the set of a type, decoded by the parser of that type.\<close>

definition advertised :: "rdp_capability_list \<Rightarrow> u16 \<Rightarrow> (rdp_capability_set \<Rightarrow> 'a result) \<Rightarrow> 'a option" where
  "advertised list type parse =
     (case rdp_capabilities_find list type of None \<Rightarrow> None
      | Some s \<Rightarrow> (case parse s of Inl _ \<Rightarrow> None | Inr v \<Rightarrow> Some v))"

lemma advertised_member:
  "list_ok list \<Longrightarrow> capability type payload \<in> set (caps_sets list) \<Longrightarrow>
     advertised list type parse = (case parse (capability type payload) of Inl _ \<Rightarrow> None | Inr v \<Rightarrow> Some v)"
  using find_distinct [of cap_type "caps_sets list" type "capability type payload"]
  by (simp add: advertised_def rdp_capabilities_find_def list_ok_def)

lemma read_word_lists [simp]:
  "read_u32s (length vs) (strm pre (concat (map u32_le_bytes vs) @ r)) =
     Inr (vs, strm (pre @ concat (map u32_le_bytes vs)) r)"
  by (induction vs arbitrary: pre) (simp_all add: stream_rules)

lemmas sent_capability_rules =
  rdp_capability_stream_def rdp_capability_read_pad_u16_def stream_rules

lemma parse_general_payload:
  "rdp_capability_parse_general (capability RDP_CAPABILITY_TYPE_GENERAL general_payload) =
     Inr \<lparr>cg_os_major_type = 1, cg_os_minor_type = 3, cg_protocol_version = 0x200, cg_compression_types = 0,
          cg_extra_flags = 0x404, cg_update_capability_flag = 0, cg_remote_unshare_flag = 0,
          cg_compression_level = 0, cg_refresh_rect_support = 1, cg_suppress_output_support = 1\<rparr>"
  by (simp add: rdp_capability_parse_general_def sent_capability_rules) (simp add: general_payload_def stream_rules)

lemma parse_bitmap_payload:
  "w \<noteq> 0 \<Longrightarrow> h \<noteq> 0 \<Longrightarrow>
   rdp_capability_parse_bitmap (capability RDP_CAPABILITY_TYPE_BITMAP (bitmap_payload w h)) =
     Inr \<lparr>cb_preferred_bits_per_pixel = 32, cb_receive_1_bit_per_pixel = 1, cb_receive_4_bits_per_pixel = 1,
          cb_receive_8_bits_per_pixel = 1, cb_desktop_width = w, cb_desktop_height = h, cb_desktop_resize_flag = 1,
          cb_bitmap_compression_flag = 1, cb_high_color_flags = 0, cb_drawing_flags = 0,
          cb_multiple_rectangle_support = 1\<rparr>"
  by (simp add: rdp_capability_parse_bitmap_def sent_capability_rules) (simp add: bitmap_payload_def stream_rules)

lemma parse_input_payload:
  "rdp_capability_parse_input (capability RDP_CAPABILITY_TYPE_INPUT input_payload) =
     Inr \<lparr>ci_input_flags = 0x115, ci_keyboard_layout = 0x409, ci_keyboard_type = 4, ci_keyboard_subtype = 0,
          ci_keyboard_function_key = 12, ci_ime_file_name = replicate 64 0\<rparr>"
  by (simp add: rdp_capability_parse_input_def sent_capability_rules)
    (simp add: input_payload_def stream_rules)

lemma parse_virtual_channel_payload:
  "rdp_capability_parse_virtual_channel
     (capability RDP_CAPABILITY_TYPE_VIRTUAL_CHANNEL (u32_le_bytes 0 @ u32_le_bytes 1600)) =
     Inr \<lparr>cv_flags = 0, cv_chunk_size = 1600, cv_has_chunk_size = True\<rparr>"
  by (simp add: rdp_capability_parse_virtual_channel_def sent_capability_rules)

lemma parse_pointer_payloads:
  "rdp_capability_parse_pointer (capability RDP_CAPABILITY_TYPE_POINTER (concat (map u16_le_bytes [1, 128, 128]))) =
     Inr \<lparr>cp_color_pointer_flag = 1, cp_color_pointer_cache_size = 128, cp_pointer_cache_size = 128\<rparr>"
  "rdp_capability_parse_large_pointer (capability RDP_CAPABILITY_TYPE_LARGE_POINTER (u16_le_bytes 1)) =
     Inr \<lparr>clp_support_flags = 1\<rparr>"
  by (simp_all add: rdp_capability_parse_pointer_def rdp_capability_parse_large_pointer_def sent_capability_rules)

lemma parse_order_payload:
  "rdp_capability_parse_order (capability RDP_CAPABILITY_TYPE_ORDER order_payload) =
     Inr \<lparr>co_terminal_descriptor = replicate 16 0, co_desktop_save_size = 230400,
          co_desktop_save_x_granularity = 1, co_desktop_save_y_granularity = 20, co_maximum_order_level = 1,
          co_number_fonts = 0, co_order_flags = 0x2a, co_order_support = order_support_table, co_text_flags = 0,
          co_order_support_ex_flags = 0, co_text_ansi_code_page = 65001\<rparr>"
  by (simp add: rdp_capability_parse_order_def sent_capability_rules)
    (simp add: order_payload_def stream_rules)

lemma length_guid: "length RDP_NSCODEC_GUID_BYTES = 16"
  by (simp add: RDP_NSCODEC_GUID_BYTES_def)

lemma parse_bitmap_codecs_payload:
  "rdp_capability_parse_bitmap_codecs (capability RDP_CAPABILITY_TYPE_BITMAP_CODECS bitmap_codecs_payload) =
     Inr \<lparr>cbcs_count = 1, cbcs_codecs =
       [\<lparr>cbc_guid = RDP_NSCODEC_GUID_BYTES, cbc_codec_id = RDP_NSCODEC_BITMAP_CODEC_ID,
         cbc_properties_len = RDP_NSCODEC_CAPABILITY_LENGTH, cbc_properties = [1, 1, 7]\<rparr>]\<rparr>"
  by (simp add: rdp_capability_parse_bitmap_codecs_def rdp_capability_stream_def SIZE_MAX_def)
    (simp add: bitmap_codecs_payload_def RDP_CAPABILITY_BITMAP_CODECS_MAX_def RDP_NSCODEC_BITMAP_CODEC_ID_def
      RDP_NSCODEC_CAPABILITY_LENGTH_def length_guid stream_rules)

lemmas sent_payloads = parse_general_payload parse_bitmap_payload parse_order_payload parse_pointer_payloads
  parse_input_payload parse_virtual_channel_payload parse_bitmap_codecs_payload

text \<open>The sets that both directions carry, as the receiving side decodes them.\<close>

definition describes_desktop :: "u16 \<Rightarrow> u16 \<Rightarrow> rdp_capability_list \<Rightarrow> bool" where
  "describes_desktop w h list \<longleftrightarrow>
     (\<exists>b. advertised list RDP_CAPABILITY_TYPE_BITMAP rdp_capability_parse_bitmap = Some b \<and>
        cb_desktop_width b = w \<and> cb_desktop_height b = h \<and> cb_preferred_bits_per_pixel b = 32) \<and>
     (\<exists>g. advertised list RDP_CAPABILITY_TYPE_GENERAL rdp_capability_parse_general = Some g \<and>
        cg_protocol_version g = 0x200 \<and> cg_suppress_output_support g = 1 \<and> cg_refresh_rect_support g = 1) \<and>
     (\<exists>c. advertised list RDP_CAPABILITY_TYPE_VIRTUAL_CHANNEL rdp_capability_parse_virtual_channel = Some c \<and>
        cv_has_chunk_size c \<and> cv_chunk_size c = 1600) \<and>
     (\<exists>i. advertised list RDP_CAPABILITY_TYPE_INPUT rdp_capability_parse_input = Some i \<and>
        ci_input_flags i = 0x115 \<and> ci_keyboard_type i = 4) \<and>
     (\<exists>p. advertised list RDP_CAPABILITY_TYPE_POINTER rdp_capability_parse_pointer = Some p \<and>
        cp_pointer_cache_size p = 128) \<and>
     (\<exists>p. advertised list RDP_CAPABILITY_TYPE_LARGE_POINTER rdp_capability_parse_large_pointer = Some p) \<and>
     (\<exists>r. advertised list RDP_CAPABILITY_TYPE_ORDER rdp_capability_parse_order = Some r \<and>
        (\<forall>t < 32. co_order_support r ! t = 1 \<longleftrightarrow> rdp_gdi_primary_order_field_bytes (of_nat t) \<noteq> None)) \<and>
     (\<exists>c. advertised list RDP_CAPABILITY_TYPE_BITMAP_CODECS rdp_capability_parse_bitmap_codecs = Some c \<and>
        map cbc_guid (cbcs_codecs c) = [RDP_NSCODEC_GUID_BYTES])"

lemma advertised_sent:
  assumes "list_ok list" and "set (demand_sets w h) \<subseteq> set (caps_sets list)"
    and "parse (capability type payload) = Inr v" and "capability type payload \<in> set (demand_sets w h)"
  shows "advertised list type parse = Some v"
  using assms(2-) advertised_member [OF assms(1), of type payload parse] by auto

lemma describes_desktopI:
  assumes "list_ok list" "w \<noteq> 0" "h \<noteq> 0"
    and "set (demand_sets w h) \<subseteq> set (caps_sets list)"
  shows "describes_desktop w h list"
proof -
  note adv = advertised_sent [OF assms(1,4)]
  have sup: "order_support_table ! t = 1 \<longleftrightarrow> rdp_gdi_primary_order_field_bytes (of_nat t) \<noteq> None" if "t < 32" for t
    using that by (simp add: order_support_table_def)
  show ?thesis
    using sup
    by (simp add: describes_desktop_def demand_sets_def adv [of rdp_capability_parse_general, OF parse_general_payload]
        adv [of rdp_capability_parse_bitmap, OF parse_bitmap_payload [OF assms(2,3)]] adv [of rdp_capability_parse_order, OF parse_order_payload] adv [of rdp_capability_parse_input, OF parse_input_payload]
        adv [of rdp_capability_parse_virtual_channel, OF parse_virtual_channel_payload] adv [of rdp_capability_parse_bitmap_codecs, OF parse_bitmap_codecs_payload]
        adv [of rdp_capability_parse_pointer, OF parse_pointer_payloads(1)]
        adv [of rdp_capability_parse_large_pointer, OF parse_pointer_payloads(2)])
qed

lemma sent_lists_describe_desktop:
  "w \<noteq> 0 \<Longrightarrow> h \<noteq> 0 \<Longrightarrow> describes_desktop w h (demand_list w h)"
  "w \<noteq> 0 \<Longrightarrow> h \<noteq> 0 \<Longrightarrow> describes_desktop w h (confirm_list w h)"
  by (rule describes_desktopI [OF list_ok_sent(1)] describes_desktopI [OF list_ok_sent(2)];
      simp add: demand_list_def confirm_list_def demand_sets_def confirm_sets_def)+

lemma client_only_sets_absent:
  "rdp_capabilities_find (demand_list w h) type = None"
  if "type \<in> {RDP_CAPABILITY_TYPE_CONTROL, RDP_CAPABILITY_TYPE_ACTIVATION, RDP_CAPABILITY_TYPE_SOUND,
    RDP_CAPABILITY_TYPE_BRUSH, RDP_CAPABILITY_TYPE_GLYPH_CACHE, RDP_CAPABILITY_TYPE_BITMAP_CACHE_V2,
    RDP_GDI_CAPSTYPE_DRAW_NINEGRID_CACHE}"
  using that
  by (auto simp: rdp_capabilities_find_def find_None_iff demand_list_def demand_sets_def capability_type_defs)

subsection \<open>Data PDUs\<close>

definition data_pdu_bytes :: "u32 \<Rightarrow> u16 \<Rightarrow> u8 \<Rightarrow> u8 list \<Rightarrow> u8 list" where
  "data_pdu_bytes share_id channel_id pdu_type2 payload = share_pdu RDP_SLOWPATH_PDU_TYPE_DATA channel_id
     (u32_le_bytes share_id @ [0, 1] @ u16_le_bytes (of_nat (length payload)) @ [pdu_type2, 0] @ u16_le_bytes 0 @ payload)"

definition data_pdu_view :: "u32 \<Rightarrow> u16 \<Rightarrow> u8 \<Rightarrow> u8 list \<Rightarrow> rdp_slowpath_data_pdu" where
  "data_pdu_view share_id channel_id pdu_type2 payload =
     \<lparr>dp_header = share_header RDP_SLOWPATH_PDU_TYPE_DATA channel_id (18 + length payload), dp_share_id = share_id,
      dp_stream_id = 1, dp_uncompressed_length = of_nat (length payload), dp_pdu_type2 = pdu_type2,
      dp_compressed_type = 0, dp_compressed_length = 0, dp_payload = payload, dp_payload_len = length payload\<rparr>"

lemma length_data_pdu [simp]: "length (data_pdu_bytes share_id channel_id t payload) = 18 + length payload"
  by (simp add: data_pdu_bytes_def)

lemma emits_data_pdu [emits_rules]:
  "18 + length payload \<le> 0xffff \<Longrightarrow>
     emits (rdp_slowpath_write_data_pdu share_id channel_id t payload) (data_pdu_bytes share_id channel_id t payload)"
  unfolding rdp_slowpath_write_data_pdu_def data_pdu_bytes_def rdp_slowpath_write_share_data_header_def
  by (auto simp: share_pdu_def intro!: emits_rules simp del: of_nat_add)

lemma parse_data_pdu:
  assumes "18 + length payload \<le> 0xffff"
  shows "rdp_slowpath_parse_data_pdu (data_pdu_bytes share_id channel_id t payload) =
    Inr (data_pdu_view share_id channel_id t payload)"
proof -
  have n: "\<not> sch_total_length (share_header RDP_SLOWPATH_PDU_TYPE_DATA channel_id (18 + length payload)) < 18"
    using assms by (simp add: share_header_def word_less_nat_alt unat_of_nat_u16 del: of_nat_add)
  show ?thesis
    using assms n
    by (cases "payload = []")
      (simp_all add: rdp_slowpath_parse_data_pdu_def data_pdu_bytes_def data_pdu_view_def skip_share_header
        stream_rules Let_def del: of_nat_add)
qed

interpretation data_pdu: pdu_codec
  "\<lambda>(share_id, channel_id, t, payload). rdp_slowpath_write_data_pdu share_id channel_id t payload"
  rdp_slowpath_parse_data_pdu
  "\<lambda>(share_id, channel_id, t, payload). data_pdu_bytes share_id channel_id t payload"
  "\<lambda>(share_id, channel_id, t, payload). data_pdu_view share_id channel_id t payload"
  "\<lambda>(share_id, channel_id, t, payload). 18 + length payload \<le> 0xffff"
  by unfold_locales (auto simp: emits_data_pdu parse_data_pdu)

subsection \<open>Deactivate All\<close>

lemma emits_deactivate_all:
  "share_id \<noteq> 0 \<Longrightarrow> channel_id \<noteq> 0 \<Longrightarrow>
    emits (rdp_slowpath_write_deactivate_all share_id channel_id)
      (share_pdu RDP_SLOWPATH_PDU_TYPE_DEACTIVATE_ALL channel_id (u32_le_bytes share_id @ u16_le_bytes 1 @ [0]))"
  using emits_share_header [of 13 _ channel_id, simplified]
  unfolding rdp_slowpath_write_deactivate_all_def
  by (auto simp: share_pdu_def intro!: emits_rules)

lemma parse_deactivate_all:
  "share_id \<noteq> 0 \<Longrightarrow>
    rdp_slowpath_parse_deactivate_all
      (share_pdu RDP_SLOWPATH_PDU_TYPE_DEACTIVATE_ALL channel_id (u32_le_bytes share_id @ u16_le_bytes 1 @ [0])) =
    Inr \<lparr>dea_header = share_header RDP_SLOWPATH_PDU_TYPE_DEACTIVATE_ALL channel_id 13, dea_share_id = share_id,
         dea_source_descriptor = [0], dea_source_descriptor_len = 1, dea_has_share_id = True\<rparr>"
  by (simp add: rdp_slowpath_parse_deactivate_all_def skip_share_header stream_rules)

interpretation deactivate_all: pdu_codec
  "\<lambda>(share_id, channel_id). rdp_slowpath_write_deactivate_all share_id channel_id"
  rdp_slowpath_parse_deactivate_all
  "\<lambda>(share_id, channel_id). share_pdu RDP_SLOWPATH_PDU_TYPE_DEACTIVATE_ALL channel_id (u32_le_bytes share_id @ u16_le_bytes 1 @ [0])"
  "\<lambda>(share_id, channel_id). \<lparr>dea_header = share_header RDP_SLOWPATH_PDU_TYPE_DEACTIVATE_ALL channel_id 13,
     dea_share_id = share_id, dea_source_descriptor = [0], dea_source_descriptor_len = 1, dea_has_share_id = True\<rparr>"
  "\<lambda>(share_id, channel_id). share_id \<noteq> 0 \<and> channel_id \<noteq> 0"
  by unfold_locales (auto simp: emits_deactivate_all parse_deactivate_all)

lemma share_header_exact:
  assumes "rdp_slowpath_parse_share_control_header data = Inr header"
  obtains body where "data = u16_le_bytes (sch_total_length header) @ u16_le_bytes (sch_pdu_type header) @
      u16_le_bytes (sch_channel_id header) @ body" "unat (sch_total_length header) = length data"
  using assms by (auto simp: rdp_slowpath_parse_share_control_header_def accepts)

lemma data_pdu_accepted:
  assumes "rdp_slowpath_parse_data_pdu data = Inr pdu"
  shows "data = take 18 data @ dp_payload pdu \<and> dp_payload_len pdu = length (dp_payload pdu) \<and>
    unat (sch_total_length (dp_header pdu)) = length data \<and> 18 \<le> length data \<and> dp_stream_id pdu \<noteq> 0 \<and>
    (dp_compressed_type pdu = 0 \<longleftrightarrow> dp_compressed_length pdu = 0)"
proof (cases pdu)
  case (fields header share_id stream_id unc t ct cl payload len)
  with assms have h: "rdp_slowpath_parse_share_control_header data = Inr header"
    by (auto simp: rdp_slowpath_parse_data_pdu_def accepts Let_def)
  have "unat (sch_total_length header) = length data" by (rule share_header_exact [OF h])
  then show ?thesis
    using assms h fields by (auto simp: rdp_slowpath_parse_data_pdu_def accepts Let_def split: if_splits)
qed

section \<open>Properties\<close>

text \<open>
  C38. Capability exchange. The share identifier is not 0, the desktop is not empty and the source descriptor is not empty and short enough for the 16-bit
  lengths. Then a Demand Active PDU written by the server is decoded by the client as written:
  share identifier, channel, source descriptor, and capability sets whose parsers return the desktop size,
  the protocol version, the channel chunk size, the input flags, the pointer cache, exactly the drawing
  orders that the order table supports, and the NSCodec identifier; none of the sets reserved to the client
  is announced. A Confirm Active PDU written by the client is decoded by the server in the same way.
\<close>

theorem active_exchange_roundtrip:
  assumes "w \<noteq> 0" "h \<noteq> 0" "c_string sd \<noteq> []" "length (c_string sd) + 471 \<le> 0xffff" "share_id \<noteq> 0"
  shows "(\<exists>d. transmits (rdp_slowpath_write_demand_active share_id channel_id w h sd) rdp_slowpath_parse_demand_active d \<and>
      da_share_id d = share_id \<and> sch_channel_id (da_header d) = channel_id \<and> da_source_descriptor d = c_string sd \<and>
      describes_desktop w h (da_capabilities d) \<and>
      (\<forall>type \<in> {RDP_CAPABILITY_TYPE_CONTROL, RDP_CAPABILITY_TYPE_ACTIVATION, RDP_CAPABILITY_TYPE_SOUND,
         RDP_CAPABILITY_TYPE_BRUSH, RDP_CAPABILITY_TYPE_GLYPH_CACHE, RDP_CAPABILITY_TYPE_BITMAP_CACHE_V2,
         RDP_GDI_CAPSTYPE_DRAW_NINEGRID_CACHE}. rdp_capabilities_find (da_capabilities d) type = None)) \<and>
    (\<exists>c. transmits (rdp_slowpath_write_confirm_active share_id channel_id w h sd) rdp_slowpath_parse_confirm_active c \<and>
      coa_share_id c = share_id \<and> sch_channel_id (coa_header c) = channel_id \<and> coa_source_descriptor c = c_string sd \<and>
      describes_desktop w h (coa_capabilities c))"
proof (intro conjI exI)
  show "transmits (rdp_slowpath_write_demand_active share_id channel_id w h sd) rdp_slowpath_parse_demand_active
      (demand_active_view share_id channel_id w h (c_string sd))"
    using demand_active.transmits [of "(share_id, channel_id, w, h, sd)"] assms by simp
  show "transmits (rdp_slowpath_write_confirm_active share_id channel_id w h sd) rdp_slowpath_parse_confirm_active
      (confirm_active_view share_id channel_id w h (c_string sd))"
    using confirm_active.transmits [of "(share_id, channel_id, w, h, sd)"] assms by simp
qed (use assms sent_lists_describe_desktop [of w h] client_only_sets_absent [of _ w h] in
  \<open>simp_all add: demand_active_view_def confirm_active_view_def share_header_def\<close>)

theorem active_exchange_roundtrip_witness:
  "\<exists>d. transmits (rdp_slowpath_write_demand_active 0x103ea 1003 1024 768 [82, 68, 80, 0]) rdp_slowpath_parse_demand_active d \<and>
      da_source_descriptor d = [82, 68, 80] \<and> describes_desktop 1024 768 (da_capabilities d)"
  using active_exchange_roundtrip [of 1024 768 "[82, 68, 80, 0]" 66538 1003]
  by (auto simp: c_string_def)

text \<open>
  C40. Data PDUs. The payload of a data PDU of at most 65517 bytes reaches the parser with its share
  identifier, channel and type; a longer one is refused by the writer. Conversely every accepted data PDU is an
  18-byte header, whose length field covers the region exactly, followed by the payload the parser returns.
\<close>

theorem slowpath_data_pdu_exact:
  "(if 18 + length payload \<le> 0xffff
    then transmits (rdp_slowpath_write_data_pdu share_id channel_id t payload) rdp_slowpath_parse_data_pdu
           (data_pdu_view share_id channel_id t payload)
    else rdp_slowpath_write_data_pdu share_id channel_id t payload = reject LIBRDP_STATUS_INVALID_ARGUMENT) \<and>
   (rdp_slowpath_parse_data_pdu data = Inr pdu \<longrightarrow>
      data = take 18 data @ dp_payload pdu \<and> dp_payload_len pdu = length (dp_payload pdu) \<and>
      unat (sch_total_length (dp_header pdu)) = length data \<and> 18 \<le> length data \<and> dp_stream_id pdu \<noteq> 0 \<and>
      (dp_compressed_type pdu = 0 \<longleftrightarrow> dp_compressed_length pdu = 0))"
proof (intro conjI impI)
  show "if 18 + length payload \<le> 0xffff
    then transmits (rdp_slowpath_write_data_pdu share_id channel_id t payload) rdp_slowpath_parse_data_pdu
           (data_pdu_view share_id channel_id t payload)
    else rdp_slowpath_write_data_pdu share_id channel_id t payload = reject LIBRDP_STATUS_INVALID_ARGUMENT"
    using data_pdu.transmits [of "(share_id, channel_id, t, payload)"]
    by (simp add: rdp_slowpath_write_data_pdu_def)
next
  assume "rdp_slowpath_parse_data_pdu data = Inr pdu"
  note acc = data_pdu_accepted [OF this]
  then show "data = take 18 data @ dp_payload pdu" "dp_payload_len pdu = length (dp_payload pdu)"
     "unat (sch_total_length (dp_header pdu)) = length data" "18 \<le> length data" "dp_stream_id pdu \<noteq> 0"
     "(dp_compressed_type pdu = 0) = (dp_compressed_length pdu = 0)" by simp_all
qed

theorem slowpath_data_pdu_exact_witness:
  "\<exists>pdu. rdp_slowpath_parse_data_pdu (data_pdu_bytes 7 1003 0x1f [1, 0, 2, 0]) = Inr pdu \<and>
     data_pdu_bytes 7 1003 0x1f [1, 0, 2, 0] = take 18 (data_pdu_bytes 7 1003 0x1f [1, 0, 2, 0]) @ dp_payload pdu"
  using parse_data_pdu [of "[1, 0, 2, 0]" 7 1003 31]
    slowpath_data_pdu_exact [of "[]" 0 0 0 "data_pdu_bytes 7 1003 31 [1, 0, 2, 0]"] by simp

end
