(* ===== verification/Planar.thy ===== *)
theory Planar
  imports Rdp_Buffer
begin

text \<open>
  The planar bitmap codec, \<^verbatim>\<open>src/src/graphics/planar.c\<close>: run-length coded colour planes with deltas to the
  previous scan line, and their conversion to BGRA with chroma subsampling and colour loss. A plane is written
  from its first byte to its last, so that a decoded row is a list that grows and its length is the column. A
  pointer into the input is the rest of the input from there. Signed values are integers; the code's \<^verbatim>\<open>int16_t\<close>
  and \<^verbatim>\<open>int32_t\<close> hold them without overflow.
\<close>

section \<open>Values\<close>

definition RDP_PLANAR_FORMAT_CLL_MASK :: u8 where "RDP_PLANAR_FORMAT_CLL_MASK = 0x07"
definition RDP_PLANAR_FORMAT_CHROMA_SUBSAMPLING :: u8 where "RDP_PLANAR_FORMAT_CHROMA_SUBSAMPLING = 0x08"
definition RDP_PLANAR_FORMAT_RLE :: u8 where "RDP_PLANAR_FORMAT_RLE = 0x10"
definition RDP_PLANAR_FORMAT_NO_ALPHA :: u8 where "RDP_PLANAR_FORMAT_NO_ALPHA = 0x20"
definition RDP_PLANAR_FORMAT_RESERVED_MASK :: u8 where "RDP_PLANAR_FORMAT_RESERVED_MASK = 0xc0"

lemmas planar_format_defs =
  RDP_PLANAR_FORMAT_CLL_MASK_def RDP_PLANAR_FORMAT_CHROMA_SUBSAMPLING_def RDP_PLANAR_FORMAT_RLE_def
  RDP_PLANAR_FORMAT_NO_ALPHA_def RDP_PLANAR_FORMAT_RESERVED_MASK_def

definition rdp_planar_clip_i32 :: "int \<Rightarrow> u8" where
  "rdp_planar_clip_i32 v = (if v < 0 then 0 else if v > 255 then 255 else word_of_int v)"

definition rdp_planar_decode_chroma :: "u8 \<Rightarrow> u8 \<Rightarrow> int" where
  "rdp_planar_decode_chroma v cll = sint (push_bit (unat cll - 1) v)"

definition rdp_planar_decode_rle_delta :: "u8 \<Rightarrow> int" where
  "rdp_planar_decode_rle_delta v = (if v AND 1 \<noteq> 0 then - (uint (drop_bit 1 v) + 1) else uint (drop_bit 1 v))"

section \<open>Run-length coded planes\<close>

text \<open>
  The two inner loops: \<open>raw\<close> codes are read, then the last value is repeated. On the first scan line a code is a
  value, on the others a delta to the byte above.
\<close>

definition planar_byte :: "u8 list option \<Rightarrow> u8 list \<Rightarrow> int \<Rightarrow> u8" where
  "planar_byte previous current v =
     (case previous of
        Some line \<Rightarrow> rdp_planar_clip_i32 (uint (line ! length current) + v)
      | None \<Rightarrow> rdp_planar_clip_i32 v)"

fun planar_raw :: "u8 list \<Rightarrow> u8 list option \<Rightarrow> nat \<Rightarrow> nat \<Rightarrow> int \<Rightarrow> u8 list \<Rightarrow> nat \<times> int \<times> u8 list" where
  "planar_raw bytes previous 0 position v current = (position, v, current)"
| "planar_raw bytes previous (Suc n) position v current =
     (let v = (case previous of
                 Some _ \<Rightarrow> rdp_planar_decode_rle_delta (bytes ! position)
               | None \<Rightarrow> uint (bytes ! position))
      in planar_raw bytes previous n (position + 1) v (current @ [planar_byte previous current v]))"

fun planar_run :: "u8 list option \<Rightarrow> nat \<Rightarrow> int \<Rightarrow> u8 list \<Rightarrow> u8 list" where
  "planar_run previous 0 v current = current"
| "planar_run previous (Suc n) v current = planar_run previous n v (current @ [planar_byte previous current v])"

definition planar_counts :: "u8 \<Rightarrow> nat \<times> nat" where
  "planar_counts control =
     (let run_count = unat (control AND 0x0f); raw_count = unat (drop_bit 4 control) in
      if run_count = 1 then (0, raw_count + 16)
      else if run_count = 2 then (0, raw_count + 32)
      else (raw_count, run_count))"

lemma planar_raw_position: "fst (planar_raw bytes previous n position v current) = position + n"
  by (induction bytes previous n position v current rule: planar_raw.induct) (auto simp: Let_def)

text \<open>One scan line. Every round takes the control byte, so that the input bounds the number of rounds.\<close>

function planar_row ::
    "u8 list \<Rightarrow> nat \<Rightarrow> u8 list option \<Rightarrow> nat \<Rightarrow> int \<Rightarrow> u8 list \<Rightarrow> (nat \<times> u8 list) result" where
  "planar_row bytes width previous position v current =
     (if length current < width then
        if position \<ge> length bytes then protocol_error
        else if bytes ! position = 0 then protocol_error
        else
          let control = bytes ! position; position = position + 1; (raw_count, run_count) = planar_counts control in
          if raw_count + run_count > width - length current \<or> raw_count > length bytes - position then protocol_error
          else
            let (position, v, current) = planar_raw bytes previous raw_count position v current in
            planar_row bytes width previous position v (planar_run previous run_count v current)
      else Inr (position, current))"
  by pat_completeness auto
termination
proof (relation "measure (\<lambda>(bytes, width, previous, position, v, current). length bytes - position)", goal_cases)
  case (2 bytes width previous position v current control position' x raw_count run_count)
  then show ?case
    using planar_raw_position [of bytes previous raw_count position' v current] by (auto simp: prod_eq_iff)
qed auto

declare planar_row.simps [simp del]

fun planar_rows ::
    "u8 list \<Rightarrow> nat \<Rightarrow> nat \<Rightarrow> u8 list option \<Rightarrow> nat \<Rightarrow> u8 list \<Rightarrow> (u8 list \<times> nat) result" where
  "planar_rows bytes width 0 previous position output = Inr (output, position)"
| "planar_rows bytes width (Suc rows) previous position output =
     ebind (planar_row bytes width previous position 0 []) (\<lambda>(position, current).
       planar_rows bytes width rows (Some current) position (output @ current))"

definition rdp_planar_decode_rle_plane :: "u8 list \<Rightarrow> nat \<Rightarrow> nat \<Rightarrow> (u8 list \<times> nat) result" where
  "rdp_planar_decode_rle_plane bytes width height =
     (if width = 0 \<or> height = 0 then invalid_argument
      else planar_rows bytes width height None 0 [])"

section \<open>The bitmap\<close>

text \<open>What the header says about the planes, with the checks on sizes.\<close>

record planar_layout =
  pl_cll :: u8
  pl_chroma_subsampled :: bool
  pl_rle :: bool
  pl_has_alpha :: bool
  pl_pixel_count :: nat
  pl_chroma_width :: nat
  pl_chroma_height :: nat
  pl_chroma_count :: nat
  pl_payload_size :: nat

definition planar_payload_size :: "u8 \<Rightarrow> bool \<Rightarrow> nat \<Rightarrow> nat \<Rightarrow> nat result" where
  "planar_payload_size cll has_alpha pixel_count chroma_count =
     (if cll = 0 then
        if pixel_count > (SIZE_MAX - 1) div (if has_alpha then 4 else 3) then protocol_error
        else Inr (pixel_count * (if has_alpha then 4 else 3))
      else if chroma_count > (SIZE_MAX - pixel_count) div 2 then protocol_error
      else if has_alpha \<and> pixel_count + chroma_count * 2 > SIZE_MAX - pixel_count then protocol_error
      else Inr (pixel_count + chroma_count * 2 + (if has_alpha then pixel_count else 0)))"

definition planar_layout_of :: "u8 \<Rightarrow> nat \<Rightarrow> nat \<Rightarrow> planar_layout" where
  "planar_layout_of header width height =
     (let subsampled = (header AND RDP_PLANAR_FORMAT_CHROMA_SUBSAMPLING \<noteq> 0);
          chroma_width = (if subsampled then (width + 1) div 2 else width);
          chroma_height = (if subsampled then (height + 1) div 2 else height)
      in \<lparr>pl_cll = header AND RDP_PLANAR_FORMAT_CLL_MASK, pl_chroma_subsampled = subsampled,
          pl_rle = (header AND RDP_PLANAR_FORMAT_RLE \<noteq> 0), pl_has_alpha = (header AND RDP_PLANAR_FORMAT_NO_ALPHA = 0),
          pl_pixel_count = width * height, pl_chroma_width = chroma_width, pl_chroma_height = chroma_height,
          pl_chroma_count = chroma_width * chroma_height, pl_payload_size = 0\<rparr>)"

definition planar_header :: "u8 list \<Rightarrow> u32 \<Rightarrow> u32 \<Rightarrow> planar_layout result" where
  "planar_header bytes width height =
     (let len = length bytes; w = unat width; h = unat height in
      if w = 0 \<or> h = 0 then protocol_error
      else if len < 1 \<or> w > SIZE_MAX div h then protocol_error
      else
        let header = bytes ! 0; layout = planar_layout_of header w h in
        if header AND RDP_PLANAR_FORMAT_RESERVED_MASK \<noteq> 0 then protocol_error
        else if pl_chroma_subsampled layout \<and> pl_cll layout = 0 then protocol_error
        else if pl_chroma_width layout = 0 \<or> pl_chroma_height layout = 0 \<or>
                pl_chroma_width layout > SIZE_MAX div pl_chroma_height layout then protocol_error
        else
          ebind (planar_payload_size (pl_cll layout) (pl_has_alpha layout) (pl_pixel_count layout) (pl_chroma_count layout))
            (\<lambda>payload_size.
             if payload_size > SIZE_MAX - 1 then protocol_error
             else if \<not> pl_rle layout \<and> len \<noteq> 1 + payload_size \<and> len \<noteq> (1 + payload_size + 1) mod (SIZE_MAX + 1)
             then protocol_error
             else if h > SIZE_MAX div (w * 4) then protocol_error
             else Inr (layout\<lparr>pl_payload_size := payload_size\<rparr>)))"

record planar_planes =
  pp_alpha :: "u8 list"
  pp_plane0 :: "u8 list"
  pp_plane1 :: "u8 list"
  pp_plane2 :: "u8 list"

text \<open>The coded planes, one after the other; nothing may be left.\<close>

definition planar_decode_planes :: "u8 list \<Rightarrow> nat \<Rightarrow> nat \<Rightarrow> planar_layout \<Rightarrow> planar_planes result" where
  "planar_decode_planes bytes width height layout =
     ebind (if pl_has_alpha layout then rdp_planar_decode_rle_plane (drop 1 bytes) width height else Inr ([], 0))
       (\<lambda>(alpha, consumed).
     let position = 1 + consumed in
     ebind (rdp_planar_decode_rle_plane (drop position bytes) width height) (\<lambda>(plane0, consumed).
     let position = position + consumed in
     ebind (rdp_planar_decode_rle_plane (drop position bytes) (pl_chroma_width layout) (pl_chroma_height layout))
       (\<lambda>(plane1, consumed).
     let position = position + consumed in
     ebind (rdp_planar_decode_rle_plane (drop position bytes) (pl_chroma_width layout) (pl_chroma_height layout))
       (\<lambda>(plane2, consumed).
     let position = position + consumed in
     if position \<noteq> length bytes then protocol_error
     else Inr \<lparr>pp_alpha = alpha, pp_plane0 = plane0, pp_plane1 = plane1, pp_plane2 = plane2\<rparr>))))"

definition planar_raw_planes :: "u8 list \<Rightarrow> planar_layout \<Rightarrow> planar_planes" where
  "planar_raw_planes bytes layout =
     (let offset0 = 1 + (if pl_has_alpha layout then pl_pixel_count layout else 0);
          offset1 = offset0 + pl_pixel_count layout;
          offset2 = offset1 + (if pl_cll layout = 0 then pl_pixel_count layout else pl_chroma_count layout)
      in \<lparr>pp_alpha = drop 1 bytes, pp_plane0 = drop offset0 bytes, pp_plane1 = drop offset1 bytes,
          pp_plane2 = drop offset2 bytes\<rparr>)"

definition planar_pixel :: "nat \<Rightarrow> planar_layout \<Rightarrow> planar_planes \<Rightarrow> nat \<Rightarrow> u8 list" where
  "planar_pixel width layout planes i =
     (if pl_cll layout = 0 then [pp_plane2 planes ! i, pp_plane1 planes ! i, pp_plane0 planes ! i]
      else
        let x = i mod width; y = i div width;
            chroma_index = (if pl_chroma_subsampled layout then (y div 2) * pl_chroma_width layout + x div 2 else i);
            co = rdp_planar_decode_chroma (pp_plane1 planes ! chroma_index) (pl_cll layout);
            cg = rdp_planar_decode_chroma (pp_plane2 planes ! chroma_index) (pl_cll layout);
            yy = uint (pp_plane0 planes ! i); t = yy - cg
        in [rdp_planar_clip_i32 (t + co), rdp_planar_clip_i32 (yy + cg), rdp_planar_clip_i32 (t - co)]) @
     [if pl_has_alpha layout then pp_alpha planes ! i else 0xff]"

text \<open>A local buffer that is reserved and then overwritten as a whole.\<close>

definition buffer_filled :: "u8 list \<Rightarrow> rdp_buffer \<Rightarrow> rdp_buffer" where
  "buffer_filled bs b = b\<lparr>buf_length := length bs, buf_data := Some (bs @ drop (length bs) (block b))\<rparr>"

definition rdp_planar_decode_argb ::
    "u8 list \<Rightarrow> u32 \<Rightarrow> u32 \<Rightarrow> rdp_buffer \<times> nat \<times> mem \<Rightarrow> librdp_status \<times> rdp_buffer \<times> nat \<times> mem" where
  "rdp_planar_decode_argb bytes width height = (\<lambda>(pixels, stride, m).
     case planar_header bytes width height of
       Inl e \<Rightarrow> (e, pixels, stride, m)
     | Inr layout \<Rightarrow>
         (case rdp_buffer_reserve (unat height * (unat width * 4)) (rdp_buffer_init, m) of (status, output, m) \<Rightarrow>
            if status \<noteq> LIBRDP_STATUS_OK then (status, pixels, stride, m)
            else
              let finish = (\<lambda>planes m.
                    (LIBRDP_STATUS_OK,
                     buffer_filled (concat (map (planar_pixel (unat width) layout planes) [0..<pl_pixel_count layout])) output,
                     unat width * 4, m)) in
              if pl_rle layout then
                (case rdp_buffer_reserve (pl_payload_size layout) (rdp_buffer_init, m) of (status, decoded_planes, m) \<Rightarrow>
                   if status \<noteq> LIBRDP_STATUS_OK then (status, pixels, stride, m)
                   else
                     (case planar_decode_planes bytes (unat width) (unat height) layout of
                        Inl e \<Rightarrow> (e, pixels, stride, m)
                      | Inr planes \<Rightarrow> finish planes m))
              else finish (planar_raw_planes bytes layout) m))"

section \<open>What a coded plane stands for\<close>

text \<open>
  A scan line is a sequence of segments: some codes, and a number of repetitions of the last value. Its control
  byte has four bits for each count; the run counts 1 and 2 are taken for long runs without codes.
\<close>

type_synonym segment = "u8 list \<times> nat"

fun segment_wf :: "segment \<Rightarrow> bool" where
  "segment_wf (codes, run) \<longleftrightarrow>
     length codes < 16 \<and> run < 16 \<and> run \<noteq> 1 \<and> run \<noteq> 2 \<and> (codes \<noteq> [] \<or> run \<noteq> 0) \<or>
     codes = [] \<and> 16 \<le> run \<and> run < 48"

fun segment_control :: "segment \<Rightarrow> u8" where
  "segment_control (codes, run) =
     of_nat (if run < 16 then length codes * 16 + run
             else if run < 32 then (run - 16) * 16 + 1 else (run - 32) * 16 + 2)"

definition segment_bytes :: "segment \<Rightarrow> u8 list" where
  "segment_bytes s = segment_control s # fst s"

definition segment_length :: "segment \<Rightarrow> nat" where
  "segment_length s = length (fst s) + snd s"

text \<open>The values of a line, each for one column, and the bytes they give.\<close>

definition code_value :: "u8 list option \<Rightarrow> u8 \<Rightarrow> int" where
  "code_value previous c = (case previous of Some _ \<Rightarrow> rdp_planar_decode_rle_delta c | None \<Rightarrow> uint c)"

fun line_values :: "u8 list option \<Rightarrow> int \<Rightarrow> segment list \<Rightarrow> int list" where
  "line_values previous v [] = []"
| "line_values previous v ((codes, run) # segments) =
     (let vs = map (code_value previous) codes; v' = last (v # vs)
      in vs @ replicate run v' @ line_values previous v' segments)"

definition value_byte :: "u8 list option \<Rightarrow> nat \<times> int \<Rightarrow> u8" where
  "value_byte previous = (\<lambda>(x, v).
     rdp_planar_clip_i32 (case previous of Some line \<Rightarrow> uint (line ! x) + v | None \<Rightarrow> v))"

definition line_bytes :: "u8 list option \<Rightarrow> nat \<Rightarrow> int list \<Rightarrow> u8 list" where
  "line_bytes previous x vs = map (value_byte previous) (enumerate x vs)"

fun plane_lines :: "u8 list option \<Rightarrow> segment list list \<Rightarrow> u8 list list" where
  "plane_lines previous [] = []"
| "plane_lines previous (segments # rows) =
     (let line = line_bytes previous 0 (line_values previous 0 segments) in line # plane_lines (Some line) rows)"

definition row_wf :: "nat \<Rightarrow> segment list \<Rightarrow> bool" where
  "row_wf width segments \<longleftrightarrow> (\<forall>s \<in> set segments. segment_wf s) \<and> sum_list (map segment_length segments) = width"

definition row_bytes :: "segment list \<Rightarrow> u8 list" where
  "row_bytes segments = concat (map segment_bytes segments)"

lemma line_bytes_simps [simp]:
  "line_bytes previous x [] = []"
  "line_bytes previous x (v # vs) = value_byte previous (x, v) # line_bytes previous (Suc x) vs"
  "line_bytes previous x (us @ vs) = line_bytes previous x us @ line_bytes previous (x + length us) vs"
  "length (line_bytes previous x vs) = length vs"
  by (simp_all add: line_bytes_def enumerate_append_eq)

lemma planar_byte_value: "planar_byte previous current v = value_byte previous (length current, v)"
  by (simp add: planar_byte_def value_byte_def split: option.splits)

lemma length_line_values: "length (line_values previous v segments) = sum_list (map segment_length segments)"
  by (induction previous v segments rule: line_values.induct) (auto simp: segment_length_def Let_def)

subsection \<open>The inner loops\<close>

lemma planar_run_bytes:
  "planar_run previous n v current = current @ line_bytes previous (length current) (replicate n v)"
  by (induction previous n v current rule: planar_run.induct) (simp_all add: planar_byte_value)

lemma planar_raw_bytes:
  assumes "position + n \<le> length bytes"
  shows "planar_raw bytes previous n position v current =
           (let vs = map (code_value previous) (take n (drop position bytes))
            in (position + n, last (v # vs), current @ line_bytes previous (length current) vs))"
  using assms
proof (induction bytes previous n position v current rule: planar_raw.induct)
  case (2 bytes previous n position v current)
  then have "drop position bytes = bytes ! position # drop (Suc position) bytes"
    by (simp add: Cons_nth_drop_Suc)
  with 2 show ?case
    by (simp add: Let_def planar_byte_value code_value_def [symmetric])
qed simp

subsection \<open>Control bytes\<close>

lemma counts_nat:
  "planar_counts c =
     (let run = unat c mod 16; raw = unat c div 16 in
      if run = 1 then (0, raw + 16) else if run = 2 then (0, raw + 32) else (raw, run))"
proof -
  have "c AND 0x0f = take_bit 4 c"
    by (simp add: take_bit_eq_mask mask_eq_exp_minus_1)
  then have "unat (c AND 0x0f) = unat c mod 16"
    by (simp only: unsigned_take_bit_eq) (simp add: take_bit_eq_mod)
  moreover have "unat (drop_bit 4 c) = unat c div 16"
    using unat_bounds(1) [of c]
    by (simp only: unsigned_drop_bit_eq) (simp add: drop_bit_eq_div take_bit_nat_eq_self)
  ultimately show ?thesis by (simp add: planar_counts_def Let_def)
qed

lemma unat_control: "segment_wf s \<Longrightarrow> unat (segment_control s) =
   (if snd s < 16 then length (fst s) * 16 + snd s
    else if snd s < 32 then (snd s - 16) * 16 + 1 else (snd s - 32) * 16 + 2)"
  by (cases s) (auto simp: unat_of_nat)

lemma nibbles:
  fixes raw run :: nat
  assumes "run < 16"
  shows "(raw * 16 + run) div 16 = raw" "(raw * 16 + run) mod 16 = run"
  using assms by simp_all

lemma counts_control:
  assumes "segment_wf s"
  shows "planar_counts (segment_control s) = (length (fst s), snd s)"
proof (cases "snd s < 16")
  case True
  with assms show ?thesis
    by (cases s) (auto simp: counts_nat unat_control nibbles simp del: segment_control.simps)
next
  case False
  with assms have "fst s = []" "snd s < 48" by (cases s; auto)+
  with False show ?thesis
    using nibbles(1) [of 1] nibbles(1) [of 2] nibbles(2) [of 1] nibbles(2) [of 2]
    by (simp add: counts_nat unat_control [OF assms])
qed

lemma control_nonzero: "segment_wf s \<Longrightarrow> segment_control s \<noteq> 0"
  by (cases s) (auto simp: unat_eq_zero [symmetric] unat_control simp del: segment_control.simps unat_eq_zero)

lemma control_counts:
  assumes "c \<noteq> 0" "planar_counts c = (length codes, run)"
  shows "segment_wf (codes, run)" "segment_control (codes, run) = c"
proof -
  have c: "unat c < 256" "unat c \<noteq> 0"
    using unat_bounds(1) [of c] assms(1) by (simp_all add: unat_eq_zero)
  have split: "unat c = unat c div 16 * 16 + unat c mod 16" by simp
  show wf: "segment_wf (codes, run)"
    using assms(2) c by (auto simp: counts_nat Let_def split: if_splits)
  have "unat (segment_control (codes, run)) = unat c"
    using assms(2) c split
    by (subst unat_control [OF wf]) (auto simp: counts_nat Let_def split: if_splits; presburger)
  then show "segment_control (codes, run) = c"
    by (rule word_unat_eqI)
qed

subsection \<open>Scan lines\<close>

lemma drop_past: "drop p bs = xs @ ys \<Longrightarrow> drop (p + length xs) bs = ys"
  by (metis append_eq_conv_conj add.commute drop_drop)

lemma planar_row_segment:
  assumes "segment_wf s" "drop position bytes = segment_bytes s @ rest"
    and "length current + segment_length s \<le> width"
  shows "planar_row bytes width previous position v current =
           planar_row bytes width previous (position + length (segment_bytes s))
             (last (v # map (code_value previous) (fst s)))
             (current @ line_bytes previous (length current) (line_values previous v [s]))"
proof -
  obtain codes run where s: "s = (codes, run)" by (cases s)
  have "codes \<noteq> [] \<or> run \<noteq> 0" using assms(1) s by auto
  then have room: "length current < width"
    using assms(3) by (cases codes) (auto simp: s segment_length_def)
  have len: "length bytes - position = Suc (length codes + length rest)"
    using arg_cong [OF assms(2), of length] by (simp add: s segment_bytes_def)
  have "bytes ! position = drop position bytes ! 0" using len by simp
  then have control: "bytes ! position = segment_control s"
    by (simp add: assms(2) segment_bytes_def)
  have "drop (Suc position) bytes = tl (drop position bytes)" by (simp add: drop_Suc tl_drop)
  then have codes: "take (length codes) (drop (Suc position) bytes) = codes"
    by (simp add: assms(2) segment_bytes_def s)
  have guards: "length bytes - Suc position \<ge> length codes" "position < length bytes"
    "length codes + run \<le> width - length current"
    using len assms(3) by (simp_all add: s segment_length_def)
  show ?thesis
    using room codes guards
    using control_nonzero [OF assms(1)] counts_control [OF assms(1)]
    by (subst planar_row.simps)
      (simp add: control s segment_length_def planar_raw_bytes planar_run_bytes segment_bytes_def Let_def
        del: segment_control.simps)
qed

lemma planar_row_complete:
  assumes "\<forall>s \<in> set segments. segment_wf s" "drop position bytes = row_bytes segments @ rest"
    and "length current + sum_list (map segment_length segments) = width"
  shows "planar_row bytes width previous position v current =
           Inr (position + length (row_bytes segments),
                current @ line_bytes previous (length current) (line_values previous v segments))"
  using assms
proof (induction segments arbitrary: position v current)
  case Nil
  then show ?case by (subst planar_row.simps) (simp add: row_bytes_def)
next
  case (Cons s segments)
  obtain codes run where s: "s = (codes, run)" by (cases s)
  let ?position = "position + length (segment_bytes s)"
  have rest: "drop ?position bytes = row_bytes segments @ rest"
    using Cons.prems(2) by (simp add: row_bytes_def drop_past)
  have "planar_row bytes width previous position v current =
          planar_row bytes width previous ?position (last (v # map (code_value previous) codes))
            (current @ line_bytes previous (length current) (line_values previous v [s]))"
    using planar_row_segment [of s position bytes "row_bytes segments @ rest" current width previous v] Cons.prems
    by (simp add: row_bytes_def s)
  then show ?case
    using Cons.IH [OF _ rest] Cons.prems
    by (simp add: s row_bytes_def segment_length_def Let_def add.assoc)
qed

lemma planar_row_sound:
  assumes "planar_row bytes width previous position v current = Inr (position', out)" "length current \<le> width"
  shows "\<exists>segments rest. (\<forall>s \<in> set segments. segment_wf s) \<and>
           drop position bytes = row_bytes segments @ rest \<and>
           length current + sum_list (map segment_length segments) = width"
  using assms
proof (induction bytes width previous position v current rule: planar_row.induct)
  case (1 bytes width previous position v current)
  show ?case
  proof (cases "length current < width")
    case False
    with 1(3) show ?thesis by (intro exI [of _ "[]"] exI [of _ "drop position bytes"]) (simp add: row_bytes_def)
  next
    case True
    obtain raw run where counts: "planar_counts (bytes ! position) = (raw, run)" by fastforce
    have reads: "position < length bytes" "bytes ! position \<noteq> 0" "raw + run \<le> width - length current"
      "raw \<le> length bytes - Suc position"
      using 1(2) True counts by (auto simp: planar_row.simps [of bytes] split: if_splits)
    define codes where "codes = take raw (drop (Suc position) bytes)"
    have raw: "length codes = raw" using reads by (simp add: codes_def)
    have bytes: "drop position bytes = segment_bytes (codes, run) @ drop (Suc position + raw) bytes"
      using reads control_counts(2) [of "bytes ! position" codes run] counts raw
        append_take_drop_id [of raw "drop (Suc position) bytes"]
      by (simp add: segment_bytes_def codes_def Cons_nth_drop_Suc [symmetric] add.commute
          del: segment_control.simps append_take_drop_id)
    have wf: "segment_wf (codes, run)"
      using control_counts(1) [of "bytes ! position" codes run] counts raw reads by simp
    let ?v = "last (v # map (code_value previous) codes)"
    let ?current = "current @ line_bytes previous (length current) (line_values previous v [(codes, run)])"
    have "planar_row bytes width previous (Suc position + raw) ?v ?current = Inr (position', out)"
      using 1(2) planar_row_segment [OF wf bytes, of current width previous v] reads raw True
      by (simp add: segment_length_def segment_bytes_def)
    moreover have "length ?current \<le> width" using reads raw True by (simp add: Let_def)
    ultimately have "\<exists>segments rest. (\<forall>s \<in> set segments. segment_wf s) \<and>
        drop (Suc position + raw) bytes = row_bytes segments @ rest \<and>
        length ?current + sum_list (map segment_length segments) = width"
      using 1(1) [OF True] reads counts raw
      by (auto simp: planar_raw_bytes planar_run_bytes codes_def Let_def)
    then obtain segments rest where "\<forall>s \<in> set segments. segment_wf s"
        "drop (Suc position + raw) bytes = row_bytes segments @ rest"
        "length ?current + sum_list (map segment_length segments) = width"
      by blast
    with wf bytes raw show ?thesis
      by (intro exI [of _ "(codes, run) # segments"] exI [of _ rest])
        (simp add: row_bytes_def segment_length_def [of "(codes, run)"] Let_def)
  qed
qed

lemma planar_row_exact:
  "planar_row bytes width previous position 0 [] = Inr (position', line) \<longleftrightarrow>
     (\<exists>segments rest. row_wf width segments \<and> drop position bytes = row_bytes segments @ rest \<and>
        position' = position + length (row_bytes segments) \<and>
        line = line_bytes previous 0 (line_values previous 0 segments))"
  (is "?decode \<longleftrightarrow> (\<exists>segments rest. ?coded segments rest)")
proof
  assume decode: ?decode
  then obtain segments rest where row: "row_wf width segments" "drop position bytes = row_bytes segments @ rest"
    using planar_row_sound [OF decode] by (auto simp: row_wf_def)
  with decode have "?coded segments rest"
    using planar_row_complete [of segments position bytes rest "[]" width previous 0] by (simp add: row_wf_def)
  then show "\<exists>segments rest. ?coded segments rest" by blast
next
  assume "\<exists>segments rest. ?coded segments rest"
  then show ?decode
    using planar_row_complete [of _ position bytes _ "[]" width previous 0] by (auto simp: row_wf_def)
qed

subsection \<open>Planes\<close>

definition rows_bytes :: "segment list list \<Rightarrow> u8 list" where
  "rows_bytes rows = concat (map row_bytes rows)"

lemma planar_rows_exact:
  "planar_rows bytes width height previous position out = Inr (out', position') \<longleftrightarrow>
     (\<exists>rows rest. length rows = height \<and> (\<forall>segments \<in> set rows. row_wf width segments) \<and>
        drop position bytes = rows_bytes rows @ rest \<and> position' = position + length (rows_bytes rows) \<and>
        out' = out @ concat (plane_lines previous rows))"
proof (induction height arbitrary: previous position out position' out')
  case 0
  then show ?case by (auto simp: rows_bytes_def)
next
  case (Suc height)
  show ?case (is "?decode \<longleftrightarrow> (\<exists>rows rest. ?coded rows rest)")
  proof
    assume ?decode
    then obtain segments rest rows rest' where "row_wf width segments" "length rows = height"
        "\<forall>segments \<in> set rows. row_wf width segments"
        "drop position bytes = row_bytes segments @ rest"
        "drop (position + length (row_bytes segments)) bytes = rows_bytes rows @ rest'"
        "position' = position + length (row_bytes segments) + length (rows_bytes rows)"
        "out' = out @ concat (plane_lines previous (segments # rows))"
      by (auto simp: ebind_eq_Inr planar_row_exact Suc.IH Let_def)
    moreover from this have "rest = rows_bytes rows @ rest'"
      using drop_past by metis
    ultimately have "?coded (segments # rows) rest'" by (simp add: rows_bytes_def)
    then show "\<exists>rows rest. ?coded rows rest" by blast
  next
    assume "\<exists>rows rest. ?coded rows rest"
    then obtain segments rows rest where coded: "?coded (segments # rows) rest"
      by (auto simp: length_Suc_conv)
    then have "drop (position + length (row_bytes segments)) bytes = rows_bytes rows @ rest"
      by (simp add: rows_bytes_def drop_past)
    moreover have "planar_row bytes width previous position 0 [] =
        Inr (position + length (row_bytes segments), line_bytes previous 0 (line_values previous 0 segments))"
      using coded by (auto simp: planar_row_exact rows_bytes_def)
    ultimately show ?decode
      using coded by (simp add: Suc.IH Let_def) (intro exI [of _ rows] exI [of _ rest]; simp add: rows_bytes_def)
  qed
qed

lemma decode_rle_plane:
  "rdp_planar_decode_rle_plane bytes width height = Inr (out, consumed) \<longleftrightarrow>
     width \<noteq> 0 \<and> height \<noteq> 0 \<and>
     (\<exists>rows rest. length rows = height \<and> (\<forall>segments \<in> set rows. row_wf width segments) \<and>
        bytes = rows_bytes rows @ rest \<and> consumed = length (rows_bytes rows) \<and>
        out = concat (plane_lines None rows))"
  by (auto simp: rdp_planar_decode_rle_plane_def planar_rows_exact)

lemma length_plane_lines:
  "(\<forall>segments \<in> set rows. row_wf width segments) \<Longrightarrow>
     length (concat (plane_lines previous rows)) = length rows * width"
  by (induction previous rows rule: plane_lines.induct) (auto simp: Let_def row_wf_def length_line_values)

lemma length_rle_plane:
  "rdp_planar_decode_rle_plane bytes width height = Inr (out, consumed) \<Longrightarrow>
     length out = height * width \<and> consumed \<le> length bytes"
  by (auto simp: decode_rle_plane length_plane_lines)

section \<open>Coded and plain bitmaps\<close>

definition coded_plane :: "nat \<Rightarrow> nat \<Rightarrow> u8 list \<Rightarrow> u8 list \<Rightarrow> bool" where
  "coded_plane width height coded plane \<longleftrightarrow>
     (\<exists>rows. length rows = height \<and> (\<forall>segments \<in> set rows. row_wf width segments) \<and>
        coded = rows_bytes rows \<and> plane = concat (plane_lines None rows))"

lemma decode_coded_plane:
  "coded_plane width height coded plane \<Longrightarrow> width \<noteq> 0 \<Longrightarrow> height \<noteq> 0 \<Longrightarrow>
     rdp_planar_decode_rle_plane (coded @ rest) width height = Inr (plane, length coded)"
  by (auto simp: coded_plane_def decode_rle_plane)

lemma length_coded_plane: "coded_plane width height coded plane \<Longrightarrow> length plane = height * width"
  by (auto simp: coded_plane_def length_plane_lines)

lemma rle_header_bits:
  "(header OR RDP_PLANAR_FORMAT_RLE) AND RDP_PLANAR_FORMAT_CLL_MASK = header AND RDP_PLANAR_FORMAT_CLL_MASK"
  "(header OR RDP_PLANAR_FORMAT_RLE) AND RDP_PLANAR_FORMAT_CHROMA_SUBSAMPLING =
     header AND RDP_PLANAR_FORMAT_CHROMA_SUBSAMPLING"
  "(header OR RDP_PLANAR_FORMAT_RLE) AND RDP_PLANAR_FORMAT_NO_ALPHA = header AND RDP_PLANAR_FORMAT_NO_ALPHA"
  "(header OR RDP_PLANAR_FORMAT_RLE) AND RDP_PLANAR_FORMAT_RESERVED_MASK = header AND RDP_PLANAR_FORMAT_RESERVED_MASK"
  "RDP_PLANAR_FORMAT_RLE \<noteq> 0"
  unfolding planar_format_defs
  by (simp_all add: bit.conj_disj_distrib2)

lemma layout_of_rle:
  "planar_layout_of (header OR RDP_PLANAR_FORMAT_RLE) w h = (planar_layout_of header w h)\<lparr>pl_rle := True\<rparr>"
  by (simp add: planar_layout_of_def Let_def rle_header_bits)

lemma planar_header_rle:
  assumes "planar_header (header # raw) width height = Inr layout"
  shows "planar_header ((header OR RDP_PLANAR_FORMAT_RLE) # coded) width height = Inr (layout\<lparr>pl_rle := True\<rparr>)"
  using assms by (auto simp: planar_header_def Let_def layout_of_rle rle_header_bits accepts)

lemma payload_size_le: "planar_payload_size cll has_alpha n c = Inr p \<Longrightarrow> c \<le> n \<Longrightarrow> p \<le> 4 * n"
  by (simp add: planar_payload_size_def split: if_splits)

lemma chroma_count_le: "pl_chroma_count (planar_layout_of header w h) \<le> pl_pixel_count (planar_layout_of header w h)"
  by (simp add: planar_layout_of_def Let_def, intro impI mult_le_mono, linarith+)

lemma planar_header_layout:
  assumes "planar_header (header # raw) width height = Inr layout"
  shows "layout = (planar_layout_of header (unat width) (unat height))\<lparr>pl_payload_size := pl_payload_size layout\<rparr>"
    and "pl_payload_size layout \<le> 4 * pl_pixel_count layout" "unat width \<noteq> 0" "unat height \<noteq> 0" "pl_chroma_subsampled layout \<Longrightarrow> pl_cll layout \<noteq> 0"
  using assms by (auto simp: planar_header_def Let_def accepts dest: payload_size_le [OF _ chroma_count_le])

text \<open>The pixels depend on the first bytes of the planes only: every index is within them.\<close>

definition planes_agree :: "planar_layout \<Rightarrow> planar_planes \<Rightarrow> planar_planes \<Rightarrow> bool" where
  "planes_agree l p q \<longleftrightarrow>
     (pl_has_alpha l \<longrightarrow> (\<forall>i < pl_pixel_count l. pp_alpha p ! i = pp_alpha q ! i)) \<and>
     (\<forall>i < pl_pixel_count l. pp_plane0 p ! i = pp_plane0 q ! i) \<and>
     (\<forall>i < pl_chroma_count l. pp_plane1 p ! i = pp_plane1 q ! i \<and> pp_plane2 p ! i = pp_plane2 q ! i)"

lemma chroma_index_bound:
  fixes width height i :: nat
  assumes "i < width * height"
  shows "i div width div 2 * ((width + 1) div 2) + i mod width div 2 < (width + 1) div 2 * ((height + 1) div 2)"
proof -
  have "0 < width" using assms by (cases width) auto
  then have x: "i mod width div 2 < (width + 1) div 2"
    using mod_less_divisor [of width i] by linarith
  have "i div width < height" using assms by (simp add: less_mult_imp_div_less mult.commute)
  then have "i div width div 2 + 1 \<le> (height + 1) div 2" by linarith
  then have "(i div width div 2 + 1) * ((width + 1) div 2) \<le> (height + 1) div 2 * ((width + 1) div 2)"
    by (rule mult_le_mono1)
  with x show ?thesis by (simp add: algebra_simps)
qed

lemma planar_pixel_cong:
  assumes l: "l = (planar_layout_of header width height)\<lparr>pl_payload_size := n\<rparr>"
    and agree: "planes_agree l p q" and i: "i < pl_pixel_count l"
    and cll: "pl_chroma_subsampled l \<Longrightarrow> pl_cll l \<noteq> 0"
  shows "planar_pixel width l p i = planar_pixel width l q i"
proof -
  let ?c = "if pl_chroma_subsampled l then (i div width) div 2 * pl_chroma_width l + (i mod width) div 2 else i"
  have "?c < pl_chroma_count l"
    using i chroma_index_bound [of i width height] by (simp add: l planar_layout_of_def Let_def)
  moreover have "i < pl_chroma_count l" if "pl_cll l = 0"
    using that cll i by (auto simp: l planar_layout_of_def Let_def)
  ultimately show ?thesis
    using agree i by (auto simp: planar_pixel_def planes_agree_def Let_def)
qed

text \<open>The data of a bitmap with and without run-length coding, after the header byte.\<close>

definition coded_planes :: "planar_layout \<Rightarrow> nat \<Rightarrow> nat \<Rightarrow> planar_planes \<Rightarrow> planar_planes \<Rightarrow> bool" where
  "coded_planes l width height c p \<longleftrightarrow>
     (if pl_has_alpha l then coded_plane width height (pp_alpha c) (pp_alpha p)
      else pp_alpha c = [] \<and> pp_alpha p = []) \<and>
     coded_plane width height (pp_plane0 c) (pp_plane0 p) \<and>
     coded_plane (pl_chroma_width l) (pl_chroma_height l) (pp_plane1 c) (pp_plane1 p) \<and>
     coded_plane (pl_chroma_width l) (pl_chroma_height l) (pp_plane2 c) (pp_plane2 p)"

definition planes_bytes :: "planar_planes \<Rightarrow> u8 list" where
  "planes_bytes p = pp_alpha p @ pp_plane0 p @ pp_plane1 p @ pp_plane2 p"

lemma decode_planes_coded:
  assumes "coded_planes l width height c p"
    and "width \<noteq> 0" "height \<noteq> 0" "pl_chroma_width l \<noteq> 0" "pl_chroma_height l \<noteq> 0"
  shows "planar_decode_planes (header # planes_bytes c) width height l = Inr p"
  using assms by (cases "pl_has_alpha l")
    (auto simp: coded_planes_def planes_bytes_def planar_decode_planes_def Let_def decode_coded_plane
      decode_coded_plane [where rest = "[]", simplified])

lemma raw_planes_agree:
  assumes l: "l = (planar_layout_of header width height)\<lparr>pl_payload_size := n, pl_rle := rle\<rparr>"
    and cll: "pl_chroma_subsampled l \<Longrightarrow> pl_cll l \<noteq> 0"
    and match: "coded_planes l width height c p"
  shows "planes_agree l (planar_raw_planes (header # planes_bytes p) l) p"
proof -
  have len: "length (pp_alpha p) = (if pl_has_alpha l then pl_pixel_count l else 0)"
    "length (pp_plane0 p) = pl_pixel_count l"
    "length (pp_plane1 p) = pl_chroma_count l" "length (pp_plane2 p) = pl_chroma_count l"
    using match by (auto simp: coded_planes_def length_coded_plane l planar_layout_of_def Let_def mult.commute)
  have "pl_cll l = 0 \<Longrightarrow> pl_chroma_count l = pl_pixel_count l"
    using cll by (auto simp: l planar_layout_of_def Let_def)
  then show ?thesis
    using len by (auto simp: planes_agree_def planar_raw_planes_def planes_bytes_def Let_def nth_append)
qed

lemma contents_filled: "contents (buffer_filled bs b) = bs"
  by (simp add: contents_def buffer_filled_def block_def)

text \<open>
  C15. Run-length coding of a planar bitmap is transparent. Take the planes of a bitmap, alpha and three colour
  planes, luma and subsampled chroma or full colour, and for every plane any sequence of segments whose expansion is the plane. When the
  bitmap with the plain planes has a valid header, the bitmap with the coded planes and the RLE flag decodes
  to the same pixels, and the decoder succeeds on both: the two paths through the decoder, which take the planes from
  different memory and at different offsets, agree, and every pixel is the conversion of its bytes in the planes.
\<close>

theorem planar_coding_equivalent:
  assumes header: "planar_header (header # planes_bytes p) width height = Inr l" and plain: "\<not> pl_rle l"
    and coded: "coded_planes l (unat width) (unat height) c p"
    and fits: "unat width * unat height \<le> 2 ^ 61"
  shows "\<exists>b. rdp_planar_decode_argb ((header OR RDP_PLANAR_FORMAT_RLE) # planes_bytes c) width height (pixels, stride, []) =
               (LIBRDP_STATUS_OK, b, unat width * 4, []) \<and>
             rdp_planar_decode_argb (header # planes_bytes p) width height (pixels, stride, []) =
               (LIBRDP_STATUS_OK, b, unat width * 4, []) \<and>
             contents b = concat (map (planar_pixel (unat width) l p) [0..<unat width * unat height])"
proof -
  let ?coded = "(header OR RDP_PLANAR_FORMAT_RLE) # planes_bytes c"
  note layout = planar_header_layout [OF header]
  let ?l = "l\<lparr>pl_rle := True\<rparr>"
  have l: "?l = (planar_layout_of header (unat width) (unat height))\<lparr>pl_payload_size := pl_payload_size l, pl_rle := True\<rparr>"
    by (subst layout(1)) simp
  have count: "pl_pixel_count l = unat width * unat height" "pl_chroma_width l \<noteq> 0" "pl_chroma_height l \<noteq> 0"
    using layout(3,4) by (subst layout(1); simp add: planar_layout_of_def Let_def)+
  have planes: "planar_decode_planes ?coded (unat width) (unat height) ?l = Inr p"
    using coded layout(3,4) count by (intro decode_planes_coded) (simp_all add: coded_planes_def)
  have "planes_agree l (planar_raw_planes (header # planes_bytes p) l) p"
    using layout(1,5) coded
    by (intro raw_planes_agree [where n = "pl_payload_size l" and rle = "pl_rle l"])
      (auto simp: plain)
  then have "planar_pixel (unat width) l (planar_raw_planes (header # planes_bytes p) l) i = planar_pixel (unat width) l p i"
    if "i < pl_pixel_count l" for i
    using planar_pixel_cong [OF layout(1) _ that layout(5)] by simp
  then have pixels: "map (planar_pixel (unat width) l (planar_raw_planes (header # planes_bytes p) l)) [0..<pl_pixel_count l] =
      map (planar_pixel (unat width) l p) [0..<pl_pixel_count l]"
    by simp
  have rle: "planar_pixel (unat width) ?l p = planar_pixel (unat width) l p"
    by (rule ext) (simp add: planar_pixel_def)
  obtain decoded where "rdp_buffer_reserve (pl_payload_size l) (rdp_buffer_init, []) = (LIBRDP_STATUS_OK, decoded, [])"
    using reserve_succeeds [OF buf_ok_init, of "pl_payload_size l"] layout(2) fits count by auto
  moreover obtain out where
    "rdp_buffer_reserve (unat height * (unat width * 4)) (rdp_buffer_init, []) = (LIBRDP_STATUS_OK, out, [])"
    using reserve_succeeds [OF buf_ok_init, of "unat height * (unat width * 4)"] fits by (auto simp: mult_ac)
  ultimately show ?thesis
    using planar_header_rle [OF header, of "planes_bytes c"] header plain planes pixels
    by (simp add: rdp_planar_decode_argb_def Let_def rle contents_filled count(1) del: map_eq_conv)
qed

definition two_lines :: "u8 list" where
  "two_lines = [7, 7, 7, 7, 4, 4, 4, 4]"

lemma coded_two_lines: "coded_plane 4 2 [0x13, 7, 0x13, 5] two_lines"
  unfolding coded_plane_def
  by (intro exI [of _ "[[([7], 3)], [([5], 3)]]"] conjI; code_simp)

theorem planar_coding_equivalent_witness:
  "\<exists>b. rdp_planar_decode_argb (0x30 # concat (replicate 3 [0x13, 7, 0x13, 5])) 4 2 (rdp_buffer_init, 0, []) =
          (LIBRDP_STATUS_OK, b, 16, []) \<and>
       contents b = concat (map (\<lambda>v. [v, v, v, 0xff]) two_lines)"
proof -
  let ?p = "\<lambda>bs. \<lparr>pp_alpha = [], pp_plane0 = bs, pp_plane1 = bs, pp_plane2 = bs\<rparr>"
  let ?l = "(planar_layout_of 0x20 4 2)\<lparr>pl_payload_size := 24\<rparr>"
  have header: "planar_header (0x20 # planes_bytes (?p two_lines)) 4 2 = Inr ?l"
    by (simp add: planar_header_def planar_layout_of_def planar_payload_size_def planes_bytes_def two_lines_def Let_def
        SIZE_MAX_def planar_format_defs)
  have coded: "coded_planes ?l (unat (4 :: u32)) (unat (2 :: u32)) (?p [0x13, 7, 0x13, 5]) (?p two_lines)"
    using coded_two_lines
    by (simp add: coded_planes_def planar_layout_of_def Let_def planar_format_defs)
  have pixels: "map (planar_pixel 4 ?l (?p two_lines)) [0..<8] = map (\<lambda>v. [v, v, v, 0xff]) two_lines"
    by (simp add: planar_pixel_def planar_layout_of_def two_lines_def Let_def planar_format_defs upt_rec)
  have plain: "\<not> pl_rle ?l" by (simp add: planar_layout_of_def Let_def planar_format_defs)
  have "(0x20 :: u8) OR RDP_PLANAR_FORMAT_RLE = 0x30" by (simp add: planar_format_defs)
  then show ?thesis
    using planar_coding_equivalent [OF header plain coded, of rdp_buffer_init 0] pixels
    by (auto simp: planes_bytes_def numeral_3_eq_3 simp del: upt_conv_Cons)
qed

text \<open>
  C16. The plane decoder is exact. It accepts its input with a plane as result and a number of consumed bytes if and only if that many
  bytes are a sequence of well-formed segments for every scan line, none of which is empty or reaches past the
  end of the line, and the plane is their expansion: on the first line the codes are the bytes, on the
  others they are signed differences to the byte above, clipped to a byte, and a run repeats the last
  code of the same line. The decoder is a total function, so it ends on every input.
\<close>

theorem planar_rle_exact:
  "rdp_planar_decode_rle_plane bytes width height = Inr (plane, consumed) \<longleftrightarrow>
     width \<noteq> 0 \<and> height \<noteq> 0 \<and> consumed \<le> length bytes \<and> coded_plane width height (take consumed bytes) plane"
  (is "?decoded \<longleftrightarrow> ?coded")
proof
  show "?decoded \<Longrightarrow> ?coded" by (auto simp: decode_rle_plane coded_plane_def)
next
  assume ?coded
  then show ?decoded
    using decode_coded_plane [of width height "take consumed bytes" plane "drop consumed bytes"] by simp
qed

end
