(* ===== verification/Bitmap.thy ===== *)
theory Bitmap
  imports Codec
begin

text \<open>
  Bitmap and palette updates, \<^verbatim>\<open>src/src/graphics/bitmap.c\<close>: the slow-path and fast-path update PDUs with their
  writers, the interleaved run-length decoder, and the conversion of a rectangle to BGRA. Rectangle data is a list,
  whose length is \<^verbatim>\<open>data_len\<close>; parsed arrays hold the entries that were read. The pixel array of the run-length decoder is
  written from its first entry on and read behind the write position only, so that it is a list that grows.
\<close>

section \<open>Data\<close>

definition RDP_BITMAP_MAX_RECTS :: nat where "RDP_BITMAP_MAX_RECTS = 64"
definition RDP_BITMAP_PALETTE_MAX_ENTRIES :: nat where "RDP_BITMAP_PALETTE_MAX_ENTRIES = 256"
definition RDP_BITMAP_FLAG_COMPRESSED :: u16 where "RDP_BITMAP_FLAG_COMPRESSED = 0x0001"
definition RDP_BITMAP_FLAG_NO_COMPRESSION_HEADER :: u16 where "RDP_BITMAP_FLAG_NO_COMPRESSION_HEADER = 0x0400"
definition RDP_UPDATE_TYPE_BITMAP :: u16 where "RDP_UPDATE_TYPE_BITMAP = 0x0001"
definition RDP_UPDATE_TYPE_PALETTE :: u16 where "RDP_UPDATE_TYPE_PALETTE = 0x0002"

record rdp_palette_entry =
  pa_red :: u8
  pa_green :: u8
  pa_blue :: u8

record rdp_palette_update =
  pu_count :: u32
  pu_entries :: "rdp_palette_entry list"

record rdp_bitmap_rect =
  br_dest_left :: u16
  br_dest_top :: u16
  br_dest_right :: u16
  br_dest_bottom :: u16
  br_width :: u16
  br_height :: u16
  br_bits_per_pixel :: u16
  br_flags :: u16
  br_data :: "u8 list"

record rdp_bitmap_update =
  bu_count :: u16
  bu_rects :: "rdp_bitmap_rect list"

record rdp_bitmap_update_header =
  bh_update_type :: u16
  bh_count :: u16

section \<open>Parsers\<close>

fun read_rects :: "nat \<Rightarrow> rdp_bitmap_rect list \<Rightarrow> rdp_bitmap_rect list reader" where
  "read_rects 0 rects stream = Inr (rects, stream)"
| "read_rects (Suc n) rects stream =
     pbind (rdp_stream_read_u16_le stream) (\<lambda>(dest_left, stream).
     pbind (rdp_stream_read_u16_le stream) (\<lambda>(dest_top, stream).
     pbind (rdp_stream_read_u16_le stream) (\<lambda>(dest_right, stream).
     pbind (rdp_stream_read_u16_le stream) (\<lambda>(dest_bottom, stream).
     pbind (rdp_stream_read_u16_le stream) (\<lambda>(width, stream).
     pbind (rdp_stream_read_u16_le stream) (\<lambda>(height, stream).
     pbind (rdp_stream_read_u16_le stream) (\<lambda>(bits_per_pixel, stream).
     pbind (rdp_stream_read_u16_le stream) (\<lambda>(flags, stream).
     pbind (rdp_stream_read_u16_le stream) (\<lambda>(data_len, stream).
       if width = 0 \<or> height = 0 \<or> dest_right < dest_left \<or> dest_bottom < dest_top then protocol_error
       else if unat data_len > rdp_stream_remaining stream then protocol_error
       else
         pbind (rdp_stream_read_bytes (unat data_len) stream) (\<lambda>(data, stream).
           read_rects n
             (rects @ [\<lparr>br_dest_left = dest_left, br_dest_top = dest_top, br_dest_right = dest_right,
                br_dest_bottom = dest_bottom, br_width = width, br_height = height,
                br_bits_per_pixel = bits_per_pixel, br_flags = flags, br_data = data\<rparr>])
             stream))))))))))"

definition rdp_bitmap_parse_rectangles :: "u16 \<Rightarrow> rdp_bitmap_update reader" where
  "rdp_bitmap_parse_rectangles count stream =
     (if unat count > RDP_BITMAP_MAX_RECTS then protocol_error
      else ebind (read_rects (unat count) [] stream) (\<lambda>(rects, stream).
        Inr (\<lparr>bu_count = count, bu_rects = rects\<rparr>, stream)))"

definition rdp_bitmap_parse_update_header :: "u8 list \<Rightarrow> rdp_bitmap_update_header result" where
  "rdp_bitmap_parse_update_header data =
     pbind (rdp_stream_read_u16_le (rdp_stream_init data)) (\<lambda>(update_type, stream).
     pbind (rdp_stream_read_u16_le stream) (\<lambda>(count, stream).
       Inr \<lparr>bh_update_type = update_type, bh_count = count\<rparr>))"

definition rdp_bitmap_parse_update :: "u8 list \<Rightarrow> rdp_bitmap_update result" where
  "rdp_bitmap_parse_update data =
     ebind (rdp_bitmap_parse_update_header data) (\<lambda>header.
       if bh_update_type header \<noteq> RDP_UPDATE_TYPE_BITMAP then protocol_error
       else
         pbind (rdp_stream_skip 4 (rdp_stream_init data)) (\<lambda>(_, stream).
         ebind (rdp_bitmap_parse_rectangles (bh_count header) stream) (\<lambda>(parsed, stream).
           if rdp_stream_remaining stream \<noteq> 0 then protocol_error else Inr parsed)))"

text \<open>A fast-path update may start with the update type, or with the count at once; the latter is tried first.\<close>

definition rdp_bitmap_parse_fastpath_update :: "u8 list \<Rightarrow> rdp_bitmap_update result" where
  "rdp_bitmap_parse_fastpath_update data =
     pbind (rdp_stream_read_u16_le (rdp_stream_init data)) (\<lambda>(first, stream).
       let attempt = ebind (rdp_bitmap_parse_rectangles first stream) (\<lambda>(parsed, stream).
             if rdp_stream_remaining stream = 0 then Inr parsed else protocol_error) in
       case attempt of
         Inr parsed \<Rightarrow> Inr parsed
       | Inl status \<Rightarrow>
           if first \<noteq> RDP_UPDATE_TYPE_BITMAP then Inl status
           else
             pbind (rdp_stream_skip 2 (rdp_stream_init data)) (\<lambda>(_, stream).
             pbind (rdp_stream_read_u16_le stream) (\<lambda>(count, stream).
             ebind (rdp_bitmap_parse_rectangles count stream) (\<lambda>(parsed, stream).
               if rdp_stream_remaining stream \<noteq> 0 then protocol_error else Inr parsed))))"

fun read_entries :: "nat \<Rightarrow> rdp_palette_entry list \<Rightarrow> rdp_palette_entry list reader" where
  "read_entries 0 entries stream = Inr (entries, stream)"
| "read_entries (Suc n) entries stream =
     pbind (rdp_stream_read_u8 stream) (\<lambda>(red, stream).
     pbind (rdp_stream_read_u8 stream) (\<lambda>(green, stream).
     pbind (rdp_stream_read_u8 stream) (\<lambda>(blue, stream).
       read_entries n (entries @ [\<lparr>pa_red = red, pa_green = green, pa_blue = blue\<rparr>]) stream)))"

definition rdp_bitmap_parse_palette_body :: "rdp_stream \<Rightarrow> rdp_palette_update result" where
  "rdp_bitmap_parse_palette_body stream =
     pbind (rdp_stream_read_u16_le stream) (\<lambda>(pad, stream).
     pbind (rdp_stream_read_u32_le stream) (\<lambda>(count, stream).
       if unat count > RDP_BITMAP_PALETTE_MAX_ENTRIES then protocol_error
       else if rdp_stream_remaining stream < unat count * 3 then protocol_error
       else ebind (read_entries (unat count) [] stream) (\<lambda>(entries, stream).
         Inr \<lparr>pu_count = count, pu_entries = entries\<rparr>)))"

definition rdp_bitmap_parse_palette_update :: "u8 list \<Rightarrow> rdp_palette_update result" where
  "rdp_bitmap_parse_palette_update data =
     pbind (rdp_stream_read_u16_le (rdp_stream_init data)) (\<lambda>(update_type, stream).
       if update_type \<noteq> RDP_UPDATE_TYPE_PALETTE then protocol_error
       else rdp_bitmap_parse_palette_body stream)"

definition rdp_bitmap_parse_fastpath_palette_update :: "u8 list \<Rightarrow> rdp_palette_update result" where
  "rdp_bitmap_parse_fastpath_palette_update data =
     pbind (rdp_stream_read_u16_le (rdp_stream_init data)) (\<lambda>(first, stream).
       if first = RDP_UPDATE_TYPE_PALETTE then rdp_bitmap_parse_palette_body stream
       else rdp_bitmap_parse_palette_body (rdp_stream_init data))"

section \<open>Writers\<close>

definition rdp_bitmap_validate_rect :: "rdp_bitmap_rect \<Rightarrow> librdp_status" where
  "rdp_bitmap_validate_rect rect =
     (if br_width rect = 0 \<or> br_height rect = 0 \<or> br_dest_right rect < br_dest_left rect \<or>
         br_dest_bottom rect < br_dest_top rect \<or> br_bits_per_pixel rect = 0 \<or> length (br_data rect) > 0xffff
      then LIBRDP_STATUS_INVALID_ARGUMENT else LIBRDP_STATUS_OK)"

definition rdp_bitmap_write_rect :: "rdp_bitmap_rect \<Rightarrow> writer" where
  "rdp_bitmap_write_rect rect =
     (if rdp_bitmap_validate_rect rect \<noteq> LIBRDP_STATUS_OK then reject (rdp_bitmap_validate_rect rect)
      else run_writers
        [rdp_buffer_append_u16_le (br_dest_left rect),
         rdp_buffer_append_u16_le (br_dest_top rect),
         rdp_buffer_append_u16_le (br_dest_right rect),
         rdp_buffer_append_u16_le (br_dest_bottom rect),
         rdp_buffer_append_u16_le (br_width rect),
         rdp_buffer_append_u16_le (br_height rect),
         rdp_buffer_append_u16_le (br_bits_per_pixel rect),
         rdp_buffer_append_u16_le (br_flags rect),
         rdp_buffer_append_u16_le (of_nat (length (br_data rect))),
         rdp_buffer_append (br_data rect)])"

definition rdp_bitmap_write_rects :: "rdp_bitmap_rect list \<Rightarrow> writer" where
  "rdp_bitmap_write_rects rects =
     (if length rects > RDP_BITMAP_MAX_RECTS then reject LIBRDP_STATUS_INVALID_ARGUMENT
      else run_writers (map rdp_bitmap_write_rect rects))"

definition rdp_bitmap_write_update :: "rdp_bitmap_rect list \<Rightarrow> writer" where
  "rdp_bitmap_write_update rects =
     (if length rects > RDP_BITMAP_MAX_RECTS then reject LIBRDP_STATUS_INVALID_ARGUMENT
      else run_writers
        [rdp_buffer_append_u16_le RDP_UPDATE_TYPE_BITMAP,
         rdp_buffer_append_u16_le (of_nat (length rects)),
         rdp_bitmap_write_rects rects])"

definition rdp_bitmap_write_fastpath_update :: "rdp_bitmap_rect list \<Rightarrow> writer" where
  "rdp_bitmap_write_fastpath_update rects = rdp_bitmap_write_update rects"

definition write_entry :: "rdp_palette_entry \<Rightarrow> writer" where
  "write_entry entry = run_writers
     [rdp_buffer_append_u8 (pa_red entry), rdp_buffer_append_u8 (pa_green entry), rdp_buffer_append_u8 (pa_blue entry)]"

definition rdp_bitmap_write_palette_update :: "rdp_palette_update \<Rightarrow> writer" where
  "rdp_bitmap_write_palette_update palette =
     (if unat (pu_count palette) > RDP_BITMAP_PALETTE_MAX_ENTRIES then reject LIBRDP_STATUS_INVALID_ARGUMENT
      else run_writers
        ([rdp_buffer_append_u16_le RDP_UPDATE_TYPE_PALETTE,
          rdp_buffer_append_u16_le 0,
          rdp_buffer_append_u32_le (pu_count palette)] @
         map write_entry (take (unat (pu_count palette)) (pu_entries palette))))"

definition rdp_bitmap_write_fastpath_palette_update :: "rdp_palette_update \<Rightarrow> writer" where
  "rdp_bitmap_write_fastpath_palette_update palette = rdp_bitmap_write_palette_update palette"

section \<open>The wire format\<close>

definition rect_ok :: "rdp_bitmap_rect \<Rightarrow> bool" where
  "rect_ok rect \<longleftrightarrow> br_width rect \<noteq> 0 \<and> br_height rect \<noteq> 0 \<and> br_dest_left rect \<le> br_dest_right rect \<and>
     br_dest_top rect \<le> br_dest_bottom rect \<and> length (br_data rect) \<le> 0xffff"

definition rect_bytes :: "rdp_bitmap_rect \<Rightarrow> u8 list" where
  "rect_bytes rect =
     u16_le_bytes (br_dest_left rect) @ u16_le_bytes (br_dest_top rect) @ u16_le_bytes (br_dest_right rect) @
     u16_le_bytes (br_dest_bottom rect) @ u16_le_bytes (br_width rect) @ u16_le_bytes (br_height rect) @
     u16_le_bytes (br_bits_per_pixel rect) @ u16_le_bytes (br_flags rect) @
     u16_le_bytes (of_nat (length (br_data rect))) @ br_data rect"

definition rects_bytes :: "rdp_bitmap_rect list \<Rightarrow> u8 list" where
  "rects_bytes rects = concat (map rect_bytes rects)"

definition bitmap_update_bytes :: "rdp_bitmap_rect list \<Rightarrow> u8 list" where
  "bitmap_update_bytes rects =
     u16_le_bytes RDP_UPDATE_TYPE_BITMAP @ u16_le_bytes (of_nat (length rects)) @ rects_bytes rects"

definition bitmap_update_ok :: "rdp_bitmap_rect list \<Rightarrow> bool" where
  "bitmap_update_ok rects \<longleftrightarrow> length rects \<le> RDP_BITMAP_MAX_RECTS \<and>
     (\<forall>rect \<in> set rects. rect_ok rect \<and> br_bits_per_pixel rect \<noteq> 0)"

lemma emits_rect: "rect_ok rect \<Longrightarrow> br_bits_per_pixel rect \<noteq> 0 \<Longrightarrow> emits (rdp_bitmap_write_rect rect) (rect_bytes rect)"
  by (auto simp: rdp_bitmap_write_rect_def rdp_bitmap_validate_rect_def rect_ok_def rect_bytes_def not_less
      intro!: emits_rules)

lemma emits_bitmap_update: "bitmap_update_ok rects \<Longrightarrow> emits (rdp_bitmap_write_update rects) (bitmap_update_bytes rects)"
proof -
  assume ok: "bitmap_update_ok rects"
  then have "emits (run_writers (map rdp_bitmap_write_rect rects)) (rects_bytes rects)"
    unfolding rects_bytes_def
    by (intro emits_run) (auto simp: list_all2_conv_all_nth bitmap_update_ok_def intro: emits_rect)
  with ok show ?thesis
    by (auto simp: rdp_bitmap_write_update_def rdp_bitmap_write_rects_def bitmap_update_bytes_def bitmap_update_ok_def
        intro!: emits_rules)
qed

definition rect_of :: "u16 \<Rightarrow> u16 \<Rightarrow> u16 \<Rightarrow> u16 \<Rightarrow> u16 \<Rightarrow> u16 \<Rightarrow> u16 \<Rightarrow> u16 \<Rightarrow> u8 list \<Rightarrow> rdp_bitmap_rect" where
  "rect_of l t r b width height bpp flags data =
     \<lparr>br_dest_left = l, br_dest_top = t, br_dest_right = r, br_dest_bottom = b, br_width = width,
      br_height = height, br_bits_per_pixel = bpp, br_flags = flags, br_data = data\<rparr>"

lemma read_rect_step:
  assumes "rect_ok rect"
  shows "read_rects (Suc n) rects (strm pre (rect_bytes rect @ r)) =
     read_rects n (rects @ [rect]) (strm (pre @ rect_bytes rect) r)"
proof -
  have "unat (of_nat (length (br_data rect)) :: u16) = length (br_data rect)"
    using assms by (simp add: rect_ok_def unat_of_nat_u16)
  moreover have "\<not> br_dest_right rect < br_dest_left rect" "\<not> br_dest_bottom rect < br_dest_top rect"
    using assms by (simp_all add: rect_ok_def not_less)
  ultimately show ?thesis
    using assms by (cases rect) (simp add: rect_bytes_def rect_ok_def stream_rules)
qed

lemma read_rects_bytes:
  "(\<forall>rect \<in> set new. rect_ok rect) \<Longrightarrow>
     read_rects (length new) rects (strm pre (rects_bytes new @ r)) =
       Inr (rects @ new, strm (pre @ rects_bytes new) r)"
proof (induction new arbitrary: rects pre)
  case (Cons x new)
  then show ?case
    using read_rect_step [of x "length new" rects pre "rects_bytes new @ r"]
      Cons.IH [of "rects @ [x]" "pre @ rect_bytes x"] by (simp add: rects_bytes_def)
qed (simp add: rects_bytes_def)

lemma read_rect_inv:
  assumes "read_rects (Suc n) rects (strm pre bs) = Inr res"
  obtains x r where "rect_ok x" "bs = rect_bytes x @ r"
    "read_rects n (rects @ [x]) (strm (pre @ rect_bytes x) r) = Inr res"
proof -
  from assms obtain l t rt b w h bpp flags len data r where
      bs: "bs = u16_le_bytes l @ u16_le_bytes t @ u16_le_bytes rt @ u16_le_bytes b @ u16_le_bytes w @
        u16_le_bytes h @ u16_le_bytes bpp @ u16_le_bytes flags @ u16_le_bytes len @ data @ r"
      and len: "length data = unat len" and "w \<noteq> 0" "h \<noteq> 0" "\<not> rt < l" "\<not> b < t"
    by (auto simp: accepts)
  moreover have "of_nat (length data) = len" using len by simp
  ultimately have ok: "rect_ok (rect_of l t rt b w h bpp flags data)"
    and bytes: "bs = rect_bytes (rect_of l t rt b w h bpp flags data) @ r"
    using unat_bounds(2) [of len] by (simp_all add: rect_ok_def rect_bytes_def rect_of_def not_less)
  from that [OF ok bytes] assms read_rect_step [OF ok, of n rects pre r] show thesis by (simp only: bytes)
qed

lemma read_rects_accepts:
  "read_rects n rects (strm pre bs) = Inr (rects', s) \<Longrightarrow>
     \<exists>new r. rects' = rects @ new \<and> length new = n \<and> (\<forall>rect \<in> set new. rect_ok rect) \<and>
       bs = rects_bytes new @ r \<and> s = strm (pre @ rects_bytes new) r"
proof (induction n arbitrary: rects pre bs)
  case (Suc n)
  from read_rect_inv [OF Suc.prems] obtain x r where x: "rect_ok x" "bs = rect_bytes x @ r"
    "read_rects n (rects @ [x]) (strm (pre @ rect_bytes x) r) = Inr (rects', s)" .
  from Suc.IH [OF x(3)] obtain new r' where "rects' = (rects @ [x]) @ new" "length new = n"
    "\<forall>rect \<in> set new. rect_ok rect" "r = rects_bytes new @ r'" "s = strm ((pre @ rect_bytes x) @ rects_bytes new) r'"
    by blast
  with x show ?case by (intro exI [of _ "x # new"] exI [of _ r']) (simp add: rects_bytes_def)
qed (simp add: rects_bytes_def)

text \<open>A count and its rectangles up to the end of the data.\<close>

definition rects_of :: "u16 \<Rightarrow> u8 list \<Rightarrow> rdp_bitmap_update \<Rightarrow> bool" where
  "rects_of count bs update \<longleftrightarrow> bu_count update = count \<and> unat count = length (bu_rects update) \<and>
     unat count \<le> RDP_BITMAP_MAX_RECTS \<and> (\<forall>rect \<in> set (bu_rects update). rect_ok rect) \<and>
     bs = rects_bytes (bu_rects update)"

lemma parse_rectangles_iff:
  "(\<exists>s. rdp_bitmap_parse_rectangles count (strm pre bs) = Inr (update, s) \<and> rdp_stream_remaining s = 0) \<longleftrightarrow>
     rects_of count bs update" (is "?L \<longleftrightarrow> ?R")
proof
  assume ?L
  then obtain s where rd: "read_rects (unat count) [] (strm pre bs) = Inr (bu_rects update, s)"
    and "rdp_stream_remaining s = 0" "unat count \<le> RDP_BITMAP_MAX_RECTS" "bu_count update = count"
    by (auto simp: rdp_bitmap_parse_rectangles_def accepts)
  with read_rects_accepts [OF rd] show ?R by (auto simp: rects_of_def)
next
  assume ?R
  then show ?L
    using read_rects_bytes [of "bu_rects update" "[]" pre "[]"]
    by (cases update) (auto simp: rects_of_def rdp_bitmap_parse_rectangles_def)
qed

lemma parse_update_eval:
  "rdp_bitmap_parse_update (u16_le_bytes type @ u16_le_bytes count @ bs) =
     (if type \<noteq> RDP_UPDATE_TYPE_BITMAP then protocol_error
      else ebind (rdp_bitmap_parse_rectangles count (strm (u16_le_bytes type @ u16_le_bytes count) bs)) (\<lambda>(parsed, stream).
        if rdp_stream_remaining stream \<noteq> 0 then protocol_error else Inr parsed))"
proof -
  have skip: "rdp_stream_skip 4 (strm [] (u16_le_bytes type @ u16_le_bytes count @ bs)) =
      Inr ((), strm (u16_le_bytes type @ u16_le_bytes count) bs)" for type
    using skip_strm(1) [of "u16_le_bytes type @ u16_le_bytes count" 4 "[]" bs] by simp
  show ?thesis
    by (simp add: skip rdp_bitmap_parse_update_def rdp_bitmap_parse_update_header_def stream_rules)
qed

lemma parsed_to_end:
  "ebind (rdp_bitmap_parse_rectangles count (strm pre bs)) (\<lambda>(parsed, stream).
     if 0 < rdp_stream_remaining stream then protocol_error else Inr parsed) = Inr update \<longleftrightarrow>
   rects_of count bs update"
  by (auto simp: ebind_eq_Inr parse_rectangles_iff [symmetric, of count bs update pre])

lemma bitmap_update_iff:
  "rdp_bitmap_parse_update data = Inr update \<longleftrightarrow>
     (\<exists>bs. data = u16_le_bytes RDP_UPDATE_TYPE_BITMAP @ u16_le_bytes (bu_count update) @ bs \<and>
        rects_of (bu_count update) bs update)" (is "?L \<longleftrightarrow> ?R")
proof
  assume L: ?L
  then obtain header where "rdp_bitmap_parse_update_header data = Inr header"
    by (auto simp: rdp_bitmap_parse_update_def ebind_eq_Inr)
  then obtain type count bs where "data = u16_le_bytes type @ u16_le_bytes count @ bs"
    by (auto simp: rdp_bitmap_parse_update_header_def accepts)
  with L show ?R by (auto simp: parse_update_eval parsed_to_end rects_of_def split: if_splits)
next
  assume ?R
  then show ?L by (auto simp: parse_update_eval parsed_to_end)
qed

text \<open>
  The two readings of a fast-path update. When the data starts with the update type, the reading as a count sees one rectangle,
  whose fields are those of the first rectangle moved by one.
\<close>

lemma fastpath_update_eval:
  "rdp_bitmap_parse_fastpath_update (u16_le_bytes RDP_UPDATE_TYPE_BITMAP @ u16_le_bytes count @ bs) = Inr update \<longleftrightarrow>
     rects_of 1 (u16_le_bytes count @ bs) update \<or>
     (\<nexists>u. rects_of 1 (u16_le_bytes count @ bs) u) \<and> rects_of count bs update"
proof -
  let ?first = "ebind (rdp_bitmap_parse_rectangles RDP_UPDATE_TYPE_BITMAP (strm (u16_le_bytes RDP_UPDATE_TYPE_BITMAP) (u16_le_bytes count @ bs)))
      (\<lambda>(parsed, stream). if rdp_stream_remaining stream = 0 then Inr parsed else protocol_error)"
  have first: "?first = Inr u \<longleftrightarrow> rects_of 1 (u16_le_bytes count @ bs) u" for u
    by (auto simp: ebind_eq_Inr RDP_UPDATE_TYPE_BITMAP_def 
        parse_rectangles_iff [symmetric, of 1 _ u "u16_le_bytes 1"] split: if_splits)
  show ?thesis
    using first parsed_to_end [of count "u16_le_bytes RDP_UPDATE_TYPE_BITMAP @ u16_le_bytes count" bs update]
    by (cases ?first) (auto simp: rdp_bitmap_parse_fastpath_update_def stream_rules)
qed

fun unambiguous :: "rdp_bitmap_rect list \<Rightarrow> bool" where
  "unambiguous [] = True"
| "unambiguous (rect # rects) =
     (unat (br_flags rect) \<noteq> 2 + length (br_data rect) + length (rects_bytes rects))"

lemma length_rect_bytes [simp]: "length (rect_bytes rect) = 18 + length (br_data rect)"
  by (simp add: rect_bytes_def)

lemma u16_le_bytes_eq: "u16_le_bytes v = u16_le_bytes w \<longleftrightarrow> v = w"
  by (metis le16_u16_le_bytes)

lemma unambiguous_not_counted:
  assumes "rects_of 1 (u16_le_bytes count @ rects_bytes rects) update"
  shows "\<not> unambiguous rects"
proof -
  obtain x where ok: "rect_ok x" and x: "u16_le_bytes count @ rects_bytes rects = rect_bytes x"
    using assms by (cases "bu_rects update") (auto simp: rects_of_def rects_bytes_def)
  show ?thesis
  proof (cases rects)
    case Nil
    then show ?thesis using arg_cong [OF x, of length] by (simp add: rects_bytes_def)
  next
    case (Cons r rs)
    then have flags: "br_flags r = of_nat (length (br_data x))"
      and "br_data x = u16_le_bytes (of_nat (length (br_data r))) @ br_data r @ rects_bytes rs"
      using x by (simp_all add: rect_bytes_def rects_bytes_def u16_le_bytes_eq)
    moreover have "unat (br_flags r) = length (br_data x)"
      unfolding flags using ok by (simp add: rect_ok_def unat_of_nat_u16)
    ultimately have "unat (br_flags r) = length (br_data x)" "length (br_data x) = 2 + length (br_data r) + length (rects_bytes rs)"
      by simp_all
    then show ?thesis by (simp add: Cons)
  qed
qed

definition update_view :: "rdp_bitmap_rect list \<Rightarrow> rdp_bitmap_update" where
  "update_view rects = \<lparr>bu_count = of_nat (length rects), bu_rects = rects\<rparr>"

lemma update_view_rects:
  assumes "bitmap_update_ok rects"
  shows "rects_of (of_nat (length rects)) (rects_bytes rects) (update_view rects)"
  using assms by (auto simp: rects_of_def update_view_def bitmap_update_ok_def RDP_BITMAP_MAX_RECTS_def unat_of_nat_u16)

lemma parse_bitmap_update: "bitmap_update_ok rects \<Longrightarrow> rdp_bitmap_parse_update (bitmap_update_bytes rects) = Inr (update_view rects)"
  using update_view_rects [of rects] by (simp add: bitmap_update_iff bitmap_update_bytes_def update_view_def)

lemma parse_fastpath_bitmap_update:
  "bitmap_update_ok rects \<and> unambiguous rects \<Longrightarrow>
     rdp_bitmap_parse_fastpath_update (bitmap_update_bytes rects) = Inr (update_view rects)"
  using update_view_rects [of rects] unambiguous_not_counted [of _ rects]
  by (auto simp: bitmap_update_bytes_def fastpath_update_eval)

interpretation bitmap_update: pdu_codec rdp_bitmap_write_update rdp_bitmap_parse_update bitmap_update_bytes update_view
  bitmap_update_ok
  by unfold_locales (simp_all add: emits_bitmap_update parse_bitmap_update)

interpretation fastpath_bitmap_update: pdu_codec rdp_bitmap_write_fastpath_update rdp_bitmap_parse_fastpath_update
  bitmap_update_bytes update_view "\<lambda>rects. bitmap_update_ok rects \<and> unambiguous rects"
  by unfold_locales
    (simp_all add: emits_bitmap_update parse_fastpath_bitmap_update rdp_bitmap_write_fastpath_update_def)

text \<open>Palettes.\<close>

definition entry_bytes :: "rdp_palette_entry \<Rightarrow> u8 list" where
  "entry_bytes entry = [pa_red entry, pa_green entry, pa_blue entry]"

definition palette_ok :: "rdp_palette_update \<Rightarrow> bool" where
  "palette_ok palette \<longleftrightarrow> unat (pu_count palette) = length (pu_entries palette) \<and>
     length (pu_entries palette) \<le> RDP_BITMAP_PALETTE_MAX_ENTRIES"

definition palette_bytes :: "rdp_palette_update \<Rightarrow> u8 list" where
  "palette_bytes palette = u16_le_bytes RDP_UPDATE_TYPE_PALETTE @ u16_le_bytes 0 @ u32_le_bytes (pu_count palette) @
     concat (map entry_bytes (pu_entries palette))"

lemma emits_entry [emits_rules]: "emits (write_entry entry) (entry_bytes entry)"
  by (auto simp: write_entry_def entry_bytes_def intro!: emits_rules)

lemma emits_palette: "palette_ok palette \<Longrightarrow> emits (rdp_bitmap_write_palette_update palette) (palette_bytes palette)"
proof -
  assume ok: "palette_ok palette"
  have "emits (run_writers (map write_entry (pu_entries palette))) (concat (map entry_bytes (pu_entries palette)))"
    by (rule emits_run) (auto simp: list_all2_conv_all_nth emits_entry)
  with ok show ?thesis
    by (auto simp: rdp_bitmap_write_palette_update_def palette_ok_def palette_bytes_def intro!: emits_rules)
qed

lemma read_entries_bytes:
  "read_entries (length new) entries (strm pre (concat (map entry_bytes new) @ r)) =
     Inr (entries @ new, strm (pre @ concat (map entry_bytes new)) r)"
  by (induction new arbitrary: entries pre) (simp_all add: entry_bytes_def stream_rules)

lemma parse_palette_bytes:
  assumes "palette_ok palette"
  shows "rdp_bitmap_parse_palette_update (palette_bytes palette) = Inr palette"
    and "rdp_bitmap_parse_fastpath_palette_update (palette_bytes palette) = Inr palette"
proof -
  have "length (concat (map entry_bytes (pu_entries palette))) = 3 * length (pu_entries palette)"
    by (simp add: length_concat o_def entry_bytes_def sum_list_triv mult.commute)
  then have body: "rdp_bitmap_parse_palette_body (strm pre (u16_le_bytes 0 @ u32_le_bytes (pu_count palette) @
      concat (map entry_bytes (pu_entries palette)))) = Inr palette" for pre
    using assms read_entries_bytes [of "pu_entries palette" "[]" "pre @ u16_le_bytes 0 @ u32_le_bytes (pu_count palette)" "[]"]
    by (simp add: rdp_bitmap_parse_palette_body_def palette_ok_def stream_rules)
  show "rdp_bitmap_parse_palette_update (palette_bytes palette) = Inr palette"
    and "rdp_bitmap_parse_fastpath_palette_update (palette_bytes palette) = Inr palette"
    using body [of "u16_le_bytes RDP_UPDATE_TYPE_PALETTE"]
    by (simp_all add: rdp_bitmap_parse_palette_update_def rdp_bitmap_parse_fastpath_palette_update_def
        palette_bytes_def stream_rules)
qed

interpretation palette_update: pdu_codec rdp_bitmap_write_palette_update rdp_bitmap_parse_palette_update palette_bytes
  "\<lambda>palette. palette" palette_ok
  by unfold_locales (simp_all add: emits_palette parse_palette_bytes)

interpretation fastpath_palette_update: pdu_codec rdp_bitmap_write_fastpath_palette_update
  rdp_bitmap_parse_fastpath_palette_update palette_bytes "\<lambda>palette. palette" palette_ok
  by unfold_locales (simp_all add: emits_palette parse_palette_bytes rdp_bitmap_write_fastpath_palette_update_def)

section \<open>Properties\<close>

text \<open>
  C21. Bitmap and palette updates. What a writer emits for at most 64 valid rectangles, or for a palette of at most 256 colours, is
  read back by the parser of the same path as the same rectangles or colours, on the slow path always and on the fast path
  when the update cannot be mistaken for one without the update type, which depends on the flags of
  the first rectangle and the length of the data only.
\<close>

theorem bitmap_updates_roundtrip:
  assumes "bitmap_update_ok rects" "palette_ok palette"
  shows "transmits (rdp_bitmap_write_update rects) rdp_bitmap_parse_update (update_view rects) \<and>
    (unambiguous rects \<longrightarrow>
       transmits (rdp_bitmap_write_fastpath_update rects) rdp_bitmap_parse_fastpath_update (update_view rects)) \<and>
    transmits (rdp_bitmap_write_palette_update palette) rdp_bitmap_parse_palette_update palette \<and>
    transmits (rdp_bitmap_write_fastpath_palette_update palette) rdp_bitmap_parse_fastpath_palette_update palette"
  using assms bitmap_update.transmits fastpath_bitmap_update.transmits palette_update.transmits
    fastpath_palette_update.transmits
  by blast

definition sample_palette :: rdp_palette_update where
  "sample_palette = \<lparr>pu_count = 1, pu_entries = [\<lparr>pa_red = 1, pa_green = 2, pa_blue = 3\<rparr>]\<rparr>"

theorem bitmap_updates_roundtrip_witness:
  "transmits (rdp_bitmap_write_fastpath_update [rect_of 0 0 0 0 1 1 32 0 [1, 2, 3, 4]]) rdp_bitmap_parse_fastpath_update
     (update_view [rect_of 0 0 0 0 1 1 32 0 [1, 2, 3, 4]]) \<and>
   transmits (rdp_bitmap_write_palette_update sample_palette) rdp_bitmap_parse_palette_update sample_palette"
proof -
  have "bitmap_update_ok [rect_of 0 0 0 0 1 1 32 0 [1, 2, 3, 4]]" "palette_ok sample_palette"
    by (simp_all add: bitmap_update_ok_def rect_ok_def rect_of_def palette_ok_def sample_palette_def
        RDP_BITMAP_MAX_RECTS_def RDP_BITMAP_PALETTE_MAX_ENTRIES_def)
  from bitmap_updates_roundtrip [OF this] show ?thesis by (simp add: rect_of_def)
qed

text \<open>The rectangle that the parser sees when it takes the update type for a count, and when it does.\<close>

lemma u16_le_append [simp]: "u16_le_bytes a @ xs = u16_le_bytes b @ ys \<longleftrightarrow> a = b \<and> xs = ys"
  by (metis append_eq_append_conv le16_u16_le_bytes length_word_bytes(1))

definition shifted_rect :: "rdp_bitmap_rect \<Rightarrow> rdp_bitmap_rect" where
  "shifted_rect rect = rect_of 1 (br_dest_left rect) (br_dest_top rect) (br_dest_right rect) (br_dest_bottom rect)
      (br_width rect) (br_height rect) (br_bits_per_pixel rect)
      (u16_le_bytes (of_nat (length (br_data rect))) @ br_data rect)"

definition misread :: "rdp_bitmap_rect \<Rightarrow> bool" where
  "misread rect \<longleftrightarrow> unat (br_flags rect) = 2 + length (br_data rect) \<and> 1 \<le> br_dest_top rect \<and> br_dest_bottom rect \<noteq> 0"

lemma shifted_bytes:
  assumes "unat (br_flags rect) = 2 + length (br_data rect)"
  shows "rect_bytes (shifted_rect rect) = u16_le_bytes 1 @ rect_bytes rect"
proof -
  have "length (br_data (shifted_rect rect)) = unat (br_flags rect)" by (simp add: shifted_rect_def rect_of_def assms)
  then have "of_nat (length (br_data (shifted_rect rect))) = br_flags rect" by simp
  then have "2 + of_nat (length (br_data rect)) = br_flags rect" by (simp add: shifted_rect_def rect_of_def)
  then show ?thesis by (simp add: rect_bytes_def shifted_rect_def rect_of_def)
qed

lemma counted_rect:
  assumes ok: "rect_ok rect"
  shows "rects_of 1 (u16_le_bytes 1 @ rect_bytes rect) u \<longleftrightarrow> misread rect \<and> u = \<lparr>bu_count = 1, bu_rects = [shifted_rect rect]\<rparr>"
    (is "?L \<longleftrightarrow> ?R")
proof
  assume ?L
  then obtain y where y: "u = \<lparr>bu_count = 1, bu_rects = [y]\<rparr>" "rect_ok y" "u16_le_bytes 1 @ rect_bytes rect = rect_bytes y"
    by (cases u) (auto simp: rects_of_def rects_bytes_def Suc_length_conv)
  have f: "br_dest_left y = 1" "br_dest_top y = br_dest_left rect" "br_dest_right y = br_dest_top rect" "br_dest_bottom y = br_dest_right rect"
    "br_width y = br_dest_bottom rect" "br_height y = br_width rect" "br_bits_per_pixel y = br_height rect" "br_flags y = br_bits_per_pixel rect"
    "of_nat (length (br_data y)) = br_flags rect" "br_data y = u16_le_bytes (of_nat (length (br_data rect))) @ br_data rect"
    using y(3) by (auto simp: rect_bytes_def)
  have "unat (br_flags rect) = length (br_data y)"
    using y(2) unat_of_nat_u16 [of "length (br_data y)"] by (simp add: rect_ok_def flip: f(9))
  then have "misread rect" using f y(2) by (simp add: misread_def rect_ok_def)
  moreover have "y = shifted_rect rect" using f by (cases y) (simp add: shifted_rect_def rect_of_def)
  ultimately show ?R using y(1) by simp
next
  assume R: ?R
  then have "rect_ok (shifted_rect rect)"
    using ok unat_bounds(2) [of "br_flags rect"] by (auto simp: misread_def rect_ok_def shifted_rect_def rect_of_def)
  with R shifted_bytes [of rect] show ?L
    by (simp add: rects_of_def rects_bytes_def misread_def RDP_BITMAP_MAX_RECTS_def)
qed

text \<open>
  C22. Fast-path bitmap updates that are misread, and only those. The parser first tries to read the update type as a count of one
  rectangle. For an update with one rectangle this reading succeeds exactly when the flags equal the length of the data plus two,
  the top edge is not 0 and the bottom edge is not 0; then the client gets the rectangle with every field moved by one place,
  which is another one than was sent. In all other cases it gets the rectangle that was sent. With the flags 0x0401 of a
  compressed bitmap without header and a top edge other than 0, the update is misread for exactly 1023 bytes of data.
\<close>

theorem fastpath_bitmap_misread:
  assumes "rect_ok rect"
  shows "rdp_bitmap_parse_fastpath_update (bitmap_update_bytes [rect]) =
      Inr \<lparr>bu_count = 1, bu_rects = [if misread rect then shifted_rect rect else rect]\<rparr> \<and>
    shifted_rect rect \<noteq> rect \<and>
    (br_flags rect = 0x0401 \<longrightarrow> br_dest_top rect \<noteq> 0 \<longrightarrow> (misread rect \<longleftrightarrow> length (br_data rect) = 1023))"
proof (intro conjI impI)
  have own: "rects_of 1 (rect_bytes rect) \<lparr>bu_count = 1, bu_rects = [rect]\<rparr>"
    using assms by (simp add: rects_of_def rects_bytes_def RDP_BITMAP_MAX_RECTS_def)
  then show "rdp_bitmap_parse_fastpath_update (bitmap_update_bytes [rect]) =
      Inr \<lparr>bu_count = 1, bu_rects = [if misread rect then shifted_rect rect else rect]\<rparr>"
    by (simp add: bitmap_update_bytes_def rects_bytes_def fastpath_update_eval counted_rect [OF assms])
  have "length (br_data (shifted_rect rect)) \<noteq> length (br_data rect)" by (simp add: shifted_rect_def rect_of_def)
  then show "shifted_rect rect \<noteq> rect" by metis
  assume top: "br_flags rect = 0x0401" "br_dest_top rect \<noteq> 0"
  then have "1 \<le> br_dest_top rect" "br_dest_bottom rect \<noteq> 0"
    using assms by (auto simp: rect_ok_def word_le_nat_alt unat_eq_0 simp flip: unat_eq_0)
  with top(1) show "misread rect \<longleftrightarrow> length (br_data rect) = 1023" by (auto simp: misread_def)
qed

theorem fastpath_bitmap_misread_witness:
  "\<exists>x. rdp_bitmap_parse_fastpath_update (bitmap_update_bytes [rect_of 0 1 15 16 16 16 16 0x0401 (replicate 1023 0)]) =
     Inr \<lparr>bu_count = 1, bu_rects = [x]\<rparr> \<and> br_bits_per_pixel x = 16 \<and> br_width x = 16 \<and> br_dest_left x = 1 \<and> br_flags x = 16 \<and>
     length (br_data x) = 1025"
proof -
  let ?r = "rect_of 0 1 15 16 16 16 16 0x0401 (replicate 1023 0)"
  have ok: "rect_ok ?r" by (simp add: rect_ok_def rect_of_def)
  have "misread ?r" by (simp add: misread_def rect_of_def)
  with fastpath_bitmap_misread [OF ok] show ?thesis by (auto simp: shifted_rect_def rect_of_def)
qed

end
