(* ===== verification/Bitmap_Rle.thy ===== *)
theory Bitmap_Rle
  imports Bitmap
begin

text \<open>
  The decoders of \<^verbatim>\<open>src/src/graphics/bitmap.c\<close>: interleaved run-length coding, and the conversion of raw and
  compressed rectangles to BGRA. The reader's pointers are the rest of its input, and its pixel array is the list
  of the pixels written so far, whose length is \<^verbatim>\<open>position\<close>.
\<close>

section \<open>The run-length reader\<close>

definition RDP_BITMAP_RLE_BG_RUN :: u8 where "RDP_BITMAP_RLE_BG_RUN = 0x00"
definition RDP_BITMAP_RLE_FG_RUN :: u8 where "RDP_BITMAP_RLE_FG_RUN = 0x01"
definition RDP_BITMAP_RLE_FGBG_IMAGE :: u8 where "RDP_BITMAP_RLE_FGBG_IMAGE = 0x02"
definition RDP_BITMAP_RLE_COLOR_RUN :: u8 where "RDP_BITMAP_RLE_COLOR_RUN = 0x03"
definition RDP_BITMAP_RLE_COLOR_IMAGE :: u8 where "RDP_BITMAP_RLE_COLOR_IMAGE = 0x04"
definition RDP_BITMAP_RLE_SET_FG_FG_RUN :: u8 where "RDP_BITMAP_RLE_SET_FG_FG_RUN = 0x0c"
definition RDP_BITMAP_RLE_SET_FG_FGBG_IMAGE :: u8 where "RDP_BITMAP_RLE_SET_FG_FGBG_IMAGE = 0x0d"
definition RDP_BITMAP_RLE_DITHERED_RUN :: u8 where "RDP_BITMAP_RLE_DITHERED_RUN = 0x0e"
definition RDP_BITMAP_RLE_MEGA_BG_RUN :: u8 where "RDP_BITMAP_RLE_MEGA_BG_RUN = 0xf0"
definition RDP_BITMAP_RLE_MEGA_FG_RUN :: u8 where "RDP_BITMAP_RLE_MEGA_FG_RUN = 0xf1"
definition RDP_BITMAP_RLE_MEGA_FGBG_IMAGE :: u8 where "RDP_BITMAP_RLE_MEGA_FGBG_IMAGE = 0xf2"
definition RDP_BITMAP_RLE_MEGA_COLOR_RUN :: u8 where "RDP_BITMAP_RLE_MEGA_COLOR_RUN = 0xf3"
definition RDP_BITMAP_RLE_MEGA_COLOR_IMAGE :: u8 where "RDP_BITMAP_RLE_MEGA_COLOR_IMAGE = 0xf4"
definition RDP_BITMAP_RLE_MEGA_SET_FG_RUN :: u8 where "RDP_BITMAP_RLE_MEGA_SET_FG_RUN = 0xf6"
definition RDP_BITMAP_RLE_MEGA_SET_FG_FGBG_IMAGE :: u8 where "RDP_BITMAP_RLE_MEGA_SET_FG_FGBG_IMAGE = 0xf7"
definition RDP_BITMAP_RLE_MEGA_DITHERED_RUN :: u8 where "RDP_BITMAP_RLE_MEGA_DITHERED_RUN = 0xf8"
definition RDP_BITMAP_RLE_SPECIAL_FGBG_1 :: u8 where "RDP_BITMAP_RLE_SPECIAL_FGBG_1 = 0xf9"
definition RDP_BITMAP_RLE_SPECIAL_FGBG_2 :: u8 where "RDP_BITMAP_RLE_SPECIAL_FGBG_2 = 0xfa"
definition RDP_BITMAP_RLE_SPECIAL_WHITE :: u8 where "RDP_BITMAP_RLE_SPECIAL_WHITE = 0xfd"
definition RDP_BITMAP_RLE_SPECIAL_BLACK :: u8 where "RDP_BITMAP_RLE_SPECIAL_BLACK = 0xfe"

lemmas rle_codes =
  RDP_BITMAP_RLE_BG_RUN_def RDP_BITMAP_RLE_FG_RUN_def RDP_BITMAP_RLE_FGBG_IMAGE_def RDP_BITMAP_RLE_COLOR_RUN_def
  RDP_BITMAP_RLE_COLOR_IMAGE_def RDP_BITMAP_RLE_SET_FG_FG_RUN_def RDP_BITMAP_RLE_SET_FG_FGBG_IMAGE_def
  RDP_BITMAP_RLE_DITHERED_RUN_def RDP_BITMAP_RLE_MEGA_BG_RUN_def RDP_BITMAP_RLE_MEGA_FG_RUN_def
  RDP_BITMAP_RLE_MEGA_FGBG_IMAGE_def RDP_BITMAP_RLE_MEGA_COLOR_RUN_def RDP_BITMAP_RLE_MEGA_COLOR_IMAGE_def
  RDP_BITMAP_RLE_MEGA_SET_FG_RUN_def RDP_BITMAP_RLE_MEGA_SET_FG_FGBG_IMAGE_def RDP_BITMAP_RLE_MEGA_DITHERED_RUN_def
  RDP_BITMAP_RLE_SPECIAL_FGBG_1_def RDP_BITMAP_RLE_SPECIAL_FGBG_2_def RDP_BITMAP_RLE_SPECIAL_WHITE_def
  RDP_BITMAP_RLE_SPECIAL_BLACK_def

record rdp_bitmap_rle_reader =
  rr_rest :: "u8 list"
  rr_pixels :: "u32 list"
  rr_total :: nat
  rr_width :: nat
  rr_bits_per_pixel :: u16
  rr_foreground :: u32
  rr_insert_foreground :: bool

definition rdp_bitmap_rle_bytes_per_pixel :: "u16 \<Rightarrow> nat" where
  "rdp_bitmap_rle_bytes_per_pixel bits_per_pixel =
     (if bits_per_pixel = 8 then 1 else if bits_per_pixel = 15 then 2 else if bits_per_pixel = 16 then 2
      else if bits_per_pixel = 24 then 3 else if bits_per_pixel = 32 then 4 else 0)"

definition rdp_bitmap_rle_white :: "u16 \<Rightarrow> u32" where
  "rdp_bitmap_rle_white bits_per_pixel =
     (if bits_per_pixel = 8 then 0xff else if bits_per_pixel = 15 then 0x7fff
      else if bits_per_pixel = 16 then 0xffff else 0x00ffffff)"

definition rdp_bitmap_rle_code :: "u8 \<Rightarrow> u8" where
  "rdp_bitmap_rle_code header =
     (if header AND 0xc0 \<noteq> 0xc0 then drop_bit 5 header
      else if header AND 0xf0 = 0xf0 then header
      else drop_bit 4 header)"

definition rdp_bitmap_rle_read_pixel :: "rdp_bitmap_rle_reader \<Rightarrow> (u32 \<times> rdp_bitmap_rle_reader) result" where
  "rdp_bitmap_rle_read_pixel reader =
     (let n = rdp_bitmap_rle_bytes_per_pixel (rr_bits_per_pixel reader); rest = rr_rest reader in
      if n = 0 \<or> length rest < n then protocol_error
      else Inr
        (if rr_bits_per_pixel reader = 15 \<or> rr_bits_per_pixel reader = 16
         then ucast (rest ! 0) OR push_bit 8 (ucast (rest ! 1))
         else if rr_bits_per_pixel reader = 8 then ucast (rest ! 0)
         else ucast (rest ! 0) OR push_bit 8 (ucast (rest ! 1)) OR push_bit 16 (ucast (rest ! 2)),
         reader\<lparr>rr_rest := drop n rest\<rparr>))"

definition rdp_bitmap_rle_write_pixel :: "u32 \<Rightarrow> rdp_bitmap_rle_reader \<Rightarrow> rdp_bitmap_rle_reader result" where
  "rdp_bitmap_rle_write_pixel pixel reader =
     (if length (rr_pixels reader) \<ge> rr_total reader then protocol_error
      else Inr (reader\<lparr>rr_pixels := rr_pixels reader @ [pixel]\<rparr>))"

definition rdp_bitmap_rle_previous_pixel :: "rdp_bitmap_rle_reader \<Rightarrow> u32" where
  "rdp_bitmap_rle_previous_pixel reader =
     (if length (rr_pixels reader) < rr_width reader then 0
      else rr_pixels reader ! (length (rr_pixels reader) - rr_width reader))"

fun rdp_bitmap_rle_repeat :: "u32 \<Rightarrow> nat \<Rightarrow> rdp_bitmap_rle_reader \<Rightarrow> rdp_bitmap_rle_reader result" where
  "rdp_bitmap_rle_repeat pixel 0 reader = Inr reader"
| "rdp_bitmap_rle_repeat pixel (Suc n) reader =
     ebind (rdp_bitmap_rle_write_pixel pixel reader) (rdp_bitmap_rle_repeat pixel n)"

fun rdp_bitmap_rle_write_background :: "nat \<Rightarrow> rdp_bitmap_rle_reader \<Rightarrow> rdp_bitmap_rle_reader result" where
  "rdp_bitmap_rle_write_background 0 reader = Inr reader"
| "rdp_bitmap_rle_write_background (Suc n) reader =
     (let pixel = (if length (rr_pixels reader) < rr_width reader then 0 else rdp_bitmap_rle_previous_pixel reader) in
      ebind (rdp_bitmap_rle_write_pixel pixel reader) (rdp_bitmap_rle_write_background n))"

fun rdp_bitmap_rle_write_foreground :: "nat \<Rightarrow> rdp_bitmap_rle_reader \<Rightarrow> rdp_bitmap_rle_reader result" where
  "rdp_bitmap_rle_write_foreground 0 reader = Inr reader"
| "rdp_bitmap_rle_write_foreground (Suc n) reader =
     (let pixel = (if length (rr_pixels reader) < rr_width reader then rr_foreground reader
                   else rdp_bitmap_rle_previous_pixel reader XOR rr_foreground reader) in
      ebind (rdp_bitmap_rle_write_pixel pixel reader) (rdp_bitmap_rle_write_foreground n))"

definition rle_is_mega :: "u8 \<Rightarrow> bool" where
  "rle_is_mega code \<longleftrightarrow>
     code = RDP_BITMAP_RLE_MEGA_BG_RUN \<or> code = RDP_BITMAP_RLE_MEGA_FG_RUN \<or>
     code = RDP_BITMAP_RLE_MEGA_SET_FG_RUN \<or> code = RDP_BITMAP_RLE_MEGA_DITHERED_RUN \<or>
     code = RDP_BITMAP_RLE_MEGA_COLOR_RUN \<or> code = RDP_BITMAP_RLE_MEGA_FGBG_IMAGE \<or>
     code = RDP_BITMAP_RLE_MEGA_SET_FG_FGBG_IMAGE \<or> code = RDP_BITMAP_RLE_MEGA_COLOR_IMAGE"

text \<open>A length in the header byte, or, when that is zero, in the next byte with an offset.\<close>

definition rle_short_length :: "u8 list \<Rightarrow> nat \<Rightarrow> nat \<Rightarrow> nat \<Rightarrow> (nat \<times> nat) result" where
  "rle_short_length order low unit offset =
     (if low = 0 then if length order < 2 then protocol_error else Inr (unat (order ! 1) + offset, 2)
      else Inr (low * unit, 1))"

definition rdp_bitmap_rle_run_length :: "rdp_bitmap_rle_reader \<Rightarrow> u8 \<Rightarrow> (nat \<times> nat) result" where
  "rdp_bitmap_rle_run_length reader code =
     (let order = rr_rest reader in
      if order = [] then protocol_error
      else if rle_is_mega code then
        if length order < 3 then protocol_error
        else
          let run_length = unat (order ! 1) + 256 * unat (order ! 2) in
          if run_length = 0 then protocol_error else Inr (run_length, 3)
      else if code = RDP_BITMAP_RLE_FGBG_IMAGE then rle_short_length order (unat (order ! 0 AND 0x1f)) 8 1
      else if code = RDP_BITMAP_RLE_SET_FG_FGBG_IMAGE then rle_short_length order (unat (order ! 0 AND 0x0f)) 8 1
      else if code = RDP_BITMAP_RLE_SET_FG_FG_RUN \<or> code = RDP_BITMAP_RLE_DITHERED_RUN
      then rle_short_length order (unat (order ! 0 AND 0x0f)) 1 16
      else if code = RDP_BITMAP_RLE_BG_RUN \<or> code = RDP_BITMAP_RLE_FG_RUN \<or> code = RDP_BITMAP_RLE_COLOR_RUN \<or>
              code = RDP_BITMAP_RLE_COLOR_IMAGE
      then rle_short_length order (unat (order ! 0 AND 0x1f)) 1 32
      else protocol_error)"

fun rle_fgbg_bits :: "u8 \<Rightarrow> nat \<Rightarrow> nat \<Rightarrow> rdp_bitmap_rle_reader \<Rightarrow> rdp_bitmap_rle_reader result" where
  "rle_fgbg_bits bitmask 0 b reader = Inr reader"
| "rle_fgbg_bits bitmask (Suc n) b reader =
     (let pixel =
            (if length (rr_pixels reader) < rr_width reader then if bit bitmask b then rr_foreground reader else 0
             else if bit bitmask b then rdp_bitmap_rle_previous_pixel reader XOR rr_foreground reader
             else rdp_bitmap_rle_previous_pixel reader) in
      pbind (rdp_bitmap_rle_write_pixel pixel reader) (rle_fgbg_bits bitmask n (b + 1)))"

definition rdp_bitmap_rle_write_fgbg :: "u8 \<Rightarrow> nat \<Rightarrow> rdp_bitmap_rle_reader \<Rightarrow> rdp_bitmap_rle_reader result" where
  "rdp_bitmap_rle_write_fgbg bitmask count reader =
     (if count > 8 then protocol_error else rle_fgbg_bits bitmask count 0 reader)"

section \<open>The decoder\<close>

fun rle_dither :: "u32 \<Rightarrow> u32 \<Rightarrow> nat \<Rightarrow> rdp_bitmap_rle_reader \<Rightarrow> rdp_bitmap_rle_reader result" where
  "rle_dither a b 0 reader = Inr reader"
| "rle_dither a b (Suc n) reader =
     ebind (rdp_bitmap_rle_write_pixel a reader) (\<lambda>reader.
     ebind (rdp_bitmap_rle_write_pixel b reader) (rle_dither a b n))"

fun rle_color_image :: "nat \<Rightarrow> rdp_bitmap_rle_reader \<Rightarrow> rdp_bitmap_rle_reader result" where
  "rle_color_image 0 reader = Inr reader"
| "rle_color_image (Suc n) reader =
     ebind (rdp_bitmap_rle_read_pixel reader) (\<lambda>(color, reader).
     ebind (rdp_bitmap_rle_write_pixel color reader) (rle_color_image n))"

definition rle_fgbg_byte :: "nat \<Rightarrow> rdp_bitmap_rle_reader \<Rightarrow> rdp_bitmap_rle_reader result" where
  "rle_fgbg_byte count reader =
     (case rr_rest reader of
        [] \<Rightarrow> protocol_error
      | b # rest \<Rightarrow> rdp_bitmap_rle_write_fgbg b count (reader\<lparr>rr_rest := rest\<rparr>))"

fun rle_fgbg_image :: "nat \<Rightarrow> rdp_bitmap_rle_reader \<Rightarrow> rdp_bitmap_rle_reader result" where
  "rle_fgbg_image run reader =
     (if run > 8 then ebind (rle_fgbg_byte 8 reader) (rle_fgbg_image (run - 8))
      else if run > 0 then rle_fgbg_byte run reader
      else Inr reader)"

declare rle_fgbg_image.simps [simp del]

text \<open>The length of the order, the step past it, and the new foreground colour of the orders that set it.\<close>

definition rle_take_length :: "u8 \<Rightarrow> rdp_bitmap_rle_reader \<Rightarrow> (nat \<times> rdp_bitmap_rle_reader) result" where
  "rle_take_length code reader =
     ebind (rdp_bitmap_rle_run_length reader code) (\<lambda>(run, consumed).
       Inr (run, reader\<lparr>rr_rest := drop consumed (rr_rest reader)\<rparr>))"

definition rle_set_foreground :: "rdp_bitmap_rle_reader \<Rightarrow> rdp_bitmap_rle_reader result" where
  "rle_set_foreground reader =
     ebind (rdp_bitmap_rle_read_pixel reader) (\<lambda>(pixel, reader). Inr (reader\<lparr>rr_foreground := pixel\<rparr>))"

definition rle_bg_order :: "u8 \<Rightarrow> rdp_bitmap_rle_reader \<Rightarrow> rdp_bitmap_rle_reader result" where
  "rle_bg_order code reader =
     ebind (rle_take_length code reader) (\<lambda>(run, reader).
     ebind
       (if rr_insert_foreground reader then
          if run = 0 then protocol_error
          else ebind (rdp_bitmap_rle_write_foreground 1 reader) (\<lambda>reader. Inr (run - 1, reader))
        else Inr (run, reader))
       (\<lambda>(run, reader).
     ebind (rdp_bitmap_rle_write_background run reader) (\<lambda>reader.
       Inr (reader\<lparr>rr_insert_foreground := True\<rparr>))))"

definition rle_order :: "u8 \<Rightarrow> rdp_bitmap_rle_reader \<Rightarrow> rdp_bitmap_rle_reader result" where
  "rle_order code reader =
     (if code = RDP_BITMAP_RLE_FG_RUN \<or> code = RDP_BITMAP_RLE_MEGA_FG_RUN \<or>
         code = RDP_BITMAP_RLE_SET_FG_FG_RUN \<or> code = RDP_BITMAP_RLE_MEGA_SET_FG_RUN then
        ebind (rle_take_length code reader) (\<lambda>(run, reader).
        ebind (if code = RDP_BITMAP_RLE_SET_FG_FG_RUN \<or> code = RDP_BITMAP_RLE_MEGA_SET_FG_RUN
               then rle_set_foreground reader else Inr reader)
          (rdp_bitmap_rle_write_foreground run))
      else if code = RDP_BITMAP_RLE_DITHERED_RUN \<or> code = RDP_BITMAP_RLE_MEGA_DITHERED_RUN then
        ebind (rle_take_length code reader) (\<lambda>(run, reader).
        ebind (rdp_bitmap_rle_read_pixel reader) (\<lambda>(a, reader).
        ebind (rdp_bitmap_rle_read_pixel reader) (\<lambda>(b, reader). rle_dither a b run reader)))
      else if code = RDP_BITMAP_RLE_COLOR_RUN \<or> code = RDP_BITMAP_RLE_MEGA_COLOR_RUN then
        ebind (rle_take_length code reader) (\<lambda>(run, reader).
        ebind (rdp_bitmap_rle_read_pixel reader) (\<lambda>(color, reader). rdp_bitmap_rle_repeat color run reader))
      else if code = RDP_BITMAP_RLE_FGBG_IMAGE \<or> code = RDP_BITMAP_RLE_MEGA_FGBG_IMAGE \<or>
              code = RDP_BITMAP_RLE_SET_FG_FGBG_IMAGE \<or> code = RDP_BITMAP_RLE_MEGA_SET_FG_FGBG_IMAGE then
        ebind (rle_take_length code reader) (\<lambda>(run, reader).
        ebind (if code = RDP_BITMAP_RLE_SET_FG_FGBG_IMAGE \<or> code = RDP_BITMAP_RLE_MEGA_SET_FG_FGBG_IMAGE
               then rle_set_foreground reader else Inr reader)
          (rle_fgbg_image run))
      else if code = RDP_BITMAP_RLE_COLOR_IMAGE \<or> code = RDP_BITMAP_RLE_MEGA_COLOR_IMAGE then
        ebind (rle_take_length code reader) (\<lambda>(run, reader). rle_color_image run reader)
      else if code = RDP_BITMAP_RLE_SPECIAL_FGBG_1 \<or> code = RDP_BITMAP_RLE_SPECIAL_FGBG_2 then
        rdp_bitmap_rle_write_fgbg (if code = RDP_BITMAP_RLE_SPECIAL_FGBG_1 then 0x03 else 0x05) 8
          (reader\<lparr>rr_rest := drop 1 (rr_rest reader)\<rparr>)
      else if code = RDP_BITMAP_RLE_SPECIAL_WHITE \<or> code = RDP_BITMAP_RLE_SPECIAL_BLACK then
        rdp_bitmap_rle_write_pixel
          (if code = RDP_BITMAP_RLE_SPECIAL_WHITE then rdp_bitmap_rle_white (rr_bits_per_pixel reader) else 0)
          (reader\<lparr>rr_rest := drop 1 (rr_rest reader)\<rparr>)
      else protocol_error)"

definition rle_round :: "rdp_bitmap_rle_reader \<Rightarrow> rdp_bitmap_rle_reader result" where
  "rle_round reader =
     (let code = rdp_bitmap_rle_code (rr_rest reader ! 0) in
      if code = RDP_BITMAP_RLE_BG_RUN \<or> code = RDP_BITMAP_RLE_MEGA_BG_RUN then rle_bg_order code reader
      else rle_order code (reader\<lparr>rr_insert_foreground := False\<rparr>))"

section \<open>What the orders stand for\<close>

text \<open>
  A pixel of an image in two colours is the pixel above, combined with the foreground colour where the bit is set; above the
  first line everything is black. Runs in the foreground and in the background are such images.
\<close>

definition above :: "nat \<Rightarrow> u32 list \<Rightarrow> u32" where
  "above width pixels = (if length pixels < width then 0 else pixels ! (length pixels - width))"

fun paint :: "nat \<Rightarrow> u32 \<Rightarrow> bool list \<Rightarrow> u32 list \<Rightarrow> u32 list" where
  "paint width fg [] pixels = pixels"
| "paint width fg (b # bs) pixels = paint width fg bs (pixels @ [above width pixels XOR (if b then fg else 0)])"

definition put :: "u32 list \<Rightarrow> rdp_bitmap_rle_reader \<Rightarrow> rdp_bitmap_rle_reader result" where
  "put pixels reader =
     (if length pixels > rr_total reader then protocol_error else Inr (reader\<lparr>rr_pixels := pixels\<rparr>))"

definition painted :: "bool list \<Rightarrow> rdp_bitmap_rle_reader \<Rightarrow> rdp_bitmap_rle_reader result" where
  "painted bs reader = put (paint (rr_width reader) (rr_foreground reader) bs (rr_pixels reader)) reader"

definition in_bounds :: "rdp_bitmap_rle_reader \<Rightarrow> bool" where
  "in_bounds reader \<longleftrightarrow> length (rr_pixels reader) \<le> rr_total reader"

lemma length_paint [simp]: "length (paint width fg bs pixels) = length pixels + length bs"
  by (induction width fg bs pixels rule: paint.induct) simp_all

lemma paint_append: "paint width fg (bs @ cs) pixels = paint width fg cs (paint width fg bs pixels)"
  by (induction width fg bs pixels rule: paint.induct) simp_all

lemma previous_above: "rdp_bitmap_rle_previous_pixel reader = above (rr_width reader) (rr_pixels reader)"
  by (simp add: rdp_bitmap_rle_previous_pixel_def above_def)

lemma write_put: "rdp_bitmap_rle_write_pixel pixel reader = put (rr_pixels reader @ [pixel]) reader"
  by (simp add: rdp_bitmap_rle_write_pixel_def put_def Suc_le_eq not_le)

lemma ebind_put:
  assumes "\<And>r. r = reader\<lparr>rr_pixels := pixels\<rparr> \<Longrightarrow> in_bounds r \<Longrightarrow> f r = put pixels' r" "length pixels \<le> length pixels'"
  shows "ebind (put pixels reader) f = put pixels' reader"
  using assms by (auto simp: put_def in_bounds_def)

lemma background_paint:
  "in_bounds reader \<Longrightarrow> rdp_bitmap_rle_write_background n reader = painted (replicate n False) reader"
proof (induction n reader rule: rdp_bitmap_rle_write_background.induct)
  case (2 n reader)
  then show ?case
    by (simp add: write_put painted_def previous_above Let_def above_def, intro conjI impI ebind_put)
      (auto simp: above_def)
qed (simp add: painted_def put_def in_bounds_def)

lemma foreground_paint:
  "in_bounds reader \<Longrightarrow> rdp_bitmap_rle_write_foreground n reader = painted (replicate n True) reader"
proof (induction n reader rule: rdp_bitmap_rle_write_foreground.induct)
  case (2 n reader)
  then show ?case
    by (simp add: write_put painted_def previous_above Let_def above_def, intro conjI impI ebind_put)
      (auto simp: above_def)
qed (simp add: painted_def put_def in_bounds_def)

definition mask_bits :: "u8 list \<Rightarrow> bool list" where
  "mask_bits ms = concat (map (\<lambda>m. map (bit m) [0..<8]) ms)"

fun mask_from :: "u8 \<Rightarrow> nat \<Rightarrow> nat \<Rightarrow> bool list" where
  "mask_from m 0 b = []"
| "mask_from m (Suc n) b = bit m b # mask_from m n (b + 1)"

lemma mask_from_map: "mask_from m n b = map (bit m) [b..<b + n]"
  by (induction m n b rule: mask_from.induct) (simp_all add: upt_conv_Cons del: upt_Suc)

lemma pbind_put: "pbind (put pixels reader) f = ebind (put pixels reader) f"
  by (simp add: put_def)

lemma fgbg_paint: "in_bounds reader \<Longrightarrow> rle_fgbg_bits m n b reader = painted (mask_from m n b) reader"
proof (induction m n b reader rule: rle_fgbg_bits.induct)
  case (2 m n b reader)
  then show ?case
    by (simp add: write_put painted_def previous_above Let_def above_def pbind_put, intro conjI impI ebind_put)
      (auto simp: above_def painted_def)
qed (simp add: painted_def put_def in_bounds_def)

lemma write_fgbg_paint:
  "in_bounds reader \<Longrightarrow> n \<le> 8 \<Longrightarrow>
     rdp_bitmap_rle_write_fgbg bitmask n reader = painted (take n (mask_bits [bitmask])) reader"
  by (simp add: rdp_bitmap_rle_write_fgbg_def fgbg_paint mask_from_map mask_bits_def take_map)

lemma repeat_put:
  "in_bounds reader \<Longrightarrow> rdp_bitmap_rle_repeat pixel n reader = put (rr_pixels reader @ replicate n pixel) reader"
proof (induction pixel n reader rule: rdp_bitmap_rle_repeat.induct)
  case (2 pixel n reader)
  then show ?case by (auto simp: write_put intro!: ebind_put)
qed (simp add: put_def in_bounds_def)

lemma dither_put:
  "in_bounds reader \<Longrightarrow> rle_dither a b n reader = put (rr_pixels reader @ concat (replicate n [a, b])) reader"
proof (induction a b n reader rule: rle_dither.induct)
  case (2 a b n reader)
  then show ?case by (auto simp: write_put intro!: ebind_put)
qed (simp add: put_def in_bounds_def)

text \<open>Pixels and masks in the input.\<close>

definition pixel_value :: "u16 \<Rightarrow> u8 list \<Rightarrow> u32" where
  "pixel_value bpp bs =
     (if bpp = 15 \<or> bpp = 16 then ucast (bs ! 0) OR push_bit 8 (ucast (bs ! 1))
      else if bpp = 8 then ucast (bs ! 0)
      else ucast (bs ! 0) OR push_bit 8 (ucast (bs ! 1)) OR push_bit 16 (ucast (bs ! 2)))"

definition pixel_bytes :: "u16 \<Rightarrow> u8 list \<Rightarrow> bool" where
  "pixel_bytes bpp bs \<longleftrightarrow> bs \<noteq> [] \<and> length bs = rdp_bitmap_rle_bytes_per_pixel bpp"

lemma pixel_value_append: "pixel_bytes bpp p \<Longrightarrow> pixel_value bpp (p @ bs) = pixel_value bpp p"
  by (auto simp: pixel_bytes_def pixel_value_def nth_append rdp_bitmap_rle_bytes_per_pixel_def split: if_splits)

lemma read_pixel_iff:
  "rdp_bitmap_rle_read_pixel reader = Inr (v, reader') \<longleftrightarrow>
     (\<exists>p rest. pixel_bytes (rr_bits_per_pixel reader) p \<and> rr_rest reader = p @ rest \<and>
        v = pixel_value (rr_bits_per_pixel reader) p \<and> reader' = reader\<lparr>rr_rest := rest\<rparr>)" (is "?L \<longleftrightarrow> ?R")
proof
  let ?n = "rdp_bitmap_rle_bytes_per_pixel (rr_bits_per_pixel reader)"
  assume L: ?L
  then have p: "pixel_bytes (rr_bits_per_pixel reader) (take ?n (rr_rest reader))"
    by (auto simp: rdp_bitmap_rle_read_pixel_def Let_def pixel_bytes_def split: if_splits)
  from L have "v = pixel_value (rr_bits_per_pixel reader) (rr_rest reader)" "reader' = reader\<lparr>rr_rest := drop ?n (rr_rest reader)\<rparr>"
    by (auto simp: rdp_bitmap_rle_read_pixel_def Let_def pixel_value_def split: if_splits)
  with p show ?R
    using pixel_value_append [OF p, of "drop ?n (rr_rest reader)"]
    by (intro exI [of _ "take ?n (rr_rest reader)"] exI [of _ "drop ?n (rr_rest reader)"]) simp
next
  assume ?R
  then obtain p rest where p: "pixel_bytes (rr_bits_per_pixel reader) p" "rr_rest reader = p @ rest"
      "v = pixel_value (rr_bits_per_pixel reader) p" "reader' = reader\<lparr>rr_rest := rest\<rparr>"
    by blast
  moreover have "0 < rdp_bitmap_rle_bytes_per_pixel (rr_bits_per_pixel reader)"
    using p(1) by (cases p) (auto simp: pixel_bytes_def)
  ultimately show ?L
    using pixel_value_append [OF p(1), of rest]
    by (auto simp: rdp_bitmap_rle_read_pixel_def Let_def pixel_value_def pixel_bytes_def)
qed

lemma in_bounds_simps [simp]:
  "in_bounds (reader\<lparr>rr_rest := rest\<rparr>) = in_bounds reader"
  "in_bounds (reader\<lparr>rr_foreground := fg\<rparr>) = in_bounds reader"
  "in_bounds (reader\<lparr>rr_insert_foreground := ins\<rparr>) = in_bounds reader"
  by (simp_all add: in_bounds_def)

lemma put_eq_Inr: "put pixels reader = Inr reader' \<longleftrightarrow> length pixels \<le> rr_total reader \<and> reader' = reader\<lparr>rr_pixels := pixels\<rparr>"
  by (auto simp: put_def)

lemma read_pixel_eval:
  "pixel_bytes (rr_bits_per_pixel reader) p \<Longrightarrow> rr_rest reader = p @ rest \<Longrightarrow>
     rdp_bitmap_rle_read_pixel reader = Inr (pixel_value (rr_bits_per_pixel reader) p, reader\<lparr>rr_rest := rest\<rparr>)"
  by (auto simp: read_pixel_iff)

lemma color_image_put:
  "in_bounds reader \<Longrightarrow> \<forall>p \<in> set chunks. pixel_bytes (rr_bits_per_pixel reader) p \<Longrightarrow> rr_rest reader = concat chunks @ rest \<Longrightarrow>
     rle_color_image (length chunks) reader =
       put (rr_pixels reader @ map (pixel_value (rr_bits_per_pixel reader)) chunks) (reader\<lparr>rr_rest := rest\<rparr>)"
proof (induction chunks arbitrary: reader)
  case (Cons p chunks)
  let ?reader = "reader\<lparr>rr_rest := concat chunks @ rest, rr_pixels := rr_pixels reader @ [pixel_value (rr_bits_per_pixel reader) p]\<rparr>"
  have "in_bounds ?reader \<Longrightarrow> rle_color_image (length chunks) ?reader =
      put (rr_pixels ?reader @ map (pixel_value (rr_bits_per_pixel reader)) chunks) (?reader\<lparr>rr_rest := rest\<rparr>)"
    using Cons.IH [of ?reader] Cons.prems by simp
  then show ?case
    using Cons.prems by (auto simp: read_pixel_eval [of reader p "concat chunks @ rest"] write_put put_def in_bounds_def)
qed (simp add: put_def in_bounds_def)

lemma color_image_chunks:
  "rle_color_image n reader = Inr reader' \<Longrightarrow>
     \<exists>chunks rest. length chunks = n \<and> (\<forall>p \<in> set chunks. pixel_bytes (rr_bits_per_pixel reader) p) \<and>
       rr_rest reader = concat chunks @ rest"
proof (induction n reader rule: rle_color_image.induct)
  case (2 n reader)
  from 2(2) obtain v r where r: "rdp_bitmap_rle_read_pixel reader = Inr (v, r)" and "rle_color_image n (r\<lparr>rr_pixels := rr_pixels r @ [v]\<rparr>) = Inr reader'"
      "rdp_bitmap_rle_write_pixel v r = Inr (r\<lparr>rr_pixels := rr_pixels r @ [v]\<rparr>)"
    by (auto simp: ebind_eq_Inr write_put put_eq_Inr)
  with 2(1) [of "r\<lparr>rr_pixels := rr_pixels r @ [v]\<rparr>"] obtain chunks rest where "length chunks = n"
      "\<forall>p \<in> set chunks. pixel_bytes (rr_bits_per_pixel r) p" "rr_rest r = concat chunks @ rest"
    by fastforce
  moreover obtain p where "pixel_bytes (rr_bits_per_pixel reader) p" "rr_rest reader = p @ rr_rest r"
      "rr_bits_per_pixel r = rr_bits_per_pixel reader"
    using r by (auto simp: read_pixel_iff)
  ultimately show ?case by (intro exI [of _ "p # chunks"] exI [of _ rest]) simp
qed simp

lemma painted_append:
  "ebind (painted bs reader) (painted cs) = painted (bs @ cs) reader"
  unfolding painted_def by (rule ebind_put) (simp_all add: paint_append)

lemma in_bounds_painted: "painted bs reader = Inr reader' \<Longrightarrow> in_bounds reader'"
  by (auto simp: painted_def put_eq_Inr in_bounds_def)

lemma length_mask_bits [simp]: "length (mask_bits ms) = 8 * length ms"
  by (simp add: mask_bits_def length_concat o_def sum_list_triv)

lemma mask_bits_simps [simp]: "mask_bits [] = []" "mask_bits (m # ms) = mask_bits [m] @ mask_bits ms"
  by (simp_all add: mask_bits_def)

declare mask_bits_simps(2) [simp del]

lemma fgbg_image_paint:
  "in_bounds reader \<Longrightarrow> length ms = (run + 7) div 8 \<Longrightarrow> rr_rest reader = ms @ rest \<Longrightarrow>
     rle_fgbg_image run reader = painted (take run (mask_bits ms)) (reader\<lparr>rr_rest := rest\<rparr>)"
proof (induction run reader arbitrary: ms rule: rle_fgbg_image.induct)
  case (1 run reader)
  show ?case
  proof (cases "run = 0")
    case True
    with 1 show ?thesis by (auto simp: rle_fgbg_image.simps painted_def put_def in_bounds_def)
  next
    case False
    with 1(3) obtain m ms' where ms: "ms = m # ms'" by (cases ms) auto
    let ?reader = "reader\<lparr>rr_rest := ms' @ rest\<rparr>"
    have byte: "rle_fgbg_byte n reader = painted (take n (mask_bits [m])) ?reader" if "n \<le> 8" for n
      using that 1(2,4) by (simp add: rle_fgbg_byte_def ms write_fgbg_paint)
    show ?thesis
    proof (cases "run > 8")
      case True
      have len: "length ms' = (run - 8 + 7) div 8" using 1(3) True by (simp add: ms)
      have IH: "in_bounds r \<Longrightarrow> rr_rest r = ms' @ rest \<Longrightarrow>
          rle_fgbg_image (run - 8) r = painted (take (run - 8) (mask_bits ms')) (r\<lparr>rr_rest := rest\<rparr>)" for r
        using 1(1) [OF True _ len] by simp
      have "rle_fgbg_image run reader = ebind (painted (mask_bits [m]) ?reader) (rle_fgbg_image (run - 8))"
        using True by (subst rle_fgbg_image.simps) (simp add: byte)
      also have "\<dots> = painted (mask_bits [m] @ take (run - 8) (mask_bits ms')) (reader\<lparr>rr_rest := rest\<rparr>)"
        unfolding painted_append [symmetric]
        by (auto simp: IH painted_def put_def in_bounds_def paint_append)
      finally show ?thesis
        using True by (simp add: ms mask_bits_simps(2) [of m ms'])
    next
      case False
      with \<open>run \<noteq> 0\<close> have "run \<le> 8" "(run + 7) div 8 = 1" by linarith+
      with 1(3) have "ms' = []" by (simp add: ms)
      with False \<open>run \<noteq> 0\<close> \<open>run \<le> 8\<close> show ?thesis
        by (subst rle_fgbg_image.simps) (simp add: byte ms)
    qed
  qed
qed

lemma rle_fgbg_byte_rest: "rle_fgbg_byte n reader = Inr reader' \<Longrightarrow> in_bounds reader \<Longrightarrow>
    in_bounds reader' \<and> length (rr_rest reader) = Suc (length (rr_rest reader'))"
  by (auto simp: rle_fgbg_byte_def rdp_bitmap_rle_write_fgbg_def fgbg_paint painted_def put_eq_Inr in_bounds_def
      split: list.splits if_splits)

lemma fgbg_image_rest:
  "rle_fgbg_image run reader = Inr reader' \<Longrightarrow> in_bounds reader \<Longrightarrow> (run + 7) div 8 \<le> length (rr_rest reader)"
proof (induction run reader rule: rle_fgbg_image.induct)
  case (1 run reader)
  show ?case
  proof (cases "run > 8")
    case True
    with 1(2) obtain r where r: "rle_fgbg_byte 8 reader = Inr r" "rle_fgbg_image (run - 8) r = Inr reader'"
      by (auto simp: rle_fgbg_image.simps [of run reader] ebind_eq_Inr)
    with rle_fgbg_byte_rest [OF r(1) 1(3)] 1(1) [OF True r(2)] True show ?thesis by simp
  next
    case False
    with 1(2,3) show ?thesis
      by (auto simp: rle_fgbg_image.simps [of run reader] dest!: rle_fgbg_byte_rest split: if_splits)
  qed
qed

subsection \<open>Lengths\<close>

text \<open>
  Every kind of order has a range of header bytes, the first of which takes the length from the next byte, and a code for
  lengths of sixteen bits.
\<close>

datatype rle_kind = Bg | Fg | Fgbg | Color | Image | Set_fg | Set_fgbg | Dithered

fun kind_codes :: "rle_kind \<Rightarrow> u8 \<times> u8" where
  "kind_codes Bg = (RDP_BITMAP_RLE_BG_RUN, RDP_BITMAP_RLE_MEGA_BG_RUN)"
| "kind_codes Fg = (RDP_BITMAP_RLE_FG_RUN, RDP_BITMAP_RLE_MEGA_FG_RUN)"
| "kind_codes Fgbg = (RDP_BITMAP_RLE_FGBG_IMAGE, RDP_BITMAP_RLE_MEGA_FGBG_IMAGE)"
| "kind_codes Color = (RDP_BITMAP_RLE_COLOR_RUN, RDP_BITMAP_RLE_MEGA_COLOR_RUN)"
| "kind_codes Image = (RDP_BITMAP_RLE_COLOR_IMAGE, RDP_BITMAP_RLE_MEGA_COLOR_IMAGE)"
| "kind_codes Set_fg = (RDP_BITMAP_RLE_SET_FG_FG_RUN, RDP_BITMAP_RLE_MEGA_SET_FG_RUN)"
| "kind_codes Set_fgbg = (RDP_BITMAP_RLE_SET_FG_FGBG_IMAGE, RDP_BITMAP_RLE_MEGA_SET_FG_FGBG_IMAGE)"
| "kind_codes Dithered = (RDP_BITMAP_RLE_DITHERED_RUN, RDP_BITMAP_RLE_MEGA_DITHERED_RUN)"

fun kind_span :: "rle_kind \<Rightarrow> nat" where
  "kind_span k = (if k \<in> {Set_fg, Set_fgbg, Dithered} then 16 else 32)"

fun kind_base :: "rle_kind \<Rightarrow> nat" where
  "kind_base k = unat (fst (kind_codes k)) * kind_span k"

fun kind_unit :: "rle_kind \<Rightarrow> nat" where
  "kind_unit k = (if k \<in> {Fgbg, Set_fgbg} then 8 else 1)"

fun kind_offset :: "rle_kind \<Rightarrow> nat" where
  "kind_offset k = (if k \<in> {Fgbg, Set_fgbg} then 1 else kind_span k)"

definition run_coded :: "rle_kind \<Rightarrow> nat \<Rightarrow> u8 list \<Rightarrow> bool" where
  "run_coded k n header \<longleftrightarrow>
     (\<exists>j. 0 < j \<and> j < kind_span k \<and> header = [of_nat (kind_base k + j)] \<and> n = j * kind_unit k) \<or>
     (\<exists>b. header = [of_nat (kind_base k), b] \<and> n = unat b + kind_offset k) \<or>
     (\<exists>lo hi. header = [snd (kind_codes k), lo, hi] \<and> n = unat lo + 256 * unat hi \<and> n \<noteq> 0)"

lemma rle_code_nat:
  "rdp_bitmap_rle_code h =
     (if unat h < 192 then of_nat (unat h div 32) else if unat h < 240 then of_nat (unat h div 16) else h)"
proof -
  have "\<forall>n \<in> set [0..<256]. rdp_bitmap_rle_code (of_nat n) =
     (if n < 192 then of_nat (n div 32) else if n < 240 then of_nat (n div 16) else of_nat n)"
    by code_simp
  from bspec [OF this, of "unat h"] show ?thesis using unat_bounds(1) [of h] by simp
qed

lemma code_bytes_nat: "unat (h AND 0x1f) = unat (h :: u8) mod 32" "unat (h AND 0x0f) = unat (h :: u8) mod 16"
proof -
  have "h AND 0x1f = take_bit 5 h" "h AND 0x0f = take_bit 4 h"
    by (simp_all add: take_bit_eq_mask mask_eq_exp_minus_1)
  then show "unat (h AND 0x1f) = unat (h :: u8) mod 32" "unat (h AND 0x0f) = unat (h :: u8) mod 16"
    by (simp_all only: unsigned_take_bit_eq) (simp_all add: take_bit_eq_mod)
qed

lemma of_nat_u8_eq: "m < 256 \<Longrightarrow> of_nat m = (c :: u8) \<longleftrightarrow> m = unat c"
  by (auto simp: unat_of_nat)

lemma unat_code:
  "unat (rdp_bitmap_rle_code h) =
     (if unat h < 192 then unat h div 32 else if unat h < 240 then unat h div 16 else unat h)"
  using unat_bounds(1) [of h] by (simp add: rle_code_nat unat_of_nat)

lemma kind_bounds:
  "unat (fst (kind_codes k)) < (if kind_span k = 32 then 6 else 15)"
  "kind_span k = 16 \<Longrightarrow> 12 \<le> unat (fst (kind_codes k))"
  "240 \<le> unat (snd (kind_codes k))"
  by (cases k; simp add: rle_codes)+

lemma kind_span_cases: "kind_span k = 16 \<or> kind_span k = 32"
  by simp

lemma div_range: "0 < s \<Longrightarrow> n div s = c \<longleftrightarrow> c * s \<le> n \<and> n < c * s + (s :: nat)"
  by (metis add.commute div_nat_eqI dividend_less_div_times mult.commute mult_Suc_right times_div_less_eq_dividend)

lemma code_of_kind:
  "rdp_bitmap_rle_code h = fst (kind_codes k) \<longleftrightarrow> kind_base k \<le> unat h \<and> unat h < kind_base k + kind_span k"
  "rdp_bitmap_rle_code h = snd (kind_codes k) \<longleftrightarrow> h = snd (kind_codes k)"
proof -
  have "unat (rdp_bitmap_rle_code h) = unat (fst (kind_codes k)) \<longleftrightarrow> unat h div kind_span k = unat (fst (kind_codes k))"
    using kind_bounds [of k] kind_span_cases [of k] unat_bounds(1) [of h] unfolding unat_code by auto
  then show "rdp_bitmap_rle_code h = fst (kind_codes k) \<longleftrightarrow> kind_base k \<le> unat h \<and> unat h < kind_base k + kind_span k"
    using kind_span_cases [of k] by (simp add: word_unat_eq_iff div_range del: kind_span.simps) force
  have "unat (rdp_bitmap_rle_code h) = unat (snd (kind_codes k)) \<longleftrightarrow> unat h = unat (snd (kind_codes k))"
    using kind_bounds(3) [of k] unfolding unat_code by auto
  then show "rdp_bitmap_rle_code h = snd (kind_codes k) \<longleftrightarrow> h = snd (kind_codes k)"
    by (simp add: word_unat_eq_iff)
qed

lemma run_length_mega:
  "rr_rest reader \<noteq> [] \<Longrightarrow> rdp_bitmap_rle_run_length reader (snd (kind_codes k)) =
     (let order = rr_rest reader; n = unat (order ! 1) + 256 * unat (order ! 2) in
      if length order < 3 \<or> n = 0 then protocol_error else Inr (n, 3))"
  by (cases k) (simp_all add: rdp_bitmap_rle_run_length_def rle_is_mega_def rle_codes Let_def)

lemma run_length_short:
  "rr_rest reader \<noteq> [] \<Longrightarrow> rdp_bitmap_rle_run_length reader (fst (kind_codes k)) =
     rle_short_length (rr_rest reader) (unat (rr_rest reader ! 0) mod kind_span k) (kind_unit k) (kind_offset k)"
  by (cases k) (simp_all add: rdp_bitmap_rle_run_length_def rle_is_mega_def rle_codes Let_def code_bytes_nat)

lemma kind_base_bound: "kind_base k + kind_span k \<le> 240" "kind_base k mod kind_span k = 0"
  by (cases k; simp add: rle_codes)+

lemma mod_from_base: "kind_base k \<le> n \<Longrightarrow> n < kind_base k + kind_span k \<Longrightarrow> n mod kind_span k = n - kind_base k"
  using kind_base_bound(2) [of k]
  by (metis add_diff_inverse_nat less_diff_conv2 mod_add_left_eq mod_less add_0 linorder_not_le nat_add_left_cancel_less)

lemma take_length_short:
  assumes "rr_rest reader = h # bs" "kind_base k \<le> unat h" "unat h < kind_base k + kind_span k"
  shows "rle_take_length (rdp_bitmap_rle_code h) reader =
     (if unat h = kind_base k
      then (case bs of [] \<Rightarrow> protocol_error | b # bs \<Rightarrow> Inr (unat b + kind_offset k, reader\<lparr>rr_rest := bs\<rparr>))
      else Inr ((unat h - kind_base k) * kind_unit k, reader\<lparr>rr_rest := bs\<rparr>))"
proof -
  have "rdp_bitmap_rle_code h = fst (kind_codes k)" using assms(2,3) by (simp only: code_of_kind)
  moreover have "unat h mod kind_span k = unat h - kind_base k" using assms(2,3) by (rule mod_from_base)
  ultimately show ?thesis
    using assms(2) run_length_short [of reader k]
    by (simp add: assms(1) rle_take_length_def rle_short_length_def split: list.splits
        del: kind_span.simps kind_base.simps kind_unit.simps kind_offset.simps)
qed

lemma take_length_mega:
  assumes "rr_rest reader = snd (kind_codes k) # bs"
  shows "rle_take_length (rdp_bitmap_rle_code (snd (kind_codes k))) reader =
     (case bs of
        lo # hi # bs \<Rightarrow>
          if unat lo + 256 * unat hi = 0 then protocol_error
          else Inr (unat lo + 256 * unat hi, reader\<lparr>rr_rest := bs\<rparr>)
      | _ \<Rightarrow> protocol_error)"
proof -
  have "rdp_bitmap_rle_code (snd (kind_codes k)) = snd (kind_codes k)" by (simp only: code_of_kind)
  then show ?thesis
    using run_length_mega [of reader k]
    by (auto simp: assms rle_take_length_def Let_def split: list.splits)
qed

declare kind_span.simps [simp del] kind_base.simps [simp del] kind_unit.simps [simp del] kind_offset.simps [simp del]

definition kind_of :: "rle_kind \<Rightarrow> u8 \<Rightarrow> bool" where
  "kind_of k code \<longleftrightarrow> code = fst (kind_codes k) \<or> code = snd (kind_codes k)"

lemma take_length_coded:
  assumes coded: "run_coded k n header" and rest: "rr_rest reader = header @ rest"
  shows "kind_of k (rdp_bitmap_rle_code (rr_rest reader ! 0))"
    and "rle_take_length (rdp_bitmap_rle_code (rr_rest reader ! 0)) reader = Inr (n, reader\<lparr>rr_rest := rest\<rparr>)"
proof -
  consider (short) j where "0 < j" "j < kind_span k" "header = [of_nat (kind_base k + j)]" "n = j * kind_unit k"
    | (long) b where "header = [of_nat (kind_base k), b]" "n = unat b + kind_offset k"
    | (mega) lo hi where "header = [snd (kind_codes k), lo, hi]" "n = unat lo + 256 * unat hi" "n \<noteq> 0"
    using coded by (auto simp: run_coded_def)
  then have "kind_of k (rdp_bitmap_rle_code (rr_rest reader ! 0)) \<and>
      rle_take_length (rdp_bitmap_rle_code (rr_rest reader ! 0)) reader = Inr (n, reader\<lparr>rr_rest := rest\<rparr>)"
  proof cases
    case (short j)
    then have h: "unat (of_nat (kind_base k + j) :: u8) = kind_base k + j"
      using kind_base_bound(1) [of k] by (simp add: unat_of_nat del: of_nat_add)
    show ?thesis
      using short rest take_length_short [of reader "of_nat (kind_base k + j)" rest k] code_of_kind(1) [of _ k]
      by (simp add: kind_of_def h del: of_nat_add)
  next
    case (long b)
    have h: "unat (of_nat (kind_base k) :: u8) = kind_base k" "0 < kind_span k"
      using kind_base_bound(1) [of k] kind_span_cases [of k] by (auto simp add: unat_of_nat)
    show ?thesis
      using long rest take_length_short [of reader "of_nat (kind_base k)" "b # rest" k] code_of_kind(1) [of _ k] h(2)
      by (simp add: kind_of_def h(1))
  next
    case (mega lo hi)
    then show ?thesis
      using rest take_length_mega [of reader k "lo # hi # rest"] code_of_kind(2) [of _ k] by (simp add: kind_of_def)
  qed
  then show "kind_of k (rdp_bitmap_rle_code (rr_rest reader ! 0))"
    and "rle_take_length (rdp_bitmap_rle_code (rr_rest reader ! 0)) reader = Inr (n, reader\<lparr>rr_rest := rest\<rparr>)"
    by simp_all
qed

lemma take_length_header:
  assumes rest: "rr_rest reader = h # bs" and k: "kind_of k (rdp_bitmap_rle_code h)"
    and taken: "rle_take_length (rdp_bitmap_rle_code h) reader = Inr (n, reader')"
  shows "\<exists>header. run_coded k n header \<and> h # bs = header @ rr_rest reader' \<and> reader' = reader\<lparr>rr_rest := rr_rest reader'\<rparr>"
proof (cases "h = snd (kind_codes k)")
  case True
  with rest taken show ?thesis
    by (auto simp: take_length_mega run_coded_def split: list.splits if_splits)
next
  case False
  with k have range: "kind_base k \<le> unat h" "unat h < kind_base k + kind_span k"
    by (auto simp: kind_of_def code_of_kind)
  have h: "of_nat (kind_base k + (unat h - kind_base k)) = h" using range by simp
  show ?thesis
  proof (cases "unat h = kind_base k")
    case True
    then have "of_nat (kind_base k) = h" using h by simp
    with True taken show ?thesis
      by (auto simp: take_length_short [OF rest range] run_coded_def split: list.splits)
  next
    case False
    have "run_coded k ((unat h - kind_base k) * kind_unit k) [h]"
      unfolding run_coded_def using False range h
      by (intro disjI1 exI [of _ "unat h - kind_base k"]) (auto simp del: of_nat_add)
    with False taken show ?thesis by (auto simp: take_length_short [OF rest range])
  qed
qed

subsection \<open>Orders\<close>

datatype rle_instruction =
    Background nat
  | Bits "u32 option" "bool list"
  | Literal "u32 list"

text \<open>The canvas has the pixels so far, the foreground colour, and whether the last order was a background run.\<close>

type_synonym canvas = "u32 list \<times> u32 \<times> bool"

fun execute :: "nat \<Rightarrow> rle_instruction \<Rightarrow> canvas \<Rightarrow> canvas" where
  "execute width (Background n) (pixels, fg, after_background) =
     (paint width fg (if after_background \<and> 0 < n then True # replicate (n - 1) False else replicate n False) pixels, fg, True)"
| "execute width (Bits color bs) (pixels, fg, _) =
     (let fg = (case color of Some c \<Rightarrow> c | None \<Rightarrow> fg) in (paint width fg bs pixels, fg, False))"
| "execute width (Literal cs) (pixels, fg, _) = (pixels @ cs, fg, False)"

inductive order_coded :: "u16 \<Rightarrow> rle_instruction \<Rightarrow> u8 list \<Rightarrow> bool" for bpp where
  background: "run_coded Bg n header \<Longrightarrow> order_coded bpp (Background n) header"
| foreground: "run_coded Fg n header \<Longrightarrow> order_coded bpp (Bits None (replicate n True)) header"
| set_foreground: "run_coded Set_fg n header \<Longrightarrow> pixel_bytes bpp p \<Longrightarrow>
    order_coded bpp (Bits (Some (pixel_value bpp p)) (replicate n True)) (header @ p)"
| fgbg: "run_coded Fgbg n header \<Longrightarrow> length ms = (n + 7) div 8 \<Longrightarrow>
    order_coded bpp (Bits None (take n (mask_bits ms))) (header @ ms)"
| set_fgbg: "run_coded Set_fgbg n header \<Longrightarrow> pixel_bytes bpp p \<Longrightarrow> length ms = (n + 7) div 8 \<Longrightarrow>
    order_coded bpp (Bits (Some (pixel_value bpp p)) (take n (mask_bits ms))) (header @ p @ ms)"
| dithered: "run_coded Dithered n header \<Longrightarrow> pixel_bytes bpp p \<Longrightarrow> pixel_bytes bpp q \<Longrightarrow>
    order_coded bpp (Literal (concat (replicate n [pixel_value bpp p, pixel_value bpp q]))) (header @ p @ q)"
| color: "run_coded Color n header \<Longrightarrow> pixel_bytes bpp p \<Longrightarrow>
    order_coded bpp (Literal (replicate n (pixel_value bpp p))) (header @ p)"
| image: "run_coded Image (length chunks) header \<Longrightarrow> \<forall>p \<in> set chunks. pixel_bytes bpp p \<Longrightarrow>
    order_coded bpp (Literal (map (pixel_value bpp) chunks)) (header @ concat chunks)"
| special_1: "order_coded bpp (Bits None (mask_bits [0x03])) [RDP_BITMAP_RLE_SPECIAL_FGBG_1]"
| special_2: "order_coded bpp (Bits None (mask_bits [0x05])) [RDP_BITMAP_RLE_SPECIAL_FGBG_2]"
| white: "order_coded bpp (Literal [rdp_bitmap_rle_white bpp]) [RDP_BITMAP_RLE_SPECIAL_WHITE]"
| black: "order_coded bpp (Literal [0]) [RDP_BITMAP_RLE_SPECIAL_BLACK]"

text \<open>The effect of an instruction on the reader: the canvas changes, unless it would overflow.\<close>

definition canvas :: "rdp_bitmap_rle_reader \<Rightarrow> canvas" where
  "canvas reader = (rr_pixels reader, rr_foreground reader, rr_insert_foreground reader)"

definition with_canvas :: "canvas \<Rightarrow> rdp_bitmap_rle_reader \<Rightarrow> rdp_bitmap_rle_reader" where
  "with_canvas = (\<lambda>(pixels, fg, ins) reader. reader\<lparr>rr_pixels := pixels, rr_foreground := fg, rr_insert_foreground := ins\<rparr>)"

definition perform :: "rle_instruction \<Rightarrow> rdp_bitmap_rle_reader \<Rightarrow> rdp_bitmap_rle_reader result" where
  "perform i reader =
     (let c = execute (rr_width reader) i (canvas reader) in
      if length (fst c) > rr_total reader then protocol_error else Inr (with_canvas c reader))"

lemma run_coded_pos: "run_coded k n header \<Longrightarrow> 0 < n \<and> header \<noteq> []"
  using kind_span_cases [of k] by (auto simp: run_coded_def kind_unit.simps kind_offset.simps split: if_splits)

lemma ebind_assoc: "ebind (ebind m f) g = ebind m (\<lambda>x. ebind (f x) g)"
  by (cases m) simp_all

lemma painted_then_background:
  "ebind (painted bs reader) (rdp_bitmap_rle_write_background n) = painted (bs @ replicate n False) reader"
proof -
  have "ebind (painted bs reader) (rdp_bitmap_rle_write_background n) = ebind (painted bs reader) (painted (replicate n False))"
    using in_bounds_painted [of bs reader] by (cases "painted bs reader") (simp_all add: background_paint)
  then show ?thesis by (simp add: painted_append)
qed

lemma background_order:
  assumes "in_bounds reader" "run_coded Bg n header" "rr_rest reader = header @ rest"
  shows "rle_bg_order (rdp_bitmap_rle_code (rr_rest reader ! 0)) reader = perform (Background n) (reader\<lparr>rr_rest := rest\<rparr>)"
proof -
  let ?reader = "reader\<lparr>rr_rest := rest\<rparr>"
  let ?bits = "if rr_insert_foreground reader then True # replicate (n - 1) False else replicate n False"
  have n: "0 < n" using run_coded_pos [OF assms(2)] by simp
  have first: "rdp_bitmap_rle_write_foreground 1 ?reader = painted [True] ?reader"
    using foreground_paint [of ?reader 1] assms(1) by simp
  have "rle_bg_order (rdp_bitmap_rle_code (rr_rest reader ! 0)) reader =
      ebind (painted ?bits ?reader) (\<lambda>reader. Inr (reader\<lparr>rr_insert_foreground := True\<rparr>))"
    unfolding rle_bg_order_def take_length_coded(2) [OF assms(2,3)]
    using n assms(1) first background_paint [of ?reader n]
      ebind_assoc [of "painted [True] ?reader" "rdp_bitmap_rle_write_background (n - 1)"
        "\<lambda>reader. Inr (reader\<lparr>rr_insert_foreground := True\<rparr>)", unfolded painted_then_background]
    by (auto simp: ebind_assoc simp del: rdp_bitmap_rle_write_foreground.simps)
  also have "\<dots> = perform (Background n) ?reader"
    using n by (auto simp: painted_def put_def perform_def canvas_def with_canvas_def Let_def)
  finally show ?thesis .
qed

lemma kind_codes_simps:
  "kind_of k c \<Longrightarrow> kind_of k' c \<longleftrightarrow> k = k'"
  by (cases k; cases k'; auto simp: kind_of_def rle_codes)

text \<open>The other orders, by their kind.\<close>

lemma rle_order_kinds:
  "kind_of Fg c \<Longrightarrow> rle_order c r = ebind (rle_take_length c r) (\<lambda>(run, r). rdp_bitmap_rle_write_foreground run r)"
  "kind_of Set_fg c \<Longrightarrow> rle_order c r = ebind (rle_take_length c r) (\<lambda>(run, r).
     ebind (rle_set_foreground r) (rdp_bitmap_rle_write_foreground run))"
  "kind_of Dithered c \<Longrightarrow> rle_order c r = ebind (rle_take_length c r) (\<lambda>(run, r).
     ebind (rdp_bitmap_rle_read_pixel r) (\<lambda>(a, r). ebind (rdp_bitmap_rle_read_pixel r) (\<lambda>(b, r). rle_dither a b run r)))"
  "kind_of Color c \<Longrightarrow> rle_order c r = ebind (rle_take_length c r) (\<lambda>(run, r).
     ebind (rdp_bitmap_rle_read_pixel r) (\<lambda>(color, r). rdp_bitmap_rle_repeat color run r))"
  "kind_of Fgbg c \<Longrightarrow> rle_order c r = ebind (rle_take_length c r) (\<lambda>(run, r). rle_fgbg_image run r)"
  "kind_of Set_fgbg c \<Longrightarrow> rle_order c r = ebind (rle_take_length c r) (\<lambda>(run, r).
     ebind (rle_set_foreground r) (rle_fgbg_image run))"
  "kind_of Image c \<Longrightarrow> rle_order c r = ebind (rle_take_length c r) (\<lambda>(run, r). rle_color_image run r)"
  by (elim kind_of_def [THEN iffD1, elim_format] disjE; simp add: rle_order_def rle_codes)+

lemma rle_round_kind:
  "rle_round reader =
     (let code = rdp_bitmap_rle_code (rr_rest reader ! 0) in
      if kind_of Bg code then rle_bg_order code reader else rle_order code (reader\<lparr>rr_insert_foreground := False\<rparr>))"
  by (simp add: rle_round_def kind_of_def)

lemma reader_swaps:
  "reader\<lparr>rr_insert_foreground := a, rr_rest := b\<rparr> = reader\<lparr>rr_rest := b, rr_insert_foreground := a\<rparr>"
  "reader\<lparr>rr_foreground := c, rr_rest := b\<rparr> = reader\<lparr>rr_rest := b, rr_foreground := c\<rparr>"
  "reader\<lparr>rr_foreground := c, rr_insert_foreground := a\<rparr> = reader\<lparr>rr_insert_foreground := a, rr_foreground := c\<rparr>"
  by (cases reader; simp)+

lemma round_of_kind:
  assumes "run_coded k n header" "rr_rest reader = header @ rest" "k \<noteq> Bg"
  shows "rle_round reader = rle_order (rdp_bitmap_rle_code (rr_rest reader ! 0)) (reader\<lparr>rr_insert_foreground := False\<rparr>)"
    and "kind_of k (rdp_bitmap_rle_code (rr_rest reader ! 0))"
    and "rle_take_length (rdp_bitmap_rle_code (rr_rest reader ! 0)) (reader\<lparr>rr_insert_foreground := False\<rparr>) =
           Inr (n, reader\<lparr>rr_insert_foreground := False, rr_rest := rest\<rparr>)"
proof -
  show k: "kind_of k (rdp_bitmap_rle_code (rr_rest reader ! 0))"
    using take_length_coded(1) [OF assms(1,2)] .
  then show "rle_round reader = rle_order (rdp_bitmap_rle_code (rr_rest reader ! 0)) (reader\<lparr>rr_insert_foreground := False\<rparr>)"
    using kind_codes_simps [OF k, of Bg] assms(3) by (simp add: rle_round_kind)
  show "rle_take_length (rdp_bitmap_rle_code (rr_rest reader ! 0)) (reader\<lparr>rr_insert_foreground := False\<rparr>) =
      Inr (n, reader\<lparr>rr_insert_foreground := False, rr_rest := rest\<rparr>)"
    using take_length_coded(2) [of k n header "reader\<lparr>rr_insert_foreground := False\<rparr>" rest] assms(1,2) by simp
qed

lemma perform_bits:
  "perform (Bits None bs) reader = painted bs (reader\<lparr>rr_insert_foreground := False\<rparr>)"
  "perform (Bits (Some c) bs) reader = painted bs (reader\<lparr>rr_insert_foreground := False, rr_foreground := c\<rparr>)"
  "perform (Literal cs) reader = put (rr_pixels reader @ cs) (reader\<lparr>rr_insert_foreground := False\<rparr>)"
  by (auto simp: perform_def painted_def put_def canvas_def with_canvas_def Let_def)

lemma set_foreground_eval:
  "pixel_bytes (rr_bits_per_pixel reader) p \<Longrightarrow> rr_rest reader = p @ rest \<Longrightarrow>
     rle_set_foreground reader =
       Inr (reader\<lparr>rr_rest := rest, rr_foreground := pixel_value (rr_bits_per_pixel reader) p\<rparr>)"
  by (simp add: rle_set_foreground_def read_pixel_eval)

lemma round_coded:
  assumes "order_coded (rr_bits_per_pixel reader) i code" "in_bounds reader" "rr_rest reader = code @ rest"
  shows "rle_round reader = perform i (reader\<lparr>rr_rest := rest\<rparr>)"
  using assms(1)
proof cases
  case (background n)
  with assms(2,3) show ?thesis
    using background_order [of reader n code rest] take_length_coded(1) [of Bg n code reader rest]
    by (simp add: rle_round_kind Let_def)
next
  case (foreground n)
  with assms(2,3) show ?thesis
    using round_of_kind [of Fg n code reader rest] by (simp add: rle_order_kinds(1) foreground_paint perform_bits reader_swaps)
next
  case (set_foreground n header p)
  with assms(2,3) show ?thesis
    using round_of_kind [of Set_fg n header reader "p @ rest"]
    by (simp add: rle_order_kinds(2) set_foreground_eval foreground_paint perform_bits reader_swaps)
next
  case (fgbg n header ms)
  with assms(2,3) show ?thesis
    using round_of_kind [of Fgbg n header reader "ms @ rest"]
    by (simp add: rle_order_kinds(5) fgbg_image_paint [where rest = rest and ms = ms] perform_bits reader_swaps)
next
  case (set_fgbg n header p ms)
  with assms(2,3) show ?thesis
    using round_of_kind [of Set_fgbg n header reader "p @ ms @ rest"]
    by (simp add: rle_order_kinds(6) set_foreground_eval fgbg_image_paint [where rest = rest and ms = ms] perform_bits reader_swaps)
next
  case (dithered n header p q)
  with assms(2,3) show ?thesis
    using round_of_kind [of Dithered n header reader "p @ q @ rest"]
    by (simp add: rle_order_kinds(3) read_pixel_eval dither_put perform_bits reader_swaps)
next
  case (color n header p)
  with assms(2,3) show ?thesis
    using round_of_kind [of Color n header reader "p @ rest"]
    by (simp add: rle_order_kinds(4) read_pixel_eval repeat_put perform_bits reader_swaps)
next
  case (image chunks header)
  with assms(2,3) show ?thesis
    using round_of_kind [of Image "length chunks" header reader "concat chunks @ rest"]
    by (simp add: rle_order_kinds(7) color_image_put [where rest = rest] perform_bits reader_swaps)
qed (use assms(2,3) in \<open>simp_all add: rle_round_def rle_order_def rle_codes rdp_bitmap_rle_code_def
      write_fgbg_paint write_put perform_bits reader_swaps\<close>)

definition coded_prefix :: "u16 \<Rightarrow> u8 list \<Rightarrow> bool" where
  "coded_prefix bpp bs \<longleftrightarrow> (\<exists>i code rest. order_coded bpp i code \<and> bs = code @ rest)"

lemma coded_prefixI: "order_coded bpp i code \<Longrightarrow> bs = code @ rest \<Longrightarrow> coded_prefix bpp bs"
  by (auto simp: coded_prefix_def)

lemma order_codes:
  "rle_order c r = Inr r' \<Longrightarrow>
     (\<exists>k. k \<noteq> Bg \<and> kind_of k c) \<or>
     c \<in> {RDP_BITMAP_RLE_SPECIAL_FGBG_1, RDP_BITMAP_RLE_SPECIAL_FGBG_2, RDP_BITMAP_RLE_SPECIAL_WHITE, RDP_BITMAP_RLE_SPECIAL_BLACK}"
proof (rule ccontr)
  assume "rle_order c r = Inr r'" and
    "\<not> ((\<exists>k. k \<noteq> Bg \<and> kind_of k c) \<or> c \<in> {RDP_BITMAP_RLE_SPECIAL_FGBG_1, RDP_BITMAP_RLE_SPECIAL_FGBG_2,
       RDP_BITMAP_RLE_SPECIAL_WHITE, RDP_BITMAP_RLE_SPECIAL_BLACK})"
  moreover from this have "\<not> kind_of Fg c" "\<not> kind_of Set_fg c" "\<not> kind_of Dithered c" "\<not> kind_of Color c"
    "\<not> kind_of Fgbg c" "\<not> kind_of Set_fgbg c" "\<not> kind_of Image c" by blast+
  ultimately show False by (simp add: rle_order_def kind_of_def)
qed

lemma special_header:
  assumes "rdp_bitmap_rle_code h = c" "240 \<le> unat c"
  shows "h = c"
proof -
  have "unat (rdp_bitmap_rle_code h) = unat h"
    using assms unat_bounds(1) [of h] by (auto simp: unat_code split: if_splits)
  then show ?thesis using assms(1) by (simp add: word_unat_eq_iff)
qed

lemma take_length_same:
  "rle_take_length c r = Inr (n, r') \<Longrightarrow> in_bounds r' = in_bounds r" "rle_take_length c r = Inr (n, r') \<Longrightarrow> rr_bits_per_pixel r' = rr_bits_per_pixel r"
  by (auto simp: rle_take_length_def ebind_eq_Inr)

lemma set_foreground_inv:
  "rle_set_foreground r = Inr r' \<Longrightarrow>
     \<exists>p. pixel_bytes (rr_bits_per_pixel r) p \<and> rr_rest r = p @ rr_rest r' \<and>
       rr_bits_per_pixel r' = rr_bits_per_pixel r \<and> in_bounds r' = in_bounds r"
  by (auto simp: rle_set_foreground_def ebind_eq_Inr read_pixel_iff)

lemma read_pixel_inv:
  "rdp_bitmap_rle_read_pixel r = Inr (v, r') \<Longrightarrow>
     \<exists>p. pixel_bytes (rr_bits_per_pixel r) p \<and> rr_rest r = p @ rr_rest r' \<and> rr_bits_per_pixel r' = rr_bits_per_pixel r"
  by (auto simp: read_pixel_iff)

lemma masks_prefix:
  assumes "rle_fgbg_image n r = Inr r'" "in_bounds r"
  obtains ms rest where "length ms = (n + 7) div 8" "rr_rest r = ms @ rest"
  using fgbg_image_rest [OF assms] that [of "take ((n + 7) div 8) (rr_rest r)" "drop ((n + 7) div 8) (rr_rest r)"] by simp

text \<open>Every order of a kind that is accepted starts with an encoding.\<close>

lemma order_prefix:
  assumes bs: "rr_rest r = h # bs" and k: "kind_of k (rdp_bitmap_rle_code h)" "k \<noteq> Bg" and ok: "in_bounds r"
    and order: "rle_order (rdp_bitmap_rle_code h) r = Inr r'"
  shows "coded_prefix (rr_bits_per_pixel r) (rr_rest r)"
proof -
  obtain n r1 where taken: "rle_take_length (rdp_bitmap_rle_code h) r = Inr (n, r1)"
    using order k by (cases k) (auto simp: rle_order_kinds ebind_eq_Inr)
  from take_length_header [OF bs k(1) taken] obtain header where header: "run_coded k n header"
      "rr_rest r = header @ rr_rest r1"
    using bs by auto
  have r1: "in_bounds r1" "rr_bits_per_pixel r1 = rr_bits_per_pixel r"
    using take_length_same [OF taken] ok by simp_all
  show ?thesis
    using header order k taken
  proof (cases k)
    case Fg
    with header show ?thesis by (blast intro: coded_prefixI order_coded.intros)
  next
    case Fgbg
    with order k taken have "rle_fgbg_image n r1 = Inr r'" by (simp add: rle_order_kinds)
    from masks_prefix [OF this r1(1)] Fgbg header show ?thesis
      by (metis append.assoc coded_prefixI order_coded.fgbg)
  next
    case Image
    with order k taken have "rle_color_image n r1 = Inr r'" by (simp add: rle_order_kinds)
    from color_image_chunks [OF this] Image header r1 show ?thesis
      by (metis append.assoc coded_prefixI order_coded.image)
  next
    case Color
    with order k taken obtain v r2 where "rdp_bitmap_rle_read_pixel r1 = Inr (v, r2)"
      by (auto simp: rle_order_kinds ebind_eq_Inr)
    from read_pixel_inv [OF this] Color header r1 show ?thesis
      by (metis append.assoc coded_prefixI order_coded.color)
  next
    case Set_fg
    with order k taken obtain r2 where "rle_set_foreground r1 = Inr r2"
      by (auto simp: rle_order_kinds ebind_eq_Inr)
    from set_foreground_inv [OF this] Set_fg header r1 show ?thesis
      by (metis append.assoc coded_prefixI order_coded.set_foreground)
  next
    case Set_fgbg
    with order k taken obtain r2 where r2: "rle_set_foreground r1 = Inr r2" "rle_fgbg_image n r2 = Inr r'"
      by (auto simp: rle_order_kinds ebind_eq_Inr)
    from set_foreground_inv [OF r2(1)] r1 obtain p where "pixel_bytes (rr_bits_per_pixel r) p"
        "rr_rest r1 = p @ rr_rest r2" "in_bounds r2" by auto
    with masks_prefix [OF r2(2)] Set_fgbg header show ?thesis
      by (metis append.assoc coded_prefixI order_coded.set_fgbg)
  next
    case Dithered
    with order k taken obtain v r2 w r3 where r2: "rdp_bitmap_rle_read_pixel r1 = Inr (v, r2)"
        "rdp_bitmap_rle_read_pixel r2 = Inr (w, r3)"
      by (auto simp: rle_order_kinds ebind_eq_Inr)
    from read_pixel_inv [OF r2(1)] read_pixel_inv [OF r2(2)] Dithered header r1 show ?thesis
      by (metis append.assoc coded_prefixI order_coded.dithered)
  qed simp
qed

lemma round_prefix:
  assumes "rle_round reader = Inr reader'" "in_bounds reader" "rr_rest reader \<noteq> []"
  shows "coded_prefix (rr_bits_per_pixel reader) (rr_rest reader)"
proof -
  obtain h bs where bs: "rr_rest reader = h # bs" using assms(3) by (cases "rr_rest reader") auto
  let ?c = "rdp_bitmap_rle_code h" and ?reader = "reader\<lparr>rr_insert_foreground := False\<rparr>"
  show ?thesis
  proof (cases "kind_of Bg ?c")
    case True
    with assms(1) obtain n r where taken: "rle_take_length ?c reader = Inr (n, r)"
      by (auto simp: rle_round_kind bs rle_bg_order_def ebind_eq_Inr)
    from take_length_header [OF bs True taken] bs show ?thesis
      by (auto intro: coded_prefixI order_coded.background)
  next
    case False
    with assms(1) have order: "rle_order ?c ?reader = Inr reader'" by (simp add: rle_round_kind bs)
    show ?thesis
      using order_codes [OF order]
    proof
      assume "\<exists>k. k \<noteq> Bg \<and> kind_of k ?c"
      with order_prefix [of ?reader h bs] order assms(2) bs show ?thesis by auto
    next
      assume special: "?c \<in> {RDP_BITMAP_RLE_SPECIAL_FGBG_1, RDP_BITMAP_RLE_SPECIAL_FGBG_2,
        RDP_BITMAP_RLE_SPECIAL_WHITE, RDP_BITMAP_RLE_SPECIAL_BLACK}"
      then have "h = ?c" using special_header [of h ?c] by (auto simp: rle_codes)
      with special have "\<exists>i. order_coded (rr_bits_per_pixel reader) i [h]"
        by (auto intro: order_coded.intros)
      then show ?thesis by (auto simp: bs intro: coded_prefixI)
    qed
  qed
qed

lemma coded_nonempty: "order_coded bpp i code \<Longrightarrow> code \<noteq> []"
  by (auto elim!: order_coded.cases dest: run_coded_pos)

lemma perform_fields:
  "perform i reader = Inr reader' \<Longrightarrow> in_bounds reader' \<and> rr_rest reader' = rr_rest reader \<and>
     rr_bits_per_pixel reader' = rr_bits_per_pixel reader \<and> rr_width reader' = rr_width reader \<and>
     rr_total reader' = rr_total reader \<and> canvas reader' = execute (rr_width reader) i (canvas reader)"
  by (auto simp: perform_def with_canvas_def in_bounds_def canvas_def Let_def split: if_splits prod.splits)

section \<open>The decoding loop\<close>

text \<open>No operation gives back input, and an order takes at least its header.\<close>

lemma write_rest: "rdp_bitmap_rle_write_pixel v r = Inr r' \<Longrightarrow> rr_rest r' = rr_rest r"
  by (auto simp: write_put put_eq_Inr)

lemma writers_rest:
  "rdp_bitmap_rle_repeat v n r = Inr r' \<Longrightarrow> rr_rest r' = rr_rest r"
  "rdp_bitmap_rle_write_background n r = Inr r' \<Longrightarrow> rr_rest r' = rr_rest r"
  "rdp_bitmap_rle_write_foreground n r = Inr r' \<Longrightarrow> rr_rest r' = rr_rest r"
  "rle_dither v w n r = Inr r' \<Longrightarrow> rr_rest r' = rr_rest r"
  "rle_fgbg_bits m n b r = Inr r' \<Longrightarrow> rr_rest r' = rr_rest r"
  by (induction n arbitrary: r b) (auto simp: ebind_eq_Inr pbind_eq_Inr Let_def dest!: write_rest)

lemma readers_rest:
  "rdp_bitmap_rle_read_pixel r = Inr (v, r') \<Longrightarrow> length (rr_rest r') \<le> length (rr_rest r)"
  "rle_set_foreground r = Inr r' \<Longrightarrow> length (rr_rest r') \<le> length (rr_rest r)"
  "rdp_bitmap_rle_write_fgbg m n r = Inr r' \<Longrightarrow> rr_rest r' = rr_rest r"
  "rle_fgbg_byte n r = Inr r' \<Longrightarrow> length (rr_rest r') \<le> length (rr_rest r)"
  by (auto simp: read_pixel_iff rle_set_foreground_def rdp_bitmap_rle_write_fgbg_def rle_fgbg_byte_def ebind_eq_Inr
      writers_rest(5) split: if_splits list.splits)

lemma images_rest:
  "rle_color_image n r = Inr r' \<Longrightarrow> length (rr_rest r') \<le> length (rr_rest r)"
  "rle_fgbg_image run r = Inr r' \<Longrightarrow> length (rr_rest r') \<le> length (rr_rest r)"
proof -
  show "rle_color_image n r = Inr r' \<Longrightarrow> length (rr_rest r') \<le> length (rr_rest r)"
    by (induction n arbitrary: r) (fastforce simp: ebind_eq_Inr dest: write_rest readers_rest(1))+
  show "rle_fgbg_image run r = Inr r' \<Longrightarrow> length (rr_rest r') \<le> length (rr_rest r)"
    by (induction run r rule: rle_fgbg_image.induct)
      (subst (asm) (2) rle_fgbg_image.simps, fastforce simp: ebind_eq_Inr dest: readers_rest(4) split: if_splits)
qed

lemma take_length_rest: "rle_take_length c r = Inr (n, r') \<Longrightarrow> length (rr_rest r') < length (rr_rest r)"
  by (auto simp: rle_take_length_def rdp_bitmap_rle_run_length_def rle_short_length_def ebind_eq_Inr Let_def split: if_splits)

lemma round_consumes:
  assumes "rle_round r = Inr r'" "rr_rest r \<noteq> []"
  shows "length (rr_rest r') < length (rr_rest r)"
  using assms
  by (auto simp: rle_round_def rle_bg_order_def rle_order_def ebind_eq_Inr Let_def split: if_splits
      dest!: take_length_rest writers_rest readers_rest images_rest write_rest)

function rle_loop :: "rdp_bitmap_rle_reader \<Rightarrow> u32 list result" where
  "rle_loop reader =
     (if rr_rest reader = [] then
        if length (rr_pixels reader) = rr_total reader then Inr (rr_pixels reader) else protocol_error
      else case rle_round reader of Inl e \<Rightarrow> Inl e | Inr reader' \<Rightarrow> rle_loop reader')"
  by pat_completeness auto
termination
  by (relation "measure (\<lambda>reader. length (rr_rest reader))") (simp_all add: round_consumes)

declare rle_loop.simps [simp del]

definition rdp_bitmap_rle_decode_stream :: "u8 list \<Rightarrow> u16 \<Rightarrow> u16 \<Rightarrow> u16 \<Rightarrow> u32 list result" where
  "rdp_bitmap_rle_decode_stream data width height bits_per_pixel =
     (if width = 0 \<or> height = 0 \<or> rdp_bitmap_rle_bytes_per_pixel bits_per_pixel = 0 then invalid_argument
      else if unat width > SIZE_MAX div unat height then Inl LIBRDP_STATUS_NO_MEMORY
      else rle_loop
        \<lparr>rr_rest = data, rr_pixels = [], rr_total = unat width * unat height, rr_width = unat width,
         rr_bits_per_pixel = bits_per_pixel, rr_foreground = rdp_bitmap_rle_white bits_per_pixel,
         rr_insert_foreground = False\<rparr>)"

text \<open>The instructions of a stream, and the image they draw.\<close>

inductive stream_coded :: "u16 \<Rightarrow> rle_instruction list \<Rightarrow> u8 list \<Rightarrow> bool" for bpp where
  Nil: "stream_coded bpp [] []"
| Cons: "order_coded bpp i code \<Longrightarrow> stream_coded bpp is bs \<Longrightarrow> stream_coded bpp (i # is) (code @ bs)"

definition draw :: "nat \<Rightarrow> rle_instruction list \<Rightarrow> canvas \<Rightarrow> canvas" where
  "draw width is c = fold (execute width) is c"

lemma execute_grows: "length (fst c) \<le> length (fst (execute width i c))"
  by (cases "(width, i, c)" rule: execute.cases) (simp_all add: Let_def)

lemma draw_grows: "length (fst c) \<le> length (fst (draw width is c))"
proof (induction "is" arbitrary: c)
  case (Cons i "is")
  show ?case
    using Cons.IH [of "execute width i c"] execute_grows [of c width i] by (simp add: draw_def)
qed (simp add: draw_def)

lemma rle_loop_coded:
  "stream_coded bpp is bs \<Longrightarrow> rr_rest r = bs \<Longrightarrow> rr_bits_per_pixel r = bpp \<Longrightarrow> in_bounds r \<Longrightarrow>
     rle_loop r =
       (let pixels = fst (draw (rr_width r) is (canvas r)) in
        if length pixels = rr_total r then Inr pixels else protocol_error)"
proof (induction arbitrary: r rule: stream_coded.induct)
  case Nil
  then show ?case by (simp add: rle_loop.simps [of r] draw_def canvas_def)
next
  case (Cons i code "is" bs)
  let ?r = "r\<lparr>rr_rest := bs\<rparr>"
  have round: "rle_loop r = (case perform i ?r of Inl e \<Rightarrow> Inl e | Inr r' \<Rightarrow> rle_loop r')"
    using Cons coded_nonempty [OF Cons(1)] round_coded [of r i code bs] by (subst rle_loop.simps) simp
  have draw: "draw (rr_width r) (i # is) (canvas r) = draw (rr_width r) is (execute (rr_width r) i (canvas ?r))"
    by (simp add: draw_def canvas_def)
  show ?case
  proof (cases "perform i ?r")
    case (Inl e)
    then show ?thesis
      using draw_grows [of "execute (rr_width r) i (canvas ?r)" "rr_width r" "is"]
      by (auto simp: round draw perform_def Let_def split: if_splits)
  next
    case (Inr r')
    with perform_fields [OF this] Cons.IH [of r'] Cons.prems show ?thesis by (simp add: round draw)
  qed
qed

lemma rle_loop_accepts:
  "rle_loop r = Inr pixels \<Longrightarrow> in_bounds r \<Longrightarrow> \<exists>is. stream_coded (rr_bits_per_pixel r) is (rr_rest r)"
proof (induction r rule: rle_loop.induct)
  case (1 r)
  show ?case
  proof (cases "rr_rest r = []")
    case True
    then show ?thesis by (auto intro: stream_coded.intros)
  next
    case False
    with 1(2) obtain r' where r': "rle_round r = Inr r'" "rle_loop r' = Inr pixels"
      by (auto simp: rle_loop.simps [of r] split: sum.splits)
    from round_prefix [OF r'(1) 1(3) False] obtain i code rest where
      i: "order_coded (rr_bits_per_pixel r) i code" "rr_rest r = code @ rest" by (auto simp: coded_prefix_def)
    have "perform i (r\<lparr>rr_rest := rest\<rparr>) = Inr r'" using round_coded [OF i(1) 1(3) i(2)] r'(1) by simp
    from perform_fields [OF this] 1(1) [OF False r'] i show ?thesis by (auto intro: stream_coded.Cons)
  qed
qed

text \<open>
  C17. The run-length decoder is exact. It accepts its input with an image as result if and only if the input is a sequence of encodings of
  orders, and drawing these orders one after the other gives the image, of exactly width times height pixels. An order paints bits over
  the line above in the foreground colour, literal colours, or a background run, which starts with one
  foreground pixel when it follows another; an order that sets the colour leaves it set. The encodings are given by a table of header ranges and
  long forms. The decoder ends on every input, and every other input is an error.
\<close>

theorem bitmap_rle_exact:
  "rdp_bitmap_rle_decode_stream data width height bpp = Inr pixels \<longleftrightarrow>
     width \<noteq> 0 \<and> height \<noteq> 0 \<and> rdp_bitmap_rle_bytes_per_pixel bpp \<noteq> 0 \<and>
     (\<exists>is. stream_coded bpp is data \<and>
        pixels = fst (draw (unat width) is ([], rdp_bitmap_rle_white bpp, False)) \<and>
        length pixels = unat width * unat height)"
  (is "?decoded \<longleftrightarrow> ?coded")
proof -
  have "unat width * unat height \<le> SIZE_MAX"
    using mult_le_mono [of "unat width" 65535 "unat height" 65535] unat_bounds(2) [of width] unat_bounds(2) [of height]
    by (simp add: SIZE_MAX_def)
  then have fits: "height \<noteq> 0 \<Longrightarrow> unat width \<le> SIZE_MAX div unat height"
    by (simp add: less_eq_div_iff_mult_less_eq unat_gt_0)
  let ?r = "\<lparr>rr_rest = data, rr_pixels = [], rr_total = unat width * unat height, rr_width = unat width,
         rr_bits_per_pixel = bpp, rr_foreground = rdp_bitmap_rle_white bpp, rr_insert_foreground = False\<rparr>"
  have "in_bounds ?r" by (simp add: in_bounds_def)
  then have "rle_loop ?r = Inr pixels \<longleftrightarrow> (\<exists>is. stream_coded bpp is data \<and>
        pixels = fst (draw (unat width) is ([], rdp_bitmap_rle_white bpp, False)) \<and>
        length pixels = unat width * unat height)"
    using rle_loop_accepts [of ?r pixels] rle_loop_coded [of bpp _ data ?r]
    by (fastforce simp: canvas_def Let_def split: if_splits)
  then show ?thesis
    using fits by (auto simp: rdp_bitmap_rle_decode_stream_def)
qed

end
