(* ===== verification/Bitmap_Decode.thy ===== *)
theory Bitmap_Decode
  imports Bitmap_Rle
begin

text \<open>
  The conversion of bitmap rectangles to BGRA, the last part of \<^verbatim>\<open>src/src/graphics/bitmap.c\<close>. A loop over pixels
  returns its status with the bytes it has stored, so that what an error leaves in the output buffer is visible.
\<close>

section \<open>Pixels\<close>

definition rdp_scale_5_to_8 :: "u16 \<Rightarrow> u8" where
  "rdp_scale_5_to_8 v = of_nat ((unat v * 255 + 15) div 31)"

definition rdp_scale_6_to_8 :: "u16 \<Rightarrow> u8" where
  "rdp_scale_6_to_8 v = of_nat ((unat v * 255 + 31) div 63)"

definition rdp_bitmap_indexed_pixel_to_bgra :: "u32 \<Rightarrow> rdp_palette_update option \<Rightarrow> librdp_status \<times> u8 list" where
  "rdp_bitmap_indexed_pixel_to_bgra pixel palette =
     (case palette of
        None \<Rightarrow> (LIBRDP_STATUS_PROTOCOL_ERROR, [])
      | Some palette \<Rightarrow>
          if pixel \<ge> pu_count palette then (LIBRDP_STATUS_PROTOCOL_ERROR, [])
          else let entry = pu_entries palette ! unat pixel in
            (LIBRDP_STATUS_OK, [pa_blue entry, pa_green entry, pa_red entry, 0xff]))"

definition bgra_555 :: "u16 \<Rightarrow> u8 list" where
  "bgra_555 pixel =
     [rdp_scale_5_to_8 (pixel AND 0x001f), rdp_scale_5_to_8 (drop_bit 5 pixel AND 0x001f),
      rdp_scale_5_to_8 (drop_bit 10 pixel AND 0x001f), 0xff]"

definition bgra_565 :: "u16 \<Rightarrow> u8 list" where
  "bgra_565 pixel =
     [rdp_scale_5_to_8 (pixel AND 0x001f), rdp_scale_6_to_8 (drop_bit 5 pixel AND 0x003f),
      rdp_scale_5_to_8 (drop_bit 11 pixel AND 0x001f), 0xff]"

definition rdp_bitmap_raw_pixel_to_bgra :: "u32 \<Rightarrow> u16 \<Rightarrow> rdp_palette_update option \<Rightarrow> librdp_status \<times> u8 list" where
  "rdp_bitmap_raw_pixel_to_bgra pixel bits_per_pixel palette =
     (if bits_per_pixel = 8 then rdp_bitmap_indexed_pixel_to_bgra pixel palette
      else if bits_per_pixel = 15 then
        (LIBRDP_STATUS_OK,
         [rdp_scale_5_to_8 (ucast (pixel AND 0x001f)), rdp_scale_5_to_8 (ucast (drop_bit 5 pixel AND 0x001f)),
          rdp_scale_5_to_8 (ucast (drop_bit 10 pixel AND 0x001f)), 0xff])
      else if bits_per_pixel = 16 then
        (LIBRDP_STATUS_OK,
         [rdp_scale_5_to_8 (ucast (pixel AND 0x001f)), rdp_scale_6_to_8 (ucast (drop_bit 5 pixel AND 0x003f)),
          rdp_scale_5_to_8 (ucast (drop_bit 11 pixel AND 0x001f)), 0xff])
      else
        (LIBRDP_STATUS_OK,
         [ucast (pixel AND 0xff), ucast (drop_bit 8 pixel AND 0xff), ucast (drop_bit 16 pixel AND 0xff), 0xff]))"

text \<open>A loop that stops at the first error, with the bytes stored until then.\<close>

fun store_all :: "('a \<Rightarrow> librdp_status \<times> u8 list) \<Rightarrow> 'a list \<Rightarrow> librdp_status \<times> u8 list" where
  "store_all f [] = (LIBRDP_STATUS_OK, [])"
| "store_all f (x # xs) =
     (case f x of (status, bs) \<Rightarrow>
        if status \<noteq> LIBRDP_STATUS_OK then (status, bs)
        else case store_all f xs of (status, cs) \<Rightarrow> (status, bs @ cs))"

text \<open>The output buffer is made large enough, gets its length, and its bytes are stored from the first one on.\<close>

definition store_output :: "nat \<Rightarrow> librdp_status \<times> u8 list \<Rightarrow> nat \<Rightarrow>
    rdp_buffer \<times> nat \<times> mem \<Rightarrow> librdp_status \<times> rdp_buffer \<times> nat \<times> mem" where
  "store_output dst_size written dst_stride = (\<lambda>(out, stride, m).
     case rdp_buffer_reserve dst_size (out, m) of (status, out, m) \<Rightarrow>
       if status \<noteq> LIBRDP_STATUS_OK then (status, out, stride, m)
       else
         let out = buf_overwrite 0 (snd written) (out\<lparr>buf_length := dst_size\<rparr>) in
         (fst written, out, if fst written = LIBRDP_STATUS_OK then dst_stride else stride, m))"

section \<open>Compressed rectangles\<close>

definition rdp_bitmap_compressed_payload :: "rdp_bitmap_rect \<Rightarrow> u8 list result" where
  "rdp_bitmap_compressed_payload rect =
     (if br_flags rect AND RDP_BITMAP_FLAG_NO_COMPRESSION_HEADER \<noteq> 0 then Inr (br_data rect)
      else if length (br_data rect) < 8 then protocol_error
      else
        let body_len = le16 (br_data rect ! 2) (br_data rect ! 3);
            body_len = (if body_len = 0 then of_nat (length (br_data rect) - 8) else body_len) in
        if unat body_len > length (br_data rect) - 8 then protocol_error
        else Inr (take (unat body_len) (drop 8 (br_data rect))))"

definition rle_depth :: "u16 \<Rightarrow> bool" where
  "rle_depth bpp \<longleftrightarrow> bpp = 8 \<or> bpp = 15 \<or> bpp = 16 \<or> bpp = 24 \<or> bpp = 32"

definition rdp_bitmap_decode_compressed_bgra32 :: "rdp_bitmap_rect \<Rightarrow> rdp_palette_update option \<Rightarrow>
    rdp_buffer \<times> nat \<times> mem \<Rightarrow> librdp_status \<times> rdp_buffer \<times> nat \<times> mem" where
  "rdp_bitmap_decode_compressed_bgra32 rect palette = (\<lambda>(out, stride, m).
     let width = unat (br_width rect); height = unat (br_height rect); bpp = br_bits_per_pixel rect;
         dst_stride = width * 4 in
     if br_flags rect AND NOT (RDP_BITMAP_FLAG_COMPRESSED OR RDP_BITMAP_FLAG_NO_COMPRESSION_HEADER) \<noteq> 0
     then (LIBRDP_STATUS_PROTOCOL_ERROR, out, stride, m)
     else if width = 0 \<or> height = 0 \<or> \<not> rle_depth bpp then (LIBRDP_STATUS_PROTOCOL_ERROR, out, stride, m)
     else if bpp = 8 \<and> palette = None then (LIBRDP_STATUS_STATE, out, stride, m)
     else if width > SIZE_MAX div height then (LIBRDP_STATUS_NO_MEMORY, out, stride, m)
     else if width * height > SIZE_MAX div 4 then (LIBRDP_STATUS_NO_MEMORY, out, stride, m)
     else if height > SIZE_MAX div dst_stride then (LIBRDP_STATUS_NO_MEMORY, out, stride, m)
     else
       case rdp_bitmap_compressed_payload rect of
         Inl e \<Rightarrow> (e, out, stride, m)
       | Inr payload \<Rightarrow>
           (case alloc m of
              (None, m) \<Rightarrow> (LIBRDP_STATUS_NO_MEMORY, out, stride, m)
            | (Some _, m) \<Rightarrow>
                (case rdp_bitmap_rle_decode_stream payload (br_width rect) (br_height rect) bpp of
                   Inl e \<Rightarrow> (e, out, stride, m)
                 | Inr pixels \<Rightarrow>
                     store_output (dst_stride * height)
                       (store_all (\<lambda>pixel. rdp_bitmap_raw_pixel_to_bgra pixel bpp palette) pixels)
                       dst_stride (out, stride, m))))"

section \<open>Raw rectangles\<close>

definition rdp_bitmap_stride_aligned :: "nat \<Rightarrow> nat \<Rightarrow> nat option" where
  "rdp_bitmap_stride_aligned stride alignment =
     (if alignment = 0 then None
      else
        let remainder = stride mod alignment in
        if remainder = 0 then Some stride
        else if stride > SIZE_MAX - (alignment - remainder) then None
        else Some (stride + alignment - remainder))"

definition raw_depth :: "u16 \<Rightarrow> bool" where
  "raw_depth bpp \<longleftrightarrow> bpp = 1 \<or> bpp = 4 \<or> rle_depth bpp"

text \<open>The bytes of one destination row.\<close>

definition row_pixel :: "u16 \<Rightarrow> rdp_palette_update option \<Rightarrow> u8 list \<Rightarrow> nat \<Rightarrow> librdp_status \<times> u8 list" where
  "row_pixel bpp palette src column =
     (if bpp = 1 then
        rdp_bitmap_indexed_pixel_to_bgra (drop_bit (7 - column mod 8) (ucast (src ! (column div 8))) AND 1) palette
      else if bpp = 4 then
        let packed = src ! (column div 2) in
        rdp_bitmap_indexed_pixel_to_bgra
          (if odd column then ucast (packed AND 0x0f) else ucast (drop_bit 4 packed)) palette
      else if bpp = 8 then rdp_bitmap_indexed_pixel_to_bgra (ucast (src ! column)) palette
      else if bpp = 24 then
        (LIBRDP_STATUS_OK, [src ! (column * 3), src ! (column * 3 + 1), src ! (column * 3 + 2), 0xff])
      else if bpp = 16 then (LIBRDP_STATUS_OK, bgra_565 (le16 (src ! (column * 2)) (src ! (column * 2 + 1))))
      else (LIBRDP_STATUS_OK, bgra_555 (le16 (src ! (column * 2)) (src ! (column * 2 + 1)))))"

definition rect_row :: "rdp_bitmap_rect \<Rightarrow> rdp_palette_update option \<Rightarrow> nat \<Rightarrow> nat \<Rightarrow> librdp_status \<times> u8 list" where
  "rect_row rect palette src_stride row =
     (let src = drop ((unat (br_height rect) - 1 - row) * src_stride) (br_data rect); width = unat (br_width rect) in
      if br_bits_per_pixel rect = 32 then (LIBRDP_STATUS_OK, take (width * 4) src)
      else store_all (row_pixel (br_bits_per_pixel rect) palette src) [0..<width])"

definition rect_stride :: "rdp_bitmap_rect \<Rightarrow> nat result" where
  "rect_stride rect =
     (let width = unat (br_width rect); bpp = br_bits_per_pixel rect;
          bytes_per_pixel = (if bpp = 15 then 2 else unat bpp div 8) in
      if bpp = 1 then Inr ((width + 7) div 8)
      else if bpp = 4 then Inr ((width + 1) div 2)
      else if width > SIZE_MAX div bytes_per_pixel then invalid_argument
      else Inr (width * bytes_per_pixel))"

definition rdp_bitmap_decode_rect_bgra32_with_palette :: "rdp_bitmap_rect \<Rightarrow> rdp_palette_update option \<Rightarrow>
    rdp_buffer \<times> nat \<times> mem \<Rightarrow> librdp_status \<times> rdp_buffer \<times> nat \<times> mem" where
  "rdp_bitmap_decode_rect_bgra32_with_palette rect palette = (\<lambda>(out, stride, m).
     let width = unat (br_width rect); height = unat (br_height rect); bpp = br_bits_per_pixel rect;
         data_len = length (br_data rect); dst_stride = width * 4 in
     if br_flags rect AND RDP_BITMAP_FLAG_COMPRESSED \<noteq> 0
     then rdp_bitmap_decode_compressed_bgra32 rect palette (out, stride, m)
     else if br_flags rect \<noteq> 0 \<or> \<not> raw_depth bpp then (LIBRDP_STATUS_PROTOCOL_ERROR, out, stride, m)
     else if (bpp = 1 \<or> bpp = 4 \<or> bpp = 8) \<and> palette = None then (LIBRDP_STATUS_STATE, out, stride, m)
     else if width = 0 \<or> height = 0 then (LIBRDP_STATUS_PROTOCOL_ERROR, out, stride, m)
     else
       case rect_stride rect of
         Inl e \<Rightarrow> (e, out, stride, m)
       | Inr src_stride \<Rightarrow>
           (case rdp_bitmap_stride_aligned src_stride 4 of
              None \<Rightarrow> (LIBRDP_STATUS_INVALID_ARGUMENT, out, stride, m)
            | Some aligned_src_stride \<Rightarrow>
                if height > SIZE_MAX div src_stride then (LIBRDP_STATUS_INVALID_ARGUMENT, out, stride, m)
                else if data_len < src_stride * height then (LIBRDP_STATUS_PROTOCOL_ERROR, out, stride, m)
                else
                  let src_stride =
                        (if aligned_src_stride > src_stride \<and> height \<le> SIZE_MAX div aligned_src_stride \<and>
                            data_len \<ge> aligned_src_stride * height
                         then aligned_src_stride else src_stride) in
                  if height > SIZE_MAX div dst_stride then (LIBRDP_STATUS_INVALID_ARGUMENT, out, stride, m)
                  else store_output (dst_stride * height) (store_all (rect_row rect palette src_stride) [0..<height])
                    dst_stride (out, stride, m)))"

definition rdp_bitmap_decode_rect_bgra32 :: "rdp_bitmap_rect \<Rightarrow>
    rdp_buffer \<times> nat \<times> mem \<Rightarrow> librdp_status \<times> rdp_buffer \<times> nat \<times> mem" where
  "rdp_bitmap_decode_rect_bgra32 rect = rdp_bitmap_decode_rect_bgra32_with_palette rect None"

section \<open>What the decoders store\<close>

lemma store_all_OK:
  "(\<forall>x \<in> set xs. fst (f x) = LIBRDP_STATUS_OK) \<Longrightarrow> store_all f xs = (LIBRDP_STATUS_OK, concat (map (snd \<circ> f) xs))"
  by (induction xs) (auto split: prod.splits)

lemma store_all_inv:
  "store_all f xs = (LIBRDP_STATUS_OK, bs) \<Longrightarrow>
     (\<forall>x \<in> set xs. fst (f x) = LIBRDP_STATUS_OK) \<and> bs = concat (map (snd \<circ> f) xs)"
proof (induction xs arbitrary: bs)
  case (Cons x xs)
  then show ?case by (cases "f x"; cases "store_all f xs") (auto split: if_splits)
qed simp

lemma store_output_OK:
  assumes ok: "buf_ok out" and run: "store_output n (LIBRDP_STATUS_OK, bs) st (out, stride, m) = (LIBRDP_STATUS_OK, b, stride', m')"
    and len: "length bs = n"
  shows "buf_ok b" "contents b = bs" "stride' = st"
proof -
  obtain status out' m1 where res: "rdp_buffer_reserve n (out, m) = (status, out', m1)" by (rule prod_cases3)
  with run have status: "status = LIBRDP_STATUS_OK" by (auto simp: store_output_def split: if_splits)
  note r = reserve_spec [OF ok res]
  have cap: "n \<le> buf_capacity out'" using r(4) [OF status] by simp
  let ?b = "out'\<lparr>buf_length := n\<rparr>"
  have "buf_ok ?b" using r(1) cap by (auto simp: buf_ok_def rdp_buffer_state_valid_def block_def)
  from buf_overwrite_ok [OF this, of 0 bs] len run res status cap
  show "buf_ok b" "contents b = bs" "stride' = st"
    by (auto simp: store_output_def contents_def)
qed

lemma store_output_fits:
  assumes "buf_ok out" "n \<le> 2 ^ 63"
  obtains b where "store_output n (LIBRDP_STATUS_OK, bs) st (out, stride, []) = (LIBRDP_STATUS_OK, b, st, [])"
  using reserve_succeeds [OF assms] by (auto simp: store_output_def)

lemma stored_ok:
  assumes "buf_ok out" "length bs = n" "n \<le> 2 ^ 63"
  shows "\<exists>b. store_output n (LIBRDP_STATUS_OK, bs) st (out, stride, []) = (LIBRDP_STATUS_OK, b, st, []) \<and>
    buf_ok b \<and> contents b = bs"
  using store_output_fits [OF assms(1,3), of bs st stride] store_output_OK [OF assms(1) _ assms(2)] by metis

text \<open>A rectangle of 32 bits per pixel: its rows in reverse order.\<close>

definition rows_of :: "nat \<Rightarrow> nat \<Rightarrow> 'a list \<Rightarrow> 'a list list" where
  "rows_of n rows xs = map (\<lambda>row. take n (drop (row * n) xs)) [0..<rows]"

lemma rows_of_Suc: "rows_of n (Suc rows) xs = take n xs # rows_of n rows (drop n xs)"
proof -
  have "[0..<Suc rows] = 0 # map Suc [0..<rows]" by (simp add: map_Suc_upt upt_conv_Cons)
  then show ?thesis by (simp add: rows_of_def o_def add.commute del: upt_Suc)
qed

lemma rows_concat: "length xs = rows * n \<Longrightarrow> concat (rows_of n rows xs) = xs"
proof (induction rows arbitrary: xs)
  case (Suc rows)
  then show ?case by (simp add: rows_of_Suc)
qed (simp add: rows_of_def)

lemma length_concat_rev: "length (concat (rev xss)) = length (concat xss)"
  by (simp add: length_concat rev_map [symmetric])

lemma rows_of_rev: "map (\<lambda>row. take n (drop ((rows - 1 - row) * n) xs)) [0..<rows] = rev (rows_of n rows xs)"
  by (rule nth_equalityI) (simp_all add: rows_of_def rev_nth)

lemma aligned_multiple: "n mod 4 = 0 \<Longrightarrow> rdp_bitmap_stride_aligned n 4 = Some n"
  by (simp add: rdp_bitmap_stride_aligned_def)

lemma decode_rect_32:
  assumes rect: "br_flags rect = 0" "br_bits_per_pixel rect = 32" "br_width rect \<noteq> 0" "br_height rect \<noteq> 0"
    and data: "length (br_data rect) = unat (br_height rect) * (unat (br_width rect) * 4)" and ok: "buf_ok out"
  obtains b where "rdp_bitmap_decode_rect_bgra32_with_palette rect palette (out, stride, []) =
      (LIBRDP_STATUS_OK, b, unat (br_width rect) * 4, [])" "buf_ok b"
    "contents b = concat (rev (rows_of (unat (br_width rect) * 4) (unat (br_height rect)) (br_data rect)))"
proof -
  let ?w = "unat (br_width rect)" and ?h = "unat (br_height rect)"
  let ?bs = "concat (rev (rows_of (?w * 4) ?h (br_data rect)))"
  have pos: "0 < ?w" "0 < ?h" using rect(3,4) by (simp_all add: unat_gt_0)
  have le: "?w * 4 * ?h \<le> 2 ^ 34"
    using mult_le_mono [of ?w 65535 ?h 65535] unat_bounds(2) [of "br_width rect"] unat_bounds(2) [of "br_height rect"]
    by (simp add: mult.commute)
  then have fits: "?h \<le> SIZE_MAX div (?w * 4)" "?w \<le> SIZE_MAX div 4"
    using pos by (simp_all add: less_eq_div_iff_mult_less_eq SIZE_MAX_def mult.commute) (use unat_bounds(2) [of "br_width rect"] in simp)
  have rows: "store_all (rect_row rect palette (?w * 4)) [0..<?h] = (LIBRDP_STATUS_OK, ?bs)"
    using store_all_OK [of "[0..<?h]" "rect_row rect palette (?w * 4)"] rows_of_rev [of "?w * 4" ?h "br_data rect"]
    by (simp add: rect_row_def rect(2) Let_def o_def)
  have len: "length ?bs = ?w * 4 * ?h"
    using rows_concat [OF data] data length_concat_rev [of "rows_of (?w * 4) ?h (br_data rect)"]
    by (simp del: length_concat)
  have decode: "rdp_bitmap_decode_rect_bgra32_with_palette rect palette (out, stride, []) =
      store_output (?w * 4 * ?h) (LIBRDP_STATUS_OK, ?bs) (?w * 4) (out, stride, [])"
    using pos fits data rows rect(1,2)
    by (simp add: rdp_bitmap_decode_rect_bgra32_with_palette_def raw_depth_def rle_depth_def rect_stride_def aligned_multiple
        Let_def mult.commute)
  have "?w * 4 * ?h \<le> 2 ^ 63" by (rule le [THEN le_trans]) simp
  from stored_ok [OF ok len this] decode that show ?thesis by metis
qed

subsection \<open>Sizes\<close>

definition stores :: "nat \<Rightarrow> librdp_status \<times> u8 list \<Rightarrow> bool" where
  "stores n r \<longleftrightarrow> length (snd r) \<le> n \<and> (fst r = LIBRDP_STATUS_OK \<longrightarrow> length (snd r) = n)"

lemma store_all_stores: "(\<forall>x \<in> set xs. stores k (f x)) \<Longrightarrow> stores (k * length xs) (store_all f xs)"
proof (induction xs)
  case (Cons x xs)
  then show ?case by (cases "f x"; cases "store_all f xs") (auto simp: stores_def)
qed (simp add: stores_def)

lemma pixel_stores:
  "stores 4 (rdp_bitmap_indexed_pixel_to_bgra v palette)"
  "stores 4 (rdp_bitmap_raw_pixel_to_bgra v bpp palette)"
  "stores 4 (row_pixel bpp palette src column)"
proof -
  show index: "stores 4 (rdp_bitmap_indexed_pixel_to_bgra v palette)" for v
    by (simp add: rdp_bitmap_indexed_pixel_to_bgra_def stores_def Let_def split: option.splits)
  show "stores 4 (rdp_bitmap_raw_pixel_to_bgra v bpp palette)"
    using index by (auto simp: rdp_bitmap_raw_pixel_to_bgra_def) (simp_all add: stores_def)
  show "stores 4 (row_pixel bpp palette src column)"
    using index by (auto simp: row_pixel_def Let_def) (simp_all add: stores_def bgra_565_def bgra_555_def)
qed

lemma row_stores:
  assumes "unat (br_height rect) * s \<le> length (br_data rect)" "row < unat (br_height rect)"
    and "br_bits_per_pixel rect = 32 \<Longrightarrow> unat (br_width rect) * 4 \<le> s"
  shows "stores (4 * unat (br_width rect)) (rect_row rect palette s row)"
proof (cases "br_bits_per_pixel rect = 32")
  case True
  have "Suc (unat (br_height rect) - 1 - row) \<le> unat (br_height rect)" using assms(2) by simp
  from mult_le_mono1 [OF this, of s]
  have "(unat (br_height rect) - 1 - row) * s + s \<le> unat (br_height rect) * s" by simp
  with True assms show ?thesis by (simp add: rect_row_def stores_def Let_def mult.commute)
next
  case False
  then show ?thesis
    using store_all_stores [of "[0..<unat (br_width rect)]" 4] pixel_stores(3)
    by (simp add: rect_row_def Let_def)
qed

lemma store_output_bounds:
  assumes ok: "buf_ok out" and stored: "stores n r"
    and run: "store_output n r st (out, stride, m) = (status, b, stride', m')"
  shows "buf_ok b" "status = LIBRDP_STATUS_OK \<Longrightarrow> length (contents b) = n \<and> stride' = st"
    "status \<noteq> LIBRDP_STATUS_OK \<Longrightarrow> stride' = stride"
proof -
  obtain status1 out' m1 where res: "rdp_buffer_reserve n (out, m) = (status1, out', m1)" by (rule prod_cases3)
  note r = reserve_spec [OF ok res]
  have "buf_ok b \<and> (status = LIBRDP_STATUS_OK \<longrightarrow> length (contents b) = n \<and> stride' = st) \<and>
      (status \<noteq> LIBRDP_STATUS_OK \<longrightarrow> stride' = stride)"
  proof (cases "status1 = LIBRDP_STATUS_OK")
    case False
    with run res r(1) show ?thesis by (auto simp: store_output_def)
  next
    case True
    have cap: "n \<le> buf_capacity out'" using r(4) [OF True] by simp
    have "buf_ok (out'\<lparr>buf_length := n\<rparr>)" using r(1) cap by (auto simp: buf_ok_def rdp_buffer_state_valid_def block_def)
    from buf_overwrite_ok [OF this, of 0 "snd r"] stored run res True cap show ?thesis
      by (auto simp: store_output_def stores_def contents_def buf_ok_def)
  qed
  then show "buf_ok b" "status = LIBRDP_STATUS_OK \<Longrightarrow> length (contents b) = n \<and> stride' = st"
    "status \<noteq> LIBRDP_STATUS_OK \<Longrightarrow> stride' = stride" by simp_all
qed

lemma rle_decode_length:
  assumes "rdp_bitmap_rle_decode_stream data width height bpp = Inr pixels"
  shows "length pixels = unat width * unat height"
proof -
  obtain r where r: "rle_loop r = Inr pixels" "in_bounds r" "rr_total r = unat width * unat height"
    using assms by (auto simp: rdp_bitmap_rle_decode_stream_def in_bounds_def split: if_splits)
  from rle_loop_accepts [OF r(1,2)] obtain "is" where "stream_coded (rr_bits_per_pixel r) is (rr_rest r)" by blast
  from rle_loop_coded [OF this refl refl r(2)] r show ?thesis
    by (auto simp: Let_def split: if_splits)
qed

text \<open>The parts fail with an error, never with the status of success.\<close>

lemma rle_write_error: "rdp_bitmap_rle_write_pixel v r = Inl e \<Longrightarrow> e = LIBRDP_STATUS_PROTOCOL_ERROR"
  by (auto simp: rdp_bitmap_rle_write_pixel_def split: if_splits)

lemma rle_writers_error:
  "rdp_bitmap_rle_repeat v n r = Inl e \<Longrightarrow> e = LIBRDP_STATUS_PROTOCOL_ERROR"
  "rdp_bitmap_rle_write_background n r = Inl e \<Longrightarrow> e = LIBRDP_STATUS_PROTOCOL_ERROR"
  "rdp_bitmap_rle_write_foreground n r = Inl e \<Longrightarrow> e = LIBRDP_STATUS_PROTOCOL_ERROR"
  "rle_dither v w n r = Inl e \<Longrightarrow> e = LIBRDP_STATUS_PROTOCOL_ERROR"
  "rle_fgbg_bits b n k r = Inl e \<Longrightarrow> e = LIBRDP_STATUS_PROTOCOL_ERROR"
  by (induction n arbitrary: r k) (auto simp: ebind_eq_Inl pbind_def Let_def dest: rle_write_error split: sum.splits)

lemma rle_readers_error:
  "rdp_bitmap_rle_read_pixel r = Inl e \<Longrightarrow> e = LIBRDP_STATUS_PROTOCOL_ERROR"
  "rle_set_foreground r = Inl e \<Longrightarrow> e = LIBRDP_STATUS_PROTOCOL_ERROR"
  "rdp_bitmap_rle_write_fgbg b n r = Inl e \<Longrightarrow> e = LIBRDP_STATUS_PROTOCOL_ERROR"
  "rle_fgbg_byte n r = Inl e \<Longrightarrow> e = LIBRDP_STATUS_PROTOCOL_ERROR"
  "rle_take_length c r = Inl e \<Longrightarrow> e = LIBRDP_STATUS_PROTOCOL_ERROR"
  by (auto simp: rdp_bitmap_rle_read_pixel_def rle_set_foreground_def rdp_bitmap_rle_write_fgbg_def rle_fgbg_byte_def
      rle_take_length_def rdp_bitmap_rle_run_length_def rle_short_length_def ebind_eq_Inl Let_def rle_writers_error
      split: if_splits list.splits)

lemma rle_images_error:
  "rle_color_image n r = Inl e \<Longrightarrow> e = LIBRDP_STATUS_PROTOCOL_ERROR"
  "rle_fgbg_image run r = Inl e \<Longrightarrow> e = LIBRDP_STATUS_PROTOCOL_ERROR"
proof -
  show "rle_color_image n r = Inl e \<Longrightarrow> e = LIBRDP_STATUS_PROTOCOL_ERROR"
    by (induction n arbitrary: r) (auto simp: ebind_eq_Inl dest: rle_write_error rle_readers_error(1))
  show "rle_fgbg_image run r = Inl e \<Longrightarrow> e = LIBRDP_STATUS_PROTOCOL_ERROR"
    by (induction run r rule: rle_fgbg_image.induct)
      (subst (asm) (2) rle_fgbg_image.simps, auto simp: ebind_eq_Inl dest: rle_readers_error(4) split: if_splits)
qed

lemma rle_round_error: "rle_round r = Inl e \<Longrightarrow> e = LIBRDP_STATUS_PROTOCOL_ERROR"
  by (auto simp: rle_round_def rle_bg_order_def rle_order_def ebind_eq_Inl Let_def split: if_splits
      dest: rle_readers_error rle_writers_error rle_images_error rle_write_error)

lemma rle_decode_error: "rdp_bitmap_rle_decode_stream data w h bpp = Inl e \<Longrightarrow> e \<noteq> LIBRDP_STATUS_OK"
proof -
  have "rle_loop r = Inl e \<Longrightarrow> e = LIBRDP_STATUS_PROTOCOL_ERROR" for r
    by (induction r rule: rle_loop.induct)
      (subst (asm) (2) rle_loop.simps, auto dest: rle_round_error split: if_splits sum.splits)
  then show "rdp_bitmap_rle_decode_stream data w h bpp = Inl e \<Longrightarrow> e \<noteq> LIBRDP_STATUS_OK"
    by (auto simp: rdp_bitmap_rle_decode_stream_def split: if_splits)
qed

lemma rect_error:
  "rect_stride rect \<noteq> Inl LIBRDP_STATUS_OK" "rdp_bitmap_compressed_payload rect \<noteq> Inl LIBRDP_STATUS_OK"
  "rdp_bitmap_rle_decode_stream data w h bpp \<noteq> Inl LIBRDP_STATUS_OK"
  by (auto simp: rect_stride_def rdp_bitmap_compressed_payload_def Let_def dest: rle_decode_error split: if_splits)

lemma compressed_bounds:
  assumes ok: "buf_ok out"
    and run: "rdp_bitmap_decode_compressed_bgra32 rect palette (out, stride, m) = (status, b, stride', m')"
  shows "buf_ok b \<and>
    (status = LIBRDP_STATUS_OK \<longrightarrow>
       length (contents b) = unat (br_width rect) * 4 * unat (br_height rect) \<and> stride' = unat (br_width rect) * 4) \<and>
    (status \<noteq> LIBRDP_STATUS_OK \<longrightarrow> stride' = stride)"
proof (cases "status = LIBRDP_STATUS_OK \<or> stride' \<noteq> stride \<or> b \<noteq> out")
  case True
  let ?n = "unat (br_width rect) * 4 * unat (br_height rect)"
  let ?f = "\<lambda>pixel. rdp_bitmap_raw_pixel_to_bgra pixel (br_bits_per_pixel rect) palette"
  from True run obtain payload pixels m1 where
    pixels: "rdp_bitmap_rle_decode_stream payload (br_width rect) (br_height rect) (br_bits_per_pixel rect) = Inr pixels"
    and stored: "store_output ?n (store_all ?f pixels) (unat (br_width rect) * 4) (out, stride, m1) = (status, b, stride', m')"
    by (auto simp: rdp_bitmap_decode_compressed_bgra32_def Let_def rect_error split: if_splits sum.splits prod.splits option.splits)
  have "stores ?n (store_all ?f pixels)"
    using store_all_stores [of pixels 4 ?f] pixel_stores(2) rle_decode_length [OF pixels] by (simp add: mult_ac)
  from store_output_bounds [OF ok this stored] show ?thesis by simp
qed (use ok in auto)

lemma aligned_ge: "rdp_bitmap_stride_aligned s 4 = Some a \<Longrightarrow> s \<le> a"
  by (auto simp: rdp_bitmap_stride_aligned_def Let_def split: if_splits)

lemma raw_bounds:
  assumes ok: "buf_ok out" and raw: "br_flags rect AND RDP_BITMAP_FLAG_COMPRESSED = 0"
    and run: "rdp_bitmap_decode_rect_bgra32_with_palette rect palette (out, stride, m) = (status, b, stride', m')"
  shows "buf_ok b \<and>
    (status = LIBRDP_STATUS_OK \<longrightarrow>
       length (contents b) = unat (br_width rect) * 4 * unat (br_height rect) \<and> stride' = unat (br_width rect) * 4) \<and>
    (status \<noteq> LIBRDP_STATUS_OK \<longrightarrow> stride' = stride)"
proof (cases "status = LIBRDP_STATUS_OK \<or> stride' \<noteq> stride \<or> b \<noteq> out")
  case True
  let ?n = "unat (br_width rect) * 4 * unat (br_height rect)"
  from True run raw obtain s0 a where s0: "rect_stride rect = Inr s0" "s0 * unat (br_height rect) \<le> length (br_data rect)"
    and a: "rdp_bitmap_stride_aligned s0 4 = Some a"
    by (auto simp: rdp_bitmap_decode_rect_bgra32_with_palette_def Let_def not_less rect_error
        split: if_splits sum.splits option.splits)
  define s where "s = (if a > s0 \<and> unat (br_height rect) \<le> SIZE_MAX div a \<and> a * unat (br_height rect) \<le> length (br_data rect)
    then a else s0)"
  have stored: "store_output ?n (store_all (rect_row rect palette s) [0..<unat (br_height rect)]) (unat (br_width rect) * 4)
      (out, stride, m) = (status, b, stride', m')"
    using True run raw s0 a
    by (auto simp: rdp_bitmap_decode_rect_bgra32_with_palette_def Let_def s_def split: if_splits)
  have s: "unat (br_height rect) * s \<le> length (br_data rect)" "s0 \<le> s"
    using s0(2) by (auto simp: s_def mult.commute)
  have "br_bits_per_pixel rect = 32 \<Longrightarrow> unat (br_width rect) * 4 \<le> s"
    using s0(1) s(2) by (auto simp: rect_stride_def Let_def split: if_splits)
  then have "\<forall>row \<in> set [0..<unat (br_height rect)]. stores (4 * unat (br_width rect)) (rect_row rect palette s row)"
    using s(1) row_stores [of rect s _ palette] by simp
  from store_all_stores [OF this] store_output_bounds [OF ok _ stored] show ?thesis by (simp add: mult_ac)
qed (use ok in auto)

text \<open>
  C18. The size of a decoded rectangle. Whatever the server sends, raw or compressed, at any depth, with or without a palette, the output buffer stays well formed;
  when the decoder succeeds, it holds exactly four bytes for every pixel of the rectangle and the stride is that of its width, which is what
  copying it to the surface relies on; when it fails, the stride is not touched.
\<close>

theorem bitmap_decode_size:
  assumes "buf_ok out"
    and "rdp_bitmap_decode_rect_bgra32_with_palette rect palette (out, stride, m) = (status, b, stride', m')"
  shows "buf_ok b \<and>
    (status = LIBRDP_STATUS_OK \<longrightarrow>
       length (contents b) = unat (br_width rect) * 4 * unat (br_height rect) \<and> stride' = unat (br_width rect) * 4) \<and>
    (status \<noteq> LIBRDP_STATUS_OK \<longrightarrow> stride' = stride)"
proof (cases "br_flags rect AND RDP_BITMAP_FLAG_COMPRESSED = 0")
  case True
  from raw_bounds [OF assms(1) True assms(2)] show ?thesis .
next
  case False
  with assms(2) have "rdp_bitmap_decode_compressed_bgra32 rect palette (out, stride, m) = (status, b, stride', m')"
    by (simp add: rdp_bitmap_decode_rect_bgra32_with_palette_def Let_def)
  from compressed_bounds [OF assms(1) this] show ?thesis .
qed

theorem bitmap_decode_size_witness:
  "\<exists>b. rdp_bitmap_decode_rect_bgra32_with_palette (rect_of 0 0 0 0 1 1 32 0 [1, 2, 3, 4]) None (rdp_buffer_init, 7, []) =
     (LIBRDP_STATUS_OK, b, 4, []) \<and> buf_ok b \<and> length (contents b) = 4"
proof -
  obtain b where b: "rdp_bitmap_decode_rect_bgra32_with_palette (rect_of 0 0 0 0 1 1 32 0 [1, 2, 3, 4]) None (rdp_buffer_init, 7, []) =
     (LIBRDP_STATUS_OK, b, 4, [])"
    by (rule decode_rect_32 [of "rect_of 0 0 0 0 1 1 32 0 [1, 2, 3, 4]" rdp_buffer_init None 7])
      (simp_all add: rect_of_def buf_ok_init)
  from bitmap_decode_size [OF buf_ok_init b] b show ?thesis by (auto simp: rect_of_def)
qed

section \<open>The order of the rows\<close>

definition bgra_24 :: "u8 list \<Rightarrow> u8 list" where
  "bgra_24 p = [p ! 0, p ! 1, p ! 2, 0xff]"

lemma concat_nth_3:
  "\<forall>p \<in> set ps. length p = 3 \<Longrightarrow> i < length ps \<Longrightarrow> k < 3 \<Longrightarrow> concat ps ! (i * 3 + k) = ps ! i ! k"
proof (induction ps arbitrary: i)
  case (Cons p ps)
  then show ?case by (cases i) (auto simp: nth_append add.assoc)
qed simp

lemma length_concat_3: "\<forall>p \<in> set ps. length p = 3 \<Longrightarrow> length (concat ps) = length ps * 3"
  by (induction ps) auto

lemma row_24:
  assumes ps: "\<forall>p \<in> set ps. length p = 3" and row: "(row + 1) * w \<le> length ps"
  shows "store_all (row_pixel 24 palette (drop (row * (w * 3)) (concat ps))) [0..<w] =
    (LIBRDP_STATUS_OK, concat (map bgra_24 (take w (drop (row * w) ps))))"
proof -
  let ?src = "drop (row * (w * 3)) (concat ps)"
  have nth: "?src ! (c * 3 + k) = ps ! (row * w + c) ! k" if "c < w" "k < 3" for c k
  proof -
    have "row * w + c < length ps" using row that(1) by simp
    from concat_nth_3 [OF ps this that(2)] show ?thesis
      using row that length_concat_3 [OF ps] by (simp add: algebra_simps)
  qed
  have "snd (row_pixel 24 palette ?src c) = bgra_24 (take w (drop (row * w) ps) ! c)" if "c < w" for c
    using nth [OF that, of 0] nth [OF that, of 1] nth [OF that, of 2] that row by (simp add: row_pixel_def bgra_24_def)
  then have "map (snd \<circ> row_pixel 24 palette ?src) [0..<w] = map bgra_24 (take w (drop (row * w) ps))"
    using row by (intro nth_equalityI) auto
  then show ?thesis
    using store_all_OK [of "[0..<w]" "row_pixel 24 palette ?src"] by (simp add: row_pixel_def)
qed

lemma three_bytes:
  fixes a b c :: u8
  defines "v \<equiv> ucast a OR push_bit 8 (ucast b) OR push_bit 16 (ucast c) :: u32"
  shows "ucast (v AND 0xff) = a" "ucast (drop_bit 8 v AND 0xff) = b" "ucast (drop_bit 16 v AND 0xff) = c"
  unfolding v_def and_0xff_eq by (rule bit_word_eqI; auto simp: bit_simps bit_u8_high)+

lemma pixel_value_24:
  "snd (rdp_bitmap_raw_pixel_to_bgra (pixel_value 24 p) 24 palette) = bgra_24 p"
  "fst (rdp_bitmap_raw_pixel_to_bgra v 24 palette) = LIBRDP_STATUS_OK"
  using three_bytes by (simp_all add: rdp_bitmap_raw_pixel_to_bgra_def pixel_value_def bgra_24_def)

lemma u16_product: "unat (w :: u16) * unat (h :: u16) \<le> 4294836225"
  using mult_le_mono [of "unat w" 65535 "unat h" 65535] unat_bounds(2) [of w] unat_bounds(2) [of h] by simp

lemma concat_map_concat: "concat (map f (concat xss)) = concat (map (\<lambda>xs. concat (map f xs)) xss)"
  by (induction xss) simp_all

lemma length_bgra: "length (concat (map bgra_24 ps)) = length ps * 4"
  by (induction ps) (simp_all add: bgra_24_def)

lemma raw_24_decoded:
  assumes ps: "\<forall>p \<in> set ps. length p = 3" "length ps = unat h * unat w" and dim: "w \<noteq> 0" "h \<noteq> 0"
  shows "\<exists>b. rdp_bitmap_decode_rect_bgra32_with_palette (rect_of l t r b0 w h 24 0 (concat ps)) palette (rdp_buffer_init, stride, []) =
      (LIBRDP_STATUS_OK, b, unat w * 4, []) \<and>
    contents b = concat (map bgra_24 (concat (rev (rows_of (unat w) (unat h) ps))))"
proof -
  let ?rect = "rect_of l t r b0 w h 24 0 (concat ps)" and ?s = "unat w * 3"
  let ?bs = "concat (map bgra_24 (concat (rev (rows_of (unat w) (unat h) ps))))"
  have pos: "0 < unat w" "0 < unat h" using dim by (simp_all add: unat_gt_0)
  have len: "length (concat ps) = unat h * ?s" using length_concat_3 [OF ps(1)] ps(2) by simp
  have row: "rect_row ?rect palette ?s row =
      (LIBRDP_STATUS_OK, concat (map bgra_24 (take (unat w) (drop ((unat h - 1 - row) * unat w) ps))))" if "row < unat h" for row
  proof -
    have "unat h - 1 - row + 1 \<le> unat h" using that by simp
    from mult_le_mono1 [OF this, of "unat w"] ps(2) have "(unat h - 1 - row + 1) * unat w \<le> length ps" by simp
    from row_24 [OF ps(1) this, of palette] show ?thesis by (simp add: rect_row_def rect_of_def Let_def)
  qed
  have rows: "store_all (rect_row ?rect palette ?s) [0..<unat h] = (LIBRDP_STATUS_OK, ?bs)"
  proof -
    have "map (snd \<circ> rect_row ?rect palette ?s) [0..<unat h] =
        map (\<lambda>row. concat (map bgra_24 row)) (rev (rows_of (unat w) (unat h) ps))"
      unfolding rows_of_rev [symmetric] using row by simp
    then show ?thesis
      using store_all_OK [of "[0..<unat h]" "rect_row ?rect palette ?s"] row by (simp add: concat_map_concat)
  qed
  have "?s \<le> SIZE_MAX - 4" using unat_bounds(2) [of w] by (simp add: SIZE_MAX_def)
  then have "rdp_bitmap_stride_aligned ?s 4 \<noteq> None" by (auto simp: rdp_bitmap_stride_aligned_def Let_def)
  then obtain a where a: "rdp_bitmap_stride_aligned ?s 4 = Some a" by blast
  have short: "(?s < a \<and> unat h \<le> SIZE_MAX div a \<and> a * unat h \<le> length (concat ps)) = False"
    using pos(2) len by (auto simp: mult.commute not_le)
  have long: "\<not> length (concat ps) < ?s * unat h" using len by (simp add: mult.commute)
  have fits: "unat w \<le> SIZE_MAX div 3" "unat h \<le> SIZE_MAX div ?s" "unat h \<le> SIZE_MAX div (unat w * 4)"
    using pos u16_product [of h w] unat_bounds(2) [of w] by (simp_all add: less_eq_div_iff_mult_less_eq SIZE_MAX_def)
  have decode: "rdp_bitmap_decode_rect_bgra32_with_palette ?rect palette (rdp_buffer_init, stride, []) =
      store_output (unat w * 4 * unat h) (LIBRDP_STATUS_OK, ?bs) (unat w * 4) (rdp_buffer_init, stride, [])"
    using pos fits long rows a short
    by (simp add: rdp_bitmap_decode_rect_bgra32_with_palette_def raw_depth_def rle_depth_def rect_stride_def rect_of_def
        Let_def del: length_concat de_Morgan_conj)
  have "length ?bs = unat w * 4 * unat h"
    using rows_concat [OF ps(2)] ps(2) length_concat_rev [of "rows_of (unat w) (unat h) ps"]
    by (simp add: length_bgra del: length_concat)
  from stored_ok [OF buf_ok_init this] u16_product [of h w] decode show ?thesis by auto
qed


lemma compressed_24_decoded:
  assumes stream: "rdp_bitmap_rle_decode_stream data w h 24 = Inr (map (pixel_value 24) ps)" and dim: "w \<noteq> 0" "h \<noteq> 0"
  shows "\<exists>b. rdp_bitmap_decode_rect_bgra32_with_palette (rect_of l t r b0 w h 24 0x0401 data) palette (rdp_buffer_init, stride, []) =
      (LIBRDP_STATUS_OK, b, unat w * 4, []) \<and> contents b = concat (map bgra_24 ps)"
proof -
  let ?rect = "rect_of l t r b0 w h 24 0x0401 data"
  have pos: "0 < unat w" "0 < unat h" using dim by (simp_all add: unat_gt_0)
  have fits: "unat w \<le> SIZE_MAX div unat h" "unat w * unat h \<le> SIZE_MAX div 4" "unat h \<le> SIZE_MAX div (unat w * 4)"
    using pos u16_product [of w h] by (simp_all add: less_eq_div_iff_mult_less_eq SIZE_MAX_def mult.commute)
  have stored: "store_all (\<lambda>pixel. rdp_bitmap_raw_pixel_to_bgra pixel 24 palette) (map (pixel_value 24) ps) =
      (LIBRDP_STATUS_OK, concat (map bgra_24 ps))"
    using store_all_OK [of "map (pixel_value 24) ps" "\<lambda>pixel. rdp_bitmap_raw_pixel_to_bgra pixel 24 palette"]
    by (simp add: pixel_value_24 o_def)
  have decode: "rdp_bitmap_decode_rect_bgra32_with_palette ?rect palette (rdp_buffer_init, stride, []) =
      store_output (unat w * 4 * unat h) (LIBRDP_STATUS_OK, concat (map bgra_24 ps)) (unat w * 4) (rdp_buffer_init, stride, [])"
    using pos fits stored stream
    by (simp add: rdp_bitmap_decode_rect_bgra32_with_palette_def rdp_bitmap_decode_compressed_bgra32_def rect_of_def rle_depth_def
        rdp_bitmap_compressed_payload_def RDP_BITMAP_FLAG_COMPRESSED_def RDP_BITMAP_FLAG_NO_COMPRESSION_HEADER_def Let_def)
  have "length (concat (map bgra_24 ps)) = unat w * 4 * unat h"
    using rle_decode_length [OF stream] by (simp add: length_concat o_def bgra_24_def sum_list_triv)
  from stored_ok [OF buf_ok_init this] u16_product [of h w] decode show ?thesis by auto
qed

text \<open>
  C19. The order of the rows of 24-bit rectangles. A raw rectangle (flags 0, rows stored one after the other without padding) is stored bottom-up and its
  decoder turns it: the rows of the output are those of the data in reverse order. The decoder of a rectangle with run-length coding and without a
  compression header (flags 0x0401) does not: for the same pixels in the same order its output has the rows in the order of the data. A 24-bit picture sent raw
  and the same picture sent run-length coded are therefore shown upside down with respect to each other, whatever the dimensions, the position and the
  palette. Other depths, padded rows and rectangles with a compression header are not part of this statement.
\<close>

theorem bitmap_row_order:
  assumes "\<forall>p \<in> set ps. length p = 3" "length ps = unat h * unat w" "w \<noteq> 0" "h \<noteq> 0"
    and "rdp_bitmap_rle_decode_stream data w h 24 = Inr (map (pixel_value 24) ps)"
  shows "\<exists>b b'. rdp_bitmap_decode_rect_bgra32_with_palette (rect_of l t r b0 w h 24 0 (concat ps)) palette (rdp_buffer_init, stride, []) =
      (LIBRDP_STATUS_OK, b, unat w * 4, []) \<and>
    rdp_bitmap_decode_rect_bgra32_with_palette (rect_of l t r b0 w h 24 0x0401 data) palette (rdp_buffer_init, stride, []) =
      (LIBRDP_STATUS_OK, b', unat w * 4, []) \<and>
    contents b = concat (map bgra_24 (concat (rev (rows_of (unat w) (unat h) ps)))) \<and>
    contents b' = concat (map bgra_24 (concat (rows_of (unat w) (unat h) ps)))"
  using raw_24_decoded [OF assms(1-4), of l t r b0 palette stride]
    compressed_24_decoded [OF assms(5,3,4), of l t r b0 palette stride] rows_concat [OF assms(2)]
  by auto

theorem bitmap_row_order_witness:
  "\<exists>b b'. rdp_bitmap_decode_rect_bgra32_with_palette (rect_of 0 0 0 1 1 2 24 0 [1, 2, 3, 4, 5, 6]) None (rdp_buffer_init, 0, []) =
      (LIBRDP_STATUS_OK, b, 4, []) \<and>
    rdp_bitmap_decode_rect_bgra32_with_palette (rect_of 0 0 0 1 1 2 24 0x0401 [0x82, 1, 2, 3, 4, 5, 6]) None (rdp_buffer_init, 0, []) =
      (LIBRDP_STATUS_OK, b', 4, []) \<and>
    contents b = [4, 5, 6, 0xff, 1, 2, 3, 0xff] \<and> contents b' = [1, 2, 3, 0xff, 4, 5, 6, 0xff]"
proof -
  have "run_coded Image (Suc (Suc 0)) [0x82]" unfolding run_coded_def
    by (intro disjI1 exI [of _ 2])
      (simp add: RDP_BITMAP_RLE_COLOR_IMAGE_def kind_span.simps kind_base.simps kind_unit.simps)
  then have "stream_coded 24 [Literal (map (pixel_value 24) [[1, 2, 3], [4, 5, 6]])] (([0x82] @ concat [[1, 2, 3], [4, 5, 6]]) @ [])"
    by (intro stream_coded.intros order_coded.image)
      (simp_all add: pixel_bytes_def rdp_bitmap_rle_bytes_per_pixel_def)
  then have "stream_coded 24 [Literal (map (pixel_value 24) [[1, 2, 3], [4, 5, 6]])] [0x82, 1, 2, 3, 4, 5, 6]" by simp
  from rle_loop_coded [OF this]
  have "rdp_bitmap_rle_decode_stream [0x82, 1, 2, 3, 4, 5, 6] 1 2 24 = Inr (map (pixel_value 24) [[1, 2, 3], [4, 5, 6]])"
    by (simp add: rdp_bitmap_rle_decode_stream_def rdp_bitmap_rle_bytes_per_pixel_def SIZE_MAX_def in_bounds_def draw_def
        canvas_def)
  from bitmap_row_order [OF _ _ _ _ this, of 0 0 0 1 None 0] show ?thesis
    by (simp add: rows_of_def bgra_24_def upt_rec)
qed

end
