(* ===== verification/Surface.thy ===== *)
theory Surface
  imports Rdp_Buffer
begin

text \<open>
  The software framebuffer of \<^verbatim>\<open>src/src/graphics/surface.c\<close>: allocation and resizing, copying a rectangle
  of pixels, and the mappings that lend the pixels to the application. A pointer to pixels is the address of
  the block that \<^verbatim>\<open>calloc\<close> returned; the block is a list of bytes. Whether \<^verbatim>\<open>calloc\<close> succeeds is taken from
  the heap as for the byte buffers, and the address of the new block is an argument.
\<close>

section \<open>Surfaces\<close>

definition LIBRDP_PIXEL_FORMAT_BGRA32 :: u32 where "LIBRDP_PIXEL_FORMAT_BGRA32 = 1"
definition LIBRDP_SURFACE_MAPPING_VERSION :: u32 where "LIBRDP_SURFACE_MAPPING_VERSION = 1"
definition LIBRDP_SURFACE_ACCESS_READ :: u32 where "LIBRDP_SURFACE_ACCESS_READ = 1"
definition LIBRDP_SURFACE_ACCESS_WRITE :: u32 where "LIBRDP_SURFACE_ACCESS_WRITE = 2"

lemmas surface_constants = LIBRDP_PIXEL_FORMAT_BGRA32_def LIBRDP_SURFACE_MAPPING_VERSION_def
  LIBRDP_SURFACE_ACCESS_READ_def LIBRDP_SURFACE_ACCESS_WRITE_def

record librdp_surface =
  su_width :: u32
  su_height :: u32
  su_stride :: nat
  su_format :: u32
  su_pixels :: "nat option"
  su_bytes :: "u8 list"
  su_read_maps :: u32
  su_write_map :: u32
  su_generation :: u64

definition rdp_surface_size :: "u32 \<Rightarrow> u32 \<Rightarrow> (nat \<times> nat) option" where
  "rdp_surface_size width height =
     (if width = 0 \<or> height = 0 \<or> width > 8192 \<or> height > 8192 then None
      else
        let row = unat width * 4 mod (SIZE_MAX + 1) in
        if row div 4 \<noteq> unat width then None
        else if unat height > SIZE_MAX div row then None
        else Some (row, row * unat height mod (SIZE_MAX + 1)))"

definition librdp_surface_resize ::
    "nat \<Rightarrow> u32 \<Rightarrow> u32 \<Rightarrow> librdp_surface \<times> mem \<Rightarrow> librdp_status \<times> librdp_surface \<times> mem" where
  "librdp_surface_resize addr width height = (\<lambda>(surface, m).
     case rdp_surface_size width height of
       None \<Rightarrow> (LIBRDP_STATUS_INVALID_ARGUMENT, surface, m)
     | Some (stride, size_bytes) \<Rightarrow>
         if su_read_maps surface \<noteq> 0 \<or> su_write_map surface \<noteq> 0 then (LIBRDP_STATUS_STATE, surface, m)
         else
           (case alloc m of
              (None, m) \<Rightarrow> (LIBRDP_STATUS_NO_MEMORY, surface, m)
            | (Some _, m) \<Rightarrow>
                (LIBRDP_STATUS_OK,
                 surface\<lparr>su_pixels := Some addr, su_bytes := replicate size_bytes 0, su_width := width,
                   su_height := height, su_stride := stride, su_generation := su_generation surface + 1\<rparr>, m)))"

text \<open>The zeroed object of \<^verbatim>\<open>calloc\<close>, and the constructor: \<open>None\<close> is \<^verbatim>\<open>NULL\<close>.\<close>

definition surface_zero :: librdp_surface where
  "surface_zero = \<lparr>su_width = 0, su_height = 0, su_stride = 0, su_format = 0, su_pixels = None, su_bytes = [],
     su_read_maps = 0, su_write_map = 0, su_generation = 0\<rparr>"

definition librdp_surface_new :: "nat \<Rightarrow> u32 \<Rightarrow> u32 \<Rightarrow> u32 \<Rightarrow> mem \<Rightarrow> librdp_surface option \<times> mem" where
  "librdp_surface_new addr width height format m =
     (if format \<noteq> LIBRDP_PIXEL_FORMAT_BGRA32 then (None, m)
      else
        (case alloc m of
           (None, m) \<Rightarrow> (None, m)
         | (Some _, m) \<Rightarrow>
             (case librdp_surface_resize addr width height (surface_zero\<lparr>su_format := format\<rparr>, m) of
                (status, surface, m) \<Rightarrow> (if status \<noteq> LIBRDP_STATUS_OK then None else Some surface, m))))"

text \<open>The accessors answer zero for \<^verbatim>\<open>NULL\<close>.\<close>

definition librdp_surface_width :: "librdp_surface option \<Rightarrow> u32" where
  "librdp_surface_width surface = (case surface of Some s \<Rightarrow> su_width s | None \<Rightarrow> 0)"

definition librdp_surface_height :: "librdp_surface option \<Rightarrow> u32" where
  "librdp_surface_height surface = (case surface of Some s \<Rightarrow> su_height s | None \<Rightarrow> 0)"

definition librdp_surface_stride :: "librdp_surface option \<Rightarrow> nat" where
  "librdp_surface_stride surface = (case surface of Some s \<Rightarrow> su_stride s | None \<Rightarrow> 0)"

section \<open>Copying a rectangle\<close>

text \<open>
  \<^verbatim>\<open>memcpy\<close> into the block, and the loop over the rows of the rectangle: after \<open>n\<close> rounds the rows
  \<open>0 \<dots> n - 1\<close> are copied. The row index is added to \<open>y\<close> as a 32-bit integer.
\<close>

definition overwrite :: "nat \<Rightarrow> 'a list \<Rightarrow> 'a list \<Rightarrow> 'a list" where
  "overwrite off bs dest = take off dest @ bs @ drop (off + length bs) dest"

fun blit_rows ::
    "u32 \<Rightarrow> u32 \<Rightarrow> u32 \<Rightarrow> u8 list \<Rightarrow> nat \<Rightarrow> nat \<Rightarrow> nat \<Rightarrow> u8 list \<Rightarrow> u8 list" where
  "blit_rows x y width pixels stride dest_stride 0 dest = dest"
| "blit_rows x y width pixels stride dest_stride (Suc row) dest =
     overwrite (unat (y + of_nat row) * dest_stride + unat x * 4)
       (take (unat width * 4) (drop (row * stride) pixels))
       (blit_rows x y width pixels stride dest_stride row dest)"

definition librdp_surface_blit_bgra32 ::
    "u32 \<Rightarrow> u32 \<Rightarrow> u32 \<Rightarrow> u32 \<Rightarrow> u8 list \<Rightarrow> nat \<Rightarrow> librdp_surface \<Rightarrow> librdp_status \<times> librdp_surface" where
  "librdp_surface_blit_bgra32 x y width height pixels stride surface =
     (if su_format surface \<noteq> LIBRDP_PIXEL_FORMAT_BGRA32 then (LIBRDP_STATUS_INVALID_ARGUMENT, surface)
      else if su_read_maps surface \<noteq> 0 \<or> su_write_map surface \<noteq> 0 then (LIBRDP_STATUS_STATE, surface)
      else if width = 0 \<or> height = 0 \<or> x > su_width surface \<or> y > su_height surface \<or>
         width > su_width surface - x \<or> height > su_height surface - y
      then (LIBRDP_STATUS_INVALID_ARGUMENT, surface)
      else if stride < unat width * 4 then (LIBRDP_STATUS_INVALID_ARGUMENT, surface)
      else
        (LIBRDP_STATUS_OK,
         surface\<lparr>su_bytes := blit_rows x y width pixels stride (su_stride surface) (unat height) (su_bytes surface)\<rparr>))"

section \<open>Mappings\<close>

record librdp_surface_mapping =
  sm_version :: u32
  sm_size :: u32
  sm_access :: u32
  sm_format :: u32
  sm_width :: u32
  sm_height :: u32
  sm_stride :: nat
  sm_pixels :: "nat option"
  sm_writable_pixels :: "nat option"
  sm_generation :: u64

text \<open>On an LP64 target the structure has 56 bytes and \<^verbatim>\<open>generation\<close> is its last member.\<close>

definition librdp_surface_mapping_init :: librdp_surface_mapping where
  "librdp_surface_mapping_init = \<lparr>sm_version = LIBRDP_SURFACE_MAPPING_VERSION, sm_size = 56, sm_access = 0, sm_format = 0,
     sm_width = 0, sm_height = 0, sm_stride = 0, sm_pixels = None, sm_writable_pixels = None, sm_generation = 0\<rparr>"

definition rdp_surface_mapping_valid :: "librdp_surface_mapping \<Rightarrow> bool" where
  "rdp_surface_mapping_valid mapping \<longleftrightarrow> sm_version mapping = LIBRDP_SURFACE_MAPPING_VERSION \<and> sm_size mapping \<ge> 56"

definition librdp_surface_map ::
    "u32 \<Rightarrow> librdp_surface \<times> librdp_surface_mapping \<Rightarrow> librdp_status \<times> librdp_surface \<times> librdp_surface_mapping" where
  "librdp_surface_map access = (\<lambda>(surface, mapping).
     if \<not> rdp_surface_mapping_valid mapping then (LIBRDP_STATUS_INVALID_ARGUMENT, surface, mapping)
     else if access \<noteq> LIBRDP_SURFACE_ACCESS_READ \<and> access \<noteq> LIBRDP_SURFACE_ACCESS_WRITE
     then (LIBRDP_STATUS_INVALID_ARGUMENT, surface, mapping)
     else if sm_pixels mapping \<noteq> None \<or> sm_writable_pixels mapping \<noteq> None then (LIBRDP_STATUS_STATE, surface, mapping)
     else
       let lend = \<lambda>surface. (LIBRDP_STATUS_OK, surface,
             mapping\<lparr>sm_access := access, sm_format := su_format surface, sm_width := su_width surface,
               sm_height := su_height surface, sm_stride := su_stride surface, sm_pixels := su_pixels surface,
               sm_writable_pixels := (if access = LIBRDP_SURFACE_ACCESS_WRITE then su_pixels surface else None),
               sm_generation := su_generation surface\<rparr>) in
       if access = LIBRDP_SURFACE_ACCESS_WRITE then
         if su_read_maps surface \<noteq> 0 \<or> su_write_map surface \<noteq> 0 then (LIBRDP_STATUS_STATE, surface, mapping)
         else lend (surface\<lparr>su_write_map := 1\<rparr>)
       else
         if su_write_map surface \<noteq> 0 \<or> su_read_maps surface = - 1 then (LIBRDP_STATUS_STATE, surface, mapping)
         else lend (surface\<lparr>su_read_maps := su_read_maps surface + 1\<rparr>))"

definition librdp_surface_unmap ::
    "librdp_surface \<times> librdp_surface_mapping \<Rightarrow> librdp_status \<times> librdp_surface \<times> librdp_surface_mapping" where
  "librdp_surface_unmap = (\<lambda>(surface, mapping).
     let cleared = mapping\<lparr>sm_access := 0, sm_format := 0, sm_width := 0, sm_height := 0, sm_stride := 0,
           sm_pixels := None, sm_writable_pixels := None, sm_generation := 0\<rparr> in
     if \<not> rdp_surface_mapping_valid mapping \<or> sm_pixels mapping = None
     then (LIBRDP_STATUS_INVALID_ARGUMENT, surface, mapping)
     else if sm_generation mapping \<noteq> su_generation surface \<or> sm_format mapping \<noteq> su_format surface \<or>
        sm_width mapping \<noteq> su_width surface \<or> sm_height mapping \<noteq> su_height surface \<or>
        sm_stride mapping \<noteq> su_stride surface
     then (LIBRDP_STATUS_STATE, surface, mapping)
     else if sm_access mapping = LIBRDP_SURFACE_ACCESS_WRITE then
       if su_write_map surface = 0 \<or> sm_writable_pixels mapping \<noteq> su_pixels surface
       then (LIBRDP_STATUS_STATE, surface, mapping)
       else (LIBRDP_STATUS_OK, surface\<lparr>su_write_map := 0\<rparr>, cleared)
     else if sm_access mapping = LIBRDP_SURFACE_ACCESS_READ then
       if su_read_maps surface = 0 \<or> sm_writable_pixels mapping \<noteq> None then (LIBRDP_STATUS_STATE, surface, mapping)
       else (LIBRDP_STATUS_OK, surface\<lparr>su_read_maps := su_read_maps surface - 1\<rparr>, cleared)
     else (LIBRDP_STATUS_INVALID_ARGUMENT, surface, mapping))"

section \<open>The framebuffer fits its dimensions\<close>

definition surface_ok :: "librdp_surface \<Rightarrow> bool" where
  "surface_ok s \<longleftrightarrow>
     0 < su_width s \<and> su_width s \<le> 8192 \<and> 0 < su_height s \<and> su_height s \<le> 8192 \<and>
     su_stride s = unat (su_width s) * 4 \<and> length (su_bytes s) = su_stride s * unat (su_height s) \<and>
     su_format s = LIBRDP_PIXEL_FORMAT_BGRA32 \<and> su_pixels s \<noteq> None"

lemma surface_size:
  "rdp_surface_size width height =
     (if width = 0 \<or> height = 0 \<or> width > 8192 \<or> height > 8192 then None
      else Some (unat width * 4, unat width * 4 * unat height))"
proof (cases "width = 0 \<or> height = 0 \<or> width > 8192 \<or> height > 8192")
  case False
  then have b: "0 < unat width" "unat width \<le> 8192" "unat height \<le> 8192"
    by (auto simp: not_less word_le_nat_alt unat_gt_0)
  then have p: "unat width * unat height \<le> 8192 * 8192" by (intro mult_le_mono)
  have "unat height \<le> SIZE_MAX div (unat width * 4)"
  proof -
    have "unat height * (unat width * 4) \<le> SIZE_MAX" using p by (simp add: SIZE_MAX_def mult.commute mult.left_commute)
    then show ?thesis using b(1) by (simp add: less_eq_div_iff_mult_less_eq)
  qed
  moreover have "unat width * 4 * unat height mod (SIZE_MAX + 1) = unat width * 4 * unat height"
    using p by (intro mod_less) (simp add: SIZE_MAX_def mult.commute)
  ultimately show ?thesis using False b by (simp add: rdp_surface_size_def Let_def) (simp add: SIZE_MAX_def)
qed (auto simp: rdp_surface_size_def)

lemma surface_resize_ok:
  assumes "librdp_surface_resize addr w h (s, m) = (st, s', m')"
  shows "st = LIBRDP_STATUS_OK \<Longrightarrow> su_format s = LIBRDP_PIXEL_FORMAT_BGRA32 \<Longrightarrow> surface_ok s'"
    and "st \<noteq> LIBRDP_STATUS_OK \<Longrightarrow> s' = s"
  using assms by (auto simp: librdp_surface_resize_def surface_size surface_ok_def word_neq_0_conv not_less
      split: if_splits prod.splits option.splits)

lemma length_overwrite: "off + length bs \<le> length dest \<Longrightarrow> length (overwrite off bs dest) = length dest"
  by (simp add: overwrite_def)

lemma nth_overwrite:
  "off + length bs \<le> length dest \<Longrightarrow> i < length dest \<Longrightarrow>
    overwrite off bs dest ! i = (if off \<le> i \<and> i < off + length bs then bs ! (i - off) else dest ! i)"
  by (auto simp: overwrite_def nth_append min_def)

text \<open>A byte of the framebuffer by its row and its offset in the row.\<close>

definition byte_at :: "librdp_surface \<Rightarrow> nat \<Rightarrow> nat \<Rightarrow> u8" where
  "byte_at s r c = su_bytes s ! (r * su_stride s + c)"

lemma row_inside:
  assumes "(r :: nat) < h" "c < d" shows "r * d + c < d * h"
proof -
  have "r * d + c < Suc r * d" using assms(2) by simp
  also have "\<dots> \<le> h * d" using assms(1) by (intro mult_le_mono1) simp
  finally show ?thesis by (simp add: mult.commute)
qed

lemma row_split:
  assumes "(c :: nat) < d" "off + len \<le> d"
  shows "k * d + off \<le> r * d + c \<and> r * d + c < k * d + off + len \<longleftrightarrow> r = k \<and> off \<le> c \<and> c < off + len"
proof -
  have "r = k" if "k * d \<le> r * d + c" "r * d + c < k * d + d"
  proof (rule antisym)
    have "k * d < Suc r * d" using that(1) assms(1) by simp
    then show "k \<le> r" by (simp only: mult_less_cancel2 less_Suc_eq_le)
    have "r * d < Suc k * d" using that(2) by simp
    then show "r \<le> k" by (simp only: mult_less_cancel2 less_Suc_eq_le)
  qed
  then show ?thesis using assms by auto
qed

text \<open>After \<open>n\<close> rounds of the copy loop the first \<open>n\<close> rows of the rectangle hold the source.\<close>

lemma blit_rows_bytes:
  assumes w: "unat x * 4 + unat w * 4 \<le> d" and h: "unat y + n \<le> h" "h \<le> 8192"
    and src: "\<And>row. row < n \<Longrightarrow> row * stride + unat w * 4 \<le> length src" and len: "length dest = d * h"
  shows "length (blit_rows x y w src stride d n dest) = d * h \<and>
    (\<forall>r c. r < h \<longrightarrow> c < d \<longrightarrow> blit_rows x y w src stride d n dest ! (r * d + c) =
      (if unat y \<le> r \<and> r < unat y + n \<and> unat x * 4 \<le> c \<and> c < unat x * 4 + unat w * 4
       then src ! ((r - unat y) * stride + (c - unat x * 4)) else dest ! (r * d + c)))"
  using h(1) src
proof (induction n)
  case (Suc n)
  let ?prev = "blit_rows x y w src stride d n dest" and ?row = "take (unat w * 4) (drop (n * stride) src)"
  have IH: "length ?prev = d * h" "\<And>r c. r < h \<Longrightarrow> c < d \<Longrightarrow> ?prev ! (r * d + c) =
      (if unat y \<le> r \<and> r < unat y + n \<and> unat x * 4 \<le> c \<and> c < unat x * 4 + unat w * 4
       then src ! ((r - unat y) * stride + (c - unat x * 4)) else dest ! (r * d + c))"
    using Suc by auto
  have row: "length ?row = unat w * 4" using Suc.prems(2) [of n] by simp
  have yn: "unat (y + of_nat n) = unat y + n"
    using Suc.prems(1) h(2) by (simp add: unat_word_ariths unat_of_nat_u32)
  have inside: "(unat y + n) * d + unat x * 4 + length ?row \<le> length ?prev"
  proof -
    have "(unat y + n) * d + unat x * 4 + unat w * 4 \<le> Suc (unat y + n) * d" using w by simp
    also have "\<dots> \<le> h * d" using Suc.prems(1) by (intro mult_le_mono1) simp
    finally show ?thesis using IH(1) row by (simp add: mult.commute)
  qed
  have "overwrite ((unat y + n) * d + unat x * 4) ?row ?prev ! (r * d + c) =
      (if unat y \<le> r \<and> r < unat y + Suc n \<and> unat x * 4 \<le> c \<and> c < unat x * 4 + unat w * 4
       then src ! ((r - unat y) * stride + (c - unat x * 4)) else dest ! (r * d + c))" if "r < h" "c < d" for r c
    using nth_overwrite [OF inside, of "r * d + c"] row_inside [OF that] that IH row w Suc.prems(2) [of n]
      row_split [OF that(2) w, of "unat y + n" r]
    by (auto simp: add.assoc)
  then show ?case using length_overwrite [OF inside] IH(1) by (simp add: yn)
qed (use len in auto)

text \<open>A copy that is accepted, on a well-formed surface with a source that holds the rows.\<close>

lemma blit_done:
  assumes s: "surface_ok s"
    and src: "(unat h - 1) * stride + unat w * 4 \<le> length pixels"
    and blit: "librdp_surface_blit_bgra32 x y w h pixels stride s = (LIBRDP_STATUS_OK, s')"
  defines "dest \<equiv> blit_rows x y w pixels stride (su_stride s) (unat h) (su_bytes s)"
  shows "s' = s\<lparr>su_bytes := dest\<rparr>" "length dest = su_stride s * unat (su_height s) \<and>
    (\<forall>r c. r < unat (su_height s) \<longrightarrow> c < su_stride s \<longrightarrow> dest ! (r * su_stride s + c) =
      (if unat y \<le> r \<and> r < unat y + unat h \<and> unat x * 4 \<le> c \<and> c < unat x * 4 + unat w * 4
       then pixels ! ((r - unat y) * stride + (c - unat x * 4)) else su_bytes s ! (r * su_stride s + c)))"
proof -
  have guards: "w \<noteq> 0" "h \<noteq> 0" "x \<le> su_width s" "y \<le> su_height s" "w \<le> su_width s - x" "h \<le> su_height s - y"
    using blit by (auto simp: librdp_surface_blit_bgra32_def not_less split: if_splits)
  have b: "unat x + unat w \<le> unat (su_width s)" "unat y + unat h \<le> unat (su_height s)" "0 < unat h"
    using guards by (auto simp: word_le_nat_alt unat_sub unat_gt_0)
  have src': "row * stride + unat w * 4 \<le> length pixels" if "row < unat h" for row
    using src mult_le_mono1 [of row "unat h - 1" stride] that by linarith
  have "unat (su_height s) \<le> 8192" using s by (simp add: surface_ok_def word_le_nat_alt)
  then show "length dest = su_stride s * unat (su_height s) \<and>
    (\<forall>r c. r < unat (su_height s) \<longrightarrow> c < su_stride s \<longrightarrow> dest ! (r * su_stride s + c) =
      (if unat y \<le> r \<and> r < unat y + unat h \<and> unat x * 4 \<le> c \<and> c < unat x * 4 + unat w * 4
       then pixels ! ((r - unat y) * stride + (c - unat x * 4)) else su_bytes s ! (r * su_stride s + c)))"
    unfolding dest_def using b src' s by (intro blit_rows_bytes) (auto simp: surface_ok_def)
  show "s' = s\<lparr>su_bytes := dest\<rparr>"
    using blit by (auto simp: librdp_surface_blit_bgra32_def dest_def split: if_splits)
qed

lemma blit_rejected: "librdp_surface_blit_bgra32 x y w h pixels stride s = (st, s') \<Longrightarrow> st \<noteq> LIBRDP_STATUS_OK \<Longrightarrow> s' = s"
  by (auto simp: librdp_surface_blit_bgra32_def split: if_splits)

text \<open>
  A successful copy of a rectangle writes exactly the bytes of the source that belong to it and nothing
  else: in the framebuffer afterwards the byte in row \<open>r\<close> at offset \<open>c\<close> is the source's byte when it lies in the
  rectangle and the old byte otherwise; all writes are inside the framebuffer, whose size and every other field
  are unchanged. It needs a source that holds the rows that are read.
\<close>

lemma surface_blit_exact:
  assumes s: "surface_ok s"
    and src: "(unat h - 1) * stride + unat w * 4 \<le> length pixels"
    and blit: "librdp_surface_blit_bgra32 x y w h pixels stride s = (LIBRDP_STATUS_OK, s')"
  shows "surface_ok s' \<and> s' = s\<lparr>su_bytes := su_bytes s'\<rparr> \<and>
    (\<forall>r c. r < unat (su_height s) \<longrightarrow> c < su_stride s \<longrightarrow> byte_at s' r c =
      (if unat y \<le> r \<and> r < unat y + unat h \<and> unat x * 4 \<le> c \<and> c < unat x * 4 + unat w * 4
       then pixels ! ((r - unat y) * stride + (c - unat x * 4)) else byte_at s r c))"
  using s blit_done [OF assms] by (simp add: byte_at_def surface_ok_def)

definition two_by_two :: librdp_surface where
  "two_by_two = surface_zero\<lparr>su_width := 2, su_height := 2, su_stride := 8, su_format := 1, su_pixels := Some 7,
     su_bytes := replicate 16 0\<rparr>"

section \<open>Mappings never dangle\<close>

text \<open>
  The surface with the mapping descriptors that the application owns. A descriptor is initialised once and
  then only passed to map and unmap.
\<close>

inductive surface_step ::
    "librdp_surface \<times> librdp_surface_mapping list \<Rightarrow> librdp_surface \<times> librdp_surface_mapping list \<Rightarrow> bool" where
  Descriptor: "surface_step (s, ms) (s, ms @ [librdp_surface_mapping_init])"
| Map: "i < length ms \<Longrightarrow> librdp_surface_map access (s, ms ! i) = (status, s', mapping) \<Longrightarrow>
    surface_step (s, ms) (s', ms[i := mapping])"
| Unmap: "i < length ms \<Longrightarrow> librdp_surface_unmap (s, ms ! i) = (status, s', mapping) \<Longrightarrow>
    surface_step (s, ms) (s', ms[i := mapping])"
| Resize: "librdp_surface_resize addr width height (s, m) = (status, s', m') \<Longrightarrow> surface_step (s, ms) (s', ms)"
| Blit: "librdp_surface_blit_bgra32 x y width height pixels stride s = (status, s') \<Longrightarrow>
    (unat height - 1) * stride + unat width * 4 \<le> length pixels \<Longrightarrow> surface_step (s, ms) (s', ms)"

inductive reachable_surface :: "librdp_surface \<times> librdp_surface_mapping list \<Rightarrow> bool" where
  New: "librdp_surface_new addr width height format m = (Some s, m') \<Longrightarrow> reachable_surface (s, [])"
| Step: "reachable_surface c \<Longrightarrow> surface_step c c' \<Longrightarrow> reachable_surface c'"

text \<open>A descriptor that holds a mapping of the surface as it is now.\<close>

definition holds :: "librdp_surface \<Rightarrow> u32 \<Rightarrow> librdp_surface_mapping \<Rightarrow> bool" where
  "holds s access mapping \<longleftrightarrow> rdp_surface_mapping_valid mapping \<and> sm_access mapping = access \<and>
     sm_format mapping = su_format s \<and> sm_width mapping = su_width s \<and> sm_height mapping = su_height s \<and>
     sm_stride mapping = su_stride s \<and> sm_pixels mapping = su_pixels s \<and> su_pixels s \<noteq> None \<and>
     sm_writable_pixels mapping = (if access = LIBRDP_SURFACE_ACCESS_WRITE then su_pixels s else None) \<and>
     sm_generation mapping = su_generation s"

lemma holds_update [simp]:
  "holds (s\<lparr>su_write_map := v\<rparr>) a m = holds s a m"
  "holds (s\<lparr>su_read_maps := r\<rparr>) a m = holds s a m"
  "holds (s\<lparr>su_bytes := b\<rparr>) a m = holds s a m"
  by (simp_all add: holds_def)

definition free_mapping :: "librdp_surface_mapping \<Rightarrow> bool" where
  "free_mapping mapping \<longleftrightarrow> sm_pixels mapping = None \<and> sm_writable_pixels mapping = None"

definition readers :: "librdp_surface_mapping list \<Rightarrow> nat" where
  "readers ms = length (filter (\<lambda>m. sm_pixels m \<noteq> None \<and> sm_access m = LIBRDP_SURFACE_ACCESS_READ) ms)"

definition writers :: "librdp_surface_mapping list \<Rightarrow> nat" where
  "writers ms = length (filter (\<lambda>m. sm_pixels m \<noteq> None \<and> sm_access m = LIBRDP_SURFACE_ACCESS_WRITE) ms)"

definition lent :: "librdp_surface \<Rightarrow> librdp_surface_mapping list \<Rightarrow> bool" where
  "lent s ms \<longleftrightarrow> surface_ok s \<and> unat (su_read_maps s) = readers ms \<and> unat (su_write_map s) = writers ms \<and>
     writers ms \<le> 1 \<and> (writers ms = 0 \<or> readers ms = 0) \<and>
     (\<forall>i < length ms. rdp_surface_mapping_valid (ms ! i) \<and> (free_mapping (ms ! i) \<or>
        holds s LIBRDP_SURFACE_ACCESS_READ (ms ! i) \<or> holds s LIBRDP_SURFACE_ACCESS_WRITE (ms ! i)))"

lemma count_update:
  "i < length xs \<Longrightarrow> length (filter P (xs[i := x])) + (if P (xs ! i) then 1 else 0) =
    length (filter P xs) + (if P x then 1 else 0)"
proof (induction xs arbitrary: i)
  case (Cons y ys) then show ?case by (cases i) auto
qed simp

lemma readers_update:
  "i < length ms \<Longrightarrow> readers (ms[i := m]) + (if sm_pixels (ms ! i) \<noteq> None \<and> sm_access (ms ! i) = LIBRDP_SURFACE_ACCESS_READ then 1 else 0) =
    readers ms + (if sm_pixels m \<noteq> None \<and> sm_access m = LIBRDP_SURFACE_ACCESS_READ then 1 else 0)"
  "i < length ms \<Longrightarrow> writers (ms[i := m]) + (if sm_pixels (ms ! i) \<noteq> None \<and> sm_access (ms ! i) = LIBRDP_SURFACE_ACCESS_WRITE then 1 else 0) =
    writers ms + (if sm_pixels m \<noteq> None \<and> sm_access m = LIBRDP_SURFACE_ACCESS_WRITE then 1 else 0)"
  unfolding readers_def writers_def by (rule count_update; assumption)+

lemma none_held:
  assumes "lent s ms" "readers ms = 0" "writers ms = 0" "i < length ms" shows "free_mapping (ms ! i)"
proof -
  have "\<not> holds s LIBRDP_SURFACE_ACCESS_READ (ms ! i)" "\<not> holds s LIBRDP_SURFACE_ACCESS_WRITE (ms ! i)"
    using assms(2,3) nth_mem [OF assms(4)] by (auto simp: readers_def writers_def holds_def filter_empty_conv)
  then show ?thesis using assms(1,4) by (auto simp: lent_def)
qed

lemma lent_map:
  assumes l: "lent s ms" and i: "i < length ms" and run: "librdp_surface_map access (s, ms ! i) = (status, s', mapping)"
  shows "lent s' (ms[i := mapping])"
proof (cases "status = LIBRDP_STATUS_OK")
  case False
  then show ?thesis using l run by (auto simp: librdp_surface_map_def Let_def split: if_splits)
next
  case True
  then have free: "sm_pixels (ms ! i) = None" and s': "s' = (if access = LIBRDP_SURFACE_ACCESS_WRITE then s\<lparr>su_write_map := 1\<rparr>
      else s\<lparr>su_read_maps := su_read_maps s + 1\<rparr>)"
    and held: "holds s' access mapping"
    and guard: "if access = LIBRDP_SURFACE_ACCESS_WRITE then su_read_maps s = 0 \<and> su_write_map s = 0
      else access = LIBRDP_SURFACE_ACCESS_READ \<and> su_write_map s = 0 \<and> su_read_maps s \<noteq> - 1"
    using run l by (auto simp: librdp_surface_map_def Let_def holds_def lent_def surface_ok_def surface_constants
        rdp_surface_mapping_valid_def split: if_splits)
  have others: "holds s' a m = holds s a m" for a m using s' by (simp add: holds_def)
  have up: "unat (su_read_maps s + 1) = unat (su_read_maps s) + 1" if "su_read_maps s \<noteq> - 1"
    using that unatSuc [of "su_read_maps s"] by (metis Suc_eq_plus1 add.commute add.inverse_unique)
  show ?thesis
    using l i free guard held readers_update [OF i, of mapping] up none_held [OF l]
    by (auto simp: lent_def others s' surface_ok_def nth_list_update holds_def surface_constants split: if_splits)
qed

lemma lent_unmap:
  assumes l: "lent s ms" and i: "i < length ms" and run: "librdp_surface_unmap (s, ms ! i) = (status, s', mapping)"
  shows "lent s' (ms[i := mapping])"
proof (cases "status = LIBRDP_STATUS_OK")
  case False
  then show ?thesis using l run by (auto simp: librdp_surface_unmap_def Let_def split: if_splits)
next
  case True
  have free: "free_mapping mapping" "rdp_surface_mapping_valid mapping"
    and s': "s' = (if sm_access (ms ! i) = LIBRDP_SURFACE_ACCESS_WRITE then s\<lparr>su_write_map := 0\<rparr>
      else s\<lparr>su_read_maps := su_read_maps s - 1\<rparr>)"
    and guard: "sm_pixels (ms ! i) \<noteq> None" "if sm_access (ms ! i) = LIBRDP_SURFACE_ACCESS_WRITE then su_write_map s \<noteq> 0
      else sm_access (ms ! i) = LIBRDP_SURFACE_ACCESS_READ \<and> su_read_maps s \<noteq> 0"
    using run True by (auto simp: librdp_surface_unmap_def Let_def free_mapping_def rdp_surface_mapping_valid_def split: if_splits)
  have down: "unat (su_read_maps s - 1) = unat (su_read_maps s) - 1" if "su_read_maps s \<noteq> 0"
    using that by (simp add: unat_minus_one)
  show ?thesis
    using l i free guard readers_update [OF i, of mapping] down
    by (auto simp: lent_def s' surface_ok_def nth_list_update free_mapping_def surface_constants split: if_splits)
qed

lemma lent_resize:
  assumes l: "lent s ms" and run: "librdp_surface_resize addr w h (s, m) = (status, s', m')"
  shows "lent s' ms"
proof (cases "status = LIBRDP_STATUS_OK")
  case True
  have "su_read_maps s = 0" "su_write_map s = 0" and s': "su_read_maps s' = 0" "su_write_map s' = 0"
    using run True by (auto simp: librdp_surface_resize_def split: option.splits if_splits prod.splits)
  then have "readers ms = 0" "writers ms = 0" using l by (simp_all add: lent_def)
  then show ?thesis
    using l s' none_held [OF l] surface_resize_ok(1) [OF run True] by (simp add: lent_def surface_ok_def)
qed (use surface_resize_ok(2) [OF run] l in simp)

lemma lent_blit:
  assumes l: "lent s ms" and run: "librdp_surface_blit_bgra32 x y w h pixels stride s = (status, s')"
    and src: "(unat h - 1) * stride + unat w * 4 \<le> length pixels"
  shows "lent s' ms"
proof (cases "status = LIBRDP_STATUS_OK")
  case True
  have ok: "surface_ok s" using l by (simp add: lent_def)
  note blit = blit_done [OF ok src run [unfolded True]]
  show ?thesis using l blit(2) unfolding blit(1) by (simp add: lent_def surface_ok_def)
qed (use blit_rejected [OF run] l in simp)

lemma lent_descriptor: "lent s ms \<Longrightarrow> lent s (ms @ [librdp_surface_mapping_init])"
  by (auto simp: lent_def readers_def writers_def librdp_surface_mapping_init_def free_mapping_def nth_append
      rdp_surface_mapping_valid_def)

lemma lent_new: "librdp_surface_new addr w h format m = (Some s, m') \<Longrightarrow> lent s []"
  by (auto simp: librdp_surface_new_def lent_def readers_def writers_def surface_zero_def librdp_surface_resize_def
      surface_size surface_ok_def not_less word_neq_0_conv split: if_splits prod.splits option.splits)

lemma lent_step: "surface_step (s, ms) (s', ms') \<Longrightarrow> lent s ms \<Longrightarrow> lent s' ms'"
  by (erule surface_step.cases) (auto intro: lent_descriptor lent_map lent_unmap lent_resize lent_blit)

lemma lent_reachable: "reachable_surface c \<Longrightarrow> lent (fst c) (snd c)"
  by (induction rule: reachable_surface.induct) (auto intro: lent_new dest: lent_step)

text \<open>
  C14. The memory safety of mapped pixels. A program makes a surface and descriptors, each initialised once, and then maps, unmaps, resizes
  and draws in any order and with any arguments (freeing the surface and initialising a descriptor again are not among the steps). Then every
  descriptor is either free or holds a mapping of the framebuffer as it is now: its pointer is the current pixel
  block with the current dimensions and generation, so no mapping dangles after a resize. A write mapping excludes
  every other mapping, the two counters are the numbers of outstanding mappings, and the framebuffer always has
  the size that its dimensions say.
\<close>

theorem surface_mappings_never_dangle:
  assumes "reachable_surface (s, ms)"
  shows "surface_ok s \<and> unat (su_read_maps s) = readers ms \<and> unat (su_write_map s) = writers ms \<and>
    writers ms \<le> 1 \<and> (writers ms = 0 \<or> readers ms = 0) \<and>
    (\<forall>i < length ms. free_mapping (ms ! i) \<or> holds s LIBRDP_SURFACE_ACCESS_READ (ms ! i) \<or>
       holds s LIBRDP_SURFACE_ACCESS_WRITE (ms ! i))"
  using lent_reachable [OF assms] by (auto simp: lent_def)

theorem surface_mappings_never_dangle_witness:
  "\<exists>s ms. reachable_surface (s, ms) \<and> writers ms = 1 \<and> readers ms = 0 \<and>
     holds s LIBRDP_SURFACE_ACCESS_WRITE (ms ! 0)"
proof -
  obtain s where s: "librdp_surface_new 7 2 2 1 [] = (Some s, [])" "su_read_maps s = 0" "su_write_map s = 0"
    by (auto simp: librdp_surface_new_def librdp_surface_resize_def surface_size surface_zero_def surface_constants)
  let ?d = librdp_surface_mapping_init
  obtain s' d' where map: "librdp_surface_map LIBRDP_SURFACE_ACCESS_WRITE (s, [?d] ! 0) = (LIBRDP_STATUS_OK, s', d')"
    "sm_access d' = LIBRDP_SURFACE_ACCESS_WRITE" "su_write_map s' = 1"
    using s(2,3) by (auto simp: librdp_surface_map_def Let_def librdp_surface_mapping_init_def rdp_surface_mapping_valid_def)
  have access: "\<not> holds s' LIBRDP_SURFACE_ACCESS_READ d'" using map(2) by (simp add: holds_def surface_constants)
  have "reachable_surface (s, [] @ [?d])" by (rule Step [OF New [OF s(1)] Descriptor])
  then have r: "reachable_surface (s', [d'])" using Step [OF _ Map [OF _ map(1)]] by force
  show ?thesis
    using r surface_mappings_never_dangle [OF r] map(2,3) access
    by (intro exI [of _ s'] exI [of _ "[d']"])
      (auto simp: readers_def writers_def free_mapping_def surface_constants split: if_splits)
qed

end
