(* ===== verification/Display.thy ===== *)
theory Display
  imports Session_Wire Bulk Bitmap_Decode Surface
begin

text \<open>
  The client's fast-path input and its framebuffer: \<^verbatim>\<open>src/src/client/session_protocol_io.c\<close> from the packet to the
  surface, with the fast-path branch of \<^verbatim>\<open>librdp_session_run_once\<close>. The transport is the list of the bytes that can be read
  without blocking. The handlers of drawing orders, surface commands and pointers and the RDP 6 and RDP 8 decompressors
  are hooks; they work on a state \<open>di_graphics\<close> of their own and may change everything else.
\<close>

section \<open>State\<close>

abbreviation (input) "RDP_FASTPATH_UPDATE_ORDERS \<equiv> (0x00 :: u8)"
abbreviation (input) "RDP_FASTPATH_UPDATE_BITMAP \<equiv> (0x01 :: u8)"
abbreviation (input) "RDP_FASTPATH_UPDATE_PALETTE \<equiv> (0x02 :: u8)"
abbreviation (input) "RDP_FASTPATH_UPDATE_SURFACE_COMMANDS \<equiv> (0x04 :: u8)"

definition RDP_BULK_TYPE_MASK :: u8 where "RDP_BULK_TYPE_MASK = 0x0f"
definition RDP_BULK_FLAGS_MASK :: u8 where "RDP_BULK_FLAGS_MASK = 0xe0"
definition RDP_BULK_TYPE_8K :: u8 where "RDP_BULK_TYPE_8K = 0x00"
definition RDP_BULK_TYPE_64K :: u8 where "RDP_BULK_TYPE_64K = 0x01"
definition RDP_BULK_TYPE_RDP6 :: u8 where "RDP_BULK_TYPE_RDP6 = 0x02"
definition RDP_BULK_TYPE_RDP61 :: u8 where "RDP_BULK_TYPE_RDP61 = 0x03"
definition RDP_BULK_TYPE_RDP8 :: u8 where "RDP_BULK_TYPE_RDP8 = 0x04"

lemmas bulk_constants = RDP_BULK_TYPE_MASK_def RDP_BULK_FLAGS_MASK_def RDP_BULK_TYPE_8K_def RDP_BULK_TYPE_64K_def
  RDP_BULK_TYPE_RDP6_def RDP_BULK_TYPE_RDP61_def RDP_BULK_TYPE_RDP8_def

record rdp_bulk_decompressor =
  bd_mppc8k :: rdp_bulk_mppc_state
  bd_mppc64k :: rdp_bulk_mppc_state

record ('c, 'g) display =
  di_session :: "'c librdp_session"
  di_input :: "u8 list"
  di_frame_bytes :: u32
  di_limits_rejected :: u64
  di_surface :: librdp_surface
  di_palette :: rdp_palette_update
  di_palette_valid :: bool
  di_fastpath_fragmenting :: bool
  di_fastpath_fragment_update_code :: u8
  di_fastpath_fragment :: rdp_buffer
  di_fastpath_decompressed :: rdp_buffer
  di_bulk_decompressor :: rdp_bulk_decompressor
  di_gdi_drawing_to_offscreen :: bool
  di_invalidated :: "(u32 \<times> u32 \<times> u32 \<times> u32) list"
  di_graphics :: 'g

type_synonym ('c, 'g) display_handler = "('c, 'g) display \<times> mem \<Rightarrow> librdp_status \<times> ('c, 'g) display \<times> mem"

record ('c, 'g) display_hooks =
  dh_decompress :: "u8 \<Rightarrow> u8 list \<Rightarrow> 'g \<times> rdp_buffer \<times> mem \<Rightarrow> librdp_status \<times> 'g \<times> rdp_buffer \<times> mem"
  dh_orders :: "u8 list \<Rightarrow> ('c, 'g) display_handler"
  dh_surface_commands :: "u8 list \<Rightarrow> ('c, 'g) display_handler"
  dh_pointer :: "u8 \<Rightarrow> u8 list \<Rightarrow> ('c, 'g) display_handler"

definition display_limit_rejected :: "('c, 'g) display \<Rightarrow> librdp_status \<times> ('c, 'g) display" where
  "display_limit_rejected d =
     (LIBRDP_STATUS_LIMIT_EXCEEDED, d\<lparr>di_limits_rejected := rdp_session_metric_add (di_limits_rejected d) 1\<rparr>)"

section \<open>Reading a packet\<close>

definition rdp_transport_buffer_peek_exact :: "nat \<Rightarrow> ('c, 'g) display \<Rightarrow> u8 list result" where
  "rdp_transport_buffer_peek_exact n d =
     (if length (di_input d) < n then Inl LIBRDP_STATUS_AGAIN else Inr (take n (di_input d)))"

definition fastpath_total :: "('c, 'g) display \<Rightarrow> (nat \<times> u16) result" where
  "fastpath_total d =
     ebind (rdp_transport_buffer_peek_exact 2 d) (\<lambda>header.
       if header ! 1 AND 0x80 \<noteq> 0 then
         ebind (rdp_transport_buffer_peek_exact 3 d) (\<lambda>header.
           Inr (3, push_bit 8 (ucast (header ! 1 AND 0x7f)) OR ucast (header ! 2)))
       else Inr (2, ucast (header ! 1)))"

definition rdp_session_read_fastpath_packet ::
    "('c, 'g) display \<times> mem \<Rightarrow> u8 list result \<times> ('c, 'g) display \<times> mem" where
  "rdp_session_read_fastpath_packet = (\<lambda>(d, m).
     case fastpath_total d of
       Inl e \<Rightarrow> (Inl e, d, m)
     | Inr (header_len, tot) \<Rightarrow>
         if unat tot < header_len then (protocol_error, d, m)
         else if unat tot > unat (di_frame_bytes d) then
           (case display_limit_rejected d of (status, d) \<Rightarrow> (Inl status, d, m))
         else
           (case rdp_buffer_reserve (unat tot) (rdp_buffer_init, m) of (status, packet, m) \<Rightarrow>
              if status \<noteq> LIBRDP_STATUS_OK then (Inl status, d, m)
              else
                (case rdp_transport_buffer_peek_exact (unat tot) d of
                   Inl e \<Rightarrow> (Inl e, d, m)
                 | Inr packet \<Rightarrow>
                     (Inr packet,
                      d\<lparr>di_input := drop (unat tot) (di_input d),
                        di_session := (di_session d)\<lparr>
                          se_transport_bytes_read :=
                            rdp_session_metric_add (se_transport_bytes_read (di_session d)) (of_nat (length packet)),
                          se_pdu_in := rdp_session_metric_add (se_pdu_in (di_session d)) 1\<rparr>\<rparr>, m))))"

section \<open>Decompression and fragments\<close>

definition rdp_bulk_decompress ::
    "('c, 'g) display_hooks \<Rightarrow> u8 \<Rightarrow> u8 list \<Rightarrow> rdp_bulk_decompressor \<times> 'g \<times> rdp_buffer \<times> mem \<Rightarrow>
     librdp_status \<times> rdp_bulk_decompressor \<times> 'g \<times> rdp_buffer \<times> mem" where
  "rdp_bulk_decompress hooks flags data = (\<lambda>(bd, g, decoded, m).
     let type = flags AND RDP_BULK_TYPE_MASK in
     if data = [] then (LIBRDP_STATUS_OK, bd, g, decoded, m)
     else if flags AND RDP_BULK_FLAGS_MASK = 0 then
       (case rdp_buffer_append data (decoded, m) of (status, decoded, m) \<Rightarrow> (status, bd, g, decoded, m))
     else if type = RDP_BULK_TYPE_8K then
       (case rdp_bulk_mppc_decompress flags data (bd_mppc8k bd, decoded, m) of
          (status, state, decoded, m) \<Rightarrow> (status, bd\<lparr>bd_mppc8k := state\<rparr>, g, decoded, m))
     else if type = RDP_BULK_TYPE_64K then
       (case rdp_bulk_mppc_decompress flags data (bd_mppc64k bd, decoded, m) of
          (status, state, decoded, m) \<Rightarrow> (status, bd\<lparr>bd_mppc64k := state\<rparr>, g, decoded, m))
     else if type = RDP_BULK_TYPE_RDP6 \<or> type = RDP_BULK_TYPE_RDP61 then
       (case dh_decompress hooks flags data (g, decoded, m) of
          (status, g, decoded, m) \<Rightarrow> (status, bd, g, decoded, m))
     else (LIBRDP_STATUS_UNSUPPORTED, bd, g, decoded, m))"

definition rdp_session_decompress_bulk_payload ::
    "('c, 'g) display_hooks \<Rightarrow> u8 \<Rightarrow> u8 list \<Rightarrow> rdp_bulk_decompressor \<times> 'g \<times> rdp_buffer \<times> mem \<Rightarrow>
     librdp_status \<times> rdp_bulk_decompressor \<times> 'g \<times> rdp_buffer \<times> mem" where
  "rdp_session_decompress_bulk_payload hooks flags data = (\<lambda>(bd, g, decoded, m).
     let decoded = decoded\<lparr>buf_length := 0\<rparr> in
     if flags AND RDP_BULK_FLAGS_MASK = 0 then
       (case rdp_buffer_append data (decoded, m) of (status, decoded, m) \<Rightarrow> (status, bd, g, decoded, m))
     else if flags AND RDP_BULK_TYPE_MASK = RDP_BULK_TYPE_RDP8 then
       (case dh_decompress hooks flags data (g, decoded, m) of
          (status, g, decoded, m) \<Rightarrow> (status, bd, g, decoded, m))
     else rdp_bulk_decompress hooks flags data (bd, g, decoded, m))"

definition rdp_session_fastpath_fragment_reset :: "('c, 'g) display \<Rightarrow> ('c, 'g) display" where
  "rdp_session_fastpath_fragment_reset d =
     d\<lparr>di_fastpath_fragmenting := False, di_fastpath_fragment_update_code := 0,
       di_fastpath_fragment := rdp_buffer_init,
       di_fastpath_decompressed := (di_fastpath_decompressed d)\<lparr>buf_length := 0\<rparr>\<rparr>"

text \<open>The bytes an update carries once it is decompressed.\<close>

definition update_payload :: "('c, 'g) display_hooks \<Rightarrow> rdp_fastpath_update \<Rightarrow> ('c, 'g) display \<times> mem \<Rightarrow>
    u8 list result \<times> ('c, 'g) display \<times> mem" where
  "update_payload hooks update = (\<lambda>(d, m).
     if up_compression update \<noteq> 0 then
       (case rdp_session_decompress_bulk_payload hooks (up_compression_flags update) (up_data update)
               (di_bulk_decompressor d, di_graphics d, di_fastpath_decompressed d, m) of
          (status, bd, g, decompressed, m) \<Rightarrow>
            (if status \<noteq> LIBRDP_STATUS_OK then Inl status else Inr (contents decompressed),
             d\<lparr>di_bulk_decompressor := bd, di_graphics := g, di_fastpath_decompressed := decompressed\<rparr>, m))
     else (Inr (up_data update), d, m))"

definition fragment_append :: "u8 list \<Rightarrow> ('c, 'g) display_handler" where
  "fragment_append payload = (\<lambda>(d, m).
     case rdp_buffer_append payload (di_fastpath_fragment d, m) of
       (status, fragment, m) \<Rightarrow> (status, d\<lparr>di_fastpath_fragment := fragment\<rparr>, m))"

text \<open>
  The payload of an update that is complete, with the flag \<^verbatim>\<open>from_fragment\<close>; \<open>Inr None\<close> when more fragments are needed.
\<close>

definition rdp_session_fastpath_payload ::
    "('c, 'g) display_hooks \<Rightarrow> rdp_fastpath_update \<Rightarrow> ('c, 'g) display \<times> mem \<Rightarrow>
     (u8 list \<times> bool) option result \<times> ('c, 'g) display \<times> mem" where
  "rdp_session_fastpath_payload hooks update s =
     (case update_payload hooks update s of
        (Inl e, d, m) \<Rightarrow> (Inl e, d, m)
      | (Inr payload, d, m) \<Rightarrow>
          if up_fragmentation update = RDP_FASTPATH_FRAGMENT_SINGLE then
            (Inr (Some (payload, False)),
             if di_fastpath_fragmenting d then rdp_session_fastpath_fragment_reset d else d, m)
          else if length payload > unat (di_frame_bytes d) \<or>
            buf_length (di_fastpath_fragment d) > unat (di_frame_bytes d) - length payload then
            (case display_limit_rejected d of (status, d) \<Rightarrow> (Inl status, d, m))
          else if up_fragmentation update = RDP_FASTPATH_FRAGMENT_FIRST then
            (case fragment_append payload (rdp_session_fastpath_fragment_reset d, m) of (status, d, m) \<Rightarrow>
               if status \<noteq> LIBRDP_STATUS_OK then (Inl status, d, m)
               else
                 (Inr None,
                  d\<lparr>di_fastpath_fragmenting := True, di_fastpath_fragment_update_code := up_update_code update\<rparr>, m))
          else if up_fragmentation update \<noteq> RDP_FASTPATH_FRAGMENT_NEXT \<and>
            up_fragmentation update \<noteq> RDP_FASTPATH_FRAGMENT_LAST then (protocol_error, d, m)
          else if \<not> di_fastpath_fragmenting d \<or> di_fastpath_fragment_update_code d \<noteq> up_update_code update
          then (protocol_error, d, m)
          else
            (case fragment_append payload (d, m) of (status, d, m) \<Rightarrow>
               if status \<noteq> LIBRDP_STATUS_OK then (Inl status, d, m)
               else if up_fragmentation update = RDP_FASTPATH_FRAGMENT_NEXT then (Inr None, d, m)
               else (Inr (Some (contents (di_fastpath_fragment d), True)), d, m)))"

section \<open>Applying updates\<close>

definition rdp_session_emit_surface_invalidated :: "u32 \<Rightarrow> u32 \<Rightarrow> u32 \<Rightarrow> u32 \<Rightarrow> ('c, 'g) display \<Rightarrow> ('c, 'g) display" where
  "rdp_session_emit_surface_invalidated x y width height d =
     (if width = 0 \<or> height = 0 \<or> di_gdi_drawing_to_offscreen d then d
      else d\<lparr>di_invalidated := di_invalidated d @ [(x, y, width, height)]\<rparr>)"

definition apply_rect :: "rdp_bitmap_rect \<Rightarrow> ('c, 'g) display_handler" where
  "apply_rect rect = (\<lambda>(d, m).
     case rdp_bitmap_decode_rect_bgra32_with_palette rect
            (if di_palette_valid d then Some (di_palette d) else None) (rdp_buffer_init, 0, m) of
       (status, pixels, stride, m) \<Rightarrow>
         if status \<noteq> LIBRDP_STATUS_OK then (status, d, m)
         else
           (case librdp_surface_blit_bgra32 (ucast (br_dest_left rect)) (ucast (br_dest_top rect)) (ucast (br_width rect))
                   (ucast (br_height rect)) (contents pixels) stride (di_surface d) of
              (status, surface) \<Rightarrow>
                if status \<noteq> LIBRDP_STATUS_OK then (status, d\<lparr>di_surface := surface\<rparr>, m)
                else
                  (LIBRDP_STATUS_OK,
                   rdp_session_emit_surface_invalidated (ucast (br_dest_left rect)) (ucast (br_dest_top rect))
                     (ucast (br_width rect)) (ucast (br_height rect)) (d\<lparr>di_surface := surface\<rparr>), m)))"

fun apply_rects :: "rdp_bitmap_rect list \<Rightarrow> ('c, 'g) display_handler" where
  "apply_rects [] (d, m) = (LIBRDP_STATUS_OK, d, m)"
| "apply_rects (rect # rects) (d, m) =
     (case apply_rect rect (d, m) of (status, d, m) \<Rightarrow>
        if status \<noteq> LIBRDP_STATUS_OK then (status, d, m) else apply_rects rects (d, m))"

definition rdp_session_apply_bitmap_update :: "rdp_bitmap_update \<Rightarrow> ('c, 'g) display_handler" where
  "rdp_session_apply_bitmap_update update = apply_rects (take (unat (bu_count update)) (bu_rects update))"

definition rdp_session_apply_palette_update :: "rdp_palette_update \<Rightarrow> ('c, 'g) display_handler" where
  "rdp_session_apply_palette_update palette = (\<lambda>(d, m).
     if unat (pu_count palette) > RDP_BITMAP_PALETTE_MAX_ENTRIES then (LIBRDP_STATUS_INVALID_ARGUMENT, d, m)
     else (LIBRDP_STATUS_OK, d\<lparr>di_palette := palette, di_palette_valid := True\<rparr>, m))"

definition parsed_update :: "'a result \<Rightarrow> ('a \<Rightarrow> ('c, 'g) display_handler) \<Rightarrow> ('c, 'g) display_handler" where
  "parsed_update parsed handler = (\<lambda>(d, m).
     case parsed of Inl e \<Rightarrow> (e, d, m) | Inr update \<Rightarrow> handler update (d, m))"

section \<open>The packet\<close>

text \<open>What an update code is handled by; \<open>None\<close> for a synchronize update.\<close>

definition update_handler ::
    "('c, 'g) display_hooks \<Rightarrow> u8 \<Rightarrow> (u8 list \<Rightarrow> ('c, 'g) display_handler) option" where
  "update_handler hooks code =
     (if code = RDP_FASTPATH_UPDATE_BITMAP then
        Some (\<lambda>data. parsed_update (rdp_bitmap_parse_fastpath_update data) rdp_session_apply_bitmap_update)
      else if code = RDP_FASTPATH_UPDATE_PALETTE then
        Some (\<lambda>data. parsed_update (rdp_bitmap_parse_fastpath_palette_update data) rdp_session_apply_palette_update)
      else if code = RDP_FASTPATH_UPDATE_ORDERS then Some (dh_orders hooks)
      else if code = RDP_FASTPATH_UPDATE_SURFACE_COMMANDS then Some (dh_surface_commands hooks)
      else if code = RDP_FASTPATH_UPDATE_SYNCHRONIZE then None
      else if code \<in> {0x05, 0x06, 0x08, 0x09, 0x0a, 0x0b, 0x0c} then Some (dh_pointer hooks code)
      else None)"

text \<open>
  The loop over the updates. The variable \<^verbatim>\<open>status\<close> is that of the last update; an update that cannot be decompressed
  leaves \<^verbatim>\<open>UNSUPPORTED\<close> in it and the loop goes on.
\<close>

fun process_updates :: "('c, 'g) display_hooks \<Rightarrow> rdp_fastpath_update list \<Rightarrow>
    librdp_status \<times> ('c, 'g) display \<times> mem \<Rightarrow> librdp_status \<times> ('c, 'g) display \<times> mem" where
  "process_updates hooks [] s = s"
| "process_updates hooks (update # updates) (status, d, m) =
     (case update_handler hooks (up_update_code update) of
        None \<Rightarrow> process_updates hooks updates (status, d, m)
      | Some handler \<Rightarrow>
          (case rdp_session_fastpath_payload hooks update (d, m) of
             (Inl e, d, m) \<Rightarrow>
               if e = LIBRDP_STATUS_UNSUPPORTED then process_updates hooks updates (e, d, m) else (e, d, m)
           | (Inr None, d, m) \<Rightarrow> process_updates hooks updates (LIBRDP_STATUS_OK, d, m)
           | (Inr (Some (data, from_fragment)), d, m) \<Rightarrow>
               (case handler data (d, m) of (status, d, m) \<Rightarrow>
                  let d = (if from_fragment then rdp_session_fastpath_fragment_reset d else d) in
                  if status \<noteq> LIBRDP_STATUS_OK then (status, d, m)
                  else process_updates hooks updates (LIBRDP_STATUS_OK, d, m))))"

definition rdp_session_process_fastpath_packet ::
    "'c crypto \<Rightarrow> ('c, 'g) display_hooks \<Rightarrow> u8 list \<Rightarrow> ('c, 'g) display_handler" where
  "rdp_session_process_fastpath_packet cr hooks packet = (\<lambda>(d, m).
     case rdp_fastpath_unwrap_security cr (se_standard_security_active (di_session d)) packet
            (Some (se_standard_security (di_session d)), rdp_buffer_init, m) of
       (status, used_decoded, security, decoded, m) \<Rightarrow>
         let d = d\<lparr>di_session := (di_session d)\<lparr>se_standard_security := the security\<rparr>\<rparr> in
         if status \<noteq> LIBRDP_STATUS_OK then (status, d, m)
         else
           (case rdp_fastpath_parse_updates (if used_decoded then contents decoded else packet) of
              Inl e \<Rightarrow> (e, d, m)
            | Inr updates \<Rightarrow>
                process_updates hooks (take (ul_count updates) (ul_updates updates)) (LIBRDP_STATUS_OK, d, m)))"

text \<open>
  The branch of the session loop for a packet whose first byte is not 3. Both \<^verbatim>\<open>rdp_session_fail\<close> and
  \<^verbatim>\<open>rdp_session_fail_security_integrity\<close>, which also disconnects and is taken for a protocol error in an encrypted packet, are
  the flag \<open>se_failed\<close> here; the return value is the same for both.
\<close>

definition session_fastpath_branch :: "'c crypto \<Rightarrow> ('c, 'g) display_hooks \<Rightarrow> ('c, 'g) display_handler" where
  "session_fastpath_branch cr hooks s =
     (case rdp_session_read_fastpath_packet s of
        (Inl e, d, m) \<Rightarrow>
          if e = LIBRDP_STATUS_AGAIN then (LIBRDP_STATUS_OK, d, m)
          else (e, d\<lparr>di_session := (di_session d)\<lparr>se_failed := True\<rparr>\<rparr>, m)
      | (Inr packet, d, m) \<Rightarrow>
          (case rdp_session_process_fastpath_packet cr hooks packet (d, m) of (status, d, m) \<Rightarrow>
             (status,
              if status \<noteq> LIBRDP_STATUS_OK then d\<lparr>di_session := (di_session d)\<lparr>se_failed := True\<rparr>\<rparr> else d, m)))"

section \<open>A packet across the wire\<close>

lemma length_fastpath_header: "length (fastpath_header_bytes a f n) \<le> 3"
  by (simp add: fastpath_header_bytes_def)

lemma packet_written:
  assumes "f \<le> 3" "n + 3 \<le> 0x7fff" "length (concat bodies) \<le> 0x7fff"
  obtains b where "run_writers (rdp_fastpath_write_header 0 f n # map rdp_buffer_append bodies) (rdp_buffer_init, []) =
      (LIBRDP_STATUS_OK, b, [])" "contents b = fastpath_header_bytes 0 f n @ concat bodies"
proof -
  have "list_all2 emits (rdp_fastpath_write_header 0 f n # map rdp_buffer_append bodies) (fastpath_header_bytes 0 f n # bodies)"
    using assms emits_fastpath_header [of 0 f n]
    by (simp add: list.rel_map list.rel_refl emits_append)
  from emits_fresh [OF emits_run [OF this]] length_fastpath_header [of 0 f n] assms(3) that show ?thesis by auto
qed

lemma unwrap_plain:
  assumes "n + 3 \<le> 0x7fff" "n \<le> length body"
  shows "rdp_fastpath_unwrap_security cr active (fastpath_header_bytes 0 0 n @ body) (security, b, m) =
    (LIBRDP_STATUS_OK, False, security, b, m)"
  using parse_header_bytes [of 0 0 n body] assms by (auto simp: rdp_fastpath_unwrap_security_def)

text \<open>
  What the server sends for the bytes of one update, and what the client gets when it removes the security layer.
\<close>

lemma fastpath_payload_crosses:
  assumes cr: "rc4_involutive cr" "crypto_available cr" and net: "\<And>d. net d = LIBRDP_STATUS_OK" and sec: "secured p s"
    and ub: "buf_ok ub" "contents ub = u" "buf_length ub = length u" and len: "length u + 11 \<le> 0x3fff"
  obtains p' f n body k b used where
    "rdp_server_send_fastpath_fragment cr net ub (p, []) = (LIBRDP_STATUS_OK, p', [])"
    "pe_sent p' = pe_sent p @ [fastpath_header_bytes 0 f n @ body]" "length body = n" "n + 3 \<le> 0x3fff"
    "f \<le> 3"
    "rdp_fastpath_unwrap_security cr (se_standard_security_active s) (fastpath_header_bytes 0 f n @ body)
      (Some (se_standard_security s), rdp_buffer_init, []) = (LIBRDP_STATUS_OK, used, Some k, b, [])"
    "(if used then contents b else fastpath_header_bytes 0 f n @ body) = fastpath_header_bytes 0 0 (length u) @ u"
    "secured p' (s\<lparr>se_standard_security := k\<rparr>)"
proof (cases "pe_standard_security_ready p")
  case False
  obtain w where w: "run_writers [rdp_fastpath_write_header 0 0 (length u), rdp_buffer_append u] (rdp_buffer_init, []) =
      (LIBRDP_STATUS_OK, w, [])" "contents w = fastpath_header_bytes 0 0 (length u) @ u"
    by (rule packet_written [of 0 "length u" "[u]"]) (use len in auto)
  have send: "\<exists>p'. rdp_server_send_fastpath_fragment cr net ub (p, []) = (LIBRDP_STATUS_OK, p', []) \<and>
      pe_sent p' = pe_sent p @ [fastpath_header_bytes 0 0 (length u) @ u] \<and> secured p' s"
    using False w net ub sec
    by (simp add: rdp_server_send_fastpath_fragment_def rdp_server_peer_send_all_def secured_def Let_def)
  then show ?thesis
    using that [of _ 0 "length u" u False "se_standard_security s" rdp_buffer_init] len
      unwrap_plain [of "length u" u cr "se_standard_security_active s" "Some (se_standard_security s)" rdp_buffer_init "[]"]
    by auto
next
  case True
  then have pr: "paired (pe_standard_security p) (se_standard_security s)" "can_send (pe_standard_security p)"
    and act: "se_standard_security_active s" using sec by (auto simp: secured_def)
  have u: "length u \<le> UINT32_MAX" using len by (simp add: UINT32_MAX_def)
  obtain sig where sig: "rdp_security_mac_signature cr (pe_standard_security p) u = Inr sig"
    using mac_available(1) [OF cr(2) pr(2) u] by blast
  have l8: "length sig = 8" by (rule signature_length(1) [OF available_lengths [OF cr(2)] sig])
  obtain e c' where enc: "rdp_security_encrypt_payload cr (pe_standard_security p) u = (LIBRDP_STATUS_OK, e, c')" "can_send c'"
    using encrypt_available [OF cr(2) pr(2)] by blast
  have le: "length e = length u" by (rule payload_length(2) [OF enc(1)])
  obtain r' where dec: "rdp_security_decrypt_payload cr (se_standard_security s) e = (LIBRDP_STATUS_OK, u, r')"
    and r': "paired c' r'" "sc_sign_key r' = sc_sign_key (pe_standard_security p)" "sc_key_len r' = sc_key_len (pe_standard_security p)"
    using decrypt_encrypt [OF cr(1) pr(1) enc(1)] by auto
  have mac: "rdp_security_mac_signature cr r' u = Inr sig" using sig mac_cong [OF r'(2,3)] by simp
  have l11: "length e + 11 \<le> 0x7fff" using le len by simp
  obtain b where b: "rdp_fastpath_unwrap_security cr True (fastpath_header_bytes 0 1 (length e + 8) @ sig @ e)
      (Some (se_standard_security s), rdp_buffer_init, []) = (LIBRDP_STATUS_OK, True, Some r', b, [])"
    "contents b = fastpath_header_bytes 0 0 (length u) @ u"
    by (rule unwrap_encrypted [OF l8 l11 dec mac])
  obtain c where c: "rdp_buffer_append u (rdp_buffer_init, []) = (LIBRDP_STATUS_OK, c, [])" "contents c = u"
    by (rule emits_fresh [OF emits_append [of u]]) (use len in auto)
  obtain w where w: "run_writers [rdp_fastpath_write_header 0 1 (length e + 8), rdp_buffer_append sig, rdp_buffer_append e]
      (rdp_buffer_init, []) = (LIBRDP_STATUS_OK, w, [])" "contents w = fastpath_header_bytes 0 1 (length e + 8) @ sig @ e"
    by (rule packet_written [of 1 "length e + 8" "[sig, e]"]) (use le len l8 in auto)
  have "\<exists>p'. rdp_server_send_fastpath_fragment cr net ub (p, []) = (LIBRDP_STATUS_OK, p', []) \<and>
      pe_sent p' = pe_sent p @ [fastpath_header_bytes 0 1 (length e + 8) @ sig @ e] \<and>
      secured p' (s\<lparr>se_standard_security := r'\<rparr>)"
    using True w c sig enc net ub sec r'(1) le act
    by (simp add: rdp_server_send_fastpath_fragment_def rdp_server_peer_send_all_def secured_def Let_def)
  then show ?thesis
    using that [of _ 1 "length e + 8" "sig @ e" True r' b] b act le l8 len by auto
qed

text \<open>The client after it has taken a packet from its input.\<close>

definition counted :: "nat \<Rightarrow> 'c librdp_session \<Rightarrow> 'c librdp_session" where
  "counted n s = s\<lparr>se_transport_bytes_read := rdp_session_metric_add (se_transport_bytes_read s) (of_nat n),
     se_pdu_in := rdp_session_metric_add (se_pdu_in s) 1\<rparr>"

lemma counted_fields [simp]:
  "se_standard_security (counted n s) = se_standard_security s"
  "se_standard_security_active (counted n s) = se_standard_security_active s"
  "secured p ((counted n s)\<lparr>se_standard_security := k\<rparr>) = secured p (s\<lparr>se_standard_security := k\<rparr>)"
  by (simp_all add: counted_def secured_def)

lemma fastpath_total_bytes:
  assumes "n + 3 \<le> 0x7fff" "di_input d = fastpath_header_bytes 0 f n @ rest" "length rest \<ge> n"
  shows "\<exists>h tot. fastpath_total d = Inr (h, tot) \<and> h = length (fastpath_header_bytes 0 f n) \<and> unat tot = h + n"
proof (cases "n + 2 \<le> 127")
  case True
  then have v: "unat (of_nat (n + 2) :: u8) = n + 2" "\<not> bit (of_nat (n + 2) :: u8) 7"
    by (intro unat_of_nat_u8 bit_of_nat_high [of _ 7]; simp)+
  have head: "rdp_transport_buffer_peek_exact 2 d = Inr [push_bit 6 f, of_nat (n + 2)]"
    using True assms(2) by (simp add: rdp_transport_buffer_peek_exact_def fastpath_header_bytes_def)
  show ?thesis
    using True v by (simp add: fastpath_total_def head fastpath_header_bytes_def mask_simps unsigned_ucast_eq
        take_bit_nat_eq_self del: of_nat_add)
next
  case False
  let ?hi = "0x80 OR (of_nat ((n + 3) div 256) AND 0x7f) :: u8" and ?lo = "of_nat ((n + 3) mod 256) :: u8"
  have head: "rdp_transport_buffer_peek_exact 2 d = Inr [push_bit 6 f, ?hi]"
    "rdp_transport_buffer_peek_exact 3 d = Inr [push_bit 6 f, ?hi, ?lo]"
    using False assms(2) by (simp_all add: rdp_transport_buffer_peek_exact_def fastpath_header_bytes_def)
  show ?thesis
    using False long_length_value [OF assms(1)] by (simp add: fastpath_total_def head fastpath_header_bytes_def del: of_nat_add)
qed

lemma packet_read:
  assumes input: "di_input d = (fastpath_header_bytes 0 f n @ body) @ rest" and n: "length body = n" "n + 3 \<le> 0x7fff"
    and frame: "n + 3 \<le> unat (di_frame_bytes d)"
  shows "rdp_session_read_fastpath_packet (d, []) =
    (Inr (fastpath_header_bytes 0 f n @ body),
     d\<lparr>di_input := rest, di_session := counted (length (fastpath_header_bytes 0 f n @ body)) (di_session d)\<rparr>, [])"
proof -
  let ?packet = "fastpath_header_bytes 0 f n @ body"
  obtain h tot where tot: "fastpath_total d = Inr (h, tot)" "h = length (fastpath_header_bytes 0 f n)" "unat tot = h + n"
    using fastpath_total_bytes [of n d f "body @ rest"] assms by auto
  have len: "unat tot = length ?packet" using tot n(1) by simp
  have le: "length ?packet \<le> n + 3" using length_fastpath_header [of 0 f n] n(1) by simp
  obtain b where "rdp_buffer_reserve (unat tot) (rdp_buffer_init, []) = (LIBRDP_STATUS_OK, b, [])"
    using reserve_succeeds [OF buf_ok_init, of "unat tot"] len le n(2) by auto
  then show ?thesis
    using tot(1,2) len le frame input
    by (simp add: rdp_session_read_fastpath_packet_def rdp_transport_buffer_peek_exact_def counted_def)
qed

definition fail_session :: "librdp_status \<times> ('c, 'g) display \<times> mem \<Rightarrow> librdp_status \<times> ('c, 'g) display \<times> mem" where
  "fail_session = (\<lambda>(status, d, m).
     (status, if status \<noteq> LIBRDP_STATUS_OK then d\<lparr>di_session := (di_session d)\<lparr>se_failed := True\<rparr>\<rparr> else d, m))"

lemma update_length: "up_compression u = 0 \<Longrightarrow> length (update_bytes u) = length (up_data u) + 3"
  by (simp add: update_bytes_def)

lemma update_crosses:
  assumes cr: "rc4_involutive cr" "crypto_available cr" and net: "\<And>d. net d = LIBRDP_STATUS_OK" and sec: "secured p s"
    and u: "update_wf u" "up_compression u = 0" "length (up_data u) \<le> RDP_SERVER_FASTPATH_FRAGMENT_DATA_MAX"
  obtains ub p' w s' where
    "rdp_fastpath_write_update u (rdp_buffer_init, []) = (LIBRDP_STATUS_OK, ub, [])"
    "rdp_server_send_fastpath_fragment cr net ub (p, []) = (LIBRDP_STATUS_OK, p', [])" "pe_sent p' = pe_sent p @ [w]"
    "secured p' s'"
    "\<And>(hooks :: ('c, 'g) display_hooks) d rest. di_session d = s \<Longrightarrow> di_input d = w @ rest \<Longrightarrow> 0x3fff \<le> unat (di_frame_bytes d) \<Longrightarrow>
       session_fastpath_branch cr hooks (d, []) =
       fail_session (process_updates hooks [u] (LIBRDP_STATUS_OK, d\<lparr>di_input := rest, di_session := s'\<rparr>, []))"
proof -
  have lu: "length (update_bytes u) + 11 \<le> 0x3fff"
    using update_length [OF u(2)] u(3) by (simp add: RDP_SERVER_FASTPATH_FRAGMENT_DATA_MAX_def)
  obtain ub where ub: "rdp_fastpath_write_update u (rdp_buffer_init, []) = (LIBRDP_STATUS_OK, ub, [])" "buf_ok ub"
    "contents ub = update_bytes u" "buf_length ub = length (update_bytes u)"
    by (rule emits_fresh [OF emits_update [OF u(1)]]) (use lu in auto)
  obtain p' f n body k b used where x:
    "rdp_server_send_fastpath_fragment cr net ub (p, []) = (LIBRDP_STATUS_OK, p', [])"
    "pe_sent p' = pe_sent p @ [fastpath_header_bytes 0 f n @ body]" "length body = n" "n + 3 \<le> 0x3fff"
    and un: "rdp_fastpath_unwrap_security cr (se_standard_security_active s) (fastpath_header_bytes 0 f n @ body)
      (Some (se_standard_security s), rdp_buffer_init, []) = (LIBRDP_STATUS_OK, used, Some k, b, [])"
    "(if used then contents b else fastpath_header_bytes 0 f n @ body) =
      fastpath_header_bytes 0 0 (length (update_bytes u)) @ update_bytes u"
    and sec': "secured p' (s\<lparr>se_standard_security := k\<rparr>)"
    by (rule fastpath_payload_crosses [where net = net, OF cr net sec ub(2-4) lu])
  let ?w = "fastpath_header_bytes 0 f n @ body"
  have parse: "rdp_fastpath_parse_updates (if used then contents b else ?w) = Inr \<lparr>ul_count = 1, ul_updates = [u]\<rparr>"
    using fastpath_updates.parse_enc [of "[u]"] u(1) lu unfolding un(2) by (simp add: updates_packet_def Let_def)
  have "session_fastpath_branch cr hooks (d, []) =
     fail_session (process_updates hooks [u]
       (LIBRDP_STATUS_OK, d\<lparr>di_input := rest, di_session := (counted (length ?w) s)\<lparr>se_standard_security := k\<rparr>\<rparr>, []))"
    if d: "di_session d = s" "di_input d = ?w @ rest" "0x3fff \<le> unat (di_frame_bytes d)"
    for hooks :: "('c, 'g) display_hooks" and d rest
    using packet_read [OF d(2) x(3)] x(4) d un parse
    by (simp add: session_fastpath_branch_def rdp_session_process_fastpath_packet_def fail_session_def del: process_updates.simps)
  then show ?thesis
    using that [OF ub(1) x(1,2), of "(counted (length ?w) s)\<lparr>se_standard_security := k\<rparr>"] sec' by simp
qed

section \<open>A fragmented update across the wire\<close>

text \<open>The session loop run for a number of packets.\<close>

fun client_runs :: "'c crypto \<Rightarrow> ('c, 'g) display_hooks \<Rightarrow> nat \<Rightarrow> ('c, 'g) display_handler" where
  "client_runs cr hooks 0 (d, m) = (LIBRDP_STATUS_OK, d, m)"
| "client_runs cr hooks (Suc n) (d, m) =
     (case session_fastpath_branch cr hooks (d, m) of (status, d, m) \<Rightarrow>
        if status \<noteq> LIBRDP_STATUS_OK then (status, d, m) else client_runs cr hooks n (d, m))"

text \<open>The client has the first \<open>off\<close> bytes of an update.\<close>

definition gathering :: "u8 \<Rightarrow> u8 list \<Rightarrow> nat \<Rightarrow> ('c, 'g) display \<Rightarrow> bool" where
  "gathering code data off d \<longleftrightarrow> di_fastpath_fragmenting d \<and> di_fastpath_fragment_update_code d = code \<and>
     buf_ok (di_fastpath_fragment d) \<and> contents (di_fastpath_fragment d) = take off data"

definition delivered :: "bool \<Rightarrow> librdp_status \<times> ('c, 'g) display \<times> mem \<Rightarrow> librdp_status \<times> ('c, 'g) display \<times> mem" where
  "delivered from_fragment = (\<lambda>(status, d, m).
     fail_session (status, if from_fragment then rdp_session_fastpath_fragment_reset d else d, m))"

lemma fragment_appended:
  assumes "buf_ok (di_fastpath_fragment d)" "buf_length (di_fastpath_fragment d) + length payload \<le> 2 ^ 63"
  obtains b where "fragment_append payload (d, []) = (LIBRDP_STATUS_OK, d\<lparr>di_fastpath_fragment := b\<rparr>, [])" "buf_ok b"
    "contents b = contents (di_fastpath_fragment d) @ payload"
proof -
  obtain st b m where 1: "rdp_buffer_append payload (di_fastpath_fragment d, []) = (st, b, m)" by (rule prod_cases3)
  note s = emitsD [OF emits_append assms(1) 1]
  have "st = LIBRDP_STATUS_OK" "m = []" using s(5) assms(2) by auto
  then show ?thesis using that [of b] 1 s(1,2) by (simp add: fragment_append_def)
qed

text \<open>One fragment of an update at the client.\<close>

lemma single_handled:
  assumes "update_handler hooks (up_update_code u) = Some handler" "up_compression u = 0" "up_fragmentation u = 0"
  shows "fail_session (process_updates hooks [u] (LIBRDP_STATUS_OK, d, [])) =
    delivered False (handler (up_data u)
      (if di_fastpath_fragmenting d then rdp_session_fastpath_fragment_reset d else d, []))"
  using assms
  by (simp add: rdp_session_fastpath_payload_def update_payload_def delivered_def Let_def split: prod.split)

lemma first_gathered:
  assumes "update_handler hooks (up_update_code u) = Some handler" "up_compression u = 0" "up_fragmentation u = 2"
    and "length (up_data u) + buf_length (di_fastpath_fragment d) \<le> unat (di_frame_bytes d)"
    and "up_data u = take n data"
  shows "\<exists>b. buf_ok b \<and> contents b = take n data \<and>
    fail_session (process_updates hooks [u] (LIBRDP_STATUS_OK, d, [])) =
      (LIBRDP_STATUS_OK, (rdp_session_fastpath_fragment_reset d)\<lparr>di_fastpath_fragment := b, di_fastpath_fragmenting := True,
         di_fastpath_fragment_update_code := up_update_code u\<rparr>, [])"
proof -
  let ?d = "rdp_session_fastpath_fragment_reset d"
  have "buf_ok (di_fastpath_fragment ?d)" "buf_length (di_fastpath_fragment ?d) + length (up_data u) \<le> 2 ^ 63"
    using assms(4) unat_bounds(3) [of "di_frame_bytes d"]
    by (simp_all add: rdp_session_fastpath_fragment_reset_def rdp_buffer_init_def buf_ok_init [unfolded rdp_buffer_init_def])
  from fragment_appended [OF this] obtain b where b:
    "fragment_append (up_data u) (?d, []) = (LIBRDP_STATUS_OK, ?d\<lparr>di_fastpath_fragment := b\<rparr>, [])" "buf_ok b"
    "contents b = up_data u" by (auto simp: rdp_session_fastpath_fragment_reset_def)
  then show ?thesis
    using assms
    by (intro exI [of _ b])
      (auto simp: rdp_session_fastpath_payload_def update_payload_def fail_session_def not_less Let_def)
qed

lemma next_gathered:
  assumes "update_handler hooks (up_update_code u) = Some handler" "up_compression u = 0"
    and frag: "up_fragmentation u = 3 \<or> up_fragmentation u = 1"
    and d: "gathering (up_update_code u) data off d" and u: "up_data u = take n (drop off data)"
    and room: "length data \<le> unat (di_frame_bytes d)"
  shows "\<exists>b. buf_ok b \<and> contents b = take (off + n) data \<and>
    fail_session (process_updates hooks [u] (LIBRDP_STATUS_OK, d, [])) =
      (if up_fragmentation u = 3 then (LIBRDP_STATUS_OK, d\<lparr>di_fastpath_fragment := b\<rparr>, [])
       else delivered True (handler (contents b) (d\<lparr>di_fastpath_fragment := b\<rparr>, [])))"
proof -
  have len: "buf_length (di_fastpath_fragment d) + length (up_data u) \<le> length data"
    using d u length_contents [of "di_fastpath_fragment d"] by (auto simp: gathering_def min_def split: if_splits)
  from d have "buf_ok (di_fastpath_fragment d)" by (simp add: gathering_def)
  from fragment_appended [OF this, of "up_data u"] len room unat_bounds(3) [of "di_frame_bytes d"] obtain b where b:
    "fragment_append (up_data u) (d, []) = (LIBRDP_STATUS_OK, d\<lparr>di_fastpath_fragment := b\<rparr>, [])" "buf_ok b"
    "contents b = contents (di_fastpath_fragment d) @ up_data u" by auto
  have c: "contents b = take (off + n) data" using b(3) d u by (simp add: gathering_def take_add)
  have step: "rdp_session_fastpath_payload hooks u (d, []) =
      (Inr (if up_fragmentation u = 3 then None else Some (contents b, True)), d\<lparr>di_fastpath_fragment := b\<rparr>, [])"
    using assms(2) frag d b(1) len room
    by (auto simp: rdp_session_fastpath_payload_def update_payload_def gathering_def not_less)
  show ?thesis
    by (intro exI [of _ b] conjI b(2) c)
      (simp add: assms(1) step fail_session_def delivered_def Let_def split: prod.split)
qed

lemma fragment_fields:
  assumes "off \<le> length data"
  shows "up_data (fastpath_fragment code data off) = take (fastpath_fragment_len data off) (drop off data)"
    and "up_update_code (fastpath_fragment code data off) = code"
    and "up_compression (fastpath_fragment code data off) = 0"
    and "up_fragmentation (fastpath_fragment code data off) = fastpath_fragmentation data off"
    and "length (up_data (fastpath_fragment code data off)) \<le> RDP_SERVER_FASTPATH_FRAGMENT_DATA_MAX"
    and "rdp_fastpath_valid_update_code code \<Longrightarrow> code \<noteq> 3 \<Longrightarrow> update_wf (fastpath_fragment code data off)"
  by (auto simp: fastpath_fragment_def fastpath_fragment_len_def fastpath_fragmentation_def update_wf_def
      RDP_SERVER_FASTPATH_FRAGMENT_DATA_MAX_def Let_def min_def)

lemma client_runs_one: "client_runs cr hooks (Suc 0) (d, m) = session_fastpath_branch cr hooks (d, m)"
  by (auto split: prod.split)

text \<open>One fragment after the first, at both ends.\<close>

lemma fragment_crosses_at:
  assumes cr: "rc4_involutive cr" "crypto_available cr" and net: "\<And>d. net d = LIBRDP_STATUS_OK" and sec: "secured p s"
    and code: "rdp_fastpath_valid_update_code code" "code \<noteq> 3" and handler: "update_handler hooks code = Some handler"
    and long: "RDP_SERVER_FASTPATH_FRAGMENT_DATA_MAX < length data" and off: "0 < off" "off < length data"
  defines "n \<equiv> fastpath_fragment_len data off"
  obtains p' w s' where
    "rdp_server_send_fastpath_update_from cr net code data off (p, []) =
      (if off + n < length data then rdp_server_send_fastpath_update_from cr net code data (off + n) (p', [])
       else (LIBRDP_STATUS_OK, p', []))" "pe_sent p' = pe_sent p @ [w]" "secured p' s'"
    "\<And>d rest. di_session d = s \<Longrightarrow> gathering code data off d \<Longrightarrow> di_input d = w @ rest \<Longrightarrow> 0x3fff \<le> unat (di_frame_bytes d) \<Longrightarrow>
       length data \<le> unat (di_frame_bytes d) \<Longrightarrow>
       \<exists>b. buf_ok b \<and> contents b = take (off + n) data \<and> session_fastpath_branch cr hooks (d, []) =
         (if off + n < length data then (LIBRDP_STATUS_OK, d\<lparr>di_input := rest, di_session := s', di_fastpath_fragment := b\<rparr>, [])
          else delivered True (handler (contents b) (d\<lparr>di_input := rest, di_session := s', di_fastpath_fragment := b\<rparr>, [])))"
proof -
  let ?u = "fastpath_fragment code data off"
  note f = fragment_fields [OF less_imp_le [OF off(2)], of code, folded n_def]
  obtain ub p' w s' where send: "rdp_fastpath_write_update ?u (rdp_buffer_init, []) = (LIBRDP_STATUS_OK, ub, [])"
    "rdp_server_send_fastpath_fragment cr net ub (p, []) = (LIBRDP_STATUS_OK, p', [])" "pe_sent p' = pe_sent p @ [w]" "secured p' s'"
    and recv: "\<And>d rest. di_session d = s \<Longrightarrow> di_input d = w @ rest \<Longrightarrow> 0x3fff \<le> unat (di_frame_bytes d) \<Longrightarrow>
       session_fastpath_branch cr hooks (d, []) =
       fail_session (process_updates hooks [?u] (LIBRDP_STATUS_OK, d\<lparr>di_input := rest, di_session := s'\<rparr>, []))"
    using update_crosses [where net = net, OF cr net sec f(6) [OF code] f(3) f(5)] by metis
  have frag: "up_fragmentation ?u = (if off + n < length data then 3 else 1)"
    using off long by (auto simp: f(4) n_def fastpath_fragmentation_def fastpath_fragment_len_def)
  have client: "\<exists>b. buf_ok b \<and> contents b = take (off + n) data \<and> session_fastpath_branch cr hooks (d, []) =
      (if off + n < length data then (LIBRDP_STATUS_OK, d\<lparr>di_input := rest, di_session := s', di_fastpath_fragment := b\<rparr>, [])
       else delivered True (handler (contents b) (d\<lparr>di_input := rest, di_session := s', di_fastpath_fragment := b\<rparr>, [])))"
    if "di_session d = s" "gathering code data off d" "di_input d = w @ rest" "0x3fff \<le> unat (di_frame_bytes d)"
      "length data \<le> unat (di_frame_bytes d)" for d rest
  proof -
    have "gathering (up_update_code ?u) data off (d\<lparr>di_input := rest, di_session := s'\<rparr>)"
      using that(2) by (simp add: gathering_def f(2))
    from next_gathered [OF _ f(3) _ this f(1), of hooks handler] handler that(5) frag show ?thesis
      by (simp add: f(2) recv [OF that(1,3,4)] split: if_splits)
  qed
  show ?thesis
  proof (rule that [OF _ send(3,4) client])
    show "rdp_server_send_fastpath_update_from cr net code data off (p, []) =
      (if off + n < length data then rdp_server_send_fastpath_update_from cr net code data (off + n) (p', [])
       else (LIBRDP_STATUS_OK, p', []))"
      using send(1,2) by (simp add: rdp_server_send_fastpath_update_from.simps [of cr net code data off] n_def)
  qed
qed

text \<open>The update from the second fragment on.\<close>

lemma fragments_cross_from:
  assumes cr: "rc4_involutive cr" "crypto_available cr" and net: "\<And>d. net d = LIBRDP_STATUS_OK"
    and code: "rdp_fastpath_valid_update_code code" "code \<noteq> 3" and handler: "update_handler hooks code = Some handler"
    and long: "RDP_SERVER_FASTPATH_FRAGMENT_DATA_MAX < length data"
  shows "0 < off \<Longrightarrow> off < length data \<Longrightarrow> secured p s \<Longrightarrow>
    \<exists>p' frames s'. rdp_server_send_fastpath_update_from cr net code data off (p, []) = (LIBRDP_STATUS_OK, p', []) \<and>
      pe_sent p' = pe_sent p @ frames \<and> secured p' s' \<and>
      (\<forall>d rest. di_session d = s \<longrightarrow> gathering code data off d \<longrightarrow> di_input d = concat frames @ rest \<longrightarrow>
         0x3fff \<le> unat (di_frame_bytes d) \<longrightarrow> length data \<le> unat (di_frame_bytes d) \<longrightarrow>
         (\<exists>b. client_runs cr hooks (length frames) (d, []) =
            delivered True (handler data (d\<lparr>di_input := rest, di_session := s', di_fastpath_fragment := b\<rparr>, []))))"
proof (induction "length data - off" arbitrary: off p s rule: less_induct)
  case less
  let ?n = "fastpath_fragment_len data off"
  have n: "0 < ?n" "off + ?n \<le> length data"
    using less.prems by (auto simp: fastpath_fragment_len_def RDP_SERVER_FASTPATH_FRAGMENT_DATA_MAX_def)
  obtain p1 w s1 where step: "rdp_server_send_fastpath_update_from cr net code data off (p, []) =
      (if off + ?n < length data then rdp_server_send_fastpath_update_from cr net code data (off + ?n) (p1, [])
       else (LIBRDP_STATUS_OK, p1, []))" and send: "pe_sent p1 = pe_sent p @ [w]" "secured p1 s1"
    and client: "\<And>d rest. di_session d = s \<Longrightarrow> gathering code data off d \<Longrightarrow> di_input d = w @ rest \<Longrightarrow>
       0x3fff \<le> unat (di_frame_bytes d) \<Longrightarrow> length data \<le> unat (di_frame_bytes d) \<Longrightarrow>
       \<exists>b. buf_ok b \<and> contents b = take (off + ?n) data \<and> session_fastpath_branch cr hooks (d, []) =
         (if off + ?n < length data then (LIBRDP_STATUS_OK, d\<lparr>di_input := rest, di_session := s1, di_fastpath_fragment := b\<rparr>, [])
          else delivered True (handler (contents b) (d\<lparr>di_input := rest, di_session := s1, di_fastpath_fragment := b\<rparr>, [])))"
    using fragment_crosses_at [where net = net, OF cr net less.prems(3) code handler long less.prems(1,2)] by metis
  show ?case
  proof (cases "off + ?n < length data")
    case False
    then have all: "take (off + ?n) data = data" using n by simp
    have "\<exists>b. client_runs cr hooks (length [w]) (d, []) =
        delivered True (handler data (d\<lparr>di_input := rest, di_session := s1, di_fastpath_fragment := b\<rparr>, []))"
      if "di_session d = s" "gathering code data off d" "di_input d = concat [w] @ rest" "0x3fff \<le> unat (di_frame_bytes d)"
        "length data \<le> unat (di_frame_bytes d)" for d rest
      using client [OF that(1,2) _ that(4,5), of rest] that(3) False all
      by (auto simp: client_runs_one simp del: client_runs.simps)
    with False send step show ?thesis
      by (intro exI [of _ p1] exI [of _ "[w]"] exI [of _ s1]) (simp del: client_runs.simps)
  next
    case True
    have "length data - (off + ?n) < length data - off" using n less.prems by simp
    from less.hyps [OF this _ True send(2)] n obtain p' frames s' where
      IH: "rdp_server_send_fastpath_update_from cr net code data (off + ?n) (p1, []) = (LIBRDP_STATUS_OK, p', [])"
        "pe_sent p' = pe_sent p1 @ frames" "secured p' s'"
      and runs: "\<And>d rest. di_session d = s1 \<Longrightarrow> gathering code data (off + ?n) d \<Longrightarrow> di_input d = concat frames @ rest \<Longrightarrow>
         0x3fff \<le> unat (di_frame_bytes d) \<Longrightarrow> length data \<le> unat (di_frame_bytes d) \<Longrightarrow>
         \<exists>b. client_runs cr hooks (length frames) (d, []) =
            delivered True (handler data (d\<lparr>di_input := rest, di_session := s', di_fastpath_fragment := b\<rparr>, []))"
      by auto
    have "\<exists>b. client_runs cr hooks (length (w # frames)) (d, []) =
        delivered True (handler data (d\<lparr>di_input := rest, di_session := s', di_fastpath_fragment := b\<rparr>, []))"
      if d: "di_session d = s" "gathering code data off d" "di_input d = concat (w # frames) @ rest"
        "0x3fff \<le> unat (di_frame_bytes d)" "length data \<le> unat (di_frame_bytes d)" for d rest
    proof -
      from client [OF d(1,2) _ d(4,5), of "concat frames @ rest"] d(3) True obtain b where
        b: "buf_ok b" "contents b = take (off + ?n) data" "session_fastpath_branch cr hooks (d, []) =
          (LIBRDP_STATUS_OK, d\<lparr>di_input := concat frames @ rest, di_session := s1, di_fastpath_fragment := b\<rparr>, [])" by auto
      let ?d = "d\<lparr>di_input := concat frames @ rest, di_session := s1, di_fastpath_fragment := b\<rparr>"
      have "gathering code data (off + ?n) ?d" using d(2) b(1,2) by (simp add: gathering_def)
      from runs [OF _ this] d(4,5) b(3) show ?thesis by simp
    qed
    with True IH send(1) step show ?thesis
      by (intro exI [of _ p'] exI [of _ "w # frames"] exI [of _ s']) simp
  qed
qed

section \<open>Properties\<close>

text \<open>The same client, but for the fragment in progress.\<close>

definition same_display :: "('c, 'g) display \<Rightarrow> ('c, 'g) display \<Rightarrow> bool" where
  "same_display d d' \<longleftrightarrow>
     d' = d\<lparr>di_fastpath_fragmenting := di_fastpath_fragmenting d',
       di_fastpath_fragment_update_code := di_fastpath_fragment_update_code d',
       di_fastpath_fragment := di_fastpath_fragment d', di_fastpath_decompressed := di_fastpath_decompressed d'\<rparr>"

lemma same_display_reset: "same_display d (rdp_session_fastpath_fragment_reset d)" "same_display d d"
  by (simp_all add: same_display_def rdp_session_fastpath_fragment_reset_def)

lemma single_crosses:
  assumes cr: "rc4_involutive cr" "crypto_available cr" and net: "\<And>d. net d = LIBRDP_STATUS_OK" and sec: "secured p s"
    and code: "rdp_fastpath_valid_update_code code" "code \<noteq> 3" and handler: "update_handler hooks code = Some handler"
    and short: "length data \<le> RDP_SERVER_FASTPATH_FRAGMENT_DATA_MAX"
  obtains p' w s' where
    "rdp_server_send_fastpath_update cr net code data (p, []) = (LIBRDP_STATUS_OK, p', [])" "pe_sent p' = pe_sent p @ [w]"
    "secured p' s'"
    "\<And>d rest. di_session d = s \<Longrightarrow> di_input d = w @ rest \<Longrightarrow> 0x3fff \<le> unat (di_frame_bytes d) \<Longrightarrow>
       \<exists>d'. same_display (d\<lparr>di_input := rest, di_session := s'\<rparr>) d' \<and>
         session_fastpath_branch cr hooks (d, []) = delivered False (handler data (d', []))"
proof -
  let ?u = "fastpath_fragment code data 0"
  note f = fragment_fields [of 0 data code, simplified]
  have n: "fastpath_fragment_len data 0 = length data" "up_fragmentation ?u = 0" "up_data ?u = data"
    using short by (simp_all add: fastpath_fragment_len_def f(1,4) fastpath_fragmentation_def)
  obtain ub p' w s' where send: "rdp_fastpath_write_update ?u (rdp_buffer_init, []) = (LIBRDP_STATUS_OK, ub, [])"
    "rdp_server_send_fastpath_fragment cr net ub (p, []) = (LIBRDP_STATUS_OK, p', [])" "pe_sent p' = pe_sent p @ [w]" "secured p' s'"
    and recv: "\<And>d rest. di_session d = s \<Longrightarrow> di_input d = w @ rest \<Longrightarrow> 0x3fff \<le> unat (di_frame_bytes d) \<Longrightarrow>
       session_fastpath_branch cr hooks (d, []) =
       fail_session (process_updates hooks [?u] (LIBRDP_STATUS_OK, d\<lparr>di_input := rest, di_session := s'\<rparr>, []))"
    using update_crosses [where net = net, OF cr net sec f(6) [OF code] f(3) f(5)] by metis
  show ?thesis
  proof (rule that [OF _ send(3,4)])
    show "rdp_server_send_fastpath_update cr net code data (p, []) = (LIBRDP_STATUS_OK, p', [])"
      using send(1,2) n(1) by (simp add: rdp_server_send_fastpath_update_def rdp_server_send_fastpath_update_from.simps)
    show "\<exists>d'. same_display (d\<lparr>di_input := rest, di_session := s'\<rparr>) d' \<and>
        session_fastpath_branch cr hooks (d, []) = delivered False (handler data (d', []))"
      if "di_session d = s" "di_input d = w @ rest" "0x3fff \<le> unat (di_frame_bytes d)" for d rest
      unfolding recv [OF that] single_handled [of hooks ?u handler, unfolded f(2), OF handler f(3) n(2)] n(3)
      using same_display_reset by fastforce
  qed
qed

lemma fragmented_crosses:
  assumes cr: "rc4_involutive cr" "crypto_available cr" and net: "\<And>d. net d = LIBRDP_STATUS_OK" and sec: "secured p s"
    and code: "rdp_fastpath_valid_update_code code" "code \<noteq> 3" and handler: "update_handler hooks code = Some handler"
    and long: "RDP_SERVER_FASTPATH_FRAGMENT_DATA_MAX < length data"
  obtains p' frames s' where
    "rdp_server_send_fastpath_update cr net code data (p, []) = (LIBRDP_STATUS_OK, p', [])" "pe_sent p' = pe_sent p @ frames"
    "secured p' s'"
    "\<And>d rest. di_session d = s \<Longrightarrow> di_input d = concat frames @ rest \<Longrightarrow> 0x3fff \<le> unat (di_frame_bytes d) \<Longrightarrow>
       length data \<le> unat (di_frame_bytes d) \<Longrightarrow> buf_length (di_fastpath_fragment d) = 0 \<Longrightarrow>
       \<exists>d'. same_display (d\<lparr>di_input := rest, di_session := s'\<rparr>) d' \<and>
         client_runs cr hooks (length frames) (d, []) = delivered True (handler data (d', []))"
proof -
  let ?u = "fastpath_fragment code data 0" and ?n = "fastpath_fragment_len data 0"
  note f = fragment_fields [of 0 data code, simplified]
  have n: "0 < ?n" "?n < length data" "up_fragmentation ?u = 2"
    using long by (simp_all add: fastpath_fragment_len_def f(4) fastpath_fragmentation_def RDP_SERVER_FASTPATH_FRAGMENT_DATA_MAX_def)
  obtain ub p1 w s1 where send: "rdp_fastpath_write_update ?u (rdp_buffer_init, []) = (LIBRDP_STATUS_OK, ub, [])"
    "rdp_server_send_fastpath_fragment cr net ub (p, []) = (LIBRDP_STATUS_OK, p1, [])" "pe_sent p1 = pe_sent p @ [w]" "secured p1 s1"
    and recv: "\<And>d rest. di_session d = s \<Longrightarrow> di_input d = w @ rest \<Longrightarrow> 0x3fff \<le> unat (di_frame_bytes d) \<Longrightarrow>
       session_fastpath_branch cr hooks (d, []) =
       fail_session (process_updates hooks [?u] (LIBRDP_STATUS_OK, d\<lparr>di_input := rest, di_session := s1\<rparr>, []))"
    using update_crosses [where net = net, OF cr net sec f(6) [OF code] f(3) f(5)] by metis
  obtain p' frames s' where rest: "rdp_server_send_fastpath_update_from cr net code data ?n (p1, []) = (LIBRDP_STATUS_OK, p', [])"
    "pe_sent p' = pe_sent p1 @ frames" "secured p' s'"
    and runs: "\<And>d rest. di_session d = s1 \<Longrightarrow> gathering code data ?n d \<Longrightarrow> di_input d = concat frames @ rest \<Longrightarrow>
         0x3fff \<le> unat (di_frame_bytes d) \<Longrightarrow> length data \<le> unat (di_frame_bytes d) \<Longrightarrow>
         \<exists>b. client_runs cr hooks (length frames) (d, []) =
            delivered True (handler data (d\<lparr>di_input := rest, di_session := s', di_fastpath_fragment := b\<rparr>, []))"
    using fragments_cross_from [where net = net, OF cr net code handler long n(1,2) send(4)] by blast
  show ?thesis
  proof (rule that [of p' "w # frames" s'])
    show "rdp_server_send_fastpath_update cr net code data (p, []) = (LIBRDP_STATUS_OK, p', [])"
      using send(1,2) n(2) rest(1)
      by (simp add: rdp_server_send_fastpath_update_def rdp_server_send_fastpath_update_from.simps [of cr net code data 0])
    show "\<exists>d'. same_display (d\<lparr>di_input := rest, di_session := s'\<rparr>) d' \<and>
        client_runs cr hooks (length (w # frames)) (d, []) = delivered True (handler data (d', []))"
      if d: "di_session d = s" "di_input d = concat (w # frames) @ rest" "0x3fff \<le> unat (di_frame_bytes d)"
        "length data \<le> unat (di_frame_bytes d)" "buf_length (di_fastpath_fragment d) = 0" for d rest
    proof -
      let ?d0 = "d\<lparr>di_input := concat frames @ rest, di_session := s1\<rparr>"
      have "length (up_data ?u) + buf_length (di_fastpath_fragment ?d0) \<le> unat (di_frame_bytes ?d0)"
        using d(4,5) n(2) by (simp add: f(1))
      from first_gathered [of hooks ?u handler ?d0, unfolded f(2), OF handler f(3) n(3) this f(1)] obtain b where
        b: "buf_ok b" "contents b = take ?n data" "session_fastpath_branch cr hooks (d, []) =
          (LIBRDP_STATUS_OK, (rdp_session_fastpath_fragment_reset ?d0)\<lparr>di_fastpath_fragment := b, di_fastpath_fragmenting := True,
             di_fastpath_fragment_update_code := code\<rparr>, [])" (is "_ = (_, ?d1, _)")
        using recv [OF d(1) _ d(3), of "concat frames @ rest"] d(2) by auto
      have "gathering code data ?n ?d1" using b(1,2) by (simp add: gathering_def)
      then obtain b' where r: "client_runs cr hooks (length frames) (?d1, []) =
          delivered True (handler data (?d1\<lparr>di_input := rest, di_session := s', di_fastpath_fragment := b'\<rparr>, []))"
        using runs [of ?d1 rest] d(3,4) by (auto simp: rdp_session_fastpath_fragment_reset_def)
      show ?thesis
        by (intro exI [of _ "?d1\<lparr>di_input := rest, di_session := s', di_fastpath_fragment := b'\<rparr>"] conjI)
          (simp_all add: same_display_def b(3) r, simp add: rdp_session_fastpath_fragment_reset_def)
    qed
  qed (use rest send in simp_all)
qed

text \<open>
  C12. Fast-path updates arrive once and whole. The client's frame limit is at least 16383 bytes, so that it takes every packet the server makes, and no fragment
  of an earlier update waits in the client. Then an update of any size up to the frame limit, sent with or without encryption, reaches the handler of its code in
  the client exactly once and with exactly its data: the server cuts it into packets, and when the client has run for all of them the result is the one of the
  handler applied to the data, on a client that differs from the one before in its input, its session counters and keys, and its fragment buffers. The bytes
  behind the packets are left for the next run, and the keys of the two ends still match. Updates of code 3 (synchronize) carry no data and are not covered.
\<close>

theorem fastpath_update_delivered:
  assumes "rc4_involutive cr" "crypto_available cr" "\<And>d. net d = LIBRDP_STATUS_OK" "secured p (di_session d)"
    and "rdp_fastpath_valid_update_code code" "code \<noteq> 3" "update_handler hooks code = Some handler"
    and "0x3fff \<le> unat (di_frame_bytes d)" "length data \<le> unat (di_frame_bytes d)" "buf_length (di_fastpath_fragment d) = 0"
  shows "\<exists>p' frames s' d'. rdp_server_send_fastpath_update cr net code data (p, []) = (LIBRDP_STATUS_OK, p', []) \<and>
    pe_sent p' = pe_sent p @ frames \<and> secured p' s' \<and>
    same_display (d\<lparr>di_input := rest, di_session := s'\<rparr>) d' \<and>
    client_runs cr hooks (length frames) (d\<lparr>di_input := concat frames @ rest\<rparr>, []) =
      delivered (RDP_SERVER_FASTPATH_FRAGMENT_DATA_MAX < length data) (handler data (d', []))"
proof (cases "RDP_SERVER_FASTPATH_FRAGMENT_DATA_MAX < length data")
  case True
  obtain p' frames s' where
    x: "rdp_server_send_fastpath_update cr net code data (p, []) = (LIBRDP_STATUS_OK, p', [])" "pe_sent p' = pe_sent p @ frames"
      "secured p' s'" and
    runs: "\<And>d1 rest. di_session d1 = di_session d \<Longrightarrow> di_input d1 = concat frames @ rest \<Longrightarrow> 0x3fff \<le> unat (di_frame_bytes d1) \<Longrightarrow>
       length data \<le> unat (di_frame_bytes d1) \<Longrightarrow> buf_length (di_fastpath_fragment d1) = 0 \<Longrightarrow>
       \<exists>d'. same_display (d1\<lparr>di_input := rest, di_session := s'\<rparr>) d' \<and>
         client_runs cr hooks (length frames) (d1, []) = delivered True (handler data (d', []))"
    using fragmented_crosses [where net = net, OF assms(1-7) True] by metis
  from runs [of "d\<lparr>di_input := concat frames @ rest\<rparr>" rest] assms(8-10) x True show ?thesis by auto
next
  case False
  then have short: "length data \<le> RDP_SERVER_FASTPATH_FRAGMENT_DATA_MAX" by simp
  obtain p' w s' where
    x: "rdp_server_send_fastpath_update cr net code data (p, []) = (LIBRDP_STATUS_OK, p', [])" "pe_sent p' = pe_sent p @ [w]"
      "secured p' s'" and
    run: "\<And>d1 rest. di_session d1 = di_session d \<Longrightarrow> di_input d1 = w @ rest \<Longrightarrow> 0x3fff \<le> unat (di_frame_bytes d1) \<Longrightarrow>
       \<exists>d'. same_display (d1\<lparr>di_input := rest, di_session := s'\<rparr>) d' \<and>
         session_fastpath_branch cr hooks (d1, []) = delivered False (handler data (d', []))"
    using single_crosses [where net = net, OF assms(1-7) short] by metis
  from run [of "d\<lparr>di_input := w @ rest\<rparr>" rest] assms(8) obtain d' where
    "same_display (d\<lparr>di_input := rest, di_session := s'\<rparr>) d'"
    "client_runs cr hooks (Suc 0) (d\<lparr>di_input := w @ rest\<rparr>, []) = delivered False (handler data (d', []))"
    by (auto simp: client_runs_one simp del: client_runs.simps)
  with x False show ?thesis
    by (intro exI [of _ p'] exI [of _ "[w]"] exI [of _ s'] exI [of _ d']) (simp del: client_runs.simps)
qed

text \<open>A client whose order handler keeps the data of the last orders update.\<close>

definition sample_hooks :: "(unit, u8 list) display_hooks" where
  "sample_hooks = \<lparr>dh_decompress = (\<lambda>flags data (g, decoded, m). (LIBRDP_STATUS_UNSUPPORTED, g, decoded, m)),
     dh_orders = (\<lambda>data (d, m). (LIBRDP_STATUS_OK, d\<lparr>di_graphics := data\<rparr>, m)),
     dh_surface_commands = (\<lambda>data (d, m). (LIBRDP_STATUS_UNSUPPORTED, d, m)),
     dh_pointer = (\<lambda>code data (d, m). (LIBRDP_STATUS_OK, d, m))\<rparr>"

definition sample_display :: "u32 \<Rightarrow> (unit, u8 list) display" where
  "sample_display n = \<lparr>di_session = sample_session n, di_input = [], di_frame_bytes = 0x100000, di_limits_rejected = 0,
     di_surface = two_by_two, di_palette = \<lparr>pu_count = 0, pu_entries = []\<rparr>, di_palette_valid = False,
     di_fastpath_fragmenting = False, di_fastpath_fragment_update_code = 0, di_fastpath_fragment = rdp_buffer_init,
     di_fastpath_decompressed = rdp_buffer_init,
     di_bulk_decompressor = \<lparr>bd_mppc8k = rdp_bulk_mppc_state_init 0, bd_mppc64k = rdp_bulk_mppc_state_init 1\<rparr>,
     di_gdi_drawing_to_offscreen = False, di_invalidated = [], di_graphics = []\<rparr>"

lemma sample_secured: "secured (sample_peer n) (sample_session n)"
  using sample_linked [of n] by (simp add: linked_def)

lemma sample_display_fields:
  "di_session (sample_display n) = sample_session n" "di_frame_bytes (sample_display n) = 0x100000"
  "buf_length (di_fastpath_fragment (sample_display n)) = 0" "pe_sent (sample_peer n) = []"
  by (simp_all add: sample_display_def sample_peer_def rdp_buffer_init_def)

theorem fastpath_update_delivered_witness:
  "\<exists>p' frames d'. rdp_server_send_fastpath_update sample_crypto (\<lambda>_. LIBRDP_STATUS_OK) 0 (replicate 40000 7)
       (sample_peer 4096, []) = (LIBRDP_STATUS_OK, p', []) \<and> pe_sent p' = frames \<and>
     client_runs sample_crypto sample_hooks (length frames) ((sample_display 4096)\<lparr>di_input := concat frames\<rparr>, []) =
       (LIBRDP_STATUS_OK, d', []) \<and> di_graphics d' = replicate 40000 7"
proof -
  have "update_handler sample_hooks 0 = Some (\<lambda>data (d, m). (LIBRDP_STATUS_OK, d\<lparr>di_graphics := data\<rparr>, m))"
    by (simp add: update_handler_def sample_hooks_def)
  from fastpath_update_delivered [where net = "\<lambda>_. LIBRDP_STATUS_OK" and data = "replicate 40000 7" and rest = "[]"
      and d = "sample_display 4096" and p = "sample_peer 4096", OF sample_crypto_laws(1,3) refl _ _ _ this]
  obtain p' frames d' where
    "rdp_server_send_fastpath_update sample_crypto (\<lambda>_. LIBRDP_STATUS_OK) 0 (replicate 40000 7) (sample_peer 4096, []) =
      (LIBRDP_STATUS_OK, p', [])" "pe_sent p' = frames"
    "client_runs sample_crypto sample_hooks (length frames) ((sample_display 4096)\<lparr>di_input := concat frames\<rparr>, []) =
      delivered True (LIBRDP_STATUS_OK, d'\<lparr>di_graphics := replicate 40000 7\<rparr>, [])"
    by (auto simp: sample_display_fields sample_secured rdp_fastpath_valid_update_code_def
        RDP_SERVER_FASTPATH_FRAGMENT_DATA_MAX_def)
  then show ?thesis by (auto simp: delivered_def fail_session_def rdp_session_fastpath_fragment_reset_def)
qed

lemma fastpath_payload_error: "fst (rdp_session_fastpath_payload hooks update s) \<noteq> Inl LIBRDP_STATUS_OK"
  by (auto simp: rdp_session_fastpath_payload_def update_payload_def display_limit_rejected_def
      split: sum.splits prod.splits if_splits)

text \<open>An unencrypted packet of well-formed updates, from the input to the loop over them.\<close>

lemma updates_packet_processed:
  assumes us: "list_all update_wf us" "length us \<le> 64" "length (concat (map update_bytes us)) \<le> 32764"
    and d: "di_input d = updates_packet us @ rest" "length (concat (map update_bytes us)) + 3 \<le> unat (di_frame_bytes d)"
  shows "session_fastpath_branch cr hooks (d, []) =
    fail_session (process_updates hooks us (LIBRDP_STATUS_OK,
      d\<lparr>di_input := rest, di_session := counted (length (updates_packet us)) (di_session d)\<rparr>, []))"
proof -
  let ?payload = "concat (map update_bytes us)"
  have w: "updates_packet us = fastpath_header_bytes 0 0 (length ?payload) @ ?payload" by (simp add: updates_packet_def Let_def)
  have parse: "rdp_fastpath_parse_updates (fastpath_header_bytes 0 0 (length ?payload) @ ?payload) =
      Inr \<lparr>ul_count = length us, ul_updates = us\<rparr>"
    using fastpath_updates.parse_enc [of us] us by (simp add: w)
  have same: "(counted n (di_session d))\<lparr>se_standard_security := se_standard_security (di_session d)\<rparr> = counted n (di_session d)" for n
    by (simp add: counted_def)
  show ?thesis
    using packet_read [of d 0 "length ?payload" ?payload rest] us(3) d(1) [unfolded w] d(2) parse
      unwrap_plain [of "length ?payload" ?payload cr "se_standard_security_active (di_session d)" "Some (se_standard_security (di_session d))"
        rdp_buffer_init "[]"]
    by (simp add: w same session_fastpath_branch_def rdp_session_process_fastpath_packet_def fail_session_def
        del: process_updates.simps)
qed

text \<open>Updates whose compression type is none of those the client knows.\<close>

definition unknown_compression :: "rdp_fastpath_update \<Rightarrow> bool" where
  "unknown_compression u \<longleftrightarrow> up_compression u = 2 \<and> up_data u \<noteq> [] \<and>
     up_compression_flags u AND RDP_BULK_FLAGS_MASK \<noteq> 0 \<and> 4 < up_compression_flags u AND RDP_BULK_TYPE_MASK"

lemma unknown_compression_skipped:
  assumes "unknown_compression bad" "update_handler hooks (up_update_code bad) \<noteq> None"
  shows "process_updates hooks (bad # us) (st, e, n) = process_updates hooks us
      (LIBRDP_STATUS_UNSUPPORTED, e\<lparr>di_fastpath_decompressed := (di_fastpath_decompressed e)\<lparr>buf_length := 0\<rparr>\<rparr>, n)"
proof -
  have "up_compression_flags bad AND RDP_BULK_TYPE_MASK \<notin> {0, 1, 2, 3, 4}"
    using assms(1) by (auto simp: unknown_compression_def)
  then show ?thesis
    using assms
    by (auto simp: rdp_session_fastpath_payload_def update_payload_def rdp_session_decompress_bulk_payload_def
        rdp_bulk_decompress_def bulk_constants unknown_compression_def Let_def)
qed

lemma process_updates_append:
  assumes "process_updates hooks [good] (LIBRDP_STATUS_OK, d, m) = (LIBRDP_STATUS_OK, d', m')"
    and "update_handler hooks (up_update_code good) \<noteq> None"
  shows "process_updates hooks (good # us) (LIBRDP_STATUS_OK, d, m) = process_updates hooks us (LIBRDP_STATUS_OK, d', m')"
  using assms fastpath_payload_error [of hooks good "(d, m)"]
  by (auto simp del: process_updates.simps(2) simp: process_updates.simps(2) [of hooks good] Let_def
      split: sum.splits option.splits prod.splits if_splits)

text \<open>
  C20. The position of an unsupported update. An unencrypted packet carries two updates: one whose compression type the client does not know, and
  one that the client applies with success. When the unsupported one comes first, the run of the session loop succeeds: it is skipped and the client is as
  the other update leaves it. When it comes second, the same two updates make the run return UNSUPPORTED and the session is marked as failed,
  although the other update has been applied. The outcome depends on the order of the updates in the packet only.
\<close>

theorem unsupported_update_position:
  assumes "unknown_compression bad" "update_handler hooks (up_update_code bad) \<noteq> None" "update_wf bad"
    and "update_handler hooks (up_update_code good) \<noteq> None" "update_wf good"
    and "length (update_bytes bad) + length (update_bytes good) \<le> 32764"
    and "length (update_bytes bad) + length (update_bytes good) + 3 \<le> unat (di_frame_bytes d)"
    and "buf_length (di_fastpath_decompressed d) = 0"
    and "process_updates hooks [good] (LIBRDP_STATUS_OK,
      d\<lparr>di_input := rest, di_session := counted (length (updates_packet [bad, good])) (di_session d)\<rparr>, []) =
        (LIBRDP_STATUS_OK, d', m')"
  shows "session_fastpath_branch cr hooks (d\<lparr>di_input := updates_packet [bad, good] @ rest\<rparr>, []) = (LIBRDP_STATUS_OK, d', m') \<and>
    session_fastpath_branch cr hooks (d\<lparr>di_input := updates_packet [good, bad] @ rest\<rparr>, []) =
      (LIBRDP_STATUS_UNSUPPORTED, d'\<lparr>di_fastpath_decompressed := (di_fastpath_decompressed d')\<lparr>buf_length := 0\<rparr>,
         di_session := (di_session d')\<lparr>se_failed := True\<rparr>\<rparr>, m')"
proof -
  have same_length: "length (updates_packet [good, bad]) = length (updates_packet [bad, good])"
    by (simp add: updates_packet_def add.commute)
  let ?d = "d\<lparr>di_input := rest, di_session := counted (length (updates_packet [bad, good])) (di_session d)\<rparr>"
  have empty: "?d\<lparr>di_fastpath_decompressed := (di_fastpath_decompressed ?d)\<lparr>buf_length := 0\<rparr>\<rparr> = ?d" using assms(8) by simp
  have any: "process_updates hooks [good] (st, ?d, []) = (LIBRDP_STATUS_OK, d', m')" for st using assms(4,9) by auto
  have first: "process_updates hooks [bad, good] (LIBRDP_STATUS_OK, ?d, []) = (LIBRDP_STATUS_OK, d', m')"
    unfolding unknown_compression_skipped [OF assms(1,2)] empty by (rule any)
  have last: "process_updates hooks [good, bad] (LIBRDP_STATUS_OK, ?d, []) = (LIBRDP_STATUS_UNSUPPORTED,
      d'\<lparr>di_fastpath_decompressed := (di_fastpath_decompressed d')\<lparr>buf_length := 0\<rparr>\<rparr>, m')"
    unfolding process_updates_append [OF assms(9,4)] unknown_compression_skipped [OF assms(1,2)] by simp
  show ?thesis
    using updates_packet_processed [of "[bad, good]" "d\<lparr>di_input := updates_packet [bad, good] @ rest\<rparr>" rest cr hooks]
      updates_packet_processed [of "[good, bad]" "d\<lparr>di_input := updates_packet [good, bad] @ rest\<rparr>" rest cr hooks]
      assms(3,5-7) first last
    by (simp add: same_length fail_session_def del: process_updates.simps)
qed

theorem unsupported_update_position_witness:
  "let bad = \<lparr>up_update_code = 1, up_fragmentation = 0, up_compression = 2, up_compression_flags = 0x25, up_data = [1], up_data_len = 1\<rparr>;
       good = \<lparr>up_update_code = 0, up_fragmentation = 0, up_compression = 0, up_compression_flags = 0, up_data = [5], up_data_len = 1\<rparr>;
       run = (\<lambda>us. session_fastpath_branch sample_crypto sample_hooks ((sample_display 0)\<lparr>di_input := updates_packet us\<rparr>, []))
   in fst (run [bad, good]) = LIBRDP_STATUS_OK \<and> di_graphics (fst (snd (run [bad, good]))) = [5] \<and>
      fst (run [good, bad]) = LIBRDP_STATUS_UNSUPPORTED \<and> se_failed (di_session (fst (snd (run [good, bad]))))"
  using unsupported_update_position [where hooks = sample_hooks and d = "sample_display 0" and cr = sample_crypto and rest = "[]" and
      bad = "\<lparr>up_update_code = 1, up_fragmentation = 0, up_compression = 2, up_compression_flags = 0x25, up_data = [1], up_data_len = 1\<rparr>" and
      good = "\<lparr>up_update_code = 0, up_fragmentation = 0, up_compression = 0, up_compression_flags = 0, up_data = [5], up_data_len = 1\<rparr>"]
  by (simp add: unknown_compression_def update_wf_def update_bytes_def rdp_fastpath_valid_update_code_def update_handler_def
      bulk_constants sample_hooks_def sample_display_def rdp_buffer_init_def rdp_session_fastpath_payload_def update_payload_def)

end
