(* ===== verification/Actions.thy ===== *)
theory Actions
  imports Rdp_Buffer
begin

text \<open>
  Stateful server code as actions: a function of an object and the memory that returns a status or a
  value, and the object and memory afterwards. \<open>abind\<close> is the idiom
  \<^verbatim>\<open>if (status == LIBRDP_STATUS_OK) status = next(..);\<close>: an error skips the rest and is returned, the
  changes made before it stay. \<open>on_error\<close> is the clean-up at the end of a handler.

  Actions are reasoned about by weakest preconditions: \<open>wp a Q E s\<close> says that \<open>a\<close> started in \<open>s\<close>
  ends in \<open>Q\<close> with its value or in \<open>E\<close> with its error status. The rules of the combinators are
  equations collected in \<open>wp_rules\<close>, so that a handler is verified by rewriting. Triples
  \<open>hoare P a Q E\<close> over the object have one introduction rule per combinator, in \<open>hoare_rules\<close>; \<open>run_rules\<close>
  evaluate an action whose steps are known.
\<close>

section \<open>Actions\<close>

type_synonym ('p, 'a) action = "'p \<times> mem \<Rightarrow> 'a result \<times> 'p \<times> mem"

definition aret :: "'a \<Rightarrow> ('p, 'a) action" where
  "aret x s = (Inr x, s)"

definition afail :: "librdp_status \<Rightarrow> ('p, 'a) action" where
  "afail e s = (Inl e, s)"

definition abind :: "('p, 'a) action \<Rightarrow> ('a \<Rightarrow> ('p, 'b) action) \<Rightarrow> ('p, 'b) action" where
  "abind a f s = (case a s of (Inl e, s') \<Rightarrow> (Inl e, s') | (Inr x, s') \<Rightarrow> f x s')"

abbreviation athen :: "('p, unit) action \<Rightarrow> ('p, 'b) action \<Rightarrow> ('p, 'b) action" where
  "athen a b \<equiv> abind a (\<lambda>_. b)"

text \<open>Reading and updating fields.\<close>

definition aget :: "('p \<Rightarrow> 'a) \<Rightarrow> ('p, 'a) action" where
  "aget f = (\<lambda>(p, m). (Inr (f p), p, m))"

definition amodify :: "('p \<Rightarrow> 'p) \<Rightarrow> ('p, unit) action" where
  "amodify f = (\<lambda>(p, m). (Inr (), f p, m))"

text \<open>A call that has a result and no effect, and a test that ends the handler.\<close>

definition alift :: "'a result \<Rightarrow> ('p, 'a) action" where
  "alift r s = (r, s)"

definition afail_if :: "bool \<Rightarrow> librdp_status \<Rightarrow> ('p, unit) action" where
  "afail_if c e = (if c then afail e else aret ())"

definition awhen :: "bool \<Rightarrow> ('p, unit) action \<Rightarrow> ('p, unit) action" where
  "awhen c a = (if c then a else aret ())"

text \<open>Filling a local buffer; the buffer is freed at the end of the function in every case.\<close>

definition awrite :: "writer \<Rightarrow> ('p, rdp_buffer) action" where
  "awrite w = (\<lambda>(p, m). case w (rdp_buffer_init, m) of
     (status, b, m) \<Rightarrow> (if status = LIBRDP_STATUS_OK then Inr b else Inl status, p, m))"

text \<open>Writing to a buffer that is a field of the object.\<close>

definition afill :: "('p \<Rightarrow> rdp_buffer) \<Rightarrow> (rdp_buffer \<Rightarrow> 'p \<Rightarrow> 'p) \<Rightarrow> writer \<Rightarrow> ('p, unit) action" where
  "afill get put w = (\<lambda>(p, m). case w (get p, m) of
     (status, b, m) \<Rightarrow> (if status = LIBRDP_STATUS_OK then Inr () else Inl status, put b p, m))"

text \<open>A call of a function that returns a status and changes the object.\<close>

definition acall :: "('p \<times> mem \<Rightarrow> librdp_status \<times> 'p \<times> mem) \<Rightarrow> ('p, unit) action" where
  "acall f s = (case f s of (status, s') \<Rightarrow> (if status = LIBRDP_STATUS_OK then Inr () else Inl status, s'))"

definition on_error :: "(librdp_status \<Rightarrow> 'p \<Rightarrow> 'p) \<Rightarrow> ('p, 'a) action \<Rightarrow> ('p, 'a) action" where
  "on_error h a s = (case a s of (Inl e, p, m) \<Rightarrow> (Inl e, h e p, m) | (Inr x, s') \<Rightarrow> (Inr x, s'))"

text \<open>An error answered by another action.\<close>

definition acatch :: "('p, 'a) action \<Rightarrow> (librdp_status \<Rightarrow> ('p, 'a) action) \<Rightarrow> ('p, 'a) action" where
  "acatch a h s = (case a s of (Inl e, s') \<Rightarrow> h e s' | (Inr x, s') \<Rightarrow> (Inr x, s'))"

text \<open>The status that a handler returns.\<close>

definition status_of :: "'a result \<Rightarrow> librdp_status" where
  "status_of r = (case r of Inl e \<Rightarrow> e | Inr _ \<Rightarrow> LIBRDP_STATUS_OK)"

text \<open>Running an action step by step.\<close>

named_theorems run_rules

lemma abind_run [run_rules]:
  "a s = (Inr x, s') \<Longrightarrow> abind a f s = f x s'"
  "a s = (Inl e, s') \<Longrightarrow> abind a f s = (Inl e, s')"
  by (simp_all add: abind_def)

lemma step_run [run_rules]:
  "aret v s = (Inr v, s)" "aget g (p, m) = (Inr (g p), p, m)" "amodify h (p, m) = (Inr (), h p, m)"
  "alift r s = (r, s)" "afail_if c e s = (if c then (Inl e, s) else (Inr (), s))"
  by (simp_all add: aret_def aget_def amodify_def alift_def afail_if_def afail_def)

section \<open>Weakest preconditions\<close>

definition wp ::
    "('p, 'a) action \<Rightarrow> ('a \<Rightarrow> 'p \<times> mem \<Rightarrow> bool) \<Rightarrow> (librdp_status \<Rightarrow> 'p \<times> mem \<Rightarrow> bool) \<Rightarrow> 'p \<times> mem \<Rightarrow> bool" where
  "wp a Q E s = (case a s of (Inl e, s') \<Rightarrow> E e s' | (Inr x, s') \<Rightarrow> Q x s')"

named_theorems wp_rules

lemma wp_aret [wp_rules]: "wp (aret x) Q E s = Q x s"
  by (simp add: wp_def aret_def)

lemma wp_afail [wp_rules]: "wp (afail e) Q E s = E e s"
  by (simp add: wp_def afail_def)

lemma wp_abind [wp_rules]: "wp (abind a f) Q E s = wp a (\<lambda>x. wp (f x) Q E) E s"
  by (auto simp: wp_def abind_def split: prod.split sum.split)

lemma wp_aget [wp_rules]: "wp (aget f) Q E (p, m) = Q (f p) (p, m)"
  by (simp add: wp_def aget_def)

lemma wp_amodify [wp_rules]: "wp (amodify f) Q E (p, m) = Q () (f p, m)"
  by (simp add: wp_def amodify_def)

lemma wp_alift [wp_rules]: "wp (alift r) Q E s = (case r of Inl e \<Rightarrow> E e s | Inr x \<Rightarrow> Q x s)"
  by (simp add: wp_def alift_def)

lemma wp_afail_if [wp_rules]: "wp (afail_if c e) Q E s = (if c then E e s else Q () s)"
  by (simp add: afail_if_def wp_rules)

lemma wp_awhen [wp_rules]: "wp (awhen c a) Q E s = (if c then wp a Q E s else Q () s)"
  by (simp add: awhen_def wp_rules)

lemma wp_if [wp_rules]: "wp (if c then a else b) Q E s = (if c then wp a Q E s else wp b Q E s)"
  by simp

lemma wp_on_error [wp_rules]: "wp (on_error h a) Q E s = wp a Q (\<lambda>e (p, m). E e (h e p, m)) s"
  by (auto simp: wp_def on_error_def split: prod.split sum.split)

lemma wp_acatch [wp_rules]: "wp (acatch a h) Q E s = wp a Q (\<lambda>e. wp (h e) Q E) s"
  by (auto simp: wp_def acatch_def split: prod.split sum.split)

lemma wp_awrite [wp_rules]:
  "wp (awrite w) Q E (p, m) = (case w (rdp_buffer_init, m) of (status, b, m') \<Rightarrow>
     if status = LIBRDP_STATUS_OK then Q b (p, m') else E status (p, m'))"
  by (auto simp: wp_def awrite_def split: prod.split)

lemma wp_afill [wp_rules]:
  "wp (afill get put w) Q E (p, m) = (case w (get p, m) of (status, b, m') \<Rightarrow>
     if status = LIBRDP_STATUS_OK then Q () (put b p, m') else E status (put b p, m'))"
  by (auto simp: wp_def afill_def split: prod.split)

lemma wp_acall [wp_rules]:
  "wp (acall f) Q E s = (case f s of (status, s') \<Rightarrow>
     if status = LIBRDP_STATUS_OK then Q () s' else E status s')"
  by (auto simp: wp_def acall_def split: prod.split)

lemma wp_mono:
  "wp a Q E s \<Longrightarrow> (\<And>x s. Q x s \<Longrightarrow> Q' x s) \<Longrightarrow> (\<And>e s. E e s \<Longrightarrow> E' e s) \<Longrightarrow> wp a Q' E' s"
  by (auto simp: wp_def split: prod.splits sum.splits)

section \<open>Triples\<close>

text \<open>
  A triple over the object: from \<open>P\<close> the action ends in \<open>Q\<close> with its value, or in \<open>E\<close> with an error. In the
  rules for sequences the assertion in the middle is the one at the start, which fits handlers that change
  what is asserted only in their last action; \<open>hoare_change\<close> is the general rule.
\<close>

definition hoare :: "('p \<Rightarrow> bool) \<Rightarrow> ('p, 'a) action \<Rightarrow> ('a \<Rightarrow> 'p \<Rightarrow> bool) \<Rightarrow> ('p \<Rightarrow> bool) \<Rightarrow> bool" where
  "hoare P a Q E \<longleftrightarrow> (\<forall>p m. P p \<longrightarrow> wp a (\<lambda>x s. Q x (fst s)) (\<lambda>_ s. E (fst s)) (p, m))"

lemma hoareD:
  assumes "hoare P a Q E" "P p" "a (p, m) = (r, p', m')"
  shows "r = Inr x \<Longrightarrow> Q x p'" "r = Inl e \<Longrightarrow> E p'"
proof -
  have *: "wp a (\<lambda>x s. Q x (fst s)) (\<lambda>_ s. E (fst s)) (p, m)" using assms(1,2) unfolding hoare_def by blast
  show "r = Inr x \<Longrightarrow> Q x p'" "r = Inl e \<Longrightarrow> E p'" using * assms(3) by (auto simp: wp_def)
qed

lemma hoareI:
  "(\<And>p m r p' m'. P p \<Longrightarrow> a (p, m) = (r, p', m') \<Longrightarrow> (case r of Inl _ \<Rightarrow> E p' | Inr x \<Rightarrow> Q x p')) \<Longrightarrow> hoare P a Q E"
  by (fastforce simp: hoare_def wp_def split: prod.split sum.split)

lemma hoare_both: "hoare P a (\<lambda>_. Q) Q \<Longrightarrow> P p \<Longrightarrow> a (p, m) = (r, p', m') \<Longrightarrow> Q p'"
  using hoareD [of P a "\<lambda>_. Q" Q p m r p' m'] by (cases r) auto

lemma hoare_weaken:
  "hoare P a Q E \<Longrightarrow> (\<And>p. P' p \<Longrightarrow> P p) \<Longrightarrow> (\<And>x p. Q x p \<Longrightarrow> Q' x p) \<Longrightarrow> (\<And>p. E p \<Longrightarrow> E' p) \<Longrightarrow> hoare P' a Q' E'"
  unfolding hoare_def by (blast intro: wp_mono)

lemma hoare_exit: "hoare P a Q E \<Longrightarrow> (\<And>p. E p \<Longrightarrow> E' p) \<Longrightarrow> hoare P a Q E'"
  by (rule hoare_weaken [where P = P and Q = Q and E = E])

lemma hoare_change: "hoare P a R E \<Longrightarrow> (\<And>x. hoare (R x) (f x) Q E) \<Longrightarrow> hoare P (abind a f) Q E"
  unfolding hoare_def wp_abind by (fastforce elim: wp_mono)

lemma hoare_abind: "hoare P a (\<lambda>_. P) E \<Longrightarrow> (\<And>x. hoare P (f x) Q E) \<Longrightarrow> hoare P (abind a f) Q E"
  by (rule hoare_change)

lemma hoare_aget_bind: "(\<And>p. P p \<Longrightarrow> hoare P (f (g p)) Q E) \<Longrightarrow> hoare P (abind (aget g) f) Q E"
  by (auto simp: hoare_def wp_rules)

lemma hoare_afail_if_bind:
  "(c \<Longrightarrow> (\<And>p. P p \<Longrightarrow> E p)) \<Longrightarrow> (\<not> c \<Longrightarrow> hoare P b Q E) \<Longrightarrow> hoare P (athen (afail_if c e) b) Q E"
  by (auto simp: hoare_def wp_rules)

lemma hoare_alift_bind:
  "(\<And>x. r = Inr x \<Longrightarrow> hoare P (f x) Q E) \<Longrightarrow> (\<And>p. P p \<Longrightarrow> E p) \<Longrightarrow> hoare P (abind (alift r) f) Q E"
  by (cases r) (auto simp: hoare_def wp_rules)

lemma hoare_aret: "(\<And>p. P p \<Longrightarrow> Q x p) \<Longrightarrow> hoare P (aret x) Q E"
  by (auto simp: hoare_def wp_rules)

lemma hoare_afail: "(\<And>p. P p \<Longrightarrow> E p) \<Longrightarrow> hoare P (afail e) Q E"
  by (auto simp: hoare_def wp_rules)

lemma hoare_alift: "(\<And>x p. P p \<Longrightarrow> Q x p) \<Longrightarrow> (\<And>p. P p \<Longrightarrow> E p) \<Longrightarrow> hoare P (alift r) Q E"
  by (cases r) (auto simp: hoare_def wp_rules)

lemma hoare_afail_if: "(\<And>p. P p \<Longrightarrow> Q () p) \<Longrightarrow> (\<And>p. P p \<Longrightarrow> E p) \<Longrightarrow> hoare P (afail_if c e) Q E"
  by (auto simp: hoare_def wp_rules)

lemma hoare_aget: "(\<And>x p. P p \<Longrightarrow> Q x p) \<Longrightarrow> hoare P (aget g) Q E"
  by (auto simp: hoare_def wp_rules)

lemma hoare_amodify: "(\<And>p. P p \<Longrightarrow> Q () (f p)) \<Longrightarrow> hoare P (amodify f) Q E"
  by (auto simp: hoare_def wp_rules)

lemma hoare_awrite: "(\<And>x p. P p \<Longrightarrow> Q x p) \<Longrightarrow> (\<And>p. P p \<Longrightarrow> E p) \<Longrightarrow> hoare P (awrite w) Q E"
  by (auto simp: hoare_def wp_rules split: prod.split)

lemma hoare_afill:
  "(\<And>b p. P p \<Longrightarrow> Q () (put b p)) \<Longrightarrow> (\<And>b p. P p \<Longrightarrow> E (put b p)) \<Longrightarrow> hoare P (afill get put w) Q E"
  by (auto simp: hoare_def wp_rules split: prod.split)

lemma hoare_awhen: "(c \<Longrightarrow> hoare P a Q E) \<Longrightarrow> (\<And>p. P p \<Longrightarrow> Q () p) \<Longrightarrow> hoare P (awhen c a) Q E"
  by (auto simp: hoare_def wp_rules)

lemma hoare_if: "(c \<Longrightarrow> hoare P a Q E) \<Longrightarrow> (\<not> c \<Longrightarrow> hoare P b Q E) \<Longrightarrow> hoare P (if c then a else b) Q E"
  by simp

lemma hoare_cases:
  "(x = None \<Longrightarrow> hoare P a Q E) \<Longrightarrow> (\<And>y. x = Some y \<Longrightarrow> hoare P (f y) Q E) \<Longrightarrow>
    hoare P (case x of None \<Rightarrow> a | Some y \<Rightarrow> f y) Q E"
  "(\<And>c d. z = (c, d) \<Longrightarrow> hoare P (g c d) Q E) \<Longrightarrow> hoare P (case z of (c, d) \<Rightarrow> g c d) Q E"
  by (auto split: option.split prod.split)

lemma hoare_on_error: "hoare P a Q E' \<Longrightarrow> (\<And>e p. E' p \<Longrightarrow> E (h e p)) \<Longrightarrow> hoare P (on_error h a) Q E"
  unfolding hoare_def wp_on_error by (fastforce elim: wp_mono)

lemma hoare_acatch: "hoare P a Q E' \<Longrightarrow> (\<And>e. hoare E' (h e) Q E) \<Longrightarrow> hoare P (acatch a h) Q E"
  unfolding hoare_def wp_acatch by (fastforce elim: wp_mono)

lemma hoare_acall:
  "(\<And>p m st p' m'. P p \<Longrightarrow> f (p, m) = (st, p', m') \<Longrightarrow> if st = LIBRDP_STATUS_OK then Q () p' else E p') \<Longrightarrow>
    hoare P (acall f) Q E"
  by (fastforce simp: hoare_def wp_rules split: prod.split)

text \<open>The rules in the order in which a proof tries them.\<close>

lemmas hoare_rules =
  hoare_aget_bind hoare_afail_if_bind hoare_alift_bind hoare_abind
  hoare_aret hoare_afail hoare_alift hoare_afail_if hoare_aget hoare_awrite hoare_awhen hoare_if
  hoare_cases

end
