(* ===== verification/Licensing.thy ===== *)
theory Licensing
  imports Slowpath
begin

text \<open>
  The licensing messages that the permissive server path uses, \<^verbatim>\<open>src/src/licensing/licensing.c\<close>: preamble,
  binary blobs and the error alert. The key exchange and challenge messages of a licensing server, the
  client state machine and the license store are not modelled.
\<close>

definition RDP_LICENSE_MESSAGE_REQUEST :: u8 where
  "RDP_LICENSE_MESSAGE_REQUEST = 0x01"

definition RDP_LICENSE_MESSAGE_PLATFORM_CHALLENGE :: u8 where
  "RDP_LICENSE_MESSAGE_PLATFORM_CHALLENGE = 0x02"

definition RDP_LICENSE_MESSAGE_NEW_LICENSE :: u8 where
  "RDP_LICENSE_MESSAGE_NEW_LICENSE = 0x03"

definition RDP_LICENSE_MESSAGE_UPGRADE_LICENSE :: u8 where
  "RDP_LICENSE_MESSAGE_UPGRADE_LICENSE = 0x04"

definition RDP_LICENSE_MESSAGE_INFO :: u8 where
  "RDP_LICENSE_MESSAGE_INFO = 0x12"

definition RDP_LICENSE_MESSAGE_NEW_LICENSE_REQUEST :: u8 where
  "RDP_LICENSE_MESSAGE_NEW_LICENSE_REQUEST = 0x13"

definition RDP_LICENSE_MESSAGE_PLATFORM_CHALLENGE_RESPONSE :: u8 where
  "RDP_LICENSE_MESSAGE_PLATFORM_CHALLENGE_RESPONSE = 0x15"

definition RDP_LICENSE_MESSAGE_ERROR_ALERT :: u8 where
  "RDP_LICENSE_MESSAGE_ERROR_ALERT = 0xff"

definition RDP_LICENSE_VERSION_2 :: u8 where
  "RDP_LICENSE_VERSION_2 = 0x02"

definition RDP_LICENSE_VERSION_3 :: u8 where
  "RDP_LICENSE_VERSION_3 = 0x03"

definition RDP_LICENSE_BLOB_DATA :: u16 where
  "RDP_LICENSE_BLOB_DATA = 0x0001"

definition RDP_LICENSE_BLOB_RANDOM :: u16 where
  "RDP_LICENSE_BLOB_RANDOM = 0x0002"

definition RDP_LICENSE_BLOB_CERTIFICATE :: u16 where
  "RDP_LICENSE_BLOB_CERTIFICATE = 0x0003"

definition RDP_LICENSE_BLOB_ERROR :: u16 where
  "RDP_LICENSE_BLOB_ERROR = 0x0004"

definition RDP_LICENSE_BLOB_ENCRYPTED_DATA :: u16 where
  "RDP_LICENSE_BLOB_ENCRYPTED_DATA = 0x0009"

definition RDP_LICENSE_BLOB_KEY_EXCHANGE_ALG :: u16 where
  "RDP_LICENSE_BLOB_KEY_EXCHANGE_ALG = 0x000d"

definition RDP_LICENSE_BLOB_SCOPE :: u16 where
  "RDP_LICENSE_BLOB_SCOPE = 0x000e"

definition RDP_LICENSE_BLOB_CLIENT_USER_NAME :: u16 where
  "RDP_LICENSE_BLOB_CLIENT_USER_NAME = 0x000f"

definition RDP_LICENSE_BLOB_CLIENT_MACHINE_NAME :: u16 where
  "RDP_LICENSE_BLOB_CLIENT_MACHINE_NAME = 0x0010"

definition RDP_LICENSE_ERROR_STATUS_VALID_CLIENT :: u32 where
  "RDP_LICENSE_ERROR_STATUS_VALID_CLIENT = 0x00000007"

definition RDP_LICENSE_STATE_TRANSITION_NO_TRANSITION :: u32 where
  "RDP_LICENSE_STATE_TRANSITION_NO_TRANSITION = 0x00000002"

record rdp_license_preamble =
  lp_message_type :: u8
  lp_version :: u8
  lp_length :: u16
  lp_payload :: "u8 list"
  lp_payload_len :: nat

record rdp_license_binary_blob =
  lb_type :: u16
  lb_length :: u16
  lb_data :: "u8 list"

record rdp_license_error_alert =
  la_message_type :: u8
  la_flags :: u8
  la_length :: u16
  la_error_code :: u32
  la_state_transition :: u32
  la_blob_type :: u16
  la_blob_length :: u16
  la_blob :: "u8 list"

definition rdp_license_valid_message_type :: "u8 \<Rightarrow> bool" where
  "rdp_license_valid_message_type message_type \<longleftrightarrow>
     message_type \<in> {RDP_LICENSE_MESSAGE_REQUEST, RDP_LICENSE_MESSAGE_PLATFORM_CHALLENGE,
       RDP_LICENSE_MESSAGE_NEW_LICENSE, RDP_LICENSE_MESSAGE_UPGRADE_LICENSE, RDP_LICENSE_MESSAGE_INFO,
       RDP_LICENSE_MESSAGE_NEW_LICENSE_REQUEST, RDP_LICENSE_MESSAGE_PLATFORM_CHALLENGE_RESPONSE,
       RDP_LICENSE_MESSAGE_ERROR_ALERT}"

definition rdp_license_valid_version :: "u8 \<Rightarrow> bool" where
  "rdp_license_valid_version version =
     (let base = version AND 0x0f in base = RDP_LICENSE_VERSION_2 \<or> base = RDP_LICENSE_VERSION_3)"

definition rdp_license_valid_blob_type :: "u16 \<Rightarrow> bool" where
  "rdp_license_valid_blob_type type \<longleftrightarrow>
     type \<in> {RDP_LICENSE_BLOB_DATA, RDP_LICENSE_BLOB_RANDOM, RDP_LICENSE_BLOB_CERTIFICATE, RDP_LICENSE_BLOB_ERROR,
       RDP_LICENSE_BLOB_ENCRYPTED_DATA, RDP_LICENSE_BLOB_KEY_EXCHANGE_ALG, RDP_LICENSE_BLOB_SCOPE,
       RDP_LICENSE_BLOB_CLIENT_USER_NAME, RDP_LICENSE_BLOB_CLIENT_MACHINE_NAME}"

definition rdp_license_read_blob :: "rdp_license_binary_blob reader" where
  "rdp_license_read_blob stream =
     pbind (rdp_stream_read_u16_le stream) (\<lambda>(type, stream).
     pbind (rdp_stream_read_u16_le stream) (\<lambda>(len, stream).
       if \<not> rdp_license_valid_blob_type type \<or> unat len > rdp_stream_remaining stream then protocol_error
       else
         pbind (rdp_stream_read_bytes (unat len) stream) (\<lambda>(data, stream).
           Inr (\<lparr>lb_type = type, lb_length = len, lb_data = data\<rparr>, stream))))"

definition rdp_license_parse_preamble :: "u8 list \<Rightarrow> rdp_license_preamble result" where
  "rdp_license_parse_preamble data =
     (if length data < 4 \<or> length data > 0xffff then protocol_error
      else
        pbind (rdp_stream_read_u8 (rdp_stream_init data)) (\<lambda>(message_type, stream).
        pbind (rdp_stream_read_u8 stream) (\<lambda>(version, stream).
        pbind (rdp_stream_read_u16_le stream) (\<lambda>(len, stream).
          if \<not> rdp_license_valid_message_type message_type \<or> \<not> rdp_license_valid_version version \<or>
             len < 4 \<or> unat len \<noteq> length data
          then protocol_error
          else Inr \<lparr>lp_message_type = message_type, lp_version = version, lp_length = len,
                    lp_payload = take (unat len - 4) (drop 4 data), lp_payload_len = unat len - 4\<rparr>))))"

definition rdp_license_write_preamble :: "u8 \<Rightarrow> u8 \<Rightarrow> u16 \<Rightarrow> writer" where
  "rdp_license_write_preamble message_type version payload_len =
     (if \<not> rdp_license_valid_message_type message_type \<or> \<not> rdp_license_valid_version version \<or>
         unat payload_len > 0xffff - 4
      then reject LIBRDP_STATUS_INVALID_ARGUMENT
      else restoring (run_writers
        [rdp_buffer_append_u8 message_type,
         rdp_buffer_append_u8 version,
         rdp_buffer_append_u16_le (payload_len + 4)]))"

definition rdp_license_parse_binary_blob :: "u8 list \<Rightarrow> rdp_license_binary_blob result" where
  "rdp_license_parse_binary_blob data =
     (if length data < 4 \<or> length data > 0xffff + 4 then protocol_error
      else
        pbind (rdp_license_read_blob (rdp_stream_init data)) (\<lambda>(blob, stream).
          if rdp_stream_remaining stream \<noteq> 0 then protocol_error else Inr blob))"

definition rdp_license_write_binary_blob :: "u16 \<Rightarrow> u8 list \<Rightarrow> writer" where
  "rdp_license_write_binary_blob type data =
     (if \<not> rdp_license_valid_blob_type type then reject LIBRDP_STATUS_INVALID_ARGUMENT
      else restoring (run_writers
        [rdp_buffer_append_u16_le type,
         rdp_buffer_append_u16_le (of_nat (length data)),
         rdp_buffer_append data]))"

definition rdp_license_parse_error_alert :: "u8 list \<Rightarrow> rdp_license_error_alert result" where
  "rdp_license_parse_error_alert data =
     pbind (rdp_license_parse_preamble data) (\<lambda>preamble.
       if lp_message_type preamble \<noteq> RDP_LICENSE_MESSAGE_ERROR_ALERT then protocol_error
       else
         pbind (rdp_stream_read_u32_le (rdp_stream_init (lp_payload preamble))) (\<lambda>(error_code, stream).
         pbind (rdp_stream_read_u32_le stream) (\<lambda>(state_transition, stream).
         pbind (rdp_stream_read_u16_le stream) (\<lambda>(blob_type, stream).
         pbind (rdp_stream_read_u16_le stream) (\<lambda>(blob_length, stream).
           if lp_length preamble < 16 \<or> \<not> rdp_license_valid_blob_type blob_type \<or>
              rdp_stream_remaining stream \<noteq> unat blob_length
           then protocol_error
           else
             pbind (rdp_stream_read_bytes (unat blob_length) stream) (\<lambda>(blob, stream).
               Inr \<lparr>la_message_type = lp_message_type preamble, la_flags = lp_version preamble,
                    la_length = lp_length preamble, la_error_code = error_code,
                    la_state_transition = state_transition, la_blob_type = blob_type,
                    la_blob_length = blob_length, la_blob = blob\<rparr>))))))"

definition rdp_license_error_alert_is_terminal_success :: "rdp_license_error_alert \<Rightarrow> bool" where
  "rdp_license_error_alert_is_terminal_success alert \<longleftrightarrow>
     la_message_type alert = RDP_LICENSE_MESSAGE_ERROR_ALERT \<and>
     la_error_code alert = RDP_LICENSE_ERROR_STATUS_VALID_CLIENT \<and>
     la_state_transition alert = RDP_LICENSE_STATE_TRANSITION_NO_TRANSITION \<and>
     la_blob_type alert = RDP_LICENSE_BLOB_ERROR \<and> la_blob_length alert = 0"

definition rdp_license_write_error_alert :: "u8 \<Rightarrow> u32 \<Rightarrow> u32 \<Rightarrow> u16 \<Rightarrow> u8 list \<Rightarrow> writer" where
  "rdp_license_write_error_alert version error_code state_transition blob_type blob =
     (if \<not> rdp_license_valid_blob_type blob_type then reject LIBRDP_STATUS_INVALID_ARGUMENT
      else restoring (run_writers
        [rdp_license_write_preamble RDP_LICENSE_MESSAGE_ERROR_ALERT version (12 + of_nat (length blob)),
         rdp_buffer_append_u32_le error_code,
         rdp_buffer_append_u32_le state_transition,
         rdp_license_write_binary_blob blob_type blob]))"

section \<open>The error alert\<close>

lemmas license_message_defs =
  rdp_license_valid_message_type_def RDP_LICENSE_MESSAGE_REQUEST_def RDP_LICENSE_MESSAGE_PLATFORM_CHALLENGE_def
  RDP_LICENSE_MESSAGE_NEW_LICENSE_def RDP_LICENSE_MESSAGE_UPGRADE_LICENSE_def RDP_LICENSE_MESSAGE_INFO_def
  RDP_LICENSE_MESSAGE_NEW_LICENSE_REQUEST_def RDP_LICENSE_MESSAGE_PLATFORM_CHALLENGE_RESPONSE_def
  RDP_LICENSE_MESSAGE_ERROR_ALERT_def rdp_license_valid_version_def RDP_LICENSE_VERSION_2_def RDP_LICENSE_VERSION_3_def

definition error_alert_bytes :: "u8 \<Rightarrow> u32 \<Rightarrow> u32 \<Rightarrow> u16 \<Rightarrow> u8 list \<Rightarrow> u8 list" where
  "error_alert_bytes version code transition blob_type blob =
     [RDP_LICENSE_MESSAGE_ERROR_ALERT, version] @ u16_le_bytes (of_nat (16 + length blob)) @ u32_le_bytes code @
     u32_le_bytes transition @ u16_le_bytes blob_type @ u16_le_bytes (of_nat (length blob)) @ blob"

lemma emits_license_blob [emits_rules]:
  "rdp_license_valid_blob_type type \<Longrightarrow>
    emits (rdp_license_write_binary_blob type data) (u16_le_bytes type @ u16_le_bytes (of_nat (length data)) @ data)"
  unfolding rdp_license_write_binary_blob_def by (auto intro!: emits_rules)

lemma emits_error_alert:
  assumes "rdp_license_valid_version version" "rdp_license_valid_blob_type blob_type" "length blob + 16 \<le> 0xffff"
  shows "emits (rdp_license_write_error_alert version code transition blob_type blob)
    (error_alert_bytes version code transition blob_type blob)"
proof -
  have n: "unat (12 + of_nat (length blob) :: u16) = 12 + length blob"
    using unat_of_nat_u16 [of "12 + length blob"] assms(3) by simp
  have w: "rdp_license_valid_message_type RDP_LICENSE_MESSAGE_ERROR_ALERT" by (simp add: rdp_license_valid_message_type_def)
  show ?thesis
    unfolding rdp_license_write_error_alert_def error_alert_bytes_def rdp_license_write_preamble_def
    using assms w n by (auto intro!: emits_rules simp: ac_simps)
qed

lemma parse_error_alert:
  assumes "rdp_license_valid_version version" "rdp_license_valid_blob_type blob_type" "length blob + 16 \<le> 0xffff"
  shows "rdp_license_parse_error_alert (error_alert_bytes version code transition blob_type blob) =
    Inr \<lparr>la_message_type = RDP_LICENSE_MESSAGE_ERROR_ALERT, la_flags = version, la_length = of_nat (16 + length blob),
         la_error_code = code, la_state_transition = transition, la_blob_type = blob_type,
         la_blob_length = of_nat (length blob), la_blob = blob\<rparr>"
proof -
  define n :: u16 where "n = of_nat (16 + length blob)"
  define k :: u16 where "k = of_nat (length blob)"
  have n: "unat n = 16 + length blob" unfolding n_def by (rule unat_of_nat_u16) (use assms in simp)
  have k: "unat k = length blob" unfolding k_def by (rule unat_of_nat_u16) (use assms in simp)
  have w: "rdp_license_valid_message_type RDP_LICENSE_MESSAGE_ERROR_ALERT" by (simp add: rdp_license_valid_message_type_def)
  have "\<not> n < 4" "\<not> n < 16" using n by (simp_all add: word_less_nat_alt)
  with assms n k w show ?thesis
    by (simp add: rdp_license_parse_error_alert_def rdp_license_parse_preamble_def error_alert_bytes_def stream_rules
        del: of_nat_add flip: n_def k_def)
qed

interpretation error_alert: pdu_codec
  "\<lambda>(version, code, transition, blob_type, blob). rdp_license_write_error_alert version code transition blob_type blob"
  rdp_license_parse_error_alert
  "\<lambda>(version, code, transition, blob_type, blob). error_alert_bytes version code transition blob_type blob"
  "\<lambda>(version, code, transition, blob_type, blob).
     \<lparr>la_message_type = RDP_LICENSE_MESSAGE_ERROR_ALERT, la_flags = version, la_length = of_nat (16 + length blob),
      la_error_code = code, la_state_transition = transition, la_blob_type = blob_type,
      la_blob_length = of_nat (length blob), la_blob = blob\<rparr>"
  "\<lambda>(version, code, transition, blob_type, blob). rdp_license_valid_version version \<and>
     rdp_license_valid_blob_type blob_type \<and> length blob + 16 \<le> 0xffff"
  by unfold_locales (auto simp: emits_error_alert parse_error_alert)

end
