(* ===== verification/Server_Peer.thy ===== *)
theory Server_Peer
  imports Actions Session_Wire Gcc Licensing
begin

text \<open>
  The server's peer and the first half of its connection sequence, from
  \<^verbatim>\<open>src/src/server/server_security.c\<close>: closing a peer, sending on its transport, protocol selection and the
  X.224 answer, the TLS step, and the Standard Security exchange. The CredSSP exchange is in the theory
  \<open>Server_Credssp\<close>, the MCS, activation and runtime handlers in \<open>Server_Protocol\<close>.

  The struct \<^verbatim>\<open>librdp_server_peer\<close> is split: \<open>sp_wire\<close> holds the fields of the wire paths, \<open>sp_config\<close> the
  fields that \<^verbatim>\<open>librdp_server_accept\<close> copies from the listener and nothing changes, \<open>sp_credssp\<close> the
  state of the CredSSP exchange; the other fields of the connection sequence follow, and \<open>sp_features\<close>
  stands for the state of the features (clipboard, drives, extensions, dynamic channels, auto-detection,
  frame buffer) whose code is not modelled.

  Two records are arguments. \<open>server_env\<close> is the outside of one step: the bytes that arrive, the network,
  OpenSSL, the clock, the application's credentials callback, and the token functions of
  \<^verbatim>\<open>src/src/nla/credssp.c\<close>. \<open>server_hooks\<close> are the entry points of the feature modules. Traces, the
  last-status record and the events for the application are not modelled.
\<close>

section \<open>The peer\<close>

datatype librdp_server_input_type =
    LIBRDP_SERVER_INPUT_SYNCHRONIZE | LIBRDP_SERVER_INPUT_CONTROL | LIBRDP_SERVER_INPUT_FONT_LIST
  | LIBRDP_SERVER_INPUT_SCANCODE_KEY | LIBRDP_SERVER_INPUT_UNICODE_KEY | LIBRDP_SERVER_INPUT_MOUSE
  | LIBRDP_SERVER_INPUT_EXTENDED_MOUSE | LIBRDP_SERVER_INPUT_REFRESH_RECT | LIBRDP_SERVER_INPUT_SUPPRESS_OUTPUT

record librdp_server_input_event =
  ie_type :: librdp_server_input_type
  ie_event_time :: u32
  ie_flags :: u16
  ie_param1 :: u16
  ie_param2 :: u16
  ie_x :: u16
  ie_y :: u16
  ie_width :: u16
  ie_height :: u16
  ie_control_action :: u16

record server_config =
  sf_server_name :: "u8 list option"
  sf_tls_certificate_path :: "u8 list option"
  sf_tls_private_key_path :: "u8 list option"
  sf_nla_domain :: "u8 list option"
  sf_nla_username :: "u8 list option"
  sf_nla_password :: "u8 list option"
  sf_credentials_provider :: bool
  sf_requested_features :: u32
  sf_security_mode :: librdp_security_mode

record 'n server_credssp =
  np_expected_domain :: "u8 list option"
  np_expected_username :: "u8 list option"
  np_expected_password :: "u8 list option"
  np_security :: 'n
  np_target_name :: rdp_buffer
  np_target_info :: rdp_buffer
  np_server_challenge :: "u8 list"
  np_client_nonce :: "u8 list"
  np_stage :: u8
  np_ts_request_version :: u8
  np_public_key_bound :: bool
  np_client_nonce_ready :: bool
  np_security_ready :: bool

record ('c, 'k, 'n, 'e) server_peer =
  sp_wire :: "'c librdp_server_peer"
  sp_config :: server_config
  sp_credssp :: "'n server_credssp"
  sp_fd_open :: bool
  sp_requested_protocols :: u32
  sp_selected_protocol :: u32
  sp_share_id :: u32
  sp_width :: u16
  sp_height :: u16
  sp_tls_context :: bool
  sp_tls :: bool
  sp_tls_active :: bool
  sp_standard_private_key :: "'k option"
  sp_standard_certificate :: rdp_buffer
  sp_standard_server_random :: "u8 list"
  sp_x224_routing_data :: rdp_buffer
  sp_client_cluster_flags :: u32
  sp_redirected_session_id :: u32
  sp_nla_authenticated :: bool
  sp_nla_failed_attempts :: u32
  sp_dynamic_channel_static_index :: u16
  sp_joined_channel_count :: u16
  sp_message_channel_id :: u16
  sp_message_channel_joined :: bool
  sp_message_channel_flags :: u32
  sp_advertised_channels :: "rdp_gcc_channel_definition list"
  sp_advertised_channel_ids :: "u16 list"
  sp_multitransport_negotiated :: bool
  sp_multitransport_flags :: u32
  sp_confirm_active_seen :: bool
  sp_client_fastpath_output :: bool
  sp_licensing_done :: bool
  sp_client_info_seen :: bool
  sp_synchronize_seen :: bool
  sp_control_cooperate_seen :: bool
  sp_control_seen :: bool
  sp_font_list_seen :: bool
  sp_updates_suppressed :: bool
  sp_surface_repaint_pending :: bool
  sp_framebuffer :: bool
  sp_metric_errors :: u64
  sp_metric_input_events :: u64
  sp_input_log :: "librdp_server_input_event list"
  sp_features :: 'e

abbreviation sp_state :: "('c, 'k, 'n, 'e) server_peer \<Rightarrow> librdp_server_peer_state" where
  "sp_state p \<equiv> pe_state (sp_wire p)"

section \<open>The outside\<close>

record rdp_credssp_ts_request =
  ts_version :: u32
  ts_nego_token :: "u8 list"
  ts_auth_info :: "u8 list"
  ts_pub_key_auth :: "u8 list"
  ts_client_nonce :: "u8 list"

record rdp_ntlm_challenge =
  nt_flags :: u32
  nt_server_challenge :: "u8 list"
  nt_target_name :: "u8 list"
  nt_target_info :: "u8 list"

record rdp_ntlm_authenticate =
  na_domain :: "u8 list"
  na_username :: "u8 list"
  na_workstation :: "u8 list"

record rdp_ntlm_authenticate_result =
  nr_flags :: u32
  nr_session_key :: "u8 list"

record rdp_credssp_password_credentials =
  pc_domain :: "u8 list option"
  pc_username :: "u8 list option"
  pc_password :: "u8 list option"

record librdp_server_credentials_request =
  rq_domain :: "u8 list option"
  rq_username :: "u8 list option"
  rq_workstation :: "u8 list option"
  rq_ts_request_version :: u32
  rq_failed_attempts :: u32
  rq_public_key_bound :: bool

record librdp_credentials =
  cr_username :: "u8 list option"
  cr_password :: "u8 list option"
  cr_domain :: "u8 list option"

text \<open>
  \<open>env_tls_accept\<close> is OK when \<^verbatim>\<open>SSL_accept\<close> returns 1 and otherwise the status \<^verbatim>\<open>rdp_server_tls_status\<close>
  reads from it; the segments are what the socket or the TLS layer delivers, an empty one being the end
  of the stream. The functions of the second half stand for the function of \<^verbatim>\<open>src/src/nla/credssp.c\<close> or
  the library function they are named after.
\<close>

record ('c, 'k, 'n) server_env =
  env_crypto :: "'c crypto"
  env_net :: network
  env_segments :: "u8 list list"
  env_create_tls_context :: librdp_status
  env_ssl_new :: bool
  env_ssl_set_fd :: bool
  env_tls_accept :: librdp_status
  env_wait_fd :: librdp_status
  env_filetime_now :: u64
  env_rand_bytes :: "u8 list option"
  env_generate_client_random :: "u8 list result"
  env_generate_server_certificate :: "('k \<times> rdp_buffer) result"
  env_decrypt_private_secret :: "'k \<Rightarrow> u8 list \<Rightarrow> u8 list result"
  env_tls_public_key :: "u8 list result"
  env_credentials_provider :: "librdp_server_credentials_request \<Rightarrow> librdp_credentials result"
  env_utf16le_to_utf8_alloc :: "u8 list \<Rightarrow> u8 list option result"
  env_parse_ts_request :: "u8 list \<Rightarrow> rdp_credssp_ts_request result"
  env_write_ts_request :: "u32 \<Rightarrow> u8 list \<Rightarrow> u8 list \<Rightarrow> u8 list \<Rightarrow> writer"
  env_write_ts_error :: "u32 \<Rightarrow> u32 \<Rightarrow> writer"
  env_extract_ntlm_message :: "u8 list \<Rightarrow> u32 \<Rightarrow> u8 list result"
  env_parse_ntlm_negotiate :: "u8 list \<Rightarrow> u32 result"
  env_write_ntlm_challenge :: "rdp_ntlm_challenge \<Rightarrow> writer"
  env_parse_ntlm_authenticate :: "u8 list \<Rightarrow> rdp_ntlm_authenticate result"
  env_verify_ntlm_authenticate ::
    "u8 list \<Rightarrow> rdp_ntlm_challenge \<Rightarrow> u8 list \<Rightarrow> u8 list \<Rightarrow> rdp_ntlm_authenticate_result result"
  env_ntlm_server_security_init :: "rdp_ntlm_authenticate_result \<Rightarrow> 'n \<Rightarrow> librdp_status \<times> 'n"
  env_verify_client_public_key_hash :: "u8 list \<Rightarrow> u8 list \<Rightarrow> u8 list \<Rightarrow> 'n \<Rightarrow> librdp_status \<times> 'n"
  env_encrypt_server_public_key_hash :: "u8 list \<Rightarrow> u8 list \<Rightarrow> 'n \<Rightarrow> u8 list result \<times> 'n"
  env_decrypt_password_credentials :: "u8 list \<Rightarrow> 'n \<Rightarrow> rdp_credssp_password_credentials result \<times> 'n"

type_synonym ('c, 'k, 'n, 'e) server_action = "(('c, 'k, 'n, 'e) server_peer, unit) action"

section \<open>State, closing and sending\<close>

definition rdp_server_set_state ::
    "librdp_server_peer_state \<Rightarrow> ('c, 'k, 'n, 'e) server_peer \<Rightarrow> ('c, 'k, 'n, 'e) server_peer" where
  "rdp_server_set_state state p = p\<lparr>sp_wire := (sp_wire p)\<lparr>pe_state := state\<rparr>\<rparr>"

definition rdp_server_close_peer ::
    "librdp_server_peer_state \<Rightarrow> ('c, 'k, 'n, 'e) server_peer \<Rightarrow> ('c, 'k, 'n, 'e) server_peer" where
  "rdp_server_close_peer state p =
     rdp_server_set_state state (p\<lparr>sp_tls := False, sp_tls_context := False, sp_tls_active := False, sp_fd_open := False\<rparr>)"

text \<open>A wire function on the peer. A send that finds the connection closed closes the peer.\<close>

definition on_wire ::
    "('c librdp_server_peer \<times> mem \<Rightarrow> librdp_status \<times> 'c librdp_server_peer \<times> mem) \<Rightarrow>
     ('c, 'k, 'n, 'e) server_action" where
  "on_wire f = (\<lambda>(p, m). case f (sp_wire p, m) of (status, w, m) \<Rightarrow>
     let p = p\<lparr>sp_wire := w\<rparr> in
     (if status = LIBRDP_STATUS_OK then Inr () else Inl status,
      if status = LIBRDP_STATUS_CLOSED then rdp_server_close_peer LIBRDP_SERVER_PEER_CLOSED p else p, m))"

definition server_send_mcs :: "('c, 'k, 'n) server_env \<Rightarrow> rdp_buffer \<Rightarrow> ('c, 'k, 'n, 'e) server_action" where
  "server_send_mcs env mcs = on_wire (rdp_server_send_mcs_pdu (env_net env) mcs)"

definition server_send_slowpath :: "('c, 'k, 'n) server_env \<Rightarrow> rdp_buffer \<Rightarrow> ('c, 'k, 'n, 'e) server_action" where
  "server_send_slowpath env pdu = on_wire (rdp_server_send_slowpath (env_crypto env) (env_net env) pdu)"

text \<open>A complete message sent as it is, and counted.\<close>

definition server_send_raw :: "('c, 'k, 'n) server_env \<Rightarrow> u8 list \<Rightarrow> ('c, 'k, 'n, 'e) server_action" where
  "server_send_raw env data = on_wire (\<lambda>(w, m).
     case rdp_server_peer_send_all (env_net env) data w of (status, w) \<Rightarrow>
       (status,
        if status = LIBRDP_STATUS_OK then w\<lparr>pe_pdu_out := rdp_server_metric_add (pe_pdu_out w) 1\<rparr> else w, m))"

section \<open>Protocol selection\<close>

definition text_set :: "u8 list option \<Rightarrow> bool" where
  "text_set t = (case t of None \<Rightarrow> False | Some s \<Rightarrow> c_string s \<noteq> [])"

definition rdp_server_tls_material_available :: "server_config \<Rightarrow> bool" where
  "rdp_server_tls_material_available cfg \<longleftrightarrow>
     text_set (sf_tls_certificate_path cfg) \<and> text_set (sf_tls_private_key_path cfg)"

definition rdp_server_nla_material_available :: "server_config \<Rightarrow> bool" where
  "rdp_server_nla_material_available cfg \<longleftrightarrow>
     rdp_server_tls_material_available cfg \<and>
     (sf_credentials_provider cfg \<or> text_set (sf_nla_username cfg) \<and> text_set (sf_nla_password cfg))"

definition rdp_server_uses_standard_security :: "('c, 'k, 'n, 'e) server_peer \<Rightarrow> bool" where
  "rdp_server_uses_standard_security p \<longleftrightarrow> sp_selected_protocol p = RDP_X224_PROTOCOL_STANDARD"

definition RDP_SERVER_NEGOTIATION_FAILURE_SSL_REQUIRED :: u32 where
  "RDP_SERVER_NEGOTIATION_FAILURE_SSL_REQUIRED = 1"
definition RDP_SERVER_NEGOTIATION_FAILURE_SSL_NOT_ALLOWED :: u32 where
  "RDP_SERVER_NEGOTIATION_FAILURE_SSL_NOT_ALLOWED = 2"
definition RDP_SERVER_NEGOTIATION_FAILURE_SSL_CERT_NOT_ON_SERVER :: u32 where
  "RDP_SERVER_NEGOTIATION_FAILURE_SSL_CERT_NOT_ON_SERVER = 3"
definition RDP_SERVER_NEGOTIATION_FAILURE_HYBRID_REQUIRED :: u32 where
  "RDP_SERVER_NEGOTIATION_FAILURE_HYBRID_REQUIRED = 5"

text \<open>The failure code on the left, or the selected protocol.\<close>

definition rdp_server_select_protocol :: "server_config \<Rightarrow> rdp_x224_connection_request \<Rightarrow> u32 + u32" where
  "rdp_server_select_protocol cfg request =
     (let present = neg_present (cr_negotiation request);
          requested = (if present then cr_requested_protocols request else RDP_X224_PROTOCOL_STANDARD);
          standard_requested = (\<not> present \<or> requested = RDP_X224_PROTOCOL_STANDARD)
      in case sf_security_mode cfg of
          LIBRDP_SECURITY_STANDARD \<Rightarrow>
            (if standard_requested then Inr RDP_X224_PROTOCOL_STANDARD
             else Inl RDP_SERVER_NEGOTIATION_FAILURE_SSL_NOT_ALLOWED)
        | LIBRDP_SECURITY_TLS \<Rightarrow>
            (if \<not> rdp_server_tls_material_available cfg
             then Inl RDP_SERVER_NEGOTIATION_FAILURE_SSL_CERT_NOT_ON_SERVER
             else if requested AND RDP_X224_PROTOCOL_TLS \<noteq> 0 then Inr RDP_X224_PROTOCOL_TLS
             else Inl RDP_SERVER_NEGOTIATION_FAILURE_SSL_REQUIRED)
        | LIBRDP_SECURITY_NLA \<Rightarrow>
            (if \<not> rdp_server_tls_material_available cfg
             then Inl RDP_SERVER_NEGOTIATION_FAILURE_SSL_CERT_NOT_ON_SERVER
             else if \<not> rdp_server_nla_material_available cfg
             then Inl RDP_SERVER_NEGOTIATION_FAILURE_HYBRID_REQUIRED
             else if requested AND RDP_X224_PROTOCOL_NLA \<noteq> 0 then Inr RDP_X224_PROTOCOL_NLA
             else Inl RDP_SERVER_NEGOTIATION_FAILURE_HYBRID_REQUIRED)
        | LIBRDP_SECURITY_AUTO \<Rightarrow>
            (if rdp_server_nla_material_available cfg \<and> requested AND RDP_X224_PROTOCOL_NLA \<noteq> 0
             then Inr RDP_X224_PROTOCOL_NLA
             else if rdp_server_tls_material_available cfg \<and> requested AND RDP_X224_PROTOCOL_TLS \<noteq> 0
             then Inr RDP_X224_PROTOCOL_TLS
             else if standard_requested then Inr RDP_X224_PROTOCOL_STANDARD
             else Inl RDP_SERVER_NEGOTIATION_FAILURE_SSL_NOT_ALLOWED))"

section \<open>X.224\<close>

definition rdp_server_send_x224_failure ::
    "('c, 'k, 'n) server_env \<Rightarrow> u32 \<Rightarrow> ('c, 'k, 'n, 'e) server_action" where
  "rdp_server_send_x224_failure env failure_code =
     athen
       (on_error (\<lambda>_. rdp_server_close_peer LIBRDP_SERVER_PEER_FAILED)
         (abind (awrite (rdp_x224_build_negotiation_failure failure_code)) (\<lambda>response.
          server_send_raw env (contents response))))
       (athen (amodify (rdp_server_close_peer LIBRDP_SERVER_PEER_CLOSED)) (afail LIBRDP_STATUS_UNSUPPORTED))"

text \<open>The answer to a request that can be met.\<close>

definition x224_confirm ::
    "('c, 'k, 'n) server_env \<Rightarrow> rdp_x224_connection_request \<Rightarrow> u32 \<Rightarrow> ('c, 'k, 'n, 'e) server_action" where
  "x224_confirm env request selected_protocol =
     athen (amodify (\<lambda>p. p\<lparr>sp_x224_routing_data := (sp_x224_routing_data p)\<lparr>buf_length := 0\<rparr>\<rparr>))
     (athen (awhen (cr_routing_data_len request > 0)
       (afill sp_x224_routing_data (\<lambda>b p. p\<lparr>sp_x224_routing_data := b\<rparr>)
         (rdp_buffer_append (cr_routing_data request))))
     (athen (on_error (\<lambda>_. rdp_server_close_peer LIBRDP_SERVER_PEER_FAILED)
       (abind (awrite (rdp_x224_build_connection_confirm_ex selected_protocol
           (neg_present (cr_negotiation request)))) (\<lambda>response.
        server_send_raw env (contents response))))
     (amodify (\<lambda>p. rdp_server_set_state
       (if selected_protocol = RDP_X224_PROTOCOL_TLS \<or> selected_protocol = RDP_X224_PROTOCOL_NLA
        then LIBRDP_SERVER_PEER_TLS_HANDSHAKING else LIBRDP_SERVER_PEER_X224_CONFIRMED)
       (p\<lparr>sp_requested_protocols :=
            if neg_present (cr_negotiation request) then cr_requested_protocols request
            else RDP_X224_PROTOCOL_STANDARD,
          sp_selected_protocol := selected_protocol\<rparr>)))))"

definition rdp_server_handle_x224 ::
    "('c, 'k, 'n) server_env \<Rightarrow> rdp_tpkt \<Rightarrow> ('c, 'k, 'n, 'e) server_action" where
  "rdp_server_handle_x224 env packet =
     abind (on_error (\<lambda>_. rdp_server_set_state LIBRDP_SERVER_PEER_FAILED)
       (alift (rdp_x224_parse_connection_request (tpkt_payload packet)))) (\<lambda>request.
     abind (aget sp_config) (\<lambda>cfg.
     case rdp_server_select_protocol cfg request of
       Inl failure_code \<Rightarrow> rdp_server_send_x224_failure env failure_code
     | Inr selected_protocol \<Rightarrow> x224_confirm env request selected_protocol))"

section \<open>TLS\<close>

definition rdp_server_start_tls :: "('c, 'k, 'n) server_env \<Rightarrow> ('c, 'k, 'n, 'e) server_action" where
  "rdp_server_start_tls env =
     abind (aget sp_tls_active) (\<lambda>tls_active.
     if tls_active then aret () else
     abind (aget sp_config) (\<lambda>cfg.
     athen (afail_if (\<not> rdp_server_tls_material_available cfg) LIBRDP_STATUS_UNSUPPORTED)
     (abind (aget sp_tls_context) (\<lambda>tls_context.
     athen (awhen (\<not> tls_context)
       (athen (afail_if (env_create_tls_context env \<noteq> LIBRDP_STATUS_OK) (env_create_tls_context env))
         (amodify (\<lambda>p. p\<lparr>sp_tls_context := True\<rparr>))))
     (abind (aget sp_tls) (\<lambda>tls.
     athen (awhen (\<not> tls)
       (athen (afail_if (\<not> env_ssl_new env) LIBRDP_STATUS_TLS_HANDSHAKE_FAILED)
       (athen (amodify (\<lambda>p. p\<lparr>sp_tls := True\<rparr>))
         (afail_if (\<not> env_ssl_set_fd env) LIBRDP_STATUS_TLS_HANDSHAKE_FAILED))))
     (if env_tls_accept env = LIBRDP_STATUS_AGAIN then
        afail (if env_wait_fd env = LIBRDP_STATUS_OK then LIBRDP_STATUS_TIMEOUT else env_wait_fd env)
      else if env_tls_accept env = LIBRDP_STATUS_CLOSED then afail LIBRDP_STATUS_TLS_HANDSHAKE_FAILED
      else if env_tls_accept env \<noteq> LIBRDP_STATUS_OK then afail (env_tls_accept env)
      else
        amodify (\<lambda>p. rdp_server_set_state
          (if sp_selected_protocol p = RDP_X224_PROTOCOL_NLA then LIBRDP_SERVER_PEER_NLA_AUTHENTICATING
           else LIBRDP_SERVER_PEER_X224_CONFIRMED)
          (p\<lparr>sp_tls_active := True\<rparr>)))))))))"

section \<open>Standard Security\<close>

definition rdp_server_prepare_standard_security ::
    "('c, 'k, 'n) server_env \<Rightarrow> ('c, 'k, 'n, 'e) server_action" where
  "rdp_server_prepare_standard_security env =
     abind (aget (\<lambda>p. \<not> rdp_server_uses_standard_security p \<or> sp_standard_private_key p \<noteq> None)) (\<lambda>done_before.
     if done_before then aret () else
     abind (alift (env_generate_client_random env)) (\<lambda>random.
     athen (amodify (\<lambda>p. p\<lparr>sp_standard_server_random := random\<rparr>))
     (abind (alift (env_generate_server_certificate env)) (\<lambda>(key, certificate).
      amodify (\<lambda>p. p\<lparr>sp_standard_private_key := Some key, sp_standard_certificate := certificate\<rparr>)))))"

definition rdp_server_security_payload_has_flag :: "u8 list \<Rightarrow> u16 \<Rightarrow> bool" where
  "rdp_server_security_payload_has_flag input required =
     (if length input < 4 then False
      else le16 (input ! 2) (input ! 3) = 0 \<and> le16 (input ! 0) (input ! 1) AND required = required)"

text \<open>
  Unwrapping a security header into a local buffer, with the peer's Standard Security context or with none.
\<close>

definition server_unwrap ::
    "('c, 'k, 'n) server_env \<Rightarrow> bool \<Rightarrow> u8 list \<Rightarrow> (('c, 'k, 'n, 'e) server_peer, u16 \<times> u8 list) action" where
  "server_unwrap env with_context input = (\<lambda>(p, m).
     case rdp_security_unwrap_pdu (env_crypto env) input
            (if with_context then Some (pe_standard_security (sp_wire p)) else None, rdp_buffer_init, m) of
       (r, context, b, m) \<Rightarrow>
         (map_sum id (\<lambda>flags. (flags, contents b)) r,
          (case context of
             None \<Rightarrow> p
           | Some security \<Rightarrow> p\<lparr>sp_wire := (sp_wire p)\<lparr>pe_standard_security := security\<rparr>\<rparr>),
          m))"

text \<open>The encrypted client random of a Security Exchange PDU, with its eight bytes of padding.\<close>

definition parse_encrypted_random :: "u8 list \<Rightarrow> u8 list result" where
  "parse_encrypted_random body =
     pbind (rdp_stream_read_u32_le (rdp_stream_init body)) (\<lambda>(padded_len, stream).
     if padded_len < 8 \<or> rdp_stream_remaining stream < unat padded_len then protocol_error
     else
       pbind (rdp_stream_read_bytes (unat padded_len - 8) stream) (\<lambda>(encrypted_random, stream).
       pbind (rdp_stream_skip 8 stream) (\<lambda>_. Inr encrypted_random)))"

definition rdp_server_handle_security_exchange ::
    "('c, 'k, 'n) server_env \<Rightarrow> u8 list \<Rightarrow> ('c, 'k, 'n, 'e) server_action" where
  "rdp_server_handle_security_exchange env input =
     abind (aget (\<lambda>p. if rdp_server_uses_standard_security p then sp_standard_private_key p else None)) (\<lambda>key.
     case key of
       None \<Rightarrow> afail LIBRDP_STATUS_PROTOCOL_ERROR
     | Some private_key \<Rightarrow>
         abind (server_unwrap env False input) (\<lambda>(flags, body).
         let required = RDP_SEC_EXCHANGE_PKT OR RDP_SEC_LICENSE_ENCRYPT_SC in
         athen (afail_if (flags AND required \<noteq> required) LIBRDP_STATUS_PROTOCOL_ERROR)
         (abind (alift (parse_encrypted_random body)) (\<lambda>encrypted_random.
          abind (alift (env_decrypt_private_secret env private_key encrypted_random)) (\<lambda>client_random.
          abind (aget sp_standard_server_random) (\<lambda>server_random.
          athen
            (on_wire (\<lambda>(w, m).
               case rdp_security_standard_server_init (env_crypto env) RDP_SECURITY_METHOD_128BIT client_random
                      server_random (pe_standard_security w) of
                 (status, security) \<Rightarrow> (status, w\<lparr>pe_standard_security := security\<rparr>, m)))
            (amodify (\<lambda>p. p\<lparr>sp_wire := (sp_wire p)\<lparr>pe_standard_security_ready := True\<rparr>\<rparr>))))))))"

definition RDP_SEC_INFO_PKT :: u16 where "RDP_SEC_INFO_PKT = 0x0040"

record rdp_client_info_summary =
  ci_code_page :: u32
  ci_flags :: u32
  ci_domain_bytes :: u16
  ci_username_bytes :: u16
  ci_password_bytes :: u16
  ci_alternate_shell_bytes :: u16
  ci_working_dir_bytes :: u16

definition rdp_security_parse_client_info_pdu :: "u8 list \<Rightarrow> rdp_client_info_summary result" where
  "rdp_security_parse_client_info_pdu data =
     pbind (rdp_stream_read_u16_le (rdp_stream_init data)) (\<lambda>(flags, stream).
     pbind (rdp_stream_read_u16_le stream) (\<lambda>(flags_hi, stream).
     if flags AND RDP_SEC_INFO_PKT = 0 \<or> flags_hi \<noteq> 0 then protocol_error else
     pbind (rdp_stream_read_u32_le stream) (\<lambda>(code_page, stream).
     pbind (rdp_stream_read_u32_le stream) (\<lambda>(info_flags, stream).
     pbind (rdp_stream_read_u16_le stream) (\<lambda>(domain_bytes, stream).
     pbind (rdp_stream_read_u16_le stream) (\<lambda>(username_bytes, stream).
     pbind (rdp_stream_read_u16_le stream) (\<lambda>(password_bytes, stream).
     pbind (rdp_stream_read_u16_le stream) (\<lambda>(alternate_shell_bytes, stream).
     pbind (rdp_stream_read_u16_le stream) (\<lambda>(working_dir_bytes, stream).
     if rdp_stream_remaining stream <
          unat domain_bytes + unat username_bytes + unat password_bytes + unat alternate_shell_bytes +
          unat working_dir_bytes + 10
     then protocol_error
     else Inr \<lparr>ci_code_page = code_page, ci_flags = info_flags, ci_domain_bytes = domain_bytes,
       ci_username_bytes = username_bytes, ci_password_bytes = password_bytes,
       ci_alternate_shell_bytes = alternate_shell_bytes, ci_working_dir_bytes = working_dir_bytes\<rparr>)))))))))"

definition rdp_server_parse_client_info_security_payload ::
    "('c, 'k, 'n) server_env \<Rightarrow> u8 list \<Rightarrow> (('c, 'k, 'n, 'e) server_peer, rdp_client_info_summary) action" where
  "rdp_server_parse_client_info_security_payload env input =
     abind (aget (\<lambda>p. pe_standard_security_ready (sp_wire p))) (\<lambda>ready.
     abind (server_unwrap env ready input) (\<lambda>(flags, body).
     athen (afail_if (flags AND RDP_SEC_INFO_PKT = 0) LIBRDP_STATUS_PROTOCOL_ERROR)
     (abind (awrite (run_writers [rdp_security_write_header RDP_SEC_INFO_PKT, rdp_buffer_append body])) (\<lambda>framed.
      alift (rdp_security_parse_client_info_pdu (contents framed))))))"

definition rdp_server_unwrap_optional_security_header ::
    "('c, 'k, 'n) server_env \<Rightarrow> u8 list \<Rightarrow> (('c, 'k, 'n, 'e) server_peer, u8 list) action" where
  "rdp_server_unwrap_optional_security_header env input =
     abind (aget rdp_server_uses_standard_security) (\<lambda>standard.
     if \<not> standard then aret input else
     abind (aget (\<lambda>p. pe_standard_security_ready (sp_wire p))) (\<lambda>ready.
     if \<not> ready then afail LIBRDP_STATUS_STATE else
     abind (server_unwrap env True input) (\<lambda>(flags, payload).
     athen (afail_if (flags AND RDP_SEC_ENCRYPT = 0) LIBRDP_STATUS_PROTOCOL_ERROR)
       (aret payload))))"

end
