(* ===== verification/Server_Credssp.thy ===== *)
theory Server_Credssp
  imports Server_Peer
begin

text \<open>
  The server side of CredSSP, \<^verbatim>\<open>src/src/server/server_security.c\<close>: the NTLM challenge and its target
  information, the buffering of one DER message from the TLS stream, the expected credentials, and the
  four handlers of the exchange (negotiate, authenticate, public key, credentials) with the dispatch on
  the stage. The message formats and the cryptography of \<^verbatim>\<open>src/src/nla/credssp.c\<close> are fields of
  \<open>server_env\<close>.
\<close>

section \<open>Comparing accounts and secrets\<close>

definition toupper :: "u8 \<Rightarrow> u8" where
  "toupper c = (if 97 \<le> c \<and> c \<le> 122 then c - 32 else c)"

definition account_char_equal :: "u8 \<Rightarrow> u8 \<Rightarrow> bool" where
  "account_char_equal l r = (if l < 0x80 \<and> r < 0x80 then toupper l = toupper r else l = r)"

text \<open>The loop of \<^verbatim>\<open>rdp_server_account_equal_fold\<close> over the bytes of two C strings.\<close>

fun account_loop :: "u8 list \<Rightarrow> u8 list \<Rightarrow> bool" where
  "account_loop (l # ls) (r # rs) = (if account_char_equal l r then account_loop ls rs else False)"
| "account_loop ls rs \<longleftrightarrow> ls = [] \<and> rs = []"

definition rdp_server_account_equal_fold :: "u8 list option \<Rightarrow> u8 list option \<Rightarrow> bool" where
  "rdp_server_account_equal_fold left right =
     (case (left, right) of
        (Some l, Some r) \<Rightarrow> account_loop (c_string l) (c_string r)
      | _ \<Rightarrow> left = None \<and> right = None)"

text \<open>
  The comparison of secrets. \<open>diff\<close> starts as the low byte of the exclusive or of the two lengths, and
  every position of the longer string is compared, whatever was found before.
\<close>

definition secret_len :: "u8 list option \<Rightarrow> u64" where
  "secret_len t = (case t of None \<Rightarrow> 0 | Some s \<Rightarrow> of_nat (length (c_string s)))"

definition secret_char :: "u8 list option \<Rightarrow> nat \<Rightarrow> u8" where
  "secret_char t i = (if i < unat (secret_len t) then c_string (the t) ! i else 0)"

definition rdp_server_secret_equal :: "u8 list option \<Rightarrow> u8 list option \<Rightarrow> bool" where
  "rdp_server_secret_equal left right =
     (let left_len = secret_len left; right_len = secret_len right;
          max_len = (if left_len > right_len then left_len else right_len)
      in fold (\<lambda>i diff. diff OR (secret_char left i XOR secret_char right i)) [0..<unat max_len]
           (ucast (left_len XOR right_len)) = (0 :: u8))"

section \<open>Expected credentials\<close>

definition RDP_SERVER_MAX_TEXT :: nat where "RDP_SERVER_MAX_TEXT = 512"

definition rdp_server_strdup_bounded :: "u8 list \<Rightarrow> mem \<Rightarrow> u8 list option \<times> mem" where
  "rdp_server_strdup_bounded t m =
     (if length (c_string t) > RDP_SERVER_MAX_TEXT then (None, m)
      else case alloc m of (None, m) \<Rightarrow> (None, m) | (Some _, m) \<Rightarrow> (Some (c_string t), m))"

definition strdup :: "u8 list \<Rightarrow> ('p, u8 list) action" where
  "strdup t = (\<lambda>(p, m). case rdp_server_strdup_bounded t m of
     (None, m) \<Rightarrow> (Inl LIBRDP_STATUS_NO_MEMORY, p, m) | (Some copy, m) \<Rightarrow> (Inr copy, p, m))"

definition on_credssp ::
    "('n server_credssp \<Rightarrow> 'n server_credssp) \<Rightarrow> ('c, 'k, 'n, 'e) server_peer \<Rightarrow> ('c, 'k, 'n, 'e) server_peer" where
  "on_credssp f p = p\<lparr>sp_credssp := f (sp_credssp p)\<rparr>"

definition rdp_server_credssp_expected_clear :: "'n server_credssp \<Rightarrow> 'n server_credssp" where
  "rdp_server_credssp_expected_clear c =
     c\<lparr>np_expected_domain := None, np_expected_username := None, np_expected_password := None\<rparr>"

definition rdp_server_credssp_expected_set ::
    "u8 list option \<Rightarrow> u8 list option \<Rightarrow> u8 list option \<Rightarrow> ('c, 'k, 'n, 'e) server_action" where
  "rdp_server_credssp_expected_set domain username password =
     athen (afail_if (\<not> text_set username \<or> \<not> text_set password) LIBRDP_STATUS_INVALID_ARGUMENT)
     (abind (case domain of None \<Rightarrow> aret None | Some d \<Rightarrow> abind (strdup d) (\<lambda>copy. aret (Some copy))) (\<lambda>domain_copy.
      abind (strdup (the username)) (\<lambda>username_copy.
      abind (strdup (the password)) (\<lambda>password_copy.
      amodify (on_credssp (\<lambda>c. (rdp_server_credssp_expected_clear c)
        \<lparr>np_expected_domain := domain_copy, np_expected_username := Some username_copy,
         np_expected_password := Some password_copy\<rparr>))))))"

definition rdp_server_credssp_utf16_field ::
    "('c, 'k, 'n) server_env \<Rightarrow> u8 list \<Rightarrow> u8 list option result" where
  "rdp_server_credssp_utf16_field env data =
     (if length data mod 2 \<noteq> 0 then protocol_error else env_utf16le_to_utf8_alloc env data)"

definition rdp_server_credssp_resolve_expected_credentials ::
    "('c, 'k, 'n) server_env \<Rightarrow> rdp_ntlm_authenticate \<Rightarrow> u32 \<Rightarrow> ('c, 'k, 'n, 'e) server_action" where
  "rdp_server_credssp_resolve_expected_credentials env authenticate ts_request_version =
     on_error (\<lambda>_ p. p\<lparr>sp_metric_errors := rdp_server_metric_add (sp_metric_errors p) 1\<rparr>)
       (abind (alift (rdp_server_credssp_utf16_field env (na_domain authenticate))) (\<lambda>claimed_domain.
        abind (alift (rdp_server_credssp_utf16_field env (na_username authenticate))) (\<lambda>claimed_username.
        abind (alift (rdp_server_credssp_utf16_field env (na_workstation authenticate))) (\<lambda>claimed_workstation.
        athen (afail_if (\<not> text_set claimed_username) LIBRDP_STATUS_PROTOCOL_ERROR)
        (abind (aget id) (\<lambda>p.
         let cfg = sp_config p in
         if sf_credentials_provider cfg then
           abind (alift (env_credentials_provider env
             \<lparr>rq_domain = claimed_domain, rq_username = claimed_username, rq_workstation = claimed_workstation,
              rq_ts_request_version = ts_request_version, rq_failed_attempts = sp_nla_failed_attempts p,
              rq_public_key_bound = np_public_key_bound (sp_credssp p)\<rparr>)) (\<lambda>credentials.
           athen (afail_if (\<not> text_set (cr_password credentials)) LIBRDP_STATUS_PROTOCOL_ERROR)
             (rdp_server_credssp_expected_set
               (if cr_domain credentials = None then claimed_domain else cr_domain credentials)
               (if cr_username credentials = None then claimed_username else cr_username credentials)
               (cr_password credentials)))
         else if \<not> text_set (sf_nla_username cfg) \<or> \<not> text_set (sf_nla_password cfg)
         then afail LIBRDP_STATUS_UNSUPPORTED
         else rdp_server_credssp_expected_set (sf_nla_domain cfg) (sf_nla_username cfg) (sf_nla_password cfg)))))))"

definition rdp_server_credssp_check_final_credentials ::
    "'n server_credssp \<Rightarrow> rdp_credssp_password_credentials \<Rightarrow> unit result" where
  "rdp_server_credssp_check_final_credentials c credentials =
     (if pc_username credentials = None \<or> pc_password credentials = None \<or>
         np_expected_username c = None \<or> np_expected_password c = None then protocol_error
      else if \<not> rdp_server_account_equal_fold (pc_username credentials) (np_expected_username c) then protocol_error
      else if np_expected_domain c \<noteq> None \<and>
        \<not> rdp_server_account_equal_fold
            (Some (case pc_domain credentials of None \<Rightarrow> [] | Some d \<Rightarrow> d)) (np_expected_domain c)
      then protocol_error
      else if \<not> rdp_server_secret_equal (pc_password credentials) (np_expected_password c) then protocol_error
      else Inr ())"

section \<open>The NTLM challenge\<close>

fun append_utf16le_chars :: "u8 list \<Rightarrow> writer" where
  "append_utf16le_chars [] s = (LIBRDP_STATUS_OK, s)"
| "append_utf16le_chars (c # cs) s =
     (if c \<ge> 0x80 then (LIBRDP_STATUS_UNSUPPORTED, s)
      else case rdp_buffer_append_u16_le (ucast c) s of (status, s) \<Rightarrow>
        if status \<noteq> LIBRDP_STATUS_OK then (status, s) else append_utf16le_chars cs s)"

definition rdp_server_append_utf16le_ascii :: "u8 list \<Rightarrow> writer" where
  "rdp_server_append_utf16le_ascii t = append_utf16le_chars (c_string t)"

definition rdp_server_append_ntlm_av_utf16 :: "u16 \<Rightarrow> u8 list \<Rightarrow> writer" where
  "rdp_server_append_ntlm_av_utf16 av_id t =
     via_local (rdp_server_append_utf16le_ascii t) (\<lambda>v.
       if length v > 0xffff then reject LIBRDP_STATUS_INVALID_ARGUMENT
       else run_writers
         [rdp_buffer_append_u16_le av_id, rdp_buffer_append_u16_le (of_nat (length v)), rdp_buffer_append v])"

definition rdp_server_append_ntlm_av_u64 :: "u16 \<Rightarrow> u64 \<Rightarrow> writer" where
  "rdp_server_append_ntlm_av_u64 av_id v =
     run_writers
       [rdp_buffer_append_u16_le av_id, rdp_buffer_append_u16_le 8,
        rdp_buffer_append (map (\<lambda>i. ucast (drop_bit (i * 8) v AND 0xff)) [0..<8])]"

definition rdp_server_append_ntlm_target_info :: "u64 \<Rightarrow> u8 list \<Rightarrow> writer" where
  "rdp_server_append_ntlm_target_info timestamp target_name =
     run_writers
       ([rdp_server_append_ntlm_av_utf16 1 target_name, rdp_server_append_ntlm_av_utf16 2 target_name,
         rdp_server_append_ntlm_av_utf16 3 target_name, rdp_server_append_ntlm_av_utf16 4 target_name] @
        (if timestamp \<noteq> 0 then [rdp_server_append_ntlm_av_u64 7 timestamp] else []) @
        [rdp_buffer_append_u16_le 0, rdp_buffer_append_u16_le 0])"

definition rdp_credssp_default_ntlm_challenge_flags :: u32 where
  "rdp_credssp_default_ntlm_challenge_flags =
     0x00000001 OR 0x00000004 OR 0x00000010 OR 0x00000020 OR 0x00000200 OR 0x00008000 OR 0x00080000 OR
     0x00800000 OR 0x02000000 OR 0x20000000 OR 0x40000000 OR 0x80000000"

text \<open>The challenge that the peer's fields hold.\<close>

definition current_challenge :: "'n server_credssp \<Rightarrow> rdp_ntlm_challenge" where
  "current_challenge c =
     \<lparr>nt_flags = rdp_credssp_default_ntlm_challenge_flags, nt_server_challenge = np_server_challenge c,
      nt_target_name = contents (np_target_name c), nt_target_info = contents (np_target_info c)\<rparr>"

definition rdp_server_prepare_credssp_challenge ::
    "('c, 'k, 'n) server_env \<Rightarrow> (('c, 'k, 'n, 'e) server_peer, rdp_ntlm_challenge) action" where
  "rdp_server_prepare_credssp_challenge env =
     athen (amodify (on_credssp (\<lambda>c. c\<lparr>np_target_name := (np_target_name c)\<lparr>buf_length := 0\<rparr>,
       np_target_info := (np_target_info c)\<lparr>buf_length := 0\<rparr>\<rparr>)))
     (abind (aget (\<lambda>p. case sf_server_name (sp_config p) of None \<Rightarrow> ascii ''librdp'' | Some n \<Rightarrow> n)) (\<lambda>target_name.
      athen (afill (\<lambda>p. np_target_name (sp_credssp p)) (\<lambda>b. on_credssp (\<lambda>c. c\<lparr>np_target_name := b\<rparr>))
        (rdp_server_append_utf16le_ascii target_name))
      (athen (afill (\<lambda>p. np_target_info (sp_credssp p)) (\<lambda>b. on_credssp (\<lambda>c. c\<lparr>np_target_info := b\<rparr>))
        (rdp_server_append_ntlm_target_info (env_filetime_now env) target_name))
      (case env_rand_bytes env of
         None \<Rightarrow> afail LIBRDP_STATUS_PROTOCOL_ERROR
       | Some challenge \<Rightarrow>
           athen (amodify (on_credssp (\<lambda>c. c\<lparr>np_server_challenge := challenge\<rparr>)))
             (aget (\<lambda>p. current_challenge (sp_credssp p)))))))"

section \<open>Messages\<close>

definition RDP_SERVER_CREDSSP_MESSAGE_MAX :: nat where "RDP_SERVER_CREDSSP_MESSAGE_MAX = 1048576"

text \<open>The big-endian length bytes of a DER header; four of them never reach the guard on the shift.\<close>

definition der_length :: "u8 list \<Rightarrow> nat" where
  "der_length bs = foldl (\<lambda>n b. n * 256 + unat b) 0 bs"

definition rdp_server_credssp_packet_length :: "u8 list \<Rightarrow> nat result" where
  "rdp_server_credssp_packet_length input =
     (if length input < 2 then Inl LIBRDP_STATUS_TIMEOUT
      else if input ! 0 \<noteq> 0x30 then protocol_error
      else
        let length_byte = input ! 1; length_len = unat (length_byte AND 0x7f) in
        ebind
          (if length_byte AND 0x80 = 0 then Inr (2, unat length_byte)
           else if length_len = 0 \<or> length_len > 4 then protocol_error
           else if length input < 2 + length_len then Inl LIBRDP_STATUS_TIMEOUT
           else Inr (2 + length_len, der_length (take length_len (drop 2 input))))
          (\<lambda>(header_len, payload_len).
            if payload_len > RDP_SERVER_CREDSSP_MESSAGE_MAX then Inl LIBRDP_STATUS_LIMIT_EXCEEDED
            else if header_len + payload_len > RDP_SERVER_CREDSSP_MESSAGE_MAX then Inl LIBRDP_STATUS_LIMIT_EXCEEDED
            else if length input \<ge> header_len + payload_len then Inr (header_len + payload_len)
            else Inl LIBRDP_STATUS_TIMEOUT))"

text \<open>One read of the TLS stream into the peer's input buffer.\<close>

definition server_read_chunk :: "('c, 'k, 'n) server_env \<Rightarrow> ('c, 'k, 'n, 'e) server_action" where
  "server_read_chunk env =
     (case recv 2048 (env_segments env) of
        None \<Rightarrow> afail LIBRDP_STATUS_TIMEOUT
      | Some (chunk, _) \<Rightarrow>
          if chunk = [] then afail LIBRDP_STATUS_CLOSED
          else
            athen (amodify (\<lambda>p. p\<lparr>sp_wire := (sp_wire p)\<lparr>pe_bytes_read :=
              rdp_server_metric_add (pe_bytes_read (sp_wire p)) (of_nat (length chunk))\<rparr>\<rparr>))
            (abind (aget (\<lambda>p. buf_length (pe_input (sp_wire p)))) (\<lambda>n.
             athen (afail_if (n + length chunk > RDP_SERVER_CREDSSP_MESSAGE_MAX) LIBRDP_STATUS_LIMIT_EXCEEDED)
               (afill (\<lambda>p. pe_input (sp_wire p)) (\<lambda>b p. p\<lparr>sp_wire := (sp_wire p)\<lparr>pe_input := b\<rparr>\<rparr>)
                 (rdp_buffer_append chunk)))))"

definition rdp_server_read_credssp_ts_request ::
    "('c, 'k, 'n) server_env \<Rightarrow> (('c, 'k, 'n, 'e) server_peer, u8 list) action" where
  "rdp_server_read_credssp_ts_request env =
     abind (aget (\<lambda>p. sp_tls_active p \<and> sp_tls p)) (\<lambda>secure.
     athen (afail_if (\<not> secure) LIBRDP_STATUS_STATE)
     (abind (aget (\<lambda>p. rdp_server_credssp_packet_length (contents (pe_input (sp_wire p))))) (\<lambda>buffered.
      athen (awhen (buffered = Inl LIBRDP_STATUS_TIMEOUT) (server_read_chunk env))
      (abind (aget (\<lambda>p. contents (pe_input (sp_wire p)))) (\<lambda>input.
       abind (alift (rdp_server_credssp_packet_length input)) (\<lambda>n.
       abind (awrite (rdp_buffer_append (take n input))) (\<lambda>packet.
       athen (on_wire (\<lambda>(w, m). case rdp_buffer_consume n (pe_input w) of
         (status, b) \<Rightarrow> (status, w\<lparr>pe_input := b\<rparr>, m)))
       (athen (amodify (\<lambda>p. p\<lparr>sp_wire := (sp_wire p)\<lparr>pe_pdu_in := rdp_server_metric_add (pe_pdu_in (sp_wire p)) 1\<rparr>\<rparr>))
         (aret (contents packet))))))))))"

definition rdp_server_send_credssp_ts_request ::
    "('c, 'k, 'n) server_env \<Rightarrow> u32 \<Rightarrow> u8 list \<Rightarrow> u8 list \<Rightarrow> u8 list \<Rightarrow> ('c, 'k, 'n, 'e) server_action" where
  "rdp_server_send_credssp_ts_request env version nego_token auth_info pub_key_auth =
     abind (awrite (env_write_ts_request env (if version \<noteq> 0 then version else 6) nego_token auth_info pub_key_auth))
       (\<lambda>response. server_send_raw env (contents response))"

fun rdp_credssp_error_code_from_status :: "librdp_status \<Rightarrow> u32" where
  "rdp_credssp_error_code_from_status LIBRDP_STATUS_CREDENTIALS_EXPIRED = 0xc0000071"
| "rdp_credssp_error_code_from_status LIBRDP_STATUS_ACCOUNT_LOCKED = 0xc0000234"
| "rdp_credssp_error_code_from_status _ = 0xc000006d"

text \<open>The rejection never succeeds: its status is the reason, or what went wrong while sending it.\<close>

definition rdp_server_reject_credssp_authentication ::
    "('c, 'k, 'n) server_env \<Rightarrow> u32 \<Rightarrow> librdp_status \<Rightarrow> ('c, 'k, 'n, 'e) server_action" where
  "rdp_server_reject_credssp_authentication env version reason =
     (let status = (if reason \<noteq> LIBRDP_STATUS_CREDENTIALS_EXPIRED \<and> reason \<noteq> LIBRDP_STATUS_ACCOUNT_LOCKED
                    then LIBRDP_STATUS_AUTHENTICATION_FAILED else reason)
      in abind (awrite (env_write_ts_error env (if version \<noteq> 0 then version else 6)
           (rdp_credssp_error_code_from_status status))) (\<lambda>response.
         athen (server_send_raw env (contents response)) (afail status)))"

section \<open>The handlers\<close>

definition rdp_server_credssp_accept_version :: "u32 \<Rightarrow> ('c, 'k, 'n, 'e) server_action" where
  "rdp_server_credssp_accept_version version =
     athen (afail_if (version \<noteq> 6) LIBRDP_STATUS_PROTOCOL_ERROR)
     (athen (amodify (on_credssp (\<lambda>c.
        if np_ts_request_version c = 0 then c\<lparr>np_ts_request_version := ucast version\<rparr> else c)))
     (abind (aget (\<lambda>p. np_ts_request_version (sp_credssp p))) (\<lambda>v.
      afail_if (ucast v \<noteq> version) LIBRDP_STATUS_PROTOCOL_ERROR)))"

definition rdp_server_credssp_accept_client_nonce ::
    "rdp_credssp_ts_request \<Rightarrow> bool \<Rightarrow> ('c, 'k, 'n, 'e) server_action" where
  "rdp_server_credssp_accept_client_nonce request required =
     (if ts_client_nonce request = [] then afail_if required LIBRDP_STATUS_PROTOCOL_ERROR
      else if length (ts_client_nonce request) \<noteq> 32 then afail LIBRDP_STATUS_PROTOCOL_ERROR
      else
        abind (aget sp_credssp) (\<lambda>c.
        if np_client_nonce_ready c
        then afail_if (np_client_nonce c \<noteq> ts_client_nonce request) LIBRDP_STATUS_PROTOCOL_ERROR
        else amodify (on_credssp (\<lambda>c.
          c\<lparr>np_client_nonce := ts_client_nonce request, np_client_nonce_ready := True\<rparr>))))"

text \<open>A function of the sealing context; the context it leaves is kept in every case.\<close>

definition on_security :: "('n \<Rightarrow> 'a result \<times> 'n) \<Rightarrow> (('c, 'k, 'n, 'e) server_peer, 'a) action" where
  "on_security f = (\<lambda>(p, m). case f (np_security (sp_credssp p)) of
     (r, n) \<Rightarrow> (r, on_credssp (\<lambda>c. c\<lparr>np_security := n\<rparr>) p, m))"

definition with_status :: "('n \<Rightarrow> librdp_status \<times> 'n) \<Rightarrow> 'n \<Rightarrow> unit result \<times> 'n" where
  "with_status f n = (case f n of (status, n) \<Rightarrow> (if status = LIBRDP_STATUS_OK then Inr () else Inl status, n))"

definition rdp_server_tls_public_key ::
    "('c, 'k, 'n) server_env \<Rightarrow> (('c, 'k, 'n, 'e) server_peer, u8 list) action" where
  "rdp_server_tls_public_key env =
     abind (aget sp_tls) (\<lambda>tls.
     if \<not> tls then afail LIBRDP_STATUS_INVALID_ARGUMENT else alift (env_tls_public_key env))"

text \<open>The next message, parsed, with the version accepted.\<close>

definition credssp_request ::
    "('c, 'k, 'n) server_env \<Rightarrow> (('c, 'k, 'n, 'e) server_peer, rdp_credssp_ts_request) action" where
  "credssp_request env =
     abind (rdp_server_read_credssp_ts_request env) (\<lambda>packet.
     abind (alift (env_parse_ts_request env packet)) (\<lambda>request.
     athen (rdp_server_credssp_accept_version (ts_version request)) (aret request)))"

text \<open>A failed attempt is counted and the expected credentials are dropped; waiting is not a failure.\<close>

definition credssp_failed ::
    "librdp_status \<Rightarrow> ('c, 'k, 'n, 'e) server_peer \<Rightarrow> ('c, 'k, 'n, 'e) server_peer" where
  "credssp_failed e p =
     (if e = LIBRDP_STATUS_TIMEOUT \<or> e = LIBRDP_STATUS_AGAIN then p
      else on_credssp rdp_server_credssp_expected_clear
        (p\<lparr>sp_nla_failed_attempts := sp_nla_failed_attempts p + 1\<rparr>))"

definition rdp_server_handle_credssp_negotiate ::
    "('c, 'k, 'n) server_env \<Rightarrow> ('c, 'k, 'n, 'e) server_action" where
  "rdp_server_handle_credssp_negotiate env =
     abind (credssp_request env) (\<lambda>request.
     athen (rdp_server_credssp_accept_client_nonce request False)
     (abind (alift (env_extract_ntlm_message env (ts_nego_token request) 1)) (\<lambda>ntlm.
      abind (alift (env_parse_ntlm_negotiate env ntlm)) (\<lambda>negotiate_flags.
      abind (rdp_server_prepare_credssp_challenge env) (\<lambda>challenge.
      abind (awrite (env_write_ntlm_challenge env challenge)) (\<lambda>ntlm_challenge.
      athen (rdp_server_send_credssp_ts_request env (ts_version request) (contents ntlm_challenge) [] [])
        (amodify (on_credssp (\<lambda>c. c\<lparr>np_stage := 1\<rparr>)))))))))"

text \<open>Verifying the client's public-key hash and answering with the server's.\<close>

definition credssp_bind_public_key ::
    "('c, 'k, 'n) server_env \<Rightarrow> rdp_credssp_ts_request \<Rightarrow> ('c, 'k, 'n, 'e) server_action" where
  "credssp_bind_public_key env request =
     abind (rdp_server_tls_public_key env) (\<lambda>public_key.
     abind (aget (\<lambda>p. np_client_nonce (sp_credssp p))) (\<lambda>nonce.
     athen (on_security (with_status
       (env_verify_client_public_key_hash env nonce public_key (ts_pub_key_auth request))))
     (abind (on_security (env_encrypt_server_public_key_hash env nonce public_key)) (\<lambda>pub_key_auth.
      athen (rdp_server_send_credssp_ts_request env (ts_version request) [] [] pub_key_auth)
        (amodify (on_credssp (\<lambda>c. c\<lparr>np_public_key_bound := True, np_stage := 3\<rparr>)))))))"

definition rdp_server_handle_credssp_authenticate ::
    "('c, 'k, 'n) server_env \<Rightarrow> ('c, 'k, 'n, 'e) server_action" where
  "rdp_server_handle_credssp_authenticate env =
     on_error credssp_failed
       (abind (credssp_request env) (\<lambda>request.
        athen (rdp_server_credssp_accept_client_nonce request (ts_pub_key_auth request \<noteq> []))
        (abind (alift (env_extract_ntlm_message env (ts_nego_token request) 3)) (\<lambda>ntlm.
         abind (alift (env_parse_ntlm_authenticate env ntlm)) (\<lambda>authenticate.
         athen (acatch (rdp_server_credssp_resolve_expected_credentials env authenticate (ts_version request))
           (rdp_server_reject_credssp_authentication env (ts_version request)))
         (abind (aget sp_credssp) (\<lambda>c.
          abind (acatch (alift (env_verify_ntlm_authenticate env ntlm (current_challenge c)
                   (the (np_expected_username c)) (the (np_expected_password c))))
            (\<lambda>e. if e = LIBRDP_STATUS_PROTOCOL_ERROR
                 then athen (rdp_server_reject_credssp_authentication env (ts_version request)
                        LIBRDP_STATUS_AUTHENTICATION_FAILED) (afail LIBRDP_STATUS_AUTHENTICATION_FAILED)
                 else afail e)) (\<lambda>result.
          athen (on_security (with_status (env_ntlm_server_security_init env result)))
          (athen (amodify (on_credssp (\<lambda>c. c\<lparr>np_security_ready := True\<rparr>)))
          (if ts_pub_key_auth request \<noteq> [] then credssp_bind_public_key env request
           else amodify (on_credssp (\<lambda>c. c\<lparr>np_stage := 2\<rparr>))))))))))))"

definition rdp_server_handle_credssp_pubkey ::
    "('c, 'k, 'n) server_env \<Rightarrow> ('c, 'k, 'n, 'e) server_action" where
  "rdp_server_handle_credssp_pubkey env =
     on_error credssp_failed
       (abind (credssp_request env) (\<lambda>request.
        athen (rdp_server_credssp_accept_client_nonce request True)
        (abind (aget (\<lambda>p. np_security_ready (sp_credssp p))) (\<lambda>ready.
         athen (afail_if (\<not> ready) LIBRDP_STATUS_STATE)
           (credssp_bind_public_key env request)))))"

definition rdp_server_handle_credssp_credentials ::
    "('c, 'k, 'n) server_env \<Rightarrow> ('c, 'k, 'n, 'e) server_action" where
  "rdp_server_handle_credssp_credentials env =
     on_error credssp_failed
       (abind (credssp_request env) (\<lambda>request.
        abind (aget sp_credssp) (\<lambda>c.
        athen (afail_if (\<not> np_security_ready c) LIBRDP_STATUS_STATE)
        (athen (afail_if (\<not> np_public_key_bound c) LIBRDP_STATUS_PROTOCOL_ERROR)
        (abind (on_security (env_decrypt_password_credentials env (ts_auth_info request))) (\<lambda>credentials.
         abind (aget sp_credssp) (\<lambda>c.
         athen (alift (rdp_server_credssp_check_final_credentials c credentials))
           (amodify (\<lambda>p. on_credssp rdp_server_credssp_expected_clear
             (rdp_server_set_state LIBRDP_SERVER_PEER_X224_CONFIRMED
               (on_credssp (\<lambda>c. c\<lparr>np_stage := 4\<rparr>) (p\<lparr>sp_nla_authenticated := True\<rparr>))))))))))))"

definition rdp_server_handle_credssp :: "('c, 'k, 'n) server_env \<Rightarrow> ('c, 'k, 'n, 'e) server_action" where
  "rdp_server_handle_credssp env =
     abind (aget id) (\<lambda>p.
     let stage = np_stage (sp_credssp p) in
     if \<not> rdp_server_nla_material_available (sp_config p) then afail LIBRDP_STATUS_UNSUPPORTED
     else if stage = 0 then rdp_server_handle_credssp_negotiate env
     else if stage = 1 then rdp_server_handle_credssp_authenticate env
     else if stage = 2 then rdp_server_handle_credssp_pubkey env
     else if stage = 3 then rdp_server_handle_credssp_credentials env
     else afail LIBRDP_STATUS_STATE)"

section \<open>What the comparisons decide\<close>

text \<open>A missing string compares as the empty one.\<close>

definition secret_text :: "u8 list option \<Rightarrow> u8 list" where
  "secret_text t = (case t of None \<Rightarrow> [] | Some s \<Rightarrow> c_string s)"

lemma c_string_no_nul: "0 \<notin> set (c_string s)"
  unfolding c_string_def by (metis set_takeWhileD)

lemma secret_nul: "0 \<notin> set (secret_text t)"
  by (simp add: secret_text_def c_string_no_nul split: option.split)

lemma secret_reads:
  assumes "length (secret_text t) < 2 ^ 64"
  shows "unat (secret_len t) = length (secret_text t)"
    "secret_char t i = (if i < length (secret_text t) then secret_text t ! i else 0)"
proof -
  show *: "unat (secret_len t) = length (secret_text t)"
    using assms by (cases t) (auto simp: secret_len_def secret_text_def unat_of_nat)
  show "secret_char t i = (if i < length (secret_text t) then secret_text t ! i else 0)"
    unfolding secret_char_def * by (cases t) (auto simp: secret_text_def)
qed

lemma xor_zero: "(a :: u8) XOR b = 0 \<longleftrightarrow> a = b"
  by (metis xor.assoc xor.left_neutral xor_self_eq)

lemma fold_or_zero: "fold (\<lambda>i diff. diff OR f i) is (d :: u8) = 0 \<longleftrightarrow> d = 0 \<and> (\<forall>i \<in> set is. f i = 0)"
  by (induction "is" arbitrary: d) (auto simp: or_eq_0_iff)

text \<open>Texts without a terminator inside, padded with zeroes, agree at every position only if they are equal.\<close>

lemma padded_eq:
  assumes "0 \<notin> set xs" "0 \<notin> set ys" "length xs \<le> n" "length ys \<le> n"
    and eq: "\<And>i. i < n \<Longrightarrow> (if i < length xs then xs ! i else 0) = (if i < length ys then ys ! i else (0 :: u8))"
  shows "xs = ys"
proof -
  have "\<not> length xs < length ys"
    using eq [of "length xs"] assms(2,4) nth_mem [of "length xs" ys] by (cases "length xs < length ys") auto
  moreover have "\<not> length ys < length xs"
    using eq [of "length ys"] assms(1,3) nth_mem [of "length ys" xs] by (cases "length ys < length xs") auto
  ultimately have "length xs = length ys" by simp
  moreover have "xs ! i = ys ! i" if "i < length xs" for i using eq [of i] that assms(3) calculation by simp
  ultimately show ?thesis by (intro nth_equalityI)
qed

text \<open>
  Comparing secrets. The comparison visits every position of the longer text whatever it has found, and its
  accumulator starts with only the low byte of the exclusive or of the two lengths, which is zero for lengths that
  are equal modulo 256. It nevertheless decides exactly whether the two texts are the same: texts of different
  length differ at the terminator of the shorter one. A missing text is the empty one.
\<close>

lemma secret_equal_decides:
  assumes "length (secret_text l) < 2 ^ 64" "length (secret_text r) < 2 ^ 64"
  shows "rdp_server_secret_equal l r \<longleftrightarrow> secret_text l = secret_text r"
proof
  note reads = secret_reads [OF assms(1)] secret_reads [OF assms(2)]
  let ?n = "max (length (secret_text l)) (length (secret_text r))"
  have n: "unat (if secret_len l > secret_len r then secret_len l else secret_len r) = ?n"
    using reads by (simp add: word_less_nat_alt max_def)
  have fold: "rdp_server_secret_equal l r \<longleftrightarrow>
      (ucast (secret_len l XOR secret_len r) :: u8) = 0 \<and> (\<forall>i < ?n. secret_char l i = secret_char r i)"
    unfolding rdp_server_secret_equal_def Let_def n fold_or_zero by (auto simp: xor_zero)
  show "secret_text l = secret_text r" if "rdp_server_secret_equal l r"
    by (rule padded_eq [OF secret_nul secret_nul, of _ ?n]) (use that fold reads in auto)
  show "rdp_server_secret_equal l r" if eq: "secret_text l = secret_text r"
  proof -
    have "secret_len l = secret_len r" using reads eq by (simp add: word_unat_eqI)
    then show ?thesis using fold reads eq by simp
  qed
qed

end
