(* ===== verification/Server_Protocol.thy ===== *)
theory Server_Protocol
  imports Server_Peer
begin

text \<open>
  The server's handlers after security negotiation, \<^verbatim>\<open>src/src/server/server_protocol.c\<close>: MCS connect,
  domain, user and channel joins, licensing, client info, activation and the runtime dispatch, with the
  refresh, repaint and resize paths of \<^verbatim>\<open>server/server_graphics.c\<close> that take part in it.

  \<open>server_hooks\<close> are the entry points of feature modules that the handlers call: resetting the feature
  state, the surface, auto-detection, static channel messages, dynamic channels and device redirection.
\<close>

section \<open>Hooks\<close>

type_synonym ('c, 'k, 'n, 'e) server_hook =
  "('c, 'k, 'n, 'e) server_peer \<times> mem \<Rightarrow> librdp_status \<times> ('c, 'k, 'n, 'e) server_peer \<times> mem"

record ('c, 'k, 'n, 'e) server_hooks =
  hk_reset :: "bool \<Rightarrow> 'e \<Rightarrow> 'e"
  hk_channel_opened :: "u16 \<Rightarrow> u8 list \<Rightarrow> 'e \<Rightarrow> 'e"
  hk_surface_set_dimensions :: "u32 \<Rightarrow> u32 \<Rightarrow> ('c, 'k, 'n, 'e) server_hook"
  hk_surface_present_rect :: "u32 \<Rightarrow> u32 \<Rightarrow> u32 \<Rightarrow> u32 \<Rightarrow> ('c, 'k, 'n, 'e) server_hook"
  hk_autodetect_handle :: "u8 list \<Rightarrow> ('c, 'k, 'n, 'e) server_hook"
  hk_static_channel_message :: "nat \<Rightarrow> u16 \<Rightarrow> u8 list \<Rightarrow> ('c, 'k, 'n, 'e) server_hook"
  hk_dynamic_channels_start :: "('c, 'k, 'n, 'e) server_hook"
  hk_device_redirection_start :: "('c, 'k, 'n, 'e) server_hook"
  hk_autodetect_start :: "('c, 'k, 'n, 'e) server_hook"

abbreviation close_on_error :: "('c, 'k, 'n, 'e) server_action \<Rightarrow> ('c, 'k, 'n, 'e) server_action" where
  "close_on_error \<equiv> on_error (\<lambda>_. rdp_server_close_peer LIBRDP_SERVER_PEER_FAILED)"

section \<open>MCS connect\<close>

definition RDP_SERVER_MIN_DESKTOP_SIZE :: u16 where "RDP_SERVER_MIN_DESKTOP_SIZE = 200"
definition RDP_SERVER_MAX_DESKTOP_SIZE :: u16 where "RDP_SERVER_MAX_DESKTOP_SIZE = 8192"

definition LIBRDP_FEATURE_MULTITRANSPORT :: u32 where "LIBRDP_FEATURE_MULTITRANSPORT = 0x1000"
definition LIBRDP_FEATURE_UDP_TRANSPORT :: u32 where "LIBRDP_FEATURE_UDP_TRANSPORT = 0x8000"
definition LIBRDP_FEATURE_UDP2_TRANSPORT :: u32 where "LIBRDP_FEATURE_UDP2_TRANSPORT = 0x10000"
definition RDP_GCC_MULTITRANSPORT_SOFTSYNC_TCP_TO_UDP :: u32 where
  "RDP_GCC_MULTITRANSPORT_SOFTSYNC_TCP_TO_UDP = 0x200"
definition RDP_SERVER_STANDARD_ENCRYPTION_LEVEL :: u32 where "RDP_SERVER_STANDARD_ENCRYPTION_LEVEL = 3"

text \<open>The desktop size the client asks for, within the bounds of the server.\<close>

definition connect_desktop ::
    "('c, 'k, 'n, 'e) server_hooks \<Rightarrow> rdp_gcc_client_data_summary \<Rightarrow> ('c, 'k, 'n, 'e) server_action" where
  "connect_desktop hooks cd =
     abind (aget id) (\<lambda>p.
     let w = (if cs_desktop_width cd \<noteq> 0 then cs_desktop_width cd else sp_width p);
         h = (if cs_desktop_height cd \<noteq> 0 then cs_desktop_height cd else sp_height p)
     in if w < RDP_SERVER_MIN_DESKTOP_SIZE \<or> h < RDP_SERVER_MIN_DESKTOP_SIZE
        then afail LIBRDP_STATUS_PROTOCOL_ERROR
        else if w > RDP_SERVER_MAX_DESKTOP_SIZE \<or> h > RDP_SERVER_MAX_DESKTOP_SIZE
        then afail LIBRDP_STATUS_LIMIT_EXCEEDED
        else awhen (w \<noteq> sp_width p \<or> h \<noteq> sp_height p)
          (if sp_framebuffer p then acall (hk_surface_set_dimensions hooks (ucast w) (ucast h))
           else amodify (\<lambda>p. p\<lparr>sp_width := w, sp_height := h\<rparr>)))"

definition is_drdynvc :: "rdp_gcc_channel_definition \<Rightarrow> bool" where
  "is_drdynvc c \<longleftrightarrow> take 7 (cd_name c) = ascii ''drdynvc'' \<and> cd_name c ! 7 = 0"

definition connect_multitransport_flags :: "server_config \<Rightarrow> rdp_gcc_client_data_summary \<Rightarrow> u32 option" where
  "connect_multitransport_flags cfg cd =
     (let flags = cs_multitransport_flags cd AND RDP_GCC_MULTITRANSPORT_SERVER_KNOWN_FLAGS;
          features = sf_requested_features cfg
      in if cs_has_multitransport cd \<and> features AND LIBRDP_FEATURE_MULTITRANSPORT \<noteq> 0 \<and>
            features AND (LIBRDP_FEATURE_UDP_TRANSPORT OR LIBRDP_FEATURE_UDP2_TRANSPORT) \<noteq> 0 \<and>
            flags AND (RDP_GCC_MULTITRANSPORT_UDP_FECR OR RDP_GCC_MULTITRANSPORT_UDP_FECL) \<noteq> 0
         then Some (flags OR RDP_GCC_MULTITRANSPORT_SOFTSYNC_TCP_TO_UDP) else None)"

text \<open>The client's channels replace what an earlier connect left.\<close>

definition connect_channels ::
    "('c, 'k, 'n, 'e) server_hooks \<Rightarrow> rdp_gcc_client_data_summary \<Rightarrow>
     ('c, 'k, 'n, 'e) server_peer \<Rightarrow> ('c, 'k, 'n, 'e) server_peer" where
  "connect_channels hooks cd p =
     (let n = unat (cs_channel_count cd);
          dynamic = filter (\<lambda>i. is_drdynvc (cs_channels cd ! i)) [0..<n];
          transport = connect_multitransport_flags (sp_config p) cd
      in p\<lparr>sp_features := hk_reset hooks (pe_advertised_channel_joined (sp_wire p) \<noteq> []) (sp_features p),
           sp_wire := (sp_wire p)\<lparr>pe_advertised_channel_joined := replicate n False\<rparr>,
           sp_joined_channel_count := 0,
           sp_message_channel_joined := False,
           sp_advertised_channels := take n (cs_channels cd),
           sp_advertised_channel_ids := map (\<lambda>i. RDP_MCS_GLOBAL_CHANNEL_ID + 1 + of_nat i) [0..<n],
           sp_dynamic_channel_static_index :=
             (if dynamic = [] then sp_dynamic_channel_static_index p else of_nat (last dynamic)),
           sp_message_channel_id :=
             (if cs_has_message_channel cd then RDP_MCS_GLOBAL_CHANNEL_ID + 1 + cs_channel_count cd else 0),
           sp_message_channel_flags := (if cs_has_message_channel cd then cs_message_channel_flags cd else 0),
           sp_multitransport_negotiated := (if transport = None then sp_multitransport_negotiated p else True),
           sp_multitransport_flags := (case transport of None \<Rightarrow> sp_multitransport_flags p | Some f \<Rightarrow> f)\<rparr>)"

definition connect_config ::
    "rdp_gcc_client_data_summary \<Rightarrow> ('c, 'k, 'n, 'e) server_peer \<Rightarrow> rdp_gcc_server_config" where
  "connect_config cd p =
     (let standard = rdp_server_uses_standard_security p;
          transport = connect_multitransport_flags (sp_config p) cd
      in \<lparr>sc_version = (if cs_version cd \<noteq> 0 then cs_version cd else RDP_GCC_CLIENT_VERSION_5),
          sc_requested_protocols = sp_requested_protocols p,
          sc_early_capability_flags = 0,
          sc_encryption_method = (if standard then RDP_SECURITY_METHOD_128BIT else 0),
          sc_encryption_level = (if standard then RDP_SERVER_STANDARD_ENCRYPTION_LEVEL else 0),
          sc_server_random = (if standard then sp_standard_server_random p else []),
          sc_server_certificate = (if standard then contents (sp_standard_certificate p) else []),
          sc_mcs_channel_id = RDP_MCS_GLOBAL_CHANNEL_ID,
          sc_channel_count = cs_channel_count cd,
          sc_enable_message_channel = cs_has_message_channel cd,
          sc_message_channel_id = (if cs_has_message_channel cd then sp_message_channel_id p else 0),
          sc_enable_multitransport = (transport \<noteq> None),
          sc_multitransport_flags = (case transport of None \<Rightarrow> 0 | Some f \<Rightarrow> f)\<rparr>)"

definition rdp_server_handle_mcs_connect_initial ::
    "('c, 'k, 'n) server_env \<Rightarrow> ('c, 'k, 'n, 'e) server_hooks \<Rightarrow> rdp_tpkt \<Rightarrow> ('c, 'k, 'n, 'e) server_action" where
  "rdp_server_handle_mcs_connect_initial env hooks packet =
     close_on_error
       (abind (alift (rdp_x224_parse_data (tpkt_payload packet))) (\<lambda>x224_data.
        abind (alift (rdp_mcs_parse_connect_initial x224_data)) (\<lambda>mcs_initial.
        abind (alift (rdp_gcc_parse_conference_create_request (init_user_data mcs_initial))) (\<lambda>gcc_request.
        abind (alift (rdp_gcc_parse_client_data_blocks (cq_user_data gcc_request))) (\<lambda>cd.
        athen (afail_if (\<not> cs_has_core cd \<or> \<not> cs_has_security cd \<or> \<not> cs_has_network cd) LIBRDP_STATUS_PROTOCOL_ERROR)
        (athen (amodify (\<lambda>p.
          p\<lparr>sp_client_cluster_flags := (if cs_has_cluster cd then cs_cluster_flags cd else 0),
            sp_redirected_session_id := (if cs_has_cluster cd then cs_redirected_session_id cd else 0)\<rparr>))
        (athen (connect_desktop hooks cd)
        (athen (amodify (connect_channels hooks cd))
        (athen (rdp_server_prepare_standard_security env)
        (abind (aget (connect_config cd)) (\<lambda>config.
         abind (awrite (rdp_gcc_write_server_data_blocks config)) (\<lambda>server_blocks.
         abind (awrite (rdp_gcc_write_conference_create_response (contents server_blocks))) (\<lambda>gcc_response.
         abind (awrite (rdp_mcs_write_connect_response (contents gcc_response))) (\<lambda>mcs_response.
         athen (server_send_mcs env mcs_response)
           (amodify (rdp_server_set_state LIBRDP_SERVER_PEER_MCS_CONNECTED))))))))))))))))"

definition rdp_server_handle_erect_domain :: "rdp_tpkt \<Rightarrow> ('c, 'k, 'n, 'e) server_action" where
  "rdp_server_handle_erect_domain packet =
     close_on_error
       (abind (alift (rdp_x224_parse_data (tpkt_payload packet))) (\<lambda>data.
        athen (alift (rdp_mcs_parse_erect_domain_request data))
          (amodify (rdp_server_set_state LIBRDP_SERVER_PEER_DOMAIN_READY))))"

definition rdp_server_handle_attach_user ::
    "('c, 'k, 'n) server_env \<Rightarrow> rdp_tpkt \<Rightarrow> ('c, 'k, 'n, 'e) server_action" where
  "rdp_server_handle_attach_user env packet =
     close_on_error
       (abind (alift (rdp_x224_parse_data (tpkt_payload packet))) (\<lambda>data.
        athen (alift (rdp_mcs_parse_attach_user_request data))
        (abind (aget (\<lambda>p. pe_user_id (sp_wire p))) (\<lambda>user_id.
         abind (awrite (rdp_mcs_write_attach_user_confirm user_id)) (\<lambda>confirm.
         athen (server_send_mcs env confirm)
           (amodify (rdp_server_set_state LIBRDP_SERVER_PEER_USER_ATTACHED)))))))"

section \<open>Channel joins, licensing and client info\<close>

definition RDP_MCS_SERVER_CHANNEL_ID :: u16 where "RDP_MCS_SERVER_CHANNEL_ID = 1002"

definition rdp_server_send_demand_active :: "('c, 'k, 'n) server_env \<Rightarrow> ('c, 'k, 'n, 'e) server_action" where
  "rdp_server_send_demand_active env =
     abind (aget id) (\<lambda>p.
     abind (awrite (rdp_slowpath_write_demand_active (sp_share_id p) RDP_MCS_SERVER_CHANNEL_ID (sp_width p) (sp_height p)
       (case sf_server_name (sp_config p) of None \<Rightarrow> ascii ''librdp-server'' | Some n \<Rightarrow> n))) (\<lambda>demand.
     athen (server_send_slowpath env demand)
       (amodify (rdp_server_set_state LIBRDP_SERVER_PEER_ACTIVATING))))"

definition rdp_server_send_deactivate_all :: "('c, 'k, 'n) server_env \<Rightarrow> ('c, 'k, 'n, 'e) server_action" where
  "rdp_server_send_deactivate_all env =
     abind (aget sp_share_id) (\<lambda>share_id.
     athen (afail_if (share_id = 0) LIBRDP_STATUS_INVALID_ARGUMENT)
     (abind (awrite (rdp_slowpath_write_deactivate_all share_id RDP_MCS_SERVER_CHANNEL_ID)) (\<lambda>deactivate.
      server_send_slowpath env deactivate)))"

definition rdp_server_send_valid_client_license ::
    "('c, 'k, 'n) server_env \<Rightarrow> ('c, 'k, 'n, 'e) server_action" where
  "rdp_server_send_valid_client_license env =
     abind (awrite (rdp_license_write_error_alert RDP_LICENSE_VERSION_3 RDP_LICENSE_ERROR_STATUS_VALID_CLIENT
       RDP_LICENSE_STATE_TRANSITION_NO_TRANSITION RDP_LICENSE_BLOB_ERROR [])) (\<lambda>license.
     abind (awrite (run_writers
       [rdp_security_write_header (RDP_SEC_LICENSE_PKT OR RDP_SEC_LICENSE_ENCRYPT_SC),
        rdp_buffer_append (contents license)])) (\<lambda>security_payload.
     abind (aget (\<lambda>p. pe_user_id (sp_wire p))) (\<lambda>user_id.
     abind (awrite (rdp_mcs_write_send_data_indication user_id RDP_MCS_GLOBAL_CHANNEL_ID
       (contents security_payload))) (\<lambda>mcs.
     athen (server_send_mcs env mcs)
       (amodify (\<lambda>p. rdp_server_set_state LIBRDP_SERVER_PEER_LICENSING (p\<lparr>sp_licensing_done := True\<rparr>)))))))"

definition rdp_server_channel_allowed :: "('c, 'k, 'n, 'e) server_peer \<Rightarrow> u16 \<Rightarrow> bool" where
  "rdp_server_channel_allowed p channel_id =
     (let first_static = RDP_MCS_GLOBAL_CHANNEL_ID + 1;
          last_static = first_static + of_nat (length (pe_advertised_channel_joined (sp_wire p)))
      in channel_id = pe_user_id (sp_wire p) \<or> channel_id = RDP_MCS_GLOBAL_CHANNEL_ID \<or>
         sp_message_channel_id p \<noteq> 0 \<and> channel_id = sp_message_channel_id p \<or>
         first_static \<le> channel_id \<and> channel_id < last_static)"

definition rdp_server_channel_name_len :: "u8 list \<Rightarrow> nat" where
  "rdp_server_channel_name_len name = length (c_string (take 8 name))"

definition rdp_server_copy_channel_name :: "u8 list \<Rightarrow> u8 list" where
  "rdp_server_copy_channel_name name = take (rdp_server_channel_name_len name) name"

text \<open>A confirmed join: the channel is marked and counted.\<close>

definition join_channel ::
    "('c, 'k, 'n, 'e) server_hooks \<Rightarrow> u16 \<Rightarrow> ('c, 'k, 'n, 'e) server_peer \<Rightarrow> ('c, 'k, 'n, 'e) server_peer" where
  "join_channel hooks channel_id p =
     (let p = (case rdp_server_static_channel_index (sp_wire p) channel_id of
            Some i \<Rightarrow>
              p\<lparr>sp_wire := (sp_wire p)\<lparr>pe_advertised_channel_joined := (pe_advertised_channel_joined (sp_wire p))[i := True]\<rparr>,
                sp_features := hk_channel_opened hooks channel_id
                  (rdp_server_copy_channel_name (cd_name (sp_advertised_channels p ! i))) (sp_features p)\<rparr>
          | None \<Rightarrow> if channel_id = sp_message_channel_id p then p\<lparr>sp_message_channel_joined := True\<rparr> else p)
      in p\<lparr>sp_joined_channel_count := sp_joined_channel_count p + 1\<rparr>)"

definition required_joins :: "('c, 'k, 'n, 'e) server_peer \<Rightarrow> u16" where
  "required_joins p =
     of_nat (length (pe_advertised_channel_joined (sp_wire p))) + 2 + (if sp_message_channel_id p \<noteq> 0 then 1 else 0)"

definition rdp_server_handle_channel_join ::
    "('c, 'k, 'n) server_env \<Rightarrow> ('c, 'k, 'n, 'e) server_hooks \<Rightarrow> rdp_tpkt \<Rightarrow> ('c, 'k, 'n, 'e) server_action" where
  "rdp_server_handle_channel_join env hooks packet =
     abind
       (on_error (\<lambda>_. rdp_server_close_peer LIBRDP_SERVER_PEER_FAILED)
         (abind (alift (rdp_x224_parse_data (tpkt_payload packet))) (\<lambda>data.
          abind (alift (rdp_mcs_parse_channel_join_request data)) (\<lambda>request.
          abind (aget id) (\<lambda>p.
          athen (afail_if (cjr_initiator request \<noteq> pe_user_id (sp_wire p) \<or>
              \<not> rdp_server_channel_allowed p (cjr_channel_id request)) LIBRDP_STATUS_PROTOCOL_ERROR)
          (abind (awrite (rdp_mcs_write_channel_join_confirm (pe_user_id (sp_wire p)) (cjr_channel_id request))) (\<lambda>confirm.
           athen (server_send_mcs env confirm) (aret request))))))))
       (\<lambda>request.
        athen (amodify (join_channel hooks (cjr_channel_id request)))
        (abind (aget (\<lambda>p. sp_joined_channel_count p \<ge> required_joins p)) (\<lambda>complete.
         if complete then rdp_server_send_valid_client_license env
         else amodify (rdp_server_set_state LIBRDP_SERVER_PEER_CHANNEL_JOINING))))"

definition rdp_server_handle_client_info ::
    "('c, 'k, 'n) server_env \<Rightarrow> rdp_tpkt \<Rightarrow> ('c, 'k, 'n, 'e) server_action" where
  "rdp_server_handle_client_info env packet =
     close_on_error
       (abind (alift (rdp_x224_parse_data (tpkt_payload packet))) (\<lambda>data.
        abind (alift (rdp_mcs_parse_send_data_request data)) (\<lambda>request.
        abind (aget id) (\<lambda>p.
        let exchange = rdp_server_security_payload_has_flag (sdi_payload request) RDP_SEC_EXCHANGE_PKT in
        athen (afail_if (sdi_initiator request \<noteq> pe_user_id (sp_wire p) \<or>
            sdi_channel_id request \<noteq> RDP_MCS_GLOBAL_CHANNEL_ID) LIBRDP_STATUS_PROTOCOL_ERROR)
        (athen
          (if \<not> pe_standard_security_ready (sp_wire p) \<and> exchange
           then rdp_server_handle_security_exchange env (sdi_payload request)
           else abind (rdp_server_parse_client_info_security_payload env (sdi_payload request)) (\<lambda>_. aret ()))
        (if \<not> sp_client_info_seen p \<and> exchange then aret ()
         else
           athen (amodify (\<lambda>p. p\<lparr>sp_client_info_seen := True\<rparr>))
             (rdp_server_send_demand_active env)))))))"

section \<open>Input, refresh and output suppression\<close>

definition rdp_server_emit_input :: "librdp_server_input_event \<Rightarrow> ('c, 'k, 'n, 'e) server_action" where
  "rdp_server_emit_input event = amodify (\<lambda>p.
     p\<lparr>sp_metric_input_events := rdp_server_metric_add (sp_metric_input_events p) 1,
       sp_input_log := sp_input_log p @ [event]\<rparr>)"

definition input_event :: "librdp_server_input_type \<Rightarrow> librdp_server_input_event" where
  "input_event type = \<lparr>ie_type = type, ie_event_time = 0, ie_flags = 0, ie_param1 = 0, ie_param2 = 0,
     ie_x = 0, ie_y = 0, ie_width = 0, ie_height = 0, ie_control_action = 0\<rparr>"

definition parse_input_event :: "rdp_stream \<Rightarrow> (librdp_server_input_event \<times> rdp_stream) result" where
  "parse_input_event stream =
     pbind (rdp_stream_read_u32_le stream) (\<lambda>(event_time, stream).
     pbind (rdp_stream_read_u16_le stream) (\<lambda>(message_type, stream).
     pbind (rdp_stream_read_u16_le stream) (\<lambda>(flags, stream).
     pbind (rdp_stream_read_u16_le stream) (\<lambda>(param1, stream).
     pbind (rdp_stream_read_u16_le stream) (\<lambda>(param2, stream).
     let event = \<lambda>type. (input_event type)\<lparr>ie_event_time := event_time, ie_flags := flags,
           ie_param1 := param1, ie_param2 := param2\<rparr>
     in if message_type = 0x0000 then Inr (event LIBRDP_SERVER_INPUT_SYNCHRONIZE, stream)
        else if message_type = 0x0004 then Inr (event LIBRDP_SERVER_INPUT_SCANCODE_KEY, stream)
        else if message_type = 0x0005 then Inr (event LIBRDP_SERVER_INPUT_UNICODE_KEY, stream)
        else if message_type = 0x8001
        then Inr ((event LIBRDP_SERVER_INPUT_MOUSE)\<lparr>ie_x := param1, ie_y := param2\<rparr>, stream)
        else if message_type = 0x8002
        then Inr ((event LIBRDP_SERVER_INPUT_EXTENDED_MOUSE)\<lparr>ie_x := param1, ie_y := param2\<rparr>, stream)
        else protocol_error)))))"

fun input_events_loop :: "nat \<Rightarrow> rdp_stream \<Rightarrow> ('c, 'k, 'n, 'e) server_action" where
  "input_events_loop 0 stream = aret ()"
| "input_events_loop (Suc n) stream =
     abind (alift (parse_input_event stream)) (\<lambda>(event, stream).
     athen (rdp_server_emit_input event) (input_events_loop n stream))"

definition rdp_server_handle_input_events :: "u8 list \<Rightarrow> ('c, 'k, 'n, 'e) server_action" where
  "rdp_server_handle_input_events payload =
     abind (alift
       (pbind (rdp_stream_read_u16_le (rdp_stream_init payload)) (\<lambda>(event_count, stream).
        pbind (rdp_stream_read_u16_le stream) (\<lambda>(pad, stream).
        if event_count > 256 \<or> pad \<noteq> 0 \<or> rdp_stream_remaining stream \<noteq> unat event_count * 12
        then protocol_error else Inr (event_count, stream)))))
       (\<lambda>(event_count, stream). input_events_loop (unat event_count) stream)"

text \<open>The desktop of the peer is given by its width and height.\<close>

definition rdp_server_rect_valid :: "u16 \<Rightarrow> u16 \<Rightarrow> u32 \<Rightarrow> u32 \<Rightarrow> u32 \<Rightarrow> u32 \<Rightarrow> bool" where
  "rdp_server_rect_valid desktop_width desktop_height x y width height =
     (if width = 0 \<or> height = 0 then False
      else if x \<ge> ucast desktop_width \<or> y \<ge> ucast desktop_height then False
      else if width > ucast desktop_width - x \<or> height > ucast desktop_height - y then False
      else True)"

definition rdp_server_surface_flush_repaint :: "('c, 'k, 'n, 'e) server_hooks \<Rightarrow> ('c, 'k, 'n, 'e) server_action" where
  "rdp_server_surface_flush_repaint hooks =
     abind (aget id) (\<lambda>p.
     awhen (sp_surface_repaint_pending p \<and> sp_framebuffer p \<and> \<not> sp_updates_suppressed p)
       (acall (hk_surface_present_rect hooks 0 0 (ucast (sp_width p)) (ucast (sp_height p)))))"

definition parse_rectangle :: "rdp_stream \<Rightarrow> ((u16 \<times> u16 \<times> u16 \<times> u16) \<times> rdp_stream) result" where
  "parse_rectangle stream =
     pbind (rdp_stream_read_u16_le stream) (\<lambda>(left, stream).
     pbind (rdp_stream_read_u16_le stream) (\<lambda>(top, stream).
     pbind (rdp_stream_read_u16_le stream) (\<lambda>(right, stream).
     pbind (rdp_stream_read_u16_le stream) (\<lambda>(bottom, stream).
     if right < left \<or> bottom < top then protocol_error
     else Inr ((left, top, right - left + 1, bottom - top + 1), stream)))))"

fun refresh_rect_loop ::
    "('c, 'k, 'n, 'e) server_hooks \<Rightarrow> nat \<Rightarrow> rdp_stream \<Rightarrow> ('c, 'k, 'n, 'e) server_action" where
  "refresh_rect_loop hooks 0 stream = aret ()"
| "refresh_rect_loop hooks (Suc n) stream =
     abind (alift (parse_rectangle stream)) (\<lambda>(rect, stream).
     case rect of (x, y, width, height) \<Rightarrow>
     athen (rdp_server_emit_input ((input_event LIBRDP_SERVER_INPUT_REFRESH_RECT)
       \<lparr>ie_x := x, ie_y := y, ie_width := width, ie_height := height\<rparr>))
     (abind (aget id) (\<lambda>p.
      athen (awhen (sp_framebuffer p \<and> \<not> sp_updates_suppressed p \<and>
          rdp_server_rect_valid (sp_width p) (sp_height p) (ucast x) (ucast y) (ucast width) (ucast height))
        (acatch (acall (hk_surface_present_rect hooks (ucast x) (ucast y) (ucast width) (ucast height)))
          (\<lambda>e. if e = LIBRDP_STATUS_STATE then aret () else afail e)))
        (refresh_rect_loop hooks n stream))))"

definition rdp_server_handle_refresh_rect ::
    "('c, 'k, 'n, 'e) server_hooks \<Rightarrow> u8 list \<Rightarrow> ('c, 'k, 'n, 'e) server_action" where
  "rdp_server_handle_refresh_rect hooks payload =
     abind (alift
       (pbind (rdp_stream_read_u16_le (rdp_stream_init payload)) (\<lambda>(count, stream).
        pbind (rdp_stream_read_u16_le stream) (\<lambda>(pad, stream).
        if count > 64 \<or> pad \<noteq> 0 \<or> rdp_stream_remaining stream \<noteq> unat count * 8
        then protocol_error else Inr (count, stream)))))
       (\<lambda>(count, stream). refresh_rect_loop hooks (unat count) stream)"

definition rdp_server_handle_suppress_output ::
    "('c, 'k, 'n, 'e) server_hooks \<Rightarrow> u8 list \<Rightarrow> ('c, 'k, 'n, 'e) server_action" where
  "rdp_server_handle_suppress_output hooks payload =
     athen (afail_if (length payload \<noteq> 4 \<and> length payload \<noteq> 12) LIBRDP_STATUS_PROTOCOL_ERROR)
     (let allowed = payload ! 0 \<noteq> 0;
          event = (input_event LIBRDP_SERVER_INPUT_SUPPRESS_OUTPUT)\<lparr>ie_flags := if allowed then 1 else 0\<rparr>;
          x = le16 (payload ! 4) (payload ! 5); y = le16 (payload ! 6) (payload ! 7);
          right = le16 (payload ! 8) (payload ! 9); bottom = le16 (payload ! 10) (payload ! 11)
      in athen (amodify (\<lambda>p. p\<lparr>sp_updates_suppressed := \<not> allowed\<rparr>))
         (athen (afail_if (length payload = 12 \<and> (right < x \<or> bottom < y)) LIBRDP_STATUS_PROTOCOL_ERROR)
         (athen (rdp_server_emit_input
           (if length payload = 12
            then event\<lparr>ie_x := x, ie_y := y, ie_width := right - x + 1, ie_height := bottom - y + 1\<rparr> else event))
         (abind (aget id) (\<lambda>p.
          awhen (\<not> sp_updates_suppressed p \<and> sp_surface_repaint_pending p)
            (rdp_server_surface_flush_repaint hooks))))))"

section \<open>Activation and runtime\<close>

text \<open>Writing one slow-path PDU and sending it.\<close>

definition server_send_pdu :: "('c, 'k, 'n) server_env \<Rightarrow> writer \<Rightarrow> ('c, 'k, 'n, 'e) server_action" where
  "server_send_pdu env w = abind (awrite w) (server_send_slowpath env)"

definition rdp_server_send_activation_responses ::
    "('c, 'k, 'n) server_env \<Rightarrow> ('c, 'k, 'n, 'e) server_action" where
  "rdp_server_send_activation_responses env =
     abind (aget (\<lambda>p. (sp_share_id p, pe_user_id (sp_wire p)))) (\<lambda>(share_id, user_id).
     athen (server_send_pdu env (rdp_slowpath_write_server_synchronize share_id RDP_MCS_SERVER_CHANNEL_ID user_id))
     (athen (server_send_pdu env (rdp_slowpath_write_server_control share_id RDP_MCS_SERVER_CHANNEL_ID 4))
       (server_send_pdu env (rdp_slowpath_write_server_control share_id RDP_MCS_SERVER_CHANNEL_ID 2))))"

definition rdp_server_send_font_map :: "('c, 'k, 'n) server_env \<Rightarrow> ('c, 'k, 'n, 'e) server_action" where
  "rdp_server_send_font_map env =
     abind (aget sp_share_id) (\<lambda>share_id.
     server_send_pdu env (rdp_slowpath_write_server_font_map share_id RDP_MCS_SERVER_CHANNEL_ID))"

definition confirm_fastpath_output :: "rdp_slowpath_confirm_active \<Rightarrow> bool" where
  "confirm_fastpath_output confirm =
     (case rdp_capabilities_find (coa_capabilities confirm) RDP_CAPABILITY_TYPE_GENERAL of
        None \<Rightarrow> False
      | Some s \<Rightarrow>
          (case rdp_capability_parse_general s of
             Inl _ \<Rightarrow> False
           | Inr general \<Rightarrow> cg_extra_flags general AND RDP_CAPABILITY_GENERAL_FASTPATH_OUTPUT_SUPPORTED \<noteq> 0))"

definition runtime_confirm_active ::
    "('c, 'k, 'n) server_env \<Rightarrow> u8 list \<Rightarrow> ('c, 'k, 'n, 'e) server_action" where
  "runtime_confirm_active env payload =
     abind (aget id) (\<lambda>p.
     athen (afail_if (sp_state p \<noteq> LIBRDP_SERVER_PEER_ACTIVATING \<or> sp_confirm_active_seen p) LIBRDP_STATUS_PROTOCOL_ERROR)
     (abind (alift (rdp_slowpath_parse_confirm_active payload)) (\<lambda>confirm.
      athen (afail_if (coa_share_id confirm \<noteq> sp_share_id p \<or>
          sch_channel_id (coa_header confirm) \<noteq> pe_user_id (sp_wire p)) LIBRDP_STATUS_PROTOCOL_ERROR)
      (athen (amodify (\<lambda>p. p\<lparr>sp_client_fastpath_output := confirm_fastpath_output confirm,
          sp_confirm_active_seen := True\<rparr>))
        (rdp_server_send_activation_responses env)))))"

definition runtime_synchronize :: "rdp_slowpath_data_pdu \<Rightarrow> ('c, 'k, 'n, 'e) server_action" where
  "runtime_synchronize pdu =
     abind (aget id) (\<lambda>p.
     athen (afail_if (sp_state p = LIBRDP_SERVER_PEER_ACTIVATING \<and>
         (sp_synchronize_seen p \<or> dp_payload_len pdu \<noteq> 4 \<or> dp_payload pdu ! 0 \<noteq> 1 \<or> dp_payload pdu ! 1 \<noteq> 0))
       LIBRDP_STATUS_PROTOCOL_ERROR)
     (athen (amodify (\<lambda>p. p\<lparr>sp_synchronize_seen := True\<rparr>))
       (rdp_server_emit_input (input_event LIBRDP_SERVER_INPUT_SYNCHRONIZE))))"

definition runtime_control :: "rdp_slowpath_data_pdu \<Rightarrow> ('c, 'k, 'n, 'e) server_action" where
  "runtime_control pdu =
     (let action = (if dp_payload_len pdu \<ge> 2 then le16 (dp_payload pdu ! 0) (dp_payload pdu ! 1) else 0) in
      abind (aget id) (\<lambda>p.
      athen
        (if sp_state p \<noteq> LIBRDP_SERVER_PEER_ACTIVATING then aret ()
         else if \<not> sp_synchronize_seen p \<or> dp_payload_len pdu \<noteq> 8 then afail LIBRDP_STATUS_PROTOCOL_ERROR
         else if action = 4 then
           (if sp_control_cooperate_seen p \<or> sp_control_seen p then afail LIBRDP_STATUS_PROTOCOL_ERROR
            else amodify (\<lambda>p. p\<lparr>sp_control_cooperate_seen := True\<rparr>))
         else if action = 1 then
           (if \<not> sp_control_cooperate_seen p \<or> sp_control_seen p then afail LIBRDP_STATUS_PROTOCOL_ERROR
            else amodify (\<lambda>p. p\<lparr>sp_control_seen := True\<rparr>))
         else afail LIBRDP_STATUS_PROTOCOL_ERROR)
      (awhen (dp_payload_len pdu \<ge> 2)
        (rdp_server_emit_input ((input_event LIBRDP_SERVER_INPUT_CONTROL)\<lparr>ie_control_action := action\<rparr>)))))"

definition runtime_font_list ::
    "('c, 'k, 'n) server_env \<Rightarrow> ('c, 'k, 'n, 'e) server_hooks \<Rightarrow> rdp_slowpath_data_pdu \<Rightarrow> ('c, 'k, 'n, 'e) server_action" where
  "runtime_font_list env hooks pdu =
     abind (aget id) (\<lambda>p.
     athen (afail_if (sp_state p \<noteq> LIBRDP_SERVER_PEER_ACTIVATING \<or> \<not> sp_confirm_active_seen p \<or>
         \<not> sp_synchronize_seen p \<or> \<not> sp_control_cooperate_seen p \<or> \<not> sp_control_seen p \<or> dp_payload_len pdu \<noteq> 8)
       LIBRDP_STATUS_PROTOCOL_ERROR)
     (athen (amodify (\<lambda>p. p\<lparr>sp_font_list_seen := True\<rparr>))
     (athen (rdp_server_emit_input (input_event LIBRDP_SERVER_INPUT_FONT_LIST))
     (athen (rdp_server_send_font_map env)
     (athen (amodify (rdp_server_set_state LIBRDP_SERVER_PEER_ACTIVE))
     (athen (acall (hk_dynamic_channels_start hooks))
     (athen (rdp_server_surface_flush_repaint hooks)
     (athen (acall (hk_device_redirection_start hooks))
     (abind (aget sp_message_channel_id) (\<lambda>message_channel_id.
      awhen (message_channel_id \<noteq> 0) (acall (hk_autodetect_start hooks))))))))))))"

definition runtime_data_pdu ::
    "('c, 'k, 'n) server_env \<Rightarrow> ('c, 'k, 'n, 'e) server_hooks \<Rightarrow> u8 list \<Rightarrow> ('c, 'k, 'n, 'e) server_action" where
  "runtime_data_pdu env hooks payload =
     abind (alift (rdp_slowpath_parse_data_pdu payload)) (\<lambda>pdu.
     abind (aget id) (\<lambda>p.
     athen (afail_if (dp_share_id pdu \<noteq> sp_share_id p \<or> sch_channel_id (dp_header pdu) \<noteq> pe_user_id (sp_wire p) \<or>
         sp_state p = LIBRDP_SERVER_PEER_ACTIVATING \<and> \<not> sp_confirm_active_seen p) LIBRDP_STATUS_PROTOCOL_ERROR)
     (let type2 = dp_pdu_type2 pdu in
      if type2 = RDP_SLOWPATH_DATA_PDU_SYNCHRONIZE then runtime_synchronize pdu
      else if type2 = RDP_SLOWPATH_DATA_PDU_CONTROL then runtime_control pdu
      else if type2 = RDP_SLOWPATH_DATA_PDU_BITMAP_CACHE_PERSISTENT_LIST then
        afail_if (sp_state p \<noteq> LIBRDP_SERVER_PEER_ACTIVATING \<or> \<not> sp_control_seen p \<or> dp_payload_len pdu < 24)
          LIBRDP_STATUS_PROTOCOL_ERROR
      else if type2 = RDP_SLOWPATH_DATA_PDU_FONT_LIST then runtime_font_list env hooks pdu
      else if type2 = RDP_SLOWPATH_DATA_PDU_INPUT then rdp_server_handle_input_events (dp_payload pdu)
      else if type2 = RDP_SLOWPATH_DATA_PDU_REFRESH_RECT then rdp_server_handle_refresh_rect hooks (dp_payload pdu)
      else if type2 = RDP_SLOWPATH_DATA_PDU_SUPPRESS_OUTPUT then rdp_server_handle_suppress_output hooks (dp_payload pdu)
      else afail LIBRDP_STATUS_PROTOCOL_ERROR)))"

text \<open>A data request on a channel, after the security header.\<close>

definition runtime_payload ::
    "('c, 'k, 'n) server_env \<Rightarrow> ('c, 'k, 'n, 'e) server_hooks \<Rightarrow> u16 \<Rightarrow> u8 list \<Rightarrow> ('c, 'k, 'n, 'e) server_action" where
  "runtime_payload env hooks channel_id payload =
     (if channel_id \<noteq> RDP_MCS_GLOBAL_CHANNEL_ID then
        abind (aget (\<lambda>p. case rdp_server_static_channel_index (sp_wire p) channel_id of
            Some i \<Rightarrow> if pe_advertised_channel_joined (sp_wire p) ! i then Some i else None
          | None \<Rightarrow> None)) (\<lambda>channel_index.
        case channel_index of
          None \<Rightarrow> afail LIBRDP_STATUS_PROTOCOL_ERROR
        | Some i \<Rightarrow> acall (hk_static_channel_message hooks i channel_id payload))
      else
        abind (alift (rdp_slowpath_parse_share_control_header payload)) (\<lambda>header.
        let type = sch_pdu_type header AND 0x000f in
        if type = RDP_SLOWPATH_PDU_TYPE_CONFIRM_ACTIVE then runtime_confirm_active env payload
        else if type = RDP_SLOWPATH_PDU_TYPE_DATA then runtime_data_pdu env hooks payload
        else aret ()))"

definition rdp_server_handle_runtime_data ::
    "('c, 'k, 'n) server_env \<Rightarrow> ('c, 'k, 'n, 'e) server_hooks \<Rightarrow> rdp_tpkt \<Rightarrow> ('c, 'k, 'n, 'e) server_action" where
  "rdp_server_handle_runtime_data env hooks packet =
     close_on_error
       (abind (alift (rdp_x224_parse_data (tpkt_payload packet))) (\<lambda>data.
        if data \<noteq> [] \<and> drop_bit 2 (data ! 0) = RDP_MCS_DOMAIN_PDU_DISCONNECT_PROVIDER_ULTIMATUM then
          abind (alift (rdp_mcs_parse_disconnect_provider_ultimatum data)) (\<lambda>reason.
          amodify (rdp_server_close_peer LIBRDP_SERVER_PEER_CLOSED))
        else
          abind (alift (rdp_mcs_parse_send_data_request data)) (\<lambda>request.
          abind (aget id) (\<lambda>p.
          athen (afail_if (sdi_initiator request \<noteq> pe_user_id (sp_wire p)) LIBRDP_STATUS_PROTOCOL_ERROR)
          (if sdi_channel_id request = sp_message_channel_id p then
             athen (afail_if (sp_message_channel_id p = 0 \<or> \<not> sp_message_channel_joined p \<or>
                 sp_state p \<noteq> LIBRDP_SERVER_PEER_ACTIVE) LIBRDP_STATUS_PROTOCOL_ERROR)
               (acall (hk_autodetect_handle hooks (sdi_payload request)))
           else
             abind (rdp_server_unwrap_optional_security_header env (sdi_payload request)) (\<lambda>payload.
             runtime_payload env hooks (sdi_channel_id request) payload))))))"

text \<open>Resizing the surface of an active peer starts a new activation.\<close>

definition librdp_server_peer_surface_resize ::
    "('c, 'k, 'n) server_env \<Rightarrow> ('c, 'k, 'n, 'e) server_hooks \<Rightarrow> u32 \<Rightarrow> u32 \<Rightarrow> ('c, 'k, 'n, 'e) server_action" where
  "librdp_server_peer_surface_resize env hooks width height =
     abind (aget (\<lambda>p. sp_state p = LIBRDP_SERVER_PEER_ACTIVE)) (\<lambda>was_active.
     athen (acall (hk_surface_set_dimensions hooks width height))
     (awhen was_active
       (athen (rdp_server_send_deactivate_all env)
       (athen (amodify (\<lambda>p. p\<lparr>sp_confirm_active_seen := False, sp_synchronize_seen := False,
           sp_control_cooperate_seen := False, sp_control_seen := False, sp_font_list_seen := False\<rparr>))
         (rdp_server_send_demand_active env)))))"

end
