(* ===== verification/Server_Machine.thy ===== *)
theory Server_Machine
  imports Server_Credssp Server_Protocol
begin

text \<open>
  The server peer as a state machine: \<^verbatim>\<open>librdp_server_peer_run_once\<close> of \<^verbatim>\<open>src/src/server/server_peer.c\<close>, which
  reads what the current state expects and calls its handler, the peer that \<^verbatim>\<open>librdp_server_accept\<close>
  returns, and the steps the application takes on a peer.
\<close>

section \<open>One round\<close>

text \<open>
  Reading one packet. A read loop takes at least one byte per round and stops at 65535 buffered bytes, so
  that 65537 rounds are enough.
\<close>

definition server_read_packet ::
    "('c, 'k, 'n) server_env \<Rightarrow> (('c, 'k, 'n, 'e) server_peer, rdp_tpkt \<times> nat) action" where
  "server_read_packet env = (\<lambda>(p, m).
     if \<not> sp_fd_open p then (Inl LIBRDP_STATUS_STATE, p, m)
     else
       (case rdp_server_read_tpkt 65537 (env_segments env) (sp_wire p, m) of (r, _, w, m) \<Rightarrow>
          let p = p\<lparr>sp_wire := w\<rparr> in
          (case r of
             None \<Rightarrow> (Inl LIBRDP_STATUS_TIMEOUT, p, m)
           | Some r \<Rightarrow>
               (r, if r = Inl LIBRDP_STATUS_CLOSED then rdp_server_close_peer LIBRDP_SERVER_PEER_CLOSED p else p, m))))"

definition server_dispatch ::
    "('c, 'k, 'n) server_env \<Rightarrow> ('c, 'k, 'n, 'e) server_hooks \<Rightarrow> rdp_tpkt \<Rightarrow> ('c, 'k, 'n, 'e) server_action" where
  "server_dispatch env hooks packet =
     abind (aget sp_state) (\<lambda>state.
     case state of
       LIBRDP_SERVER_PEER_NEGOTIATING \<Rightarrow> rdp_server_handle_x224 env packet
     | LIBRDP_SERVER_PEER_X224_CONFIRMED \<Rightarrow> rdp_server_handle_mcs_connect_initial env hooks packet
     | LIBRDP_SERVER_PEER_MCS_CONNECTED \<Rightarrow> rdp_server_handle_erect_domain packet
     | LIBRDP_SERVER_PEER_DOMAIN_READY \<Rightarrow> rdp_server_handle_attach_user env packet
     | LIBRDP_SERVER_PEER_USER_ATTACHED \<Rightarrow> rdp_server_handle_channel_join env hooks packet
     | LIBRDP_SERVER_PEER_CHANNEL_JOINING \<Rightarrow> rdp_server_handle_channel_join env hooks packet
     | LIBRDP_SERVER_PEER_LICENSING \<Rightarrow> rdp_server_handle_client_info env packet
     | LIBRDP_SERVER_PEER_ACTIVATING \<Rightarrow> rdp_server_handle_runtime_data env hooks packet
     | LIBRDP_SERVER_PEER_ACTIVE \<Rightarrow> rdp_server_handle_runtime_data env hooks packet
     | _ \<Rightarrow> afail LIBRDP_STATUS_STATE)"

text \<open>The packet is consumed whatever the handler returned; a failed consumption matters only after success.\<close>

definition server_consume :: "nat \<Rightarrow> ('c, 'k, 'n, 'e) server_action" where
  "server_consume n =
     abind (aget (\<lambda>p. buf_length (pe_input (sp_wire p)))) (\<lambda>buffered.
     awhen (n > 0 \<and> buffered \<ge> n)
       (on_wire (\<lambda>(w, m). case rdp_buffer_consume n (pe_input w) of
          (status, b) \<Rightarrow> (status, w\<lparr>pe_input := b\<rparr>, m))))"

definition count_error ::
    "librdp_status \<Rightarrow> ('c, 'k, 'n, 'e) server_peer \<Rightarrow> ('c, 'k, 'n, 'e) server_peer" where
  "count_error e p =
     (if e = LIBRDP_STATUS_TIMEOUT then p
      else p\<lparr>sp_metric_errors := rdp_server_metric_add (sp_metric_errors p) 1\<rparr>)"

definition count_and_close ::
    "librdp_status \<Rightarrow> ('c, 'k, 'n, 'e) server_peer \<Rightarrow> ('c, 'k, 'n, 'e) server_peer" where
  "count_and_close e p =
     (if e = LIBRDP_STATUS_TIMEOUT then p
      else rdp_server_close_peer LIBRDP_SERVER_PEER_FAILED (count_error e p))"

definition librdp_server_peer_run_once ::
    "('c, 'k, 'n) server_env \<Rightarrow> ('c, 'k, 'n, 'e) server_hooks \<Rightarrow> ('c, 'k, 'n, 'e) server_action" where
  "librdp_server_peer_run_once env hooks =
     abind (aget (\<lambda>p. \<not> sp_fd_open p \<or> sp_state p = LIBRDP_SERVER_PEER_CLOSED)) (\<lambda>ended.
     athen (afail_if ended LIBRDP_STATUS_STATE)
     (athen (amodify (\<lambda>p. if sp_state p = LIBRDP_SERVER_PEER_NEW
        then rdp_server_set_state LIBRDP_SERVER_PEER_NEGOTIATING p else p))
     (abind (aget sp_state) (\<lambda>state.
      if state = LIBRDP_SERVER_PEER_TLS_HANDSHAKING then on_error count_and_close (rdp_server_start_tls env)
      else if state = LIBRDP_SERVER_PEER_NLA_AUTHENTICATING then
        on_error count_and_close (rdp_server_handle_credssp env)
      else
        abind (server_read_packet env) (\<lambda>(packet, packet_len).
        on_error count_error
          (athen (acatch (server_dispatch env hooks packet)
              (\<lambda>e. athen (acatch (server_consume packet_len) (\<lambda>_. aret ())) (afail e)))
            (server_consume packet_len)))))))"

text \<open>Closing by the application.\<close>

definition librdp_server_peer_close ::
    "('c, 'k, 'n, 'e) server_hooks \<Rightarrow> ('c, 'k, 'n, 'e) server_peer \<Rightarrow> ('c, 'k, 'n, 'e) server_peer" where
  "librdp_server_peer_close hooks p =
     rdp_server_close_peer LIBRDP_SERVER_PEER_CLOSED (p\<lparr>sp_features := hk_reset hooks True (sp_features p)\<rparr>)"

section \<open>Reachable peers\<close>

text \<open>
  The peer that \<^verbatim>\<open>librdp_server_accept\<close> returns: zeroed memory with the listener's configuration, which
  \<open>cfg\<close>, \<open>width\<close> and \<open>height\<close> hold, and with the sealing context \<open>n\<close> and the feature state \<open>e\<close> of an unused
  connection.
\<close>

definition security_zero :: "'c rdp_standard_security_context" where
  "security_zero =
     \<lparr>sc_sign_key = replicate 16 0, sc_encrypt_key = replicate 16 0, sc_decrypt_key = replicate 16 0,
      sc_encrypt_update_key = replicate 16 0, sc_decrypt_update_key = replicate 16 0, sc_key_len = 0,
      sc_method = 0, sc_encrypt_count = 0, sc_decrypt_count = 0,
      sc_encrypt_rc4 = \<lparr>rc4_cipher = None, rc4_initialized = False\<rparr>,
      sc_decrypt_rc4 = \<lparr>rc4_cipher = None, rc4_initialized = False\<rparr>\<rparr>"

definition accepted_wire :: "'c librdp_server_peer" where
  "accepted_wire =
     \<lparr>pe_state = LIBRDP_SERVER_PEER_NEW, pe_user_id = RDP_MCS_BASE_CHANNEL_ID,
      pe_standard_security = security_zero, pe_standard_security_ready = False,
      pe_advertised_channel_joined = [], pe_input = rdp_buffer_init, pe_bytes_written = 0, pe_bytes_read = 0,
      pe_pdu_out = 0, pe_pdu_in = 0, pe_static_channel_out = 0, pe_static_channel_bytes_out = 0, pe_sent = []\<rparr>"

definition accepted_credssp :: "'n \<Rightarrow> 'n server_credssp" where
  "accepted_credssp n =
     \<lparr>np_expected_domain = None, np_expected_username = None, np_expected_password = None, np_security = n,
      np_target_name = rdp_buffer_init, np_target_info = rdp_buffer_init, np_server_challenge = replicate 8 0,
      np_client_nonce = replicate 32 0, np_stage = 0, np_ts_request_version = 0, np_public_key_bound = False,
      np_client_nonce_ready = False, np_security_ready = False\<rparr>"

definition accepted_peer ::
    "server_config \<Rightarrow> u16 \<Rightarrow> u16 \<Rightarrow> 'n \<Rightarrow> 'e \<Rightarrow> ('c, 'k, 'n, 'e) server_peer" where
  "accepted_peer cfg width height n e =
     \<lparr>sp_wire = accepted_wire, sp_config = cfg, sp_credssp = accepted_credssp n, sp_fd_open = True,
      sp_requested_protocols = 0, sp_selected_protocol = 0, sp_share_id = 0x00010001,
      sp_width = width, sp_height = height, sp_tls_context = False, sp_tls = False, sp_tls_active = False,
      sp_standard_private_key = None, sp_standard_certificate = rdp_buffer_init,
      sp_standard_server_random = replicate 32 0, sp_x224_routing_data = rdp_buffer_init,
      sp_client_cluster_flags = 0, sp_redirected_session_id = 0, sp_nla_authenticated = False,
      sp_nla_failed_attempts = 0, sp_dynamic_channel_static_index = 0, sp_joined_channel_count = 0,
      sp_message_channel_id = 0, sp_message_channel_joined = False, sp_message_channel_flags = 0,
      sp_advertised_channels = [], sp_advertised_channel_ids = [], sp_multitransport_negotiated = False,
      sp_multitransport_flags = 0, sp_confirm_active_seen = False, sp_client_fastpath_output = False,
      sp_licensing_done = False, sp_client_info_seen = False, sp_synchronize_seen = False,
      sp_control_cooperate_seen = False, sp_control_seen = False, sp_font_list_seen = False,
      sp_updates_suppressed = False, sp_surface_repaint_pending = False, sp_framebuffer = False,
      sp_metric_errors = 0, sp_metric_input_events = 0, sp_input_log = [], sp_features = e\<rparr>"

text \<open>
  What the application does with a peer: run it, resize its surface, send on a static channel, close it.
  Every step has its own environment and its own answers of the allocator.
\<close>

inductive server_step ::
    "('c, 'k, 'n, 'e) server_hooks \<Rightarrow> ('c, 'k, 'n, 'e) server_peer \<Rightarrow> ('c, 'k, 'n, 'e) server_peer \<Rightarrow> bool"
  for hooks where
  Run: "librdp_server_peer_run_once env hooks (p, m) = (r, p', m') \<Longrightarrow> server_step hooks p p'"
| Resize: "librdp_server_peer_surface_resize env hooks width height (p, m) = (r, p', m') \<Longrightarrow> server_step hooks p p'"
| Send: "on_wire (librdp_server_peer_send_channel_data cr net channel_id data) (p, m) = (r, p', m') \<Longrightarrow>
    server_step hooks p p'"
| Close: "server_step hooks p (librdp_server_peer_close hooks p)"

inductive reachable_peer :: "('c, 'k, 'n, 'e) server_hooks \<Rightarrow> ('c, 'k, 'n, 'e) server_peer \<Rightarrow> bool" for hooks where
  Accept: "reachable_peer hooks (accepted_peer cfg width height n e)"
| Step: "reachable_peer hooks p \<Longrightarrow> server_step hooks p p' \<Longrightarrow> reachable_peer hooks p'"

inductive_cases server_stepE: "server_step hooks p p'"

end
