(* ===== verification/Server_Secure.thy ===== *)
theory Server_Secure
  imports Server_Machine
begin

text \<open>
  What the server state machine guarantees about security: no client gets past the negotiation with less
  than the configured and selected protection. The handlers are verified with triples over the part of the
  peer that the invariant speaks of, the \<open>view\<close>; most of their actions leave the view alone.
\<close>

section \<open>The view\<close>

record security_view =
  v_config :: server_config
  v_selected :: u32
  v_tls_active :: bool
  v_authenticated :: bool
  v_bound :: bool
  v_state :: librdp_server_peer_state
  v_ready :: bool
  v_licensed :: bool
  v_info :: bool

definition view :: "('c, 'k, 'n, 'e) server_peer \<Rightarrow> security_view" where
  "view p =
     \<lparr>v_config = sp_config p, v_selected = sp_selected_protocol p, v_tls_active = sp_tls_active p,
      v_authenticated = sp_nla_authenticated p, v_bound = np_public_key_bound (sp_credssp p),
      v_state = sp_state p, v_ready = pe_standard_security_ready (sp_wire p),
      v_licensed = sp_licensing_done p, v_info = sp_client_info_seen p\<rparr>"

abbreviation at :: "security_view \<Rightarrow> ('c, 'k, 'n, 'e) server_peer \<Rightarrow> bool" where
  "at v p \<equiv> view p = v"

definition ended :: "librdp_server_peer_state set" where
  "ended = {LIBRDP_SERVER_PEER_CLOSED, LIBRDP_SERVER_PEER_FAILED}"

text \<open>The states after the negotiation.\<close>

definition admitted_states :: "librdp_server_peer_state set" where
  "admitted_states = {LIBRDP_SERVER_PEER_X224_CONFIRMED, LIBRDP_SERVER_PEER_MCS_CONNECTED,
     LIBRDP_SERVER_PEER_DOMAIN_READY, LIBRDP_SERVER_PEER_USER_ATTACHED, LIBRDP_SERVER_PEER_CHANNEL_JOINING,
     LIBRDP_SERVER_PEER_LICENSING, LIBRDP_SERVER_PEER_ACTIVATING, LIBRDP_SERVER_PEER_ACTIVE}"

text \<open>The protocols that a security mode lets the server select.\<close>

fun mode_allows :: "librdp_security_mode \<Rightarrow> u32 \<Rightarrow> bool" where
  "mode_allows LIBRDP_SECURITY_STANDARD s \<longleftrightarrow> s = RDP_X224_PROTOCOL_STANDARD"
| "mode_allows LIBRDP_SECURITY_TLS s \<longleftrightarrow> s = RDP_X224_PROTOCOL_TLS"
| "mode_allows LIBRDP_SECURITY_NLA s \<longleftrightarrow> s = RDP_X224_PROTOCOL_NLA"
| "mode_allows LIBRDP_SECURITY_AUTO s \<longleftrightarrow>
     s = RDP_X224_PROTOCOL_STANDARD \<or> s = RDP_X224_PROTOCOL_TLS \<or> s = RDP_X224_PROTOCOL_NLA"

definition secure :: "security_view \<Rightarrow> bool" where
  "secure v \<longleftrightarrow>
     (v_state v \<in> admitted_states \<union> {LIBRDP_SERVER_PEER_TLS_HANDSHAKING, LIBRDP_SERVER_PEER_NLA_AUTHENTICATING} \<longrightarrow>
        mode_allows (sf_security_mode (v_config v)) (v_selected v)) \<and>
     (v_state v \<in> admitted_states \<longrightarrow>
        (v_selected v = RDP_X224_PROTOCOL_TLS \<longrightarrow> v_tls_active v) \<and>
        (v_selected v = RDP_X224_PROTOCOL_NLA \<longrightarrow> v_tls_active v \<and> v_authenticated v \<and> v_bound v)) \<and>
     (v_state v = LIBRDP_SERVER_PEER_TLS_HANDSHAKING \<longrightarrow>
        v_selected v \<in> {RDP_X224_PROTOCOL_TLS, RDP_X224_PROTOCOL_NLA}) \<and>
     (v_state v = LIBRDP_SERVER_PEER_NLA_AUTHENTICATING \<longrightarrow>
        v_selected v = RDP_X224_PROTOCOL_NLA \<and> v_tls_active v) \<and>
     (v_state v \<in> {LIBRDP_SERVER_PEER_LICENSING, LIBRDP_SERVER_PEER_ACTIVATING, LIBRDP_SERVER_PEER_ACTIVE} \<longrightarrow>
        v_licensed v) \<and>
     (v_state v \<in> {LIBRDP_SERVER_PEER_ACTIVATING, LIBRDP_SERVER_PEER_ACTIVE} \<longrightarrow> v_info v) \<and>
     (v_state v = LIBRDP_SERVER_PEER_ACTIVE \<and> v_selected v = RDP_X224_PROTOCOL_STANDARD \<longrightarrow> v_ready v)"

abbreviation safe :: "('c, 'k, 'n, 'e) server_peer \<Rightarrow> bool" where
  "safe p \<equiv> secure (view p)"

lemma ended_simps [simp]: "LIBRDP_SERVER_PEER_CLOSED \<in> ended" "LIBRDP_SERVER_PEER_FAILED \<in> ended"
  by (simp_all add: ended_def)

lemma ended_secure [simp]: "v_state v \<in> ended \<Longrightarrow> secure v"
  by (auto simp: secure_def ended_def admitted_states_def)

text \<open>The invariant in the single states.\<close>

definition protected :: "security_view \<Rightarrow> bool" where
  "protected v \<longleftrightarrow> mode_allows (sf_security_mode (v_config v)) (v_selected v) \<and>
     (v_selected v = RDP_X224_PROTOCOL_TLS \<longrightarrow> v_tls_active v) \<and>
     (v_selected v = RDP_X224_PROTOCOL_NLA \<longrightarrow> v_tls_active v \<and> v_authenticated v \<and> v_bound v)"

lemma secure_handshake:
  "v_state v = LIBRDP_SERVER_PEER_TLS_HANDSHAKING \<Longrightarrow> secure v \<longleftrightarrow>
    mode_allows (sf_security_mode (v_config v)) (v_selected v) \<and>
    v_selected v \<in> {RDP_X224_PROTOCOL_TLS, RDP_X224_PROTOCOL_NLA}"
  "v_state v = LIBRDP_SERVER_PEER_NLA_AUTHENTICATING \<Longrightarrow> secure v \<longleftrightarrow>
    mode_allows (sf_security_mode (v_config v)) (v_selected v) \<and>
    v_selected v = RDP_X224_PROTOCOL_NLA \<and> v_tls_active v"
  by (simp_all add: secure_def admitted_states_def)

lemma secure_connecting:
  "v_state v \<in> {LIBRDP_SERVER_PEER_X224_CONFIRMED, LIBRDP_SERVER_PEER_MCS_CONNECTED,
     LIBRDP_SERVER_PEER_DOMAIN_READY, LIBRDP_SERVER_PEER_USER_ATTACHED, LIBRDP_SERVER_PEER_CHANNEL_JOINING} \<Longrightarrow>
    secure v \<longleftrightarrow> protected v"
  by (elim insertE emptyE; simp add: secure_def admitted_states_def protected_def)

lemma secure_connected:
  "v_state v = LIBRDP_SERVER_PEER_LICENSING \<Longrightarrow> secure v \<longleftrightarrow> protected v \<and> v_licensed v"
  "v_state v = LIBRDP_SERVER_PEER_ACTIVATING \<Longrightarrow> secure v \<longleftrightarrow> protected v \<and> v_licensed v \<and> v_info v"
  "v_state v = LIBRDP_SERVER_PEER_ACTIVE \<Longrightarrow> secure v \<longleftrightarrow> protected v \<and> v_licensed v \<and> v_info v \<and>
    (v_selected v = RDP_X224_PROTOCOL_STANDARD \<longrightarrow> v_ready v)"
  by (simp_all add: secure_def admitted_states_def protected_def conj_ac)

lemmas secure_at = secure_handshake secure_connecting secure_connected

lemma view_simps [simp]:
  "v_state (view p) = sp_state p" "v_config (view p) = sp_config p" "v_selected (view p) = sp_selected_protocol p"
  "v_ready (view p) = pe_standard_security_ready (sp_wire p)"
  by (simp_all add: view_def)

lemma view_set_state [simp]: "view (rdp_server_set_state st p) = (view p)\<lparr>v_state := st\<rparr>"
  by (simp add: view_def rdp_server_set_state_def)

lemma view_close [simp]: "view (rdp_server_close_peer st p) = (view p)\<lparr>v_tls_active := False, v_state := st\<rparr>"
  by (simp add: view_def rdp_server_close_peer_def rdp_server_set_state_def)

lemma view_unchanged [simp]:
  "view (sp_fd_open_update f1 p) = view p" "view (sp_requested_protocols_update f2 p) = view p"
  "view (sp_share_id_update f3 p) = view p" "view (sp_width_update f4 p) = view p"
  "view (sp_height_update f5 p) = view p" "view (sp_tls_context_update f6 p) = view p"
  "view (sp_tls_update f7 p) = view p" "view (sp_standard_private_key_update f8 p) = view p"
  "view (sp_standard_certificate_update f9 p) = view p" "view (sp_standard_server_random_update f10 p) = view p"
  "view (sp_x224_routing_data_update f11 p) = view p" "view (sp_client_cluster_flags_update f12 p) = view p"
  "view (sp_redirected_session_id_update f13 p) = view p" "view (sp_nla_failed_attempts_update f14 p) = view p"
  "view (sp_dynamic_channel_static_index_update f15 p) = view p" "view (sp_joined_channel_count_update f16 p) = view p"
  "view (sp_message_channel_id_update f17 p) = view p" "view (sp_message_channel_joined_update f18 p) = view p"
  "view (sp_message_channel_flags_update f19 p) = view p" "view (sp_advertised_channels_update f20 p) = view p"
  "view (sp_advertised_channel_ids_update f21 p) = view p" "view (sp_multitransport_negotiated_update f22 p) = view p"
  "view (sp_multitransport_flags_update f23 p) = view p" "view (sp_confirm_active_seen_update f24 p) = view p"
  "view (sp_client_fastpath_output_update f25 p) = view p" "view (sp_synchronize_seen_update f26 p) = view p"
  "view (sp_control_cooperate_seen_update f27 p) = view p" "view (sp_control_seen_update f28 p) = view p"
  "view (sp_font_list_seen_update f29 p) = view p" "view (sp_updates_suppressed_update f30 p) = view p"
  "view (sp_surface_repaint_pending_update f31 p) = view p" "view (sp_framebuffer_update f32 p) = view p"
  "view (sp_metric_errors_update f33 p) = view p" "view (sp_metric_input_events_update f34 p) = view p"
  "view (sp_input_log_update f35 p) = view p" "view (sp_features_update f36 p) = view p"
  by (simp_all add: view_def)

lemma view_changed [simp]:
  "view (p\<lparr>sp_selected_protocol := s\<rparr>) = (view p)\<lparr>v_selected := s\<rparr>"
  "view (p\<lparr>sp_tls_active := b\<rparr>) = (view p)\<lparr>v_tls_active := b\<rparr>"
  "view (p\<lparr>sp_nla_authenticated := b\<rparr>) = (view p)\<lparr>v_authenticated := b\<rparr>"
  "view (p\<lparr>sp_licensing_done := b\<rparr>) = (view p)\<lparr>v_licensed := b\<rparr>"
  "view (p\<lparr>sp_client_info_seen := b\<rparr>) = (view p)\<lparr>v_info := b\<rparr>"
  by (simp_all add: view_def)

lemma view_wire [simp]:
  "view (p\<lparr>sp_wire := (sp_wire p)\<lparr>pe_standard_security_ready := b\<rparr>\<rparr>) = (view p)\<lparr>v_ready := b\<rparr>"
  "view (p\<lparr>sp_wire := (sp_wire p)\<lparr>pe_standard_security := c\<rparr>\<rparr>) = view p"
  "view (p\<lparr>sp_wire := (sp_wire p)\<lparr>pe_input := i\<rparr>\<rparr>) = view p"
  "view (p\<lparr>sp_wire := (sp_wire p)\<lparr>pe_bytes_read := n\<rparr>\<rparr>) = view p"
  "view (p\<lparr>sp_wire := (sp_wire p)\<lparr>pe_pdu_in := n\<rparr>\<rparr>) = view p"
  "view (p\<lparr>sp_wire := (sp_wire p)\<lparr>pe_advertised_channel_joined := js\<rparr>\<rparr>) = view p"
  by (simp_all add: view_def)

lemma view_credssp [simp]:
  "np_public_key_bound (f (sp_credssp p)) = np_public_key_bound (sp_credssp p) \<Longrightarrow> view (on_credssp f p) = view p"
  "np_public_key_bound (g (sp_credssp p)) \<Longrightarrow> view (on_credssp g p) = (view p)\<lparr>v_bound := True\<rparr>"
  by (simp_all add: view_def on_credssp_def)

section \<open>Actions that leave the view alone\<close>

text \<open>A wire function that keeps the state and the security flag, unless the connection has closed.\<close>

definition wire_frame ::
    "('c librdp_server_peer \<times> mem \<Rightarrow> librdp_status \<times> 'c librdp_server_peer \<times> mem) \<Rightarrow> bool" where
  "wire_frame f \<longleftrightarrow> (\<forall>w m status w' m'. f (w, m) = (status, w', m') \<longrightarrow>
     pe_standard_security_ready w' = pe_standard_security_ready w \<and>
     (status \<noteq> LIBRDP_STATUS_CLOSED \<longrightarrow> pe_state w' = pe_state w))"

lemma send_all_frame:
  "rdp_server_peer_send_all net data w = (status, w') \<Longrightarrow>
    pe_standard_security_ready w' = pe_standard_security_ready w \<and>
    (status \<noteq> LIBRDP_STATUS_CLOSED \<longrightarrow> pe_state w' = pe_state w)"
  by (auto simp: rdp_server_peer_send_all_def Let_def split: if_splits)

lemma send_mcs_frame: "wire_frame (rdp_server_send_mcs_pdu net mcs)"
  unfolding wire_frame_def rdp_server_send_mcs_pdu_def rdp_server_send_x224_data_def
  by (auto split: prod.splits if_splits dest!: send_all_frame)

lemma prepare_frame:
  "rdp_server_prepare_outbound_security_payload cr payload (w, m) = (status, out, w', m') \<Longrightarrow>
    pe_standard_security_ready w' = pe_standard_security_ready w \<and> pe_state w' = pe_state w"
  by (auto simp: rdp_server_prepare_outbound_security_payload_def split: prod.splits if_splits)

lemma send_slowpath_frame: "wire_frame (rdp_server_send_slowpath cr net pdu)"
  unfolding wire_frame_def rdp_server_send_slowpath_def
  by (auto split: prod.splits if_splits dest!: prepare_frame send_mcs_frame [unfolded wire_frame_def, rule_format])

lemma send_raw_frame:
  "wire_frame (\<lambda>(w, m). case rdp_server_peer_send_all net data w of (status, w) \<Rightarrow>
     (status, if status = LIBRDP_STATUS_OK then w\<lparr>pe_pdu_out := f w\<rparr> else w, m))"
  unfolding wire_frame_def by (auto split: prod.splits if_splits dest!: send_all_frame)

text \<open>The view is as it was, or the peer has ended.\<close>

abbreviation kept :: "security_view \<Rightarrow> ('c, 'k, 'n, 'e) server_peer \<Rightarrow> bool" where
  "kept v p \<equiv> view p = v \<or> sp_state p \<in> ended"

lemma kept_secure: "secure v \<Longrightarrow> kept v p \<Longrightarrow> safe p"
  using ended_secure [of "view p"] by auto

lemma hoare_on_wire:
  fixes Q :: "unit \<Rightarrow> ('c, 'k, 'n, 'e) server_peer \<Rightarrow> bool"
  assumes f: "wire_frame f" and Q: "\<And>p. at v p \<Longrightarrow> Q () p" and E: "\<And>p. kept v p \<Longrightarrow> E p"
  shows "hoare (at v) (on_wire f) Q E"
proof (rule hoareI)
  fix p :: "('c, 'k, 'n, 'e) server_peer" and m r p' m'
  assume p: "at v p" and run: "on_wire f (p, m) = (r, p', m')"
  obtain status w m1 where 1: "f (sp_wire p, m) = (status, w, m1)" by (rule prod_cases3)
  have "pe_standard_security_ready w = pe_standard_security_ready (sp_wire p)"
    "status \<noteq> LIBRDP_STATUS_CLOSED \<Longrightarrow> pe_state w = sp_state p"
    using f [unfolded wire_frame_def, rule_format, OF 1] by auto
  then show "case r of Inl _ \<Rightarrow> E p' | Inr x \<Rightarrow> Q x p'"
    using run 1 p Q [of p'] E [of p']
    by (auto simp: on_wire_def Let_def view_def ended_def rdp_server_close_peer_def rdp_server_set_state_def
        split: if_splits)
qed

lemma hoare_sends:
  assumes "\<And>p. at v p \<Longrightarrow> Q () p" and "\<And>p. kept v p \<Longrightarrow> E p"
  shows "hoare (at v) (server_send_mcs env mcs) Q E" "hoare (at v) (server_send_slowpath env pdu) Q E"
    "hoare (at v) (server_send_raw env data) Q E" "hoare (at v) (server_send_pdu env w) Q E"
  unfolding server_send_mcs_def server_send_slowpath_def server_send_raw_def server_send_pdu_def
  by (auto intro!: hoare_on_wire send_mcs_frame send_slowpath_frame send_raw_frame hoare_abind hoare_awrite assms)

lemma hoare_server_unwrap:
  "(\<And>x p. at v p \<Longrightarrow> Q x p) \<Longrightarrow> (\<And>p. at v p \<Longrightarrow> E p) \<Longrightarrow> hoare (at v) (server_unwrap env c input) Q E"
  by (rule hoareI) (auto simp: server_unwrap_def view_def split: prod.splits sum.splits option.splits)

lemma hoare_ending:
  "hoare P a Q (\<lambda>_. True) \<Longrightarrow> (\<And>p. E (h p)) \<Longrightarrow> hoare P (on_error (\<lambda>_. h) a) Q E"
  by (rule hoare_on_error)

lemmas frame_rules = hoare_rules hoare_sends hoare_server_unwrap hoare_amodify hoare_afill hoare_ending

section \<open>Negotiation\<close>

lemma select_protocol_policy:
  "rdp_server_select_protocol cfg request = Inr s \<Longrightarrow>
    mode_allows (sf_security_mode cfg) s \<and>
    s \<in> {RDP_X224_PROTOCOL_STANDARD, RDP_X224_PROTOCOL_TLS, RDP_X224_PROTOCOL_NLA}"
  by (cases "sf_security_mode cfg")
    (auto simp: rdp_server_select_protocol_def Let_def split: if_splits)

lemma protocols_distinct:
  "RDP_X224_PROTOCOL_STANDARD \<noteq> RDP_X224_PROTOCOL_TLS" "RDP_X224_PROTOCOL_STANDARD \<noteq> RDP_X224_PROTOCOL_NLA"
  "RDP_X224_PROTOCOL_TLS \<noteq> RDP_X224_PROTOCOL_NLA"
  by (simp_all add: RDP_X224_PROTOCOL_STANDARD_def RDP_X224_PROTOCOL_TLS_def RDP_X224_PROTOCOL_NLA_def)

lemma x224_failure_safe: "hoare (at v) (rdp_server_send_x224_failure env code) Q safe"
  unfolding rdp_server_send_x224_failure_def
  by (rule hoare_abind [OF _ hoare_change [OF hoare_amodify, where R = "\<lambda>_. safe"]])
    (rule frame_rules | simp)+

lemma x224_confirm_safe:
  assumes v: "secure v" and s: "mode_allows (sf_security_mode (v_config v)) s"
    "s \<in> {RDP_X224_PROTOCOL_STANDARD, RDP_X224_PROTOCOL_TLS, RDP_X224_PROTOCOL_NLA}"
  shows "hoare (at v) (x224_confirm env request s) (\<lambda>_. safe) safe"
proof -
  have next_safe: "secure (v\<lparr>v_selected := s, v_state := if s = RDP_X224_PROTOCOL_TLS \<or> s = RDP_X224_PROTOCOL_NLA
      then LIBRDP_SERVER_PEER_TLS_HANDSHAKING else LIBRDP_SERVER_PEER_X224_CONFIRMED\<rparr>)"
    using s protocols_distinct by (auto simp: secure_at protected_def)
  show ?thesis
    unfolding x224_confirm_def by (rule frame_rules | simp add: v next_safe; fail)+
qed

lemma x224_safe:
  assumes v: "secure v"
  shows "hoare (at v) (rdp_server_handle_x224 env packet) (\<lambda>_. safe) safe"
  unfolding rdp_server_handle_x224_def
proof (rule hoare_abind [OF hoare_ending [OF hoare_alift] hoare_aget_bind])
  fix request and p :: "('a, 'b, 'c, 'd) server_peer" assume p: "at v p"
  show "hoare (at v) (case rdp_server_select_protocol (sp_config p) request of
        Inl failure_code \<Rightarrow> rdp_server_send_x224_failure env failure_code
      | Inr s \<Rightarrow> x224_confirm env request s) (\<lambda>_. safe) safe"
  proof (cases "rdp_server_select_protocol (sp_config p) request")
    case (Inr s)
    then have "mode_allows (sf_security_mode (v_config v)) s"
      "s \<in> {RDP_X224_PROTOCOL_STANDARD, RDP_X224_PROTOCOL_TLS, RDP_X224_PROTOCOL_NLA}"
      using select_protocol_policy p by auto
    then show ?thesis using Inr x224_confirm_safe [OF v] by simp
  qed (simp add: x224_failure_safe)
qed simp_all

section \<open>TLS and CredSSP\<close>

lemma start_tls_safe:
  assumes v: "secure v" "v_state v = LIBRDP_SERVER_PEER_TLS_HANDSHAKING"
  shows "hoare (at v) (rdp_server_start_tls env) (\<lambda>_. safe) safe"
proof -
  have next_safe: "secure (v\<lparr>v_tls_active := True, v_state := if v_selected v = RDP_X224_PROTOCOL_NLA
      then LIBRDP_SERVER_PEER_NLA_AUTHENTICATING else LIBRDP_SERVER_PEER_X224_CONFIRMED\<rparr>)"
    using v protocols_distinct by (auto simp: secure_at protected_def)
  show ?thesis
    unfolding rdp_server_start_tls_def
    apply (rule frame_rules | (simp add: v next_safe flip: view_simps(3); fail))+
    done
qed

text \<open>
  The CredSSP exchange moves only the binding of the public key and, with the last message, the
  authentication and the state.
\<close>

lemma hoare_on_security:
  "(\<And>x p. at v p \<Longrightarrow> Q x p) \<Longrightarrow> (\<And>p. at v p \<Longrightarrow> E p) \<Longrightarrow> hoare (at v) (on_security f) Q E"
  by (rule hoareI) (auto simp: on_security_def view_def on_credssp_def split: prod.splits sum.splits)

lemma hoare_consume:
  assumes "\<And>p. at v p \<Longrightarrow> Q () p" "\<And>p. kept v p \<Longrightarrow> E p"
  shows "hoare (at v) (on_wire (\<lambda>(w, m). case rdp_buffer_consume n (pe_input w) of
    (status, b) \<Rightarrow> (status, w\<lparr>pe_input := b\<rparr>, m))) Q E"
  by (rule hoare_on_wire) (auto simp: wire_frame_def assms split: prod.splits)

lemma hoare_strdup:
  "(\<And>x p. P p \<Longrightarrow> Q x p) \<Longrightarrow> (\<And>p. P p \<Longrightarrow> E p) \<Longrightarrow> hoare P (strdup t) Q E"
  by (rule hoareI) (auto simp: strdup_def split: prod.splits option.splits)

lemmas credssp_rules = frame_rules hoare_on_security hoare_consume hoare_strdup

lemma hoare_credssp_request:
  assumes "\<And>x p. at v p \<Longrightarrow> Q x p" "\<And>p. kept v p \<Longrightarrow> E p"
  shows "hoare (at v) (credssp_request env) Q E"
  unfolding credssp_request_def rdp_server_read_credssp_ts_request_def server_read_chunk_def
    rdp_server_credssp_accept_version_def
  by (rule credssp_rules | (simp add: assms; fail))+

lemma hoare_accept_nonce:
  assumes "\<And>p. at v p \<Longrightarrow> Q () p" "\<And>p. at v p \<Longrightarrow> E p"
  shows "hoare (at v) (rdp_server_credssp_accept_client_nonce request required) Q E"
  unfolding rdp_server_credssp_accept_client_nonce_def
  by (rule credssp_rules | (simp add: assms; fail))+

lemma hoare_prepare_challenge:
  assumes "\<And>x p. at v p \<Longrightarrow> Q x p" "\<And>p. at v p \<Longrightarrow> E p"
  shows "hoare (at v) (rdp_server_prepare_credssp_challenge env) Q E"
  unfolding rdp_server_prepare_credssp_challenge_def
  by (rule credssp_rules | (simp add: assms; fail))+

lemma hoare_resolve:
  assumes "\<And>p. at v p \<Longrightarrow> Q () p" "\<And>p. at v p \<Longrightarrow> E p"
  shows "hoare (at v) (rdp_server_credssp_resolve_expected_credentials env authenticate version) Q E"
  unfolding rdp_server_credssp_resolve_expected_credentials_def rdp_server_credssp_expected_set_def Let_def
    rdp_server_credssp_expected_clear_def
  by (rule hoare_on_error [where E' = "at v"], (rule credssp_rules | (simp add: assms; fail))+)

lemma hoare_send_ts:
  assumes "\<And>p. at v p \<Longrightarrow> Q () p" "\<And>p. kept v p \<Longrightarrow> E p"
  shows "hoare (at v) (rdp_server_send_credssp_ts_request env version token auth key) Q E"
    and "hoare (at v) (rdp_server_reject_credssp_authentication env version reason) Q E"
  unfolding rdp_server_send_credssp_ts_request_def rdp_server_reject_credssp_authentication_def Let_def
  by (rule credssp_rules | (simp add: assms; fail))+

lemma view_credssp_failed [simp]: "view (credssp_failed e p) = view p"
  by (simp add: credssp_failed_def rdp_server_credssp_expected_clear_def)

lemma state_of_view: "view p = v \<Longrightarrow> sp_state p = v_state v"
  by auto

lemma credssp_failed_kept: "kept v p \<Longrightarrow> kept v (credssp_failed e p)"
  using view_credssp_failed [of e p] by (metis view_simps(1))

lemmas credssp_steps = hoare_credssp_request hoare_accept_nonce hoare_prepare_challenge hoare_resolve hoare_send_ts
  hoare_on_security hoare_consume hoare_strdup frame_rules

lemma hoare_bind_public_key:
  assumes "\<And>p. at (v\<lparr>v_bound := True\<rparr>) p \<Longrightarrow> Q () p" "\<And>p. kept v p \<Longrightarrow> E p"
  shows "hoare (at v) (credssp_bind_public_key env request) Q E"
  unfolding credssp_bind_public_key_def rdp_server_tls_public_key_def
  by (rule credssp_steps | (simp add: assms; fail))+

definition authenticating :: "security_view \<Rightarrow> bool" where
  "authenticating v \<longleftrightarrow> secure v \<and> v_state v = LIBRDP_SERVER_PEER_NLA_AUTHENTICATING"

lemma authenticating_secure: "authenticating v \<Longrightarrow> secure v" "authenticating v \<Longrightarrow> secure (v\<lparr>v_bound := True\<rparr>)"
  by (auto simp: authenticating_def secure_at)

lemma negotiate_safe:
  assumes v: "authenticating v"
  shows "hoare (at v) (rdp_server_handle_credssp_negotiate env) (\<lambda>_. safe) safe"
  unfolding rdp_server_handle_credssp_negotiate_def
  by (rule credssp_steps | (simp add: authenticating_secure [OF v]; fail) |
      erule kept_secure [OF authenticating_secure(1) [OF v]])+

lemma pubkey_safe:
  assumes v: "authenticating v"
  shows "hoare (at v) (rdp_server_handle_credssp_pubkey env) (\<lambda>_. safe) safe"
  unfolding rdp_server_handle_credssp_pubkey_def
  by (rule hoare_on_error [where E' = "kept v"])
    (rule hoare_bind_public_key credssp_steps | (simp add: authenticating_secure [OF v]; fail) |
      erule kept_secure [OF authenticating_secure(1) [OF v] credssp_failed_kept])+

lemma authenticate_safe:
  assumes v: "authenticating v"
  shows "hoare (at v) (rdp_server_handle_credssp_authenticate env) (\<lambda>_. safe) safe"
  unfolding rdp_server_handle_credssp_authenticate_def
  apply (rule hoare_on_error [where E' = "kept v"])
    apply (rule hoare_acatch [where E' = "at v"] hoare_bind_public_key credssp_steps | (simp add: authenticating_secure [OF v]; fail) |
      erule kept_secure [OF authenticating_secure(1) [OF v] credssp_failed_kept])+
  done

lemma credentials_safe:
  assumes v: "authenticating v"
  shows "hoare (at v) (rdp_server_handle_credssp_credentials env) (\<lambda>_. safe) safe"
proof -
  have final: "v_bound v \<Longrightarrow> secure (v\<lparr>v_authenticated := True, v_state := LIBRDP_SERVER_PEER_X224_CONFIRMED\<rparr>)"
    using v protocols_distinct by (auto simp: authenticating_def secure_at protected_def)
  have bound: "np_public_key_bound (sp_credssp p) = v_bound v" if "at v p" for p :: "('a, 'b, 'c, 'd) server_peer"
    using that by (auto simp: view_def)
  show ?thesis
  unfolding rdp_server_handle_credssp_credentials_def
  apply (rule hoare_on_error [where E' = "kept v"])
    apply (rule credssp_steps | (simp add: authenticating_secure [OF v] final bound rdp_server_credssp_expected_clear_def; fail) |
      erule kept_secure [OF authenticating_secure(1) [OF v] credssp_failed_kept])+
  done
qed

lemma credssp_safe:
  assumes v: "authenticating v"
  shows "hoare (at v) (rdp_server_handle_credssp env) (\<lambda>_. safe) safe"
  unfolding rdp_server_handle_credssp_def Let_def
  by (rule hoare_rules negotiate_safe authenticate_safe pubkey_safe credentials_safe v |
    (simp add: authenticating_secure [OF v]; fail))+

section \<open>The feature modules\<close>

text \<open>
  What is relied on: a feature entry point does not touch the security state of the connection; it may end
  the connection. Setting the dimensions of the surface ends it only when it fails.
\<close>

definition hook_frame :: "('c, 'k, 'n, 'e) server_hook \<Rightarrow> bool" where
  "hook_frame h \<longleftrightarrow> (\<forall>p m status p' m'. h (p, m) = (status, p', m') \<longrightarrow> kept (view p) p')"

definition hooks_ok :: "('c, 'k, 'n, 'e) server_hooks \<Rightarrow> bool" where
  "hooks_ok hooks \<longleftrightarrow>
     (\<forall>w h p m status p' m'. hk_surface_set_dimensions hooks w h (p, m) = (status, p', m') \<longrightarrow>
        (if status = LIBRDP_STATUS_OK then view p' = view p else kept (view p) p')) \<and>
     (\<forall>x y w h. hook_frame (hk_surface_present_rect hooks x y w h)) \<and>
     (\<forall>d. hook_frame (hk_autodetect_handle hooks d)) \<and>
     (\<forall>i c d. hook_frame (hk_static_channel_message hooks i c d)) \<and>
     hook_frame (hk_dynamic_channels_start hooks) \<and> hook_frame (hk_device_redirection_start hooks) \<and>
     hook_frame (hk_autodetect_start hooks)"

lemma hoare_hook:
  assumes h: "hook_frame h" and Q: "\<And>p. kept v p \<Longrightarrow> Q () p" and E: "\<And>p. kept v p \<Longrightarrow> E p"
  shows "hoare (kept v) (acall h) Q E"
proof (rule hoare_acall)
  fix p m st p' m' assume p: "kept v p" and run: "h (p, m) = (st, p', m')"
  have "kept (view p) p'" using h run unfolding hook_frame_def by blast
  then have "kept v p'" using p by (metis view_simps(1))
  then show "if st = LIBRDP_STATUS_OK then Q () p' else E p'" using Q E by simp
qed

lemma hoare_set_dimensions:
  assumes h: "hooks_ok hooks" and Q: "\<And>p. at v p \<Longrightarrow> Q () p" and E: "\<And>p. kept v p \<Longrightarrow> E p"
  shows "hoare (at v) (acall (hk_surface_set_dimensions hooks w h')) Q E"
proof (rule hoare_acall)
  fix p m st p' m' assume p: "at v p" and run: "hk_surface_set_dimensions hooks w h' (p, m) = (st, p', m')"
  have "if st = LIBRDP_STATUS_OK then view p' = view p else kept (view p) p'"
    using h run unfolding hooks_ok_def by blast
  then show "if st = LIBRDP_STATUS_OK then Q () p' else E p'" using p Q E by (auto split: if_splits)
qed

section \<open>The connection sequence\<close>

lemma view_connect_channels [simp]: "view (connect_channels hooks cd p) = view p"
  by (simp add: connect_channels_def Let_def view_def)

lemma view_join_channel [simp]: "view (join_channel hooks c p) = view p"
  by (simp add: join_channel_def Let_def view_def split: option.split)

lemma protected_state: "protected (v\<lparr>v_state := st\<rparr>) = protected v"
  by (simp add: protected_def)

lemma connect_safe:
  assumes v: "secure v" "v_state v = LIBRDP_SERVER_PEER_X224_CONFIRMED" and h: "hooks_ok hooks"
  shows "hoare (at v) (rdp_server_handle_mcs_connect_initial env hooks packet) (\<lambda>_. safe) safe"
proof -
  have "secure (v\<lparr>v_state := LIBRDP_SERVER_PEER_MCS_CONNECTED\<rparr>)"
    using v by (simp add: secure_at protected_state)
  then show ?thesis
    unfolding rdp_server_handle_mcs_connect_initial_def connect_desktop_def rdp_server_prepare_standard_security_def Let_def
    by (intro hoare_ending) (rule hoare_set_dimensions [OF h] frame_rules | (simp; fail))+
qed

lemma erect_domain_safe:
  assumes v: "secure v" "v_state v = LIBRDP_SERVER_PEER_MCS_CONNECTED"
  shows "hoare (at v) (rdp_server_handle_erect_domain packet) (\<lambda>_. safe) safe"
  unfolding rdp_server_handle_erect_domain_def
  by (rule frame_rules | (use v in \<open>simp add: secure_at protected_state\<close>; fail))+

lemma attach_user_safe:
  assumes v: "secure v" "v_state v = LIBRDP_SERVER_PEER_DOMAIN_READY"
  shows "hoare (at v) (rdp_server_handle_attach_user env packet) (\<lambda>_. safe) safe"
  unfolding rdp_server_handle_attach_user_def
  by (rule frame_rules | (use v in \<open>simp add: secure_at protected_state\<close>; fail))+

lemma hoare_license:
  assumes "\<And>p. at (v\<lparr>v_licensed := True, v_state := LIBRDP_SERVER_PEER_LICENSING\<rparr>) p \<Longrightarrow> Q () p"
    "\<And>p. kept v p \<Longrightarrow> E p"
  shows "hoare (at v) (rdp_server_send_valid_client_license env) Q E"
  unfolding rdp_server_send_valid_client_license_def
  by (rule frame_rules | (simp add: assms; fail))+

lemma protected_flags [simp]:
  "protected (v\<lparr>v_licensed := b\<rparr>) = protected v" "protected (v\<lparr>v_info := b\<rparr>) = protected v"
  "protected (v\<lparr>v_ready := b\<rparr>) = protected v" "protected (v\<lparr>v_state := st\<rparr>) = protected v"
  by (simp_all add: protected_def)

lemma channel_join_safe:
  assumes v: "secure v" "v_state v \<in> {LIBRDP_SERVER_PEER_USER_ATTACHED, LIBRDP_SERVER_PEER_CHANNEL_JOINING}"
  shows "hoare (at v) (rdp_server_handle_channel_join env hooks packet) (\<lambda>_. safe) safe"
proof -
  have pv: "protected v" using v secure_connecting [of v] by auto
  have later: "secure (v\<lparr>v_state := LIBRDP_SERVER_PEER_CHANNEL_JOINING\<rparr>)"
    "secure (v\<lparr>v_licensed := True, v_state := LIBRDP_SERVER_PEER_LICENSING\<rparr>)"
    using pv by (simp_all add: secure_at)
  show ?thesis
    unfolding rdp_server_handle_channel_join_def
    by (rule hoare_license frame_rules | (simp add: later v; fail) | erule kept_secure [OF v(1)])+
qed

lemma hoare_demand_active:
  assumes "\<And>p. at (v\<lparr>v_state := LIBRDP_SERVER_PEER_ACTIVATING\<rparr>) p \<Longrightarrow> Q () p" "\<And>p. kept v p \<Longrightarrow> E p"
  shows "hoare (at v) (rdp_server_send_demand_active env) Q E"
  unfolding rdp_server_send_demand_active_def
  by (rule frame_rules | (simp add: assms; fail))+

lemma hoare_standard_init:
  "(\<And>p. at v p \<Longrightarrow> Q () p) \<Longrightarrow> hoare (at v) (on_wire (\<lambda>(w, m).
    case rdp_security_standard_server_init cr meth client server (pe_standard_security w) of
      (status, security) \<Rightarrow> (status, w\<lparr>pe_standard_security := security\<rparr>, m))) Q (\<lambda>_. True)"
  by (rule hoare_on_wire) (auto simp: wire_frame_def split: prod.splits)

lemma ready_some: "at v p \<Longrightarrow> \<exists>b. at (v\<lparr>v_ready := b\<rparr>) p"
  by (intro exI [of _ "v_ready v"]) (cases v, simp)

lemma ready_set: "at v p \<Longrightarrow> \<exists>b. at (v\<lparr>v_ready := b\<rparr>) (p\<lparr>sp_wire := (sp_wire p)\<lparr>pe_standard_security_ready := True\<rparr>\<rparr>)"
  by (intro exI [of _ True]) simp

lemma hoare_security_exchange:
  "hoare (at v) (rdp_server_handle_security_exchange env input) (\<lambda>_ p. \<exists>b. at (v\<lparr>v_ready := b\<rparr>) p) (\<lambda>_. True)"
  unfolding rdp_server_handle_security_exchange_def Let_def
  by (rule hoare_standard_init frame_rules | (simp; fail) | erule ready_set)+

lemma hoare_parse_info:
  "(\<And>x p. at v p \<Longrightarrow> Q x p) \<Longrightarrow> (\<And>p. at v p \<Longrightarrow> E p) \<Longrightarrow>
    hoare (at v) (rdp_server_parse_client_info_security_payload env input) Q E"
  unfolding rdp_server_parse_client_info_security_payload_def
  by (rule frame_rules | (simp; fail))+

lemma hoare_exists: "(\<And>b. hoare (P b) a Q E) \<Longrightarrow> hoare (\<lambda>p. \<exists>b. P b p) a Q E"
  by (auto simp: hoare_def)

lemma client_info_tail:
  assumes v: "secure v" "v_state v = LIBRDP_SERVER_PEER_LICENSING"
  shows "hoare (at (v\<lparr>v_ready := b\<rparr>)) (if c then aret () else
    athen (amodify (\<lambda>p. p\<lparr>sp_client_info_seen := True\<rparr>)) (rdp_server_send_demand_active env)) (\<lambda>_. safe) (\<lambda>_. True)"
proof -
  have later: "secure (v\<lparr>v_ready := b\<rparr>)" "secure (v\<lparr>v_ready := b, v_info := True, v_state := LIBRDP_SERVER_PEER_ACTIVATING\<rparr>)"
    using v by (simp_all add: secure_at)
  show ?thesis
    by (rule hoare_if hoare_aret hoare_change [OF hoare_amodify, where R = "\<lambda>_. at (v\<lparr>v_ready := b, v_info := True\<rparr>)"]
      hoare_demand_active | (simp add: later; fail))+
qed

lemma client_info_safe:
  assumes v: "secure v" "v_state v = LIBRDP_SERVER_PEER_LICENSING"
  shows "hoare (at v) (rdp_server_handle_client_info env packet) (\<lambda>_. safe) safe"
  unfolding rdp_server_handle_client_info_def Let_def
  by (rule hoare_ending hoare_aget_bind hoare_afail_if_bind hoare_alift_bind
      hoare_change [where R = "\<lambda>_ p. \<exists>b. at (v\<lparr>v_ready := b\<rparr>) p", OF _ hoare_exists [OF client_info_tail [OF v]]]
      hoare_if hoare_security_exchange hoare_abind [OF hoare_parse_info] hoare_aret |
    (simp; fail) | erule ready_some)+

section \<open>Runtime\<close>

text \<open>At runtime every action leaves the view alone or ends the peer, until the font list makes it active.\<close>

lemma hoare_emit:
  "(\<And>p. kept v p \<Longrightarrow> Q () p) \<Longrightarrow> hoare (kept v) (rdp_server_emit_input event) Q E"
  unfolding rdp_server_emit_input_def by (rule hoare_amodify) simp

lemma hoare_input_loop: "hoare (kept v) (input_events_loop n stream) (\<lambda>_. kept v) (\<lambda>_. True)"
proof (induction n arbitrary: stream)
  case (Suc n)
  show ?case
    unfolding input_events_loop.simps
    by (rule hoare_rules hoare_emit Suc.IH | (simp; fail))+
qed (simp add: hoare_aret)

lemma hoare_flush:
  "hooks_ok hooks \<Longrightarrow> hoare (kept v) (rdp_server_surface_flush_repaint hooks) (\<lambda>_. kept v) (\<lambda>_. True)"
  unfolding rdp_server_surface_flush_repaint_def hooks_ok_def
  by (rule hoare_rules hoare_hook | (simp; fail))+

lemma hoare_present:
  "hooks_ok hooks \<Longrightarrow> hoare (kept v) (acatch (acall (hk_surface_present_rect hooks x y w h))
    (\<lambda>e. if e = LIBRDP_STATUS_STATE then aret () else afail e)) (\<lambda>_. kept v) (\<lambda>_. True)"
  unfolding hooks_ok_def
  by (rule hoare_acatch [where E' = "kept v"] hoare_rules hoare_hook | (simp; fail))+

lemma hoare_refresh_loop:
  "hooks_ok hooks \<Longrightarrow> hoare (kept v) (refresh_rect_loop hooks n stream) (\<lambda>_. kept v) (\<lambda>_. True)"
proof (induction n arbitrary: stream)
  case (Suc n)
  show ?case
    unfolding refresh_rect_loop.simps
    by (rule hoare_present [OF Suc.prems] hoare_rules hoare_emit Suc.IH [OF Suc.prems] | (simp; fail))+
qed (simp add: hoare_aret)

lemma hoare_suppress:
  "hooks_ok hooks \<Longrightarrow> hoare (kept v) (rdp_server_handle_suppress_output hooks payload) (\<lambda>_. kept v) (\<lambda>_. True)"
  unfolding rdp_server_handle_suppress_output_def Let_def
  by (rule hoare_rules hoare_emit hoare_flush hoare_amodify | (simp; fail))+

lemma hoare_kept: "hoare (kept v) a Q E \<Longrightarrow> hoare (at v) a Q E"
  by (rule hoare_weaken [where P = "kept v" and Q = Q and E = E]) auto

lemma hoare_activate:
  "hoare (kept (v\<lparr>v_state := LIBRDP_SERVER_PEER_ACTIVE\<rparr>)) b Q E \<Longrightarrow>
    hoare (at v) (athen (amodify (rdp_server_set_state LIBRDP_SERVER_PEER_ACTIVE)) b) Q E"
  by (rule hoare_change [OF hoare_amodify, where R = "\<lambda>_. kept (v\<lparr>v_state := LIBRDP_SERVER_PEER_ACTIVE\<rparr>)"]) simp_all

lemma hoare_font_list:
  assumes h: "hooks_ok hooks"
  shows "hoare (at v) (runtime_font_list env hooks pdu)
    (\<lambda>_. kept (v\<lparr>v_state := LIBRDP_SERVER_PEER_ACTIVE\<rparr>)) (\<lambda>_. True)"
  unfolding runtime_font_list_def rdp_server_send_font_map_def rdp_server_emit_input_def
  by (rule hoare_activate hoare_hook hoare_flush [OF h] frame_rules | (insert h, simp add: hooks_ok_def; fail))+

lemma hoare_confirm:
  "hoare (at v) (runtime_confirm_active env payload) (\<lambda>_. kept v) (\<lambda>_. True)"
  unfolding runtime_confirm_active_def rdp_server_send_activation_responses_def
  by (rule frame_rules | (simp; fail))+

lemma hoare_runtime_small:
  "hoare (at v) (runtime_synchronize pdu) (\<lambda>_. kept v) (\<lambda>_. True)"
  "hoare (at v) (runtime_control pdu) (\<lambda>_. kept v) (\<lambda>_. True)"
  "hoare (at v) (rdp_server_handle_input_events payload) (\<lambda>_. kept v) (\<lambda>_. True)"
  unfolding runtime_synchronize_def runtime_control_def rdp_server_handle_input_events_def Let_def
    rdp_server_emit_input_def
  by (rule hoare_kept [OF hoare_input_loop] frame_rules | (simp; fail))+

lemma hoare_refresh:
  "hooks_ok hooks \<Longrightarrow> hoare (at v) (rdp_server_handle_refresh_rect hooks payload) (\<lambda>_. kept v) (\<lambda>_. True)"
  unfolding rdp_server_handle_refresh_rect_def
  by (rule hoare_kept [OF hoare_refresh_loop] frame_rules | (simp; fail))+

lemma runtime_payload_safe:
  assumes v: "secure v" and active: "secure (v\<lparr>v_state := LIBRDP_SERVER_PEER_ACTIVE\<rparr>)" and h: "hooks_ok hooks"
  shows "hoare (at v) (runtime_payload env hooks channel_id payload) (\<lambda>_. safe) (\<lambda>_. True)"
proof -
  note weaken = hoare_weaken [where E = "\<lambda>_. True" and P = "at v"]
  show ?thesis
    unfolding runtime_payload_def runtime_data_pdu_def Let_def
    by (rule weaken [OF hoare_font_list [OF h]] weaken [OF hoare_confirm] weaken [OF hoare_runtime_small(1)]
        weaken [OF hoare_runtime_small(2)] weaken [OF hoare_runtime_small(3)] weaken [OF hoare_refresh [OF h]]
        weaken [OF hoare_kept [OF hoare_suppress [OF h]]] hoare_kept [OF hoare_hook] hoare_rules
      | (insert h, simp add: hooks_ok_def v; fail) | erule kept_secure [OF v] kept_secure [OF active])+
qed

text \<open>Under Standard Security nothing is unwrapped before the keys are there.\<close>

lemma hoare_unwrap_optional:
  "hoare (at v) (rdp_server_unwrap_optional_security_header env input)
    (\<lambda>_ p. at v p \<and> (v_selected v = RDP_X224_PROTOCOL_STANDARD \<longrightarrow> v_ready v)) (\<lambda>_. True)"
proof -
  have standard: "rdp_server_uses_standard_security p \<longleftrightarrow> v_selected v = RDP_X224_PROTOCOL_STANDARD"
    "pe_standard_security_ready (sp_wire p) = v_ready v" if "at v p" for p :: "('a, 'b, 'c, 'd) server_peer"
    using that by (auto simp: rdp_server_uses_standard_security_def)
  show ?thesis
    unfolding rdp_server_unwrap_optional_security_header_def
    by (rule hoare_aget_bind hoare_if hoare_aret hoare_afail hoare_change [OF hoare_server_unwrap, where R = "\<lambda>_. at v"]
      hoare_cases hoare_afail_if_bind | (simp add: standard; fail))+
qed

lemma runtime_data_safe:
  assumes v: "secure v" "v_state v \<in> {LIBRDP_SERVER_PEER_ACTIVATING, LIBRDP_SERVER_PEER_ACTIVE}" and h: "hooks_ok hooks"
  shows "hoare (at v) (rdp_server_handle_runtime_data env hooks packet) (\<lambda>_. safe) safe"
proof -
  have active: "v_selected v = RDP_X224_PROTOCOL_STANDARD \<longrightarrow> v_ready v \<Longrightarrow>
      secure (v\<lparr>v_state := LIBRDP_SERVER_PEER_ACTIVE\<rparr>)"
    using v by (auto simp: secure_at)
  have tail: "hoare (\<lambda>p. at v p \<and> (v_selected v = RDP_X224_PROTOCOL_STANDARD \<longrightarrow> v_ready v))
      (runtime_payload env hooks channel payload) (\<lambda>_. safe) (\<lambda>_. True)" for channel payload
    using runtime_payload_safe [OF v(1) active h, of env channel payload] by (auto simp: hoare_def)
  show ?thesis
    unfolding rdp_server_handle_runtime_data_def
    by (rule hoare_ending hoare_change [OF hoare_unwrap_optional tail] hoare_kept [OF hoare_hook] hoare_rules hoare_amodify
      | (insert h, simp add: hooks_ok_def; fail) | erule kept_secure [OF v(1)])+
qed

section \<open>Every step\<close>

lemma resize_safe:
  assumes v: "secure v" and h: "hooks_ok hooks"
  shows "hoare (at v) (librdp_server_peer_surface_resize env hooks width height) (\<lambda>_. safe) safe"
proof (cases "v_state v = LIBRDP_SERVER_PEER_ACTIVE")
  case True
  then have "secure (v\<lparr>v_state := LIBRDP_SERVER_PEER_ACTIVATING\<rparr>)" using v by (simp add: secure_at)
  then show ?thesis
    unfolding librdp_server_peer_surface_resize_def rdp_server_send_deactivate_all_def
    by (intro hoare_aget_bind) (rule hoare_set_dimensions [OF h] hoare_demand_active frame_rules
      | (simp add: v; fail) | erule kept_secure [OF v])+
next
  case False
  then show ?thesis
    unfolding librdp_server_peer_surface_resize_def
    by (intro hoare_aget_bind) (rule hoare_set_dimensions [OF h] hoare_abind hoare_awhen
      | (simp add: v; fail) | erule kept_secure [OF v] | (drule state_of_view, simp; fail))+
qed

lemma send_channel_frame: "wire_frame (librdp_server_peer_send_channel_data cr net channel_id data)"
proof -
  let ?send = "rdp_server_send_static_channel_fragment cr net channel_id"
  have fragment: "wire_frame (?send d n flags)" for d n flags
    unfolding wire_frame_def rdp_server_send_static_channel_fragment_def
    by (auto split: prod.splits if_splits dest!: prepare_frame send_mcs_frame [unfolded wire_frame_def, rule_format])
  have "send_fragments ?send data offset s = (status, w', m') \<Longrightarrow>
      pe_standard_security_ready w' = pe_standard_security_ready (fst s) \<and>
      (status \<noteq> LIBRDP_STATUS_CLOSED \<longrightarrow> pe_state w' = pe_state (fst s))" for offset s status w' m'
  proof (induction ?send data offset s arbitrary: w' m' rule: send_fragments.induct)
    case (1 data offset s)
    obtain st w1 m1 where s1: "?send (take (chunk_size data offset) (drop offset data)) (length data)
        (chunk_flags data offset) s = (st, w1, m1)" by (rule prod_cases3)
    obtain w m where s: "s = (w, m)" by force
    note f = fragment [unfolded wire_frame_def, rule_format, OF s1 [unfolded s]]
    have run: "send_fragments ?send data offset s =
        (if st = LIBRDP_STATUS_OK \<and> offset + chunk_size data offset < length data
         then send_fragments ?send data (offset + chunk_size data offset) (w1, m1) else (st, w1, m1))"
      by (subst send_fragments.simps) (simp add: s1 Let_def)
    show ?case
    proof (cases "st = LIBRDP_STATUS_OK \<and> offset + chunk_size data offset < length data")
      case True
      then have "send_fragments ?send data (offset + chunk_size data offset) (w1, m1) = (status, w', m')"
        using 1(2) run by simp
      from 1(1) [OF refl s1 [symmetric] True this] show ?thesis using f s True by simp
    next
      case False
      then show ?thesis using 1(2) run f s by auto
    qed
  qed
  then show ?thesis
    unfolding wire_frame_def librdp_server_peer_send_channel_data_def
    by (fastforce split: prod.splits if_splits option.splits)
qed

lemma read_tpkt_frame:
  "rdp_server_read_tpkt fuel segs (w, m) = (r, segs', w', m') \<Longrightarrow>
    pe_standard_security_ready w' = pe_standard_security_ready w \<and>
    (pe_state w' = pe_state w \<or> pe_state w' \<in> ended \<and> (\<exists>e. r = Some (Inl e)))"
proof (induction fuel arbitrary: segs w m)
  case (Suc fuel)
  obtain parsed w1 where parsed: "rdp_server_parse_buffered_tpkt w = (parsed, w1)" by force
  have w1: "pe_standard_security_ready w1 = pe_standard_security_ready w"
    "pe_state w1 = pe_state w \<or> pe_state w1 \<in> ended \<and> (\<exists>e. parsed = Inl e)"
    using parsed by (auto simp: rdp_server_parse_buffered_tpkt_def Let_def split: if_splits sum.splits)
  show ?case
    using Suc.prems Suc.IH parsed w1
    by (fastforce simp: Let_def split: sum.splits option.splits if_splits prod.splits)
qed auto

lemma hoare_read_packet:
  assumes v: "secure v"
  shows "hoare (at v) (server_read_packet env) (\<lambda>_. at v) safe"
proof (rule hoareI)
  fix p :: "('a, 'b, 'c, 'd) server_peer" and m r p' m'
  assume p: "at v p" and run: "server_read_packet env (p, m) = (r, p', m')"
  obtain ro segs w m1 where rd: "rdp_server_read_tpkt 65537 (env_segments env) (sp_wire p, m) = (ro, segs, w, m1)"
    by (rule prod_cases4)
  note frame = read_tpkt_frame [OF rd]
  have "view (p\<lparr>sp_wire := w\<rparr>) = view p" if "pe_state w = sp_state p"
    using frame that by (simp add: view_def)
  moreover have "safe (p\<lparr>sp_wire := w\<rparr>)" if "pe_state w \<in> ended" using that by simp
  ultimately show "case r of Inl _ \<Rightarrow> safe p' | Inr _ \<Rightarrow> at v p'"
    using run rd frame p v
    by (auto simp: server_read_packet_def Let_def split: if_splits option.splits sum.splits)
qed

lemma hoare_safe: "(\<And>v. secure v \<Longrightarrow> hoare (at v) a (\<lambda>_. safe) safe) \<Longrightarrow> hoare safe a (\<lambda>_. safe) safe"
  by (auto simp: hoare_def)

lemma dispatch_safe:
  assumes v: "secure v" and h: "hooks_ok hooks"
  shows "hoare (at v) (server_dispatch env hooks packet) (\<lambda>_. safe) safe"
  unfolding server_dispatch_def
proof (rule hoare_aget_bind)
  fix p :: "('a, 'b, 'c, 'd) server_peer" assume "at v p"
  then have st: "sp_state p = v_state v" by auto
  have idle: "hoare (at v) (afail LIBRDP_STATUS_STATE) (\<lambda>_. safe) safe" by (rule hoare_afail) (simp add: v)
  show "hoare (at v) (case sp_state p of
       LIBRDP_SERVER_PEER_NEGOTIATING \<Rightarrow> rdp_server_handle_x224 env packet
     | LIBRDP_SERVER_PEER_X224_CONFIRMED \<Rightarrow> rdp_server_handle_mcs_connect_initial env hooks packet
     | LIBRDP_SERVER_PEER_MCS_CONNECTED \<Rightarrow> rdp_server_handle_erect_domain packet
     | LIBRDP_SERVER_PEER_DOMAIN_READY \<Rightarrow> rdp_server_handle_attach_user env packet
     | LIBRDP_SERVER_PEER_USER_ATTACHED \<Rightarrow> rdp_server_handle_channel_join env hooks packet
     | LIBRDP_SERVER_PEER_CHANNEL_JOINING \<Rightarrow> rdp_server_handle_channel_join env hooks packet
     | LIBRDP_SERVER_PEER_LICENSING \<Rightarrow> rdp_server_handle_client_info env packet
     | LIBRDP_SERVER_PEER_ACTIVATING \<Rightarrow> rdp_server_handle_runtime_data env hooks packet
     | LIBRDP_SERVER_PEER_ACTIVE \<Rightarrow> rdp_server_handle_runtime_data env hooks packet
     | _ \<Rightarrow> afail LIBRDP_STATUS_STATE) (\<lambda>_. safe) safe"
    unfolding st
    by (cases "v_state v")
      (simp_all add: idle x224_safe connect_safe erect_domain_safe attach_user_safe channel_join_safe client_info_safe
        runtime_data_safe v h)
qed

lemma consume_safe: "hoare safe (server_consume n) (\<lambda>_. safe) safe"
  unfolding server_consume_def
  by (rule hoare_rules hoare_safe [OF hoare_consume] | (simp; fail) | erule (1) kept_secure)+

lemma view_count [simp]: "view (count_error e p) = view p"
  by (simp add: count_error_def)

lemma negotiating_secure: "secure (v\<lparr>v_state := LIBRDP_SERVER_PEER_NEGOTIATING\<rparr>)"
  by (simp add: secure_def admitted_states_def)

lemma packet_safe:
  assumes h: "hooks_ok hooks"
  shows "hoare safe (on_error count_error
      (athen (acatch (server_dispatch env hooks packet)
          (\<lambda>e. athen (acatch (server_consume n) (\<lambda>_. aret ())) (afail e)))
        (server_consume n))) (\<lambda>_. safe) safe"
  by (rule hoare_on_error [where E' = safe] hoare_acatch [where E' = safe] hoare_safe [OF dispatch_safe [OF _ h]]
      consume_safe hoare_rules | assumption | (simp; fail))+

lemma handshake_safe:
  assumes "hoare (at v) a (\<lambda>_. safe) safe"
  shows "hoare (at v) (on_error count_and_close a) (\<lambda>_. safe) safe"
  by (rule hoare_on_error [OF assms]) (simp add: count_and_close_def)

lemma run_once_safe:
  assumes h: "hooks_ok hooks"
  shows "hoare safe (librdp_server_peer_run_once env hooks) (\<lambda>_. safe) safe"
proof -
  let ?rest = "abind (aget sp_state) (\<lambda>state.
      if state = LIBRDP_SERVER_PEER_TLS_HANDSHAKING then on_error count_and_close (rdp_server_start_tls env)
      else if state = LIBRDP_SERVER_PEER_NLA_AUTHENTICATING then on_error count_and_close (rdp_server_handle_credssp env)
      else abind (server_read_packet env) (\<lambda>(packet, packet_len).
        on_error count_error
          (athen (acatch (server_dispatch env hooks packet)
              (\<lambda>e. athen (acatch (server_consume packet_len) (\<lambda>_. aret ())) (afail e)))
            (server_consume packet_len))))"
  have rest: "hoare safe ?rest (\<lambda>_. safe) safe"
  proof (rule hoare_safe)
    fix v assume v: "secure v"
    have tls: "hoare (at v) (on_error count_and_close (rdp_server_start_tls env)) (\<lambda>_. safe) safe"
      if "sp_state p = LIBRDP_SERVER_PEER_TLS_HANDSHAKING" "at v p" for p :: "('a, 'b, 'c, 'd) server_peer"
      using that by (intro handshake_safe start_tls_safe v) auto
    have nla: "hoare (at v) (on_error count_and_close (rdp_server_handle_credssp env)) (\<lambda>_. safe) safe"
      if "sp_state p = LIBRDP_SERVER_PEER_NLA_AUTHENTICATING" "at v p" for p :: "('a, 'b, 'c, 'd) server_peer"
      using that by (intro handshake_safe credssp_safe) (auto simp: v authenticating_def)
    show "hoare (at v) ?rest (\<lambda>_. safe) safe"
      by (rule hoare_aget_bind hoare_if tls nla hoare_cases packet_safe [OF h]
          hoare_change [OF hoare_weaken [OF hoare_read_packet [OF v]], where R = "\<lambda>_. safe"]
        | assumption | (simp add: v; fail))+
  qed
  show ?thesis
    unfolding librdp_server_peer_run_once_def
    by (rule rest hoare_aget_bind hoare_afail_if_bind hoare_abind hoare_amodify
      | (simp add: negotiating_secure; fail))+
qed

lemma hoare_result:
  "hoare safe a (\<lambda>_. safe) safe \<Longrightarrow> safe p \<Longrightarrow> a (p, m) = (r, p', m') \<Longrightarrow> safe p'"
  by (rule hoare_both)

lemma step_safe:
  assumes h: "hooks_ok hooks" and step: "server_step hooks p p'" and p: "safe p"
  shows "safe p'"
  using step
proof (cases rule: server_step.cases)
  case (Run env m r m')
  then show ?thesis using hoare_result [OF run_once_safe [OF h] p] by blast
next
  case (Resize env width height m r m')
  then show ?thesis using hoare_result [OF hoare_safe [OF resize_safe [OF _ h]] p] by blast
next
  case (Send cr net channel_id data m r m')
  have "hoare safe (on_wire (librdp_server_peer_send_channel_data cr net channel_id data))
      (\<lambda>_. safe :: ('a, 'b, 'c, 'd) server_peer \<Rightarrow> bool) safe"
    by (rule hoare_safe, rule hoare_on_wire [OF send_channel_frame]) (simp_all add: kept_secure)
  then show ?thesis using hoare_result p Send by blast
next
  case Close
  then show ?thesis by (simp add: librdp_server_peer_close_def)
qed

lemma reachable_safe:
  assumes "hooks_ok hooks" "reachable_peer hooks p"
  shows "safe p"
  using assms(2)
proof induction
  case (Accept cfg width height n e)
  show ?case by (simp add: accepted_peer_def accepted_wire_def view_def secure_def admitted_states_def)
next
  case (Step p p')
  then show ?case using step_safe [OF assms(1)] by blast
qed

end
