(* ===== verification/Server_Runs.thy ===== *)
theory Server_Runs
  imports Server_Secure
begin

text \<open>
  Runs of the state machine that succeed: a whole packet arrives, the handler of the state takes it and the
  server is ready for the next one. They give the activation sequence as a liveness statement about the
  client's own PDUs.
\<close>

section \<open>A packet arrives\<close>

text \<open>What reading changes in the wire state, and what sending changes.\<close>

definition read_only :: "'c librdp_server_peer \<Rightarrow> 'c librdp_server_peer \<Rightarrow> bool" where
  "read_only w w' \<longleftrightarrow> w' = w\<lparr>pe_input := pe_input w', pe_bytes_read := pe_bytes_read w', pe_pdu_in := pe_pdu_in w'\<rparr>"

definition sent_only :: "'c librdp_server_peer \<Rightarrow> 'c librdp_server_peer \<Rightarrow> bool" where
  "sent_only w w' \<longleftrightarrow> w' = w\<lparr>pe_sent := pe_sent w', pe_bytes_written := pe_bytes_written w', pe_pdu_out := pe_pdu_out w'\<rparr>"

lemma read_only_trans: "read_only w w' \<Longrightarrow> read_only w' w'' \<Longrightarrow> read_only w w''"
  by (cases w; cases w'; cases w'') (auto simp: read_only_def)

lemma read_tpkt_only:
  "rdp_server_read_tpkt fuel segs (w, m) = (Some (Inr packet), segs', w', m') \<Longrightarrow> read_only w w'"
proof (induction fuel arbitrary: segs w m)
  case (Suc fuel)
  obtain parsed w1 where parsed: "rdp_server_parse_buffered_tpkt w = (parsed, w1)" by force
  have w1: "parsed = Inr x \<Longrightarrow> read_only w w1" for x
    using parsed by (cases w) (auto simp: rdp_server_parse_buffered_tpkt_def read_only_def Let_def split: if_splits sum.splits)
  have more: "read_only w1 (w1\<lparr>pe_bytes_read := n, pe_input := b\<rparr>)" for n b
    by (cases w1) (simp add: read_only_def)
  show ?case
    using Suc.prems Suc.IH parsed w1 more
    by (auto simp: Let_def split: sum.splits option.splits if_splits prod.splits
        dest!: Suc.IH intro: read_only_trans read_only_trans [OF more])
qed auto

text \<open>The packet of a frame, and a peer whose input buffer is empty.\<close>

definition packet_of :: "u8 list \<Rightarrow> rdp_tpkt" where
  "packet_of payload = \<lparr>tpkt_payload = payload, tpkt_payload_len = length payload,
     tpkt_total_len = of_nat (length payload + 4)\<rparr>"

definition drained :: "('c, 'k, 'n, 'e) server_peer \<Rightarrow> bool" where
  "drained p \<longleftrightarrow> buf_ok (pe_input (sp_wire p)) \<and> contents (pe_input (sp_wire p)) = []"

definition started :: "('c, 'k, 'n, 'e) server_peer \<Rightarrow> ('c, 'k, 'n, 'e) server_peer" where
  "started p = (if sp_state p = LIBRDP_SERVER_PEER_NEW then rdp_server_set_state LIBRDP_SERVER_PEER_NEGOTIATING p else p)"

lemma reads_packet:
  assumes "sp_fd_open p" "drained p" "length payload \<le> 65531" "env_segments env = [tpkt_frame payload]"
  obtains w where "server_read_packet env (p, []) = (Inr (packet_of payload, length payload + 4), p\<lparr>sp_wire := w\<rparr>, [])"
    "read_only (sp_wire p) w" "buf_ok (pe_input w)" "contents (pe_input w) = tpkt_frame payload"
proof -
  let ?w = "sp_wire p"
  have "buf_length (pe_input ?w) = 0" using assms(2) length_contents [of "pe_input ?w"] by (simp add: drained_def)
  moreover have "tpkt_frame payload \<noteq> []" by (simp add: tpkt_frame_def)
  ultimately obtain segs w where rd: "rdp_server_read_tpkt 65537 (env_segments env) (?w, []) =
      (Some (Inr (packet_of payload, length payload + 4)), segs, w, [])"
    "contents (pe_input w) = tpkt_frame payload" "buf_ok (pe_input w)"
    using read_tpkt_collects [OF assms(3), of ?w "env_segments env" "[]" 65537] assms
    by (auto simp: drained_def packet_of_def)
  show ?thesis
    by (rule that [OF _ read_tpkt_only [OF rd(1)] rd(3,2)]) (simp add: server_read_packet_def rd(1) assms(1))
qed

lemma consume_all:
  assumes "buf_ok b" "contents b = frame" "n = length frame" "0 < n"
  shows "\<exists>b'. rdp_buffer_consume n b = (LIBRDP_STATUS_OK, b') \<and> buf_ok b' \<and> contents b' = []"
  using assms length_contents [OF assms(1)]
  by (auto simp: rdp_buffer_consume_def buf_ok_def rdp_buffer_state_valid_def contents_def block_def split: option.splits)

lemma run_handled:
  assumes p: "sp_fd_open p" "drained p" "sp_state p \<notin> {LIBRDP_SERVER_PEER_CLOSED,
      LIBRDP_SERVER_PEER_TLS_HANDSHAKING, LIBRDP_SERVER_PEER_NLA_AUTHENTICATING}"
    and payload: "length payload \<le> 65531" "env_segments env = [tpkt_frame payload]"
    and handled: "\<And>w. read_only (sp_wire (started p)) w \<Longrightarrow> \<exists>p2. server_dispatch env hooks (packet_of payload)
      ((started p)\<lparr>sp_wire := w\<rparr>, []) = (Inr (), p2, []) \<and> pe_input (sp_wire p2) = pe_input w \<and> R p2"
    and R: "\<And>q b. R q \<Longrightarrow> R (q\<lparr>sp_wire := (sp_wire q)\<lparr>pe_input := b\<rparr>\<rparr>)"
  shows "\<exists>p'. librdp_server_peer_run_once env hooks (p, []) = (Inr (), p', []) \<and> R p' \<and> drained p'"
proof -
  let ?p = "started p"
  have 1: "sp_fd_open ?p" "drained ?p" using p by (auto simp: started_def drained_def rdp_server_set_state_def)
  obtain w where w: "server_read_packet env (?p, []) = (Inr (packet_of payload, length payload + 4), ?p\<lparr>sp_wire := w\<rparr>, [])"
    "read_only (sp_wire ?p) w" "buf_ok (pe_input w)" "contents (pe_input w) = tpkt_frame payload"
    by (rule reads_packet [OF 1 payload])
  obtain p2 where p2: "server_dispatch env hooks (packet_of payload) (?p\<lparr>sp_wire := w\<rparr>, []) = (Inr (), p2, [])"
    "pe_input (sp_wire p2) = pe_input w" "R p2"
    using handled [OF w(2)] by blast
  have n: "buf_length (pe_input w) = length payload + 4"
    using length_contents [OF w(3)] by (simp add: w(4))
  obtain b where b: "rdp_buffer_consume (length payload + 4) (pe_input w) = (LIBRDP_STATUS_OK, b)" "buf_ok b" "contents b = []"
    using consume_all [OF w(3,4)] by auto
  let ?q = "p2\<lparr>sp_wire := (sp_wire p2)\<lparr>pe_input := b\<rparr>\<rparr>"
  have cons: "server_consume (length payload + 4) (p2, []) = (Inr (), ?q, [])"
    by (simp add: server_consume_def abind_def aget_def awhen_def on_wire_def p2(2) n b(1))
  have st: "sp_state ?p \<notin> {LIBRDP_SERVER_PEER_TLS_HANDSHAKING, LIBRDP_SERVER_PEER_NLA_AUTHENTICATING}"
    using p(3) by (auto simp: started_def rdp_server_set_state_def)
  have "librdp_server_peer_run_once env hooks (p, []) = (Inr (), ?q, [])"
    using p(1,3) st w(1) p2(1) cons
    by (simp add: librdp_server_peer_run_once_def abind_def aget_def afail_if_def aret_def amodify_def on_error_def
        acatch_def flip: started_def)
  then show ?thesis using R [OF p2(3)] b by (auto simp: drained_def)
qed

section \<open>Sending succeeds\<close>

text \<open>With a network that takes everything and memory that never runs out.\<close>

definition net_ok :: "('c, 'k, 'n) server_env \<Rightarrow> bool" where
  "net_ok env \<longleftrightarrow> (\<forall>d. env_net env d = LIBRDP_STATUS_OK)"

lemma wp_write:
  assumes "emits w bs" "length bs \<le> 2 ^ 63" "\<And>b. buf_ok b \<Longrightarrow> contents b = bs \<Longrightarrow> Q b (p, [])"
  shows "wp (awrite w) Q E (p, [])"
  using emits_fresh [OF assms(1,2)] assms(3) by (fastforce simp: wp_awrite)

lemma wp_send_mcs:
  assumes net: "net_ok env" and mcs: "buf_ok mcs" "length (contents mcs) \<le> 65000"
    and Q: "\<And>w. sent_only (sp_wire p) w \<Longrightarrow> Q () (p\<lparr>sp_wire := w\<rparr>, [])"
  shows "wp (server_send_mcs env mcs) Q E (p, [])"
proof -
  obtain x where x: "rdp_x224_wrap_data (contents mcs) (rdp_buffer_init, []) = (LIBRDP_STATUS_OK, x, [])"
    "contents x = [0x02, 0xf0, 0x80] @ contents mcs"
    by (rule emits_fresh [OF emits_wrap_data]) (use mcs in auto)
  obtain f where f: "rdp_tpkt_write ([0x02, 0xf0, 0x80] @ contents mcs) (rdp_buffer_init, []) = (LIBRDP_STATUS_OK, f, [])"
    by (rule emits_fresh [OF emits_atomicallyD(1) [OF tpkt_write_atomic]]) (use mcs in auto)
  show ?thesis
    using x f net [unfolded net_ok_def]
    by (simp add: wp_def server_send_mcs_def on_wire_def rdp_server_send_mcs_pdu_def rdp_server_send_x224_data_def
        rdp_server_peer_send_all_def Let_def) (rule Q, cases "sp_wire p", simp add: sent_only_def)
qed

lemma wp_send_pdu:
  assumes net: "net_ok env" and w: "emits w bs" "length bs \<le> 0x7fff"
    and p: "\<not> pe_standard_security_ready (sp_wire p)" "RDP_MCS_BASE_CHANNEL_ID \<le> pe_user_id (sp_wire p)"
    and Q: "\<And>w. sent_only (sp_wire p) w \<Longrightarrow> Q () (p\<lparr>sp_wire := w\<rparr>, [])"
  shows "wp (server_send_pdu env w) Q E (p, [])"
proof -
  have slow: "wp (server_send_slowpath env b) Q E (p, [])" if b: "contents b = bs" for b
  proof -
    obtain mcs where mcs: "rdp_mcs_write_send_data_indication (pe_user_id (sp_wire p)) RDP_MCS_GLOBAL_CHANNEL_ID bs
        (rdp_buffer_init, []) = (LIBRDP_STATUS_OK, mcs, [])" "buf_ok mcs"
      "contents mcs = send_data_pdu RDP_MCS_PDU_SEND_DATA_INDICATION (pe_user_id (sp_wire p)) RDP_MCS_GLOBAL_CHANNEL_ID bs"
      by (rule emits_fresh [OF emits_send_data_indication [OF p(2) w(2), of RDP_MCS_GLOBAL_CHANNEL_ID]])
        (use w(2) length_send_data_pdu [of RDP_MCS_PDU_SEND_DATA_INDICATION "pe_user_id (sp_wire p)"
          RDP_MCS_GLOBAL_CHANNEL_ID bs] in auto)
    have len: "length (contents mcs) \<le> 65000"
      using mcs(3) w(2) length_send_data_pdu [of RDP_MCS_PDU_SEND_DATA_INDICATION "pe_user_id (sp_wire p)"
          RDP_MCS_GLOBAL_CHANNEL_ID bs] by simp
    have "wp (server_send_mcs env mcs) Q E (p, [])" by (intro wp_send_mcs net mcs(2) len Q)
    then show ?thesis
      using mcs(1) b p(1)
      by (simp add: wp_def server_send_slowpath_def server_send_mcs_def on_wire_def rdp_server_send_slowpath_def
          rdp_server_prepare_outbound_security_payload_def)
  qed
  show ?thesis
    unfolding server_send_pdu_def wp_abind
    by (rule wp_write [OF w(1)]) (use w(2) slow in auto)
qed

section \<open>Activation\<close>

text \<open>
  What the features that start with the session find on the peer: the surface (width, height and whether there is a
  framebuffer), whether output is suppressed and a repaint pending, the channels (index of the dynamic channels' static channel, identifiers,
  which of them are joined, and whether the message channel is) and the state of the features themselves.
\<close>

type_synonym 'e desk = "(u16 \<times> u16 \<times> bool) \<times> (bool \<times> bool) \<times> (u16 \<times> u16 list \<times> bool list \<times> bool) \<times> 'e"

definition desk :: "('c, 'k, 'n, 'e) server_peer \<Rightarrow> 'e desk" where
  "desk p = ((sp_width p, sp_height p, sp_framebuffer p), (sp_updates_suppressed p, sp_surface_repaint_pending p),
     (sp_dynamic_channel_static_index p, sp_advertised_channel_ids p, pe_advertised_channel_joined (sp_wire p),
      sp_message_channel_joined p), sp_features p)"

text \<open>
  A peer in activation, without Standard Security: \<open>n\<close> of the five steps are done (confirm active,
  synchronize, cooperate, request control, font list), and what the features find satisfies \<open>I\<close>; in a sixth step, the
  features have been started, and \<open>I\<close> is no longer asked for. The client is one whose
  Confirm Active does not announce fast-path output.
\<close>

definition activation :: "('e desk \<Rightarrow> bool) \<Rightarrow> nat \<Rightarrow> u32 \<Rightarrow> u16 \<Rightarrow> ('c, 'k, 'n, 'e) server_peer \<Rightarrow> bool" where
  "activation I n share user p \<longleftrightarrow> (n < 6 \<longrightarrow> I (desk p)) \<and> (n \<ge> 1 \<longrightarrow> \<not> sp_client_fastpath_output p) \<and>
     sp_fd_open p \<and> sp_selected_protocol p \<noteq> RDP_X224_PROTOCOL_STANDARD \<and>
     \<not> pe_standard_security_ready (sp_wire p) \<and>
     sp_share_id p = share \<and> share \<noteq> 0 \<and> pe_user_id (sp_wire p) = user \<and> RDP_MCS_BASE_CHANNEL_ID \<le> user \<and>
     sp_message_channel_id p \<noteq> RDP_MCS_GLOBAL_CHANNEL_ID \<and>
     sp_confirm_active_seen p = (n \<ge> 1) \<and> sp_synchronize_seen p = (n \<ge> 2) \<and>
     sp_control_cooperate_seen p = (n \<ge> 3) \<and> sp_control_seen p = (n \<ge> 4) \<and>
     sp_state p = (if n < 5 then LIBRDP_SERVER_PEER_ACTIVATING else LIBRDP_SERVER_PEER_ACTIVE)"

lemma activation_wire:
  "activation I n share user p \<Longrightarrow> sent_only (sp_wire p) w \<Longrightarrow> activation I n share user (p\<lparr>sp_wire := w\<rparr>)"
  "activation I n share user p \<Longrightarrow> read_only (sp_wire p) w \<Longrightarrow> activation I n share user (p\<lparr>sp_wire := w\<rparr>)"
  "activation I n share user p \<Longrightarrow> activation I n share user (p\<lparr>sp_wire := (sp_wire p)\<lparr>pe_input := b\<rparr>\<rparr>)"
  by (cases "sp_wire p"; cases w; auto simp: activation_def desk_def sent_only_def read_only_def)+

text \<open>A slow-path PDU of the client reaches the runtime dispatch.\<close>

definition request_payload :: "u16 \<Rightarrow> u8 list \<Rightarrow> u8 list" where
  "request_payload user pdu = [0x02, 0xf0, 0x80] @ send_data_pdu 25 user RDP_MCS_GLOBAL_CHANNEL_ID pdu"

lemma dispatch_pdu:
  assumes p: "activation I n share user p" "n < 5" and pdu: "pdu \<noteq> []" "length pdu \<le> 0x7fff"
  shows "server_dispatch env hooks (packet_of (request_payload user pdu)) (p, m) =
    close_on_error (runtime_payload env hooks RDP_MCS_GLOBAL_CHANNEL_ID pdu) (p, m)"
proof -
  let ?data = "send_data_pdu 25 user RDP_MCS_GLOBAL_CHANNEL_ID pdu"
  have x: "rdp_x224_parse_data (request_payload user pdu) = Inr ?data"
    using x224_data.parse_enc [of ?data] by (simp add: request_payload_def)
  have m: "rdp_mcs_parse_send_data_request ?data = Inr \<lparr>sdi_initiator = user, sdi_channel_id = RDP_MCS_GLOBAL_CHANNEL_ID,
      sdi_payload = pdu, sdi_payload_len = length pdu\<rparr>"
    using p(1) pdu parse_send_data_pdu [of user pdu 25] by (simp add: rdp_mcs_parse_send_data_request_def activation_def)
  have d: "drop_bit 2 (?data ! 0) \<noteq> RDP_MCS_DOMAIN_PDU_DISCONNECT_PROVIDER_ULTIMATUM" "?data \<noteq> []"
    by (simp_all add: send_data_pdu_def domain_choice_byte_def)
  have "RDP_MCS_GLOBAL_CHANNEL_ID \<noteq> sp_message_channel_id p" using p(1) by (auto simp: activation_def)
  then show ?thesis
    using p x m d
    by (simp add: server_dispatch_def rdp_server_handle_runtime_data_def packet_of_def abind_def aget_def alift_def
        afail_if_def aret_def on_error_def rdp_server_unwrap_optional_security_header_def
        rdp_server_uses_standard_security_def activation_def)
qed

lemma activation_step:
  assumes p: "activation I n share user p" "n < 5" "drained p" and pdu: "pdu \<noteq> []" "length pdu \<le> 0x7fff"
    and segs: "env_segments env = [tpkt_frame (request_payload user pdu)]"
    and step: "\<And>q. activation I n share user q \<Longrightarrow> wp (runtime_payload env hooks RDP_MCS_GLOBAL_CHANNEL_ID pdu)
      (\<lambda>_ s. activation I n' share user (fst s) \<and> pe_input (sp_wire (fst s)) = pe_input (sp_wire q) \<and> snd s = [])
      (\<lambda>_ _. False) (q, [])"
  shows "\<exists>p'. librdp_server_peer_run_once env hooks (p, []) = (Inr (), p', []) \<and> activation I n' share user p' \<and> drained p'"
proof (rule run_handled [OF _ p(3) _ _ segs])
  have started: "started p = p" using p(1,2) by (auto simp: started_def activation_def)
  show "sp_fd_open p" "sp_state p \<notin> {LIBRDP_SERVER_PEER_CLOSED, LIBRDP_SERVER_PEER_TLS_HANDSHAKING,
      LIBRDP_SERVER_PEER_NLA_AUTHENTICATING}"
    using p(1,2) by (auto simp: activation_def)
  show "length (request_payload user pdu) \<le> 65531"
    using pdu(2) length_send_data_pdu [of 25 user RDP_MCS_GLOBAL_CHANNEL_ID pdu] by (simp add: request_payload_def)
  fix w assume "read_only (sp_wire (started p)) w"
  then have q: "activation I n share user (p\<lparr>sp_wire := w\<rparr>)" using activation_wire(2) p(1) started by metis
  show "\<exists>p2. server_dispatch env hooks (packet_of (request_payload user pdu)) ((started p)\<lparr>sp_wire := w\<rparr>, []) = (Inr (), p2, []) \<and>
      pe_input (sp_wire p2) = pe_input w \<and> activation I n' share user p2"
    using step [OF q] unfolding started dispatch_pdu [OF q p(2) pdu] on_error_def wp_def
    by (auto split: prod.splits sum.splits)
qed (rule activation_wire(3))

text \<open>The PDUs of the client. The persistent key list is checked and changes nothing.\<close>

lemma share_types [simp]:
  "sch_pdu_type (share_header RDP_SLOWPATH_PDU_TYPE_DATA c n) AND 15 = RDP_SLOWPATH_PDU_TYPE_DATA"
  "sch_pdu_type (share_header RDP_SLOWPATH_PDU_TYPE_CONFIRM_ACTIVE c n) AND 15 = RDP_SLOWPATH_PDU_TYPE_CONFIRM_ACTIVE"
  "RDP_SLOWPATH_PDU_TYPE_DATA \<noteq> RDP_SLOWPATH_PDU_TYPE_CONFIRM_ACTIVE"
  by (simp_all add: share_header_def slowpath_types)

lemma runtime_data_branch:
  assumes "activation I n share user q" "1 \<le> n" "18 + length payload \<le> 0xffff"
  shows "wp (runtime_payload env hooks RDP_MCS_GLOBAL_CHANNEL_ID (data_pdu_bytes share user t payload)) Q E (q, []) =
    wp (runtime_data_pdu env hooks (data_pdu_bytes share user t payload)) Q E (q, [])"
  using assms by (simp add: runtime_payload_def wp_rules data_pdu_bytes_def Let_def)

lemmas data_pdu_types = RDP_SLOWPATH_DATA_PDU_CONTROL_def RDP_SLOWPATH_DATA_PDU_SYNCHRONIZE_def
  RDP_SLOWPATH_DATA_PDU_FONT_LIST_def RDP_SLOWPATH_DATA_PDU_BITMAP_CACHE_PERSISTENT_LIST_def

lemma header_fields [simp]:
  "dp_share_id (data_pdu_view s c t payload) = s" "sch_channel_id (dp_header (data_pdu_view s c t payload)) = c"
  "dp_pdu_type2 (data_pdu_view s c t payload) = t" "dp_payload (data_pdu_view s c t payload) = payload"
  "dp_payload_len (data_pdu_view s c t payload) = length payload"
  by (simp_all add: data_pdu_view_def share_header_def)

definition advances ::
    "('e desk \<Rightarrow> bool) \<Rightarrow> ('c, 'k, 'n) server_env \<Rightarrow> ('c, 'k, 'n, 'e) server_hooks \<Rightarrow> nat \<Rightarrow> nat \<Rightarrow> u32 \<Rightarrow> u16 \<Rightarrow> u8 list \<Rightarrow> bool" where
  "advances I env hooks n n' share user pdu \<longleftrightarrow> (\<forall>q. activation I n share user q \<longrightarrow>
     wp (runtime_payload env hooks RDP_MCS_GLOBAL_CHANNEL_ID pdu)
       (\<lambda>_ s. activation I n' share user (fst s) \<and> pe_input (sp_wire (fst s)) = pe_input (sp_wire q) \<and> snd s = [])
       (\<lambda>_ _. False) (q, []))"

lemma data_pdu_advances:
  assumes "1 \<le> n" "18 + length payload \<le> 0xffff"
    "\<And>q :: ('c, 'k, 'n, 'e) server_peer. activation I n share user q \<Longrightarrow>
      wp (runtime_data_pdu env hooks (data_pdu_bytes share user t payload))
       (\<lambda>_ s. activation I n' share user (fst s) \<and> pe_input (sp_wire (fst s)) = pe_input (sp_wire q) \<and> snd s = [])
       (\<lambda>_ _. False) (q, [])"
  shows "advances I env hooks n n' share user (data_pdu_bytes share user t payload)"
  unfolding advances_def using runtime_data_branch assms by blast

lemmas runtime_simps = runtime_data_pdu_def wp_rules parse_data_pdu Let_def rdp_server_emit_input_def activation_def desk_def
  data_pdu_types

lemma synchronize_advances:
  "advances I env hooks 1 2 share user (data_pdu_bytes share user RDP_SLOWPATH_DATA_PDU_SYNCHRONIZE [1, 0, x, y])"
  by (rule data_pdu_advances) (simp_all add: runtime_simps runtime_synchronize_def)

lemma control_advances:
  "advances I env hooks 2 3 share user (data_pdu_bytes share user RDP_SLOWPATH_DATA_PDU_CONTROL [4, 0, 0, 0, 0, 0, 0, 0])"
  "advances I env hooks 3 4 share user (data_pdu_bytes share user RDP_SLOWPATH_DATA_PDU_CONTROL [1, 0, 0, 0, 0, 0, 0, 0])"
  by (rule data_pdu_advances; simp add: runtime_simps runtime_control_def le16_def)+

lemma persistent_keys_advances:
  "advances I env hooks 4 4 share user
    (data_pdu_bytes share user RDP_SLOWPATH_DATA_PDU_BITMAP_CACHE_PERSISTENT_LIST ((replicate 24 0)[20 := 3]))"
  by (rule data_pdu_advances) (simp_all add: runtime_simps)

text \<open>The server's answers.\<close>

lemma sent_input: "sent_only w w' \<Longrightarrow> pe_input w' = pe_input w"
  by (cases w; cases w') (simp add: sent_only_def)

lemma wp_answer:
  assumes net: "net_ok env" and w: "emits w bs" "length bs \<le> 0x7fff"
    and q: "activation I n share user q"
    and Q: "\<And>q'. activation I n share user q' \<Longrightarrow> pe_input (sp_wire q') = pe_input (sp_wire q) \<Longrightarrow> Q () (q', [])"
  shows "wp (server_send_pdu env w) Q E (q, [])"
proof (rule wp_send_pdu [OF net w])
  show "\<not> pe_standard_security_ready (sp_wire q)" "RDP_MCS_BASE_CHANNEL_ID \<le> pe_user_id (sp_wire q)"
    using q by (auto simp: activation_def)
  fix w' assume w': "sent_only (sp_wire q) w'"
  show "Q () (q\<lparr>sp_wire := w'\<rparr>, [])"
    using Q [OF activation_wire(1) [OF q w']] sent_input [OF w'] by simp
qed

lemma emits_answers:
  "emits (rdp_slowpath_write_server_synchronize share c user)
    (data_pdu_bytes share c RDP_SLOWPATH_DATA_PDU_SYNCHRONIZE
      [1, 0, ucast (user AND 0xff), ucast (drop_bit 8 user AND 0xff)])"
  "emits (rdp_slowpath_write_server_control share c 4) (data_pdu_bytes share c RDP_SLOWPATH_DATA_PDU_CONTROL [4, 0, 0, 0, 0, 0, 0, 0])"
  "emits (rdp_slowpath_write_server_control share c 2) (data_pdu_bytes share c RDP_SLOWPATH_DATA_PDU_CONTROL [2, 0, 0, 0, 0, 0, 0, 0])"
  "emits (rdp_slowpath_write_server_font_map share c) (data_pdu_bytes share c RDP_SLOWPATH_DATA_PDU_FONT_MAP [0, 0, 0, 0, 3, 0, 4, 0])"
  by (auto simp: rdp_slowpath_write_server_synchronize_def rdp_slowpath_write_server_control_def
      rdp_slowpath_write_control_def rdp_slowpath_write_server_font_map_def intro!: emits_data_pdu)

lemma wp_responses:
  assumes net: "net_ok env" and q: "activation I n share user q"
  shows "wp (rdp_server_send_activation_responses env)
    (\<lambda>_ s. activation I n share user (fst s) \<and> pe_input (sp_wire (fst s)) = pe_input (sp_wire q) \<and> snd s = []) E (q, [])"
  unfolding rdp_server_send_activation_responses_def wp_abind wp_aget prod.case
  by (rule wp_answer [OF net emits_answers(1) _ q], simp, rule wp_answer [OF net emits_answers(2)], simp, assumption,
      rule wp_answer [OF net emits_answers(3)], simp_all)

text \<open>The general capability set of the library's client has the flags 0x0404, without the one for fast-path output.\<close>

lemma confirm_takes_slowpath: "\<not> confirm_fastpath_output (confirm_active_view share user w h src)"
proof -
  have "capability RDP_CAPABILITY_TYPE_GENERAL general_payload \<in> set (caps_sets (confirm_list w h))"
    by (simp add: confirm_list_def confirm_sets_def)
  from advertised_member [OF list_ok_sent(2) this, of rdp_capability_parse_general] show ?thesis
    by (auto simp: RDP_CAPABILITY_GENERAL_FASTPATH_OUTPUT_SUPPORTED_def parse_general_payload confirm_fastpath_output_def confirm_active_view_def advertised_def
        split: option.splits sum.splits)
qed

lemma confirm_advances:
  assumes net: "net_ok env" and src: "src \<noteq> []" "length src + 471 \<le> 0x7fff"
  shows "advances I env hooks 0 1 share user (confirm_pdu share user w h src)"
  unfolding advances_def
proof (intro allI impI)
  fix q :: "('a, 'b, 'c, 'd) server_peer" assume q: "activation I 0 share user q"
  let ?q = "q\<lparr>sp_client_fastpath_output := confirm_fastpath_output (confirm_active_view share user w h src),
    sp_confirm_active_seen := True\<rparr>"
  have q1: "activation I 1 share user ?q" using q confirm_takes_slowpath [of share user w h src] by (simp add: activation_def desk_def)
  have share: "rdp_slowpath_parse_share_control_header (confirm_pdu share user w h src) =
      Inr (share_header RDP_SLOWPATH_PDU_TYPE_CONFIRM_ACTIVE user (471 + length src))"
    using src by (simp add: confirm_pdu_def length_sent_lists active_tail_def)
  have parsed: "rdp_slowpath_parse_confirm_active (confirm_pdu share user w h src) = Inr (confirm_active_view share user w h src)"
    using q src by (intro parse_confirm_active_pdu) (auto simp: activation_def)
  have facts: "sp_state q = LIBRDP_SERVER_PEER_ACTIVATING" "\<not> sp_confirm_active_seen q" "sp_share_id q = share"
    "pe_user_id (sp_wire q) = user" "coa_share_id (confirm_active_view share user w h src) = share"
    "sch_channel_id (coa_header (confirm_active_view share user w h src)) = user"
    using q by (simp_all add: activation_def confirm_active_view_def share_header_def)
  show "wp (runtime_payload env hooks RDP_MCS_GLOBAL_CHANNEL_ID (confirm_pdu share user w h src))
      (\<lambda>_ s. activation I 1 share user (fst s) \<and> pe_input (sp_wire (fst s)) = pe_input (sp_wire q) \<and> snd s = [])
      (\<lambda>_ _. False) (q, [])"
    using facts wp_responses [OF net q1, of "\<lambda>_ _. False"] share parsed
    by (simp add: runtime_payload_def runtime_confirm_active_def wp_rules Let_def)
qed

text \<open>
  The contract of the features that start with the session. On a peer that has just become active and satisfies \<open>I\<close>, the start of
  the dynamic channels, of the device redirection and, when there is a message channel, of the network measurement succeeds; and so
  does the presentation of the whole desktop when a repaint is pending, there is a framebuffer and output is not suppressed. Each of them
  leaves an active peer of the same share that satisfies \<open>I\<close> (but for the measurement, which comes last), and does not touch the input
  that is not consumed yet.
\<close>

definition starts :: "('e desk \<Rightarrow> bool) \<Rightarrow> nat \<Rightarrow> u32 \<Rightarrow> u16 \<Rightarrow> ('c, 'k, 'n, 'e) server_hook \<Rightarrow> ('c, 'k, 'n, 'e) server_peer \<Rightarrow> bool" where
  "starts I n share user h q \<longleftrightarrow> (\<exists>q'. h (q, []) = (LIBRDP_STATUS_OK, q', []) \<and> activation I n share user q' \<and>
     pe_input (sp_wire q') = pe_input (sp_wire q))"

definition repaint_due :: "('c, 'k, 'n, 'e) server_peer \<Rightarrow> bool" where
  "repaint_due q \<longleftrightarrow> sp_surface_repaint_pending q \<and> sp_framebuffer q \<and> \<not> sp_updates_suppressed q"

definition modules_start :: "('e desk \<Rightarrow> bool) \<Rightarrow> u32 \<Rightarrow> u16 \<Rightarrow> ('c, 'k, 'n, 'e) server_hooks \<Rightarrow> bool" where
  "modules_start I share user hooks \<longleftrightarrow> (\<forall>q. activation I 5 share user q \<longrightarrow>
     starts I 5 share user (hk_dynamic_channels_start hooks) q \<and> starts I 5 share user (hk_device_redirection_start hooks) q \<and>
     (sp_message_channel_id q \<noteq> 0 \<longrightarrow> starts I 6 share user (hk_autodetect_start hooks) q))"

definition repaint_starts :: "('e desk \<Rightarrow> bool) \<Rightarrow> u32 \<Rightarrow> u16 \<Rightarrow> ('c, 'k, 'n, 'e) server_hooks \<Rightarrow> bool" where
  "repaint_starts I share user hooks \<longleftrightarrow> (\<forall>q. activation I 5 share user q \<longrightarrow> repaint_due q \<longrightarrow>
     starts I 5 share user (hk_surface_present_rect hooks 0 0 (ucast (sp_width q)) (ucast (sp_height q))) q)"

abbreviation features_start :: "('e desk \<Rightarrow> bool) \<Rightarrow> u32 \<Rightarrow> u16 \<Rightarrow> ('c, 'k, 'n, 'e) server_hooks \<Rightarrow> bool" where
  "features_start I share user hooks \<equiv> modules_start I share user hooks \<and> repaint_starts I share user hooks"

text \<open>Actions that succeed and stay at the same step.\<close>

definition stays :: "('e desk \<Rightarrow> bool) \<Rightarrow> nat \<Rightarrow> u32 \<Rightarrow> u16 \<Rightarrow> ('c, 'k, 'n, 'e) server_action \<Rightarrow> bool" where
  "stays I n share user a \<longleftrightarrow> (\<forall>q. activation I n share user q \<longrightarrow>
     wp a (\<lambda>_ s. activation I n share user (fst s) \<and> pe_input (sp_wire (fst s)) = pe_input (sp_wire q) \<and> snd s = [])
       (\<lambda>_ _. False) (q, []))"

lemma wp_start:
  assumes "starts I n share user h q"
  shows "wp (acall h) (\<lambda>_ s. activation I n share user (fst s) \<and> pe_input (sp_wire (fst s)) = pe_input (sp_wire q) \<and> snd s = [])
    (\<lambda>_ _. False) (q, [])"
  using assms by (auto simp: starts_def wp_acall)

lemma stays_then: "stays I n share user a \<Longrightarrow> stays I n share user b \<Longrightarrow> stays I n share user (athen a b)"
  unfolding stays_def wp_abind by (fastforce elim!: wp_mono)

lemma stays_aget: "(\<And>x. stays I n share user (f x)) \<Longrightarrow> stays I n share user (abind (aget g) f)"
  by (simp add: stays_def wp_rules)

lemma stays_answer: "net_ok env \<Longrightarrow> emits w bs \<Longrightarrow> length bs \<le> 0x7fff \<Longrightarrow> stays I n share user (server_send_pdu env w)"
  unfolding stays_def by (intro allI impI) (rule wp_answer; simp)

lemma stays_font_map: "net_ok env \<Longrightarrow> stays I n share user (rdp_server_send_font_map env)"
  unfolding rdp_server_send_font_map_def by (intro stays_aget) (rule stays_answer [OF _ emits_answers(4)]; simp)

lemma stays_wp:
  "stays I n share user a \<Longrightarrow> activation I n share user q \<Longrightarrow>
    (\<And>q'. activation I n share user q' \<Longrightarrow> pe_input (sp_wire q') = pe_input (sp_wire q) \<Longrightarrow> Q () (q', [])) \<Longrightarrow> wp a Q E (q, [])"
  unfolding stays_def by (fastforce elim!: wp_mono)

lemma stays_features:
  assumes "features_start I share user hooks"
  shows "stays I 5 share user (acall (hk_dynamic_channels_start hooks))" "stays I 5 share user (acall (hk_device_redirection_start hooks))"
    "stays I 5 share user (rdp_server_surface_flush_repaint hooks)"
  unfolding stays_def rdp_server_surface_flush_repaint_def wp_abind wp_aget wp_awhen id_apply
  using assms by (auto simp: modules_start_def repaint_starts_def repaint_due_def intro!: wp_start)

lemma measurement_starts:
  assumes "features_start I share user hooks" "activation I 5 share user q" "pe_input (sp_wire q) = b"
  shows "wp (abind (aget sp_message_channel_id) (\<lambda>message_channel_id. awhen (message_channel_id \<noteq> 0) (acall (hk_autodetect_start hooks))))
    (\<lambda>_ s. activation I 6 share user (fst s) \<and> pe_input (sp_wire (fst s)) = b \<and> snd s = [])
    (\<lambda>_ _. False) (q, [])"
proof -
  have "activation I 6 share user q" using assms(2) by (simp add: activation_def)
  then show ?thesis
    using assms unfolding wp_abind wp_aget wp_awhen by (auto simp: modules_start_def intro!: wp_start simp flip: assms(3))
qed

lemma wp_features:
  assumes h: "features_start I share user hooks" and q: "activation I 5 share user q" "pe_input (sp_wire q) = b"
  shows "wp (athen (acall (hk_dynamic_channels_start hooks))
     (athen (rdp_server_surface_flush_repaint hooks)
     (athen (acall (hk_device_redirection_start hooks))
     (abind (aget sp_message_channel_id) (\<lambda>message_channel_id.
      awhen (message_channel_id \<noteq> 0) (acall (hk_autodetect_start hooks)))))))
    (\<lambda>_ s. activation I 6 share user (fst s) \<and> pe_input (sp_wire (fst s)) = b \<and> snd s = [])
    (\<lambda>_ _. False) (q, [])"
  unfolding wp_abind [of _ "\<lambda>_. athen _ _"] wp_abind [of "acall _"]
  apply (rule stays_wp [OF stays_features(1) [OF h] q(1)])
  apply (rule stays_wp [OF stays_features(3) [OF h]], assumption)
  apply (rule stays_wp [OF stays_features(2) [OF h]], assumption)
  by (rule measurement_starts [OF h], assumption) (simp add: q(2))

lemma font_list_wp:
  assumes net: "net_ok env" and h: "features_start I share user hooks" and q: "activation I 4 share user q" and len: "dp_payload_len pdu = 8"
  shows "wp (runtime_font_list env hooks pdu)
    (\<lambda>_ s. activation I 6 share user (fst s) \<and> pe_input (sp_wire (fst s)) = pe_input (sp_wire q) \<and> snd s = [])
    (\<lambda>_ _. False) (q, [])"
proof -
  let ?seen = "\<lambda>p. p\<lparr>sp_font_list_seen := True,
    sp_metric_input_events := rdp_server_metric_add (sp_metric_input_events p) 1,
    sp_input_log := sp_input_log p @ [input_event LIBRDP_SERVER_INPUT_FONT_LIST]\<rparr>"
  have seen: "activation I 4 share user (?seen q)" "pe_input (sp_wire (?seen q)) = pe_input (sp_wire q)"
    using q by (simp_all add: activation_def desk_def)
  have active: "activation I 5 share user (rdp_server_set_state LIBRDP_SERVER_PEER_ACTIVE q')"
      "pe_input (sp_wire (rdp_server_set_state LIBRDP_SERVER_PEER_ACTIVE q')) = pe_input (sp_wire q')"
    if "activation I 4 share user q'" for q' :: "('a, 'b, 'c, 'd) server_peer"
    using that by (simp_all add: activation_def desk_def rdp_server_set_state_def)
  have "wp (athen (rdp_server_send_font_map env) (athen (amodify (rdp_server_set_state LIBRDP_SERVER_PEER_ACTIVE)) rest))
      (\<lambda>_ s. activation I 6 share user (fst s) \<and> pe_input (sp_wire (fst s)) = pe_input (sp_wire q) \<and> snd s = [])
      (\<lambda>_ _. False) (?seen q, [])"
      if rest: "\<And>q :: ('a, 'b, 'c, 'd) server_peer. activation I 5 share user q \<Longrightarrow> pe_input (sp_wire q) = b \<Longrightarrow> wp rest
        (\<lambda>_ s. activation I 6 share user (fst s) \<and> pe_input (sp_wire (fst s)) = b \<and> snd s = []) (\<lambda>_ _. False) (q, [])"
      and b: "b = pe_input (sp_wire q)" for rest b
    unfolding wp_abind
    by (rule stays_wp [OF stays_font_map [OF net] seen(1)], unfold wp_amodify)
      (use rest [OF active(1)] b in \<open>simp add: active seen(2)\<close>)
  from this [OF wp_features [OF h] refl] show ?thesis
    using q len by (simp add: runtime_font_list_def wp_abind wp_aget wp_afail_if wp_amodify rdp_server_emit_input_def activation_def)
qed

lemma font_list_advances:
  assumes net: "net_ok env" and h: "features_start I share user hooks"
  shows "advances I env hooks 4 6 share user
    (data_pdu_bytes share user RDP_SLOWPATH_DATA_PDU_FONT_LIST [0, 0, 0, 0, 3, 0, 50, 0])"
proof (rule data_pdu_advances)
  fix q :: "('a, 'b, 'c, 'd) server_peer" assume q: "activation I 4 share user q"
  show "wp (runtime_data_pdu env hooks (data_pdu_bytes share user RDP_SLOWPATH_DATA_PDU_FONT_LIST [0, 0, 0, 0, 3, 0, 50, 0]))
      (\<lambda>_ s. activation I 6 share user (fst s) \<and> pe_input (sp_wire (fst s)) = pe_input (sp_wire q) \<and> snd s = [])
      (\<lambda>_ _. False) (q, [])"
    using q font_list_wp [OF net h q, of "data_pdu_view share user RDP_SLOWPATH_DATA_PDU_FONT_LIST [0, 0, 0, 0, 3, 0, 50, 0]"]
    by (simp add: runtime_data_pdu_def wp_rules parse_data_pdu Let_def activation_def data_pdu_types)
qed simp_all

end
