(* ===== verification/Session_Activation.thy ===== *)
theory Session_Activation
  imports Actions Session_Wire Slowpath Surface
begin

text \<open>
  The client's side of activation, \<^verbatim>\<open>src/src/client/session_activation.c\<close>: the answer to Demand Active, the
  finalization PDUs, the return to activation on Deactivate All, and output suppression and refresh. The session
  is the wire state of \<open>Session_Wire\<close> with the fields that activation reads and writes. The graphics state that a
  new activation epoch discards (caches, decoders, fragments), the pointer, the clipboard handshake and the
  callbacks of the application are arguments of type \<open>client_env\<close>, with the clock and whether the calling thread
  owns the session. The last-error record and traces are not modelled.
\<close>

section \<open>The session\<close>

datatype librdp_session_state =
    LIBRDP_SESSION_IDLE | LIBRDP_SESSION_CONNECTING | LIBRDP_SESSION_CONNECTED | LIBRDP_SESSION_ACTIVE
  | LIBRDP_SESSION_CLOSING | LIBRDP_SESSION_CLOSED | LIBRDP_SESSION_FAILED | LIBRDP_SESSION_CANCELLED

datatype librdp_session_lifecycle =
    LIBRDP_LIFECYCLE_NEW | LIBRDP_LIFECYCLE_RESOLVING | LIBRDP_LIFECYCLE_CONNECTING | LIBRDP_LIFECYCLE_TLS_HANDSHAKE
  | LIBRDP_LIFECYCLE_AUTHENTICATING | LIBRDP_LIFECYCLE_NEGOTIATING | LIBRDP_LIFECYCLE_ACTIVATING
  | LIBRDP_LIFECYCLE_ACTIVE | LIBRDP_LIFECYCLE_RECONNECTING | LIBRDP_LIFECYCLE_DISCONNECTING
  | LIBRDP_LIFECYCLE_DISCONNECTED | LIBRDP_LIFECYCLE_FAILED

record ('c, 'g) client_session =
  ca_wire :: "'c librdp_session"
  ca_state :: librdp_session_state
  ca_lifecycle :: librdp_session_lifecycle
  ca_share_id :: u32
  ca_reactivating :: bool
  ca_server_refresh_rect_supported :: bool
  ca_server_suppress_output_supported :: bool
  ca_output_suppressed :: bool
  ca_output_suppression_known :: bool
  ca_surface :: "librdp_surface option"
  ca_surface_max_dimension :: u32
  ca_limits_rejected :: u64
  ca_activation_deadline_ns :: u64
  ca_state_events :: "(librdp_session_state \<times> librdp_session_state) list"
  ca_graphics :: 'g

type_synonym ('c, 'g) client_action = "(('c, 'g) client_session, unit) action"

record ('c, 'g) client_env =
  ce_crypto :: "'c crypto"
  ce_net :: network
  ce_owner :: bool
  ce_now_ns :: u64
  ce_calloc :: nat
  ce_discard_graphics :: "'g \<Rightarrow> 'g"
  ce_desktop_resized :: "u32 \<Rightarrow> u32 \<Rightarrow> 'g \<Rightarrow> 'g"
  ce_pointer_cache_clear :: "'g \<Rightarrow> 'g"
  ce_pointer_emit_default :: "'g \<Rightarrow> 'g"
  ce_clipboard_handshake ::
    "('c, 'g) client_session \<times> mem \<Rightarrow> librdp_status \<times> ('c, 'g) client_session \<times> mem"

definition LIBRDP_DESKTOP_MIN_DIMENSION :: u32 where "LIBRDP_DESKTOP_MIN_DIMENSION = 200"
definition LIBRDP_DESKTOP_MAX_DIMENSION :: u32 where "LIBRDP_DESKTOP_MAX_DIMENSION = 8192"
definition RDP_SESSION_HANDSHAKE_TIMEOUT_MS :: u64 where "RDP_SESSION_HANDSHAKE_TIMEOUT_MS = 5000"

section \<open>State, limits and the surface\<close>

definition rdp_session_set_state :: "librdp_session_state \<Rightarrow> ('c, 'g) client_session \<Rightarrow> ('c, 'g) client_session" where
  "rdp_session_set_state state s =
     (if ca_state s = state then s
      else s\<lparr>ca_state := state,
             ca_activation_deadline_ns := (if state \<noteq> LIBRDP_SESSION_CONNECTED then 0 else ca_activation_deadline_ns s),
             ca_state_events := ca_state_events s @ [(ca_state s, state)]\<rparr>)"

definition rdp_session_set_lifecycle ::
    "librdp_session_lifecycle \<Rightarrow> ('c, 'g) client_session \<Rightarrow> ('c, 'g) client_session" where
  "rdp_session_set_lifecycle lifecycle s = (if ca_lifecycle s = lifecycle then s else s\<lparr>ca_lifecycle := lifecycle\<rparr>)"

definition rdp_session_limit_rejected :: "(('c, 'g) client_session, 'a) action" where
  "rdp_session_limit_rejected =
     athen (amodify (\<lambda>s. s\<lparr>ca_limits_rejected := rdp_session_metric_add (ca_limits_rejected s) 1\<rparr>))
       (afail LIBRDP_STATUS_LIMIT_EXCEEDED)"

definition rdp_session_require_owner :: "('c, 'g) client_env \<Rightarrow> ('c, 'g) client_action" where
  "rdp_session_require_owner env = afail_if (\<not> ce_owner env) LIBRDP_STATUS_STATE"

text \<open>
  The deadline of an activation, five seconds from now. The clock answers zero when it fails, and the sum is
  refused when it leaves 64 bits.
\<close>

definition rdp_session_activation_deadline_start :: "('c, 'g) client_env \<Rightarrow> ('c, 'g) client_action" where
  "rdp_session_activation_deadline_start env =
     (let now_ns = ce_now_ns env; interval_ns = RDP_SESSION_HANDSHAKE_TIMEOUT_MS * 1000000 in
      if now_ns = 0 then afail LIBRDP_STATUS_IO_ERROR
      else if now_ns > - 1 - interval_ns then afail LIBRDP_STATUS_IO_ERROR
      else amodify (\<lambda>s. s\<lparr>ca_activation_deadline_ns := now_ns + interval_ns\<rparr>))"

definition session_surface_resize :: "('c, 'g) client_env \<Rightarrow> u32 \<Rightarrow> u32 \<Rightarrow> ('c, 'g) client_action" where
  "session_surface_resize env width height = (\<lambda>(s, m).
     case ca_surface s of
       None \<Rightarrow> (Inl LIBRDP_STATUS_INVALID_ARGUMENT, s, m)
     | Some surface \<Rightarrow>
         (case librdp_surface_resize (ce_calloc env) width height (surface, m) of (status, surface, m) \<Rightarrow>
            (if status = LIBRDP_STATUS_OK then Inr () else Inl status, s\<lparr>ca_surface := Some surface\<rparr>, m)))"

definition session_graphics :: "('g \<Rightarrow> 'g) \<Rightarrow> ('c, 'g) client_action" where
  "session_graphics f = amodify (\<lambda>s. s\<lparr>ca_graphics := f (ca_graphics s)\<rparr>)"

section \<open>Sending\<close>

text \<open>One slow-path PDU written to a local buffer and sent.\<close>

definition session_send_pdu :: "('c, 'g) client_env \<Rightarrow> writer \<Rightarrow> ('c, 'g) client_action" where
  "session_send_pdu env w = abind (awrite w) (\<lambda>b. acall (\<lambda>(s, m).
     case rdp_session_write_slowpath_pdu (ce_crypto env) (ce_net env) b (ca_wire s, m) of
       (status, wire, m) \<Rightarrow> (status, s\<lparr>ca_wire := wire\<rparr>, m)))"

definition rdp_session_send_activation_finalization :: "('c, 'g) client_env \<Rightarrow> u32 \<Rightarrow> ('c, 'g) client_action" where
  "rdp_session_send_activation_finalization env share_id =
     abind (aget (\<lambda>s. se_mcs_user_id (ca_wire s))) (\<lambda>user_id.
     athen (session_send_pdu env (rdp_slowpath_write_client_synchronize share_id user_id))
     (athen (session_send_pdu env (rdp_slowpath_write_client_control share_id user_id 4))
     (athen (session_send_pdu env (rdp_slowpath_write_client_control share_id user_id 1))
     (athen (session_send_pdu env (rdp_slowpath_write_client_persistent_key_list share_id user_id))
      (session_send_pdu env (rdp_slowpath_write_client_font_list share_id user_id))))))"

definition librdp_session_set_output_suppressed :: "('c, 'g) client_env \<Rightarrow> bool \<Rightarrow> ('c, 'g) client_action" where
  "librdp_session_set_output_suppressed env suppressed =
     athen (rdp_session_require_owner env)
     (abind (aget id) (\<lambda>s.
      athen (afail_if (ca_state s \<noteq> LIBRDP_SESSION_ACTIVE \<or> ca_share_id s = 0) LIBRDP_STATUS_STATE)
      (athen (afail_if (\<not> ca_server_suppress_output_supported s) LIBRDP_STATUS_UNSUPPORTED)
       (if ca_output_suppression_known s \<and> ca_output_suppressed s = suppressed then aret ()
        else
          let width = if suppressed then 0 else librdp_surface_width (ca_surface s);
              height = if suppressed then 0 else librdp_surface_height (ca_surface s) in
          athen (afail_if (\<not> suppressed \<and> ca_surface s = None) LIBRDP_STATUS_STATE)
          (athen (afail_if (\<not> suppressed \<and> (width = 0 \<or> height = 0 \<or> width > 0xffff \<or> height > 0xffff))
             LIBRDP_STATUS_INVALID_ARGUMENT)
          (athen (session_send_pdu env (rdp_slowpath_write_client_suppress_output (ca_share_id s)
             (se_mcs_user_id (ca_wire s)) (\<not> suppressed) 0 0 (ucast width) (ucast height)))
           (amodify (\<lambda>s. s\<lparr>ca_output_suppressed := suppressed, ca_output_suppression_known := True\<rparr>))))))))"

definition librdp_session_refresh :: "('c, 'g) client_env \<Rightarrow> u32 \<Rightarrow> u32 \<Rightarrow> u32 \<Rightarrow> u32 \<Rightarrow> ('c, 'g) client_action" where
  "librdp_session_refresh env x y width height =
     athen (afail_if (width = 0 \<or> height = 0 \<or> x > 0xffff \<or> y > 0xffff \<or> width > 0xffff \<or> height > 0xffff)
       LIBRDP_STATUS_INVALID_ARGUMENT)
     (athen (rdp_session_require_owner env)
     (athen (afail_if (x + width - 1 > 0xffff \<or> y + height - 1 > 0xffff) LIBRDP_STATUS_INVALID_ARGUMENT)
     (abind (aget id) (\<lambda>s.
      athen (afail_if (ca_state s \<noteq> LIBRDP_SESSION_CONNECTED \<and> ca_state s \<noteq> LIBRDP_SESSION_ACTIVE) LIBRDP_STATUS_STATE)
      (athen (afail_if (ca_share_id s = 0) LIBRDP_STATUS_STATE)
      (athen (afail_if (\<not> ca_server_refresh_rect_supported s) LIBRDP_STATUS_UNSUPPORTED)
       (session_send_pdu env (rdp_slowpath_write_client_refresh_rect (ca_share_id s) (se_mcs_user_id (ca_wire s))
          (ucast x) (ucast y) (ucast width) (ucast height)))))))))"

definition rdp_session_send_active_output_request :: "('c, 'g) client_env \<Rightarrow> ('c, 'g) client_action" where
  "rdp_session_send_active_output_request env =
     abind (aget id) (\<lambda>s.
     athen (afail_if (ca_surface s = None \<or> ca_share_id s = 0) LIBRDP_STATUS_INVALID_ARGUMENT)
     (let width = librdp_surface_width (ca_surface s); height = librdp_surface_height (ca_surface s) in
      athen (afail_if (width = 0 \<or> height = 0 \<or> width > 0xffff \<or> height > 0xffff) LIBRDP_STATUS_INVALID_ARGUMENT)
      (athen (awhen (ca_server_suppress_output_supported s) (librdp_session_set_output_suppressed env False))
      (abind (aget ca_server_refresh_rect_supported) (\<lambda>refresh_rect_supported.
       awhen refresh_rect_supported (librdp_session_refresh env 0 0 width height))))))"

section \<open>Epochs\<close>

definition rdp_session_reset_activation_epoch :: "('c, 'g) client_env \<Rightarrow> ('c, 'g) client_action" where
  "rdp_session_reset_activation_epoch env =
     abind (aget ca_surface) (\<lambda>surface.
     athen (afail_if (surface = None) LIBRDP_STATUS_INVALID_ARGUMENT)
     (athen (session_graphics (ce_discard_graphics env))
     (athen (amodify (\<lambda>s. s\<lparr>ca_server_refresh_rect_supported := False, ca_server_suppress_output_supported := False,
        ca_output_suppressed := False, ca_output_suppression_known := False\<rparr>))
      (session_surface_resize env (librdp_surface_width surface) (librdp_surface_height surface)))))"

definition rdp_session_handle_deactivate_all :: "('c, 'g) client_env \<Rightarrow> u8 list \<Rightarrow> ('c, 'g) client_action" where
  "rdp_session_handle_deactivate_all env payload =
     abind (aget id) (\<lambda>s.
     athen (afail_if (ca_state s \<noteq> LIBRDP_SESSION_ACTIVE \<or> ca_share_id s = 0) LIBRDP_STATUS_PROTOCOL_ERROR)
     (abind (alift (rdp_slowpath_parse_deactivate_all payload)) (\<lambda>deactivate.
      athen (afail_if (dea_has_share_id deactivate \<and> dea_share_id deactivate \<noteq> ca_share_id s) LIBRDP_STATUS_PROTOCOL_ERROR)
      (athen (rdp_session_reset_activation_epoch env)
      (athen (amodify (\<lambda>s. s\<lparr>ca_reactivating := True\<rparr>))
      (athen (amodify (rdp_session_set_lifecycle LIBRDP_LIFECYCLE_ACTIVATING))
      (athen (amodify (rdp_session_set_state LIBRDP_SESSION_CONNECTED))
      (athen (rdp_session_activation_deadline_start env)
       (session_graphics (ce_pointer_emit_default env))))))))))"

definition rdp_session_trace_slowpath_data_pdu ::
    "('c, 'g) client_env \<Rightarrow> rdp_slowpath_data_pdu \<Rightarrow> ('c, 'g) client_action" where
  "rdp_session_trace_slowpath_data_pdu env data_pdu =
     (if dp_pdu_type2 data_pdu = RDP_SLOWPATH_DATA_PDU_FONT_MAP then
        abind (alift (rdp_slowpath_parse_font_map (dp_payload data_pdu))) (\<lambda>font_map.
        rdp_session_send_active_output_request env)
      else if dp_pdu_type2 data_pdu = RDP_SLOWPATH_DATA_PDU_SET_ERROR_INFO then
        abind (alift (rdp_slowpath_parse_set_error_info (dp_payload data_pdu))) (\<lambda>error_info.
        afail_if (error_info \<noteq> 0) LIBRDP_STATUS_PROTOCOL_ERROR)
      else if dp_pdu_type2 data_pdu = RDP_SLOWPATH_DATA_PDU_SAVE_SESSION_INFO then
        abind (alift (rdp_slowpath_parse_save_session_info (dp_payload data_pdu))) (\<lambda>info. aret ())
      else aret ())"

section \<open>Demand Active\<close>

text \<open>
  The General set says which display requests the server takes; without one, neither. The Bitmap set gives the
  desktop, which must be within the protocol's and the application's limits; without one, the surface keeps its
  dimensions.
\<close>

definition demand_general :: "rdp_capability_list \<Rightarrow> (bool \<times> bool) result" where
  "demand_general capabilities =
     (case rdp_capabilities_find capabilities RDP_CAPABILITY_TYPE_GENERAL of
        None \<Rightarrow> Inr (False, False)
      | Some general_set \<Rightarrow> ebind (rdp_capability_parse_general general_set) (\<lambda>general.
          Inr (cg_refresh_rect_support general \<noteq> 0, cg_suppress_output_support general \<noteq> 0)))"

definition demand_desktop :: "rdp_capability_list \<Rightarrow> (('c, 'g) client_session, u32 \<times> u32) action" where
  "demand_desktop capabilities =
     abind (aget id) (\<lambda>s.
     case rdp_capabilities_find capabilities RDP_CAPABILITY_TYPE_BITMAP of
       None \<Rightarrow> aret (librdp_surface_width (ca_surface s), librdp_surface_height (ca_surface s))
     | Some bitmap_set \<Rightarrow>
         abind (alift (rdp_capability_parse_bitmap bitmap_set)) (\<lambda>bitmap.
         let width = ucast (cb_desktop_width bitmap); height = ucast (cb_desktop_height bitmap) in
         if width < LIBRDP_DESKTOP_MIN_DIMENSION \<or> height < LIBRDP_DESKTOP_MIN_DIMENSION \<or>
            width > LIBRDP_DESKTOP_MAX_DIMENSION \<or> height > LIBRDP_DESKTOP_MAX_DIMENSION
         then afail LIBRDP_STATUS_PROTOCOL_ERROR
         else if width > ca_surface_max_dimension s \<or> height > ca_surface_max_dimension s
         then rdp_session_limit_rejected
         else aret (width, height)))"

text \<open>The surface follows the desktop.\<close>

definition apply_desktop :: "('c, 'g) client_env \<Rightarrow> u32 \<Rightarrow> u32 \<Rightarrow> ('c, 'g) client_action" where
  "apply_desktop env width height =
     abind (aget ca_surface) (\<lambda>surface.
     awhen (width \<noteq> librdp_surface_width surface \<or> height \<noteq> librdp_surface_height surface)
       (athen (session_surface_resize env width height) (session_graphics (ce_desktop_resized env width height))))"

definition rdp_session_handle_demand_active :: "('c, 'g) client_env \<Rightarrow> u8 list \<Rightarrow> ('c, 'g) client_action" where
  "rdp_session_handle_demand_active env payload =
     abind (aget ca_reactivating) (\<lambda>was_reactivating.
     abind (alift (rdp_slowpath_parse_demand_active payload)) (\<lambda>demand.
     abind (alift (demand_general (da_capabilities demand))) (\<lambda>(refresh_rect, suppress_output).
     abind (demand_desktop (da_capabilities demand)) (\<lambda>(width, height).
     athen (amodify (\<lambda>s. s\<lparr>ca_share_id := da_share_id demand, ca_server_refresh_rect_supported := refresh_rect,
        ca_server_suppress_output_supported := suppress_output, ca_output_suppressed := False,
        ca_output_suppression_known := False\<rparr>))
     (athen (apply_desktop env width height)
      (athen (session_graphics (\<lambda>g. ce_pointer_emit_default env (ce_pointer_cache_clear env g)))
      (abind (aget (\<lambda>s. se_mcs_user_id (ca_wire s))) (\<lambda>user_id.
       athen (session_send_pdu env (rdp_slowpath_write_confirm_active (da_share_id demand) user_id
          (ucast width) (ucast height) (ascii ''librdp'')))
       (athen (rdp_session_send_activation_finalization env (da_share_id demand))
       (abind (aget (\<lambda>s. se_clipboard_channel_id (ca_wire s))) (\<lambda>clipboard_channel_id.
        athen (awhen (\<not> was_reactivating \<and> clipboard_channel_id \<noteq> 0) (acall (ce_clipboard_handshake env)))
        (athen (amodify (\<lambda>s. s\<lparr>ca_reactivating := False\<rparr>))
        (athen (amodify (rdp_session_set_lifecycle LIBRDP_LIFECYCLE_ACTIVE))
         (amodify (rdp_session_set_state LIBRDP_SESSION_ACTIVE)))))))))))))))"

end
