(* ===== verification/Activation.thy ===== *)
theory Activation
  imports Server_Runs Session_Activation
begin

text \<open>
  The two ends of the activation of a connection: the client's answer to Demand Active, as the frames that it
  hands to the transport, and the server's state machine on these frames. The client's actions are described by
  the frames that they send; the server's runs come from \<open>Server_Runs\<close>, and \<open>Startup\<close> puts the two together.
\<close>

section \<open>What the client sends\<close>

text \<open>A session that sends in the clear under its MCS user id, and the change that sending makes to its wire state.\<close>

definition client_ready :: "u16 \<Rightarrow> ('c, 'g) client_session \<Rightarrow> bool" where
  "client_ready user s \<longleftrightarrow> \<not> se_standard_security_active (ca_wire s) \<and> se_mcs_user_id (ca_wire s) = user \<and>
     RDP_MCS_BASE_CHANNEL_ID \<le> user"

definition session_sent :: "u8 list list \<Rightarrow> 'c librdp_session \<Rightarrow> 'c librdp_session \<Rightarrow> bool" where
  "session_sent frames w w' \<longleftrightarrow> w' = w\<lparr>se_sent := se_sent w @ frames,
     se_transport_bytes_written := se_transport_bytes_written w', se_pdu_out := se_pdu_out w'\<rparr>"

lemma session_sent_trans: "session_sent fs w w' \<Longrightarrow> session_sent gs w' w'' \<Longrightarrow> session_sent (fs @ gs) w w''"
  by (cases w; cases w'; cases w'') (simp add: session_sent_def)

lemma session_sent_fields:
  "session_sent fs w w' \<Longrightarrow> se_sent w' = se_sent w @ fs \<and> se_mcs_user_id w' = se_mcs_user_id w \<and>
    se_standard_security_active w' = se_standard_security_active w \<and> se_clipboard_channel_id w' = se_clipboard_channel_id w"
  by (cases w; cases w') (simp add: session_sent_def)

text \<open>The action succeeds and does nothing but send these frames.\<close>

definition client_transmits :: "u16 \<Rightarrow> u8 list list \<Rightarrow> ('c, 'g) client_action \<Rightarrow> bool" where
  "client_transmits user frames a \<longleftrightarrow> (\<forall>s. client_ready user s \<longrightarrow>
     (\<exists>w. a (s, []) = (Inr (), s\<lparr>ca_wire := w\<rparr>, []) \<and> session_sent frames (ca_wire s) w))"

lemma client_transmits_then:
  assumes "client_transmits user fs a" "client_transmits user gs b"
  shows "client_transmits user (fs @ gs) (athen a b)"
  unfolding client_transmits_def
proof (intro allI impI)
  fix s :: "('a, 'b) client_session" assume s: "client_ready user s"
  obtain w where w: "a (s, []) = (Inr (), s\<lparr>ca_wire := w\<rparr>, [])" "session_sent fs (ca_wire s) w"
    using assms(1) s unfolding client_transmits_def by blast
  have "client_ready user (s\<lparr>ca_wire := w\<rparr>)" using s session_sent_fields [OF w(2)] by (simp add: client_ready_def)
  then obtain w' where w': "b (s\<lparr>ca_wire := w\<rparr>, []) = (Inr (), s\<lparr>ca_wire := w\<rparr>\<lparr>ca_wire := w'\<rparr>, [])" "session_sent gs w w'"
    using assms(2) unfolding client_transmits_def by fastforce
  show "\<exists>w. athen a b (s, []) = (Inr (), s\<lparr>ca_wire := w\<rparr>, []) \<and> session_sent (fs @ gs) (ca_wire s) w"
    using w w' session_sent_trans [OF w(2) w'(2)] by (intro exI [of _ w']) (simp add: abind_def)
qed

definition client_net_ok :: "('c, 'g) client_env \<Rightarrow> bool" where
  "client_net_ok env \<longleftrightarrow> (\<forall>d. ce_net env d = LIBRDP_STATUS_OK)"

lemma client_transmits_pdu:
  assumes net: "client_net_ok env" and w: "emits w bs" "length bs \<le> 0x7fff"
  shows "client_transmits user [tpkt_frame (request_payload user bs)] (session_send_pdu env w)"
  unfolding client_transmits_def
proof (intro allI impI)
  fix s :: "('a, 'b) client_session" assume s: "client_ready user s"
  let ?data = "send_data_pdu 25 user RDP_MCS_GLOBAL_CHANNEL_ID bs"
  have len: "length ?data \<le> 65000" using w(2) length_send_data_pdu [of 25 user RDP_MCS_GLOBAL_CHANNEL_ID bs] by simp
  then have payload: "length (request_payload user bs) \<le> 65531" by (simp add: request_payload_def)
  obtain b where b: "w (rdp_buffer_init, []) = (LIBRDP_STATUS_OK, b, [])" "contents b = bs"
    by (rule emits_fresh [OF w(1)]) (use w(2) in auto)
  obtain c where c: "rdp_buffer_append bs (rdp_buffer_init, []) = (LIBRDP_STATUS_OK, c, [])" "contents c = bs"
    by (rule emits_fresh [OF emits_append, of bs]) (use w(2) in auto)
  obtain d where d: "rdp_security_write_send_data_request user RDP_MCS_GLOBAL_CHANNEL_ID bs (rdp_buffer_init, []) =
      (LIBRDP_STATUS_OK, d, [])" "contents d = ?data"
    by (rule emits_fresh [OF emits_send_data_request]) (use s w(2) len in \<open>auto simp: client_ready_def\<close>)
  obtain x where x: "rdp_x224_wrap_data ?data (rdp_buffer_init, []) = (LIBRDP_STATUS_OK, x, [])"
    "contents x = request_payload user bs"
    by (rule emits_fresh [OF emits_wrap_data]) (use len in \<open>auto simp: request_payload_def\<close>)
  obtain f where f: "rdp_tpkt_write (request_payload user bs) (rdp_buffer_init, []) = (LIBRDP_STATUS_OK, f, [])"
    "contents f = tpkt_frame (request_payload user bs)"
    by (rule emits_fresh [OF emits_atomicallyD(1) [OF tpkt_write_atomic [OF payload]]])
      (use payload in \<open>auto simp: tpkt_frame_def\<close>)
  let ?w = "(ca_wire s)\<lparr>se_sent := se_sent (ca_wire s) @ [tpkt_frame (request_payload user bs)],
    se_transport_bytes_written := rdp_session_metric_add (se_transport_bytes_written (ca_wire s)) (of_nat (buf_length f)),
    se_pdu_out := rdp_session_metric_add (se_pdu_out (ca_wire s)) 1\<rparr>"
  have "session_send_pdu env w (s, []) = (Inr (), s\<lparr>ca_wire := ?w\<rparr>, [])"
    using b c d x f s net [unfolded client_net_ok_def]
    by (simp add: session_send_pdu_def abind_def awrite_def acall_def rdp_session_write_slowpath_pdu_def session_send_data_def
        session_security_payload_def rdp_session_write_mcs_pdu_def client_ready_def Let_def)
  moreover have "session_sent [tpkt_frame (request_payload user bs)] (ca_wire s) ?w" by (simp add: session_sent_def)
  ultimately show "\<exists>w'. session_send_pdu env w (s, []) = (Inr (), s\<lparr>ca_wire := w'\<rparr>, []) \<and>
      session_sent [tpkt_frame (request_payload user bs)] (ca_wire s) w'" by blast
qed

text \<open>The frames of the finalization, and of the whole answer to Demand Active.\<close>

definition finalization_pdus :: "u32 \<Rightarrow> u16 \<Rightarrow> u8 list list" where
  "finalization_pdus share user =
     [data_pdu_bytes share user RDP_SLOWPATH_DATA_PDU_SYNCHRONIZE
        [1, 0, ucast (user AND 0xff), ucast (drop_bit 8 user AND 0xff)],
      data_pdu_bytes share user RDP_SLOWPATH_DATA_PDU_CONTROL [4, 0, 0, 0, 0, 0, 0, 0],
      data_pdu_bytes share user RDP_SLOWPATH_DATA_PDU_CONTROL [1, 0, 0, 0, 0, 0, 0, 0],
      data_pdu_bytes share user RDP_SLOWPATH_DATA_PDU_BITMAP_CACHE_PERSISTENT_LIST ((replicate 24 0)[20 := 3]),
      data_pdu_bytes share user RDP_SLOWPATH_DATA_PDU_FONT_LIST [0, 0, 0, 0, 3, 0, 50, 0]]"

lemma emits_finalization:
  "emits (rdp_slowpath_write_client_synchronize share user) (data_pdu_bytes share user RDP_SLOWPATH_DATA_PDU_SYNCHRONIZE
     [1, 0, ucast (user AND 0xff), ucast (drop_bit 8 user AND 0xff)])"
  "emits (rdp_slowpath_write_client_control share user 4) (data_pdu_bytes share user RDP_SLOWPATH_DATA_PDU_CONTROL [4, 0, 0, 0, 0, 0, 0, 0])"
  "emits (rdp_slowpath_write_client_control share user 1) (data_pdu_bytes share user RDP_SLOWPATH_DATA_PDU_CONTROL [1, 0, 0, 0, 0, 0, 0, 0])"
  "emits (rdp_slowpath_write_client_persistent_key_list share user)
     (data_pdu_bytes share user RDP_SLOWPATH_DATA_PDU_BITMAP_CACHE_PERSISTENT_LIST ((replicate 24 0)[20 := 3]))"
  "emits (rdp_slowpath_write_client_font_list share user) (data_pdu_bytes share user RDP_SLOWPATH_DATA_PDU_FONT_LIST [0, 0, 0, 0, 3, 0, 50, 0])"
  unfolding rdp_slowpath_write_client_synchronize_def rdp_slowpath_write_client_control_def rdp_slowpath_write_control_def
    rdp_slowpath_write_client_persistent_key_list_def rdp_slowpath_write_client_font_list_def
  by (auto intro!: emits_data_pdu)

lemma client_transmits_finalization:
  assumes net: "client_net_ok env"
  shows "client_transmits user (map (\<lambda>pdu. tpkt_frame (request_payload user pdu)) (finalization_pdus share user))
    (rdp_session_send_activation_finalization env share)"
proof -
  note pdu = client_transmits_pdu [OF net]
  have "client_transmits user
     ([tpkt_frame (request_payload user (finalization_pdus share user ! 0))] @
      [tpkt_frame (request_payload user (finalization_pdus share user ! 1))] @
      [tpkt_frame (request_payload user (finalization_pdus share user ! 2))] @
      [tpkt_frame (request_payload user (finalization_pdus share user ! 3))] @
      [tpkt_frame (request_payload user (finalization_pdus share user ! 4))])
     (athen (session_send_pdu env (rdp_slowpath_write_client_synchronize share user))
     (athen (session_send_pdu env (rdp_slowpath_write_client_control share user 4))
     (athen (session_send_pdu env (rdp_slowpath_write_client_control share user 1))
     (athen (session_send_pdu env (rdp_slowpath_write_client_persistent_key_list share user))
      (session_send_pdu env (rdp_slowpath_write_client_font_list share user))))))"
    unfolding finalization_pdus_def
    by (intro client_transmits_then; simp; rule pdu, rule emits_finalization, simp)
  then show ?thesis
    by (auto simp: client_transmits_def rdp_session_send_activation_finalization_def abind_def aget_def client_ready_def
        finalization_pdus_def)
qed

section \<open>The client becomes active\<close>

text \<open>The desktop that the server offers is one the client takes, and the surface can be resized to it.\<close>

definition desktop_accepted :: "u16 \<Rightarrow> u16 \<Rightarrow> ('c, 'g) client_session \<Rightarrow> bool" where
  "desktop_accepted w h s \<longleftrightarrow> 200 \<le> w \<and> w \<le> 8192 \<and> 200 \<le> h \<and> h \<le> 8192 \<and>
     ucast w \<le> ca_surface_max_dimension s \<and> ucast h \<le> ca_surface_max_dimension s \<and>
     (\<exists>surface. ca_surface s = Some surface \<and> su_read_maps surface = 0 \<and> su_write_map surface = 0)"

lemma narrow_widen [simp]: "ucast (ucast (v :: u16) :: u32) = v"
  by (rule bit_word_eqI) (simp add: bit_simps)

lemma demand_general_sent: "demand_general (demand_list w h) = Inr (True, True)"
  using advertised_sent [of "demand_list w h" w h rdp_capability_parse_general, OF list_ok_sent(1) _ parse_general_payload]
  by (auto simp: demand_general_def advertised_def demand_list_def demand_sets_def parse_general_payload
      split: option.splits sum.splits)

lemma demand_desktop_sent:
  assumes "desktop_accepted w h s"
  shows "demand_desktop (demand_list w h) (s, m) = (Inr (ucast w, ucast h), s, m)"
proof -
  have nz: "w \<noteq> 0" "h \<noteq> 0" using assms by (auto simp: desktop_accepted_def)
  have up: "(200 :: u32) \<le> ucast v" "ucast v \<le> (8192 :: u32)" if "200 \<le> v" "v \<le> 8192" for v :: u16
    using that by (auto simp: word_le_nat_alt unat_widen)
  have "\<exists>b. rdp_capabilities_find (demand_list w h) RDP_CAPABILITY_TYPE_BITMAP = Some b \<and>
      (\<exists>v. rdp_capability_parse_bitmap b = Inr v \<and> cb_desktop_width v = w \<and> cb_desktop_height v = h)"
    using sent_lists_describe_desktop(1) [OF nz] by (auto simp: describes_desktop_def advertised_def split: option.splits sum.splits)
  then show ?thesis
    using assms up [of w] up [of h]
    by (auto simp: demand_desktop_def desktop_accepted_def abind_def aget_def alift_def aret_def Let_def not_less
        LIBRDP_DESKTOP_MIN_DIMENSION_def LIBRDP_DESKTOP_MAX_DIMENSION_def)
qed

lemma session_resize_sent:
  assumes "desktop_accepted w h s"
  obtains s' where "session_surface_resize env (ucast w) (ucast h) (s, []) = (Inr (), s', [])" "ca_wire s' = ca_wire s"
    "ca_share_id s' = ca_share_id s" "ca_state s' = ca_state s"
proof -
  obtain surface where s: "ca_surface s = Some surface" "su_read_maps surface = 0" "su_write_map surface = 0"
    using assms by (auto simp: desktop_accepted_def)
  have "(ucast v :: u32) \<noteq> 0" "ucast v \<le> (8192 :: u32)" if "200 \<le> v" "v \<le> 8192" for v :: u16
    using that by (auto simp: word_le_nat_alt unat_widen simp flip: unat_eq_0)
  then show ?thesis
    using that s assms
    by (auto simp: session_surface_resize_def librdp_surface_resize_def surface_size desktop_accepted_def not_less)
qed

text \<open>The frames of the whole answer.\<close>

definition answer_pdus :: "u32 \<Rightarrow> u16 \<Rightarrow> u16 \<Rightarrow> u16 \<Rightarrow> u8 list list" where
  "answer_pdus share user w h = confirm_pdu share user w h (ascii ''librdp'') # finalization_pdus share user"

lemma client_name [simp]: "c_string (ascii ''librdp'') = ascii ''librdp''" "ascii ''librdp'' \<noteq> []" "length (ascii ''librdp'') = 6"
  by (simp_all add: ascii_def c_string_def of_char_def)

lemma client_transmits_answer:
  assumes net: "client_net_ok env" and wh: "w \<noteq> 0" "h \<noteq> 0"
  shows "client_transmits user (map (\<lambda>pdu. tpkt_frame (request_payload user pdu)) (answer_pdus share user w h))
    (athen (session_send_pdu env (rdp_slowpath_write_confirm_active share user w h (ascii ''librdp'')))
      (rdp_session_send_activation_finalization env share))"
proof -
  have "emits (rdp_slowpath_write_confirm_active share user w h (ascii ''librdp'')) (confirm_pdu share user w h (ascii ''librdp''))"
    using emits_confirm_active [OF wh, of "ascii ''librdp''"] by simp
  then have "client_transmits user [tpkt_frame (request_payload user (confirm_pdu share user w h (ascii ''librdp'')))]
      (session_send_pdu env (rdp_slowpath_write_confirm_active share user w h (ascii ''librdp'')))"
    by (rule client_transmits_pdu [OF net]) simp
  from client_transmits_then [OF this client_transmits_finalization [OF net]] show ?thesis by (simp add: answer_pdus_def)
qed

text \<open>The part of the handler before the answer: it sends nothing.\<close>

lemma desktop_applied:
  assumes "desktop_accepted w h s"
  obtains s' where "apply_desktop env (ucast w) (ucast h) (s, []) = (Inr (), s', [])"
    "ca_wire s' = ca_wire s" "ca_share_id s' = ca_share_id s"
proof (cases "ucast w \<noteq> librdp_surface_width (ca_surface s) \<or> ucast h \<noteq> librdp_surface_height (ca_surface s)")
  case True
  obtain s1 where s1: "session_surface_resize env (ucast w) (ucast h) (s, []) = (Inr (), s1, [])" "ca_wire s1 = ca_wire s"
      "ca_share_id s1 = ca_share_id s"
    by (rule session_resize_sent [OF assms])
  show ?thesis
    by (rule that [of "s1\<lparr>ca_graphics := ce_desktop_resized env (ucast w) (ucast h) (ca_graphics s1)\<rparr>"])
      (use True s1 in \<open>simp_all add: apply_desktop_def awhen_def session_graphics_def run_rules\<close>)
next
  case False
  show ?thesis by (rule that [of s]) (use False in \<open>simp_all add: apply_desktop_def awhen_def run_rules\<close>)
qed

text \<open>
  The contract of the clipboard, whose handshake \<^verbatim>\<open>rdp_session_send_clipboard_handshake\<close> is the last part of the answer when the
  server has given the session a clipboard channel: it succeeds and sends frames of its own, after those of the answer.
\<close>

definition clipboard_answers :: "('c, 'g) client_env \<Rightarrow> u16 \<Rightarrow> bool" where
  "clipboard_answers env user \<longleftrightarrow> (\<forall>s. client_ready user s \<longrightarrow> se_clipboard_channel_id (ca_wire s) \<noteq> 0 \<longrightarrow>
     (\<exists>s' clip. ce_clipboard_handshake env (s, []) = (LIBRDP_STATUS_OK, s', []) \<and> ca_share_id s' = ca_share_id s \<and>
        se_sent (ca_wire s') = se_sent (ca_wire s) @ clip))"

lemma clipboard_answered:
  assumes "clipboard_answers env user" "client_ready user s"
  obtains s' clip where "awhen (\<not> reactivating \<and> se_clipboard_channel_id (ca_wire s) \<noteq> 0) (acall (ce_clipboard_handshake env)) (s, []) =
      (Inr (), s', [])" "ca_share_id s' = ca_share_id s" "se_sent (ca_wire s') = se_sent (ca_wire s) @ clip"
    "se_clipboard_channel_id (ca_wire s) = 0 \<or> reactivating \<longrightarrow> clip = []"
proof (cases "\<not> reactivating \<and> se_clipboard_channel_id (ca_wire s) \<noteq> 0")
  case True
  with assms obtain s' clip where "ce_clipboard_handshake env (s, []) = (LIBRDP_STATUS_OK, s', [])" "ca_share_id s' = ca_share_id s"
      "se_sent (ca_wire s') = se_sent (ca_wire s) @ clip"
    unfolding clipboard_answers_def by blast
  then show ?thesis using True that by (simp add: awhen_def acall_def)
next
  case False
  then show ?thesis using that [of s "[]"] by (auto simp: awhen_def aret_def)
qed

lemma client_activates:
  assumes net: "client_net_ok env" and s: "client_ready user s" "desktop_accepted w h s"
    and clip: "clipboard_answers env user"
    and src: "src \<noteq> []" "length src + 329 \<le> 0xffff"
  obtains s' clip where "rdp_session_handle_demand_active env (demand_pdu share channel w h src) (s, []) = (Inr (), s', [])"
    "ca_state s' = LIBRDP_SESSION_ACTIVE" "ca_share_id s' = share"
    "se_sent (ca_wire s') = se_sent (ca_wire s) @ map (\<lambda>pdu. tpkt_frame (request_payload user pdu)) (answer_pdus share user w h) @ clip"
    "se_clipboard_channel_id (ca_wire s) = 0 \<or> ca_reactivating s \<longrightarrow> clip = []"
proof -
  let ?s1 = "s\<lparr>ca_share_id := share, ca_server_refresh_rect_supported := True, ca_server_suppress_output_supported := True,
    ca_output_suppressed := False, ca_output_suppression_known := False\<rparr>"
  have s1: "desktop_accepted w h ?s1" using s(2) by (simp add: desktop_accepted_def)
  obtain s2 where s2: "apply_desktop env (ucast w) (ucast h) (?s1, []) = (Inr (), s2, [])" "ca_wire s2 = ca_wire s"
      "ca_share_id s2 = share"
    by (rule desktop_applied [OF s1]) simp
  let ?s3 = "s2\<lparr>ca_graphics := ce_pointer_emit_default env (ce_pointer_cache_clear env (ca_graphics s2))\<rparr>"
  have s3: "client_ready user ?s3" using s(1) s2(2) by (simp add: client_ready_def)
  have wh: "w \<noteq> 0" "h \<noteq> 0" using s(2) by (auto simp: desktop_accepted_def)
  obtain v where v: "athen (session_send_pdu env (rdp_slowpath_write_confirm_active share user w h (ascii ''librdp'')))
      (rdp_session_send_activation_finalization env share) (?s3, []) = (Inr (), ?s3\<lparr>ca_wire := v\<rparr>, [])"
    "session_sent (map (\<lambda>pdu. tpkt_frame (request_payload user pdu)) (answer_pdus share user w h)) (ca_wire s) v"
    using client_transmits_answer [OF net wh] s3 s2(2) unfolding client_transmits_def by fastforce
  obtain s4 m4 where s4: "session_send_pdu env (rdp_slowpath_write_confirm_active share user w h (ascii ''librdp'')) (?s3, []) = (Inr (), s4, m4)"
      "rdp_session_send_activation_finalization env share (s4, m4) = (Inr (), ?s3\<lparr>ca_wire := v\<rparr>, [])"
    using v(1) by (auto simp: abind_def split: prod.splits sum.splits)
  have ready: "client_ready user (?s3\<lparr>ca_wire := v\<rparr>)"
    using s(1) session_sent_fields [OF v(2)] by (simp add: client_ready_def)
  obtain s5 clipped where s5: "awhen (\<not> ca_reactivating s \<and> se_clipboard_channel_id v \<noteq> 0) (acall (ce_clipboard_handshake env))
      (?s3\<lparr>ca_wire := v\<rparr>, []) = (Inr (), s5, [])" "ca_share_id s5 = share" "se_sent (ca_wire s5) = se_sent v @ clipped"
      "se_clipboard_channel_id v = 0 \<or> ca_reactivating s \<longrightarrow> clipped = []"
    using clipboard_answered [OF clip ready, of "ca_reactivating s"] s2(3) by auto
  let ?s6 = "s5\<lparr>ca_reactivating := False\<rparr>"
  show ?thesis
  proof (rule that [of "rdp_session_set_state LIBRDP_SESSION_ACTIVE (rdp_session_set_lifecycle LIBRDP_LIFECYCLE_ACTIVE ?s6)" clipped])
    show "rdp_session_handle_demand_active env (demand_pdu share channel w h src) (s, []) =
      (Inr (), rdp_session_set_state LIBRDP_SESSION_ACTIVE (rdp_session_set_lifecycle LIBRDP_LIFECYCLE_ACTIVE ?s6), [])"
      using s(1)
      by (simp add: rdp_session_handle_demand_active_def run_rules parse_demand_active_pdu [OF src] demand_active_view_def
          demand_general_sent demand_desktop_sent [OF s(2)] s2 s4 s5(1) session_graphics_def client_ready_def) 
  qed (use session_sent_fields [OF v(2)] s5(2-4) in \<open>simp_all add: rdp_session_set_state_def rdp_session_set_lifecycle_def\<close>)
qed

section \<open>The server becomes active\<close>

text \<open>The state machine run once for every frame that arrives.\<close>

fun run_frames ::
    "('c, 'k, 'n) server_env \<Rightarrow> ('c, 'k, 'n, 'e) server_hooks \<Rightarrow> u8 list list \<Rightarrow> ('c, 'k, 'n, 'e) server_action" where
  "run_frames env hooks [] = aret ()"
| "run_frames env hooks (frame # frames) =
     athen (librdp_server_peer_run_once (env\<lparr>env_segments := [frame]\<rparr>) hooks) (run_frames env hooks frames)"

text \<open>A sequence of steps of activation, by the step before each PDU.\<close>

fun activates ::
    "('e desk \<Rightarrow> bool) \<Rightarrow> ('c, 'k, 'n) server_env \<Rightarrow> ('c, 'k, 'n, 'e) server_hooks \<Rightarrow> u32 \<Rightarrow> u16 \<Rightarrow> nat list \<Rightarrow> u8 list list \<Rightarrow> bool" where
  "activates I env hooks share user (n # n' # ns) (pdu # pdus) \<longleftrightarrow>
     n < 5 \<and> pdu \<noteq> [] \<and> length pdu \<le> 0x7fff \<and> (\<forall>segs. advances I (env\<lparr>env_segments := segs\<rparr>) hooks n n' share user pdu) \<and>
     activates I env hooks share user (n' # ns) pdus"
| "activates I env hooks share user ns pdus \<longleftrightarrow> length ns = 1 \<and> pdus = []"

lemma frames_activate:
  "activates I env hooks share user (n # ns) pdus \<Longrightarrow> activation I n share user p \<Longrightarrow> drained p \<Longrightarrow>
    \<exists>p'. run_frames env hooks (map (\<lambda>pdu. tpkt_frame (request_payload user pdu)) pdus) (p, []) = (Inr (), p', []) \<and>
      activation I (last (n # ns)) share user p' \<and> drained p'"
proof (induction pdus arbitrary: n ns p)
  case Nil
  then show ?case by (cases ns) (auto simp: aret_def)
next
  case (Cons pdu pdus)
  then obtain n' ns' where ns: "ns = n' # ns'" by (cases ns) auto
  let ?env = "env\<lparr>env_segments := [tpkt_frame (request_payload user pdu)]\<rparr>"
  have pdu: "n < 5" "pdu \<noteq> []" "length pdu \<le> 0x7fff" "advances I ?env hooks n n' share user pdu"
    and rest: "activates I env hooks share user (n' # ns') pdus"
    using Cons.prems(1) by (auto simp: ns)
  obtain p1 where p1: "librdp_server_peer_run_once ?env hooks (p, []) = (Inr (), p1, [])" "activation I n' share user p1" "drained p1"
    using activation_step [OF Cons.prems(2) pdu(1) Cons.prems(3) pdu(2,3), of ?env hooks n'] pdu(4)
    unfolding advances_def by auto
  obtain p2 where "run_frames env hooks (map (\<lambda>pdu. tpkt_frame (request_payload user pdu)) pdus) (p1, []) = (Inr (), p2, [])"
    "activation I (last (n' # ns')) share user p2" "drained p2"
    using Cons.IH [OF rest p1(2,3)] by blast
  then show ?case using p1(1) by (auto simp: ns run_rules)
qed

lemma answer_activates:
  assumes "net_ok env" "features_start I share user hooks"
  shows "activates I env hooks share user [0, 1, 2, 3, 4, 4, 6] (answer_pdus share user w h)"
proof -
  have net: "net_ok (env\<lparr>env_segments := segs\<rparr>)" for segs using assms(1) by (simp add: net_ok_def)
  have nonempty: "confirm_pdu share user w h src \<noteq> []" "data_pdu_bytes share user t payload \<noteq> []" for src t payload
    by (simp_all add: confirm_pdu_def data_pdu_bytes_def share_pdu_def flip: length_0_conv)
  show ?thesis
    unfolding answer_pdus_def finalization_pdus_def
    using net assms(2)
    by (simp add: nonempty confirm_advances synchronize_advances control_advances persistent_keys_advances font_list_advances
        del: One_nat_def)
qed

section \<open>Concrete ends\<close>

text \<open>Features that do nothing, a world in which every call succeeds, and the two ends of a TLS connection.\<close>

definition silent_hooks :: "('c, 'k, 'n, 'e) server_hooks" where
  "silent_hooks = \<lparr>hk_reset = (\<lambda>_ e. e), hk_channel_opened = (\<lambda>_ _ e. e),
     hk_surface_set_dimensions = (\<lambda>_ _ s. (LIBRDP_STATUS_OK, s)), hk_surface_present_rect = (\<lambda>_ _ _ _ s. (LIBRDP_STATUS_OK, s)),
     hk_autodetect_handle = (\<lambda>_ s. (LIBRDP_STATUS_OK, s)), hk_static_channel_message = (\<lambda>_ _ _ s. (LIBRDP_STATUS_OK, s)),
     hk_dynamic_channels_start = (\<lambda>s. (LIBRDP_STATUS_OK, s)), hk_device_redirection_start = (\<lambda>s. (LIBRDP_STATUS_OK, s)),
     hk_autodetect_start = (\<lambda>s. (LIBRDP_STATUS_OK, s))\<rparr>"

definition sample_env :: "u8 list list \<Rightarrow> (unit, unit, unit) server_env" where
  "sample_env segs = \<lparr>env_crypto = sample_crypto, env_net = (\<lambda>_. LIBRDP_STATUS_OK), env_segments = segs,
     env_create_tls_context = LIBRDP_STATUS_OK, env_ssl_new = True, env_ssl_set_fd = True,
     env_tls_accept = LIBRDP_STATUS_OK, env_wait_fd = LIBRDP_STATUS_OK, env_filetime_now = 1,
     env_rand_bytes = Some (replicate 8 1), env_generate_client_random = Inr (replicate 32 1),
     env_generate_server_certificate = Inr ((), rdp_buffer_init), env_decrypt_private_secret = (\<lambda>_ b. Inr b),
     env_tls_public_key = Inr [1], env_credentials_provider = (\<lambda>_. Inl LIBRDP_STATUS_AUTHENTICATION_FAILED),
     env_utf16le_to_utf8_alloc = (\<lambda>b. Inr (Some b)), env_parse_ts_request = (\<lambda>_. protocol_error),
     env_write_ts_request = (\<lambda>_ _ _ _. run_writers []), env_write_ts_error = (\<lambda>_ _. run_writers []),
     env_extract_ntlm_message = (\<lambda>_ _. protocol_error), env_parse_ntlm_negotiate = (\<lambda>_. protocol_error),
     env_write_ntlm_challenge = (\<lambda>_. run_writers []), env_parse_ntlm_authenticate = (\<lambda>_. protocol_error),
     env_verify_ntlm_authenticate = (\<lambda>_ _ _ _. protocol_error),
     env_ntlm_server_security_init = (\<lambda>_ n. (LIBRDP_STATUS_OK, n)),
     env_verify_client_public_key_hash = (\<lambda>_ _ _ n. (LIBRDP_STATUS_OK, n)),
     env_encrypt_server_public_key_hash = (\<lambda>_ _ n. (Inr [], n)),
     env_decrypt_password_credentials = (\<lambda>_ n. (protocol_error, n))\<rparr>"

definition tls_config :: server_config where
  "tls_config = \<lparr>sf_server_name = None, sf_tls_certificate_path = Some (ascii ''cert''),
     sf_tls_private_key_path = Some (ascii ''key''), sf_nla_domain = None, sf_nla_username = None, sf_nla_password = None,
     sf_credentials_provider = False, sf_requested_features = 0, sf_security_mode = LIBRDP_SECURITY_TLS\<rparr>"

definition sample_client_env :: "(unit, unit) client_env" where
  "sample_client_env = \<lparr>ce_crypto = sample_crypto, ce_net = (\<lambda>_. LIBRDP_STATUS_OK), ce_owner = True, ce_now_ns = 1,
     ce_calloc = 7, ce_discard_graphics = id, ce_desktop_resized = (\<lambda>_ _. id), ce_pointer_cache_clear = id,
     ce_pointer_emit_default = id, ce_clipboard_handshake = (\<lambda>s. (LIBRDP_STATUS_OK, s))\<rparr>"

definition connected_client :: "(unit, unit) client_session" where
  "connected_client = \<lparr>ca_wire = (sample_session 0)\<lparr>se_standard_security_active := False, se_sent := []\<rparr>,
     ca_state = LIBRDP_SESSION_CONNECTED, ca_lifecycle = LIBRDP_LIFECYCLE_ACTIVATING, ca_share_id = 0,
     ca_reactivating = False, ca_server_refresh_rect_supported = False, ca_server_suppress_output_supported = False,
     ca_output_suppressed = False, ca_output_suppression_known = False, ca_surface = Some two_by_two,
     ca_surface_max_dimension = 8192, ca_limits_rejected = 0, ca_activation_deadline_ns = 0, ca_state_events = [],
     ca_graphics = ()\<rparr>"

end
