(* ===== verification/Admission.thy ===== *)
theory Admission
  imports Activation
begin

text \<open>
  Admission to a session: what holds of a client in every state that a server peer can reach, written over the
  peer's fields, with a run of the state machine through a TLS negotiation.
\<close>

section \<open>A TLS negotiation\<close>

text \<open>A client that asks for TLS, and the peer that has answered it.\<close>

abbreviation tls_frame :: "u8 list" where
  "tls_frame \<equiv> tpkt_frame (x224_request_pdu [] RDP_X224_PROTOCOL_TLS)"

definition tls_selected :: "(unit, unit, unit, unit) server_peer \<Rightarrow> bool" where
  "tls_selected p \<longleftrightarrow> sp_fd_open p \<and> sp_config p = tls_config \<and> sp_state p = LIBRDP_SERVER_PEER_TLS_HANDSHAKING \<and>
     sp_selected_protocol p = RDP_X224_PROTOCOL_TLS \<and> \<not> sp_tls_active p \<and> \<not> sp_tls_context p \<and> \<not> sp_tls p"

lemma tls_material: "rdp_server_tls_material_available tls_config"
  by (simp add: rdp_server_tls_material_available_def tls_config_def text_set_def ascii_def c_string_def of_char_def)

lemma tls_negotiated:
  "\<exists>p. librdp_server_peer_run_once (sample_env [tls_frame]) silent_hooks (accepted_peer tls_config 1024 768 () (), []) =
    (Inr (), p, []) \<and> tls_selected p \<and> drained p"
proof (rule run_handled)
  let ?p = "accepted_peer tls_config 1024 768 () () :: (unit, unit, unit, unit) server_peer"
  let ?payload = "x224_request_pdu [] RDP_X224_PROTOCOL_TLS" and ?env = "sample_env [tls_frame]"
  have parse: "rdp_x224_parse_connection_request ?payload = Inr (request_view [] RDP_X224_PROTOCOL_TLS)"
    by (rule parse_request_pdu) (simp_all add: RDP_X224_PROTOCOL_TLS_def)
  have select: "rdp_server_select_protocol tls_config (request_view [] RDP_X224_PROTOCOL_TLS) = Inr RDP_X224_PROTOCOL_TLS"
    using tls_material
    by (simp add: rdp_server_select_protocol_def request_view_def tls_config_def no_negotiation_def RDP_X224_PROTOCOL_TLS_def)
  have confirm: "emits (rdp_x224_build_connection_confirm_ex RDP_X224_PROTOCOL_TLS True)
      (tpkt_frame (x224_confirm_pdu 2 RDP_X224_PROTOCOL_TLS))"
    unfolding rdp_x224_build_connection_confirm_ex_def if_True
    by (rule emits_via_local [OF emits_confirm tpkt.wr_emits]) simp_all
  obtain b where b: "rdp_x224_build_connection_confirm_ex RDP_X224_PROTOCOL_TLS True (rdp_buffer_init, []) = (LIBRDP_STATUS_OK, b, [])"
    by (rule emits_fresh [OF confirm]) (simp_all add: tpkt_frame_def)
  show "sp_fd_open ?p" "drained ?p" "sp_state ?p \<notin> {LIBRDP_SERVER_PEER_CLOSED,
      LIBRDP_SERVER_PEER_TLS_HANDSHAKING, LIBRDP_SERVER_PEER_NLA_AUTHENTICATING}" "length ?payload \<le> 65531"
    by (simp_all add: accepted_peer_def accepted_wire_def drained_def buf_ok_init contents_init)
  show "env_segments ?env = [tls_frame]" by (simp add: sample_env_def)
  fix w assume w: "read_only (sp_wire (started ?p)) w"
  then have st: "pe_state w = LIBRDP_SERVER_PEER_NEGOTIATING"
    by (cases w) (auto simp: read_only_def started_def accepted_peer_def accepted_wire_def rdp_server_set_state_def)
  show "\<exists>p2. server_dispatch ?env silent_hooks (packet_of ?payload) ((started ?p)\<lparr>sp_wire := w\<rparr>, []) = (Inr (), p2, []) \<and>
      pe_input (sp_wire p2) = pe_input w \<and> tls_selected p2"
    using st parse select b
    by (simp add: server_dispatch_def run_rules rdp_server_handle_x224_def packet_of_def x224_confirm_def on_error_def awhen_def
        awrite_def server_send_raw_def on_wire_def rdp_server_peer_send_all_def sample_env_def started_def accepted_peer_def
        accepted_wire_def rdp_server_set_state_def request_view_def no_negotiation_def Let_def tls_selected_def
        RDP_X224_PROTOCOL_TLS_def RDP_X224_PROTOCOL_NLA_def)
qed (simp add: tls_selected_def)

lemma tls_established:
  assumes "tls_selected p"
  shows "\<exists>p'. librdp_server_peer_run_once (sample_env []) silent_hooks (p, []) = (Inr (), p', []) \<and>
    sp_state p' = LIBRDP_SERVER_PEER_X224_CONFIRMED \<and> sp_selected_protocol p' = RDP_X224_PROTOCOL_TLS"
  using assms tls_material
  by (simp add: tls_selected_def librdp_server_peer_run_once_def abind_def aget_def amodify_def afail_if_def aret_def
      rdp_server_start_tls_def on_error_def awhen_def sample_env_def rdp_server_set_state_def RDP_X224_PROTOCOL_TLS_def RDP_X224_PROTOCOL_NLA_def)

lemma tls_reachable:
  "\<exists>p. reachable_peer (silent_hooks :: (unit, unit, unit, unit) server_hooks) p \<and>
    sp_state p = LIBRDP_SERVER_PEER_X224_CONFIRMED \<and> sp_selected_protocol p = RDP_X224_PROTOCOL_TLS"
proof -
  obtain p where p: "librdp_server_peer_run_once (sample_env [tls_frame]) silent_hooks (accepted_peer tls_config 1024 768 () (), []) =
      (Inr (), p, [])" "tls_selected p"
    using tls_negotiated by blast
  obtain p' where p': "librdp_server_peer_run_once (sample_env []) silent_hooks (p, []) = (Inr (), p', [])"
    "sp_state p' = LIBRDP_SERVER_PEER_X224_CONFIRMED" "sp_selected_protocol p' = RDP_X224_PROTOCOL_TLS"
    using tls_established [OF p(2)] by blast
  have "reachable_peer silent_hooks p" by (rule reachable_peer.Step [OF reachable_peer.Accept server_step.Run [OF p(1)]])
  then have "reachable_peer silent_hooks p'" by (rule reachable_peer.Step [OF _ server_step.Run [OF p'(1)]])
  then show ?thesis using p'(2,3) by blast
qed

section \<open>The theorem\<close>

text \<open>
  C1. Nobody gets past the negotiation without the protection that the server is configured for. In every state
  that a peer can reach by accepting, running, resizing, sending and closing, with any network, any bytes, any
  failing allocation and any outcome of OpenSSL and of the credential checks: once the peer is admitted (X.224
  confirmed and later) the selected protocol is one the security mode allows; if it is TLS then TLS is up; if it is
  NLA then TLS is up, the client has authenticated and its public key is bound to the TLS channel; an active
  session has a licence exchange and a client info behind it, and has its keys when it uses Standard Security. The
  feature modules are assumed to keep these fields, or to close the peer.
\<close>

theorem admitted_clients_are_protected:
  assumes "hooks_ok hooks" "reachable_peer hooks p" "sp_state p \<in> admitted_states"
  shows "mode_allows (sf_security_mode (sp_config p)) (sp_selected_protocol p) \<and>
    (sp_selected_protocol p = RDP_X224_PROTOCOL_TLS \<longrightarrow> sp_tls_active p) \<and>
    (sp_selected_protocol p = RDP_X224_PROTOCOL_NLA \<longrightarrow>
       sp_tls_active p \<and> sp_nla_authenticated p \<and> np_public_key_bound (sp_credssp p)) \<and>
    (sp_state p = LIBRDP_SERVER_PEER_ACTIVE \<longrightarrow> sp_licensing_done p \<and> sp_client_info_seen p \<and>
       (sp_selected_protocol p = RDP_X224_PROTOCOL_STANDARD \<longrightarrow> pe_standard_security_ready (sp_wire p)))"
  using reachable_safe [OF assms(1,2)] assms(3) by (simp add: secure_def view_def)

theorem admitted_clients_are_protected_witness:
  "\<exists>p. reachable_peer (silent_hooks :: (unit, unit, unit, unit) server_hooks) p \<and>
    sp_state p = LIBRDP_SERVER_PEER_X224_CONFIRMED \<and> sp_selected_protocol p = RDP_X224_PROTOCOL_TLS \<and> sp_tls_active p"
proof -
  obtain p where p: "reachable_peer (silent_hooks :: (unit, unit, unit, unit) server_hooks) p"
    "sp_state p = LIBRDP_SERVER_PEER_X224_CONFIRMED" "sp_selected_protocol p = RDP_X224_PROTOCOL_TLS"
    using tls_reachable by blast
  have "hooks_ok (silent_hooks :: (unit, unit, unit, unit) server_hooks)"
    by (simp add: hooks_ok_def silent_hooks_def hook_frame_def)
  then show ?thesis
    using admitted_clients_are_protected [OF _ p(1)] p by (auto simp: admitted_states_def)
qed

end
