(* ===== verification/Presentation.thy ===== *)
theory Presentation
  imports Display Slowpath Server_Protocol
begin

text \<open>
  The server's framebuffer and its presentation, \<^verbatim>\<open>src/src/server/server_graphics.c\<close>: drawing into the framebuffer, cutting a
  rectangle into tiles that fit one packet, and sending each tile as a bitmap update. Together with \<open>Display\<close> this gives the
  end-to-end statement of the graphics path: what the application draws and presents is what the client's surface shows.
\<close>

section \<open>The framebuffer\<close>

text \<open>
  The fields of \<^verbatim>\<open>librdp_server_peer\<close> the presentation uses, with the surface events sent so far. The length of the framebuffer is
  \<^verbatim>\<open>framebuffer_len\<close>.
\<close>

record 'c screen =
  sr_peer :: "'c librdp_server_peer"
  sr_share_id :: u32
  sr_width :: u16
  sr_height :: u16
  sr_framebuffer :: "u8 list option"
  sr_framebuffer_stride :: nat
  sr_client_fastpath_output :: bool
  sr_updates_suppressed :: bool
  sr_surface_repaint_pending :: bool
  sr_surface_updates :: u64
  sr_surface_events :: "(u32 \<times> u32 \<times> u32 \<times> u32) list"

type_synonym 'c screen_action = "'c screen \<times> mem \<Rightarrow> librdp_status \<times> 'c screen \<times> mem"

definition rdp_server_emit_surface_event :: "u32 \<Rightarrow> u32 \<Rightarrow> u32 \<Rightarrow> u32 \<Rightarrow> 'c screen \<Rightarrow> 'c screen" where
  "rdp_server_emit_surface_event x y width height sc =
     sc\<lparr>sr_surface_events := sr_surface_events sc @ [(x, y, width, height)]\<rparr>"

abbreviation rect_valid :: "'c screen \<Rightarrow> u32 \<Rightarrow> u32 \<Rightarrow> u32 \<Rightarrow> u32 \<Rightarrow> bool" where
  "rect_valid sc \<equiv> rdp_server_rect_valid (sr_width sc) (sr_height sc)"

definition rdp_server_surface_set_dimensions :: "u32 \<Rightarrow> u32 \<Rightarrow> 'c screen_action" where
  "rdp_server_surface_set_dimensions width height = (\<lambda>(sc, m).
     if width < ucast RDP_SERVER_MIN_DESKTOP_SIZE \<or> height < ucast RDP_SERVER_MIN_DESKTOP_SIZE \<or>
        width > ucast RDP_SERVER_MAX_DESKTOP_SIZE \<or> height > ucast RDP_SERVER_MAX_DESKTOP_SIZE
     then (LIBRDP_STATUS_INVALID_ARGUMENT, sc, m)
     else
       let stride = unat (width * 4) in
       if unat height > SIZE_MAX div stride then (LIBRDP_STATUS_INVALID_ARGUMENT, sc, m)
       else
         (case alloc m of
            (None, m) \<Rightarrow> (LIBRDP_STATUS_NO_MEMORY, sc, m)
          | (Some _, m) \<Rightarrow>
              (LIBRDP_STATUS_OK,
               sc\<lparr>sr_framebuffer := Some (replicate (stride * unat height) 0), sr_framebuffer_stride := stride,
                 sr_width := ucast width, sr_height := ucast height, sr_surface_repaint_pending := True\<rparr>, m)))"

definition rdp_server_surface_ensure :: "'c screen_action" where
  "rdp_server_surface_ensure = (\<lambda>(sc, m).
     if sr_framebuffer sc \<noteq> None then (LIBRDP_STATUS_OK, sc, m)
     else rdp_server_surface_set_dimensions (ucast (sr_width sc)) (ucast (sr_height sc)) (sc, m))"

definition librdp_server_peer_surface_blit_bgra32 ::
    "u32 \<Rightarrow> u32 \<Rightarrow> u32 \<Rightarrow> u32 \<Rightarrow> nat \<Rightarrow> u8 list \<Rightarrow> 'c screen_action" where
  "librdp_server_peer_surface_blit_bgra32 x y width height stride pixels = (\<lambda>(sc, m).
     if stride < unat width * 4 then (LIBRDP_STATUS_INVALID_ARGUMENT, sc, m)
     else
       (case rdp_server_surface_ensure (sc, m) of (status, sc, m) \<Rightarrow>
          if status \<noteq> LIBRDP_STATUS_OK then (status, sc, m)
          else if \<not> rect_valid sc x y width height then (LIBRDP_STATUS_INVALID_ARGUMENT, sc, m)
          else
            (LIBRDP_STATUS_OK,
             sc\<lparr>sr_framebuffer := Some (blit_rows x y width pixels stride (sr_framebuffer_stride sc) (unat height)
                 (the (sr_framebuffer sc)))\<rparr>, m)))"

section \<open>Presentation\<close>

text \<open>The rows of a tile, the last one first.\<close>

definition tile_bytes :: "'c screen \<Rightarrow> u32 \<Rightarrow> u32 \<Rightarrow> u32 \<Rightarrow> u32 \<Rightarrow> u8 list" where
  "tile_bytes sc x y width height =
     concat (map (\<lambda>row. take (unat (width * 4))
       (drop (unat (y + height - 1 - of_nat row) * sr_framebuffer_stride sc + unat x * 4) (the (sr_framebuffer sc))))
       [0..<unat height])"

definition tile_rect :: "u32 \<Rightarrow> u32 \<Rightarrow> u32 \<Rightarrow> u32 \<Rightarrow> u8 list \<Rightarrow> rdp_bitmap_rect" where
  "tile_rect x y width height data =
     \<lparr>br_dest_left = ucast x, br_dest_top = ucast y, br_dest_right = ucast (x + width - 1),
      br_dest_bottom = ucast (y + height - 1), br_width = ucast width, br_height = ucast height,
      br_bits_per_pixel = 32, br_flags = 0, br_data = data\<rparr>"

definition send_tile :: "'c crypto \<Rightarrow> network \<Rightarrow> rdp_bitmap_rect \<Rightarrow> 'c screen_action" where
  "send_tile cr net rect = (\<lambda>(sc, m).
     case (if sr_client_fastpath_output sc then rdp_bitmap_write_fastpath_update [rect] else rdp_bitmap_write_update [rect])
            (rdp_buffer_init, m) of (status, update, m) \<Rightarrow>
       if status \<noteq> LIBRDP_STATUS_OK then (status, sc, m)
       else if sr_client_fastpath_output sc then
         (case rdp_server_send_fastpath_update cr net RDP_FASTPATH_UPDATE_BITMAP (contents update) (sr_peer sc, m) of
            (status, peer, m) \<Rightarrow> (status, sc\<lparr>sr_peer := peer\<rparr>, m))
       else
         (case rdp_slowpath_write_data_pdu (sr_share_id sc) RDP_MCS_SERVER_CHANNEL_ID RDP_SLOWPATH_DATA_PDU_UPDATE
                 (contents update) (rdp_buffer_init, m) of (status, slowpath, m) \<Rightarrow>
            if status \<noteq> LIBRDP_STATUS_OK then (status, sc, m)
            else
              (case rdp_server_send_slowpath cr net slowpath (sr_peer sc, m) of
                 (status, peer, m) \<Rightarrow> (status, sc\<lparr>sr_peer := peer\<rparr>, m))))"

definition rdp_server_present_tile :: "'c crypto \<Rightarrow> network \<Rightarrow> u32 \<Rightarrow> u32 \<Rightarrow> u32 \<Rightarrow> u32 \<Rightarrow> 'c screen_action" where
  "rdp_server_present_tile cr net x y width height = (\<lambda>(sc, m).
     if \<not> rect_valid sc x y width height \<or> width > 0xffff \<or> height > 0xffff \<or>
        x + width - 1 > 0xffff \<or> y + height - 1 > 0xffff
     then (LIBRDP_STATUS_INVALID_ARGUMENT, sc, m)
     else
       let dst_stride = unat (width * 4) in
       if unat height > SIZE_MAX div dst_stride then (LIBRDP_STATUS_INVALID_ARGUMENT, sc, m)
       else
         (case rdp_buffer_reserve (dst_stride * unat height) (rdp_buffer_init, m) of (status, raw, m) \<Rightarrow>
            if status \<noteq> LIBRDP_STATUS_OK then (status, sc, m)
            else
              let raw = buf_overwrite 0 (tile_bytes sc x y width height) (raw\<lparr>buf_length := dst_stride * unat height\<rparr>) in
              send_tile cr net (tile_rect x y width height (contents raw)) (sc, m)))"

text \<open>
  The two loops over the tiles. A valid rectangle lies below 65536 in both directions, so that the counters do not wrap and are
  natural numbers; the conditions that the steps are not zero are those the code has checked before the loops.
\<close>

function present_rows :: "'c crypto \<Rightarrow> network \<Rightarrow> u32 \<Rightarrow> u32 \<Rightarrow> nat \<Rightarrow> nat \<Rightarrow> nat \<Rightarrow> nat \<Rightarrow> 'c screen_action" where
  "present_rows cr net x y tile_width rows_per_tile height row (sc, m) =
     (if row < height \<and> 0 < rows_per_tile then
        let tile_height = (if height - row > rows_per_tile then rows_per_tile else height - row) in
        case rdp_server_present_tile cr net x (y + of_nat row) (of_nat tile_width) (of_nat tile_height) (sc, m) of
          (status, sc, m) \<Rightarrow>
            if status \<noteq> LIBRDP_STATUS_OK then (status, sc, m)
            else present_rows cr net x y tile_width rows_per_tile height (row + rows_per_tile) (sc, m)
      else (LIBRDP_STATUS_OK, sc, m))"
  by pat_completeness auto
termination
  by (relation "measure (\<lambda>(cr, net, x, y, tw, rows, height, row, s). height - row)") auto

function present_columns :: "'c crypto \<Rightarrow> network \<Rightarrow> nat \<Rightarrow> u32 \<Rightarrow> u32 \<Rightarrow> nat \<Rightarrow> nat \<Rightarrow> nat \<Rightarrow> 'c screen_action" where
  "present_columns cr net max_raw_tile x y width height column (sc, m) =
     (let max_tile_width = max_raw_tile div 4 in
      if column < width \<and> 0 < max_tile_width then
        let tile_width = (if width - column > max_tile_width then max_tile_width else width - column);
            rows_per_tile = max_raw_tile div (tile_width * 4)
        in
        if rows_per_tile = 0 then (LIBRDP_STATUS_INVALID_ARGUMENT, sc, m)
        else
          (case present_rows cr net (x + of_nat column) y tile_width rows_per_tile height 0 (sc, m) of (status, sc, m) \<Rightarrow>
             if status \<noteq> LIBRDP_STATUS_OK then (status, sc, m)
             else present_columns cr net max_raw_tile x y width height (column + max_tile_width) (sc, m))
      else (LIBRDP_STATUS_OK, sc, m))"
  by pat_completeness auto
termination
  by (relation "measure (\<lambda>(cr, net, mx, x, y, width, height, column, s). width - column)") auto

declare present_rows.simps [simp del] present_columns.simps [simp del]

definition max_raw_tile :: "'c screen \<Rightarrow> nat result" where
  "max_raw_tile sc =
     (if sr_client_fastpath_output sc then
        (if RDP_SERVER_FASTPATH_FRAGMENT_DATA_MAX \<le> 22 then invalid_argument
         else Inr (RDP_SERVER_FASTPATH_FRAGMENT_DATA_MAX - 22))
      else
        let security_overhead = rdp_server_outbound_security_overhead (sr_peer sc) in
        if 0x7fff \<le> 22 + 18 + security_overhead then invalid_argument
        else Inr (0x7fff - 22 - 18 - security_overhead))"

definition rdp_server_surface_present_rect ::
    "'c crypto \<Rightarrow> network \<Rightarrow> u32 \<Rightarrow> u32 \<Rightarrow> u32 \<Rightarrow> u32 \<Rightarrow> 'c screen_action" where
  "rdp_server_surface_present_rect cr net x y width height = (\<lambda>(sc, m).
     if pe_state (sr_peer sc) \<noteq> LIBRDP_SERVER_PEER_ACTIVE \<or> sr_updates_suppressed sc then (LIBRDP_STATUS_STATE, sc, m)
     else
       (case rdp_server_surface_ensure (sc, m) of (status, sc, m) \<Rightarrow>
          if status \<noteq> LIBRDP_STATUS_OK then (status, sc, m)
          else if \<not> rect_valid sc x y width height then (LIBRDP_STATUS_INVALID_ARGUMENT, sc, m)
          else
            (case max_raw_tile sc of
               Inl e \<Rightarrow> (e, sc, m)
             | Inr max_raw \<Rightarrow>
                 if max_raw div 4 = 0 \<or> width > - 1 - x \<or> height > - 1 - y then (LIBRDP_STATUS_INVALID_ARGUMENT, sc, m)
                 else
                   (case present_columns cr net max_raw x y (unat width) (unat height) 0 (sc, m) of (status, sc, m) \<Rightarrow>
                      if status \<noteq> LIBRDP_STATUS_OK then (status, sc, m)
                      else
                        let sc = (if x = 0 \<and> y = 0 \<and> width = ucast (sr_width sc) \<and> height = ucast (sr_height sc)
                                  then sc\<lparr>sr_surface_repaint_pending := False\<rparr> else sc);
                            sc = sc\<lparr>sr_surface_updates := rdp_server_metric_add (sr_surface_updates sc) 1\<rparr>
                        in (LIBRDP_STATUS_OK, rdp_server_emit_surface_event x y width height sc, m)))))"

definition librdp_server_peer_surface_present ::
    "'c crypto \<Rightarrow> network \<Rightarrow> u32 \<Rightarrow> u32 \<Rightarrow> u32 \<Rightarrow> u32 \<Rightarrow> 'c screen_action" where
  "librdp_server_peer_surface_present cr net x y width height = (\<lambda>(sc, m).
     if pe_state (sr_peer sc) = LIBRDP_SERVER_PEER_ACTIVE \<and> sr_updates_suppressed sc \<and>
        rect_valid sc x y width height
     then (LIBRDP_STATUS_OK, sc\<lparr>sr_surface_repaint_pending := True\<rparr>, m)
     else rdp_server_surface_present_rect cr net x y width height (sc, m))"

section \<open>What a surface shows\<close>

text \<open>
  \<open>drawn fb s R s'\<close>: the surface \<open>s'\<close> has the bytes of the framebuffer \<open>fb\<close> in the pixels \<open>R\<close>, given by row and column, and is
  otherwise the surface \<open>s\<close>.
\<close>

definition drawn :: "u8 list \<Rightarrow> librdp_surface \<Rightarrow> (nat \<times> nat) set \<Rightarrow> librdp_surface \<Rightarrow> bool" where
  "drawn fb s R s' \<longleftrightarrow> surface_ok s' \<and> (\<exists>bs. s' = s\<lparr>su_bytes := bs\<rparr>) \<and>
     (\<forall>r c. r < unat (su_height s) \<longrightarrow> c < su_stride s \<longrightarrow>
        byte_at s' r c = (if (r, c div 4) \<in> R then fb ! (r * su_stride s + c) else byte_at s r c))"

lemma drawn_refl: "surface_ok s \<Longrightarrow> drawn fb s {} s"
  by (auto simp: drawn_def intro: exI [of _ "su_bytes s"])

lemma drawn_fields:
  assumes "drawn fb s R s'"
  shows "su_width s' = su_width s" "su_height s' = su_height s" "su_stride s' = su_stride s"
    "su_read_maps s' = su_read_maps s" "su_write_map s' = su_write_map s" "surface_ok s'"
  using assms by (auto simp: drawn_def)

lemma drawn_trans:
  assumes "drawn fb s R s1" "drawn fb s1 Q s2"
  shows "drawn fb s (R \<union> Q) s2"
proof -
  note f = drawn_fields [OF assms(1)]
  have "\<exists>bs. s2 = s\<lparr>su_bytes := bs\<rparr>" using assms by (auto simp: drawn_def)
  then show ?thesis using assms by (simp add: drawn_def f)
qed

lemma concat_nth:
  "\<forall>xs \<in> set xss. length xs = n \<Longrightarrow> i < length xss \<Longrightarrow> c < n \<Longrightarrow> concat xss ! (i * n + c) = xss ! i ! c"
proof (induction xss arbitrary: i)
  case (Cons xs xss)
  then show ?case by (cases i) (auto simp: nth_append add.assoc)
qed simp

lemma length_concat_const: "\<forall>xs \<in> set xss. length xs = n \<Longrightarrow> length (concat xss) = length xss * n"
  by (induction xss) auto

lemma rows_of_concat: "\<forall>xs \<in> set xss. length xs = n \<Longrightarrow> rows_of n (length xss) (concat xss) = xss"
  by (induction xss) (simp_all add: rows_of_Suc, simp add: rows_of_def)

section \<open>A tile\<close>

text \<open>A framebuffer that fits the dimensions, and a valid rectangle inside it in natural numbers.\<close>

definition screen_ok :: "'c screen \<Rightarrow> u8 list \<Rightarrow> bool" where
  "screen_ok sc fb \<longleftrightarrow> sr_framebuffer sc = Some fb \<and> sr_framebuffer_stride sc = unat (sr_width sc) * 4 \<and>
     length fb = sr_framebuffer_stride sc * unat (sr_height sc)"

lemma rect_valid_nat:
  "rdp_server_rect_valid width height x y w h \<longleftrightarrow> 0 < unat w \<and> 0 < unat h \<and>
     unat x + unat w \<le> unat width \<and> unat y + unat h \<le> unat height"
proof -
  have sub: "w > ucast v - x \<longleftrightarrow> unat w > unat v - unat x" if "x < ucast v" for w x :: u32 and v :: u16
    using that by (simp add: word_less_nat_alt unat_sub word_le_nat_alt unat_widen)
  show ?thesis
    using unat_gt_0 [of w] unat_gt_0 [of h]
    by (auto simp: rdp_server_rect_valid_def sub not_le) (auto simp: word_less_nat_alt word_le_nat_alt unat_widen)
qed

text \<open>The bytes of a row of the framebuffer that belong to a tile.\<close>

definition line_of :: "'c screen \<Rightarrow> u8 list \<Rightarrow> nat \<Rightarrow> nat \<Rightarrow> nat \<Rightarrow> u8 list" where
  "line_of sc fb x w r = take (w * 4) (drop (r * sr_framebuffer_stride sc + x * 4) fb)"

lemma length_line:
  assumes "screen_ok sc fb" "x + w \<le> unat (sr_width sc)" "r < unat (sr_height sc)"
  shows "length (line_of sc fb x w r) = w * 4"
    and "c < w * 4 \<Longrightarrow> line_of sc fb x w r ! c = fb ! (r * sr_framebuffer_stride sc + (x * 4 + c))"
proof -
  have "r * sr_framebuffer_stride sc + sr_framebuffer_stride sc \<le> length fb"
    using assms(1,3) mult_le_mono1 [of "Suc r" "unat (sr_height sc)" "sr_framebuffer_stride sc"]
    by (simp add: screen_ok_def mult.commute)
  moreover have "x * 4 + w * 4 \<le> sr_framebuffer_stride sc" using assms(1,2) by (simp add: screen_ok_def)
  ultimately have le: "r * sr_framebuffer_stride sc + x * 4 + w * 4 \<le> length fb" by linarith
  then show "length (line_of sc fb x w r) = w * 4" by (simp add: line_of_def)
  show "c < w * 4 \<Longrightarrow> line_of sc fb x w r ! c = fb ! (r * sr_framebuffer_stride sc + (x * 4 + c))"
    using le by (simp add: line_of_def add.assoc)
qed

lemma tile_words:
  assumes "rect_valid sc x y w h"
  shows "unat x < 65536" "unat y < 65536" "unat w < 65536" "unat h < 65536" "unat (w * 4) = unat w * 4"
    "unat (x + w - 1) = unat x + unat w - 1" "unat (y + h - 1) = unat y + unat h - 1"
    "row < unat h \<Longrightarrow> unat (y + h - 1 - of_nat row) = unat y + unat h - 1 - row"
proof -
  have b: "0 < unat w" "0 < unat h" "unat x + unat w < 65536" "unat y + unat h < 65536"
    using assms unat_bounds(2) [of "sr_width sc"] unat_bounds(2) [of "sr_height sc"] by (auto simp: rect_valid_nat)
  then show "unat x < 65536" "unat y < 65536" "unat w < 65536" "unat h < 65536" by simp_all
  show "unat (w * 4) = unat w * 4" using b(3) by (simp add: unat_word_ariths)
  have s: "unat (a + b) = unat a + unat b" "unat (a + b - 1) = unat a + unat b - 1"
    if "unat a + unat b < 65536" "0 < unat b" for a b :: u32
  proof -
    show ab: "unat (a + b) = unat a + unat b" using that by (simp add: unat_word_ariths)
    show "unat (a + b - 1) = unat a + unat b - 1"
      using that ab unat_sub [of 1 "a + b"] by (simp add: word_le_nat_alt)
  qed
  show "unat (x + w - 1) = unat x + unat w - 1" "unat (y + h - 1) = unat y + unat h - 1"
    using s(2) [of x w] s(2) [of y h] b by simp_all
  then show "row < unat h \<Longrightarrow> unat (y + h - 1 - of_nat row) = unat y + unat h - 1 - row"
    using unat_sub [of "of_nat row" "y + h - 1"] b by (simp add: word_le_nat_alt unat_of_nat_u32)
qed

lemma tile_bytes_lines:
  assumes "screen_ok sc fb" "rect_valid sc x y w h"
  shows "tile_bytes sc x y w h = concat (rev (map (\<lambda>row. line_of sc fb (unat x) (unat w) (unat y + row)) [0..<unat h]))"
proof -
  have "map (\<lambda>row. take (unat (w * 4)) (drop (unat (y + h - 1 - of_nat row) * sr_framebuffer_stride sc + unat x * 4)
      (the (sr_framebuffer sc)))) [0..<unat h] = rev (map (\<lambda>row. line_of sc fb (unat x) (unat w) (unat y + row)) [0..<unat h])"
    using assms(1) tile_words(5,8) [OF assms(2)]
    by (intro nth_equalityI) (auto simp: rev_nth line_of_def screen_ok_def)
  then show ?thesis by (simp add: tile_bytes_def)
qed

definition viewer :: "'c screen \<Rightarrow> ('c, 'g) display \<Rightarrow> bool" where
  "viewer sc d \<longleftrightarrow> surface_ok (di_surface d) \<and> su_width (di_surface d) = ucast (sr_width sc) \<and>
     su_height (di_surface d) = ucast (sr_height sc) \<and> su_read_maps (di_surface d) = 0 \<and> su_write_map (di_surface d) = 0 \<and>
     0x3fff \<le> unat (di_frame_bytes d)"

lemma viewer_stride: "screen_ok sc fb \<Longrightarrow> viewer sc d \<Longrightarrow> su_stride (di_surface d) = sr_framebuffer_stride sc"
  by (simp add: viewer_def screen_ok_def surface_ok_def unat_widen)

lemma small_word: "unat (v :: u32) < 65536 \<Longrightarrow> ucast (ucast v :: u16) = v" "unat v < 65536 \<Longrightarrow> unat (ucast v :: u16) = unat v"
  using ucast_ucast_small [of v, where 'b = 16] by (simp_all add: unsigned_ucast_eq unsigned_take_bit_eq take_bit_nat_eq_self)

text \<open>The client draws a tile: its surface shows the tile and is otherwise unchanged.\<close>

lemma tile_applied:
  assumes sc: "screen_ok sc fb" and valid: "rect_valid sc x y w h" and d: "viewer sc d"
  shows "\<exists>d'. apply_rect (tile_rect x y w h (tile_bytes sc x y w h)) (d, []) = (LIBRDP_STATUS_OK, d', []) \<and>
    drawn fb (di_surface d) ({unat y..<unat y + unat h} \<times> {unat x..<unat x + unat w}) (di_surface d') \<and>
    di_session d' = di_session d \<and> di_input d' = di_input d \<and> viewer sc d'"
proof -
  let ?rect = "tile_rect x y w h (tile_bytes sc x y w h)" and ?s = "di_surface d"
  let ?lines = "map (\<lambda>row. line_of sc fb (unat x) (unat w) (unat y + row)) [0..<unat h]"
  note t = tile_words [OF valid]
  have v: "0 < unat w" "0 < unat h" "unat x + unat w \<le> unat (sr_width sc)" "unat y + unat h \<le> unat (sr_height sc)"
    using valid by (simp_all add: rect_valid_nat)
  have lens: "\<forall>xs \<in> set ?lines. length xs = unat w * 4" using length_line(1) [OF sc v(3)] v(4) by auto
  have rect: "unat (br_width ?rect) = unat w" "unat (br_height ?rect) = unat h" "br_flags ?rect = 0"
    "br_bits_per_pixel ?rect = 32" "br_data ?rect = concat (rev ?lines)"
    using small_word(2) [OF t(3)] small_word(2) [OF t(4)] tile_bytes_lines [OF sc valid] by (simp_all add: tile_rect_def)
  then have nz: "br_width ?rect \<noteq> 0" "br_height ?rect \<noteq> 0" using v(1,2) by (auto simp: unat_eq_0)
  have "length (concat (rev ?lines)) = unat h * (unat w * 4)" using length_concat_const [of "rev ?lines"] lens by simp
  then have data: "length (br_data ?rect) = unat (br_height ?rect) * (unat (br_width ?rect) * 4)" by (simp add: rect)
  obtain b where b: "rdp_bitmap_decode_rect_bgra32_with_palette ?rect (if di_palette_valid d then Some (di_palette d) else None)
      (rdp_buffer_init, 0, []) = (LIBRDP_STATUS_OK, b, unat w * 4, [])"
    "contents b = concat (rev (rows_of (unat w * 4) (unat h) (concat (rev ?lines))))"
    by (rule decode_rect_32 [OF rect(3,4) nz data buf_ok_init]) (simp add: rect)
  have pixels: "contents b = concat ?lines" using rows_of_concat [of "rev ?lines" "unat w * 4"] lens b(2) by simp
  have su: "surface_ok ?s" "unat (su_width ?s) = unat (sr_width sc)" "unat (su_height ?s) = unat (sr_height sc)"
    "su_stride ?s = sr_framebuffer_stride sc"
    using d viewer_stride [OF sc d] by (simp_all add: viewer_def unat_widen)
  have fits: "w \<noteq> 0" "h \<noteq> 0" "x \<le> su_width ?s" "y \<le> su_height ?s" "w \<le> su_width ?s - x" "h \<le> su_height ?s - y"
    using v su(2,3) by (auto simp: word_le_nat_alt unat_sub unat_eq_0)
  then obtain s' where blit: "librdp_surface_blit_bgra32 x y w h (contents b) (unat w * 4) ?s = (LIBRDP_STATUS_OK, s')"
    using d by (auto simp: librdp_surface_blit_bgra32_def viewer_def surface_ok_def not_less [symmetric])
  have "(unat h - 1) * (unat w * 4) + unat w * 4 \<le> length (contents b)"
    using length_concat_const [OF lens] v(2) by (simp add: pixels algebra_simps)
  note blitted = blit_done [OF su(1) this blit]
  have "contents b ! ((r - unat y) * (unat w * 4) + (c - unat x * 4)) = fb ! (r * sr_framebuffer_stride sc + c)"
    if "unat y \<le> r" "r < unat y + unat h" "unat x * 4 \<le> c" "c < unat x * 4 + unat w * 4" for r c
  proof -
    have "r - unat y < length ?lines" "c - unat x * 4 < unat w * 4" using that by auto
    from concat_nth [OF lens this] show ?thesis
      using length_line(2) [OF sc v(3), of r "c - unat x * 4"] that v(4) by (simp add: pixels)
  qed
  then have "drawn fb ?s ({unat y..<unat y + unat h} \<times> {unat x..<unat x + unat w}) s'"
    using blitted su(1) by (auto simp: drawn_def byte_at_def su(3,4) surface_ok_def)
  then show ?thesis
    using b(1) blit small_word(1) t(1-4) d drawn_fields
    by (auto simp: apply_rect_def tile_rect_def rdp_session_emit_surface_invalidated_def viewer_def)
qed

section \<open>Tiles across the wire\<close>

text \<open>
  What the server has sent between two states of a peer makes the client show the pixels \<open>R\<close> of the framebuffer. Sequences
  of sends compose.
\<close>

definition carried :: "'c crypto \<Rightarrow> ('c, 'g) display_hooks \<Rightarrow> 'c screen \<Rightarrow> u8 list \<Rightarrow> 'c librdp_server_peer \<times> 'c librdp_session \<Rightarrow>
    (nat \<times> nat) set \<Rightarrow> 'c librdp_server_peer \<times> 'c librdp_session \<Rightarrow> bool" where
  "carried cr hooks sc fb = (\<lambda>(p, s) R (p', s'). \<exists>frames. pe_sent p' = pe_sent p @ frames \<and> secured p' s' \<and>
     (\<forall>d rest. di_session d = s \<longrightarrow> viewer sc d \<longrightarrow> di_input d = concat frames @ rest \<longrightarrow>
        (\<exists>d'. client_runs cr hooks (length frames) (d, []) = (LIBRDP_STATUS_OK, d', []) \<and> di_session d' = s' \<and>
           di_input d' = rest \<and> viewer sc d' \<and> drawn fb (di_surface d) R (di_surface d'))))"

lemma client_runs_add:
  "client_runs cr hooks n (d, m) = (LIBRDP_STATUS_OK, d', m') \<Longrightarrow>
     client_runs cr hooks (n + k) (d, m) = client_runs cr hooks k (d', m')"
  by (induction n arbitrary: d m) (auto split: prod.splits if_splits)

lemma carried_refl: "secured p s \<Longrightarrow> carried cr hooks sc fb (p, s) {} (p, s)"
  by (auto simp: carried_def viewer_def intro!: exI [of _ "[]"] drawn_refl)

lemma carried_trans:
  assumes "carried cr hooks sc fb a R b" "carried cr hooks sc fb b Q c"
  shows "carried cr hooks sc fb a (R \<union> Q) c"
proof -
  obtain p s p1 s1 p2 s2 where abc: "a = (p, s)" "b = (p1, s1)" "c = (p2, s2)" by (cases a; cases b; cases c)
  from assms(1) obtain fs where f: "pe_sent p1 = pe_sent p @ fs" and
    run1: "\<And>d rest. di_session d = s \<Longrightarrow> viewer sc d \<Longrightarrow> di_input d = concat fs @ rest \<Longrightarrow>
        \<exists>d'. client_runs cr hooks (length fs) (d, []) = (LIBRDP_STATUS_OK, d', []) \<and> di_session d' = s1 \<and>
           di_input d' = rest \<and> viewer sc d' \<and> drawn fb (di_surface d) R (di_surface d')"
    by (auto simp: abc carried_def)
  from assms(2) obtain gs where g: "pe_sent p2 = pe_sent p1 @ gs" "secured p2 s2" and
    run2: "\<And>d rest. di_session d = s1 \<Longrightarrow> viewer sc d \<Longrightarrow> di_input d = concat gs @ rest \<Longrightarrow>
        \<exists>d'. client_runs cr hooks (length gs) (d, []) = (LIBRDP_STATUS_OK, d', []) \<and> di_session d' = s2 \<and>
           di_input d' = rest \<and> viewer sc d' \<and> drawn fb (di_surface d) Q (di_surface d')"
    by (auto simp: abc carried_def)
  have "\<exists>d'. client_runs cr hooks (length (fs @ gs)) (d, []) = (LIBRDP_STATUS_OK, d', []) \<and> di_session d' = s2 \<and>
      di_input d' = rest \<and> viewer sc d' \<and> drawn fb (di_surface d) (R \<union> Q) (di_surface d')"
    if d: "di_session d = s" "viewer sc d" "di_input d = concat (fs @ gs) @ rest" for d rest
  proof -
    from run1 [OF d(1,2), of "concat gs @ rest"] d(3) obtain d1 where
      d1: "client_runs cr hooks (length fs) (d, []) = (LIBRDP_STATUS_OK, d1, [])" "di_session d1 = s1"
        "di_input d1 = concat gs @ rest" "viewer sc d1" "drawn fb (di_surface d) R (di_surface d1)" by auto
    from run2 [OF d1(2,4,3)] d1(1,5) show ?thesis by (auto simp: client_runs_add intro: drawn_trans)
  qed
  with f g show ?thesis by (auto simp: abc carried_def intro!: exI [of _ "fs @ gs"])
qed

lemma fragment_data_max: "RDP_SERVER_FASTPATH_FRAGMENT_DATA_MAX \<le> 0x7fff"
  by (simp add: RDP_SERVER_FASTPATH_FRAGMENT_DATA_MAX_def)

lemma tile_update:
  assumes sc: "screen_ok sc fb" and valid: "rect_valid sc x y w h"
    and fits: "unat w * 4 * unat h + 22 \<le> 0x7fff"
  defines "rect \<equiv> tile_rect x y w h (tile_bytes sc x y w h)"
  shows "length (tile_bytes sc x y w h) = unat w * 4 * unat h" "bitmap_update_ok [rect]"
    and "unambiguous [rect]" and "length (bitmap_update_bytes [rect]) = unat w * 4 * unat h + 22"
proof -
  let ?lines = "map (\<lambda>row. line_of sc fb (unat x) (unat w) (unat y + row)) [0..<unat h]"
  note t = tile_words [OF valid]
  have v: "0 < unat w" "0 < unat h" "unat x + unat w \<le> unat (sr_width sc)" "unat y + unat h \<le> unat (sr_height sc)"
    "unat x + unat w < 65536" "unat y + unat h < 65536"
    using valid unat_bounds(2) [of "sr_width sc"] unat_bounds(2) [of "sr_height sc"] by (auto simp: rect_valid_nat)
  have "\<forall>xs \<in> set (rev ?lines). length xs = unat w * 4" using length_line(1) [OF sc v(3)] v(4) by auto
  from length_concat_const [OF this] show len: "length (tile_bytes sc x y w h) = unat w * 4 * unat h"
    by (simp add: tile_bytes_lines [OF sc valid])
  have words: "unat (ucast w :: u16) = unat w" "unat (ucast h :: u16) = unat h" "unat (ucast x :: u16) = unat x"
    "unat (ucast y :: u16) = unat y" "unat (ucast (x + w - 1) :: u16) = unat x + unat w - 1"
    "unat (ucast (y + h - 1) :: u16) = unat y + unat h - 1"
    using t(1-4,6,7) v by (simp_all add: small_word(2))
  have "rect_ok rect"
    using len fits v unfolding rect_ok_def rect_def tile_rect_def
    by (simp add: word_le_nat_alt words unat_eq_0 [symmetric]) linarith
  then show "bitmap_update_ok [rect]"
    by (simp add: bitmap_update_ok_def RDP_BITMAP_MAX_RECTS_def rect_def tile_rect_def)
  show "unambiguous [rect]" by (simp add: rect_def tile_rect_def)
  show "length (bitmap_update_bytes [rect]) = unat w * 4 * unat h + 22"
    by (simp add: bitmap_update_bytes_def rects_bytes_def len rect_def tile_rect_def)
qed

lemma raw_tile:
  assumes "n \<le> 2 ^ 62" "length bs = n"
  obtains raw where "rdp_buffer_reserve n (rdp_buffer_init, []) = (LIBRDP_STATUS_OK, raw, [])"
    "contents (buf_overwrite 0 bs (raw\<lparr>buf_length := n\<rparr>)) = bs"
proof -
  obtain b where b: "store_output n (LIBRDP_STATUS_OK, bs) 0 (rdp_buffer_init, 0, []) = (LIBRDP_STATUS_OK, b, 0, [])"
    "contents b = bs"
    using stored_ok [OF buf_ok_init assms(2), of 0 0] assms(1) by auto
  obtain st raw m where "rdp_buffer_reserve n (rdp_buffer_init, []) = (st, raw, m)" by (rule prod_cases3)
  with b that show ?thesis by (auto simp: store_output_def split: if_splits)
qed

lemma same_display_fields:
  assumes "same_display d d'"
  shows "di_session d' = di_session d" "di_input d' = di_input d" "di_surface d' = di_surface d" "viewer sc d' = viewer sc d"
proof -
  obtain a b c e where "d' = d\<lparr>di_fastpath_fragmenting := a, di_fastpath_fragment_update_code := b, di_fastpath_fragment := c,
      di_fastpath_decompressed := e\<rparr>" using assms by (auto simp: same_display_def)
  then show "di_session d' = di_session d" "di_input d' = di_input d" "di_surface d' = di_surface d" "viewer sc d' = viewer sc d"
    by (simp_all add: viewer_def)
qed

lemma tile_update_crosses:
  assumes cr: "rc4_involutive cr" "crypto_available cr" and net: "\<And>d. net d = LIBRDP_STATUS_OK"
    and sc: "screen_ok sc fb" and sec: "secured p s" and valid: "rect_valid sc x y w h"
    and fits: "unat w * 4 * unat h + 22 \<le> RDP_SERVER_FASTPATH_FRAGMENT_DATA_MAX"
  defines "rect \<equiv> tile_rect x y w h (tile_bytes sc x y w h)"
  obtains p' s' where
    "rdp_server_send_fastpath_update cr net 1 (bitmap_update_bytes [rect]) (p, []) = (LIBRDP_STATUS_OK, p', [])"
    "carried cr (hooks :: ('c, 'g) display_hooks) sc fb (p, s) ({unat y..<unat y + unat h} \<times> {unat x..<unat x + unat w}) (p', s')"
proof -
  note u = tile_update [OF sc valid le_trans [OF fits fragment_data_max], folded rect_def]
  have code: "rdp_fastpath_valid_update_code 1" "(1 :: u8) \<noteq> 3" by (simp_all add: rdp_fastpath_valid_update_code_def)
  let ?handler = "\<lambda>data. parsed_update (rdp_bitmap_parse_fastpath_update data) rdp_session_apply_bitmap_update"
  have handler: "update_handler hooks 1 = Some ?handler" by (simp add: update_handler_def)
  have short: "length (bitmap_update_bytes [rect]) \<le> RDP_SERVER_FASTPATH_FRAGMENT_DATA_MAX" using fits u(4) by simp
  obtain p' f s' where send: "rdp_server_send_fastpath_update cr net 1 (bitmap_update_bytes [rect]) (p, []) =
      (LIBRDP_STATUS_OK, p', [])" "pe_sent p' = pe_sent p @ [f]" "secured p' s'"
    and recv: "\<And>d rest. di_session d = s \<Longrightarrow> di_input d = f @ rest \<Longrightarrow> 0x3fff \<le> unat (di_frame_bytes d) \<Longrightarrow>
       \<exists>d'. same_display (d\<lparr>di_input := rest, di_session := s'\<rparr>) d' \<and>
         session_fastpath_branch cr hooks (d, []) = delivered False (?handler (bitmap_update_bytes [rect]) (d', []))"
    using single_crosses [where net = net, OF cr net sec code handler short] by metis
  have parsed: "?handler (bitmap_update_bytes [rect]) (d, []) = apply_rects [rect] (d, [])" for d :: "('c, 'g) display"
    using parse_fastpath_bitmap_update [of "[rect]"] u(2,3)
    by (simp add: parsed_update_def rdp_session_apply_bitmap_update_def update_view_def del: unambiguous.simps apply_rects.simps)
  have "\<exists>d'. client_runs cr hooks (length [f]) (d, []) = (LIBRDP_STATUS_OK, d', []) \<and> di_session d' = s' \<and> di_input d' = rest \<and>
      viewer sc d' \<and> drawn fb (di_surface d) ({unat y..<unat y + unat h} \<times> {unat x..<unat x + unat w}) (di_surface d')"
    if d: "di_session d = s" "viewer sc d" "di_input d = concat [f] @ rest" for d rest
  proof -
    obtain d1 where d1: "same_display (d\<lparr>di_input := rest, di_session := s'\<rparr>) d1"
      "session_fastpath_branch cr hooks (d, []) = delivered False (apply_rects [rect] (d1, []))"
      using recv [OF d(1), of rest] d(2,3) unfolding parsed by (auto simp: viewer_def)
    note f1 = same_display_fields [OF d1(1), simplified]
    have "viewer sc d1" using f1(4) [of sc] d(2) by (simp add: viewer_def)
    from tile_applied [OF sc valid this, folded rect_def] f1(1-3) d1(2) show ?thesis
      by (auto simp: client_runs_one delivered_def fail_session_def simp del: client_runs.simps)
  qed
  then have "carried cr hooks sc fb (p, s) ({unat y..<unat y + unat h} \<times> {unat x..<unat x + unat w}) (p', s')"
    using send(2,3) by (auto simp: carried_def intro!: exI [of _ "[f]"] simp del: client_runs.simps)
  with send(1) show ?thesis by (rule that)
qed

lemma tile_presented:
  assumes cr: "rc4_involutive cr" "crypto_available cr" and net: "\<And>d. net d = LIBRDP_STATUS_OK"
    and sc: "screen_ok sc fb" "sr_client_fastpath_output sc" and sec: "secured (sr_peer sc) s"
    and valid: "rect_valid sc x y w h"
    and fits: "unat w * 4 * unat h + 22 \<le> RDP_SERVER_FASTPATH_FRAGMENT_DATA_MAX"
  shows "\<exists>p' s'. rdp_server_present_tile cr net x y w h (sc, []) = (LIBRDP_STATUS_OK, sc\<lparr>sr_peer := p'\<rparr>, []) \<and>
    carried cr hooks sc fb (sr_peer sc, s) ({unat y..<unat y + unat h} \<times> {unat x..<unat x + unat w}) (p', s')"
proof -
  let ?bytes = "tile_bytes sc x y w h" and ?n = "unat w * 4 * unat h"
  let ?rect = "tile_rect x y w h ?bytes"
  note u = tile_update [OF sc(1) valid le_trans [OF fits fragment_data_max]] and t = tile_words [OF valid]
  have small: "?n \<le> 16384" using fits unfolding RDP_SERVER_FASTPATH_FRAGMENT_DATA_MAX_def by linarith
  have pos: "0 < unat w" "0 < unat h" using valid by (simp_all add: rect_valid_nat)
  obtain ub where ub: "rdp_bitmap_write_fastpath_update [?rect] (rdp_buffer_init, []) = (LIBRDP_STATUS_OK, ub, [])"
    "contents ub = bitmap_update_bytes [?rect]"
    by (rule emits_fresh [OF fastpath_bitmap_update.wr_emits]) (use u small in auto)
  obtain raw where raw: "rdp_buffer_reserve ?n (rdp_buffer_init, []) = (LIBRDP_STATUS_OK, raw, [])"
    "contents (buf_overwrite 0 ?bytes (raw\<lparr>buf_length := ?n\<rparr>)) = ?bytes"
    by (rule raw_tile [OF _ u(1)]) (use small in simp)
  have "unat h \<le> SIZE_MAX div (unat w * 4)"
    using pos small by (simp add: less_eq_div_iff_mult_less_eq SIZE_MAX_def mult.commute)
  moreover have "w \<le> 0xffff" "h \<le> 0xffff" "x + w - 1 \<le> 0xffff" "y + h - 1 \<le> 0xffff"
    using t(3,4,6,7) valid unat_bounds(2) [of "sr_width sc"] unat_bounds(2) [of "sr_height sc"]
    by (auto simp: word_le_nat_alt rect_valid_nat)
  ultimately have "rdp_server_present_tile cr net x y w h (sc, []) =
      (case rdp_server_send_fastpath_update cr net 1 (bitmap_update_bytes [?rect]) (sr_peer sc, []) of
         (status, peer, m) \<Rightarrow> (status, sc\<lparr>sr_peer := peer\<rparr>, m))"
    using valid raw ub sc(2) t(5)
    by (simp add: rdp_server_present_tile_def send_tile_def Let_def not_less [symmetric])
  moreover obtain p' s' where
    "rdp_server_send_fastpath_update cr net 1 (bitmap_update_bytes [?rect]) (sr_peer sc, []) = (LIBRDP_STATUS_OK, p', [])"
    "carried cr hooks sc fb (sr_peer sc, s) ({unat y..<unat y + unat h} \<times> {unat x..<unat x + unat w}) (p', s')"
    by (rule tile_update_crosses [where net = net, OF cr net sc(1) sec valid fits])
  ultimately show ?thesis by auto
qed

section \<open>The loops over the tiles\<close>

lemma screen_peer [simp]:
  "screen_ok (sc\<lparr>sr_peer := p\<rparr>) fb = screen_ok sc fb"
  "viewer (sc\<lparr>sr_peer := p\<rparr>) d = viewer sc d"
  "carried cr hooks (sc\<lparr>sr_peer := p\<rparr>) fb = carried cr hooks sc fb"
  by (simp_all add: screen_ok_def viewer_def carried_def)

lemma carried_secured: "carried cr hooks sc fb a R (p, s) \<Longrightarrow> secured p s"
  by (cases a) (auto simp: carried_def)

lemma carried_eq: "carried cr hooks sc fb a R b \<Longrightarrow> R = Q \<Longrightarrow> carried cr hooks sc fb a Q b"
  by simp

lemma rows_presented:
  assumes cr: "rc4_involutive cr" "crypto_available cr" and net: "\<And>d. net d = LIBRDP_STATUS_OK"
    and sc: "screen_ok sc fb" "sr_client_fastpath_output sc" and tw: "0 < tw" "unat x + tw \<le> unat (sr_width sc)"
    and h: "unat y + height \<le> unat (sr_height sc)"
    and rows: "0 < rows" "tw * 4 * rows + 22 \<le> RDP_SERVER_FASTPATH_FRAGMENT_DATA_MAX"
  shows "secured (sr_peer sc) s \<Longrightarrow>
    \<exists>p' s'. present_rows cr net x y tw rows height row (sc, []) = (LIBRDP_STATUS_OK, sc\<lparr>sr_peer := p'\<rparr>, []) \<and>
      carried cr hooks sc fb (sr_peer sc, s) ({unat y + row..<unat y + height} \<times> {unat x..<unat x + tw}) (p', s')"
  using sc tw h
proof (induction "height - row" arbitrary: row sc s rule: less_induct)
  case less
  show ?case
  proof (cases "row < height")
    case False
    then show ?thesis
      using less.prems(1) carried_refl [OF less.prems(1), of cr hooks sc fb]
      by (intro exI [of _ "sr_peer sc"] exI [of _ s]) (simp add: present_rows.simps)
  next
    case True
    define th where "th = (if height - row > rows then rows else height - row)"
    have bounds: "unat (sr_width sc) < 65536" "unat (sr_height sc) < 65536" by (rule unat_bounds)+
    have th: "0 < th" "th \<le> rows" "row + th \<le> height" using True rows(1) by (auto simp: th_def)
    then have words: "unat (y + of_nat row) = unat y + row" "unat (of_nat tw :: u32) = tw" "unat (of_nat th :: u32) = th"
      using less.prems(5,6) bounds by (simp_all add: unat_word_ariths unat_of_nat_u32)
    have valid: "rect_valid sc x (y + of_nat row) (of_nat tw) (of_nat th)"
      unfolding rect_valid_nat words using less.prems(4-6) th by simp
    have fits: "unat (of_nat tw :: u32) * 4 * unat (of_nat th :: u32) + 22 \<le> RDP_SERVER_FASTPATH_FRAGMENT_DATA_MAX"
      unfolding words using rows(2) mult_le_mono2 [OF th(2), of "tw * 4"] by linarith
    from tile_presented [where net = net and hooks = hooks, OF cr net less.prems(2,3,1) valid fits] obtain p1 s1 where
      tile: "rdp_server_present_tile cr net x (y + of_nat row) (of_nat tw) (of_nat th) (sc, []) = (LIBRDP_STATUS_OK, sc\<lparr>sr_peer := p1\<rparr>, [])"
      "carried cr hooks sc fb (sr_peer sc, s) ({unat y + row..<unat y + row + th} \<times> {unat x..<unat x + tw}) (p1, s1)"
      unfolding words by blast
    have "height - (row + rows) < height - row" using True rows(1) by simp
    from less.hyps [OF this, of "sc\<lparr>sr_peer := p1\<rparr>" s1] less.prems carried_secured [OF tile(2)] obtain p' s' where
      rest: "present_rows cr net x y tw rows height (row + rows) (sc\<lparr>sr_peer := p1\<rparr>, []) = (LIBRDP_STATUS_OK, sc\<lparr>sr_peer := p'\<rparr>, [])"
      "carried cr hooks sc fb (p1, s1) ({unat y + (row + rows)..<unat y + height} \<times> {unat x..<unat x + tw}) (p', s')"
      by auto
    have "present_rows cr net x y tw rows height row (sc, []) = (LIBRDP_STATUS_OK, sc\<lparr>sr_peer := p'\<rparr>, [])"
      using True rows(1) tile(1) rest(1) by (simp add: present_rows.simps [of _ _ _ _ _ _ _ row] th_def [symmetric])
    moreover have "carried cr hooks sc fb (sr_peer sc, s) ({unat y + row..<unat y + height} \<times> {unat x..<unat x + tw}) (p', s')"
      by (rule carried_eq [OF carried_trans [OF tile(2) rest(2)]]) (use True th in \<open>auto simp: th_def split: if_splits\<close>)
    ultimately show ?thesis by blast
  qed
qed

lemma columns_presented:
  assumes cr: "rc4_involutive cr" "crypto_available cr" and net: "\<And>d. net d = LIBRDP_STATUS_OK"
    and sc: "screen_ok sc fb" "sr_client_fastpath_output sc" and w: "unat x + width \<le> unat (sr_width sc)"
    and h: "unat y + height \<le> unat (sr_height sc)"
    and raw: "4 \<le> max_raw" "max_raw + 22 \<le> RDP_SERVER_FASTPATH_FRAGMENT_DATA_MAX"
  shows "secured (sr_peer sc) s \<Longrightarrow>
    \<exists>p' s'. present_columns cr net max_raw x y width height column (sc, []) = (LIBRDP_STATUS_OK, sc\<lparr>sr_peer := p'\<rparr>, []) \<and>
      carried cr hooks sc fb (sr_peer sc, s) ({unat y..<unat y + height} \<times> {unat x + column..<unat x + width}) (p', s')"
  using sc w h
proof (induction "width - column" arbitrary: column sc s rule: less_induct)
  case less
  have step: "0 < max_raw div 4" using raw(1) by auto
  show ?case
  proof (cases "column < width")
    case False
    then show ?thesis
      using less.prems(1) carried_refl [OF less.prems(1), of cr hooks sc fb]
      by (intro exI [of _ "sr_peer sc"] exI [of _ s]) (simp add: present_columns.simps)
  next
    case True
    define tw where "tw = (if width - column > max_raw div 4 then max_raw div 4 else width - column)"
    define rows where "rows = max_raw div (tw * 4)"
    have tw: "0 < tw" "tw \<le> max_raw div 4" "column + tw \<le> width" using True step by (auto simp: tw_def)
    have rows: "0 < rows" "tw * 4 * rows + 22 \<le> RDP_SERVER_FASTPATH_FRAGMENT_DATA_MAX"
    proof -
      have "tw * 4 \<le> max_raw" using tw(2) by linarith
      then show "0 < rows" using tw(1) by (simp add: rows_def div_greater_zero_iff)
      show "tw * 4 * rows + 22 \<le> RDP_SERVER_FASTPATH_FRAGMENT_DATA_MAX"
        using raw(2) times_div_less_eq_dividend [of "tw * 4" max_raw] unfolding rows_def by linarith
    qed
    have xc: "unat (x + of_nat column) = unat x + column"
      using True less.prems(4) unat_bounds(2) [of "sr_width sc"] by (simp add: unat_word_ariths unat_of_nat_u32)
    have "unat (x + of_nat column) + tw \<le> unat (sr_width sc)" using xc tw(3) less.prems(4) by simp
    from rows_presented [where net = net and hooks = hooks and row = 0, OF cr net less.prems(2,3) tw(1) this less.prems(5) rows less.prems(1)]
    obtain p1 s1 where
      tile: "present_rows cr net (x + of_nat column) y tw rows height 0 (sc, []) = (LIBRDP_STATUS_OK, sc\<lparr>sr_peer := p1\<rparr>, [])"
      "carried cr hooks sc fb (sr_peer sc, s) ({unat y..<unat y + height} \<times> {unat x + column..<unat x + column + tw}) (p1, s1)"
      unfolding xc by auto
    have "width - (column + max_raw div 4) < width - column" using True step by simp
    from less.hyps [OF this, of "sc\<lparr>sr_peer := p1\<rparr>" s1] less.prems carried_secured [OF tile(2)] obtain p' s' where
      rest: "present_columns cr net max_raw x y width height (column + max_raw div 4) (sc\<lparr>sr_peer := p1\<rparr>, []) =
        (LIBRDP_STATUS_OK, sc\<lparr>sr_peer := p'\<rparr>, [])"
      "carried cr hooks sc fb (p1, s1) ({unat y..<unat y + height} \<times> {unat x + (column + max_raw div 4)..<unat x + width}) (p', s')"
      by auto
    have "present_columns cr net max_raw x y width height column (sc, []) = (LIBRDP_STATUS_OK, sc\<lparr>sr_peer := p'\<rparr>, [])"
      using True step tile(1) rest(1) rows(1)
      by (simp add: present_columns.simps [of _ _ _ _ _ _ _ column] tw_def [symmetric] rows_def [symmetric] Let_def)
    moreover have "carried cr hooks sc fb (sr_peer sc, s) ({unat y..<unat y + height} \<times> {unat x + column..<unat x + width}) (p', s')"
      by (rule carried_eq [OF carried_trans [OF tile(2) rest(2)]]) (use True tw in \<open>auto simp: tw_def split: if_splits\<close>)
    ultimately show ?thesis by blast
  qed
qed

section \<open>What the application draws is what the client shows\<close>

text \<open>Presenting a valid rectangle of an active peer sends exactly the tiles, and succeeds.\<close>

lemma rect_presented:
  assumes cr: "rc4_involutive cr" "crypto_available cr" and net: "\<And>d. net d = LIBRDP_STATUS_OK"
    and sc: "screen_ok sc fb" "sr_client_fastpath_output sc" and sec: "secured (sr_peer sc) s"
    and st: "pe_state (sr_peer sc) = LIBRDP_SERVER_PEER_ACTIVE" "\<not> sr_updates_suppressed sc"
    and valid: "rect_valid sc x y w h"
  obtains sc' s' where "rdp_server_surface_present_rect cr net x y w h (sc, []) = (LIBRDP_STATUS_OK, sc', [])"
    "carried cr hooks sc fb (sr_peer sc, s) ({unat y..<unat y + unat h} \<times> {unat x..<unat x + unat w}) (sr_peer sc', s')"
    "screen_ok sc' fb" "sr_width sc' = sr_width sc" "sr_height sc' = sr_height sc"
    "sr_surface_events sc' = sr_surface_events sc @ [(x, y, w, h)]"
    "sr_surface_repaint_pending sc' \<longleftrightarrow> sr_surface_repaint_pending sc \<and>
       \<not> (x = 0 \<and> y = 0 \<and> w = ucast (sr_width sc) \<and> h = ucast (sr_height sc))"
proof -
  have b: "unat x + unat w \<le> unat (sr_width sc)" "unat y + unat h \<le> unat (sr_height sc)"
    "unat (sr_width sc) < 65536" "unat (sr_height sc) < 65536"
    using valid unat_bounds(2) by (auto simp: rect_valid_nat)
  have ensured: "rdp_server_surface_ensure (sc, []) = (LIBRDP_STATUS_OK, sc, [])"
    using sc(1) by (simp add: rdp_server_surface_ensure_def screen_ok_def)
  have room: "\<not> a > - 1 - c" if "unat c + unat a < 65536" for a c :: u32
    using that unat_sub [of c "- 1"] by (simp add: word_less_nat_alt word_le_nat_alt unsigned_minus_1_eq_mask mask_eq_exp_minus_1)
  let ?max = "RDP_SERVER_FASTPATH_FRAGMENT_DATA_MAX - 22"
  have raw: "4 \<le> ?max" "?max + 22 \<le> RDP_SERVER_FASTPATH_FRAGMENT_DATA_MAX" "max_raw_tile sc = Inr ?max" "0 < ?max div 4"
    using sc(2) by (simp_all add: max_raw_tile_def RDP_SERVER_FASTPATH_FRAGMENT_DATA_MAX_def)
  from columns_presented [where net = net and hooks = hooks and column = 0, OF cr net sc b(1,2) raw(1,2) sec]
  obtain p' s' where run: "present_columns cr net ?max x y (unat w) (unat h) 0 (sc, []) = (LIBRDP_STATUS_OK, sc\<lparr>sr_peer := p'\<rparr>, [])"
    "carried cr hooks sc fb (sr_peer sc, s) ({unat y..<unat y + unat h} \<times> {unat x..<unat x + unat w}) (p', s')"
    by auto
  define full where "full \<longleftrightarrow> x = 0 \<and> y = 0 \<and> w = ucast (sr_width sc) \<and> h = ucast (sr_height sc)"
  let ?sc' = "sc\<lparr>sr_peer := p', sr_surface_repaint_pending := sr_surface_repaint_pending sc \<and> \<not> full,
    sr_surface_updates := rdp_server_metric_add (sr_surface_updates sc) 1,
    sr_surface_events := sr_surface_events sc @ [(x, y, w, h)]\<rparr>"
  have "rdp_server_surface_present_rect cr net x y w h (sc, []) = (LIBRDP_STATUS_OK, ?sc', [])"
    using st valid raw run(1) ensured room [of x w] room [of y h] b
    by (simp add: rdp_server_surface_present_rect_def rdp_server_emit_surface_event_def Let_def full_def)
  then show ?thesis by (rule that) (use run(2) sc(1) in \<open>simp_all add: screen_ok_def full_def\<close>)
qed

lemma blit_drawn:
  assumes sc: "screen_ok sc fb" "unat (sr_height sc) \<le> 8192" and valid: "rect_valid sc x y w h"
    and src: "unat w * 4 \<le> stride" "(unat h - 1) * stride + unat w * 4 \<le> length pixels"
  obtains fb' where "librdp_server_peer_surface_blit_bgra32 x y w h stride pixels (sc, m) =
      (LIBRDP_STATUS_OK, sc\<lparr>sr_framebuffer := Some fb'\<rparr>, m)" "screen_ok (sc\<lparr>sr_framebuffer := Some fb'\<rparr>) fb'"
    "\<And>r c. r < unat (sr_height sc) \<Longrightarrow> c < sr_framebuffer_stride sc \<Longrightarrow> fb' ! (r * sr_framebuffer_stride sc + c) =
       (if (r, c div 4) \<in> {unat y..<unat y + unat h} \<times> {unat x..<unat x + unat w}
        then pixels ! ((r - unat y) * stride + (c - unat x * 4)) else fb ! (r * sr_framebuffer_stride sc + c))"
proof -
  let ?fb = "blit_rows x y w pixels stride (sr_framebuffer_stride sc) (unat h) fb"
  have b: "unat x + unat w \<le> unat (sr_width sc)" "unat y + unat h \<le> unat (sr_height sc)"
    using valid by (auto simp: rect_valid_nat)
  have rows: "row * stride + unat w * 4 \<le> length pixels" if "row < unat h" for row
    using src(2) mult_le_mono1 [of row "unat h - 1" stride] that by linarith
  have blit: "length ?fb = sr_framebuffer_stride sc * unat (sr_height sc)"
    "\<And>r c. r < unat (sr_height sc) \<Longrightarrow> c < sr_framebuffer_stride sc \<Longrightarrow> ?fb ! (r * sr_framebuffer_stride sc + c) =
       (if unat y \<le> r \<and> r < unat y + unat h \<and> unat x * 4 \<le> c \<and> c < unat x * 4 + unat w * 4
        then pixels ! ((r - unat y) * stride + (c - unat x * 4)) else fb ! (r * sr_framebuffer_stride sc + c))"
    using blit_rows_bytes [of x w "sr_framebuffer_stride sc" y "unat h" "unat (sr_height sc)" stride pixels fb] b sc rows
    by (auto simp: screen_ok_def)
  have "librdp_server_peer_surface_blit_bgra32 x y w h stride pixels (sc, m) =
      (LIBRDP_STATUS_OK, sc\<lparr>sr_framebuffer := Some ?fb\<rparr>, m)"
    using sc(1) valid src(1)
    by (simp add: librdp_server_peer_surface_blit_bgra32_def rdp_server_surface_ensure_def screen_ok_def)
  moreover have "screen_ok (sc\<lparr>sr_framebuffer := Some ?fb\<rparr>) ?fb" using sc(1) blit(1) by (simp add: screen_ok_def)
  moreover have "unat x * 4 \<le> c \<and> c < unat x * 4 + unat w * 4 \<longleftrightarrow> c div 4 \<in> {unat x..<unat x + unat w}" for c by auto
  ultimately show ?thesis using that [of ?fb] blit(2) by auto
qed

lemma screen_drawn [simp]:
  "viewer (sc\<lparr>sr_framebuffer := f\<rparr>) d = viewer sc d"
  by (simp add: viewer_def)

text \<open>What is carried, seen by one client with input of its own behind the packets.\<close>

lemma carried_viewed:
  fixes d :: "('c, 'g) display"
  assumes "carried cr hooks sc fb (p, di_session d) R (p', s')" "viewer sc0 d" "\<And>e :: ('c, 'g) display. viewer sc e = viewer sc0 e"
  obtains frames d' where "pe_sent p' = pe_sent p @ frames" "secured p' (di_session d')"
    "client_runs cr hooks (length frames) (d\<lparr>di_input := concat frames @ rest\<rparr>, []) = (LIBRDP_STATUS_OK, d', [])"
    "di_input d' = rest" "viewer sc0 d'" "drawn fb (di_surface d) R (di_surface d')"
proof -
  from assms(1) obtain frames where frames: "pe_sent p' = pe_sent p @ frames" "secured p' s'"
    "\<And>e rest. di_session e = di_session d \<Longrightarrow> viewer sc e \<Longrightarrow> di_input e = concat frames @ rest \<Longrightarrow>
        \<exists>e'. client_runs cr hooks (length frames) (e, []) = (LIBRDP_STATUS_OK, e', []) \<and> di_session e' = s' \<and>
           di_input e' = rest \<and> viewer sc e' \<and> drawn fb (di_surface e) R (di_surface e')"
    by (auto simp: carried_def)
  have "viewer sc (d\<lparr>di_input := concat frames @ rest\<rparr>)" unfolding assms(3) using assms(2) by (simp add: viewer_def)
  from frames(3) [OF _ this, of rest] obtain d' where "client_runs cr hooks (length frames)
      (d\<lparr>di_input := concat frames @ rest\<rparr>, []) = (LIBRDP_STATUS_OK, d', [])" "di_session d' = s'" "di_input d' = rest"
    "viewer sc d'" "drawn fb (di_surface d) R (di_surface d')"
    by auto
  then show ?thesis using that frames(1,2) assms(3) by metis
qed

text \<open>
  C3. What the application draws is what the client shows. A rectangle of pixels is drawn into the framebuffer of an active peer
  whose client takes fast-path output and has not suppressed it, and then presented; the client's surface has the size of the desktop and holds no mapping, and
  its frame limit is at least 16383 bytes, so that it takes every packet. Both calls succeed, and the server sends a list of packets that the
  client, receiving them in front of whatever else arrives, processes one by one without error. Afterwards every byte of the
  client's surface inside the rectangle is the byte the application gave for that pixel, every other byte is what it was, and the
  input that follows is untouched. It holds for every rectangle inside the desktop, however many tiles and packets it takes, with
  and without the encryption of standard security.
\<close>

theorem presentation_shown:
  fixes hooks :: "('c, 'g) display_hooks"
  assumes "rc4_involutive cr" "crypto_available cr" and "\<And>d. net d = LIBRDP_STATUS_OK"
    and "screen_ok sc fb" "sr_client_fastpath_output sc" "secured (sr_peer sc) (di_session d)" "viewer sc d"
    and "pe_state (sr_peer sc) = LIBRDP_SERVER_PEER_ACTIVE" "\<not> sr_updates_suppressed sc"
    and "rect_valid sc x y w h"
    and "unat w * 4 \<le> stride" "(unat h - 1) * stride + unat w * 4 \<le> length pixels"
  shows "\<exists>sc1 sc2 frames d'.
    librdp_server_peer_surface_blit_bgra32 x y w h stride pixels (sc, []) = (LIBRDP_STATUS_OK, sc1, []) \<and>
    librdp_server_peer_surface_present cr net x y w h (sc1, []) = (LIBRDP_STATUS_OK, sc2, []) \<and>
    pe_sent (sr_peer sc2) = pe_sent (sr_peer sc) @ frames \<and>
    client_runs cr hooks (length frames) (d\<lparr>di_input := concat frames @ rest\<rparr>, []) = (LIBRDP_STATUS_OK, d', []) \<and>
    di_input d' = rest \<and> secured (sr_peer sc2) (di_session d') \<and> viewer sc d' \<and>
    (\<forall>r c. r < unat (sr_height sc) \<longrightarrow> c < sr_framebuffer_stride sc \<longrightarrow> byte_at (di_surface d') r c =
       (if unat y \<le> r \<and> r < unat y + unat h \<and> unat x \<le> c div 4 \<and> c div 4 < unat x + unat w
        then pixels ! ((r - unat y) * stride + (c - unat x * 4)) else byte_at (di_surface d) r c))"
proof -
  have ok: "surface_ok (di_surface d)" "unat (su_height (di_surface d)) = unat (sr_height sc)"
    "su_stride (di_surface d) = sr_framebuffer_stride sc"
    using assms(4,7) viewer_stride [OF assms(4,7)] by (simp_all add: viewer_def unat_widen)
  then have "unat (sr_height sc) \<le> 8192" by (simp add: surface_ok_def surface_constants word_le_nat_alt)
  from blit_drawn [OF assms(4) this assms(10-12), of "[]"] obtain fb1 where
    blit: "librdp_server_peer_surface_blit_bgra32 x y w h stride pixels (sc, []) =
        (LIBRDP_STATUS_OK, sc\<lparr>sr_framebuffer := Some fb1\<rparr>, [])" "screen_ok (sc\<lparr>sr_framebuffer := Some fb1\<rparr>) fb1"
      "\<And>r c. r < unat (sr_height sc) \<Longrightarrow> c < sr_framebuffer_stride sc \<Longrightarrow> fb1 ! (r * sr_framebuffer_stride sc + c) =
       (if (r, c div 4) \<in> {unat y..<unat y + unat h} \<times> {unat x..<unat x + unat w}
        then pixels ! ((r - unat y) * stride + (c - unat x * 4)) else fb ! (r * sr_framebuffer_stride sc + c))"
    by metis
  let ?sc = "sc\<lparr>sr_framebuffer := Some fb1\<rparr>"
  have drawn1: "sr_client_fastpath_output ?sc" "secured (sr_peer ?sc) (di_session d)"
      "pe_state (sr_peer ?sc) = LIBRDP_SERVER_PEER_ACTIVE" "\<not> sr_updates_suppressed ?sc" "rect_valid ?sc x y w h"
    using assms(5,6,8-10) by simp_all
  have peer: "sr_peer ?sc = sr_peer sc" by simp
  from rect_presented [where net = net and hooks = hooks, OF assms(1-3) blit(2) drawn1, unfolded peer]
  obtain sc2 s' where show1: "rdp_server_surface_present_rect cr net x y w h (?sc, []) = (LIBRDP_STATUS_OK, sc2, [])"
    "carried cr hooks ?sc fb1 (sr_peer sc, di_session d) ({unat y..<unat y + unat h} \<times> {unat x..<unat x + unat w}) (sr_peer sc2, s')"
    by metis
  from carried_viewed [OF show1(2) assms(7), where rest = rest] obtain frames d' where
    frames: "pe_sent (sr_peer sc2) = pe_sent (sr_peer sc) @ frames" "secured (sr_peer sc2) (di_session d')" and
    d': "client_runs cr hooks (length frames) (d\<lparr>di_input := concat frames @ rest\<rparr>, []) = (LIBRDP_STATUS_OK, d', [])"
      "di_input d' = rest" "viewer sc d'"
      "drawn fb1 (di_surface d) ({unat y..<unat y + unat h} \<times> {unat x..<unat x + unat w}) (di_surface d')"
    using screen_drawn by metis
  have "byte_at (di_surface d') r c = (if unat y \<le> r \<and> r < unat y + unat h \<and> unat x \<le> c div 4 \<and> c div 4 < unat x + unat w
        then pixels ! ((r - unat y) * stride + (c - unat x * 4)) else byte_at (di_surface d) r c)"
    if "r < unat (sr_height sc)" "c < sr_framebuffer_stride sc" for r c
    using d'(4) that blit(3) [OF that] ok(2,3) by (auto simp: drawn_def)
  moreover have "librdp_server_peer_surface_present cr net x y w h (?sc, []) = (LIBRDP_STATUS_OK, sc2, [])"
    using show1(1) assms(9) by (simp add: librdp_server_peer_surface_present_def)
  ultimately show ?thesis using blit(1) frames d'(1-3) by blast
qed

definition sample_screen :: "unit screen" where
  "sample_screen = \<lparr>sr_peer = sample_peer 4096, sr_share_id = 1, sr_width = 2, sr_height = 2,
     sr_framebuffer = Some (replicate 16 0), sr_framebuffer_stride = 8, sr_client_fastpath_output = True,
     sr_updates_suppressed = False, sr_surface_repaint_pending = True, sr_surface_updates = 0, sr_surface_events = []\<rparr>"

text \<open>The lower right pixel of a two by two desktop, over an encrypted connection whose keys are about to be renewed.\<close>

theorem presentation_shown_witness:
  "\<exists>sc1 sc2 d'. librdp_server_peer_surface_blit_bgra32 1 1 1 1 4 [1, 2, 3, 4] (sample_screen, []) = (LIBRDP_STATUS_OK, sc1, []) \<and>
     librdp_server_peer_surface_present sample_crypto (\<lambda>_. LIBRDP_STATUS_OK) 1 1 1 1 (sc1, []) = (LIBRDP_STATUS_OK, sc2, []) \<and>
     client_runs sample_crypto sample_hooks (length (pe_sent (sr_peer sc2)))
       ((sample_display 4096)\<lparr>di_input := concat (pe_sent (sr_peer sc2)) @ [9]\<rparr>, []) = (LIBRDP_STATUS_OK, d', []) \<and>
     di_input d' = [9] \<and> byte_at (di_surface d') 1 4 = 1 \<and> byte_at (di_surface d') 1 7 = 4 \<and> byte_at (di_surface d') 0 4 = 0"
proof -
  have hyps: "screen_ok sample_screen (replicate 16 0)" "sr_client_fastpath_output sample_screen"
    "secured (sr_peer sample_screen) (di_session (sample_display 4096))" "viewer sample_screen (sample_display 4096)"
    "pe_state (sr_peer sample_screen) = LIBRDP_SERVER_PEER_ACTIVE" "\<not> sr_updates_suppressed sample_screen"
    "rect_valid sample_screen 1 1 1 1" "unat (1 :: u32) * 4 \<le> 4"
    "(unat (1 :: u32) - 1) * 4 + unat (1 :: u32) * 4 \<le> length [1, 2, 3, 4 :: u8]"
    using sample_secured [of 4096]
    by (simp_all add: screen_ok_def sample_screen_def viewer_def sample_display_def rect_valid_nat
        two_by_two_def surface_zero_def surface_ok_def surface_constants sample_peer_def)
  have facts: "pe_sent (sr_peer sample_screen) = []" "sr_height sample_screen = 2" "sr_framebuffer_stride sample_screen = 8"
    "byte_at (di_surface (sample_display 4096)) 0 4 = 0"
    by (simp_all add: sample_screen_def sample_peer_def sample_display_def two_by_two_def byte_at_def surface_zero_def)
  from presentation_shown [where net = "\<lambda>_. LIBRDP_STATUS_OK" and hooks = sample_hooks and rest = "[9]",
      OF sample_crypto_laws(1,3) refl hyps]
  obtain sc1 sc2 frames d' where
    "librdp_server_peer_surface_blit_bgra32 1 1 1 1 4 [1, 2, 3, 4] (sample_screen, []) = (LIBRDP_STATUS_OK, sc1, [])"
    "librdp_server_peer_surface_present sample_crypto (\<lambda>_. LIBRDP_STATUS_OK) 1 1 1 1 (sc1, []) = (LIBRDP_STATUS_OK, sc2, [])"
    "pe_sent (sr_peer sc2) = frames" "di_input d' = [9]"
    "client_runs sample_crypto sample_hooks (length frames) ((sample_display 4096)\<lparr>di_input := concat frames @ [9]\<rparr>, []) =
      (LIBRDP_STATUS_OK, d', [])"
    "\<forall>r c. r < 2 \<longrightarrow> c < 8 \<longrightarrow> byte_at (di_surface d') r c =
       (if 1 \<le> r \<and> r < 2 \<and> 1 \<le> c div 4 \<and> c div 4 < 2 then [1, 2, 3, 4] ! ((r - 1) * 4 + (c - 4))
        else byte_at (di_surface (sample_display 4096)) r c)"
    by (auto simp: facts)
  then show ?thesis by (intro exI [of _ sc1] exI [of _ sc2] exI [of _ d']) (auto simp: facts(4))
qed

end
