(* ===== verification/Repaint.thy ===== *)
theory Repaint
  imports Presentation Activation
begin

text \<open>
  The surface of the server in its handlers. \<open>Server_Protocol\<close> leaves the surface as two entry points; here they are the code of
  \<^verbatim>\<open>src/src/server/server_graphics.c\<close> that \<open>Presentation\<close> models, working on the fields of the peer. The entry points keep the
  security state of the connection, which is what \<open>Server_Secure\<close> relies on, and what the application presents while the
  client has suppressed its output is shown when the client allows output again.
\<close>

section \<open>The surface of a peer\<close>

text \<open>
  The fields of the peer that only the surface uses; whether the framebuffer exists is a field of the peer of its own. The
  record can be extended by the state \<open>'x\<close> of other features, which the surface does not touch.
\<close>

record server_surface =
  ss_framebuffer :: "u8 list"
  ss_framebuffer_stride :: nat
  ss_surface_updates :: u64
  ss_surface_events :: "(u32 \<times> u32 \<times> u32 \<times> u32) list"

type_synonym ('c, 'k, 'n, 'x) surface_peer = "('c, 'k, 'n, 'x server_surface_scheme) server_peer"

definition screen_of :: "('c, 'k, 'n, 'x) surface_peer \<Rightarrow> 'c screen" where
  "screen_of p =
     \<lparr>sr_peer = sp_wire p, sr_share_id = sp_share_id p, sr_width = sp_width p, sr_height = sp_height p,
      sr_framebuffer = (if sp_framebuffer p then Some (ss_framebuffer (sp_features p)) else None),
      sr_framebuffer_stride = ss_framebuffer_stride (sp_features p),
      sr_client_fastpath_output = sp_client_fastpath_output p, sr_updates_suppressed = sp_updates_suppressed p,
      sr_surface_repaint_pending = sp_surface_repaint_pending p,
      sr_surface_updates = ss_surface_updates (sp_features p), sr_surface_events = ss_surface_events (sp_features p)\<rparr>"

definition put_screen :: "'c screen \<Rightarrow> ('c, 'k, 'n, 'x) surface_peer \<Rightarrow> ('c, 'k, 'n, 'x) surface_peer" where
  "put_screen sc p =
     p\<lparr>sp_wire := sr_peer sc, sp_width := sr_width sc, sp_height := sr_height sc,
       sp_framebuffer := sr_framebuffer sc \<noteq> None, sp_surface_repaint_pending := sr_surface_repaint_pending sc,
       sp_features := (sp_features p)\<lparr>ss_framebuffer := (case sr_framebuffer sc of None \<Rightarrow> [] | Some fb \<Rightarrow> fb),
         ss_framebuffer_stride := sr_framebuffer_stride sc, ss_surface_updates := sr_surface_updates sc,
         ss_surface_events := sr_surface_events sc\<rparr>\<rparr>"

text \<open>A surface operation on the peer. As for every send, a connection found closed closes the peer.\<close>

definition on_screen :: "'c screen_action \<Rightarrow> ('c, 'k, 'n, 'x server_surface_scheme) server_hook" where
  "on_screen a = (\<lambda>(p, m). case a (screen_of p, m) of (status, sc, m) \<Rightarrow>
     let p = put_screen sc p in
     (status, if status = LIBRDP_STATUS_CLOSED then rdp_server_close_peer LIBRDP_SERVER_PEER_CLOSED p else p, m))"

definition surface_hooks ::
    "'c crypto \<Rightarrow> network \<Rightarrow> ('c, 'k, 'n, 'x server_surface_scheme) server_hooks \<Rightarrow> ('c, 'k, 'n, 'x server_surface_scheme) server_hooks" where
  "surface_hooks cr net hooks = hooks
     \<lparr>hk_surface_set_dimensions := (\<lambda>width height. on_screen (rdp_server_surface_set_dimensions width height)),
      hk_surface_present_rect := (\<lambda>x y width height. on_screen (rdp_server_surface_present_rect cr net x y width height))\<rparr>"

lemma screen_of_put [simp]:
  "sr_share_id sc = sp_share_id p \<Longrightarrow> sr_client_fastpath_output sc = sp_client_fastpath_output p \<Longrightarrow>
    sr_updates_suppressed sc = sp_updates_suppressed p \<Longrightarrow> sr_framebuffer sc = Some fb \<Longrightarrow> screen_of (put_screen sc p) = sc"
  by (simp add: screen_of_def put_screen_def)

section \<open>The surface keeps the security state\<close>

definition screen_frame :: "'c screen_action \<Rightarrow> bool" where
  "screen_frame a \<longleftrightarrow> (\<forall>sc m status sc' m'. a (sc, m) = (status, sc', m') \<longrightarrow>
     pe_standard_security_ready (sr_peer sc') = pe_standard_security_ready (sr_peer sc) \<and>
     (status \<noteq> LIBRDP_STATUS_CLOSED \<longrightarrow> pe_state (sr_peer sc') = pe_state (sr_peer sc)))"

lemmas screen_frameD = screen_frame_def [THEN iffD1, rule_format]
lemmas wire_frameD = wire_frame_def [THEN iffD1, rule_format]

lemma on_screen_frame:
  assumes "screen_frame a" "on_screen a (p, m) = (status, p', m')"
  shows "kept (view p) p'" "status \<noteq> LIBRDP_STATUS_CLOSED \<Longrightarrow> view p' = view p"
proof -
  obtain sc' where run: "a (screen_of p, m) = (status, sc', m')"
    "p' = (if status = LIBRDP_STATUS_CLOSED then rdp_server_close_peer LIBRDP_SERVER_PEER_CLOSED (put_screen sc' p) else put_screen sc' p)"
    using assms(2) by (auto simp: on_screen_def Let_def split: prod.splits)
  note fr = screen_frameD [OF assms(1) run(1)]
  show eq: "view p' = view p" if "status \<noteq> LIBRDP_STATUS_CLOSED"
    using fr run(2) that by (simp add: view_def put_screen_def screen_of_def)
  show "kept (view p) p'"
    using run(2) eq by (cases "status = LIBRDP_STATUS_CLOSED") (simp_all add: rdp_server_close_peer_def rdp_server_set_state_def)
qed

lemma fragment_frame: "wire_frame (rdp_server_send_fastpath_fragment cr net update)"
  unfolding wire_frame_def
proof (intro allI impI)
  fix w m status w' m'
  assume run: "rdp_server_send_fastpath_fragment cr net update (w, m) = (status, w', m')"
  let ?sealed = "if \<not> pe_standard_security_ready w then (LIBRDP_STATUS_OK, [], contents update, w, m)
        else (case rdp_security_mac_signature cr (pe_standard_security w) (contents update) of
            Inl e \<Rightarrow> (e, [], [], w, m)
          | Inr signature \<Rightarrow>
              (case rdp_buffer_append (contents update) (rdp_buffer_init, m) of (status, encrypted, m) \<Rightarrow>
                 if status \<noteq> LIBRDP_STATUS_OK then (status, signature, [], w, m)
                 else (case rdp_security_encrypt_payload cr (pe_standard_security w) (contents encrypted) of
                   (status, payload, security) \<Rightarrow> (status, signature, payload, w\<lparr>pe_standard_security := security\<rparr>, m))))"
  obtain status1 signature payload w1 m1 where sealed: "?sealed = (status1, signature, payload, w1, m1)" by (rule prod_cases5)
  then have w1: "pe_standard_security_ready w1 = pe_standard_security_ready w" "pe_state w1 = pe_state w"
    by (auto split: if_splits sum.splits prod.splits)
  show "pe_standard_security_ready w' = pe_standard_security_ready w \<and>
      (status \<noteq> LIBRDP_STATUS_CLOSED \<longrightarrow> pe_state w' = pe_state w)"
    using run w1 unfolding rdp_server_send_fastpath_fragment_def Let_def prod.case sealed
    by (auto simp del: run_writers.simps append.simps split: prod.splits if_split_asm dest!: send_all_frame)
qed

lemma fastpath_update_frame:
  fixes cr :: "'c crypto"
  shows "wire_frame (rdp_server_send_fastpath_update_from cr net code data offset)"
  unfolding wire_frame_def
proof (intro allI impI)
  fix w :: "'c librdp_server_peer" and m status w' m'
  assume "rdp_server_send_fastpath_update_from cr net code data offset (w, m) = (status, w', m')"
  then show "pe_standard_security_ready w' = pe_standard_security_ready w \<and>
      (status \<noteq> LIBRDP_STATUS_CLOSED \<longrightarrow> pe_state w' = pe_state w)"
  proof (induction cr net code data offset "(w, m)" arbitrary: w m rule: rdp_server_send_fastpath_update_from.induct)
    case (1 cr net code data offset w m)
    then show ?case
      by (auto simp: rdp_server_send_fastpath_update_from.simps [of _ _ _ _ offset] split: prod.splits if_splits
          dest!: wire_frameD [OF fragment_frame])
  qed
qed

lemma send_tile_frame: "screen_frame (send_tile cr net rect)"
  unfolding screen_frame_def send_tile_def rdp_server_send_fastpath_update_def
  by (auto split: prod.splits if_splits dest!: wire_frameD [OF fastpath_update_frame] wire_frameD [OF send_slowpath_frame])

lemma present_tile_frame: "screen_frame (rdp_server_present_tile cr net x y w h)"
  unfolding screen_frame_def rdp_server_present_tile_def
  by (auto simp: Let_def split: prod.splits if_splits dest!: screen_frameD [OF send_tile_frame])

lemma present_rows_frame:
  fixes cr :: "'c crypto"
  shows "screen_frame (present_rows cr net x y tw rows height row)"
  unfolding screen_frame_def
proof (intro allI impI)
  fix sc :: "'c screen" and m status sc' m'
  assume "present_rows cr net x y tw rows height row (sc, m) = (status, sc', m')"
  then show "pe_standard_security_ready (sr_peer sc') = pe_standard_security_ready (sr_peer sc) \<and>
      (status \<noteq> LIBRDP_STATUS_CLOSED \<longrightarrow> pe_state (sr_peer sc') = pe_state (sr_peer sc))"
  proof (induction cr net x y tw rows height row "(sc, m)" arbitrary: sc m rule: present_rows.induct)
    case (1 cr net x y tw rows height row sc m)
    then show ?case
      by (auto simp: present_rows.simps [of _ _ _ _ _ _ _ row] Let_def split: prod.splits if_splits
          dest!: screen_frameD [OF present_tile_frame])
  qed
qed

lemma present_columns_frame:
  fixes cr :: "'c crypto"
  shows "screen_frame (present_columns cr net max_raw x y width height column)"
  unfolding screen_frame_def
proof (intro allI impI)
  fix sc :: "'c screen" and m status sc' m'
  assume "present_columns cr net max_raw x y width height column (sc, m) = (status, sc', m')"
  then show "pe_standard_security_ready (sr_peer sc') = pe_standard_security_ready (sr_peer sc) \<and>
      (status \<noteq> LIBRDP_STATUS_CLOSED \<longrightarrow> pe_state (sr_peer sc') = pe_state (sr_peer sc))"
  proof (induction cr net max_raw x y width height column "(sc, m)" arbitrary: sc m rule: present_columns.induct)
    case (1 cr net max_raw x y width height column sc m)
    then show ?case
      by (auto simp: present_columns.simps [of _ _ _ _ _ _ _ column] Let_def split: prod.splits if_splits
          dest!: screen_frameD [OF present_rows_frame])
  qed
qed

lemma set_dimensions_frame:
  "screen_frame (rdp_server_surface_set_dimensions w h)"
  "rdp_server_surface_set_dimensions w h (sc, m) = (status, sc', m') \<Longrightarrow> status \<noteq> LIBRDP_STATUS_CLOSED"
  unfolding screen_frame_def rdp_server_surface_set_dimensions_def
  by (auto simp: Let_def split: prod.splits if_splits option.splits)

lemma ensure_frame: "screen_frame rdp_server_surface_ensure"
  unfolding screen_frame_def rdp_server_surface_ensure_def
  by (auto split: if_splits dest: screen_frameD [OF set_dimensions_frame(1)])

lemma present_rect_frame: "screen_frame (rdp_server_surface_present_rect cr net x y w h)"
  unfolding screen_frame_def rdp_server_surface_present_rect_def rdp_server_emit_surface_event_def
  by (auto simp: Let_def split: prod.splits if_splits sum.splits
      dest!: screen_frameD [OF ensure_frame] screen_frameD [OF present_columns_frame])

text \<open>What the security invariant relies on holds for the code of the surface.\<close>

lemma surface_hooks_ok:
  fixes hooks :: "('c, 'k, 'n, 'x server_surface_scheme) server_hooks"
  assumes "hooks_ok hooks"
  shows "hooks_ok (surface_hooks cr net hooks)"
proof -
  have dims: "if status = LIBRDP_STATUS_OK then view p' = view p else kept (view p) p'"
    if "on_screen (rdp_server_surface_set_dimensions w h) (p, m) = (status, p', m')"
    for w h m m' status and p p' :: "('c, 'k, 'n, 'x) surface_peer"
    using on_screen_frame [OF set_dimensions_frame(1) that] by simp
  have "hook_frame (on_screen (rdp_server_surface_present_rect cr net x y w h) :: ('c, 'k, 'n, 'x server_surface_scheme) server_hook)"
    for x y w h
    unfolding hook_frame_def using on_screen_frame(1) [OF present_rect_frame] by blast
  then show ?thesis
    using assms unfolding hooks_ok_def surface_hooks_def
    by (simp split del: if_split) (intro allI impI, elim exE, rule dims)
qed

section \<open>Suppressed output\<close>

text \<open>The message that allows output again: four bytes, or twelve with a rectangle.\<close>

definition allows_output :: "u8 list \<Rightarrow> bool" where
  "allows_output payload \<longleftrightarrow> (length payload = 4 \<or> length payload = 12) \<and> payload ! 0 \<noteq> 0 \<and>
     (length payload = 12 \<longrightarrow> le16 (payload ! 4) (payload ! 5) \<le> le16 (payload ! 8) (payload ! 9) \<and>
        le16 (payload ! 6) (payload ! 7) \<le> le16 (payload ! 10) (payload ! 11))"

lemma allowed_run:
  assumes "allows_output payload" "sp_surface_repaint_pending p" "sp_framebuffer p"
  obtains p1 where "rdp_server_handle_suppress_output hooks payload (p, m) =
      acall (hk_surface_present_rect hooks 0 0 (ucast (sp_width p)) (ucast (sp_height p))) (p1, m)"
    "p1 = p\<lparr>sp_updates_suppressed := False, sp_metric_input_events := sp_metric_input_events p1, sp_input_log := sp_input_log p1\<rparr>"
  using assms
  by (auto simp: rdp_server_handle_suppress_output_def allows_output_def rdp_server_emit_input_def
      rdp_server_surface_flush_repaint_def run_rules Let_def awhen_def not_less)

lemma screen_of_allowed [simp]:
  "screen_of (p\<lparr>sp_metric_input_events := n, sp_input_log := es\<rparr>) = screen_of p"
  "screen_of (p\<lparr>sp_updates_suppressed := b\<rparr>) = (screen_of p)\<lparr>sr_updates_suppressed := b\<rparr>"
  "screen_of (p\<lparr>sp_surface_repaint_pending := b\<rparr>) = (screen_of p)\<lparr>sr_surface_repaint_pending := b\<rparr>"
  by (simp_all add: screen_of_def)

lemma present_deferred:
  assumes "sp_state p = LIBRDP_SERVER_PEER_ACTIVE" "sp_updates_suppressed p" "sp_framebuffer p"
    "rdp_server_rect_valid (sp_width p) (sp_height p) x y w h"
  shows "on_screen (librdp_server_peer_surface_present cr net x y w h) (p, m) =
    (LIBRDP_STATUS_OK, p\<lparr>sp_surface_repaint_pending := True\<rparr>, m)"
proof -
  have "librdp_server_peer_surface_present cr net x y w h (screen_of p, m) =
      (LIBRDP_STATUS_OK, (screen_of p)\<lparr>sr_surface_repaint_pending := True\<rparr>, m)"
    using assms by (simp add: librdp_server_peer_surface_present_def screen_of_def)
  moreover have "put_screen ((screen_of p)\<lparr>sr_surface_repaint_pending := True\<rparr>) p = p\<lparr>sp_surface_repaint_pending := True\<rparr>"
    using assms(3) by (cases p; cases "sp_features p") (simp add: put_screen_def screen_of_def)
  ultimately show ?thesis by (simp add: on_screen_def)
qed

text \<open>
  C4. Nothing presented is lost while output is suppressed. The peer is active and its client, which takes fast-path output, has suppressed it; the client's
  surface has the size of the desktop and holds no mapping, and its frame limit is at least 16383 bytes, so that it takes every packet. The
  application presents any valid rectangle: the call succeeds, and nothing is sent. When the client then allows output, by
  either form of the message, the handler succeeds and sends packets which the client, receiving them in front of whatever else
  arrives, processes one by one without error; afterwards every byte of the client's surface is that of the framebuffer, and no
  repaint is pending. The surface's entry points in the handler are the code of the presentation. Clients that take slow-path updates only are
  outside of the statement.
\<close>

theorem suppressed_output_resumed:
  fixes hooks :: "('c, 'k, 'n, 'x server_surface_scheme) server_hooks" and views :: "('c, 'g) display_hooks"
  assumes "rc4_involutive cr" "crypto_available cr" and "\<And>d. net d = LIBRDP_STATUS_OK"
    and "sp_state p = LIBRDP_SERVER_PEER_ACTIVE" "sp_client_fastpath_output p" "sp_updates_suppressed p"
    and "screen_ok (screen_of p) fb" "secured (sp_wire p) (di_session d)" "viewer (screen_of p) d"
    and "rdp_server_rect_valid (sp_width p) (sp_height p) x y w h" "allows_output payload"
  shows "\<exists>p1 p2 frames d'.
    on_screen (librdp_server_peer_surface_present cr net x y w h) (p, []) = (LIBRDP_STATUS_OK, p1, []) \<and>
    pe_sent (sp_wire p1) = pe_sent (sp_wire p) \<and>
    rdp_server_handle_suppress_output (surface_hooks cr net hooks) payload (p1, []) = (Inr (), p2, []) \<and>
    pe_sent (sp_wire p2) = pe_sent (sp_wire p) @ frames \<and> \<not> sp_surface_repaint_pending p2 \<and> \<not> sp_updates_suppressed p2 \<and>
    client_runs cr views (length frames) (d\<lparr>di_input := concat frames @ rest\<rparr>, []) = (LIBRDP_STATUS_OK, d', []) \<and>
    di_input d' = rest \<and>
    (\<forall>r c. r < unat (sp_height p) \<longrightarrow> c < unat (sp_width p) * 4 \<longrightarrow>
       byte_at (di_surface d') r c = fb ! (r * (unat (sp_width p) * 4) + c))"
proof -
  have fb: "sp_framebuffer p" "sr_framebuffer_stride (screen_of p) = unat (sp_width p) * 4"
    using assms(7) by (auto simp: screen_ok_def screen_of_def split: if_splits)
  let ?p1 = "p\<lparr>sp_surface_repaint_pending := True\<rparr>" and ?hooks = "surface_hooks cr net hooks"
  have deferred: "on_screen (librdp_server_peer_surface_present cr net x y w h) (p, []) = (LIBRDP_STATUS_OK, ?p1, [])"
    by (rule present_deferred [OF assms(4,6) fb(1) assms(10)])
  obtain q where q: "rdp_server_handle_suppress_output ?hooks payload (?p1, []) =
      acall (hk_surface_present_rect ?hooks 0 0 (ucast (sp_width p)) (ucast (sp_height p))) (q, [])"
    "q = ?p1\<lparr>sp_updates_suppressed := False, sp_metric_input_events := sp_metric_input_events q, sp_input_log := sp_input_log q\<rparr>"
    using allowed_run [OF assms(11), of ?p1 ?hooks "[]"] fb(1) by auto
  let ?sc = "(screen_of p)\<lparr>sr_surface_repaint_pending := True, sr_updates_suppressed := False\<rparr>"
  have sc: "screen_of q = ?sc" by (subst q(2)) (simp add: screen_of_def)
  have size: "0 < unat (sp_width p)" "0 < unat (sp_height p)"
    using assms(10) by (auto simp: rect_valid_nat)
  have hyps: "screen_ok ?sc fb" "sr_client_fastpath_output ?sc" "secured (sr_peer ?sc) (di_session d)"
    "pe_state (sr_peer ?sc) = LIBRDP_SERVER_PEER_ACTIVE" "\<not> sr_updates_suppressed ?sc"
    "rect_valid ?sc 0 0 (ucast (sp_width p)) (ucast (sp_height p))"
    using assms(4,5,7,8) size by (simp_all add: screen_ok_def screen_of_def rect_valid_nat unat_widen)
  obtain sc' s' where shown: "rdp_server_surface_present_rect cr net 0 0 (ucast (sp_width p)) (ucast (sp_height p)) (?sc, []) =
      (LIBRDP_STATUS_OK, sc', [])" "screen_ok sc' fb" "\<not> sr_surface_repaint_pending sc'"
    "carried cr views ?sc fb (sp_wire p, di_session d)
      ({0..<unat (sp_height p)} \<times> {0..<unat (sp_width p)}) (sr_peer sc', s')"
    by (rule rect_presented [where net = net and hooks = views, OF assms(1-3) hyps])
      (simp add: screen_of_def unat_widen)
  have run: "acall (hk_surface_present_rect ?hooks 0 0 (ucast (sp_width p)) (ucast (sp_height p))) (q, []) =
      (Inr (), put_screen sc' q, [])"
    using shown(1) by (simp add: acall_def surface_hooks_def on_screen_def sc)
  have same: "viewer ?sc e = viewer (screen_of p) e" for e by (simp add: viewer_def screen_of_def)
  obtain frames d' where frames: "pe_sent (sr_peer sc') = pe_sent (sp_wire p) @ frames"
    "client_runs cr views (length frames) (d\<lparr>di_input := concat frames @ rest\<rparr>, []) = (LIBRDP_STATUS_OK, d', [])"
    "di_input d' = rest"
    "drawn fb (di_surface d) ({0..<unat (sp_height p)} \<times> {0..<unat (sp_width p)}) (di_surface d')"
    by (rule carried_viewed [OF shown(4) assms(9) same])
  have d: "unat (su_height (di_surface d)) = unat (sp_height p)" "su_stride (di_surface d) = unat (sp_width p) * 4"
    using assms(9) viewer_stride [OF assms(7,9)] fb(2) by (simp_all add: viewer_def screen_of_def unat_widen)
  have "byte_at (di_surface d') r c = fb ! (r * (unat (sp_width p) * 4) + c)"
    if "r < unat (sp_height p)" "c < unat (sp_width p) * 4" for r c
    using frames(4) that d by (auto simp: drawn_def)
  moreover have "\<not> sp_updates_suppressed (put_screen sc' q)" by (subst q(2)) (simp add: put_screen_def)
  ultimately show ?thesis
    using deferred q(1) run frames(1-3) shown(3)
    by (intro exI [of _ ?p1] exI [of _ "put_screen sc' q"] exI [of _ frames] exI [of _ d']) (simp add: put_screen_def)
qed

definition muted_peer :: "(unit, unit, unit, unit) surface_peer" where
  "muted_peer = (accepted_peer tls_config 2 2 ()
       \<lparr>ss_framebuffer = map of_nat [1..<17], ss_framebuffer_stride = 8, ss_surface_updates = 0, ss_surface_events = []\<rparr>)
     \<lparr>sp_wire := sample_peer 4096, sp_framebuffer := True, sp_client_fastpath_output := True, sp_updates_suppressed := True\<rparr>"

theorem suppressed_output_resumed_witness:
  "\<exists>p1 p2 d'.
    on_screen (librdp_server_peer_surface_present sample_crypto (\<lambda>_. LIBRDP_STATUS_OK) 1 1 1 1) (muted_peer, []) =
      (LIBRDP_STATUS_OK, p1, []) \<and> pe_sent (sp_wire p1) = [] \<and>
    rdp_server_handle_suppress_output (surface_hooks sample_crypto (\<lambda>_. LIBRDP_STATUS_OK) silent_hooks) [1, 0, 0, 0] (p1, []) =
      (Inr (), p2, []) \<and>
    client_runs sample_crypto sample_hooks (length (pe_sent (sp_wire p2)))
      ((sample_display 4096)\<lparr>di_input := concat (pe_sent (sp_wire p2)) @ [9]\<rparr>, []) = (LIBRDP_STATUS_OK, d', []) \<and>
    di_input d' = [9] \<and> byte_at (di_surface d') 0 0 = 1 \<and> byte_at (di_surface d') 1 7 = 16"
proof -
  let ?fb = "map of_nat [1..<17] :: u8 list"
  have hyps: "sp_state muted_peer = LIBRDP_SERVER_PEER_ACTIVE" "sp_client_fastpath_output muted_peer" "sp_updates_suppressed muted_peer"
    "screen_ok (screen_of muted_peer) ?fb" "secured (sp_wire muted_peer) (di_session (sample_display 4096))"
    "viewer (screen_of muted_peer) (sample_display 4096)"
    "rdp_server_rect_valid (sp_width muted_peer) (sp_height muted_peer) 1 1 1 1" "allows_output [1, 0, 0, 0]"
    using sample_secured [of 4096]
    by (simp_all add: muted_peer_def screen_of_def screen_ok_def accepted_peer_def sample_display_def viewer_def rect_valid_nat
        two_by_two_def surface_zero_def surface_ok_def surface_constants sample_peer_def allows_output_def)
  have facts: "pe_sent (sp_wire muted_peer) = []" "sp_height muted_peer = 2" "sp_width muted_peer = 2"
    by (simp_all add: muted_peer_def accepted_peer_def sample_peer_def)
  from suppressed_output_resumed [where net = "\<lambda>_. LIBRDP_STATUS_OK" and views = sample_hooks and hooks = silent_hooks and rest = "[9]",
      OF sample_crypto_laws(1,3) refl hyps]
  obtain p1 p2 frames d' where
    "on_screen (librdp_server_peer_surface_present sample_crypto (\<lambda>_. LIBRDP_STATUS_OK) 1 1 1 1) (muted_peer, []) =
      (LIBRDP_STATUS_OK, p1, [])" "pe_sent (sp_wire p1) = []"
    "rdp_server_handle_suppress_output (surface_hooks sample_crypto (\<lambda>_. LIBRDP_STATUS_OK) silent_hooks) [1, 0, 0, 0] (p1, []) =
      (Inr (), p2, [])" "pe_sent (sp_wire p2) = frames" "di_input d' = [9]"
    "client_runs sample_crypto sample_hooks (length frames) ((sample_display 4096)\<lparr>di_input := concat frames @ [9]\<rparr>, []) =
      (LIBRDP_STATUS_OK, d', [])"
    "\<forall>r c. r < 2 \<longrightarrow> c < 8 \<longrightarrow> byte_at (di_surface d') r c = ?fb ! (r * 8 + c)"
    by (auto simp: facts)
  then show ?thesis by (intro exI [of _ p1] exI [of _ p2] exI [of _ d']) auto
qed

end
