(* ===== verification/Dynamic_Channel.thy ===== *)
theory Dynamic_Channel
  imports X224
begin

text \<open>
  The packets of dynamic virtual channels, \<^verbatim>\<open>src/src/channels/dynamic_channel.c\<close>: the header with its two size codes,
  capabilities, creating and closing a channel, data in one or several packets (plain and compressed), and the soft-sync request
  and response. What a writer emits is read back; the data parsers accept nothing but data packets; and every index into an
  accepted soft-sync request has an answer.
\<close>

section \<open>Constants and records\<close>

abbreviation (input) "RDP_DYNAMIC_CHANNEL_CMD_CREATE \<equiv> (0x01 :: u8)"
abbreviation (input) "RDP_DYNAMIC_CHANNEL_CMD_DATA_FIRST \<equiv> (0x02 :: u8)"
abbreviation (input) "RDP_DYNAMIC_CHANNEL_CMD_DATA \<equiv> (0x03 :: u8)"
abbreviation (input) "RDP_DYNAMIC_CHANNEL_CMD_CLOSE \<equiv> (0x04 :: u8)"
abbreviation (input) "RDP_DYNAMIC_CHANNEL_CMD_CAPABILITIES \<equiv> (0x05 :: u8)"
abbreviation (input) "RDP_DYNAMIC_CHANNEL_CMD_DATA_FIRST_COMPRESSED \<equiv> (0x06 :: u8)"
abbreviation (input) "RDP_DYNAMIC_CHANNEL_CMD_DATA_COMPRESSED \<equiv> (0x07 :: u8)"
abbreviation (input) "RDP_DYNAMIC_CHANNEL_CMD_SOFT_SYNC_REQUEST \<equiv> (0x08 :: u8)"
abbreviation (input) "RDP_DYNAMIC_CHANNEL_CMD_SOFT_SYNC_RESPONSE \<equiv> (0x09 :: u8)"
abbreviation (input) "RDP_DYNAMIC_CHANNEL_TUNNEL_UDP_RELIABLE \<equiv> (0x00000001 :: u32)"
abbreviation (input) "RDP_DYNAMIC_CHANNEL_TUNNEL_UDP_LOSSY \<equiv> (0x00000003 :: u32)"
abbreviation (input) "RDP_DYNAMIC_CHANNEL_SOFT_SYNC_TCP_FLUSHED \<equiv> (0x0001 :: u16)"
abbreviation (input) "RDP_DYNAMIC_CHANNEL_SOFT_SYNC_CHANNEL_LIST_PRESENT \<equiv> (0x0002 :: u16)"

definition RDP_DYNAMIC_CHANNEL_MAX_PDU_SIZE :: nat where "RDP_DYNAMIC_CHANNEL_MAX_PDU_SIZE = 1600"
definition RDP_DYNAMIC_CHANNEL_SINGLE_MESSAGE_LIMIT :: nat where "RDP_DYNAMIC_CHANNEL_SINGLE_MESSAGE_LIMIT = 1590"

text \<open>The names of the channels that the library serves itself.\<close>

definition RDP_ECHO_CHANNEL_NAME :: "u8 list" where "RDP_ECHO_CHANNEL_NAME = ascii ''ECHO''"
definition RDP_DISPLAY_CONTROL_CHANNEL_NAME :: "u8 list" where "RDP_DISPLAY_CONTROL_CHANNEL_NAME = ascii ''Microsoft::Windows::RDS::DisplayControl''"
definition RDP_CORE_INPUT_CHANNEL_NAME :: "u8 list" where "RDP_CORE_INPUT_CHANNEL_NAME = ascii ''Microsoft::Windows::RDS::CoreInput''"
definition RDP_INPUT_CHANNEL_NAME :: "u8 list" where "RDP_INPUT_CHANNEL_NAME = ascii ''Microsoft::Windows::RDS::Input''"
definition RDP_GRAPHICS_PIPELINE_CHANNEL_NAME :: "u8 list" where "RDP_GRAPHICS_PIPELINE_CHANNEL_NAME = ascii ''Microsoft::Windows::RDS::Graphics''"
definition RDP_MOUSE_CURSOR_CHANNEL_NAME :: "u8 list" where "RDP_MOUSE_CURSOR_CHANNEL_NAME = ascii ''Microsoft::Windows::RDS::MouseCursor''"
definition RDP_AUTH_REDIRECTION_CHANNEL_NAME :: "u8 list" where "RDP_AUTH_REDIRECTION_CHANNEL_NAME = ascii ''Microsoft::Windows::RDS::AuthRedirection''"
definition RDP_WEBAUTHN_CHANNEL_NAME :: "u8 list" where "RDP_WEBAUTHN_CHANNEL_NAME = ascii ''WebAuthN_Channel''"
definition RDP_USB_REDIRECTION_CHANNEL_NAME :: "u8 list" where "RDP_USB_REDIRECTION_CHANNEL_NAME = ascii ''urbdrc''"
definition RDP_TELEMETRY_DVC_CHANNEL_NAME :: "u8 list" where "RDP_TELEMETRY_DVC_CHANNEL_NAME = ascii ''Microsoft::Windows::RDS::Telemetry''"
definition RDP_COMPOSITED_CHANNEL_NAME :: "u8 list" where "RDP_COMPOSITED_CHANNEL_NAME = ascii ''dwmprox''"
definition RDP_GEOMETRY_TRACKING_CHANNEL_NAME :: "u8 list" where "RDP_GEOMETRY_TRACKING_CHANNEL_NAME = ascii ''Microsoft::Windows::RDS::Geometry::v08.01''"
definition RDP_VIDEO_REDIRECTION_CHANNEL_NAME :: "u8 list" where "RDP_VIDEO_REDIRECTION_CHANNEL_NAME = ascii ''TSMF''"
definition RDP_VIDEO_OPTIMIZED_CONTROL_CHANNEL :: "u8 list" where "RDP_VIDEO_OPTIMIZED_CONTROL_CHANNEL = ascii ''Microsoft::Windows::RDS::Video::Control::v08.01''"
definition RDP_VIDEO_OPTIMIZED_DATA_CHANNEL :: "u8 list" where "RDP_VIDEO_OPTIMIZED_DATA_CHANNEL = ascii ''Microsoft::Windows::RDS::Video::Data::v08.01''"
definition RDP_VIDEO_CAPTURE_CONTROL_CHANNEL_NAME :: "u8 list" where "RDP_VIDEO_CAPTURE_CONTROL_CHANNEL_NAME = ascii ''RDCamera_Device_Enumerator''"
definition RDP_VIDEO_CAPTURE_CHANNEL_NAME :: "u8 list" where "RDP_VIDEO_CAPTURE_CHANNEL_NAME = ascii ''rdpecam''"
definition RDP_AUDIO_INPUT_CHANNEL_NAME :: "u8 list" where "RDP_AUDIO_INPUT_CHANNEL_NAME = ascii ''AUDIO_INPUT''"

record rdp_dynamic_channel_header =
  dy_command :: u8
  dy_priority :: u8
  dy_length_bytes :: u8
  dy_channel_id_bytes :: u8
  dy_raw :: u8

record rdp_dynamic_channel_capabilities =
  dc_version :: u16
  dc_has_priority_charges :: bool
  dc_priority_charge :: "u16 list"

record rdp_dynamic_channel_create_request =
  dq_channel_id :: u32
  dq_channel_id_bytes :: u8
  dq_priority :: u8
  dq_name :: "u8 list"

record rdp_dynamic_channel_create_response =
  dr_channel_id :: u32
  dr_channel_id_bytes :: u8
  dr_status_code :: u32

text \<open>The plain and the compressed data packets have the same fields.\<close>

record rdp_dynamic_channel_data_pdu =
  dd_channel_id :: u32
  dd_channel_id_bytes :: u8
  dd_data :: "u8 list"

record rdp_dynamic_channel_data_first_pdu =
  df_channel_id :: u32
  df_channel_id_bytes :: u8
  df_total_length :: u32
  df_data :: "u8 list"

record rdp_dynamic_channel_close_pdu =
  dl_channel_id :: u32
  dl_channel_id_bytes :: u8

record rdp_dynamic_channel_soft_sync_request =
  ds_length :: u32
  ds_flags :: u16
  ds_tunnel_count :: u16
  ds_lists :: "u8 list"

record rdp_dynamic_channel_soft_sync_channel_list =
  dt_tunnel_type :: u32
  dt_channel_count :: u16
  dt_channel_ids :: "u8 list"

record rdp_dynamic_channel_soft_sync_response =
  dn_tunnel_count :: u32
  dn_tunnel_types :: "u8 list"

section \<open>Fields\<close>

definition rdp_dynamic_channel_read_channel_id :: "u8 \<Rightarrow> u32 reader" where
  "rdp_dynamic_channel_read_channel_id channel_id_bytes stream =
     (if channel_id_bytes = 1 then pbind (rdp_stream_read_u8 stream) (\<lambda>(v, stream). Inr (ucast v, stream))
      else if channel_id_bytes = 2 then pbind (rdp_stream_read_u16_le stream) (\<lambda>(v, stream). Inr (ucast v, stream))
      else if channel_id_bytes = 4 then rdp_stream_read_u32_le stream
      else protocol_error)"

definition rdp_dynamic_channel_write_channel_id :: "u32 \<Rightarrow> u8 \<Rightarrow> writer" where
  "rdp_dynamic_channel_write_channel_id channel_id channel_id_bytes =
     (if channel_id_bytes = 1 then
        (if channel_id > 0xff then reject LIBRDP_STATUS_INVALID_ARGUMENT else rdp_buffer_append_u8 (ucast channel_id))
      else if channel_id_bytes = 2 then
        (if channel_id > 0xffff then reject LIBRDP_STATUS_INVALID_ARGUMENT else rdp_buffer_append_u16_le (ucast channel_id))
      else if channel_id_bytes = 4 then rdp_buffer_append_u32_le channel_id
      else reject LIBRDP_STATUS_INVALID_ARGUMENT)"

definition rdp_dynamic_channel_channel_id_code :: "u32 \<Rightarrow> u8 \<Rightarrow> u8 result" where
  "rdp_dynamic_channel_channel_id_code channel_id channel_id_bytes =
     (if channel_id_bytes = 1 then (if channel_id > 0xff then invalid_argument else Inr 0)
      else if channel_id_bytes = 2 then (if channel_id > 0xffff then invalid_argument else Inr 1)
      else if channel_id_bytes = 4 then Inr 2
      else invalid_argument)"

definition rdp_dynamic_channel_read_length :: "u8 \<Rightarrow> u32 reader" where
  "rdp_dynamic_channel_read_length length_bytes stream =
     (if length_bytes = 1 then pbind (rdp_stream_read_u8 stream) (\<lambda>(v, stream). Inr (ucast v, stream))
      else if length_bytes = 2 then pbind (rdp_stream_read_u16_le stream) (\<lambda>(v, stream). Inr (ucast v, stream))
      else if length_bytes = 4 then rdp_stream_read_u32_le stream
      else protocol_error)"

definition rdp_dynamic_channel_write_length :: "u32 \<Rightarrow> u8 \<Rightarrow> writer" where
  "rdp_dynamic_channel_write_length len length_bytes =
     (if length_bytes = 1 then
        (if len > 0xff then reject LIBRDP_STATUS_INVALID_ARGUMENT else rdp_buffer_append_u8 (ucast len))
      else if length_bytes = 2 then
        (if len > 0xffff then reject LIBRDP_STATUS_INVALID_ARGUMENT else rdp_buffer_append_u16_le (ucast len))
      else if length_bytes = 4 then rdp_buffer_append_u32_le len
      else reject LIBRDP_STATUS_INVALID_ARGUMENT)"

definition rdp_dynamic_channel_length_bytes :: "u32 \<Rightarrow> u8" where
  "rdp_dynamic_channel_length_bytes len = (if len \<le> 0xff then 1 else if len \<le> 0xffff then 2 else 4)"

definition rdp_dynamic_channel_length_code :: "u8 \<Rightarrow> u8" where
  "rdp_dynamic_channel_length_code length_bytes = (if length_bytes = 1 then 0 else if length_bytes = 2 then 1 else 2)"

definition rdp_dynamic_channel_validate_priority :: "u8 \<Rightarrow> librdp_status" where
  "rdp_dynamic_channel_validate_priority priority = (if priority \<le> 3 then LIBRDP_STATUS_OK else LIBRDP_STATUS_INVALID_ARGUMENT)"

definition rdp_dynamic_channel_select_version :: "u16 \<Rightarrow> u16" where
  "rdp_dynamic_channel_select_version server_version =
     (if server_version = 0 then 0 else if server_version > 3 then 3 else server_version)"

definition rdp_dynamic_channel_select_channel_id_bytes :: "u32 \<Rightarrow> u8" where
  "rdp_dynamic_channel_select_channel_id_bytes channel_id = (if channel_id \<le> 0xff then 1 else if channel_id \<le> 0xffff then 2 else 4)"

definition rdp_dynamic_channel_data_pdu_header_size :: "u8 \<Rightarrow> nat" where
  "rdp_dynamic_channel_data_pdu_header_size channel_id_bytes =
     (if channel_id_bytes \<noteq> 1 \<and> channel_id_bytes \<noteq> 2 \<and> channel_id_bytes \<noteq> 4 then 0 else 1 + unat channel_id_bytes)"

definition rdp_dynamic_channel_data_first_pdu_header_size :: "u8 \<Rightarrow> u32 \<Rightarrow> nat" where
  "rdp_dynamic_channel_data_first_pdu_header_size channel_id_bytes total_length =
     (if channel_id_bytes \<noteq> 1 \<and> channel_id_bytes \<noteq> 2 \<and> channel_id_bytes \<noteq> 4 then 0
      else 1 + unat channel_id_bytes + unat (rdp_dynamic_channel_length_bytes total_length))"

definition rdp_dynamic_channel_parse_header :: "u8 list \<Rightarrow> rdp_dynamic_channel_header result" where
  "rdp_dynamic_channel_parse_header bytes =
     (if length bytes < 1 then protocol_error
      else
        let command = drop_bit 4 (bytes ! 0) in
        if command = 0 \<or> command > RDP_DYNAMIC_CHANNEL_CMD_SOFT_SYNC_RESPONSE then protocol_error
        else
          let priority = drop_bit 2 (bytes ! 0) AND 0x03; cb_id = bytes ! 0 AND 0x03 in
          if cb_id = 3 then protocol_error
          else
            let header = \<lparr>dy_command = command, dy_priority = priority, dy_length_bytes = 0,
                  dy_channel_id_bytes = (if cb_id = 0 then 1 else if cb_id = 1 then 2 else 4), dy_raw = bytes ! 0\<rparr>
            in
            if command = RDP_DYNAMIC_CHANNEL_CMD_DATA_FIRST \<or> command = RDP_DYNAMIC_CHANNEL_CMD_DATA_FIRST_COMPRESSED then
              (if priority = 3 then protocol_error
               else Inr (header\<lparr>dy_length_bytes := if priority = 0 then 1 else if priority = 1 then 2 else 4\<rparr>))
            else Inr header)"

section \<open>Capabilities\<close>

fun read_charges :: "nat \<Rightarrow> u16 list reader" where
  "read_charges 0 stream = Inr ([], stream)"
| "read_charges (Suc n) stream =
     pbind (rdp_stream_read_u16_le stream) (\<lambda>(v, stream).
     pbind (read_charges n stream) (\<lambda>(vs, stream). Inr (v # vs, stream)))"

definition rdp_dynamic_channel_parse_capabilities :: "u8 list \<Rightarrow> rdp_dynamic_channel_capabilities result" where
  "rdp_dynamic_channel_parse_capabilities data =
     pbind (rdp_dynamic_channel_parse_header data) (\<lambda>header.
     if dy_command header \<noteq> RDP_DYNAMIC_CHANNEL_CMD_CAPABILITIES \<or> length data < 4 then protocol_error
     else
       pbind (rdp_stream_skip 1 (rdp_stream_init data)) (\<lambda>(_, stream).
       pbind (rdp_stream_read_u8 stream) (\<lambda>(pad, stream).
       pbind (rdp_stream_read_u16_le stream) (\<lambda>(version, stream).
       let parsed = \<lparr>dc_version = version, dc_has_priority_charges = False, dc_priority_charge = [0, 0, 0, 0]\<rparr> in
       if version = 0 then protocol_error
       else if version \<ge> 2 then
         (if rdp_stream_remaining stream = 0 then Inr parsed
          else if rdp_stream_remaining stream \<noteq> 8 then protocol_error
          else pbind (read_charges 4 stream) (\<lambda>(charges, stream).
            Inr (parsed\<lparr>dc_has_priority_charges := True, dc_priority_charge := charges\<rparr>)))
       else if rdp_stream_remaining stream \<noteq> 0 then protocol_error
       else Inr parsed))))"

definition rdp_dynamic_channel_write_capabilities_request :: "u16 \<Rightarrow> u16 list \<Rightarrow> writer" where
  "rdp_dynamic_channel_write_capabilities_request version priority_charge =
     (if version = 0 \<or> version > 3 then reject LIBRDP_STATUS_INVALID_ARGUMENT
      else restoring (run_writers
        ([rdp_buffer_append_u8 (push_bit 4 RDP_DYNAMIC_CHANNEL_CMD_CAPABILITIES), rdp_buffer_append_u8 0,
          rdp_buffer_append_u16_le version] @
         (if version \<ge> 2 then map rdp_buffer_append_u16_le priority_charge else []))))"

definition rdp_dynamic_channel_write_capabilities_response :: "u16 \<Rightarrow> writer" where
  "rdp_dynamic_channel_write_capabilities_response version =
     (if version = 0 \<or> version > 3 then reject LIBRDP_STATUS_INVALID_ARGUMENT
      else restoring (run_writers
        [rdp_buffer_append_u8 (push_bit 4 RDP_DYNAMIC_CHANNEL_CMD_CAPABILITIES), rdp_buffer_append_u8 0,
         rdp_buffer_append_u16_le version]))"

section \<open>Creating and closing\<close>

definition rdp_dynamic_channel_parse_create_request :: "u8 list \<Rightarrow> rdp_dynamic_channel_create_request result" where
  "rdp_dynamic_channel_parse_create_request data =
     pbind (rdp_dynamic_channel_parse_header data) (\<lambda>header.
     if dy_command header \<noteq> RDP_DYNAMIC_CHANNEL_CMD_CREATE then protocol_error
     else
       pbind (rdp_stream_skip 1 (rdp_stream_init data)) (\<lambda>(_, stream).
       pbind (rdp_dynamic_channel_read_channel_id (dy_channel_id_bytes header) stream) (\<lambda>(channel_id, stream).
       let remaining = rdp_stream_remaining stream in
       if remaining = 0 then protocol_error
       else
         pbind (rdp_stream_read_bytes remaining stream) (\<lambda>(name, stream).
         if 0 \<notin> set name \<or> name ! 0 = 0 then protocol_error
         else Inr \<lparr>dq_channel_id = channel_id, dq_channel_id_bytes = dy_channel_id_bytes header,
                   dq_priority = dy_priority header, dq_name = takeWhile (\<lambda>c. c \<noteq> 0) name\<rparr>))))"

definition rdp_dynamic_channel_write_create_request :: "u32 \<Rightarrow> u8 \<Rightarrow> u8 \<Rightarrow> u8 list \<Rightarrow> writer" where
  "rdp_dynamic_channel_write_create_request channel_id channel_id_bytes priority name =
     (if name = [] then reject LIBRDP_STATUS_INVALID_ARGUMENT
      else
        let status = rdp_dynamic_channel_validate_priority priority in
        if status \<noteq> LIBRDP_STATUS_OK then reject status
        else
          (case rdp_dynamic_channel_channel_id_code channel_id channel_id_bytes of
             Inl e \<Rightarrow> reject e
           | Inr cb_id \<Rightarrow> restoring (run_writers
               [rdp_buffer_append_u8 (push_bit 4 RDP_DYNAMIC_CHANNEL_CMD_CREATE OR push_bit 2 priority OR cb_id),
                rdp_dynamic_channel_write_channel_id channel_id channel_id_bytes,
                rdp_buffer_append name, rdp_buffer_append_u8 0])))"

definition rdp_dynamic_channel_write_create_response :: "u32 \<Rightarrow> u8 \<Rightarrow> u32 \<Rightarrow> writer" where
  "rdp_dynamic_channel_write_create_response channel_id channel_id_bytes status_code =
     (case rdp_dynamic_channel_channel_id_code channel_id channel_id_bytes of
        Inl e \<Rightarrow> reject e
      | Inr cb_id \<Rightarrow> restoring (run_writers
          [rdp_buffer_append_u8 (push_bit 4 RDP_DYNAMIC_CHANNEL_CMD_CREATE OR cb_id),
           rdp_dynamic_channel_write_channel_id channel_id channel_id_bytes,
           rdp_buffer_append_u32_le status_code]))"

definition rdp_dynamic_channel_parse_create_response :: "u8 list \<Rightarrow> rdp_dynamic_channel_create_response result" where
  "rdp_dynamic_channel_parse_create_response data =
     pbind (rdp_dynamic_channel_parse_header data) (\<lambda>header.
     if dy_command header \<noteq> RDP_DYNAMIC_CHANNEL_CMD_CREATE then protocol_error
     else
       pbind (rdp_stream_skip 1 (rdp_stream_init data)) (\<lambda>(_, stream).
       pbind (rdp_dynamic_channel_read_channel_id (dy_channel_id_bytes header) stream) (\<lambda>(channel_id, stream).
       pbind (rdp_stream_read_u32_le stream) (\<lambda>(status_code, stream).
       if rdp_stream_remaining stream \<noteq> 0 then protocol_error
       else Inr \<lparr>dr_channel_id = channel_id, dr_channel_id_bytes = dy_channel_id_bytes header,
                 dr_status_code = status_code\<rparr>))))"

definition rdp_dynamic_channel_parse_close :: "u8 list \<Rightarrow> rdp_dynamic_channel_close_pdu result" where
  "rdp_dynamic_channel_parse_close data =
     pbind (rdp_dynamic_channel_parse_header data) (\<lambda>header.
     if dy_command header \<noteq> RDP_DYNAMIC_CHANNEL_CMD_CLOSE then protocol_error
     else
       pbind (rdp_stream_skip 1 (rdp_stream_init data)) (\<lambda>(_, stream).
       pbind (rdp_dynamic_channel_read_channel_id (dy_channel_id_bytes header) stream) (\<lambda>(channel_id, stream).
       if rdp_stream_remaining stream \<noteq> 0 then protocol_error
       else Inr \<lparr>dl_channel_id = channel_id, dl_channel_id_bytes = dy_channel_id_bytes header\<rparr>)))"

definition rdp_dynamic_channel_write_close :: "u32 \<Rightarrow> u8 \<Rightarrow> writer" where
  "rdp_dynamic_channel_write_close channel_id channel_id_bytes =
     (case rdp_dynamic_channel_channel_id_code channel_id channel_id_bytes of
        Inl e \<Rightarrow> reject e
      | Inr cb_id \<Rightarrow> restoring (run_writers
          [rdp_buffer_append_u8 (push_bit 4 RDP_DYNAMIC_CHANNEL_CMD_CLOSE OR cb_id),
           rdp_dynamic_channel_write_channel_id channel_id channel_id_bytes]))"

section \<open>Data\<close>

definition rdp_dynamic_channel_parse_data :: "u8 list \<Rightarrow> rdp_dynamic_channel_data_pdu result" where
  "rdp_dynamic_channel_parse_data data =
     pbind (rdp_dynamic_channel_parse_header data) (\<lambda>header.
     if dy_command header \<noteq> RDP_DYNAMIC_CHANNEL_CMD_DATA then protocol_error
     else
       pbind (rdp_stream_skip 1 (rdp_stream_init data)) (\<lambda>(_, stream).
       pbind (rdp_dynamic_channel_read_channel_id (dy_channel_id_bytes header) stream) (\<lambda>(channel_id, stream).
       pbind (rdp_stream_read_bytes (rdp_stream_remaining stream) stream) (\<lambda>(payload, stream).
       Inr \<lparr>dd_channel_id = channel_id, dd_channel_id_bytes = dy_channel_id_bytes header, dd_data = payload\<rparr>))))"

definition rdp_dynamic_channel_write_data_ex :: "u32 \<Rightarrow> u8 \<Rightarrow> u8 \<Rightarrow> u8 list \<Rightarrow> writer" where
  "rdp_dynamic_channel_write_data_ex channel_id channel_id_bytes priority data =
     (let status = rdp_dynamic_channel_validate_priority priority in
      if status \<noteq> LIBRDP_STATUS_OK then reject status
      else
        (case rdp_dynamic_channel_channel_id_code channel_id channel_id_bytes of
           Inl e \<Rightarrow> reject e
         | Inr cb_id \<Rightarrow> restoring (run_writers
             [rdp_buffer_append_u8 (push_bit 4 RDP_DYNAMIC_CHANNEL_CMD_DATA OR push_bit 2 priority OR cb_id),
              rdp_dynamic_channel_write_channel_id channel_id channel_id_bytes,
              rdp_buffer_append data])))"

definition rdp_dynamic_channel_write_data :: "u32 \<Rightarrow> u8 \<Rightarrow> u8 list \<Rightarrow> writer" where
  "rdp_dynamic_channel_write_data channel_id channel_id_bytes data =
     rdp_dynamic_channel_write_data_ex channel_id channel_id_bytes 0 data"

definition rdp_dynamic_channel_parse_data_first :: "u8 list \<Rightarrow> rdp_dynamic_channel_data_first_pdu result" where
  "rdp_dynamic_channel_parse_data_first data =
     pbind (rdp_dynamic_channel_parse_header data) (\<lambda>header.
     if dy_command header \<noteq> RDP_DYNAMIC_CHANNEL_CMD_DATA_FIRST then protocol_error
     else
       pbind (rdp_stream_skip 1 (rdp_stream_init data)) (\<lambda>(_, stream).
       pbind (rdp_dynamic_channel_read_channel_id (dy_channel_id_bytes header) stream) (\<lambda>(channel_id, stream).
       pbind (rdp_dynamic_channel_read_length (dy_length_bytes header) stream) (\<lambda>(total_length, stream).
       if total_length = 0 then protocol_error
       else if rdp_stream_remaining stream > unat total_length then protocol_error
       else
         pbind (rdp_stream_read_bytes (rdp_stream_remaining stream) stream) (\<lambda>(payload, stream).
         Inr \<lparr>df_channel_id = channel_id, df_channel_id_bytes = dy_channel_id_bytes header,
               df_total_length = total_length, df_data = payload\<rparr>)))))"

definition rdp_dynamic_channel_write_data_first_ex :: "u32 \<Rightarrow> u8 \<Rightarrow> u8 \<Rightarrow> u32 \<Rightarrow> u8 list \<Rightarrow> writer" where
  "rdp_dynamic_channel_write_data_first_ex channel_id channel_id_bytes priority total_length data =
     (if total_length = 0 \<or> length data > unat total_length then reject LIBRDP_STATUS_INVALID_ARGUMENT
      else
        let status = rdp_dynamic_channel_validate_priority priority in
        if status \<noteq> LIBRDP_STATUS_OK then reject status
        else
          (case rdp_dynamic_channel_channel_id_code channel_id channel_id_bytes of
             Inl e \<Rightarrow> reject e
           | Inr cb_id \<Rightarrow>
               let length_bytes = rdp_dynamic_channel_length_bytes total_length;
                   length_code = rdp_dynamic_channel_length_code length_bytes
               in
               if 1 + unat channel_id_bytes + unat length_bytes + length data > RDP_DYNAMIC_CHANNEL_MAX_PDU_SIZE
               then reject LIBRDP_STATUS_INVALID_ARGUMENT
               else restoring (run_writers
                 [rdp_buffer_append_u8 (push_bit 4 RDP_DYNAMIC_CHANNEL_CMD_DATA_FIRST OR push_bit 2 length_code OR cb_id),
                  rdp_dynamic_channel_write_channel_id channel_id channel_id_bytes,
                  rdp_dynamic_channel_write_length total_length length_bytes,
                  rdp_buffer_append data])))"

definition rdp_dynamic_channel_write_data_first :: "u32 \<Rightarrow> u8 \<Rightarrow> u32 \<Rightarrow> u8 list \<Rightarrow> writer" where
  "rdp_dynamic_channel_write_data_first channel_id channel_id_bytes total_length data =
     rdp_dynamic_channel_write_data_first_ex channel_id channel_id_bytes 0 total_length data"

definition rdp_dynamic_channel_parse_compressed_data :: "u8 list \<Rightarrow> rdp_dynamic_channel_data_pdu result" where
  "rdp_dynamic_channel_parse_compressed_data data =
     pbind (rdp_dynamic_channel_parse_header data) (\<lambda>header.
     if dy_command header \<noteq> RDP_DYNAMIC_CHANNEL_CMD_DATA_COMPRESSED then protocol_error
     else
       pbind (rdp_stream_skip 1 (rdp_stream_init data)) (\<lambda>(_, stream).
       pbind (rdp_dynamic_channel_read_channel_id (dy_channel_id_bytes header) stream) (\<lambda>(channel_id, stream).
       if rdp_stream_remaining stream < 2 then protocol_error
       else
         pbind (rdp_stream_read_bytes (rdp_stream_remaining stream) stream) (\<lambda>(payload, stream).
         Inr \<lparr>dd_channel_id = channel_id, dd_channel_id_bytes = dy_channel_id_bytes header, dd_data = payload\<rparr>))))"

definition rdp_dynamic_channel_write_compressed_data :: "u32 \<Rightarrow> u8 \<Rightarrow> u8 list \<Rightarrow> writer" where
  "rdp_dynamic_channel_write_compressed_data channel_id channel_id_bytes data =
     (if length data < 2 \<or> 1 + unat channel_id_bytes + length data > RDP_DYNAMIC_CHANNEL_MAX_PDU_SIZE
      then reject LIBRDP_STATUS_INVALID_ARGUMENT
      else
        (case rdp_dynamic_channel_channel_id_code channel_id channel_id_bytes of
           Inl e \<Rightarrow> reject e
         | Inr cb_id \<Rightarrow> restoring (run_writers
             [rdp_buffer_append_u8 (push_bit 4 RDP_DYNAMIC_CHANNEL_CMD_DATA_COMPRESSED OR cb_id),
              rdp_dynamic_channel_write_channel_id channel_id channel_id_bytes,
              rdp_buffer_append data])))"

definition rdp_dynamic_channel_parse_compressed_data_first :: "u8 list \<Rightarrow> rdp_dynamic_channel_data_first_pdu result" where
  "rdp_dynamic_channel_parse_compressed_data_first data =
     pbind (rdp_dynamic_channel_parse_header data) (\<lambda>header.
     if dy_command header \<noteq> RDP_DYNAMIC_CHANNEL_CMD_DATA_FIRST_COMPRESSED then protocol_error
     else
       pbind (rdp_stream_skip 1 (rdp_stream_init data)) (\<lambda>(_, stream).
       pbind (rdp_dynamic_channel_read_channel_id (dy_channel_id_bytes header) stream) (\<lambda>(channel_id, stream).
       pbind (rdp_dynamic_channel_read_length (dy_length_bytes header) stream) (\<lambda>(total_length, stream).
       if total_length = 0 then protocol_error
       else if rdp_stream_remaining stream < 2 then protocol_error
       else if rdp_stream_remaining stream > unat total_length then protocol_error
       else
         pbind (rdp_stream_read_bytes (rdp_stream_remaining stream) stream) (\<lambda>(payload, stream).
         Inr \<lparr>df_channel_id = channel_id, df_channel_id_bytes = dy_channel_id_bytes header,
               df_total_length = total_length, df_data = payload\<rparr>)))))"

definition rdp_dynamic_channel_write_compressed_data_first :: "u32 \<Rightarrow> u8 \<Rightarrow> u32 \<Rightarrow> u8 list \<Rightarrow> writer" where
  "rdp_dynamic_channel_write_compressed_data_first channel_id channel_id_bytes total_length data =
     (if total_length = 0 \<or> length data < 2 \<or> length data > unat total_length then reject LIBRDP_STATUS_INVALID_ARGUMENT
      else
        (case rdp_dynamic_channel_channel_id_code channel_id channel_id_bytes of
           Inl e \<Rightarrow> reject e
         | Inr cb_id \<Rightarrow>
             let length_bytes = rdp_dynamic_channel_length_bytes total_length;
                 length_code = rdp_dynamic_channel_length_code length_bytes
             in
             if 1 + unat channel_id_bytes + unat length_bytes + length data > RDP_DYNAMIC_CHANNEL_MAX_PDU_SIZE
             then reject LIBRDP_STATUS_INVALID_ARGUMENT
             else restoring (run_writers
               [rdp_buffer_append_u8
                  (push_bit 4 RDP_DYNAMIC_CHANNEL_CMD_DATA_FIRST_COMPRESSED OR push_bit 2 length_code OR cb_id),
                rdp_dynamic_channel_write_channel_id channel_id channel_id_bytes,
                rdp_dynamic_channel_write_length total_length length_bytes,
                rdp_buffer_append data])))"

section \<open>Soft-sync\<close>

definition known_tunnel :: "u32 \<Rightarrow> bool" where
  "known_tunnel tunnel_type \<longleftrightarrow>
     tunnel_type = RDP_DYNAMIC_CHANNEL_TUNNEL_UDP_RELIABLE \<or> tunnel_type = RDP_DYNAMIC_CHANNEL_TUNNEL_UDP_LOSSY"

fun rdp_dynamic_channel_validate_soft_sync_lists :: "nat \<Rightarrow> rdp_stream \<Rightarrow> unit result" where
  "rdp_dynamic_channel_validate_soft_sync_lists 0 stream =
     (if rdp_stream_remaining stream = 0 then Inr () else protocol_error)"
| "rdp_dynamic_channel_validate_soft_sync_lists (Suc n) stream =
     pbind (rdp_stream_read_u32_le stream) (\<lambda>(tunnel_type, stream).
     pbind (rdp_stream_read_u16_le stream) (\<lambda>(channel_count, stream).
     if \<not> known_tunnel tunnel_type then protocol_error
     else
       let ids_len = unat channel_count * 4 in
       if channel_count = 0 \<or> ids_len div 4 \<noteq> unat channel_count then protocol_error
       else
         pbind (rdp_stream_skip ids_len stream) (\<lambda>(_, stream).
         rdp_dynamic_channel_validate_soft_sync_lists n stream)))"

fun validate_tunnels :: "nat \<Rightarrow> rdp_stream \<Rightarrow> unit result" where
  "validate_tunnels 0 stream = (if rdp_stream_remaining stream = 0 then Inr () else protocol_error)"
| "validate_tunnels (Suc n) stream =
     pbind (rdp_stream_read_u32_le stream) (\<lambda>(tunnel_type, stream).
     if \<not> known_tunnel tunnel_type then protocol_error else validate_tunnels n stream)"

definition rdp_dynamic_channel_validate_soft_sync_tunnels :: "u8 list \<Rightarrow> u32 \<Rightarrow> unit result" where
  "rdp_dynamic_channel_validate_soft_sync_tunnels data tunnel_count =
     (if length data \<noteq> unat tunnel_count * 4 then protocol_error
      else validate_tunnels (unat tunnel_count) (rdp_stream_init data))"

definition rdp_dynamic_channel_parse_soft_sync_request :: "u8 list \<Rightarrow> rdp_dynamic_channel_soft_sync_request result" where
  "rdp_dynamic_channel_parse_soft_sync_request data =
     pbind (rdp_dynamic_channel_parse_header data) (\<lambda>header.
     if dy_command header \<noteq> RDP_DYNAMIC_CHANNEL_CMD_SOFT_SYNC_REQUEST \<or>
        dy_raw header \<noteq> push_bit 4 RDP_DYNAMIC_CHANNEL_CMD_SOFT_SYNC_REQUEST \<or> length data < 10
     then protocol_error
     else
       pbind (rdp_stream_skip 1 (rdp_stream_init data)) (\<lambda>(_, stream).
       pbind (rdp_stream_read_u8 stream) (\<lambda>(pad, stream).
       pbind (rdp_stream_read_u32_le stream) (\<lambda>(len, stream).
       pbind (rdp_stream_read_u16_le stream) (\<lambda>(flags, stream).
       pbind (rdp_stream_read_u16_le stream) (\<lambda>(tunnel_count, stream).
       if pad \<noteq> 0 \<or> unat len \<noteq> length data - 2 \<or> flags AND RDP_DYNAMIC_CHANNEL_SOFT_SYNC_TCP_FLUSHED = 0 \<or>
          flags AND NOT (RDP_DYNAMIC_CHANNEL_SOFT_SYNC_TCP_FLUSHED OR RDP_DYNAMIC_CHANNEL_SOFT_SYNC_CHANNEL_LIST_PRESENT) \<noteq> 0
       then protocol_error
       else
         let lists_len = rdp_stream_remaining stream;
             parsed = \<lparr>ds_length = len, ds_flags = flags, ds_tunnel_count = tunnel_count, ds_lists = []\<rparr>
         in
         if flags AND RDP_DYNAMIC_CHANNEL_SOFT_SYNC_CHANNEL_LIST_PRESENT = 0 then
           (if tunnel_count \<noteq> 0 \<or> lists_len \<noteq> 0 then protocol_error else Inr parsed)
         else if tunnel_count = 0 \<or> lists_len = 0 then protocol_error
         else
           pbind (rdp_stream_read_bytes lists_len stream) (\<lambda>(lists, stream).
           ebind (rdp_dynamic_channel_validate_soft_sync_lists (unat tunnel_count) (rdp_stream_init lists)) (\<lambda>_.
           Inr (parsed\<lparr>ds_lists := lists\<rparr>)))))))))"

text \<open>The loop of \<^verbatim>\<open>rdp_dynamic_channel_soft_sync_request_get_list\<close>, with the number of lists still to pass.\<close>

fun soft_sync_list :: "nat \<Rightarrow> rdp_stream \<Rightarrow> rdp_dynamic_channel_soft_sync_channel_list result" where
  "soft_sync_list n stream =
     pbind (rdp_stream_read_u32_le stream) (\<lambda>(tunnel_type, stream).
     pbind (rdp_stream_read_u16_le stream) (\<lambda>(channel_count, stream).
     let ids_len = unat channel_count * 4 in
     if \<not> known_tunnel tunnel_type \<or> channel_count = 0 \<or> ids_len div 4 \<noteq> unat channel_count then protocol_error
     else
       pbind (rdp_stream_read_bytes ids_len stream) (\<lambda>(ids, stream).
       case n of
         0 \<Rightarrow> Inr \<lparr>dt_tunnel_type = tunnel_type, dt_channel_count = channel_count, dt_channel_ids = ids\<rparr>
       | Suc n \<Rightarrow> soft_sync_list n stream)))"

declare soft_sync_list.simps [simp del]

definition rdp_dynamic_channel_soft_sync_request_get_list ::
    "rdp_dynamic_channel_soft_sync_request \<Rightarrow> u16 \<Rightarrow> rdp_dynamic_channel_soft_sync_channel_list result" where
  "rdp_dynamic_channel_soft_sync_request_get_list request index =
     (if index \<ge> ds_tunnel_count request then invalid_argument
      else soft_sync_list (unat index) (rdp_stream_init (ds_lists request)))"

definition le32_at :: "u8 list \<Rightarrow> nat \<Rightarrow> u32" where
  "le32_at bs i = le32 (bs ! (i * 4)) (bs ! (i * 4 + 1)) (bs ! (i * 4 + 2)) (bs ! (i * 4 + 3))"

definition rdp_dynamic_channel_soft_sync_channel_list_get_id ::
    "rdp_dynamic_channel_soft_sync_channel_list \<Rightarrow> u16 \<Rightarrow> u32 result" where
  "rdp_dynamic_channel_soft_sync_channel_list_get_id list index =
     (if index \<ge> dt_channel_count list \<or> length (dt_channel_ids list) \<noteq> unat (dt_channel_count list) * 4 then invalid_argument
      else Inr (le32_at (dt_channel_ids list) (unat index)))"

definition rdp_dynamic_channel_write_soft_sync_response :: "u32 list \<Rightarrow> writer" where
  "rdp_dynamic_channel_write_soft_sync_response tunnel_types =
     (if \<not> list_all known_tunnel tunnel_types then reject LIBRDP_STATUS_INVALID_ARGUMENT
      else restoring (run_writers
        ([rdp_buffer_append_u8 (push_bit 4 RDP_DYNAMIC_CHANNEL_CMD_SOFT_SYNC_RESPONSE), rdp_buffer_append_u8 0,
          rdp_buffer_append_u32_le (of_nat (length tunnel_types))] @ map rdp_buffer_append_u32_le tunnel_types)))"

definition rdp_dynamic_channel_parse_soft_sync_response :: "u8 list \<Rightarrow> rdp_dynamic_channel_soft_sync_response result" where
  "rdp_dynamic_channel_parse_soft_sync_response data =
     pbind (rdp_dynamic_channel_parse_header data) (\<lambda>header.
     if dy_command header \<noteq> RDP_DYNAMIC_CHANNEL_CMD_SOFT_SYNC_RESPONSE \<or>
        dy_raw header \<noteq> push_bit 4 RDP_DYNAMIC_CHANNEL_CMD_SOFT_SYNC_RESPONSE \<or> length data < 6
     then protocol_error
     else
       pbind (rdp_stream_skip 1 (rdp_stream_init data)) (\<lambda>(_, stream).
       pbind (rdp_stream_read_u8 stream) (\<lambda>(pad, stream).
       pbind (rdp_stream_read_u32_le stream) (\<lambda>(tunnel_count, stream).
       if pad \<noteq> 0 \<or> rdp_stream_remaining stream \<noteq> unat tunnel_count * 4 then protocol_error
       else
         pbind (rdp_stream_read_bytes (rdp_stream_remaining stream) stream) (\<lambda>(tunnel_types, stream).
         pbind (rdp_dynamic_channel_validate_soft_sync_tunnels tunnel_types tunnel_count) (\<lambda>_.
         Inr \<lparr>dn_tunnel_count = tunnel_count, dn_tunnel_types = tunnel_types\<rparr>))))))"

definition rdp_dynamic_channel_soft_sync_response_get_tunnel ::
    "rdp_dynamic_channel_soft_sync_response \<Rightarrow> u32 \<Rightarrow> u32 result" where
  "rdp_dynamic_channel_soft_sync_response_get_tunnel response index =
     (if index \<ge> dn_tunnel_count response \<or> length (dn_tunnel_types response) \<noteq> unat (dn_tunnel_count response) * 4
      then invalid_argument
      else
        let parsed = le32_at (dn_tunnel_types response) (unat index) in
        if \<not> known_tunnel parsed then protocol_error else Inr parsed)"

section \<open>The layout of packets\<close>

definition sized_ok :: "u8 \<Rightarrow> u32 \<Rightarrow> bool" where
  "sized_ok n v \<longleftrightarrow> n = 1 \<and> v \<le> 0xff \<or> n = 2 \<and> v \<le> 0xffff \<or> n = 4"

definition sized_bytes :: "u8 \<Rightarrow> u32 \<Rightarrow> u8 list" where
  "sized_bytes n v = (if n = 1 then [ucast v] else if n = 2 then u16_le_bytes (ucast v) else u32_le_bytes v)"

definition header_byte :: "u8 \<Rightarrow> u8 \<Rightarrow> u8 \<Rightarrow> u8" where
  "header_byte command sp code = push_bit 4 command OR push_bit 2 sp OR code"

definition dvc_packet :: "u8 \<Rightarrow> u8 \<Rightarrow> u8 \<Rightarrow> u32 \<Rightarrow> u8 list \<Rightarrow> u8 list" where
  "dvc_packet command sp n channel payload =
     header_byte command sp (rdp_dynamic_channel_length_code n) # sized_bytes n channel @ payload"

lemma sized_sizes: "sized_ok n v \<Longrightarrow> n \<in> {1, 2, 4}"
  by (auto simp: sized_ok_def)

lemma length_sized: "sized_ok n v \<Longrightarrow> length (sized_bytes n v) = unat n"
  by (auto simp: sized_ok_def sized_bytes_def)

lemma sized_selected:
  "sized_ok (rdp_dynamic_channel_length_bytes v) v" "sized_ok (rdp_dynamic_channel_select_channel_id_bytes v) v"
  by (auto simp: sized_ok_def rdp_dynamic_channel_length_bytes_def rdp_dynamic_channel_select_channel_id_bytes_def)

lemma header_byte_fields:
  assumes "command < 16" "sp < 4" "code < 4"
  shows "drop_bit 4 (header_byte command sp code) = command" "drop_bit 2 (header_byte command sp code) AND 0x03 = sp"
    "header_byte command sp code AND 0x03 = code"
proof -
  have c: "\<not> bit command k" if "4 \<le> k" for k
    by (rule bit_high_of_less [of _ 4]) (use assms(1) that in \<open>simp_all add: word_less_nat_alt\<close>)
  have s: "\<not> bit sp k" if "2 \<le> k" for k
    by (rule bit_high_of_less [of _ 2]) (use assms(2) that in \<open>simp_all add: word_less_nat_alt\<close>)
  have k: "\<not> bit code k" if "2 \<le> k" for k
    by (rule bit_high_of_less [of _ 2]) (use assms(3) that in \<open>simp_all add: word_less_nat_alt\<close>)
  show "drop_bit 4 (header_byte command sp code) = command" "drop_bit 2 (header_byte command sp code) AND 0x03 = sp"
    "header_byte command sp code AND 0x03 = code"
    unfolding header_byte_def mask_simps
    by (rule bit_word_eqI; use c s k in \<open>auto simp: bit_simps not_le [symmetric]\<close>)+
qed

lemma header_byte_split: "b = header_byte (drop_bit 4 b) (drop_bit 2 b AND 0x03) (b AND 0x03)"
proof (rule bit_word_eqI)
  fix k :: nat assume k: "k < LENGTH(8)"
  have "Suc (Suc (k - 2)) = k" if "2 \<le> k" using that by simp
  then show "bit b k = bit (header_byte (drop_bit 4 b) (drop_bit 2 b AND 0x03) (b AND 0x03)) k"
    using k unfolding header_byte_def mask_simps by (cases "k < 2"; cases "k < 4") (auto simp: bit_simps)
qed

lemma small_codes [simp]: "rdp_dynamic_channel_length_code n < 4" "n \<in> {1, 2, 4} \<Longrightarrow> rdp_dynamic_channel_length_code n \<noteq> 3"
  by (auto simp: rdp_dynamic_channel_length_code_def)

text \<open>The numbers of one, two or four bytes are a field that is read back exactly.\<close>

lemma read_length_channel_id: "rdp_dynamic_channel_read_length = rdp_dynamic_channel_read_channel_id"
  by (intro ext) (simp add: rdp_dynamic_channel_read_length_def rdp_dynamic_channel_read_channel_id_def)

lemma write_length_channel_id: "rdp_dynamic_channel_write_length = rdp_dynamic_channel_write_channel_id"
  by (intro ext) (simp add: rdp_dynamic_channel_write_length_def rdp_dynamic_channel_write_channel_id_def)

interpretation sized: exact_codec "\<lambda>v. rdp_dynamic_channel_write_channel_id v n" "rdp_dynamic_channel_read_channel_id n"
  "sized_bytes n" "sized_ok n" for n
proof unfold_locales
  fix v pre bs r s
  show "emits (rdp_dynamic_channel_write_channel_id v n) (sized_bytes n v)" if "sized_ok n v"
    using that by (auto simp: sized_ok_def sized_bytes_def rdp_dynamic_channel_write_channel_id_def not_less intro: emits_rules)
  show "rdp_dynamic_channel_read_channel_id n (strm pre (sized_bytes n v @ r)) = Inr (v, strm (pre @ sized_bytes n v) r)"
    if "sized_ok n v"
    using that
    by (auto simp: sized_ok_def sized_bytes_def rdp_dynamic_channel_read_channel_id_def stream_rules
        intro!: ucast_ucast_small simp: word_le_nat_alt)
  have narrow: "(ucast a :: u32) \<le> 0xff" "(ucast c :: u32) \<le> 0xffff" "ucast (ucast a :: u32) = a" "ucast (ucast c :: u32) = c"
    for a :: u8 and c :: u16
    using unat_bounds(1) [of a] unat_bounds(2) [of c]
    by (simp_all add: word_le_nat_alt unsigned_ucast_eq take_bit_nat_eq_self) (rule bit_word_eqI; simp add: bit_simps)+
  show "sized_ok n v \<and> (\<exists>r. bs = sized_bytes n v @ r \<and> s = strm (pre @ sized_bytes n v) r)"
    if "rdp_dynamic_channel_read_channel_id n (strm pre bs) = Inr (v, s)"
    using that
    by (auto simp: sized_ok_def sized_bytes_def rdp_dynamic_channel_read_channel_id_def accepts narrow split: if_splits)
qed

section \<open>Headers\<close>

lemma parse_header_packet:
  assumes "n \<in> {1, 2, 4}" "command \<noteq> 0" "command \<le> 9" "sp < 4"
  shows "command \<noteq> 2 \<Longrightarrow> command \<noteq> 6 \<Longrightarrow> rdp_dynamic_channel_parse_header (dvc_packet command sp n channel payload) =
      Inr \<lparr>dy_command = command, dy_priority = sp, dy_length_bytes = 0, dy_channel_id_bytes = n,
        dy_raw = header_byte command sp (rdp_dynamic_channel_length_code n)\<rparr>"
    and "k \<in> {1, 2, 4} \<Longrightarrow> sp = rdp_dynamic_channel_length_code k \<Longrightarrow> command = 2 \<or> command = 6 \<Longrightarrow>
      rdp_dynamic_channel_parse_header (dvc_packet command sp n channel payload) =
      Inr \<lparr>dy_command = command, dy_priority = sp, dy_length_bytes = k, dy_channel_id_bytes = n,
        dy_raw = header_byte command sp (rdp_dynamic_channel_length_code n)\<rparr>"
proof -
  have "command < 16" using assms(3) by (simp add: word_le_nat_alt word_less_nat_alt)
  note fields = header_byte_fields [OF this assms(4) small_codes(1)]
  have code: "(if rdp_dynamic_channel_length_code j = 0 then 1 else if rdp_dynamic_channel_length_code j = 1 then 2 else 4) = j"
    "rdp_dynamic_channel_length_code j \<noteq> 3" if "j \<in> {1, 2, 4}" for j :: u8
    using that by (auto simp: rdp_dynamic_channel_length_code_def)
  have first: "rdp_dynamic_channel_parse_header (dvc_packet command sp n channel payload) =
      (let header = \<lparr>dy_command = command, dy_priority = sp, dy_length_bytes = 0, dy_channel_id_bytes = n,
         dy_raw = header_byte command sp (rdp_dynamic_channel_length_code n)\<rparr> in
       if command = 2 \<or> command = 6 then
         (if sp = 3 then protocol_error else Inr (header\<lparr>dy_length_bytes := if sp = 0 then 1 else if sp = 1 then 2 else 4\<rparr>))
       else Inr header)"
    using assms(2) leD [OF assms(3)] code(2) [OF assms(1)]
    unfolding rdp_dynamic_channel_parse_header_def dvc_packet_def Let_def nth_Cons_0 fields code(1) [OF assms(1)]
    by (simp cong: if_cong)
  show "command \<noteq> 2 \<Longrightarrow> command \<noteq> 6 \<Longrightarrow> rdp_dynamic_channel_parse_header (dvc_packet command sp n channel payload) =
      Inr \<lparr>dy_command = command, dy_priority = sp, dy_length_bytes = 0, dy_channel_id_bytes = n,
        dy_raw = header_byte command sp (rdp_dynamic_channel_length_code n)\<rparr>"
    unfolding first by simp
  show "k \<in> {1, 2, 4} \<Longrightarrow> sp = rdp_dynamic_channel_length_code k \<Longrightarrow> command = 2 \<or> command = 6 \<Longrightarrow>
      rdp_dynamic_channel_parse_header (dvc_packet command sp n channel payload) =
      Inr \<lparr>dy_command = command, dy_priority = sp, dy_length_bytes = k, dy_channel_id_bytes = n,
        dy_raw = header_byte command sp (rdp_dynamic_channel_length_code n)\<rparr>"
    unfolding first by (auto simp: Let_def rdp_dynamic_channel_length_code_def)
qed

lemma parse_header_accepts:
  assumes "rdp_dynamic_channel_parse_header bs = Inr h"
  obtains r where "bs = header_byte (dy_command h) (dy_priority h) (rdp_dynamic_channel_length_code (dy_channel_id_bytes h)) # r"
    "dy_channel_id_bytes h \<in> {1, 2, 4}" "dy_priority h < 4" "dy_raw h = hd bs"
    "dy_command h \<in> {2, 6} \<Longrightarrow>
       dy_length_bytes h \<in> {1, 2, 4} \<and> dy_priority h = rdp_dynamic_channel_length_code (dy_length_bytes h)"
proof -
  obtain b r where bs: "bs = b # r" using assms by (cases bs) (auto simp: rdp_dynamic_channel_parse_header_def)
  define c s k where "c = drop_bit 4 b" and "s = drop_bit 2 b AND 0x03" and "k = b AND 0x03"
  have four: "a AND 0x03 = 0 \<or> a AND 0x03 = 1 \<or> a AND 0x03 = 2 \<or> a AND 0x03 = 3" for a :: u8
    using and_mask_less' [of 2 a] by (auto simp: mask_eq_exp_minus_1 word_less_nat_alt word_unat_eq_iff)
  have cases: "s = 0 \<or> s = 1 \<or> s = 2 \<or> s = 3" "k = 0 \<or> k = 1 \<or> k = 2 \<or> k = 3"
    unfolding s_def k_def by (rule four)+
  have b: "b = header_byte c s k" unfolding c_def s_def k_def by (rule header_byte_split)
  have parse: "\<not> (c = 0 \<or> c > 9)" "k \<noteq> 3" "\<not> ((c = 2 \<or> c = 6) \<and> s = 3)"
    "h = \<lparr>dy_command = c, dy_priority = s, dy_length_bytes = (if c = 2 \<or> c = 6 then (if s = 0 then 1 else if s = 1 then 2 else 4) else 0),
      dy_channel_id_bytes = (if k = 0 then 1 else if k = 1 then 2 else 4), dy_raw = b\<rparr>"
    using assms unfolding bs rdp_dynamic_channel_parse_header_def nth_Cons_0 c_def [symmetric] s_def [symmetric] k_def [symmetric]
    by (auto simp: Let_def split: if_splits)
  show ?thesis
    by (rule that [of r]) (use cases parse(2,3) in \<open>auto simp: bs b parse(4) rdp_dynamic_channel_length_code_def\<close>)
qed

section \<open>Writers\<close>

lemma code_sized: "sized_ok n v \<Longrightarrow> rdp_dynamic_channel_channel_id_code v n = Inr (rdp_dynamic_channel_length_code n)"
  by (auto simp: sized_ok_def rdp_dynamic_channel_channel_id_code_def rdp_dynamic_channel_length_code_def not_less)

lemma code_refused: "\<not> sized_ok n v \<Longrightarrow> rdp_dynamic_channel_channel_id_code v n = invalid_argument"
  by (auto simp: sized_ok_def rdp_dynamic_channel_channel_id_code_def)

lemma atomic_packet:
  assumes "sized_ok n channel" "emits (run_writers ws) payload"
  shows "emits_atomically (restoring (run_writers (rdp_buffer_append_u8 (header_byte command sp (rdp_dynamic_channel_length_code n)) #
      rdp_dynamic_channel_write_channel_id channel n # ws))) (dvc_packet command sp n channel payload)"
proof -
  have "emits (run_writers (rdp_dynamic_channel_write_channel_id channel n # ws)) (sized_bytes n channel @ payload)"
    by (rule emits_run_Cons [OF sized.wr_emits [OF assms(1)] assms(2)])
  from emits_run_Cons [OF emits_append_words(1) this] show ?thesis
    by (simp add: dvc_packet_def restoring_atomic)
qed

lemmas packet_writers = rdp_dynamic_channel_write_data_ex_def rdp_dynamic_channel_write_data_first_ex_def
  rdp_dynamic_channel_write_compressed_data_def rdp_dynamic_channel_write_compressed_data_first_def
  rdp_dynamic_channel_write_create_request_def rdp_dynamic_channel_write_create_response_def
  rdp_dynamic_channel_write_close_def rdp_dynamic_channel_validate_priority_def

lemma atomic_packets:
  assumes "sized_ok n channel"
  shows "priority \<le> 3 \<Longrightarrow> emits_atomically (rdp_dynamic_channel_write_data_ex channel n priority data) (dvc_packet 3 priority n channel data)"
    and "2 \<le> length data \<Longrightarrow> 1 + unat n + length data \<le> 1600 \<Longrightarrow>
      emits_atomically (rdp_dynamic_channel_write_compressed_data channel n data) (dvc_packet 7 0 n channel data)"
    and "priority \<le> 3 \<Longrightarrow> name \<noteq> [] \<Longrightarrow>
      emits_atomically (rdp_dynamic_channel_write_create_request channel n priority name) (dvc_packet 1 priority n channel (name @ [0]))"
    and "emits_atomically (rdp_dynamic_channel_write_create_response channel n status_code) (dvc_packet 1 0 n channel (u32_le_bytes status_code))"
    and "emits_atomically (rdp_dynamic_channel_write_close channel n) (dvc_packet 4 0 n channel [])"
  using assms
  by (auto simp: packet_writers code_sized dvc_packet_def header_byte_def RDP_DYNAMIC_CHANNEL_MAX_PDU_SIZE_def not_less
      intro!: restoring_atomic emits_rules sized.wr_emits)

lemmas emits_packets = atomic_packets [THEN emits_atomicallyD(1)]

lemma atomic_first:
  fixes total_length
  defines "k \<equiv> rdp_dynamic_channel_length_bytes total_length"
  assumes "sized_ok n channel" "length data \<le> unat total_length" "total_length \<noteq> 0" "1 + unat n + unat k + length data \<le> 1600"
  shows "priority \<le> 3 \<Longrightarrow> emits_atomically (rdp_dynamic_channel_write_data_first_ex channel n priority total_length data)
      (dvc_packet 2 (rdp_dynamic_channel_length_code k) n channel (sized_bytes k total_length @ data))"
    and "2 \<le> length data \<Longrightarrow> emits_atomically (rdp_dynamic_channel_write_compressed_data_first channel n total_length data)
      (dvc_packet 6 (rdp_dynamic_channel_length_code k) n channel (sized_bytes k total_length @ data))"
proof -
  have "emits (run_writers [rdp_dynamic_channel_write_length total_length k, rdp_buffer_append data])
      (sized_bytes k total_length @ data)"
    unfolding write_length_channel_id k_def
    by (rule emits_run_Cons [OF sized.wr_emits [OF sized_selected(1)] emits_run_one [OF emits_append]])
  note e = atomic_packet [OF assms(2) this, of _ "rdp_dynamic_channel_length_code k"]
  show "priority \<le> 3 \<Longrightarrow> emits_atomically (rdp_dynamic_channel_write_data_first_ex channel n priority total_length data)
      (dvc_packet 2 (rdp_dynamic_channel_length_code k) n channel (sized_bytes k total_length @ data))"
    "2 \<le> length data \<Longrightarrow> emits_atomically (rdp_dynamic_channel_write_compressed_data_first channel n total_length data)
      (dvc_packet 6 (rdp_dynamic_channel_length_code k) n channel (sized_bytes k total_length @ data))"
    using assms(2-5) e [of 2] e [of 6]
    by (simp_all add: packet_writers code_sized header_byte_def k_def [symmetric] RDP_DYNAMIC_CHANNEL_MAX_PDU_SIZE_def)
qed

lemmas emits_first = atomic_first [THEN emits_atomicallyD(1)]

section \<open>Parsers\<close>

lemma skip_header:
  "rdp_stream_skip (Suc 0) (strm [] (dvc_packet command sp n channel payload)) =
     Inr ((), strm [header_byte command sp (rdp_dynamic_channel_length_code n)] (sized_bytes n channel @ payload))"
  using skip_strm(1) [of "[header_byte command sp (rdp_dynamic_channel_length_code n)]" 1 "[]" "sized_bytes n channel @ payload"]
  by (simp add: dvc_packet_def)

lemma packet_accepts:
  assumes "rdp_dynamic_channel_parse_header bs = Inr h"
    and "pbind (rdp_stream_skip 1 (rdp_stream_init bs))
      (\<lambda>(u, s). pbind (rdp_dynamic_channel_read_channel_id (dy_channel_id_bytes h) s) f) = Inr x"
  obtains channel payload where "sized_ok (dy_channel_id_bytes h) channel"
    "bs = dvc_packet (dy_command h) (dy_priority h) (dy_channel_id_bytes h) channel payload"
    "f (channel, strm (header_byte (dy_command h) (dy_priority h) (rdp_dynamic_channel_length_code (dy_channel_id_bytes h)) #
      sized_bytes (dy_channel_id_bytes h) channel) payload) = Inr x"
proof -
  let ?b = "header_byte (dy_command h) (dy_priority h) (rdp_dynamic_channel_length_code (dy_channel_id_bytes h))"
  obtain r where bs: "bs = ?b # r" using parse_header_accepts [OF assms(1)] by metis
  have "pbind (rdp_dynamic_channel_read_channel_id (dy_channel_id_bytes h) (strm [?b] r)) f = Inr x"
    using assms(2) skip_strm(1) [of "[?b]" 1 "[]" r] by (simp add: bs)
  then obtain channel payload where "sized_ok (dy_channel_id_bytes h) channel"
    "r = sized_bytes (dy_channel_id_bytes h) channel @ payload"
    "f (channel, strm (?b # sized_bytes (dy_channel_id_bytes h) channel) payload) = Inr x"
    by (auto simp: accepts sized.rd_iff)
  then show ?thesis using that by (simp add: bs dvc_packet_def)
qed

lemma parse_packets:
  assumes "sized_ok n channel"
  shows "sp < 4 \<Longrightarrow> rdp_dynamic_channel_parse_data (dvc_packet 3 sp n channel data) =
      Inr \<lparr>dd_channel_id = channel, dd_channel_id_bytes = n, dd_data = data\<rparr>"
    and "2 \<le> length data \<Longrightarrow> rdp_dynamic_channel_parse_compressed_data (dvc_packet 7 0 n channel data) =
      Inr \<lparr>dd_channel_id = channel, dd_channel_id_bytes = n, dd_data = data\<rparr>"
    and "sp < 4 \<Longrightarrow> name \<noteq> [] \<Longrightarrow> 0 \<notin> set name \<Longrightarrow>
      rdp_dynamic_channel_parse_create_request (dvc_packet 1 sp n channel (name @ [0])) =
      Inr \<lparr>dq_channel_id = channel, dq_channel_id_bytes = n, dq_priority = sp, dq_name = name\<rparr>"
    and "rdp_dynamic_channel_parse_create_response (dvc_packet 1 0 n channel (u32_le_bytes status_code)) =
      Inr \<lparr>dr_channel_id = channel, dr_channel_id_bytes = n, dr_status_code = status_code\<rparr>"
    and "rdp_dynamic_channel_parse_close (dvc_packet 4 0 n channel []) =
      Inr \<lparr>dl_channel_id = channel, dl_channel_id_bytes = n\<rparr>"
  using parse_header_packet(1) [OF sized_sizes [OF assms]]
  by (auto simp: skip_header sized.rd_enc [OF assms] sized.rd_enc [OF assms, of _ "[]", simplified] rdp_dynamic_channel_parse_data_def rdp_dynamic_channel_parse_compressed_data_def
      rdp_dynamic_channel_parse_create_request_def rdp_dynamic_channel_parse_create_response_def
      rdp_dynamic_channel_parse_close_def stream_rules takeWhile_append nth_append)

lemma parse_first:
  assumes "sized_ok n channel" "sized_ok k total_length" "total_length \<noteq> 0" "length data \<le> unat total_length"
  shows "rdp_dynamic_channel_parse_data_first
      (dvc_packet 2 (rdp_dynamic_channel_length_code k) n channel (sized_bytes k total_length @ data)) =
      Inr \<lparr>df_channel_id = channel, df_channel_id_bytes = n, df_total_length = total_length, df_data = data\<rparr>"
    and "2 \<le> length data \<Longrightarrow> rdp_dynamic_channel_parse_compressed_data_first
      (dvc_packet 6 (rdp_dynamic_channel_length_code k) n channel (sized_bytes k total_length @ data)) =
      Inr \<lparr>df_channel_id = channel, df_channel_id_bytes = n, df_total_length = total_length, df_data = data\<rparr>"
  using assms(3,4) parse_header_packet(2) [OF sized_sizes [OF assms(1)] _ _ small_codes(1) sized_sizes [OF assms(2)] refl]
  by (simp_all add: skip_header sized.rd_enc [OF assms(1)] sized.rd_enc [OF assms(2)] rdp_dynamic_channel_parse_data_first_def rdp_dynamic_channel_parse_compressed_data_first_def
      read_length_channel_id stream_rules not_less)

section \<open>Properties\<close>

text \<open>A writer whose packet the parser reads, and that leaves the buffer's contents as they were when memory runs out.\<close>

definition transmits_whole :: "writer \<Rightarrow> (u8 list \<Rightarrow> 'b result) \<Rightarrow> 'b \<Rightarrow> bool" where
  "transmits_whole w parse v \<longleftrightarrow> (\<exists>pdu. emits_atomically w pdu \<and> parse pdu = Inr v)"

lemma transmits_wholeI: "emits_atomically w pdu \<Longrightarrow> parse pdu = Inr v \<Longrightarrow> transmits_whole w parse v"
  by (auto simp: transmits_whole_def)

text \<open>
  C10. Packets of dynamic channels come back. For every channel number and every size code that can hold it, what the writers of
  data, first data, compressed data, channel creation, its answer and channel closing emit is read by the parsers as the same
  channel, size code, length, name, status and data; a writer that runs out of memory leaves the contents of the buffer as they
  were. The sizes that the library itself chooses for a channel number or a length can always hold it.
\<close>

theorem dynamic_packets_roundtrip:
  assumes "sized_ok n channel" "priority \<le> 3"
  shows "transmits_whole (rdp_dynamic_channel_write_data_ex channel n priority data) rdp_dynamic_channel_parse_data
      \<lparr>dd_channel_id = channel, dd_channel_id_bytes = n, dd_data = data\<rparr> \<and>
    (total_length \<noteq> 0 \<longrightarrow> length data \<le> unat total_length \<longrightarrow>
      rdp_dynamic_channel_data_first_pdu_header_size n total_length + length data \<le> RDP_DYNAMIC_CHANNEL_MAX_PDU_SIZE \<longrightarrow>
      transmits_whole (rdp_dynamic_channel_write_data_first_ex channel n priority total_length data) rdp_dynamic_channel_parse_data_first
        \<lparr>df_channel_id = channel, df_channel_id_bytes = n, df_total_length = total_length, df_data = data\<rparr>) \<and>
    (2 \<le> length data \<longrightarrow> rdp_dynamic_channel_data_pdu_header_size n + length data \<le> RDP_DYNAMIC_CHANNEL_MAX_PDU_SIZE \<longrightarrow>
      transmits_whole (rdp_dynamic_channel_write_compressed_data channel n data) rdp_dynamic_channel_parse_compressed_data
        \<lparr>dd_channel_id = channel, dd_channel_id_bytes = n, dd_data = data\<rparr>) \<and>
    (name \<noteq> [] \<longrightarrow> 0 \<notin> set name \<longrightarrow>
      transmits_whole (rdp_dynamic_channel_write_create_request channel n priority name) rdp_dynamic_channel_parse_create_request
        \<lparr>dq_channel_id = channel, dq_channel_id_bytes = n, dq_priority = priority, dq_name = name\<rparr>) \<and>
    transmits_whole (rdp_dynamic_channel_write_create_response channel n status_code) rdp_dynamic_channel_parse_create_response
      \<lparr>dr_channel_id = channel, dr_channel_id_bytes = n, dr_status_code = status_code\<rparr> \<and>
    transmits_whole (rdp_dynamic_channel_write_close channel n) rdp_dynamic_channel_parse_close
      \<lparr>dl_channel_id = channel, dl_channel_id_bytes = n\<rparr> \<and>
    sized_ok (rdp_dynamic_channel_select_channel_id_bytes c) c \<and> sized_ok (rdp_dynamic_channel_length_bytes c) c"
proof -
  have sp: "priority < 4" using assms(2) by (simp add: word_le_nat_alt word_less_nat_alt)
  note sizes = sized_sizes [OF assms(1)]
  have "transmits_whole (rdp_dynamic_channel_write_data_first_ex channel n priority total_length data) rdp_dynamic_channel_parse_data_first
      \<lparr>df_channel_id = channel, df_channel_id_bytes = n, df_total_length = total_length, df_data = data\<rparr>"
    if "total_length \<noteq> 0" "length data \<le> unat total_length"
      "rdp_dynamic_channel_data_first_pdu_header_size n total_length + length data \<le> RDP_DYNAMIC_CHANNEL_MAX_PDU_SIZE"
  proof -
    have "1 + unat n + unat (rdp_dynamic_channel_length_bytes total_length) + length data \<le> 1600"
      using that(3) sizes by (auto simp: rdp_dynamic_channel_data_first_pdu_header_size_def RDP_DYNAMIC_CHANNEL_MAX_PDU_SIZE_def)
    from atomic_first(1) [OF assms(1) that(2,1) this assms(2)] show ?thesis
      by (rule transmits_wholeI) (rule parse_first(1) [OF assms(1) sized_selected(1) that(1,2)])
  qed
  moreover have "transmits_whole (rdp_dynamic_channel_write_compressed_data channel n data) rdp_dynamic_channel_parse_compressed_data
      \<lparr>dd_channel_id = channel, dd_channel_id_bytes = n, dd_data = data\<rparr>"
    if "2 \<le> length data" "rdp_dynamic_channel_data_pdu_header_size n + length data \<le> RDP_DYNAMIC_CHANNEL_MAX_PDU_SIZE"
  proof -
    have "1 + unat n + length data \<le> 1600"
      using that(2) sizes by (auto simp: rdp_dynamic_channel_data_pdu_header_size_def RDP_DYNAMIC_CHANNEL_MAX_PDU_SIZE_def)
    from atomic_packets(2) [OF assms(1) that(1) this] show ?thesis
      by (rule transmits_wholeI) (rule parse_packets(2) [OF assms(1) that(1)])
  qed
  ultimately show ?thesis
    by (intro conjI impI)
      (blast intro: transmits_wholeI atomic_packets [OF assms(1)] parse_packets [OF assms(1)] sized_selected assms(2) sp)+
qed

theorem dynamic_packets_roundtrip_witness:
  "transmits_whole (rdp_dynamic_channel_write_data_ex 300 2 1 [1, 2, 3]) rdp_dynamic_channel_parse_data
     \<lparr>dd_channel_id = 300, dd_channel_id_bytes = 2, dd_data = [1, 2, 3]\<rparr> \<and>
   transmits_whole (rdp_dynamic_channel_write_data_first_ex 300 2 1 70000 [1, 2, 3]) rdp_dynamic_channel_parse_data_first
     \<lparr>df_channel_id = 300, df_channel_id_bytes = 2, df_total_length = 70000, df_data = [1, 2, 3]\<rparr> \<and>
   transmits_whole (rdp_dynamic_channel_write_create_request 300 2 1 [69, 67]) rdp_dynamic_channel_parse_create_request
     \<lparr>dq_channel_id = 300, dq_channel_id_bytes = 2, dq_priority = 1, dq_name = [69, 67]\<rparr>"
  using dynamic_packets_roundtrip [of 2 300 1 "[1, 2, 3]" 70000 "[69, 67]"]
  by (simp add: sized_ok_def rdp_dynamic_channel_data_first_pdu_header_size_def rdp_dynamic_channel_length_bytes_def
      RDP_DYNAMIC_CHANNEL_MAX_PDU_SIZE_def)

text \<open>
  C11. The data parsers accept exactly the data packets: a byte string is read as data of a channel if and only if it is a header
  of that command, the channel number in the size of the header, and the data; for a first packet also the total length, in the
  size of its own code, which is not zero and not less than the data that follows.
\<close>

theorem dynamic_data_exact:
  "(rdp_dynamic_channel_parse_data bs = Inr p \<longleftrightarrow>
     sized_ok (dd_channel_id_bytes p) (dd_channel_id p) \<and>
     (\<exists>sp. sp < 4 \<and> bs = dvc_packet 3 sp (dd_channel_id_bytes p) (dd_channel_id p) (dd_data p))) \<and>
   (rdp_dynamic_channel_parse_data_first bs = Inr q \<longleftrightarrow>
     sized_ok (df_channel_id_bytes q) (df_channel_id q) \<and> df_total_length q \<noteq> 0 \<and>
     length (df_data q) \<le> unat (df_total_length q) \<and>
     (\<exists>k. sized_ok k (df_total_length q) \<and> bs = dvc_packet 2 (rdp_dynamic_channel_length_code k) (df_channel_id_bytes q)
        (df_channel_id q) (sized_bytes k (df_total_length q) @ df_data q)))"
proof (rule conjI; rule iffI)
  assume p: "rdp_dynamic_channel_parse_data bs = Inr p"
  then obtain h where h: "rdp_dynamic_channel_parse_header bs = Inr h" "dy_command h = 3"
    by (auto simp: rdp_dynamic_channel_parse_data_def accepts split: if_splits)
  have sp: "dy_priority h < 4" using parse_header_accepts [OF h(1)] by metis
  show "sized_ok (dd_channel_id_bytes p) (dd_channel_id p) \<and>
      (\<exists>sp. sp < 4 \<and> bs = dvc_packet 3 sp (dd_channel_id_bytes p) (dd_channel_id p) (dd_data p))"
    by (rule packet_accepts [OF h(1) p [unfolded rdp_dynamic_channel_parse_data_def h pbind_simps simp_thms if_False]])
      (use sp h(2) in \<open>auto simp: accepts\<close>)
next
  assume q: "rdp_dynamic_channel_parse_data_first bs = Inr q"
  then obtain h where h: "rdp_dynamic_channel_parse_header bs = Inr h" "dy_command h = 2"
    by (auto simp: rdp_dynamic_channel_parse_data_first_def accepts split: if_splits)
  have k: "dy_priority h = rdp_dynamic_channel_length_code (dy_length_bytes h)"
    using parse_header_accepts [OF h(1)] h(2) by (metis insertI1)
  show "sized_ok (df_channel_id_bytes q) (df_channel_id q) \<and> df_total_length q \<noteq> 0 \<and>
     length (df_data q) \<le> unat (df_total_length q) \<and>
     (\<exists>k. sized_ok k (df_total_length q) \<and> bs = dvc_packet 2 (rdp_dynamic_channel_length_code k) (df_channel_id_bytes q)
        (df_channel_id q) (sized_bytes k (df_total_length q) @ df_data q))"
    by (rule packet_accepts [OF h(1) q [unfolded rdp_dynamic_channel_parse_data_first_def h pbind_simps simp_thms if_False]])
      (use k h(2) in \<open>auto simp: accepts read_length_channel_id sized.rd_iff split: if_splits\<close>)
qed (auto simp: parse_packets(1) parse_first(1))

lemma soft_sync_list_valid:
  "rdp_dynamic_channel_validate_soft_sync_lists n (strm pre bs) = Inr u \<Longrightarrow> i < n \<Longrightarrow>
     \<exists>l. soft_sync_list i (strm pre bs) = Inr l \<and> known_tunnel (dt_tunnel_type l) \<and> dt_channel_count l \<noteq> 0 \<and>
       length (dt_channel_ids l) = unat (dt_channel_count l) * 4"
proof (induction n arbitrary: pre bs i)
  case (Suc n)
  then obtain t c xs r where v: "bs = u32_le_bytes t @ u16_le_bytes c @ xs @ r" "known_tunnel t" "c \<noteq> 0" "length xs = unat c * 4"
    "rdp_dynamic_channel_validate_soft_sync_lists n (strm (pre @ u32_le_bytes t @ u16_le_bytes c @ xs) r) = Inr u"
    by (auto simp: accepts Let_def split: if_splits)
  show ?case
  proof (cases i)
    case 0
    then show ?thesis using v(2-4) by (subst soft_sync_list.simps) (simp add: v(1) stream_rules Let_def)
  next
    case (Suc j)
    with Suc.prems(2) have "j < n" by simp
    from Suc.IH [OF v(5) this] show ?thesis
      using v(2-4) Suc by (subst soft_sync_list.simps) (simp add: v(1) stream_rules Let_def)
  qed
qed simp

lemma validate_tunnels_known:
  "list_all known_tunnel ts \<Longrightarrow> validate_tunnels (length ts) (strm pre (concat (map u32_le_bytes ts))) = Inr ()"
  by (induction ts arbitrary: pre) (simp_all add: stream_rules)

lemma le32_at_concat: "i < length ts \<Longrightarrow> le32_at (concat (map u32_le_bytes ts)) i = ts ! i"
proof (induction ts arbitrary: i)
  case (Cons t ts)
  obtain a b c d where bytes: "u32_le_bytes t = [a, b, c, d]" using length_4_conv [of "u32_le_bytes t"] by auto
  then have "le32 a b c d = t" using le32_u32_le_bytes [of t] by (simp add: numeral_eq_Suc)
  then show ?case
    using Cons.prems Cons.IH [of "i - 1"] by (cases i) (simp_all add: le32_at_def bytes nth_append numeral_eq_Suc add.commute)
qed simp

lemma emits_u32s: "emits (run_writers (map rdp_buffer_append_u32_le ts)) (concat (map u32_le_bytes ts))"
  using emits_run [of "map rdp_buffer_append_u32_le ts" "map u32_le_bytes ts"] by (auto simp: list_all2_conv_all_nth)

text \<open>
  Soft-sync. Every index below the counts of an accepted request has an answer: each of its lists can be taken, names a
  tunnel the library knows, is not empty, and each of its channels can be taken. The response the library writes for any list of
  known tunnels is accepted, and gives back every tunnel at its index.
\<close>

lemma soft_sync_indexable:
  "(rdp_dynamic_channel_parse_soft_sync_request bs = Inr req \<longrightarrow>
     (\<forall>i < ds_tunnel_count req. \<exists>l. rdp_dynamic_channel_soft_sync_request_get_list req i = Inr l \<and>
        known_tunnel (dt_tunnel_type l) \<and> dt_channel_count l \<noteq> 0 \<and>
        (\<forall>j < dt_channel_count l. \<exists>channel. rdp_dynamic_channel_soft_sync_channel_list_get_id l j = Inr channel))) \<and>
   (list_all known_tunnel ts \<longrightarrow> length ts < 2 ^ 32 \<longrightarrow>
     (\<exists>resp. transmits (rdp_dynamic_channel_write_soft_sync_response ts) rdp_dynamic_channel_parse_soft_sync_response resp \<and>
        (\<forall>i < length ts. rdp_dynamic_channel_soft_sync_response_get_tunnel resp (of_nat i) = Inr (ts ! i))))"
proof (intro conjI impI)
  assume req: "rdp_dynamic_channel_parse_soft_sync_request bs = Inr req"
  show "\<forall>i < ds_tunnel_count req. \<exists>l. rdp_dynamic_channel_soft_sync_request_get_list req i = Inr l \<and>
        known_tunnel (dt_tunnel_type l) \<and> dt_channel_count l \<noteq> 0 \<and>
        (\<forall>j < dt_channel_count l. \<exists>channel. rdp_dynamic_channel_soft_sync_channel_list_get_id l j = Inr channel)"
  proof (intro allI impI)
    fix i assume i: "i < ds_tunnel_count req"
    then have "ds_tunnel_count req \<noteq> 0" by (auto simp: word_less_nat_alt)
    with req have "rdp_dynamic_channel_validate_soft_sync_lists (unat (ds_tunnel_count req)) (strm [] (ds_lists req)) = Inr ()"
      by (auto simp: rdp_dynamic_channel_parse_soft_sync_request_def accepts Let_def split: if_splits)
    from soft_sync_list_valid [OF this, of "unat i"] i
    show "\<exists>l. rdp_dynamic_channel_soft_sync_request_get_list req i = Inr l \<and>
        known_tunnel (dt_tunnel_type l) \<and> dt_channel_count l \<noteq> 0 \<and>
        (\<forall>j < dt_channel_count l. \<exists>channel. rdp_dynamic_channel_soft_sync_channel_list_get_id l j = Inr channel)"
      by (auto simp: rdp_dynamic_channel_soft_sync_request_get_list_def rdp_dynamic_channel_soft_sync_channel_list_get_id_def
          word_less_nat_alt not_le [symmetric] word_le_nat_alt)
  qed
next
  assume ts: "list_all known_tunnel ts" "length ts < 2 ^ 32"
  let ?bytes = "concat (map u32_le_bytes ts)"
  let ?resp = "\<lparr>dn_tunnel_count = of_nat (length ts), dn_tunnel_types = ?bytes\<rparr>"
  have len: "unat (of_nat (length ts) :: u32) = length ts" using ts(2) by (simp add: unat_of_nat_u32)
  have bytes: "length ?bytes = length ts * 4" by (simp add: length_concat comp_def sum_list_triv)
  let ?pdu = "dvc_packet 9 0 1 0 (u32_le_bytes (of_nat (length ts)) @ ?bytes)"
  have pdu: "?pdu = 0x90 # 0 # u32_le_bytes (of_nat (length ts)) @ ?bytes"
    by (simp add: dvc_packet_def header_byte_def rdp_dynamic_channel_length_code_def sized_bytes_def)
  have "emits (rdp_dynamic_channel_write_soft_sync_response ts) ?pdu"
    using ts(1) unfolding pdu rdp_dynamic_channel_write_soft_sync_response_def
    by (auto intro!: emits_rules emits_u32s)
  moreover have "\<not> length ?pdu < 6" unfolding pdu by simp
  then have "rdp_dynamic_channel_parse_soft_sync_response ?pdu = Inr ?resp"
    using parse_header_packet(1) [of 1 9 0 0 "u32_le_bytes (of_nat (length ts)) @ ?bytes"] validate_tunnels_known [OF ts(1)]
    by (simp add: rdp_dynamic_channel_parse_soft_sync_response_def skip_header len bytes sized_bytes_def stream_rules
        rdp_dynamic_channel_validate_soft_sync_tunnels_def header_byte_def rdp_dynamic_channel_length_code_def)
  moreover have "rdp_dynamic_channel_soft_sync_response_get_tunnel ?resp (of_nat i) = Inr (ts ! i)" if "i < length ts" for i
    using that ts le32_at_concat [OF that]
    by (simp add: rdp_dynamic_channel_soft_sync_response_get_tunnel_def len bytes word_le_nat_alt unat_of_nat_u32 list_all_length)
  ultimately show "\<exists>resp. transmits (rdp_dynamic_channel_write_soft_sync_response ts) rdp_dynamic_channel_parse_soft_sync_response resp \<and>
        (\<forall>i < length ts. rdp_dynamic_channel_soft_sync_response_get_tunnel resp (of_nat i) = Inr (ts ! i))"
    by (blast intro: transmitsI)
qed

section \<open>Capabilities\<close>

lemma charge_fields_read:
  "read_charges (length vs) (strm pre (concat (map u16_le_bytes vs))) = Inr (vs, strm (pre @ concat (map u16_le_bytes vs)) [])"
  by (induction vs arbitrary: pre) (simp_all add: stream_rules)

lemma capabilities_roundtrip:
  assumes "version \<noteq> 0" "version \<le> 3"
  shows "transmits (rdp_dynamic_channel_write_capabilities_response version) rdp_dynamic_channel_parse_capabilities
      \<lparr>dc_version = version, dc_has_priority_charges = False, dc_priority_charge = [0, 0, 0, 0]\<rparr>"
    and "2 \<le> version \<Longrightarrow> length charges = 4 \<Longrightarrow>
      transmits (rdp_dynamic_channel_write_capabilities_request version charges) rdp_dynamic_channel_parse_capabilities
      \<lparr>dc_version = version, dc_has_priority_charges = True, dc_priority_charge = charges\<rparr>"
proof -
  have header: "rdp_dynamic_channel_parse_header (0x50 # 0 # r) = Inr \<lparr>dy_command = 5, dy_priority = 0, dy_length_bytes = 0,
      dy_channel_id_bytes = 1, dy_raw = 0x50\<rparr>" for r
    by (simp add: rdp_dynamic_channel_parse_header_def)
  have skip: "rdp_stream_skip (Suc 0) (strm [] (x # r)) = Inr ((), strm [x] r)" for x r
    using skip_strm(1) [of "[x]" 1 "[]" r] by simp
  have "emits (rdp_dynamic_channel_write_capabilities_response version) (0x50 # 0 # u16_le_bytes version)"
    using assms by (auto simp: rdp_dynamic_channel_write_capabilities_response_def not_less intro!: emits_rules)
  then show "transmits (rdp_dynamic_channel_write_capabilities_response version) rdp_dynamic_channel_parse_capabilities
      \<lparr>dc_version = version, dc_has_priority_charges = False, dc_priority_charge = [0, 0, 0, 0]\<rparr>"
    by (rule transmitsI) (use assms in \<open>simp add: rdp_dynamic_channel_parse_capabilities_def header skip stream_rules Let_def\<close>)
  have u16s: "emits (run_writers (map rdp_buffer_append_u16_le charges)) (concat (map u16_le_bytes charges))"
    using emits_run [of "map rdp_buffer_append_u16_le charges" "map u16_le_bytes charges"] by (auto simp: list_all2_conv_all_nth)
  show "transmits (rdp_dynamic_channel_write_capabilities_request version charges) rdp_dynamic_channel_parse_capabilities
      \<lparr>dc_version = version, dc_has_priority_charges = True, dc_priority_charge = charges\<rparr>"
    if v: "2 \<le> version" "length charges = 4"
  proof (rule transmitsI)
    show "emits (rdp_dynamic_channel_write_capabilities_request version charges)
        (0x50 # 0 # u16_le_bytes version @ concat (map u16_le_bytes charges))"
      using assms v(1) by (auto simp: rdp_dynamic_channel_write_capabilities_request_def not_less intro!: emits_rules u16s)
    have "length (concat (map u16_le_bytes charges)) = 8" using v(2) by (simp add: length_concat comp_def sum_list_triv)
    then show "rdp_dynamic_channel_parse_capabilities (0x50 # 0 # u16_le_bytes version @ concat (map u16_le_bytes charges)) =
        Inr \<lparr>dc_version = version, dc_has_priority_charges = True, dc_priority_charge = charges\<rparr>"
      using assms v charge_fields_read [of charges]
      by (simp add: rdp_dynamic_channel_parse_capabilities_def header skip stream_rules Let_def)
  qed
qed

end
