(* ===== verification/Dynamic_Server.thy ===== *)
theory Dynamic_Server
  imports Dynamic_Channel Server_Protocol
begin

text \<open>
  Dynamic virtual channels in the server, \<^verbatim>\<open>src/src/server/server_channels.c\<close>: the table of channels, the exchange of
  capabilities, opening and closing from both sides, fragmentation and reassembly of messages, and the choice of side transports.

  The table is part of the feature state of a peer. \<open>dvc_hooks\<close> are the extension modules: whether one stands behind a name, the
  application's decision, the authentication channel, the handling of a complete message, and the marks in the extension state.
  Events for the application are collected in the order of the callbacks.
\<close>

section \<open>The table\<close>

record rdp_server_dynamic_channel =
  sd_channel_id :: u32
  sd_channel_id_bytes :: u8
  sd_priority :: u8
  sd_open :: bool
  sd_pending_open :: bool
  sd_closing :: bool
  sd_cancelled_open :: bool
  sd_name :: "u8 list"
  sd_fragment :: rdp_buffer
  sd_fragment_expected :: u32

definition channel_zero :: rdp_server_dynamic_channel where
  "channel_zero = \<lparr>sd_channel_id = 0, sd_channel_id_bytes = 0, sd_priority = 0, sd_open = False, sd_pending_open = False,
     sd_closing = False, sd_cancelled_open = False, sd_name = [], sd_fragment = rdp_buffer_init, sd_fragment_expected = 0\<rparr>"

datatype librdp_server_channel_event_type =
    LIBRDP_SERVER_CHANNEL_EVENT_DYNAMIC_OPEN
  | LIBRDP_SERVER_CHANNEL_EVENT_DYNAMIC_DATA
  | LIBRDP_SERVER_CHANNEL_EVENT_DYNAMIC_CLOSE

record librdp_server_channel_event =
  ce_channel_id :: u16
  ce_name :: "u8 list"
  ce_data :: "u8 list"
  ce_type :: librdp_server_channel_event_type
  ce_dynamic_channel_id :: u32
  ce_dynamic_priority :: u8

record 'x dvc =
  dv_channels :: "rdp_server_dynamic_channel list"
  dv_channel_count :: u32
  dv_ready :: bool
  dv_capabilities_sent :: bool
  dv_version :: u16
  dv_udp_lossy :: bool
  dv_udp_reliable :: bool
  dv_limits_rejected :: u64
  dv_channel_out :: u64
  dv_channel_bytes_out :: u64
  dv_channel_in :: u64
  dv_channel_bytes_in :: u64
  dv_events :: "librdp_server_channel_event list"
  dv_extensions :: 'x

type_synonym ('c, 'k, 'n, 'x) dvc_peer = "('c, 'k, 'n, 'x dvc) server_peer"
type_synonym ('c, 'k, 'n, 'x) dvc_action = "(('c, 'k, 'n, 'x) dvc_peer, unit) action"

definition RDP_SERVER_MAX_DYNAMIC_CHANNELS :: nat where "RDP_SERVER_MAX_DYNAMIC_CHANNELS = 64"
definition RDP_SERVER_DYNAMIC_CHANNEL_NAME_CAPACITY :: nat where "RDP_SERVER_DYNAMIC_CHANNEL_NAME_CAPACITY = 64"
definition RDP_SERVER_DYNAMIC_MESSAGE_MAX :: nat where "RDP_SERVER_DYNAMIC_MESSAGE_MAX = 64 * 1024 * 1024"

text \<open>What the table tells the extension modules.\<close>

datatype extension_mark = Mark_Pending_Open u32 u8 | Mark_Open u32 u8 | Mark_Close | Mark_Tx nat

record ('c, 'k, 'n, 'x) dvc_hooks =
  vk_provider_ready :: "('c, 'k, 'n, 'x) dvc_peer \<Rightarrow> u8 list \<Rightarrow> bool"
  vk_accept :: "u32 \<Rightarrow> u8 \<Rightarrow> u8 list \<Rightarrow> bool"
  vk_auth :: "rdp_server_dynamic_channel \<Rightarrow> u8 list \<Rightarrow> 'x \<times> mem \<Rightarrow> (librdp_status \<times> u8 list) \<times> 'x \<times> mem"
  vk_extension :: "rdp_server_dynamic_channel \<Rightarrow> u8 list \<Rightarrow> u8 list \<Rightarrow> 'x \<times> mem \<Rightarrow> librdp_status \<times> 'x \<times> mem"
  vk_mark :: "u8 list \<Rightarrow> extension_mark \<Rightarrow> 'x \<Rightarrow> 'x"
  vk_graphics_frame_state_reset :: "'x \<Rightarrow> 'x"
  vk_auth_redirection_reset :: "'x \<Rightarrow> 'x"

definition on_dvc :: "('x dvc \<Rightarrow> 'x dvc) \<Rightarrow> ('c, 'k, 'n, 'x) dvc_peer \<Rightarrow> ('c, 'k, 'n, 'x) dvc_peer" where
  "on_dvc f p = p\<lparr>sp_features := f (sp_features p)\<rparr>"

abbreviation dvc_modify :: "('x dvc \<Rightarrow> 'x dvc) \<Rightarrow> ('c, 'k, 'n, 'x) dvc_action" where
  "dvc_modify f \<equiv> amodify (on_dvc f)"

abbreviation channels_of :: "('c, 'k, 'n, 'x) dvc_peer \<Rightarrow> rdp_server_dynamic_channel list" where
  "channels_of p \<equiv> dv_channels (sp_features p)"

definition put_channel :: "nat \<Rightarrow> rdp_server_dynamic_channel \<Rightarrow> 'x dvc \<Rightarrow> 'x dvc" where
  "put_channel i channel d = d\<lparr>dv_channels := (dv_channels d)[i := channel]\<rparr>"

definition mark_extension :: "('c, 'k, 'n, 'x) dvc_hooks \<Rightarrow> u8 list \<Rightarrow> extension_mark \<Rightarrow> 'x dvc \<Rightarrow> 'x dvc" where
  "mark_extension hooks name m d = d\<lparr>dv_extensions := vk_mark hooks name m (dv_extensions d)\<rparr>"

definition reset_graphics :: "('c, 'k, 'n, 'x) dvc_hooks \<Rightarrow> u8 list \<Rightarrow> 'x dvc \<Rightarrow> 'x dvc" where
  "reset_graphics hooks name d =
     (if name = RDP_GRAPHICS_PIPELINE_CHANNEL_NAME
      then d\<lparr>dv_extensions := vk_graphics_frame_state_reset hooks (dv_extensions d)\<rparr> else d)"

definition rdp_server_dynamic_static_channel_id :: "('c, 'k, 'n, 'e) server_peer \<Rightarrow> u16" where
  "rdp_server_dynamic_static_channel_id p =
     (if unat (sp_dynamic_channel_static_index p) \<ge> length (sp_advertised_channel_ids p) then 0
      else sp_advertised_channel_ids p ! unat (sp_dynamic_channel_static_index p))"

text \<open>A pointer into the table is an index; the searches return the first entry that fits.\<close>

definition find_channel :: "(rdp_server_dynamic_channel \<Rightarrow> bool) \<Rightarrow> rdp_server_dynamic_channel list \<Rightarrow> nat option" where
  "find_channel P channels = find (\<lambda>i. P (channels ! i)) [0..<length channels]"

definition in_use :: "rdp_server_dynamic_channel \<Rightarrow> bool" where
  "in_use channel \<longleftrightarrow> sd_open channel \<or> sd_pending_open channel \<or> sd_closing channel"

definition rdp_server_find_dynamic_channel :: "rdp_server_dynamic_channel list \<Rightarrow> u32 \<Rightarrow> nat option" where
  "rdp_server_find_dynamic_channel channels channel_id =
     find_channel (\<lambda>channel. sd_open channel \<and> sd_channel_id channel = channel_id) channels"

definition rdp_server_find_dynamic_channel_any :: "rdp_server_dynamic_channel list \<Rightarrow> u32 \<Rightarrow> nat option" where
  "rdp_server_find_dynamic_channel_any channels channel_id =
     find_channel (\<lambda>channel. in_use channel \<and> sd_channel_id channel = channel_id) channels"

definition rdp_server_find_pending_dynamic_channel :: "rdp_server_dynamic_channel list \<Rightarrow> u32 \<Rightarrow> nat option" where
  "rdp_server_find_pending_dynamic_channel channels channel_id =
     (case rdp_server_find_dynamic_channel_any channels channel_id of
        None \<Rightarrow> None
      | Some i \<Rightarrow> if sd_pending_open (channels ! i) then Some i else None)"

definition rdp_server_allocate_dynamic_channel :: "rdp_server_dynamic_channel list \<Rightarrow> nat option" where
  "rdp_server_allocate_dynamic_channel channels = find_channel (\<lambda>channel. \<not> in_use channel) channels"

definition rdp_server_dynamic_channel_name_valid :: "u8 list \<Rightarrow> bool" where
  "rdp_server_dynamic_channel_name_valid name \<longleftrightarrow>
     c_string name \<noteq> [] \<and> length (c_string name) \<le> RDP_SERVER_DYNAMIC_CHANNEL_NAME_CAPACITY - 1 \<and>
     list_all (\<lambda>ch. 0x21 \<le> ch \<and> ch \<le> 0x7e) (c_string name)"

definition rdp_server_emit_dynamic_channel_event ::
    "rdp_server_dynamic_channel \<Rightarrow> librdp_server_channel_event_type \<Rightarrow> u8 list \<Rightarrow> ('c, 'k, 'n, 'x) dvc_peer \<Rightarrow>
     ('c, 'k, 'n, 'x) dvc_peer" where
  "rdp_server_emit_dynamic_channel_event channel type data p = on_dvc (\<lambda>d. d\<lparr>dv_events := dv_events d @
     [\<lparr>ce_channel_id = rdp_server_dynamic_static_channel_id p, ce_name = sd_name channel, ce_data = data, ce_type = type,
       ce_dynamic_channel_id = sd_channel_id channel, ce_dynamic_priority = sd_priority channel\<rparr>]\<rparr>) p"

text \<open>
  The loop over the table when the connection is reset, and the reset. Of the side transports the model has what was negotiated
  and which were selected.
\<close>

definition rdp_server_multitransport_reset :: "('c, 'k, 'n, 'x) dvc_peer \<Rightarrow> ('c, 'k, 'n, 'x) dvc_peer" where
  "rdp_server_multitransport_reset p =
     (on_dvc (\<lambda>d. d\<lparr>dv_udp_lossy := False, dv_udp_reliable := False\<rparr>) p)
       \<lparr>sp_multitransport_negotiated := False, sp_multitransport_flags := 0\<rparr>"

definition close_events :: "('c, 'k, 'n, 'x) dvc_hooks \<Rightarrow> rdp_server_dynamic_channel \<Rightarrow> ('c, 'k, 'n, 'x) dvc_peer \<Rightarrow>
    ('c, 'k, 'n, 'x) dvc_peer" where
  "close_events hooks channel p =
     (if in_use channel
      then rdp_server_emit_dynamic_channel_event channel LIBRDP_SERVER_CHANNEL_EVENT_DYNAMIC_CLOSE []
        (on_dvc (mark_extension hooks (sd_name channel) Mark_Close) p)
      else p)"

definition rdp_server_dynamic_channels_reset ::
    "('c, 'k, 'n, 'x) dvc_hooks \<Rightarrow> bool \<Rightarrow> ('c, 'k, 'n, 'x) dvc_peer \<Rightarrow> ('c, 'k, 'n, 'x) dvc_peer" where
  "rdp_server_dynamic_channels_reset hooks emit_close_events p =
     (let p = (if emit_close_events then fold (close_events hooks) (channels_of p) p else p);
          p = on_dvc (\<lambda>d. d\<lparr>dv_channels := replicate RDP_SERVER_MAX_DYNAMIC_CHANNELS channel_zero,
                dv_extensions := vk_auth_redirection_reset hooks (dv_extensions d), dv_channel_count := 0,
                dv_ready := False, dv_capabilities_sent := False, dv_version := 0\<rparr>) p;
          p = rdp_server_multitransport_reset (p\<lparr>sp_dynamic_channel_static_index := 0xffff\<rparr>)
      in on_dvc (\<lambda>d. d\<lparr>dv_extensions := vk_graphics_frame_state_reset hooks (dv_extensions d)\<rparr>) p)"

section \<open>Sending\<close>

definition rdp_server_send_dynamic_packet :: "('c, 'k, 'n) server_env \<Rightarrow> rdp_buffer \<Rightarrow> ('c, 'k, 'n, 'x) dvc_action" where
  "rdp_server_send_dynamic_packet env packet =
     abind (aget rdp_server_dynamic_static_channel_id) (\<lambda>static_channel_id.
     if static_channel_id = 0 then afail LIBRDP_STATUS_INVALID_ARGUMENT
     else on_wire (librdp_server_peer_send_channel_data (env_crypto env) (env_net env) static_channel_id (contents packet)))"

definition rdp_server_dynamic_channels_start :: "('c, 'k, 'n) server_env \<Rightarrow> ('c, 'k, 'n, 'x) dvc_action" where
  "rdp_server_dynamic_channels_start env =
     abind (aget id) (\<lambda>p.
     if rdp_server_dynamic_static_channel_id p = 0 then aret ()
     else if sp_state p \<noteq> LIBRDP_SERVER_PEER_ACTIVE then afail LIBRDP_STATUS_STATE
     else if dv_capabilities_sent (sp_features p) \<or> dv_ready (sp_features p) \<or> dv_version (sp_features p) \<noteq> 0 then aret ()
     else
       abind (awrite (rdp_dynamic_channel_write_capabilities_request 3 [936, 3276, 9362, 21845])) (\<lambda>request.
       athen (rdp_server_send_dynamic_packet env request)
         (dvc_modify (\<lambda>d. d\<lparr>dv_capabilities_sent := True\<rparr>))))"

text \<open>Writing to a buffer that is used again.\<close>

definition awrite_at :: "rdp_buffer \<Rightarrow> writer \<Rightarrow> ('p, rdp_buffer) action" where
  "awrite_at b w = (\<lambda>(p, m). case w (b, m) of
     (status, b, m) \<Rightarrow> (if status = LIBRDP_STATUS_OK then Inr b else Inl status, p, m))"

text \<open>The packets after the first: \<open>rest\<close> is what is still to be sent. The capacity is not zero when the loop is entered.\<close>

function send_rest ::
    "('c, 'k, 'n) server_env \<Rightarrow> u32 \<Rightarrow> u8 \<Rightarrow> u8 \<Rightarrow> nat \<Rightarrow> rdp_buffer \<Rightarrow> u8 list \<Rightarrow> ('c, 'k, 'n, 'x) dvc_action" where
  "send_rest env channel_id channel_id_bytes priority capacity packet rest =
     (if rest = [] \<or> capacity = 0 then aret ()
      else
        abind (awrite_at (buf_truncate 0 packet)
          (rdp_dynamic_channel_write_data_ex channel_id channel_id_bytes priority (take capacity rest))) (\<lambda>packet.
        athen (rdp_server_send_dynamic_packet env packet)
          (send_rest env channel_id channel_id_bytes priority capacity packet (drop capacity rest))))"
  by pat_completeness auto
termination
  by (relation "measure (\<lambda>(env, i, n, pr, capacity, packet, rest). length rest)") auto

declare send_rest.simps [simp del]

definition send_message ::
    "('c, 'k, 'n) server_env \<Rightarrow> rdp_server_dynamic_channel \<Rightarrow> u32 \<Rightarrow> u8 list \<Rightarrow> ('c, 'k, 'n, 'x) dvc_action" where
  "send_message env channel dynamic_channel_id data =
     (if length data \<le> RDP_DYNAMIC_CHANNEL_SINGLE_MESSAGE_LIMIT then
        abind (awrite (rdp_dynamic_channel_write_data_ex dynamic_channel_id (sd_channel_id_bytes channel) (sd_priority channel) data))
          (rdp_server_send_dynamic_packet env)
      else
        let first_capacity = RDP_DYNAMIC_CHANNEL_MAX_PDU_SIZE -
              rdp_dynamic_channel_data_first_pdu_header_size (sd_channel_id_bytes channel) (of_nat (length data));
            data_capacity = RDP_DYNAMIC_CHANNEL_MAX_PDU_SIZE - rdp_dynamic_channel_data_pdu_header_size (sd_channel_id_bytes channel);
            chunk = (if length data < first_capacity then length data else first_capacity)
        in
        if first_capacity = 0 \<or> data_capacity = 0 \<or> length data > UINT32_MAX then afail LIBRDP_STATUS_LIMIT_EXCEEDED
        else
          abind (awrite (rdp_dynamic_channel_write_data_first_ex dynamic_channel_id (sd_channel_id_bytes channel)
            (sd_priority channel) (of_nat (length data)) (take chunk data))) (\<lambda>packet.
          athen (rdp_server_send_dynamic_packet env packet)
            (send_rest env dynamic_channel_id (sd_channel_id_bytes channel) (sd_priority channel) data_capacity packet
              (drop chunk data))))"

definition count_limit :: "'x dvc \<Rightarrow> 'x dvc" where
  "count_limit d = d\<lparr>dv_limits_rejected := rdp_server_metric_add (dv_limits_rejected d) 1\<rparr>"

definition librdp_server_peer_send_dynamic_channel_data ::
    "('c, 'k, 'n) server_env \<Rightarrow> ('c, 'k, 'n, 'x) dvc_hooks \<Rightarrow> u32 \<Rightarrow> u8 list \<Rightarrow> ('c, 'k, 'n, 'x) dvc_action" where
  "librdp_server_peer_send_dynamic_channel_data env hooks dynamic_channel_id data =
     abind (aget id) (\<lambda>p.
     if sp_state p \<noteq> LIBRDP_SERVER_PEER_ACTIVE then afail LIBRDP_STATUS_STATE
     else if length data > RDP_SERVER_DYNAMIC_MESSAGE_MAX
     then athen (dvc_modify count_limit) (afail LIBRDP_STATUS_LIMIT_EXCEEDED)
     else
       (case rdp_server_find_dynamic_channel (channels_of p) dynamic_channel_id of
          None \<Rightarrow> afail LIBRDP_STATUS_INVALID_ARGUMENT
        | Some i \<Rightarrow>
            on_error (\<lambda>e. if e = LIBRDP_STATUS_LIMIT_EXCEEDED then on_dvc count_limit else (\<lambda>p. p))
              (athen (send_message env (channels_of p ! i) dynamic_channel_id data)
                (dvc_modify (\<lambda>d. mark_extension hooks (sd_name (channels_of p ! i)) (Mark_Tx (length data))
                  (d\<lparr>dv_channel_out := rdp_server_metric_add (dv_channel_out d) 1,
                     dv_channel_bytes_out := rdp_server_metric_add (dv_channel_bytes_out d) (of_nat (length data))\<rparr>))))))"

section \<open>Opening and closing\<close>

definition librdp_server_peer_open_dynamic_channel ::
    "('c, 'k, 'n) server_env \<Rightarrow> ('c, 'k, 'n, 'x) dvc_hooks \<Rightarrow> u32 \<Rightarrow> u8 \<Rightarrow> u8 list \<Rightarrow> ('c, 'k, 'n, 'x) dvc_action" where
  "librdp_server_peer_open_dynamic_channel env hooks dynamic_channel_id priority name =
     (if dynamic_channel_id = 0 \<or> priority > 3 \<or> \<not> rdp_server_dynamic_channel_name_valid name
      then afail LIBRDP_STATUS_INVALID_ARGUMENT
      else
        abind (aget id) (\<lambda>p.
        if sp_state p \<noteq> LIBRDP_SERVER_PEER_ACTIVE \<or> \<not> dv_ready (sp_features p) \<or> rdp_server_dynamic_static_channel_id p = 0
        then afail LIBRDP_STATUS_STATE
        else if rdp_server_find_dynamic_channel_any (channels_of p) dynamic_channel_id \<noteq> None
        then afail LIBRDP_STATUS_INVALID_ARGUMENT
        else
          (case rdp_server_allocate_dynamic_channel (channels_of p) of
             None \<Rightarrow> afail LIBRDP_STATUS_LIMIT_EXCEEDED
           | Some i \<Rightarrow>
               let channel_id_bytes = rdp_dynamic_channel_select_channel_id_bytes dynamic_channel_id in
               abind (awrite (rdp_dynamic_channel_write_create_request dynamic_channel_id channel_id_bytes priority (c_string name)))
                 (\<lambda>packet.
               athen (rdp_server_send_dynamic_packet env packet)
                 (dvc_modify (\<lambda>d. mark_extension hooks (c_string name) (Mark_Pending_Open dynamic_channel_id priority)
                   (put_channel i (channel_zero\<lparr>sd_channel_id := dynamic_channel_id, sd_channel_id_bytes := channel_id_bytes,
                      sd_priority := priority, sd_pending_open := True, sd_name := c_string name\<rparr>) d)))))))"

definition librdp_server_peer_close_dynamic_channel ::
    "('c, 'k, 'n) server_env \<Rightarrow> ('c, 'k, 'n, 'x) dvc_hooks \<Rightarrow> u32 \<Rightarrow> ('c, 'k, 'n, 'x) dvc_action" where
  "librdp_server_peer_close_dynamic_channel env hooks dynamic_channel_id =
     abind (aget id) (\<lambda>p.
     if sp_state p \<noteq> LIBRDP_SERVER_PEER_ACTIVE then afail LIBRDP_STATUS_STATE
     else
       (case rdp_server_find_dynamic_channel (channels_of p) dynamic_channel_id of
          None \<Rightarrow> afail LIBRDP_STATUS_INVALID_ARGUMENT
        | Some i \<Rightarrow>
            let channel = channels_of p ! i in
            abind (awrite (rdp_dynamic_channel_write_close dynamic_channel_id (sd_channel_id_bytes channel))) (\<lambda>packet.
            athen (rdp_server_send_dynamic_packet env packet)
              (amodify (\<lambda>p.
                 let channel = channel\<lparr>sd_open := False, sd_closing := True, sd_fragment := rdp_buffer_init\<rparr> in
                 rdp_server_emit_dynamic_channel_event channel LIBRDP_SERVER_CHANNEL_EVENT_DYNAMIC_CLOSE []
                   (on_dvc (\<lambda>d. mark_extension hooks (sd_name channel) Mark_Close
                     ((put_channel i channel (reset_graphics hooks (sd_name channel) d))
                        \<lparr>dv_channel_count := dv_channel_count d - 1\<rparr>)) p))))))"

text \<open>Pending channels of a family are cancelled; \<open>family\<close> says whether a name belongs to it.\<close>

definition rdp_server_dynamic_channels_cancel_pending_family ::
    "(u8 list \<Rightarrow> bool) \<Rightarrow> ('c, 'k, 'n, 'x) dvc_peer \<Rightarrow> ('c, 'k, 'n, 'x) dvc_peer" where
  "rdp_server_dynamic_channels_cancel_pending_family family = on_dvc (\<lambda>d. d\<lparr>dv_channels :=
     map (\<lambda>channel. if sd_pending_open channel \<and> \<not> sd_cancelled_open channel \<and> family (sd_name channel)
       then channel\<lparr>sd_cancelled_open := True\<rparr> else channel) (dv_channels d)\<rparr>)"

section \<open>Receiving\<close>

text \<open>Calls of extension modules, which work on the extension state.\<close>

definition on_extensions :: "('x \<times> mem \<Rightarrow> 'a \<times> 'x \<times> mem) \<Rightarrow> (('c, 'k, 'n, 'x) dvc_peer, 'a) action" where
  "on_extensions f = (\<lambda>(p, m). case f (dv_extensions (sp_features p), m) of
     (r, x, m) \<Rightarrow> (Inr r, on_dvc (\<lambda>d. d\<lparr>dv_extensions := x\<rparr>) p, m))"

definition count_message :: "nat \<Rightarrow> 'x dvc \<Rightarrow> 'x dvc" where
  "count_message n d = d\<lparr>dv_channel_in := rdp_server_metric_add (dv_channel_in d) 1,
     dv_channel_bytes_in := rdp_server_metric_add (dv_channel_bytes_in d) (of_nat n)\<rparr>"

definition rdp_server_dynamic_emit_reassembled ::
    "('c, 'k, 'n, 'x) dvc_hooks \<Rightarrow> rdp_server_dynamic_channel \<Rightarrow> u8 list \<Rightarrow> ('c, 'k, 'n, 'x) dvc_action" where
  "rdp_server_dynamic_emit_reassembled hooks channel data =
     abind (if sd_name channel = RDP_AUTH_REDIRECTION_CHANNEL_NAME then on_extensions (vk_auth hooks channel data)
            else aret (LIBRDP_STATUS_OK, data)) (\<lambda>(status, extension_data).
     if status = LIBRDP_STATUS_AGAIN then dvc_modify (count_message (length data))
     else if status \<noteq> LIBRDP_STATUS_OK then afail status
     else
       abind (on_extensions (vk_extension hooks channel data extension_data)) (\<lambda>status.
       if status \<noteq> LIBRDP_STATUS_OK then afail status
       else amodify (\<lambda>p. rdp_server_emit_dynamic_channel_event channel LIBRDP_SERVER_CHANNEL_EVENT_DYNAMIC_DATA data
         (on_dvc (count_message (length data)) p))))"

text \<open>An action whatever its outcome.\<close>

definition aignore :: "('p, unit) action \<Rightarrow> ('p, unit) action" where
  "aignore a = acatch a (\<lambda>_. aret ())"

definition rdp_server_dynamic_handle_create ::
    "('c, 'k, 'n) server_env \<Rightarrow> ('c, 'k, 'n, 'x) dvc_hooks \<Rightarrow> u8 list \<Rightarrow> ('c, 'k, 'n, 'x) dvc_action" where
  "rdp_server_dynamic_handle_create env hooks data =
     abind (alift (rdp_dynamic_channel_parse_create_request data)) (\<lambda>request.
     abind (aget id) (\<lambda>p.
     let status =
           (if length (dq_name request) \<ge> RDP_SERVER_DYNAMIC_CHANNEL_NAME_CAPACITY then LIBRDP_STATUS_LIMIT_EXCEEDED
            else if rdp_server_find_dynamic_channel_any (channels_of p) (dq_channel_id request) \<noteq> None
            then LIBRDP_STATUS_PROTOCOL_ERROR else LIBRDP_STATUS_OK);
         accepted = (vk_provider_ready hooks p (dq_name request) \<and>
           vk_accept hooks (dq_channel_id request) (dq_priority request) (dq_name request));
         slot = rdp_server_allocate_dynamic_channel (channels_of p);
         status = (if status = LIBRDP_STATUS_OK \<and> accepted \<and> slot = None then LIBRDP_STATUS_LIMIT_EXCEEDED else status);
         status_code = (if status \<noteq> LIBRDP_STATUS_OK \<or> \<not> accepted then 0xc00000bb else 0)
     in
     athen (aignore
       (abind (awrite (rdp_dynamic_channel_write_create_response (dq_channel_id request)
          (if dq_channel_id_bytes request \<noteq> 0 then dq_channel_id_bytes request else 1) status_code))
          (rdp_server_send_dynamic_packet env)))
     (if status \<noteq> LIBRDP_STATUS_OK then afail status
      else
        (case slot of
           Some i \<Rightarrow>
             if accepted then
               let channel = channel_zero\<lparr>sd_channel_id := dq_channel_id request, sd_channel_id_bytes := dq_channel_id_bytes request,
                     sd_priority := dq_priority request, sd_open := True, sd_name := dq_name request\<rparr>
               in amodify (\<lambda>p. rdp_server_emit_dynamic_channel_event channel LIBRDP_SERVER_CHANNEL_EVENT_DYNAMIC_OPEN []
                    (on_dvc (\<lambda>d. (put_channel i channel
                       (mark_extension hooks (sd_name channel) (Mark_Open (sd_channel_id channel) (sd_priority channel)) d))
                       \<lparr>dv_channel_count := dv_channel_count d + 1\<rparr>) p))
             else aret ()
         | None \<Rightarrow> aret ()))))"

definition rdp_server_dynamic_handle_create_response ::
    "('c, 'k, 'n, 'x) dvc_hooks \<Rightarrow> rdp_dynamic_channel_create_response \<Rightarrow> ('c, 'k, 'n, 'x) dvc_action" where
  "rdp_server_dynamic_handle_create_response hooks response =
     abind (aget id) (\<lambda>p.
     case rdp_server_find_pending_dynamic_channel (channels_of p) (dr_channel_id response) of
       None \<Rightarrow> afail LIBRDP_STATUS_PROTOCOL_ERROR
     | Some i \<Rightarrow>
         let channel = channels_of p ! i in
         if sd_cancelled_open channel then dvc_modify (put_channel i channel_zero)
         else if dr_status_code response \<noteq> 0
         then dvc_modify (\<lambda>d. put_channel i channel_zero (mark_extension hooks (sd_name channel) Mark_Close d))
         else
           let channel = channel\<lparr>sd_pending_open := False, sd_open := True\<rparr> in
           amodify (\<lambda>p. rdp_server_emit_dynamic_channel_event channel LIBRDP_SERVER_CHANNEL_EVENT_DYNAMIC_OPEN []
             (on_dvc (\<lambda>d. (mark_extension hooks (sd_name channel) (Mark_Open (sd_channel_id channel) (sd_priority channel))
                (put_channel i channel d))\<lparr>dv_channel_count := dv_channel_count d + 1\<rparr>) p)))"

text \<open>Appending to the fragment of a channel, and the end of a message: it is emitted, and the fragment is empty again in every case.\<close>

definition append_fragment :: "nat \<Rightarrow> u8 list \<Rightarrow> ('c, 'k, 'n, 'x) dvc_action" where
  "append_fragment i data = afill (\<lambda>p. sd_fragment (channels_of p ! i))
     (\<lambda>b p. on_dvc (put_channel i ((channels_of p ! i)\<lparr>sd_fragment := b\<rparr>)) p) (rdp_buffer_append data)"

definition clear_fragment :: "nat \<Rightarrow> ('c, 'k, 'n, 'x) dvc_peer \<Rightarrow> ('c, 'k, 'n, 'x) dvc_peer" where
  "clear_fragment i p = on_dvc (put_channel i ((channels_of p ! i)
     \<lparr>sd_fragment := buf_truncate 0 (sd_fragment (channels_of p ! i)), sd_fragment_expected := 0\<rparr>)) p"

definition finish_message :: "('c, 'k, 'n, 'x) dvc_hooks \<Rightarrow> nat \<Rightarrow> ('c, 'k, 'n, 'x) dvc_action" where
  "finish_message hooks i =
     abind (aget (\<lambda>p. channels_of p ! i)) (\<lambda>channel.
     if buf_length (sd_fragment channel) = unat (sd_fragment_expected channel) then
       athen (on_error (\<lambda>_. clear_fragment i)
         (rdp_server_dynamic_emit_reassembled hooks channel (contents (sd_fragment channel))))
         (amodify (clear_fragment i))
     else aret ())"

definition rdp_server_dynamic_handle_data_first ::
    "('c, 'k, 'n, 'x) dvc_hooks \<Rightarrow> u8 list \<Rightarrow> ('c, 'k, 'n, 'x) dvc_action" where
  "rdp_server_dynamic_handle_data_first hooks data =
     abind (alift (rdp_dynamic_channel_parse_data_first data)) (\<lambda>pdu.
     abind (aget channels_of) (\<lambda>channels.
     case rdp_server_find_dynamic_channel channels (df_channel_id pdu) of
       None \<Rightarrow> afail LIBRDP_STATUS_PROTOCOL_ERROR
     | Some i \<Rightarrow>
         if buf_length (sd_fragment (channels ! i)) \<noteq> 0 \<or> unat (df_total_length pdu) < length (df_data pdu)
         then afail LIBRDP_STATUS_PROTOCOL_ERROR
         else if unat (df_total_length pdu) > RDP_SERVER_DYNAMIC_MESSAGE_MAX
         then athen (dvc_modify count_limit) (afail LIBRDP_STATUS_LIMIT_EXCEEDED)
         else
           athen (dvc_modify (put_channel i ((channels ! i)\<lparr>sd_fragment_expected := df_total_length pdu\<rparr>)))
           (athen (append_fragment i (df_data pdu))
             (finish_message hooks i))))"

definition rdp_server_dynamic_handle_data ::
    "('c, 'k, 'n, 'x) dvc_hooks \<Rightarrow> u8 list \<Rightarrow> ('c, 'k, 'n, 'x) dvc_action" where
  "rdp_server_dynamic_handle_data hooks data =
     abind (alift (rdp_dynamic_channel_parse_data data)) (\<lambda>pdu.
     abind (aget channels_of) (\<lambda>channels.
     case rdp_server_find_dynamic_channel channels (dd_channel_id pdu) of
       None \<Rightarrow> afail LIBRDP_STATUS_PROTOCOL_ERROR
     | Some i \<Rightarrow>
         let channel = channels ! i in
         if buf_length (sd_fragment channel) = 0 then rdp_server_dynamic_emit_reassembled hooks channel (dd_data pdu)
         else if buf_length (sd_fragment channel) > unat (sd_fragment_expected channel) \<or> dd_data pdu = [] \<or>
           length (dd_data pdu) > unat (sd_fragment_expected channel) - buf_length (sd_fragment channel)
         then afail LIBRDP_STATUS_PROTOCOL_ERROR
         else athen (append_fragment i (dd_data pdu)) (finish_message hooks i)))"

definition rdp_server_dynamic_handle_close ::
    "('c, 'k, 'n, 'x) dvc_hooks \<Rightarrow> u8 list \<Rightarrow> ('c, 'k, 'n, 'x) dvc_action" where
  "rdp_server_dynamic_handle_close hooks data =
     abind (alift (rdp_dynamic_channel_parse_close data)) (\<lambda>pdu.
     abind (aget channels_of) (\<lambda>channels.
     case rdp_server_find_dynamic_channel_any channels (dl_channel_id pdu) of
       None \<Rightarrow> afail LIBRDP_STATUS_PROTOCOL_ERROR
     | Some i \<Rightarrow>
         let channel = channels ! i in
         if sd_closing channel then dvc_modify (put_channel i channel_zero)
         else if \<not> sd_open channel \<or> sd_pending_open channel then afail LIBRDP_STATUS_PROTOCOL_ERROR
         else
           amodify (\<lambda>p. on_dvc (put_channel i channel_zero)
             (rdp_server_emit_dynamic_channel_event channel LIBRDP_SERVER_CHANNEL_EVENT_DYNAMIC_CLOSE []
               (on_dvc (\<lambda>d. reset_graphics hooks (sd_name channel)
                  ((mark_extension hooks (sd_name channel) Mark_Close d)\<lparr>dv_channel_count := dv_channel_count d - 1\<rparr>)) p)))))"

section \<open>Side transports\<close>

definition rdp_server_multitransport_tunnel_allowed :: "('c, 'k, 'n, 'e) server_peer \<Rightarrow> u32 \<Rightarrow> bool" where
  "rdp_server_multitransport_tunnel_allowed p tunnel_type =
     (if \<not> sp_multitransport_negotiated p then False
      else if tunnel_type = RDP_DYNAMIC_CHANNEL_TUNNEL_UDP_RELIABLE then sp_multitransport_flags p AND 0x00000001 \<noteq> 0
      else if tunnel_type = RDP_DYNAMIC_CHANNEL_TUNNEL_UDP_LOSSY then sp_multitransport_flags p AND 0x00000004 \<noteq> 0
      else False)"

definition rdp_server_soft_sync_channels_open ::
    "rdp_server_dynamic_channel list \<Rightarrow> rdp_dynamic_channel_soft_sync_channel_list \<Rightarrow> bool" where
  "rdp_server_soft_sync_channels_open channels list \<longleftrightarrow>
     list_all (\<lambda>i. case rdp_dynamic_channel_soft_sync_channel_list_get_id list (of_nat i) of
         Inl _ \<Rightarrow> False
       | Inr channel_id \<Rightarrow> rdp_server_find_dynamic_channel channels channel_id \<noteq> None)
       [0..<unat (dt_channel_count list)]"

fun select_tunnels ::
    "('c, 'k, 'n, 'x) dvc_peer \<Rightarrow> rdp_dynamic_channel_soft_sync_request \<Rightarrow> nat list \<Rightarrow> u32 list \<Rightarrow> u32 list result" where
  "select_tunnels p request [] tunnel_types = Inr tunnel_types"
| "select_tunnels p request (i # is) tunnel_types =
     ebind (rdp_dynamic_channel_soft_sync_request_get_list request (of_nat i)) (\<lambda>list.
     if \<not> rdp_server_soft_sync_channels_open (channels_of p) list then select_tunnels p request is tunnel_types
     else if \<not> rdp_server_multitransport_tunnel_allowed p (dt_tunnel_type list) then select_tunnels p request is tunnel_types
     else if dt_tunnel_type list \<in> set tunnel_types then select_tunnels p request is tunnel_types
     else if length tunnel_types \<ge> 2 then Inl LIBRDP_STATUS_LIMIT_EXCEEDED
     else select_tunnels p request is (tunnel_types @ [dt_tunnel_type list]))"

definition rdp_server_select_soft_sync_tunnels ::
    "('c, 'k, 'n, 'x) dvc_peer \<Rightarrow> rdp_dynamic_channel_soft_sync_request \<Rightarrow> u32 list result" where
  "rdp_server_select_soft_sync_tunnels p request =
     (if \<not> sp_multitransport_negotiated p \<or> sf_requested_features (sp_config p) AND LIBRDP_FEATURE_UDP_TRANSPORT = 0 then Inr []
      else select_tunnels p request [0..<unat (ds_tunnel_count request)] [])"

definition dynamic_soft_sync :: "('c, 'k, 'n) server_env \<Rightarrow> u8 list \<Rightarrow> ('c, 'k, 'n, 'x) dvc_action" where
  "dynamic_soft_sync env data =
     abind (alift (rdp_dynamic_channel_parse_soft_sync_request data)) (\<lambda>request.
     abind (aget (\<lambda>p. rdp_server_select_soft_sync_tunnels p request)) (\<lambda>selected.
     abind (alift selected) (\<lambda>tunnel_types.
     abind (awrite (rdp_dynamic_channel_write_soft_sync_response tunnel_types)) (\<lambda>response.
     athen (rdp_server_send_dynamic_packet env response)
       (dvc_modify (\<lambda>d. d\<lparr>dv_udp_reliable := dv_udp_reliable d \<or> RDP_DYNAMIC_CHANNEL_TUNNEL_UDP_RELIABLE \<in> set tunnel_types,
          dv_udp_lossy := dv_udp_lossy d \<or> RDP_DYNAMIC_CHANNEL_TUNNEL_UDP_LOSSY \<in> set tunnel_types\<rparr>))))))"

section \<open>Dispatch\<close>

definition dynamic_capabilities :: "u8 list \<Rightarrow> ('c, 'k, 'n, 'x) dvc_action" where
  "dynamic_capabilities data =
     abind (alift (rdp_dynamic_channel_parse_capabilities data)) (\<lambda>caps.
     abind (aget (\<lambda>p. dv_capabilities_sent (sp_features p))) (\<lambda>sent.
     athen (afail_if (\<not> sent \<or> dc_has_priority_charges caps \<or> length data \<noteq> 4 \<or> dc_version caps > 3)
       LIBRDP_STATUS_PROTOCOL_ERROR)
       (dvc_modify (\<lambda>d. d\<lparr>dv_version := dc_version caps, dv_ready := True\<rparr>))))"

definition dynamic_create ::
    "('c, 'k, 'n) server_env \<Rightarrow> ('c, 'k, 'n, 'x) dvc_hooks \<Rightarrow> u8 list \<Rightarrow> ('c, 'k, 'n, 'x) dvc_action" where
  "dynamic_create env hooks data =
     abind (aget channels_of) (\<lambda>channels.
     case rdp_dynamic_channel_parse_create_response data of
       Inr response \<Rightarrow>
         if rdp_server_find_pending_dynamic_channel channels (dr_channel_id response) \<noteq> None
         then rdp_server_dynamic_handle_create_response hooks response
         else rdp_server_dynamic_handle_create env hooks data
     | Inl _ \<Rightarrow> rdp_server_dynamic_handle_create env hooks data)"

definition rdp_server_handle_dynamic_channel_message ::
    "('c, 'k, 'n) server_env \<Rightarrow> ('c, 'k, 'n, 'x) dvc_hooks \<Rightarrow> u8 list \<Rightarrow> ('c, 'k, 'n, 'x) dvc_action" where
  "rdp_server_handle_dynamic_channel_message env hooks data =
     abind (alift (rdp_dynamic_channel_parse_header data)) (\<lambda>header.
     abind (aget (\<lambda>p. dv_ready (sp_features p))) (\<lambda>ready.
     if dy_command header = RDP_DYNAMIC_CHANNEL_CMD_CAPABILITIES then dynamic_capabilities data
     else if \<not> ready then afail LIBRDP_STATUS_PROTOCOL_ERROR
     else if dy_command header = RDP_DYNAMIC_CHANNEL_CMD_CREATE then dynamic_create env hooks data
     else if dy_command header = RDP_DYNAMIC_CHANNEL_CMD_DATA_FIRST then rdp_server_dynamic_handle_data_first hooks data
     else if dy_command header = RDP_DYNAMIC_CHANNEL_CMD_DATA then rdp_server_dynamic_handle_data hooks data
     else if dy_command header = RDP_DYNAMIC_CHANNEL_CMD_CLOSE then rdp_server_dynamic_handle_close hooks data
     else if dy_command header = RDP_DYNAMIC_CHANNEL_CMD_SOFT_SYNC_REQUEST then dynamic_soft_sync env data
     else afail LIBRDP_STATUS_UNSUPPORTED))"

section \<open>The table stays sound\<close>

text \<open>
  An entry is in at most one of its three states, only a channel being opened can be cancelled, its number fits the size it is
  written in, and its priority the header. What has been gathered of a message is not more than was announced, which is limited; only open channels gather.
\<close>

definition channel_ok :: "rdp_server_dynamic_channel \<Rightarrow> bool" where
  "channel_ok c \<longleftrightarrow>
     \<not> (sd_open c \<and> sd_pending_open c) \<and> \<not> (sd_open c \<and> sd_closing c) \<and> \<not> (sd_pending_open c \<and> sd_closing c) \<and>
     (sd_cancelled_open c \<longrightarrow> sd_pending_open c) \<and>
     (in_use c \<longrightarrow> sized_ok (sd_channel_id_bytes c) (sd_channel_id c)) \<and> sd_priority c \<le> 3 \<and>
     buf_ok (sd_fragment c) \<and> buf_length (sd_fragment c) \<le> unat (sd_fragment_expected c) \<and>
     unat (sd_fragment_expected c) \<le> RDP_SERVER_DYNAMIC_MESSAGE_MAX \<and>
     (sd_open c \<or> buf_length (sd_fragment c) = 0)"

text \<open>The table: no two entries in use have the same number, and the counter is the number of open channels.\<close>

definition table_ok :: "rdp_server_dynamic_channel list \<Rightarrow> u32 \<Rightarrow> bool" where
  "table_ok cs n \<longleftrightarrow> length cs = RDP_SERVER_MAX_DYNAMIC_CHANNELS \<and> list_all channel_ok cs \<and>
     (\<forall>i < length cs. \<forall>j < length cs. in_use (cs ! i) \<and> in_use (cs ! j) \<and> sd_channel_id (cs ! i) = sd_channel_id (cs ! j) \<longrightarrow> i = j) \<and>
     unat n = length (filter sd_open cs)"

definition table :: "rdp_server_dynamic_channel list \<Rightarrow> u32 \<Rightarrow> ('c, 'k, 'n, 'x) dvc_peer \<Rightarrow> bool" where
  "table cs n p \<longleftrightarrow> channels_of p = cs \<and> dv_channel_count (sp_features p) = n"

definition sound :: "('c, 'k, 'n, 'x) dvc_peer \<Rightarrow> bool" where
  "sound p \<longleftrightarrow> table_ok (channels_of p) (dv_channel_count (sp_features p))"

lemma sound_table: "table cs n p \<Longrightarrow> table_ok cs n \<Longrightarrow> sound p"
  by (auto simp: table_def sound_def)

lemma channel_zero_ok [simp]: "channel_ok channel_zero" "\<not> in_use channel_zero" "\<not> sd_open channel_zero"
  by (simp_all add: channel_ok_def channel_zero_def in_use_def RDP_SERVER_DYNAMIC_MESSAGE_MAX_def)

lemma open_in_use: "sd_open c \<Longrightarrow> in_use c"
  by (simp add: in_use_def)

lemma filter_list_update:
  "i < length xs \<Longrightarrow> length (filter P (xs[i := x])) + of_bool (P (xs ! i)) = length (filter P xs) + of_bool (P x)"
  by (subst (2) id_take_nth_drop [of i xs], assumption) (simp add: upd_conv_take_nth_drop)

lemma table_put:
  assumes "table_ok cs n" "i < length cs" "channel_ok c"
    and "in_use c \<Longrightarrow> \<forall>j < length cs. j \<noteq> i \<and> in_use (cs ! j) \<longrightarrow> sd_channel_id (cs ! j) \<noteq> sd_channel_id c"
    and "unat m + of_bool (sd_open (cs ! i)) = unat n + of_bool (sd_open c)"
  shows "table_ok (cs[i := c]) m"
proof -
  have "unat m = length (filter sd_open (cs[i := c]))"
    using filter_list_update [OF assms(2), of sd_open c] assms(1,5) by (simp add: table_ok_def split: if_splits)
  moreover have "list_all channel_ok (cs[i := c])"
    using assms(1,3) by (auto simp: table_ok_def list_all_iff dest!: set_update_subset_insert [THEN subsetD])
  moreover have "a = b" if "a < length cs" "b < length cs" "in_use (cs[i := c] ! a)" "in_use (cs[i := c] ! b)"
      "sd_channel_id (cs[i := c] ! a) = sd_channel_id (cs[i := c] ! b)" for a b
    using that assms(1,4) unfolding table_ok_def by (cases "a = i"; cases "b = i") auto
  ultimately show ?thesis using assms(1) by (auto simp: table_ok_def)
qed

lemma table_channel: "table_ok cs n \<Longrightarrow> i < length cs \<Longrightarrow> channel_ok (cs ! i)"
  by (simp add: table_ok_def list_all_length)

lemma table_count_up: "table_ok cs n \<Longrightarrow> unat (n + 1) = unat n + 1"
  using length_filter_le [of sd_open cs]
  by (simp add: table_ok_def RDP_SERVER_MAX_DYNAMIC_CHANNELS_def unat_word_ariths)

lemma table_count_down:
  assumes "table_ok cs n" "i < length cs" "sd_open (cs ! i)"
  shows "unat (n - 1) + 1 = unat n"
proof -
  have "filter sd_open cs \<noteq> []" using assms(2,3) by (auto simp: filter_empty_conv)
  then have "0 < unat n" using assms(1) by (simp add: table_ok_def)
  then show ?thesis using unat_sub [of 1 n] by (simp add: word_le_nat_alt)
qed

lemma find_channel_Some: "find_channel P cs = Some i \<Longrightarrow> i < length cs \<and> P (cs ! i)"
  by (auto simp: find_channel_def find_Some_iff)

lemma find_channel_None: "find_channel P cs = None \<longleftrightarrow> (\<forall>i < length cs. \<not> P (cs ! i))"
  by (auto simp: find_channel_def find_None_iff)

lemmas find_defs = rdp_server_find_dynamic_channel_def rdp_server_find_dynamic_channel_any_def
  rdp_server_find_pending_dynamic_channel_def rdp_server_allocate_dynamic_channel_def

lemma find_pending_Some:
  "rdp_server_find_pending_dynamic_channel cs k = Some i \<Longrightarrow> i < length cs \<and> sd_pending_open (cs ! i)"
  by (auto simp: find_defs dest: find_channel_Some split: option.splits if_splits)

text \<open>What leaves the table as it is.\<close>

lemma features_on_dvc [simp]: "sp_features (on_dvc f p) = f (sp_features p)"
  by (simp add: on_dvc_def)

lemma dvc_frame [simp]:
  "dv_channels (mark_extension hooks name k d) = dv_channels d" "dv_channel_count (mark_extension hooks name k d) = dv_channel_count d"
  "dv_channels (reset_graphics hooks name d) = dv_channels d" "dv_channel_count (reset_graphics hooks name d) = dv_channel_count d"
  "dv_channels (count_limit d) = dv_channels d" "dv_channel_count (count_limit d) = dv_channel_count d"
  "dv_channels (count_message l d) = dv_channels d" "dv_channel_count (count_message l d) = dv_channel_count d"
  "dv_channels (put_channel i c d) = (dv_channels d)[i := c]" "dv_channel_count (put_channel i c d) = dv_channel_count d"
  by (simp_all add: mark_extension_def reset_graphics_def count_limit_def count_message_def put_channel_def)

lemma emit_frame [simp]:
  "channels_of (rdp_server_emit_dynamic_channel_event c type data p) = channels_of p"
  "dv_channel_count (sp_features (rdp_server_emit_dynamic_channel_event c type data p)) = dv_channel_count (sp_features p)"
  by (simp_all add: rdp_server_emit_dynamic_channel_event_def)

lemma on_wire_features: "on_wire f (p, m) = (r, p', m') \<Longrightarrow> sp_features p' = sp_features p"
  by (auto simp: on_wire_def Let_def rdp_server_close_peer_def rdp_server_set_state_def split: prod.splits if_splits)

lemma hoare_send_packet:
  "hoare (table cs n) (rdp_server_send_dynamic_packet env packet) (\<lambda>_. table cs n) (table cs n)"
  unfolding rdp_server_send_dynamic_packet_def
  by (intro hoare_rules hoareI) (auto simp: table_def dest!: on_wire_features split: sum.split)

lemma hoare_awrite_at: "hoare P (awrite_at b w) (\<lambda>_. P) P"
  by (auto simp: hoare_def wp_def awrite_at_def split: prod.split)

lemma hoare_on_extensions: "hoare (table cs n) (on_extensions f) (\<lambda>_. table cs n) (table cs n)"
  by (auto simp: hoare_def wp_def on_extensions_def table_def split: prod.split)

lemma hoare_put:
  assumes "table_ok (cs[i := c]) k"
    and "\<And>p. table cs n p \<Longrightarrow> channels_of (f p) = cs[i := c] \<and> dv_channel_count (sp_features (f p)) = k"
  shows "hoare (table cs n) (amodify f) (\<lambda>_. sound) E"
  using assms by (auto intro!: hoare_amodify simp: sound_def)

lemma hoare_stay:
  "(\<And>p. table cs n p \<Longrightarrow> table cs n (f p)) \<Longrightarrow> hoare (table cs n) (amodify f) (\<lambda>_. table cs n) E"
  by (rule hoare_amodify)

text \<open>
  Every operation, started on a table that is sound, ends with one, whatever its outcome. A triple names the table at the start,
  since an operation finds its entry before it sends.
\<close>

definition keeps_table :: "('c, 'k, 'n, 'x) dvc_action \<Rightarrow> bool" where
  "keeps_table a \<longleftrightarrow> (\<forall>cs n. table_ok cs n \<longrightarrow> hoare (table cs n) a (\<lambda>_. sound) sound)"

lemma keeps_tableI: "(\<And>cs n. table_ok cs n \<Longrightarrow> hoare (table cs n) a (\<lambda>_. sound) sound) \<Longrightarrow> keeps_table a"
  by (simp add: keeps_table_def)

lemma keeps_frame: "(\<And>cs n. hoare (table cs n) a (\<lambda>_. table cs n) (table cs n)) \<Longrightarrow> keeps_table a"
  by (rule keeps_tableI) (blast intro: hoare_weaken sound_table)

lemma keeps_table_sound: "keeps_table a \<Longrightarrow> hoare sound a (\<lambda>_. sound) sound"
  by (fastforce simp: keeps_table_def hoare_def table_def sound_def)

lemma keeps_table_run: "keeps_table a \<Longrightarrow> sound p \<Longrightarrow> a (p, m) = (r, p', m') \<Longrightarrow> sound p'"
  by (rule hoare_both [OF keeps_table_sound])

lemma keeps_start: "keeps_table (rdp_server_dynamic_channels_start env)"
  unfolding rdp_server_dynamic_channels_start_def
  by (rule keeps_frame, intro hoare_rules hoare_send_packet hoare_stay) (auto simp: table_def)

lemma hoare_send_rest:
  "hoare (table cs n) (send_rest env k s pr capacity packet rest) (\<lambda>_. table cs n) (table cs n)"
proof (induction env k s pr capacity packet rest rule: send_rest.induct)
  case (1 env k s pr capacity packet rest)
  show ?case
    by (subst send_rest.simps, intro hoare_rules hoare_awrite_at hoare_send_packet 1) auto
qed

lemma hoare_send_message: "hoare (table cs n) (send_message env c k data) (\<lambda>_. table cs n) (table cs n)"
  unfolding send_message_def Let_def
  by (intro hoare_rules hoare_send_packet hoare_send_rest) auto

lemma keeps_send_data: "keeps_table (librdp_server_peer_send_dynamic_channel_data env hooks k data)"
proof (rule keeps_frame)
  fix cs n
  show "hoare (table cs n) (librdp_server_peer_send_dynamic_channel_data env hooks k data) (\<lambda>_. table cs n) (table cs n)"
    unfolding librdp_server_peer_send_dynamic_channel_data_def
    by (intro hoare_rules hoare_on_error [where E' = "table cs n"] hoare_send_message hoare_stay)
      (auto simp: table_def)
qed

lemma keeps_open: "keeps_table (librdp_server_peer_open_dynamic_channel env hooks k pr name)"
proof (rule keeps_tableI)
  fix cs n assume ok: "table_ok cs n"
  have put: "table_ok (cs[i := channel_zero\<lparr>sd_channel_id := k, sd_channel_id_bytes := rdp_dynamic_channel_select_channel_id_bytes k,
      sd_priority := pr, sd_pending_open := True, sd_name := c_string name\<rparr>]) n"
    if "rdp_server_find_dynamic_channel_any cs k = None" "rdp_server_allocate_dynamic_channel cs = Some i"
      "\<not> (k = 0 \<or> pr > 3 \<or> \<not> rdp_server_dynamic_channel_name_valid name)" for i
    using that by (intro table_put [OF ok])
      (auto simp: find_defs find_channel_None channel_ok_def channel_zero_def in_use_def sized_selected not_less
        RDP_SERVER_DYNAMIC_MESSAGE_MAX_def dest!: find_channel_Some)
  show "hoare (table cs n) (librdp_server_peer_open_dynamic_channel env hooks k pr name) (\<lambda>_. sound) sound"
    unfolding librdp_server_peer_open_dynamic_channel_def Let_def
    by (intro hoare_rules hoare_exit [OF hoare_send_packet] hoare_put [OF put])
      (auto simp: table_def intro: sound_table [OF _ ok, unfolded table_def])
qed

lemma keeps_close: "keeps_table (librdp_server_peer_close_dynamic_channel env hooks k)"
proof (rule keeps_tableI)
  fix cs n assume ok: "table_ok cs n"
  have put: "table_ok (cs[i := (cs ! i)\<lparr>sd_open := False, sd_closing := True, sd_fragment := rdp_buffer_init\<rparr>]) (n - 1)"
    if i: "rdp_server_find_dynamic_channel cs k = Some i" for i
  proof -
    have c: "i < length cs" "sd_open (cs ! i)" using i by (auto simp: find_defs dest: find_channel_Some)
    show ?thesis
      using table_channel [OF ok c(1)] table_count_down [OF ok c] c ok open_in_use [OF c(2)]
      by (intro table_put [OF ok c(1)]) (auto simp: channel_ok_def in_use_def table_ok_def)
  qed
  show "hoare (table cs n) (librdp_server_peer_close_dynamic_channel env hooks k) (\<lambda>_. sound) sound"
    unfolding librdp_server_peer_close_dynamic_channel_def Let_def
    by (intro hoare_rules hoare_exit [OF hoare_send_packet] hoare_put [OF put])
      (auto simp: table_def intro: sound_table [OF _ ok, unfolded table_def])
qed

lemma table_map:
  "table_ok cs n \<Longrightarrow> (\<And>c. channel_ok c \<Longrightarrow> channel_ok (f c)) \<Longrightarrow>
    (\<And>c. in_use (f c) = in_use c \<and> sd_channel_id (f c) = sd_channel_id c \<and> sd_open (f c) = sd_open c) \<Longrightarrow> table_ok (map f cs) n"
  by (simp add: table_ok_def list_all_iff filter_map comp_def)

lemma sound_cancel: "sound p \<Longrightarrow> sound (rdp_server_dynamic_channels_cancel_pending_family family p)"
  unfolding sound_def rdp_server_dynamic_channels_cancel_pending_family_def
  by (simp, rule table_map) (auto simp: channel_ok_def in_use_def)

lemma sound_reset: "sound (rdp_server_dynamic_channels_reset hooks emit p)"
  by (simp add: sound_def rdp_server_dynamic_channels_reset_def rdp_server_multitransport_reset_def Let_def table_ok_def list_all_iff)

lemma create_request_sized:
  assumes "rdp_dynamic_channel_parse_create_request bs = Inr q"
  shows "sized_ok (dq_channel_id_bytes q) (dq_channel_id q)" "dq_priority q \<le> 3"
proof -
  obtain h where h: "rdp_dynamic_channel_parse_header bs = Inr h" "dy_command h = 1"
    using assms by (auto simp: rdp_dynamic_channel_parse_create_request_def accepts split: if_splits)
  have "dy_priority h < 4" using parse_header_accepts [OF h(1)] by metis
  then have pr: "dy_priority h \<le> 3" by (simp add: word_le_nat_alt word_less_nat_alt)
  note q = assms [unfolded rdp_dynamic_channel_parse_create_request_def h pbind_simps simp_thms if_False]
  show "sized_ok (dq_channel_id_bytes q) (dq_channel_id q)"
    by (rule packet_accepts [OF h(1) q]) (auto simp: accepts Let_def split: if_splits)
  show "dq_priority q \<le> 3"
    by (rule packet_accepts [OF h(1) q]) (use pr in \<open>auto simp: accepts Let_def split: if_splits\<close>)
qed

lemma keeps_create: "keeps_table (rdp_server_dynamic_handle_create env hooks data)"
proof (rule keeps_tableI)
  fix cs n assume ok: "table_ok cs n"
  have put: "table_ok (cs[i := channel_zero\<lparr>sd_channel_id := dq_channel_id q, sd_channel_id_bytes := dq_channel_id_bytes q,
      sd_priority := dq_priority q, sd_open := True, sd_name := dq_name q\<rparr>]) (n + 1)"
    if "rdp_dynamic_channel_parse_create_request data = Inr q" "rdp_server_find_dynamic_channel_any cs (dq_channel_id q) = None"
      "rdp_server_allocate_dynamic_channel cs = Some i" for i q
    using that table_count_up [OF ok] by (intro table_put [OF ok])
      (auto simp: find_defs find_channel_None channel_ok_def channel_zero_def in_use_def create_request_sized
        RDP_SERVER_DYNAMIC_MESSAGE_MAX_def dest!: find_channel_Some)
  have reply: "hoare (table cs n) (aignore (abind (awrite w) (rdp_server_send_dynamic_packet env))) (\<lambda>_. table cs n) sound" for w
    unfolding aignore_def
    by (rule hoare_acatch [where E' = "table cs n"]; intro hoare_rules hoare_send_packet) auto
  show "hoare (table cs n) (rdp_server_dynamic_handle_create env hooks data) (\<lambda>_. sound) sound"
    unfolding rdp_server_dynamic_handle_create_def Let_def
    by (intro hoare_rules reply hoare_put [OF put])
      (auto simp: table_def split: if_splits intro: sound_table [OF _ ok, unfolded table_def])
qed

lemma keeps_create_response: "keeps_table (rdp_server_dynamic_handle_create_response hooks response)"
proof (rule keeps_tableI)
  fix cs n assume ok: "table_ok cs n"
  have zero: "table_ok (cs[i := channel_zero]) n"
    if i: "rdp_server_find_pending_dynamic_channel cs k = Some i" for i k
  proof -
    have "\<not> sd_open (cs ! i)" using find_pending_Some [OF i] table_channel [OF ok] by (auto simp: channel_ok_def)
    then show ?thesis using find_pending_Some [OF i] by (intro table_put [OF ok]) simp_all
  qed
  have put: "table_ok (cs[i := (cs ! i)\<lparr>sd_pending_open := False, sd_open := True\<rparr>]) (n + 1)"
    if i: "rdp_server_find_pending_dynamic_channel cs k = Some i" "\<not> sd_cancelled_open (cs ! i)" for i k
  proof -
    have c: "i < length cs" "sd_pending_open (cs ! i)" using find_pending_Some [OF i(1)] by auto
    have u: "in_use (cs ! i)" using c(2) by (simp add: in_use_def)
    show ?thesis
      using table_channel [OF ok c(1)] table_count_up [OF ok] c u ok i(2)
      by (intro table_put [OF ok c(1)]) (auto simp: channel_ok_def in_use_def table_ok_def)
  qed
  show "hoare (table cs n) (rdp_server_dynamic_handle_create_response hooks response) (\<lambda>_. sound) sound"
    unfolding rdp_server_dynamic_handle_create_response_def Let_def
    apply (intro hoare_rules)
    subgoal using sound_table [OF _ ok] by blast
    subgoal by (rule hoare_put [OF zero]) (auto simp: table_def)
    subgoal by (rule hoare_put [OF zero]) (auto simp: table_def)
    subgoal by (rule hoare_put [OF put]) (auto simp: table_def)
    done
qed

lemma hoare_emit_reassembled:
  "hoare (table cs n) (rdp_server_dynamic_emit_reassembled hooks c data) (\<lambda>_. table cs n) (table cs n)"
  unfolding rdp_server_dynamic_emit_reassembled_def
  by (intro hoare_rules hoare_on_extensions hoare_stay) (auto simp: table_def)

text \<open>The entry that gathers gets no more than is left.\<close>

lemma table_distinct:
  "table_ok cs n \<Longrightarrow> i < length cs \<Longrightarrow> in_use (cs ! i) \<Longrightarrow>
    \<forall>j < length cs. j \<noteq> i \<and> in_use (cs ! j) \<longrightarrow> sd_channel_id (cs ! j) \<noteq> sd_channel_id (cs ! i)"
  unfolding table_ok_def by blast

lemma table_fragment:
  assumes ok: "table_ok cs n" and i: "i < length cs"
    and b: "buf_ok b" "buf_length b \<le> unat expected" "unat expected \<le> RDP_SERVER_DYNAMIC_MESSAGE_MAX"
      "sd_open (cs ! i) \<or> buf_length b = 0"
  shows "table_ok (cs[i := (cs ! i)\<lparr>sd_fragment := b, sd_fragment_expected := expected\<rparr>]) n"
proof (rule table_put [OF ok i])
  show "channel_ok ((cs ! i)\<lparr>sd_fragment := b, sd_fragment_expected := expected\<rparr>)"
    using table_channel [OF ok i] b by (simp add: channel_ok_def in_use_def)
qed (use table_distinct [OF ok i] in \<open>simp_all add: in_use_def\<close>)

lemma sound_clear_fragment: "sound p \<Longrightarrow> sound (clear_fragment i p)"
proof (cases "i < length (channels_of p)")
  case True
  assume p: "sound p"
  note c = table_channel [OF p [unfolded sound_def] True]
  show ?thesis
    unfolding sound_def clear_fragment_def features_on_dvc dvc_frame
    by (rule table_fragment [OF p [unfolded sound_def] True])
      (use c buf_truncate_ok(1) [of "sd_fragment (channels_of p ! i)" 0] in \<open>simp_all add: channel_ok_def buf_truncate_def\<close>)
qed (simp add: sound_def clear_fragment_def list_update_beyond)

lemma hoare_finish: "hoare sound (finish_message hooks i) (\<lambda>_. sound) sound"
  unfolding finish_message_def
  by (intro hoare_rules hoare_on_error [where E' = sound] keeps_table_sound [OF keeps_frame [OF hoare_emit_reassembled]] hoare_amodify)
    (auto simp: sound_clear_fragment)

lemma append_fragment_buffer:
  assumes "buf_ok b" "rdp_buffer_append data (b, m) = (st, b', m')" "buf_length b + length data \<le> k"
  shows "buf_ok b'" "buf_length b' \<le> k"
proof -
  note spec = append_from_spec [OF assms(1) source_ok_Outside assms(2) [unfolded rdp_buffer_append_def]]
  show ok: "buf_ok b'" by (rule spec(1))
  show "buf_length b' \<le> k"
    using spec(2,3) assms(1,3) ok length_contents [of b] length_contents [of b']
    by (cases "st = LIBRDP_STATUS_OK") auto
qed

lemma hoare_append_fragment:
  assumes ok: "table_ok cs n" and c: "i < length cs" "sd_open (cs ! i)" "c = (cs ! i)\<lparr>sd_fragment_expected := expected\<rparr>"
    and len: "buf_length (sd_fragment (cs ! i)) + length data \<le> unat expected" "unat expected \<le> RDP_SERVER_DYNAMIC_MESSAGE_MAX"
  shows "hoare (table (cs[i := c]) n) (append_fragment i data) (\<lambda>_. sound) sound"
proof (rule hoareI)
  fix p m r p' m'
  assume p: "table (cs[i := c]) n p" and run: "append_fragment i data (p, m) = (r, p', m')"
  obtain st b k where b: "rdp_buffer_append data (sd_fragment (cs ! i), m) = (st, b, k)" by (rule prod_cases3)
  have ch: "channels_of p ! i = c" using p c(1) by (simp add: table_def)
  from table_channel [OF ok c(1)] have "buf_ok (sd_fragment (cs ! i))" by (simp add: channel_ok_def)
  note b' = append_fragment_buffer [OF this b len(1)]
  have swap: "(cs ! i)\<lparr>sd_fragment_expected := expected, sd_fragment := b\<rparr> = (cs ! i)\<lparr>sd_fragment := b, sd_fragment_expected := expected\<rparr>"
    by (cases "cs ! i") simp
  have "table_ok (cs[i := (cs ! i)\<lparr>sd_fragment := b, sd_fragment_expected := expected\<rparr>]) n"
    by (rule table_fragment [OF ok c(1) b' len(2)]) (simp add: c(2))
  moreover have "channels_of p' = cs[i := (cs ! i)\<lparr>sd_fragment := b, sd_fragment_expected := expected\<rparr>]"
    "dv_channel_count (sp_features p') = n"
    using run p by (auto simp: append_fragment_def afill_def ch c(3) b table_def swap split: if_splits)
  ultimately have "sound p'" by (simp add: sound_def)
  then show "case r of Inl _ \<Rightarrow> sound p' | Inr _ \<Rightarrow> sound p'" by (simp split: sum.split)
qed

lemma keeps_data_first: "keeps_table (rdp_server_dynamic_handle_data_first hooks data)"
proof (rule keeps_tableI)
  fix cs n assume ok: "table_ok cs n"
  have put: "hoare (table cs n) (dvc_modify (put_channel i c)) (\<lambda>_. table (cs[i := c]) n) sound" for i c
    by (rule hoare_amodify) (auto simp: table_def)
  have append: "hoare (table (cs[i := (cs ! i)\<lparr>sd_fragment_expected := df_total_length q\<rparr>]) n)
      (append_fragment i (df_data q)) (\<lambda>_. sound) sound"
    if "rdp_server_find_dynamic_channel cs k = Some i"
      "\<not> (buf_length (sd_fragment (cs ! i)) \<noteq> 0 \<or> unat (df_total_length q) < length (df_data q))"
      "\<not> unat (df_total_length q) > RDP_SERVER_DYNAMIC_MESSAGE_MAX" for i k q
    using that by (intro hoare_append_fragment [OF ok _ _ refl]) (auto simp: find_defs dest: find_channel_Some)
  have limit: "hoare (table cs n) (dvc_modify count_limit) (\<lambda>_. table cs n) sound"
    by (rule hoare_stay) (auto simp: table_def)
  show "hoare (table cs n) (rdp_server_dynamic_handle_data_first hooks data) (\<lambda>_. sound) sound"
    unfolding rdp_server_dynamic_handle_data_first_def
    apply (intro hoare_aget_bind hoare_alift_bind hoare_cases hoare_if)
    apply (auto intro!: hoare_afail hoare_change [OF limit] sound_table [OF _ ok])[3]
    subgoal premises prems for q p i
    proof -
      have cs: "channels_of p = cs" using prems by (simp add: table_def)
      show ?thesis unfolding cs
        by (rule hoare_change [OF put], rule hoare_change [OF append]) (use prems cs in \<open>auto intro: hoare_finish\<close>)
    qed
    apply (blast intro: sound_table [OF _ ok])
    done
qed

lemma keeps_data: "keeps_table (rdp_server_dynamic_handle_data hooks data)"
proof (rule keeps_tableI)
  fix cs n assume ok: "table_ok cs n"
  have append: "hoare (table cs n) (append_fragment i data) (\<lambda>_. sound) sound"
    if "rdp_server_find_dynamic_channel cs k = Some i"
      "\<not> (buf_length (sd_fragment (cs ! i)) > unat (sd_fragment_expected (cs ! i)) \<or> data = [] \<or>
         length data > unat (sd_fragment_expected (cs ! i)) - buf_length (sd_fragment (cs ! i)))" for i k data
  proof -
    have i: "i < length cs" "sd_open (cs ! i)" using that(1) by (auto simp: find_defs dest: find_channel_Some)
    have "buf_length (sd_fragment (cs ! i)) + length data \<le> unat (sd_fragment_expected (cs ! i))" using that(2) by auto
    with hoare_append_fragment [OF ok i refl, where expected = "sd_fragment_expected (cs ! i)" and data = data] table_channel [OF ok i(1)]
    show ?thesis by (simp add: channel_ok_def)
  qed
  show "hoare (table cs n) (rdp_server_dynamic_handle_data hooks data) (\<lambda>_. sound) sound"
    unfolding rdp_server_dynamic_handle_data_def Let_def
    apply (intro hoare_aget_bind hoare_alift_bind hoare_cases hoare_if)
    apply (auto intro!: hoare_afail hoare_weaken [OF hoare_emit_reassembled] sound_table [OF _ ok])[3]
    subgoal premises prems for q p i
    proof -
      have cs: "channels_of p = cs" using prems by (simp add: table_def)
      show ?thesis by (rule hoare_change [OF append]) (use prems cs in \<open>auto intro: hoare_finish\<close>)
    qed
    apply (blast intro: sound_table [OF _ ok])
    done
qed

lemma keeps_handle_close: "keeps_table (rdp_server_dynamic_handle_close hooks data)"
proof (rule keeps_tableI)
  fix cs n assume ok: "table_ok cs n"
  have closed: "table_ok (cs[i := channel_zero]) n"
    if "rdp_server_find_dynamic_channel_any cs k = Some i" "sd_closing (cs ! i)" for i k
  proof -
    have i: "i < length cs" using that(1) by (auto simp: find_defs dest: find_channel_Some)
    then show ?thesis using table_channel [OF ok i] that(2) by (intro table_put [OF ok]) (auto simp: channel_ok_def [of "cs ! i"])
  qed
  have opened: "table_ok (cs[i := channel_zero]) (n - 1)"
    if "rdp_server_find_dynamic_channel_any cs k = Some i" "\<not> (\<not> sd_open (cs ! i) \<or> sd_pending_open (cs ! i))" for i k
  proof -
    have i: "i < length cs" "sd_open (cs ! i)" using that by (auto simp: find_defs dest: find_channel_Some)
    then show ?thesis using table_count_down [OF ok i] by (intro table_put [OF ok]) simp_all
  qed
  show "hoare (table cs n) (rdp_server_dynamic_handle_close hooks data) (\<lambda>_. sound) sound"
    unfolding rdp_server_dynamic_handle_close_def Let_def
    apply (intro hoare_rules)
    subgoal using sound_table [OF _ ok] by blast
    subgoal by (rule hoare_put [OF closed]) (auto simp: table_def)
    subgoal using sound_table [OF _ ok] by blast
    subgoal by (rule hoare_put [OF opened]) (auto simp: table_def)
    subgoal using sound_table [OF _ ok] by blast
    done
qed

lemma keeps_soft_sync: "keeps_table (dynamic_soft_sync env data)"
  unfolding dynamic_soft_sync_def
  by (rule keeps_frame, intro hoare_rules hoare_send_packet hoare_stay) (auto simp: table_def)

lemma keeps_capabilities: "keeps_table (dynamic_capabilities data)"
  unfolding dynamic_capabilities_def
  by (rule keeps_frame, intro hoare_rules hoare_stay) (auto simp: table_def)

lemma keeps_message: "keeps_table (rdp_server_handle_dynamic_channel_message env hooks data)"
proof (rule keeps_tableI)
  fix cs n assume ok: "table_ok cs n"
  have fail: "hoare (table cs n) (afail e) (\<lambda>_. sound) sound" for e by (rule hoare_afail) (rule sound_table [OF _ ok])
  have create: "hoare (table cs n) (dynamic_create env hooks data) (\<lambda>_. sound) sound"
    unfolding dynamic_create_def
    by (intro hoare_aget_bind) (auto intro: keeps_create [unfolded keeps_table_def, rule_format, OF ok]
        keeps_create_response [unfolded keeps_table_def, rule_format, OF ok] split: sum.split)
  note keep = keeps_capabilities keeps_data_first keeps_data keeps_handle_close keeps_soft_sync
  show "hoare (table cs n) (rdp_server_handle_dynamic_channel_message env hooks data) (\<lambda>_. sound) sound"
    unfolding rdp_server_handle_dynamic_channel_message_def
    by (intro hoare_alift_bind hoare_aget_bind hoare_if fail create keep [unfolded keeps_table_def, rule_format, OF ok] sound_table [OF _ ok])
qed

section \<open>Runs\<close>

text \<open>What the application and the client can ask for, and the states that are reached from a reset, whatever the modules answer.\<close>

datatype dvc_call =
    Call_Start
  | Call_Open u32 u8 "u8 list"
  | Call_Close u32
  | Call_Send u32 "u8 list"
  | Call_Message "u8 list"

fun dvc_run :: "('c, 'k, 'n) server_env \<Rightarrow> ('c, 'k, 'n, 'x) dvc_hooks \<Rightarrow> dvc_call \<Rightarrow> ('c, 'k, 'n, 'x) dvc_action" where
  "dvc_run env hooks Call_Start = rdp_server_dynamic_channels_start env"
| "dvc_run env hooks (Call_Open k pr name) = librdp_server_peer_open_dynamic_channel env hooks k pr name"
| "dvc_run env hooks (Call_Close k) = librdp_server_peer_close_dynamic_channel env hooks k"
| "dvc_run env hooks (Call_Send k data) = librdp_server_peer_send_dynamic_channel_data env hooks k data"
| "dvc_run env hooks (Call_Message data) = rdp_server_handle_dynamic_channel_message env hooks data"

text \<open>\<open>Elsewhere\<close> is any step of the peer outside of this file: it leaves the table as it is.\<close>

inductive dvc_reachable :: "('c, 'k, 'n, 'x) dvc_peer \<Rightarrow> bool" where
  Reset: "dvc_reachable (rdp_server_dynamic_channels_reset hooks emit p)"
| Call: "dvc_reachable p \<Longrightarrow> dvc_run env hooks call (p, m) = (r, p', m') \<Longrightarrow> dvc_reachable p'"
| Cancel: "dvc_reachable p \<Longrightarrow> dvc_reachable (rdp_server_dynamic_channels_cancel_pending_family family p)"
| Elsewhere: "dvc_reachable p \<Longrightarrow> channels_of p' = channels_of p \<Longrightarrow>
    dv_channel_count (sp_features p') = dv_channel_count (sp_features p) \<Longrightarrow> dvc_reachable p'"

inductive_cases dvc_reachableE: "dvc_reachable p"

lemma keeps_run: "keeps_table (dvc_run env hooks call)"
  by (cases call) (simp_all add: keeps_start keeps_open keeps_close keeps_send_data keeps_message)

lemma dvc_reachable_sound: "dvc_reachable p \<Longrightarrow> sound p"
proof (induction rule: dvc_reachable.induct)
  case (Call p env hooks call m r p' m')
  from keeps_table_run [OF keeps_run Call.IH Call.hyps(2)] show ?case .
next
  case (Elsewhere p p')
  then show ?case by (simp add: sound_def)
qed (simp_all add: sound_reset sound_cancel)

end
