(* ===== verification/Startup.thy ===== *)
theory Startup
  imports Repaint Dynamic_Server
begin

text \<open>
  The start of a session with the code of the surface in it. The first part shows that the surface presents any valid rectangle to a client
  that takes slow-path updates, which the library's own client does; the second that the surface meets the
  contract on which the activation relies. The activation of a connection is then stated for both ends, with a
  repaint that may be pending when the server becomes active.
\<close>

section \<open>Presentation on the slow path\<close>

lemma sent_only_refl: "sent_only w w"
  by (simp add: sent_only_def)

lemma sent_only_trans: "sent_only w w' \<Longrightarrow> sent_only w' w'' \<Longrightarrow> sent_only w w''"
  by (cases w; cases w'; cases w'') (simp add: sent_only_def)

lemma sent_only_fields:
  "sent_only w w' \<Longrightarrow> pe_standard_security_ready w' = pe_standard_security_ready w \<and> pe_user_id w' = pe_user_id w \<and>
     pe_state w' = pe_state w \<and> pe_input w' = pe_input w \<and> pe_advertised_channel_joined w' = pe_advertised_channel_joined w"
  by (cases w; cases w') (simp add: sent_only_def)

text \<open>A connection whose slow path is not encrypted.\<close>

definition in_clear :: "'c librdp_server_peer \<Rightarrow> bool" where
  "in_clear w \<longleftrightarrow> \<not> pe_standard_security_ready w \<and> RDP_MCS_BASE_CHANNEL_ID \<le> pe_user_id w"

lemma in_clear_sent: "sent_only w w' \<Longrightarrow> in_clear w \<Longrightarrow> in_clear w'"
  using sent_only_fields [of w w'] by (simp add: in_clear_def)

lemma indication_sent:
  assumes net: "\<And>d. net d = LIBRDP_STATUS_OK" and w: "in_clear w" and bs: "length bs \<le> 0x7fff"
  obtains mcs w' where "rdp_mcs_write_send_data_indication (pe_user_id w) channel bs (rdp_buffer_init, []) = (LIBRDP_STATUS_OK, mcs, [])"
    "rdp_server_send_mcs_pdu net mcs (w, []) = (LIBRDP_STATUS_OK, w', [])" "sent_only w w'"
proof -
  let ?pdu = "send_data_pdu RDP_MCS_PDU_SEND_DATA_INDICATION (pe_user_id w) channel bs"
  have len: "length ?pdu \<le> 65000"
    using bs length_send_data_pdu [of RDP_MCS_PDU_SEND_DATA_INDICATION "pe_user_id w" channel bs] by simp
  obtain mcs where mcs: "rdp_mcs_write_send_data_indication (pe_user_id w) channel bs (rdp_buffer_init, []) = (LIBRDP_STATUS_OK, mcs, [])"
    "contents mcs = ?pdu"
    by (rule emits_fresh [OF emits_send_data_indication [of "pe_user_id w" bs channel]])
      (use w bs len in \<open>auto simp: in_clear_def\<close>)
  obtain x where x: "rdp_x224_wrap_data ?pdu (rdp_buffer_init, []) = (LIBRDP_STATUS_OK, x, [])" "contents x = [0x02, 0xf0, 0x80] @ ?pdu"
    by (rule emits_fresh [OF emits_wrap_data]) (use len in auto)
  obtain f where f: "rdp_tpkt_write ([0x02, 0xf0, 0x80] @ ?pdu) (rdp_buffer_init, []) = (LIBRDP_STATUS_OK, f, [])"
    by (rule emits_fresh [OF emits_atomicallyD(1) [OF tpkt_write_atomic]]) (use len in auto)
  have "\<exists>w'. rdp_server_send_mcs_pdu net mcs (w, []) = (LIBRDP_STATUS_OK, w', []) \<and> sent_only w w'"
    using mcs(2) x f net
    by (cases w) (simp add: rdp_server_send_mcs_pdu_def rdp_server_send_x224_data_def rdp_server_peer_send_all_def sent_only_def Let_def)
  with mcs(1) that show ?thesis by blast
qed

lemma slowpath_sent:
  assumes net: "\<And>d. net d = LIBRDP_STATUS_OK" and w: "in_clear w" and b: "length (contents b) \<le> 0x7fff"
  shows "\<exists>w'. rdp_server_send_slowpath cr net b (w, []) = (LIBRDP_STATUS_OK, w', []) \<and> sent_only w w'"
  by (rule indication_sent [where net = net and channel = RDP_MCS_GLOBAL_CHANNEL_ID, OF net w b])
    (use w in \<open>simp add: rdp_server_send_slowpath_def rdp_server_prepare_outbound_security_payload_def in_clear_def\<close>)

lemma slow_tile_sent:
  assumes net: "\<And>d. net d = LIBRDP_STATUS_OK" and sc: "screen_ok sc fb" "\<not> sr_client_fastpath_output sc" "in_clear (sr_peer sc)"
    and valid: "rect_valid sc x y w h" and fits: "unat w * 4 * unat h + 40 \<le> 0x7fff"
  shows "\<exists>p'. rdp_server_present_tile cr net x y w h (sc, []) = (LIBRDP_STATUS_OK, sc\<lparr>sr_peer := p'\<rparr>, []) \<and> sent_only (sr_peer sc) p'"
proof -
  let ?bytes = "tile_bytes sc x y w h" and ?n = "unat w * 4 * unat h"
  let ?rect = "tile_rect x y w h ?bytes"
  have "?n + 22 \<le> 0x7fff" using fits by simp
  note u = tile_update [OF sc(1) valid this] and t = tile_words [OF valid]
  let ?pdu = "data_pdu_bytes (sr_share_id sc) RDP_MCS_SERVER_CHANNEL_ID RDP_SLOWPATH_DATA_PDU_UPDATE (bitmap_update_bytes [?rect])"
  have pos: "0 < unat w" "0 < unat h" using valid by (simp_all add: rect_valid_nat)
  have n: "?n \<le> 32727" using fits by linarith
  then have n': "?n \<le> 2 ^ 62" by (rule order_trans) simp
  have len: "length (bitmap_update_bytes [?rect]) \<le> 32749" using u(4) fits by linarith
  obtain ub where ub: "rdp_bitmap_write_update [?rect] (rdp_buffer_init, []) = (LIBRDP_STATUS_OK, ub, [])"
    "contents ub = bitmap_update_bytes [?rect]"
    by (rule emits_fresh [OF bitmap_update.wr_emits]) (use u(2) len in auto)
  obtain db where db: "rdp_slowpath_write_data_pdu (sr_share_id sc) RDP_MCS_SERVER_CHANNEL_ID RDP_SLOWPATH_DATA_PDU_UPDATE
      (bitmap_update_bytes [?rect]) (rdp_buffer_init, []) = (LIBRDP_STATUS_OK, db, [])" "contents db = ?pdu"
    by (rule emits_fresh [OF emits_data_pdu]) (use len in auto)
  obtain raw where raw: "rdp_buffer_reserve ?n (rdp_buffer_init, []) = (LIBRDP_STATUS_OK, raw, [])"
    "contents (buf_overwrite 0 ?bytes (raw\<lparr>buf_length := ?n\<rparr>)) = ?bytes"
    by (rule raw_tile [OF n' u(1)])
  have "length (contents db) \<le> 0x7fff" using db(2) len by simp
  from slowpath_sent [where net = net, OF net sc(3) this] obtain p' where
    p': "rdp_server_send_slowpath cr net db (sr_peer sc, []) = (LIBRDP_STATUS_OK, p', [])" "sent_only (sr_peer sc) p'" by blast
  have "unat h \<le> SIZE_MAX div (unat w * 4)"
    using pos n by (simp add: less_eq_div_iff_mult_less_eq SIZE_MAX_def mult.commute)
  moreover have "w \<le> 0xffff" "h \<le> 0xffff" "x + w - 1 \<le> 0xffff" "y + h - 1 \<le> 0xffff"
    using t(3,4,6,7) valid unat_bounds(2) [of "sr_width sc"] unat_bounds(2) [of "sr_height sc"]
    by (auto simp: word_le_nat_alt rect_valid_nat)
  ultimately have "rdp_server_present_tile cr net x y w h (sc, []) = (LIBRDP_STATUS_OK, sc\<lparr>sr_peer := p'\<rparr>, [])"
    using valid raw ub db(1) p'(1) sc(2) t(5)
    by (simp add: rdp_server_present_tile_def send_tile_def Let_def not_less [symmetric])
  with p'(2) show ?thesis by blast
qed

lemma slow_rows_sent:
  assumes net: "\<And>d. net d = LIBRDP_STATUS_OK" and tw: "0 < tw" and rows: "0 < rows" "tw * 4 * rows + 40 \<le> 0x7fff"
  shows "screen_ok sc fb \<Longrightarrow> \<not> sr_client_fastpath_output sc \<Longrightarrow> in_clear (sr_peer sc) \<Longrightarrow> unat x + tw \<le> unat (sr_width sc) \<Longrightarrow>
    unat y + height \<le> unat (sr_height sc) \<Longrightarrow>
    \<exists>p'. present_rows cr net x y tw rows height row (sc, []) = (LIBRDP_STATUS_OK, sc\<lparr>sr_peer := p'\<rparr>, []) \<and> sent_only (sr_peer sc) p'"
proof (induction "height - row" arbitrary: row sc rule: less_induct)
  case less
  show ?case
  proof (cases "row < height")
    case False
    then show ?thesis by (intro exI [of _ "sr_peer sc"]) (simp add: present_rows.simps sent_only_refl)
  next
    case True
    define th where "th = (if height - row > rows then rows else height - row)"
    have bounds: "unat (sr_width sc) < 65536" "unat (sr_height sc) < 65536" by (rule unat_bounds)+
    have th: "0 < th" "th \<le> rows" "row + th \<le> height" using True rows(1) by (auto simp: th_def)
    then have words: "unat (y + of_nat row) = unat y + row" "unat (of_nat tw :: u32) = tw" "unat (of_nat th :: u32) = th"
      using less.prems(4,5) bounds by (simp_all add: unat_word_ariths unat_of_nat_u32)
    have valid: "rect_valid sc x (y + of_nat row) (of_nat tw) (of_nat th)"
      unfolding rect_valid_nat words using less.prems(4,5) tw th by simp
    have fits: "unat (of_nat tw :: u32) * 4 * unat (of_nat th :: u32) + 40 \<le> 0x7fff"
      unfolding words using rows(2) mult_le_mono2 [OF th(2), of "tw * 4"] by linarith
    from slow_tile_sent [where net = net and cr = cr, OF net less.prems(1-3) valid fits] obtain p1 where
      tile: "rdp_server_present_tile cr net x (y + of_nat row) (of_nat tw) (of_nat th) (sc, []) = (LIBRDP_STATUS_OK, sc\<lparr>sr_peer := p1\<rparr>, [])"
      "sent_only (sr_peer sc) p1" by blast
    have "height - (row + rows) < height - row" using True rows(1) by simp
    from less.hyps [OF this, of "sc\<lparr>sr_peer := p1\<rparr>"] less.prems in_clear_sent [OF tile(2)] obtain p' where
      rest: "present_rows cr net x y tw rows height (row + rows) (sc\<lparr>sr_peer := p1\<rparr>, []) = (LIBRDP_STATUS_OK, sc\<lparr>sr_peer := p'\<rparr>, [])"
      "sent_only p1 p'" by auto
    have "present_rows cr net x y tw rows height row (sc, []) = (LIBRDP_STATUS_OK, sc\<lparr>sr_peer := p'\<rparr>, [])"
      using True rows(1) tile(1) rest(1) by (simp add: present_rows.simps [of _ _ _ _ _ _ _ row] th_def [symmetric])
    with sent_only_trans [OF tile(2) rest(2)] show ?thesis by blast
  qed
qed

lemma slow_columns_sent:
  assumes net: "\<And>d. net d = LIBRDP_STATUS_OK" and raw: "4 \<le> max_raw" "max_raw + 40 \<le> 0x7fff"
  shows "screen_ok sc fb \<Longrightarrow> \<not> sr_client_fastpath_output sc \<Longrightarrow> in_clear (sr_peer sc) \<Longrightarrow> unat x + width \<le> unat (sr_width sc) \<Longrightarrow>
    unat y + height \<le> unat (sr_height sc) \<Longrightarrow>
    \<exists>p'. present_columns cr net max_raw x y width height column (sc, []) = (LIBRDP_STATUS_OK, sc\<lparr>sr_peer := p'\<rparr>, []) \<and>
      sent_only (sr_peer sc) p'"
proof (induction "width - column" arbitrary: column sc rule: less_induct)
  case less
  have step: "0 < max_raw div 4" using raw(1) by auto
  show ?case
  proof (cases "column < width")
    case False
    then show ?thesis by (intro exI [of _ "sr_peer sc"]) (simp add: present_columns.simps sent_only_refl)
  next
    case True
    define tw where "tw = (if width - column > max_raw div 4 then max_raw div 4 else width - column)"
    define rows where "rows = max_raw div (tw * 4)"
    have tw: "0 < tw" "tw \<le> max_raw div 4" "column + tw \<le> width" using True step by (auto simp: tw_def)
    then have "tw * 4 \<le> max_raw" by linarith
    then have rows: "0 < rows" "tw * 4 * rows + 40 \<le> 0x7fff"
      using tw(1) order_trans [OF add_right_mono [OF times_div_less_eq_dividend [of "tw * 4" max_raw], of 40] raw(2)]
      unfolding rows_def div_greater_zero_iff by simp_all
    have xc: "unat (x + of_nat column) + tw \<le> unat (sr_width sc)"
      using True tw(3) less.prems(4) unat_bounds(2) [of "sr_width sc"] by (simp add: unat_word_ariths unat_of_nat_u32)
    from slow_rows_sent [where net = net and row = 0 and cr = cr, OF net tw(1) rows less.prems(1-3) xc less.prems(5)]
    obtain p1 where
      tile: "present_rows cr net (x + of_nat column) y tw rows height 0 (sc, []) = (LIBRDP_STATUS_OK, sc\<lparr>sr_peer := p1\<rparr>, [])"
      "sent_only (sr_peer sc) p1" by auto
    have "width - (column + max_raw div 4) < width - column" using True step by simp
    from less.hyps [OF this, of "sc\<lparr>sr_peer := p1\<rparr>"] less.prems in_clear_sent [OF tile(2)] obtain p' where
      rest: "present_columns cr net max_raw x y width height (column + max_raw div 4) (sc\<lparr>sr_peer := p1\<rparr>, []) =
        (LIBRDP_STATUS_OK, sc\<lparr>sr_peer := p'\<rparr>, [])" "sent_only p1 p'" by auto
    have "present_columns cr net max_raw x y width height column (sc, []) = (LIBRDP_STATUS_OK, sc\<lparr>sr_peer := p'\<rparr>, [])"
      using True step tile(1) rest(1) rows(1)
      by (simp add: present_columns.simps [of _ _ _ _ _ _ _ column] tw_def [symmetric] rows_def [symmetric] Let_def)
    with sent_only_trans [OF tile(2) rest(2)] show ?thesis by blast
  qed
qed

text \<open>A desktop presented to an active client that takes slow-path updates.\<close>

lemma slow_desktop_sent:
  assumes net: "\<And>d. net d = LIBRDP_STATUS_OK" and sc: "screen_ok sc fb" "\<not> sr_client_fastpath_output sc" "in_clear (sr_peer sc)"
    and st: "pe_state (sr_peer sc) = LIBRDP_SERVER_PEER_ACTIVE" "\<not> sr_updates_suppressed sc"
    and size: "sr_width sc \<noteq> 0" "sr_height sc \<noteq> 0"
  shows "\<exists>p'. rdp_server_surface_present_rect cr net 0 0 (ucast (sr_width sc)) (ucast (sr_height sc)) (sc, []) =
      (LIBRDP_STATUS_OK, sc\<lparr>sr_peer := p', sr_surface_repaint_pending := False,
         sr_surface_updates := rdp_server_metric_add (sr_surface_updates sc) 1,
         sr_surface_events := sr_surface_events sc @ [(0, 0, ucast (sr_width sc), ucast (sr_height sc))]\<rparr>, []) \<and>
    sent_only (sr_peer sc) p'"
proof -
  have words: "unat (ucast (v :: u16) :: u32) = unat v" for v by (rule unat_widen)
  have pos: "0 < unat (sr_width sc)" "0 < unat (sr_height sc)" using size by (simp_all add: unat_gt_0)
  have valid: "rect_valid sc 0 0 (ucast (sr_width sc)) (ucast (sr_height sc))" unfolding rect_valid_nat words using pos by simp
  have ensured: "rdp_server_surface_ensure (sc, []) = (LIBRDP_STATUS_OK, sc, [])"
    using sc(1) by (simp add: rdp_server_surface_ensure_def screen_ok_def)
  have raw: "max_raw_tile sc = Inr 32727"
    using sc(2,3) by (simp add: max_raw_tile_def rdp_server_outbound_security_overhead_def in_clear_def)
  have "\<not> (ucast v :: u32) > - 1" for v :: u16 by simp
  moreover obtain p' where "present_columns cr net 32727 0 0 (unat (sr_width sc)) (unat (sr_height sc)) 0 (sc, []) =
      (LIBRDP_STATUS_OK, sc\<lparr>sr_peer := p'\<rparr>, [])" "sent_only (sr_peer sc) p'"
    using slow_columns_sent [where net = net and cr = cr and max_raw = 32727 and column = 0 and x = 0 and y = 0, OF net _ _ sc] by auto
  ultimately show ?thesis
    using st valid raw ensured
    by (intro exI [of _ p']) (simp add: rdp_server_surface_present_rect_def rdp_server_emit_surface_event_def words Let_def)
qed

section \<open>The surface meets the contract of the activation\<close>

text \<open>
  The invariant under which the features start: a framebuffer is not empty and has the size of the desktop, and \<open>J\<close> holds of the channels and of
  the state of the other features, which the surface does not touch.
\<close>

definition session_sound :: "((u16 \<times> u16 list \<times> bool list \<times> bool) \<times> 'x \<Rightarrow> bool) \<Rightarrow> 'x server_surface_scheme desk \<Rightarrow> bool" where
  "session_sound J = (\<lambda>((width, height, framebuffer), _, channels, features).
     (framebuffer \<longrightarrow> width \<noteq> 0 \<and> height \<noteq> 0 \<and> ss_framebuffer_stride features = unat width * 4 \<and>
        length (ss_framebuffer features) = ss_framebuffer_stride features * unat height) \<and>
     J (channels, server_surface.more features))"

lemma surface_repaint_starts:
  fixes hooks :: "('c, 'k, 'n, 'x server_surface_scheme) server_hooks"
  assumes net: "\<And>d. net d = LIBRDP_STATUS_OK"
  shows "repaint_starts (session_sound J) share user (surface_hooks cr net hooks)"
  unfolding repaint_starts_def
proof (intro allI impI)
  fix q :: "('c, 'k, 'n, 'x) surface_peer"
  assume q: "activation (session_sound J) 5 share user q" and due: "repaint_due q"
  have sc: "screen_ok (screen_of q) (ss_framebuffer (sp_features q))" "\<not> sr_client_fastpath_output (screen_of q)"
    "in_clear (sr_peer (screen_of q))" "pe_state (sr_peer (screen_of q)) = LIBRDP_SERVER_PEER_ACTIVE"
    "\<not> sr_updates_suppressed (screen_of q)" "sr_width (screen_of q) \<noteq> 0" "sr_height (screen_of q) \<noteq> 0"
    using q due
    by (auto simp: activation_def session_sound_def desk_def repaint_due_def screen_of_def screen_ok_def in_clear_def)
  from slow_desktop_sent [where net = net and cr = cr, OF net this] obtain p' sc' where
    run: "rdp_server_surface_present_rect cr net 0 0 (ucast (sr_width (screen_of q))) (ucast (sr_height (screen_of q))) (screen_of q, []) =
      (LIBRDP_STATUS_OK, sc', [])" and sc': "sc' = (screen_of q)\<lparr>sr_peer := p', sr_surface_repaint_pending := False,
         sr_surface_updates := rdp_server_metric_add (sr_surface_updates (screen_of q)) 1,
         sr_surface_events := sr_surface_events (screen_of q) @ [(0, 0, ucast (sr_width (screen_of q)), ucast (sr_height (screen_of q)))]\<rparr>"
      "sent_only (sp_wire q) p'" by (auto simp: screen_of_def)
  have "hk_surface_present_rect (surface_hooks cr net hooks) 0 0 (ucast (sp_width q)) (ucast (sp_height q)) (q, []) =
      (LIBRDP_STATUS_OK, put_screen sc' q, [])"
    using run by (simp add: surface_hooks_def on_screen_def screen_of_def)
  moreover have "activation (session_sound J) 5 share user (put_screen sc' q)" "pe_input (sp_wire (put_screen sc' q)) = pe_input (sp_wire q)"
    using q due sent_only_fields [OF sc'(2)]
    by (auto simp: activation_def session_sound_def desk_def repaint_due_def put_screen_def sc'(1) screen_of_def)
  ultimately show "starts (session_sound J) 5 share user
      (hk_surface_present_rect (surface_hooks cr net hooks) 0 0 (ucast (sp_width q)) (ucast (sp_height q))) q"
    by (auto simp: starts_def)
qed

lemma surface_modules_start:
  "modules_start I share user (surface_hooks cr net hooks) = modules_start I share user hooks"
  by (simp add: modules_start_def surface_hooks_def)

text \<open>
  The start of the dynamic channels meets it as well: on an active peer whose channel for them is joined, or that has none, it succeeds
  and only records that the capabilities were sent.
\<close>

lemma short_message_sent:
  assumes net: "\<And>d. net d = LIBRDP_STATUS_OK" and w: "in_clear w" "pe_state w = LIBRDP_SERVER_PEER_ACTIVE"
    and channel: "rdp_server_static_channel_index w channel = Some j" "pe_advertised_channel_joined w ! j"
    and data: "data \<noteq> []" "length data \<le> 1600"
  obtains w' n k where "librdp_server_peer_send_channel_data cr net channel data (w, []) =
      (LIBRDP_STATUS_OK, w'\<lparr>pe_static_channel_out := n, pe_static_channel_bytes_out := k\<rparr>, [])" "sent_only w w'"
proof -
  have wf: "fragment_wf data (length data) (chunk_flags data 0)"
    using data by (simp add: fragment_wf_def UINT32_MAX_def)
  have len: "length (fragment_bytes data (length data) (chunk_flags data 0)) = length data + 8" by (simp add: fragment_bytes_def)
  obtain b where b: "rdp_virtual_channel_write_fragment data (length data) (chunk_flags data 0) (rdp_buffer_init, []) = (LIBRDP_STATUS_OK, b, [])"
    "contents b = fragment_bytes data (length data) (chunk_flags data 0)" "buf_length b = length data + 8"
    by (rule emits_fresh [OF emits_fragment [OF wf]]) (use len data in auto)
  have "length (contents b) \<le> 0x7fff" using b(2) len data by simp
  from indication_sent [where net = net and channel = channel, OF net w(1) this] obtain mcs w' where
    mcs: "rdp_mcs_write_send_data_indication (pe_user_id w) channel (contents b) (rdp_buffer_init, []) = (LIBRDP_STATUS_OK, mcs, [])"
    "rdp_server_send_mcs_pdu net mcs (w, []) = (LIBRDP_STATUS_OK, w', [])" "sent_only w w'" by metis
  have "send_fragments (rdp_server_send_static_channel_fragment cr net channel) data 0 (w, []) = (LIBRDP_STATUS_OK, w', [])"
    using data b mcs w(1)
    by (simp add: send_fragments.simps [of _ data 0] chunk_size_def RDP_SERVER_STATIC_CHANNEL_CHUNK_SIZE_def
        rdp_server_send_static_channel_fragment_def rdp_server_outbound_security_overhead_def
        rdp_server_prepare_outbound_security_payload_def in_clear_def)
  then show ?thesis
    using that [OF _ mcs(3)] w(2) channel data(2) by (simp add: librdp_server_peer_send_channel_data_def RDP_SERVER_STATIC_MESSAGE_MAX_def)
qed

lemma dynamic_channels_start:
  fixes q :: "('c, 'k, 'n, 'x) dvc_peer"
  assumes net: "net_ok env" and q: "activation I 5 share user q"
    and joined: "rdp_server_dynamic_static_channel_id q = 0 \<or>
      (\<exists>j. rdp_server_static_channel_index (sp_wire q) (rdp_server_dynamic_static_channel_id q) = Some j \<and>
         pe_advertised_channel_joined (sp_wire q) ! j)"
    and I: "I (desk (on_dvc (\<lambda>d. d\<lparr>dv_capabilities_sent := True\<rparr>) q))"
  shows "starts I 5 share user (\<lambda>s. case rdp_server_dynamic_channels_start env s of (r, s') \<Rightarrow> (status_of r, s')) q"
proof (cases "rdp_server_dynamic_static_channel_id q = 0 \<or> dv_capabilities_sent (sp_features q) \<or> dv_ready (sp_features q) \<or>
    dv_version (sp_features q) \<noteq> 0")
  case True
  then have "rdp_server_dynamic_channels_start env (q, []) = (Inr (), q, [])"
    using q by (auto simp: rdp_server_dynamic_channels_start_def run_rules activation_def)
  then show ?thesis using q by (simp add: starts_def status_of_def)
next
  case False
  let ?id = "rdp_server_dynamic_static_channel_id q"
  have emits: "emits (rdp_dynamic_channel_write_capabilities_request 3 [936, 3276, 9362, 21845])
      (0x50 # 0 # u16_le_bytes 3 @ concat (map u16_le_bytes [936, 3276, 9362, 21845]))"
    by (auto simp: rdp_dynamic_channel_write_capabilities_request_def intro!: emits_rules)
  obtain b where b: "rdp_dynamic_channel_write_capabilities_request 3 [936, 3276, 9362, 21845] (rdp_buffer_init, []) =
      (LIBRDP_STATUS_OK, b, [])" "contents b \<noteq> []" "length (contents b) \<le> 1600"
    by (rule emits_fresh [OF emits]) auto
  have clear: "in_clear (sp_wire q)" "sp_state q = LIBRDP_SERVER_PEER_ACTIVE" using q by (auto simp: activation_def in_clear_def)
  from joined False obtain j where j: "rdp_server_static_channel_index (sp_wire q) ?id = Some j" "pe_advertised_channel_joined (sp_wire q) ! j"
    by auto
  have nets: "\<And>d. env_net env d = LIBRDP_STATUS_OK" using net by (simp add: net_ok_def)
  obtain w' n k where sent: "librdp_server_peer_send_channel_data (env_crypto env) (env_net env) ?id (contents b) (sp_wire q, []) =
      (LIBRDP_STATUS_OK, w'\<lparr>pe_static_channel_out := n, pe_static_channel_bytes_out := k\<rparr>, [])" "sent_only (sp_wire q) w'"
    by (rule short_message_sent [where net = "env_net env", OF nets clear j b(2,3)])
  let ?q = "on_dvc (\<lambda>d. d\<lparr>dv_capabilities_sent := True\<rparr>) (q\<lparr>sp_wire := w'\<lparr>pe_static_channel_out := n, pe_static_channel_bytes_out := k\<rparr>\<rparr>)"
  have "rdp_server_dynamic_channels_start env (q, []) = (Inr (), ?q, [])"
    using False clear(2) b(1) sent(1)
    by (simp add: rdp_server_dynamic_channels_start_def rdp_server_send_dynamic_packet_def run_rules awrite_def on_wire_def Let_def)
  moreover have "activation I 5 share user ?q" "pe_input (sp_wire ?q) = pe_input (sp_wire q)"
    using q I sent_only_fields [OF sent(2)] by (simp_all add: activation_def on_dvc_def desk_def)
  ultimately show ?thesis by (simp add: starts_def status_of_def)
qed

section \<open>Both ends\<close>

text \<open>
  C2. The activation sequence completes. A server in activation (TLS or NLA was selected, so the slow path is in
  the clear inside TLS) writes its Demand Active for the share; a connected client, whose limits admit the desktop,
  answers and becomes active, and the frames of its answer, one run of the
  server's state machine for each, bring the server through Confirm Active, Synchronize, Cooperate, Request
  Control, the persistent keys and Font List to the active state with the same share. A repaint pending then is
  presented by the surface's code. Assumed: the network takes every frame and memory does not run out; starting the dynamic channels,
  device redirection and the network measurement succeeds on an active peer under an invariant of theirs that
  holds at the beginning and that they keep (modules_start); and the clipboard handshake, if the client has a clipboard channel,
  succeeds and only adds frames behind the answer (clipboard_answers).
\<close>

theorem activation_completes:
  fixes hooks :: "('c, 'k, 'n, 'x server_surface_scheme) server_hooks"
  assumes "net_ok env" "client_net_ok cenv" "modules_start (session_sound J) share user hooks" "clipboard_answers cenv user"
    and server: "activation (session_sound J) 0 share user p" "drained p"
    and client: "client_ready user s" "desktop_accepted w h s"
    and name: "c_string name \<noteq> []" "length (c_string name) + 329 \<le> 0xffff"
  shows "\<exists>demand s' frames clip p'.
    rdp_slowpath_write_demand_active share RDP_MCS_SERVER_CHANNEL_ID w h name (rdp_buffer_init, []) = (LIBRDP_STATUS_OK, demand, []) \<and>
    rdp_session_handle_demand_active cenv (contents demand) (s, []) = (Inr (), s', []) \<and>
    se_sent (ca_wire s') = se_sent (ca_wire s) @ frames @ clip \<and>
    (se_clipboard_channel_id (ca_wire s) = 0 \<or> ca_reactivating s \<longrightarrow> clip = []) \<and>
    run_frames env (surface_hooks (env_crypto env) (env_net env) hooks) frames (p, []) = (Inr (), p', []) \<and>
    ca_state s' = LIBRDP_SESSION_ACTIVE \<and> sp_state p' = LIBRDP_SERVER_PEER_ACTIVE \<and> sp_share_id p' = ca_share_id s'"
proof -
  have wh: "w \<noteq> 0" "h \<noteq> 0" using client(2) by (auto simp: desktop_accepted_def)
  obtain demand where demand: "rdp_slowpath_write_demand_active share RDP_MCS_SERVER_CHANNEL_ID w h name (rdp_buffer_init, []) =
      (LIBRDP_STATUS_OK, demand, [])" "contents demand = demand_pdu share RDP_MCS_SERVER_CHANNEL_ID w h (c_string name)"
    by (rule emits_fresh [OF emits_demand_active [OF wh name]]) (use name(2) in auto)
  let ?frames = "map (\<lambda>pdu. tpkt_frame (request_payload user pdu)) (answer_pdus share user w h)"
  obtain s' clip where s': "rdp_session_handle_demand_active cenv (contents demand) (s, []) = (Inr (), s', [])"
    "ca_state s' = LIBRDP_SESSION_ACTIVE" "ca_share_id s' = share" "se_sent (ca_wire s') = se_sent (ca_wire s) @ ?frames @ clip"
    "se_clipboard_channel_id (ca_wire s) = 0 \<or> ca_reactivating s \<longrightarrow> clip = []"
    unfolding demand(2) by (rule client_activates [OF assms(2) client assms(4) name])
  have features: "features_start (session_sound J) share user (surface_hooks (env_crypto env) (env_net env) hooks)"
    using assms(1,3) surface_repaint_starts [where net = "env_net env"] by (simp add: surface_modules_start net_ok_def)
  obtain p' where "run_frames env (surface_hooks (env_crypto env) (env_net env) hooks) ?frames (p, []) = (Inr (), p', [])"
      "activation (session_sound J) 6 share user p'"
    using frames_activate [OF answer_activates [OF assms(1) features] server] by auto
  then show ?thesis using demand(1) s' by (auto simp: activation_def)
qed

text \<open>A server whose application has drawn before the activation, and a client with a clipboard channel.\<close>

definition repainting_peer :: "(unit, unit, unit, unit) surface_peer" where
  "repainting_peer = (let p = rdp_server_set_state LIBRDP_SERVER_PEER_ACTIVATING (accepted_peer tls_config 1024 768 ()
       \<lparr>ss_framebuffer = replicate 3145728 7, ss_framebuffer_stride = 4096, ss_surface_updates = 0, ss_surface_events = []\<rparr>)
     in p\<lparr>sp_wire := (sp_wire p)\<lparr>pe_user_id := 1002\<rparr>, sp_selected_protocol := RDP_X224_PROTOCOL_TLS, sp_tls_active := True,
       sp_framebuffer := True, sp_surface_repaint_pending := True\<rparr>)"

definition clipboard_client :: "(unit, unit) client_session" where
  "clipboard_client = connected_client\<lparr>ca_wire := (ca_wire connected_client)\<lparr>se_clipboard_channel_id := 1005\<rparr>\<rparr>"

theorem activation_completes_witness:
  "\<exists>demand s' frames clip p'.
    rdp_slowpath_write_demand_active 0x10001 RDP_MCS_SERVER_CHANNEL_ID 1024 768 (ascii ''librdp'') (rdp_buffer_init, []) =
      (LIBRDP_STATUS_OK, demand, []) \<and>
    rdp_session_handle_demand_active sample_client_env (contents demand) (clipboard_client, []) = (Inr (), s', []) \<and>
    se_sent (ca_wire s') = frames @ clip \<and>
    run_frames (sample_env []) (surface_hooks sample_crypto (\<lambda>_. LIBRDP_STATUS_OK) silent_hooks) frames (repainting_peer, []) =
      (Inr (), p', []) \<and>
    ca_state s' = LIBRDP_SESSION_ACTIVE \<and> sp_state p' = LIBRDP_SERVER_PEER_ACTIVE"
proof -
  have six: "activation I 5 share user q \<Longrightarrow> activation I 6 share user q" for I share user and q :: "(unit, unit, unit, unit) surface_peer"
    by (simp add: activation_def)
  have env: "net_ok (sample_env [])" "client_net_ok sample_client_env" "clipboard_answers sample_client_env 1002"
    "modules_start (session_sound (\<lambda>_. True)) 0x10001 1002 (silent_hooks :: (unit, unit, unit, server_surface) server_hooks)"
    using six
    by (auto simp: net_ok_def client_net_ok_def sample_env_def sample_client_env_def clipboard_answers_def modules_start_def
        starts_def silent_hooks_def)
  have server: "activation (session_sound (\<lambda>_. True)) 0 0x10001 1002 repainting_peer" "drained repainting_peer"
    by (simp_all add: activation_def desk_def session_sound_def drained_def repainting_peer_def accepted_peer_def accepted_wire_def
        rdp_server_set_state_def buf_ok_init contents_init RDP_MCS_BASE_CHANNEL_ID_def RDP_MCS_GLOBAL_CHANNEL_ID_def
        RDP_X224_PROTOCOL_TLS_def RDP_X224_PROTOCOL_STANDARD_def Let_def)
  have client: "client_ready 1002 clipboard_client" "desktop_accepted 1024 768 clipboard_client" "se_sent (ca_wire clipboard_client) = []"
    by (simp_all add: clipboard_client_def client_ready_def desktop_accepted_def connected_client_def sample_session_def two_by_two_def
        surface_zero_def RDP_MCS_BASE_CHANNEL_ID_def)
  have crypto: "env_crypto (sample_env []) = sample_crypto" "env_net (sample_env []) = (\<lambda>_. LIBRDP_STATUS_OK)"
    by (simp_all add: sample_env_def)
  show ?thesis
    using activation_completes [OF env(1,2,4,3) server client(1,2), of "ascii ''librdp''"] client(3) unfolding crypto by auto
qed

end
