(* ===== verification/Dynamic_Client.thy ===== *)
theory Dynamic_Client
  imports Dynamic_Channel Session_Wire Actions
begin

text \<open>
  Dynamic virtual channels in the client: the table of channels with its handles and the operations of the application,
  \<^verbatim>\<open>src/src/client/session_channels.c\<close>, sending, \<^verbatim>\<open>src/src/client/session_protocol_io.c\<close>, and the control stream,
  \<^verbatim>\<open>rdp_session_handle_dynamic_channel\<close> of \<^verbatim>\<open>src/src/client/session.c\<close>.

  The channels that the library serves itself are modules behind \<open>client_dvc_hooks\<close>, as are the settings and the decoder of
  compressed data. Every message given to \<^verbatim>\<open>rdp_session_handle_dynamic_channel_message\<close> is noted in \<open>dn_messages\<close>.
\<close>

section \<open>The table\<close>

record 'd rdp_session_dynamic_channel =
  cd_channel_id :: u32
  cd_generation :: u32
  cd_channel_id_bytes :: u8
  cd_priority :: u8
  cd_active :: bool
  cd_opening :: bool
  cd_client_initiated :: bool
  cd_fragmenting :: bool
  cd_fragment_expected :: u32
  cd_fragment :: rdp_buffer
  cd_decompressor :: 'd
  cd_name :: "u8 list"

datatype dvc_event = Channel_Open u32 "u8 list" | Channel_Data u32 "u8 list" "u8 list" | Channel_Close u32 "u8 list"

record ('c, 'd, 'x) dvc_session =
  dn_session :: "'c librdp_session"
  dn_connected :: bool
  dn_channels :: "'d rdp_session_dynamic_channel list"
  dn_dynamic_channel_count :: u32
  dn_dynamic_channel_message_bytes :: u32
  dn_next_dynamic_channel_id :: u32
  dn_limits_rejected :: u64
  dn_multitransport_udp_active :: bool
  dn_soft_sync_count :: u32
  dn_udp_reliable_selected :: bool
  dn_udp_lossy_selected :: bool
  dn_soft_syncs :: u64
  dn_events :: "dvc_event list"
  dn_messages :: "(u32 \<times> u8 list) list"
  dn_features :: 'x

type_synonym ('c, 'd, 'x, 'a) dvc_client = "(('c, 'd, 'x) dvc_session, 'a) action"

text \<open>
  \<open>fk_feature_ready\<close> is \<^verbatim>\<open>librdp_settings_get_feature_status\<close> with the feature requested and its backend ready; \<open>fk_udp_ready\<close> the
  test for side transports; \<open>fk_message\<close>, \<open>fk_created\<close> and \<open>fk_closed\<close> the branches of the channels that the library serves.
\<close>

record ('c, 'd, 'x) client_dvc_hooks =
  fk_crypto :: "'c crypto"
  fk_net :: network
  fk_decompressor_zero :: 'd
  fk_decompressor_init :: 'd
  fk_decode_segmented_data :: "u8 list \<Rightarrow> 'd \<Rightarrow> u8 list result \<times> 'd"
  fk_feature_enabled :: "'x \<Rightarrow> u32 \<Rightarrow> bool"
  fk_feature_ready :: "'x \<Rightarrow> u32 \<Rightarrow> bool"
  fk_credssp_security_ready :: "'x \<Rightarrow> bool"
  fk_udp_ready :: "'x \<Rightarrow> bool"
  fk_message :: "u8 list \<Rightarrow> u32 \<Rightarrow> u8 list \<Rightarrow> ('c librdp_session \<times> 'x) \<times> mem \<Rightarrow> librdp_status \<times> ('c librdp_session \<times> 'x) \<times> mem"
  fk_created :: "rdp_dynamic_channel_create_request \<Rightarrow> ('c librdp_session \<times> 'x) \<times> mem \<Rightarrow>
    librdp_status \<times> ('c librdp_session \<times> 'x) \<times> mem"
  fk_closed :: "u32 \<Rightarrow> 'x \<Rightarrow> 'x"

definition RDP_SESSION_MAX_DYNAMIC_CHANNELS :: nat where "RDP_SESSION_MAX_DYNAMIC_CHANNELS = 64"
definition RDP_SESSION_DYNAMIC_CHANNEL_NAME_MAX :: nat where "RDP_SESSION_DYNAMIC_CHANNEL_NAME_MAX = 96"
definition LIBRDP_CHANNEL_NAME_MAX :: nat where "LIBRDP_CHANNEL_NAME_MAX = 63"

text \<open>A wire function of the session, a call of a module, and a change of one entry.\<close>

definition on_session ::
    "('c librdp_session \<times> mem \<Rightarrow> librdp_status \<times> 'c librdp_session \<times> mem) \<Rightarrow> ('c, 'd, 'x, unit) dvc_client" where
  "on_session f = acall (\<lambda>(s, m). case f (dn_session s, m) of (status, w, m) \<Rightarrow> (status, s\<lparr>dn_session := w\<rparr>, m))"

definition on_module ::
    "(('c librdp_session \<times> 'x) \<times> mem \<Rightarrow> librdp_status \<times> ('c librdp_session \<times> 'x) \<times> mem) \<Rightarrow> ('c, 'd, 'x, unit) dvc_client" where
  "on_module f = acall (\<lambda>(s, m). case f ((dn_session s, dn_features s), m) of
     (status, (w, x), m) \<Rightarrow> (status, s\<lparr>dn_session := w, dn_features := x\<rparr>, m))"

definition set_entry ::
    "nat \<Rightarrow> ('d rdp_session_dynamic_channel \<Rightarrow> 'd rdp_session_dynamic_channel) \<Rightarrow> ('c, 'd, 'x) dvc_session \<Rightarrow> ('c, 'd, 'x) dvc_session" where
  "set_entry i f s = s\<lparr>dn_channels := (dn_channels s)[i := f (dn_channels s ! i)]\<rparr>"

definition emit_event :: "dvc_event \<Rightarrow> ('c, 'd, 'x) dvc_session \<Rightarrow> ('c, 'd, 'x) dvc_session" where
  "emit_event e s = s\<lparr>dn_events := dn_events s @ [e]\<rparr>"

definition client_limit_rejected :: "('c, 'd, 'x, 'a) dvc_client" where
  "client_limit_rejected =
     athen (amodify (\<lambda>s. s\<lparr>dn_limits_rejected := rdp_session_metric_add (dn_limits_rejected s) 1\<rparr>)) (afail LIBRDP_STATUS_LIMIT_EXCEEDED)"

definition find_entry :: "('d rdp_session_dynamic_channel \<Rightarrow> bool) \<Rightarrow> nat \<Rightarrow> 'd rdp_session_dynamic_channel list \<Rightarrow> nat option" where
  "find_entry P n channels = find (\<lambda>i. P (channels ! i)) [0..<n]"

definition taken :: "'d rdp_session_dynamic_channel \<Rightarrow> bool" where
  "taken entry \<longleftrightarrow> cd_active entry \<or> cd_opening entry"

definition rdp_session_dynamic_channel_find :: "('c, 'd, 'x) dvc_session \<Rightarrow> u32 \<Rightarrow> nat option" where
  "rdp_session_dynamic_channel_find s channel_id =
     find_entry (\<lambda>entry. cd_active entry \<and> cd_channel_id entry = channel_id) RDP_SESSION_MAX_DYNAMIC_CHANNELS (dn_channels s)"

definition rdp_session_dynamic_channel_find_any :: "('c, 'd, 'x) dvc_session \<Rightarrow> u32 \<Rightarrow> nat option" where
  "rdp_session_dynamic_channel_find_any s channel_id =
     find_entry (\<lambda>entry. taken entry \<and> cd_channel_id entry = channel_id) RDP_SESSION_MAX_DYNAMIC_CHANNELS (dn_channels s)"

definition rdp_session_dynamic_channel_find_opening :: "('c, 'd, 'x) dvc_session \<Rightarrow> u32 \<Rightarrow> nat option" where
  "rdp_session_dynamic_channel_find_opening s channel_id =
     (case rdp_session_dynamic_channel_find_any s channel_id of
        None \<Rightarrow> None
      | Some i \<Rightarrow> if cd_opening (dn_channels s ! i) \<and> cd_client_initiated (dn_channels s ! i) then Some i else None)"

text \<open>A handle is the number of the slot, from one, above the generation of the slot.\<close>

definition rdp_session_dynamic_channel_handle :: "('c, 'd, 'x) dvc_session \<Rightarrow> nat \<Rightarrow> u64" where
  "rdp_session_dynamic_channel_handle s slot =
     (if slot \<ge> RDP_SESSION_MAX_DYNAMIC_CHANNELS \<or> cd_generation (dn_channels s ! slot) = 0 then 0
      else push_bit 32 (of_nat slot + 1) OR ucast (cd_generation (dn_channels s ! slot)))"

definition rdp_session_dynamic_channel_from_handle :: "('c, 'd, 'x) dvc_session \<Rightarrow> u64 \<Rightarrow> nat option" where
  "rdp_session_dynamic_channel_from_handle s handle =
     (let slot = unat (drop_bit 32 handle AND 0xffffffff);
          generation = ucast (handle AND 0xffffffff) :: u32
      in
      if handle = 0 then None
      else if slot = 0 \<or> slot > RDP_SESSION_MAX_DYNAMIC_CHANNELS \<or> generation = 0 then None
      else
        let entry = dn_channels s ! (slot - 1) in
        if \<not> cd_active entry \<and> \<not> cd_opening entry \<or> cd_generation entry \<noteq> generation then None
        else Some (slot - 1))"

definition rdp_session_dynamic_channel_name_public_valid :: "u8 list \<Rightarrow> bool" where
  "rdp_session_dynamic_channel_name_public_valid name \<longleftrightarrow>
     c_string name \<noteq> [] \<and> length (c_string name) \<le> LIBRDP_CHANNEL_NAME_MAX \<and>
     list_all (\<lambda>ch. 0x21 \<le> ch \<and> ch \<le> 0x7e) (c_string name)"

definition rdp_session_dynamic_channel_free_slot :: "('c, 'd, 'x) dvc_session \<Rightarrow> nat option" where
  "rdp_session_dynamic_channel_free_slot s =
     find_entry (\<lambda>entry. \<not> cd_active entry \<and> \<not> cd_opening entry) (unat (dn_dynamic_channel_count s)) (dn_channels s)"

fun allocate_id :: "('c, 'd, 'x) dvc_session \<Rightarrow> nat \<Rightarrow> u32 \<Rightarrow> u32 option" where
  "allocate_id s 0 candidate = None"
| "allocate_id s (Suc attempts) candidate =
     (let candidate = (if candidate = 0 then 1 else candidate) in
      if rdp_session_dynamic_channel_find_any s candidate = None then Some candidate
      else allocate_id s attempts (candidate + 1))"

definition rdp_session_dynamic_channel_allocate_id :: "('c, 'd, 'x, u32) dvc_client" where
  "rdp_session_dynamic_channel_allocate_id =
     abind (aget (\<lambda>s. allocate_id s (RDP_SESSION_MAX_DYNAMIC_CHANNELS + 1)
       (if dn_next_dynamic_channel_id s = 0 then 1 else dn_next_dynamic_channel_id s))) (\<lambda>found.
     case found of
       None \<Rightarrow> client_limit_rejected
     | Some candidate \<Rightarrow>
         abind (amodify (\<lambda>s. s\<lparr>dn_next_dynamic_channel_id := if candidate + 1 = 0 then 1 else candidate + 1\<rparr>)) (\<lambda>_.
         aret candidate))"

definition rdp_session_dynamic_channel_clear_entry ::
    "('c, 'd, 'x) client_dvc_hooks \<Rightarrow> 'd rdp_session_dynamic_channel \<Rightarrow> 'd rdp_session_dynamic_channel" where
  "rdp_session_dynamic_channel_clear_entry hooks entry =
     \<lparr>cd_channel_id = 0, cd_generation = (if cd_generation entry + 1 = 0 then 1 else cd_generation entry + 1),
      cd_channel_id_bytes = 0, cd_priority = 0, cd_active = False, cd_opening = False, cd_client_initiated = False,
      cd_fragmenting = False, cd_fragment_expected = 0, cd_fragment = rdp_buffer_init,
      cd_decompressor = fk_decompressor_zero hooks, cd_name = []\<rparr>"

definition rdp_session_dynamic_channel_add ::
    "('c, 'd, 'x) client_dvc_hooks \<Rightarrow> rdp_dynamic_channel_create_request \<Rightarrow> ('c, 'd, 'x, unit) dvc_client" where
  "rdp_session_dynamic_channel_add hooks request =
     abind (aget id) (\<lambda>s.
     if rdp_session_dynamic_channel_find_any s (dq_channel_id request) \<noteq> None then afail LIBRDP_STATUS_PROTOCOL_ERROR
     else
       (case rdp_session_dynamic_channel_free_slot s of
          None \<Rightarrow> client_limit_rejected
        | Some i \<Rightarrow> amodify (set_entry i (\<lambda>entry. (rdp_session_dynamic_channel_clear_entry hooks entry)
            \<lparr>cd_decompressor := fk_decompressor_init hooks, cd_channel_id := dq_channel_id request,
             cd_channel_id_bytes := dq_channel_id_bytes request,
             cd_priority := if dq_priority request \<le> 2 then dq_priority request else 0, cd_active := True,
             cd_name := take (RDP_SESSION_DYNAMIC_CHANNEL_NAME_MAX - 1) (dq_name request)\<rparr>))))"

definition rdp_session_dynamic_channel_add_opening ::
    "('c, 'd, 'x) client_dvc_hooks \<Rightarrow> u32 \<Rightarrow> u8 \<Rightarrow> u8 \<Rightarrow> u8 list \<Rightarrow> ('c, 'd, 'x, u64) dvc_client" where
  "rdp_session_dynamic_channel_add_opening hooks channel_id channel_id_bytes priority name =
     (if name = [] then afail LIBRDP_STATUS_INVALID_ARGUMENT
      else
        abind (aget id) (\<lambda>s.
        if rdp_session_dynamic_channel_find_any s channel_id \<noteq> None then afail LIBRDP_STATUS_STATE
        else
          (case rdp_session_dynamic_channel_free_slot s of
             None \<Rightarrow> client_limit_rejected
           | Some i \<Rightarrow>
               athen (amodify (set_entry i (\<lambda>entry. (rdp_session_dynamic_channel_clear_entry hooks entry)
                 \<lparr>cd_decompressor := fk_decompressor_init hooks, cd_channel_id := channel_id,
                  cd_channel_id_bytes := channel_id_bytes, cd_priority := priority, cd_opening := True, cd_client_initiated := True,
                  cd_name := take (RDP_SESSION_DYNAMIC_CHANNEL_NAME_MAX - 1) name\<rparr>)))
               (abind (aget (\<lambda>s. rdp_session_dynamic_channel_handle s i)) (\<lambda>handle.
                if handle \<noteq> 0 then aret handle else afail LIBRDP_STATUS_STATE)))))"

text \<open>The channels of the library, and the features that serve them.\<close>

definition rdp_session_dynamic_channel_is_internal_name :: "u8 list \<Rightarrow> bool" where
  "rdp_session_dynamic_channel_is_internal_name name \<longleftrightarrow> name \<in> set
     [RDP_ECHO_CHANNEL_NAME, RDP_DISPLAY_CONTROL_CHANNEL_NAME, RDP_CORE_INPUT_CHANNEL_NAME, RDP_INPUT_CHANNEL_NAME,
      RDP_GRAPHICS_PIPELINE_CHANNEL_NAME, RDP_MOUSE_CURSOR_CHANNEL_NAME, RDP_AUTH_REDIRECTION_CHANNEL_NAME,
      RDP_WEBAUTHN_CHANNEL_NAME, RDP_USB_REDIRECTION_CHANNEL_NAME, RDP_TELEMETRY_DVC_CHANNEL_NAME, RDP_COMPOSITED_CHANNEL_NAME,
      RDP_GEOMETRY_TRACKING_CHANNEL_NAME, RDP_VIDEO_REDIRECTION_CHANNEL_NAME, RDP_VIDEO_OPTIMIZED_CONTROL_CHANNEL,
      RDP_VIDEO_OPTIMIZED_DATA_CHANNEL, RDP_VIDEO_CAPTURE_CONTROL_CHANNEL_NAME, RDP_VIDEO_CAPTURE_CHANNEL_NAME,
      RDP_AUDIO_INPUT_CHANNEL_NAME]"

definition rdp_session_dynamic_channel_optional_feature :: "u8 list \<Rightarrow> u32 option" where
  "rdp_session_dynamic_channel_optional_feature name =
     (if name = RDP_ECHO_CHANNEL_NAME then Some 0x00000400
      else if name = RDP_WEBAUTHN_CHANNEL_NAME then Some 0x00000080
      else if name = RDP_USB_REDIRECTION_CHANNEL_NAME then Some 0x00000020
      else if name = RDP_DISPLAY_CONTROL_CHANNEL_NAME then Some 0x00004000
      else if name = RDP_COMPOSITED_CHANNEL_NAME then Some 0x00000200
      else if name = RDP_GEOMETRY_TRACKING_CHANNEL_NAME then Some 0x00020000
      else if name \<in> {RDP_VIDEO_REDIRECTION_CHANNEL_NAME, RDP_VIDEO_OPTIMIZED_CONTROL_CHANNEL, RDP_VIDEO_OPTIMIZED_DATA_CHANNEL}
      then Some 0x00000004
      else if name \<in> {RDP_VIDEO_CAPTURE_CONTROL_CHANNEL_NAME, RDP_VIDEO_CAPTURE_CHANNEL_NAME} then Some 0x00000008
      else if name = RDP_AUDIO_INPUT_CHANNEL_NAME then Some 0x00000002
      else if name = RDP_TELEMETRY_DVC_CHANNEL_NAME then Some 0x00000800
      else None)"

definition rdp_session_dynamic_channel_create_status ::
    "('c, 'd, 'x) client_dvc_hooks \<Rightarrow> 'x \<Rightarrow> rdp_dynamic_channel_create_request \<Rightarrow> u32" where
  "rdp_session_dynamic_channel_create_status hooks x request =
     (if dq_name request = RDP_AUTH_REDIRECTION_CHANNEL_NAME \<and> \<not> fk_credssp_security_ready hooks x then 0xc00000bb
      else
        (case rdp_session_dynamic_channel_optional_feature (dq_name request) of
           None \<Rightarrow> 0
         | Some feature \<Rightarrow> if fk_feature_ready hooks x feature then 0 else 0xc00000bb))"

section \<open>Sending\<close>

definition rdp_session_dynamic_channel_header_size :: "u8 \<Rightarrow> nat" where
  "rdp_session_dynamic_channel_header_size channel_id_bytes = 1 + unat channel_id_bytes"

definition rdp_session_dynamic_length_bytes :: "nat \<Rightarrow> nat" where
  "rdp_session_dynamic_length_bytes len = (if len \<le> 0xff then 1 else if len \<le> 0xffff then 2 else 4)"

definition write_dynamic :: "('c, 'd, 'x) client_dvc_hooks \<Rightarrow> rdp_buffer \<Rightarrow> ('c, 'd, 'x, unit) dvc_client" where
  "write_dynamic hooks packet = abind (aget (\<lambda>s. se_dynamic_channel_id (dn_session s))) (\<lambda>channel_id.
     on_session (rdp_session_write_channel_pdu (fk_crypto hooks) (fk_net hooks) channel_id packet))"

text \<open>A writer on the buffer of the packet before, which is emptied.\<close>

definition rewrite :: "rdp_buffer \<Rightarrow> writer \<Rightarrow> ('p, rdp_buffer) action" where
  "rewrite b w = (\<lambda>(s, m). case w (buf_truncate 0 b, m) of
     (status, b, m) \<Rightarrow> (if status = LIBRDP_STATUS_OK then Inr b else Inl status, s, m))"

function client_send_rest ::
    "('c, 'd, 'x) client_dvc_hooks \<Rightarrow> u32 \<Rightarrow> u8 \<Rightarrow> u8 \<Rightarrow> nat \<Rightarrow> rdp_buffer \<Rightarrow> u8 list \<Rightarrow> ('c, 'd, 'x, unit) dvc_client" where
  "client_send_rest hooks channel_id channel_id_bytes priority capacity response rest =
     (if rest = [] \<or> capacity = 0 then aret ()
      else
        abind (rewrite response (rdp_dynamic_channel_write_data_ex channel_id channel_id_bytes priority (take capacity rest)))
          (\<lambda>response.
        athen (write_dynamic hooks response)
          (client_send_rest hooks channel_id channel_id_bytes priority capacity response (drop capacity rest))))"
  by pat_completeness auto
termination
  by (relation "measure (\<lambda>(hooks, i, n, pr, capacity, response, rest). length rest)") auto

declare client_send_rest.simps [simp del]

definition rdp_session_send_dynamic_channel_data_priority ::
    "('c, 'd, 'x) client_dvc_hooks \<Rightarrow> u32 \<Rightarrow> u8 \<Rightarrow> u8 \<Rightarrow> u8 list \<Rightarrow> ('c, 'd, 'x, unit) dvc_client" where
  "rdp_session_send_dynamic_channel_data_priority hooks channel_id channel_id_bytes priority data =
     (let header_size = rdp_session_dynamic_channel_header_size channel_id_bytes;
          capacity = RDP_DYNAMIC_CHANNEL_MAX_PDU_SIZE - header_size;
          chunk_max = capacity - rdp_session_dynamic_length_bytes (length data);
          chunk = (if length data < chunk_max then length data else chunk_max)
      in
      abind (aget (\<lambda>s. se_dynamic_channel_id (dn_session s))) (\<lambda>drdynvc.
      if drdynvc = 0 \<or> length data > UINT32_MAX \<or> header_size \<ge> RDP_DYNAMIC_CHANNEL_MAX_PDU_SIZE
      then afail LIBRDP_STATUS_INVALID_ARGUMENT
      else if length data \<le> capacity then
        abind (awrite (rdp_dynamic_channel_write_data_ex channel_id channel_id_bytes priority data)) (write_dynamic hooks)
      else if chunk_max = 0 then afail LIBRDP_STATUS_INVALID_ARGUMENT
      else
        abind (awrite (rdp_dynamic_channel_write_data_first_ex channel_id channel_id_bytes priority (of_nat (length data))
          (take chunk data))) (\<lambda>response.
        athen (write_dynamic hooks response)
          (client_send_rest hooks channel_id channel_id_bytes priority capacity response (drop chunk data)))))"

definition rdp_session_send_dynamic_channel_data ::
    "('c, 'd, 'x) client_dvc_hooks \<Rightarrow> u32 \<Rightarrow> u8 \<Rightarrow> u8 list \<Rightarrow> ('c, 'd, 'x, unit) dvc_client" where
  "rdp_session_send_dynamic_channel_data hooks channel_id channel_id_bytes data =
     rdp_session_send_dynamic_channel_data_priority hooks channel_id channel_id_bytes 0 data"

section \<open>Operations of the application\<close>

definition ready_for_channels :: "('c, 'd, 'x) dvc_session \<Rightarrow> bool" where
  "ready_for_channels s \<longleftrightarrow> dn_connected s \<and> se_dynamic_channel_id (dn_session s) \<noteq> 0"

definition rdp_session_require_user_channel :: "u32 \<Rightarrow> ('c, 'd, 'x, nat) dvc_client" where
  "rdp_session_require_user_channel channel_id =
     (if channel_id = 0 then afail LIBRDP_STATUS_INVALID_ARGUMENT
      else
        abind (aget id) (\<lambda>s.
        if \<not> ready_for_channels s then afail LIBRDP_STATUS_STATE
        else
          (case rdp_session_dynamic_channel_find s channel_id of
             None \<Rightarrow> afail LIBRDP_STATUS_STATE
           | Some i \<Rightarrow>
               if rdp_session_dynamic_channel_is_internal_name (cd_name (dn_channels s ! i)) then afail LIBRDP_STATUS_UNSUPPORTED
               else aret i)))"

definition librdp_session_channel_open ::
    "('c, 'd, 'x) client_dvc_hooks \<Rightarrow> u8 list \<Rightarrow> u8 \<Rightarrow> ('c, 'd, 'x, u64) dvc_client" where
  "librdp_session_channel_open hooks name priority =
     (if \<not> rdp_session_dynamic_channel_name_public_valid name \<or> priority > 3 \<or>
        rdp_session_dynamic_channel_is_internal_name (c_string name)
      then afail LIBRDP_STATUS_INVALID_ARGUMENT
      else
        abind (aget ready_for_channels) (\<lambda>ready.
        if \<not> ready then afail LIBRDP_STATUS_STATE
        else
          abind rdp_session_dynamic_channel_allocate_id (\<lambda>channel_id.
          let channel_id_bytes = rdp_dynamic_channel_select_channel_id_bytes channel_id in
          on_error (\<lambda>_ s. case rdp_session_dynamic_channel_find_opening s channel_id of
              None \<Rightarrow> s
            | Some i \<Rightarrow> set_entry i (rdp_session_dynamic_channel_clear_entry hooks) s)
          (abind (rdp_session_dynamic_channel_add_opening hooks channel_id channel_id_bytes priority (c_string name)) (\<lambda>handle.
           abind (awrite (rdp_dynamic_channel_write_create_request channel_id channel_id_bytes priority (c_string name))) (\<lambda>create.
           athen (write_dynamic hooks create) (aret handle)))))))"

definition librdp_session_channel_handle_for_id :: "u32 \<Rightarrow> ('c, 'd, 'x, u64) dvc_client" where
  "librdp_session_channel_handle_for_id channel_id =
     (if channel_id = 0 then afail LIBRDP_STATUS_INVALID_ARGUMENT
      else
        abind (aget id) (\<lambda>s.
        case rdp_session_dynamic_channel_find s channel_id of
          None \<Rightarrow> afail LIBRDP_STATUS_STATE
        | Some i \<Rightarrow>
            if rdp_session_dynamic_channel_handle s i \<noteq> 0 then aret (rdp_session_dynamic_channel_handle s i)
            else afail LIBRDP_STATUS_STATE))"

definition librdp_session_channel_close :: "('c, 'd, 'x) client_dvc_hooks \<Rightarrow> u32 \<Rightarrow> ('c, 'd, 'x, unit) dvc_client" where
  "librdp_session_channel_close hooks channel_id =
     abind (rdp_session_require_user_channel channel_id) (\<lambda>i.
     abind (aget (\<lambda>s. dn_channels s ! i)) (\<lambda>entry.
     abind (awrite (rdp_dynamic_channel_write_close (cd_channel_id entry) (cd_channel_id_bytes entry))) (\<lambda>close_pdu.
     athen (write_dynamic hooks close_pdu)
       (amodify (set_entry i (rdp_session_dynamic_channel_clear_entry hooks))))))"

text \<open>The entry of a handle that the application may use.\<close>

definition handle_entry :: "u64 \<Rightarrow> ('c, 'd, 'x, nat) dvc_client" where
  "handle_entry handle =
     abind (aget id) (\<lambda>s.
     if \<not> ready_for_channels s then afail LIBRDP_STATUS_STATE
     else
       (case rdp_session_dynamic_channel_from_handle s handle of
          None \<Rightarrow> afail LIBRDP_STATUS_STATE
        | Some i \<Rightarrow>
            if \<not> cd_active (dn_channels s ! i) then afail LIBRDP_STATUS_STATE
            else if rdp_session_dynamic_channel_is_internal_name (cd_name (dn_channels s ! i)) then afail LIBRDP_STATUS_UNSUPPORTED
            else aret i))"

definition librdp_session_channel_close_handle :: "('c, 'd, 'x) client_dvc_hooks \<Rightarrow> u64 \<Rightarrow> ('c, 'd, 'x, unit) dvc_client" where
  "librdp_session_channel_close_handle hooks handle =
     (if handle = 0 then afail LIBRDP_STATUS_INVALID_ARGUMENT
      else abind (handle_entry handle) (\<lambda>i. abind (aget (\<lambda>s. cd_channel_id (dn_channels s ! i))) (librdp_session_channel_close hooks)))"

definition librdp_session_channel_send_ex ::
    "('c, 'd, 'x) client_dvc_hooks \<Rightarrow> u64 \<Rightarrow> u8 \<Rightarrow> u8 list \<Rightarrow> ('c, 'd, 'x, unit) dvc_client" where
  "librdp_session_channel_send_ex hooks handle priority data =
     (if priority > 3 then afail LIBRDP_STATUS_INVALID_ARGUMENT
      else
        abind (aget dn_dynamic_channel_message_bytes) (\<lambda>limit.
        if length data > unat limit then client_limit_rejected
        else
          abind (handle_entry handle) (\<lambda>i.
          abind (aget (\<lambda>s. dn_channels s ! i)) (\<lambda>entry.
          rdp_session_send_dynamic_channel_data_priority hooks (cd_channel_id entry) (cd_channel_id_bytes entry) priority data))))"

definition librdp_session_channel_send ::
    "('c, 'd, 'x) client_dvc_hooks \<Rightarrow> u32 \<Rightarrow> u8 list \<Rightarrow> ('c, 'd, 'x, unit) dvc_client" where
  "librdp_session_channel_send hooks channel_id data =
     abind (aget dn_dynamic_channel_message_bytes) (\<lambda>limit.
     if length data > unat limit then client_limit_rejected
     else
       abind (rdp_session_require_user_channel channel_id) (\<lambda>i.
       abind (aget (\<lambda>s. dn_channels s ! i)) (\<lambda>entry.
       rdp_session_send_dynamic_channel_data hooks (cd_channel_id entry) (cd_channel_id_bytes entry) data)))"

definition rdp_session_dynamic_channels_clear :: "('c, 'd, 'x) client_dvc_hooks \<Rightarrow> ('c, 'd, 'x) dvc_session \<Rightarrow> ('c, 'd, 'x) dvc_session" where
  "rdp_session_dynamic_channels_clear hooks s =
     s\<lparr>dn_channels := map (rdp_session_dynamic_channel_clear_entry hooks) (dn_channels s)\<rparr>"

section \<open>The control stream\<close>

text \<open>A complete message: to the module that serves the channel, or to the application.\<close>

definition rdp_session_handle_dynamic_channel_message ::
    "('c, 'd, 'x) client_dvc_hooks \<Rightarrow> 'd rdp_session_dynamic_channel \<Rightarrow> u32 \<Rightarrow> u8 list \<Rightarrow> ('c, 'd, 'x, unit) dvc_client" where
  "rdp_session_handle_dynamic_channel_message hooks entry channel_id data =
     athen (amodify (\<lambda>s. s\<lparr>dn_messages := dn_messages s @ [(channel_id, data)]\<rparr>))
     (abind (aget dn_features) (\<lambda>x.
      if rdp_session_dynamic_channel_is_internal_name (cd_name entry) \<and>
        (cd_name entry = RDP_ECHO_CHANNEL_NAME \<longrightarrow> fk_feature_enabled hooks x 0x00000400)
      then on_module (fk_message hooks (cd_name entry) channel_id data)
      else amodify (emit_event (Channel_Data (cd_channel_id entry) (cd_name entry) data))))"

definition client_capabilities :: "('c, 'd, 'x) client_dvc_hooks \<Rightarrow> u8 list \<Rightarrow> ('c, 'd, 'x, unit) dvc_client" where
  "client_capabilities hooks payload =
     abind (alift (rdp_dynamic_channel_parse_capabilities payload)) (\<lambda>capabilities.
     let client_version = rdp_dynamic_channel_select_version (dc_version capabilities) in
     athen (afail_if (client_version = 0) LIBRDP_STATUS_PROTOCOL_ERROR)
     (abind (awrite (rdp_dynamic_channel_write_capabilities_response client_version)) (write_dynamic hooks)))"

text \<open>The answer to a channel that the client opens.\<close>

definition client_opened ::
    "('c, 'd, 'x) client_dvc_hooks \<Rightarrow> rdp_dynamic_channel_create_response \<Rightarrow> nat \<Rightarrow> ('c, 'd, 'x, unit) dvc_client" where
  "client_opened hooks create_response i =
     abind (aget (\<lambda>s. dn_channels s ! i)) (\<lambda>pending.
     if cd_channel_id_bytes pending \<noteq> dr_channel_id_bytes create_response then afail LIBRDP_STATUS_PROTOCOL_ERROR
     else if dr_status_code create_response = 0
     then amodify (\<lambda>s. emit_event (Channel_Open (cd_channel_id pending) (cd_name pending))
       (set_entry i (\<lambda>entry. entry\<lparr>cd_opening := False, cd_active := True\<rparr>) s))
     else amodify (set_entry i (rdp_session_dynamic_channel_clear_entry hooks)))"

text \<open>A channel that the server opens.\<close>

definition client_create_request :: "('c, 'd, 'x) client_dvc_hooks \<Rightarrow> u8 list \<Rightarrow> ('c, 'd, 'x, unit) dvc_client" where
  "client_create_request hooks payload =
     abind (alift (rdp_dynamic_channel_parse_create_request payload)) (\<lambda>request.
     abind (aget (\<lambda>s. rdp_session_dynamic_channel_create_status hooks (dn_features s) request)) (\<lambda>create_status_code.
     abind (awrite (rdp_dynamic_channel_write_create_response (dq_channel_id request) (dq_channel_id_bytes request) create_status_code))
       (\<lambda>response.
     athen (awhen (create_status_code = 0) (rdp_session_dynamic_channel_add hooks request))
     (athen (write_dynamic hooks response)
     (if create_status_code \<noteq> 0 then aret ()
      else if dq_name request = RDP_ECHO_CHANNEL_NAME then aret ()
      else if rdp_session_dynamic_channel_is_internal_name (dq_name request) then on_module (fk_created hooks request)
      else
        abind (aget (\<lambda>s. map_option ((!) (dn_channels s)) (rdp_session_dynamic_channel_find s (dq_channel_id request)))) (\<lambda>entry.
        case entry of
          None \<Rightarrow> aret ()
        | Some entry \<Rightarrow> amodify (emit_event (Channel_Open (cd_channel_id entry) (cd_name entry)))))))))"

definition client_create :: "('c, 'd, 'x) client_dvc_hooks \<Rightarrow> u8 list \<Rightarrow> ('c, 'd, 'x, unit) dvc_client" where
  "client_create hooks payload =
     abind (aget id) (\<lambda>s.
     case rdp_dynamic_channel_parse_create_response payload of
       Inl _ \<Rightarrow> client_create_request hooks payload
     | Inr create_response \<Rightarrow>
         (case rdp_session_dynamic_channel_find_opening s (dr_channel_id create_response) of
            None \<Rightarrow> client_create_request hooks payload
          | Some i \<Rightarrow> client_opened hooks create_response i))"

text \<open>
  Starting to gather a message, from \<open>data\<close>: the old fragment is dropped, and the whole message reserved. A message that is complete is
  handled, and its fragment freed whatever the handler returns.
\<close>

definition handle_and_free ::
    "('c, 'd, 'x) client_dvc_hooks \<Rightarrow> nat \<Rightarrow> u32 \<Rightarrow> ('c, 'd, 'x, unit) dvc_client" where
  "handle_and_free hooks i channel_id =
     (let free = set_entry i (\<lambda>entry. entry\<lparr>cd_fragment := rdp_buffer_init, cd_fragment_expected := 0\<rparr>) in
      abind (aget (\<lambda>s. dn_channels s ! i)) (\<lambda>entry.
      athen (on_error (\<lambda>_. free) (rdp_session_handle_dynamic_channel_message hooks entry channel_id (contents (cd_fragment entry))))
        (amodify free)))"

definition fill_fragment :: "nat \<Rightarrow> writer \<Rightarrow> ('c, 'd, 'x, unit) dvc_client" where
  "fill_fragment i w = afill (\<lambda>s. cd_fragment (dn_channels s ! i))
     (\<lambda>b. set_entry i (\<lambda>entry. entry\<lparr>cd_fragment := b\<rparr>)) w"

definition start_fragment ::
    "('c, 'd, 'x) client_dvc_hooks \<Rightarrow> nat \<Rightarrow> u32 \<Rightarrow> u32 \<Rightarrow> u8 list \<Rightarrow> ('c, 'd, 'x, unit) dvc_client" where
  "start_fragment hooks i channel_id total_length data =
     athen (amodify (set_entry i (\<lambda>entry. entry\<lparr>cd_fragment := rdp_buffer_init\<rparr>)))
     (athen (fill_fragment i (run_writers [rdp_buffer_reserve (unat total_length), rdp_buffer_append data]))
     (athen (amodify (set_entry i (\<lambda>entry. entry\<lparr>cd_fragment_expected := total_length,
        cd_fragmenting := buf_length (cd_fragment entry) < unat total_length\<rparr>)))
     (abind (aget (\<lambda>s. cd_fragmenting (dn_channels s ! i))) (\<lambda>fragmenting.
      if fragmenting then aret () else handle_and_free hooks i channel_id))))"

text \<open>The checks of a first packet.\<close>

definition first_entry :: "rdp_dynamic_channel_data_first_pdu \<Rightarrow> ('c, 'd, 'x, nat) dvc_client" where
  "first_entry first_pdu =
     abind (aget id) (\<lambda>s.
     if df_total_length first_pdu = 0 then afail LIBRDP_STATUS_PROTOCOL_ERROR
     else if df_total_length first_pdu > dn_dynamic_channel_message_bytes s then client_limit_rejected
     else
       (case rdp_session_dynamic_channel_find s (df_channel_id first_pdu) of
          None \<Rightarrow> afail LIBRDP_STATUS_PROTOCOL_ERROR
        | Some i \<Rightarrow> if cd_fragmenting (dn_channels s ! i) then afail LIBRDP_STATUS_PROTOCOL_ERROR else aret i))"

definition client_data_first :: "('c, 'd, 'x) client_dvc_hooks \<Rightarrow> u8 list \<Rightarrow> ('c, 'd, 'x, unit) dvc_client" where
  "client_data_first hooks payload =
     abind (alift (rdp_dynamic_channel_parse_data_first payload)) (\<lambda>first_pdu.
     abind (first_entry first_pdu) (\<lambda>i.
     start_fragment hooks i (df_channel_id first_pdu) (df_total_length first_pdu) (df_data first_pdu)))"

text \<open>The rest of a message: the end of gathering is noted before the message is handled.\<close>

definition continue_fragment ::
    "('c, 'd, 'x) client_dvc_hooks \<Rightarrow> nat \<Rightarrow> u32 \<Rightarrow> u8 list \<Rightarrow> ('c, 'd, 'x, unit) dvc_client" where
  "continue_fragment hooks i channel_id data =
     athen (fill_fragment i (rdp_buffer_append data))
     (abind (aget (\<lambda>s. dn_channels s ! i)) (\<lambda>entry.
      if buf_length (cd_fragment entry) < unat (cd_fragment_expected entry) then aret ()
      else athen (amodify (set_entry i (\<lambda>entry. entry\<lparr>cd_fragmenting := False\<rparr>))) (handle_and_free hooks i channel_id)))"

definition client_data :: "('c, 'd, 'x) client_dvc_hooks \<Rightarrow> u8 list \<Rightarrow> ('c, 'd, 'x, unit) dvc_client" where
  "client_data hooks payload =
     abind (alift (rdp_dynamic_channel_parse_data payload)) (\<lambda>data_pdu.
     abind (aget id) (\<lambda>s.
     case rdp_session_dynamic_channel_find s (dd_channel_id data_pdu) of
       None \<Rightarrow> afail LIBRDP_STATUS_PROTOCOL_ERROR
     | Some i \<Rightarrow>
         let entry = dn_channels s ! i in
         if cd_fragmenting entry then
           (if dd_data data_pdu = [] \<or> length (dd_data data_pdu) > unat (cd_fragment_expected entry) - buf_length (cd_fragment entry)
            then afail LIBRDP_STATUS_PROTOCOL_ERROR
            else continue_fragment hooks i (dd_channel_id data_pdu) (dd_data data_pdu))
         else rdp_session_handle_dynamic_channel_message hooks entry (dd_channel_id data_pdu) (dd_data data_pdu)))"

text \<open>Compressed data: the decoder of the channel keeps its history.\<close>

definition decode_entry :: "('c, 'd, 'x) client_dvc_hooks \<Rightarrow> nat \<Rightarrow> u8 list \<Rightarrow> ('c, 'd, 'x, u8 list) dvc_client" where
  "decode_entry hooks i data =
     abind (aget (\<lambda>s. fk_decode_segmented_data hooks data (cd_decompressor (dn_channels s ! i)))) (\<lambda>(decoded, d).
     athen (amodify (set_entry i (\<lambda>entry. entry\<lparr>cd_decompressor := d\<rparr>))) (alift decoded))"

definition client_compressed_data_first :: "('c, 'd, 'x) client_dvc_hooks \<Rightarrow> u8 list \<Rightarrow> ('c, 'd, 'x, unit) dvc_client" where
  "client_compressed_data_first hooks payload =
     abind (alift (rdp_dynamic_channel_parse_compressed_data_first payload)) (\<lambda>first_pdu.
     abind (first_entry first_pdu) (\<lambda>i.
     abind (decode_entry hooks i (df_data first_pdu)) (\<lambda>decoded.
     athen (afail_if (decoded = [] \<or> length decoded > unat (df_total_length first_pdu)) LIBRDP_STATUS_PROTOCOL_ERROR)
       (start_fragment hooks i (df_channel_id first_pdu) (df_total_length first_pdu) decoded))))"

definition client_compressed_data :: "('c, 'd, 'x) client_dvc_hooks \<Rightarrow> u8 list \<Rightarrow> ('c, 'd, 'x, unit) dvc_client" where
  "client_compressed_data hooks payload =
     abind (alift (rdp_dynamic_channel_parse_compressed_data payload)) (\<lambda>data_pdu.
     abind (aget (\<lambda>s. rdp_session_dynamic_channel_find s (dd_channel_id data_pdu))) (\<lambda>found.
     case found of
       None \<Rightarrow> afail LIBRDP_STATUS_PROTOCOL_ERROR
     | Some i \<Rightarrow>
         abind (decode_entry hooks i (dd_data data_pdu)) (\<lambda>decoded.
         abind (aget (\<lambda>s. dn_channels s ! i)) (\<lambda>entry.
         if cd_fragmenting entry then
           (if decoded = [] \<or> buf_length (cd_fragment entry) > unat (cd_fragment_expected entry) \<or>
              length decoded > unat (cd_fragment_expected entry) - buf_length (cd_fragment entry)
            then afail LIBRDP_STATUS_PROTOCOL_ERROR
            else continue_fragment hooks i (dd_channel_id data_pdu) decoded)
         else rdp_session_handle_dynamic_channel_message hooks entry (dd_channel_id data_pdu) decoded))))"

definition client_close :: "('c, 'd, 'x) client_dvc_hooks \<Rightarrow> u8 list \<Rightarrow> ('c, 'd, 'x, unit) dvc_client" where
  "client_close hooks payload =
     abind (alift (rdp_dynamic_channel_parse_close payload)) (\<lambda>close_pdu.
     abind (aget id) (\<lambda>s.
     case rdp_session_dynamic_channel_find s (dl_channel_id close_pdu) of
       None \<Rightarrow> aret ()
     | Some i \<Rightarrow>
         let entry = dn_channels s ! i in
         athen (awhen (\<not> rdp_session_dynamic_channel_is_internal_name (cd_name entry))
           (amodify (emit_event (Channel_Close (cd_channel_id entry) (cd_name entry)))))
         (amodify (\<lambda>s. set_entry i (rdp_session_dynamic_channel_clear_entry hooks)
            (s\<lparr>dn_features := fk_closed hooks (cd_channel_id entry) (dn_features s)\<rparr>)))))"

text \<open>The tunnels that the client takes: at most one of each kind, and only when all channels of its list are open.\<close>

fun those_ids :: "rdp_dynamic_channel_soft_sync_channel_list \<Rightarrow> nat list \<Rightarrow> u32 list result" where
  "those_ids list [] = Inr []"
| "those_ids list (j # js) =
     ebind (rdp_dynamic_channel_soft_sync_channel_list_get_id list (of_nat j)) (\<lambda>channel_id.
     ebind (those_ids list js) (\<lambda>ids. Inr (channel_id # ids)))"

fun client_tunnels ::
    "bool \<Rightarrow> ('c, 'd, 'x) dvc_session \<Rightarrow> rdp_dynamic_channel_soft_sync_request \<Rightarrow> nat list \<Rightarrow> u32 list \<Rightarrow> u32 list result" where
  "client_tunnels ready s request [] tunnels = Inr tunnels"
| "client_tunnels ready s request (i # is) tunnels =
     (if length tunnels \<ge> 2 then Inr tunnels
      else
        ebind (rdp_dynamic_channel_soft_sync_request_get_list request (of_nat i)) (\<lambda>list.
        ebind (those_ids list [0..<unat (dt_channel_count list)]) (\<lambda>ids.
        let eligible = list_all (\<lambda>channel_id. rdp_session_dynamic_channel_find s channel_id \<noteq> None) ids \<and> ready;
            tunnel = dt_tunnel_type list
        in
        client_tunnels ready s request is
          (if eligible \<and> tunnel \<in> {RDP_DYNAMIC_CHANNEL_TUNNEL_UDP_RELIABLE, RDP_DYNAMIC_CHANNEL_TUNNEL_UDP_LOSSY} \<and> tunnel \<notin> set tunnels
           then tunnels @ [tunnel] else tunnels))))"

definition client_soft_sync :: "('c, 'd, 'x) client_dvc_hooks \<Rightarrow> u8 list \<Rightarrow> ('c, 'd, 'x, unit) dvc_client" where
  "client_soft_sync hooks payload =
     abind (alift (rdp_dynamic_channel_parse_soft_sync_request payload)) (\<lambda>request.
     abind (aget (\<lambda>s. client_tunnels (fk_udp_ready hooks (dn_features s)) s request [0..<unat (ds_tunnel_count request)] [])) (\<lambda>selected.
     abind (alift selected) (\<lambda>tunnels.
     abind (awrite (rdp_dynamic_channel_write_soft_sync_response tunnels)) (\<lambda>response.
     athen (write_dynamic hooks response)
       (amodify (\<lambda>s. if tunnels = [] then s
         else s\<lparr>dn_multitransport_udp_active := True, dn_soft_sync_count := dn_soft_sync_count s + 1,
                dn_udp_reliable_selected := RDP_DYNAMIC_CHANNEL_TUNNEL_UDP_RELIABLE \<in> set tunnels,
                dn_udp_lossy_selected := RDP_DYNAMIC_CHANNEL_TUNNEL_UDP_LOSSY \<in> set tunnels,
                dn_soft_syncs := rdp_session_metric_add (dn_soft_syncs s) 1\<rparr>))))))"

definition rdp_session_handle_dynamic_channel ::
    "('c, 'd, 'x) client_dvc_hooks \<Rightarrow> rdp_virtual_channel_packet \<Rightarrow> ('c, 'd, 'x, unit) dvc_client" where
  "rdp_session_handle_dynamic_channel hooks channel_packet =
     (let payload = vc_payload channel_packet in
      abind (alift (rdp_dynamic_channel_parse_header payload)) (\<lambda>header.
      if dy_command header = RDP_DYNAMIC_CHANNEL_CMD_CAPABILITIES then client_capabilities hooks payload
      else if dy_command header = RDP_DYNAMIC_CHANNEL_CMD_CREATE then client_create hooks payload
      else if dy_command header = RDP_DYNAMIC_CHANNEL_CMD_DATA_FIRST then client_data_first hooks payload
      else if dy_command header = RDP_DYNAMIC_CHANNEL_CMD_DATA then client_data hooks payload
      else if dy_command header = RDP_DYNAMIC_CHANNEL_CMD_DATA_FIRST_COMPRESSED then client_compressed_data_first hooks payload
      else if dy_command header = RDP_DYNAMIC_CHANNEL_CMD_DATA_COMPRESSED then client_compressed_data hooks payload
      else if dy_command header = RDP_DYNAMIC_CHANNEL_CMD_CLOSE then client_close hooks payload
      else if dy_command header = RDP_DYNAMIC_CHANNEL_CMD_SOFT_SYNC_REQUEST then client_soft_sync hooks payload
      else if dy_command header = RDP_DYNAMIC_CHANNEL_CMD_SOFT_SYNC_RESPONSE
      then abind (alift (rdp_dynamic_channel_parse_soft_sync_response payload)) (\<lambda>_. aret ())
      else aret ()))"

text \<open>A frame for the control stream, in the loop of the session: an error ends the session.\<close>

definition session_dynamic_branch ::
    "('c, 'd, 'x) client_dvc_hooks \<Rightarrow> (u8 list \<Rightarrow> librdp_status) \<Rightarrow> u8 list \<Rightarrow> ('c, 'd, 'x, unit) dvc_client" where
  "session_dynamic_branch hooks multiparty frame = (\<lambda>(s, m).
     case session_receive (fk_crypto hooks) multiparty frame (dn_session s, m) of
       (Inl e, w, m) \<Rightarrow> (Inl e, s\<lparr>dn_session := w\<rparr>, m)
     | (Inr route, w, m) \<Rightarrow>
         (case route of
            Route_Dynamic channel_packet \<Rightarrow>
              on_error (\<lambda>_ s. s\<lparr>dn_session := (dn_session s)\<lparr>se_failed := True\<rparr>\<rparr>)
                (rdp_session_handle_dynamic_channel hooks channel_packet) (s\<lparr>dn_session := w\<rparr>, m)
          | _ \<Rightarrow> (Inr (), s\<lparr>dn_session := w\<rparr>, m)))"

section \<open>Handles\<close>

text \<open>A handle names one slot and one use of it: both parts can be read back.\<close>

lemma handle_parts:
  fixes g :: u32
  assumes "slot < 64"
  defines "h \<equiv> push_bit 32 (of_nat slot + 1) OR ucast g :: u64"
  shows "unat (drop_bit 32 h AND 0xffffffff) = Suc slot" and "ucast (h AND 0xffffffff) = g" and "h \<noteq> 0"
proof -
  let ?a = "of_nat slot + 1 :: u64"
  have a: "unat ?a = Suc slot" using assms(1) by (simp add: unat_word_ariths unat_of_nat take_bit_eq_mod)
  have m: "x AND 0xffffffff = take_bit 32 x" for x :: u64 by (simp add: take_bit_eq_mask mask_eq_exp_minus_1)
  have "take_bit 32 ?a = ?a"
    by (rule word_unat_eq_iff [THEN iffD2]) (use a assms(1) in \<open>simp add: unsigned_take_bit_eq take_bit_nat_eq_self\<close>)
  then have low: "n < 32" if "bit ?a n" for n using that by (metis bit_take_bit_iff)
  have "take_bit 32 (drop_bit 32 h) = ?a"
    unfolding h_def by (rule bit_word_eqI) (use low in \<open>auto simp: bit_simps dest: bit_imp_le_length\<close>)
  then show 1: "unat (drop_bit 32 h AND 0xffffffff) = Suc slot" by (simp add: m a)
  show "ucast (h AND 0xffffffff) = g"
    unfolding h_def m by (rule bit_word_eqI) (auto simp: bit_simps)
  show "h \<noteq> 0" using 1 by auto
qed

lemma from_handle_iff:
  "rdp_session_dynamic_channel_from_handle s h = Some i \<longleftrightarrow>
     i < 64 \<and> taken (dn_channels s ! i) \<and> h = rdp_session_dynamic_channel_handle s i \<and> h \<noteq> 0"
proof
  assume "rdp_session_dynamic_channel_from_handle s h = Some i"
  then have h: "h \<noteq> 0" "unat (drop_bit 32 h AND 0xffffffff) = Suc i" "i < 64" "taken (dn_channels s ! i)"
    "cd_generation (dn_channels s ! i) = ucast (h AND 0xffffffff)" "cd_generation (dn_channels s ! i) \<noteq> 0"
    by (auto simp: rdp_session_dynamic_channel_from_handle_def RDP_SESSION_MAX_DYNAMIC_CHANNELS_def taken_def Let_def split: if_splits)
  have m: "x AND 0xffffffff = take_bit 32 x" for x :: u64 by (simp add: take_bit_eq_mask mask_eq_exp_minus_1)
  have "take_bit 32 (drop_bit 32 h) = drop_bit 32 h"
    by (rule bit_word_eqI) (auto simp: bit_simps dest: bit_imp_le_length)
  then have up: "drop_bit 32 h = of_nat i + 1"
    using h(2,3) unfolding m
    by (intro word_unat_eq_iff [THEN iffD2]) (simp add: unat_word_ariths unat_of_nat take_bit_eq_mod)
  have "h = push_bit 32 (of_nat i + 1) OR ucast (cd_generation (dn_channels s ! i))"
    unfolding h(5) m up [symmetric] by (rule bit_word_eqI) (auto simp: bit_simps)
  then show "i < 64 \<and> taken (dn_channels s ! i) \<and> h = rdp_session_dynamic_channel_handle s i \<and> h \<noteq> 0"
    using h by (simp add: rdp_session_dynamic_channel_handle_def RDP_SESSION_MAX_DYNAMIC_CHANNELS_def)
next
  assume r: "i < 64 \<and> taken (dn_channels s ! i) \<and> h = rdp_session_dynamic_channel_handle s i \<and> h \<noteq> 0"
  then have h: "h = push_bit 32 (of_nat i + 1) OR ucast (cd_generation (dn_channels s ! i))" "cd_generation (dn_channels s ! i) \<noteq> 0"
    by (auto simp: rdp_session_dynamic_channel_handle_def split: if_splits)
  show "rdp_session_dynamic_channel_from_handle s h = Some i"
    using r h(2) handle_parts [of i "cd_generation (dn_channels s ! i)", folded h(1)]
    by (simp add: rdp_session_dynamic_channel_from_handle_def RDP_SESSION_MAX_DYNAMIC_CHANNELS_def taken_def Let_def)
qed

text \<open>The generation of a slot comes back after \<open>2 ^ 32 - 1\<close> uses and not before.\<close>

definition next_generation :: "u32 \<Rightarrow> u32" where
  "next_generation g = (if g + 1 = 0 then 1 else g + 1)"

lemma unat_next_generation:
  assumes "g \<noteq> 0" shows "unat (next_generation g) = unat g mod 4294967295 + 1"
proof (cases "g + 1 = 0")
  case True
  then have "g = 4294967295" by (simp add: add_eq_0_iff2)
  then show ?thesis by (simp add: next_generation_def)
next
  case False
  then have "unat (g + 1) \<noteq> 0" by (simp add: unat_eq_0)
  moreover have "unat (g + 1) = (unat g + 1) mod 4294967296" by (simp add: unat_word_ariths)
  moreover have "unat g < 4294967296" using unsigned_less [of g] by simp
  ultimately show ?thesis using False by (auto simp: next_generation_def mod_if split: if_splits)
qed

lemma unat_generations:
  assumes "g \<noteq> 0" shows "unat ((next_generation ^^ n) g) = (unat g - 1 + n) mod 4294967295 + 1"
proof (induction n)
  case 0
  show ?case using assms unsigned_less [of g, where ?'a = nat] by (simp add: unat_gt_0)
next
  case (Suc n)
  have "(next_generation ^^ n) g \<noteq> 0" using Suc.IH by (metis unat_0 add_is_0 one_neq_zero)
  then show ?case using Suc.IH by (simp add: unat_next_generation mod_Suc_eq)
qed

lemma mod_shift: "(a + n) mod m \<noteq> a" if "a < m" "0 < n" "n < m" for a n m :: nat
  using that by (cases "a + n < m") (simp_all add: le_mod_geq not_less)

lemma generations_differ:
  assumes "g \<noteq> 0" "0 < n" "n < 4294967295"
  shows "(next_generation ^^ n) g \<noteq> g"
proof
  assume "(next_generation ^^ n) g = g"
  then have "unat g = (unat g - 1 + n) mod 4294967295 + 1" using unat_generations [OF assms(1)] by metis
  moreover have "0 < unat g" using assms(1) by (simp add: unat_gt_0)
  ultimately have eq: "(unat g - 1 + n) mod 4294967295 = unat g - 1" by simp
  have "unat g - 1 < 4294967295" using unsigned_less [of g, where ?'a = nat] by simp
  with eq assms(2,3) mod_shift show False by metis
qed

definition unique_ids :: "('c, 'd, 'x) dvc_session \<Rightarrow> bool" where
  "unique_ids s \<longleftrightarrow> length (dn_channels s) = RDP_SESSION_MAX_DYNAMIC_CHANNELS \<and>
     (\<forall>i < RDP_SESSION_MAX_DYNAMIC_CHANNELS. \<forall>j < RDP_SESSION_MAX_DYNAMIC_CHANNELS.
        taken (dn_channels s ! i) \<and> taken (dn_channels s ! j) \<and> cd_channel_id (dn_channels s ! i) = cd_channel_id (dn_channels s ! j) \<longrightarrow>
        i = j)"

lemma find_entry_Some: "find_entry P n channels = Some i \<Longrightarrow> i < n \<and> P (channels ! i)"
  by (auto simp: find_entry_def find_Some_iff)

lemma find_entry_exists: "i < n \<Longrightarrow> P (channels ! i) \<Longrightarrow> \<exists>j. find_entry P n channels = Some j"
  by (cases "find_entry P n channels") (auto simp: find_entry_def find_None_iff)

lemma find_unique:
  assumes "unique_ids s" "i < RDP_SESSION_MAX_DYNAMIC_CHANNELS" "cd_active (dn_channels s ! i)" "cd_channel_id (dn_channels s ! i) = k"
  shows "rdp_session_dynamic_channel_find s k = Some i"
proof -
  let ?P = "\<lambda>entry. cd_active entry \<and> cd_channel_id entry = k"
  obtain j where j: "find_entry ?P RDP_SESSION_MAX_DYNAMIC_CHANNELS (dn_channels s) = Some j"
    using find_entry_exists [of i RDP_SESSION_MAX_DYNAMIC_CHANNELS ?P "dn_channels s"] assms(2-4) by auto
  with find_entry_Some [OF j] assms have "j = i" unfolding unique_ids_def taken_def by blast
  with j show ?thesis by (simp add: rdp_session_dynamic_channel_find_def)
qed

lemma write_dynamic_frame:
  assumes "write_dynamic hooks b (s, m) = (r, s', m')"
  shows "\<exists>w. s' = s\<lparr>dn_session := w\<rparr>"
  using assms by (auto simp: write_dynamic_def on_session_def acall_def abind_def aget_def split: prod.splits if_splits)

lemma awrite_frame: "awrite w (s, m) = (r, s', m') \<Longrightarrow> s' = s"
  by (auto simp: awrite_def split: prod.splits)

lemma abind_Inr: "abind a f s = (Inr y, s') \<longleftrightarrow> (\<exists>x t. a s = (Inr x, t) \<and> f x t = (Inr y, s'))"
  by (auto simp: abind_def split: prod.split sum.split)

lemma handle_entry_Inr:
  "handle_entry h (s, m) = (Inr i, t) \<longleftrightarrow> t = (s, m) \<and> ready_for_channels s \<and> rdp_session_dynamic_channel_from_handle s h = Some i \<and>
     cd_active (dn_channels s ! i) \<and> \<not> rdp_session_dynamic_channel_is_internal_name (cd_name (dn_channels s ! i))"
  by (auto simp: handle_entry_def abind_def aget_def afail_def aret_def split: option.splits)

lemma handle_entry_None:
  "rdp_session_dynamic_channel_from_handle s h = None \<Longrightarrow> handle_entry h (s, m) = (Inl LIBRDP_STATUS_STATE, s, m)"
  by (simp add: handle_entry_def abind_def aget_def afail_def)

lemma channel_close_clears:
  assumes ok: "unique_ids s" and i: "i < RDP_SESSION_MAX_DYNAMIC_CHANNELS" "cd_active (dn_channels s ! i)"
    and close: "librdp_session_channel_close hooks (cd_channel_id (dn_channels s ! i)) (s, m) = (Inr (), s', m')"
  shows "dn_channels s' = (dn_channels s)[i := rdp_session_dynamic_channel_clear_entry hooks (dn_channels s ! i)]"
proof -
  note find = find_unique [OF ok i refl]
  from close obtain b w m1 m2 where w: "write_dynamic hooks b (s, m1) = (Inr (), w, m2)"
    and s': "s' = set_entry i (rdp_session_dynamic_channel_clear_entry hooks) w"
    by (auto simp: librdp_session_channel_close_def rdp_session_require_user_channel_def abind_Inr aget_def aret_def afail_def amodify_def find
        split: if_splits dest!: awrite_frame)
  have "dn_channels w = dn_channels s" using write_dynamic_frame [OF w] by auto
  then show ?thesis by (simp add: s' set_entry_def)
qed

section \<open>The numbers stay different\<close>

text \<open>Every operation keeps the numbers of the channels in use different, whatever its outcome and whatever the modules do.\<close>

abbreviation keeps_unique :: "('c, 'd, 'x, 'a) dvc_client \<Rightarrow> bool" where
  "keeps_unique a \<equiv> hoare unique_ids a (\<lambda>_. unique_ids) unique_ids"

lemma unique_set:
  assumes "unique_ids s"
    and "taken (f (dn_channels s ! i)) \<Longrightarrow>
      taken (dn_channels s ! i) \<and> cd_channel_id (f (dn_channels s ! i)) = cd_channel_id (dn_channels s ! i) \<or>
      rdp_session_dynamic_channel_find_any s (cd_channel_id (f (dn_channels s ! i))) = None"
  shows "unique_ids (set_entry i f s)"
proof (cases "i < RDP_SESSION_MAX_DYNAMIC_CHANNELS")
  case True
  let ?c = "dn_channels s" and ?n = RDP_SESSION_MAX_DYNAMIC_CHANNELS
  have len: "length ?c = ?n" using assms(1) by (simp add: unique_ids_def)
  have fresh: "cd_channel_id (?c ! j) \<noteq> cd_channel_id (f (?c ! i))"
    if "taken (f (?c ! i))" "j < ?n" "j \<noteq> i" "taken (?c ! j)" for j
    using assms that True unfolding unique_ids_def
    by (auto simp: rdp_session_dynamic_channel_find_any_def find_entry_def find_None_iff)
  have "a = b" if "a < ?n" "b < ?n" "taken (?c[i := f (?c ! i)] ! a)" "taken (?c[i := f (?c ! i)] ! b)"
      "cd_channel_id (?c[i := f (?c ! i)] ! a) = cd_channel_id (?c[i := f (?c ! i)] ! b)" for a b
    using that fresh [of a] fresh [of b] assms(1) len True unfolding unique_ids_def by (cases "a = i"; cases "b = i") auto
  then show ?thesis using len by (simp add: unique_ids_def set_entry_def)
next
  case False
  with assms(1) show ?thesis by (simp add: unique_ids_def set_entry_def list_update_beyond)
qed

lemma unique_same:
  "unique_ids s \<Longrightarrow> (\<And>e. taken (f e) \<Longrightarrow> taken e \<and> cd_channel_id (f e) = cd_channel_id e) \<Longrightarrow> unique_ids (set_entry i f s)"
  by (rule unique_set) auto

lemma unique_frame: "dn_channels s' = dn_channels s \<Longrightarrow> unique_ids s' = unique_ids s"
  by (simp add: unique_ids_def)

lemma keeps_write: "keeps_unique (write_dynamic hooks b)"
  by (rule hoareI) (auto dest!: write_dynamic_frame simp: unique_ids_def split: sum.split)

lemma keeps_module: "keeps_unique (on_module f)"
  unfolding on_module_def by (rule hoare_acall) (auto simp: unique_ids_def split: prod.splits)

lemma keeps_reject: "hoare unique_ids client_limit_rejected Q unique_ids"
  by (auto simp: client_limit_rejected_def hoare_def wp_rules unique_ids_def)

lemma keeps_set: "(\<And>e. taken (f e) \<Longrightarrow> taken e \<and> cd_channel_id (f e) = cd_channel_id e) \<Longrightarrow> keeps_unique (amodify (set_entry i f))"
  by (rule hoare_amodify) (rule unique_same)

lemma keeps_same: "(\<And>s. dn_channels (f s) = dn_channels s) \<Longrightarrow> keeps_unique (amodify f)"
  by (rule hoare_amodify) (simp add: unique_ids_def)

lemma keeps_fill: "keeps_unique (fill_fragment i w)"
  unfolding fill_fragment_def by (rule hoare_afill; rule unique_same) (simp_all add: taken_def)

lemma keeps_rewrite: "keeps_unique (rewrite b w)"
  by (auto simp: hoare_def wp_def rewrite_def split: prod.split)

lemma clear_free: "\<not> taken (rdp_session_dynamic_channel_clear_entry hooks e)"
  by (simp add: taken_def rdp_session_dynamic_channel_clear_entry_def)

lemmas keeps_rules = hoare_rules keeps_write keeps_module keeps_reject keeps_set keeps_same keeps_fill keeps_rewrite

lemma keeps_add: "keeps_unique (rdp_session_dynamic_channel_add hooks request)"
  by (auto simp: rdp_session_dynamic_channel_add_def hoare_def wp_rules client_limit_rejected_def
      intro!: unique_set split: option.split) (simp_all add: unique_ids_def)

lemma keeps_add_opening: "keeps_unique (rdp_session_dynamic_channel_add_opening hooks k n pr name)"
  by (auto simp: rdp_session_dynamic_channel_add_opening_def hoare_def wp_rules client_limit_rejected_def
      intro!: unique_set split: option.split) (simp_all add: unique_ids_def)

lemma keeps_handle_message: "keeps_unique (rdp_session_handle_dynamic_channel_message hooks e k data)"
  unfolding rdp_session_handle_dynamic_channel_message_def by (intro keeps_rules) (auto simp: emit_event_def)

lemma keeps_handle_and_free: "keeps_unique (handle_and_free hooks i k)"
  unfolding handle_and_free_def Let_def
  by (intro keeps_rules hoare_on_error [where E' = unique_ids] keeps_handle_message unique_same) (auto simp: taken_def)

lemma keeps_start_fragment: "keeps_unique (start_fragment hooks i k len data)"
  unfolding start_fragment_def by (intro keeps_rules keeps_handle_and_free) (auto simp: taken_def)

lemma keeps_continue_fragment: "keeps_unique (continue_fragment hooks i k data)"
  unfolding continue_fragment_def by (intro keeps_rules keeps_handle_and_free) (auto simp: taken_def)

lemma keeps_first_entry: "keeps_unique (first_entry q)"
  unfolding first_entry_def by (intro keeps_rules) auto

lemma keeps_decode: "keeps_unique (decode_entry hooks i data)"
  unfolding decode_entry_def by (intro keeps_rules) (auto simp: taken_def)

lemma keeps_create_request: "keeps_unique (client_create_request hooks payload)"
  unfolding client_create_request_def by (intro keeps_rules keeps_add) (auto simp: emit_event_def)

lemma keeps_client_create: "keeps_unique (client_create hooks payload)"
proof -
  have opened: "wp (client_opened hooks c i) (\<lambda>_ t. unique_ids (fst t)) (\<lambda>_ t. unique_ids (fst t)) (s, m)"
    if s: "unique_ids s" "rdp_session_dynamic_channel_find_opening s k = Some i" for s c i k m
  proof -
    have "cd_opening (dn_channels s ! i)"
      using s(2) by (auto simp: rdp_session_dynamic_channel_find_opening_def split: option.splits if_splits)
    then have "unique_ids (set_entry i (\<lambda>entry. entry\<lparr>cd_opening := False, cd_active := True\<rparr>) s)"
      by (intro unique_set [OF s(1)]) (simp add: taken_def)
    moreover have "unique_ids (set_entry i (rdp_session_dynamic_channel_clear_entry hooks) s)"
      by (rule unique_same [OF s(1)]) (simp add: clear_free)
    ultimately show ?thesis using s(1) by (simp add: client_opened_def wp_rules emit_event_def unique_ids_def)
  qed
  show ?thesis
    using keeps_create_request [of hooks payload]
    unfolding hoare_def client_create_def by (auto simp: wp_rules intro: opened split: sum.split option.split)
qed

lemma keeps_client_close: "keeps_unique (client_close hooks payload)"
proof -
  have clear: "keeps_unique (amodify (\<lambda>s. set_entry i (rdp_session_dynamic_channel_clear_entry hooks) (s\<lparr>dn_features := f s\<rparr>)))" for i f
    by (rule hoare_amodify, rule unique_same) (simp_all add: unique_ids_def clear_free)
  have event: "keeps_unique (amodify (emit_event e))" for e by (rule keeps_same) (simp add: emit_event_def)
  show ?thesis unfolding client_close_def Let_def by (intro hoare_rules clear event) simp_all
qed

lemma keeps_client_data:
  "keeps_unique (client_data_first hooks payload)" "keeps_unique (client_data hooks payload)"
  "keeps_unique (client_compressed_data_first hooks payload)" "keeps_unique (client_compressed_data hooks payload)"
  unfolding client_data_first_def client_data_def client_compressed_data_first_def client_compressed_data_def Let_def
  by (intro hoare_rules keeps_first_entry keeps_start_fragment keeps_continue_fragment keeps_handle_message keeps_decode; simp)+

lemma keeps_client_control: "keeps_unique (client_capabilities hooks payload)" "keeps_unique (client_soft_sync hooks payload)"
  unfolding client_capabilities_def client_soft_sync_def Let_def by (intro keeps_rules; simp)+

lemma keeps_handle_dynamic_channel: "keeps_unique (rdp_session_handle_dynamic_channel hooks packet)"
  unfolding rdp_session_handle_dynamic_channel_def Let_def
  by (intro hoare_rules keeps_client_create keeps_client_data keeps_client_close keeps_client_control) simp_all

lemma keeps_client_send_rest: "keeps_unique (client_send_rest hooks k n pr capacity b rest)"
proof (induction hooks k n pr capacity b rest rule: client_send_rest.induct)
  case (1 hooks k n pr capacity b rest)
  show ?case by (subst client_send_rest.simps, intro keeps_rules 1) auto
qed

lemma keeps_require: "keeps_unique (rdp_session_require_user_channel k)" "keeps_unique (handle_entry h)"
  unfolding rdp_session_require_user_channel_def handle_entry_def by (intro keeps_rules; simp)+

lemma keeps_client_send:
  "keeps_unique (librdp_session_channel_send hooks k data)" "keeps_unique (librdp_session_channel_send_ex hooks h pr data)"
  unfolding librdp_session_channel_send_def librdp_session_channel_send_ex_def rdp_session_send_dynamic_channel_data_def
    rdp_session_send_dynamic_channel_data_priority_def Let_def
  by (intro keeps_rules keeps_require keeps_client_send_rest; simp)+

lemma keeps_channel_close: "keeps_unique (librdp_session_channel_close hooks k)" "keeps_unique (librdp_session_channel_close_handle hooks h)"
proof -
  have c: "keeps_unique (amodify (set_entry i (rdp_session_dynamic_channel_clear_entry hooks)))" for i
    by (rule keeps_set) (simp add: clear_free)
  show "keeps_unique (librdp_session_channel_close hooks k)" for k
    unfolding librdp_session_channel_close_def by (intro hoare_rules keeps_require keeps_write c) simp_all
  then show "keeps_unique (librdp_session_channel_close_handle hooks h)"
    unfolding librdp_session_channel_close_handle_def by (intro hoare_rules keeps_require) simp_all
qed

lemma keeps_channel_open: "keeps_unique (librdp_session_channel_open hooks name pr)"
proof -
  have "unique_ids (case rdp_session_dynamic_channel_find_opening s k of None \<Rightarrow> s
      | Some i \<Rightarrow> set_entry i (rdp_session_dynamic_channel_clear_entry hooks) s)" if "unique_ids s" for s k
    using that by (auto intro!: unique_same simp: clear_free split: option.split)
  then show ?thesis
    unfolding librdp_session_channel_open_def rdp_session_dynamic_channel_allocate_id_def Let_def
    by (intro keeps_rules hoare_on_error [where E' = unique_ids] keeps_add_opening) simp_all
qed

section \<open>Properties\<close>

text \<open>
  C9. A handle is good for one use of its slot. In a table whose channels in use have different numbers, closing a channel by its
  handle frees the slot of the handle and changes no other. From then on the handle is refused, for sending and for closing, with
  no effect, in every later state until the slot has been cleared another \<open>2 ^ 32 - 2\<close> times, also when the slot has been taken by
  another channel.
\<close>

theorem closed_handle_refused:
  fixes s :: "('c, 'd, 'x) dvc_session"
  assumes ok: "unique_ids s" and close: "librdp_session_channel_close_handle hooks h (s, m) = (Inr (), s', m')"
  shows "\<exists>i < RDP_SESSION_MAX_DYNAMIC_CHANNELS. rdp_session_dynamic_channel_from_handle s h = Some i \<and>
    \<not> taken (dn_channels s' ! i) \<and> (\<forall>j. j \<noteq> i \<longrightarrow> dn_channels s' ! j = dn_channels s ! j) \<and>
    (\<forall>t k n data priority. cd_generation (dn_channels t ! i) = (next_generation ^^ n) (cd_generation (dn_channels s' ! i)) \<longrightarrow>
       n < 2 ^ 32 - 2 \<longrightarrow>
       librdp_session_channel_close_handle hooks h (t, k) = (Inl LIBRDP_STATUS_STATE, t, k) \<and>
       (priority \<le> 3 \<longrightarrow> length data \<le> unat (dn_dynamic_channel_message_bytes t) \<longrightarrow>
          librdp_session_channel_send_ex hooks h priority data (t, k) = (Inl LIBRDP_STATUS_STATE, t, k)))"
proof -
  from close obtain i where h: "h \<noteq> 0" "rdp_session_dynamic_channel_from_handle s h = Some i" "cd_active (dn_channels s ! i)"
    and c: "librdp_session_channel_close hooks (cd_channel_id (dn_channels s ! i)) (s, m) = (Inr (), s', m')"
    by (auto simp: librdp_session_channel_close_handle_def abind_Inr handle_entry_Inr aget_def afail_def split: if_splits)
  let ?g = "cd_generation (dn_channels s ! i)"
  have i: "i < RDP_SESSION_MAX_DYNAMIC_CHANNELS" and hs: "h = rdp_session_dynamic_channel_handle s i"
    using h(2) by (simp_all add: from_handle_iff RDP_SESSION_MAX_DYNAMIC_CHANNELS_def)
  have g: "?g \<noteq> 0" "h = push_bit 32 (of_nat i + 1) OR ucast ?g"
    using hs h(1) by (auto simp: rdp_session_dynamic_channel_handle_def split: if_splits)
  note s' = channel_close_clears [OF ok i h(3) c]
  have len: "i < length (dn_channels s)" using ok i by (simp add: unique_ids_def)
  have gen: "cd_generation (dn_channels s' ! i) = next_generation ?g"
    using len by (simp add: s' rdp_session_dynamic_channel_clear_entry_def next_generation_def)
  have none: "rdp_session_dynamic_channel_from_handle t h = None"
    if t: "cd_generation (dn_channels t ! i) = (next_generation ^^ n) (cd_generation (dn_channels s' ! i))" "n < 2 ^ 32 - 2" for t :: "('c, 'd, 'x) dvc_session" and n
  proof (rule ccontr)
    assume "rdp_session_dynamic_channel_from_handle t h \<noteq> None"
    then obtain j where j: "j < 64" "h = rdp_session_dynamic_channel_handle t j" by (auto simp: from_handle_iff)
    then have jh: "h = push_bit 32 (of_nat j + 1) OR ucast (cd_generation (dn_channels t ! j))"
      using h(1) by (auto simp: rdp_session_dynamic_channel_handle_def split: if_splits)
    have "i < 64" using i by (simp add: RDP_SESSION_MAX_DYNAMIC_CHANNELS_def)
    from handle_parts(1) [OF j(1), of "cd_generation (dn_channels t ! j)", folded jh] handle_parts(1) [OF this, of ?g, folded g(2)]
    have "j = i" by simp
    with handle_parts(2) [OF j(1), of "cd_generation (dn_channels t ! j)", folded jh] handle_parts(2) [OF j(1), of ?g] g(2)
    have "cd_generation (dn_channels t ! i) = ?g" by simp
    moreover have "cd_generation (dn_channels t ! i) = (next_generation ^^ Suc n) ?g" using t(1) by (simp only: gen funpow_Suc_right comp_def)
    ultimately show False using generations_differ [OF g(1), of "Suc n"] t(2) by simp
  qed
  show ?thesis
  proof (intro exI [of _ i] conjI allI impI)
    show "\<not> taken (dn_channels s' ! i)" using len by (simp add: s' taken_def rdp_session_dynamic_channel_clear_entry_def)
    fix t :: "('c, 'd, 'x) dvc_session" and k n data and priority :: u8
    assume t: "cd_generation (dn_channels t ! i) = (next_generation ^^ n) (cd_generation (dn_channels s' ! i))" "n < 2 ^ 32 - 2"
    show "librdp_session_channel_close_handle hooks h (t, k) = (Inl LIBRDP_STATUS_STATE, t, k)"
      using h(1) handle_entry_None [OF none [OF t]] by (simp add: librdp_session_channel_close_handle_def abind_def)
    show "librdp_session_channel_send_ex hooks h priority data (t, k) = (Inl LIBRDP_STATUS_STATE, t, k)"
      if "priority \<le> 3" "length data \<le> unat (dn_dynamic_channel_message_bytes t)"
      using that(2) leD [OF that(1)] handle_entry_None [OF none [OF t]] by (simp add: librdp_session_channel_send_ex_def abind_def aget_def)
  qed (use i h(2) in \<open>simp_all add: s'\<close>)
qed

text \<open>A session with one channel of the application, number 5, in its first slot.\<close>

definition free_entry :: "unit rdp_session_dynamic_channel" where
  "free_entry = \<lparr>cd_channel_id = 0, cd_generation = 0, cd_channel_id_bytes = 0, cd_priority = 0, cd_active = False, cd_opening = False,
     cd_client_initiated = False, cd_fragmenting = False, cd_fragment_expected = 0, cd_fragment = rdp_buffer_init,
     cd_decompressor = (), cd_name = []\<rparr>"

definition app_entry :: "unit rdp_session_dynamic_channel" where
  "app_entry = free_entry\<lparr>cd_channel_id := 5, cd_generation := 1, cd_channel_id_bytes := 1, cd_active := True, cd_name := ascii ''app''\<rparr>"

definition sample_dvc :: "unit librdp_session \<Rightarrow> (unit, unit, unit) dvc_session" where
  "sample_dvc w = \<lparr>dn_session = w, dn_connected = True, dn_channels = app_entry # replicate 63 free_entry,
     dn_dynamic_channel_count = 64, dn_dynamic_channel_message_bytes = 1000000, dn_next_dynamic_channel_id = 6, dn_limits_rejected = 0,
     dn_multitransport_udp_active = False, dn_soft_sync_count = 0, dn_udp_reliable_selected = False, dn_udp_lossy_selected = False,
     dn_soft_syncs = 0, dn_events = [], dn_messages = [], dn_features = ()\<rparr>"

definition sample_dvc_hooks :: "(unit, unit, unit) client_dvc_hooks" where
  "sample_dvc_hooks = \<lparr>fk_crypto = sample_crypto, fk_net = (\<lambda>_. LIBRDP_STATUS_OK), fk_decompressor_zero = (), fk_decompressor_init = (),
     fk_decode_segmented_data = (\<lambda>data d. (Inr data, d)), fk_feature_enabled = (\<lambda>_ _. False), fk_feature_ready = (\<lambda>_ _. False),
     fk_credssp_security_ready = (\<lambda>_. False), fk_udp_ready = (\<lambda>_. False), fk_message = (\<lambda>_ _ _ (wx, m). (LIBRDP_STATUS_OK, wx, m)),
     fk_created = (\<lambda>_ (wx, m). (LIBRDP_STATUS_OK, wx, m)), fk_closed = (\<lambda>_ x. x)\<rparr>"

definition plain_session :: "unit librdp_session" where
  "plain_session = (sample_session 0)\<lparr>se_standard_security_active := False, se_dynamic_channel_id := 1005\<rparr>"

lemma sample_unique: "unique_ids (sample_dvc w)"
  by (auto simp: unique_ids_def RDP_SESSION_MAX_DYNAMIC_CHANNELS_def sample_dvc_def taken_def free_entry_def nth_Cons')

lemma plain_channel_pdu_sent:
  assumes w: "\<not> se_standard_security_active w" "RDP_MCS_BASE_CHANNEL_ID \<le> se_mcs_user_id w" and net: "\<And>d. net d = LIBRDP_STATUS_OK"
    and len: "length (contents packet) \<le> 1600"
  shows "\<exists>w'. rdp_session_write_channel_pdu cr net channel packet (w, []) = (LIBRDP_STATUS_OK, w', [])"
proof -
  let ?bs = "fragment_bytes (contents packet) (length (contents packet)) 3"
  let ?data = "send_data_pdu 25 (se_mcs_user_id w) channel ?bs"
  have bs: "length ?bs = length (contents packet) + 8" by (simp add: fragment_bytes_def)
  have pdu: "length ?data \<le> 65000"
    using len bs length_send_data_pdu [of 25 "se_mcs_user_id w" channel ?bs] by simp
  have wf: "fragment_wf (contents packet) (length (contents packet)) 3" using len by (simp add: fragment_wf_def UINT32_MAX_def)
  obtain a where a: "rdp_virtual_channel_write_fragment (contents packet) (length (contents packet)) 3 (rdp_buffer_init, []) =
      (LIBRDP_STATUS_OK, a, [])" "contents a = ?bs"
    by (rule emits_fresh [OF emits_fragment [OF wf]]) (use bs len in auto)
  obtain c where c: "rdp_buffer_append ?bs (rdp_buffer_init, []) = (LIBRDP_STATUS_OK, c, [])" "contents c = ?bs"
    by (rule emits_fresh [OF emits_append, of ?bs]) (use bs len in auto)
  obtain d where d: "rdp_security_write_send_data_request (se_mcs_user_id w) channel ?bs (rdp_buffer_init, []) =
      (LIBRDP_STATUS_OK, d, [])" "contents d = ?data"
    by (rule emits_fresh [OF emits_send_data_request]) (use w bs len pdu in auto)
  obtain x where x: "rdp_x224_wrap_data ?data (rdp_buffer_init, []) = (LIBRDP_STATUS_OK, x, [])" "contents x = [0x02, 0xf0, 0x80] @ ?data"
    by (rule emits_fresh [OF emits_wrap_data]) (use pdu in auto)
  have payload: "length ([0x02, 0xf0, 0x80] @ ?data) \<le> 65531" using pdu by simp
  obtain f where f: "rdp_tpkt_write ([0x02, 0xf0, 0x80] @ ?data) (rdp_buffer_init, []) = (LIBRDP_STATUS_OK, f, [])"
    by (rule emits_fresh [OF emits_atomicallyD(1) [OF tpkt_write_atomic [OF payload]]]) (use pdu in \<open>auto simp: tpkt_frame_def\<close>)
  show ?thesis
    using a c d x f w net
    by (simp add: rdp_session_write_channel_pdu_def rdp_virtual_channel_write_packet_def session_send_data_def
        session_security_payload_def rdp_session_write_mcs_pdu_def Let_def)
qed

lemma sample_close:
  "\<exists>s'. librdp_session_channel_close_handle sample_dvc_hooks 0x100000001 (sample_dvc plain_session, []) = (Inr (), s', []) \<and>
     dn_dynamic_channel_message_bytes s' = 1000000"
proof -
  let ?s = "sample_dvc plain_session"
  have h: "rdp_session_dynamic_channel_from_handle ?s 0x100000001 = Some 0"
    by (simp add: from_handle_iff rdp_session_dynamic_channel_handle_def RDP_SESSION_MAX_DYNAMIC_CHANNELS_def sample_dvc_def
        app_entry_def free_entry_def taken_def)
  have name: "\<not> rdp_session_dynamic_channel_is_internal_name (ascii ''app'')" by code_simp
  have e: "handle_entry 0x100000001 (?s, []) = (Inr 0, ?s, [])"
    using name by (simp add: handle_entry_Inr h ready_for_channels_def)
      (simp add: sample_dvc_def plain_session_def app_entry_def)
  obtain b where b: "rdp_dynamic_channel_write_close 5 1 (rdp_buffer_init, []) = (LIBRDP_STATUS_OK, b, [])" "length (contents b) \<le> 1600"
    by (rule emits_fresh [OF emits_packets(5) [of 1 5]]) (auto simp: sized_ok_def dvc_packet_def sized_bytes_def)
  obtain w where w: "rdp_session_write_channel_pdu sample_crypto (\<lambda>_. LIBRDP_STATUS_OK) 1005 b (plain_session, []) = (LIBRDP_STATUS_OK, w, [])"
    using plain_channel_pdu_sent [OF _ _ refl b(2), of plain_session] by (auto simp: plain_session_def sample_session_def RDP_MCS_BASE_CHANNEL_ID_def)
  have find: "rdp_session_dynamic_channel_find ?s 5 = Some 0"
    by (rule find_unique [OF sample_unique]) (simp_all add: RDP_SESSION_MAX_DYNAMIC_CHANNELS_def sample_dvc_def app_entry_def)
  have entry: "dn_channels ?s ! 0 = app_entry" "cd_channel_id app_entry = 5" "cd_channel_id_bytes app_entry = 1" "cd_name app_entry = ascii ''app''"
    "ready_for_channels ?s" "se_dynamic_channel_id plain_session = 1005" "dn_session ?s = plain_session"
    "dn_dynamic_channel_message_bytes ?s = 1000000"
    by (simp_all add: sample_dvc_def plain_session_def app_entry_def ready_for_channels_def)
  have u: "rdp_session_require_user_channel 5 (?s, []) = (Inr 0, ?s, [])"
    using name by (simp add: rdp_session_require_user_channel_def abind_def aget_def aret_def find entry)
  have wr: "write_dynamic sample_dvc_hooks b (?s, []) = (Inr (), ?s\<lparr>dn_session := w\<rparr>, [])"
    using w by (simp add: write_dynamic_def abind_def aget_def on_session_def acall_def entry sample_dvc_hooks_def)
  show ?thesis
    by (simp add: librdp_session_channel_close_handle_def librdp_session_channel_close_def e u
        abind_def aget_def awrite_def entry b(1) wr amodify_def set_entry_def)
qed

theorem closed_handle_refused_witness:
  "\<exists>s'. librdp_session_channel_close_handle sample_dvc_hooks 0x100000001 (sample_dvc plain_session, []) = (Inr (), s', []) \<and>
     librdp_session_channel_send_ex sample_dvc_hooks 0x100000001 0 [1, 2, 3] (s', []) = (Inl LIBRDP_STATUS_STATE, s', [])"
proof -
  obtain s' where c: "librdp_session_channel_close_handle sample_dvc_hooks 0x100000001 (sample_dvc plain_session, []) = (Inr (), s', [])"
    and limit: "dn_dynamic_channel_message_bytes s' = 1000000"
    using sample_close by blast
  from closed_handle_refused [OF sample_unique c] obtain i where
    "\<forall>t k n data priority. cd_generation (dn_channels t ! i) = (next_generation ^^ n) (cd_generation (dn_channels s' ! i)) \<longrightarrow>
       n < 2 ^ 32 - 2 \<longrightarrow>
       librdp_session_channel_close_handle sample_dvc_hooks 0x100000001 (t, k) = (Inl LIBRDP_STATUS_STATE, t, k) \<and>
       (priority \<le> 3 \<longrightarrow> length data \<le> unat (dn_dynamic_channel_message_bytes t) \<longrightarrow>
          librdp_session_channel_send_ex sample_dvc_hooks 0x100000001 priority data (t, k) = (Inl LIBRDP_STATUS_STATE, t, k))" by auto
  from spec [OF spec [OF spec [OF spec [OF spec [OF this, of s'], of "[]"], of 0], of "[1, 2, 3]"], of 0] c
  have "3 \<le> unat (dn_dynamic_channel_message_bytes s') \<longrightarrow>
    librdp_session_channel_send_ex sample_dvc_hooks 0x100000001 0 [1, 2, 3] (s', []) = (Inl LIBRDP_STATUS_STATE, s', [])" by simp
  with c limit show ?thesis by simp
qed

end
