(* ===== verification/Dynamic_Delivery.thy ===== *)
theory Dynamic_Delivery
  imports Dynamic_Server Dynamic_Client Activation
begin

text \<open>
  Dynamic channels with both ends together: a message that the server sends on a dynamic channel is cut into packets, each packet
  is one message of the static channel \<^verbatim>\<open>drdynvc\<close>, protected and framed, and the client gathers and delivers the message. Then
  runs of the server's table, and what the server does with a first packet that carries no data.
\<close>

section \<open>One packet\<close>

text \<open>Both ends are active on the static channel that carries the dynamic ones.\<close>

definition dvc_linked :: "u16 \<Rightarrow> 'c librdp_server_peer \<Rightarrow> 'c librdp_session \<Rightarrow> bool" where
  "dvc_linked cid p w \<longleftrightarrow> secured p w \<and> pe_state p = LIBRDP_SERVER_PEER_ACTIVE \<and>
     (\<exists>j. rdp_server_static_channel_index p cid = Some j \<and> pe_advertised_channel_joined p ! j) \<and>
     cid \<noteq> 0 \<and> se_dynamic_channel_id w = cid \<and> cid \<noteq> se_message_channel_id w \<and> 1635 \<le> unat (se_pdu_buffer_bytes w)"

lemma send_mcs_joined:
  "rdp_server_send_mcs_pdu net mcs (p, m) = (st, p', m') \<Longrightarrow> pe_advertised_channel_joined p' = pe_advertised_channel_joined p"
  by (auto simp: rdp_server_send_mcs_pdu_def rdp_server_send_x224_data_def rdp_server_peer_send_all_def Let_def
      split: prod.splits if_splits)

lemma fragment_joined:
  "rdp_server_send_static_channel_fragment cr net cid c tot f (p, m) = (st, p', m') \<Longrightarrow>
     pe_advertised_channel_joined p' = pe_advertised_channel_joined p"
  by (auto simp: rdp_server_send_static_channel_fragment_def rdp_server_prepare_outbound_security_payload_def
      dest!: send_mcs_joined split: prod.splits if_splits)

lemma packet_crosses:
  assumes cr: "rc4_involutive cr" "crypto_available cr" and net: "\<And>d. net d = LIBRDP_STATUS_OK"
    and link: "dvc_linked cid p w" and bs: "length bs \<le> 1600"
  obtains p' frame w' where
    "librdp_server_peer_send_channel_data cr net cid bs (p, []) = (LIBRDP_STATUS_OK, p', [])"
    "pe_sent p' = pe_sent p @ [frame]" "dvc_linked cid p' w'"
    "session_receive cr multiparty frame (w, []) = (Inr (Route_Dynamic (fragment_packet bs (length bs) 3)), w', [])"
proof -
  obtain j where j: "rdp_server_static_channel_index p cid = Some j" "pe_advertised_channel_joined p ! j"
    and l: "secured p w" "pe_state p = LIBRDP_SERVER_PEER_ACTIVE" "cid \<noteq> 0" "se_dynamic_channel_id w = cid"
      "cid \<noteq> se_message_channel_id w" "1635 \<le> unat (se_pdu_buffer_bytes w)"
    using link unfolding dvc_linked_def by blast
  have wf: "fragment_wf bs (length bs) 3" "length bs \<le> RDP_SERVER_STATIC_CHANNEL_CHUNK_SIZE"
    using bs by (simp_all add: fragment_wf_def UINT32_MAX_def RDP_SERVER_STATIC_CHANNEL_CHUNK_SIZE_def)
  obtain p1 x k where send:
    "rdp_server_send_static_channel_fragment cr net cid bs (length bs) 3 (p, []) = (LIBRDP_STATUS_OK, p1, [])"
    "pe_sent p1 = pe_sent p @ [indication_frame (pe_user_id p) cid x]" "x \<noteq> []" "length x \<le> length bs + 20"
    and un: "session_unwrap cr \<lparr>sdi_initiator = pe_user_id p, sdi_channel_id = cid, sdi_payload = x, sdi_payload_len = length x\<rparr> (w, []) =
      (Inr (if pe_standard_security_ready p then RDP_SEC_ENCRYPT else 0, fragment_bytes bs (length bs) 3),
       w\<lparr>se_standard_security := k\<rparr>, [])"
    and sec: "secured p1 (w\<lparr>se_standard_security := k\<rparr>)"
    by (rule server_sends_fragment [where net = net, OF cr net l(1,5) wf])
  let ?p = "p1\<lparr>pe_static_channel_out := rdp_server_metric_add (pe_static_channel_out p1) 1,
      pe_static_channel_bytes_out := rdp_server_metric_add (pe_static_channel_bytes_out p1) (of_nat (length bs))\<rparr>"
  have one: "chunks bs = [bs]" using wf(2) by (simp add: chunks.simps)
  have flags: "flags_first_last = 3" by (simp add: RDP_VIRTUAL_CHANNEL_FLAG_FIRST_def RDP_VIRTUAL_CHANNEL_FLAG_LAST_def)
  have run: "librdp_server_peer_send_channel_data cr net cid bs (p, []) = (LIBRDP_STATUS_OK, ?p, [])"
    using j l(2) bs send(1) [folded flags]
    by (simp add: librdp_server_peer_send_channel_data_def send_fragments_chunks one RDP_SERVER_STATIC_MESSAGE_MAX_def)
  have state: "pe_state ?p = pe_state p"
    using send_channel_frame [unfolded wire_frame_def, rule_format, OF run] by simp
  have user: "RDP_MCS_BASE_CHANNEL_ID \<le> pe_user_id p" using l(1) by (simp add: secured_def)
  have "length (indication_frame (pe_user_id p) cid x) \<le> unat (se_pdu_buffer_bytes w)" "length x \<le> 0x7fff"
    using length_indication_frame [of "pe_user_id p" cid x] send(4) bs l(6) by simp_all
  then obtain w1 where
    w1: "rdp_session_read_mcs_pdu_internal (indication_frame (pe_user_id p) cid x) w =
        (Inr (send_data_pdu RDP_MCS_PDU_SEND_DATA_INDICATION (pe_user_id p) cid x), w1)"
      "w1 = w\<lparr>se_transport_bytes_read := se_transport_bytes_read w1, se_pdu_in := se_pdu_in w1\<rparr>"
    and ind: "rdp_mcs_parse_send_data_indication (send_data_pdu RDP_MCS_PDU_SEND_DATA_INDICATION (pe_user_id p) cid x) =
      Inr \<lparr>sdi_initiator = pe_user_id p, sdi_channel_id = cid, sdi_payload = x, sdi_payload_len = length x\<rparr>"
    using client_reads_indication [OF user send(3)] by metis
  define w3 where "w3 = w\<lparr>se_standard_security := k, se_transport_bytes_read := se_transport_bytes_read w1, se_pdu_in := se_pdu_in w1\<rparr>"
  note un1 = unwrap_counted [OF un, where a = "se_transport_bytes_read w1" and b = "se_pdu_in w1", folded w1(2) w3_def]
  have flag: "(if pe_standard_security_ready p then RDP_SEC_ENCRYPT else 0) AND RDP_SEC_REDIRECTION_PKT = 0"
    by (simp add: RDP_SEC_ENCRYPT_def RDP_SEC_REDIRECTION_PKT_def)
  let ?w = "count_channel_packet (fragment_packet bs (length bs) 3) w3"
  have dispatch: "session_dispatch multiparty \<lparr>sdi_initiator = pe_user_id p, sdi_channel_id = cid, sdi_payload = x, sdi_payload_len = length x\<rparr>
      (if pe_standard_security_ready p then RDP_SEC_ENCRYPT else 0) (fragment_bytes bs (length bs) 3) (w3, []) =
    (Inr (Route_Dynamic (fragment_packet bs (length bs) 3)), ?w, [])"
    using l(3-5) flag parse_fragment [OF wf(1)] by (simp add: session_dispatch_def w3_def Let_def)
  have rec: "session_receive cr multiparty (indication_frame (pe_user_id p) cid x) (w, []) =
      (Inr (Route_Dynamic (fragment_packet bs (length bs) 3)), ?w, [])"
    using dispatch by (simp add: session_receive_def w1(1) ind un1)
  have index: "rdp_server_static_channel_index ?p cid = Some j"
    using j(1) by (simp add: rdp_server_static_channel_index_def fragment_joined [OF send(1)] Let_def split: if_splits)
  have "dvc_linked cid ?p ?w"
    using l sec state j(2) index fragment_joined [OF send(1)]
    by (simp add: dvc_linked_def secured_def w3_def count_channel_packet_def)
  from that [OF run _ this rec] send(2) show ?thesis by simp
qed

section \<open>The client gathers\<close>

text \<open>An open channel of the application, in slot \<open>j\<close>: idle, or gathering with \<open>pre\<close> of a message of \<open>tot\<close> bytes there.\<close>

definition open_at :: "u32 \<Rightarrow> nat \<Rightarrow> ('c, 'd, 'x) dvc_session \<Rightarrow> bool" where
  "open_at k j s \<longleftrightarrow> rdp_session_dynamic_channel_find s k = Some j \<and> length (dn_channels s) = RDP_SESSION_MAX_DYNAMIC_CHANNELS \<and>
     \<not> rdp_session_dynamic_channel_is_internal_name (cd_name (dn_channels s ! j))"

definition idle_at :: "u32 \<Rightarrow> nat \<Rightarrow> ('c, 'd, 'x) dvc_session \<Rightarrow> bool" where
  "idle_at k j s \<longleftrightarrow> open_at k j s \<and> \<not> cd_fragmenting (dn_channels s ! j)"

definition gathering_at :: "u32 \<Rightarrow> nat \<Rightarrow> nat \<Rightarrow> u8 list \<Rightarrow> ('c, 'd, 'x) dvc_session \<Rightarrow> bool" where
  "gathering_at k j tot pre s \<longleftrightarrow> open_at k j s \<and> cd_fragmenting (dn_channels s ! j) \<and> buf_ok (cd_fragment (dn_channels s ! j)) \<and>
     contents (cd_fragment (dn_channels s ! j)) = pre \<and> unat (cd_fragment_expected (dn_channels s ! j)) = tot"

text \<open>Everything but the fragment of the channel is as before, and the messages and events are these.\<close>

definition progress :: "nat \<Rightarrow> ('c, 'd, 'x) dvc_session \<Rightarrow> ('c, 'd, 'x) dvc_session \<Rightarrow> (u32 \<times> u8 list) list \<Rightarrow> dvc_event list \<Rightarrow> bool" where
  "progress j s s' messages events \<longleftrightarrow> dn_session s' = dn_session s \<and> dn_messages s' = dn_messages s @ messages \<and>
     dn_events s' = dn_events s @ events \<and> dn_features s' = dn_features s \<and>
     dn_dynamic_channel_message_bytes s' = dn_dynamic_channel_message_bytes s \<and>
     cd_name (dn_channels s' ! j) = cd_name (dn_channels s ! j) \<and> (\<forall>i. i \<noteq> j \<longrightarrow> dn_channels s' ! i = dn_channels s ! i)"

lemma find_set:
  assumes "\<And>e. cd_active (f e) = cd_active e \<and> cd_channel_id (f e) = cd_channel_id e" "dn_channels s' = dn_channels (set_entry j f s)"
    "length (dn_channels s) = RDP_SESSION_MAX_DYNAMIC_CHANNELS"
  shows "rdp_session_dynamic_channel_find s' k = rdp_session_dynamic_channel_find s k"
proof -
  have "cd_active (dn_channels s' ! i) = cd_active (dn_channels s ! i) \<and> cd_channel_id (dn_channels s' ! i) = cd_channel_id (dn_channels s ! i)"
    if "i < RDP_SESSION_MAX_DYNAMIC_CHANNELS" for i
    using assms that by (cases "i = j") (auto simp: set_entry_def)
  then show ?thesis unfolding rdp_session_dynamic_channel_find_def find_entry_def by (intro find_cong) auto
qed

lemma open_at_bounds:
  assumes "open_at k j s"
  shows "j < length (dn_channels s)" "cd_active (dn_channels s ! j)" "cd_channel_id (dn_channels s ! j) = k"
  using assms find_entry_Some unfolding open_at_def rdp_session_dynamic_channel_find_def by fastforce+

lemma open_at_set:
  assumes "open_at k j s" "\<And>e. cd_active (f e) = cd_active e \<and> cd_channel_id (f e) = cd_channel_id e \<and> cd_name (f e) = cd_name e"
    "dn_channels s' = dn_channels (set_entry j f s)"
  shows "open_at k j s'"
proof -
  have "dn_channels s' ! j = f (dn_channels s ! j)" "length (dn_channels s') = length (dn_channels s)"
    using open_at_bounds(1) [OF assms(1)] by (simp_all add: assms(3) set_entry_def)
  then show ?thesis using assms find_set [of f s' j s k] by (simp add: open_at_def)
qed

text \<open>A complete message of such a channel is an event for the application.\<close>

lemma message_emitted:
  assumes "\<not> rdp_session_dynamic_channel_is_internal_name (cd_name e)" "cd_channel_id e = k"
  shows "rdp_session_handle_dynamic_channel_message hooks e k data (s, m) =
    (Inr (), s\<lparr>dn_messages := dn_messages s @ [(k, data)], dn_events := dn_events s @ [Channel_Data k (cd_name e) data]\<rparr>, m)"
  using assms by (simp add: rdp_session_handle_dynamic_channel_message_def abind_def amodify_def aget_def emit_event_def)

lemma message_freed:
  assumes "open_at k j s"
  shows "\<exists>s'. handle_and_free hooks j k (s, m) = (Inr (), s', m) \<and> open_at k j s' \<and>
    cd_fragmenting (dn_channels s' ! j) = cd_fragmenting (dn_channels s ! j) \<and>
    progress j s s' [(k, contents (cd_fragment (dn_channels s ! j)))]
      [Channel_Data k (cd_name (dn_channels s ! j)) (contents (cd_fragment (dn_channels s ! j)))]"
proof -
  let ?e = "dn_channels s ! j"
  let ?f = "\<lambda>entry. entry\<lparr>cd_fragment := rdp_buffer_init, cd_fragment_expected := 0\<rparr>"
  let ?s = "set_entry j ?f (s\<lparr>dn_messages := dn_messages s @ [(k, contents (cd_fragment ?e))],
      dn_events := dn_events s @ [Channel_Data k (cd_name ?e) (contents (cd_fragment ?e))]\<rparr>)"
  have e: "\<not> rdp_session_dynamic_channel_is_internal_name (cd_name ?e)" using assms by (simp add: open_at_def)
  note b = open_at_bounds [OF assms]
  have "handle_and_free hooks j k (s, m) = (Inr (), ?s, m)"
    by (simp add: handle_and_free_def Let_def abind_def aget_def on_error_def message_emitted [OF e b(3)] amodify_def)
  moreover have "open_at k j ?s" by (rule open_at_set [OF assms, of ?f]) (simp_all add: set_entry_def)
  ultimately show ?thesis using b(1) by (intro exI [of _ ?s]) (simp add: progress_def set_entry_def)
qed

text \<open>The end of gathering: the message is handed over and its buffer freed.\<close>

lemma message_finished:
  assumes "open_at k j t" "progress j s t [] []" "\<not> cd_fragmenting (dn_channels t ! j)" "contents (cd_fragment (dn_channels t ! j)) = message"
  shows "\<exists>s'. handle_and_free hooks j k (t, m) = (Inr (), s', m) \<and> idle_at k j s' \<and>
    progress j s s' [(k, message)] [Channel_Data k (cd_name (dn_channels s ! j)) message]"
proof -
  obtain s' where s': "handle_and_free hooks j k (t, m) = (Inr (), s', m)" "open_at k j s'"
    "cd_fragmenting (dn_channels s' ! j) = cd_fragmenting (dn_channels t ! j)"
    "progress j t s' [(k, message)] [Channel_Data k (cd_name (dn_channels t ! j)) message]"
    using message_freed [OF assms(1), of hooks m] assms(4) by auto
  then show ?thesis using assms(2,3) by (intro exI [of _ s']) (auto simp: idle_at_def progress_def)
qed

lemma client_single:
  assumes s: "idle_at k j s" and n: "sized_ok n k" "sp < 4"
  shows "\<exists>s'. client_data hooks (dvc_packet 3 sp n k data) (s, m) = (Inr (), s', m) \<and> idle_at k j s' \<and>
    progress j s s' [(k, data)] [Channel_Data k (cd_name (dn_channels s ! j)) data]"
proof -
  let ?e = "dn_channels s ! j"
  let ?s = "s\<lparr>dn_messages := dn_messages s @ [(k, data)], dn_events := dn_events s @ [Channel_Data k (cd_name ?e) data]\<rparr>"
  have o: "open_at k j s" "\<not> cd_fragmenting ?e" using s by (simp_all add: idle_at_def)
  have e: "\<not> rdp_session_dynamic_channel_is_internal_name (cd_name ?e)" "rdp_session_dynamic_channel_find s k = Some j"
    using o(1) by (simp_all add: open_at_def)
  have "client_data hooks (dvc_packet 3 sp n k data) (s, m) = (Inr (), ?s, m)"
    by (simp add: client_data_def parse_packets(1) [OF n] abind_def alift_def aget_def e(2) o(2)
        message_emitted [OF e(1) open_at_bounds(3) [OF o(1)]])
  moreover have "rdp_session_dynamic_channel_find ?s k = Some j" using e(2) by (simp add: rdp_session_dynamic_channel_find_def)
  then have "idle_at k j ?s" using o by (simp add: idle_at_def open_at_def)
  ultimately show ?thesis by (intro exI [of _ ?s]) (simp add: progress_def)
qed

lemma fill_fragment_run:
  assumes "w (cd_fragment (dn_channels s ! j), m) = (LIBRDP_STATUS_OK, b, m')"
  shows "fill_fragment j w (s, m) = (Inr (), set_entry j (\<lambda>entry. entry\<lparr>cd_fragment := b\<rparr>) s, m')"
  using assms by (simp add: fill_fragment_def afill_def)

lemma client_continues:
  assumes s: "gathering_at k j tot pre s" and n: "sized_ok n k" "sp < 4"
    and c: "c \<noteq> []" "length pre + length c \<le> tot"
  shows "\<exists>s'. client_data hooks (dvc_packet 3 sp n k c) (s, []) = (Inr (), s', []) \<and>
    (if length pre + length c = tot
     then idle_at k j s' \<and> progress j s s' [(k, pre @ c)] [Channel_Data k (cd_name (dn_channels s ! j)) (pre @ c)]
     else gathering_at k j tot (pre @ c) s' \<and> progress j s s' [] [])"
proof -
  let ?e = "dn_channels s ! j"
  have o: "open_at k j s" "cd_fragmenting ?e" "buf_ok (cd_fragment ?e)" "contents (cd_fragment ?e) = pre"
    "unat (cd_fragment_expected ?e) = tot" using s by (simp_all add: gathering_at_def)
  have len: "buf_length (cd_fragment ?e) = length pre" using length_contents [OF o(3)] o(4) by simp
  have "tot < 2 ^ 32" using unsigned_less [of "cd_fragment_expected ?e", where ?'a = nat] o(5) by simp
  obtain st b m' where b0: "rdp_buffer_append c (cd_fragment ?e, []) = (st, b, m')" by (rule prod_cases3)
  note eb = emitsD [OF emits_append o(3) b0]
  have b: "rdp_buffer_append c (cd_fragment ?e, []) = (LIBRDP_STATUS_OK, b, [])" "buf_ok b" "contents b = pre @ c"
    using b0 eb len c(2) \<open>tot < 2 ^ 32\<close> o(4) by auto
  have blen: "buf_length b = length pre + length c" using length_contents [OF b(2)] b(3) by simp
  let ?f = "\<lambda>entry. entry\<lparr>cd_fragment := b\<rparr>"
  let ?s = "set_entry j ?f s"
  have j: "j < length (dn_channels s)" by (rule open_at_bounds(1) [OF o(1)])
  have "open_at k j ?s" by (rule open_at_set [OF o(1), of ?f]) simp_all
  with j have s1: "open_at k j ?s" "dn_channels ?s ! j = ?e\<lparr>cd_fragment := b\<rparr>" "progress j s ?s [] []"
    by (auto simp: set_entry_def progress_def)
  have find: "rdp_session_dynamic_channel_find s k = Some j" using o(1) by (simp add: open_at_def)
  have run: "client_data hooks (dvc_packet 3 sp n k c) (s, []) = continue_fragment hooks j k c (s, [])"
    using c(1) le_diff_conv2 [of "length pre" tot "length c"] c(2)
    by (simp add: client_data_def parse_packets(1) [OF n] abind_def alift_def aget_def find Let_def o len not_less)
  have fr: "fill_fragment j (rdp_buffer_append c) (s, []) = (Inr (), ?s, [])" by (rule fill_fragment_run) (rule b(1))
  have fill: "continue_fragment hooks j k c (s, []) =
      (if length pre + length c < tot then (Inr (), ?s, [])
       else handle_and_free hooks j k (set_entry j (\<lambda>entry. entry\<lparr>cd_fragmenting := False\<rparr>) ?s, []))"
    by (simp add: continue_fragment_def fr abind_def aget_def aret_def amodify_def s1(2) blen o(5))
  show ?thesis
  proof (cases "length pre + length c = tot")
    case False
    then have "gathering_at k j tot (pre @ c) ?s" using s1 o b c(2) by (simp add: gathering_at_def)
    then show ?thesis using run fill False c(2) s1(3) by (intro exI [of _ ?s]) simp
  next
    case True
    let ?g = "\<lambda>entry. entry\<lparr>cd_fragmenting := False\<rparr>"
    let ?t = "set_entry j ?g ?s"
    have te: "dn_channels ?t ! j = ?e\<lparr>cd_fragment := b, cd_fragmenting := False\<rparr>" using j by (simp add: set_entry_def)
    have "\<exists>s'. handle_and_free hooks j k (?t, []) = (Inr (), s', []) \<and> idle_at k j s' \<and>
        progress j s s' [(k, pre @ c)] [Channel_Data k (cd_name ?e) (pre @ c)]"
    proof (rule message_finished)
      show "open_at k j ?t" by (rule open_at_set [OF s1(1), of ?g]) simp_all
      show "progress j s ?t [] []" using j by (auto simp: progress_def set_entry_def)
    qed (simp_all add: te b(3))
    then show ?thesis using run fill True by simp
  qed
qed

lemma client_starts:
  assumes s: "idle_at k j s" and n: "sized_ok n k" "sized_ok l tot" "tot \<noteq> 0" "length c \<le> unat tot"
    and limit: "tot \<le> dn_dynamic_channel_message_bytes s"
  shows "\<exists>s'. client_data_first hooks (dvc_packet 2 (rdp_dynamic_channel_length_code l) n k (sized_bytes l tot @ c)) (s, []) =
      (Inr (), s', []) \<and>
    (if length c = unat tot then idle_at k j s' \<and> progress j s s' [(k, c)] [Channel_Data k (cd_name (dn_channels s ! j)) c]
     else gathering_at k j (unat tot) c s' \<and> progress j s s' [] [])"
proof -
  let ?e = "dn_channels s ! j"
  have o: "open_at k j s" "\<not> cd_fragmenting ?e" using s by (simp_all add: idle_at_def)
  have find: "rdp_session_dynamic_channel_find s k = Some j" using o(1) by (simp add: open_at_def)
  note j = open_at_bounds(1) [OF o(1)]
  have tot: "unat tot < 2 ^ 32" using unsigned_less [of tot, where ?'a = nat] by simp
  obtain b1 where b1: "rdp_buffer_reserve (unat tot) (rdp_buffer_init, []) = (LIBRDP_STATUS_OK, b1, [])"
    using reserve_succeeds [OF buf_ok_init, of "unat tot"] tot by auto
  note r = reserve_spec [OF buf_ok_init b1]
  obtain st b m' where b0: "rdp_buffer_append c (b1, []) = (st, b, m')" by (rule prod_cases3)
  note eb = emitsD [OF emits_append r(1) b0]
  have b: "rdp_buffer_append c (b1, []) = (LIBRDP_STATUS_OK, b, [])" "buf_ok b" "contents b = c"
    using b0 eb r(2,3) n(4) tot by auto
  have blen: "buf_length b = length c" using length_contents [OF b(2)] b(3) by simp
  have fill: "run_writers [rdp_buffer_reserve (unat tot), rdp_buffer_append c] (rdp_buffer_init, []) = (LIBRDP_STATUS_OK, b, [])"
    using b1 b(1) by simp
  let ?u = "set_entry j (\<lambda>entry. entry\<lparr>cd_fragment := rdp_buffer_init\<rparr>) s"
  let ?v = "set_entry j (\<lambda>entry. entry\<lparr>cd_fragment := b\<rparr>) ?u"
  let ?f = "\<lambda>entry. entry\<lparr>cd_fragment_expected := tot, cd_fragmenting := buf_length (cd_fragment entry) < unat tot\<rparr>"
  let ?s = "set_entry j ?f ?v"
  have fr: "fill_fragment j (run_writers [rdp_buffer_reserve (unat tot), rdp_buffer_append c]) (?u, []) = (Inr (), ?v, [])"
    by (rule fill_fragment_run) (use fill j in \<open>simp add: set_entry_def\<close>)
  have entry: "dn_channels ?s ! j = ?e\<lparr>cd_fragment := b, cd_fragment_expected := tot, cd_fragmenting := length c < unat tot\<rparr>"
    using j blen by (simp add: set_entry_def)
  have run: "client_data_first hooks (dvc_packet 2 (rdp_dynamic_channel_length_code l) n k (sized_bytes l tot @ c)) (s, []) =
      (if length c < unat tot then (Inr (), ?s, []) else handle_and_free hooks j k (?s, []))"
    using leD [OF limit] n(3)
    by (simp add: client_data_first_def parse_first(1) [OF n] first_entry_def start_fragment_def
        abind_def alift_def aget_def aret_def amodify_def find o(2) fr entry)
  have "open_at k j ?u" by (rule open_at_set [OF o(1), of "\<lambda>entry. entry\<lparr>cd_fragment := rdp_buffer_init\<rparr>"]) simp_all
  then have "open_at k j ?v" by (rule open_at_set [of k j ?u "\<lambda>entry. entry\<lparr>cd_fragment := b\<rparr>"]) simp_all
  then have os: "open_at k j ?s" by (rule open_at_set [of k j ?v ?f]) simp_all
  have pr: "progress j s ?s [] []" using j by (auto simp: progress_def set_entry_def)
  show ?thesis
  proof (cases "length c = unat tot")
    case True
    have "\<exists>s'. handle_and_free hooks j k (?s, []) = (Inr (), s', []) \<and> idle_at k j s' \<and>
        progress j s s' [(k, c)] [Channel_Data k (cd_name ?e) c]"
      by (rule message_finished [OF os pr]) (simp_all add: entry True b(3))
    then show ?thesis using run True by simp
  next
    case False
    then show ?thesis using run entry b n(4) os pr by (intro exI [of _ ?s]) (simp add: gathering_at_def)
  qed
qed

section \<open>Both ends\<close>

text \<open>What the application of the client sees of \<open>s'\<close> after \<open>s\<close>, on channel slot \<open>j\<close>; the wire has moved on.\<close>

definition advance :: "nat \<Rightarrow> ('c, 'd, 'x) dvc_session \<Rightarrow> ('c, 'd, 'x) dvc_session \<Rightarrow> (u32 \<times> u8 list) list \<Rightarrow> dvc_event list \<Rightarrow> bool" where
  "advance j s s' messages events \<longleftrightarrow> progress j (s\<lparr>dn_session := dn_session s'\<rparr>) s' messages events"

lemma advance_trans: "advance j s t a b \<Longrightarrow> advance j t u c d \<Longrightarrow> advance j s u (a @ c) (b @ d)"
  by (simp add: advance_def progress_def)

lemma progress_advance: "progress j (s\<lparr>dn_session := w\<rparr>) t a b \<Longrightarrow> advance j s t a b"
  by (simp add: advance_def progress_def)

lemma at_session [simp]:
  "open_at k j (s\<lparr>dn_session := w\<rparr>) = open_at k j s" "idle_at k j (s\<lparr>dn_session := w\<rparr>) = idle_at k j s"
  "gathering_at k j tot pre (s\<lparr>dn_session := w\<rparr>) = gathering_at k j tot pre s"
  by (simp_all add: open_at_def idle_at_def gathering_at_def rdp_session_dynamic_channel_find_def)

definition bridge :: "u16 \<Rightarrow> ('c, 'k, 'n, 'y) dvc_peer \<Rightarrow> ('c, 'd, 'x) dvc_session \<Rightarrow> bool" where
  "bridge cid p s \<longleftrightarrow> dvc_linked cid (sp_wire p) (dn_session s) \<and> rdp_server_dynamic_static_channel_id p = cid"

text \<open>The frames of the control stream in the client, one after the other.\<close>

fun client_frames ::
    "('c, 'd, 'x) client_dvc_hooks \<Rightarrow> (u8 list \<Rightarrow> librdp_status) \<Rightarrow> u8 list list \<Rightarrow> ('c, 'd, 'x, unit) dvc_client" where
  "client_frames hooks multiparty [] = aret ()"
| "client_frames hooks multiparty (f # fs) = athen (session_dynamic_branch hooks multiparty f) (client_frames hooks multiparty fs)"

lemma client_frames_append:
  "client_frames hooks multiparty fs (s, m) = (Inr (), t, k) \<Longrightarrow>
    client_frames hooks multiparty (fs @ gs) (s, m) = client_frames hooks multiparty gs (t, k)"
  by (induction fs arbitrary: s m) (auto simp: aret_def abind_def split: prod.splits sum.splits)

text \<open>An action of the server, seen from both ends: it succeeds and changes the wire only; the client takes the frames it sent.\<close>

definition carries ::
    "('c, 'd, 'x) client_dvc_hooks \<Rightarrow> (u8 list \<Rightarrow> librdp_status) \<Rightarrow> u16 \<Rightarrow> nat \<Rightarrow> ('c, 'k, 'n, 'y) dvc_action \<Rightarrow>
     ('c, 'k, 'n, 'y) dvc_peer \<Rightarrow> ('c, 'd, 'x) dvc_session \<Rightarrow> ('c, 'k, 'n, 'y) dvc_peer \<Rightarrow> ('c, 'd, 'x) dvc_session \<Rightarrow>
     (u32 \<times> u8 list) list \<Rightarrow> dvc_event list \<Rightarrow> bool" where
  "carries hooks multiparty cid j act p s p' t messages events \<longleftrightarrow>
     act (p, []) = (Inr (), p', []) \<and> p' = p\<lparr>sp_wire := sp_wire p'\<rparr> \<and> bridge cid p' t \<and> advance j s t messages events \<and>
     (\<exists>frames. pe_sent (sp_wire p') = pe_sent (sp_wire p) @ frames \<and> client_frames hooks multiparty frames (s, []) = (Inr (), t, []))"

lemma carriesD:
  assumes "carries hooks multiparty cid j act p s p' t messages events"
  shows "act (p, []) = (Inr (), p', [])" "p' = p\<lparr>sp_wire := sp_wire p'\<rparr>" "bridge cid p' t" "advance j s t messages events"
  using assms by (auto simp: carries_def)

lemma carries_then:
  assumes 1: "carries hooks multiparty cid j act p s p1 s1 a b" and 2: "carries hooks multiparty cid j act' p1 s1 p2 s2 c d"
  shows "carries hooks multiparty cid j (athen act act') p s p2 s2 (a @ c) (b @ d)"
proof -
  obtain f g where
    f: "pe_sent (sp_wire p1) = pe_sent (sp_wire p) @ f" "client_frames hooks multiparty f (s, []) = (Inr (), s1, [])" and
    g: "pe_sent (sp_wire p2) = pe_sent (sp_wire p1) @ g" "client_frames hooks multiparty g (s1, []) = (Inr (), s2, [])"
    using 1 2 by (auto simp: carries_def)
  have "p2 = p\<lparr>sp_wire := sp_wire p2\<rparr>"
    using carriesD(2) [OF 1] carriesD(2) [OF 2] by (metis server_peer.update_convs(1) server_peer.surjective)
  moreover have "pe_sent (sp_wire p2) = pe_sent (sp_wire p) @ (f @ g)" using f(1) g(1) by simp
  moreover have "client_frames hooks multiparty (f @ g) (s, []) = (Inr (), s2, [])" using client_frames_append [OF f(2)] g(2) by simp
  ultimately show ?thesis
    using carriesD(1) [OF 1] carriesD(1,3) [OF 2] advance_trans [OF carriesD(4) [OF 1] carriesD(4) [OF 2]]
    unfolding carries_def by (auto simp: abind_def)
qed

lemma carries_nothing: "bridge cid p s \<Longrightarrow> carries hooks multiparty cid j (aret ()) p s p s [] []"
  by (auto simp: carries_def aret_def advance_def progress_def intro: exI [of _ "[]"])

lemma packet_delivered:
  assumes cr: "rc4_involutive (env_crypto env)" "crypto_available (env_crypto env)" "fk_crypto hooks = env_crypto env"
    and net: "\<And>d. env_net env d = LIBRDP_STATUS_OK"
    and link: "bridge cid p s" and b: "length (contents b) \<le> 1600"
    and handle: "\<And>w. \<exists>t. rdp_session_handle_dynamic_channel hooks (fragment_packet (contents b) (length (contents b)) 3)
      (s\<lparr>dn_session := w\<rparr>, []) = (Inr (), t, []) \<and> P t \<and> progress j (s\<lparr>dn_session := w\<rparr>) t messages events"
  obtains p' t where "carries hooks multiparty cid j (rdp_server_send_dynamic_packet env b) p s p' t messages events" "P t"
proof -
  have l: "dvc_linked cid (sp_wire p) (dn_session s)" "rdp_server_dynamic_static_channel_id p = cid" using link by (simp_all add: bridge_def)
  obtain w frame v where
    w: "librdp_server_peer_send_channel_data (env_crypto env) (env_net env) cid (contents b) (sp_wire p, []) = (LIBRDP_STATUS_OK, w, [])"
      "pe_sent w = pe_sent (sp_wire p) @ [frame]" "dvc_linked cid w v"
    and rec: "session_receive (env_crypto env) multiparty frame (dn_session s, []) =
      (Inr (Route_Dynamic (fragment_packet (contents b) (length (contents b)) 3)), v, [])"
    by (rule packet_crosses [where net = "env_net env", OF cr(1,2) net l(1) b])
  obtain t where t: "rdp_session_handle_dynamic_channel hooks (fragment_packet (contents b) (length (contents b)) 3)
      (s\<lparr>dn_session := v\<rparr>, []) = (Inr (), t, [])" "P t" "progress j (s\<lparr>dn_session := v\<rparr>) t messages events"
    using handle by blast
  have cid: "cid \<noteq> 0" using l(1) by (simp add: dvc_linked_def)
  have "rdp_server_send_dynamic_packet env b (p, []) = (Inr (), p\<lparr>sp_wire := w\<rparr>, [])"
    using w(1) l(2) cid by (simp add: rdp_server_send_dynamic_packet_def abind_def aget_def on_wire_def)
  moreover have "client_frames hooks multiparty [frame] (s, []) = (Inr (), t, [])"
    using rec t(1) by (simp add: session_dynamic_branch_def cr(3) on_error_def abind_def aret_def)
  moreover have "bridge cid (p\<lparr>sp_wire := w\<rparr>) t"
    using w(3) t(3) l(2) by (auto simp: bridge_def progress_def rdp_server_dynamic_static_channel_id_def)
  ultimately have "carries hooks multiparty cid j (rdp_server_send_dynamic_packet env b) p s (p\<lparr>sp_wire := w\<rparr>) t messages events"
    using w(2) progress_advance [OF t(3)] unfolding carries_def by (intro conjI exI [of _ "[frame]"]) simp_all
  from that [OF this t(2)] show ?thesis .
qed

lemma dispatch_data:
  assumes "sized_ok n k" "sp < 4"
  shows "rdp_session_handle_dynamic_channel hooks (fragment_packet (dvc_packet 3 sp n k c) tot f) = client_data hooks (dvc_packet 3 sp n k c)"
  using parse_header_packet(1) [OF sized_sizes [OF assms(1)], of 3 sp k c] assms(2)
  by (simp add: rdp_session_handle_dynamic_channel_def fragment_packet_def abind_def alift_def Let_def fun_eq_iff)

lemma dispatch_first:
  assumes "sized_ok n k" "sized_ok l tot"
  shows "rdp_session_handle_dynamic_channel hooks
      (fragment_packet (dvc_packet 2 (rdp_dynamic_channel_length_code l) n k (sized_bytes l tot @ c)) len f) =
    client_data_first hooks (dvc_packet 2 (rdp_dynamic_channel_length_code l) n k (sized_bytes l tot @ c))"
  using parse_header_packet(2) [OF sized_sizes [OF assms(1)] _ _ small_codes(1) sized_sizes [OF assms(2)] refl, of 2]
  by (simp add: rdp_session_handle_dynamic_channel_def fragment_packet_def abind_def alift_def Let_def fun_eq_iff)

lemma length_dvc_packet: "sized_ok n k \<Longrightarrow> length (dvc_packet c sp n k data) = 1 + unat n + length data"
  by (simp add: dvc_packet_def length_sized)

lemma priority_code: "(pr :: u8) \<le> 3 \<Longrightarrow> pr < 4"
  by (simp add: word_le_nat_alt word_less_nat_alt)

lemma written:
  assumes "emits w bs" "buf_ok b" "length bs \<le> 1600"
  obtains b' where "awrite_at (buf_truncate 0 b) w (p, []) = (Inr b', p, [])" "buf_ok b'" "contents b' = bs"
proof -
  have z: "buf_ok (buf_truncate 0 b)" "contents (buf_truncate 0 b) = []" "buf_length (buf_truncate 0 b) = 0"
    using buf_truncate_ok [OF assms(2), of 0] by (simp_all add: buf_truncate_def)
  obtain st b' m' where b0: "w (buf_truncate 0 b, []) = (st, b', m')" by (rule prod_cases3)
  note eb = emitsD [OF assms(1) z(1) b0]
  show ?thesis by (rule that [of b']) (use b0 eb z assms(3) in \<open>auto simp: awrite_at_def\<close>)
qed

text \<open>The packets after the first complete the message.\<close>

lemma rest_delivered:
  assumes cr: "rc4_involutive (env_crypto env)" "crypto_available (env_crypto env)" "fk_crypto hooks = env_crypto env"
    and net: "\<And>d. env_net env d = LIBRDP_STATUS_OK"
    and n: "sized_ok n k" "pr \<le> 3" and cap: "0 < cap" "1 + unat n + cap \<le> 1600"
  shows "rest \<noteq> [] \<Longrightarrow> bridge cid p s \<Longrightarrow> gathering_at k j tot pre s \<Longrightarrow> length pre + length rest = tot \<Longrightarrow> buf_ok b \<Longrightarrow>
    \<exists>p' t. carries hooks multiparty cid j (send_rest env k n pr cap b rest) p s p' t
        [(k, pre @ rest)] [Channel_Data k (cd_name (dn_channels s ! j)) (pre @ rest)] \<and> idle_at k j t"
proof (induction rest arbitrary: p s pre b rule: measure_induct_rule [where f = length])
  case (less rest)
  note sp = priority_code [OF n(2)]
  let ?c = "take cap rest"
  have c: "?c \<noteq> []" "length ?c \<le> cap" "length pre + length ?c \<le> tot" using less.prems(1,4) cap(1) by auto
  let ?pkt = "dvc_packet 3 pr n k ?c"
  let ?last = "length pre + length ?c = tot"
  let ?name = "cd_name (dn_channels s ! j)"
  have plen: "length ?pkt \<le> 1600" using length_dvc_packet [OF n(1)] cap(2) c(2) by simp
  obtain b' where b': "awrite_at (buf_truncate 0 b) (rdp_dynamic_channel_write_data_ex k n pr ?c) (p, []) = (Inr b', p, [])"
      "buf_ok b'" "contents b' = ?pkt"
    by (rule written [OF emits_packets(1) [OF n] less.prems(5) plen])
  have handle: "\<exists>t. rdp_session_handle_dynamic_channel hooks (fragment_packet (contents b') (length (contents b')) 3) (s\<lparr>dn_session := w\<rparr>, []) =
      (Inr (), t, []) \<and> (if ?last then idle_at k j t else gathering_at k j tot (pre @ ?c) t) \<and>
    progress j (s\<lparr>dn_session := w\<rparr>) t (if ?last then [(k, pre @ ?c)] else []) (if ?last then [Channel_Data k ?name (pre @ ?c)] else [])" for w
    using client_continues [of k j tot pre "s\<lparr>dn_session := w\<rparr>" n pr ?c hooks] less.prems(3) n(1) sp c
    by (auto simp: b'(3) dispatch_data [OF n(1) sp] split: if_splits)
  obtain p1 t where 1: "carries hooks multiparty cid j (rdp_server_send_dynamic_packet env b') p s p1 t
      (if ?last then [(k, pre @ ?c)] else []) (if ?last then [Channel_Data k ?name (pre @ ?c)] else [])"
    "if ?last then idle_at k j t else gathering_at k j tot (pre @ ?c) t"
    by (rule packet_delivered [OF cr net less.prems(2) plen [folded b'(3)] handle])
  have step: "carries hooks multiparty cid j (send_rest env k n pr cap b rest) p s p' u x y =
      carries hooks multiparty cid j (athen (rdp_server_send_dynamic_packet env b') (send_rest env k n pr cap b' (drop cap rest))) p s p' u x y"
    for p' u x y unfolding send_rest.simps [of env k n pr cap b rest] using less.prems(1) cap(1) by (simp add: carries_def abind_def b'(1))
  show ?case
  proof (cases ?last)
    case True
    then have all: "?c = rest" "drop cap rest = []" using less.prems(4) by auto
    have nil: "send_rest env k n pr cap b' (drop cap rest) = aret ()" by (subst send_rest.simps) (simp add: all)
    have "carries hooks multiparty cid j (send_rest env k n pr cap b' (drop cap rest)) p1 t p1 t [] []"
      unfolding nil by (rule carries_nothing [OF carriesD(3) [OF 1(1)]])
    from carries_then [OF 1(1) this] show ?thesis
      using 1(2) True all(1) unfolding step by (intro exI [of _ p1] exI [of _ t]) simp
  next
    case False
    have d: "length (drop cap rest) < length rest" "drop cap rest \<noteq> []" "length (pre @ ?c) + length (drop cap rest) = tot"
      using False less.prems(1,4) cap(1) by auto
    have g: "gathering_at k j tot (pre @ ?c) t" using 1(2) False by simp
    obtain p' u where
      2: "carries hooks multiparty cid j (send_rest env k n pr cap b' (drop cap rest)) p1 t p' u
        [(k, (pre @ ?c) @ drop cap rest)] [Channel_Data k (cd_name (dn_channels t ! j)) ((pre @ ?c) @ drop cap rest)]" "idle_at k j u"
      using less.IH [OF d(1,2) carriesD(3) [OF 1(1)] g d(3) b'(2)] by blast
    have name: "cd_name (dn_channels t ! j) = ?name" using carriesD(4) [OF 1(1)] by (simp add: advance_def progress_def)
    show ?thesis
      using carries_then [OF 1(1) 2(1)] 2(2) False name unfolding step by (intro exI [of _ p'] exI [of _ u]) simp
  qed
qed

text \<open>A message: one packet, or a first packet with as much as fits and the rest.\<close>

lemma first_delivered:
  fixes data :: "u8 list"
  assumes cr: "rc4_involutive (env_crypto env)" "crypto_available (env_crypto env)" "fk_crypto hooks = env_crypto env"
    and net: "\<And>d. env_net env d = LIBRDP_STATUS_OK"
    and n: "sized_ok n k" "pr \<le> 3" and data: "data \<noteq> []" "length data \<le> unat (dn_dynamic_channel_message_bytes s)"
    and chunk: "chunk \<le> length data" "1 + unat n + unat (rdp_dynamic_channel_length_bytes (of_nat (length data))) + chunk \<le> 1600"
    and link: "bridge cid p s" "idle_at k j s"
  obtains b p' t where
    "awrite (rdp_dynamic_channel_write_data_first_ex k n pr (of_nat (length data)) (take chunk data)) (p, []) = (Inr b, p, [])" "buf_ok b"
    "carries hooks multiparty cid j (rdp_server_send_dynamic_packet env b) p s p' t
       (if chunk = length data then [(k, data)] else [])
       (if chunk = length data then [Channel_Data k (cd_name (dn_channels s ! j)) data] else [])"
    "if chunk = length data then idle_at k j t else gathering_at k j (length data) (take chunk data) t"
proof -
  define tot :: u32 where "tot = of_nat (length data)"
  let ?l = "rdp_dynamic_channel_length_bytes tot"
  let ?c = "take chunk data"
  let ?pkt = "dvc_packet 2 (rdp_dynamic_channel_length_code ?l) n k (sized_bytes ?l tot @ ?c)"
  have "length data < 2 ^ 32" using data(2) unsigned_less [of "dn_dynamic_channel_message_bytes s", where ?'a = nat] by simp
  then have ut: "unat tot = length data" by (simp add: tot_def unat_of_nat_u32)
  have tot: "tot \<noteq> 0" "tot \<le> dn_dynamic_channel_message_bytes s" "length ?c \<le> unat tot"
    using ut data by (auto simp: word_le_nat_alt)
  have fit: "1 + unat n + unat ?l + length ?c \<le> 1600" using chunk by (simp add: tot_def)
  have plen: "length ?pkt \<le> 1600"
    using fit by (simp add: length_dvc_packet [OF n(1)] length_sized [OF sized_selected(1)])
  obtain b where b0: "rdp_dynamic_channel_write_data_first_ex k n pr tot ?c (rdp_buffer_init, []) = (LIBRDP_STATUS_OK, b, [])"
      "buf_ok b" "contents b = ?pkt"
    by (rule emits_fresh [OF emits_first(1) [OF n(1) tot(3,1) fit n(2)]]) (use plen in auto)
  then have b: "awrite (rdp_dynamic_channel_write_data_first_ex k n pr tot ?c) (p, []) = (Inr b, p, [])" by (simp add: awrite_def)
  have handle: "\<exists>t. rdp_session_handle_dynamic_channel hooks (fragment_packet (contents b) (length (contents b)) 3) (s\<lparr>dn_session := w\<rparr>, []) =
      (Inr (), t, []) \<and> (if chunk = length data then idle_at k j t else gathering_at k j (length data) ?c t) \<and>
    progress j (s\<lparr>dn_session := w\<rparr>) t (if chunk = length data then [(k, data)] else [])
      (if chunk = length data then [Channel_Data k (cd_name (dn_channels s ! j)) data] else [])" for w
    using client_starts [of k j "s\<lparr>dn_session := w\<rparr>" n ?l tot ?c hooks] link(2) n(1) sized_selected(1) tot chunk(1) ut
    by (auto simp: b0(3) dispatch_first [OF n(1) sized_selected(1)] split: if_splits)
  obtain p' t where "carries hooks multiparty cid j (rdp_server_send_dynamic_packet env b) p s p' t
      (if chunk = length data then [(k, data)] else [])
      (if chunk = length data then [Channel_Data k (cd_name (dn_channels s ! j)) data] else [])"
    "if chunk = length data then idle_at k j t else gathering_at k j (length data) ?c t"
    by (rule packet_delivered [OF cr net link(1) plen [folded b0(3)] handle])
  from that [OF b [unfolded tot_def] b0(2) this] show ?thesis .
qed

text \<open>The capacities of the packets: what the headers leave of 1600 bytes.\<close>

definition first_capacity :: "u8 \<Rightarrow> u8 list \<Rightarrow> nat" where
  "first_capacity n data = 1600 - (1 + unat n + unat (rdp_dynamic_channel_length_bytes (of_nat (length data))))"

definition data_capacity :: "u8 \<Rightarrow> nat" where
  "data_capacity n = 1600 - (1 + unat n)"

lemma capacities:
  assumes "sized_ok n k"
  shows "0 < first_capacity n data" "0 < data_capacity n" "1 + unat n + data_capacity n \<le> 1600"
    "1 + unat n + unat (rdp_dynamic_channel_length_bytes (of_nat (length data))) + first_capacity n data \<le> 1600"
    "RDP_DYNAMIC_CHANNEL_MAX_PDU_SIZE - rdp_dynamic_channel_data_first_pdu_header_size n (of_nat (length data)) = first_capacity n data"
    "RDP_DYNAMIC_CHANNEL_MAX_PDU_SIZE - rdp_dynamic_channel_data_pdu_header_size n = data_capacity n"
proof -
  have n: "n \<in> {1, 2, 4}" "rdp_dynamic_channel_length_bytes (of_nat (length data)) \<in> {1, 2, 4}"
    using sized_sizes [OF assms] sized_sizes [OF sized_selected(1)] by blast+
  then have "unat n \<le> 4" "unat (rdp_dynamic_channel_length_bytes (of_nat (length data))) \<le> 4" by auto
  then show "0 < first_capacity n data" "0 < data_capacity n" "1 + unat n + data_capacity n \<le> 1600"
    "1 + unat n + unat (rdp_dynamic_channel_length_bytes (of_nat (length data))) + first_capacity n data \<le> 1600"
    by (simp_all add: first_capacity_def data_capacity_def)
  show "RDP_DYNAMIC_CHANNEL_MAX_PDU_SIZE - rdp_dynamic_channel_data_first_pdu_header_size n (of_nat (length data)) = first_capacity n data"
    "RDP_DYNAMIC_CHANNEL_MAX_PDU_SIZE - rdp_dynamic_channel_data_pdu_header_size n = data_capacity n"
    using n(1) by (auto simp: first_capacity_def data_capacity_def RDP_DYNAMIC_CHANNEL_MAX_PDU_SIZE_def
        rdp_dynamic_channel_data_first_pdu_header_size_def rdp_dynamic_channel_data_pdu_header_size_def)
qed

lemma send_message_long:
  assumes n: "sized_ok (sd_channel_id_bytes c) k" and long: "\<not> length data \<le> RDP_DYNAMIC_CHANNEL_SINGLE_MESSAGE_LIMIT"
    and u32: "length data \<le> UINT32_MAX" and chunk: "chunk = min (length data) (first_capacity (sd_channel_id_bytes c) data)"
  shows "send_message env c k data =
    abind (awrite (rdp_dynamic_channel_write_data_first_ex k (sd_channel_id_bytes c) (sd_priority c) (of_nat (length data)) (take chunk data)))
      (\<lambda>packet. athen (rdp_server_send_dynamic_packet env packet)
        (send_rest env k (sd_channel_id_bytes c) (sd_priority c) (data_capacity (sd_channel_id_bytes c)) packet (drop chunk data)))"
proof -
  let ?fc = "first_capacity (sd_channel_id_bytes c) data"
  have "chunk = (if length data < ?fc then length data else ?fc)" by (simp add: chunk)
  then show ?thesis
    using long u32 capacities(1) [OF n, of data] capacities(2) [OF n]
    unfolding send_message_def capacities(5,6) [OF n] Let_def by (simp del: One_nat_def)
qed

lemma long_delivered:
  assumes cr: "rc4_involutive (env_crypto env)" "crypto_available (env_crypto env)" "fk_crypto hooks = env_crypto env"
    and net: "\<And>d. env_net env d = LIBRDP_STATUS_OK"
    and n: "sized_ok (sd_channel_id_bytes c) k" "sd_priority c \<le> 3"
    and long: "\<not> length data \<le> RDP_DYNAMIC_CHANNEL_SINGLE_MESSAGE_LIMIT"
    and limit: "length data \<le> unat (dn_dynamic_channel_message_bytes s)" and link: "bridge cid p s" "idle_at k j s"
  shows "\<exists>p' t. carries hooks multiparty cid j (send_message env c k data) p s p' t
      [(k, data)] [Channel_Data k (cd_name (dn_channels s ! j)) data] \<and> idle_at k j t"
proof -
  let ?n = "sd_channel_id_bytes c"
  let ?name = "cd_name (dn_channels s ! j)"
  note caps = capacities [OF n(1)]
  define chunk where "chunk = min (length data) (first_capacity ?n data)"
  have u32: "length data \<le> UINT32_MAX"
    using limit unsigned_less [of "dn_dynamic_channel_message_bytes s", where ?'a = nat] by (simp add: UINT32_MAX_def)
  have chunk: "chunk \<le> length data" "1 + unat ?n + unat (rdp_dynamic_channel_length_bytes (of_nat (length data))) + chunk \<le> 1600" "data \<noteq> []"
    using caps(4) [of data] long by (auto simp: chunk_def)
  obtain b p1 t where b: "awrite (rdp_dynamic_channel_write_data_first_ex k ?n (sd_priority c) (of_nat (length data)) (take chunk data)) (p, []) =
      (Inr b, p, [])" "buf_ok b"
    and 1: "carries hooks multiparty cid j (rdp_server_send_dynamic_packet env b) p s p1 t
       (if chunk = length data then [(k, data)] else []) (if chunk = length data then [Channel_Data k ?name data] else [])"
      "if chunk = length data then idle_at k j t else gathering_at k j (length data) (take chunk data) t"
    by (rule first_delivered [OF cr net n chunk(3) limit chunk(1,2) link])
  let ?rest = "send_rest env k ?n (sd_priority c) (data_capacity ?n) b (drop chunk data)"
  have step: "carries hooks multiparty cid j (send_message env c k data) p s p' u x y =
      carries hooks multiparty cid j (athen (rdp_server_send_dynamic_packet env b) ?rest) p s p' u x y" for p' u x y
    by (simp add: carries_def send_message_long [OF n(1) long u32 chunk_def] abind_def b(1))
  have "\<exists>p' u. carries hooks multiparty cid j ?rest p1 t p' u (if chunk = length data then [] else [(k, data)])
      (if chunk = length data then [] else [Channel_Data k ?name data]) \<and> idle_at k j u"
  proof (cases "chunk = length data")
    case True
    have "carries hooks multiparty cid j ?rest p1 t p1 t [] []"
      by (subst send_rest.simps) (simp add: True carries_nothing [OF carriesD(3) [OF 1(1)]])
    then show ?thesis using 1(2) True by auto
  next
    case False
    have name: "cd_name (dn_channels t ! j) = ?name" using carriesD(4) [OF 1(1)] by (simp add: advance_def progress_def)
    have "drop chunk data \<noteq> []" "length (take chunk data) + length (drop chunk data) = length data" using False chunk(1) by auto
    from rest_delivered [OF cr net n caps(2,3) this(1) carriesD(3) [OF 1(1)] _ this(2) b(2), of j multiparty] 1(2) False
    show ?thesis by (simp add: name)
  qed
  then obtain p' u where 2: "carries hooks multiparty cid j ?rest p1 t p' u (if chunk = length data then [] else [(k, data)])
      (if chunk = length data then [] else [Channel_Data k ?name data])" "idle_at k j u"
    by blast
  show ?thesis
    using carries_then [OF 1(1) 2(1)] 2(2) unfolding step by (intro exI [of _ p'] exI [of _ u]) (simp split: if_splits)
qed

lemma message_delivered:
  assumes cr: "rc4_involutive (env_crypto env)" "crypto_available (env_crypto env)" "fk_crypto hooks = env_crypto env"
    and net: "\<And>d. env_net env d = LIBRDP_STATUS_OK"
    and n: "sized_ok (sd_channel_id_bytes c) k" "sd_priority c \<le> 3"
    and limit: "length data \<le> unat (dn_dynamic_channel_message_bytes s)" and link: "bridge cid p s" "idle_at k j s"
  shows "\<exists>p' t. carries hooks multiparty cid j (send_message env c k data) p s p' t
      [(k, data)] [Channel_Data k (cd_name (dn_channels s ! j)) data] \<and> idle_at k j t"
proof (cases "length data \<le> RDP_DYNAMIC_CHANNEL_SINGLE_MESSAGE_LIMIT")
  case True
  let ?n = "sd_channel_id_bytes c"
  let ?pkt = "dvc_packet 3 (sd_priority c) ?n k data"
  have "unat ?n \<le> 4" using sized_sizes [OF n(1)] by auto
  with True have plen: "length ?pkt \<le> 1600"
    by (simp add: length_dvc_packet [OF n(1)] RDP_DYNAMIC_CHANNEL_SINGLE_MESSAGE_LIMIT_def)
  obtain b where b: "rdp_dynamic_channel_write_data_ex k ?n (sd_priority c) data (rdp_buffer_init, []) = (LIBRDP_STATUS_OK, b, [])"
      "contents b = ?pkt"
    by (rule emits_fresh [OF emits_packets(1) [OF n]]) (use plen in auto)
  note sp = priority_code [OF n(2)]
  have handle: "\<exists>t. rdp_session_handle_dynamic_channel hooks (fragment_packet (contents b) (length (contents b)) 3) (s\<lparr>dn_session := w\<rparr>, []) =
      (Inr (), t, []) \<and> idle_at k j t \<and>
    progress j (s\<lparr>dn_session := w\<rparr>) t [(k, data)] [Channel_Data k (cd_name (dn_channels s ! j)) data]" for w
    using client_single [of k j "s\<lparr>dn_session := w\<rparr>" ?n "sd_priority c" hooks data "[]"] link(2) n(1) sp
    by (simp add: b(2) dispatch_data [OF n(1) sp])
  obtain p' t where "carries hooks multiparty cid j (rdp_server_send_dynamic_packet env b) p s p' t
      [(k, data)] [Channel_Data k (cd_name (dn_channels s ! j)) data]" "idle_at k j t"
    by (rule packet_delivered [OF cr net link(1) plen [folded b(2)] handle])
  with True b(1) show ?thesis
    by (intro exI [of _ p'] exI [of _ t]) (simp add: carries_def send_message_def abind_def awrite_def)
qed (rule long_delivered [OF cr net n _ limit link])

section \<open>Properties\<close>

text \<open>
  C6. What the server sends on a dynamic channel is what the application of the client gets. In every reachable state of the
  server's table, with both ends active on the static channel \<^verbatim>\<open>drdynvc\<close> (plain or under Standard Security), a client that takes PDUs of at least 1635 bytes
  (the longest frame of a chunk), and a channel of the application, not one the client handles itself, open at both ends and idle in
  the client, a message of any length up to the limits of the two ends is sent: it is cut into a
  first packet and further ones, each a message of the static channel, encrypted and framed, and the client that receives these
  frames succeeds, tells the application the message once, with the channel and its name, changes no other channel, and is idle
  again; the table of the server is as before and the ends are ready for the next message.
\<close>

theorem dynamic_message_delivered:
  fixes p :: "('c, 'k, 'n, 'y) dvc_peer" and s :: "('c, 'd, 'x) dvc_session"
  assumes cr: "rc4_involutive (env_crypto env)" "crypto_available (env_crypto env)" "fk_crypto hooks = env_crypto env"
    and net: "\<And>d. env_net env d = LIBRDP_STATUS_OK"
    and server: "dvc_reachable p" "rdp_server_find_dynamic_channel (channels_of p) k = Some i"
    and link: "bridge cid p s" "idle_at k j s"
    and limit: "length data \<le> RDP_SERVER_DYNAMIC_MESSAGE_MAX" "length data \<le> unat (dn_dynamic_channel_message_bytes s)"
  shows "\<exists>p' frames t. librdp_server_peer_send_dynamic_channel_data env vhooks k data (p, []) = (Inr (), p', []) \<and>
    pe_sent (sp_wire p') = pe_sent (sp_wire p) @ frames \<and>
    client_frames hooks multiparty frames (s, []) = (Inr (), t, []) \<and>
    advance j s t [(k, data)] [Channel_Data k (cd_name (dn_channels s ! j)) data] \<and>
    dvc_reachable p' \<and> channels_of p' = channels_of p \<and> bridge cid p' t \<and> idle_at k j t"
proof -
  let ?c = "channels_of p ! i"
  have c: "i < length (channels_of p)" "sd_open ?c" "sd_channel_id ?c = k"
    using find_channel_Some server(2) unfolding rdp_server_find_dynamic_channel_def by fastforce+
  have "channel_ok ?c"
    using dvc_reachable_sound [OF server(1)] c(1) by (auto simp: sound_def table_ok_def list_all_length)
  then have n: "sized_ok (sd_channel_id_bytes ?c) k" "sd_priority ?c \<le> 3" using c(2,3) open_in_use by (auto simp: channel_ok_def)
  obtain q t where q: "carries hooks multiparty cid j (send_message env ?c k data) p s q t
      [(k, data)] [Channel_Data k (cd_name (dn_channels s ! j)) data]" and t: "idle_at k j t"
    using message_delivered [OF cr net n limit(2) link] by blast
  note q = q carriesD [OF q]
  define p' where "p' = on_dvc (\<lambda>d. mark_extension vhooks (sd_name ?c) (Mark_Tx (length data))
      (d\<lparr>dv_channel_out := rdp_server_metric_add (dv_channel_out d) 1,
         dv_channel_bytes_out := rdp_server_metric_add (dv_channel_bytes_out d) (of_nat (length data))\<rparr>)) q"
  have st: "sp_state p = LIBRDP_SERVER_PEER_ACTIVE" using link(1) by (simp add: bridge_def dvc_linked_def)
  have send: "librdp_server_peer_send_dynamic_channel_data env vhooks k data (p, []) = (Inr (), p', [])"
    using st limit(1) server(2) q(2)
    by (simp add: librdp_server_peer_send_dynamic_channel_data_def abind_def aget_def on_error_def amodify_def p'_def)
  have "dvc_reachable p'"
    by (rule dvc_reachable.Call [OF server(1), of env vhooks "Call_Send k data" "[]"]) (simp add: send)
  moreover have "channels_of q = channels_of p" by (subst q(3)) simp
  then have "channels_of p' = channels_of p" by (simp add: p'_def on_dvc_def mark_extension_def)
  moreover have "sp_wire p' = sp_wire q" "bridge cid p' t"
    using q(4) by (simp_all add: p'_def on_dvc_def bridge_def rdp_server_dynamic_static_channel_id_def split: if_splits)
  ultimately show ?thesis using send q(1) t unfolding carries_def by auto
qed

text \<open>A server under Standard Security, its table after a reset and ready, that opens every channel a client asks for.\<close>

definition sample_dvc_peer :: "(unit, unit, unit, unit) dvc_peer" where
  "sample_dvc_peer = (accepted_peer tls_config 1024 768 ()
     \<lparr>dv_channels = replicate RDP_SERVER_MAX_DYNAMIC_CHANNELS channel_zero, dv_channel_count = 0, dv_ready = True,
       dv_capabilities_sent = True, dv_version = 3, dv_udp_lossy = False, dv_udp_reliable = False, dv_limits_rejected = 0,
       dv_channel_out = 0, dv_channel_bytes_out = 0, dv_channel_in = 0, dv_channel_bytes_in = 0, dv_events = [], dv_extensions = ()\<rparr>)
     \<lparr>sp_wire := sample_peer 4095, sp_advertised_channel_ids := [1004]\<rparr>"

definition open_hooks :: "(unit, unit, unit, unit) dvc_hooks" where
  "open_hooks = \<lparr>vk_provider_ready = (\<lambda>_ _. True), vk_accept = (\<lambda>_ _ _. True), vk_auth = (\<lambda>_ data (x, m). ((LIBRDP_STATUS_OK, data), x, m)),
     vk_extension = (\<lambda>_ _ _ (x, m). (LIBRDP_STATUS_OK, x, m)), vk_mark = (\<lambda>_ _ x. x), vk_graphics_frame_state_reset = id,
     vk_auth_redirection_reset = id\<rparr>"

lemma sample_reachable: "dvc_reachable sample_dvc_peer"
  by (rule dvc_reachable.Elsewhere [OF dvc_reachable.Reset [of open_hooks False sample_dvc_peer]])
    (simp_all add: sample_dvc_peer_def rdp_server_dynamic_channels_reset_def rdp_server_multitransport_reset_def on_dvc_def Let_def accepted_peer_def)

lemma sample_opened:
  obtains p :: "(unit, unit, unit, unit) dvc_peer" and w where "dvc_reachable p" "rdp_server_find_dynamic_channel (channels_of p) 5 = Some 0" "bridge 1004 p (sample_dvc w)"
    "dv_ready (sp_features p)" "sd_name (channels_of p ! 0) = ascii ''app''" "sd_fragment (channels_of p ! 0) = rdp_buffer_init"
proof -
  let ?p = sample_dvc_peer
  let ?req = "dvc_packet 1 0 1 5 (ascii ''app'' @ [0])"
  let ?w = "(sample_session 4095)\<lparr>se_dynamic_channel_id := 1004\<rparr>"
  have size: "sized_ok 1 5" by (simp add: sized_ok_def)
  have link: "dvc_linked 1004 (sp_wire ?p) ?w"
    by (simp add: dvc_linked_def secured_def sample_dvc_peer_def sample_peer_def sample_session_def sample_paired
        RDP_MCS_BASE_CHANNEL_ID_def rdp_server_static_channel_index_def RDP_MCS_GLOBAL_CHANNEL_ID_def accepted_peer_def)
  obtain b where b: "rdp_dynamic_channel_write_create_response 5 1 0 (rdp_buffer_init, []) = (LIBRDP_STATUS_OK, b, [])"
      "contents b = dvc_packet 1 0 1 5 (u32_le_bytes 0)"
    by (rule emits_fresh [OF emits_packets(4) [OF size, of 0]]) (simp_all add: length_dvc_packet [OF size])
  obtain w v where w: "librdp_server_peer_send_channel_data sample_crypto (\<lambda>_. LIBRDP_STATUS_OK) 1004 (contents b) (sp_wire ?p, []) =
      (LIBRDP_STATUS_OK, w, [])" "dvc_linked 1004 w v"
    by (rule packet_crosses [OF sample_crypto_laws(1,3) _ link, where net = "\<lambda>_. LIBRDP_STATUS_OK" and bs = "contents b"])
      (simp_all add: b(2) length_dvc_packet [OF size])
  have send: "rdp_server_send_dynamic_packet (sample_env []) b (?p, []) = (Inr (), ?p\<lparr>sp_wire := w\<rparr>, [])"
    using w(1) by (simp add: rdp_server_send_dynamic_packet_def rdp_server_dynamic_static_channel_id_def abind_def aget_def on_wire_def
        sample_env_def sample_dvc_peer_def accepted_peer_def)
  have name: "ascii ''app'' \<noteq> []" "(0 :: u8) \<notin> set (ascii ''app'')" "length (ascii ''app'') = 3" by (simp_all add: ascii_def)
  note parse = parse_packets(3) [OF size _ name(1,2), of 0] parse_header_packet(1) [OF sized_sizes [OF size], of 1 0 5 "ascii ''app'' @ [0]"]
  have table: "rdp_server_find_dynamic_channel_any (channels_of ?p) k = None" "rdp_server_find_pending_dynamic_channel (channels_of ?p) k = None"
    "rdp_server_allocate_dynamic_channel (channels_of ?p) = Some 0" for k
    by (simp_all add: find_defs find_channel_def sample_dvc_peer_def accepted_peer_def RDP_SERVER_MAX_DYNAMIC_CHANNELS_def find_None_iff
        upt_conv_Cons)
  let ?c = "channel_zero\<lparr>sd_channel_id := 5, sd_channel_id_bytes := 1, sd_priority := 0, sd_open := True, sd_name := ascii ''app''\<rparr>"
  define q where "q = rdp_server_emit_dynamic_channel_event ?c LIBRDP_SERVER_CHANNEL_EVENT_DYNAMIC_OPEN []
    (on_dvc (\<lambda>d. (put_channel 0 ?c (mark_extension open_hooks (ascii ''app'') (Mark_Open 5 0) d))
      \<lparr>dv_channel_count := dv_channel_count d + 1\<rparr>) (?p\<lparr>sp_wire := w\<rparr>))"
  have create: "rdp_server_dynamic_handle_create (sample_env []) open_hooks ?req (?p, []) = (Inr (), q, [])"
    by (simp add: rdp_server_dynamic_handle_create_def parse(1) alift_def abind_def aget_def table name(3) Let_def
        RDP_SERVER_DYNAMIC_CHANNEL_NAME_CAPACITY_def open_hooks_def aignore_def acatch_def awrite_def b(1) send amodify_def q_def)
  have ready: "dv_ready (sp_features ?p)" by (simp add: sample_dvc_peer_def accepted_peer_def)
  have run: "dvc_run (sample_env []) open_hooks (Call_Message ?req) (?p, []) = (Inr (), q, [])"
    using create ready by (simp add: rdp_server_handle_dynamic_channel_message_def parse(2) alift_def abind_def aget_def
        dynamic_create_def table split: sum.split)
  have q: "channels_of q = (channels_of ?p)[0 := ?c]" "sp_wire q = w" "dv_ready (sp_features q)"
    "rdp_server_dynamic_static_channel_id q = 1004" and len: "length (channels_of ?p) = Suc 63"
    using ready by (simp_all add: q_def rdp_server_emit_dynamic_channel_event_def on_dvc_def put_channel_def mark_extension_def
        rdp_server_dynamic_static_channel_id_def sample_dvc_peer_def accepted_peer_def RDP_SERVER_MAX_DYNAMIC_CHANNELS_def)
  show ?thesis
  proof (rule that [of q v])
    show "dvc_reachable q" by (rule dvc_reachable.Call [OF sample_reachable run])
    show "rdp_server_find_dynamic_channel (channels_of q) 5 = Some 0"
      using len by (simp add: find_defs find_channel_def q(1) upt_conv_Cons)
    show "bridge 1004 q (sample_dvc v)" using w(2) q by (simp add: bridge_def sample_dvc_def)
  qed (use q len in \<open>simp_all add: channel_zero_def\<close>)
qed

theorem dynamic_message_delivered_witness:
  "\<exists>(p :: (unit, unit, unit, unit) dvc_peer) s p' t frames. dvc_reachable p \<and> sp_state p = LIBRDP_SERVER_PEER_ACTIVE \<and> dn_events s = [] \<and>
     librdp_server_peer_send_dynamic_channel_data (sample_env []) open_hooks 5 (replicate 4000 7) (p, []) = (Inr (), p', []) \<and>
     pe_sent (sp_wire p') = pe_sent (sp_wire p) @ frames \<and>
     client_frames sample_dvc_hooks (\<lambda>_. LIBRDP_STATUS_OK) frames (s, []) = (Inr (), t, []) \<and>
     dn_events t = [Channel_Data 5 (ascii ''app'') (replicate 4000 7)]"
proof -
  obtain p :: "(unit, unit, unit, unit) dvc_peer" and w where p: "dvc_reachable p" "rdp_server_find_dynamic_channel (channels_of p) 5 = Some 0" "bridge 1004 p (sample_dvc w)"
    by (rule sample_opened)
  have "\<not> rdp_session_dynamic_channel_is_internal_name (ascii ''app'')" by code_simp
  then have idle: "idle_at 5 0 (sample_dvc w)"
    by (simp add: idle_at_def open_at_def rdp_session_dynamic_channel_find_def find_entry_def sample_dvc_def app_entry_def free_entry_def
        RDP_SESSION_MAX_DYNAMIC_CHANNELS_def upt_conv_Cons)
  have env: "env_crypto (sample_env []) = sample_crypto" "env_net (sample_env []) = (\<lambda>_. LIBRDP_STATUS_OK)" "fk_crypto sample_dvc_hooks = sample_crypto"
    by (simp_all add: sample_env_def sample_dvc_hooks_def)
  obtain p' t frames where
    r: "librdp_server_peer_send_dynamic_channel_data (sample_env []) open_hooks 5 (replicate 4000 7) (p, []) = (Inr (), p', [])"
    "pe_sent (sp_wire p') = pe_sent (sp_wire p) @ frames"
    "client_frames sample_dvc_hooks (\<lambda>_. LIBRDP_STATUS_OK) frames (sample_dvc w, []) = (Inr (), t, [])"
    "advance 0 (sample_dvc w) t [(5, replicate 4000 7)] [Channel_Data 5 (cd_name (dn_channels (sample_dvc w) ! 0)) (replicate 4000 7)]"
    using dynamic_message_delivered [of "sample_env []" sample_dvc_hooks p 5 0 1004 "sample_dvc w" 0 "replicate 4000 7" open_hooks
        "\<lambda>_. LIBRDP_STATUS_OK"] sample_crypto_laws(1,3) p idle
    by (auto simp: env RDP_SERVER_DYNAMIC_MESSAGE_MAX_def sample_dvc_def)
  have "dn_events t = [Channel_Data 5 (ascii ''app'') (replicate 4000 7)]"
    using r(4) by (simp add: advance_def progress_def sample_dvc_def app_entry_def)
  moreover have "sp_state p = LIBRDP_SERVER_PEER_ACTIVE" using p(3) by (simp add: bridge_def dvc_linked_def)
  moreover have "dn_events (sample_dvc w) = []" by (simp add: sample_dvc_def)
  ultimately show ?thesis using p(1) r(1-3) by blast
qed

lemma channel_bounds:
  assumes "channel_ok c"
  shows "length (filter (\<lambda>b. b) [sd_open c, sd_pending_open c, sd_closing c]) \<le> 1"
    "in_use c \<Longrightarrow> sized_ok (sd_channel_id_bytes c) (sd_channel_id c)"
    "length (contents (sd_fragment c)) \<le> unat (sd_fragment_expected c)" "unat (sd_fragment_expected c) \<le> 64 * 1024 * 1024"
    "contents (sd_fragment c) \<noteq> [] \<Longrightarrow> sd_open c"
proof -
  have b: "length (contents (sd_fragment c)) = buf_length (sd_fragment c)" using assms by (simp add: channel_ok_def)
  have "sd_open c \<or> buf_length (sd_fragment c) = 0" "buf_length (sd_fragment c) \<le> unat (sd_fragment_expected c)"
    using assms by (simp_all add: channel_ok_def)
  then show "length (contents (sd_fragment c)) \<le> unat (sd_fragment_expected c)" "contents (sd_fragment c) \<noteq> [] \<Longrightarrow> sd_open c"
    unfolding b [symmetric] by auto
qed (use assms in \<open>auto simp: channel_ok_def RDP_SERVER_DYNAMIC_MESSAGE_MAX_def\<close>)

text \<open>
  C7. The server's table of dynamic channels stays consistent. Whatever the application asks for, whatever packets the client sends,
  well-formed or not, whatever the modules answer and wherever memory or the network fails, in every state that is reached from a
  reset the table has its 64 entries, no two entries in use have the same channel number, an entry is in one of the states pending,
  open and closing, its number fits the size it is written in, the counter of the peer is the number of open channels, and what has
  been gathered of a message is not more than the length that was announced, at most 64 MB.
\<close>

theorem dynamic_table_consistent:
  assumes "dvc_reachable p"
  defines "cs \<equiv> channels_of p"
  shows "length cs = 64 \<and> unat (dv_channel_count (sp_features p)) = length (filter sd_open cs) \<and>
    (\<forall>i < 64. \<forall>j < 64. in_use (cs ! i) \<longrightarrow> in_use (cs ! j) \<longrightarrow> sd_channel_id (cs ! i) = sd_channel_id (cs ! j) \<longrightarrow> i = j) \<and>
    (\<forall>i < 64. length (filter (\<lambda>b. b) [sd_open (cs ! i), sd_pending_open (cs ! i), sd_closing (cs ! i)]) \<le> 1 \<and>
      (in_use (cs ! i) \<longrightarrow> sized_ok (sd_channel_id_bytes (cs ! i)) (sd_channel_id (cs ! i))) \<and>
      length (contents (sd_fragment (cs ! i))) \<le> unat (sd_fragment_expected (cs ! i)) \<and>
      unat (sd_fragment_expected (cs ! i)) \<le> 64 * 1024 * 1024 \<and>
      (contents (sd_fragment (cs ! i)) \<noteq> [] \<longrightarrow> sd_open (cs ! i)))"
proof -
  have ok: "table_ok cs (dv_channel_count (sp_features p))"
    using dvc_reachable_sound [OF assms(1)] by (simp add: sound_def cs_def)
  then have len: "length cs = 64" by (simp add: table_ok_def RDP_SERVER_MAX_DYNAMIC_CHANNELS_def)
  have "channel_ok (cs ! i)" if "i < 64" for i using ok that len by (auto simp: table_ok_def list_all_length)
  note channel = channel_bounds [OF this]
  have "unat (dv_channel_count (sp_features p)) = length (filter sd_open cs)" using ok by (simp add: table_ok_def)
  moreover have "i = j" if "i < 64" "j < 64" "in_use (cs ! i)" "in_use (cs ! j)" "sd_channel_id (cs ! i) = sd_channel_id (cs ! j)" for i j
    using ok that unfolding table_ok_def len by blast
  ultimately show ?thesis using len channel by (intro conjI allI impI)
qed

theorem dynamic_table_consistent_witness:
  "\<exists>p :: (unit, unit, unit, unit) dvc_peer. dvc_reachable p \<and> sd_open (channels_of p ! 0) \<and> sd_channel_id (channels_of p ! 0) = 5 \<and>
     length (channels_of p) = 64 \<and> unat (dv_channel_count (sp_features p)) = length (filter sd_open (channels_of p))"
proof -
  obtain p :: "(unit, unit, unit, unit) dvc_peer" where p: "dvc_reachable p" "rdp_server_find_dynamic_channel (channels_of p) 5 = Some 0"
    by (rule sample_opened)
  have "sd_open (channels_of p ! 0) \<and> sd_channel_id (channels_of p ! 0) = 5"
    using find_channel_Some p(2) unfolding rdp_server_find_dynamic_channel_def by fastforce
  with p(1) dynamic_table_consistent [OF p(1)] show ?thesis by blast
qed

lemma find_dynamic_update:
  assumes "P c = P (cs ! i)"
  shows "find_channel P (cs[i := c]) = find_channel P cs"
proof -
  have "P (cs[i := c] ! j) = P (cs ! j)" for j using assms by (cases "i = j"; cases "i < length cs") (simp_all add: list_update_beyond)
  then show ?thesis by (simp add: find_channel_def)
qed

text \<open>
  C8. A first packet without data does not start a message on the server. In every reachable state, on every open channel that
  gathers nothing, such a packet is accepted and its total length is noted, but the next data packet of the channel, of any length,
  is treated as a complete message: what the handler does is what it does with a reassembled message. On a channel other than
  authentication redirection whose module accepts the data, the application gets the data as a message, although more bytes
  were announced, and the announced length stays in the table.
\<close>

theorem empty_first_fragment:
  assumes p: "dvc_reachable p" "dv_ready (sp_features p)" "rdp_server_find_dynamic_channel (channels_of p) k = Some i"
    "contents (sd_fragment (channels_of p ! i)) = []"
    and packets: "sized_ok n k" "sized_ok l tot" "tot \<noteq> 0" "unat tot \<le> RDP_SERVER_DYNAMIC_MESSAGE_MAX" "priority < 4"
  shows "\<exists>p1. rdp_server_handle_dynamic_channel_message env hooks
      (dvc_packet 2 (rdp_dynamic_channel_length_code l) n k (sized_bytes l tot)) (p, []) = (Inr (), p1, []) \<and>
    sd_fragment_expected (channels_of p1 ! i) = tot \<and> dv_events (sp_features p1) = dv_events (sp_features p) \<and>
    (\<forall>m. rdp_server_handle_dynamic_channel_message env hooks (dvc_packet 3 priority n k data) (p1, m) =
       rdp_server_dynamic_emit_reassembled hooks (channels_of p1 ! i) data (p1, m)) \<and>
    (\<forall>x m m'. sd_name (channels_of p ! i) \<noteq> RDP_AUTH_REDIRECTION_CHANNEL_NAME \<longrightarrow>
       vk_extension hooks (channels_of p1 ! i) data data (dv_extensions (sp_features p1), m) = (LIBRDP_STATUS_OK, x, m') \<longrightarrow>
       (\<exists>p2. rdp_server_handle_dynamic_channel_message env hooks (dvc_packet 3 priority n k data) (p1, m) = (Inr (), p2, m') \<and>
          sd_fragment_expected (channels_of p2 ! i) = tot \<and>
          map ce_data (dv_events (sp_features p2)) = map ce_data (dv_events (sp_features p)) @ [data]))"
proof -
  let ?c = "channels_of p ! i"
  have c: "i < length (channels_of p)" "sd_open ?c" "sd_channel_id ?c = k"
    using find_channel_Some p(3) unfolding rdp_server_find_dynamic_channel_def by fastforce+
  have ok: "buf_ok (sd_fragment ?c)"
    using dvc_reachable_sound [OF p(1)] c(1) by (auto simp: sound_def table_ok_def list_all_length channel_ok_def)
  then have len: "buf_length (sd_fragment ?c) = 0" using p(4) length_contents [OF ok] by simp
  obtain st b m where b0: "rdp_buffer_append [] (sd_fragment ?c, []) = (st, b, m)" by (rule prod_cases3)
  have b: "rdp_buffer_append [] (sd_fragment ?c, []) = (LIBRDP_STATUS_OK, b, [])" "buf_length b = 0"
    using b0 emitsD [OF emits_append ok b0] p(4) len length_contents [of b] by auto
  let ?c1 = "?c\<lparr>sd_fragment_expected := tot, sd_fragment := b\<rparr>"
  define p1 where "p1 = on_dvc (\<lambda>d. d\<lparr>dv_channels := (channels_of p)[i := ?c1]\<rparr>) p"
  have p1: "channels_of p1 = (channels_of p)[i := ?c1]" "dv_ready (sp_features p1)" "dv_events (sp_features p1) = dv_events (sp_features p)"
    using p(2) by (simp_all add: p1_def on_dvc_def)
  have find: "rdp_server_find_dynamic_channel (channels_of p1) k = Some i"
    using p(3) c(2,3) unfolding rdp_server_find_dynamic_channel_def p1(1) by (subst find_dynamic_update) simp_all
  have nonzero: "unat tot \<noteq> 0" using packets(3) by (simp add: unat_eq_0)
  have first: "rdp_server_handle_dynamic_channel_message env hooks
      (dvc_packet 2 (rdp_dynamic_channel_length_code l) n k (sized_bytes l tot)) (p, []) = (Inr (), p1, [])"
    using parse_header_packet(2) [OF sized_sizes [OF packets(1)] _ _ small_codes(1) sized_sizes [OF packets(2)] refl, of 2 k "sized_bytes l tot"]
      parse_first(1) [OF packets(1-3), of "[]"] packets(4) nonzero p(2,3) c(1) len b
    by (simp add: rdp_server_handle_dynamic_channel_message_def rdp_server_dynamic_handle_data_first_def append_fragment_def finish_message_def
        abind_def alift_def aget_def amodify_def afill_def aret_def on_dvc_def put_channel_def p1_def)
  have c1: "channels_of p1 ! i = ?c1" using c(1) by (simp add: p1(1))
  have second: "rdp_server_handle_dynamic_channel_message env hooks (dvc_packet 3 priority n k data) (p1, m) =
      rdp_server_dynamic_emit_reassembled hooks ?c1 data (p1, m)" for m
    using parse_header_packet(1) [OF sized_sizes [OF packets(1)], of 3 priority k data] parse_packets(1) [OF packets(1,5)]
      packets(5) p1(2) find c(1) b(2)
    by (simp add: rdp_server_handle_dynamic_channel_message_def rdp_server_dynamic_handle_data_def abind_def alift_def aget_def Let_def p1(1))
  have emit: "\<exists>p2. rdp_server_dynamic_emit_reassembled hooks ?c1 data (p1, m) = (Inr (), p2, m') \<and> channels_of p2 = channels_of p1 \<and>
      map ce_data (dv_events (sp_features p2)) = map ce_data (dv_events (sp_features p1)) @ [data]"
    if "sd_name ?c \<noteq> RDP_AUTH_REDIRECTION_CHANNEL_NAME" "vk_extension hooks ?c1 data data (dv_extensions (sp_features p1), m) = (LIBRDP_STATUS_OK, x, m')"
    for x m m'
    using that by (simp add: rdp_server_dynamic_emit_reassembled_def on_extensions_def abind_def aret_def amodify_def
        rdp_server_emit_dynamic_channel_event_def on_dvc_def count_message_def)
  show ?thesis
    using first second emit p1(3) by (intro exI [of _ p1]) (fastforce simp: c1)
qed

theorem empty_first_fragment_witness:
  "\<exists>(p :: (unit, unit, unit, unit) dvc_peer) p1 p2. dvc_reachable p \<and>
    rdp_server_handle_dynamic_channel_message (sample_env []) open_hooks (dvc_packet 2 0 1 5 [10]) (p, []) = (Inr (), p1, []) \<and>
    rdp_server_handle_dynamic_channel_message (sample_env []) open_hooks (dvc_packet 3 0 1 5 [1, 2, 3]) (p1, []) = (Inr (), p2, []) \<and>
    map ce_data (dv_events (sp_features p2)) = map ce_data (dv_events (sp_features p)) @ [[1, 2, 3]]"
proof -
  obtain p :: "(unit, unit, unit, unit) dvc_peer" where
    p: "dvc_reachable p" "dv_ready (sp_features p)" "rdp_server_find_dynamic_channel (channels_of p) 5 = Some 0"
    "sd_name (channels_of p ! 0) = ascii ''app''" "sd_fragment (channels_of p ! 0) = rdp_buffer_init"
    by (rule sample_opened)
  have name: "sd_name (channels_of p ! 0) \<noteq> RDP_AUTH_REDIRECTION_CHANNEL_NAME" unfolding p(4) by code_simp
  have bytes: "rdp_dynamic_channel_length_code 1 = 0" "sized_bytes 1 10 = [10]"
    by (simp_all add: rdp_dynamic_channel_length_code_def sized_bytes_def)
  have sizes: "sized_ok 1 5" "sized_ok 1 10" "(10 :: u32) \<noteq> 0" "unat (10 :: u32) \<le> RDP_SERVER_DYNAMIC_MESSAGE_MAX" "(0 :: u8) < 4"
    by (simp_all add: sized_ok_def RDP_SERVER_DYNAMIC_MESSAGE_MAX_def)
  have hook: "vk_extension open_hooks c d e (x, m) = (LIBRDP_STATUS_OK, x, m)" for c d e x m by (simp add: open_hooks_def)
  have empty: "contents (sd_fragment (channels_of p ! 0)) = []" by (simp add: p(5) contents_init)
  from empty_first_fragment [OF p(1-3) empty sizes, of "sample_env []" open_hooks "[1, 2, 3]"] name hook p(1)
  show ?thesis unfolding bytes by blast
qed

end
