(* ===== verification/Spec2Isabelle.thy ===== *)
theory Spec2Isabelle
  imports Session_Wire Bulk Gcc Slowpath Planar Display Admission Startup Dynamic_Delivery
begin

text \<open>
  \<^bold>\<open>librdp\<close> is a C library for both ends of the Remote Desktop Protocol. This development models the protocol
  core that every session runs through and proves it correct, component by component, up to statements about
  the two ends together.

  \<^bold>\<open>The program.\<close> A connection is a stack. Bytes arrive on a socket or from TLS; TPKT frames them; X.224
  negotiates the security protocol; MCS carries the connect sequence (with GCC data blocks inside), then data on
  channels; Standard Security may encrypt; inside are slow-path PDUs (activation, input, updates), fast-path updates,
  license PDUs and static virtual channels, whose messages are fragmented; one of them carries the dynamic channels,
  which either end opens and closes while the session runs; updates may be compressed. The server
  drives the connection by one function, \<^verbatim>\<open>librdp_server_peer_run_once\<close>, that reads what its state expects and
  calls the handler of the state; the client answers in the handlers of its session.

  \<^bold>\<open>The theories, and what they model\<close> (paths are under \<^verbatim>\<open>src/src\<close>).
  \<^item> \<open>Prelude\<close>: machine integers, status codes (\<^verbatim>\<open>include/librdp/error.h\<close>), error propagation, byte order.
  \<^item> \<open>Rdp_Stream\<close>, \<open>Rdp_Buffer\<close>: \<^verbatim>\<open>common/stream.c\<close> and \<^verbatim>\<open>common/buffer.c\<close>, every operation. The buffer has an
    explicit allocator: a list of answers, so that every allocation may fail. \<open>emits w bs\<close> is the contract of a
    writer; \<open>Codec\<close> has the locales of writers with parsers (\<open>pdu_codec\<close>), interpreted for each PDU.
  \<^item> \<open>Tpkt\<close>, \<open>X224\<close>, \<open>Mcs\<close>, \<open>Gcc\<close>, \<open>Capabilities\<close>, \<open>Slowpath\<close>, \<open>Fastpath\<close>: the files of these names in
    \<^verbatim>\<open>protocol/\<close>, every function; round trips, exactness of parsers, bounds.
  \<^item> \<open>Bulk\<close>: \<^verbatim>\<open>protocol/bulk.c\<close>, the bit reader and MPPC, with a refinement of LZ77.
  \<^item> \<open>Security\<close>: \<^verbatim>\<open>security/security.c\<close>, key derivation, MACs, encryption with key updates, protocol policy.
  \<^item> \<open>Virtual_Channel\<close>: \<^verbatim>\<open>channels/virtual_channel.c\<close> with the fragmentation and reassembly of
    \<^verbatim>\<open>client/session_channels.c\<close> and \<^verbatim>\<open>server/server_channels.c\<close>.
  \<^item> \<open>Dynamic_Channel\<close>: \<^verbatim>\<open>channels/dynamic_channel.c\<close>, every packet of the dynamic channels. \<open>Dynamic_Server\<close>: the
    table of \<^verbatim>\<open>server/server_channels.c\<close> with its operations, and its invariant in all reachable states.
    \<open>Dynamic_Client\<close>: the table, the handles and the control stream of \<^verbatim>\<open>client/session_channels.c\<close> and
    \<^verbatim>\<open>client/session.c\<close>; the channels that the library serves itself are hooks. \<open>Dynamic_Delivery\<close>: both ends.
  \<^item> \<open>Session_Wire\<close>: the read loop and the outbound paths of both ends (\<^verbatim>\<open>server/server_security.c\<close>,
    \<^verbatim>\<open>client/session_protocol_io.c\<close>, \<^verbatim>\<open>client/session.c\<close>).
  \<^item> \<open>Surface\<close>: \<^verbatim>\<open>graphics/surface.c\<close>, the framebuffer and its mappings.
  \<^item> \<open>Planar\<close>: \<^verbatim>\<open>graphics/planar.c\<close>, run-length coded colour planes and their conversion to pixels.
  \<^item> \<open>Bitmap\<close>, \<open>Bitmap_Rle\<close>, \<open>Bitmap_Decode\<close>: \<^verbatim>\<open>graphics/bitmap.c\<close>: bitmap and palette updates; the interleaved
    run-length decoder, exact for an inductive definition of coded orders; rectangles to BGRA.
  \<^item> \<open>Display\<close>: the client from a fast-path packet to its framebuffer (\<^verbatim>\<open>client/session_protocol_io.c\<close>): framing,
    decryption, fragments, bitmap and palette updates. An update of any size arrives once and whole.
  \<^item> \<open>Presentation\<close>, \<open>Repaint\<close>: the framebuffer of \<^verbatim>\<open>server/server_graphics.c\<close>: drawing, cutting into tiles,
    sending, and what is put off while the client suppresses output. With \<open>Display\<close>: what is drawn and presented is
    what the client shows. \<open>Repaint\<close> puts this code in the place of the surface entry points of \<open>Server_Protocol\<close>.
  \<^item> \<open>Actions\<close>: stateful code as actions over an object and the memory, with weakest preconditions and triples.
  \<^item> \<open>Licensing\<close>: the license PDUs that the server sends and reads (\<^verbatim>\<open>licensing/licensing.c\<close>).
  \<^item> \<open>Server_Peer\<close>, \<open>Server_Credssp\<close>, \<open>Server_Protocol\<close>, \<open>Server_Machine\<close>: the server peer: negotiation, TLS,
    Standard Security, CredSSP (\<^verbatim>\<open>server/server_security.c\<close>), the connection sequence, activation and runtime
    (\<^verbatim>\<open>server/server_protocol.c\<close>, \<^verbatim>\<open>server/server_graphics.c\<close>), and the state machine (\<^verbatim>\<open>server/server_peer.c\<close>).
  \<^item> \<open>Server_Secure\<close>: triples of every handler for the security of admission, up to the reachable states.
  \<^item> \<open>Server_Runs\<close>: runs that succeed. \<open>Session_Activation\<close>: \<^verbatim>\<open>client/session_activation.c\<close>. \<open>Activation\<close>: the
    answer of the client and the runs of the server. \<open>Startup\<close>: both ends activate, with the surface's code presenting a pending
    repaint; the contract of the features that start then is met by the surface and by the start of the dynamic channels. \<open>Admission\<close>: the invariant of admission over the peer's fields.

  \<^bold>\<open>State and operations.\<close> A struct is a record whose fields have a prefix per struct (\<open>pe_\<close>, \<open>sp_\<close>, \<open>se_\<close>,
  \<open>ca_\<close>, \<open>su_\<close>, \dots) and the C names; an operation is a definition with the C name that returns the status with
  the new state, so that what an error leaves behind is visible. A definition with a short name is a part of the C
  function that the definitions around it model.

  \<^bold>\<open>What the lemmas show.\<close> Codecs: what a writer emits is parsed into the same values, and parsers accept nothing
  else where this is stated; no parser reads past its input. Buffers: contents and capacity, also when an
  allocation fails. Security: both ends derive matching keys, an encrypted PDU is decrypted to its payload over key
  updates, one with a wrong signature is rejected, on the fast path too, and no mode other than the standard one is downgraded. Channels: a message of any length, sent in fragments
  through Standard Security, is delivered as it was, and reassembly is bounded. Dynamic channels: packets come back as written, a message
  of any length arrives whole at the application of the client, the table of the server is consistent in every reachable
  state, channels in use have different numbers, and the handle of a closed channel is refused. Compression: the decompressor
  computes LZ77 expansion and stays in its window. Surfaces: a copied rectangle changes its bytes only; no mapping
  dangles. Bitmaps: the plane decoder accepts exactly the coded planes and expands them, and coded and plain
  bitmaps decode alike. Graphics end to end: the client's surface gets the pixels the application presented, also
  those presented while output was suppressed. These two statements are about a client that announces fast-path output; the library's own client
  does not (the flags of its general capability set are 0x0404), and for slow-path updates it is shown that the server sends them.
  Server: no client is admitted without the configured protection; the activation sequence completes.

  \<^bold>\<open>Bounds and fuel.\<close> The read loop has fuel. A round takes at least one byte and the buffer holds at most 65535,
  so that 65537 rounds, which the server's state machine uses, are enough; \<open>Session_Wire\<close> proves that a frame is
  read. All other loops are structural, or have a termination proof. \<^verbatim>\<open>size_t\<close> is a natural number with the
  bound \<open>SIZE_MAX\<close> written out where the code compares against it.

  \<^bold>\<open>Parameters.\<close> OpenSSL (digests, RC4, TLS, certificates), the socket, the clock, the token functions of
  \<^verbatim>\<open>nla/credssp.c\<close>, and the feature modules that the server calls are arguments, with what is assumed of them as
  named hypotheses.

  \<^bold>\<open>Not modelled.\<close> Pointer arguments that are \<^verbatim>\<open>NULL\<close> by misuse, traces, last-error records and callbacks of the
  application; sockets, TLS and HTTP (system calls and libraries); rendering with Cairo, Quartz and FFmpeg; the
  redirection channels, the remaining graphics codecs, RDP 6 and RDP 8 bulk compression, UDP transport and the
  feature handlers of the client session; the applications.
\<close>

end
